(* ===== verification/Lotus_Prelude.thy ===== *)
theory Lotus_Prelude
  imports Complex_Main "HOL-Library.AList" "HOL-Library.List_Lexorder" "HOL-Library.Char_ord"
begin

text \<open>
  Shared vocabulary of the development.

  \<^item> Python dictionaries keep insertion order, and several operations of the service iterate over
    them, so a dictionary is an association list: reading is \<^term>\<open>map_of\<close>, item assignment is
    \<^term>\<open>AList.update\<close> (an existing key keeps its position, a new key goes to the end) and
    \<^verbatim>\<open>pop(key, None)\<close> is \<^term>\<open>AList.delete\<close>.
  \<^item> Instants are the ISO-8601 strings the code stores and compares; strings are compared
    lexicographically by character code, as Python compares them.
  \<^item> Exceptions are values of \<open>error\<close>; the second argument of \<open>HTTPException\<close> names the refusal
    branch of the source (the code's sentence for the operator is not modelled).
  \<^item> \<open>keyed_repository\<close> and \<open>cas_repository\<close> are the contracts every store of the service
    offers to its clients: save and read back by key, and the guarded write (compare-and-set) on
    which every ownership fence rests.
\<close>

named_theorems store_simps \<open>read-back equations of the repositories\<close>
named_theorems op_defs \<open>definitions of the operations, for unfolding\<close>

section \<open>Errors and results\<close>

datatype failure_category =
    UNSUPPORTED_MODE | LIVE_EXECUTION_NOT_ENABLED | PROVIDER_NOT_REGISTERED
  | INVALID_LIVE_CONFIGURATION | INVALID_QUOTA_CONFIGURATION | INVALID_BUDGET_CONFIGURATION
  | TASK_NOT_ALLOWLISTED | QUOTA_EXCEEDED | BUDGET_EXCEEDED | MODEL_NOT_CATALOGUED
  | MODEL_LIFECYCLE_INELIGIBLE | KILL_SWITCH_ACTIVE | CIRCUIT_OPEN | CAPABILITY_NOT_SUPPORTED
  | CAPABILITY_UNKNOWN | CAPABILITY_DEGRADED | REQUEST_DEADLINE_EXHAUSTED
  | REQUEST_COST_EXHAUSTED | PROVIDER_TIMEOUT | PROVIDER_RATE_LIMITED | PROVIDER_UPSTREAM_ERROR

datatype error =
    HTTPException nat string
  | ProviderExecutionError failure_category
  | ValueError string
  | RuntimeError string
  | AssertionError
  | TypeError string
  | KeyError string
  | AttributeError string
  | OverflowError string

type_synonym 'a result = "error + 'a"
type_synonym timestamp = string
type_synonym usd = rat

section \<open>Dictionaries\<close>

type_synonym ('k, 'v) dict = "('k \<times> 'v) list"

abbreviation dict_get :: "('k, 'v) dict \<Rightarrow> 'k \<Rightarrow> 'v option" where
  "dict_get d k \<equiv> map_of d k"

abbreviation dict_put :: "'k \<Rightarrow> 'v \<Rightarrow> ('k, 'v) dict \<Rightarrow> ('k, 'v) dict" where
  "dict_put k v d \<equiv> AList.update k v d"

abbreviation dict_pop :: "'k \<Rightarrow> ('k, 'v) dict \<Rightarrow> ('k, 'v) dict" where
  "dict_pop k d \<equiv> AList.delete k d"

abbreviation dict_keys :: "('k, 'v) dict \<Rightarrow> 'k list" where
  "dict_keys d \<equiv> map fst d"

abbreviation dict_values :: "('k, 'v) dict \<Rightarrow> 'v list" where
  "dict_values d \<equiv> map snd d"

abbreviation dict_wf :: "('k, 'v) dict \<Rightarrow> bool" where
  "dict_wf d \<equiv> distinct (dict_keys d)"

lemma dict_get_put [simp, store_simps]:
  "dict_get (dict_put k v d) k' = (if k' = k then Some v else dict_get d k')"
  by (simp add: update_conv')

lemma dict_get_pop [simp, store_simps]:
  "dict_get (dict_pop k d) k' = (if k' = k then None else dict_get d k')"
  by (simp add: delete_conv')

lemma dict_wf_put [simp, intro]: "dict_wf d \<Longrightarrow> dict_wf (dict_put k v d)"
  by (rule distinct_update)

lemma dict_wf_pop [simp, intro]: "dict_wf d \<Longrightarrow> dict_wf (dict_pop k d)"
  by (rule distinct_delete)

lemma dict_value_iff_get:
  assumes "dict_wf d"
  shows "v \<in> set (dict_values d) \<longleftrightarrow> (\<exists>k. dict_get d k = Some v)"
proof
  assume "v \<in> set (dict_values d)"
  then obtain k where "(k, v) \<in> set d" by auto
  with assms show "\<exists>k. dict_get d k = Some v" by (auto intro: map_of_is_SomeI)
next
  assume "\<exists>k. dict_get d k = Some v"
  then obtain k where "(k, v) \<in> set d" by (auto dest: map_of_SomeD)
  then show "v \<in> set (dict_values d)" by force
qed

lemma dict_put_fresh: "k \<notin> set (dict_keys d) \<Longrightarrow> dict_put k v d = d @ [(k, v)]"
  by (induction d) auto

lemma set_dict_values_put_subset:
  "set (dict_values (dict_put k v d)) \<subseteq> insert v (set (dict_values d))"
  by (induction d) auto

section \<open>Searches, slices and ordering\<close>

text \<open>\<^verbatim>\<open>xs[:n]\<close>: a negative bound counts from the end.\<close>

definition py_slice_to :: "int \<Rightarrow> 'a list \<Rightarrow> 'a list" where
  "py_slice_to n xs = (if 0 \<le> n then take (nat n) xs else take (length xs - nat (- n)) xs)"

text \<open>\<^verbatim>\<open>sorted(xs, key=f, reverse=True)\<close>: descending, equal keys in their original order.\<close>

definition sorted_desc :: "('a \<Rightarrow> 'b::linorder) \<Rightarrow> 'a list \<Rightarrow> 'a list" where
  "sorted_desc f xs = rev (sort_key f (rev xs))"

lemma set_sorted_desc [simp]: "set (sorted_desc f xs) = set xs"
  by (simp add: sorted_desc_def)

lemma set_py_slice_to: "set (py_slice_to n xs) \<subseteq> set xs"
  by (auto simp: py_slice_to_def dest: in_set_takeD)

lemma find_Some_iff_list:
  "List.find P xs = Some x \<Longrightarrow> x \<in> set xs \<and> P x"
  by (induction xs) (auto split: if_splits)

lemma find_None_iff_list: "List.find P xs = None \<longleftrightarrow> (\<forall>x \<in> set xs. \<not> P x)"
  by (induction xs) auto

lemma last_sort_key_max:
  assumes "xs \<noteq> []" and "x \<in> set xs"
  shows "f x \<le> f (last (sort_key f xs))"
proof -
  let ?ys = "sort_key f xs"
  have ne: "?ys \<noteq> []" using assms(1) by (metis set_sort set_empty)
  have "sorted (map f ?ys)" by simp
  moreover have "x \<in> set ?ys" using assms(2) by simp
  then obtain i where i: "i < length ?ys" "?ys ! i = x" by (metis in_set_conv_nth)
  ultimately have "map f ?ys ! i \<le> map f ?ys ! (length ?ys - 1)"
    by (intro sorted_nth_mono) auto
  then show ?thesis using i ne by (simp add: last_conv_nth)
qed

lemma last_sort_key_in: "xs \<noteq> [] \<Longrightarrow> last (sort_key f xs) \<in> set xs"
  by (metis last_in_set set_empty set_sort)

text \<open>Dictionaries built by a loop of assignments.\<close>

lemma set_dict_put_subset: "set (dict_put k v d) \<subseteq> insert (k, v) (set d)"
  by (induction d) auto

lemma dict_get_fold_put_notin:
  "k \<notin> f ` set rs \<Longrightarrow> dict_get (fold (\<lambda>r. dict_put (f r) (g r)) rs d) k = dict_get d k"
  by (induction rs arbitrary: d) auto

lemma dict_get_fold_put:
  "distinct (map f rs) \<Longrightarrow> r \<in> set rs \<Longrightarrow> dict_get (fold (\<lambda>r. dict_put (f r) (g r)) rs d) (f r) = Some (g r)"
  by (induction rs arbitrary: d) (auto simp: dict_get_fold_put_notin)

lemma distinct_map_sort_key: "distinct (map f (sort_key g xs)) \<longleftrightarrow> distinct (map f xs)"
  by (simp add: distinct_map)

lemma dict_put_map:
  "dict_put k (f k v) (map (\<lambda>(k, v). (k, f k v)) d) = map (\<lambda>(k, v). (k, f k v)) (dict_put k v d)"
  by (induction d) auto

lemma dict_wf_fold_put: "dict_wf d \<Longrightarrow> dict_wf (fold (\<lambda>x. dict_put (f x) (g x)) xs d)"
  by (induction xs arbitrary: d) auto

lemma fold_put_distinct:
  "distinct (map f xs) \<Longrightarrow> f ` set xs \<inter> set (dict_keys d) = {}
     \<Longrightarrow> fold (\<lambda>x. dict_put (f x) (g x)) xs d = d @ map (\<lambda>x. (f x, g x)) xs"
proof (induction xs arbitrary: d)
  case (Cons x xs)
  have "dict_put (f x) (g x) d = d @ [(f x, g x)]" using Cons.prems by (intro dict_put_fresh) auto
  then show ?case using Cons.IH [of "d @ [(f x, g x)]"] Cons.prems by auto
qed simp

lemma fold_put_values:
  "set (dict_values (fold (\<lambda>e. dict_put (f e) e) es d)) \<subseteq> set es \<union> set (dict_values d)"
proof (induction es arbitrary: d)
  case (Cons e es)
  show ?case using Cons.IH [of "dict_put (f e) e d"] set_dict_values_put_subset [of "f e" e d] by auto
qed simp

lemma fold_put_keyed:
  "\<forall>(k, e) \<in> set d. k = f e \<Longrightarrow> \<forall>(k, e) \<in> set (fold (\<lambda>e. dict_put (f e) e) es d). k = f e"
proof (induction es arbitrary: d)
  case (Cons e es)
  have "\<forall>(k, x) \<in> set (dict_put (f e) e d). k = f x"
    using Cons.prems by (induction d) auto
  then show ?case using Cons.IH by simp
qed simp

section \<open>Rounding of money\<close>

text \<open>
  \<^verbatim>\<open>round(x, 8)\<close>: the nearest multiple of one hundred-millionth, ties to the even neighbour. Amounts
  are exact rationals; the binary representation error of a float is not modelled.
\<close>

definition round_half_even :: "rat \<Rightarrow> int" where
  "round_half_even x =
     (let f = \<lfloor>x\<rfloor>; d = x - of_int f
      in if d < 1/2 then f else if d > 1/2 then f + 1 else if even f then f else f + 1)"

definition round8 :: "rat \<Rightarrow> rat" where
  "round8 x = of_int (round_half_even (x * 100000000)) / 100000000"

lemma round_half_even_of_int [simp]: "round_half_even (of_int n) = n"
  by (simp add: round_half_even_def)

lemma round_half_even_error: "\<bar>of_int (round_half_even x) - x\<bar> \<le> 1/2"
  unfolding round_half_even_def Let_def
  using floor_correct [of x] by (auto simp: abs_le_iff not_less)

lemma round_half_even_mono: "x \<le> y \<Longrightarrow> round_half_even x \<le> round_half_even y"
proof -
  assume le: "x \<le> y"
  then have fl: "\<lfloor>x\<rfloor> \<le> \<lfloor>y\<rfloor>" by (rule floor_mono)
  show ?thesis
  proof (cases "\<lfloor>x\<rfloor> = \<lfloor>y\<rfloor>")
    case True
    with le show ?thesis by (auto simp: round_half_even_def Let_def)
  next
    case False
    with fl have "\<lfloor>x\<rfloor> + 1 \<le> \<lfloor>y\<rfloor>" by simp
    then show ?thesis by (auto simp: round_half_even_def Let_def)
  qed
qed

lemma round8_mono: "x \<le> y \<Longrightarrow> round8 x \<le> round8 y"
  unfolding round8_def by (simp add: divide_right_mono round_half_even_mono)

definition on_grid :: "rat \<Rightarrow> bool" where
  "on_grid x \<longleftrightarrow> round8 x = x"

lemma on_grid_round8 [simp, intro]: "on_grid (round8 x)"
  by (simp add: on_grid_def round8_def)

lemma on_grid_zero [simp]: "on_grid 0"
  by (simp add: on_grid_def round8_def round_half_even_def)

lemma on_gridE: "on_grid x \<Longrightarrow> \<exists>n. x = of_int n / 100000000"
  unfolding on_grid_def round8_def by metis

lemma on_grid_of_int_div: "on_grid (of_int n / 100000000)"
  by (simp add: on_grid_def round8_def)

lemma on_grid_add [simp, intro]:
  assumes "on_grid x" and "on_grid y"
  shows "on_grid (x + y)"
proof -
  obtain m n where "x = of_int m / 100000000" "y = of_int n / 100000000"
    using assms on_gridE by meson
  then have "x + y = of_int (m + n) / 100000000" by (simp add: add_divide_distrib)
  then show ?thesis by (simp only: on_grid_of_int_div)
qed

lemma on_grid_diff [simp, intro]:
  assumes "on_grid x" and "on_grid y"
  shows "on_grid (x - y)"
proof -
  obtain m n where "x = of_int m / 100000000" "y = of_int n / 100000000"
    using assms on_gridE by meson
  then have "x - y = of_int (m - n) / 100000000" by (simp add: diff_divide_distrib)
  then show ?thesis by (simp only: on_grid_of_int_div)
qed

lemma round8_on_grid [simp]: "on_grid x \<Longrightarrow> round8 x = x"
  by (simp add: on_grid_def)

lemma round8_error: "\<bar>round8 x - x\<bar> \<le> 1 / 200000000"
proof -
  let ?n = "rat_of_int (round_half_even (x * 100000000))"
  have "\<bar>?n - x * 100000000\<bar> \<le> 1/2" by (rule round_half_even_error)
  then show ?thesis unfolding round8_def abs_le_iff by (simp add: field_simps)
qed

section \<open>The repository contracts\<close>

locale keyed_repository =
  fixes key_of :: "'r \<Rightarrow> 'k"
    and fetch :: "'s \<Rightarrow> 'k \<Rightarrow> 'r option"
    and save :: "'r \<Rightarrow> 's \<Rightarrow> 's"
  assumes fetch_save: "fetch (save r s) k = (if k = key_of r then Some r else fetch s k)"
begin

lemma fetch_save_same: "fetch (save r s) (key_of r) = Some r"
  by (simp add: fetch_save)

lemma fetch_save_other: "k \<noteq> key_of r \<Longrightarrow> fetch (save r s) k = fetch s k"
  by (simp add: fetch_save)

lemma save_overwrites:
  "key_of r = key_of r' \<Longrightarrow> fetch (save r' (save r s)) k = fetch (save r' s) k"
  by (simp add: fetch_save)

lemma save_commutes:
  "key_of r \<noteq> key_of r' \<Longrightarrow> fetch (save r (save r' s)) = fetch (save r' (save r s))"
  by (auto simp: fetch_save)

lemma fetch_fold_save:
  "fetch (fold save rs s) k =
     (case List.find (\<lambda>r. key_of r = k) (rev rs) of None \<Rightarrow> fetch s k | Some r \<Rightarrow> Some r)"
  by (induction rs rule: rev_induct) (auto simp: fetch_save)

end

locale cas_repository = keyed_repository key_of fetch save
  for key_of :: "'r \<Rightarrow> 'k"
    and fetch :: "'s \<Rightarrow> 'k \<Rightarrow> 'r option"
    and save :: "'r \<Rightarrow> 's \<Rightarrow> 's" +
  fixes cas :: "'g \<Rightarrow> 'r \<Rightarrow> 's \<Rightarrow> bool \<times> 's"
    and holds :: "'g \<Rightarrow> 'r \<Rightarrow> bool"
  assumes cas_spec:
    "cas g r s = (case fetch s (key_of r) of
        None \<Rightarrow> (False, s)
      | Some c \<Rightarrow> if holds g c then (True, save r s) else (False, s))"
begin

lemma cas_success_iff: "fst (cas g r s) \<longleftrightarrow> (\<exists>c. fetch s (key_of r) = Some c \<and> holds g c)"
  by (auto simp: cas_spec split: option.splits)

lemma cas_failure_unchanged: "\<not> fst (cas g r s) \<Longrightarrow> snd (cas g r s) = s"
  by (auto simp: cas_spec split: option.splits if_splits)

lemma cas_success_saves: "fst (cas g r s) \<Longrightarrow> snd (cas g r s) = save r s"
  by (auto simp: cas_spec split: option.splits if_splits)

lemma cas_fetch_other: "k \<noteq> key_of r \<Longrightarrow> fetch (snd (cas g r s)) k = fetch s k"
  by (auto simp: cas_spec fetch_save split: option.splits)

text \<open>
  Two competitors hold the same expectation. Once the first has written a record that falsifies the
  second's expectation, the second write is refused and changes nothing: at most one wins.
\<close>

lemma cas_excludes:
  assumes "fst (cas g r s)" and "key_of r' = key_of r" and "\<not> holds g' r"
  shows "cas g' r' (snd (cas g r s)) = (False, snd (cas g r s))"
proof -
  have "fetch (snd (cas g r s)) (key_of r') = Some r"
    using assms(1,2) by (simp add: cas_success_saves fetch_save)
  with assms(3) show ?thesis by (subst cas_spec) simp
qed

end

end
