(* ===== verification/Access_Control.thy ===== *)
theory Access_Control
  imports Lotus_Prelude
begin

text \<open>
  Caller authorization: \<^verbatim>\<open>contracts/access_control.py\<close>, the default registry and its reads in
  \<^verbatim>\<open>repositories/memory_caller_policy_repository.py\<close>, and the decision procedure of
  \<^verbatim>\<open>services/access_control_authorization.py\<close>. The authenticated caller (a context variable of the
  HTTP layer) and the caller-policy repository are arguments. Prose for operators (descriptions,
  summaries) is not modelled. \<open>may_access\<close> is the declarative reading of the policy that the decision
  procedure is proved to implement.
\<close>

section \<open>Data\<close>

datatype tenant_policy_mode = OPTIONAL | REQUIRED | RESTRICTED

datatype caller_lifecycle_status = ACTIVE | DISABLED

datatype capability_type =
    TASK_EXECUTION | RETRIEVAL_EXECUTION | LIVE_PROVIDER_EXECUTION | ASYNC_SUBMISSION
  | ASYNC_CONTROL | PROMPT_CONTROL | PROVIDER_CONTROL | PLATFORM_READ

datatype authorization_outcome =
    ALLOWED | BLOCKED_UNKNOWN_CALLER | BLOCKED_CALLER_DISABLED | BLOCKED_TASK_NOT_ALLOWED
  | BLOCKED_RETRIEVAL_SOURCE_NOT_ALLOWED | BLOCKED_LIVE_PROVIDER_NOT_ALLOWED
  | BLOCKED_ASYNC_CONTROL_NOT_ALLOWED | BLOCKED_PROMPT_CONTROL_NOT_ALLOWED
  | BLOCKED_PROVIDER_CONTROL_NOT_ALLOWED | BLOCKED_CALLER_IDENTITY_MISMATCH
  | BLOCKED_TENANT_REQUIRED | BLOCKED_TENANT_NOT_ALLOWED

record caller_policy =
  cp_caller_app :: string
  cp_lifecycle_status :: caller_lifecycle_status
  cp_allowed_task_ids :: "string list"
  cp_allowed_retrieval_source_ids :: "string list"
  cp_allow_live_provider :: bool
  cp_allow_async_control :: bool
  cp_allow_prompt_control :: bool
  cp_allow_provider_control :: bool
  cp_allow_audit_read_all_tenants :: bool
  cp_tenant_policy_mode :: tenant_policy_mode
  cp_restricted_tenant_ids :: "string list"

record authenticated_caller =
  ac_caller_app :: string
  ac_trust_source :: string
  ac_credential_key_id :: "string option"
  ac_credential_token_id :: "string option"

record authorization_decision =
  ad_caller_app :: string
  ad_authenticated_caller_app :: "string option"
  ad_caller_identity_source :: string
  ad_caller_identity_bound :: bool
  ad_caller_credential_key_id :: "string option"
  ad_caller_credential_token_id :: "string option"
  ad_capability_type :: capability_type
  ad_outcome :: authorization_outcome
  ad_allowed :: bool
  ad_tenant_policy_mode :: tenant_policy_mode
  ad_task_id :: "string option"
  ad_requested_source_ids :: "string list"
  ad_effective_source_ids :: "string list"
  ad_tenant_id :: "string option"

type_synonym policy_store = "(string, caller_policy) dict"

section \<open>The default registry\<close>

definition policy_row ::
  "string \<Rightarrow> string list \<Rightarrow> string list \<Rightarrow> bool \<Rightarrow> bool \<Rightarrow> tenant_policy_mode \<Rightarrow> string list
     \<Rightarrow> caller_policy" where
  "policy_row app tasks sources live ctrl mode tenants =
     \<lparr>cp_caller_app = app, cp_lifecycle_status = ACTIVE, cp_allowed_task_ids = tasks,
      cp_allowed_retrieval_source_ids = sources, cp_allow_live_provider = live,
      cp_allow_async_control = ctrl, cp_allow_prompt_control = ctrl,
      cp_allow_provider_control = ctrl, cp_allow_audit_read_all_tenants = ctrl,
      cp_tenant_policy_mode = mode, cp_restricted_tenant_ids = tenants\<rparr>"

definition default_policies :: "caller_policy list" where
  "default_policies =
    [policy_row ''lotus-manage''
       [''explain.v1'', ''summarize.v1'', ''generate_structured.v1'', ''knowledge_search.v1'',
        ''knowledge_answer.v1'']
       [''lotus-platform-rfcs'', ''lotus-ai-architecture''] True False RESTRICTED
       [''tenant-sg-001''],
     policy_row ''lotus-advise'' [''explain.v1'', ''summarize.v1'', ''knowledge_answer.v1'']
       [''lotus-platform-rfcs''] False False RESTRICTED
       [''tenant-us-002'', ''tenant-sg-001'', ''tenant-sg''],
     policy_row ''lotus-platform'' [] [] False True OPTIONAL [],
     policy_row ''lotus-performance'' [''explain.v1''] [] False False RESTRICTED
       [''tenant-sg-001''],
     policy_row ''lotus-gateway'' [''explain.v1''] [] True False OPTIONAL [],
     policy_row ''lotus-idea'' [''explain.v1''] [] False False RESTRICTED
       [''tenant-private-bank-sg'', ''tenant-sg-001''],
     policy_row ''lotus-workbench'' [''knowledge_search.v1'', ''knowledge_answer.v1'']
       [''lotus-platform-rfcs'', ''lotus-ai-architecture''] False False OPTIONAL [],
     policy_row ''lotus-ai-provider-operations'' [] [] False False OPTIONAL []]"

definition init_policy_store :: policy_store where
  "init_policy_store = fold (\<lambda>p d. dict_put (cp_caller_app p) p d) default_policies []"

definition get_policy :: "policy_store \<Rightarrow> string \<Rightarrow> caller_policy option" where
  "get_policy d caller = dict_get d caller"

definition list_policies :: "policy_store \<Rightarrow> caller_policy list" where
  "list_policies d = sort_key cp_caller_app (dict_values d)"

section \<open>The decision procedure\<close>

definition require_active_registered_caller ::
  "policy_store \<Rightarrow> authenticated_caller option \<Rightarrow> string \<Rightarrow> unit result" where
  "require_active_registered_caller store auth caller =
     (if (\<exists>a. auth = Some a \<and> ac_caller_app a \<noteq> caller)
      then Inl (HTTPException 403 ''caller_identity_mismatch'')
      else case get_policy store caller of
        None \<Rightarrow> Inl (HTTPException 403 ''blocked_summary'')
      | Some policy \<Rightarrow>
          if cp_lifecycle_status policy \<noteq> ACTIVE
          then Inl (HTTPException 403 ''blocked_summary'')
          else Inr ())"

definition identity_source :: "authenticated_caller option \<Rightarrow> string" where
  "identity_source auth = (case auth of Some a \<Rightarrow> ac_trust_source a | None \<Rightarrow> ''body_metadata_only'')"

definition identity_bound :: "authenticated_caller option \<Rightarrow> string \<Rightarrow> bool" where
  "identity_bound auth caller = (case auth of Some a \<Rightarrow> ac_caller_app a = caller | None \<Rightarrow> False)"

definition decision ::
  "authenticated_caller option \<Rightarrow> string \<Rightarrow> capability_type \<Rightarrow> authorization_outcome \<Rightarrow> bool
     \<Rightarrow> tenant_policy_mode \<Rightarrow> string option \<Rightarrow> string list \<Rightarrow> string list \<Rightarrow> string option
     \<Rightarrow> authorization_decision" where
  "decision auth caller cap outcome ok mode task requested effective tenant =
     \<lparr>ad_caller_app = caller, ad_authenticated_caller_app = map_option ac_caller_app auth,
      ad_caller_identity_source = identity_source auth,
      ad_caller_identity_bound = identity_bound auth caller,
      ad_caller_credential_key_id = None, ad_caller_credential_token_id = None,
      ad_capability_type = cap, ad_outcome = outcome, ad_allowed = ok,
      ad_tenant_policy_mode = mode, ad_task_id = task, ad_requested_source_ids = requested,
      ad_effective_source_ids = effective, ad_tenant_id = tenant\<rparr>"

definition allowed_decision ::
  "authenticated_caller option \<Rightarrow> string \<Rightarrow> capability_type \<Rightarrow> string option \<Rightarrow> string option
     \<Rightarrow> tenant_policy_mode \<Rightarrow> string list \<Rightarrow> string list \<Rightarrow> authorization_decision" where
  "allowed_decision auth caller cap tenant task mode requested effective =
     decision auth caller cap ALLOWED True mode task requested effective tenant"

definition evaluate_control_capability ::
  "authenticated_caller option \<Rightarrow> string \<Rightarrow> capability_type \<Rightarrow> string option \<Rightarrow> string list
     \<Rightarrow> string option \<Rightarrow> tenant_policy_mode \<Rightarrow> bool \<Rightarrow> authorization_outcome
     \<Rightarrow> authorization_decision" where
  "evaluate_control_capability auth caller cap task requested tenant mode allowed blocked =
     (if \<not> allowed then decision auth caller cap blocked False mode task requested [] tenant
      else allowed_decision auth caller cap tenant task mode requested [])"

definition evaluate_tenant_policy ::
  "authenticated_caller option \<Rightarrow> string \<Rightarrow> string option \<Rightarrow> capability_type \<Rightarrow> string option
     \<Rightarrow> string list \<Rightarrow> tenant_policy_mode \<Rightarrow> string list \<Rightarrow> authorization_decision option" where
  "evaluate_tenant_policy auth caller tenant cap task requested mode restricted =
     (if mode = OPTIONAL then None
      else case tenant of
        None \<Rightarrow>
          Some (decision auth caller cap BLOCKED_TENANT_REQUIRED False mode task requested [] None)
      | Some t \<Rightarrow>
          if mode = RESTRICTED \<and> t \<notin> set restricted
          then Some (decision auth caller cap BLOCKED_TENANT_NOT_ALLOWED False mode task
                       requested [] tenant)
          else None)"

definition evaluate_retrieval_sources ::
  "authenticated_caller option \<Rightarrow> string \<Rightarrow> capability_type \<Rightarrow> string option \<Rightarrow> string list
     \<Rightarrow> string list \<Rightarrow> string option \<Rightarrow> tenant_policy_mode \<Rightarrow> authorization_decision option" where
  "evaluate_retrieval_sources auth caller cap task requested allowed tenant mode =
     (if requested \<noteq> [] then
        if \<not> set requested \<subseteq> set allowed
        then Some (decision auth caller cap BLOCKED_RETRIEVAL_SOURCE_NOT_ALLOWED False mode task
                     requested [] tenant)
        else None
      else if allowed = []
        then Some (decision auth caller cap BLOCKED_RETRIEVAL_SOURCE_NOT_ALLOWED False mode task
                     [] [] tenant)
      else None)"

definition retrieval_task :: "string option \<Rightarrow> bool" where
  "retrieval_task task \<longleftrightarrow> task = Some ''knowledge_search.v1'' \<or> task = Some ''knowledge_answer.v1''"

definition or_else_list :: "'a list \<Rightarrow> 'a list \<Rightarrow> 'a list" where
  "or_else_list xs ys = (if xs = [] then ys else xs)"

definition authorize_request_inner ::
  "policy_store \<Rightarrow> authenticated_caller option \<Rightarrow> string \<Rightarrow> capability_type \<Rightarrow> string option
     \<Rightarrow> string option \<Rightarrow> string list option \<Rightarrow> authorization_decision result" where
  "authorize_request_inner store auth caller cap tenant task source_ids =
     (let requested = (case source_ids of None \<Rightarrow> [] | Some xs \<Rightarrow> xs) in
      if auth \<noteq> None \<and> \<not> identity_bound auth caller then
        Inr (decision auth caller cap BLOCKED_CALLER_IDENTITY_MISMATCH False OPTIONAL task
               requested [] tenant)
      else case get_policy store caller of
        None \<Rightarrow> Inr (decision auth caller cap BLOCKED_UNKNOWN_CALLER False OPTIONAL task
                       requested [] tenant)
      | Some policy \<Rightarrow>
        let mode = cp_tenant_policy_mode policy in
        if cp_lifecycle_status policy \<noteq> ACTIVE then
          Inr (decision auth caller cap BLOCKED_CALLER_DISABLED False mode task requested [] tenant)
        else if cap = PLATFORM_READ then
          Inr (decision auth caller cap ALLOWED True mode task requested [] tenant)
        else if cap = ASYNC_CONTROL then
          Inr (evaluate_control_capability auth caller cap task requested tenant mode
                 (cp_allow_async_control policy) BLOCKED_ASYNC_CONTROL_NOT_ALLOWED)
        else if cap = PROMPT_CONTROL then
          Inr (evaluate_control_capability auth caller cap task requested tenant mode
                 (cp_allow_prompt_control policy) BLOCKED_PROMPT_CONTROL_NOT_ALLOWED)
        else if cap = PROVIDER_CONTROL then
          Inr (evaluate_control_capability auth caller cap task requested tenant mode
                 (cp_allow_provider_control policy) BLOCKED_PROVIDER_CONTROL_NOT_ALLOWED)
        else case evaluate_tenant_policy auth caller tenant cap task requested mode
                    (cp_restricted_tenant_ids policy) of
          Some d \<Rightarrow> Inr d
        | None \<Rightarrow>
          if cap = ASYNC_SUBMISSION then
            Inr (allowed_decision auth caller cap tenant task mode requested [])
          else if cap = TASK_EXECUTION then
            if (case task of None \<Rightarrow> True | Some t \<Rightarrow> t \<notin> set (cp_allowed_task_ids policy)) then
              Inr (decision auth caller cap BLOCKED_TASK_NOT_ALLOWED False mode task requested []
                     tenant)
            else
              (case (if retrieval_task task \<or> requested \<noteq> []
                     then evaluate_retrieval_sources auth caller cap task requested
                            (cp_allowed_retrieval_source_ids policy) tenant mode
                     else None) of
                 Some d \<Rightarrow> Inr d
               | None \<Rightarrow>
                   Inr (allowed_decision auth caller cap tenant task mode requested
                     (if retrieval_task task
                      then or_else_list requested (cp_allowed_retrieval_source_ids policy)
                      else [])))
          else if cap = RETRIEVAL_EXECUTION then
            (case evaluate_retrieval_sources auth caller cap task requested
                    (cp_allowed_retrieval_source_ids policy) tenant mode of
               Some d \<Rightarrow> Inr d
             | None \<Rightarrow>
                 Inr (allowed_decision auth caller cap tenant task mode requested
                   (or_else_list requested (cp_allowed_retrieval_source_ids policy))))
          else if cap = LIVE_PROVIDER_EXECUTION then
            if \<not> cp_allow_live_provider policy then
              Inr (decision auth caller cap BLOCKED_LIVE_PROVIDER_NOT_ALLOWED False mode task
                     requested [] tenant)
            else Inr (allowed_decision auth caller cap tenant task mode requested [])
          else Inl (RuntimeError ''unsupported_capability_type''))"

definition authorize_request ::
  "policy_store \<Rightarrow> authenticated_caller option \<Rightarrow> string \<Rightarrow> capability_type \<Rightarrow> string option
     \<Rightarrow> string option \<Rightarrow> string list option \<Rightarrow> authorization_decision result" where
  "authorize_request store auth caller cap tenant task source_ids =
     (case authorize_request_inner store auth caller cap tenant task source_ids of
        Inl e \<Rightarrow> Inl e
      | Inr d \<Rightarrow>
          (case auth of
             Some a \<Rightarrow>
               if ac_credential_key_id a \<noteq> None
               then Inr (d\<lparr>ad_caller_credential_key_id := ac_credential_key_id a,
                           ad_caller_credential_token_id := ac_credential_token_id a\<rparr>)
               else Inr d
           | None \<Rightarrow> Inr d))"

definition require_authorized ::
  "authorization_decision result \<Rightarrow> authorization_decision result" where
  "require_authorized r =
     (case r of Inl e \<Rightarrow> Inl e
      | Inr d \<Rightarrow> if ad_allowed d then Inr d else Inl (HTTPException 403 ''decision_summary''))"

section \<open>The declarative policy\<close>

definition tenant_admitted :: "caller_policy \<Rightarrow> string option \<Rightarrow> bool" where
  "tenant_admitted p tenant =
     (case cp_tenant_policy_mode p of
        OPTIONAL \<Rightarrow> True
      | REQUIRED \<Rightarrow> tenant \<noteq> None
      | RESTRICTED \<Rightarrow> (\<exists>t. tenant = Some t \<and> t \<in> set (cp_restricted_tenant_ids p)))"

definition sources_admitted :: "caller_policy \<Rightarrow> string list \<Rightarrow> bool" where
  "sources_admitted p requested \<longleftrightarrow>
     (if requested = [] then cp_allowed_retrieval_source_ids p \<noteq> []
      else set requested \<subseteq> set (cp_allowed_retrieval_source_ids p))"

definition may_access ::
  "caller_policy \<Rightarrow> capability_type \<Rightarrow> string option \<Rightarrow> string option \<Rightarrow> string list \<Rightarrow> bool" where
  "may_access p cap tenant task requested =
     (case cap of
        PLATFORM_READ \<Rightarrow> True
      | ASYNC_CONTROL \<Rightarrow> cp_allow_async_control p
      | PROMPT_CONTROL \<Rightarrow> cp_allow_prompt_control p
      | PROVIDER_CONTROL \<Rightarrow> cp_allow_provider_control p
      | ASYNC_SUBMISSION \<Rightarrow> tenant_admitted p tenant
      | LIVE_PROVIDER_EXECUTION \<Rightarrow> tenant_admitted p tenant \<and> cp_allow_live_provider p
      | RETRIEVAL_EXECUTION \<Rightarrow> tenant_admitted p tenant \<and> sources_admitted p requested
      | TASK_EXECUTION \<Rightarrow>
          tenant_admitted p tenant
          \<and> (\<exists>t. task = Some t \<and> t \<in> set (cp_allowed_task_ids p))
          \<and> (retrieval_task task \<or> requested \<noteq> [] \<longrightarrow> sources_admitted p requested))"

section \<open>Lemmas\<close>

lemma decision_sel [simp]:
  "ad_allowed (decision auth caller cap outcome ok mode task req eff tenant) = ok"
  "ad_outcome (decision auth caller cap outcome ok mode task req eff tenant) = outcome"
  "ad_effective_source_ids (decision auth caller cap outcome ok mode task req eff tenant) = eff"
  by (simp_all add: decision_def)

lemmas authorization_defs [op_defs] =
  authorize_request_inner_def evaluate_control_capability_def evaluate_tenant_policy_def
  evaluate_retrieval_sources_def allowed_decision_def decision_def or_else_list_def Let_def

lemma authorize_request_inner_total:
  "\<exists>d. authorize_request_inner store auth caller cap tenant task src = Inr d"
  by (cases cap) (auto simp: authorization_defs split: option.splits)

lemma tenant_admitted_iff:
  "tenant_admitted p tenant \<longleftrightarrow>
     evaluate_tenant_policy auth caller tenant cap task req (cp_tenant_policy_mode p)
       (cp_restricted_tenant_ids p) = None"
  by (auto simp: tenant_admitted_def evaluate_tenant_policy_def
      split: tenant_policy_mode.splits option.splits)

lemma sources_admitted_iff:
  "sources_admitted p requested \<longleftrightarrow>
     evaluate_retrieval_sources auth caller cap task requested
       (cp_allowed_retrieval_source_ids p) tenant mode = None"
  by (auto simp: sources_admitted_def evaluate_retrieval_sources_def)

lemma tenant_refusal_not_allowed:
  "evaluate_tenant_policy auth caller tenant cap task req mode restricted = Some d
     \<Longrightarrow> \<not> ad_allowed d \<and> ad_outcome d \<noteq> ALLOWED"
  by (auto simp: evaluate_tenant_policy_def split: if_splits option.splits)

lemma source_refusal_not_allowed:
  "evaluate_retrieval_sources auth caller cap task req allowed tenant mode = Some d
     \<Longrightarrow> \<not> ad_allowed d \<and> ad_outcome d \<noteq> ALLOWED"
  by (auto simp: evaluate_retrieval_sources_def split: if_splits)

definition identity_matches :: "authenticated_caller option \<Rightarrow> string \<Rightarrow> bool" where
  "identity_matches auth caller \<longleftrightarrow> (\<forall>a. auth = Some a \<longrightarrow> ac_caller_app a = caller)"

lemma identity_matches_iff: "identity_matches auth caller \<longleftrightarrow> \<not> (auth \<noteq> None \<and> \<not> identity_bound auth caller)"
  by (cases auth) (auto simp: identity_matches_def identity_bound_def)

lemma authorize_inner_refused_early:
  assumes "authorize_request_inner store auth caller cap tenant task src = Inr d"
    and "\<not> (identity_matches auth caller \<and> (\<exists>p. get_policy store caller = Some p \<and> cp_lifecycle_status p = ACTIVE))"
  shows "\<not> ad_allowed d"
  using assms unfolding authorize_request_inner_def identity_matches_iff Let_def
  by (auto split: option.splits if_splits)

lemma authorize_inner_active:
  assumes "authorize_request_inner store auth caller cap tenant task src = Inr d"
    and "identity_matches auth caller"
    and "get_policy store caller = Some p" and "cp_lifecycle_status p = ACTIVE"
  shows "ad_allowed d = may_access p cap tenant task (case src of None \<Rightarrow> [] | Some xs \<Rightarrow> xs)"
proof -
  let ?req = "case src of None \<Rightarrow> [] | Some xs \<Rightarrow> xs"
  note T = tenant_admitted_iff [of p tenant auth caller cap task ?req]
  note S = sources_admitted_iff [of p ?req auth caller cap task tenant "cp_tenant_policy_mode p"]
  show ?thesis
    using assms unfolding identity_matches_iff may_access_def T S
    by (cases cap)
      (auto simp: authorize_request_inner_def Let_def evaluate_control_capability_def
        allowed_decision_def dest: tenant_refusal_not_allowed source_refusal_not_allowed
        split: option.splits if_splits)
qed

lemma authorize_request_decision:
  assumes "authorize_request store auth caller cap tenant task src = Inr d"
  obtains d' where "authorize_request_inner store auth caller cap tenant task src = Inr d'"
    and "ad_allowed d = ad_allowed d'" and "ad_outcome d = ad_outcome d'"
    and "ad_effective_source_ids d = ad_effective_source_ids d'"
  using assms unfolding authorize_request_def
  by (auto split: sum.splits option.splits if_splits)

lemma authorize_request_total: "\<exists>d. authorize_request store auth caller cap tenant task src = Inr d"
proof -
  obtain d where "authorize_request_inner store auth caller cap tenant task src = Inr d"
    using authorize_request_inner_total by blast
  then show ?thesis by (cases auth) (simp_all add: authorize_request_def)
qed

lemma authorize_request_allowed_iff:
  assumes "authorize_request store auth caller cap tenant task src = Inr d"
  shows "ad_allowed d \<longleftrightarrow> identity_matches auth caller \<and>
        (\<exists>p. get_policy store caller = Some p \<and> cp_lifecycle_status p = ACTIVE \<and>
           may_access p cap tenant task (case src of None \<Rightarrow> [] | Some xs \<Rightarrow> xs))"
proof -
  obtain d' where d': "authorize_request_inner store auth caller cap tenant task src = Inr d'"
    and same: "ad_allowed d = ad_allowed d'"
    using assms by (rule authorize_request_decision)
  show ?thesis unfolding same
    using authorize_inner_refused_early [OF d'] authorize_inner_active [OF d'] by blast
qed

lemma tenant_refusal_no_sources:
  "evaluate_tenant_policy auth caller tenant cap task req mode restricted = Some d
     \<Longrightarrow> ad_effective_source_ids d = []"
  by (auto simp: evaluate_tenant_policy_def split: if_splits option.splits)

lemma source_refusal_no_sources:
  "evaluate_retrieval_sources auth caller cap task req allowed tenant mode = Some d
     \<Longrightarrow> ad_effective_source_ids d = []"
  by (auto simp: evaluate_retrieval_sources_def split: if_splits)

lemma sources_admitted_effective:
  "evaluate_retrieval_sources auth caller cap task req allowed tenant mode = None
     \<Longrightarrow> set (or_else_list req allowed) \<subseteq> set allowed"
  by (auto simp: evaluate_retrieval_sources_def or_else_list_def split: if_splits)

lemma authorize_inner_sources:
  assumes "authorize_request_inner store auth caller cap tenant task src = Inr d"
    and "ad_effective_source_ids d \<noteq> []"
  shows "ad_allowed d \<and> (\<exists>p. get_policy store caller = Some p \<and>
     set (ad_effective_source_ids d) \<subseteq> set (cp_allowed_retrieval_source_ids p))"
proof (cases "get_policy store caller")
  case None
  with assms show ?thesis
    by (auto simp: authorize_request_inner_def Let_def split: if_split_asm)
next
  case (Some p)
  have "ad_allowed d \<and> set (ad_effective_source_ids d) \<subseteq> set (cp_allowed_retrieval_source_ids p)"
    using assms unfolding authorize_request_inner_def Let_def Some option.case
    by (cases cap)
      (auto simp: evaluate_control_capability_def allowed_decision_def
        dest: tenant_refusal_no_sources source_refusal_no_sources
          sources_admitted_effective [THEN subsetD]
        split: if_split_asm option.split_asm)
  with Some show ?thesis by blast
qed

section \<open>Properties\<close>

text \<open>
  C1. The decision procedure implements the declared policy, totally: every request gets a decision
  (the unsupported-capability branch is dead), and the decision is positive exactly when the
  authenticated identity, if any, is the declared caller, the caller is registered and active, and the
  caller's policy grants the capability for that tenant, task and set of retrieval sources.
\<close>

theorem authorize_request_implements_policy:
  "\<exists>d. authorize_request store auth caller cap tenant task src = Inr d \<and>
     (ad_allowed d \<longleftrightarrow>
        identity_matches auth caller \<and>
        (\<exists>p. get_policy store caller = Some p \<and> cp_lifecycle_status p = ACTIVE \<and>
           may_access p cap tenant task (case src of None \<Rightarrow> [] | Some xs \<Rightarrow> xs)))"
  using authorize_request_total [of store auth caller cap tenant task src]
    authorize_request_allowed_iff [of store auth caller cap tenant task src] by blast

text \<open>
  No authorization widens a caller's retrieval reach: the effective sources of any decision, and so
  of every granted one, are sources the caller's own policy lists.
\<close>

theorem effective_sources_within_policy:
  assumes "authorize_request store auth caller cap tenant task src = Inr d"
    and "sid \<in> set (ad_effective_source_ids d)"
  shows "ad_allowed d \<and>
     (\<exists>p. get_policy store caller = Some p \<and> sid \<in> set (cp_allowed_retrieval_source_ids p))"
proof -
  from assms(1) obtain d'
    where d': "authorize_request_inner store auth caller cap tenant task src = Inr d'"
      and same: "ad_allowed d = ad_allowed d'"
        "ad_effective_source_ids d = ad_effective_source_ids d'"
    by (rule authorize_request_decision)
  have sid: "sid \<in> set (ad_effective_source_ids d')" using assms(2) same by simp
  then have "ad_effective_source_ids d' \<noteq> []" by auto
  with sid show ?thesis unfolding same by (blast dest: authorize_inner_sources [OF d'])
qed

theorem effective_sources_within_policy_witness:
  "ad_allowed (projr (authorize_request init_policy_store None ''lotus-workbench''
       RETRIEVAL_EXECUTION None None None)) \<and>
   (\<exists>p. get_policy init_policy_store ''lotus-workbench'' = Some p \<and>
        ''lotus-ai-architecture'' \<in> set (cp_allowed_retrieval_source_ids p))"
proof -
  let ?r = "authorize_request init_policy_store None ''lotus-workbench''
       RETRIEVAL_EXECUTION None None None"
  have r: "?r = Inr (projr ?r)" by code_simp
  have m: "''lotus-ai-architecture'' \<in> set (ad_effective_source_ids (projr ?r))" by code_simp
  show ?thesis by (rule effective_sources_within_policy [OF r m])
qed

lemma default_registry_controllers:
  "list_all (\<lambda>(name, p). cp_allow_async_control p \<or> cp_allow_prompt_control p \<or> cp_allow_provider_control p
       \<longrightarrow> name = ''lotus-platform'') init_policy_store"
  by code_simp

text \<open>
  Control-plane isolation of the shipped registry: under the default policies the provider, prompt
  and async control capabilities are granted to the platform operator and to no other caller, whatever
  tenant, task or sources the request names.
\<close>

theorem default_registry_control_plane_isolated:
  assumes "cap \<in> {ASYNC_CONTROL, PROMPT_CONTROL, PROVIDER_CONTROL}"
    and "authorize_request init_policy_store auth caller cap tenant task src = Inr d"
    and "ad_allowed d"
  shows "caller = ''lotus-platform''"
proof -
  from assms(2,3) obtain p where p: "get_policy init_policy_store caller = Some p"
    and "may_access p cap tenant task (case src of None \<Rightarrow> [] | Some xs \<Rightarrow> xs)"
    using authorize_request_allowed_iff [OF assms(2)] by auto
  with assms(1) have "cp_allow_async_control p \<or> cp_allow_prompt_control p \<or> cp_allow_provider_control p"
    by (auto simp: may_access_def)
  moreover from p have "(caller, p) \<in> set init_policy_store"
    by (auto simp: get_policy_def dest: map_of_SomeD)
  ultimately show ?thesis using default_registry_controllers by (auto simp: list_all_iff)
qed

theorem default_registry_control_plane_isolated_witness:
  "(''lotus-platform'' :: string) = ''lotus-platform''
   \<and> ad_allowed (projr (authorize_request init_policy_store None ''lotus-platform''
        PROVIDER_CONTROL None None None))"
proof -
  let ?r = "authorize_request init_policy_store None ''lotus-platform'' PROVIDER_CONTROL None None None"
  have r: "?r = Inr (projr ?r)" by code_simp
  have a: "ad_allowed (projr ?r)" by code_simp
  show ?thesis
    using default_registry_control_plane_isolated [OF _ r a] a by simp
qed

end
