(* ===== verification/Provider_Operations_Store.thy ===== *)
theory Provider_Operations_Store
  imports Access_Control
begin

text \<open>
  The provider-operations repository: the records of
  \<^verbatim>\<open>repositories/provider_operations_repository.py\<close> and \<^verbatim>\<open>contracts/governed_actions.py\<close>, and
  every operation of \<^verbatim>\<open>repositories/memory_provider_operations_repository.py\<close>. It holds quota
  counters, the budget counter with its attempt debits, breaker state per candidate (the stored cooldown deadline is
  always written by \<^verbatim>\<open>isoformat\<close> and read back by \<^verbatim>\<open>fromisoformat\<close>, so it is the instant itself,
  in microseconds), operator events and
  the governed-action ledger. Each operation is one function on the store record; an operation that also
  reports something returns the pair of the report and the new store. The compare-and-set of
  \<^verbatim>\<open>transition_governed_action\<close> is atomic in the source, which takes a lock for it; the other operations of the source
  take none, and that each is one step is an assumption of the model, met where a process serves its calls one at a time.
\<close>

section \<open>Records\<close>

datatype quota_scope = DEFAULT | TASK | CALLER_APP | TENANT

fun quota_scope_value :: "quota_scope \<Rightarrow> string" where
  "quota_scope_value DEFAULT = ''DEFAULT''"
| "quota_scope_value TASK = ''TASK''"
| "quota_scope_value CALLER_APP = ''CALLER_APP''"
| "quota_scope_value TENANT = ''TENANT''"

record quota_state =
  qs_scope :: quota_scope
  qs_scope_key :: string
  qs_request_count :: int
  qs_updated_at :: timestamp

record budget_state =
  bs_budget_key :: string
  bs_current_spend_usd :: usd
  bs_updated_at :: timestamp

record attempt_debit =
  db_debit_id :: string
  db_provider_id :: string
  db_basis :: string
  db_amount_usd :: usd
  db_input_tokens :: "int option"
  db_output_tokens :: "int option"
  db_rate_card_ref :: string
  db_recorded_at :: timestamp
  db_candidate_entry_id :: "string option"
  db_model_revision :: "string option"
  db_attempt_index :: "int option"
  db_candidate_id_v2 :: "string option"

record degradation_state =
  dg_degradation_key :: string
  dg_consecutive_failure_count :: int
  dg_last_failure_category :: "failure_category option"
  dg_circuit_open_until :: "int option"
  dg_timeout_failure_count :: int
  dg_rate_limited_failure_count :: int
  dg_upstream_error_failure_count :: int
  dg_updated_at :: timestamp

datatype operations_action_type =
    RESET_ALL_QUOTAS | RESET_QUOTA_SCOPE | RESET_BUDGET | RESET_DEGRADATION
  | RESET_ALL_PROVIDER_OPERATIONS

record operations_event =
  oe_event_id :: string
  oe_action_type :: operations_action_type
  oe_scope :: "quota_scope option"
  oe_scope_key :: "string option"
  oe_reason :: string
  oe_requested_by :: string
  oe_approved_by :: string
  oe_affected_record_count :: int
  oe_authorization :: authorization_decision
  oe_recorded_at :: timestamp

datatype actor_class = HUMAN_APPROVED | SYSTEM_ORIGINATED

datatype action_type =
    KILL_SWITCH_CLEAR | PROMPT_PROMOTE | PROVIDER_OPERATIONS_RESET | MODEL_LIFECYCLE_PROMOTE
  | MODEL_CAPABILITY_RESTORE | DATA_ERASURE | SERVING_POLICY_IDENTITY_ADD | ASYNC_QUEUE_RECOVERY
  | BUDGET_RECONCILIATION | CLAIM_RELEASE

datatype action_status = PENDING | CLAIMED | EXECUTED | SUPERSEDED

type_synonym payload = "(string, string option) dict"

record governed_action =
  ga_action_id :: string
  ga_action_type :: action_type
  ga_actor_class :: actor_class
  ga_status :: action_status
  ga_target :: string
  ga_action_hash :: string
  ga_action_payload :: payload
  ga_requester_caller_app :: string
  ga_requester_trust_source :: string
  ga_requester_key_id :: "string option"
  ga_requester_attribution :: "string option"
  ga_requested_at :: timestamp
  ga_approver_caller_app :: "string option"
  ga_approver_trust_source :: "string option"
  ga_approver_key_id :: "string option"
  ga_approver_attribution :: "string option"
  ga_claimed_at :: "timestamp option"
  ga_result_payload :: "payload option"
  ga_approved_at :: "timestamp option"
  ga_executed_at :: "timestamp option"
  ga_superseded_by_action_id :: "string option"

record provider_ops_store =
  quota_states :: "(quota_scope \<times> string, quota_state) dict"
  budget_states :: "(string, budget_state) dict"
  degradation_states :: "(string, degradation_state) dict"
  event_records :: "operations_event list"
  governed_actions :: "(string, governed_action) dict"
  attempt_debits :: "(string, attempt_debit) dict"

definition empty_ops_store :: provider_ops_store where
  "empty_ops_store = \<lparr>quota_states = [], budget_states = [], degradation_states = [],
     event_records = [], governed_actions = [], attempt_debits = []\<rparr>"

section \<open>Quota counters\<close>

definition list_quota_states :: "'a provider_ops_store_scheme \<Rightarrow> quota_state list" where
  "list_quota_states s =
     map snd (sort_key (\<lambda>p. quota_scope_value (fst (fst p)))
       (sort_key (\<lambda>p. snd (fst p)) (quota_states s)))"

definition get_quota_state ::
  "'a provider_ops_store_scheme \<Rightarrow> quota_scope \<times> string \<Rightarrow> quota_state option" where
  "get_quota_state s k = dict_get (quota_states s) k"

definition save_quota_state ::
  "quota_state \<Rightarrow> 'a provider_ops_store_scheme \<Rightarrow> 'a provider_ops_store_scheme" where
  "save_quota_state r s = s\<lparr>quota_states := dict_put (qs_scope r, qs_scope_key r) r (quota_states s)\<rparr>"

definition increment_quota_state ::
  "quota_scope \<Rightarrow> string \<Rightarrow> int \<Rightarrow> timestamp \<Rightarrow> 'a provider_ops_store_scheme
     \<Rightarrow> quota_state \<times> 'a provider_ops_store_scheme" where
  "increment_quota_state scope key amount now s =
     (let current = (case get_quota_state s (scope, key) of None \<Rightarrow> 0 | Some r \<Rightarrow> qs_request_count r);
          updated = \<lparr>qs_scope = scope, qs_scope_key = key, qs_request_count = current + amount,
                     qs_updated_at = now\<rparr>
      in (updated, save_quota_state updated s))"

definition reset_quota_states ::
  "quota_scope option \<Rightarrow> string option \<Rightarrow> 'a provider_ops_store_scheme
     \<Rightarrow> nat \<times> 'a provider_ops_store_scheme" where
  "reset_quota_states scope key s =
     (let hit = (\<lambda>k. (scope = None \<or> scope = Some (fst k)) \<and> (key = None \<or> key = Some (snd k)));
          keys = filter hit (dict_keys (quota_states s))
      in (length keys, s\<lparr>quota_states := fold dict_pop keys (quota_states s)\<rparr>))"

section \<open>The budget counter and the attempt debits\<close>

definition get_budget_state ::
  "'a provider_ops_store_scheme \<Rightarrow> string \<Rightarrow> budget_state option" where
  "get_budget_state s k = dict_get (budget_states s) k"

definition save_budget_state ::
  "budget_state \<Rightarrow> 'a provider_ops_store_scheme \<Rightarrow> 'a provider_ops_store_scheme" where
  "save_budget_state r s = s\<lparr>budget_states := dict_put (bs_budget_key r) r (budget_states s)\<rparr>"

definition current_spend :: "'a provider_ops_store_scheme \<Rightarrow> string \<Rightarrow> usd" where
  "current_spend s k = (case get_budget_state s k of None \<Rightarrow> 0 | Some r \<Rightarrow> bs_current_spend_usd r)"

definition add_budget_spend ::
  "string \<Rightarrow> usd \<Rightarrow> timestamp \<Rightarrow> 'a provider_ops_store_scheme \<Rightarrow> 'a provider_ops_store_scheme" where
  "add_budget_spend k amount now s =
     save_budget_state \<lparr>bs_budget_key = k,
       bs_current_spend_usd = round8 (current_spend s k + amount), bs_updated_at = now\<rparr> s"

definition reset_budget_state ::
  "string \<Rightarrow> 'a provider_ops_store_scheme \<Rightarrow> nat \<times> 'a provider_ops_store_scheme" where
  "reset_budget_state k s =
     (if get_budget_state s k = None then 0 else 1,
      s\<lparr>budget_states := dict_pop k (budget_states s)\<rparr>)"

definition get_attempt_debit ::
  "'a provider_ops_store_scheme \<Rightarrow> string \<Rightarrow> attempt_debit option" where
  "get_attempt_debit s k = dict_get (attempt_debits s) k"

definition save_attempt_debit ::
  "attempt_debit \<Rightarrow> 'a provider_ops_store_scheme \<Rightarrow> 'a provider_ops_store_scheme" where
  "save_attempt_debit r s = s\<lparr>attempt_debits := dict_put (db_debit_id r) r (attempt_debits s)\<rparr>"

datatype reserve_outcome = DUPLICATE | REFUSED | RESERVED

definition reserve_attempt_debit ::
  "attempt_debit \<Rightarrow> string \<Rightarrow> usd option \<Rightarrow> 'a provider_ops_store_scheme
     \<Rightarrow> reserve_outcome \<times> 'a provider_ops_store_scheme" where
  "reserve_attempt_debit r budget_key hard_limit s =
     (if get_attempt_debit s (db_debit_id r) \<noteq> None then (DUPLICATE, s)
      else if (case hard_limit of None \<Rightarrow> False | Some h \<Rightarrow> h < round8 (current_spend s budget_key + db_amount_usd r))
      then (REFUSED, s)
      else (RESERVED,
            add_budget_spend budget_key (db_amount_usd r) (db_recorded_at r)
              (save_attempt_debit r s)))"

definition resolved_row ::
  "attempt_debit \<Rightarrow> string \<Rightarrow> usd \<Rightarrow> int option \<Rightarrow> int option \<Rightarrow> string option \<Rightarrow> timestamp
     \<Rightarrow> attempt_debit" where
  "resolved_row row basis amount input output rate_card now =
     row\<lparr>db_basis := basis, db_amount_usd := amount, db_input_tokens := input,
         db_output_tokens := output,
         db_rate_card_ref := (case rate_card of Some c \<Rightarrow> c | None \<Rightarrow> db_rate_card_ref row),
         db_recorded_at := now\<rparr>"

definition settle_attempt_debit ::
  "string \<Rightarrow> string \<Rightarrow> string \<Rightarrow> usd \<Rightarrow> int option \<Rightarrow> int option \<Rightarrow> string option \<Rightarrow> timestamp
     \<Rightarrow> 'a provider_ops_store_scheme \<Rightarrow> bool \<times> 'a provider_ops_store_scheme" where
  "settle_attempt_debit debit_id budget_key basis amount input output rate_card now s =
     (case dict_get (attempt_debits s) debit_id of
        None \<Rightarrow> (False, s)
      | Some row \<Rightarrow>
          if db_basis row \<noteq> ''RESERVED_MAX'' then (False, s)
          else (True, add_budget_spend budget_key (round8 (amount - db_amount_usd row)) now
                  (s\<lparr>attempt_debits := dict_put debit_id
                       (resolved_row row basis amount input output rate_card now) (attempt_debits s)\<rparr>)))"

definition hold_attempt_debit_unresolved ::
  "string \<Rightarrow> timestamp \<Rightarrow> 'a provider_ops_store_scheme \<Rightarrow> bool \<times> 'a provider_ops_store_scheme" where
  "hold_attempt_debit_unresolved debit_id now s =
     (case dict_get (attempt_debits s) debit_id of
        None \<Rightarrow> (False, s)
      | Some row \<Rightarrow>
          if db_basis row \<noteq> ''RESERVED_MAX'' then (False, s)
          else (True, s\<lparr>attempt_debits := dict_put debit_id
                  (row\<lparr>db_basis := ''UNRESOLVED_MAX'', db_recorded_at := now\<rparr>) (attempt_debits s)\<rparr>))"

definition reconcile_attempt_debit ::
  "string \<Rightarrow> string \<Rightarrow> usd \<Rightarrow> int option \<Rightarrow> int option \<Rightarrow> string option \<Rightarrow> timestamp
     \<Rightarrow> 'a provider_ops_store_scheme \<Rightarrow> bool \<times> 'a provider_ops_store_scheme" where
  "reconcile_attempt_debit debit_id budget_key amount input output rate_card now s =
     (case dict_get (attempt_debits s) debit_id of
        None \<Rightarrow> (False, s)
      | Some row \<Rightarrow>
          if db_basis row \<notin> {''UNRESOLVED_MAX'', ''RESERVED_MAX''} then (False, s)
          else (True, add_budget_spend budget_key (round8 (amount - db_amount_usd row)) now
                  (s\<lparr>attempt_debits := dict_put debit_id
                       (resolved_row row ''RECONCILED'' amount input output rate_card now)
                       (attempt_debits s)\<rparr>)))"

definition list_attempt_debits ::
  "int \<Rightarrow> 'a provider_ops_store_scheme \<Rightarrow> attempt_debit list" where
  "list_attempt_debits limit s =
     py_slice_to (max limit 0)
       (sorted_desc db_recorded_at (sorted_desc db_debit_id (dict_values (attempt_debits s))))"

fun delete_attempt_debits ::
  "string list \<Rightarrow> 'a provider_ops_store_scheme \<Rightarrow> nat \<times> 'a provider_ops_store_scheme" where
  "delete_attempt_debits [] s = (0, s)"
| "delete_attempt_debits (k # ks) s =
     (let (n, s') = delete_attempt_debits ks (s\<lparr>attempt_debits := dict_pop k (attempt_debits s)\<rparr>)
      in ((if get_attempt_debit s k = None then n else Suc n), s'))"

definition starts_with :: "string \<Rightarrow> string \<Rightarrow> bool" where
  "starts_with pre x \<longleftrightarrow> take (length pre) x = pre"

definition sum_attempt_debits :: "string \<Rightarrow> 'a provider_ops_store_scheme \<Rightarrow> usd" where
  "sum_attempt_debits pre s =
     round8 (sum_list (map (\<lambda>(k, r). db_amount_usd r)
       (filter (\<lambda>(k, r). starts_with pre k) (attempt_debits s))))"

section \<open>Breaker state\<close>

definition get_degradation_state ::
  "'a provider_ops_store_scheme \<Rightarrow> string \<Rightarrow> degradation_state option" where
  "get_degradation_state s k = dict_get (degradation_states s) k"

definition save_degradation_state ::
  "degradation_state \<Rightarrow> 'a provider_ops_store_scheme \<Rightarrow> 'a provider_ops_store_scheme" where
  "save_degradation_state r s =
     s\<lparr>degradation_states := dict_put (dg_degradation_key r) r (degradation_states s)\<rparr>"

definition fresh_degradation_state :: "string \<Rightarrow> timestamp \<Rightarrow> degradation_state" where
  "fresh_degradation_state k now =
     \<lparr>dg_degradation_key = k, dg_consecutive_failure_count = 0, dg_last_failure_category = None,
      dg_circuit_open_until = None, dg_timeout_failure_count = 0,
      dg_rate_limited_failure_count = 0, dg_upstream_error_failure_count = 0,
      dg_updated_at = now\<rparr>"

definition record_degradation_failure ::
  "string \<Rightarrow> failure_category \<Rightarrow> timestamp \<Rightarrow> 'a provider_ops_store_scheme
     \<Rightarrow> degradation_state \<times> 'a provider_ops_store_scheme" where
  "record_degradation_failure k category now s =
     (let current = (case dict_get (degradation_states s) k of
                       None \<Rightarrow> fresh_degradation_state k now | Some r \<Rightarrow> r);
          updated = \<lparr>dg_degradation_key = k,
            dg_consecutive_failure_count = dg_consecutive_failure_count current + 1,
            dg_last_failure_category = Some category,
            dg_circuit_open_until = dg_circuit_open_until current,
            dg_timeout_failure_count =
              dg_timeout_failure_count current + of_bool (category = PROVIDER_TIMEOUT),
            dg_rate_limited_failure_count =
              dg_rate_limited_failure_count current + of_bool (category = PROVIDER_RATE_LIMITED),
            dg_upstream_error_failure_count =
              dg_upstream_error_failure_count current + of_bool (category = PROVIDER_UPSTREAM_ERROR),
            dg_updated_at = now\<rparr>
      in (updated, s\<lparr>degradation_states := dict_put k updated (degradation_states s)\<rparr>))"

definition reset_degradation_state ::
  "string \<Rightarrow> 'a provider_ops_store_scheme \<Rightarrow> nat \<times> 'a provider_ops_store_scheme" where
  "reset_degradation_state k s =
     (if get_degradation_state s k = None then 0 else 1,
      s\<lparr>degradation_states := dict_pop k (degradation_states s)\<rparr>)"

definition reset_degradation_states ::
  "'a provider_ops_store_scheme \<Rightarrow> nat \<times> 'a provider_ops_store_scheme" where
  "reset_degradation_states s = (length (degradation_states s), s\<lparr>degradation_states := []\<rparr>)"

section \<open>Operator events\<close>

definition save_operations_event ::
  "operations_event \<Rightarrow> 'a provider_ops_store_scheme \<Rightarrow> 'a provider_ops_store_scheme" where
  "save_operations_event r s = s\<lparr>event_records := r # event_records s\<rparr>"

definition list_operations_events ::
  "int \<Rightarrow> 'a provider_ops_store_scheme \<Rightarrow> operations_event list" where
  "list_operations_events limit s = py_slice_to limit (event_records s)"

definition delete_operations_events ::
  "string list \<Rightarrow> 'a provider_ops_store_scheme \<Rightarrow> nat \<times> 'a provider_ops_store_scheme" where
  "delete_operations_events ids s =
     (let kept = filter (\<lambda>r. oe_event_id r \<notin> set ids) (event_records s)
      in (length (event_records s) - length kept, s\<lparr>event_records := kept\<rparr>))"

section \<open>The governed-action ledger\<close>

definition get_governed_action ::
  "'a provider_ops_store_scheme \<Rightarrow> string \<Rightarrow> governed_action option" where
  "get_governed_action s k = dict_get (governed_actions s) k"

definition upsert_governed_action ::
  "governed_action \<Rightarrow> 'a provider_ops_store_scheme \<Rightarrow> 'a provider_ops_store_scheme" where
  "upsert_governed_action r s =
     s\<lparr>governed_actions := dict_put (ga_action_id r) r (governed_actions s)\<rparr>"

definition get_pending_governed_action ::
  "'a provider_ops_store_scheme \<Rightarrow> action_type \<Rightarrow> string \<Rightarrow> governed_action option" where
  "get_pending_governed_action s typ target =
     List.find (\<lambda>r. ga_action_type r = typ \<and> ga_target r = target \<and> ga_status r = PENDING)
       (dict_values (governed_actions s))"

definition list_governed_actions ::
  "action_status option \<Rightarrow> string option \<Rightarrow> int \<Rightarrow> 'a provider_ops_store_scheme
     \<Rightarrow> governed_action list" where
  "list_governed_actions st target limit s =
     py_slice_to limit (sorted_desc ga_requested_at
       (filter (\<lambda>r. (st = None \<or> st = Some (ga_status r)) \<and> (target = None \<or> target = Some (ga_target r)))
         (dict_values (governed_actions s))))"

definition transition_governed_action ::
  "string \<Rightarrow> action_status \<Rightarrow> governed_action \<Rightarrow> timestamp option
     \<Rightarrow> 'a provider_ops_store_scheme \<Rightarrow> bool \<times> 'a provider_ops_store_scheme" where
  "transition_governed_action action_id expected r expected_claimed_at s =
     (case dict_get (governed_actions s) action_id of
        None \<Rightarrow> (False, s)
      | Some current \<Rightarrow>
          if ga_status current \<noteq> expected then (False, s)
          else if expected_claimed_at \<noteq> None \<and> ga_claimed_at current \<noteq> expected_claimed_at
          then (False, s)
          else (True, s\<lparr>governed_actions := dict_put action_id r (governed_actions s)\<rparr>))"

fun delete_governed_actions ::
  "string list \<Rightarrow> 'a provider_ops_store_scheme \<Rightarrow> nat \<times> 'a provider_ops_store_scheme" where
  "delete_governed_actions [] s = (0, s)"
| "delete_governed_actions (k # ks) s =
     (let (n, s') = delete_governed_actions ks
            (s\<lparr>governed_actions := dict_pop k (governed_actions s)\<rparr>)
      in ((if get_governed_action s k = None then n else Suc n), s'))"

section \<open>The repository contracts hold\<close>

interpretation quota_repo: keyed_repository
  "\<lambda>r. (qs_scope r, qs_scope_key r)"
  "get_quota_state :: 'a provider_ops_store_scheme \<Rightarrow> _" save_quota_state
  by unfold_locales (simp add: get_quota_state_def save_quota_state_def)

interpretation budget_repo: keyed_repository
  bs_budget_key "get_budget_state :: 'a provider_ops_store_scheme \<Rightarrow> _" save_budget_state
  by unfold_locales (simp add: get_budget_state_def save_budget_state_def)

interpretation debit_repo: keyed_repository
  db_debit_id "get_attempt_debit :: 'a provider_ops_store_scheme \<Rightarrow> _" save_attempt_debit
  by unfold_locales (simp add: get_attempt_debit_def save_attempt_debit_def)

interpretation degradation_repo: keyed_repository
  dg_degradation_key "get_degradation_state :: 'a provider_ops_store_scheme \<Rightarrow> _"
  save_degradation_state
  by unfold_locales (simp add: get_degradation_state_def save_degradation_state_def)

text \<open>
  The guarded transition of a governed action is the compare-and-set of the contract; its guard is an
  expected status and, when one is given, an expected claim instant. The service always transitions the
  record it holds under that record's own id.
\<close>

definition transition_guard :: "action_status \<times> timestamp option \<Rightarrow> governed_action \<Rightarrow> bool" where
  "transition_guard g c \<longleftrightarrow>
     ga_status c = fst g \<and> (snd g = None \<or> ga_claimed_at c = snd g)"

interpretation action_repo: cas_repository
  ga_action_id "get_governed_action :: 'a provider_ops_store_scheme \<Rightarrow> _" upsert_governed_action
  "\<lambda>g r. transition_governed_action (ga_action_id r) (fst g) r (snd g)" transition_guard
  by unfold_locales
    (auto simp: get_governed_action_def upsert_governed_action_def transition_governed_action_def
      transition_guard_def split: option.splits)

lemmas governed_store_defs [op_defs] =
  transition_governed_action_def get_governed_action_def upsert_governed_action_def

lemma current_spend_save_debit [simp]:
  "current_spend (s\<lparr>attempt_debits := d\<rparr>) k = current_spend s k"
  by (simp add: current_spend_def get_budget_state_def)

lemma current_spend_save_attempt_debit [simp]:
  "current_spend (save_attempt_debit r s) k = current_spend s k"
  by (simp add: save_attempt_debit_def)

lemma current_spend_add [simp]:
  "current_spend (add_budget_spend k a now s) k' =
     (if k' = k then round8 (current_spend s k + a) else current_spend s k')"
  by (simp add: current_spend_def add_budget_spend_def get_budget_state_def save_budget_state_def)

lemma attempt_debits_add_spend [simp]:
  "attempt_debits (add_budget_spend k a now s) = attempt_debits s"
  by (simp add: add_budget_spend_def save_budget_state_def)

lemma governed_actions_frame [simp]:
  "governed_actions (add_budget_spend k a now s) = governed_actions s"
  by (simp add: add_budget_spend_def save_budget_state_def)

end
