(* ===== verification/Governed_Actions.thy ===== *)
theory Governed_Actions
  imports Provider_Operations_Store
begin

text \<open>
  The governed-action primitive, \<^verbatim>\<open>services/governed_action_control.py\<close>: request, approval with an atomic
  claim, execution of the domain effect, fenced finalization, and the system-originated path.

  The SHA-256 digest of the canonical JSON text is an argument \<open>sha\<close> applied to the payload in key order.
  Clock readings and generated ids are arguments. The effect and the rebuilt payload are the callbacks
  the domains pass in. \<open>approve_and_execute\<close> is the composition the source writes; its three atomic
  parts (\<open>approve_check\<close>, \<open>claim_step\<close>, \<open>finalize_step\<close>) are named because other sessions run between
  them, which the step relation \<open>gov_step\<close> makes explicit.
\<close>

section \<open>Operations\<close>

definition human_governed_action_types :: "action_type list" where
  "human_governed_action_types =
     [KILL_SWITCH_CLEAR, PROMPT_PROMOTE, PROVIDER_OPERATIONS_RESET, MODEL_LIFECYCLE_PROMOTE,
      MODEL_CAPABILITY_RESTORE, DATA_ERASURE, SERVING_POLICY_IDENTITY_ADD, BUDGET_RECONCILIATION,
      CLAIM_RELEASE]"

definition compute_governed_action_hash :: "(payload \<Rightarrow> string) \<Rightarrow> payload \<Rightarrow> string" where
  "compute_governed_action_hash sha p = sha (sort_key fst p)"

definition verified_key :: "string option \<Rightarrow> bool" where
  "verified_key k \<longleftrightarrow> k \<noteq> None \<and> k \<noteq> Some []"

definition require_verified_governing_credential :: "authenticated_caller \<Rightarrow> unit result" where
  "require_verified_governing_credential caller =
     (if \<not> verified_key (ac_credential_key_id caller)
      then Inl (HTTPException 403 ''unverified_credential'') else Inr ())"

definition submit_governed_action ::
  "(payload \<Rightarrow> string) \<Rightarrow> authenticated_caller \<Rightarrow> action_type \<Rightarrow> string \<Rightarrow> payload \<Rightarrow> string option
     \<Rightarrow> string \<Rightarrow> timestamp \<Rightarrow> 'a provider_ops_store_scheme
     \<Rightarrow> governed_action result \<times> 'a provider_ops_store_scheme" where
  "submit_governed_action sha caller typ target payload attribution new_id now s =
     (case require_verified_governing_credential caller of
        Inl e \<Rightarrow> (Inl e, s)
      | Inr _ \<Rightarrow>
        let r = \<lparr>ga_action_id = new_id, ga_action_type = typ, ga_actor_class = HUMAN_APPROVED,
                 ga_status = PENDING, ga_target = target,
                 ga_action_hash = compute_governed_action_hash sha payload,
                 ga_action_payload = payload,
                 ga_requester_caller_app = ac_caller_app caller,
                 ga_requester_trust_source = ac_trust_source caller,
                 ga_requester_key_id = ac_credential_key_id caller,
                 ga_requester_attribution = attribution, ga_requested_at = now,
                 ga_approver_caller_app = None, ga_approver_trust_source = None,
                 ga_approver_key_id = None, ga_approver_attribution = None, ga_claimed_at = None,
                 ga_result_payload = None, ga_approved_at = None, ga_executed_at = None,
                 ga_superseded_by_action_id = None\<rparr>;
            s1 = (case get_pending_governed_action s typ target of
                    None \<Rightarrow> s
                  | Some prior \<Rightarrow>
                      snd (transition_governed_action (ga_action_id prior) PENDING
                        (prior\<lparr>ga_status := SUPERSEDED, ga_superseded_by_action_id := Some new_id\<rparr>)
                        None s))
        in (Inr r, upsert_governed_action r s1))"

definition resuming_own_claim :: "bool \<Rightarrow> authenticated_caller \<Rightarrow> governed_action \<Rightarrow> bool" where
  "resuming_own_claim resume caller r \<longleftrightarrow>
     resume \<and> ga_status r = CLAIMED \<and> ga_approver_key_id r = ac_credential_key_id caller"

definition rebuilt_matches :: "(payload \<Rightarrow> string) \<Rightarrow> payload result \<Rightarrow> governed_action \<Rightarrow> unit result" where
  "rebuilt_matches sha rebuilt r =
     (case rebuilt of
        Inl e \<Rightarrow> Inl e
      | Inr p \<Rightarrow> if compute_governed_action_hash sha p \<noteq> ga_action_hash r
                  then Inl (HTTPException 409 ''action_changed'') else Inr ())"

definition approve_check ::
  "(payload \<Rightarrow> string) \<Rightarrow> authenticated_caller \<Rightarrow> string \<Rightarrow> string \<Rightarrow> string
     \<Rightarrow> (governed_action \<Rightarrow> payload result) \<Rightarrow> bool \<Rightarrow> 'a provider_ops_store_scheme
     \<Rightarrow> (governed_action \<times> bool) result" where
  "approve_check sha caller action_id expected_target expected_hash rebuild resume s =
     (case require_verified_governing_credential caller of
        Inl e \<Rightarrow> Inl e
      | Inr _ \<Rightarrow>
        (case get_governed_action s action_id of
           None \<Rightarrow> Inl (HTTPException 404 ''no_governed_action'')
         | Some r \<Rightarrow>
           let resuming = resuming_own_claim resume caller r in
           if ga_status r \<noteq> PENDING \<and> \<not> resuming then Inl (HTTPException 409 ''not_pending'')
           else if ga_actor_class r \<noteq> HUMAN_APPROVED then Inl (HTTPException 409 ''system_originated'')
           else if ga_target r \<noteq> expected_target then Inl (HTTPException 409 ''wrong_target'')
           else if expected_hash \<noteq> ga_action_hash r then Inl (HTTPException 409 ''wrong_hash'')
           else (case (if resuming then Inr () else rebuilt_matches sha (rebuild r) r) of
             Inl e \<Rightarrow> Inl e
           | Inr _ \<Rightarrow>
             if ac_credential_key_id caller = ga_requester_key_id r
             then Inl (HTTPException 403 ''same_credential'')
             else Inr (r, resuming))))"

text \<open>
  The claim instant rotation of a resume: the clock is read again until the reading differs from the
  instant being replaced. The argument lists the successive readings; \<open>None\<close> means every one of them
  equalled the stale instant, so the loop has not ended yet.
\<close>

fun rotate_claim_instant :: "timestamp option \<Rightarrow> timestamp list \<Rightarrow> timestamp option" where
  "rotate_claim_instant stale [] = None"
| "rotate_claim_instant stale (t # ts) =
     (if Some t = stale then rotate_claim_instant stale ts else Some t)"

definition claim_resumed ::
  "string \<Rightarrow> timestamp \<Rightarrow> governed_action \<Rightarrow> 'a provider_ops_store_scheme
     \<Rightarrow> governed_action result \<times> 'a provider_ops_store_scheme" where
  "claim_resumed action_id rotated r s =
     (let claimed = r\<lparr>ga_claimed_at := Some rotated\<rparr> in
      if ga_claimed_at r = None then (Inl (HTTPException 409 ''changed_hands''), s)
      else case transition_governed_action action_id CLAIMED claimed (ga_claimed_at r) s of
        (True, s') \<Rightarrow> (Inr claimed, s')
      | (False, s') \<Rightarrow> (Inl (HTTPException 409 ''changed_hands''), s'))"

definition claim_pending ::
  "authenticated_caller \<Rightarrow> string \<Rightarrow> string option \<Rightarrow> timestamp \<Rightarrow> governed_action
     \<Rightarrow> 'a provider_ops_store_scheme \<Rightarrow> governed_action result \<times> 'a provider_ops_store_scheme" where
  "claim_pending caller action_id attribution now r s =
     (let claimed = r\<lparr>ga_status := CLAIMED,
            ga_approver_caller_app := Some (ac_caller_app caller),
            ga_approver_trust_source := Some (ac_trust_source caller),
            ga_approver_key_id := ac_credential_key_id caller,
            ga_approver_attribution := attribution,
            ga_approved_at := Some now, ga_claimed_at := Some now\<rparr>
      in case transition_governed_action action_id PENDING claimed None s of
           (True, s') \<Rightarrow> (Inr claimed, s')
         | (False, s') \<Rightarrow> (Inl (HTTPException 409 ''concurrent_claim''), s'))"

definition claim_step ::
  "authenticated_caller \<Rightarrow> string \<Rightarrow> string option \<Rightarrow> timestamp list \<Rightarrow> governed_action \<Rightarrow> bool
     \<Rightarrow> 'a provider_ops_store_scheme
     \<Rightarrow> (governed_action result \<times> 'a provider_ops_store_scheme) option" where
  "claim_step caller action_id attribution readings r resuming s =
     (if resuming
      then map_option (\<lambda>t. claim_resumed action_id t r s)
             (rotate_claim_instant (ga_claimed_at r) readings)
      else case readings of
        [] \<Rightarrow> None
      | now # _ \<Rightarrow> Some (claim_pending caller action_id attribution now r s))"

definition finalize_step ::
  "string \<Rightarrow> governed_action \<Rightarrow> payload option \<Rightarrow> timestamp \<Rightarrow> 'a provider_ops_store_scheme
     \<Rightarrow> governed_action result \<times> 'a provider_ops_store_scheme" where
  "finalize_step action_id claimed result_payload now s =
     (let executed = claimed\<lparr>ga_status := EXECUTED, ga_executed_at := Some now,
            ga_result_payload := result_payload\<rparr>
      in case transition_governed_action action_id CLAIMED executed (ga_claimed_at claimed) s of
           (True, s') \<Rightarrow> (Inr executed, s')
         | (False, s') \<Rightarrow> (Inl (HTTPException 409 ''left_claim_while_executing''), s'))"

type_synonym 'w effect = "governed_action \<Rightarrow> 'w \<Rightarrow> payload option result \<times> 'w"

definition approve_and_execute ::
  "(payload \<Rightarrow> string) \<Rightarrow> authenticated_caller \<Rightarrow> string \<Rightarrow> string \<Rightarrow> string
     \<Rightarrow> ('a provider_ops_store_scheme \<Rightarrow> governed_action \<Rightarrow> payload result) \<Rightarrow> string option
     \<Rightarrow> 'a provider_ops_store_scheme effect \<Rightarrow> bool \<Rightarrow> timestamp list \<Rightarrow> timestamp
     \<Rightarrow> 'a provider_ops_store_scheme
     \<Rightarrow> (governed_action result \<times> 'a provider_ops_store_scheme) option" where
  "approve_and_execute sha caller action_id expected_target expected_hash rebuild attribution execute
       resume readings executed_now s =
     (case approve_check sha caller action_id expected_target expected_hash (rebuild s) resume s of
        Inl e \<Rightarrow> Some (Inl e, s)
      | Inr (r, resuming) \<Rightarrow>
        (case claim_step caller action_id attribution readings r resuming s of
           None \<Rightarrow> None
         | Some (Inl e, s1) \<Rightarrow> Some (Inl e, s1)
         | Some (Inr claimed, s1) \<Rightarrow>
           (case execute claimed s1 of
              (Inl e, s2) \<Rightarrow> Some (Inl e, s2)
            | (Inr res, s2) \<Rightarrow> Some (finalize_step action_id claimed res executed_now s2))))"

definition record_system_originated_action ::
  "(payload \<Rightarrow> string) \<Rightarrow> string \<Rightarrow> action_type \<Rightarrow> string \<Rightarrow> payload \<Rightarrow> string \<Rightarrow> timestamp
     \<Rightarrow> timestamp \<Rightarrow> 'a provider_ops_store_scheme
     \<Rightarrow> governed_action result \<times> 'a provider_ops_store_scheme" where
  "record_system_originated_action sha service typ target payload new_id requested executed s =
     (if typ \<in> set human_governed_action_types
      then (Inl (HTTPException 403 ''human_governed_type''), s)
      else
        let r = \<lparr>ga_action_id = new_id, ga_action_type = typ, ga_actor_class = SYSTEM_ORIGINATED,
                 ga_status = EXECUTED, ga_target = target,
                 ga_action_hash = compute_governed_action_hash sha payload,
                 ga_action_payload = payload, ga_requester_caller_app = service,
                 ga_requester_trust_source = ''service_runtime'',
                 ga_requester_key_id = None, ga_requester_attribution = None,
                 ga_requested_at = requested, ga_approver_caller_app = None,
                 ga_approver_trust_source = None, ga_approver_key_id = None,
                 ga_approver_attribution = None, ga_claimed_at = None, ga_result_payload = None,
                 ga_approved_at = None, ga_executed_at = Some executed,
                 ga_superseded_by_action_id = None\<rparr>
        in (Inr r, upsert_governed_action r s))"

section \<open>Facts about single operations\<close>

lemma verified_credentialD:
  "require_verified_governing_credential caller = Inr u \<Longrightarrow> verified_key (ac_credential_key_id caller)"
  by (auto simp: require_verified_governing_credential_def split: if_splits)

lemma approve_checkD:
  assumes "approve_check sha caller aid tgt h rebuild resume s = Inr (r, resuming)"
  shows "get_governed_action s aid = Some r"
    and "verified_key (ac_credential_key_id caller)"
    and "ga_actor_class r = HUMAN_APPROVED"
    and "ga_target r = tgt" and "ga_action_hash r = h"
    and "ac_credential_key_id caller \<noteq> ga_requester_key_id r"
    and "resuming = resuming_own_claim resume caller r"
    and "\<not> resuming \<Longrightarrow> ga_status r = PENDING"
    and "\<not> resuming \<Longrightarrow> \<exists>p. rebuild r = Inr p \<and> compute_governed_action_hash sha p = h"
  using assms unfolding approve_check_def Let_def rebuilt_matches_def
  by (auto dest: verified_credentialD split: sum.splits option.splits if_splits)

lemma rotate_claim_instant_differs: "rotate_claim_instant stale ts = Some t \<Longrightarrow> Some t \<noteq> stale \<and> t \<in> set ts"
  by (induction stale ts rule: rotate_claim_instant.induct) (auto split: if_splits)

lemma rotate_claim_instant_returns:
  "t \<in> set ts \<Longrightarrow> Some t \<noteq> stale \<Longrightarrow> \<exists>t'. rotate_claim_instant stale ts = Some t'"
  by (induction stale ts rule: rotate_claim_instant.induct) auto

lemma transition_True:
  assumes "transition_governed_action aid st r claimed s = (True, s')"
  obtains c where "get_governed_action s aid = Some c" and "ga_status c = st"
    and "claimed = None \<or> ga_claimed_at c = claimed"
    and "s' = s\<lparr>governed_actions := dict_put aid r (governed_actions s)\<rparr>"
  using assms
  by (auto simp: governed_store_defs split: option.splits if_splits)

lemma transition_False: "transition_governed_action aid st r claimed s = (False, s') \<Longrightarrow> s' = s"
  by (auto simp: governed_store_defs split: option.splits if_splits)

lemma claim_step_records_credential:
  assumes "claim_step caller aid attr readings r resuming s = Some (Inr c, s1)"
    and "resuming \<longrightarrow> resuming_own_claim True caller r"
  shows "ga_action_payload c = ga_action_payload r" and "ga_target c = ga_target r"
    and "ga_action_hash c = ga_action_hash r" and "ga_requester_key_id c = ga_requester_key_id r"
    and "ga_approver_key_id c = ac_credential_key_id caller"
  using assms unfolding claim_step_def claim_resumed_def claim_pending_def Let_def resuming_own_claim_def
  by (auto split: if_splits list.splits prod.splits bool.splits)

lemma claim_pending_succeeds:
  assumes "get_governed_action s aid = Some r" and "ga_status r = PENDING"
  shows "\<exists>c. claim_pending caller aid attr now r s =
      (Inr c, s\<lparr>governed_actions := dict_put aid c (governed_actions s)\<rparr>)
    \<and> ga_status c = CLAIMED \<and> ga_approver_key_id c = ac_credential_key_id caller"
  using assms by (simp add: claim_pending_def Let_def governed_store_defs)

lemma finalize_step_Inr:
  assumes "finalize_step aid c res now s = (Inr e, s')"
  shows "e = c\<lparr>ga_status := EXECUTED, ga_executed_at := Some now, ga_result_payload := res\<rparr>"
    and "get_governed_action s' aid = Some e"
  using assms by (auto simp: finalize_step_def Let_def governed_store_defs
      split: option.splits if_splits prod.splits bool.splits)

section \<open>Properties\<close>

text \<open>
  C5. An approval executes the reviewed action and no other: when it returns, the action existed, was
  addressed by its own target and hash, was requested under a different credential, still matched the
  rebuilt domain payload (unless the claiming credential was resuming its own claim), and the effect ran
  on a record with that very payload; the ledger now holds the EXECUTED record with the effect's result
  and the approver's credential.
\<close>

theorem approval_executes_the_reviewed_action:
  assumes "approve_and_execute sha caller aid tgt h rebuild attr execute resume readings now s
             = Some (Inr e, s')"
  shows "\<exists>r c res s1 s2. get_governed_action s aid = Some r
     \<and> ga_target r = tgt \<and> ga_action_hash r = h
     \<and> ga_requester_key_id r \<noteq> ac_credential_key_id caller
     \<and> (resuming_own_claim resume caller r \<or>
          (ga_status r = PENDING \<and> (\<exists>p. rebuild s r = Inr p \<and> compute_governed_action_hash sha p = h)))
     \<and> execute c s1 = (Inr res, s2)
     \<and> ga_action_payload c = ga_action_payload r
     \<and> get_governed_action s' aid = Some e \<and> ga_status e = EXECUTED
     \<and> ga_result_payload e = res \<and> ga_approver_key_id e = ac_credential_key_id caller
     \<and> ga_requester_key_id e = ga_requester_key_id r"
proof -
  obtain r resuming c s1 res s2 where chk: "approve_check sha caller aid tgt h (rebuild s) resume s = Inr (r, resuming)"
    and cl: "claim_step caller aid attr readings r resuming s = Some (Inr c, s1)"
    and ex: "execute c s1 = (Inr res, s2)"
    and fin: "finalize_step aid c res now s2 = (Inr e, s')"
    using assms unfolding approve_and_execute_def
    by (auto split: sum.splits prod.splits option.splits)
  note d = approve_checkD [OF chk]
  have own: "resuming \<longrightarrow> resuming_own_claim True caller r"
    using d(7) by (auto simp: resuming_own_claim_def)
  note cc = claim_step_records_credential [OF cl own]
  note f = finalize_step_Inr [OF fin]
  show ?thesis
    by (rule exI [of _ r], rule exI [of _ c], rule exI [of _ res], rule exI [of _ s1], rule exI [of _ s2])
      (use d ex cc f in auto)
qed

text \<open>
  A failed effect freezes the action: the claim is written before the effect runs, so when the domain
  callback raises, the approval fails but the action stays CLAIMED under the approver's credential; it
  does not go back to PENDING.
\<close>

theorem failed_effect_leaves_action_claimed:
  assumes "approve_check sha caller aid tgt h (rebuild s) resume s = Inr (r, False)"
    and "\<And>c s1. execute c s1 = (Inl err, s1)"
  shows "\<exists>s' c. approve_and_execute sha caller aid tgt h rebuild attr execute resume (t # ts) now s
             = Some (Inl err, s')
         \<and> get_governed_action s' aid = Some c \<and> ga_status c = CLAIMED
         \<and> ga_approver_key_id c = ac_credential_key_id caller"
proof -
  note d = approve_checkD [OF assms(1)]
  obtain c where c: "claim_pending caller aid attr t r s =
      (Inr c, s\<lparr>governed_actions := dict_put aid c (governed_actions s)\<rparr>)"
    and "ga_status c = CLAIMED" "ga_approver_key_id c = ac_credential_key_id caller"
    using claim_pending_succeeds [OF d(1) d(8)] by blast
  with assms show ?thesis
    by (auto simp: approve_and_execute_def claim_step_def get_governed_action_def)
qed

definition sample_sha :: "payload \<Rightarrow> string" where
  "sample_sha p = ''digest''"

definition sample_caller :: "string \<Rightarrow> authenticated_caller" where
  "sample_caller key = \<lparr>ac_caller_app = ''lotus-platform'', ac_trust_source = ''verified_service_jwt'',
     ac_credential_key_id = Some key, ac_credential_token_id = None\<rparr>"

definition sample_store :: provider_ops_store where
  "sample_store = snd (submit_governed_action sample_sha (sample_caller ''key-a'') DATA_ERASURE ''tenant-1''
     [(''tenant'', Some ''tenant-1'')] None ''gact_1'' ''t1'' empty_ops_store)"

definition sample_pending :: governed_action where
  "sample_pending = the (get_governed_action sample_store ''gact_1'')"

theorem approval_executes_the_reviewed_action_witness:
  "\<exists>r. get_governed_action sample_store ''gact_1'' = Some r
     \<and> ga_requester_key_id r \<noteq> ac_credential_key_id (sample_caller ''key-b'')"
proof -
  let ?run = "approve_and_execute sample_sha (sample_caller ''key-b'') ''gact_1'' ''tenant-1'' ''digest''
     (\<lambda>_ _. Inr []) None (\<lambda>_ w. (Inr (Some []), w)) False [''t2''] ''t3'' sample_store"
  have "?run = Some (Inr (projr (fst (the ?run))), snd (the ?run))" by code_simp
  from approval_executes_the_reviewed_action [OF this] show ?thesis by blast
qed

theorem failed_effect_leaves_action_claimed_witness:
  "\<exists>s' c. approve_and_execute sample_sha (sample_caller ''key-b'') ''gact_1'' ''tenant-1'' ''digest''
       (\<lambda>_ _. Inr []) None (\<lambda>_ w. (Inl AssertionError, w)) False [''t2''] ''t3'' sample_store
       = Some (Inl AssertionError, s')
     \<and> get_governed_action s' ''gact_1'' = Some c \<and> ga_status c = CLAIMED"
proof -
  have "approve_check sample_sha (sample_caller ''key-b'') ''gact_1'' ''tenant-1'' ''digest'' (\<lambda>_. Inr []) False
     sample_store = Inr (sample_pending, False)" by code_simp
  from failed_effect_leaves_action_claimed [where rebuild = "\<lambda>_ _. Inr []", OF this, of "\<lambda>_ w. (Inl AssertionError, w)"]
  show ?thesis by fastforce
qed

end
