(* ===== verification/Claim_Release.thy ===== *)
theory Claim_Release
  imports Governed_Actions
begin

text \<open>
  Governed release of a frozen claim, \<^verbatim>\<open>services/governed_claim_release.py\<close>: a CLAIMED action whose credential
  disappeared goes back to PENDING through a second governed action whose requester and approver both
  differ from the frozen credential, and whose execution is fenced on the pinned claim instant.
\<close>

section \<open>Operations\<close>

definition require_provider_control :: "policy_store \<Rightarrow> authenticated_caller \<Rightarrow> unit result" where
  "require_provider_control policies caller =
     (case require_authorized
             (authorize_request policies (Some caller) (ac_caller_app caller) PROVIDER_CONTROL None None None) of
        Inl e \<Rightarrow> Inl e | Inr _ \<Rightarrow> Inr ())"

definition release_payload ::
  "string \<Rightarrow> string \<Rightarrow> timestamp option \<Rightarrow> string option \<Rightarrow> string \<Rightarrow> payload" where
  "release_payload target_id target_hash claimed_at frozen_key reason =
     [(''action_type'', Some ''CLAIM_RELEASE''),
      (''target_action_id'', Some target_id),
      (''target_action_hash'', Some target_hash),
      (''target_claimed_at'', claimed_at),
      (''frozen_approver_key_id'', frozen_key),
      (''reason'', Some reason)]"

text \<open>\<^verbatim>\<open>str(payload.get(key))\<close>: a missing key and a null value both read as the text None.\<close>

definition payload_str :: "payload \<Rightarrow> string \<Rightarrow> string" where
  "payload_str p k = (case dict_get p k of Some (Some v) \<Rightarrow> v | _ \<Rightarrow> ''None'')"

definition refuse_frozen_credential ::
  "authenticated_caller \<Rightarrow> string option \<Rightarrow> unit result" where
  "refuse_frozen_credential caller frozen =
     (if ac_credential_key_id caller \<noteq> None \<and> ac_credential_key_id caller = frozen
      then Inl (HTTPException 403 ''frozen_credential'') else Inr ())"

definition request_claim_release ::
  "(payload \<Rightarrow> string) \<Rightarrow> policy_store \<Rightarrow> authenticated_caller \<Rightarrow> string \<Rightarrow> string \<Rightarrow> string option
     \<Rightarrow> string \<Rightarrow> timestamp \<Rightarrow> 'a provider_ops_store_scheme
     \<Rightarrow> governed_action result \<times> 'a provider_ops_store_scheme" where
  "request_claim_release sha policies caller target_id reason requested_by new_id now s =
     (case require_provider_control policies caller of
        Inl e \<Rightarrow> (Inl e, s)
      | Inr _ \<Rightarrow>
        (case get_governed_action s target_id of
           None \<Rightarrow> (Inl (HTTPException 404 ''no_governed_action''), s)
         | Some target \<Rightarrow>
           if ga_status target \<noteq> CLAIMED then (Inl (HTTPException 409 ''not_claimed''), s)
           else case refuse_frozen_credential caller (ga_approver_key_id target) of
             Inl e \<Rightarrow> (Inl e, s)
           | Inr _ \<Rightarrow>
             if ga_claimed_at target = None \<or> ga_approver_key_id target = None
             then (Inl AssertionError, s)
             else submit_governed_action sha caller CLAIM_RELEASE target_id
                    (release_payload target_id (ga_action_hash target) (ga_claimed_at target)
                      (ga_approver_key_id target) reason)
                    requested_by new_id now s))"

definition rebuild_release_payload ::
  "'a provider_ops_store_scheme \<Rightarrow> governed_action \<Rightarrow> payload result" where
  "rebuild_release_payload s r =
     (let target_id = payload_str (ga_action_payload r) ''target_action_id'';
          reason = payload_str (ga_action_payload r) ''reason'';
          gone = release_payload target_id ''TARGET_NO_LONGER_CLAIMED'' None None reason
      in Inr (case get_governed_action s target_id of
           None \<Rightarrow> gone
         | Some target \<Rightarrow>
             if ga_status target \<noteq> CLAIMED \<or> ga_claimed_at target = None
                \<or> ga_approver_key_id target = None
             then gone
             else release_payload target_id (ga_action_hash target) (ga_claimed_at target)
                    (ga_approver_key_id target) reason))"

definition released_record :: "governed_action \<Rightarrow> governed_action" where
  "released_record target =
     target\<lparr>ga_status := PENDING, ga_approver_caller_app := None, ga_approver_trust_source := None,
            ga_approver_key_id := None, ga_approver_attribution := None, ga_approved_at := None,
            ga_claimed_at := None\<rparr>"

definition execute_release ::
  "governed_action option \<Rightarrow> 'a provider_ops_store_scheme effect" where
  "execute_release existing r s =
     (let target_id = payload_str (ga_action_payload r) ''target_action_id'';
          pinned = payload_str (ga_action_payload r) ''target_claimed_at'';
          evidence = (case existing of None \<Rightarrow> [] | Some e \<Rightarrow> ga_action_payload e)
      in case get_governed_action s target_id of
           None \<Rightarrow> (Inl (HTTPException 409 ''claim_moved''), s)
         | Some target \<Rightarrow>
             if ga_status target \<noteq> CLAIMED then (Inl (HTTPException 409 ''claim_moved''), s)
             else case transition_governed_action target_id CLAIMED (released_record target)
                         (Some pinned) s of
               (False, s') \<Rightarrow> (Inl (HTTPException 409 ''claim_changed_hands''), s')
             | (True, s') \<Rightarrow>
                 (Inr (Some [(''released_target_action_id'', Some (ga_action_id target)),
                     (''frozen_approver_key_id'',
                        Some (payload_str evidence ''frozen_approver_key_id'')),
                     (''reason'', Some (payload_str evidence ''reason''))]), s'))"

definition release_response_from_result ::
  "governed_action \<Rightarrow> 'a provider_ops_store_scheme \<Rightarrow> (governed_action \<times> governed_action) result" where
  "release_response_from_result r s =
     (let p = (case ga_result_payload r of None \<Rightarrow> [] | Some p \<Rightarrow> p)
      in case get_governed_action s (payload_str p ''released_target_action_id'') of
           None \<Rightarrow> Inl (HTTPException 409 ''released_action_gone'')
         | Some target \<Rightarrow> Inr (r, target))"

definition already_released ::
  "string \<Rightarrow> governed_action option \<Rightarrow> bool" where
  "already_released action_hash existing \<longleftrightarrow>
     (case existing of None \<Rightarrow> False
      | Some e \<Rightarrow> ga_status e = EXECUTED \<and> ga_action_hash e = action_hash
                  \<and> ga_result_payload e \<noteq> None)"

definition approve_claim_release ::
  "(payload \<Rightarrow> string) \<Rightarrow> policy_store \<Rightarrow> authenticated_caller \<Rightarrow> string \<Rightarrow> string \<Rightarrow> string option
     \<Rightarrow> bool \<Rightarrow> timestamp list \<Rightarrow> timestamp \<Rightarrow> 'a provider_ops_store_scheme
     \<Rightarrow> ((governed_action \<times> governed_action) result \<times> 'a provider_ops_store_scheme) option" where
  "approve_claim_release sha policies caller action_id action_hash approved_by resume readings
       executed_now s =
     (case require_provider_control policies caller of
        Inl e \<Rightarrow> Some (Inl e, s)
      | Inr _ \<Rightarrow>
        let existing = get_governed_action s action_id in
        if already_released action_hash existing
        then Some (release_response_from_result (the existing) s, s)
        else case existing of
          None \<Rightarrow> Some (Inl (HTTPException 404 ''no_governed_action''), s)
        | Some e \<Rightarrow>
          (case refuse_frozen_credential caller
                  (Some (payload_str (ga_action_payload e) ''frozen_approver_key_id'')) of
             Inl err \<Rightarrow> Some (Inl err, s)
           | Inr _ \<Rightarrow>
             (case approve_and_execute sha caller action_id (ga_target e) action_hash
                     rebuild_release_payload approved_by (execute_release existing) resume readings
                     executed_now s of
                None \<Rightarrow> None
              | Some (Inl err, s') \<Rightarrow> Some (Inl err, s')
              | Some (Inr executed, s') \<Rightarrow>
                  Some (case get_governed_action s'
                          (payload_str (ga_action_payload executed) ''target_action_id'') of
                      None \<Rightarrow> Inl (KeyError ''released'')
                    | Some released \<Rightarrow> Inr (executed, released), s'))))"

section \<open>Facts\<close>

lemma execute_release_Inr:
  assumes "execute_release existing r s = (Inr p, s')"
  shows "\<exists>target. let tid = payload_str (ga_action_payload r) ''target_action_id'' in
           get_governed_action s tid = Some target
         \<and> ga_status target = CLAIMED
         \<and> ga_claimed_at target = Some (payload_str (ga_action_payload r) ''target_claimed_at'')
         \<and> s' = s\<lparr>governed_actions := dict_put tid (released_record target) (governed_actions s)\<rparr>"
  using assms unfolding execute_release_def Let_def
  by (auto simp: governed_store_defs split: option.splits if_splits)

lemma execute_release_Inl: "execute_release existing r s = (Inl e, s') \<Longrightarrow> s' = s"
  unfolding execute_release_def Let_def
  by (auto simp: governed_store_defs split: option.splits if_splits)

lemma execute_release_stuck:
  assumes "get_governed_action s (payload_str (ga_action_payload r) ''target_action_id'') = Some target"
    and "ga_status target \<noteq> CLAIMED
         \<or> ga_claimed_at target \<noteq> Some (payload_str (ga_action_payload r) ''target_claimed_at'')"
  shows "\<exists>e. execute_release existing r s = (Inl e, s)"
  using assms unfolding execute_release_def Let_def
  by (auto simp: governed_store_defs split: option.splits if_splits)

lemma require_provider_control_Inr:
  "require_provider_control policies caller = Inr u \<Longrightarrow>
     \<exists>d. authorize_request policies (Some caller) (ac_caller_app caller) PROVIDER_CONTROL None None None = Inr d
         \<and> ad_allowed d"
  by (auto simp: require_provider_control_def require_authorized_def split: sum.splits if_splits)

lemma request_claim_release_Inr:
  assumes "request_claim_release sha policies caller tid reason by nid now s = (Inr rel, s1)"
  obtains target where "get_governed_action s tid = Some target" and "ga_status target = CLAIMED"
    and "ga_claimed_at target \<noteq> None" and "ga_approver_key_id target \<noteq> None"
    and "ga_approver_key_id target \<noteq> ga_requester_key_id rel"
    and "ga_action_payload rel = release_payload tid (ga_action_hash target) (ga_claimed_at target)
           (ga_approver_key_id target) reason"
    and "ga_action_id rel = nid"
  using assms unfolding request_claim_release_def submit_governed_action_def Let_def
  by (auto simp: refuse_frozen_credential_def require_verified_governing_credential_def verified_key_def
      split: sum.splits option.splits if_splits)

lemma payload_str_release [simp]:
  "payload_str (release_payload tid hash t k reason) ''target_action_id'' = tid"
  "payload_str (release_payload tid hash (Some x) k reason) ''target_claimed_at'' = x"
  "payload_str (release_payload tid hash t (Some y) reason) ''frozen_approver_key_id'' = y"
  by (simp_all add: payload_str_def release_payload_def)

lemma approve_and_execute_Inr:
  assumes "approve_and_execute sha caller aid tgt h rebuild attr execute resume readings now s
             = Some (Inr e, s')"
  obtains r resuming c s1 res s2
  where "approve_check sha caller aid tgt h (rebuild s) resume s = Inr (r, resuming)"
    and "claim_step caller aid attr readings r resuming s = Some (Inr c, s1)"
    and "execute c s1 = (Inr res, s2)" and "finalize_step aid c res now s2 = (Inr e, s')"
  using assms unfolding approve_and_execute_def by (auto split: sum.splits prod.splits option.splits)

text \<open>Claiming and finalizing an action touches the ledger of actions only.\<close>

lemma claim_step_frame:
  "claim_step caller aid attr readings r resuming s = Some (c, s1) \<Longrightarrow> \<exists>g. s1 = s\<lparr>governed_actions := g\<rparr>"
  by (auto simp: claim_step_def claim_resumed_def claim_pending_def Let_def governed_store_defs
      split: if_splits list.splits option.splits) (metis provider_ops_store.surjective provider_ops_store.update_convs(5))+

lemma finalize_step_frame:
  "finalize_step aid c res now s = (x, s1) \<Longrightarrow> \<exists>g. s1 = s\<lparr>governed_actions := g\<rparr>"
  by (auto simp: finalize_step_def Let_def governed_store_defs split: if_splits option.splits)
    (metis provider_ops_store.surjective provider_ops_store.update_convs(5))+

lemma approve_and_execute_cases:
  assumes "approve_and_execute sha caller aid tgt h rebuild attr execute False readings now w = Some (r, w')"
  obtains (ledger) g where "w' = w\<lparr>governed_actions := g\<rparr>"
  | (ran) a c g er w2 g' where "get_governed_action w aid = Some a" and "ga_requester_key_id a \<noteq> ac_credential_key_id caller"
      and "\<exists>p. rebuild w a = Inr p \<and> ga_action_hash a = compute_governed_action_hash sha p"
      and "ga_action_payload c = ga_action_payload a" and "execute c (w\<lparr>governed_actions := g\<rparr>) = (er, w2)"
      and "w' = w2\<lparr>governed_actions := g'\<rparr>" and "verified_key (ac_credential_key_id caller)"
proof (cases "approve_check sha caller aid tgt h (rebuild w) False w")
  case (Inl e)
  then have "w' = w\<lparr>governed_actions := governed_actions w\<rparr>" using assms by (simp add: approve_and_execute_def)
  then show thesis by (rule ledger)
next
  case (Inr x)
  then obtain a resuming where chk: "approve_check sha caller aid tgt h (rebuild w) False w = Inr (a, resuming)"
    by (cases x) simp
  note d = approve_checkD [OF chk]
  have nr: "\<not> resuming" using d(7) by (simp add: resuming_own_claim_def)
  from assms chk obtain cl w1 where claim: "claim_step caller aid attr readings a resuming w = Some (cl, w1)"
    by (auto simp: approve_and_execute_def split: option.splits)
  obtain g where w1: "w1 = w\<lparr>governed_actions := g\<rparr>" using claim_step_frame [OF claim] by blast
  show thesis
  proof (cases cl)
    case (Inl e)
    then have "w' = w1" using assms chk claim by (simp add: approve_and_execute_def)
    then show thesis using ledger w1 by blast
  next
    case (Inr c)
    note cc = claim_step_records_credential [OF claim [unfolded Inr]]
    obtain er w2 where ex: "execute c w1 = (er, w2)" by fastforce
    have "\<exists>g'. w' = w2\<lparr>governed_actions := g'\<rparr>"
    proof (cases er)
      case (Inl e)
      then have "w' = w2\<lparr>governed_actions := governed_actions w2\<rparr>"
        using assms chk claim ex \<open>cl = Inr c\<close> by (simp add: approve_and_execute_def)
      then show ?thesis by blast
    next
      case (Inr res)
      then have "finalize_step aid c res now w2 = (r, w')"
        using assms chk claim ex \<open>cl = Inr c\<close> by (simp add: approve_and_execute_def)
      then show ?thesis by (rule finalize_step_frame)
    qed
    then show thesis using ran [of a c g er w2] d(1,2,5,6) d(9) [OF nr] cc(1) nr ex w1 by auto
  qed
qed

text \<open>
  The contract of a governed domain write: the domain's read does not look at the action ledger, and the
  effect writes one subject, determined by the payload of the action. Every approval of such an effect
  is a two-credential write of exactly that subject.
\<close>

locale governed_write =
  fixes subject :: "'a provider_ops_store_scheme \<Rightarrow> 'k \<Rightarrow> 'e option"
    and execute :: "'a provider_ops_store_scheme effect"
    and key :: "payload \<Rightarrow> 'k"
    and after :: "payload \<Rightarrow> 'e"
  assumes subject_frame: "subject (w\<lparr>governed_actions := g\<rparr>) k = subject w k"
    and execute_writes: "execute c w = (Inr res, w2) \<Longrightarrow>
      subject w2 k = (if k = key (ga_action_payload c) then Some (after (ga_action_payload c)) else subject w k)"
    and execute_refuses: "execute c w = (Inl err, w2) \<Longrightarrow> subject w2 k = subject w k"
begin

lemma approval_writes_once:
  assumes "approve_and_execute sha caller aid tgt h rebuild attr execute False readings now w = Some (Inr e, w')"
  shows "ga_requester_key_id e \<noteq> ac_credential_key_id caller" and "ga_approver_key_id e = ac_credential_key_id caller"
    and "ga_status e = EXECUTED" and "ga_target e = tgt" and "verified_key (ac_credential_key_id caller)"
    and "\<exists>r p. rebuild w r = Inr p \<and> h = compute_governed_action_hash sha p
           \<and> ga_action_payload r = ga_action_payload e \<and> ga_target r = tgt \<and> get_governed_action w aid = Some r"
    and "\<exists>c g. (\<exists>res w2. execute c (w\<lparr>governed_actions := g\<rparr>) = (Inr res, w2))
           \<and> ga_action_payload c = ga_action_payload e \<and> ga_requester_key_id c = ga_requester_key_id e
           \<and> ga_requester_caller_app c = ga_requester_caller_app e"
    and "subject w' k =
      (if k = key (ga_action_payload e) then Some (after (ga_action_payload e)) else subject w k)"
proof -
  obtain r resuming c w1 res w2 where
    chk: "approve_check sha caller aid tgt h (rebuild w) False w = Inr (r, resuming)"
    and cl: "claim_step caller aid attr readings r resuming w = Some (Inr c, w1)"
    and ex: "execute c w1 = (Inr res, w2)" and fin: "finalize_step aid c res now w2 = (Inr e, w')"
    using assms by (rule approve_and_execute_Inr)
  note d = approve_checkD [OF chk]
  have nr: "\<not> resuming" using d(7) by (simp add: resuming_own_claim_def)
  note cc = claim_step_records_credential [OF cl] and e = finalize_step_Inr(1) [OF fin]
  obtain g where w1: "w1 = w\<lparr>governed_actions := g\<rparr>" using claim_step_frame [OF cl] by blast
  obtain g' where w': "w' = w2\<lparr>governed_actions := g'\<rparr>" using finalize_step_frame [OF fin] by blast
  show "ga_requester_key_id e \<noteq> ac_credential_key_id caller" "ga_approver_key_id e = ac_credential_key_id caller"
    "ga_status e = EXECUTED" "ga_target e = tgt" "verified_key (ac_credential_key_id caller)"
    using d(2,4,6) cc nr e by auto
  show "\<exists>r p. rebuild w r = Inr p \<and> h = compute_governed_action_hash sha p
           \<and> ga_action_payload r = ga_action_payload e \<and> ga_target r = tgt \<and> get_governed_action w aid = Some r"
    using d(1,4) d(9) [OF nr] cc nr e by auto
  show "\<exists>c g. (\<exists>res w2. execute c (w\<lparr>governed_actions := g\<rparr>) = (Inr res, w2))
           \<and> ga_action_payload c = ga_action_payload e \<and> ga_requester_key_id c = ga_requester_key_id e
           \<and> ga_requester_caller_app c = ga_requester_caller_app e"
    using ex e by (intro exI [of _ c] exI [of _ g]) (auto simp: w1)
  show "subject w' k =
      (if k = key (ga_action_payload e) then Some (after (ga_action_payload e)) else subject w k)"
    using execute_writes [OF ex, of k] e by (simp add: w' w1 subject_frame)
qed

text \<open>Whatever an approval answers, the domain is as before or carries the one write the action describes.\<close>

lemma approval_frame:
  assumes "approve_and_execute sha caller aid tgt h rebuild attr execute False readings now w = Some (r, w')"
  shows "(\<forall>k. subject w' k = subject w k)
    \<or> (\<exists>a c g. get_governed_action w aid = Some a \<and> ga_requester_key_id a \<noteq> ac_credential_key_id caller
         \<and> (\<exists>p. rebuild w a = Inr p \<and> ga_action_hash a = compute_governed_action_hash sha p)
         \<and> ga_action_payload c = ga_action_payload a
         \<and> (\<exists>res w2. execute c (w\<lparr>governed_actions := g\<rparr>) = (Inr res, w2))
         \<and> (\<forall>k. subject w' k = (if k = key (ga_action_payload a) then Some (after (ga_action_payload a)) else subject w k)))"
  using assms
proof (cases rule: approve_and_execute_cases)
  case (ran a c g er w2 g')
  show ?thesis
  proof (cases er)
    case (Inl e)
    then show ?thesis using execute_refuses [of c _ e w2] ran by (auto simp: subject_frame)
  next
    case (Inr res)
    then have "subject w' k = (if k = key (ga_action_payload a) then Some (after (ga_action_payload a)) else subject w k)" for k
      using execute_writes [of c _ res w2 k] ran by (simp add: subject_frame)
    then show ?thesis using ran Inr by (intro disjI2 exI [of _ a] exI [of _ c] exI [of _ g]) auto
  qed
qed (auto simp: subject_frame)

end

lemma claim_step_resuming:
  assumes "claim_step caller nid attr readings rel True s = Some (c, s1)"
  shows "(\<exists>e. c = Inl e \<and> s1 = s)
       \<or> (\<exists>t. c = Inr (rel\<lparr>ga_claimed_at := t\<rparr>)
              \<and> governed_actions s1 = dict_put nid (rel\<lparr>ga_claimed_at := t\<rparr>) (governed_actions s))"
proof -
  from assms obtain t where "claim_resumed nid t rel s = (c, s1)"
    by (auto simp: claim_step_def)
  then show ?thesis
    by (auto simp: claim_resumed_def Let_def split: if_splits prod.splits bool.splits
        elim!: transition_True dest!: transition_False)
qed

lemma stuck_release_run:
  assumes "get_governed_action s nid = Some rel" and "ga_status rel = CLAIMED"
    and "get_governed_action s (payload_str (ga_action_payload rel) ''target_action_id'') = Some target"
    and "payload_str (ga_action_payload rel) ''target_action_id'' \<noteq> nid"
    and "ga_status target \<noteq> CLAIMED
         \<or> ga_claimed_at target \<noteq> Some (payload_str (ga_action_payload rel) ''target_claimed_at'')"
    and run: "approve_and_execute sha caller nid tgt h rebuild attr (execute_release ex) resume readings now s
                = Some (r, w)"
  shows "\<exists>e. r = Inl e \<and> (w = s \<or> (\<exists>t. governed_actions w
        = dict_put nid (rel\<lparr>ga_claimed_at := t\<rparr>) (governed_actions s)))"
proof (cases "approve_check sha caller nid tgt h (rebuild s) resume s")
  case (Inl e)
  with run show ?thesis by (auto simp: approve_and_execute_def)
next
  case (Inr x)
  then obtain r' resuming where x: "approve_check sha caller nid tgt h (rebuild s) resume s = Inr (r', resuming)"
    by (cases x) simp
  have r': "r' = rel" and resuming using approve_checkD(1,8) [OF x] assms(1,2) by auto
  have stuck: "\<exists>e. execute_release ex (rel\<lparr>ga_claimed_at := t\<rparr>) w = (Inl e, w)"
    if "governed_actions w = dict_put nid c (governed_actions s)" for t w c
    by (rule execute_release_stuck [where target = target])
       (use that assms(3-5) in \<open>auto simp: get_governed_action_def\<close>)
  show ?thesis
  proof (cases "claim_step caller nid attr readings rel True s")
    case None
    then show ?thesis using run x r' \<open>resuming\<close> by (simp add: approve_and_execute_def)
  next
    case (Some y)
    obtain c s1 where cl: "claim_step caller nid attr readings rel True s = Some (c, s1)"
      using Some by (cases y) simp
    from claim_step_resuming [OF cl] consider (lost) e where "c = Inl e" "s1 = s"
      | (held) t where "c = Inr (rel\<lparr>ga_claimed_at := t\<rparr>)"
          "governed_actions s1 = dict_put nid (rel\<lparr>ga_claimed_at := t\<rparr>) (governed_actions s)"
      by blast
  then show ?thesis
  proof cases
    case lost
    then show ?thesis using run x r' \<open>resuming\<close> cl by (auto simp: approve_and_execute_def)
  next
    case held
    from stuck [OF held(2)] obtain e where "execute_release ex (rel\<lparr>ga_claimed_at := t\<rparr>) s1 = (Inl e, s1)"
      by blast
    then have "r = Inl e" "w = s1"
      using run x r' \<open>resuming\<close> cl held(1) by (auto simp: approve_and_execute_def)
    with held(2) show ?thesis by blast
  qed
  qed
qed

section \<open>Properties\<close>

text \<open>
  Releasing a frozen claim takes three credentials: when a release that was requested for a frozen
  action is approved and executes, the credential that froze the claim, the one that requested the
  release and the one that approved it are pairwise distinct, and the approver is a caller whose policy
  grants provider control.
\<close>

theorem claim_release_needs_three_credentials:
  assumes "request_claim_release sha policies caller tid reason by nid now s = (Inr rel, s1)"
    and "get_governed_action s tid = Some frozen"
    and "get_governed_action s2 nid = Some rel"
    and "approve_claim_release sha policies' caller' nid h by' resume readings now' s2
           = Some (Inr (e, released), s3)"
  shows "ga_requester_key_id rel \<noteq> ga_approver_key_id frozen
     \<and> ac_credential_key_id caller' \<noteq> ga_approver_key_id frozen
     \<and> ac_credential_key_id caller' \<noteq> ga_requester_key_id rel
     \<and> (\<exists>d. authorize_request policies' (Some caller') (ac_caller_app caller') PROVIDER_CONTROL
                None None None = Inr d \<and> ad_allowed d)"
proof -
  from assms(1) obtain target where t: "get_governed_action s tid = Some target"
    "ga_approver_key_id target \<noteq> ga_requester_key_id rel"
    and k: "ga_approver_key_id target \<noteq> None"
    and p: "ga_action_payload rel = release_payload tid (ga_action_hash target) (ga_claimed_at target)
           (ga_approver_key_id target) reason"
    by (rule request_claim_release_Inr)
  have pend: "ga_status rel = PENDING"
    using assms(1) unfolding request_claim_release_def submit_governed_action_def Let_def
    by (auto split: sum.splits option.splits if_splits)
  have fr: "target = frozen" using t assms(2) by simp
  obtain y where y: "ga_approver_key_id frozen = Some y" using k fr by auto
  from assms(4) obtain u where auth: "require_provider_control policies' caller' = Inr u"
    by (auto simp: approve_claim_release_def split: sum.splits)
  have nr: "\<not> already_released h (Some rel)" using pend by (simp add: already_released_def)
  from assms(4) auth nr assms(3) obtain v where
    ref: "refuse_frozen_credential caller' (Some (payload_str (ga_action_payload rel) ''frozen_approver_key_id'')) = Inr v"
    and ap: "\<exists>e' s'. approve_and_execute sha caller' nid (ga_target rel) h rebuild_release_payload by'
        (execute_release (Some rel)) resume readings now' s2 = Some (Inr e', s')"
    by (auto simp: approve_claim_release_def Let_def split: sum.splits option.splits prod.splits)
  from ref p fr y have "ac_credential_key_id caller' \<noteq> Some y"
    by (auto simp: refuse_frozen_credential_def split: if_splits)
  moreover from ap obtain r resuming where
    chk: "approve_check sha caller' nid (ga_target rel) h (rebuild_release_payload s2) resume s2 = Inr (r, resuming)"
    by (blast elim: approve_and_execute_Inr)
  have "ac_credential_key_id caller' \<noteq> ga_requester_key_id rel"
    using approve_checkD(1,6) [OF chk] assms(3) by simp
  ultimately show ?thesis
    using t fr y require_provider_control_Inr [OF auth] by auto
qed

text \<open>
  Release and resume exclude each other: once the frozen credential's resume has rotated the claim
  instant, a release pinned to the old instant fails and changes nothing; once the release has landed, the
  resume fails and changes nothing.
\<close>

theorem release_and_resume_exclude_each_other:
  assumes "get_governed_action s tid = Some target"
    and "ga_status target = CLAIMED" and "ga_claimed_at target = Some t" and "rot \<noteq> t"
    and "payload_str (ga_action_payload rel) ''target_action_id'' = tid"
    and "payload_str (ga_action_payload rel) ''target_claimed_at'' = t"
  shows "(\<exists>c s1. claim_resumed tid rot target s = (Inr c, s1)
           \<and> execute_release ex rel s1 = (Inl (HTTPException 409 ''claim_changed_hands''), s1))
    \<and> (\<exists>p s1. execute_release ex rel s = (Inr p, s1)
           \<and> claim_resumed tid rot target s1 = (Inl (HTTPException 409 ''changed_hands''), s1))"
  using assms
  by (auto simp: claim_resumed_def execute_release_def released_record_def governed_store_defs Let_def)

text \<open>
  C13. A release whose process died between its effect and its finalization can never be finished: the
  target has left the claim the release is pinned to, so every approval of the release, resumed or not,
  returns an error, changes nothing but the release's own claim instant and leaves the release CLAIMED.
\<close>

theorem interrupted_release_never_completes:
  assumes "get_governed_action s nid = Some rel" and "ga_status rel = CLAIMED"
    and "get_governed_action s (payload_str (ga_action_payload rel) ''target_action_id'') = Some target"
    and "payload_str (ga_action_payload rel) ''target_action_id'' \<noteq> nid"
    and "ga_status target \<noteq> CLAIMED
         \<or> ga_claimed_at target \<noteq> Some (payload_str (ga_action_payload rel) ''target_claimed_at'')"
    and "approve_claim_release sha policies caller nid h by resume readings now s = Some (res, s')"
  shows "(\<exists>e. res = Inl e)
    \<and> (\<exists>t. governed_actions s' = governed_actions s
            \<or> governed_actions s' = dict_put nid (rel\<lparr>ga_claimed_at := t\<rparr>) (governed_actions s))"
proof -
  have nr: "\<not> already_released h (Some rel)" using assms(2) by (simp add: already_released_def)
  have ap: "\<exists>e. r = Inl e \<and> (w = s \<or> (\<exists>t. governed_actions w
        = dict_put nid (rel\<lparr>ga_claimed_at := t\<rparr>) (governed_actions s)))"
    if "approve_and_execute sha caller nid (ga_target rel) h rebuild_release_payload by
         (execute_release (Some rel)) resume readings now s = Some (r, w)" for r w
    by (rule stuck_release_run [OF assms(1-5) that])
  from assms(6) nr assms(1) ap show ?thesis
    by (auto simp: approve_claim_release_def Let_def split: sum.splits option.splits prod.splits)
qed

section \<open>Concrete runs\<close>

text \<open>
  An erasure requested under key-a and frozen under key-b, a release requested under key-c and approved
  under key-d, and the same release interrupted after its effect.
\<close>

definition frozen_store :: provider_ops_store where
  "frozen_store = snd (claim_pending (sample_caller ''key-b'') ''gact_1'' None ''t2'' sample_pending sample_store)"

definition frozen_record :: governed_action where
  "frozen_record = the (get_governed_action frozen_store ''gact_1'')"

definition release_request :: "governed_action result \<times> provider_ops_store" where
  "release_request = request_claim_release sample_sha init_policy_store (sample_caller ''key-c'') ''gact_1''
     ''key lost'' None ''gact_2'' ''t4'' frozen_store"

definition release_record :: governed_action where
  "release_record = projr (fst release_request)"

definition release_claim :: "governed_action result \<times> provider_ops_store" where
  "release_claim = claim_pending (sample_caller ''key-d'') ''gact_2'' None ''t5'' release_record
     (snd release_request)"

definition interrupted_store :: provider_ops_store where
  "interrupted_store = snd (execute_release (Some release_record) (projr (fst release_claim)) (snd release_claim))"

theorem claim_release_needs_three_credentials_witness:
  "ga_approver_key_id frozen_record = Some ''key-b'' \<and> ga_requester_key_id release_record = Some ''key-c''
   \<and> ga_requester_key_id release_record \<noteq> ga_approver_key_id frozen_record"
proof -
  have 1: "request_claim_release sample_sha init_policy_store (sample_caller ''key-c'') ''gact_1''
     ''key lost'' None ''gact_2'' ''t4'' frozen_store = (Inr release_record, snd release_request)" by code_simp
  have 2: "get_governed_action frozen_store ''gact_1'' = Some frozen_record" by code_simp
  have 3: "get_governed_action (snd release_request) ''gact_2'' = Some release_record" by code_simp
  let ?r = "approve_claim_release sample_sha init_policy_store (sample_caller ''key-d'') ''gact_2'' ''digest''
     None False [''t6''] ''t7'' (snd release_request)"
  have 4: "?r = Some (Inr (fst (projr (fst (the ?r))), snd (projr (fst (the ?r)))), snd (the ?r))" by code_simp
  have "ga_approver_key_id frozen_record = Some ''key-b'' \<and> ga_requester_key_id release_record = Some ''key-c''"
    by code_simp
  with claim_release_needs_three_credentials [OF 1 2 3 4] show ?thesis by blast
qed

theorem release_and_resume_exclude_each_other_witness:
  "\<exists>c s1. claim_resumed ''gact_1'' ''t9'' frozen_record frozen_store = (Inr c, s1)
     \<and> execute_release None release_record s1 = (Inl (HTTPException 409 ''claim_changed_hands''), s1)"
proof -
  have "get_governed_action frozen_store ''gact_1'' = Some frozen_record"
    "ga_status frozen_record = CLAIMED" "ga_claimed_at frozen_record = Some ''t2''" "''t9'' \<noteq> ''t2''"
    "payload_str (ga_action_payload release_record) ''target_action_id'' = ''gact_1''"
    "payload_str (ga_action_payload release_record) ''target_claimed_at'' = ''t2''"
    by code_simp+
  from release_and_resume_exclude_each_other [OF this] show ?thesis by blast
qed

theorem interrupted_release_never_completes_witness:
  "\<exists>e s'. approve_claim_release sample_sha init_policy_store (sample_caller ''key-d'') ''gact_2'' ''digest''
     None True [''t6''] ''t7'' interrupted_store = Some (Inl e, s')"
proof -
  let ?rel = "the (get_governed_action interrupted_store ''gact_2'')"
  let ?tgt = "the (get_governed_action interrupted_store ''gact_1'')"
  let ?run = "approve_claim_release sample_sha init_policy_store (sample_caller ''key-d'') ''gact_2'' ''digest''
     None True [''t6''] ''t7'' interrupted_store"
  have 1: "get_governed_action interrupted_store ''gact_2'' = Some ?rel" by code_simp
  have 2: "ga_status ?rel = CLAIMED" by code_simp
  have 3: "get_governed_action interrupted_store
      (payload_str (ga_action_payload ?rel) ''target_action_id'') = Some ?tgt" by code_simp
  have 4: "payload_str (ga_action_payload ?rel) ''target_action_id'' \<noteq> ''gact_2''" by code_simp
  have 5: "ga_status ?tgt \<noteq> CLAIMED
      \<or> ga_claimed_at ?tgt \<noteq> Some (payload_str (ga_action_payload ?rel) ''target_claimed_at'')" by code_simp
  have 6: "?run = Some (fst (the ?run), snd (the ?run))" by code_simp
  from interrupted_release_never_completes [OF 1 2 3 4 5 6] obtain e where "fst (the ?run) = Inl e" by blast
  with 6 show ?thesis by metis
qed

end
