(* ===== verification/Governed_Concurrency.thy ===== *)
theory Governed_Concurrency
  imports Claim_Release
begin

text \<open>
  Approval sessions running concurrently over one ledger. A session validates an action (\<open>Checked\<close>), wins or
  loses the claim, holds it while its domain effect runs (\<open>Holding\<close>), and finalizes; it may crash or be refused
  at any point, and requests, system-originated records, claim releases and other domain writes interleave
  freely with it. Every rule applies the operation of the source to the store as it is at that moment.

  \<open>gs_clock\<close> is the last instant read from the clock and \<open>stamp\<close> the text of an instant. The clock never runs
  backwards, but a claim may read the very instant of an earlier one, and read it again and again: the
  rotation of a resumed claim is what keeps claims apart. A release takes effect in a later instant
  than the claims made before it; it is an action requested and approved after the claim it releases.
\<close>

datatype phase = Checked string governed_action bool | Holding string governed_action

record gov_system =
  gs_store :: provider_ops_store
  gs_sessions :: "nat \<Rightarrow> (authenticated_caller \<times> phase) option"
  gs_clock :: nat

definition init_gov_system :: gov_system where
  "init_gov_system = \<lparr>gs_store = empty_ops_store, gs_sessions = (\<lambda>_. None), gs_clock = 0\<rparr>"

inductive gov_step :: "(payload \<Rightarrow> string) \<Rightarrow> (nat \<Rightarrow> timestamp) \<Rightarrow> gov_system \<Rightarrow> gov_system \<Rightarrow> bool" for sha stamp where
  submit: "submit_governed_action sha caller typ target p attr nid now (gs_store g) = (Inr r, st) \<Longrightarrow>
     get_governed_action (gs_store g) nid = None \<Longrightarrow>
     gov_step sha stamp g (g\<lparr>gs_store := st\<rparr>)"
| system: "record_system_originated_action sha svc typ target p nid t1 t2 (gs_store g) = (Inr r, st) \<Longrightarrow>
     get_governed_action (gs_store g) nid = None \<Longrightarrow>
     gov_step sha stamp g (g\<lparr>gs_store := st\<rparr>)"
| check: "approve_check sha caller aid tgt h rebuild resume (gs_store g) = Inr (r, resuming) \<Longrightarrow>
     gs_sessions g i = None \<Longrightarrow>
     gov_step sha stamp g (g\<lparr>gs_sessions := (gs_sessions g)(i \<mapsto> (caller, Checked aid r resuming))\<rparr>)"
| claim: "gs_sessions g i = Some (caller, Checked aid r resuming) \<Longrightarrow>
     claim_step caller aid attr (map stamp ns) r resuming (gs_store g) = Some (Inr c, st) \<Longrightarrow>
     sorted (gs_clock g # ns) \<Longrightarrow>
     gov_step sha stamp g (g\<lparr>gs_store := st,
       gs_sessions := (gs_sessions g)(i \<mapsto> (caller, Holding aid c)),
       gs_clock := last (gs_clock g # ns)\<rparr>)"
| domain: "governed_actions st = governed_actions (gs_store g) \<Longrightarrow>
     gov_step sha stamp g (g\<lparr>gs_store := st\<rparr>)"
| release: "gs_sessions g i = Some (caller, Holding aid c) \<Longrightarrow>
     execute_release existing c (gs_store g) = (Inr p, st) \<Longrightarrow>
     gs_clock g < n \<Longrightarrow>
     gov_step sha stamp g (g\<lparr>gs_store := st, gs_clock := n\<rparr>)"
| finalize: "gs_sessions g i = Some (caller, Holding aid c) \<Longrightarrow>
     finalize_step aid c p now (gs_store g) = (Inr e, st) \<Longrightarrow>
     gov_step sha stamp g (g\<lparr>gs_store := st, gs_sessions := (gs_sessions g)(i := None)\<rparr>)"
| leave: "gov_step sha stamp g (g\<lparr>gs_sessions := (gs_sessions g)(i := None)\<rparr>)"

inductive gov_reachable :: "(payload \<Rightarrow> string) \<Rightarrow> (nat \<Rightarrow> timestamp) \<Rightarrow> gov_system \<Rightarrow> bool" for sha stamp where
  start: "gov_reachable sha stamp init_gov_system"
| step: "gov_reachable sha stamp g \<Longrightarrow> gov_step sha stamp g g' \<Longrightarrow> gov_reachable sha stamp g'"

section \<open>The invariant\<close>

text \<open>What no transition ever rewrites.\<close>

definition action_core where
  "action_core r = (ga_action_id r, ga_action_type r, ga_actor_class r, ga_target r,
     ga_action_hash r, ga_action_payload r, ga_requester_key_id r)"

definition distinct_credentials :: "governed_action \<Rightarrow> bool" where
  "distinct_credentials r \<longleftrightarrow> verified_key (ga_requester_key_id r)
     \<and> verified_key (ga_approver_key_id r) \<and> ga_approver_key_id r \<noteq> ga_requester_key_id r"

definition action_ok :: "(payload \<Rightarrow> string) \<Rightarrow> governed_action \<Rightarrow> bool" where
  "action_ok sha r \<longleftrightarrow> ga_action_hash r = compute_governed_action_hash sha (ga_action_payload r) \<and>
     (case ga_actor_class r of
        HUMAN_APPROVED \<Rightarrow> verified_key (ga_requester_key_id r)
          \<and> (ga_status r = CLAIMED \<or> ga_status r = EXECUTED \<longrightarrow>
               distinct_credentials r \<and> ga_claimed_at r \<noteq> None)
      | SYSTEM_ORIGINATED \<Rightarrow> ga_status r = EXECUTED \<and> ga_approver_key_id r = None
          \<and> ga_action_type r \<notin> set human_governed_action_types)"

fun session_ok :: "(payload \<Rightarrow> string) \<Rightarrow> provider_ops_store \<Rightarrow> authenticated_caller \<times> phase \<Rightarrow> bool" where
  "session_ok sha st (caller, Checked aid r resuming) \<longleftrightarrow>
     (\<exists>cur. get_governed_action st aid = Some cur \<and> action_core cur = action_core r)
     \<and> ga_action_id r = aid \<and> action_ok sha r \<and> ga_actor_class r = HUMAN_APPROVED
     \<and> verified_key (ac_credential_key_id caller)
     \<and> ac_credential_key_id caller \<noteq> ga_requester_key_id r
     \<and> (resuming \<longrightarrow> ga_status r = CLAIMED)"
| "session_ok sha st (caller, Holding aid c) \<longleftrightarrow>
     (\<exists>cur. get_governed_action st aid = Some cur \<and> action_core cur = action_core c)
     \<and> ga_action_id c = aid \<and> action_ok sha c \<and> ga_actor_class c = HUMAN_APPROVED
     \<and> ga_status c = CLAIMED \<and> ga_claimed_at c \<noteq> None"

definition ledger_ok :: "(payload \<Rightarrow> string) \<Rightarrow> provider_ops_store \<Rightarrow> bool" where
  "ledger_ok sha st \<longleftrightarrow> dict_wf (governed_actions st) \<and>
     (\<forall>aid r. get_governed_action st aid = Some r \<longrightarrow> ga_action_id r = aid \<and> action_ok sha r)"

definition gov_inv :: "(payload \<Rightarrow> string) \<Rightarrow> gov_system \<Rightarrow> bool" where
  "gov_inv sha g \<longleftrightarrow> ledger_ok sha (gs_store g)
     \<and> (\<forall>i ses. gs_sessions g i = Some ses \<longrightarrow> session_ok sha (gs_store g) ses)"

text \<open>A store write is harmless when it keeps the core of every action it touches and writes sound records.\<close>

definition core_preserving :: "provider_ops_store \<Rightarrow> provider_ops_store \<Rightarrow> bool" where
  "core_preserving st st' \<longleftrightarrow>
     (\<forall>aid r. get_governed_action st aid = Some r \<longrightarrow>
        (\<exists>r'. get_governed_action st' aid = Some r' \<and> action_core r' = action_core r))"

lemma session_ok_core:
  "session_ok sha st ses \<Longrightarrow> core_preserving st st' \<Longrightarrow> session_ok sha st' ses"
  by (cases "(sha, st, ses)" rule: session_ok.cases) (fastforce simp: core_preserving_def)+

lemma gov_inv_store:
  assumes "gov_inv sha g" and "ledger_ok sha st'" and "core_preserving (gs_store g) st'"
  shows "gov_inv sha (g\<lparr>gs_store := st'\<rparr>)"
  using assms by (auto simp: gov_inv_def intro: session_ok_core)

lemma gov_inv_session:
  "gov_inv sha g \<Longrightarrow> gs_sessions g i = Some ses \<Longrightarrow> session_ok sha (gs_store g) ses"
  unfolding gov_inv_def by blast

lemma gov_inv_drop_session:
  "gov_inv sha g \<Longrightarrow> gov_inv sha (g\<lparr>gs_sessions := (gs_sessions g)(i := None)\<rparr>)"
  by (auto simp: gov_inv_def split: if_splits)

lemma ledger_put:
  assumes "ledger_ok sha st" and "ga_action_id r = aid" and "action_ok sha r"
  shows "ledger_ok sha (st\<lparr>governed_actions := dict_put aid r (governed_actions st)\<rparr>)"
  using assms by (auto simp: ledger_ok_def get_governed_action_def)

lemma core_put:
  assumes "get_governed_action st aid = None \<or>
     (\<exists>c. get_governed_action st aid = Some c \<and> action_core c = action_core r)"
  shows "core_preserving st (st\<lparr>governed_actions := dict_put aid r (governed_actions st)\<rparr>)"
  using assms by (auto simp: core_preserving_def get_governed_action_def)

lemma core_preserving_trans:
  "core_preserving a b \<Longrightarrow> core_preserving b c \<Longrightarrow> core_preserving a c"
  by (fastforce simp: core_preserving_def)

lemma core_preserving_refl: "core_preserving a a"
  by (simp add: core_preserving_def)

section \<open>Every step keeps the invariant\<close>

lemma pending_is_stored:
  assumes "ledger_ok sha st" and "get_pending_governed_action st typ target = Some prior"
  shows "get_governed_action st (ga_action_id prior) = Some prior" and "ga_status prior = PENDING"
    and "ga_action_type prior = typ" and "ga_target prior = target"
proof -
  from assms(2) have mem: "prior \<in> set (dict_values (governed_actions st))"
    and "ga_status prior = PENDING \<and> ga_action_type prior = typ \<and> ga_target prior = target"
    unfolding get_pending_governed_action_def by (auto dest: find_Some_iff_list)
  then show "ga_status prior = PENDING" "ga_action_type prior = typ" "ga_target prior = target"
    by simp_all
  have "dict_wf (governed_actions st)" using assms(1) by (simp add: ledger_ok_def)
  with mem obtain k where "get_governed_action st k = Some prior"
    unfolding get_governed_action_def using dict_value_iff_get by metis
  moreover from this assms(1) have "ga_action_id prior = k" by (auto simp: ledger_ok_def)
  ultimately show "get_governed_action st (ga_action_id prior) = Some prior" by simp
qed

lemma transition_same_core:
  assumes "ledger_ok sha st" and "get_governed_action st aid = Some c"
    and "transition_governed_action aid stat r t st = (b, st')"
    and "action_core r = action_core c" and "action_ok sha r"
  shows "ledger_ok sha st' \<and> core_preserving st st'"
proof (cases b)
  case True
  with assms(3) have st': "st' = st\<lparr>governed_actions := dict_put aid r (governed_actions st)\<rparr>"
    by (auto elim: transition_True)
  from assms(1,2) have "ga_action_id c = aid" by (auto simp: ledger_ok_def)
  with assms(4) have "ga_action_id r = aid" by (simp add: action_core_def)
  then show ?thesis using assms st' by (auto intro!: ledger_put core_put)
next
  case False
  with assms(3) have "st' = st" by (auto dest: transition_False)
  then show ?thesis using assms(1) by (simp add: core_preserving_refl)
qed

lemma upsert_fresh:
  assumes "ledger_ok sha st" and "get_governed_action st (ga_action_id r) = None" and "action_ok sha r"
  shows "ledger_ok sha (upsert_governed_action r st) \<and> core_preserving st (upsert_governed_action r st)"
  using assms unfolding upsert_governed_action_def by (auto intro!: ledger_put core_put)

lemma action_ok_superseded:
  "action_ok sha r \<Longrightarrow> ga_status r = PENDING \<Longrightarrow>
     action_ok sha (r\<lparr>ga_status := SUPERSEDED, ga_superseded_by_action_id := x\<rparr>)"
  by (auto simp: action_ok_def split: actor_class.splits)

lemma transition_other: "k \<noteq> aid \<Longrightarrow>
  get_governed_action (snd (transition_governed_action aid stat r t st)) k = get_governed_action st k"
  by (auto simp: governed_store_defs split: option.splits)

lemma submit_ledger:
  assumes "ledger_ok sha st" and "get_governed_action st nid = None"
    and "submit_governed_action sha caller typ target p attr nid now st = (Inr r, st')"
  shows "ledger_ok sha st' \<and> core_preserving st st'"
proof -
  from assms(3) obtain u where u: "require_verified_governing_credential caller = Inr u"
    by (auto simp: submit_governed_action_def split: sum.splits)
  define s1 where "s1 = (case get_pending_governed_action st typ target of None \<Rightarrow> st
     | Some prior \<Rightarrow> snd (transition_governed_action (ga_action_id prior) PENDING
         (prior\<lparr>ga_status := SUPERSEDED, ga_superseded_by_action_id := Some nid\<rparr>) None st))"
  from assms(3) u have r: "st' = upsert_governed_action r s1" "ga_action_id r = nid" "action_ok sha r"
    by (auto simp: submit_governed_action_def s1_def Let_def action_ok_def dest: verified_credentialD)
  have s1: "ledger_ok sha s1 \<and> core_preserving st s1 \<and> get_governed_action s1 nid = None"
  proof (cases "get_pending_governed_action st typ target")
    case None
    then show ?thesis using assms(1,2) by (simp add: s1_def core_preserving_refl)
  next
    case (Some prior)
    note stored = pending_is_stored [OF assms(1) Some]
    let ?new = "prior\<lparr>ga_status := SUPERSEDED, ga_superseded_by_action_id := Some nid\<rparr>"
    obtain b st1 where t: "transition_governed_action (ga_action_id prior) PENDING ?new None st = (b, st1)"
      by fastforce
    have "action_ok sha prior" using assms(1) stored(1) by (auto simp: ledger_ok_def)
    then have "ledger_ok sha st1 \<and> core_preserving st st1"
      using stored by (intro transition_same_core [OF assms(1) stored(1) t])
        (auto simp: action_core_def action_ok_superseded)
    moreover have "nid \<noteq> ga_action_id prior" using assms(2) stored(1) by auto
    then have "get_governed_action st1 nid = None" using transition_other [of nid "ga_action_id prior"] t assms(2)
      by (metis snd_conv)
    ultimately show ?thesis using Some t by (simp add: s1_def)
  qed
  then show ?thesis using upsert_fresh [of sha s1 r] r core_preserving_trans by metis
qed

lemma system_ledger:
  assumes "ledger_ok sha st" and "get_governed_action st nid = None"
    and "record_system_originated_action sha svc typ target p nid t1 t2 st = (Inr r, st')"
  shows "ledger_ok sha st' \<and> core_preserving st st'"
proof -
  from assms(3) have "st' = upsert_governed_action r st" "ga_action_id r = nid" "action_ok sha r"
    by (auto simp: record_system_originated_action_def action_ok_def Let_def split: if_splits)
  then show ?thesis using assms(1,2) upsert_fresh by metis
qed

lemma action_ok_claimed:
  assumes "verified_key (ga_requester_key_id r)" and "ga_actor_class r = HUMAN_APPROVED"
    and "verified_key k" and "k \<noteq> ga_requester_key_id r" and "ga_action_hash r = compute_governed_action_hash sha (ga_action_payload r)"
  shows "action_ok sha (r\<lparr>ga_status := CLAIMED, ga_approver_caller_app := a, ga_approver_trust_source := b,
     ga_approver_key_id := k, ga_approver_attribution := d, ga_approved_at := e,
     ga_claimed_at := Some t\<rparr>)"
  using assms by (simp add: action_ok_def distinct_credentials_def)

lemma claim_step_facts:
  assumes "claim_step caller aid attr readings r resuming st = Some (Inr c, st')"
    and "action_ok sha r" and "ga_actor_class r = HUMAN_APPROVED"
    and "verified_key (ac_credential_key_id caller)"
    and "ac_credential_key_id caller \<noteq> ga_requester_key_id r"
    and "resuming \<longrightarrow> ga_status r = CLAIMED"
  shows "action_ok sha c" and "ga_status c = CLAIMED" and "action_core c = action_core r"
    and "ga_actor_class c = HUMAN_APPROVED"
    and "\<exists>t \<in> set readings. ga_claimed_at c = Some t"
    and "st' = st\<lparr>governed_actions := dict_put aid c (governed_actions st)\<rparr>"
proof -
  have "action_ok sha c \<and> ga_status c = CLAIMED \<and> action_core c = action_core r
    \<and> ga_actor_class c = HUMAN_APPROVED \<and> (\<exists>t \<in> set readings. ga_claimed_at c = Some t)
    \<and> st' = st\<lparr>governed_actions := dict_put aid c (governed_actions st)\<rparr>"
  proof (cases resuming)
    case True
    with assms(1) obtain t where t: "rotate_claim_instant (ga_claimed_at r) readings = Some t"
      and c: "claim_resumed aid t r st = (Inr c, st')"
      by (auto simp: claim_step_def)
    from c have "c = r\<lparr>ga_claimed_at := Some t\<rparr>"
      and "st' = st\<lparr>governed_actions := dict_put aid c (governed_actions st)\<rparr>"
      by (auto simp: claim_resumed_def Let_def split: if_splits prod.splits bool.splits
          elim!: transition_True)
    with t True assms(2,3,6) show ?thesis
      by (auto simp: action_ok_def distinct_credentials_def action_core_def
          dest: rotate_claim_instant_differs)
  next
    case False
    with assms(1) obtain t ts where t: "readings = t # ts"
      and c: "claim_pending caller aid attr t r st = (Inr c, st')"
      by (auto simp: claim_step_def split: list.splits)
    from c have c': "c = r\<lparr>ga_status := CLAIMED, ga_approver_caller_app := Some (ac_caller_app caller),
        ga_approver_trust_source := Some (ac_trust_source caller),
        ga_approver_key_id := ac_credential_key_id caller, ga_approver_attribution := attr,
        ga_approved_at := Some t, ga_claimed_at := Some t\<rparr>"
      and st': "st' = st\<lparr>governed_actions := dict_put aid c (governed_actions st)\<rparr>"
      by (auto simp: claim_pending_def Let_def split: prod.splits bool.splits elim!: transition_True)
    have "verified_key (ga_requester_key_id r)" "ga_action_hash r = compute_governed_action_hash sha (ga_action_payload r)"
      using assms(2,3) by (simp_all add: action_ok_def)
    with c' assms(3-5) have "action_ok sha c" by (simp add: action_ok_claimed)
    with c' st' t assms(3) show ?thesis by (simp add: action_core_def)
  qed
  then show "action_ok sha c" and "ga_status c = CLAIMED" and "action_core c = action_core r"
    and "ga_actor_class c = HUMAN_APPROVED" and "\<exists>t \<in> set readings. ga_claimed_at c = Some t"
    and "st' = st\<lparr>governed_actions := dict_put aid c (governed_actions st)\<rparr>"
    by blast+
qed

lemma gov_inv_claim:
  assumes inv: "gov_inv sha g" and ses: "gs_sessions g i = Some (caller, Checked aid r resuming)"
    and cl: "claim_step caller aid attr readings r resuming (gs_store g) = Some (Inr c, st)"
  shows "gov_inv sha (g\<lparr>gs_store := st, gs_sessions := (gs_sessions g)(i \<mapsto> (caller, Holding aid c)), gs_clock := n\<rparr>)"
proof -
  from inv ses have ok: "session_ok sha (gs_store g) (caller, Checked aid r resuming)"
    by (rule gov_inv_session)
  then have pre: "action_ok sha r" "ga_actor_class r = HUMAN_APPROVED"
      "verified_key (ac_credential_key_id caller)"
      "ac_credential_key_id caller \<noteq> ga_requester_key_id r" "resuming \<longrightarrow> ga_status r = CLAIMED"
    by auto
  note c = claim_step_facts [OF cl pre]
  from ok obtain cur where cur: "get_governed_action (gs_store g) aid = Some cur"
    "action_core cur = action_core c" and id: "ga_action_id c = aid"
    using c(3) by (auto simp: action_core_def)
  have led: "ledger_ok sha st" using inv c(1,6) id by (auto simp: gov_inv_def intro!: ledger_put)
  have core: "core_preserving (gs_store g) st" unfolding c(6) using cur by (intro core_put) auto
  have others: "session_ok sha st ses'" if "gs_sessions g k = Some ses'" for k ses'
    using session_ok_core [OF gov_inv_session [OF inv that] core] .
  have mine: "session_ok sha st (caller, Holding aid c)"
    using c id by (auto simp: get_governed_action_def)
  then show ?thesis using led others by (auto simp: gov_inv_def split: if_splits)
qed

lemma action_ok_released:
  "action_ok sha r \<Longrightarrow> ga_status r = CLAIMED \<Longrightarrow> action_ok sha (released_record r)"
  by (auto simp: action_ok_def released_record_def split: actor_class.splits)

lemma release_ledger:
  assumes "ledger_ok sha st" and "execute_release existing c st = (Inr p, st')"
  shows "ledger_ok sha st' \<and> core_preserving st st'"
proof -
  obtain target tid where t: "get_governed_action st tid = Some target" "ga_status target = CLAIMED"
    "st' = st\<lparr>governed_actions := dict_put tid (released_record target) (governed_actions st)\<rparr>"
    using execute_release_Inr [OF assms(2)] by (auto simp: Let_def)
  with assms(1) have "ga_action_id target = tid" "action_ok sha target" by (auto simp: ledger_ok_def)
  moreover have "action_core (released_record target) = action_core target"
    and "ga_action_id (released_record target) = ga_action_id target"
    by (simp_all add: released_record_def action_core_def)
  ultimately show ?thesis using t assms(1) by (auto intro!: ledger_put core_put action_ok_released)
qed

lemma finalize_ledger:
  assumes "ledger_ok sha st" and "session_ok sha st (caller, Holding aid c)"
    and "finalize_step aid c p now st = (Inr e, st')"
  shows "ledger_ok sha st' \<and> core_preserving st st'"
proof -
  from assms(3) have e: "e = c\<lparr>ga_status := EXECUTED, ga_executed_at := Some now, ga_result_payload := p\<rparr>"
    and t: "transition_governed_action aid CLAIMED e (ga_claimed_at c) st = (True, st')"
    by (auto simp: finalize_step_def Let_def split: prod.splits bool.splits)
  from assms(2) obtain cur where "get_governed_action st aid = Some cur" "action_core cur = action_core c"
    and c: "action_ok sha c" "ga_status c = CLAIMED" "ga_actor_class c = HUMAN_APPROVED" by auto
  moreover have "action_ok sha e" "action_core e = action_core c"
    using c e by (auto simp: action_ok_def action_core_def distinct_credentials_def)
  ultimately show ?thesis using transition_same_core [OF assms(1) _ t] by simp
qed

lemma gov_step_inv: "gov_step sha stamp g g' \<Longrightarrow> gov_inv sha g \<Longrightarrow> gov_inv sha g'"
proof (induction rule: gov_step.induct)
  case (submit caller ty target p attr nid now g r st)
  then show ?case using submit_ledger gov_inv_store unfolding gov_inv_def by metis
next
  case (system svc ty target p nid t1 t2 g r st)
  then show ?case using system_ledger gov_inv_store unfolding gov_inv_def by metis
next
  case (check caller aid tgt h rebuild resume g r resuming i)
  note d = approve_checkD [OF check(1)]
  have "ledger_ok sha (gs_store g)" using check.prems by (simp add: gov_inv_def)
  with d have "session_ok sha (gs_store g) (caller, Checked aid r resuming)"
    by (auto simp: ledger_ok_def resuming_own_claim_def)
  then show ?case using check by (auto simp: gov_inv_def)
next
  case (claim g i caller aid r resuming attr ns c st)
  then show ?case by (intro gov_inv_claim)
next
  case (domain st g)
  then have "ledger_ok sha st" "core_preserving (gs_store g) st"
    by (auto simp: gov_inv_def ledger_ok_def core_preserving_def get_governed_action_def)
  then show ?case using domain by (intro gov_inv_store)
next
  case (release g i caller aid c existing p st n)
  then have "gov_inv sha (g\<lparr>gs_store := st\<rparr>)" using release_ledger gov_inv_store unfolding gov_inv_def by metis
  then show ?case by (simp add: gov_inv_def)
next
  case (finalize g i caller aid c p now e st)
  have "ledger_ok sha st \<and> core_preserving (gs_store g) st"
    using finalize gov_inv_session unfolding gov_inv_def by (metis finalize_ledger)
  then have "gov_inv sha (g\<lparr>gs_store := st\<rparr>)" using finalize by (intro gov_inv_store) auto
  then show ?case using gov_inv_drop_session [of sha "g\<lparr>gs_store := st\<rparr>" i] by simp
next
  case (leave g i)
  then show ?case by (rule gov_inv_drop_session)
qed

lemma gov_inv_init: "gov_inv sha init_gov_system"
  by (simp add: gov_inv_def init_gov_system_def ledger_ok_def empty_ops_store_def
      get_governed_action_def)

lemma gov_reachable_inv: "gov_reachable sha stamp g \<Longrightarrow> gov_inv sha g"
  by (induction rule: gov_reachable.induct) (auto intro: gov_inv_init gov_step_inv)

section \<open>Claims are apart\<close>

text \<open>
  The instants of the claims on one action grow: a holder's instant is at most that of the recorded claim, and
  lies before the clock once the action is pending again.
\<close>

definition holders_distinct :: "gov_system \<Rightarrow> bool" where
  "holders_distinct g \<longleftrightarrow>
     (\<forall>i j ci cj aid c c'. gs_sessions g i = Some (ci, Holding aid c) \<longrightarrow>
        gs_sessions g j = Some (cj, Holding aid c') \<longrightarrow> i \<noteq> j \<longrightarrow> ga_claimed_at c \<noteq> ga_claimed_at c')"

definition holder_before :: "(nat \<Rightarrow> timestamp) \<Rightarrow> gov_system \<Rightarrow> string \<Rightarrow> nat \<Rightarrow> bool" where
  "holder_before stamp g aid k \<longleftrightarrow> (\<forall>r. get_governed_action (gs_store g) aid = Some r \<longrightarrow>
     (ga_status r = CLAIMED \<longrightarrow> (\<exists>m. ga_claimed_at r = Some (stamp m) \<and> k \<le> m)) \<and> (ga_status r = PENDING \<longrightarrow> k < gs_clock g))"

definition clock_inv :: "(nat \<Rightarrow> timestamp) \<Rightarrow> gov_system \<Rightarrow> bool" where
  "clock_inv stamp g \<longleftrightarrow>
     (\<forall>aid r. get_governed_action (gs_store g) aid = Some r \<longrightarrow> ga_status r = CLAIMED \<longrightarrow>
        (\<exists>m \<le> gs_clock g. ga_claimed_at r = Some (stamp m)))
   \<and> (\<forall>i ci aid c. gs_sessions g i = Some (ci, Holding aid c) \<longrightarrow>
        (\<exists>k. ga_claimed_at c = Some (stamp k) \<and> holder_before stamp g aid k))
   \<and> holders_distinct g"

lemma clock_inv_holder:
  assumes "clock_inv stamp g" and "gs_sessions g i = Some (ci, Holding aid c)"
  obtains k where "ga_claimed_at c = Some (stamp k)" and "holder_before stamp g aid k"
  using assms unfolding clock_inv_def by blast

lemma clock_inv_claimed:
  assumes "clock_inv stamp g" and "get_governed_action (gs_store g) aid = Some r" and "ga_status r = CLAIMED"
  obtains m where "m \<le> gs_clock g" and "ga_claimed_at r = Some (stamp m)"
  using assms unfolding clock_inv_def by blast

text \<open>A store write that claims nothing and makes no claimed action pending again.\<close>

definition claims_nothing :: "provider_ops_store \<Rightarrow> provider_ops_store \<Rightarrow> bool" where
  "claims_nothing st st' \<longleftrightarrow> (\<forall>aid r. get_governed_action st' aid = Some r \<longrightarrow>
     (ga_status r = CLAIMED \<longrightarrow> get_governed_action st aid = Some r)
   \<and> (ga_status r = PENDING \<longrightarrow> (\<forall>r0. get_governed_action st aid = Some r0 \<longrightarrow> ga_status r0 = PENDING)))"

lemma claims_nothing_put:
  assumes "ga_status r \<noteq> CLAIMED" and "ga_status r = PENDING \<longrightarrow> get_governed_action st aid = None"
  shows "claims_nothing st (st\<lparr>governed_actions := dict_put aid r (governed_actions st)\<rparr>)"
  using assms by (auto simp: claims_nothing_def get_governed_action_def)

lemma claims_nothing_trans:
  assumes "claims_nothing a b" and "claims_nothing b c" and "\<And>k r. get_governed_action a k = Some r \<Longrightarrow> get_governed_action b k \<noteq> None"
  shows "claims_nothing a c"
  unfolding claims_nothing_def
proof (intro allI impI conjI)
  fix aid r assume r: "get_governed_action c aid = Some r"
  show "get_governed_action a aid = Some r" if "ga_status r = CLAIMED" using that r assms(1,2) unfolding claims_nothing_def by blast
  show "ga_status r0 = PENDING" if "ga_status r = PENDING" "get_governed_action a aid = Some r0" for r0
  proof -
    from assms(3) [OF that(2)] obtain r1 where b: "get_governed_action b aid = Some r1" by blast
    then have "ga_status r1 = PENDING" using assms(2) r that(1) unfolding claims_nothing_def by blast
    with b that(2) show ?thesis using assms(1) unfolding claims_nothing_def by blast
  qed
qed

lemma transition_claims_nothing:
  assumes "ga_status r \<noteq> CLAIMED" and "ga_status r \<noteq> PENDING"
  shows "claims_nothing st (snd (transition_governed_action aid stat r t st))"
proof (cases "transition_governed_action aid stat r t st")
  case (Pair b st')
  show ?thesis
  proof (cases b)
    case True
    with Pair have "st' = st\<lparr>governed_actions := dict_put aid r (governed_actions st)\<rparr>" by (auto elim: transition_True)
    then show ?thesis using Pair claims_nothing_put assms by simp
  next
    case False
    with Pair have "st' = st" by (auto dest: transition_False)
    then show ?thesis using Pair by (simp add: claims_nothing_def)
  qed
qed

lemma clock_inv_store:
  assumes "clock_inv stamp g" and "claims_nothing (gs_store g) st'"
    and "\<And>i ci aid c. gs_sessions g i = Some (ci, Holding aid c) \<Longrightarrow> get_governed_action (gs_store g) aid \<noteq> None"
  shows "clock_inv stamp (g\<lparr>gs_store := st'\<rparr>)"
proof -
  have keep: "holder_before stamp (g\<lparr>gs_store := st'\<rparr>) aid k"
    if h: "holder_before stamp g aid k" and r0: "get_governed_action (gs_store g) aid = Some r0" for aid k r0
    unfolding holder_before_def
  proof (intro allI impI)
    fix r assume "get_governed_action (gs_store (g\<lparr>gs_store := st'\<rparr>)) aid = Some r"
    then have r: "ga_status r = CLAIMED \<longrightarrow> get_governed_action (gs_store g) aid = Some r" "ga_status r = PENDING \<longrightarrow> ga_status r0 = PENDING"
      using assms(2) r0 unfolding claims_nothing_def by auto
    show "(ga_status r = CLAIMED \<longrightarrow> (\<exists>m. ga_claimed_at r = Some (stamp m) \<and> k \<le> m)) \<and> (ga_status r = PENDING \<longrightarrow> k < gs_clock (g\<lparr>gs_store := st'\<rparr>))"
      using r r0 h unfolding holder_before_def by auto
  qed
  have held: "\<exists>k. ga_claimed_at c = Some (stamp k) \<and> holder_before stamp (g\<lparr>gs_store := st'\<rparr>) aid k"
    if h: "gs_sessions g i = Some (ci, Holding aid c)" for i ci aid c
  proof -
    obtain k where "ga_claimed_at c = Some (stamp k)" "holder_before stamp g aid k" by (rule clock_inv_holder [OF assms(1) h])
    moreover obtain r0 where "get_governed_action (gs_store g) aid = Some r0" using assms(3) [OF h] by blast
    ultimately show ?thesis using keep by blast
  qed
  have "\<exists>m \<le> gs_clock g. ga_claimed_at r = Some (stamp m)"
    if "get_governed_action st' aid = Some r" "ga_status r = CLAIMED" for aid r
    using that assms(1,2) unfolding clock_inv_def claims_nothing_def by blast
  then show ?thesis using held assms(1) unfolding clock_inv_def [of stamp "g\<lparr>gs_store := st'\<rparr>"] by (simp add: clock_inv_def holders_distinct_def)
qed

lemma clock_inv_sessions:
  assumes "clock_inv stamp g" and "\<And>i ci aid c. ss i = Some (ci, Holding aid c) \<Longrightarrow> gs_sessions g i = Some (ci, Holding aid c)"
  shows "clock_inv stamp (g\<lparr>gs_sessions := ss\<rparr>)"
proof -
  have hb: "holder_before stamp (g\<lparr>gs_sessions := ss\<rparr>) aid k = holder_before stamp g aid k" for aid k by (simp add: holder_before_def)
  have "holders_distinct (g\<lparr>gs_sessions := ss\<rparr>)"
    using assms unfolding clock_inv_def holders_distinct_def by simp (metis (no_types))
  moreover have "\<exists>k. ga_claimed_at c = Some (stamp k) \<and> holder_before stamp g aid k" if "ss i = Some (ci, Holding aid c)" for i ci aid c
    using clock_inv_holder [OF assms(1) assms(2) [OF that]] by blast
  ultimately show ?thesis using assms(1) unfolding clock_inv_def hb by simp
qed

lemma claim_replaces:
  assumes "claim_step caller aid attr ts r resuming st = Some (Inr c, st')"
  shows "\<exists>cur. get_governed_action st aid = Some cur \<and>
     (ga_status cur = PENDING \<or> ga_status cur = CLAIMED \<and> ga_claimed_at cur \<noteq> ga_claimed_at c)"
    and "\<exists>t \<in> set ts. ga_claimed_at c = Some t"
    and "st' = st\<lparr>governed_actions := dict_put aid c (governed_actions st)\<rparr>"
proof -
  have "(\<exists>cur. get_governed_action st aid = Some cur \<and>
       (ga_status cur = PENDING \<or> ga_status cur = CLAIMED \<and> ga_claimed_at cur \<noteq> ga_claimed_at c))
     \<and> (\<exists>t \<in> set ts. ga_claimed_at c = Some t)
     \<and> st' = st\<lparr>governed_actions := dict_put aid c (governed_actions st)\<rparr>"
  proof (cases resuming)
    case True
    with assms obtain t where t: "rotate_claim_instant (ga_claimed_at r) ts = Some t"
      and c: "claim_resumed aid t r st = (Inr c, st')" by (auto simp: claim_step_def)
    from c have "c = r\<lparr>ga_claimed_at := Some t\<rparr>" "ga_claimed_at r \<noteq> None"
      "transition_governed_action aid CLAIMED c (ga_claimed_at r) st = (True, st')"
      by (auto simp: claim_resumed_def Let_def split: if_splits prod.splits bool.splits)
    then show ?thesis using True rotate_claim_instant_differs [OF t] by (auto elim!: transition_True)
  next
    case False
    with assms show ?thesis
      by (auto simp: claim_step_def claim_pending_def Let_def split: list.splits prod.splits bool.splits elim!: transition_True)
  qed
  then show "\<exists>cur. get_governed_action st aid = Some cur \<and>
     (ga_status cur = PENDING \<or> ga_status cur = CLAIMED \<and> ga_claimed_at cur \<noteq> ga_claimed_at c)"
    "\<exists>t \<in> set ts. ga_claimed_at c = Some t"
    "st' = st\<lparr>governed_actions := dict_put aid c (governed_actions st)\<rparr>" by blast+
qed

lemma sorted_last_greatest: "sorted xs \<Longrightarrow> x \<in> set xs \<Longrightarrow> x \<le> last xs" for x :: nat
  by (induction xs) auto

text \<open>The claim carries an instant after that of every holder: this is where the rotation is needed.\<close>

lemma clock_inv_claim:
  assumes "inj stamp" and inv: "clock_inv stamp g" and ses: "gs_sessions g i = Some (caller, Checked aid r resuming)"
    and cl: "claim_step caller aid attr (map stamp ns) r resuming (gs_store g) = Some (Inr c, st)"
    and clk: "sorted (gs_clock g # ns)" and stc: "ga_status c = CLAIMED"
  shows "clock_inv stamp (g\<lparr>gs_store := st, gs_sessions := (gs_sessions g)(i \<mapsto> (caller, Holding aid c)),
     gs_clock := last (gs_clock g # ns)\<rparr>)" (is "clock_inv stamp ?g")
proof -
  note c = claim_replaces [OF cl]
  obtain n where n: "n \<in> set ns" "ga_claimed_at c = Some (stamp n)" using c(2) by auto
  have ge: "gs_clock g \<le> n" using clk n(1) by simp
  have le: "n \<le> last (gs_clock g # ns)" using sorted_last_greatest [OF clk] n(1) by simp
  have clock: "gs_clock g \<le> last (gs_clock g # ns)" using ge le by simp
  have earlier: "\<exists>k<n. ga_claimed_at c' = Some (stamp k)" if h: "gs_sessions g j = Some (cj, Holding aid c')" for j cj c'
  proof -
    obtain k where k: "ga_claimed_at c' = Some (stamp k)" "holder_before stamp g aid k" by (rule clock_inv_holder [OF inv h])
    obtain cur where cur: "get_governed_action (gs_store g) aid = Some cur"
      "ga_status cur = PENDING \<or> ga_status cur = CLAIMED \<and> ga_claimed_at cur \<noteq> ga_claimed_at c" using c(1) by blast
    from cur(2) have "k < n"
    proof
      assume "ga_status cur = PENDING"
      then show ?thesis using k(2) cur(1) ge unfolding holder_before_def by fastforce
    next
      assume cl: "ga_status cur = CLAIMED \<and> ga_claimed_at cur \<noteq> ga_claimed_at c"
      then obtain m where m: "ga_claimed_at cur = Some (stamp m)" "k \<le> m" using k(2) cur(1) unfolding holder_before_def by blast
      obtain m' where "m' \<le> gs_clock g" "ga_claimed_at cur = Some (stamp m')" by (rule clock_inv_claimed [OF inv cur(1)]) (use cl in blast)
      then have "m \<le> gs_clock g" using m assms(1) by (auto dest: injD)
      moreover have "m \<noteq> n" using m cl n(2) by auto
      ultimately show ?thesis using m ge by simp
    qed
    then show ?thesis using k(1) by blast
  qed
  have stored: "get_governed_action st k = (if k = aid then Some c else get_governed_action (gs_store g) k)" for k
    using c(3) by (simp add: get_governed_action_def)
  have claimed: "ga_status c' = CLAIMED \<Longrightarrow> \<exists>m \<le> last (gs_clock g # ns). ga_claimed_at c' = Some (stamp m)"
    if "get_governed_action st k = Some c'" for k c'
    using that stored n(2) le clock inv unfolding clock_inv_def by (metis option.inject order_trans)
  have held: "\<exists>k. ga_claimed_at c' = Some (stamp k) \<and> holder_before stamp ?g a k"
    if "gs_sessions ?g j = Some (cj, Holding a c')" for j cj a c'
  proof (cases "j = i")
    case True
    then have "a = aid" "c' = c" using that by auto
    then show ?thesis using n stored stc by (auto simp: holder_before_def)
  next
    case False
    then have old: "gs_sessions g j = Some (cj, Holding a c')" using that by simp
    obtain k where k: "ga_claimed_at c' = Some (stamp k)" "holder_before stamp g a k" by (rule clock_inv_holder [OF inv old])
    show ?thesis
    proof (cases "a = aid")
      case True
      then obtain k' where "k' < n" "ga_claimed_at c' = Some (stamp k')" using earlier old by blast
      moreover from this have "holder_before stamp ?g aid k'" using stored n(2) stc by (auto simp: holder_before_def)
      ultimately show ?thesis using True by blast
    next
      case False
      then have "holder_before stamp ?g a k" using k(2) stored clock by (auto simp: holder_before_def split: if_splits)
      then show ?thesis using k(1) by blast
    qed
  qed
  have apart: "ga_claimed_at c' \<noteq> ga_claimed_at c" if "gs_sessions g j = Some (cj, Holding aid c')" for j cj c'
    using earlier [OF that] n(2) assms(1) by (auto dest: injD)
  have "holders_distinct ?g"
    unfolding holders_distinct_def
  proof (intro allI impI)
    fix j k cj ck a x y
    assume h: "gs_sessions ?g j = Some (cj, Holding a x)" "gs_sessions ?g k = Some (ck, Holding a y)" "j \<noteq> k"
    consider "j = i" | "k = i" | "j \<noteq> i" "k \<noteq> i" by blast
    then show "ga_claimed_at x \<noteq> ga_claimed_at y"
    proof cases
      case 1
      then have "gs_sessions g k = Some (ck, Holding aid y)" "x = c" using h by auto
      then show ?thesis using apart by metis
    next
      case 2
      then have "gs_sessions g j = Some (cj, Holding aid x)" "y = c" using h by auto
      then show ?thesis using apart by metis
    next
      case 3
      then have "gs_sessions g j = Some (cj, Holding a x)" "gs_sessions g k = Some (ck, Holding a y)" using h by auto
      moreover have "holders_distinct g" using inv by (simp add: clock_inv_def)
      ultimately show ?thesis using h(3) unfolding holders_distinct_def by blast
    qed
  qed
  then show ?thesis using claimed held unfolding clock_inv_def by simp
qed

lemma clock_inv_release:
  assumes "inj stamp" and inv: "clock_inv stamp g" and "execute_release existing c (gs_store g) = (Inr p, st)" and "gs_clock g < n"
  shows "clock_inv stamp (g\<lparr>gs_store := st, gs_clock := n\<rparr>)" (is "clock_inv stamp ?g")
proof -
  obtain target tid where t: "get_governed_action (gs_store g) tid = Some target" "ga_status target = CLAIMED"
    "st = gs_store g\<lparr>governed_actions := dict_put tid (released_record target) (governed_actions (gs_store g))\<rparr>"
    using execute_release_Inr [OF assms(3)] by (auto simp: Let_def)
  have stored: "get_governed_action st k = (if k = tid then Some (released_record target) else get_governed_action (gs_store g) k)" for k
    using t(3) by (simp add: get_governed_action_def)
  have pending: "ga_status (released_record target) = PENDING" by (simp add: released_record_def)
  have held: "\<exists>k. ga_claimed_at c' = Some (stamp k) \<and> holder_before stamp ?g a k"
    if h: "gs_sessions g j = Some (cj, Holding a c')" for j cj a c'
  proof -
    obtain k where k: "ga_claimed_at c' = Some (stamp k)" "holder_before stamp g a k" by (rule clock_inv_holder [OF inv h])
    have "holder_before stamp ?g a k"
    proof (cases "a = tid")
      case True
      then obtain m where m: "ga_claimed_at target = Some (stamp m)" "k \<le> m" using k(2) t unfolding holder_before_def by blast
      obtain m' where "m' \<le> gs_clock g" "ga_claimed_at target = Some (stamp m')" by (rule clock_inv_claimed [OF inv t(1,2)])
      then have "m \<le> gs_clock g" using m(1) assms(1) by (auto dest: injD)
      then show ?thesis using True stored pending m(2) assms(4) by (auto simp: holder_before_def)
    next
      case False
      then show ?thesis using k(2) stored assms(4) by (auto simp: holder_before_def)
    qed
    then show ?thesis using k(1) by blast
  qed
  have "\<exists>m \<le> n. ga_claimed_at r = Some (stamp m)" if "get_governed_action st a = Some r" "ga_status r = CLAIMED" for a r
    using that stored pending inv assms(4) unfolding clock_inv_def by (cases "a = tid") (auto, meson less_imp_le order_trans)
  then show ?thesis using held inv unfolding clock_inv_def [of stamp ?g] by (simp add: clock_inv_def holders_distinct_def)
qed

lemma submit_claims_nothing:
  assumes "ledger_ok sha st" and "get_governed_action st nid = None"
    and "submit_governed_action sha caller typ target p attr nid now st = (Inr r, st')"
  shows "claims_nothing st st'"
proof -
  obtain u where u: "require_verified_governing_credential caller = Inr u"
    using assms(3) by (auto simp: submit_governed_action_def split: sum.splits)
  define s1 where "s1 = (case get_pending_governed_action st typ target of None \<Rightarrow> st
     | Some prior \<Rightarrow> snd (transition_governed_action (ga_action_id prior) PENDING
         (prior\<lparr>ga_status := SUPERSEDED, ga_superseded_by_action_id := Some nid\<rparr>) None st))"
  have r: "st' = upsert_governed_action r s1" "ga_action_id r = nid" "ga_status r = PENDING"
    using assms(3) u by (auto simp: submit_governed_action_def s1_def Let_def)
  have s1: "claims_nothing st s1"
    unfolding s1_def by (auto simp: claims_nothing_def [of st st] intro!: transition_claims_nothing split: option.splits)
  have none: "get_governed_action s1 nid = None"
  proof (cases "get_pending_governed_action st typ target")
    case None
    then show ?thesis using assms(2) by (simp add: s1_def)
  next
    case (Some prior)
    then have "nid \<noteq> ga_action_id prior" using pending_is_stored(1) [OF assms(1) Some] assms(2) by auto
    then have "get_governed_action (snd (transition_governed_action (ga_action_id prior) PENDING
        (prior\<lparr>ga_status := SUPERSEDED, ga_superseded_by_action_id := Some nid\<rparr>) None st)) nid = None"
      using transition_other assms(2) by metis
    then show ?thesis using Some by (simp add: s1_def)
  qed
  have dom: "get_governed_action s1 k \<noteq> None" if "get_governed_action st k = Some x" for k x
    using that unfolding s1_def by (auto simp: governed_store_defs split: option.splits)
  have "claims_nothing s1 st'" using claims_nothing_put [of r s1 nid] r none by (simp add: upsert_governed_action_def)
  then show ?thesis using claims_nothing_trans [OF s1] dom by blast
qed

lemma holder_stored:
  "gov_inv sha g \<Longrightarrow> gs_sessions g i = Some (ci, Holding aid c) \<Longrightarrow> get_governed_action (gs_store g) aid \<noteq> None"
  by (drule (1) gov_inv_session) auto

lemma gov_step_clock:
  assumes "inj stamp"
  shows "gov_step sha stamp g g' \<Longrightarrow> gov_inv sha g \<Longrightarrow> clock_inv stamp g \<Longrightarrow> clock_inv stamp g'"
proof (induction rule: gov_step.induct)
  case (submit caller ty target p attr nid now g r st)
  then have "ledger_ok sha (gs_store g)" by (simp add: gov_inv_def)
  from submit_claims_nothing [OF this submit(2,1)] show ?case by (rule clock_inv_store [OF submit(4) _ holder_stored [OF submit(3)]])
next
  case (system svc ty target p nid t1 t2 g r st)
  then have "st = gs_store g\<lparr>governed_actions := dict_put nid r (governed_actions (gs_store g))\<rparr>" "ga_status r = EXECUTED"
    by (auto simp: record_system_originated_action_def upsert_governed_action_def Let_def split: if_splits)
  then have "claims_nothing (gs_store g) st" using claims_nothing_put by simp
  then show ?case by (rule clock_inv_store [OF system(4) _ holder_stored [OF system(3)]])
next
  case (check caller aid tgt h rebuild resume g r resuming i)
  show ?case using check(4) by (rule clock_inv_sessions) (use check(2) in \<open>auto split: if_splits\<close>)
next
  case (claim g i caller aid r resuming attr ns c st)
  have ok: "session_ok sha (gs_store g) (caller, Checked aid r resuming)" using claim(4,1) by (rule gov_inv_session)
  have "ga_status c = CLAIMED" by (rule claim_step_facts(2) [OF claim(2)]) (use ok in auto)
  then show ?case by (rule clock_inv_claim [OF assms claim(5,1,2,3)])
next
  case (domain st g)
  then have "claims_nothing (gs_store g) st" by (auto simp: claims_nothing_def get_governed_action_def)
  then show ?case by (rule clock_inv_store [OF domain(3) _ holder_stored [OF domain(2)]])
next
  case (release g i caller aid c existing p st n)
  then show ?case by (intro clock_inv_release [OF assms])
next
  case (finalize g i caller aid c p now e st)
  have "claims_nothing (gs_store g) st"
    using finalize(2) transition_claims_nothing [of e "gs_store g" aid CLAIMED "ga_claimed_at c"]
    by (auto simp: finalize_step_def Let_def split: prod.splits bool.splits)
  then have "clock_inv stamp (g\<lparr>gs_store := st\<rparr>)"
    by (rule clock_inv_store [OF finalize(4) _ holder_stored [OF finalize(3)]])
  then have "clock_inv stamp (g\<lparr>gs_store := st\<rparr>\<lparr>gs_sessions := (gs_sessions g)(i := None)\<rparr>)"
    by (rule clock_inv_sessions) (auto split: if_splits)
  then show ?case by simp
next
  case (leave g i)
  show ?case using leave(2) by (rule clock_inv_sessions) (auto split: if_splits)
qed

lemma gov_reachable_clock: "gov_reachable sha stamp g \<Longrightarrow> inj stamp \<Longrightarrow> clock_inv stamp g"
proof (induction rule: gov_reachable.induct)
  case start
  show ?case by (simp add: clock_inv_def init_gov_system_def holders_distinct_def empty_ops_store_def get_governed_action_def)
next
  case (step g g')
  then show ?case using gov_step_clock gov_reachable_inv by blast
qed

lemma finalize_success:
  assumes "finalize_step aid c p now st = (Inr e, st')"
  shows "\<exists>cur. get_governed_action st aid = Some cur \<and> ga_status cur = CLAIMED
      \<and> (ga_claimed_at c = None \<or> ga_claimed_at cur = ga_claimed_at c)"
    and "get_governed_action st' aid = Some e" and "ga_status e = EXECUTED"
  using assms unfolding finalize_step_def Let_def
  by (auto simp: governed_store_defs split: option.splits if_splits prod.splits bool.splits)

lemma finalize_refused:
  assumes "get_governed_action st aid = Some cur"
    and "ga_status cur \<noteq> CLAIMED \<or> (ga_claimed_at c \<noteq> None \<and> ga_claimed_at cur \<noteq> ga_claimed_at c)"
  shows "finalize_step aid c p now st = (Inl (HTTPException 409 ''left_claim_while_executing''), st)"
  using assms unfolding finalize_step_def Let_def by (auto simp: governed_store_defs)

section \<open>A concrete run\<close>

text \<open>
  Used by the witnesses: a clearance is requested, approved under a second credential, and then resumed by
  that credential in a second session while the first still holds the stale claim.
\<close>

definition demo_sha :: "payload \<Rightarrow> string" where
  "demo_sha p = ''digest''"

definition demo_stamp :: "nat \<Rightarrow> timestamp" where
  "demo_stamp n = replicate n CHR ''t''"

definition demo_requester :: authenticated_caller where
  "demo_requester = \<lparr>ac_caller_app = ''lotus-platform'', ac_trust_source = ''verified_service_jwt'',
     ac_credential_key_id = Some ''key-a'', ac_credential_token_id = None\<rparr>"

definition demo_approver :: authenticated_caller where
  "demo_approver = demo_requester\<lparr>ac_credential_key_id := Some ''key-b''\<rparr>"

definition demo_submit :: "governed_action result \<times> provider_ops_store" where
  "demo_submit = submit_governed_action demo_sha demo_requester KILL_SWITCH_CLEAR ''ksw_1'' [] None
     ''gact_1'' ''t1'' empty_ops_store"

definition demo_claim :: "governed_action result \<times> provider_ops_store" where
  "demo_claim = the (claim_step demo_approver ''gact_1'' None (map demo_stamp [2]) (projr (fst demo_submit)) False
     (snd demo_submit))"

definition demo_resume :: "governed_action result \<times> provider_ops_store" where
  "demo_resume = the (claim_step demo_approver ''gact_1'' None (map demo_stamp [2, 2, 3]) (projr (fst demo_claim))
     True (snd demo_claim))"

definition demo_claimed_system :: gov_system where
  "demo_claimed_system = \<lparr>gs_store = snd demo_claim,
     gs_sessions = [0 \<mapsto> (demo_approver, Holding ''gact_1'' (projr (fst demo_claim)))],
     gs_clock = 2\<rparr>"

definition demo_resumed_system :: gov_system where
  "demo_resumed_system = \<lparr>gs_store = snd demo_resume,
     gs_sessions = [0 \<mapsto> (demo_approver, Holding ''gact_1'' (projr (fst demo_claim))),
                    1 \<mapsto> (demo_approver, Holding ''gact_1'' (projr (fst demo_resume)))],
     gs_clock = 3\<rparr>"

lemma demo_submit_ok: "demo_submit = (Inr (projr (fst demo_submit)), snd demo_submit)"
  by code_simp

lemma demo_claim_ok:
  "claim_step demo_approver ''gact_1'' None (map demo_stamp [2]) (projr (fst demo_submit)) False (snd demo_submit)
     = Some (Inr (projr (fst demo_claim)), snd demo_claim)"
  by code_simp

lemma demo_resume_ok:
  "claim_step demo_approver ''gact_1'' None (map demo_stamp [2, 2, 3]) (projr (fst demo_claim)) True (snd demo_claim)
     = Some (Inr (projr (fst demo_resume)), snd demo_resume)"
  by code_simp

lemma demo_check_ok:
  "approve_check demo_sha demo_approver ''gact_1'' ''ksw_1'' ''digest'' (\<lambda>_. Inr []) False (snd demo_submit)
     = Inr (projr (fst demo_submit), False)"
  by code_simp

lemma demo_recheck_ok:
  "approve_check demo_sha demo_approver ''gact_1'' ''ksw_1'' ''digest'' (\<lambda>_. Inr []) True (snd demo_claim)
     = Inr (projr (fst demo_claim), True)"
  by code_simp

lemma demo_claimed_reachable: "gov_reachable demo_sha demo_stamp demo_claimed_system"
proof -
  let ?g1 = "init_gov_system\<lparr>gs_store := snd demo_submit\<rparr>"
  let ?g2 = "?g1\<lparr>gs_sessions := (gs_sessions ?g1)(0 \<mapsto>
     (demo_approver, Checked ''gact_1'' (projr (fst demo_submit)) False))\<rparr>"
  have "gov_reachable demo_sha demo_stamp ?g1"
    by (rule gov_reachable.step [OF gov_reachable.start gov_step.submit])
      (use demo_submit_ok in \<open>simp_all add: demo_submit_def init_gov_system_def empty_ops_store_def
        get_governed_action_def\<close>)
  moreover have "approve_check demo_sha demo_approver ''gact_1'' ''ksw_1'' ''digest'' (\<lambda>_. Inr []) False
      (gs_store ?g1) = Inr (projr (fst demo_submit), False)"
    by (simp add: demo_check_ok)
  ultimately have "gov_reachable demo_sha demo_stamp ?g2"
    by (rule gov_reachable.step [OF _ gov_step.check]) (simp add: init_gov_system_def)
  moreover have "gs_sessions ?g2 0 = Some (demo_approver, Checked ''gact_1'' (projr (fst demo_submit)) False)"
    and "claim_step demo_approver ''gact_1'' None (map demo_stamp [2]) (projr (fst demo_submit)) False (gs_store ?g2)
       = Some (Inr (projr (fst demo_claim)), snd demo_claim)"
    using demo_claim_ok by simp_all
  ultimately have "gov_reachable demo_sha demo_stamp (?g2\<lparr>gs_store := snd demo_claim,
      gs_sessions := (gs_sessions ?g2)(0 \<mapsto> (demo_approver, Holding ''gact_1'' (projr (fst demo_claim)))),
      gs_clock := last (gs_clock ?g2 # [2])\<rparr>)"
    by (rule gov_reachable.step [OF _ gov_step.claim]) (simp add: init_gov_system_def)
  then show ?thesis by (simp add: demo_claimed_system_def init_gov_system_def)
qed

lemma demo_resumed_reachable: "gov_reachable demo_sha demo_stamp demo_resumed_system"
proof -
  let ?g1 = demo_claimed_system
  let ?g2 = "?g1\<lparr>gs_sessions := (gs_sessions ?g1)(1 \<mapsto>
     (demo_approver, Checked ''gact_1'' (projr (fst demo_claim)) True))\<rparr>"
  have "approve_check demo_sha demo_approver ''gact_1'' ''ksw_1'' ''digest'' (\<lambda>_. Inr []) True
      (gs_store ?g1) = Inr (projr (fst demo_claim), True)"
    by (simp add: demo_recheck_ok demo_claimed_system_def)
  with demo_claimed_reachable have "gov_reachable demo_sha demo_stamp ?g2"
    by (rule gov_reachable.step [OF _ gov_step.check]) (simp add: demo_claimed_system_def)
  moreover have "gs_sessions ?g2 1 = Some (demo_approver, Checked ''gact_1'' (projr (fst demo_claim)) True)"
    and "claim_step demo_approver ''gact_1'' None (map demo_stamp [2, 2, 3]) (projr (fst demo_claim)) True (gs_store ?g2)
       = Some (Inr (projr (fst demo_resume)), snd demo_resume)"
    using demo_resume_ok by (simp_all add: demo_claimed_system_def)
  ultimately have "gov_reachable demo_sha demo_stamp (?g2\<lparr>gs_store := snd demo_resume,
      gs_sessions := (gs_sessions ?g2)(1 \<mapsto> (demo_approver, Holding ''gact_1'' (projr (fst demo_resume)))),
      gs_clock := last (gs_clock ?g2 # [2, 2, 3])\<rparr>)"
    by (rule gov_reachable.step [OF _ gov_step.claim]) (simp add: demo_claimed_system_def)
  then show ?thesis by (simp add: demo_resumed_system_def demo_claimed_system_def)
qed

section \<open>Properties\<close>

text \<open>
  C4. Four eyes, under every interleaving: whenever an action of a human-governed type stands CLAIMED or
  EXECUTED in the ledger, its requester and approver credentials are both verified (present and
  non-empty), they differ, and the record still carries the digest of its own payload.
\<close>

theorem four_eyes_in_every_interleaving:
  assumes "gov_reachable sha stamp g" and "get_governed_action (gs_store g) aid = Some r"
    and "ga_action_type r \<in> set human_governed_action_types"
    and "ga_status r = CLAIMED \<or> ga_status r = EXECUTED"
  shows "ga_actor_class r = HUMAN_APPROVED \<and> distinct_credentials r
    \<and> ga_action_hash r = compute_governed_action_hash sha (ga_action_payload r)"
proof -
  have "action_ok sha r" using gov_reachable_inv [OF assms(1)] assms(2)
    by (auto simp: gov_inv_def ledger_ok_def)
  with assms(3,4) show ?thesis by (auto simp: action_ok_def split: actor_class.splits)
qed

theorem four_eyes_in_every_interleaving_witness:
  "\<exists>r. get_governed_action (gs_store demo_claimed_system) ''gact_1'' = Some r \<and> ga_status r = CLAIMED
     \<and> distinct_credentials r"
proof -
  let ?r = "projr (fst demo_claim)"
  have g: "get_governed_action (gs_store demo_claimed_system) ''gact_1'' = Some ?r" by code_simp
  have t: "ga_action_type ?r \<in> set human_governed_action_types" by code_simp
  have c: "ga_status ?r = CLAIMED" by code_simp
  show ?thesis
    using four_eyes_in_every_interleaving [OF demo_claimed_reachable g t] g c by blast
qed

text \<open>
  C9. One owner per claim: of all sessions that hold a claim on an action, at most one can write its
  execution evidence. If one of them can finalize now, every other holder is refused with the ledger
  untouched, before and after that finalization, whatever result it tries to record. The clock may stand
  still between claims, it only must not run backwards, and distinct instants must have distinct texts; a
  release takes effect in a later instant than the claims before it.
\<close>

theorem claim_has_one_owner:
  assumes "gov_reachable sha stamp g" and "inj stamp"
    and "gs_sessions g i = Some (ci, Holding aid c)" and "gs_sessions g j = Some (cj, Holding aid c')"
    and "i \<noteq> j"
    and "finalize_step aid c p now (gs_store g) = (Inr e, st)"
  shows "finalize_step aid c' p' now' (gs_store g)
           = (Inl (HTTPException 409 ''left_claim_while_executing''), gs_store g)
       \<and> finalize_step aid c' p' now' st
           = (Inl (HTTPException 409 ''left_claim_while_executing''), st)"
proof -
  note inv = gov_reachable_clock [OF assms(1,2)]
  obtain t t' where t: "ga_claimed_at c = Some t" "ga_claimed_at c' = Some t'"
    using clock_inv_holder [OF inv assms(3)] clock_inv_holder [OF inv assms(4)] by metis
  have "ga_claimed_at c \<noteq> ga_claimed_at c'"
    using inv assms(3-5) unfolding clock_inv_def holders_distinct_def by blast
  moreover obtain cur where "get_governed_action (gs_store g) aid = Some cur"
    and "ga_claimed_at cur = ga_claimed_at c"
    using finalize_success(1) [OF assms(6)] t by auto
  ultimately show ?thesis
    using finalize_refused [of "gs_store g" aid cur c'] t
      finalize_refused [of st aid e c'] finalize_success(2,3) [OF assms(6)] by auto
qed

theorem claim_has_one_owner_witness:
  "finalize_step ''gact_1'' (projr (fst demo_claim)) None ''t9'' (gs_store demo_resumed_system)
     = (Inl (HTTPException 409 ''left_claim_while_executing''), gs_store demo_resumed_system)"
proof -
  have i: "gs_sessions demo_resumed_system 1 = Some (demo_approver, Holding ''gact_1'' (projr (fst demo_resume)))"
    and j: "gs_sessions demo_resumed_system 0 = Some (demo_approver, Holding ''gact_1'' (projr (fst demo_claim)))"
    by (simp_all add: demo_resumed_system_def)
  let ?f = "finalize_step ''gact_1'' (projr (fst demo_resume)) None ''t8'' (gs_store demo_resumed_system)"
  have f: "?f = (Inr (projr (fst ?f)), snd ?f)" by code_simp
  show ?thesis
    using claim_has_one_owner [OF demo_resumed_reachable _ i j _ f] by (simp add: inj_def demo_stamp_def replicate_eq_replicate)
qed

end
