(* ===== verification/Rate_Cards.thy ===== *)
theory Rate_Cards
  imports Lotus_Prelude "HOL-Library.Product_Lexorder"
begin

text \<open>
  The rate-card catalogue and the pricing of one attempt: \<^verbatim>\<open>contracts/rate_cards.py\<close>,
  \<^verbatim>\<open>repositories/memory_rate_card_repository.py\<close>, \<^verbatim>\<open>services/provider_usage_accounting.py\<close>.

  Effective bounds are instants, counted in microseconds from Python's \<^verbatim>\<open>datetime.min\<close>, which is the sort
  key the source gives an open lower bound; the ISO text they are parsed from is not modelled.
\<close>

section \<open>Cards and their store\<close>

datatype rate_card_scope_kind = DEFAULT_LIVE_TEXT | MODEL_REVISION | EMBEDDING_DEFAULT

record rate_card =
  rc_card_id :: string
  rc_scope_kind :: rate_card_scope_kind
  rc_scope_target :: "string option"
  rc_currency :: string
  rc_input_cost_per_1k_tokens :: usd
  rc_output_cost_per_1k_tokens :: usd
  rc_effective_from :: "nat option"
  rc_effective_to :: "nat option"
  rc_created_at :: timestamp
  rc_last_updated_at :: timestamp

type_synonym rate_card_store = "(string, rate_card) dict"

definition valid_rate_card :: "rate_card \<Rightarrow> bool" where
  "valid_rate_card c \<longleftrightarrow>
     rc_card_id c \<noteq> [] \<and> 0 \<le> rc_input_cost_per_1k_tokens c \<and> 0 \<le> rc_output_cost_per_1k_tokens c
   \<and> (case rc_scope_kind c of
        MODEL_REVISION \<Rightarrow> rc_scope_target c \<noteq> None \<and> rc_scope_target c \<noteq> Some []
      | _ \<Rightarrow> rc_scope_target c = None)"

definition list_cards :: "rate_card_store \<Rightarrow> rate_card list" where
  "list_cards d = map snd (sort_key fst d)"

definition get_card :: "rate_card_store \<Rightarrow> string \<Rightarrow> rate_card option" where
  "get_card d k = dict_get d k"

definition upsert_card :: "rate_card \<Rightarrow> rate_card_store \<Rightarrow> rate_card_store" where
  "upsert_card c d = dict_put (rc_card_id c) c d"

interpretation card_repo: keyed_repository rc_card_id get_card upsert_card
  by unfold_locales (simp add: get_card_def upsert_card_def)

section \<open>Writes\<close>

definition ends_by :: "nat option \<Rightarrow> nat option \<Rightarrow> bool" where
  "ends_by upper lower \<longleftrightarrow> (case (upper, lower) of (Some t, Some f) \<Rightarrow> t \<le> f | _ \<Rightarrow> False)"

definition windows_overlap :: "rate_card \<Rightarrow> rate_card \<Rightarrow> bool" where
  "windows_overlap a b =
     (if ends_by (rc_effective_to a) (rc_effective_from b) then False
      else if ends_by (rc_effective_to b) (rc_effective_from a) then False
      else True)"

definition same_scope :: "rate_card \<Rightarrow> rate_card \<Rightarrow> bool" where
  "same_scope a b \<longleftrightarrow> rc_scope_kind a = rc_scope_kind b \<and> rc_scope_target a = rc_scope_target b"

definition save_rate_card :: "rate_card \<Rightarrow> rate_card_store \<Rightarrow> unit result \<times> rate_card_store" where
  "save_rate_card c d =
     (if list_ex (\<lambda>e. rc_card_id e \<noteq> rc_card_id c \<and> same_scope e c \<and> windows_overlap c e) (list_cards d)
      then (Inl (HTTPException 409 ''overlapping_rate_card''), d)
      else (Inr (), upsert_card c d))"

definition default_live_text_card_id :: string where
  "default_live_text_card_id = ''default-live-text''"

definition seed_card :: "usd \<Rightarrow> usd \<Rightarrow> timestamp \<Rightarrow> rate_card" where
  "seed_card ci co now =
     \<lparr>rc_card_id = default_live_text_card_id, rc_scope_kind = DEFAULT_LIVE_TEXT, rc_scope_target = None,
      rc_currency = ''USD'', rc_input_cost_per_1k_tokens = ci, rc_output_cost_per_1k_tokens = co,
      rc_effective_from = None, rc_effective_to = None, rc_created_at = now, rc_last_updated_at = now\<rparr>"

definition seed_content_equal :: "rate_card \<Rightarrow> rate_card \<Rightarrow> bool" where
  "seed_content_equal a b \<longleftrightarrow>
     a\<lparr>rc_created_at := [], rc_last_updated_at := []\<rparr> = b\<lparr>rc_created_at := [], rc_last_updated_at := []\<rparr>"

definition ensure_rate_cards_seeded ::
  "usd option \<Rightarrow> usd option \<Rightarrow> timestamp \<Rightarrow> rate_card_store \<Rightarrow> unit result \<times> rate_card_store" where
  "ensure_rate_cards_seeded input_cost output_cost now d =
     (case (input_cost, output_cost) of
        (Some ci, Some co) \<Rightarrow>
          let desired = seed_card ci co now in
          if \<not> valid_rate_card desired then (Inl (ValueError ''rate_card''), d)
          else (case get_card d default_live_text_card_id of
             None \<Rightarrow> save_rate_card desired d
           | Some existing \<Rightarrow>
               let candidate = desired\<lparr>rc_created_at := rc_created_at existing,
                     rc_effective_from := rc_effective_from existing,
                     rc_effective_to := rc_effective_to existing\<rparr>
               in if seed_content_equal candidate existing then (Inr (), d)
                  else (Inr (), upsert_card candidate d))
      | _ \<Rightarrow> (Inr (), d))"

section \<open>Resolution and pricing\<close>

definition effective_at :: "nat \<Rightarrow> rate_card \<Rightarrow> bool" where
  "effective_at t c \<longleftrightarrow>
     (case rc_effective_from c of None \<Rightarrow> True | Some f \<Rightarrow> f \<le> t)
   \<and> (case rc_effective_to c of None \<Rightarrow> True | Some u \<Rightarrow> t < u)"

definition card_order :: "rate_card \<Rightarrow> nat \<times> string" where
  "card_order c = (case rc_effective_from c of None \<Rightarrow> 0 | Some f \<Rightarrow> f, rc_card_id c)"

definition effective_candidates ::
  "rate_card_scope_kind \<Rightarrow> string option \<Rightarrow> nat \<Rightarrow> rate_card_store \<Rightarrow> rate_card list" where
  "effective_candidates kind target t d =
     sorted_desc card_order
       (filter (\<lambda>c. rc_scope_kind c = kind \<and> rc_scope_target c = target \<and> effective_at t c) (list_cards d))"

record rate_card_world =
  rw_cards :: rate_card_store
  rw_input_cost :: "usd option"
  rw_output_cost :: "usd option"

definition first_of :: "'a list \<Rightarrow> 'a option" where
  "first_of xs = (case xs of [] \<Rightarrow> None | x # _ \<Rightarrow> Some x)"

definition pick_live_text_card :: "string option \<Rightarrow> nat \<Rightarrow> rate_card_store \<Rightarrow> rate_card option" where
  "pick_live_text_card revision t d =
     (let defaults = effective_candidates DEFAULT_LIVE_TEXT None t d
      in case revision of
           None \<Rightarrow> first_of defaults
         | Some r \<Rightarrow>
             (case effective_candidates MODEL_REVISION (Some r) t d of
                c # _ \<Rightarrow> Some c
              | [] \<Rightarrow> first_of defaults))"

definition resolve_effective_live_text_card ::
  "string option \<Rightarrow> nat \<Rightarrow> timestamp \<Rightarrow> rate_card_world \<Rightarrow> rate_card option result \<times> rate_card_world" where
  "resolve_effective_live_text_card revision t now w =
     (case ensure_rate_cards_seeded (rw_input_cost w) (rw_output_cost w) now (rw_cards w) of
        (Inl e, d) \<Rightarrow> (Inl e, w\<lparr>rw_cards := d\<rparr>)
      | (Inr _, d) \<Rightarrow> (Inr (pick_live_text_card revision t d), w\<lparr>rw_cards := d\<rparr>))"

definition price :: "rate_card \<Rightarrow> int \<Rightarrow> int \<Rightarrow> usd" where
  "price c input_tokens output_tokens =
     round8 (of_int input_tokens / 1000 * rc_input_cost_per_1k_tokens c
           + of_int output_tokens / 1000 * rc_output_cost_per_1k_tokens c)"

record usage_cost_estimate =
  uc_estimated_cost_usd :: "usd option"
  uc_rate_card_ref :: "string option"

definition unknown_cost :: usage_cost_estimate where
  "unknown_cost = \<lparr>uc_estimated_cost_usd = None, uc_rate_card_ref = None\<rparr>"

definition estimate_live_text_cost ::
  "int option \<Rightarrow> int option \<Rightarrow> string option \<Rightarrow> nat \<Rightarrow> timestamp \<Rightarrow> rate_card_world
     \<Rightarrow> usage_cost_estimate result \<times> rate_card_world" where
  "estimate_live_text_cost input_tokens output_tokens revision t now w =
     (case (input_tokens, output_tokens) of
        (Some i, Some n) \<Rightarrow>
          (case resolve_effective_live_text_card revision t now w of
             (Inl e, w') \<Rightarrow> (Inl e, w')
           | (Inr None, w') \<Rightarrow> (Inr unknown_cost, w')
           | (Inr (Some c), w') \<Rightarrow>
               (Inr \<lparr>uc_estimated_cost_usd = Some (price c i n), uc_rate_card_ref = Some (rc_card_id c)\<rparr>, w'))
      | _ \<Rightarrow> (Inr unknown_cost, w))"

definition resolve_effective_embedding_card :: "nat \<Rightarrow> rate_card_world \<Rightarrow> rate_card option" where
  "resolve_effective_embedding_card t w =
     first_of (effective_candidates EMBEDDING_DEFAULT None t (rw_cards w))"

definition estimate_embedding_cost :: "int option \<Rightarrow> nat \<Rightarrow> rate_card_world \<Rightarrow> usage_cost_estimate" where
  "estimate_embedding_cost input_tokens t w =
     (case input_tokens of
        None \<Rightarrow> unknown_cost
      | Some i \<Rightarrow>
          (case resolve_effective_embedding_card t w of
             None \<Rightarrow> unknown_cost
           | Some c \<Rightarrow> \<lparr>uc_estimated_cost_usd = Some (price c i 0), uc_rate_card_ref = Some (rc_card_id c)\<rparr>))"

datatype cost_basis = ACTUAL_USAGE | CONSERVATIVE_ESTIMATE | MIXED | NONE

record priced_debit =
  pd_amount_usd :: usd
  pd_basis :: cost_basis
  pd_input_tokens :: "int option"
  pd_output_tokens :: "int option"
  pd_rate_card_ref :: string

definition debit_of_estimate ::
  "cost_basis \<Rightarrow> int \<Rightarrow> int \<Rightarrow> usage_cost_estimate \<Rightarrow> priced_debit option" where
  "debit_of_estimate basis i n e =
     (case (uc_estimated_cost_usd e, uc_rate_card_ref e) of
        (Some a, Some ref) \<Rightarrow> Some \<lparr>pd_amount_usd = a, pd_basis = basis, pd_input_tokens = Some i,
            pd_output_tokens = Some n, pd_rate_card_ref = ref\<rparr>
      | _ \<Rightarrow> None)"

definition price_attempt ::
  "int option \<Rightarrow> int option \<Rightarrow> bool \<Rightarrow> string \<Rightarrow> int \<Rightarrow> int \<Rightarrow> string option \<Rightarrow> nat \<Rightarrow> timestamp
     \<Rightarrow> rate_card_world \<Rightarrow> priced_debit option result \<times> rate_card_world" where
  "price_attempt input_tokens output_tokens billable_risk posture fallback_input max_output revision t now w =
     (case (input_tokens, output_tokens) of
        (Some i, Some n) \<Rightarrow>
          (case estimate_live_text_cost (Some i) (Some n) revision t now w of
             (Inl e, w') \<Rightarrow> (Inl e, w')
           | (Inr est, w') \<Rightarrow> (Inr (debit_of_estimate ACTUAL_USAGE i n est), w'))
      | _ \<Rightarrow>
          if posture = ''conservative'' \<and> billable_risk
          then (case estimate_live_text_cost (Some fallback_input) (Some max_output) revision t now w of
                  (Inl e, w') \<Rightarrow> (Inl e, w')
                | (Inr est, w') \<Rightarrow>
                    (Inr (debit_of_estimate CONSERVATIVE_ESTIMATE fallback_input max_output est), w'))
          else (Inr None, w))"

record billing_settlement =
  st_estimated_cost_usd :: "usd option"
  st_failed_attempt_cost_usd :: "usd option"
  st_failed_attempt_cost_basis :: "cost_basis option"
  st_billed_attempt_count :: nat

definition project_attempt_billing ::
  "usage_cost_estimate \<Rightarrow> priced_debit list \<Rightarrow> bool \<Rightarrow> billing_settlement" where
  "project_attempt_billing final_cost failed_debits had_failed =
     (if failed_debits = []
      then \<lparr>st_estimated_cost_usd = uc_estimated_cost_usd final_cost, st_failed_attempt_cost_usd = None,
            st_failed_attempt_cost_basis = (if had_failed then Some NONE else None),
            st_billed_attempt_count = 1\<rparr>
      else
        let bases = remdups (map pd_basis failed_debits);
            basis = (if 1 < length bases then MIXED
                     else if ACTUAL_USAGE \<in> set bases then ACTUAL_USAGE else CONSERVATIVE_ESTIMATE);
            failed_cost = round8 (sum_list (map pd_amount_usd failed_debits));
            total = (case uc_estimated_cost_usd final_cost of
                       Some a \<Rightarrow> round8 (a + failed_cost) | None \<Rightarrow> failed_cost)
        in \<lparr>st_estimated_cost_usd = Some total, st_failed_attempt_cost_usd = Some failed_cost,
            st_failed_attempt_cost_basis = Some basis,
            st_billed_attempt_count = 1 + length failed_debits\<rparr>)"

section \<open>The write-side invariant\<close>

definition cards_ok :: "rate_card_store \<Rightarrow> bool" where
  "cards_ok d \<longleftrightarrow>
     (\<forall>k c. get_card d k = Some c \<longrightarrow> rc_card_id c = k)
   \<and> (\<forall>k c k' c'. get_card d k = Some c \<longrightarrow> get_card d k' = Some c' \<longrightarrow> k \<noteq> k' \<longrightarrow> same_scope c c'
        \<longrightarrow> \<not> windows_overlap c c')
   \<and> dict_wf d"

lemma set_list_cards: "dict_wf d \<Longrightarrow> c \<in> set (list_cards d) \<longleftrightarrow> (\<exists>k. get_card d k = Some c)"
  by (force simp: list_cards_def get_card_def)

lemma distinct_list_cards: "cards_ok d \<Longrightarrow> distinct (list_cards d)"
proof -
  assume ok: "cards_ok d"
  have "inj_on snd (set d)"
  proof (rule inj_onI)
    fix p q assume "p \<in> set d" "q \<in> set d" "snd p = snd q"
    moreover have "get_card d (fst r) = Some (snd r)" if "r \<in> set d" for r
      using map_of_is_SomeI [of d "fst r" "snd r"] that ok by (simp add: cards_ok_def get_card_def)
    ultimately have "fst p = fst q" using ok by (metis cards_ok_def)
    with \<open>snd p = snd q\<close> show "p = q" by (simp add: prod_eq_iff)
  qed
  moreover have "distinct d" using ok by (simp add: cards_ok_def distinct_map)
  ultimately show ?thesis by (simp add: list_cards_def distinct_map)
qed

lemma distinct_all_equal_length:
  assumes "distinct xs" and "\<And>x y. x \<in> set xs \<Longrightarrow> y \<in> set xs \<Longrightarrow> x = y"
  shows "length xs \<le> 1"
proof (rule ccontr)
  assume "\<not> length xs \<le> 1"
  then obtain x y zs where "xs = x # y # zs" by (cases xs; cases "tl xs") auto
  with assms(1) assms(2) [of x y] show False by simp
qed

lemma windows_overlap_sym: "windows_overlap a b = windows_overlap b a"
  by (auto simp: windows_overlap_def)

lemma windows_overlap_cong:
  "rc_effective_from a = rc_effective_from a' \<Longrightarrow> rc_effective_to a = rc_effective_to a'
     \<Longrightarrow> windows_overlap a b = windows_overlap a' b"
  by (simp add: windows_overlap_def)

lemma same_scope_sym: "same_scope a b = same_scope b a"
  by (auto simp: same_scope_def)

lemma effective_overlap: "effective_at t a \<Longrightarrow> effective_at t b \<Longrightarrow> windows_overlap a b"
  by (auto simp: effective_at_def windows_overlap_def ends_by_def split: option.splits)

lemma cards_ok_empty [simp]: "cards_ok []"
  by (simp add: cards_ok_def get_card_def)

lemma cards_ok_upsert:
  assumes "cards_ok d"
    and "\<And>k e. get_card d k = Some e \<Longrightarrow> k \<noteq> rc_card_id c \<Longrightarrow> same_scope e c \<Longrightarrow> \<not> windows_overlap e c"
  shows "cards_ok (upsert_card c d)"
  unfolding cards_ok_def
proof (intro conjI allI impI)
  show "dict_wf (upsert_card c d)"
    using assms(1) by (simp add: cards_ok_def upsert_card_def distinct_update)
next
  fix k x assume "get_card (upsert_card c d) k = Some x"
  then show "rc_card_id x = k"
    using assms(1) by (auto simp: cards_ok_def card_repo.fetch_save split: if_splits)
next
  fix k x k' x'
  assume "get_card (upsert_card c d) k = Some x" "get_card (upsert_card c d) k' = Some x'"
    "k \<noteq> k'" "same_scope x x'"
  then show "\<not> windows_overlap x x'"
    using assms(1) assms(2) [of k x] assms(2) [of k' x'] windows_overlap_sym [of x x'] same_scope_sym [of x x']
    by (auto simp: cards_ok_def card_repo.fetch_save split: if_splits)
qed

lemma save_rate_card_ok: "cards_ok d \<Longrightarrow> cards_ok (snd (save_rate_card c d))"
proof (cases "fst (save_rate_card c d)")
  case (Inr u)
  assume ok: "cards_ok d"
  then have *: "get_card d k = Some e \<Longrightarrow> k \<noteq> rc_card_id c \<Longrightarrow> same_scope e c \<Longrightarrow> \<not> windows_overlap e c" for k e
    using Inr windows_overlap_sym
    by (auto simp: save_rate_card_def list_ex_iff set_list_cards cards_ok_def split: if_splits)
  show ?thesis
    using Inr cards_ok_upsert [OF ok *] by (auto simp: save_rate_card_def split: if_splits)
qed (auto simp: save_rate_card_def split: if_splits)

text \<open>The seed rewrites prices only; it keeps the invariant as long as its reserved id is a default card.\<close>

definition seed_id_reserved :: "rate_card_store \<Rightarrow> bool" where
  "seed_id_reserved d \<longleftrightarrow>
     (\<forall>c. get_card d default_live_text_card_id = Some c \<longrightarrow>
        rc_scope_kind c = DEFAULT_LIVE_TEXT \<and> rc_scope_target c = None)"

lemma ensure_seeded_ok:
  assumes "cards_ok d" and "seed_id_reserved d"
  shows "cards_ok (snd (ensure_rate_cards_seeded ci co now d))
       \<and> seed_id_reserved (snd (ensure_rate_cards_seeded ci co now d))"
proof -
  have upd: "cards_ok (upsert_card c d)"
    if "get_card d default_live_text_card_id = Some e" "rc_card_id c = default_live_text_card_id"
      "same_scope c e" "rc_effective_from c = rc_effective_from e" "rc_effective_to c = rc_effective_to e" for c e
    by (rule cards_ok_upsert [OF assms(1)])
      (metis assms(1) cards_ok_def same_scope_def that windows_overlap_cong windows_overlap_sym)
  show ?thesis
  proof (cases "fst (ensure_rate_cards_seeded ci co now d) = Inr () \<and> ci \<noteq> None \<and> co \<noteq> None")
    case False
    then show ?thesis using assms
      by (auto simp: ensure_rate_cards_seeded_def Let_def save_rate_card_def split: option.splits if_splits)
  next
    case True
    then obtain x y where xy: "ci = Some x" "co = Some y" by auto
    show ?thesis
    proof (cases "get_card d default_live_text_card_id")
      case None
      then show ?thesis using xy True save_rate_card_ok [OF assms(1), of "seed_card x y now"]
        by (auto simp: ensure_rate_cards_seeded_def Let_def save_rate_card_def seed_id_reserved_def
            card_repo.fetch_save seed_card_def split: if_splits)
    next
      case (Some e)
      then show ?thesis using xy assms upd [OF Some]
        by (auto simp: ensure_rate_cards_seeded_def Let_def seed_id_reserved_def same_scope_def
            card_repo.fetch_save seed_card_def)
    qed
  qed
qed

datatype rate_card_write = Save rate_card | Seed "usd option" "usd option" timestamp

fun apply_card_write :: "rate_card_write \<Rightarrow> rate_card_store \<Rightarrow> rate_card_store" where
  "apply_card_write (Save c) d = snd (save_rate_card c d)"
| "apply_card_write (Seed ci co now) d = snd (ensure_rate_cards_seeded ci co now d)"

fun respects_seed_id :: "rate_card_write \<Rightarrow> bool" where
  "respects_seed_id (Save c) \<longleftrightarrow> rc_card_id c = default_live_text_card_id \<longrightarrow>
     rc_scope_kind c = DEFAULT_LIVE_TEXT \<and> rc_scope_target c = None"
| "respects_seed_id (Seed _ _ _) \<longleftrightarrow> True"

lemma card_writes_ok:
  "list_all respects_seed_id ws \<Longrightarrow> cards_ok d \<Longrightarrow> seed_id_reserved d \<Longrightarrow>
     cards_ok (fold apply_card_write ws d) \<and> seed_id_reserved (fold apply_card_write ws d)"
proof (induction ws arbitrary: d)
  case (Cons w ws)
  have "cards_ok (apply_card_write w d) \<and> seed_id_reserved (apply_card_write w d)"
  proof (cases w)
    case (Save c)
    then show ?thesis using Cons.prems save_rate_card_ok
      by (auto simp: seed_id_reserved_def save_rate_card_def card_repo.fetch_save)
  next
    case (Seed ci co now)
    then show ?thesis using Cons.prems ensure_seeded_ok by auto
  qed
  then show ?case using Cons by simp
qed simp

lemma set_effective_candidates:
  "cards_ok d \<Longrightarrow> c \<in> set (effective_candidates kind target t d) \<longleftrightarrow>
     rc_scope_kind c = kind \<and> rc_scope_target c = target \<and> effective_at t c \<and> (\<exists>k. get_card d k = Some c)"
  by (simp add: effective_candidates_def set_list_cards cards_ok_def conj_ac)

lemma effective_candidates_Nil:
  "cards_ok d \<Longrightarrow> effective_candidates kind target t d = [] \<Longrightarrow> get_card d k = Some e \<Longrightarrow>
     effective_at t e \<Longrightarrow> \<not> (rc_scope_kind e = kind \<and> rc_scope_target e = target)"
  using set_effective_candidates [of d e kind target t] by auto

lemma effective_candidates_hd:
  assumes "cards_ok d" and "effective_candidates kind target t d = c # cs"
  shows "effective_at t c \<and> rc_scope_kind c = kind \<and> rc_scope_target c = target
       \<and> get_card d (rc_card_id c) = Some c
       \<and> (\<forall>k e. get_card d k = Some e \<and> effective_at t e \<and> rc_scope_kind e = kind \<and> rc_scope_target e = target
             \<longrightarrow> card_order e \<le> card_order c)"
proof -
  note mem = set_effective_candidates [OF assms(1), where kind = kind and target = target and t = t]
  obtain fs where fs: "effective_candidates kind target t d = sorted_desc card_order fs"
    by (simp add: effective_candidates_def)
  have ne: "rev fs \<noteq> []" using assms(2) fs by (auto simp: sorted_desc_def)
  have c: "c = last (sort_key card_order (rev fs))"
    using assms(2) fs by (metis hd_rev list.sel(1) sorted_desc_def)
  have "card_order e \<le> card_order c" if "e \<in> set (effective_candidates kind target t d)" for e
    unfolding c by (rule last_sort_key_max [OF ne]) (use that fs in simp)
  moreover have "c \<in> set (effective_candidates kind target t d)" using assms(2) by simp
  moreover have "get_card d k = Some c \<Longrightarrow> rc_card_id c = k" for k using assms(1) by (simp add: cards_ok_def)
  ultimately show ?thesis unfolding mem by blast
qed

lemma price_mono:
  assumes "valid_rate_card c" and "i \<le> i'" and "n \<le> n'"
  shows "price c i n \<le> price c i' n'"
  unfolding price_def using assms
  by (intro round8_mono add_mono mult_right_mono divide_right_mono) (simp_all add: valid_rate_card_def)

lemma price_nonneg: "valid_rate_card c \<Longrightarrow> 0 \<le> i \<Longrightarrow> 0 \<le> n \<Longrightarrow> 0 \<le> price c i n"
  using price_mono [of c 0 i 0 n] by (simp add: price_def)

lemma price_on_grid [simp]: "on_grid (price c i n)"
  by (simp add: price_def)

definition cards_valid :: "rate_card_store \<Rightarrow> bool" where
  "cards_valid d \<longleftrightarrow> (\<forall>(k, c) \<in> set d. valid_rate_card c)"

lemma cards_valid_upsert: "cards_valid d \<Longrightarrow> valid_rate_card c \<Longrightarrow> cards_valid (upsert_card c d)"
proof -
  have "set (dict_put k v d) \<subseteq> insert (k, v) (set d)" for k :: string and v by (induction d) auto
  then show "cards_valid d \<Longrightarrow> valid_rate_card c \<Longrightarrow> cards_valid (upsert_card c d)"
    by (fastforce simp: cards_valid_def upsert_card_def)
qed

lemma ensure_seeded_valid:
  assumes "cards_valid d"
  shows "cards_valid (snd (ensure_rate_cards_seeded ci co now d))"
proof -
  have "valid_rate_card (seed_card x y now) \<Longrightarrow> valid_rate_card (seed_card x y now\<lparr>rc_created_at := a, rc_effective_from := f, rc_effective_to := u\<rparr>)"
    for x y a f u by (simp add: valid_rate_card_def seed_card_def)
  then show ?thesis using assms cards_valid_upsert [OF assms]
    by (auto simp: ensure_rate_cards_seeded_def Let_def save_rate_card_def split: option.splits)
qed

lemma effective_candidates_valid:
  "cards_valid d \<Longrightarrow> c \<in> set (effective_candidates kind target t d) \<Longrightarrow> valid_rate_card c"
  by (auto simp: effective_candidates_def list_cards_def cards_valid_def)

lemma pick_valid:
  assumes "cards_valid d" and "pick_live_text_card revision t d = Some c"
  shows "valid_rate_card c"
proof -
  have "\<exists>kind target cs. effective_candidates kind target t d = c # cs"
    using assms(2) by (auto simp: pick_live_text_card_def Let_def first_of_def split: option.splits list.splits)
  then show ?thesis using effective_candidates_valid [OF assms(1)] by (metis list.set_intros(1))
qed

section \<open>Properties\<close>

text \<open>
  C12. Prices are unambiguous: start from an empty catalogue and apply any sequence of guarded card writes and seedings in which
  the reserved id of the seeded default card is given to cards of the default scope only. Then at most one card of a scope is
  effective at any instant, so the resolved card is the only candidate and the tie-break never decides a price. The condition is
  needed, since seeding writes under that id without the overlap check of the guarded write: \<open>foreign_seed_id_breaks_uniqueness\<close>.
\<close>

theorem effective_card_unique:
  assumes "list_all respects_seed_id ws" and "d = fold apply_card_write ws []"
  shows "length (effective_candidates kind target t d) \<le> 1"
proof -
  have ok: "cards_ok d" using card_writes_ok [OF assms(1), of "[]"] assms(2)
    by (simp add: seed_id_reserved_def get_card_def)
  let ?cs = "filter (\<lambda>c. rc_scope_kind c = kind \<and> rc_scope_target c = target \<and> effective_at t c) (list_cards d)"
  have "c = c'" if "c \<in> set ?cs" "c' \<in> set ?cs" for c c'
  proof -
    from that ok obtain k k' where "get_card d k = Some c" "get_card d k' = Some c'"
      by (auto simp: set_list_cards cards_ok_def)
    moreover have "windows_overlap c c'" "same_scope c c'"
      using that effective_overlap by (auto simp: same_scope_def)
    ultimately show ?thesis using ok by (metis cards_ok_def option.inject)
  qed
  moreover have "distinct ?cs"
    using ok by (auto simp: distinct_list_cards)
  ultimately have "length ?cs \<le> 1"
    by (metis (no_types, lifting) distinct_all_equal_length)
  then show ?thesis by (simp add: effective_candidates_def sorted_desc_def)
qed

text \<open>
  Resolution prefers the routed revision and the latest window: when a card of the routed model
  revision is effective the resolved card is such a card, otherwise it is an effective default card, it is
  the one with the latest effective start among its rivals, and no card is resolved only when neither
  scope has an effective one.
\<close>

theorem resolution_precedence:
  assumes "pick_live_text_card (Some r) t d = c" and "cards_ok d"
  shows "case c of
      None \<Rightarrow> \<not> (\<exists>k e. get_card d k = Some e \<and> effective_at t e
                 \<and> (rc_scope_kind e, rc_scope_target e) \<in> {(MODEL_REVISION, Some r), (DEFAULT_LIVE_TEXT, None)})
    | Some c' \<Rightarrow> effective_at t c' \<and> get_card d (rc_card_id c') = Some c'
         \<and> (rc_scope_kind c', rc_scope_target c') \<in> {(MODEL_REVISION, Some r), (DEFAULT_LIVE_TEXT, None)}
         \<and> (\<forall>k e. get_card d k = Some e \<and> effective_at t e \<longrightarrow>
               (rc_scope_kind e = MODEL_REVISION \<and> rc_scope_target e = Some r
                  \<longrightarrow> rc_scope_kind c' = MODEL_REVISION)
             \<and> (same_scope e c' \<longrightarrow> card_order e \<le> card_order c'))"
proof -
  note hd = effective_candidates_hd [OF assms(2)] and nil = effective_candidates_Nil [OF assms(2)]
  show ?thesis
  proof (cases "effective_candidates MODEL_REVISION (Some r) t d")
    case (Cons e es)
    then have c: "c = Some e" using assms(1) by (simp add: pick_live_text_card_def Let_def)
    show ?thesis using hd [OF Cons] c by (auto simp: same_scope_def)
  next
    case Nil
    note no_rev = nil [OF Nil]
    show ?thesis
    proof (cases "effective_candidates DEFAULT_LIVE_TEXT None t d")
      case Nil': Nil
      then have "c = None" using assms(1) Nil by (simp add: pick_live_text_card_def Let_def first_of_def)
      then show ?thesis using no_rev nil [OF Nil'] by simp
    next
      case (Cons e es)
      then have c: "c = Some e" using assms(1) Nil by (simp add: pick_live_text_card_def Let_def first_of_def)
      show ?thesis using hd [OF Cons] c no_rev by (auto simp: same_scope_def)
    qed
  qed
qed

text \<open>
  The seed can block pricing: when both legacy cost scalars are configured, the seeded card is absent
  and any other default card whatever its window is stored, every resolution raises 409, for every
  revision and instant, and the catalogue stays as it was, so the next resolution fails the same way.
\<close>

theorem seed_conflict_blocks_resolution:
  assumes "rw_input_cost w = Some ci" and "rw_output_cost w = Some co" and "0 \<le> ci" and "0 \<le> co"
    and "cards_ok (rw_cards w)" and "get_card (rw_cards w) default_live_text_card_id = None"
    and "get_card (rw_cards w) k = Some c" and "rc_scope_kind c = DEFAULT_LIVE_TEXT" and "rc_scope_target c = None"
  shows "resolve_effective_live_text_card revision t now w
           = (Inl (HTTPException 409 ''overlapping_rate_card''), w)"
proof -
  let ?s = "seed_card ci co now"
  have "c \<in> set (list_cards (rw_cards w))"
    using assms(5,7) by (auto simp: set_list_cards cards_ok_def)
  moreover have "rc_card_id c \<noteq> rc_card_id ?s"
    using assms(5,6,7) by (auto simp: cards_ok_def seed_card_def)
  moreover have "same_scope c ?s" "windows_overlap ?s c"
    using assms(8,9) by (simp_all add: same_scope_def seed_card_def windows_overlap_def ends_by_def split: option.splits)
  ultimately have "save_rate_card ?s (rw_cards w) = (Inl (HTTPException 409 ''overlapping_rate_card''), rw_cards w)"
    by (auto simp: save_rate_card_def list_ex_iff)
  moreover have "valid_rate_card ?s"
    using assms(3,4) by (simp add: valid_rate_card_def seed_card_def default_live_text_card_id_def)
  ultimately show ?thesis
    using assms(1,2,6) by (simp add: resolve_effective_live_text_card_def ensure_rate_cards_seeded_def Let_def)
qed

text \<open>
  A price computed from bounds is a bound on the price: under one card, no token count below the bounds
  prices above them, and prices are never negative.
\<close>

theorem price_bounds_usage:
  assumes "valid_rate_card c" and "0 \<le> i" and "i \<le> i'" and "0 \<le> n" and "n \<le> n'"
  shows "0 \<le> price c i n \<and> price c i n \<le> price c i' n'"
  using price_nonneg [OF assms(1,2,4)] price_mono [OF assms(1,3,5)] by blast

section \<open>Concrete catalogues\<close>

definition sample_card :: "string \<Rightarrow> rate_card_scope_kind \<Rightarrow> string option \<Rightarrow> nat option \<Rightarrow> nat option \<Rightarrow> rate_card" where
  "sample_card k kind target from until =
     \<lparr>rc_card_id = k, rc_scope_kind = kind, rc_scope_target = target, rc_currency = ''USD'',
      rc_input_cost_per_1k_tokens = 1/100, rc_output_cost_per_1k_tokens = 3/100,
      rc_effective_from = from, rc_effective_to = until, rc_created_at = ''t0'', rc_last_updated_at = ''t0''\<rparr>"

definition sample_writes :: "rate_card_write list" where
  "sample_writes = [Save (sample_card ''early'' DEFAULT_LIVE_TEXT None None (Some 10)),
     Save (sample_card ''late'' DEFAULT_LIVE_TEXT None (Some 10) None),
     Save (sample_card ''clash'' DEFAULT_LIVE_TEXT None (Some 5) (Some 15)),
     Save (sample_card ''rev'' MODEL_REVISION (Some ''m-2'') None None)]"

definition sample_cards :: rate_card_store where
  "sample_cards = fold apply_card_write sample_writes []"

lemma sample_writes_respect: "list_all respects_seed_id sample_writes"
  by code_simp

text \<open>
  Without the condition on the reserved id two default cards can be effective at once: the seeded card overwrites a card of another
  scope stored under its id, next to a default card already in force.
\<close>

lemma foreign_seed_id_breaks_uniqueness:
  "length (effective_candidates DEFAULT_LIVE_TEXT None 10
     (fold apply_card_write
        [Save (sample_card default_live_text_card_id MODEL_REVISION (Some ''m-2'') None None),
         Save (sample_card ''current'' DEFAULT_LIVE_TEXT None None None), Seed (Some 1) (Some 1) ''now''] [])) = 2"
  by code_simp

lemma sample_cards_ok: "cards_ok sample_cards"
  unfolding sample_cards_def
  using card_writes_ok [OF sample_writes_respect, of "[]"] by (simp add: seed_id_reserved_def get_card_def)

theorem effective_card_unique_witness:
  "length (effective_candidates DEFAULT_LIVE_TEXT None 10 sample_cards) \<le> 1 \<and> length sample_cards = 3"
proof -
  have "length sample_cards = 3" by code_simp
  with effective_card_unique [OF sample_writes_respect, of sample_cards DEFAULT_LIVE_TEXT None 10]
  show ?thesis by (simp add: sample_cards_def)
qed

theorem resolution_precedence_witness:
  "effective_at 12 (the (pick_live_text_card (Some ''m-2'') 12 sample_cards))
   \<and> rc_card_id (the (pick_live_text_card (Some ''m-2'') 12 sample_cards)) = ''rev''"
proof -
  let ?c = "pick_live_text_card (Some ''m-2'') 12 sample_cards"
  have "?c = Some (the ?c)" "rc_card_id (the ?c) = ''rev''" by code_simp+
  moreover have "effective_at 12 c" if "?c = Some c" for c
    using resolution_precedence [OF that sample_cards_ok] by simp
  ultimately show ?thesis by blast
qed

theorem seed_conflict_blocks_resolution_witness:
  "resolve_effective_live_text_card None 12 ''t1''
     \<lparr>rw_cards = sample_cards, rw_input_cost = Some (1/100), rw_output_cost = Some (3/100)\<rparr>
   = (Inl (HTTPException 409 ''overlapping_rate_card''),
      \<lparr>rw_cards = sample_cards, rw_input_cost = Some (1/100), rw_output_cost = Some (3/100)\<rparr>)"
proof -
  let ?e = "the (get_card sample_cards ''early'')"
  have "get_card sample_cards default_live_text_card_id = None" "get_card sample_cards ''early'' = Some ?e"
    "rc_scope_kind ?e = DEFAULT_LIVE_TEXT" "rc_scope_target ?e = None" by code_simp+
  then show ?thesis
    by (intro seed_conflict_blocks_resolution
          [where k = "''early''" and c = ?e and ci = "1/100" and co = "3/100"]) (simp_all add: sample_cards_ok)
qed

theorem price_bounds_usage_witness:
  "price (sample_card ''early'' DEFAULT_LIVE_TEXT None None None) 250 40
     \<le> price (sample_card ''early'' DEFAULT_LIVE_TEXT None None None) 1000 512"
  using price_bounds_usage [of "sample_card ''early'' DEFAULT_LIVE_TEXT None None None" 250 1000 40 512]
  by (simp add: valid_rate_card_def sample_card_def)

end
