(* ===== verification/Decimal_Text.thy ===== *)
theory Decimal_Text
  imports Lotus_Prelude
begin

text \<open>
  Decimal text as the services write and read it: \<^verbatim>\<open>str(n)\<close>, the zero-padded \<^verbatim>\<open>{n:03d}\<close> and the fixed-point
  \<^verbatim>\<open>{amount:.8f}\<close>, with the readers the approval paths apply to their own hash-pinned text. A reader returns
  \<open>None\<close> where Python raises \<^verbatim>\<open>ValueError\<close>; notations the services never write (exponents, underscores, blanks)
  are not accepted.
\<close>

section \<open>White space\<close>

definition is_space :: "char \<Rightarrow> bool" where
  "is_space c \<longleftrightarrow> (of_char c :: nat) \<in> {9, 10, 11, 12, 13, 28, 29, 30, 31, 32}"

definition py_strip :: "string \<Rightarrow> string" where
  "py_strip s = rev (dropWhile is_space (rev (dropWhile is_space s)))"

lemma py_strip_plain: "\<forall>c \<in> set s. \<not> is_space c \<Longrightarrow> py_strip s = s"
proof -
  assume a: "\<forall>c \<in> set s. \<not> is_space c"
  have d: "dropWhile is_space t = t" if "\<forall>c \<in> set t. \<not> is_space c" for t using that by (cases t) auto
  show ?thesis unfolding py_strip_def d [OF a] using a by (subst d) auto
qed

section \<open>Naturals and integers\<close>

definition digit_char :: "nat \<Rightarrow> char" where
  "digit_char d = char_of (48 + d)"

definition digit_val :: "char \<Rightarrow> nat" where
  "digit_val c = of_char c - 48"

definition is_digit :: "char \<Rightarrow> bool" where
  "is_digit c \<longleftrightarrow> 48 \<le> (of_char c :: nat) \<and> (of_char c :: nat) \<le> 57"

fun nat_str :: "nat \<Rightarrow> string" where
  "nat_str n = (if n < 10 then [digit_char n] else nat_str (n div 10) @ [digit_char (n mod 10)])"

declare nat_str.simps [simp del]

definition digits_val :: "string \<Rightarrow> nat" where
  "digits_val s = foldl (\<lambda>a c. 10 * a + digit_val c) 0 s"

definition zero_pad :: "nat \<Rightarrow> string \<Rightarrow> string" where
  "zero_pad w s = replicate (w - length s) (digit_char 0) @ s"

definition parse_nat :: "string \<Rightarrow> nat option" where
  "parse_nat s = (if s \<noteq> [] \<and> list_all is_digit s then Some (digits_val s) else None)"

definition int_str :: "int \<Rightarrow> string" where
  "int_str i = (if i < 0 then CHR ''-'' # nat_str (nat (- i)) else nat_str (nat i))"

definition parse_int :: "string \<Rightarrow> int option" where
  "parse_int s = (case s of
       [] \<Rightarrow> None
     | c # cs \<Rightarrow> if c = CHR ''-'' then map_option (\<lambda>n. - int n) (parse_nat cs)
                 else map_option int (parse_nat s))"

section \<open>Fixed-point amounts\<close>

definition amount_str :: "usd \<Rightarrow> string" where
  "amount_str x =
     (let n = round_half_even (x * 100000000); m = nat \<bar>n\<bar>
      in (if x < 0 then ''-'' else []) @ nat_str (m div 100000000) @ ''.''
         @ zero_pad 8 (nat_str (m mod 100000000)))"

definition parse_unsigned_amount :: "string \<Rightarrow> usd option" where
  "parse_unsigned_amount s =
     (let whole = takeWhile (\<lambda>c. c \<noteq> CHR ''.'') s; rest = drop (Suc (length whole)) s
      in case (parse_nat whole, parse_nat rest) of
           (Some a, Some b) \<Rightarrow> Some (of_nat a + of_nat b / 10 ^ length rest)
         | _ \<Rightarrow> None)"

definition parse_amount :: "string \<Rightarrow> usd option" where
  "parse_amount s = (case s of
       [] \<Rightarrow> None
     | c # cs \<Rightarrow> if c = CHR ''-'' then map_option uminus (parse_unsigned_amount cs)
                 else parse_unsigned_amount s)"

section \<open>Facts\<close>

lemma of_char_digit [simp]: "d < 10 \<Longrightarrow> (of_char (digit_char d) :: nat) = 48 + d"
  by (simp add: digit_char_def)

lemma digit_val_char [simp]: "d < 10 \<Longrightarrow> digit_val (digit_char d) = d"
  by (simp add: digit_val_def)

lemma is_digit_char [simp]: "d < 10 \<Longrightarrow> is_digit (digit_char d)"
  by (simp add: is_digit_def)

lemma not_is_digit [simp]: "\<not> is_digit CHR ''.''" "\<not> is_digit CHR '':''" "\<not> is_digit CHR ''-''" "\<not> is_digit CHR ''_''"
  by (simp_all add: is_digit_def)

lemma nat_str_not_Nil [simp]: "nat_str n \<noteq> []"
  by (subst nat_str.simps) simp

lemma list_all_nat_str [simp]: "list_all is_digit (nat_str n)"
proof (induction n rule: nat_str.induct)
  case (1 n)
  then show ?case by (subst nat_str.simps) (simp del: One_nat_def)
qed

lemma nat_str_digits: "c \<in> set (nat_str n) \<Longrightarrow> is_digit c"
  using list_all_nat_str [of n] by (simp add: list_all_iff)

lemma digits_val_snoc [simp]: "digits_val (s @ [c]) = 10 * digits_val s + digit_val c"
  by (simp add: digits_val_def)

lemma digits_val_nat_str [simp]: "digits_val (nat_str n) = n"
proof (induction n rule: nat_str.induct)
  case (1 n)
  then show ?case
    by (subst nat_str.simps) (simp add: digits_val_def [of "[c]" for c])
qed

lemma digits_val_zeros [simp]: "digits_val (replicate k (digit_char 0) @ s) = digits_val s"
  by (induction s rule: rev_induct) (simp_all flip: append_assoc, induction k, simp_all add: digits_val_def)

lemma digits_val_zero_pad [simp]: "digits_val (zero_pad w s) = digits_val s"
  by (simp add: zero_pad_def)

lemma list_all_zero_pad [simp]: "list_all is_digit (zero_pad w s) = list_all is_digit s"
  by (auto simp: zero_pad_def list_all_iff)

lemma zero_pad_not_Nil [simp]: "s \<noteq> [] \<Longrightarrow> zero_pad w s \<noteq> []"
  by (simp add: zero_pad_def)

lemma nat_str_inject [simp]: "nat_str m = nat_str n \<longleftrightarrow> m = n"
  by (metis digits_val_nat_str)

lemma zero_pad_nat_str_inject: "zero_pad w (nat_str m) = zero_pad w (nat_str n) \<longleftrightarrow> m = n"
  by (metis digits_val_nat_str digits_val_zero_pad)

lemma parse_nat_str [simp]: "parse_nat (nat_str n) = Some n"
  by (simp add: parse_nat_def)

lemma parse_int_str [simp]: "parse_int (int_str i) = Some i"
proof (cases "i < 0")
  case False
  obtain c cs where c: "nat_str (nat i) = c # cs" by (cases "nat_str (nat i)") auto
  then have "is_digit c" using nat_str_digits by (metis list.set_intros(1))
  then have "c \<noteq> CHR ''-''" by auto
  then show ?thesis using False c parse_nat_str [of "nat i"] by (simp add: int_str_def parse_int_def)
qed (simp add: int_str_def parse_int_def)

lemma length_nat_str: "n < 10 ^ w \<Longrightarrow> 0 < w \<Longrightarrow> length (nat_str n) \<le> w"
proof (induction w arbitrary: n)
  case (Suc w)
  show ?case
  proof (cases "n < 10")
    case False
    then have "w \<noteq> 0" using Suc.prems by (cases w) auto
    moreover have "n div 10 < 10 ^ w" using Suc.prems by (simp add: less_mult_imp_div_less mult.commute)
    ultimately have "length (nat_str (n div 10)) \<le> w" using Suc.IH by simp
    then show ?thesis using False by (subst nat_str.simps) simp
  qed (subst nat_str.simps, simp)
qed simp

lemma parse_unsigned_amount_str:
  "parse_unsigned_amount (nat_str (m div 100000000) @ ''.'' @ zero_pad 8 (nat_str (m mod 100000000)))
     = Some (of_nat m / 100000000)"
proof -
  let ?w = "nat_str (m div 100000000)" and ?f = "zero_pad 8 (nat_str (m mod 100000000))"
  have tw: "takeWhile (\<lambda>c. c \<noteq> CHR ''.'') (?w @ ''.'' @ ?f) = ?w"
    by (subst takeWhile_append2) (auto dest: nat_str_digits)
  have len: "length ?f = 8"
    using length_nat_str [of "m mod 100000000" 8] by (simp add: zero_pad_def)
  have pf: "parse_nat ?f = Some (m mod 100000000)" by (simp add: parse_nat_def)
  have "rat_of_nat m = of_nat (m div 100000000) * 100000000 + of_nat (m mod 100000000)"
    by (metis div_mult_mod_eq of_nat_add of_nat_mult of_nat_numeral)
  then show ?thesis
    unfolding parse_unsigned_amount_def Let_def tw by (simp add: pf len field_simps)
qed

lemma parse_amount_str [simp]: "parse_amount (amount_str x) = Some (round8 x)"
proof -
  let ?n = "round_half_even (x * 100000000)"
  have neg: "x < 0 \<Longrightarrow> ?n \<le> 0" and pos: "\<not> x < 0 \<Longrightarrow> 0 \<le> ?n"
    using round_half_even_mono [of "x * 100000000" 0] round_half_even_mono [of 0 "x * 100000000"]
    by (auto simp: round_half_even_def [of 0])
  show ?thesis
  proof (cases "x < 0")
    case True
    then show ?thesis using neg
      by (simp add: amount_str_def Let_def parse_amount_def parse_unsigned_amount_str [simplified] round8_def)
  next
    case False
    obtain c cs where c: "nat_str (nat ?n div 100000000) = c # cs"
      by (cases "nat_str (nat ?n div 100000000)") auto
    then have "is_digit c" using nat_str_digits by (metis list.set_intros(1))
    then have "c \<noteq> CHR ''-''" by auto
    then show ?thesis
      using False pos c parse_unsigned_amount_str [of "nat ?n"]
      by (simp add: amount_str_def Let_def parse_amount_def round8_def)
  qed
qed

end
