(* ===== verification/Provider_Budget.thy ===== *)
theory Provider_Budget
  imports Provider_Operations_Store Rate_Cards Decimal_Text
begin

text \<open>
  The hard budget of live text generation, \<^verbatim>\<open>services/provider_budget_policy.py\<close>: posture, preflight, and the
  reserve, settle, hold and reconcile operations at the attempt boundary.

  The store a live execution works on carries the rate-card catalogue as well, because pricing seeds it.
\<close>

section \<open>Configuration and posture\<close>

record enforcement_thresholds =
  et_quota_enforced :: bool
  et_default_quota_limit :: "int option"
  et_task_quota_limits :: string
  et_caller_quota_limits :: string
  et_tenant_quota_limits :: string
  et_budget_enforced :: bool
  et_soft_budget_usd :: "usd option"
  et_hard_budget_usd :: "usd option"
  et_degradation_enforced :: bool
  et_degraded_failure_count_threshold :: "int option"
  et_circuit_open_failure_count_threshold :: "int option"
  et_circuit_open_seconds :: "int option"

record billing_world = provider_ops_store +
  bw_rates :: rate_card_world

datatype provider_budget_state =
    NOT_ENFORCED | BELOW_SOFT_LIMIT | SOFT_LIMIT_REACHED | HARD_LIMIT_BLOCKED | BUDGET_INVALID

record parsed_budget_policy =
  bp_budget_enforced :: bool
  bp_configuration_valid :: bool
  bp_budget_state :: provider_budget_state
  bp_current_spend_usd :: usd
  bp_soft_budget_usd :: "usd option"
  bp_hard_budget_usd :: "usd option"
  bp_remaining_budget_usd :: "usd option"

definition live_budget_key :: string where
  "live_budget_key = ''live_text_generation''"

definition load_current_spend_usd :: "'a provider_ops_store_scheme \<Rightarrow> usd" where
  "load_current_spend_usd s =
     (case get_budget_state s live_budget_key of None \<Rightarrow> 0 | Some r \<Rightarrow> round8 (bs_current_spend_usd r))"

definition resolve_budget_state ::
  "bool \<Rightarrow> bool \<Rightarrow> usd \<Rightarrow> usd option \<Rightarrow> usd option \<Rightarrow> provider_budget_state" where
  "resolve_budget_state enforced valid spend soft hard =
     (if \<not> enforced then NOT_ENFORCED
      else if \<not> valid then BUDGET_INVALID
      else if (case hard of Some h \<Rightarrow> h \<le> spend | None \<Rightarrow> False) then HARD_LIMIT_BLOCKED
      else if (case soft of Some f \<Rightarrow> f \<le> spend | None \<Rightarrow> False) then SOFT_LIMIT_REACHED
      else BELOW_SOFT_LIMIT)"

definition thresholds_valid :: "enforcement_thresholds \<Rightarrow> bool" where
  "thresholds_valid e \<longleftrightarrow>
     (case et_soft_budget_usd e of Some f \<Rightarrow> 0 < f | None \<Rightarrow> True)
   \<and> (case et_hard_budget_usd e of Some h \<Rightarrow> 0 < h | None \<Rightarrow> True)
   \<and> (case (et_soft_budget_usd e, et_hard_budget_usd e) of (Some f, Some h) \<Rightarrow> f \<le> h | _ \<Rightarrow> True)
   \<and> (et_budget_enforced e \<longrightarrow> et_hard_budget_usd e \<noteq> None)"

definition parse_provider_budget_policy ::
  "enforcement_thresholds \<Rightarrow> nat \<Rightarrow> timestamp \<Rightarrow> 'a billing_world_scheme
     \<Rightarrow> parsed_budget_policy result \<times> 'a billing_world_scheme" where
  "parse_provider_budget_policy e t now w =
     (let spend = load_current_spend_usd w;
          build = (\<lambda>valid. \<lparr>bp_budget_enforced = et_budget_enforced e, bp_configuration_valid = valid,
            bp_budget_state = resolve_budget_state (et_budget_enforced e) valid spend
              (et_soft_budget_usd e) (et_hard_budget_usd e),
            bp_current_spend_usd = spend, bp_soft_budget_usd = et_soft_budget_usd e,
            bp_hard_budget_usd = et_hard_budget_usd e,
            bp_remaining_budget_usd =
              map_option (\<lambda>h. round8 (max (h - spend) 0)) (et_hard_budget_usd e)\<rparr>)
      in if \<not> et_budget_enforced e then (Inr (build (thresholds_valid e)), w)
         else case resolve_effective_live_text_card None t now (bw_rates w) of
           (Inl err, r) \<Rightarrow> (Inl err, w\<lparr>bw_rates := r\<rparr>)
         | (Inr effective, r) \<Rightarrow> (Inr (build (thresholds_valid e \<and> effective \<noteq> None)), w\<lparr>bw_rates := r\<rparr>))"

definition enforce_provider_budget ::
  "enforcement_thresholds \<Rightarrow> nat \<Rightarrow> timestamp \<Rightarrow> 'a billing_world_scheme
     \<Rightarrow> unit result \<times> 'a billing_world_scheme" where
  "enforce_provider_budget e t now w =
     (case parse_provider_budget_policy e t now w of
        (Inl err, w') \<Rightarrow> (Inl err, w')
      | (Inr p, w') \<Rightarrow>
          if \<not> bp_budget_enforced p then (Inr (), w')
          else if \<not> bp_configuration_valid p
          then (Inl (ProviderExecutionError INVALID_BUDGET_CONFIGURATION), w')
          else if bp_budget_state p = HARD_LIMIT_BLOCKED
          then (Inl (ProviderExecutionError BUDGET_EXCEEDED), w')
          else (Inr (), w'))"

section \<open>The attempt boundary\<close>

definition attempt_debit_id :: "string \<Rightarrow> string \<Rightarrow> nat \<Rightarrow> string option \<Rightarrow> string" where
  "attempt_debit_id execution_id candidate_entry_id attempt_index candidate_id_v2 =
     (case candidate_id_v2 of
        Some v \<Rightarrow> if v \<noteq> [] then ''adbt2:'' @ execution_id @ '':'' @ v @ '':'' @ nat_str attempt_index
                  else ''adbt:'' @ execution_id @ '':'' @ candidate_entry_id @ '':'' @ nat_str attempt_index
      | None \<Rightarrow> ''adbt:'' @ execution_id @ '':'' @ candidate_entry_id @ '':'' @ nat_str attempt_index)"

definition reservation_row ::
  "string \<Rightarrow> string \<Rightarrow> string \<Rightarrow> string option \<Rightarrow> nat \<Rightarrow> priced_debit \<Rightarrow> string option \<Rightarrow> timestamp
     \<Rightarrow> attempt_debit" where
  "reservation_row execution_id candidate_entry_id provider_id revision attempt_index reservation v2 now =
     \<lparr>db_debit_id = attempt_debit_id execution_id candidate_entry_id attempt_index v2,
      db_provider_id = provider_id, db_basis = ''RESERVED_MAX'',
      db_amount_usd = pd_amount_usd reservation, db_input_tokens = pd_input_tokens reservation,
      db_output_tokens = pd_output_tokens reservation, db_rate_card_ref = pd_rate_card_ref reservation,
      db_recorded_at = now, db_candidate_entry_id = Some candidate_entry_id,
      db_model_revision = revision, db_attempt_index = Some (int attempt_index),
      db_candidate_id_v2 = v2\<rparr>"

definition hard_limit_of :: "enforcement_thresholds \<Rightarrow> usd option" where
  "hard_limit_of e = (if et_budget_enforced e then et_hard_budget_usd e else None)"

definition reserve_attempt_spend ::
  "enforcement_thresholds \<Rightarrow> string \<Rightarrow> string \<Rightarrow> string \<Rightarrow> string option \<Rightarrow> nat \<Rightarrow> priced_debit
     \<Rightarrow> string option \<Rightarrow> timestamp \<Rightarrow> 'a provider_ops_store_scheme
     \<Rightarrow> reserve_outcome \<times> 'a provider_ops_store_scheme" where
  "reserve_attempt_spend e execution_id candidate_entry_id provider_id revision attempt_index reservation
       v2 now s =
     reserve_attempt_debit
       (reservation_row execution_id candidate_entry_id provider_id revision attempt_index reservation v2 now)
       live_budget_key (hard_limit_of e) s"

definition settle_attempt_spend ::
  "string \<Rightarrow> string \<Rightarrow> nat \<Rightarrow> priced_debit option \<Rightarrow> string option \<Rightarrow> bool \<Rightarrow> timestamp
     \<Rightarrow> 'a provider_ops_store_scheme \<Rightarrow> bool \<times> 'a provider_ops_store_scheme" where
  "settle_attempt_spend execution_id candidate_entry_id attempt_index debit v2 billable_risk now s =
     (let debit_id = attempt_debit_id execution_id candidate_entry_id attempt_index v2 in
      case debit of
        None \<Rightarrow>
          if billable_risk then hold_attempt_debit_unresolved debit_id now s
          else settle_attempt_debit debit_id live_budget_key ''RELEASED'' 0 None None None now s
      | Some d \<Rightarrow>
          if pd_basis d \<noteq> ACTUAL_USAGE then hold_attempt_debit_unresolved debit_id now s
          else settle_attempt_debit debit_id live_budget_key ''ACTUAL_USAGE'' (pd_amount_usd d)
                 (pd_input_tokens d) (pd_output_tokens d) (Some (pd_rate_card_ref d)) now s)"

definition reconcile_attempt_spend ::
  "string \<Rightarrow> usd \<Rightarrow> int option \<Rightarrow> int option \<Rightarrow> string option \<Rightarrow> timestamp
     \<Rightarrow> 'a provider_ops_store_scheme \<Rightarrow> bool \<times> 'a provider_ops_store_scheme" where
  "reconcile_attempt_spend debit_id evidenced input output rate_card now s =
     reconcile_attempt_debit debit_id live_budget_key evidenced input output rate_card now s"

definition require_priceable_admission ::
  "enforcement_thresholds \<Rightarrow> priced_debit option \<Rightarrow> unit result" where
  "require_priceable_admission e reservation =
     (if reservation \<noteq> None \<or> \<not> et_budget_enforced e then Inr ()
      else Inl (ProviderExecutionError INVALID_BUDGET_CONFIGURATION))"

definition spent_for_execution :: "string \<Rightarrow> 'a provider_ops_store_scheme \<Rightarrow> usd" where
  "spent_for_execution execution_id s =
     sum_attempt_debits (''adbt2:'' @ execution_id @ '':'') s
       + sum_attempt_debits (''adbt:'' @ execution_id @ '':'') s"

definition reset_provider_budget_state ::
  "'a provider_ops_store_scheme \<Rightarrow> nat \<times> 'a provider_ops_store_scheme" where
  "reset_provider_budget_state s = reset_budget_state live_budget_key s"

section \<open>The ledger and the counter\<close>

definition ledger_total :: "'a provider_ops_store_scheme \<Rightarrow> usd" where
  "ledger_total s = sum_list (map (\<lambda>(k, r). db_amount_usd r) (attempt_debits s))"

definition ledger_inv :: "'a provider_ops_store_scheme \<Rightarrow> bool" where
  "ledger_inv s \<longleftrightarrow>
     dict_wf (attempt_debits s)
   \<and> (\<forall>k r. get_attempt_debit s k = Some r \<longrightarrow> db_debit_id r = k \<and> on_grid (db_amount_usd r) \<and> 0 \<le> db_amount_usd r)
   \<and> current_spend s live_budget_key = ledger_total s"

lemma sum_list_dict_put:
  fixes f :: "'k \<times> 'v \<Rightarrow> 'n::ab_group_add"
  shows "dict_wf d \<Longrightarrow> sum_list (map f (dict_put k v d)) =
     (case dict_get d k of None \<Rightarrow> sum_list (map f d) + f (k, v)
      | Some old \<Rightarrow> sum_list (map f d) - f (k, old) + f (k, v))"
proof (induction d)
  case (Cons p d)
  obtain a b where p: "p = (a, b)" by (cases p)
  show ?case
  proof (cases "a = k")
    case True
    then show ?thesis using p by simp
  next
    case False
    then show ?thesis using Cons p by (cases "dict_get d k") (auto simp: algebra_simps)
  qed
qed simp

lemma ledger_total_put:
  "dict_wf (attempt_debits s) \<Longrightarrow>
     ledger_total (s\<lparr>attempt_debits := dict_put k r (attempt_debits s)\<rparr>) =
     ledger_total s + db_amount_usd r
       - (case get_attempt_debit s k of None \<Rightarrow> 0 | Some old \<Rightarrow> db_amount_usd old)"
  by (simp add: ledger_total_def sum_list_dict_put get_attempt_debit_def split: option.splits)

lemma ledger_total_add_spend [simp]: "ledger_total (add_budget_spend k a now s) = ledger_total s"
  by (simp add: ledger_total_def)

lemma ledger_total_grid:
  "ledger_inv s \<Longrightarrow> on_grid (ledger_total s)"
proof -
  assume inv: "ledger_inv s"
  have "on_grid (sum_list (map (\<lambda>(k, r). db_amount_usd r) d))"
    if "\<forall>(k, r) \<in> set d. on_grid (db_amount_usd r)" for d :: "(string \<times> attempt_debit) list"
    using that by (induction d) auto
  moreover have "\<forall>(k, r) \<in> set (attempt_debits s). on_grid (db_amount_usd r)"
    using inv by (auto simp: ledger_inv_def get_attempt_debit_def)
  ultimately show ?thesis unfolding ledger_total_def by blast
qed

lemma ledger_inv_resolve:
  assumes inv: "ledger_inv s" and row: "get_attempt_debit s k = Some row"
    and r: "db_debit_id r = k" "on_grid (db_amount_usd r)" "0 \<le> db_amount_usd r"
    and s': "s' = add_budget_spend live_budget_key (round8 (db_amount_usd r - db_amount_usd row)) now
               (s\<lparr>attempt_debits := dict_put k r (attempt_debits s)\<rparr>)"
  shows "ledger_inv s'"
    and "current_spend s' live_budget_key = current_spend s live_budget_key + db_amount_usd r - db_amount_usd row"
proof -
  let ?m = "s\<lparr>attempt_debits := dict_put k r (attempt_debits s)\<rparr>"
  have g: "on_grid (db_amount_usd row)" "on_grid (current_spend s live_budget_key)"
    using inv row ledger_total_grid [OF inv] by (auto simp: ledger_inv_def)
  then have spend: "current_spend s' live_budget_key
      = current_spend s live_budget_key + db_amount_usd r - db_amount_usd row"
    using r(2) by (simp add: s' algebra_simps flip: on_grid_def)
  then show "current_spend s' live_budget_key = current_spend s live_budget_key + db_amount_usd r - db_amount_usd row" .
  have "ledger_total s' = ledger_total s + db_amount_usd r - db_amount_usd row"
    using inv row by (simp add: s' ledger_total_put ledger_inv_def)
  with spend inv r row show "ledger_inv s'"
    by (auto simp: ledger_inv_def s' get_attempt_debit_def distinct_update split: if_splits)
qed

lemma reserve_debit_inv:
  assumes inv: "ledger_inv s" and "on_grid (db_amount_usd r)" and "0 \<le> db_amount_usd r"
    and res: "reserve_attempt_debit r live_budget_key limit s = (out, s')"
  shows "ledger_inv s'"
    and "out = RESERVED \<Longrightarrow> current_spend s' live_budget_key = current_spend s live_budget_key + db_amount_usd r"
    and "out = RESERVED \<Longrightarrow> limit = Some h \<Longrightarrow> current_spend s' live_budget_key \<le> h"
    and "out \<noteq> RESERVED \<Longrightarrow> s' = s"
proof -
  have g: "on_grid (current_spend s live_budget_key)"
    using inv ledger_total_grid [OF inv] by (simp add: ledger_inv_def)
  have new: "out = RESERVED \<Longrightarrow> get_attempt_debit s (db_debit_id r) = None
      \<and> s' = add_budget_spend live_budget_key (db_amount_usd r) (db_recorded_at r)
               (s\<lparr>attempt_debits := dict_put (db_debit_id r) r (attempt_debits s)\<rparr>)"
    using res by (auto simp: reserve_attempt_debit_def save_attempt_debit_def split: if_splits)
  show spend: "out = RESERVED \<Longrightarrow> current_spend s' live_budget_key = current_spend s live_budget_key + db_amount_usd r"
    using new g assms(2) by simp
  show "out = RESERVED \<Longrightarrow> limit = Some h \<Longrightarrow> current_spend s' live_budget_key \<le> h"
    using res g assms(2) by (auto simp: reserve_attempt_debit_def split: if_splits)
  show same: "out \<noteq> RESERVED \<Longrightarrow> s' = s"
    using res by (auto simp: reserve_attempt_debit_def split: if_splits)
  show "ledger_inv s'"
  proof (cases "out = RESERVED")
    case True
    then have "ledger_total s' = ledger_total s + db_amount_usd r"
      using new [OF True] inv by (simp add: ledger_total_put ledger_inv_def)
    then show ?thesis
      using spend [OF True] new [OF True] inv assms(2,3)
      by (auto simp: ledger_inv_def get_attempt_debit_def distinct_update split: if_splits)
  qed (use same inv in simp)
qed

lemma resolved_row_fields [simp]:
  "db_amount_usd (resolved_row row b a i n c now) = a"
  "db_debit_id (resolved_row row b a i n c now) = db_debit_id row"
  "db_basis (resolved_row row b a i n c now) = b"
  by (simp_all add: resolved_row_def)

lemma settle_debit_inv:
  assumes inv: "ledger_inv s" and a: "on_grid a" "0 \<le> a"
    and res: "settle_attempt_debit k live_budget_key basis a i n c now s = (ok, s')"
  shows "ledger_inv s'"
    and "ok \<Longrightarrow> \<exists>row. get_attempt_debit s k = Some row \<and> db_basis row = ''RESERVED_MAX''
           \<and> current_spend s' live_budget_key = current_spend s live_budget_key + a - db_amount_usd row"
    and "\<not> ok \<Longrightarrow> s' = s"
proof -
  show same: "\<not> ok \<Longrightarrow> s' = s"
    using res by (auto simp: settle_attempt_debit_def split: option.splits if_splits)
  have "ledger_inv s' \<and> (\<exists>row. get_attempt_debit s k = Some row \<and> db_basis row = ''RESERVED_MAX''
           \<and> current_spend s' live_budget_key = current_spend s live_budget_key + a - db_amount_usd row)" if ok
  proof -
    from res that obtain row where row: "get_attempt_debit s k = Some row" "db_basis row = ''RESERVED_MAX''"
      and s': "s' = add_budget_spend live_budget_key (round8 (a - db_amount_usd row)) now
         (s\<lparr>attempt_debits := dict_put k (resolved_row row basis a i n c now) (attempt_debits s)\<rparr>)"
      by (auto simp: settle_attempt_debit_def get_attempt_debit_def split: option.splits if_splits)
    have "db_debit_id row = k" using inv row by (simp add: ledger_inv_def)
    with ledger_inv_resolve [OF inv row(1), of "resolved_row row basis a i n c now" s' now] a s' row
    show ?thesis by simp
  qed
  then show "ledger_inv s'" "ok \<Longrightarrow> \<exists>row. get_attempt_debit s k = Some row \<and> db_basis row = ''RESERVED_MAX''
           \<and> current_spend s' live_budget_key = current_spend s live_budget_key + a - db_amount_usd row"
    using same inv by (cases ok; simp)+
qed

lemma hold_debit_inv:
  assumes inv: "ledger_inv s" and res: "hold_attempt_debit_unresolved k now s = (ok, s')"
  shows "ledger_inv s'" and "current_spend s' live_budget_key = current_spend s live_budget_key"
proof -
  have "ledger_inv s' \<and> current_spend s' live_budget_key = current_spend s live_budget_key" if ok
  proof -
    from res that obtain row where row: "get_attempt_debit s k = Some row"
      and s': "s' = s\<lparr>attempt_debits := dict_put k (row\<lparr>db_basis := ''UNRESOLVED_MAX'', db_recorded_at := now\<rparr>)
                 (attempt_debits s)\<rparr>"
      by (auto simp: hold_attempt_debit_unresolved_def get_attempt_debit_def split: option.splits if_splits)
    have "ledger_total s' = ledger_total s" using inv row by (simp add: s' ledger_total_put ledger_inv_def)
    then show ?thesis using inv row
      by (auto simp: s' ledger_inv_def get_attempt_debit_def distinct_update split: if_splits)
  qed
  moreover have "\<not> ok \<Longrightarrow> s' = s"
    using res by (auto simp: hold_attempt_debit_unresolved_def split: option.splits if_splits)
  ultimately show "ledger_inv s'" "current_spend s' live_budget_key = current_spend s live_budget_key"
    using inv by (cases ok; simp)+
qed

lemma reconcile_debit_inv:
  assumes inv: "ledger_inv s" and a: "on_grid a" "0 \<le> a"
    and res: "reconcile_attempt_debit k live_budget_key a i n c now s = (ok, s')"
  shows "ledger_inv s'"
    and "ok \<Longrightarrow> \<exists>row. get_attempt_debit s k = Some row
           \<and> current_spend s' live_budget_key = current_spend s live_budget_key + a - db_amount_usd row"
    and "\<not> ok \<Longrightarrow> s' = s"
proof -
  show same: "\<not> ok \<Longrightarrow> s' = s"
    using res by (auto simp: reconcile_attempt_debit_def split: option.splits if_splits)
  have "ledger_inv s' \<and> (\<exists>row. get_attempt_debit s k = Some row
           \<and> current_spend s' live_budget_key = current_spend s live_budget_key + a - db_amount_usd row)" if ok
  proof -
    from res that obtain row where row: "get_attempt_debit s k = Some row"
      and s': "s' = add_budget_spend live_budget_key (round8 (a - db_amount_usd row)) now
         (s\<lparr>attempt_debits := dict_put k (resolved_row row ''RECONCILED'' a i n c now) (attempt_debits s)\<rparr>)"
      by (auto simp: reconcile_attempt_debit_def get_attempt_debit_def split: option.splits if_splits)
    have "db_debit_id row = k" using inv row by (simp add: ledger_inv_def)
    with ledger_inv_resolve [OF inv row(1), of "resolved_row row ''RECONCILED'' a i n c now" s' now] a s' row
    show ?thesis by simp
  qed
  then show "ledger_inv s'" "ok \<Longrightarrow> \<exists>row. get_attempt_debit s k = Some row
           \<and> current_spend s' live_budget_key = current_spend s live_budget_key + a - db_amount_usd row"
    using same inv by (cases ok; simp)+
qed

section \<open>Sequences of boundary operations\<close>

datatype spend_op =
    Reserve string string string "string option" nat priced_debit "string option" timestamp
  | Settle string string nat "priced_debit option" "string option" bool timestamp
  | Reconcile string usd "int option" "int option" "string option" timestamp

fun run_spend_op ::
  "enforcement_thresholds \<Rightarrow> spend_op \<Rightarrow> 'a provider_ops_store_scheme \<Rightarrow> 'a provider_ops_store_scheme" where
  "run_spend_op e (Reserve ex cand prov mrev idx d v2 now) s =
     snd (reserve_attempt_spend e ex cand prov mrev idx d v2 now s)"
| "run_spend_op e (Settle ex cand idx d v2 risk now) s = snd (settle_attempt_spend ex cand idx d v2 risk now s)"
| "run_spend_op e (Reconcile k a i n c now) s = snd (reconcile_attempt_spend k a i n c now s)"

definition money :: "usd \<Rightarrow> bool" where
  "money a \<longleftrightarrow> on_grid a \<and> 0 \<le> a"

fun op_money :: "spend_op \<Rightarrow> bool" where
  "op_money (Reserve _ _ _ _ _ d _ _) = money (pd_amount_usd d)"
| "op_money (Settle _ _ _ d _ _ _) = (case d of None \<Rightarrow> True | Some p \<Rightarrow> money (pd_amount_usd p))"
| "op_money (Reconcile _ a _ _ _ _) = money a"

text \<open>An operation stays within the hold when it resolves a row to no more than the amount held on it.\<close>

fun within_hold :: "'a provider_ops_store_scheme \<Rightarrow> spend_op \<Rightarrow> bool" where
  "within_hold s (Reserve _ _ _ _ _ _ _ _) = True"
| "within_hold s (Settle ex cand idx d v2 _ _) =
     (case (d, get_attempt_debit s (attempt_debit_id ex cand idx v2)) of
        (Some p, Some row) \<Rightarrow> pd_amount_usd p \<le> db_amount_usd row | _ \<Rightarrow> True)"
| "within_hold s (Reconcile k a _ _ _ _) =
     (case get_attempt_debit s k of Some row \<Rightarrow> a \<le> db_amount_usd row | None \<Rightarrow> True)"

fun run_within_hold :: "enforcement_thresholds \<Rightarrow> spend_op list \<Rightarrow> 'a provider_ops_store_scheme \<Rightarrow> bool" where
  "run_within_hold e [] s = True"
| "run_within_hold e (x # xs) s \<longleftrightarrow> within_hold s x \<and> run_within_hold e xs (run_spend_op e x s)"

lemma settle_spend_inv:
  assumes inv: "ledger_inv s" and d: "case d of None \<Rightarrow> True | Some p \<Rightarrow> money (pd_amount_usd p)"
    and res: "settle_attempt_spend ex cand idx d v2 risk now s = (ok, s')"
  shows "ledger_inv s'"
    and "within_hold s (Settle ex cand idx d v2 risk now)
           \<Longrightarrow> current_spend s' live_budget_key \<le> current_spend s live_budget_key"
    and "current_spend s' live_budget_key \<noteq> current_spend s live_budget_key
           \<Longrightarrow> (\<exists>p. d = Some p \<and> pd_basis p = ACTUAL_USAGE) \<or> (d = None \<and> \<not> risk)"
proof -
  let ?k = "attempt_debit_id ex cand idx v2"
  consider (hold) "hold_attempt_debit_unresolved ?k now s = (ok, s')"
    | (release) "d = None" "\<not> risk"
        "settle_attempt_debit ?k live_budget_key ''RELEASED'' 0 None None None now s = (ok, s')"
    | (actual) p where "d = Some p" "pd_basis p = ACTUAL_USAGE"
        "settle_attempt_debit ?k live_budget_key ''ACTUAL_USAGE'' (pd_amount_usd p) (pd_input_tokens p)
           (pd_output_tokens p) (Some (pd_rate_card_ref p)) now s = (ok, s')"
    using res by (auto simp: settle_attempt_spend_def Let_def split: option.splits if_splits)
  then have "ledger_inv s'
    \<and> (within_hold s (Settle ex cand idx d v2 risk now)
           \<longrightarrow> current_spend s' live_budget_key \<le> current_spend s live_budget_key)
    \<and> (current_spend s' live_budget_key \<noteq> current_spend s live_budget_key
           \<longrightarrow> (\<exists>p. d = Some p \<and> pd_basis p = ACTUAL_USAGE) \<or> (d = None \<and> \<not> risk))"
  proof cases
    case hold
    then show ?thesis using hold_debit_inv [OF inv hold] by simp
  next
    case release
    note f = settle_debit_inv [OF inv on_grid_zero order_refl release(3)]
    then show ?thesis using release inv by (cases ok) (auto simp: ledger_inv_def)
  next
    case actual
    have "on_grid (pd_amount_usd p)" "0 \<le> pd_amount_usd p" using d actual(1) by (simp_all add: money_def)
    from settle_debit_inv [OF inv this actual(3)] show ?thesis
      using actual by (cases ok) auto
  qed
  then show "ledger_inv s'"
    and "within_hold s (Settle ex cand idx d v2 risk now)
           \<Longrightarrow> current_spend s' live_budget_key \<le> current_spend s live_budget_key"
    and "current_spend s' live_budget_key \<noteq> current_spend s live_budget_key
           \<Longrightarrow> (\<exists>p. d = Some p \<and> pd_basis p = ACTUAL_USAGE) \<or> (d = None \<and> \<not> risk)"
    by blast+
qed

lemma run_spend_op_step:
  assumes inv: "ledger_inv s" and m: "op_money x"
  shows "ledger_inv (run_spend_op e x s)"
    and "within_hold s x \<Longrightarrow> hard_limit_of e = Some h \<Longrightarrow> current_spend s live_budget_key \<le> h
           \<Longrightarrow> current_spend (run_spend_op e x s) live_budget_key \<le> h"
proof -
  have "ledger_inv (run_spend_op e x s) \<and>
    (within_hold s x \<longrightarrow> hard_limit_of e = Some h \<longrightarrow> current_spend s live_budget_key \<le> h
       \<longrightarrow> current_spend (run_spend_op e x s) live_budget_key \<le> h)"
  proof (cases x)
    case (Reserve ex cand prov mrev idx d v2 now)
    let ?r = "reservation_row ex cand prov mrev idx d v2 now"
    obtain out s' where res: "reserve_attempt_debit ?r live_budget_key (hard_limit_of e) s = (out, s')"
      by (meson prod.exhaust)
    have "on_grid (db_amount_usd ?r)" "0 \<le> db_amount_usd ?r"
      using m Reserve by (simp_all add: reservation_row_def money_def)
    note f = reserve_debit_inv [OF inv this res]
    show ?thesis using f(1) f(3) [of h] f(4) Reserve res
      by (cases "out = RESERVED") (auto simp: reserve_attempt_spend_def)
  next
    case (Settle ex cand idx d v2 risk now)
    obtain ok s' where res: "settle_attempt_spend ex cand idx d v2 risk now s = (ok, s')"
      by (meson prod.exhaust)
    from settle_spend_inv [OF inv _ res] m Settle res show ?thesis by (auto simp del: within_hold.simps)
  next
    case (Reconcile k a i n c now)
    obtain ok s' where res: "reconcile_attempt_debit k live_budget_key a i n c now s = (ok, s')"
      by (meson prod.exhaust)
    have "on_grid a" "0 \<le> a" using m Reconcile by (simp_all add: money_def)
    from reconcile_debit_inv [OF inv this res] show ?thesis using Reconcile res
      by (cases ok) (auto simp: reconcile_attempt_spend_def)
  qed
  then show "ledger_inv (run_spend_op e x s)"
    and "within_hold s x \<Longrightarrow> hard_limit_of e = Some h \<Longrightarrow> current_spend s live_budget_key \<le> h
           \<Longrightarrow> current_spend (run_spend_op e x s) live_budget_key \<le> h"
    by blast+
qed

lemma ledger_inv_empty: "ledger_inv empty_ops_store"
  by (simp add: ledger_inv_def empty_ops_store_def get_attempt_debit_def current_spend_def get_budget_state_def
      ledger_total_def)

lemma run_spend_ops_inv:
  "ledger_inv s \<Longrightarrow> list_all op_money xs \<Longrightarrow> ledger_inv (fold (run_spend_op e) xs s)"
  by (induction xs arbitrary: s) (simp_all add: run_spend_op_step(1))

lemma run_spend_ops_limit:
  "ledger_inv s \<Longrightarrow> list_all op_money xs \<Longrightarrow> run_within_hold e xs s \<Longrightarrow> hard_limit_of e = Some h \<Longrightarrow>
     current_spend s live_budget_key \<le> h \<Longrightarrow> current_spend (fold (run_spend_op e) xs s) live_budget_key \<le> h"
  by (induction xs arbitrary: s) (simp_all add: run_spend_op_step)

section \<open>Attempt identities\<close>

lemma append_delim_inject:
  assumes "xs @ c # ys = xs' @ c # ys'" and "c \<notin> set xs" and "c \<notin> set xs'"
  shows "xs = xs' \<and> ys = ys'"
proof -
  have *: "takeWhile (\<lambda>x. x \<noteq> c) (zs @ c # ws) = zs" if "c \<notin> set zs" for zs ws :: "'a list"
    using that by (subst takeWhile_append2) auto
  have "xs = xs'" using * [OF assms(2), of ys] * [OF assms(3), of ys'] assms(1) by simp
  with assms(1) show ?thesis by simp
qed

lemma append_delim_inject_last:
  assumes "xs @ c # ys = xs' @ c # ys'" and "c \<notin> set ys" and "c \<notin> set ys'"
  shows "xs = xs' \<and> ys = ys'"
proof -
  have "rev ys @ c # rev xs = rev ys' @ c # rev xs'"
    using arg_cong [OF assms(1), of rev] by simp
  from append_delim_inject [OF this] assms(2,3) show ?thesis by simp
qed

lemma colon_not_in_nat_str [simp]: "CHR '':'' \<notin> set (nat_str n)"
  using nat_str_digits [of "CHR '':''" n] by auto

lemma starts_with_append: "starts_with pre x \<longleftrightarrow> (\<exists>z. x = pre @ z)"
  by (auto simp: starts_with_def) (metis append_take_drop_id)

lemma starts_with_execution:
  assumes "starts_with (pre @ ex @ '':'') (pre @ ex' @ '':'' @ z)"
    and "CHR '':'' \<notin> set ex" and "CHR '':'' \<notin> set ex'"
  shows "ex = ex'"
proof -
  from assms(1) obtain y where "ex' @ CHR '':'' # z = ex @ CHR '':'' # y" by (auto simp: starts_with_append)
  from append_delim_inject [OF this assms(3,2)] show ?thesis by simp
qed

lemma attempt_debit_id_other_execution:
  assumes "CHR '':'' \<notin> set ex" and "CHR '':'' \<notin> set ex'" and "ex \<noteq> ex'"
    and "pre = ''adbt2:'' \<or> pre = ''adbt:''"
  shows "\<not> starts_with (pre @ ex @ '':'') (attempt_debit_id ex' cand idx v2)"
proof
  assume "starts_with (pre @ ex @ '':'') (attempt_debit_id ex' cand idx v2)"
  moreover have "\<exists>z. attempt_debit_id ex' cand idx v2 = ''adbt2:'' @ ex' @ '':'' @ z
      \<or> attempt_debit_id ex' cand idx v2 = ''adbt:'' @ ex' @ '':'' @ z"
    by (cases v2) (auto simp: attempt_debit_id_def)
  then obtain z where "attempt_debit_id ex' cand idx v2 = ''adbt2:'' @ ex' @ '':'' @ z
      \<or> attempt_debit_id ex' cand idx v2 = ''adbt:'' @ ex' @ '':'' @ z" by blast
  ultimately show False
    using assms starts_with_execution [of "''adbt2:''" ex ex' z] starts_with_execution [of "''adbt:''" ex ex' z]
    by (auto simp: starts_with_append)
qed

lemma filter_dict_put_other:
  "\<not> P k \<Longrightarrow> filter (\<lambda>(k, r). P k) (dict_put k v d) = filter (\<lambda>(k, r). P k) d"
  by (induction d) auto

lemma sum_attempt_debits_put_other:
  "\<not> starts_with pre k \<Longrightarrow>
     sum_attempt_debits pre (s\<lparr>attempt_debits := dict_put k r (attempt_debits s)\<rparr>) = sum_attempt_debits pre s"
  by (simp add: sum_attempt_debits_def filter_dict_put_other)

lemma sum_attempt_debits_add_spend [simp]:
  "sum_attempt_debits pre (add_budget_spend k a now s) = sum_attempt_debits pre s"
  by (simp add: sum_attempt_debits_def)

section \<open>Properties\<close>

text \<open>
  C3. The hard budget is hard: with enforcement on, no sequence of reservations, settlements, holds and
  reconciliations, in any order and from any number of executions, moves the counter above the limit, as
  long as a resolved attempt costs no more than the maximum that was reserved for it.
\<close>

theorem hard_budget_never_exceeded:
  assumes "et_budget_enforced e" and "et_hard_budget_usd e = Some h" and "0 \<le> h"
    and "list_all op_money xs" and "run_within_hold e xs empty_ops_store"
  shows "current_spend (fold (run_spend_op e) xs empty_ops_store) live_budget_key \<le> h"
  using run_spend_ops_limit [OF ledger_inv_empty assms(4,5), of h] assms(1-3)
  by (simp add: hard_limit_of_def current_spend_def get_budget_state_def empty_ops_store_def)

text \<open>
  C8. The counter is the ledger: after any sequence of boundary operations the budget counter equals the
  sum of the amounts on the attempt debits, so no operation loses or double-counts spend.
\<close>

theorem counter_equals_ledger:
  assumes "list_all op_money xs"
  shows "current_spend (fold (run_spend_op e) xs empty_ops_store) live_budget_key
           = ledger_total (fold (run_spend_op e) xs empty_ops_store)"
  using run_spend_ops_inv [OF ledger_inv_empty assms, of e] by (simp add: ledger_inv_def)

text \<open>
  Only evidence moves the envelope at settlement: settling an attempt changes the counter only when the
  provider reported usage that a rate card prices, or when the attempt was stated not billable; an
  estimate or an unpriceable attempt leaves the reserved maximum counted.
\<close>

theorem settlement_moves_only_on_evidence:
  assumes "ledger_inv s" and "case d of None \<Rightarrow> True | Some p \<Rightarrow> money (pd_amount_usd p)"
    and "settle_attempt_spend ex cand idx d v2 risk now s = (ok, s')"
    and "current_spend s' live_budget_key \<noteq> current_spend s live_budget_key"
  shows "(\<exists>p. d = Some p \<and> pd_basis p = ACTUAL_USAGE) \<or> (d = None \<and> \<not> risk)"
  by (rule settle_spend_inv(3) [OF assms])

text \<open>
  The boundary is idempotent: reserving an attempt a second time answers DUPLICATE and writes nothing,
  and once a settlement has resolved the row, every later settlement of that attempt answers False and
  writes nothing, whatever evidence it carries.
\<close>

theorem boundary_idempotent:
  assumes "reserve_attempt_spend e ex cand prov mrev idx d v2 now s = (RESERVED, s1)"
    and "settle_attempt_spend ex cand idx x v2 risk now2 s1 = (True, s2)"
  shows "reserve_attempt_spend e ex cand prov mrev idx d' v2 now' s1 = (DUPLICATE, s1)
       \<and> reserve_attempt_spend e ex cand prov mrev idx d' v2 now' s2 = (DUPLICATE, s2)
       \<and> settle_attempt_spend ex cand idx x' v2 risk' now' s2 = (False, s2)"
proof -
  let ?k = "attempt_debit_id ex cand idx v2"
  have k1: "get_attempt_debit s1 ?k \<noteq> None"
    using assms(1) by (auto simp: reserve_attempt_spend_def reserve_attempt_debit_def reservation_row_def
        get_attempt_debit_def save_attempt_debit_def split: if_splits)
  have k2: "\<exists>row. get_attempt_debit s2 ?k = Some row \<and> db_basis row \<noteq> ''RESERVED_MAX''"
    using assms(2) by (auto simp: settle_attempt_spend_def Let_def settle_attempt_debit_def
        hold_attempt_debit_unresolved_def get_attempt_debit_def split: option.splits if_splits)
  have settled: "settle_attempt_spend ex cand idx x' v2 risk' now' s2 = (False, s2)"
    using k2 by (auto simp: settle_attempt_spend_def Let_def settle_attempt_debit_def
        hold_attempt_debit_unresolved_def get_attempt_debit_def split: option.splits)
  have dup: "get_attempt_debit w ?k \<noteq> None
      \<Longrightarrow> reserve_attempt_spend e ex cand prov mrev idx d' v2 now' w = (DUPLICATE, w)" for w :: "'a provider_ops_store_scheme"
    by (simp add: reserve_attempt_spend_def reserve_attempt_debit_def reservation_row_def)
  show ?thesis using dup k1 k2 settled by auto
qed

text \<open>
  Attempts do not share a debit: two attempts with the same debit id belong to the same execution, have
  the same index and name the same candidate, by canonical identity or, without one, by entry id.
\<close>

theorem attempt_debit_id_injective:
  assumes "attempt_debit_id ex cand i v2 = attempt_debit_id ex' cand' i' v2'"
    and "CHR '':'' \<notin> set ex" and "CHR '':'' \<notin> set ex'"
  shows "ex = ex' \<and> i = i' \<and>
     (if v2 \<noteq> None \<and> v2 \<noteq> Some [] then v2' = v2
      else (v2' = None \<or> v2' = Some []) \<and> cand' = cand)"
proof -
  define named where "named v = (v \<noteq> None \<and> v \<noteq> Some [])" for v :: "string option"
  define seg where "seg c v = (if named v then the v else c)" for c :: string and v
  have id: "attempt_debit_id x c n v = (if named v then ''adbt2:'' else ''adbt:'') @ x @ CHR '':'' # (seg c v @ CHR '':'' # nat_str n)"
    for x c n v by (auto simp: attempt_debit_id_def named_def seg_def split: option.splits)
  have gen: "named v2 = named v2'" using assms(1) by (auto simp: id split: if_splits)
  then have "ex @ CHR '':'' # (seg cand v2 @ CHR '':'' # nat_str i) = ex' @ CHR '':'' # (seg cand' v2' @ CHR '':'' # nat_str i')"
    using assms(1) by (auto simp: id split: if_splits)
  from append_delim_inject [OF this assms(2,3)] have "ex = ex'"
    and r: "seg cand v2 @ CHR '':'' # nat_str i = seg cand' v2' @ CHR '':'' # nat_str i'" by blast+
  from append_delim_inject_last [OF r] have "seg cand v2 = seg cand' v2'" "i = i'" by simp_all
  with \<open>ex = ex'\<close> gen show ?thesis by (auto simp: seg_def named_def split: if_splits)
qed

text \<open>
  Executions account separately: an operation at the attempt boundary of one execution never changes
  what another execution is recorded to have spent, which is the figure its cost ceiling is checked against.
\<close>

theorem execution_spend_isolated:
  assumes "CHR '':'' \<notin> set ex" and "CHR '':'' \<notin> set ex'" and "ex \<noteq> ex'"
  shows "spent_for_execution ex (run_spend_op e (Reserve ex' cand prov mrev idx d v2 now) s) = spent_for_execution ex s
       \<and> spent_for_execution ex (run_spend_op e (Settle ex' cand idx d' v2 risk now) s) = spent_for_execution ex s"
proof -
  have other: "\<not> starts_with (pre @ ex @ '':'') (attempt_debit_id ex' cand idx v2)"
    if "pre = ''adbt2:'' \<or> pre = ''adbt:''" for pre
    using attempt_debit_id_other_execution [OF assms that] .
  note o2 = other [of "''adbt2:''", simplified] and o1 = other [of "''adbt:''", simplified]
  show ?thesis
    by (auto simp: spent_for_execution_def reserve_attempt_spend_def reserve_attempt_debit_def
        reservation_row_def save_attempt_debit_def settle_attempt_spend_def Let_def settle_attempt_debit_def
        hold_attempt_debit_unresolved_def sum_attempt_debits_put_other o1 o2 split: option.splits)
qed

section \<open>A concrete day\<close>

definition sample_thresholds :: enforcement_thresholds where
  "sample_thresholds = \<lparr>et_quota_enforced = False, et_default_quota_limit = None, et_task_quota_limits = [],
     et_caller_quota_limits = [], et_tenant_quota_limits = [], et_budget_enforced = True,
     et_soft_budget_usd = None, et_hard_budget_usd = Some 1, et_degradation_enforced = True,
     et_degraded_failure_count_threshold = Some 1, et_circuit_open_failure_count_threshold = Some 2,
     et_circuit_open_seconds = Some 30\<rparr>"

definition sample_debit :: "cost_basis \<Rightarrow> usd \<Rightarrow> priced_debit" where
  "sample_debit b a = \<lparr>pd_amount_usd = a, pd_basis = b, pd_input_tokens = Some 10, pd_output_tokens = Some 5,
     pd_rate_card_ref = ''default-live-text''\<rparr>"

definition sample_reserve :: "string \<Rightarrow> usd \<Rightarrow> spend_op" where
  "sample_reserve ex a = Reserve ex ''text.openai:m-1'' ''text.openai'' (Some ''m-1'') 0
     (sample_debit CONSERVATIVE_ESTIMATE a) None ''t1''"

definition sample_settle :: "string \<Rightarrow> priced_debit option \<Rightarrow> bool \<Rightarrow> spend_op" where
  "sample_settle ex d risk = Settle ex ''text.openai:m-1'' 0 d None risk ''t2''"

definition sample_day :: "spend_op list" where
  "sample_day = [sample_reserve ''ex1'' (3/4), sample_reserve ''ex2'' (1/2),
     sample_settle ''ex1'' (Some (sample_debit ACTUAL_USAGE (1/4))) True, sample_reserve ''ex2'' (1/2),
     sample_settle ''ex2'' None True, sample_reserve ''ex3'' (1/2)]"

lemma sample_day_money: "list_all op_money sample_day"
  by code_simp

lemma sample_day_within: "run_within_hold sample_thresholds sample_day empty_ops_store"
  by code_simp

definition sample_day_end :: provider_ops_store where
  "sample_day_end = fold (run_spend_op sample_thresholds) sample_day empty_ops_store"

theorem hard_budget_never_exceeded_witness:
  "current_spend sample_day_end live_budget_key = 3/4 \<and> current_spend sample_day_end live_budget_key \<le> 1"
proof -
  have "current_spend sample_day_end live_budget_key = 3/4" by code_simp
  moreover have "current_spend sample_day_end live_budget_key \<le> 1"
    unfolding sample_day_end_def
    by (rule hard_budget_never_exceeded [OF _ _ _ sample_day_money sample_day_within])
      (simp_all add: sample_thresholds_def)
  ultimately show ?thesis by blast
qed

theorem counter_equals_ledger_witness:
  "ledger_total sample_day_end = 3/4 \<and> current_spend sample_day_end live_budget_key = ledger_total sample_day_end"
proof -
  have "ledger_total sample_day_end = 3/4" by code_simp
  moreover have "current_spend sample_day_end live_budget_key = ledger_total sample_day_end"
    unfolding sample_day_end_def by (rule counter_equals_ledger [OF sample_day_money])
  ultimately show ?thesis by blast
qed

definition sample_reserved :: provider_ops_store where
  "sample_reserved = run_spend_op sample_thresholds (sample_reserve ''ex1'' (3/4)) empty_ops_store"

theorem settlement_moves_only_on_evidence_witness:
  "(\<exists>p. Some (sample_debit ACTUAL_USAGE (1/4)) = Some p \<and> pd_basis p = ACTUAL_USAGE)
   \<or> (Some (sample_debit ACTUAL_USAGE (1/4)) = None \<and> \<not> True)"
proof -
  let ?run = "settle_attempt_spend ''ex1'' ''text.openai:m-1'' 0 (Some (sample_debit ACTUAL_USAGE (1/4))) None True
     ''t2'' sample_reserved"
  have inv: "ledger_inv sample_reserved"
    unfolding sample_reserved_def by (rule run_spend_op_step(1) [OF ledger_inv_empty]) code_simp
  have m: "case Some (sample_debit ACTUAL_USAGE (1/4)) of None \<Rightarrow> True | Some p \<Rightarrow> money (pd_amount_usd p)"
    by code_simp
  have "current_spend (snd ?run) live_budget_key \<noteq> current_spend sample_reserved live_budget_key" by code_simp
  from settlement_moves_only_on_evidence [OF inv m _ this, of "''ex1''" "''text.openai:m-1''" 0 None True "''t2''" "fst ?run"]
  show ?thesis by simp
qed

theorem boundary_idempotent_witness:
  "settle_attempt_spend ''ex1'' ''text.openai:m-1'' 0 None None False ''t9''
     (run_spend_op sample_thresholds (sample_settle ''ex1'' None True) sample_reserved)
   = (False, run_spend_op sample_thresholds (sample_settle ''ex1'' None True) sample_reserved)"
proof -
  have 1: "reserve_attempt_spend sample_thresholds ''ex1'' ''text.openai:m-1'' ''text.openai'' (Some ''m-1'') 0
     (sample_debit CONSERVATIVE_ESTIMATE (3/4)) None ''t1'' empty_ops_store = (RESERVED, sample_reserved)" by code_simp
  have 2: "settle_attempt_spend ''ex1'' ''text.openai:m-1'' 0 None None True ''t2'' sample_reserved
     = (True, run_spend_op sample_thresholds (sample_settle ''ex1'' None True) sample_reserved)" by code_simp
  from boundary_idempotent [OF 1 2] show ?thesis by blast
qed

theorem attempt_debit_id_injective_witness:
  "attempt_debit_id ''ex1'' ''text.openai:m-1'' 3 None = attempt_debit_id ''ex1'' ''text.openai:m-1'' 3 (Some [])
   \<and> (None :: string option) \<noteq> Some []"
  using attempt_debit_id_injective [of "''ex1''" "''text.openai:m-1''" 3 None "''ex1''" "''text.openai:m-1''" 3 "Some []"]
  by (simp add: attempt_debit_id_def)

theorem execution_spend_isolated_witness:
  "spent_for_execution ''ex1'' (run_spend_op sample_thresholds (sample_reserve ''ex2'' (1/4)) sample_reserved) = 3/4"
proof -
  have "spent_for_execution ''ex1'' sample_reserved = 3/4" by code_simp
  then show ?thesis
    unfolding sample_reserve_def by (subst execution_spend_isolated [THEN conjunct1]) simp_all
qed

end
