(* ===== verification/Budget_Reconciliation.thy ===== *)
theory Budget_Reconciliation
  imports Claim_Release Provider_Budget "HOL-Library.Code_Target_Nat"
begin

text \<open>
  Governed reconciliation of unresolved exposure, \<^verbatim>\<open>services/budget_reconciliation.py\<close>: the only way a held
  maximum returns to the hard budget. The payload carries its figures as text, so the approval parses the
  text the request wrote; the module's authorization helper and its replay test are the ones of
  \<^verbatim>\<open>governed_claim_release.py\<close> word for word and are shared with that model.
\<close>

section \<open>Operations\<close>

definition reconcilable_bases :: "string list" where
  "reconcilable_bases = [''UNRESOLVED_MAX'', ''RESERVED_MAX'']"

definition reconciliation_payload ::
  "string \<Rightarrow> usd \<Rightarrow> string \<Rightarrow> int option \<Rightarrow> int option \<Rightarrow> string \<Rightarrow> usd \<Rightarrow> payload" where
  "reconciliation_payload debit_id evidenced evidence_ref input output basis held =
     [(''action_type'', Some ''BUDGET_RECONCILIATION''),
      (''debit_id'', Some debit_id),
      (''evidenced_amount_usd'', Some (amount_str evidenced)),
      (''evidence_ref'', Some evidence_ref),
      (''input_tokens'', map_option int_str input),
      (''output_tokens'', map_option int_str output),
      (''exposure_basis'', Some basis),
      (''held_amount_usd'', Some (amount_str held))]"

definition request_budget_reconciliation ::
  "(payload \<Rightarrow> string) \<Rightarrow> policy_store \<Rightarrow> authenticated_caller \<Rightarrow> string \<Rightarrow> usd \<Rightarrow> string \<Rightarrow> int option
     \<Rightarrow> int option \<Rightarrow> string option \<Rightarrow> string \<Rightarrow> timestamp \<Rightarrow> 'a provider_ops_store_scheme
     \<Rightarrow> governed_action result \<times> 'a provider_ops_store_scheme" where
  "request_budget_reconciliation sha policies caller debit_id evidenced evidence_ref input output requested_by
       new_id now s =
     (case require_provider_control policies caller of
        Inl e \<Rightarrow> (Inl e, s)
      | Inr _ \<Rightarrow>
        (case get_attempt_debit s debit_id of
           None \<Rightarrow> (Inl (HTTPException 404 ''no_attempt_debit''), s)
         | Some row \<Rightarrow>
           if db_basis row \<notin> set reconcilable_bases
           then (Inl (HTTPException 409 ''not_unresolved''), s)
           else submit_governed_action sha caller BUDGET_RECONCILIATION debit_id
                  (reconciliation_payload debit_id evidenced evidence_ref input output (db_basis row)
                    (db_amount_usd row))
                  requested_by new_id now s))"

definition payload_amount :: "payload \<Rightarrow> string \<Rightarrow> usd result" where
  "payload_amount p k =
     (case parse_amount (payload_str p k) of None \<Rightarrow> Inl (ValueError k) | Some a \<Rightarrow> Inr a)"

definition payload_tokens :: "payload \<Rightarrow> string \<Rightarrow> int option result" where
  "payload_tokens p k =
     (case dict_get p k of
        Some (Some t) \<Rightarrow> (case parse_int t of None \<Rightarrow> Inl (ValueError k) | Some i \<Rightarrow> Inr (Some i))
      | _ \<Rightarrow> Inr None)"

definition rebuild_reconciliation_payload ::
  "'a provider_ops_store_scheme \<Rightarrow> governed_action \<Rightarrow> payload result" where
  "rebuild_reconciliation_payload s r =
     (let p = ga_action_payload r; debit_id = payload_str p ''debit_id'';
          row = get_attempt_debit s debit_id
      in case payload_amount p ''evidenced_amount_usd'' of
           Inl e \<Rightarrow> Inl e
         | Inr evidenced \<Rightarrow>
           (case payload_tokens p ''input_tokens'' of
              Inl e \<Rightarrow> Inl e
            | Inr input \<Rightarrow>
              (case payload_tokens p ''output_tokens'' of
                 Inl e \<Rightarrow> Inl e
               | Inr output \<Rightarrow>
                   Inr (reconciliation_payload debit_id evidenced (payload_str p ''evidence_ref'') input output
                     (case row of Some x \<Rightarrow> db_basis x | None \<Rightarrow> ''ABSENT'')
                     (case row of Some x \<Rightarrow> db_amount_usd x | None \<Rightarrow> 0)))))"

definition already_reconciled :: "attempt_debit option \<Rightarrow> usd \<Rightarrow> bool" where
  "already_reconciled current evidenced \<longleftrightarrow>
     (case current of None \<Rightarrow> False
      | Some c \<Rightarrow> db_basis c = ''RECONCILED'' \<and> round8 (db_amount_usd c) = round8 evidenced)"

definition reconciliation_outcome :: "string \<Rightarrow> usd \<Rightarrow> usd \<Rightarrow> payload" where
  "reconciliation_outcome debit_id evidenced held =
     [(''debit_id'', Some debit_id), (''evidenced_amount_usd'', Some (amount_str evidenced)),
      (''released_amount_usd'', Some (amount_str (round8 (held - evidenced))))]"

definition execute_reconciliation ::
  "timestamp \<Rightarrow> 'a provider_ops_store_scheme effect" where
  "execute_reconciliation tick r s =
     (let p = ga_action_payload r; debit_id = payload_str p ''debit_id'' in
      case payload_amount p ''evidenced_amount_usd'' of
        Inl e \<Rightarrow> (Inl e, s)
      | Inr evidenced \<Rightarrow>
        (case payload_amount p ''held_amount_usd'' of
           Inl e \<Rightarrow> (Inl e, s)
         | Inr held \<Rightarrow>
           (case payload_tokens p ''input_tokens'' of
              Inl e \<Rightarrow> (Inl e, s)
            | Inr input \<Rightarrow>
              (case payload_tokens p ''output_tokens'' of
                 Inl e \<Rightarrow> (Inl e, s)
               | Inr output \<Rightarrow>
                 (case reconcile_attempt_spend debit_id evidenced input output None tick s of
                    (settled, s') \<Rightarrow>
                      if \<not> settled \<and> \<not> already_reconciled (get_attempt_debit s' debit_id) evidenced
                      then (Inl (HTTPException 409 ''resolved_by_other_means''), s')
                      else (Inr (Some (reconciliation_outcome debit_id evidenced held)), s'))))))"

record reconciliation_response =
  rr_governed_action :: governed_action
  rr_debit_id :: string
  rr_evidenced_amount_usd :: usd
  rr_released_amount_usd :: usd

definition reconciliation_response_from_result ::
  "governed_action \<Rightarrow> reconciliation_response result" where
  "reconciliation_response_from_result r =
     (let p = (case ga_result_payload r of None \<Rightarrow> [] | Some p \<Rightarrow> p) in
      case payload_amount p ''evidenced_amount_usd'' of
        Inl e \<Rightarrow> Inl e
      | Inr evidenced \<Rightarrow>
        (case payload_amount p ''released_amount_usd'' of
           Inl e \<Rightarrow> Inl e
         | Inr released \<Rightarrow>
             Inr \<lparr>rr_governed_action = r, rr_debit_id = payload_str p ''debit_id'',
                  rr_evidenced_amount_usd = evidenced, rr_released_amount_usd = released\<rparr>))"

text \<open>
  The response of a fresh execution restates the outcome the callback recorded, which is the result payload
  the finalized action carries.
\<close>

definition approve_budget_reconciliation ::
  "(payload \<Rightarrow> string) \<Rightarrow> policy_store \<Rightarrow> authenticated_caller \<Rightarrow> string \<Rightarrow> string \<Rightarrow> string option
     \<Rightarrow> bool \<Rightarrow> timestamp list \<Rightarrow> timestamp \<Rightarrow> timestamp \<Rightarrow> 'a provider_ops_store_scheme
     \<Rightarrow> (reconciliation_response result \<times> 'a provider_ops_store_scheme) option" where
  "approve_budget_reconciliation sha policies caller action_id action_hash approved_by resume readings tick
       executed_now s =
     (case require_provider_control policies caller of
        Inl e \<Rightarrow> Some (Inl e, s)
      | Inr _ \<Rightarrow>
        let existing = get_governed_action s action_id in
        if already_released action_hash existing
        then Some (reconciliation_response_from_result (the existing), s)
        else case existing of
          None \<Rightarrow> Some (Inl (HTTPException 404 ''no_governed_action''), s)
        | Some e \<Rightarrow>
          (case approve_and_execute sha caller action_id (ga_target e) action_hash
                  rebuild_reconciliation_payload approved_by (execute_reconciliation tick) resume readings
                  executed_now s of
             None \<Rightarrow> None
           | Some (Inl err, s') \<Rightarrow> Some (Inl err, s')
           | Some (Inr executed, s') \<Rightarrow> Some (reconciliation_response_from_result executed, s')))"

section \<open>Facts\<close>

lemma payload_amount_reconciliation [simp]:
  "payload_amount (reconciliation_payload k a ref i n b held) ''evidenced_amount_usd'' = Inr (round8 a)"
  "payload_amount (reconciliation_payload k a ref i n b held) ''held_amount_usd'' = Inr (round8 held)"
  by (simp_all add: payload_amount_def payload_str_def reconciliation_payload_def)

lemma payload_tokens_reconciliation [simp]:
  "payload_tokens (reconciliation_payload k a ref i n b held) ''input_tokens'' = Inr i"
  "payload_tokens (reconciliation_payload k a ref i n b held) ''output_tokens'' = Inr n"
  by (cases i; cases n; simp add: payload_tokens_def reconciliation_payload_def)+

lemma payload_str_reconciliation [simp]:
  "payload_str (reconciliation_payload k a ref i n b held) ''debit_id'' = k"
  "payload_str (reconciliation_payload k a ref i n b held) ''evidence_ref'' = ref"
  by (simp_all add: payload_str_def reconciliation_payload_def)

lemma payload_outcome [simp]:
  "payload_str (reconciliation_outcome k a held) ''debit_id'' = k"
  "payload_amount (reconciliation_outcome k a held) ''evidenced_amount_usd'' = Inr (round8 a)"
  "payload_amount (reconciliation_outcome k a held) ''released_amount_usd'' = Inr (round8 (held - a))"
  by (simp_all add: payload_str_def payload_amount_def reconciliation_outcome_def)

lemma execute_reconciliation_pinned:
  "ga_action_payload r = reconciliation_payload k a ref i n b held \<Longrightarrow>
     execute_reconciliation tick r s =
       (case reconcile_attempt_spend k (round8 a) i n None tick s of
          (settled, s') \<Rightarrow>
            if \<not> settled \<and> \<not> already_reconciled (get_attempt_debit s' k) (round8 a)
            then (Inl (HTTPException 409 ''resolved_by_other_means''), s')
            else (Inr (Some (reconciliation_outcome k (round8 a) (round8 held))), s'))"
  by (simp add: execute_reconciliation_def Let_def split: prod.split)

lemma ledger_actions_frame [simp]:
  "get_attempt_debit (s\<lparr>governed_actions := g\<rparr>) k = get_attempt_debit s k"
  "current_spend (s\<lparr>governed_actions := g\<rparr>) b = current_spend s b"
  "ledger_inv (s\<lparr>governed_actions := g\<rparr>) = ledger_inv s"
  by (simp_all add: get_attempt_debit_def current_spend_def get_budget_state_def ledger_inv_def ledger_total_def)

lemma reconcile_spend_outcome:
  assumes "ledger_inv s" and "money a" and "reconcile_attempt_spend k a i n c now s = (settled, s')"
    and "settled \<or> already_reconciled (get_attempt_debit s' k) a"
  shows "ledger_inv s' \<and> (\<exists>row row'. get_attempt_debit s k = Some row
      \<and> (db_basis row \<in> set reconcilable_bases \<or> db_basis row = ''RECONCILED'' \<and> db_amount_usd row = a)
      \<and> get_attempt_debit s' k = Some row' \<and> db_basis row' = ''RECONCILED'' \<and> db_amount_usd row' = a
      \<and> current_spend s' live_budget_key = current_spend s live_budget_key + a - db_amount_usd row)"
proof -
  have a: "on_grid a" "0 \<le> a" using assms(2) by (simp_all add: money_def)
  note rec = assms(3) [unfolded reconcile_attempt_spend_def]
  note f = reconcile_debit_inv [OF assms(1) a rec]
  show ?thesis
  proof (cases settled)
    case True
    with rec have "\<exists>row row'. get_attempt_debit s k = Some row \<and> db_basis row \<in> set reconcilable_bases
        \<and> get_attempt_debit s' k = Some row' \<and> db_basis row' = ''RECONCILED'' \<and> db_amount_usd row' = a"
      by (auto simp: reconcile_attempt_debit_def get_attempt_debit_def reconcilable_bases_def
          split: option.splits if_splits)
    with f(1) f(2) [OF True] show ?thesis by auto
  next
    case False
    then have s': "s' = s" and "already_reconciled (get_attempt_debit s k) a" using f(3) assms(4) by auto
    then obtain row where row: "get_attempt_debit s k = Some row" "db_basis row = ''RECONCILED''"
      "round8 (db_amount_usd row) = round8 a"
      by (auto simp: already_reconciled_def split: option.splits)
    moreover have "db_amount_usd row = a" using row a(1) assms(1) by (simp add: ledger_inv_def)
    ultimately show ?thesis using s' assms(1) by auto
  qed
qed

lemma pinned_reconciliation_run:
  assumes "ledger_inv s" and "get_governed_action s aid = Some r"
    and "ga_action_payload r = reconciliation_payload k a ref i n b held" and "0 \<le> a"
    and "approve_and_execute sha caller aid tgt h rebuild attr (execute_reconciliation tick) resume readings now s
           = Some (Inr e, s')"
  shows "ledger_inv s' \<and> ga_result_payload e = Some (reconciliation_outcome k (round8 a) (round8 held))
    \<and> (\<exists>row row'. get_attempt_debit s k = Some row
      \<and> (db_basis row \<in> set reconcilable_bases \<or> db_basis row = ''RECONCILED'' \<and> db_amount_usd row = round8 a)
      \<and> get_attempt_debit s' k = Some row' \<and> db_basis row' = ''RECONCILED'' \<and> db_amount_usd row' = round8 a
      \<and> current_spend s' live_budget_key = current_spend s live_budget_key + round8 a - db_amount_usd row)"
proof -
  from assms(5) obtain r' resuming c s1 res s2 where
    chk: "approve_check sha caller aid tgt h (rebuild s) resume s = Inr (r', resuming)"
    and cl: "claim_step caller aid attr readings r' resuming s = Some (Inr c, s1)"
    and ex: "execute_reconciliation tick c s1 = (Inr res, s2)" and fin: "finalize_step aid c res now s2 = (Inr e, s')"
    by (rule approve_and_execute_Inr)
  have r': "r' = r" using approve_checkD(1) [OF chk] assms(2) by simp
  have "resuming \<longrightarrow> resuming_own_claim True caller r'"
    using approve_checkD(7) [OF chk] by (auto simp: resuming_own_claim_def)
  from claim_step_records_credential(1) [OF cl this] r' assms(3)
  have c: "ga_action_payload c = reconciliation_payload k a ref i n b held" by simp
  obtain settled s3 where rec: "reconcile_attempt_spend k (round8 a) i n None tick s1 = (settled, s3)"
    by (meson prod.exhaust)
  from ex have ok: "settled \<or> already_reconciled (get_attempt_debit s3 k) (round8 a)" "s3 = s2"
    and res: "res = Some (reconciliation_outcome k (round8 a) (round8 held))"
    by (auto simp: execute_reconciliation_pinned [OF c] rec split: if_splits)
  obtain g where s1: "s1 = s\<lparr>governed_actions := g\<rparr>" using claim_step_frame [OF cl] by blast
  obtain g' where s': "s' = s2\<lparr>governed_actions := g'\<rparr>" using finalize_step_frame [OF fin] by blast
  have "money (round8 a)" using assms(4) round8_mono [of 0 a] by (simp add: money_def)
  from reconcile_spend_outcome [OF _ this rec ok(1)] assms(1) s1 s' ok(2) finalize_step_Inr(1) [OF fin] res
  show ?thesis by auto
qed

lemma execute_reconciliation_result:
  "execute_reconciliation tick r s = (Inr res, s') \<Longrightarrow> res \<noteq> None"
  by (auto simp: execute_reconciliation_def Let_def split: sum.splits prod.splits if_splits)

lemma approve_and_execute_records:
  assumes "approve_and_execute sha caller aid tgt h rebuild attr (execute_reconciliation tick) resume readings now s
             = Some (Inr e, s')"
  shows "get_governed_action s' aid = Some e \<and> already_released h (Some e)"
proof -
  from assms obtain r resuming c s1 res s2 where
    chk: "approve_check sha caller aid tgt h (rebuild s) resume s = Inr (r, resuming)"
    and cl: "claim_step caller aid attr readings r resuming s = Some (Inr c, s1)"
    and ex: "execute_reconciliation tick c s1 = (Inr res, s2)" and fin: "finalize_step aid c res now s2 = (Inr e, s')"
    by (rule approve_and_execute_Inr)
  have "resuming \<longrightarrow> resuming_own_claim True caller r"
    using approve_checkD(7) [OF chk] by (auto simp: resuming_own_claim_def)
  from claim_step_records_credential(3) [OF cl this] approve_checkD(5) [OF chk] finalize_step_Inr [OF fin]
    execute_reconciliation_result [OF ex]
  show ?thesis by (simp add: already_released_def)
qed

lemma resume_claim_runs:
  assumes "get_governed_action s aid = Some r" and "ga_status r = CLAIMED" and "ga_actor_class r = HUMAN_APPROVED"
    and "ga_claimed_at r = Some t" and "ga_approver_key_id r = ac_credential_key_id caller"
    and "verified_key (ac_credential_key_id caller)" and "ac_credential_key_id caller \<noteq> ga_requester_key_id r"
    and "t' \<in> set readings" and "t' \<noteq> t"
  obtains u where "approve_check sha caller aid (ga_target r) (ga_action_hash r) rebuild True s = Inr (r, True)"
    and "claim_step caller aid attr readings r True s
           = Some (Inr (r\<lparr>ga_claimed_at := Some u\<rparr>),
                   s\<lparr>governed_actions := dict_put aid (r\<lparr>ga_claimed_at := Some u\<rparr>) (governed_actions s)\<rparr>)"
proof -
  from rotate_claim_instant_returns [OF assms(8), of "ga_claimed_at r"] assms(4,9)
  obtain u where u: "rotate_claim_instant (ga_claimed_at r) readings = Some u" by auto
  have "approve_check sha caller aid (ga_target r) (ga_action_hash r) rebuild True s = Inr (r, True)"
    using assms by (simp add: approve_check_def require_verified_governing_credential_def resuming_own_claim_def)
  moreover have "claim_step caller aid attr readings r True s
           = Some (Inr (r\<lparr>ga_claimed_at := Some u\<rparr>),
                   s\<lparr>governed_actions := dict_put aid (r\<lparr>ga_claimed_at := Some u\<rparr>) (governed_actions s)\<rparr>)"
    using assms(1,2,4) u by (simp add: claim_step_def claim_resumed_def Let_def governed_store_defs)
  ultimately show thesis by (rule that)
qed

section \<open>Properties\<close>

text \<open>
  C10. Reconciliation settles the exposure to the evidence: when a requested reconciliation is approved, the
  debit is RECONCILED at the requested charge rounded to the grid, the counter has moved by exactly the
  difference to what the row held, the ledger still balances, and the answer states the held maximum minus
  the evidenced charge.
\<close>

theorem reconciliation_settles_to_evidence:
  assumes "request_budget_reconciliation sha policies caller k a ref i n by nid now s0 = (Inr rec, s1)"
    and "get_attempt_debit s0 k = Some held_row" and "0 \<le> a"
    and "ledger_inv s" and "get_governed_action s nid = Some rec"
    and "approve_budget_reconciliation sha policies' caller' nid h by' resume readings tick now' s
           = Some (Inr resp, s')"
  shows "\<exists>row row'. get_attempt_debit s k = Some row
     \<and> get_attempt_debit s' k = Some row' \<and> db_basis row' = ''RECONCILED'' \<and> db_amount_usd row' = round8 a
     \<and> current_spend s' live_budget_key = current_spend s live_budget_key + round8 a - db_amount_usd row
     \<and> ledger_inv s'
     \<and> rr_debit_id resp = k \<and> rr_evidenced_amount_usd resp = round8 a
     \<and> rr_released_amount_usd resp = round8 (db_amount_usd held_row) - round8 a"
proof -
  have pend: "ga_status rec = PENDING"
    and p: "ga_action_payload rec = reconciliation_payload k a ref i n (db_basis held_row) (db_amount_usd held_row)"
    using assms(1,2) unfolding request_budget_reconciliation_def submit_governed_action_def Let_def
    by (auto split: sum.splits option.splits if_splits)
  have "\<not> already_released h (Some rec)" using pend by (simp add: already_released_def)
  with assms(5,6) obtain e where
    run: "approve_and_execute sha caller' nid (ga_target rec) h rebuild_reconciliation_payload by'
            (execute_reconciliation tick) resume readings now' s = Some (Inr e, s')"
    and resp: "reconciliation_response_from_result e = Inr resp"
    by (auto simp: approve_budget_reconciliation_def Let_def split: sum.splits option.splits prod.splits)
  note f = pinned_reconciliation_run [OF assms(4,5) p assms(3) run]
  then have "resp = \<lparr>rr_governed_action = e, rr_debit_id = k, rr_evidenced_amount_usd = round8 a,
      rr_released_amount_usd = round8 (db_amount_usd held_row) - round8 a\<rparr>"
    using resp by (simp add: reconciliation_response_from_result_def)
  with f show ?thesis by auto
qed

text \<open>
  A lost answer is recoverable: after an approval has returned, approving the same hash again, by any
  caller with provider control, returns the same answer and changes nothing.
\<close>

theorem reconciliation_replay_is_idempotent:
  assumes "approve_budget_reconciliation sha policies caller aid h by resume readings tick now s = Some (Inr resp, s')"
    and "require_provider_control policies' caller' = Inr u"
  shows "approve_budget_reconciliation sha policies' caller' aid h by' resume' readings' tick' now' s'
           = Some (Inr resp, s')"
proof -
  let ?x = "get_governed_action s aid"
  from assms(1) consider (replay) "already_released h ?x" "s' = s"
      "reconciliation_response_from_result (the ?x) = Inr resp"
    | (fresh) e r where "?x = Some r" "reconciliation_response_from_result e = Inr resp"
        "approve_and_execute sha caller aid (ga_target r) h rebuild_reconciliation_payload by
            (execute_reconciliation tick) resume readings now s = Some (Inr e, s')"
    by (auto simp: approve_budget_reconciliation_def Let_def split: sum.splits option.splits prod.splits if_splits)
  then show ?thesis
  proof cases
    case replay
    then show ?thesis using assms(2) by (simp add: approve_budget_reconciliation_def)
  next
    case fresh
    from approve_and_execute_records [OF fresh(3)] fresh(2) assms(2)
    show ?thesis by (simp add: approve_budget_reconciliation_def)
  qed
qed

text \<open>
  An interrupted reconciliation converges: when the process died after the counter release and before
  the EXECUTED write, the claiming credential's resume succeeds as soon as the clock moves, reports the true
  released difference from the pinned figures, and releases nothing a second time.
\<close>

theorem interrupted_reconciliation_converges:
  assumes "get_governed_action s aid = Some r" and "ga_status r = CLAIMED" and "ga_actor_class r = HUMAN_APPROVED"
    and "ga_claimed_at r = Some t" and "ga_approver_key_id r = ac_credential_key_id caller"
    and "verified_key (ac_credential_key_id caller)" and "ac_credential_key_id caller \<noteq> ga_requester_key_id r"
    and "ga_action_payload r = reconciliation_payload k a ref i n b held"
    and "get_attempt_debit s k = Some row" and "db_basis row = ''RECONCILED''" and "db_amount_usd row = round8 a"
    and "t' \<in> set readings" and "t' \<noteq> t" and "require_provider_control policies caller = Inr u"
  shows "\<exists>resp g. approve_budget_reconciliation sha policies caller aid (ga_action_hash r) attr True readings tick now s
             = Some (Inr resp, s\<lparr>governed_actions := g\<rparr>)
         \<and> rr_evidenced_amount_usd resp = round8 a \<and> rr_released_amount_usd resp = round8 held - round8 a"
proof -
  obtain v where chk: "approve_check sha caller aid (ga_target r) (ga_action_hash r) (rebuild_reconciliation_payload s) True s
      = Inr (r, True)"
    and cl: "claim_step caller aid attr readings r True s = Some (Inr (r\<lparr>ga_claimed_at := Some v\<rparr>),
        s\<lparr>governed_actions := dict_put aid (r\<lparr>ga_claimed_at := Some v\<rparr>) (governed_actions s)\<rparr>)"
    by (rule resume_claim_runs [OF assms(1-7,12,13)])
  let ?c = "r\<lparr>ga_claimed_at := Some v\<rparr>"
  let ?s1 = "s\<lparr>governed_actions := dict_put aid ?c (governed_actions s)\<rparr>"
  have "reconcile_attempt_spend k (round8 a) i n None tick ?s1 = (False, ?s1)"
    using assms(9,10) by (simp add: reconcile_attempt_spend_def reconcile_attempt_debit_def get_attempt_debit_def)
  then have ex: "execute_reconciliation tick ?c ?s1 = (Inr (Some (reconciliation_outcome k (round8 a) (round8 held))), ?s1)"
    using assms(8-11) by (simp add: execute_reconciliation_pinned already_reconciled_def get_attempt_debit_def)
  let ?e = "?c\<lparr>ga_status := EXECUTED, ga_executed_at := Some now,
      ga_result_payload := Some (reconciliation_outcome k (round8 a) (round8 held))\<rparr>"
  have "approve_and_execute sha caller aid (ga_target r) (ga_action_hash r) rebuild_reconciliation_payload attr
      (execute_reconciliation tick) True readings now s
      = Some (Inr ?e, ?s1\<lparr>governed_actions := dict_put aid ?e (governed_actions ?s1)\<rparr>)"
    using chk cl ex assms(2)
    by (simp add: approve_and_execute_def finalize_step_def Let_def transition_governed_action_def)
  moreover have "\<not> already_released (ga_action_hash r) (Some r)" using assms(2) by (simp add: already_released_def)
  ultimately show ?thesis
    using assms(1,14)
    by (auto simp: approve_budget_reconciliation_def Let_def reconciliation_response_from_result_def)
qed

section \<open>A concrete reconciliation\<close>

text \<open>The reservation of the sample day, held unresolved, requested under key-a and approved under key-b.\<close>

definition held_store :: provider_ops_store where
  "held_store = run_spend_op sample_thresholds (sample_settle ''ex1'' None True) sample_reserved"

definition held_debit_id :: string where
  "held_debit_id = attempt_debit_id ''ex1'' ''text.openai:m-1'' 0 None"

definition reconciliation_request :: "governed_action result \<times> provider_ops_store" where
  "reconciliation_request = request_budget_reconciliation sample_sha init_policy_store (sample_caller ''key-a'')
     held_debit_id (1/10) ''invoice-7'' None None None ''gact_1'' ''t3'' held_store"

definition reconciliation_approval :: "(reconciliation_response result \<times> provider_ops_store) option" where
  "reconciliation_approval = approve_budget_reconciliation sample_sha init_policy_store (sample_caller ''key-b'')
     ''gact_1'' ''digest'' None False [''t4''] ''t5'' ''t6'' (snd reconciliation_request)"

definition interrupted_action :: governed_action where
  "interrupted_action = sample_pending\<lparr>ga_action_type := BUDGET_RECONCILIATION, ga_target := held_debit_id,
     ga_action_payload := reconciliation_payload held_debit_id (1/10) ''invoice-7'' None None ''UNRESOLVED_MAX'' (3/4),
     ga_status := CLAIMED, ga_approver_key_id := Some ''key-b'', ga_claimed_at := Some ''t4''\<rparr>"

definition reconciled_row :: attempt_debit where
  "reconciled_row = reservation_row ''ex1'' ''text.openai:m-1'' ''text.openai'' (Some ''m-1'') 0
     (sample_debit CONSERVATIVE_ESTIMATE (round8 (1/10))) None ''t5''\<lparr>db_basis := ''RECONCILED''\<rparr>"

definition interrupted_reconciliation :: provider_ops_store where
  "interrupted_reconciliation = empty_ops_store\<lparr>governed_actions := [(''gact_1'', interrupted_action)],
     attempt_debits := [(held_debit_id, reconciled_row)]\<rparr>"

lemma held_store_inv: "ledger_inv held_store"
  unfolding held_store_def sample_reserved_def
  by (intro run_spend_op_step(1) ledger_inv_empty) code_simp+

lemma reconciliation_request_runs:
  "request_budget_reconciliation sample_sha init_policy_store (sample_caller ''key-a'')
     held_debit_id (1/10) ''invoice-7'' None None None ''gact_1'' ''t3'' held_store
   = (Inr (projr (fst reconciliation_request)), snd reconciliation_request)"
  by code_simp

lemma reconciliation_approval_runs:
  "approve_budget_reconciliation sample_sha init_policy_store (sample_caller ''key-b'')
     ''gact_1'' ''digest'' None False [''t4''] ''t5'' ''t6'' (snd reconciliation_request)
   = Some (Inr (projr (fst (the reconciliation_approval))), snd (the reconciliation_approval))"
  by code_simp

theorem reconciliation_settles_to_evidence_witness:
  "current_spend (snd (the reconciliation_approval)) live_budget_key = 1/10
   \<and> rr_released_amount_usd (projr (fst (the reconciliation_approval))) = 3/4 - 1/10"
proof -
  let ?row = "the (get_attempt_debit held_store held_debit_id)"
  let ?s = "snd reconciliation_request"
  have row: "get_attempt_debit held_store held_debit_id = Some ?row" by code_simp
  have inv: "ledger_inv ?s"
  proof -
    obtain g where "?s = held_store\<lparr>governed_actions := g\<rparr>"
    proof
      show "?s = held_store\<lparr>governed_actions := governed_actions ?s\<rparr>" by code_simp
    qed
    then show ?thesis using held_store_inv by simp
  qed
  have cur: "get_governed_action ?s ''gact_1'' = Some (projr (fst reconciliation_request))" by code_simp
  have facts: "current_spend ?s live_budget_key = 3/4"
    "db_amount_usd (the (get_attempt_debit ?s held_debit_id)) = 3/4" "db_amount_usd ?row = 3/4"
    "round8 (1/10) = 1/10" "round8 (3/4) = 3/4"
    by code_simp+
  from reconciliation_settles_to_evidence [OF reconciliation_request_runs row _ inv cur reconciliation_approval_runs]
  show ?thesis using facts by auto
qed

theorem reconciliation_replay_is_idempotent_witness:
  "approve_budget_reconciliation sample_sha init_policy_store (sample_caller ''key-z'')
     ''gact_1'' ''digest'' None False [] ''t8'' ''t9'' (snd (the reconciliation_approval))
   = Some (Inr (projr (fst (the reconciliation_approval))), snd (the reconciliation_approval))"
proof -
  have "require_provider_control init_policy_store (sample_caller ''key-z'') = Inr ()" by code_simp
  from reconciliation_replay_is_idempotent [OF reconciliation_approval_runs this] show ?thesis by blast
qed

theorem interrupted_reconciliation_converges_witness:
  "\<exists>resp g. approve_budget_reconciliation sample_sha init_policy_store (sample_caller ''key-b'') ''gact_1''
      (ga_action_hash interrupted_action) None True [''t4'', ''t7''] ''t8'' ''t9'' interrupted_reconciliation
      = Some (Inr resp, interrupted_reconciliation\<lparr>governed_actions := g\<rparr>)
    \<and> rr_released_amount_usd resp = round8 (3/4) - round8 (1/10)"
proof -
  have pend: "ga_actor_class sample_pending = HUMAN_APPROVED" "ga_requester_key_id sample_pending = Some ''key-a''"
    by code_simp+
  have f: "get_governed_action interrupted_reconciliation ''gact_1'' = Some interrupted_action"
    "ga_status interrupted_action = CLAIMED" "ga_actor_class interrupted_action = HUMAN_APPROVED"
    "ga_claimed_at interrupted_action = Some ''t4''"
    "ga_approver_key_id interrupted_action = ac_credential_key_id (sample_caller ''key-b'')"
    "verified_key (ac_credential_key_id (sample_caller ''key-b''))"
    "ac_credential_key_id (sample_caller ''key-b'') \<noteq> ga_requester_key_id interrupted_action"
    "ga_action_payload interrupted_action
       = reconciliation_payload held_debit_id (1/10) ''invoice-7'' None None ''UNRESOLVED_MAX'' (3/4)"
    "get_attempt_debit interrupted_reconciliation held_debit_id = Some reconciled_row"
    "db_basis reconciled_row = ''RECONCILED''" "db_amount_usd reconciled_row = round8 (1/10)"
    "''t7'' \<in> set [''t4'', ''t7'']" "''t7'' \<noteq> ''t4''"
    by (simp_all add: interrupted_reconciliation_def interrupted_action_def reconciled_row_def get_governed_action_def
        get_attempt_debit_def sample_caller_def verified_key_def pend reservation_row_def sample_debit_def)
  have "require_provider_control init_policy_store (sample_caller ''key-b'') = Inr ()" by code_simp
  from interrupted_reconciliation_converges [OF f this, of sample_sha None "''t8''" "''t9''"] show ?thesis
    by (elim exE conjE) (intro exI conjI)
qed

end
