(* ===== verification/Provider_Execution_Config.thy ===== *)
theory Provider_Execution_Config
  imports Provider_Budget
begin

text \<open>
  The execution configuration of one live candidate, \<^verbatim>\<open>services/provider_execution_config.py\<close>, the identities
  derived from it (\<^verbatim>\<open>contracts/model_catalogue.py\<close>) and the breaker key (\<^verbatim>\<open>provider_degradation_state.py\<close>).
  \<open>sha\<close> is the digest of canonical JSON; the settings the default configuration is read from are the
  configuration value itself.
\<close>

record execution_config =
  xc_provider_mode :: string
  xc_rollout_state :: string
  xc_provider_id :: "string option"
  xc_model_id :: "string option"
  xc_model_version :: "string option"
  xc_api_base :: string
  xc_api_key :: "string option"
  xc_allowed_task_ids :: string
  xc_timeout_ms :: int
  xc_retry_limit :: int
  xc_failed_attempt_cost_posture :: string
  xc_max_output_tokens :: int
  xc_temperature :: rat
  xc_top_p :: "rat option"
  xc_seed :: "int option"
  xc_enforcement :: enforcement_thresholds
  xc_routing_strategy :: string
  xc_fallback_provider_id :: "string option"
  xc_fallback_model_id :: "string option"
  xc_fallback_model_version :: "string option"
  xc_fallback_api_base :: "string option"
  xc_fallback_api_key :: "string option"
  xc_deployment :: "string option"

text \<open>What the admission controls read of a request for live text generation.\<close>

record execution_request =
  er_task_id :: string
  er_tenant_id :: "string option"
  er_caller_app :: string

text \<open>Truth of an optional string: \<^verbatim>\<open>None\<close> and the empty string are both false.\<close>

definition truthy :: "string option \<Rightarrow> bool" where
  "truthy x \<longleftrightarrow> x \<noteq> None \<and> x \<noteq> Some []"

definition or_else :: "string option \<Rightarrow> string option \<Rightarrow> string option" where
  "or_else x y = (if truthy x then x else y)"

lemma truthyE: "truthy x \<Longrightarrow> (\<And>v. x = Some v \<Longrightarrow> v \<noteq> [] \<Longrightarrow> thesis) \<Longrightarrow> thesis"
  by (auto simp: truthy_def)

definition derive_model_catalogue_entry_id :: "string \<Rightarrow> string \<Rightarrow> string option \<Rightarrow> string" where
  "derive_model_catalogue_entry_id provider revision deployment =
     (let base = provider @ '':'' @ revision
      in if truthy deployment then base @ '':'' @ the deployment else base)"

definition derive_candidate_identity_v2 ::
  "(payload \<Rightarrow> string) \<Rightarrow> string \<Rightarrow> string \<Rightarrow> string \<Rightarrow> string option \<Rightarrow> string" where
  "derive_candidate_identity_v2 sha provider family revision deployment =
     ''cand2_'' @ sha (sort_key fst
       [(''v'', Some ''2''), (''provider_id'', Some provider), (''model_family'', Some family),
        (''model_revision'', Some revision), (''deployment'', deployment)])"

definition config_candidate_identity ::
  "(payload \<Rightarrow> string) \<Rightarrow> execution_config \<Rightarrow> string option" where
  "config_candidate_identity sha c =
     (if truthy (xc_provider_id c) \<and> truthy (xc_model_id c)
      then Some (derive_candidate_identity_v2 sha (the (xc_provider_id c)) (the (xc_model_id c))
             (the (or_else (xc_model_version c) (xc_model_id c))) (xc_deployment c))
      else None)"

definition served_candidate_identity ::
  "(payload \<Rightarrow> string) \<Rightarrow> execution_config \<Rightarrow> string option" where
  "served_candidate_identity sha c =
     (if xc_routing_strategy c \<noteq> ''fixed'' then None else config_candidate_identity sha c)"

definition degradation_key_prefix :: string where
  "degradation_key_prefix = ''live_text_generation''"

definition degradation_key_for ::
  "(payload \<Rightarrow> string) \<Rightarrow> execution_config \<Rightarrow> string option \<Rightarrow> string" where
  "degradation_key_for sha c identity =
     (if truthy identity then degradation_key_prefix @ '':'' @ the identity
      else case config_candidate_identity sha c of
        Some v \<Rightarrow> degradation_key_prefix @ '':'' @ v
      | None \<Rightarrow> if truthy (xc_provider_id c) then degradation_key_prefix @ '':'' @ the (xc_provider_id c)
                else degradation_key_prefix)"

definition fallback_identity_configured :: "execution_config \<Rightarrow> bool" where
  "fallback_identity_configured c \<longleftrightarrow>
     truthy (xc_fallback_provider_id c) \<and> truthy (xc_fallback_model_id c) \<and> truthy (xc_fallback_api_base c)"

datatype fallback_finding =
    PartialFallback "string list" | FallbackRequired | FallbackIsPrimary | UnknownStrategy string

definition fallback_fields :: "execution_config \<Rightarrow> (string \<times> string option) list" where
  "fallback_fields c =
     [(''LOTUS_AI_LIVE_TEXT_FALLBACK_PROVIDER_ID'', xc_fallback_provider_id c),
      (''LOTUS_AI_LIVE_TEXT_FALLBACK_MODEL_ID'', xc_fallback_model_id c),
      (''LOTUS_AI_LIVE_TEXT_FALLBACK_API_BASE'', xc_fallback_api_base c)]"

definition fallback_configuration_findings :: "execution_config \<Rightarrow> fallback_finding list" where
  "fallback_configuration_findings c =
     (let supplied = map fst (filter (\<lambda>(n, v). truthy v) (fallback_fields c));
          missing = map fst (filter (\<lambda>(n, v). \<not> truthy v) (fallback_fields c))
      in (if supplied \<noteq> [] \<and> missing \<noteq> [] then [PartialFallback (sort missing)] else [])
         @ (if xc_routing_strategy c = ''ordered_fallback''
            then (if supplied = [] then [FallbackRequired]
                  else if missing = [] \<and> xc_fallback_provider_id c = xc_provider_id c
                       \<and> xc_fallback_model_id c = xc_model_id c
                       \<and> xc_fallback_model_version c = xc_model_version c
                  then [FallbackIsPrimary] else [])
            else if xc_routing_strategy c \<noteq> ''fixed'' then [UnknownStrategy (xc_routing_strategy c)]
            else []))"

definition alternate_config :: "execution_config \<Rightarrow> execution_config" where
  "alternate_config c =
     c\<lparr>xc_provider_id := xc_fallback_provider_id c, xc_model_id := xc_fallback_model_id c,
       xc_model_version := xc_fallback_model_version c, xc_api_base := the (xc_fallback_api_base c),
       xc_api_key := xc_fallback_api_key c, xc_routing_strategy := ''fixed'',
       xc_fallback_provider_id := None, xc_fallback_model_id := None,
       xc_fallback_model_version := None, xc_fallback_api_base := None,
       xc_fallback_api_key := None, xc_deployment := None\<rparr>"

definition derive_fallback_execution_config :: "execution_config \<Rightarrow> execution_config option" where
  "derive_fallback_execution_config c =
     (if \<not> fallback_identity_configured c \<or> xc_fallback_api_base c = None then None
      else Some (alternate_config c))"

section \<open>Facts\<close>

text \<open>Under ordered fallback an empty list of findings is exactly a usable, distinct alternate.\<close>

lemma fallback_findings_empty_iff:
  "xc_routing_strategy c = ''ordered_fallback'' \<Longrightarrow>
     fallback_configuration_findings c = [] \<longleftrightarrow>
       fallback_identity_configured c
     \<and> \<not> (xc_fallback_provider_id c = xc_provider_id c \<and> xc_fallback_model_id c = xc_model_id c
          \<and> xc_fallback_model_version c = xc_model_version c)"
  by (cases "truthy (xc_fallback_provider_id c)"; cases "truthy (xc_fallback_model_id c)";
      cases "truthy (xc_fallback_api_base c)")
    (simp_all add: fallback_configuration_findings_def fallback_fields_def fallback_identity_configured_def Let_def)

lemma alternate_config_fields [simp]:
  "xc_enforcement (alternate_config c) = xc_enforcement c"
  "xc_retry_limit (alternate_config c) = xc_retry_limit c"
  "xc_timeout_ms (alternate_config c) = xc_timeout_ms c"
  "xc_allowed_task_ids (alternate_config c) = xc_allowed_task_ids c"
  "xc_provider_id (alternate_config c) = xc_fallback_provider_id c"
  "xc_model_id (alternate_config c) = xc_fallback_model_id c"
  "xc_model_version (alternate_config c) = xc_fallback_model_version c"
  "xc_routing_strategy (alternate_config c) = ''fixed''"
  "xc_fallback_provider_id (alternate_config c) = None"
  "xc_fallback_model_id (alternate_config c) = None"
  "xc_fallback_api_base (alternate_config c) = None"
  by (simp_all add: alternate_config_def)

lemma alternate_has_no_fallback:
  "derive_fallback_execution_config (alternate_config c) = None"
  "fallback_configuration_findings (alternate_config c) = []"
  by (simp_all add: derive_fallback_execution_config_def fallback_identity_configured_def truthy_def
      fallback_configuration_findings_def fallback_fields_def)

section \<open>Properties\<close>

text \<open>
  Ordered fallback is configured soundly: the configuration check reports nothing exactly when a
  complete alternate is present and is not the primary candidate again; the alternate then exists, runs
  under the same enforcement thresholds, and never falls back further.
\<close>

theorem ordered_fallback_configuration_sound:
  assumes "xc_routing_strategy c = ''ordered_fallback''" and "fallback_configuration_findings c = []"
  shows "\<exists>d. derive_fallback_execution_config c = Some d
     \<and> xc_enforcement d = xc_enforcement c \<and> derive_fallback_execution_config d = None
     \<and> fallback_configuration_findings d = []
     \<and> (xc_provider_id d, xc_model_id d, xc_model_version d)
          \<noteq> (xc_provider_id c, xc_model_id c, xc_model_version c)"
proof -
  from assms have conf: "fallback_identity_configured c"
    and diff: "\<not> (xc_fallback_provider_id c = xc_provider_id c \<and> xc_fallback_model_id c = xc_model_id c
          \<and> xc_fallback_model_version c = xc_model_version c)"
    by (simp_all add: fallback_findings_empty_iff)
  from conf have "xc_fallback_api_base c \<noteq> None" by (simp add: fallback_identity_configured_def truthy_def)
  with conf have "derive_fallback_execution_config c = Some (alternate_config c)"
    by (simp add: derive_fallback_execution_config_def)
  then show ?thesis using diff alternate_has_no_fallback by auto
qed

definition sample_config :: execution_config where
  "sample_config = \<lparr>xc_provider_mode = ''openai'', xc_rollout_state = ''live'', xc_provider_id = Some ''text.openai'',
     xc_model_id = Some ''m'', xc_model_version = Some ''m-1'', xc_api_base = ''https://a'', xc_api_key = Some ''k'',
     xc_allowed_task_ids = ''explain.v1'', xc_timeout_ms = 3000, xc_retry_limit = 2,
     xc_failed_attempt_cost_posture = ''conservative'', xc_max_output_tokens = 512, xc_temperature = 0,
     xc_top_p = None, xc_seed = None, xc_enforcement = sample_thresholds,
     xc_routing_strategy = ''ordered_fallback'', xc_fallback_provider_id = Some ''text.openai'',
     xc_fallback_model_id = Some ''n'', xc_fallback_model_version = None,
     xc_fallback_api_base = Some ''https://b'', xc_fallback_api_key = None, xc_deployment = None\<rparr>"

theorem ordered_fallback_configuration_sound_witness:
  "\<exists>d. derive_fallback_execution_config sample_config = Some d \<and> xc_enforcement d = sample_thresholds"
proof -
  have 1: "xc_routing_strategy sample_config = ''ordered_fallback''" "fallback_configuration_findings sample_config = []"
    by (simp_all add: sample_config_def fallback_configuration_findings_def fallback_fields_def truthy_def)
  have 2: "xc_enforcement sample_config = sample_thresholds" by (simp add: sample_config_def)
  from ordered_fallback_configuration_sound [OF 1] show ?thesis unfolding 2 by blast
qed

end
