(* ===== verification/Provider_Degradation.thy ===== *)
theory Provider_Degradation
  imports Provider_Execution_Config
begin

text \<open>
  The circuit breaker of live text generation, \<^verbatim>\<open>services/provider_degradation_state.py\<close>: posture, preflight,
  failure and success recording, all on the record of one breaker key.

  An instant is an integer number of microseconds and \<open>stamp\<close> renders it as the text stored in
  \<^verbatim>\<open>updated_at\<close>. The clock readings an operation decides on are its arguments, in the order the code
  reads them; a reading that only dates \<^verbatim>\<open>updated_at\<close> shares the argument of the reading before it.
\<close>

section \<open>Operations\<close>

datatype degradation_status = DOCUMENTED_ONLY | INVALID | CIRCUIT_OPEN_STATUS | DEGRADED_UPSTREAM | NORMAL

record degradation_posture =
  dp_status :: degradation_status
  dp_enforcement_enabled :: bool
  dp_configuration_valid :: bool
  dp_consecutive_failure_count :: int
  dp_degraded_threshold :: "int option"
  dp_circuit_threshold :: "int option"
  dp_circuit_open_remaining_seconds :: "int option"
  dp_last_failure_category :: "failure_category option"
  dp_timeout_failure_count :: int
  dp_rate_limited_failure_count :: int
  dp_upstream_error_failure_count :: int

definition load_degradation_record ::
  "(int \<Rightarrow> timestamp) \<Rightarrow> string \<Rightarrow> int \<Rightarrow> 'a provider_ops_store_scheme \<Rightarrow> degradation_state" where
  "load_degradation_record stamp k now s =
     (case get_degradation_state s k of Some r \<Rightarrow> r | None \<Rightarrow> fresh_degradation_state k (stamp now))"

definition remaining_circuit_open_seconds :: "int option \<Rightarrow> int \<Rightarrow> int option" where
  "remaining_circuit_open_seconds until now =
     (case until of
        None \<Rightarrow> None
      | Some u \<Rightarrow>
          let remaining = (if 0 \<le> u - now then (u - now) div 1000000 else - ((now - u) div 1000000))
          in if 0 < remaining then Some remaining else None)"

definition degradation_config_valid :: "enforcement_thresholds \<Rightarrow> bool" where
  "degradation_config_valid e \<longleftrightarrow>
     (case et_degraded_failure_count_threshold e of None \<Rightarrow> False | Some d \<Rightarrow> 0 < d)
   \<and> (case et_circuit_open_failure_count_threshold e of None \<Rightarrow> False | Some c \<Rightarrow> 0 < c)
   \<and> (case (et_degraded_failure_count_threshold e, et_circuit_open_failure_count_threshold e) of
        (Some d, Some c) \<Rightarrow> d \<le> c | _ \<Rightarrow> True)
   \<and> (case et_circuit_open_seconds e of None \<Rightarrow> False | Some n \<Rightarrow> 0 \<le> n)"

definition or_zero :: "int option \<Rightarrow> int" where
  "or_zero x = (case x of None \<Rightarrow> 0 | Some n \<Rightarrow> n)"

definition resolve_degradation_posture ::
  "enforcement_thresholds \<Rightarrow> degradation_state \<Rightarrow> int \<Rightarrow> degradation_posture" where
  "resolve_degradation_posture e r now =
     (let dt = et_degraded_failure_count_threshold e; ct = et_circuit_open_failure_count_threshold e;
          build = (\<lambda>st enabled valid count remaining last_category.
            \<lparr>dp_status = st, dp_enforcement_enabled = enabled, dp_configuration_valid = valid,
             dp_consecutive_failure_count = count, dp_degraded_threshold = dt, dp_circuit_threshold = ct,
             dp_circuit_open_remaining_seconds = remaining, dp_last_failure_category = last_category,
             dp_timeout_failure_count = dg_timeout_failure_count r,
             dp_rate_limited_failure_count = dg_rate_limited_failure_count r,
             dp_upstream_error_failure_count = dg_upstream_error_failure_count r\<rparr>);
          count = dg_consecutive_failure_count r; cat = dg_last_failure_category r
      in if \<not> et_degradation_enforced e then build DOCUMENTED_ONLY False True count None cat
         else if \<not> degradation_config_valid e then build INVALID True False count None cat
         else case remaining_circuit_open_seconds (dg_circuit_open_until r) now of
           Some n \<Rightarrow> build CIRCUIT_OPEN_STATUS True True count (Some n) cat
         | None \<Rightarrow>
           (let served = dg_circuit_open_until r \<noteq> None;
                effective = (if served then 0 else count); cat' = (if served then None else cat)
            in if or_zero ct \<le> effective then build CIRCUIT_OPEN_STATUS True True effective None cat'
               else if or_zero dt \<le> effective then build DEGRADED_UPSTREAM True True effective None cat'
               else build NORMAL True True effective None cat'))"

definition open_circuit ::
  "(int \<Rightarrow> timestamp) \<Rightarrow> enforcement_thresholds \<Rightarrow> string \<Rightarrow> int \<Rightarrow> 'a provider_ops_store_scheme
     \<Rightarrow> 'a provider_ops_store_scheme" where
  "open_circuit stamp e k now s =
     (let r = load_degradation_record stamp k now s
      in save_degradation_state
           (r\<lparr>dg_degradation_key := k,
              dg_circuit_open_until := Some (now + or_zero (et_circuit_open_seconds e) * 1000000),
              dg_updated_at := stamp now\<rparr>) s)"

definition clear_failures ::
  "(int \<Rightarrow> timestamp) \<Rightarrow> string \<Rightarrow> int \<Rightarrow> degradation_state \<Rightarrow> degradation_state" where
  "clear_failures stamp k now r =
     r\<lparr>dg_degradation_key := k, dg_consecutive_failure_count := 0, dg_last_failure_category := None,
       dg_circuit_open_until := None, dg_updated_at := stamp now\<rparr>"

definition reclaim_elapsed_cooldown ::
  "(int \<Rightarrow> timestamp) \<Rightarrow> string \<Rightarrow> int \<Rightarrow> 'a provider_ops_store_scheme \<Rightarrow> 'a provider_ops_store_scheme" where
  "reclaim_elapsed_cooldown stamp k now s =
     (let r = load_degradation_record stamp k now s
      in if dg_circuit_open_until r = None then s
         else if remaining_circuit_open_seconds (dg_circuit_open_until r) now \<noteq> None then s
         else save_degradation_state (clear_failures stamp k now r) s)"

definition enforce_provider_degradation_preflight ::
  "(int \<Rightarrow> timestamp) \<Rightarrow> enforcement_thresholds \<Rightarrow> string \<Rightarrow> int \<Rightarrow> int \<Rightarrow> 'a provider_ops_store_scheme
     \<Rightarrow> unit result \<times> 'a provider_ops_store_scheme" where
  "enforce_provider_degradation_preflight stamp e k now now2 s =
     (let p = resolve_degradation_posture e (load_degradation_record stamp k now s) now
      in if \<not> dp_enforcement_enabled p then (Inr (), s)
         else if \<not> dp_configuration_valid p then (Inl (ProviderExecutionError CIRCUIT_OPEN), s)
         else if dp_status p = CIRCUIT_OPEN_STATUS
         then (Inl (ProviderExecutionError CIRCUIT_OPEN),
               if dp_circuit_open_remaining_seconds p = None then open_circuit stamp e k now2 s else s)
         else (Inr (), s))"

definition tracked_failure_categories :: "failure_category list" where
  "tracked_failure_categories = [PROVIDER_TIMEOUT, PROVIDER_RATE_LIMITED, PROVIDER_UPSTREAM_ERROR]"

definition record_provider_failure ::
  "(int \<Rightarrow> timestamp) \<Rightarrow> enforcement_thresholds \<Rightarrow> string \<Rightarrow> failure_category \<Rightarrow> int \<Rightarrow> int \<Rightarrow> int
     \<Rightarrow> 'a provider_ops_store_scheme \<Rightarrow> 'a provider_ops_store_scheme" where
  "record_provider_failure stamp e k category now now2 now3 s =
     (if category \<notin> set tracked_failure_categories then s
      else
        let s1 = reclaim_elapsed_cooldown stamp k now s;
            s2 = snd (record_degradation_failure k category (stamp now) s1);
            p = resolve_degradation_posture e (load_degradation_record stamp k now2 s2) now2
        in if dp_enforcement_enabled p \<and> dp_configuration_valid p \<and> dp_status p = CIRCUIT_OPEN_STATUS
           then open_circuit stamp e k now3 s2 else s2)"

definition record_successful_provider_execution ::
  "(int \<Rightarrow> timestamp) \<Rightarrow> string \<Rightarrow> int \<Rightarrow> 'a provider_ops_store_scheme \<Rightarrow> 'a provider_ops_store_scheme" where
  "record_successful_provider_execution stamp k now s =
     save_degradation_state (clear_failures stamp k now (load_degradation_record stamp k now s)) s"

definition reset_provider_degradation_state ::
  "'a provider_ops_store_scheme \<Rightarrow> nat \<times> 'a provider_ops_store_scheme" where
  "reset_provider_degradation_state s = reset_degradation_states s"

section \<open>Facts\<close>

abbreviation breaker where
  "breaker s k \<equiv> get_degradation_state s k"

lemma remaining_None_iff:
  "remaining_circuit_open_seconds until now = None \<longleftrightarrow> (\<forall>u. until = Some u \<longrightarrow> u < now + 1000000)"
proof (cases until)
  case (Some u)
  show ?thesis
  proof (cases "now \<le> u")
    case True
    then have "0 < (u - now) div 1000000 \<longleftrightarrow> 1000000 \<le> u - now"
      using pos_imp_zdiv_pos_iff [of 1000000 "u - now"] by simp
    then show ?thesis using Some True by (auto simp: remaining_circuit_open_seconds_def Let_def)
  next
    case False
    then have "0 \<le> (now - u) div 1000000" by simp
    then have "\<not> 0 < - ((now - u) div 1000000)" by linarith
    then show ?thesis using Some False by (simp add: remaining_circuit_open_seconds_def Let_def)
  qed
qed (simp add: remaining_circuit_open_seconds_def)

lemma breaker_save [simp]:
  "breaker (save_degradation_state r s) k = (if k = dg_degradation_key r then Some r else breaker s k)"
  by (rule degradation_repo.fetch_save)

lemma load_record_save [simp]:
  "load_degradation_record stamp k now (save_degradation_state r s) =
     (if k = dg_degradation_key r then r else load_degradation_record stamp k now s)"
  by (simp add: load_degradation_record_def)

lemma breaker_record_failure [simp]:
  "breaker (snd (record_degradation_failure k category now s)) k' =
     (if k' = k then Some (fst (record_degradation_failure k category now s)) else breaker s k')"
  by (simp add: record_degradation_failure_def Let_def get_degradation_state_def)

lemma open_circuit_other [simp]: "k' \<noteq> k \<Longrightarrow> breaker (open_circuit stamp e k now s) k' = breaker s k'"
  by (simp add: open_circuit_def Let_def)

lemma reclaim_other [simp]: "k' \<noteq> k \<Longrightarrow> breaker (reclaim_elapsed_cooldown stamp k now s) k' = breaker s k'"
  by (simp add: reclaim_elapsed_cooldown_def Let_def clear_failures_def)

text \<open>What the breaker of a valid, enforced configuration decides.\<close>

definition breaker_refuses :: "enforcement_thresholds \<Rightarrow> degradation_state \<Rightarrow> int \<Rightarrow> bool" where
  "breaker_refuses e r now \<longleftrightarrow>
     (case dg_circuit_open_until r of
        Some u \<Rightarrow> now + 1000000 \<le> u
      | None \<Rightarrow> or_zero (et_circuit_open_failure_count_threshold e) \<le> dg_consecutive_failure_count r)"

definition breaker_enforced :: "enforcement_thresholds \<Rightarrow> bool" where
  "breaker_enforced e \<longleftrightarrow> et_degradation_enforced e \<and> degradation_config_valid e"

lemma posture_open_iff:
  assumes "breaker_enforced e"
  shows "dp_enforcement_enabled (resolve_degradation_posture e r now)"
    and "dp_configuration_valid (resolve_degradation_posture e r now)"
    and "dp_status (resolve_degradation_posture e r now) = CIRCUIT_OPEN_STATUS \<longleftrightarrow> breaker_refuses e r now"
    and "dp_circuit_open_remaining_seconds (resolve_degradation_posture e r now) = None
           \<longleftrightarrow> remaining_circuit_open_seconds (dg_circuit_open_until r) now = None"
proof -
  have pos: "0 < or_zero (et_circuit_open_failure_count_threshold e)"
    using assms by (auto simp: breaker_enforced_def degradation_config_valid_def or_zero_def split: option.splits)
  note rem = remaining_None_iff [of "dg_circuit_open_until r" now]
  show "dp_status (resolve_degradation_posture e r now) = CIRCUIT_OPEN_STATUS \<longleftrightarrow> breaker_refuses e r now"
    using assms pos rem
    by (cases "dg_circuit_open_until r"; cases "remaining_circuit_open_seconds (dg_circuit_open_until r) now")
      (auto simp: resolve_degradation_posture_def Let_def breaker_enforced_def breaker_refuses_def)
  show "dp_enforcement_enabled (resolve_degradation_posture e r now)"
    "dp_configuration_valid (resolve_degradation_posture e r now)"
    "dp_circuit_open_remaining_seconds (resolve_degradation_posture e r now) = None
           \<longleftrightarrow> remaining_circuit_open_seconds (dg_circuit_open_until r) now = None"
    using assms by (auto simp: resolve_degradation_posture_def Let_def breaker_enforced_def split: option.splits)
qed

lemma preflight_eq:
  assumes "breaker_enforced e"
  shows "enforce_provider_degradation_preflight stamp e k now now2 s =
     (let r = load_degradation_record stamp k now s in
      if \<not> breaker_refuses e r now then (Inr (), s)
      else (Inl (ProviderExecutionError CIRCUIT_OPEN),
            if dg_circuit_open_until r = None then open_circuit stamp e k now2 s else s))"
proof -
  let ?r = "load_degradation_record stamp k now s"
  have "breaker_refuses e ?r now \<Longrightarrow>
      remaining_circuit_open_seconds (dg_circuit_open_until ?r) now = None \<longleftrightarrow> dg_circuit_open_until ?r = None"
    unfolding remaining_None_iff by (auto simp: breaker_refuses_def split: option.splits)
  with posture_open_iff [OF assms, of ?r now] show ?thesis
    by (auto simp: enforce_provider_degradation_preflight_def Let_def)
qed

lemma or_zero_cooldown: "breaker_enforced e \<Longrightarrow> et_circuit_open_seconds e = Some n \<Longrightarrow> 0 \<le> n \<and> or_zero (Some n) = n"
  by (auto simp: breaker_enforced_def degradation_config_valid_def or_zero_def)

lemma breaker_refuses_later:
  "breaker_enforced e \<Longrightarrow> \<not> breaker_refuses e r now \<Longrightarrow> now \<le> now' \<Longrightarrow> \<not> breaker_refuses e r now'"
  by (auto simp: breaker_refuses_def split: option.splits)

lemma preflight_passes_iff:
  "breaker_enforced e \<Longrightarrow>
     fst (enforce_provider_degradation_preflight stamp e k now now2 s) = Inr () \<longleftrightarrow>
     \<not> breaker_refuses e (load_degradation_record stamp k now s) now"
  by (simp add: preflight_eq Let_def)

lemma load_record_time:
  "breaker_refuses e (load_degradation_record stamp k now s) t = breaker_refuses e (load_degradation_record stamp k now' s) t"
  "dg_circuit_open_until (load_degradation_record stamp k now s) = dg_circuit_open_until (load_degradation_record stamp k now' s)"
  "dg_consecutive_failure_count (load_degradation_record stamp k now s)
     = dg_consecutive_failure_count (load_degradation_record stamp k now' s)"
  by (auto simp: load_degradation_record_def breaker_refuses_def fresh_degradation_state_def split: option.splits)

lemma open_circuit_record [simp]:
  "breaker (open_circuit stamp e k now s) k = Some ((load_degradation_record stamp k now s)\<lparr>dg_degradation_key := k,
       dg_circuit_open_until := Some (now + or_zero (et_circuit_open_seconds e) * 1000000), dg_updated_at := stamp now\<rparr>)"
  by (simp add: open_circuit_def Let_def)

lemma record_failure_idle:
  assumes "breaker_enforced e" and "category \<in> set tracked_failure_categories"
    and "dg_circuit_open_until (load_degradation_record stamp k now s) = None"
  shows "dg_consecutive_failure_count (load_degradation_record stamp k t (record_provider_failure stamp e k category now now2 now3 s))
           = dg_consecutive_failure_count (load_degradation_record stamp k now s) + 1"
    and "dg_circuit_open_until (load_degradation_record stamp k t (record_provider_failure stamp e k category now now2 now3 s))
           = (if or_zero (et_circuit_open_failure_count_threshold e)
                  \<le> dg_consecutive_failure_count (load_degradation_record stamp k now s) + 1
              then Some (now3 + or_zero (et_circuit_open_seconds e) * 1000000) else None)"
proof -
  let ?r = "load_degradation_record stamp k now s"
  let ?s2 = "snd (record_degradation_failure k category (stamp now) s)"
  let ?r2 = "fst (record_degradation_failure k category (stamp now) s)"
  have rec: "reclaim_elapsed_cooldown stamp k now s = s" using assms(3) by (simp add: reclaim_elapsed_cooldown_def)
  have load: "load_degradation_record stamp k x ?s2 = ?r2" for x by (simp add: load_degradation_record_def)
  have r2: "dg_circuit_open_until ?r2 = None" "dg_consecutive_failure_count ?r2 = dg_consecutive_failure_count ?r + 1"
    using assms(3) by (auto simp: record_degradation_failure_def Let_def load_degradation_record_def
        get_degradation_state_def fresh_degradation_state_def split: option.splits)
  have ref: "breaker_refuses e ?r2 now2 \<longleftrightarrow>
      or_zero (et_circuit_open_failure_count_threshold e) \<le> dg_consecutive_failure_count ?r + 1"
    using r2 by (simp add: breaker_refuses_def)
  have run: "record_provider_failure stamp e k category now now2 now3 s =
      (if breaker_refuses e ?r2 now2 then open_circuit stamp e k now3 ?s2 else ?s2)"
    using assms(2) posture_open_iff(1-3) [OF assms(1), of ?r2 now2]
    by (simp add: record_provider_failure_def Let_def rec load)
  show "dg_consecutive_failure_count (load_degradation_record stamp k t (record_provider_failure stamp e k category now now2 now3 s))
           = dg_consecutive_failure_count ?r + 1"
    unfolding run using r2 load by (simp add: load_degradation_record_def)
  show "dg_circuit_open_until (load_degradation_record stamp k t (record_provider_failure stamp e k category now now2 now3 s))
           = (if or_zero (et_circuit_open_failure_count_threshold e) \<le> dg_consecutive_failure_count ?r + 1
              then Some (now3 + or_zero (et_circuit_open_seconds e) * 1000000) else None)"
    unfolding run ref using r2 load by (simp add: load_degradation_record_def)
qed

type_synonym failure_event = "failure_category \<times> int \<times> int \<times> int"

definition record_failure_event ::
  "(int \<Rightarrow> timestamp) \<Rightarrow> enforcement_thresholds \<Rightarrow> string \<Rightarrow> failure_event \<Rightarrow> 'a provider_ops_store_scheme
     \<Rightarrow> 'a provider_ops_store_scheme" where
  "record_failure_event stamp e k x s =
     (case x of (category, now, now2, now3) \<Rightarrow> record_provider_failure stamp e k category now now2 now3 s)"

lemma record_failure_event_apply [simp]:
  "record_failure_event stamp e k (c, now, now2, now3) s = record_provider_failure stamp e k c now now2 now3 s"
  by (simp add: record_failure_event_def)

lemma failure_burst_counts:
  assumes "breaker_enforced e" and "\<forall>x \<in> set xs. fst x \<in> set tracked_failure_categories"
    and "breaker s k = None" and "int (length xs) < or_zero (et_circuit_open_failure_count_threshold e)"
  shows "dg_consecutive_failure_count (load_degradation_record stamp k t (fold (record_failure_event stamp e k) xs s)) = int (length xs)
       \<and> dg_circuit_open_until (load_degradation_record stamp k t (fold (record_failure_event stamp e k) xs s)) = None"
  using assms(2,4)
proof (induction xs arbitrary: t rule: rev_induct)
  case Nil
  then show ?case using assms(3) by (simp add: load_degradation_record_def fresh_degradation_state_def)
next
  case (snoc x xs)
  obtain c a b d where x: "x = (c, a, b, d)" by (cases x) auto
  let ?w = "fold (record_failure_event stamp e k) xs s"
  have ih: "dg_consecutive_failure_count (load_degradation_record stamp k a ?w) = int (length xs)"
    "dg_circuit_open_until (load_degradation_record stamp k a ?w) = None"
    using snoc.IH [of a] snoc.prems by auto
  have "c \<in> set tracked_failure_categories" using snoc.prems x by simp
  from record_failure_idle [OF assms(1) this ih(2), of t b d] ih(1) snoc.prems x
  show ?case by simp
qed

section \<open>Properties\<close>

text \<open>
  C11. The breaker opens exactly at its threshold: from a clean record, a burst of tracked failures shorter
  than the threshold never makes the preflight refuse, and the failure that reaches it stamps a cooldown;
  from then on a preflight refuses exactly as long as a whole second of the cooldown is left, and passes in
  the last second and after it.
\<close>

theorem breaker_opens_at_threshold:
  assumes "breaker_enforced e" and "\<forall>x \<in> set xs. fst x \<in> set tracked_failure_categories"
    and "breaker s k = None" and "c \<in> set tracked_failure_categories"
    and "int (length xs) < or_zero (et_circuit_open_failure_count_threshold e)"
    and "et_circuit_open_seconds e = Some n"
  shows "fst (enforce_provider_degradation_preflight stamp e k t t2 (fold (record_failure_event stamp e k) xs s)) = Inr ()
    \<and> (int (length xs) + 1 = or_zero (et_circuit_open_failure_count_threshold e) \<longrightarrow>
        fst (enforce_provider_degradation_preflight stamp e k t t2
               (fold (record_failure_event stamp e k) (xs @ [(c, now, now2, now3)]) s))
          = (if t + 1000000 \<le> now3 + n * 1000000 then Inl (ProviderExecutionError CIRCUIT_OPEN) else Inr ()))"
proof -
  let ?w = "fold (record_failure_event stamp e k) xs s"
  note f = failure_burst_counts [OF assms(1-3,5)]
  have "\<not> breaker_refuses e (load_degradation_record stamp k t ?w) t"
    using f [of stamp t] assms(5) by (simp add: breaker_refuses_def)
  moreover have "breaker_refuses e (load_degradation_record stamp k t
        (record_failure_event stamp e k (c, now, now2, now3) ?w)) t \<longleftrightarrow> t + 1000000 \<le> now3 + n * 1000000"
    if "int (length xs) + 1 = or_zero (et_circuit_open_failure_count_threshold e)"
    using record_failure_idle(2) [OF assms(1,4), of stamp k now ?w t now2 now3] f [of stamp now] that assms(6)
    by (simp add: breaker_refuses_def or_zero_def)
  ultimately show ?thesis using assms(1) by (simp add: preflight_eq Let_def)
qed

text \<open>
  The breaker never stays open forever: after a preflight at any store, with no further failure, every
  preflight from the stamped deadline on lets traffic through; a breaker that was open without a deadline is
  stamped by the refusing preflight itself.
\<close>

theorem breaker_recovers:
  assumes "breaker_enforced e" and "et_circuit_open_seconds e = Some n"
    and "enforce_provider_degradation_preflight stamp e k now now2 s = (x, s1)"
    and "now \<le> t" and "t \<ge> (case dg_circuit_open_until (load_degradation_record stamp k now s) of
                            Some u \<Rightarrow> u | None \<Rightarrow> now2 + n * 1000000)"
  shows "fst (enforce_provider_degradation_preflight stamp e k t t2 s1) = Inr ()"
proof -
  let ?r = "load_degradation_record stamp k now s"
  have "\<not> breaker_refuses e (load_degradation_record stamp k t s1) t"
  proof (cases "breaker_refuses e ?r now \<and> dg_circuit_open_until ?r = None")
    case True
    then have "s1 = open_circuit stamp e k now2 s" using assms(1,3) by (simp add: preflight_eq Let_def)
    then show ?thesis using True assms(2,5) by (simp add: load_degradation_record_def breaker_refuses_def or_zero_def)
  next
    case False
    then have s1: "s1 = s" using assms(1,3) by (auto simp: preflight_eq Let_def split: if_splits)
    show ?thesis
    proof (cases "breaker_refuses e ?r now")
      case True
      with False obtain u where "dg_circuit_open_until ?r = Some u" by auto
      with assms(5) show ?thesis unfolding s1 breaker_refuses_def load_record_time(2) [of stamp k t s now] by simp
    next
      case no: False
      from breaker_refuses_later [OF assms(1) no assms(4)] show ?thesis
        unfolding s1 by (simp add: load_record_time(1) [of e stamp k t s t now])
    qed
  qed
  then show ?thesis using assms(1) by (simp add: preflight_passes_iff)
qed

text \<open>
  Candidates fail independently: recording a failure or a success, or refusing at preflight, under one
  breaker key leaves the breaker of every other key as it was.
\<close>

theorem breakers_independent:
  assumes "k' \<noteq> k"
  shows "breaker (record_provider_failure stamp e k category now now2 now3 s) k' = breaker s k'
       \<and> breaker (record_successful_provider_execution stamp k now s) k' = breaker s k'
       \<and> breaker (snd (enforce_provider_degradation_preflight stamp e k now now2 s)) k' = breaker s k'"
  using assms
  by (simp add: record_provider_failure_def record_successful_provider_execution_def clear_failures_def
      enforce_provider_degradation_preflight_def Let_def)

text \<open>
  The cooldown ends up to a second early: the remaining time is truncated to whole seconds, so the
  breaker stops refusing in the last second of the stamped cooldown, and a configured cooldown of one second
  refuses nothing after the instant it was stamped.
\<close>

theorem one_second_cooldown_refuses_nothing:
  assumes "breaker_enforced e" and "et_circuit_open_seconds e = Some n" and "n \<le> 1" and "now < t"
  shows "fst (enforce_provider_degradation_preflight stamp e k t t2 (open_circuit stamp e k now s)) = Inr ()"
proof -
  have "n * 1000000 \<le> 1000000" using assms(3) by simp
  then have "\<not> breaker_refuses e (load_degradation_record stamp k t (open_circuit stamp e k now s)) t"
    using assms(2,4) by (simp add: load_degradation_record_def breaker_refuses_def or_zero_def)
  then show ?thesis using assms(1) by (simp add: preflight_passes_iff)
qed

section \<open>Concrete runs\<close>

definition plain_stamp :: "int \<Rightarrow> timestamp" where
  "plain_stamp t = int_str t"

lemma sample_thresholds_enforced: "breaker_enforced sample_thresholds"
  by (simp add: breaker_enforced_def sample_thresholds_def degradation_config_valid_def)

theorem breaker_opens_at_threshold_witness:
  "fst (enforce_provider_degradation_preflight plain_stamp sample_thresholds ''k'' 5 6
         (fold (record_failure_event plain_stamp sample_thresholds ''k'')
           ([(PROVIDER_TIMEOUT, 1, 1, 1)] @ [(PROVIDER_UPSTREAM_ERROR, 2, 3, 4)]) empty_ops_store))
     = Inl (ProviderExecutionError CIRCUIT_OPEN)"
  using breaker_opens_at_threshold [OF sample_thresholds_enforced, of "[(PROVIDER_TIMEOUT, 1, 1, 1)]"
      empty_ops_store "''k''" PROVIDER_UPSTREAM_ERROR 30 plain_stamp 5 6 2 3 4]
  by (simp add: tracked_failure_categories_def empty_ops_store_def get_degradation_state_def sample_thresholds_def or_zero_def)

theorem breaker_recovers_witness:
  "fst (enforce_provider_degradation_preflight plain_stamp sample_thresholds ''k'' 40000000 40000001 empty_ops_store) = Inr ()"
proof -
  have "enforce_provider_degradation_preflight plain_stamp sample_thresholds ''k'' 5 6 empty_ops_store = (Inr (), empty_ops_store)"
    using sample_thresholds_enforced
    by (simp add: preflight_eq Let_def load_degradation_record_def breaker_refuses_def get_degradation_state_def
        empty_ops_store_def fresh_degradation_state_def sample_thresholds_def or_zero_def)
  from breaker_recovers [OF sample_thresholds_enforced _ this, of 30 40000000] show ?thesis
    by (simp add: sample_thresholds_def load_degradation_record_def get_degradation_state_def empty_ops_store_def
        fresh_degradation_state_def)
qed

theorem breakers_independent_witness:
  "breaker (record_provider_failure plain_stamp sample_thresholds ''k'' PROVIDER_TIMEOUT 1 2 3 empty_ops_store) ''other'' = None"
  using breakers_independent [of "''other''" "''k''" plain_stamp sample_thresholds PROVIDER_TIMEOUT 1 2 3 empty_ops_store]
  by (simp add: empty_ops_store_def get_degradation_state_def)

theorem one_second_cooldown_refuses_nothing_witness:
  "fst (enforce_provider_degradation_preflight plain_stamp (sample_thresholds\<lparr>et_circuit_open_seconds := Some 1\<rparr>) ''k'' 8 9
         (open_circuit plain_stamp (sample_thresholds\<lparr>et_circuit_open_seconds := Some 1\<rparr>) ''k'' 7 empty_ops_store)) = Inr ()"
  by (rule one_second_cooldown_refuses_nothing [of _ 1])
    (simp_all add: breaker_enforced_def sample_thresholds_def degradation_config_valid_def)

end
