(* ===== verification/Provider_Transport.thy ===== *)
theory Provider_Transport
  imports Provider_Execution_Config
begin

text \<open>
  The attempt loop of a live call: retry planning (\<^verbatim>\<open>services/provider_retry_backoff.py\<close>) and the metered
  retry loop of \<^verbatim>\<open>providers/openai_compatible_text_transport.py\<close>.

  The provider is outside the repository: for each attempt the environment says what the call answers, as
  a function of the timeout it is given, together with the clock readings and the jitter the attempt
  consumes. Durations and monotonic readings are rationals in seconds; instants that select rate cards are
  natural numbers. Metrics, spans and log lines are not modelled.
\<close>

section \<open>Retry planning\<close>

record retry_backoff_plan =
  rb_timeout_seconds :: rat
  rb_retry_limit :: nat

definition backoff_base :: "nat \<Rightarrow> rat" where
  "backoff_base i = min (1/4 * 2 ^ i) 4"

definition delay_before_retry :: "retry_backoff_plan \<Rightarrow> nat \<Rightarrow> rat \<Rightarrow> rat" where
  "delay_before_retry plan retry_index jitter = backoff_base (retry_index - 1) * (1 + 1/4 * jitter)"

definition total_deadline_seconds :: "retry_backoff_plan \<Rightarrow> rat" where
  "total_deadline_seconds plan =
     rb_timeout_seconds plan * of_nat (rb_retry_limit plan + 1)
       + sum_list (map backoff_base [0..<rb_retry_limit plan]) * (1 + 1/4)"

record retry_decision =
  rd_permitted :: bool
  rd_delay_seconds :: rat

definition plan_retry :: "retry_backoff_plan \<Rightarrow> nat \<Rightarrow> rat \<Rightarrow> rat \<Rightarrow> rat \<Rightarrow> retry_decision" where
  "plan_retry plan retry_index deadline_at now jitter =
     (let delay = delay_before_retry plan retry_index jitter
      in if deadline_at < now + delay then \<lparr>rd_permitted = False, rd_delay_seconds = delay\<rparr>
         else \<lparr>rd_permitted = True, rd_delay_seconds = delay\<rparr>)"

section \<open>The outside world of one attempt\<close>

datatype provider_reply =
    Served "int option" "int option"
  | HttpError nat "int option" "int option"
  | TimedOut
  | ConnectionFailed
  | Uncaught error

record attempt_env =
  ae_clock :: rat
  ae_reply :: "rat \<Rightarrow> provider_reply"
  ae_retry_now :: rat
  ae_jitter :: rat
  ae_stop_now :: rat
  ae_project_at :: nat
  ae_reserve_at :: nat
  ae_settle_at :: nat
  ae_now :: timestamp

record transport_call =
  tc_execution_id :: string
  tc_candidate_entry_id :: string
  tc_candidate_id_v2 :: "string option"
  tc_provider_id :: string
  tc_model_revision :: "string option"
  tc_cost_posture :: string
  tc_body_bytes :: int
  tc_max_output_tokens :: int
  tc_cost_ceiling_usd :: "usd option"
  tc_execution_deadline_at :: "rat option"
  tc_timeout_seconds :: rat
  tc_retry_limit :: nat
  tc_started_at :: rat

record failed_attempt =
  fa_billable_risk :: bool
  fa_input_tokens :: "int option"
  fa_output_tokens :: "int option"
  fa_debit :: "priced_debit option"

record served_response =
  sr_retry_count :: nat
  sr_failed_attempts :: "failed_attempt list"
  sr_input_tokens :: "int option"
  sr_output_tokens :: "int option"

definition as_int :: "int option \<Rightarrow> int option" where
  "as_int x = (case x of Some i \<Rightarrow> if 0 \<le> i then Some i else None | None \<Rightarrow> None)"

definition failure_category_for_http_status :: "nat \<Rightarrow> failure_category" where
  "failure_category_for_http_status code = (if code = 429 then PROVIDER_RATE_LIMITED else PROVIDER_UPSTREAM_ERROR)"

definition is_retryable_provider_failure :: "failure_category \<Rightarrow> nat option \<Rightarrow> bool" where
  "is_retryable_provider_failure category code \<longleftrightarrow>
     category \<in> {PROVIDER_TIMEOUT, PROVIDER_RATE_LIMITED}
   \<or> (category = PROVIDER_UPSTREAM_ERROR \<and> code \<in> {Some 408, Some 500, Some 502, Some 503, Some 504})"

definition governed_deadline_stop :: "rat option \<Rightarrow> bool \<Rightarrow> nat \<Rightarrow> nat \<Rightarrow> rat \<Rightarrow> rat \<Rightarrow> error option" where
  "governed_deadline_stop deadline retryable attempt_index retry_limit delay now =
     (case deadline of
        None \<Rightarrow> None
      | Some d \<Rightarrow>
          if \<not> retryable \<or> retry_limit \<le> attempt_index then None
          else if now + delay \<le> d then None
          else Some (ProviderExecutionError REQUEST_DEADLINE_EXHAUSTED))"

section \<open>Metering one attempt\<close>

definition priced ::
  "transport_call \<Rightarrow> int option \<Rightarrow> int option \<Rightarrow> bool \<Rightarrow> string \<Rightarrow> int \<Rightarrow> nat \<Rightarrow> timestamp
     \<Rightarrow> 'a billing_world_scheme \<Rightarrow> priced_debit option result \<times> 'a billing_world_scheme" where
  "priced c input output risk posture fallback_input t now w =
     (case price_attempt input output risk posture fallback_input (tc_max_output_tokens c)
             (tc_model_revision c) t now (bw_rates w) of
        (r, rates) \<Rightarrow> (r, w\<lparr>bw_rates := rates\<rparr>))"

definition debit_boundary ::
  "transport_call \<Rightarrow> attempt_env \<Rightarrow> nat \<Rightarrow> int option \<Rightarrow> int option \<Rightarrow> bool \<Rightarrow> int
     \<Rightarrow> 'a billing_world_scheme \<Rightarrow> priced_debit option result \<times> 'a billing_world_scheme" where
  "debit_boundary c env idx input output risk input_estimate w =
     (case priced c input output risk (tc_cost_posture c) input_estimate (ae_settle_at env) (ae_now env) w of
        (Inl e, w1) \<Rightarrow> (Inl e, w1)
      | (Inr d, w1) \<Rightarrow>
          (Inr d, snd (settle_attempt_spend (tc_execution_id c) (tc_candidate_entry_id c) idx d
                    (tc_candidate_id_v2 c) risk (ae_now env) w1)))"

definition check_deadline :: "transport_call \<Rightarrow> attempt_env \<Rightarrow> unit result" where
  "check_deadline c env =
     (case tc_execution_deadline_at c of
        None \<Rightarrow> Inr ()
      | Some d \<Rightarrow> if d - ae_clock env \<le> 0
                  then Inl (ProviderExecutionError REQUEST_DEADLINE_EXHAUSTED) else Inr ())"

definition attempt_timeout :: "transport_call \<Rightarrow> attempt_env \<Rightarrow> rat \<Rightarrow> rat" where
  "attempt_timeout c env timeout =
     (case tc_execution_deadline_at c of None \<Rightarrow> timeout | Some d \<Rightarrow> min timeout (d - ae_clock env))"

definition check_cost_ceiling ::
  "transport_call \<Rightarrow> attempt_env \<Rightarrow> int \<Rightarrow> 'a billing_world_scheme \<Rightarrow> unit result \<times> 'a billing_world_scheme" where
  "check_cost_ceiling c env input_estimate w =
     (case tc_cost_ceiling_usd c of
        None \<Rightarrow> (Inr (), w)
      | Some cap \<Rightarrow>
        (case priced c None None True ''conservative'' input_estimate (ae_project_at env) (ae_now env) w of
           (Inl e, w1) \<Rightarrow> (Inl e, w1)
         | (Inr None, w1) \<Rightarrow> (Inl (ProviderExecutionError REQUEST_COST_EXHAUSTED), w1)
         | (Inr (Some p), w1) \<Rightarrow>
             if cap < round8 (spent_for_execution (tc_execution_id c) w1 + pd_amount_usd p)
             then (Inl (ProviderExecutionError REQUEST_COST_EXHAUSTED), w1)
             else (Inr (), w1)))"

definition reserve_attempt ::
  "enforcement_thresholds \<Rightarrow> transport_call \<Rightarrow> attempt_env \<Rightarrow> nat \<Rightarrow> 'a billing_world_scheme
     \<Rightarrow> unit result \<times> 'a billing_world_scheme" where
  "reserve_attempt e c env idx w =
     (case priced c None None True ''conservative'' (tc_body_bytes c) (ae_reserve_at env) (ae_now env) w of
        (Inl err, w1) \<Rightarrow> (Inl err, w1)
      | (Inr r, w1) \<Rightarrow>
        (case require_priceable_admission e r of
           Inl err \<Rightarrow> (Inl err, w1)
         | Inr _ \<Rightarrow>
           (case r of
              None \<Rightarrow> (Inr (), w1)
            | Some d \<Rightarrow>
              (case reserve_attempt_spend e (tc_execution_id c) (tc_candidate_entry_id c) (tc_provider_id c)
                      (tc_model_revision c) idx d (tc_candidate_id_v2 c) (ae_now env) w1 of
                 (REFUSED, w2) \<Rightarrow> (Inl (ProviderExecutionError BUDGET_EXCEEDED), w2)
               | (_, w2) \<Rightarrow> (Inr (), w2)))))"

definition admit_attempt ::
  "enforcement_thresholds \<Rightarrow> transport_call \<Rightarrow> attempt_env \<Rightarrow> nat \<Rightarrow> int \<Rightarrow> 'a billing_world_scheme
     \<Rightarrow> unit result \<times> 'a billing_world_scheme" where
  "admit_attempt e c env idx input_estimate w =
     (case check_deadline c env of
        Inl err \<Rightarrow> (Inl err, w)
      | Inr _ \<Rightarrow>
        (case check_cost_ceiling c env input_estimate w of
           (Inl err, w1) \<Rightarrow> (Inl err, w1)
         | (Inr _, w1) \<Rightarrow> reserve_attempt e c env idx w1))"

section \<open>The loop\<close>

datatype attempt_outcome =
    Completed served_response
  | Failed error
  | Retry failed_attempt int

definition call_plan :: "transport_call \<Rightarrow> retry_backoff_plan" where
  "call_plan c = \<lparr>rb_timeout_seconds = tc_timeout_seconds c, rb_retry_limit = tc_retry_limit c\<rparr>"

definition call_deadline :: "transport_call \<Rightarrow> rat" where
  "call_deadline c =
     (let d = tc_started_at c + total_deadline_seconds (call_plan c)
      in case tc_execution_deadline_at c of None \<Rightarrow> d | Some g \<Rightarrow> min d g)"

text \<open>The common tail of the three failure branches, after the boundary has settled the attempt.\<close>

definition after_failure ::
  "transport_call \<Rightarrow> attempt_env \<Rightarrow> nat \<Rightarrow> bool \<Rightarrow> failure_category \<Rightarrow> failed_attempt \<Rightarrow> int \<Rightarrow> attempt_outcome" where
  "after_failure c env idx retryable category evidence input_estimate =
     (let decision = plan_retry (call_plan c) (idx + 1) (call_deadline c) (ae_retry_now env) (ae_jitter env)
      in if retryable \<and> idx < tc_retry_limit c \<and> rd_permitted decision then Retry evidence input_estimate
         else case governed_deadline_stop (tc_execution_deadline_at c) retryable idx (tc_retry_limit c)
                     (rd_delay_seconds decision) (ae_stop_now env) of
           Some err \<Rightarrow> Failed err
         | None \<Rightarrow> Failed (ProviderExecutionError category))"

definition conclude_attempt ::
  "transport_call \<Rightarrow> attempt_env \<Rightarrow> nat \<Rightarrow> int \<Rightarrow> failed_attempt list \<Rightarrow> provider_reply
     \<Rightarrow> 'a billing_world_scheme \<Rightarrow> attempt_outcome \<times> 'a billing_world_scheme" where
  "conclude_attempt c env idx input_estimate failed reply w =
     (case reply of
        Served i n \<Rightarrow>
          (case debit_boundary c env idx (as_int i) (as_int n) True input_estimate w of
             (Inl e, w1) \<Rightarrow> (Failed e, w1)
           | (Inr _, w1) \<Rightarrow>
               (Completed \<lparr>sr_retry_count = idx, sr_failed_attempts = failed, sr_input_tokens = as_int i,
                  sr_output_tokens = as_int n\<rparr>, w1))
      | HttpError code i n \<Rightarrow>
          (let category = failure_category_for_http_status code; risk = 500 \<le> code;
               estimate = (case as_int i of Some x \<Rightarrow> x | None \<Rightarrow> input_estimate)
           in case debit_boundary c env idx (as_int i) (as_int n) risk estimate w of
                (Inl e, w1) \<Rightarrow> (Failed e, w1)
              | (Inr d, w1) \<Rightarrow>
                  (after_failure c env idx (is_retryable_provider_failure category (Some code)) category
                     \<lparr>fa_billable_risk = risk, fa_input_tokens = as_int i, fa_output_tokens = as_int n,
                      fa_debit = d\<rparr> estimate, w1))
      | TimedOut \<Rightarrow>
          (case debit_boundary c env idx None None True input_estimate w of
             (Inl e, w1) \<Rightarrow> (Failed e, w1)
           | (Inr d, w1) \<Rightarrow>
               (after_failure c env idx True PROVIDER_TIMEOUT
                  \<lparr>fa_billable_risk = True, fa_input_tokens = None, fa_output_tokens = None, fa_debit = d\<rparr>
                  input_estimate, w1))
      | ConnectionFailed \<Rightarrow>
          (case debit_boundary c env idx None None False input_estimate w of
             (Inl e, w1) \<Rightarrow> (Failed e, w1)
           | (Inr d, w1) \<Rightarrow>
               (after_failure c env idx True PROVIDER_TIMEOUT
                  \<lparr>fa_billable_risk = False, fa_input_tokens = None, fa_output_tokens = None, fa_debit = None\<rparr>
                  input_estimate, w1))
      | Uncaught e \<Rightarrow> (Failed e, w))"

fun attempt_loop ::
  "enforcement_thresholds \<Rightarrow> transport_call \<Rightarrow> attempt_env list \<Rightarrow> nat \<Rightarrow> int \<Rightarrow> rat \<Rightarrow> failed_attempt list
     \<Rightarrow> 'a billing_world_scheme \<Rightarrow> served_response result \<times> 'a billing_world_scheme" where
  "attempt_loop e c [] idx input_estimate timeout failed w =
     (Inl (ProviderExecutionError PROVIDER_UPSTREAM_ERROR), w)"
| "attempt_loop e c (env # envs) idx input_estimate timeout failed w =
     (case admit_attempt e c env idx input_estimate w of
        (Inl err, w1) \<Rightarrow> (Inl err, w1)
      | (Inr _, w1) \<Rightarrow>
        (let timeout' = attempt_timeout c env timeout in
         case conclude_attempt c env idx input_estimate failed (ae_reply env timeout') w1 of
           (Completed r, w2) \<Rightarrow> (Inr r, w2)
         | (Failed err, w2) \<Rightarrow> (Inl err, w2)
         | (Retry evidence estimate, w2) \<Rightarrow>
             attempt_loop e c envs (Suc idx) estimate timeout' (failed @ [evidence]) w2))"

text \<open>The loop runs over \<^verbatim>\<open>range(bounded_retry_limit + 1)\<close>; \<open>envs\<close> gives the environment of each index.\<close>

definition run_attempts ::
  "enforcement_thresholds \<Rightarrow> transport_call \<Rightarrow> (nat \<Rightarrow> attempt_env) \<Rightarrow> 'a billing_world_scheme
     \<Rightarrow> served_response result \<times> 'a billing_world_scheme" where
  "run_attempts e c envs w =
     attempt_loop e c (map envs [0..<tc_retry_limit c + 1]) 0 (max 1 (tc_body_bytes c div 4))
       (tc_timeout_seconds c) [] w"

text \<open>
  The arguments of \<^verbatim>\<open>post_openai_compatible_response\<close>, with the payload represented by the length of its
  encoding and its \<^verbatim>\<open>max_output_tokens\<close>, and the context it reads: the response an evaluation may inject,
  the hermetic flag, the identifier \<^verbatim>\<open>uuid4\<close> would mint and the first reading of the monotonic clock.
\<close>

record transport_request =
  rq_api_key :: "string option"
  rq_require_api_key :: bool
  rq_body_bytes :: int
  rq_max_output_tokens :: "int option"
  rq_timeout_seconds :: rat
  rq_serving_provider_id :: string
  rq_retry_limit :: int
  rq_execution_deadline_at :: "rat option"
  rq_execution_id :: "string option"
  rq_cost_posture :: string
  rq_model_revision :: "string option"
  rq_cost_ceiling_usd :: "usd option"
  rq_deployment :: "string option"
  rq_model_family :: "string option"

record transport_context =
  tx_override :: "served_response result option"
  tx_hermetic :: bool
  tx_minted_id :: string
  tx_monotonic :: rat

definition transport_entry_id :: "transport_request \<Rightarrow> string" where
  "transport_entry_id q =
     (if truthy (rq_model_revision q)
      then derive_model_catalogue_entry_id (rq_serving_provider_id q) (the (rq_model_revision q)) (rq_deployment q)
      else rq_serving_provider_id q)"

definition transport_identity_v2 :: "(payload \<Rightarrow> string) \<Rightarrow> transport_request \<Rightarrow> string option" where
  "transport_identity_v2 sha q =
     (if truthy (rq_model_revision q) \<and> truthy (rq_model_family q)
      then Some (derive_candidate_identity_v2 sha (rq_serving_provider_id q) (the (rq_model_family q))
                   (the (rq_model_revision q)) (rq_deployment q))
      else None)"

definition prepare_call :: "(payload \<Rightarrow> string) \<Rightarrow> transport_context \<Rightarrow> transport_request \<Rightarrow> transport_call" where
  "prepare_call sha x q =
     \<lparr>tc_execution_id = (if truthy (rq_execution_id q) then the (rq_execution_id q) else tx_minted_id x),
      tc_candidate_entry_id = transport_entry_id q,
      tc_candidate_id_v2 = transport_identity_v2 sha q,
      tc_provider_id = rq_serving_provider_id q,
      tc_model_revision = rq_model_revision q,
      tc_cost_posture = rq_cost_posture q,
      tc_body_bytes = rq_body_bytes q,
      tc_max_output_tokens = (case as_int (rq_max_output_tokens q) of Some n \<Rightarrow> n | None \<Rightarrow> 0),
      tc_cost_ceiling_usd = rq_cost_ceiling_usd q,
      tc_execution_deadline_at = rq_execution_deadline_at q,
      tc_timeout_seconds = rq_timeout_seconds q,
      tc_retry_limit = nat (max (rq_retry_limit q) 0),
      tc_started_at = tx_monotonic x\<rparr>"

definition ensure_network_execution_permitted :: "transport_context \<Rightarrow> unit result" where
  "ensure_network_execution_permitted x =
     (if tx_hermetic x then Inl (RuntimeError ''hermetic execution reached the live network seam'') else Inr ())"

definition post_openai_compatible_response ::
  "(payload \<Rightarrow> string) \<Rightarrow> transport_context \<Rightarrow> enforcement_thresholds \<Rightarrow> transport_request \<Rightarrow> (nat \<Rightarrow> attempt_env)
     \<Rightarrow> 'a billing_world_scheme \<Rightarrow> served_response result \<times> 'a billing_world_scheme" where
  "post_openai_compatible_response sha x e q envs w =
     (case tx_override x of
        Some r \<Rightarrow> (r, w)
      | None \<Rightarrow>
        if rq_require_api_key q \<and> rq_api_key q = None
        then (Inl (ProviderExecutionError INVALID_LIVE_CONFIGURATION), w)
        else case ensure_network_execution_permitted x of
          Inl err \<Rightarrow> (Inl err, w)
        | Inr _ \<Rightarrow> run_attempts e (prepare_call sha x q) envs w)"

text \<open>Either the call is refused or injected before the first attempt, or it is its attempt loop.\<close>

lemma post_cases:
  obtains r where "post_openai_compatible_response sha x e q envs w = (r, w)"
    | "post_openai_compatible_response sha x e q envs w = run_attempts e (prepare_call sha x q) envs w"
  by (cases "tx_override x"; cases "tx_hermetic x"; cases "rq_require_api_key q \<and> rq_api_key q = None")
    (auto simp: post_openai_compatible_response_def ensure_network_execution_permitted_def)

lemma post_served:
  assumes "tx_override x = None" and "post_openai_compatible_response sha x e q envs w = (Inr r, w')"
  shows "run_attempts e (prepare_call sha x q) envs w = (Inr r, w')"
  using assms by (auto simp: post_openai_compatible_response_def split: if_splits sum.splits)

section \<open>Facts about pricing\<close>

text \<open>The price settings have nothing left to write into the cards: none are set, or the seeded card already has their content.\<close>

definition seeding_settled :: "rate_card_world \<Rightarrow> bool" where
  "seeding_settled r \<longleftrightarrow> (\<forall>now. snd (ensure_rate_cards_seeded (rw_input_cost r) (rw_output_cost r) now (rw_cards r)) = rw_cards r)"

lemma seeding_settled_unset [simp]: "rw_input_cost r = None \<Longrightarrow> seeding_settled r"
  by (simp add: seeding_settled_def ensure_rate_cards_seeded_def)

lemma seeding_settled_content:
  assumes "rw_input_cost r = Some ci" and "rw_output_cost r = Some co" and "get_card (rw_cards r) default_live_text_card_id = Some existing"
    and "\<And>now. seed_content_equal ((seed_card ci co now)\<lparr>rc_created_at := rc_created_at existing,
        rc_effective_from := rc_effective_from existing, rc_effective_to := rc_effective_to existing\<rparr>) existing"
  shows "seeding_settled r"
  using assms by (auto simp: seeding_settled_def ensure_rate_cards_seeded_def Let_def)

lemma resolve_card_facts:
  assumes "cards_valid (rw_cards r)" and "resolve_effective_live_text_card mrev t now r = (res, r')"
  shows "cards_valid (rw_cards r')"
    and "res = Inr card' \<Longrightarrow> card' = pick_live_text_card mrev t (rw_cards r')"
    and "seeding_settled r \<Longrightarrow> r' = r"
proof -
  note v = ensure_seeded_valid [OF assms(1), of "rw_input_cost r" "rw_output_cost r" now]
  show "cards_valid (rw_cards r')" "res = Inr card' \<Longrightarrow> card' = pick_live_text_card mrev t (rw_cards r')"
    using assms(2) v by (auto simp: resolve_effective_live_text_card_def split: prod.splits sum.splits)
  show "seeding_settled r \<Longrightarrow> r' = r"
    using assms(2) unfolding seeding_settled_def resolve_effective_live_text_card_def
    by (auto split: prod.splits sum.splits) (metis rate_card_world.surjective rate_card_world.update_convs(1) snd_conv)+
qed

lemma estimate_facts:
  assumes "cards_valid (rw_cards r)" and "estimate_live_text_cost (Some i) (Some n) mrev t now r = (res, r')"
  shows "cards_valid (rw_cards r')"
    and "res = Inr est \<Longrightarrow> debit_of_estimate b i n est = Some d \<Longrightarrow>
      \<exists>c. pick_live_text_card mrev t (rw_cards r') = Some c \<and> valid_rate_card c
        \<and> pd_amount_usd d = price c i n \<and> pd_basis d = b"
    and "seeding_settled r \<Longrightarrow> r' = r"
proof -
  obtain x r1 where x: "resolve_effective_live_text_card mrev t now r = (x, r1)" by (meson prod.exhaust)
  note f = resolve_card_facts [OF assms(1) x]
  have r1: "r' = r1" using assms(2) x by (auto simp: estimate_live_text_cost_def split: sum.splits option.splits)
  then show "cards_valid (rw_cards r')" and "seeding_settled r \<Longrightarrow> r' = r" using f by blast+
  show "\<exists>c. pick_live_text_card mrev t (rw_cards r') = Some c \<and> valid_rate_card c
        \<and> pd_amount_usd d = price c i n \<and> pd_basis d = b"
    if "res = Inr est" "debit_of_estimate b i n est = Some d"
    using assms(2) that x f(1,2) r1 pick_valid
    by (auto simp: estimate_live_text_cost_def debit_of_estimate_def unknown_cost_def
        split: sum.splits option.splits)
qed

definition priced_by :: "transport_call \<Rightarrow> nat \<Rightarrow> rate_card_world \<Rightarrow> int option \<Rightarrow> int option \<Rightarrow> int \<Rightarrow> priced_debit \<Rightarrow> bool" where
  "priced_by c t r input output fallback d \<longleftrightarrow>
     (\<exists>k. pick_live_text_card (tc_model_revision c) t (rw_cards r) = Some k \<and> valid_rate_card k
        \<and> ((\<exists>i n. input = Some i \<and> output = Some n \<and> pd_amount_usd d = price k i n)
          \<or> ((input = None \<or> output = None) \<and> pd_amount_usd d = price k fallback (tc_max_output_tokens c))))"

lemma priced_facts:
  assumes "cards_valid (rw_cards (bw_rates w))"
    and "priced c input output risk posture fb t now w = (res, w')"
  shows "w' = w\<lparr>bw_rates := bw_rates w'\<rparr>" and "cards_valid (rw_cards (bw_rates w'))"
    and "res = Inr (Some d) \<Longrightarrow> priced_by c t (bw_rates w') input output fb d"
    and "seeding_settled (bw_rates w) \<Longrightarrow> w' = w"
proof -
  obtain rates where p: "price_attempt input output risk posture fb (tc_max_output_tokens c) (tc_model_revision c) t now
      (bw_rates w) = (res, rates)" and w': "w' = w\<lparr>bw_rates := rates\<rparr>"
    using assms(2) by (auto simp: priced_def split: prod.splits)
  consider (actual) i n x where "input = Some i" "output = Some n"
      "estimate_live_text_cost (Some i) (Some n) (tc_model_revision c) t now (bw_rates w) = (x, rates)"
      "res = (case x of Inl e \<Rightarrow> Inl e | Inr est \<Rightarrow> Inr (debit_of_estimate ACTUAL_USAGE i n est))"
    | (conservative) x where "input = None \<or> output = None"
      "estimate_live_text_cost (Some fb) (Some (tc_max_output_tokens c)) (tc_model_revision c) t now (bw_rates w) = (x, rates)"
      "res = (case x of Inl e \<Rightarrow> Inl e
         | Inr est \<Rightarrow> Inr (debit_of_estimate CONSERVATIVE_ESTIMATE fb (tc_max_output_tokens c) est))"
    | (none) "rates = bw_rates w" "res = Inr None"
    using p by (fastforce simp: price_attempt_def split: option.splits prod.splits sum.splits if_splits)
  then have "cards_valid (rw_cards rates) \<and> (res = Inr (Some d) \<longrightarrow> priced_by c t rates input output fb d)
      \<and> (seeding_settled (bw_rates w) \<longrightarrow> rates = bw_rates w)"
  proof cases
    case actual
    note f = estimate_facts [OF assms(1) actual(3)]
    show ?thesis using f(1,3) f(2) [of _ ACTUAL_USAGE d] actual by (auto simp: priced_by_def split: sum.splits)
  next
    case conservative
    note f = estimate_facts [OF assms(1) conservative(2)]
    show ?thesis using f(1,3) f(2) [of _ CONSERVATIVE_ESTIMATE d] conservative
      by (auto simp: priced_by_def split: sum.splits)
  next
    case none
    then show ?thesis using assms(1) by simp
  qed
  then show "w' = w\<lparr>bw_rates := bw_rates w'\<rparr>" "cards_valid (rw_cards (bw_rates w'))"
    "res = Inr (Some d) \<Longrightarrow> priced_by c t (bw_rates w') input output fb d"
    "seeding_settled (bw_rates w) \<Longrightarrow> w' = w"
    by (simp_all add: w')
qed

definition nonneg :: "int option \<Rightarrow> bool" where
  "nonneg x \<longleftrightarrow> (case x of None \<Rightarrow> True | Some i \<Rightarrow> 0 \<le> i)"

lemma nonneg_as_int [simp]: "nonneg (as_int x)"
  by (simp add: nonneg_def as_int_def split: option.splits)

lemma nonneg_None [simp]: "nonneg None"
  by (simp add: nonneg_def)

lemma priced_by_money:
  "priced_by c t r input output fb d \<Longrightarrow> 0 \<le> fb \<Longrightarrow> 0 \<le> tc_max_output_tokens c \<Longrightarrow> nonneg input \<Longrightarrow> nonneg output
     \<Longrightarrow> money (pd_amount_usd d)"
  by (auto simp: priced_by_def money_def nonneg_def intro: price_nonneg)

lemma ledger_rates_frame [simp]:
  "get_attempt_debit (w\<lparr>bw_rates := r\<rparr>) k = get_attempt_debit w k"
  "current_spend (w\<lparr>bw_rates := r\<rparr>) b = current_spend w b"
  "ledger_inv (w\<lparr>bw_rates := r\<rparr>) = ledger_inv w"
  by (simp_all add: get_attempt_debit_def current_spend_def get_budget_state_def ledger_inv_def ledger_total_def)

section \<open>The ledger through the loop\<close>

definition world_ok :: "'a billing_world_scheme \<Rightarrow> bool" where
  "world_ok w \<longleftrightarrow> ledger_inv w \<and> cards_valid (rw_cards (bw_rates w))"

definition call_ok :: "transport_call \<Rightarrow> bool" where
  "call_ok c \<longleftrightarrow> 1 \<le> tc_body_bytes c \<and> 0 \<le> tc_max_output_tokens c"

definition call_debit_id :: "transport_call \<Rightarrow> nat \<Rightarrow> string" where
  "call_debit_id c idx = attempt_debit_id (tc_execution_id c) (tc_candidate_entry_id c) idx (tc_candidate_id_v2 c)"

lemma call_debit_id_inject [simp]: "call_debit_id c i = call_debit_id c j \<longleftrightarrow> i = j"
  by (simp add: call_debit_id_def attempt_debit_id_def split: option.splits)

lemma bw_rates_frame [simp]:
  "bw_rates (add_budget_spend k a now w) = bw_rates w"
  "bw_rates (snd (settle_attempt_spend ex cand idx d v2 risk now w)) = bw_rates w"
  "bw_rates (snd (reserve_attempt_spend e ex cand prov mrev idx p v2 now w)) = bw_rates w"
  by (auto simp: add_budget_spend_def save_budget_state_def settle_attempt_spend_def Let_def settle_attempt_debit_def
      hold_attempt_debit_unresolved_def reserve_attempt_spend_def reserve_attempt_debit_def save_attempt_debit_def
      split: option.splits)

lemma priced_world_ok:
  "world_ok w \<Longrightarrow> priced c i n risk posture fb t now w = (res, w') \<Longrightarrow> world_ok w'"
  using priced_facts(1,2) [of w c i n risk posture fb t now res w'] ledger_rates_frame(3) [of "bw_rates w'" w]
  by (metis world_ok_def)

lemma settle_world_ok:
  assumes "world_ok w" and "case d of None \<Rightarrow> True | Some p \<Rightarrow> money (pd_amount_usd p)"
  shows "world_ok (snd (settle_attempt_spend ex cand idx d v2 risk now w))"
  using assms settle_spend_inv(1) [OF _ assms(2), of w ex cand idx v2 risk now]
  by (metis bw_rates_frame(2) prod.collapse world_ok_def)

lemma debit_boundary_ok:
  assumes "world_ok w" and "call_ok c" and "nonneg i" and "nonneg n" and "0 \<le> est"
    and "debit_boundary c env idx i n risk est w = (res, w')"
  shows "world_ok w'"
proof -
  obtain x w1 where p: "priced c i n risk (tc_cost_posture c) est (ae_settle_at env) (ae_now env) w = (x, w1)"
    by (meson prod.exhaust)
  have ok: "world_ok w1" using priced_world_ok [OF assms(1) p] .
  show ?thesis
  proof (cases x)
    case (Inl e)
    then show ?thesis using assms(6) p ok by (auto simp: debit_boundary_def)
  next
    case (Inr d)
    have "case d of None \<Rightarrow> True | Some p \<Rightarrow> money (pd_amount_usd p)"
      using priced_by_money [OF priced_facts(3) [OF _ p]] assms(1-5) Inr
      by (auto simp: world_ok_def call_ok_def split: option.split)
    from settle_world_ok [OF ok this] show ?thesis using assms(6) p Inr by (auto simp: debit_boundary_def)
  qed
qed

lemma reserve_attempt_ok:
  assumes "world_ok w" and "call_ok c" and "reserve_attempt e c env idx w = (res, w')"
  shows "world_ok w'"
proof -
  obtain x w1 where p: "priced c None None True ''conservative'' (tc_body_bytes c) (ae_reserve_at env) (ae_now env) w = (x, w1)"
    by (meson prod.exhaust)
  have ok: "world_ok w1" using priced_world_ok [OF assms(1) p] .
  show ?thesis
  proof (cases "\<exists>d. x = Inr (Some d)")
    case True
    then obtain d where x: "x = Inr (Some d)" by blast
    have m: "money (pd_amount_usd d)"
      using priced_by_money [OF priced_facts(3) [OF _ p x]] assms(1,2) by (simp add: world_ok_def call_ok_def)
    let ?s = "reserve_attempt_spend e (tc_execution_id c) (tc_candidate_entry_id c) (tc_provider_id c)
        (tc_model_revision c) idx d (tc_candidate_id_v2 c) (ae_now env) w1"
    have "ledger_inv (snd ?s)"
      using run_spend_op_step(1) [of w1 "Reserve (tc_execution_id c) (tc_candidate_entry_id c) (tc_provider_id c)
        (tc_model_revision c) idx d (tc_candidate_id_v2 c) (ae_now env)" e] ok m by (simp add: world_ok_def)
    then have "world_ok (snd ?s)" using ok by (simp add: world_ok_def)
    moreover have "w' = snd ?s"
      using assms(3) p x by (auto simp: reserve_attempt_def require_priceable_admission_def
          split: prod.splits reserve_outcome.splits)
    ultimately show ?thesis by simp
  next
    case False
    then show ?thesis using assms(3) p ok
      by (auto simp: reserve_attempt_def split: sum.splits option.splits)
  qed
qed

lemma admit_attempt_ok:
  assumes "world_ok w" and "call_ok c" and "admit_attempt e c env idx est w = (res, w')"
  shows "world_ok w'"
proof -
  obtain x w1 where p: "check_cost_ceiling c env est w = (x, w1)" by (meson prod.exhaust)
  have "world_ok w1"
    using p priced_world_ok [OF assms(1)] assms(1)
    by (auto simp: check_cost_ceiling_def split: option.splits prod.splits sum.splits if_splits)
  then show ?thesis using assms p reserve_attempt_ok [OF _ assms(2)]
    by (auto simp: admit_attempt_def split: sum.splits)
qed

lemma as_int_nonneg: "as_int i = Some x \<Longrightarrow> 0 \<le> x"
  by (auto simp: as_int_def split: option.splits if_splits)

lemma after_failure_Retry:
  "after_failure c env idx retryable category ev est = Retry ev' est' \<Longrightarrow>
     ev' = ev \<and> est' = est \<and> retryable \<and> idx < tc_retry_limit c"
  by (auto simp: after_failure_def Let_def split: option.splits if_splits)

lemma after_failure_not_Completed: "after_failure c env idx retryable category ev est \<noteq> Completed r"
  by (simp add: after_failure_def Let_def split: option.splits)

lemma conclude_attempt_ok:
  assumes "world_ok w" and "call_ok c" and "0 \<le> est"
    and "conclude_attempt c env idx est failed reply w = (out, w')"
  shows "world_ok w' \<and> (\<forall>ev est'. out = Retry ev est' \<longrightarrow> 0 \<le> est')"
proof -
  note ok = debit_boundary_ok [OF assms(1,2)]
  show ?thesis
  proof (cases reply)
    case (HttpError code i n)
    let ?est = "case as_int i of Some x \<Rightarrow> x | None \<Rightarrow> est"
    have e: "0 \<le> ?est" using assms(3) as_int_nonneg by (auto split: option.split)
    obtain x w1 where b: "debit_boundary c env idx (as_int i) (as_int n) (500 \<le> code) ?est w = (x, w1)"
      by (meson prod.exhaust)
    note w1 = ok [OF nonneg_as_int nonneg_as_int e b]
    show ?thesis using assms(4) HttpError b w1 e
      by (cases x) (auto simp: conclude_attempt_def Let_def dest: after_failure_Retry)
  next
    case (Served i n)
    then show ?thesis using assms(4) ok [OF nonneg_as_int nonneg_as_int assms(3)]
      by (fastforce simp: conclude_attempt_def split: prod.splits sum.splits)
  next
    case TimedOut
    obtain x w1 where b: "debit_boundary c env idx None None True est w = (x, w1)" by (meson prod.exhaust)
    note w1 = ok [OF nonneg_None nonneg_None assms(3) b]
    show ?thesis using assms(3,4) TimedOut b w1
      by (cases x) (auto simp: conclude_attempt_def dest: after_failure_Retry)
  next
    case ConnectionFailed
    obtain x w1 where b: "debit_boundary c env idx None None False est w = (x, w1)" by (meson prod.exhaust)
    note w1 = ok [OF nonneg_None nonneg_None assms(3) b]
    show ?thesis using assms(3,4) ConnectionFailed b w1
      by (cases x) (auto simp: conclude_attempt_def dest: after_failure_Retry)
  next
    case (Uncaught e)
    then show ?thesis using assms(1,4) by (auto simp: conclude_attempt_def)
  qed
qed

lemma attempt_loop_ok:
  assumes "call_ok c" and "world_ok w" and "0 \<le> est"
  shows "world_ok (snd (attempt_loop e c envs idx est timeout failed w))"
  using assms(2,3)
proof (induction envs arbitrary: idx est timeout failed w)
  case (Cons env envs)
  obtain x w1 where a: "admit_attempt e c env idx est w = (x, w1)" by (meson prod.exhaust)
  have ok1: "world_ok w1" using admit_attempt_ok [OF Cons.prems(1) assms(1) a] .
  obtain out w2 where k: "conclude_attempt c env idx est failed (ae_reply env (attempt_timeout c env timeout)) w1 = (out, w2)"
    by (meson prod.exhaust)
  note ok2 = conclude_attempt_ok [OF ok1 assms(1) Cons.prems(2) k]
  show ?case using a k ok1 ok2 Cons.IH by (cases x; cases out) (simp_all add: Let_def)
qed simp

section \<open>Every attempt is metered\<close>

definition resolved :: "'a provider_ops_store_scheme \<Rightarrow> string \<Rightarrow> bool" where
  "resolved s k \<longleftrightarrow> (\<exists>row. get_attempt_debit s k = Some row \<and> db_basis row \<noteq> ''RESERVED_MAX'')"

lemma settle_spend_rows:
  shows "get_attempt_debit s (attempt_debit_id ex cand idx v2) \<noteq> None
           \<Longrightarrow> resolved (snd (settle_attempt_spend ex cand idx d v2 risk now s)) (attempt_debit_id ex cand idx v2)"
    and "k \<noteq> attempt_debit_id ex cand idx v2
           \<Longrightarrow> get_attempt_debit (snd (settle_attempt_spend ex cand idx d v2 risk now s)) k = get_attempt_debit s k"
  by (auto simp: resolved_def settle_attempt_spend_def Let_def settle_attempt_debit_def
      hold_attempt_debit_unresolved_def get_attempt_debit_def split: option.splits)

lemma reserve_spend_rows:
  assumes "reserve_attempt_spend e ex cand prov mrev idx d v2 now s = (out, s')"
  shows "out \<noteq> REFUSED \<Longrightarrow> get_attempt_debit s' (attempt_debit_id ex cand idx v2) \<noteq> None"
    and "k \<noteq> attempt_debit_id ex cand idx v2 \<Longrightarrow> get_attempt_debit s' k = get_attempt_debit s k"
    and "get_attempt_debit s (attempt_debit_id ex cand idx v2) = None \<Longrightarrow> out \<noteq> REFUSED \<Longrightarrow>
           out = RESERVED \<and> get_attempt_debit s' (attempt_debit_id ex cand idx v2)
             = Some (reservation_row ex cand prov mrev idx d v2 now)"
  using assms
  by (auto simp: reserve_attempt_spend_def reserve_attempt_debit_def reservation_row_def get_attempt_debit_def
      save_attempt_debit_def split: if_splits)

lemma priced_rows:
  "priced c i n risk posture fb t now w = (x, w') \<Longrightarrow> get_attempt_debit w' k = get_attempt_debit w k"
  "priced c i n risk posture fb t now w = (x, w') \<Longrightarrow> current_spend w' b = current_spend w b"
  by (auto simp: priced_def split: prod.splits)

lemma debit_boundary_rows:
  assumes "debit_boundary c env idx i n risk est w = (x, w')"
  shows "x = Inr d \<Longrightarrow> get_attempt_debit w (call_debit_id c idx) \<noteq> None \<Longrightarrow> resolved w' (call_debit_id c idx)"
    and "k \<noteq> call_debit_id c idx \<Longrightarrow> get_attempt_debit w' k = get_attempt_debit w k"
proof -
  obtain y w1 where p: "priced c i n risk (tc_cost_posture c) est (ae_settle_at env) (ae_now env) w = (y, w1)"
    by (meson prod.exhaust)
  show "x = Inr d \<Longrightarrow> get_attempt_debit w (call_debit_id c idx) \<noteq> None \<Longrightarrow> resolved w' (call_debit_id c idx)"
    using assms p priced_rows(1) [OF p]
    by (auto simp: debit_boundary_def call_debit_id_def split: sum.splits intro!: settle_spend_rows(1))
  show "k \<noteq> call_debit_id c idx \<Longrightarrow> get_attempt_debit w' k = get_attempt_debit w k"
    using assms p priced_rows(1) [OF p]
    by (auto simp: debit_boundary_def call_debit_id_def settle_spend_rows(2) split: sum.splits)
qed

lemma check_cost_ceiling_rows:
  "check_cost_ceiling c env est w = (x, w') \<Longrightarrow> get_attempt_debit w' k = get_attempt_debit w k"
  "check_cost_ceiling c env est w = (x, w') \<Longrightarrow> current_spend w' b = current_spend w b"
  by (auto simp: check_cost_ceiling_def priced_rows split: option.splits prod.splits sum.splits if_splits)

lemma admit_attempt_rows:
  assumes "admit_attempt e c env idx est w = (x, w')"
  shows "x = Inr u \<Longrightarrow> et_budget_enforced e \<Longrightarrow> get_attempt_debit w' (call_debit_id c idx) \<noteq> None"
    and "k \<noteq> call_debit_id c idx \<Longrightarrow> get_attempt_debit w' k = get_attempt_debit w k"
proof -
  obtain y w1 where cc: "check_cost_ceiling c env est w = (y, w1)" by (meson prod.exhaust)
  obtain z w2 where p: "priced c None None True ''conservative'' (tc_body_bytes c) (ae_reserve_at env) (ae_now env) w1 = (z, w2)"
    by (meson prod.exhaust)
  have run: "check_deadline c env = Inr () \<Longrightarrow> y = Inr () \<Longrightarrow> reserve_attempt e c env idx w1 = (x, w')"
    using assms cc by (simp add: admit_attempt_def)
  note rr = reserve_spend_rows
  show "x = Inr u \<Longrightarrow> et_budget_enforced e \<Longrightarrow> get_attempt_debit w' (call_debit_id c idx) \<noteq> None"
    using assms cc p
    by (auto simp: admit_attempt_def reserve_attempt_def require_priceable_admission_def call_debit_id_def
        split: sum.splits option.splits prod.splits reserve_outcome.splits if_splits dest: rr(1))
  show "k \<noteq> call_debit_id c idx \<Longrightarrow> get_attempt_debit w' k = get_attempt_debit w k"
    using assms cc p check_cost_ceiling_rows(1) [OF cc, of k] priced_rows(1) [OF p, of k]
    by (auto simp: admit_attempt_def reserve_attempt_def require_priceable_admission_def call_debit_id_def
        split: sum.splits option.splits prod.splits reserve_outcome.splits if_splits dest: rr(2))
qed

lemma conclude_attempt_rows:
  assumes "conclude_attempt c env idx est failed reply w = (out, w')"
  shows "(\<forall>err. out \<noteq> Failed err) \<Longrightarrow> get_attempt_debit w (call_debit_id c idx) \<noteq> None \<Longrightarrow> resolved w' (call_debit_id c idx)"
    and "k \<noteq> call_debit_id c idx \<Longrightarrow> get_attempt_debit w' k = get_attempt_debit w k"
    and "out = Completed r \<Longrightarrow> sr_retry_count r = idx \<and> sr_failed_attempts r = failed"
  using assms
  by (auto simp: conclude_attempt_def Let_def after_failure_not_Completed
      split: provider_reply.splits prod.splits sum.splits
      dest: debit_boundary_rows(1) debit_boundary_rows(2) sym [of "after_failure _ _ _ _ _ _ _"])

lemma attempt_loop_metered:
  assumes "et_budget_enforced e"
    and "attempt_loop e c envs idx est timeout failed w = (Inr r, w')"
    and "\<forall>i < idx. resolved w (call_debit_id c i)" and "length failed = idx"
  shows "(\<forall>i \<le> sr_retry_count r. resolved w' (call_debit_id c i))
       \<and> length (sr_failed_attempts r) = sr_retry_count r \<and> sr_retry_count r < idx + length envs"
  using assms(2-4)
proof (induction envs arbitrary: idx est timeout failed w)
  case (Cons env envs)
  obtain x w1 where a: "admit_attempt e c env idx est w = (x, w1)" by (meson prod.exhaust)
  obtain out w2 where k: "conclude_attempt c env idx est failed (ae_reply env (attempt_timeout c env timeout)) w1 = (out, w2)"
    by (meson prod.exhaust)
  note ar = admit_attempt_rows [OF a] and kr = conclude_attempt_rows [OF k]
  from Cons.prems(1) a k have x: "x = Inr ()" by (cases x) simp_all
  have keep: "\<forall>i < idx. resolved w2 (call_debit_id c i)"
    using Cons.prems(2) ar(2) kr(2) by (auto simp: resolved_def)
  have now: "(\<forall>err. out \<noteq> Failed err) \<Longrightarrow> resolved w2 (call_debit_id c idx)" using kr(1) ar(1) x assms(1) by blast
  show ?case
  proof (cases out)
    case (Completed r')
    then have "r' = r" "w2 = w'" using Cons.prems(1) a k x by (simp_all add: Let_def)
    then show ?thesis using kr(3) Completed now keep Cons.prems(3) by (auto simp: le_less)
  next
    case (Failed err)
    then show ?thesis using Cons.prems(1) a k x by (simp add: Let_def)
  next
    case (Retry ev est')
    then have "attempt_loop e c envs (Suc idx) est' (attempt_timeout c env timeout) (failed @ [ev]) w2 = (Inr r, w')"
      using Cons.prems(1) a k x by (simp add: Let_def)
    from Cons.IH [OF this] keep now Retry Cons.prems(3) show ?thesis by (auto simp: less_Suc_eq)
  qed
qed simp

section \<open>The hard limit through the loop\<close>

text \<open>
  The reserved maximum is a bound on the charge when the provider tokenizes at no finer than one token per
  byte, keeps to the output cap, and the card that priced the reservation still prices the settlement.
\<close>

definition at_most :: "int option \<Rightarrow> int \<Rightarrow> bool" where
  "at_most x bound \<longleftrightarrow> (case x of None \<Rightarrow> True | Some i \<Rightarrow> i \<le> bound)"

definition honest_reply :: "transport_call \<Rightarrow> provider_reply \<Rightarrow> bool" where
  "honest_reply c reply \<longleftrightarrow>
     (case reply of
        Served i n \<Rightarrow> at_most (as_int i) (tc_body_bytes c) \<and> at_most (as_int n) (tc_max_output_tokens c)
      | HttpError _ i n \<Rightarrow> at_most (as_int i) (tc_body_bytes c) \<and> at_most (as_int n) (tc_max_output_tokens c)
      | _ \<Rightarrow> True)"

definition honest_env :: "transport_call \<Rightarrow> rate_card_world \<Rightarrow> attempt_env \<Rightarrow> bool" where
  "honest_env c r env \<longleftrightarrow>
     pick_live_text_card (tc_model_revision c) (ae_settle_at env) (rw_cards r)
       = pick_live_text_card (tc_model_revision c) (ae_reserve_at env) (rw_cards r)
   \<and> (\<forall>t. honest_reply c (ae_reply env t))"

definition reserved_at_card :: "transport_call \<Rightarrow> nat \<Rightarrow> 'a billing_world_scheme \<Rightarrow> string \<Rightarrow> bool" where
  "reserved_at_card c t w k \<longleftrightarrow>
     (\<exists>row card'. get_attempt_debit w k = Some row
        \<and> pick_live_text_card (tc_model_revision c) t (rw_cards (bw_rates w)) = Some card'
        \<and> db_amount_usd row = price card' (tc_body_bytes c) (tc_max_output_tokens c))"

lemma debit_boundary_spend:
  assumes ok: "world_ok w" "call_ok c" and none: "seeding_settled (bw_rates w)"
    and i: "nonneg i" "at_most i (tc_body_bytes c)" and n: "nonneg n" "at_most n (tc_max_output_tokens c)"
    and est: "0 \<le> est" "est \<le> tc_body_bytes c"
    and row: "reserved_at_card c (ae_settle_at env) w (call_debit_id c idx)"
    and run: "debit_boundary c env idx i n risk est w = (x, w')"
  shows "current_spend w' live_budget_key \<le> current_spend w live_budget_key" and "bw_rates w' = bw_rates w"
proof -
  obtain y w1 where p: "priced c i n risk (tc_cost_posture c) est (ae_settle_at env) (ae_now env) w = (y, w1)"
    by (meson prod.exhaust)
  have cv: "cards_valid (rw_cards (bw_rates w))" and inv: "ledger_inv w" using ok by (simp_all add: world_ok_def)
  have w1: "w1 = w" using priced_facts(4) [OF cv p none] .
  show "bw_rates w' = bw_rates w" using run p w1 by (cases y) (auto simp: debit_boundary_def)
  show "current_spend w' live_budget_key \<le> current_spend w live_budget_key"
  proof (cases y)
    case (Inl e)
    then show ?thesis using run p w1 by (simp add: debit_boundary_def)
  next
    case (Inr d)
    obtain b s' where st: "settle_attempt_spend (tc_execution_id c) (tc_candidate_entry_id c) idx d (tc_candidate_id_v2 c)
        risk (ae_now env) w = (b, s')" by (meson prod.exhaust)
    have w': "w' = s'" using run p w1 Inr st by (simp add: debit_boundary_def)
    have pb: "priced_by c (ae_settle_at env) (bw_rates w) i n est q" if "d = Some q" for q
      using priced_facts(3) [OF cv p] Inr that w1 by simp
    have money: "case d of None \<Rightarrow> True | Some q \<Rightarrow> money (pd_amount_usd q)"
      using priced_by_money [OF pb] i(1) n(1) est(1) ok(2) by (auto simp: call_ok_def split: option.split)
    have hold: "pd_amount_usd q \<le> db_amount_usd r0"
      if q: "d = Some q" and r0: "get_attempt_debit w (call_debit_id c idx) = Some r0" for q r0
    proof -
      from row r0 obtain k where k: "pick_live_text_card (tc_model_revision c) (ae_settle_at env) (rw_cards (bw_rates w)) = Some k"
        and amt: "db_amount_usd r0 = price k (tc_body_bytes c) (tc_max_output_tokens c)"
        by (auto simp: reserved_at_card_def)
      from pb [OF q] k have v: "valid_rate_card k" and
        "(\<exists>a m. i = Some a \<and> n = Some m \<and> pd_amount_usd q = price k a m)
           \<or> pd_amount_usd q = price k est (tc_max_output_tokens c)"
        by (auto simp: priced_by_def)
      then show ?thesis unfolding amt using i(2) n(2) est(2) price_mono [OF v] by (auto simp: at_most_def)
    qed
    have "within_hold w (Settle (tc_execution_id c) (tc_candidate_entry_id c) idx d (tc_candidate_id_v2 c) risk (ae_now env))"
      using hold by (auto simp: call_debit_id_def split: option.splits)
    from settle_spend_inv(2) [OF inv money st this] show ?thesis unfolding w' .
  qed
qed

lemma admit_attempt_spend:
  assumes ok: "world_ok w" "call_ok c" and none: "seeding_settled (bw_rates w)"
    and lim: "et_budget_enforced e" "et_hard_budget_usd e = Some h" "current_spend w live_budget_key \<le> h"
    and new: "get_attempt_debit w (call_debit_id c idx) = None"
    and run: "admit_attempt e c env idx est w = (x, w')"
  shows "current_spend w' live_budget_key \<le> h" and "bw_rates w' = bw_rates w"
    and "x = Inr u \<Longrightarrow> reserved_at_card c (ae_reserve_at env) w' (call_debit_id c idx)"
proof -
  have cv: "cards_valid (rw_cards (bw_rates w))" and inv: "ledger_inv w" using ok by (simp_all add: world_ok_def)
  have cc: "snd (check_cost_ceiling c env est w) = w"
    using priced_facts(4) [OF cv _ none]
    by (auto simp: check_cost_ceiling_def split: option.splits prod.splits sum.splits if_splits)
  obtain z w2 where p: "priced c None None True ''conservative'' (tc_body_bytes c) (ae_reserve_at env) (ae_now env) w = (z, w2)"
    by (meson prod.exhaust)
  have w2: "w2 = w" using priced_facts(4) [OF cv p none] .
  have early: "w' = w" if "reserve_attempt e c env idx w \<noteq> (x, w')"
    using run cc that by (auto simp: admit_attempt_def split: sum.splits prod.splits)
  have late: "reserve_attempt e c env idx w = (x, w')" if "x = Inr u"
    using run cc that by (auto simp: admit_attempt_def split: sum.splits prod.splits)
  have main: "current_spend w' live_budget_key \<le> h \<and> bw_rates w' = bw_rates w
      \<and> (x = Inr u \<longrightarrow> reserved_at_card c (ae_reserve_at env) w' (call_debit_id c idx))"
    if r: "reserve_attempt e c env idx w = (x, w')"
  proof (cases "\<exists>d. z = Inr (Some d)")
    case True
    then obtain d where z: "z = Inr (Some d)" by blast
    let ?op = "Reserve (tc_execution_id c) (tc_candidate_entry_id c) (tc_provider_id c) (tc_model_revision c) idx d
        (tc_candidate_id_v2 c) (ae_now env)"
    obtain out w3 where rs: "reserve_attempt_spend e (tc_execution_id c) (tc_candidate_entry_id c) (tc_provider_id c)
        (tc_model_revision c) idx d (tc_candidate_id_v2 c) (ae_now env) w = (out, w3)" by (meson prod.exhaust)
    have pb: "priced_by c (ae_reserve_at env) (bw_rates w) None None (tc_body_bytes c) d"
      using priced_facts(3) [OF cv p z] w2 by simp
    have m: "op_money ?op" using priced_by_money [OF pb] ok(2) by (simp add: call_ok_def)
    have w': "w' = w3" and x: "x = Inr u \<Longrightarrow> out \<noteq> REFUSED"
      using r p z w2 rs by (auto simp: reserve_attempt_def require_priceable_admission_def split: reserve_outcome.splits)
    have "current_spend w3 live_budget_key \<le> h"
      using run_spend_op_step(2) [OF inv m, of e h] lim rs by (simp add: hard_limit_of_def)
    moreover have "bw_rates w3 = bw_rates w" using bw_rates_frame(3) rs by (metis snd_conv)
    moreover have "reserved_at_card c (ae_reserve_at env) w3 (call_debit_id c idx)" if "out \<noteq> REFUSED"
      using reserve_spend_rows(3) [OF rs] new that pb calculation(2)
      by (auto simp: reserved_at_card_def call_debit_id_def reservation_row_def priced_by_def)
    ultimately show ?thesis using w' x by blast
  next
    case False
    then show ?thesis using r p w2 lim
      by (auto simp: reserve_attempt_def require_priceable_admission_def split: sum.splits option.splits)
  qed
  show "current_spend w' live_budget_key \<le> h" "bw_rates w' = bw_rates w" using main early lim(3) by auto
  show "x = Inr u \<Longrightarrow> reserved_at_card c (ae_reserve_at env) w' (call_debit_id c idx)" using main late by blast
qed

lemma conclude_attempt_spend:
  assumes ok: "world_ok w" "call_ok c" and none: "seeding_settled (bw_rates w)"
    and est: "0 \<le> est" "est \<le> tc_body_bytes c" and honest: "honest_reply c reply"
    and row: "reserved_at_card c (ae_settle_at env) w (call_debit_id c idx)"
    and run: "conclude_attempt c env idx est failed reply w = (out, w')"
  shows "current_spend w' live_budget_key \<le> current_spend w live_budget_key \<and> bw_rates w' = bw_rates w
    \<and> (\<forall>ev est'. out = Retry ev est' \<longrightarrow> est' \<le> tc_body_bytes c)"
proof -
  have db: "current_spend w1 live_budget_key \<le> current_spend w live_budget_key \<and> bw_rates w1 = bw_rates w"
    if "nonneg i" "at_most i (tc_body_bytes c)" "nonneg n" "at_most n (tc_max_output_tokens c)"
      "0 \<le> est1" "est1 \<le> tc_body_bytes c" "debit_boundary c env idx i n risk est1 w = (x, w1)" for i n est1 risk x w1
    using debit_boundary_spend [OF ok none that(1-6) row that(7)] by blast
  have triv: "at_most None b" for b by (simp add: at_most_def)
  show ?thesis
  proof (cases reply)
    case (Served i n)
    obtain x w1 where b: "debit_boundary c env idx (as_int i) (as_int n) True est w = (x, w1)" by (meson prod.exhaust)
    show ?thesis using db [OF nonneg_as_int _ nonneg_as_int _ est b] honest run Served b
      by (cases x) (auto simp: conclude_attempt_def honest_reply_def)
  next
    case (HttpError code i n)
    let ?est = "case as_int i of Some x \<Rightarrow> x | None \<Rightarrow> est"
    obtain x w1 where b: "debit_boundary c env idx (as_int i) (as_int n) (500 \<le> code) ?est w = (x, w1)"
      by (meson prod.exhaust)
    have h: "at_most (as_int i) (tc_body_bytes c)" "at_most (as_int n) (tc_max_output_tokens c)"
      using honest HttpError by (simp_all add: honest_reply_def)
    have e: "0 \<le> ?est" "?est \<le> tc_body_bytes c"
      using est h(1) as_int_nonneg by (auto simp: at_most_def split: option.splits)
    show ?thesis using db [OF nonneg_as_int h(1) nonneg_as_int h(2) e b] e run HttpError b
      by (cases x) (auto simp: conclude_attempt_def Let_def dest: after_failure_Retry)
  next
    case TimedOut
    obtain x w1 where b: "debit_boundary c env idx None None True est w = (x, w1)" by (meson prod.exhaust)
    show ?thesis using db [OF nonneg_None triv nonneg_None triv est b] est run TimedOut b
      by (cases x) (auto simp: conclude_attempt_def dest: after_failure_Retry)
  next
    case ConnectionFailed
    obtain x w1 where b: "debit_boundary c env idx None None False est w = (x, w1)" by (meson prod.exhaust)
    show ?thesis using db [OF nonneg_None triv nonneg_None triv est b] est run ConnectionFailed b
      by (cases x) (auto simp: conclude_attempt_def dest: after_failure_Retry)
  next
    case (Uncaught err)
    then show ?thesis using run by (auto simp: conclude_attempt_def)
  qed
qed

lemma attempt_loop_limit:
  assumes c: "call_ok c" and lim: "et_budget_enforced e" "et_hard_budget_usd e = Some h"
    and env: "\<forall>env \<in> set envs. honest_env c (bw_rates w) env"
    and w: "world_ok w" "seeding_settled (bw_rates w)" "current_spend w live_budget_key \<le> h"
      "\<forall>i \<ge> idx. get_attempt_debit w (call_debit_id c i) = None"
    and est: "0 \<le> est" "est \<le> tc_body_bytes c"
  shows "current_spend (snd (attempt_loop e c envs idx est timeout failed w)) live_budget_key \<le> h"
  using env w est
proof (induction envs arbitrary: idx est timeout failed w)
  case (Cons env envs)
  obtain x w1 where a: "admit_attempt e c env idx est w = (x, w1)" by (meson prod.exhaust)
  obtain out w2 where k: "conclude_attempt c env idx est failed (ae_reply env (attempt_timeout c env timeout)) w1 = (out, w2)"
    by (meson prod.exhaust)
  note ar = admit_attempt_spend [OF Cons.prems(2) c Cons.prems(3) lim Cons.prems(4) _ a]
  have fresh: "get_attempt_debit w (call_debit_id c idx) = None" using Cons.prems(5) by simp
  have ok1: "world_ok w1" using admit_attempt_ok [OF Cons.prems(2) c a] .
  show ?case
  proof (cases x)
    case (Inl err)
    then show ?thesis using a ar(1) [OF fresh] by simp
  next
    case (Inr u)
    have he: "honest_env c (bw_rates w1) env" using Cons.prems(1) ar(2) [OF fresh] by simp
    have row: "reserved_at_card c (ae_settle_at env) w1 (call_debit_id c idx)"
      using ar(3) [OF fresh Inr] he by (simp add: reserved_at_card_def honest_env_def)
    have hr: "honest_reply c (ae_reply env (attempt_timeout c env timeout))" using he by (simp add: honest_env_def)
    have none1: "seeding_settled (bw_rates w1)" using Cons.prems(3) ar(2) [OF fresh] by simp
    note kr = conclude_attempt_spend [OF ok1 c none1 Cons.prems(6,7) hr row k]
    note ok2 = conclude_attempt_ok [OF ok1 c Cons.prems(6) k]
    have s2: "current_spend w2 live_budget_key \<le> h" using kr ar(1) [OF fresh] by linarith
    show ?thesis
    proof (cases out)
      case (Retry ev est')
      have later: "\<forall>i \<ge> Suc idx. get_attempt_debit w2 (call_debit_id c i) = None"
        using Cons.prems(5) conclude_attempt_rows(2) [OF k] admit_attempt_rows(2) [OF a] by simp
      show ?thesis
        using Cons.IH [of w2 "Suc idx" est' "attempt_timeout c env timeout" "failed @ [ev]"] Cons.prems(1,3) ok2 kr s2
          later Retry a k Inr ar(2) [OF fresh] by (simp add: Let_def)
    qed (use s2 a k Inr in \<open>simp_all add: Let_def\<close>)
  qed
qed simp

lemma backoff_base_nonneg: "0 \<le> backoff_base i"
  by (simp add: backoff_base_def)

lemma delay_bound: "0 \<le> jitter \<Longrightarrow> jitter \<le> 1 \<Longrightarrow> delay_before_retry plan (Suc i) jitter \<le> backoff_base i * (1 + 1/4)"
  unfolding delay_before_retry_def diff_Suc_1 by (intro mult_left_mono) (simp_all add: backoff_base_nonneg)

lemma sum_list_upt_mono:
  fixes f :: "nat \<Rightarrow> rat"
  assumes "\<And>i. 0 \<le> f i" and "m \<le> n"
  shows "sum_list (map f [0..<m]) \<le> sum_list (map f [0..<n])"
  using assms(2) by (induction n) (auto simp: le_Suc_eq assms(1) add_increasing2)

lemma prepare_call_ok [simp]: "call_ok (prepare_call sha x q) \<longleftrightarrow> 1 \<le> rq_body_bytes q"
  by (auto simp: call_ok_def prepare_call_def as_int_def split: option.splits)

lemma prepare_call_fields [simp]:
  "tc_body_bytes (prepare_call sha x q) = rq_body_bytes q"
  "tc_retry_limit (prepare_call sha x q) = nat (max (rq_retry_limit q) 0)"
  by (simp_all add: prepare_call_def)

section \<open>Properties\<close>

text \<open>
  C7. The hard budget holds through a whole live call: with enforcement on and debit ids not used before, whatever the provider answers and
  however often the loop retries, a counter at or below the limit ends at or below it. The conditions are the ones the design
  rests on: the request has a body, the reported usage stays within the byte and output bounds of the reservation, the card that prices a
  reservation also prices its settlement, and the price settings have already been seeded into the cards (or are not set).
\<close>

theorem live_call_respects_hard_budget:
  assumes "1 \<le> rq_body_bytes q" and "et_budget_enforced e" and "et_hard_budget_usd e = Some h"
    and "world_ok w" and "seeding_settled (bw_rates w)" and "current_spend w live_budget_key \<le> h"
    and "\<forall>i. get_attempt_debit w (call_debit_id (prepare_call sha x q) i) = None"
    and "\<forall>i. honest_env (prepare_call sha x q) (bw_rates w) (envs i)"
  shows "current_spend (snd (post_openai_compatible_response sha x e q envs w)) live_budget_key \<le> h"
proof (cases rule: post_cases [of sha x e q envs w])
  case 2
  then show ?thesis unfolding 2 run_attempts_def
    by (intro attempt_loop_limit [OF _ assms(2,3) _ assms(4-6)]) (use assms(1,7,8) in auto)
qed (simp add: assms)

text \<open>
  No call goes unmetered: when the hard budget is enforced and the provider serves, every attempt up to
  the served one has a debit row that is no longer an open reservation, the number of failed attempts
  reported is the retry count, and the loop made at most one call more than the retry limit.
\<close>

theorem served_call_is_metered:
  assumes "et_budget_enforced e" and "tx_override x = None"
    and "post_openai_compatible_response sha x e q envs w = (Inr r, w')"
  shows "(\<forall>i \<le> sr_retry_count r. resolved w' (call_debit_id (prepare_call sha x q) i))
       \<and> length (sr_failed_attempts r) = sr_retry_count r \<and> int (sr_retry_count r) \<le> max (rq_retry_limit q) 0"
  using attempt_loop_metered [OF assms(1) post_served [OF assms(2,3), unfolded run_attempts_def]]
  by (auto simp: less_Suc_eq_le le_nat_iff)

text \<open>
  The ledger balances whatever the provider does: after any live call, served, failed, interrupted or
  refused, the budget counter is still the sum of the attempt debits and every card is still valid.
\<close>

theorem live_call_keeps_the_books:
  assumes "1 \<le> rq_body_bytes q" and "world_ok w"
  shows "world_ok (snd (post_openai_compatible_response sha x e q envs w))"
proof (cases rule: post_cases [of sha x e q envs w])
  case 2
  then show ?thesis unfolding 2 run_attempts_def by (intro attempt_loop_ok) (use assms in auto)
qed (simp add: assms)

text \<open>
  The retry plan funds its own retries: an attempt sequence that has used at most its timeouts and its
  maximal delays is permitted its next retry, and a permitted retry never waits past the deadline.
\<close>

theorem retry_plan_is_funded:
  assumes "0 \<le> jitter" and "jitter \<le> 1" and "i < rb_retry_limit plan" and "0 \<le> rb_timeout_seconds plan"
    and "now \<le> start + rb_timeout_seconds plan * of_nat (i + 1)
                  + sum_list (map backoff_base [0..<i]) * (1 + 1/4)"
  shows "rd_permitted (plan_retry plan (Suc i) (start + total_deadline_seconds plan) now jitter)
       \<and> (rd_permitted (plan_retry plan (Suc i) deadline t jitter)
            \<longrightarrow> t + rd_delay_seconds (plan_retry plan (Suc i) deadline t jitter) \<le> deadline)"
proof -
  have "sum_list (map backoff_base [0..<Suc i]) \<le> sum_list (map backoff_base [0..<rb_retry_limit plan])"
    using assms(3) by (intro sum_list_upt_mono backoff_base_nonneg) simp
  then have "(sum_list (map backoff_base [0..<i]) + backoff_base i) * (1 + 1/4)
      \<le> sum_list (map backoff_base [0..<rb_retry_limit plan]) * (1 + 1/4)" by simp
  moreover have "rb_timeout_seconds plan * of_nat (i + 1) \<le> rb_timeout_seconds plan * of_nat (rb_retry_limit plan + 1)"
    using assms(3,4) by (intro mult_left_mono) simp_all
  ultimately have "now + delay_before_retry plan (Suc i) jitter \<le> start + total_deadline_seconds plan"
    using assms(5) delay_bound [OF assms(1,2), of plan i] unfolding total_deadline_seconds_def
    by (simp add: algebra_simps)
  then show ?thesis by (auto simp: plan_retry_def Let_def)
qed

section \<open>A concrete call\<close>

text \<open>The first attempt times out and stays held at its maximum, the second is served.\<close>

definition sample_world :: billing_world where
  "sample_world = \<lparr>quota_states = [], budget_states = [], degradation_states = [], event_records = [],
     governed_actions = [], attempt_debits = [],
     bw_rates = \<lparr>rw_cards = sample_cards, rw_input_cost = None, rw_output_cost = None\<rparr>\<rparr>"

definition sample_transport :: transport_request where
  "sample_transport = \<lparr>rq_api_key = Some ''k'', rq_require_api_key = True, rq_body_bytes = 400,
     rq_max_output_tokens = Some 100, rq_timeout_seconds = 3, rq_serving_provider_id = ''text.openai'',
     rq_retry_limit = 1, rq_execution_deadline_at = Some 20, rq_execution_id = Some ''ex1'',
     rq_cost_posture = ''conservative'', rq_model_revision = Some ''m-1'', rq_cost_ceiling_usd = None,
     rq_deployment = None, rq_model_family = None\<rparr>"

definition sample_context :: transport_context where
  "sample_context = \<lparr>tx_override = None, tx_hermetic = False, tx_minted_id = ''m'', tx_monotonic = 0\<rparr>"

definition no_sha :: "payload \<Rightarrow> string" where
  "no_sha p = ''digest''"

abbreviation sample_call :: transport_call where
  "sample_call \<equiv> prepare_call no_sha sample_context sample_transport"

definition sample_env :: "nat \<Rightarrow> attempt_env" where
  "sample_env i = \<lparr>ae_clock = of_nat (4 * i), ae_reply = (\<lambda>_. if i = 0 then TimedOut else Served (Some 90) (Some 40)),
     ae_retry_now = of_nat (4 * i + 3), ae_jitter = 1/2, ae_stop_now = of_nat (4 * i + 3),
     ae_project_at = 12, ae_reserve_at = 12, ae_settle_at = 12, ae_now = ''t1''\<rparr>"

definition sample_run :: "served_response result \<times> billing_world" where
  "sample_run = post_openai_compatible_response no_sha sample_context sample_thresholds sample_transport
     sample_env sample_world"

lemma sample_world_ok: "world_ok sample_world"
proof -
  have "cards_valid sample_cards" by code_simp
  then show ?thesis
    by (simp add: world_ok_def sample_world_def ledger_inv_def get_attempt_debit_def current_spend_def
        get_budget_state_def ledger_total_def)
qed

theorem live_call_respects_hard_budget_witness:
  "current_spend (snd sample_run) live_budget_key \<le> 1"
  unfolding sample_run_def
  by (rule live_call_respects_hard_budget [OF _ _ _ sample_world_ok])
    (auto simp: sample_thresholds_def sample_world_def current_spend_def get_budget_state_def get_attempt_debit_def
      honest_env_def sample_env_def honest_reply_def prepare_call_def sample_transport_def at_most_def as_int_def)

theorem served_call_is_metered_witness:
  "sr_retry_count (projr (fst sample_run)) = 1 \<and> resolved (snd sample_run) (call_debit_id sample_call 0)
   \<and> resolved (snd sample_run) (call_debit_id sample_call 1)"
proof -
  have run: "post_openai_compatible_response no_sha sample_context sample_thresholds sample_transport sample_env
      sample_world = (Inr (projr (fst sample_run)), snd sample_run)" by code_simp
  have "sr_retry_count (projr (fst sample_run)) = 1" by code_simp
  with served_call_is_metered [OF _ _ run] show ?thesis by (simp add: sample_thresholds_def sample_context_def)
qed

theorem live_call_keeps_the_books_witness: "world_ok (snd sample_run)"
  unfolding sample_run_def
  by (rule live_call_keeps_the_books [OF _ sample_world_ok]) (simp add: sample_transport_def)

theorem retry_plan_is_funded_witness:
  "rd_permitted (plan_retry \<lparr>rb_timeout_seconds = 3, rb_retry_limit = 2\<rparr> (Suc 1)
     (0 + total_deadline_seconds \<lparr>rb_timeout_seconds = 3, rb_retry_limit = 2\<rparr>) 6 (1/2))"
  using retry_plan_is_funded [of "1/2" 1 "\<lparr>rb_timeout_seconds = 3, rb_retry_limit = 2\<rparr>" 6 0]
  by (simp add: backoff_base_def)

end
