(* ===== verification/Kill_Switches.thy ===== *)
theory Kill_Switches
  imports Claim_Release Provider_Execution_Config
begin

text \<open>
  Operator kill switches: \<^verbatim>\<open>contracts/kill_switches.py\<close>, \<^verbatim>\<open>repositories/memory_kill_switch_repository.py\<close> and
  \<^verbatim>\<open>services/kill_switch_control.py\<close>.

  An expiry text is represented by what \<^verbatim>\<open>datetime.fromisoformat\<close> reads from it: an instant with an offset, an
  instant without one, or nothing. The service's own clock always reads an instant with an offset.
  Comparing an instant without an offset to one with an offset raises \<^verbatim>\<open>TypeError\<close>, as in Python.
\<close>

section \<open>Records and store\<close>

datatype kill_switch_semantics = HARD_KILL | DRAIN

datatype kill_switch_scope = ALL_LIVE_TEXT | PROVIDER_SCOPE | MODEL_REVISION_SCOPE | TASK_SCOPE | TENANT_SCOPE | CALLER_APP_SCOPE

fun scope_value :: "kill_switch_scope \<Rightarrow> string" where
  "scope_value ALL_LIVE_TEXT = ''ALL_LIVE_TEXT''"
| "scope_value PROVIDER_SCOPE = ''PROVIDER''"
| "scope_value MODEL_REVISION_SCOPE = ''MODEL_REVISION''"
| "scope_value TASK_SCOPE = ''TASK''"
| "scope_value TENANT_SCOPE = ''TENANT''"
| "scope_value CALLER_APP_SCOPE = ''CALLER_APP''"

fun semantics_value :: "kill_switch_semantics \<Rightarrow> string" where
  "semantics_value HARD_KILL = ''HARD_KILL''"
| "semantics_value DRAIN = ''DRAIN''"

datatype iso_instant = Aware int | Naive int | Malformed

record activation =
  ks_switch_id :: string
  ks_scope :: kill_switch_scope
  ks_semantics :: kill_switch_semantics
  ks_target :: "string option"
  ks_reason :: string
  ks_requested_by :: string
  ks_approved_by :: "string option"
  ks_activated_at :: timestamp
  ks_expires_at :: "iso_instant option"
  ks_expiry_recorded_at :: "timestamp option"
  ks_cleared_at :: "timestamp option"
  ks_cleared_by :: "string option"
  ks_clear_reason :: "string option"

record kill_world = billing_world +
  kw_activations :: "(string, activation) dict"
  kw_store_mode :: string

definition list_activations :: "'a kill_world_scheme \<Rightarrow> activation list" where
  "list_activations w = sorted_desc ks_activated_at (dict_values (kw_activations w))"

definition get_activation :: "'a kill_world_scheme \<Rightarrow> string \<Rightarrow> activation option" where
  "get_activation w k = dict_get (kw_activations w) k"

definition upsert_activation :: "activation \<Rightarrow> 'a kill_world_scheme \<Rightarrow> 'a kill_world_scheme" where
  "upsert_activation a w = w\<lparr>kw_activations := dict_put (ks_switch_id a) a (kw_activations w)\<rparr>"

fun delete_activations :: "string list \<Rightarrow> 'a kill_world_scheme \<Rightarrow> nat \<times> 'a kill_world_scheme" where
  "delete_activations [] w = (0, w)"
| "delete_activations (k # ks) w =
     (let (n, w') = delete_activations ks (w\<lparr>kw_activations := dict_pop k (kw_activations w)\<rparr>)
      in ((if get_activation w k = None then n else Suc n), w'))"

interpretation switch_repo: keyed_repository
  ks_switch_id "get_activation :: 'a kill_world_scheme \<Rightarrow> _" upsert_activation
  by unfold_locales (simp add: get_activation_def upsert_activation_def)

section \<open>Operator actions\<close>

definition require_durable_store :: "'a kill_world_scheme \<Rightarrow> unit result" where
  "require_durable_store w =
     (if kw_store_mode w \<noteq> ''sqlalchemy'' then Inl (HTTPException 409 ''store_not_durable'') else Inr ())"

definition verified_caller_identity :: "authenticated_caller \<Rightarrow> string" where
  "verified_caller_identity caller =
     (if truthy (ac_credential_key_id caller)
      then ac_caller_app caller @ '' (credential '' @ the (ac_credential_key_id caller) @ '')''
      else ac_caller_app caller @ '' ('' @ ac_trust_source caller @ '')'')"

definition activate_kill_switch ::
  "policy_store \<Rightarrow> authenticated_caller \<Rightarrow> kill_switch_scope \<Rightarrow> kill_switch_semantics \<Rightarrow> string option
     \<Rightarrow> string \<Rightarrow> iso_instant option \<Rightarrow> string \<Rightarrow> timestamp \<Rightarrow> 'a kill_world_scheme
     \<Rightarrow> activation result \<times> 'a kill_world_scheme" where
  "activate_kill_switch policies caller scope semantics target reason expires new_id now w =
     (case require_provider_control policies caller of
        Inl e \<Rightarrow> (Inl e, w)
      | Inr _ \<Rightarrow>
        (case require_durable_store w of
           Inl e \<Rightarrow> (Inl e, w)
         | Inr _ \<Rightarrow>
           if scope = ALL_LIVE_TEXT \<and> target \<noteq> None then (Inl (HTTPException 422 ''targetless_scope''), w)
           else if scope \<noteq> ALL_LIVE_TEXT \<and> \<not> truthy target then (Inl (HTTPException 422 ''target_required''), w)
           else if expires = Some Malformed then (Inl (HTTPException 422 ''invalid_expiry''), w)
           else
             let a = \<lparr>ks_switch_id = new_id, ks_scope = scope, ks_semantics = semantics, ks_target = target,
                      ks_reason = reason, ks_requested_by = verified_caller_identity caller,
                      ks_approved_by = None, ks_activated_at = now, ks_expires_at = expires,
                      ks_expiry_recorded_at = None, ks_cleared_at = None, ks_cleared_by = None,
                      ks_clear_reason = None\<rparr>
             in (Inr a, upsert_activation a w)))"

definition require_active_activation :: "string \<Rightarrow> 'a kill_world_scheme \<Rightarrow> activation result" where
  "require_active_activation k w =
     (case get_activation w k of
        None \<Rightarrow> Inl (HTTPException 404 ''no_activation'')
      | Some a \<Rightarrow> if ks_cleared_at a \<noteq> None then Inl (HTTPException 409 ''already_cleared'') else Inr a)"

definition clearance_payload :: "activation \<Rightarrow> string \<Rightarrow> payload" where
  "clearance_payload a reason =
     [(''action_type'', Some ''KILL_SWITCH_CLEAR''), (''switch_id'', Some (ks_switch_id a)),
      (''scope'', Some (scope_value (ks_scope a))), (''semantics'', Some (semantics_value (ks_semantics a))),
      (''target'', ks_target a), (''activated_at'', Some (ks_activated_at a)), (''clear_reason'', Some reason)]"

definition request_kill_switch_clearance ::
  "(payload \<Rightarrow> string) \<Rightarrow> policy_store \<Rightarrow> authenticated_caller \<Rightarrow> string \<Rightarrow> string \<Rightarrow> string option
     \<Rightarrow> string \<Rightarrow> timestamp \<Rightarrow> 'a kill_world_scheme \<Rightarrow> governed_action result \<times> 'a kill_world_scheme" where
  "request_kill_switch_clearance sha policies caller switch_id reason requested_by new_id now w =
     (case require_provider_control policies caller of
        Inl e \<Rightarrow> (Inl e, w)
      | Inr _ \<Rightarrow>
        (case require_durable_store w of
           Inl e \<Rightarrow> (Inl e, w)
         | Inr _ \<Rightarrow>
           (case require_active_activation switch_id w of
              Inl e \<Rightarrow> (Inl e, w)
            | Inr a \<Rightarrow> submit_governed_action sha caller KILL_SWITCH_CLEAR switch_id
                        (clearance_payload a reason) requested_by new_id now w)))"

definition cleared_activation :: "authenticated_caller \<Rightarrow> timestamp \<Rightarrow> payload \<Rightarrow> activation \<Rightarrow> activation" where
  "cleared_activation caller now p a =
     a\<lparr>ks_cleared_at := Some now,
       ks_cleared_by := Some (ac_caller_app caller @ '' (credential ''
          @ (case ac_credential_key_id caller of Some k \<Rightarrow> k | None \<Rightarrow> ''None'') @ '')''),
       ks_clear_reason := (case dict_get p ''clear_reason'' of Some x \<Rightarrow> x | None \<Rightarrow> None)\<rparr>"

definition execute_clearance ::
  "authenticated_caller \<Rightarrow> timestamp \<Rightarrow> activation \<Rightarrow> 'a kill_world_scheme effect" where
  "execute_clearance caller now a r w =
     (Inr None, upsert_activation (cleared_activation caller now (ga_action_payload r) a) w)"

definition rebuild_clearance_payload :: "activation \<Rightarrow> governed_action \<Rightarrow> payload result" where
  "rebuild_clearance_payload a r =
     Inr (clearance_payload a (case dict_get (ga_action_payload r) ''clear_reason'' of
            Some (Some x) \<Rightarrow> x | _ \<Rightarrow> []))"

definition approve_kill_switch_clearance ::
  "(payload \<Rightarrow> string) \<Rightarrow> policy_store \<Rightarrow> authenticated_caller \<Rightarrow> string \<Rightarrow> string \<Rightarrow> string
     \<Rightarrow> string option \<Rightarrow> timestamp list \<Rightarrow> timestamp \<Rightarrow> timestamp \<Rightarrow> 'a kill_world_scheme
     \<Rightarrow> ((activation \<times> governed_action) result \<times> 'a kill_world_scheme) option" where
  "approve_kill_switch_clearance sha policies caller switch_id action_id action_hash approved_by readings
       cleared_now executed_now w =
     (case require_provider_control policies caller of
        Inl e \<Rightarrow> Some (Inl e, w)
      | Inr _ \<Rightarrow>
        (case require_durable_store w of
           Inl e \<Rightarrow> Some (Inl e, w)
         | Inr _ \<Rightarrow>
           (case require_active_activation switch_id w of
              Inl e \<Rightarrow> Some (Inl e, w)
            | Inr a \<Rightarrow>
              (case approve_and_execute sha caller action_id switch_id action_hash
                      (\<lambda>_. rebuild_clearance_payload a) approved_by (execute_clearance caller cleared_now a)
                      False readings executed_now w of
                 None \<Rightarrow> None
               | Some (Inl e, w') \<Rightarrow> Some (Inl e, w')
               | Some (Inr executed, w') \<Rightarrow>
                   Some (Inr (cleared_activation caller cleared_now (ga_action_payload executed) a, executed), w')))))"

section \<open>Expiry and enforcement\<close>

definition later_than :: "iso_instant \<Rightarrow> int \<Rightarrow> bool result" where
  "later_than x now =
     (case x of
        Aware t \<Rightarrow> Inr (now < t)
      | Naive _ \<Rightarrow> Inl (TypeError ''offset-naive'')
      | Malformed \<Rightarrow> Inl (ValueError ''isoformat''))"

definition is_enforcing :: "activation \<Rightarrow> int \<Rightarrow> bool result" where
  "is_enforcing a now =
     (if ks_cleared_at a \<noteq> None then Inr False
      else case ks_expires_at a of Some x \<Rightarrow> later_than x now | None \<Rightarrow> Inr True)"

definition record_expiry_if_lapsed ::
  "activation \<Rightarrow> int \<Rightarrow> timestamp \<Rightarrow> 'a kill_world_scheme \<Rightarrow> activation result \<times> 'a kill_world_scheme" where
  "record_expiry_if_lapsed a now now_text w =
     (if ks_cleared_at a \<noteq> None \<or> ks_expiry_recorded_at a \<noteq> None then (Inr a, w)
      else case ks_expires_at a of
        None \<Rightarrow> (Inr a, w)
      | Some x \<Rightarrow>
        (case later_than x now of
           Inl e \<Rightarrow> (Inl e, w)
         | Inr True \<Rightarrow> (Inr a, w)
         | Inr False \<Rightarrow>
             let b = a\<lparr>ks_expiry_recorded_at := Some now_text\<rparr> in (Inr b, upsert_activation b w)))"

fun sweep_expiries ::
  "activation list \<Rightarrow> int \<Rightarrow> timestamp \<Rightarrow> 'a kill_world_scheme \<Rightarrow> activation list result \<times> 'a kill_world_scheme" where
  "sweep_expiries [] now now_text w = (Inr [], w)"
| "sweep_expiries (a # as) now now_text w =
     (case record_expiry_if_lapsed a now now_text w of
        (Inl e, w1) \<Rightarrow> (Inl e, w1)
      | (Inr b, w1) \<Rightarrow>
        (case sweep_expiries as now now_text w1 of
           (Inl e, w2) \<Rightarrow> (Inl e, w2)
         | (Inr bs, w2) \<Rightarrow> (Inr (b # bs), w2)))"

fun count_enforcing :: "activation list \<Rightarrow> int \<Rightarrow> nat result" where
  "count_enforcing [] now = Inr 0"
| "count_enforcing (a # as) now =
     (case is_enforcing a now of
        Inl e \<Rightarrow> Inl e
      | Inr b \<Rightarrow> (case count_enforcing as now of Inl e \<Rightarrow> Inl e | Inr n \<Rightarrow> Inr (if b then Suc n else n)))"

definition build_kill_switch_status ::
  "int \<Rightarrow> timestamp \<Rightarrow> 'a kill_world_scheme \<Rightarrow> (nat \<times> nat \<times> activation list) result \<times> 'a kill_world_scheme" where
  "build_kill_switch_status now now_text w =
     (case sweep_expiries (list_activations w) now now_text w of
        (Inl e, w1) \<Rightarrow> (Inl e, w1)
      | (Inr as, w1) \<Rightarrow>
        (case count_enforcing as now of
           Inl e \<Rightarrow> (Inl e, w1)
         | Inr n \<Rightarrow> (Inr (length (filter (\<lambda>a. ks_expiry_recorded_at a \<noteq> None) as), n, as), w1)))"

definition switch_matches :: "execution_config \<Rightarrow> activation \<Rightarrow> execution_request \<Rightarrow> bool" where
  "switch_matches c a q =
     (case ks_scope a of
        ALL_LIVE_TEXT \<Rightarrow> True
      | PROVIDER_SCOPE \<Rightarrow> ks_target a = xc_provider_id c
      | MODEL_REVISION_SCOPE \<Rightarrow> ks_target a = or_else (xc_model_version c) (xc_model_id c)
      | TASK_SCOPE \<Rightarrow> ks_target a = Some (er_task_id q)
      | TENANT_SCOPE \<Rightarrow> er_tenant_id q \<noteq> None \<and> ks_target a = er_tenant_id q
      | CALLER_APP_SCOPE \<Rightarrow> ks_target a = Some (er_caller_app q))"

fun refuse_first :: "(activation \<Rightarrow> bool) \<Rightarrow> error \<Rightarrow> int \<Rightarrow> activation list \<Rightarrow> unit result" where
  "refuse_first hit refusal now [] = Inr ()"
| "refuse_first hit refusal now (a # as) =
     (case is_enforcing a now of
        Inl e \<Rightarrow> Inl e
      | Inr False \<Rightarrow> refuse_first hit refusal now as
      | Inr True \<Rightarrow> if hit a then Inl refusal else refuse_first hit refusal now as)"

definition enforce_kill_switch_intake ::
  "execution_config \<Rightarrow> execution_request \<Rightarrow> int \<Rightarrow> 'a kill_world_scheme \<Rightarrow> unit result" where
  "enforce_kill_switch_intake c q now w =
     refuse_first (\<lambda>a. switch_matches c a q) (HTTPException 503 ''KILL_SWITCH_ACTIVE'') now (list_activations w)"

definition enforce_kill_switches ::
  "execution_config \<Rightarrow> bool \<Rightarrow> execution_request \<Rightarrow> int \<Rightarrow> 'a kill_world_scheme \<Rightarrow> unit result" where
  "enforce_kill_switches c drain_permitted q now w =
     refuse_first (\<lambda>a. switch_matches c a q \<and> \<not> (ks_semantics a = DRAIN \<and> drain_permitted))
       (ProviderExecutionError KILL_SWITCH_ACTIVE) now (list_activations w)"

section \<open>Facts\<close>

definition switch_live :: "activation \<Rightarrow> int \<Rightarrow> bool" where
  "switch_live a now \<longleftrightarrow> ks_cleared_at a = None
     \<and> (case ks_expires_at a of None \<Rightarrow> True | Some (Aware t) \<Rightarrow> now < t | _ \<Rightarrow> False)"

definition expiry_comparable :: "activation \<Rightarrow> bool" where
  "expiry_comparable a \<longleftrightarrow> ks_cleared_at a \<noteq> None \<or> ks_expires_at a = None \<or> (\<exists>t. ks_expires_at a = Some (Aware t))"

lemma is_enforcing_live: "expiry_comparable a \<Longrightarrow> is_enforcing a now = Inr (switch_live a now)"
  by (auto simp: is_enforcing_def switch_live_def expiry_comparable_def later_than_def)

lemma is_enforcing_not_comparable: "\<not> expiry_comparable a \<Longrightarrow> \<exists>e. is_enforcing a now = Inl e"
  by (auto simp: is_enforcing_def expiry_comparable_def later_than_def split: iso_instant.splits option.splits)

lemma refuse_first_Inr_iff:
  "refuse_first hit refusal now as = Inr () \<longleftrightarrow>
     (\<forall>a \<in> set as. is_enforcing a now = Inr False \<or> (is_enforcing a now = Inr True \<and> \<not> hit a))"
  by (induction as) (auto split: sum.splits bool.splits)

lemma refuse_first_comparable:
  "\<forall>a \<in> set as. expiry_comparable a \<Longrightarrow>
     refuse_first hit refusal now as = (if \<exists>a \<in> set as. switch_live a now \<and> hit a then Inl refusal else Inr ())"
  by (induction as) (auto simp: is_enforcing_live split: bool.splits)

lemma in_list_activations: "get_activation w k = Some a \<Longrightarrow> a \<in> set (list_activations w)"
  by (force simp: list_activations_def get_activation_def dest: map_of_SomeD)

lemma list_activations_iff:
  "dict_wf (kw_activations w) \<Longrightarrow> a \<in> set (list_activations w) \<longleftrightarrow> (\<exists>k. get_activation w k = Some a)"
  by (auto simp: in_list_activations) (force simp: list_activations_def get_activation_def)

lemma get_activation_actions_frame [simp]:
  "get_activation (w\<lparr>governed_actions := g\<rparr>) k = get_activation w k"
  by (simp add: get_activation_def)

section \<open>Properties\<close>

interpretation clearance: governed_write get_activation "execute_clearance caller now a" "\<lambda>_. ks_switch_id a"
  "\<lambda>p. cleared_activation caller now p a" for caller now a
proof unfold_locales
  fix w w2 :: "'a kill_world_scheme" and c res k
  assume "execute_clearance caller now a c w = (Inr res, w2)"
  then have w2: "w2 = upsert_activation (cleared_activation caller now (ga_action_payload c) a) w"
    by (simp add: execute_clearance_def)
  show "get_activation w2 k = (if k = ks_switch_id a then Some (cleared_activation caller now (ga_action_payload c) a)
      else get_activation w k)"
    by (simp add: w2 switch_repo.fetch_save cleared_activation_def)
qed (simp_all add: execute_clearance_def)

text \<open>
  A stop stops: from the activation on, for as long as the switch is neither cleared nor expired, every
  synchronous execution and every new intake in its scope is refused, whatever other switches exist; only
  already-claimed work passes, and only under DRAIN.
\<close>

theorem activated_switch_refuses:
  assumes "activate_kill_switch policies caller scope semantics target reason expires new_id at_text w = (Inr a, w')"
    and "switch_matches c a q" and "expires = None \<or> (\<exists>t. expires = Some (Aware t) \<and> now < t)"
  shows "enforce_kill_switch_intake c q now w' \<noteq> Inr ()
       \<and> (\<not> (semantics = DRAIN \<and> permit) \<longrightarrow> enforce_kill_switches c permit q now w' \<noteq> Inr ())"
proof -
  from assms(1) have a: "ks_cleared_at a = None" "ks_expires_at a = expires" "ks_semantics a = semantics"
    and w': "w' = upsert_activation a w"
    by (auto simp: activate_kill_switch_def Let_def split: sum.splits if_splits)
  have mem: "a \<in> set (list_activations w')"
    by (rule in_list_activations [of _ "ks_switch_id a"]) (simp add: w' switch_repo.fetch_save)
  have "is_enforcing a now = Inr True" using a assms(3) by (auto simp: is_enforcing_def later_than_def)
  with mem assms(2) a(3) show ?thesis
    unfolding enforce_kill_switch_intake_def enforce_kill_switches_def refuse_first_Inr_iff
    by (auto intro!: bexI [of _ a])
qed

text \<open>
  C6. Enforcement is exact: a synchronous execution passes exactly when every stored switch has an expiry the clock can be compared with and no
  stored switch that is live and matches the execution is left, other than a DRAIN switch when the execution completes claimed
  work. When every expiry is comparable, one such switch refuses it as KILL_SWITCH_ACTIVE; an expiry without an offset (or without a date) makes
  the comparison raise, so nothing passes.
\<close>

theorem enforcement_exact:
  assumes "dict_wf (kw_activations w)"
  shows "(enforce_kill_switches c permit q now w = Inr () \<longleftrightarrow>
       (\<forall>k a. get_activation w k = Some a \<longrightarrow> expiry_comparable a
          \<and> (switch_live a now \<and> switch_matches c a q \<longrightarrow> ks_semantics a = DRAIN \<and> permit)))
     \<and> ((\<forall>k a. get_activation w k = Some a \<longrightarrow> expiry_comparable a) \<longrightarrow>
          enforce_kill_switches c permit q now w \<in> {Inr (), Inl (ProviderExecutionError KILL_SWITCH_ACTIVE)})"
proof -
  let ?hit = "\<lambda>a. switch_matches c a q \<and> \<not> (ks_semantics a = DRAIN \<and> permit)"
  have one: "is_enforcing a now = Inr False \<or> (is_enforcing a now = Inr True \<and> \<not> ?hit a) \<longleftrightarrow>
      expiry_comparable a \<and> (switch_live a now \<and> switch_matches c a q \<longrightarrow> ks_semantics a = DRAIN \<and> permit)" for a
    using is_enforcing_live [of a now] is_enforcing_not_comparable [of a now] by (cases "expiry_comparable a") auto
  have "enforce_kill_switches c permit q now w = Inr () \<longleftrightarrow>
      (\<forall>a \<in> set (list_activations w). expiry_comparable a \<and> (switch_live a now \<and> switch_matches c a q \<longrightarrow> ks_semantics a = DRAIN \<and> permit))"
    unfolding enforce_kill_switches_def refuse_first_Inr_iff one ..
  moreover have "enforce_kill_switches c permit q now w \<in> {Inr (), Inl (ProviderExecutionError KILL_SWITCH_ACTIVE)}"
    if "\<forall>k a. get_activation w k = Some a \<longrightarrow> expiry_comparable a"
  proof -
    have "\<forall>a \<in> set (list_activations w). expiry_comparable a" using that list_activations_iff [OF assms] by blast
    from refuse_first_comparable [OF this] show ?thesis unfolding enforce_kill_switches_def by simp
  qed
  ultimately show ?thesis using list_activations_iff [OF assms] by blast
qed

text \<open>
  Clearance takes two credentials and clears one switch: an approved clearance ran on the activation
  whose pinned payload was requested under a different verified credential; afterwards that switch is
  recorded cleared and enforces at no instant, and every other switch is untouched.
\<close>

theorem clearance_is_governed:
  assumes "approve_kill_switch_clearance sha policies caller switch_id aid h attr readings cleared_now executed_now w
             = Some (Inr (a, e), w')"
    and "get_activation w switch_id = Some before" and "ks_switch_id before = switch_id"
  shows "ga_requester_key_id e \<noteq> ac_credential_key_id caller \<and> ga_approver_key_id e = ac_credential_key_id caller
     \<and> ga_status e = EXECUTED
     \<and> (\<exists>reason. h = compute_governed_action_hash sha (clearance_payload before reason))
     \<and> get_activation w' switch_id = Some a \<and> is_enforcing a t = Inr False
     \<and> (\<forall>k. k \<noteq> switch_id \<longrightarrow> get_activation w' k = get_activation w k)"
proof -
  from assms(1,2) have
    run: "approve_and_execute sha caller aid switch_id h (\<lambda>_. rebuild_clearance_payload before) attr
            (execute_clearance caller cleared_now before) False readings executed_now w = Some (Inr e, w')"
    and a: "a = cleared_activation caller cleared_now (ga_action_payload e) before"
    by (auto simp: approve_kill_switch_clearance_def require_active_activation_def
        split: sum.splits option.splits prod.splits if_splits)
  note ran = clearance.approval_writes_once [OF run]
  have "get_activation w' k = (if k = switch_id then Some a else get_activation w k)" for k
    using ran(8) [of k] assms(3) a by simp
  moreover have "is_enforcing a t = Inr False" by (simp add: a cleared_activation_def is_enforcing_def)
  moreover have "\<exists>reason. h = compute_governed_action_hash sha (clearance_payload before reason)"
    using ran(6) by (auto simp: rebuild_clearance_payload_def)
  ultimately show ?thesis using ran(1-3) by auto
qed

text \<open>
  Draining relaxes only claimed work: new intake passes exactly when a synchronous request would,
  whatever passes without the drain permit passes with it, and no permit gets past a live hard kill.
\<close>

theorem drain_relaxes_only_claimed_work:
  shows "(enforce_kill_switch_intake c q now w = Inr ()) = (enforce_kill_switches c False q now w = Inr ())
       \<and> (enforce_kill_switches c False q now w = Inr () \<longrightarrow> enforce_kill_switches c True q now w = Inr ())
       \<and> (enforce_kill_switches c True q now w = Inr () \<longrightarrow>
            \<not> (\<exists>k a. get_activation w k = Some a \<and> switch_live a now \<and> switch_matches c a q
                  \<and> ks_semantics a = HARD_KILL))"
proof -
  have "switch_live a now \<Longrightarrow> is_enforcing a now = Inr True" for a
    by (auto simp: switch_live_def is_enforcing_def later_than_def split: option.splits iso_instant.splits)
  then show ?thesis
    unfolding enforce_kill_switch_intake_def enforce_kill_switches_def refuse_first_Inr_iff
    by (auto dest!: in_list_activations)
qed

text \<open>
  An expiry without an offset blocks every live execution: activation accepts it, and until the switch
  is cleared the comparison with the clock raises, so no request of any scope, task, tenant or caller
  passes enforcement, with or without the drain permit, and the status view fails too.
\<close>

theorem offset_free_expiry_blocks_everything:
  assumes "activate_kill_switch policies caller scope semantics target reason (Some (Naive t)) new_id at_text w = (Inr a, w')"
  shows "enforce_kill_switches c permit q now w' \<noteq> Inr () \<and> enforce_kill_switch_intake c q now w' \<noteq> Inr ()"
proof -
  from assms have a: "ks_cleared_at a = None" "ks_expires_at a = Some (Naive t)" and w': "w' = upsert_activation a w"
    by (auto simp: activate_kill_switch_def Let_def split: sum.splits if_splits)
  have "a \<in> set (list_activations w')"
    by (rule in_list_activations [of _ "ks_switch_id a"]) (simp add: w' switch_repo.fetch_save)
  moreover have "\<exists>e. is_enforcing a now = Inl e"
    by (rule is_enforcing_not_comparable) (use a in \<open>simp add: expiry_comparable_def\<close>)
  ultimately show ?thesis
    unfolding enforce_kill_switch_intake_def enforce_kill_switches_def refuse_first_Inr_iff by force
qed

section \<open>Concrete switches\<close>

definition sample_kill_world :: kill_world where
  "sample_kill_world = \<lparr>quota_states = [], budget_states = [], degradation_states = [], event_records = [],
     governed_actions = [], attempt_debits = [],
     bw_rates = \<lparr>rw_cards = [], rw_input_cost = None, rw_output_cost = None\<rparr>, kw_activations = [], kw_store_mode = ''sqlalchemy''\<rparr>"

definition sample_activation :: "iso_instant option \<Rightarrow> activation result \<times> kill_world" where
  "sample_activation expires = activate_kill_switch init_policy_store (sample_caller ''key-a'') TASK_SCOPE DRAIN
     (Some ''explain.v1'') ''incident'' expires ''ksw_1'' ''t0'' sample_kill_world"

definition sample_request :: execution_request where
  "sample_request = \<lparr>er_task_id = ''explain.v1'', er_tenant_id = None, er_caller_app = ''lotus-gateway''\<rparr>"

lemma sample_activation_runs:
  "activate_kill_switch init_policy_store (sample_caller ''key-a'') TASK_SCOPE DRAIN (Some ''explain.v1'') ''incident''
     x ''ksw_1'' ''t0'' sample_kill_world = (Inr (projr (fst (sample_activation x))), snd (sample_activation x))"
  if "x = None \<or> x = Some (Naive 0)"
proof -
  have pc: "require_provider_control init_policy_store (sample_caller ''key-a'') = Inr ()" by code_simp
  show ?thesis using that
    by (auto simp: sample_activation_def activate_kill_switch_def pc require_durable_store_def sample_kill_world_def
        truthy_def Let_def)
qed

theorem activated_switch_refuses_witness:
  "enforce_kill_switches sample_config False sample_request 5 (snd (sample_activation None)) \<noteq> Inr ()"
proof -
  have "switch_matches sample_config (projr (fst (sample_activation None))) sample_request" by code_simp
  with activated_switch_refuses [OF sample_activation_runs, of None sample_config sample_request 5 False]
  show ?thesis by simp
qed

text \<open>A draining switch on the task refuses new work and lets claimed work complete.\<close>

theorem enforcement_exact_witness:
  "enforce_kill_switches sample_config False sample_request 5 (snd (sample_activation None)) = Inl (ProviderExecutionError KILL_SWITCH_ACTIVE)
   \<and> enforce_kill_switches sample_config True sample_request 5 (snd (sample_activation None)) = Inr ()"
proof -
  let ?w = "snd (sample_activation None)"
  have wf: "dict_wf (kw_activations ?w)" by code_simp
  have stored: "kw_activations ?w = [(''ksw_1'', projr (fst (sample_activation None)))]" by code_simp
  let ?a = "projr (fst (sample_activation None))"
  have a: "switch_matches sample_config ?a sample_request" "switch_live ?a 5" "ks_semantics ?a = DRAIN" "ks_expires_at ?a = None" by code_simp+
  have only: "get_activation ?w k = Some x \<longleftrightarrow> k = ''ksw_1'' \<and> x = ?a" for k x by (auto simp: get_activation_def stored)
  have cmp: "expiry_comparable ?a" using a(4) by (simp add: expiry_comparable_def)
  show ?thesis
    using enforcement_exact [OF wf, of sample_config False sample_request 5] enforcement_exact [OF wf, of sample_config True sample_request 5] a cmp
    unfolding only by auto
qed

theorem clearance_is_governed_witness:
  "\<exists>a e w'. approve_kill_switch_clearance sample_sha init_policy_store (sample_caller ''key-b'') ''ksw_1'' ''gact_1'' ''digest''
       None [''t2''] ''t3'' ''t4'' (snd (request_kill_switch_clearance sample_sha init_policy_store (sample_caller ''key-a'')
         ''ksw_1'' ''resolved'' None ''gact_1'' ''t1'' (snd (sample_activation None)))) = Some (Inr (a, e), w')
     \<and> is_enforcing a 9 = Inr False \<and> ga_requester_key_id e \<noteq> Some ''key-b''"
proof -
  let ?w = "snd (request_kill_switch_clearance sample_sha init_policy_store (sample_caller ''key-a'')
         ''ksw_1'' ''resolved'' None ''gact_1'' ''t1'' (snd (sample_activation None)))"
  let ?run = "approve_kill_switch_clearance sample_sha init_policy_store (sample_caller ''key-b'') ''ksw_1'' ''gact_1'' ''digest''
       None [''t2''] ''t3'' ''t4'' ?w"
  have 1: "?run = Some (Inr (fst (projr (fst (the ?run))), snd (projr (fst (the ?run)))), snd (the ?run))" by code_simp
  have 2: "get_activation ?w ''ksw_1'' = Some (the (get_activation ?w ''ksw_1''))" by code_simp
  have 3: "ks_switch_id (the (get_activation ?w ''ksw_1'')) = ''ksw_1''" by code_simp
  have 4: "ac_credential_key_id (sample_caller ''key-b'') = Some ''key-b''" by (simp add: sample_caller_def)
  from clearance_is_governed [OF 1 2 3, of 9] 1 show ?thesis unfolding 4 by metis
qed

theorem drain_relaxes_only_claimed_work_witness:
  "enforce_kill_switches sample_config False sample_request 5 sample_kill_world = Inr ()
   \<and> enforce_kill_switches sample_config True sample_request 5 sample_kill_world = Inr ()"
proof -
  have "enforce_kill_switches sample_config False sample_request 5 sample_kill_world = Inr ()" by code_simp
  with drain_relaxes_only_claimed_work [of sample_config sample_request 5 sample_kill_world] show ?thesis by blast
qed

theorem offset_free_expiry_blocks_everything_witness:
  "enforce_kill_switches sample_config True \<lparr>er_task_id = ''other.v1'', er_tenant_id = None, er_caller_app = ''x''\<rparr> 5
     (snd (sample_activation (Some (Naive 0)))) \<noteq> Inr ()"
  using offset_free_expiry_blocks_everything [OF sample_activation_runs] by blast

end
