(* ===== verification/Provider_Quota.thy ===== *)
theory Provider_Quota
  imports Provider_Execution_Config
begin

text \<open>
  Request quotas of live text generation, \<^verbatim>\<open>services/provider_quota_policy.py\<close>, and the task allowlist of
  \<^verbatim>\<open>services/provider_task_allowlist.py\<close>: reading the configured limits, matching a request, and the check and
  the counting of an accepted request.

  Configuration text is ASCII: \<^verbatim>\<open>str.strip\<close> removes the ASCII white space and \<^verbatim>\<open>int\<close> accepts white space around
  an optional sign and decimal digits with single underscores between them. Finding texts are named by
  constructors and the notes of a descriptor are left out.
\<close>

section \<open>Configuration text\<close>

fun split_on :: "char \<Rightarrow> string \<Rightarrow> string list" where
  "split_on c [] = [[]]"
| "split_on c (x # xs) =
     (if x = c then [] # split_on c xs
      else case split_on c xs of [] \<Rightarrow> [[x]] | h # t \<Rightarrow> (x # h) # t)"

definition split_first :: "char \<Rightarrow> string \<Rightarrow> string \<times> string" where
  "split_first c s = (let h = takeWhile (\<lambda>x. x \<noteq> c) s in (h, drop (Suc (length h)) s))"

definition segments :: "string \<Rightarrow> string list" where
  "segments raw = filter (\<lambda>s. s \<noteq> []) (map py_strip (split_on CHR '','' raw))"

definition py_digits :: "string \<Rightarrow> nat option" where
  "py_digits s =
     (if list_all (\<lambda>g. g \<noteq> [] \<and> list_all is_digit g) (split_on CHR ''_'' s)
      then Some (digits_val (concat (split_on CHR ''_'' s))) else None)"

definition py_int :: "string \<Rightarrow> int option" where
  "py_int raw = (case py_strip raw of
       [] \<Rightarrow> None
     | c # cs \<Rightarrow> if c = CHR ''-'' then map_option (\<lambda>n. - int n) (py_digits cs)
                 else if c = CHR ''+'' then map_option int (py_digits cs)
                 else map_option int (py_digits (c # cs)))"

section \<open>The policy\<close>

definition capability_task_ids :: "string list" where
  "capability_task_ids = [''explain.v1'', ''summarize.v1'', ''classify.v1'', ''extract.v1'',
     ''generate_structured.v1'', ''knowledge_search.v1'', ''knowledge_answer.v1'']"

definition live_text_task :: "string \<Rightarrow> bool" where
  "live_text_task t \<longleftrightarrow> t \<in> set capability_task_ids \<and> \<not> starts_with ''knowledge_'' t"

definition list_live_text_allowlisted_task_ids :: "execution_config \<Rightarrow> string list" where
  "list_live_text_allowlisted_task_ids c = sort (remdups (segments (xc_allowed_task_ids c)))"

definition list_invalid_live_text_allowlisted_task_ids :: "execution_config \<Rightarrow> string list" where
  "list_invalid_live_text_allowlisted_task_ids c =
     filter (\<lambda>t. \<not> live_text_task t) (list_live_text_allowlisted_task_ids c)"

definition is_live_text_task_allowlisted :: "execution_config \<Rightarrow> string \<Rightarrow> bool" where
  "is_live_text_task_allowlisted c t \<longleftrightarrow> t \<in> set (list_live_text_allowlisted_task_ids c)"

record quota_descriptor =
  qd_scope :: quota_scope
  qd_scope_key :: string
  qd_request_limit :: int
  qd_current_request_count :: int
  qd_remaining_request_count :: int

abbreviation qd_key :: "quota_descriptor \<Rightarrow> quota_scope \<times> string" where
  "qd_key d \<equiv> (qd_scope d, qd_scope_key d)"

datatype quota_finding =
    MalformedEntry string
  | EmptyScopeKey
  | LimitNotInteger string string
  | LimitNotPositive string
  | DefaultLimitNotPositive
  | InvalidTaskScopes
  | NoQuotaScopes

type_synonym quota_counts = "(quota_scope \<times> string, int) dict"

record parsed_quota_policy =
  pq_quota_enforced :: bool
  pq_configuration_valid :: bool
  pq_findings :: "quota_finding list"
  pq_quotas :: "quota_descriptor list"

fun matching_rank :: "quota_scope \<Rightarrow> nat" where
  "matching_rank TENANT = 0"
| "matching_rank CALLER_APP = 1"
| "matching_rank TASK = 2"
| "matching_rank DEFAULT = 3"

definition load_quota_counts :: "'a provider_ops_store_scheme \<Rightarrow> quota_counts" where
  "load_quota_counts s =
     fold (\<lambda>r. dict_put (qs_scope r, qs_scope_key r) (qs_request_count r)) (list_quota_states s) []"

definition build_quota_descriptor :: "quota_scope \<Rightarrow> string \<Rightarrow> int \<Rightarrow> quota_counts \<Rightarrow> quota_descriptor" where
  "build_quota_descriptor scope key limit counts =
     (let current = (case dict_get counts (scope, key) of None \<Rightarrow> 0 | Some n \<Rightarrow> n)
      in \<lparr>qd_scope = scope, qd_scope_key = key, qd_request_limit = limit,
          qd_current_request_count = current, qd_remaining_request_count = max (limit - current) 0\<rparr>)"

definition parse_positive_limit :: "string \<Rightarrow> string \<Rightarrow> quota_finding + int" where
  "parse_positive_limit raw key =
     (case py_int raw of
        None \<Rightarrow> Inl (LimitNotInteger raw key)
      | Some n \<Rightarrow> if n \<le> 0 then Inl (LimitNotPositive key) else Inr n)"

definition parse_quota_entry :: "string \<Rightarrow> quota_finding + string \<times> int" where
  "parse_quota_entry item =
     (if CHR ''='' \<notin> set item then Inl (MalformedEntry item)
      else case split_first CHR ''='' item of (k, l) \<Rightarrow>
        let key = py_strip k; raw = py_strip l
        in if key = [] then Inl EmptyScopeKey
           else case parse_positive_limit raw key of Inl f \<Rightarrow> Inl f | Inr n \<Rightarrow> Inr (key, n))"

definition dedupe_quota_descriptors :: "quota_descriptor list \<Rightarrow> quota_descriptor list" where
  "dedupe_quota_descriptors ds =
     sort_key (\<lambda>d. (matching_rank (qd_scope d), qd_scope_key d))
       (dict_values (fold (\<lambda>d. dict_put (qd_key d) d) ds []))"

definition lefts :: "('a + 'b) list \<Rightarrow> 'a list" where
  "lefts xs = List.map_filter (case_sum Some (\<lambda>_. None)) xs"

definition rights :: "('a + 'b) list \<Rightarrow> 'b list" where
  "rights xs = List.map_filter (case_sum (\<lambda>_. None) Some) xs"

definition parse_quota_mapping ::
  "string \<Rightarrow> quota_scope \<Rightarrow> quota_counts \<Rightarrow> quota_descriptor list \<times> quota_finding list" where
  "parse_quota_mapping raw scope counts =
     (if py_strip raw = [] then ([], [])
      else let entries = map parse_quota_entry (segments raw)
           in (dedupe_quota_descriptors
                 (map (\<lambda>(key, limit). build_quota_descriptor scope key limit counts) (rights entries)),
               lefts entries))"

definition parse_default_quota ::
  "int option \<Rightarrow> quota_counts \<Rightarrow> quota_descriptor option \<times> quota_finding list" where
  "parse_default_quota raw counts =
     (case raw of
        None \<Rightarrow> (None, [])
      | Some n \<Rightarrow> if n \<le> 0 then (None, [DefaultLimitNotPositive])
                  else (Some (build_quota_descriptor DEFAULT ''global'' n counts), []))"

definition parse_provider_quota_policy ::
  "enforcement_thresholds \<Rightarrow> 'a provider_ops_store_scheme \<Rightarrow> parsed_quota_policy" where
  "parse_provider_quota_policy e s =
     (let counts = load_quota_counts s;
          (task, f1) = parse_quota_mapping (et_task_quota_limits e) TASK counts;
          (caller, f2) = parse_quota_mapping (et_caller_quota_limits e) CALLER_APP counts;
          (tenant, f3) = parse_quota_mapping (et_tenant_quota_limits e) TENANT counts;
          (dflt, f4) = parse_default_quota (et_default_quota_limit e) counts;
          findings = f1 @ f2 @ f3 @ f4
            @ (if list_ex (\<lambda>d. \<not> live_text_task (qd_scope_key d)) task then [InvalidTaskScopes] else []);
          quotas = tenant @ caller @ task @ (case dflt of None \<Rightarrow> [] | Some d \<Rightarrow> [d]);
          unscoped = et_quota_enforced e \<and> quotas = []
      in \<lparr>pq_quota_enforced = et_quota_enforced e,
          pq_configuration_valid = (findings = [] \<and> \<not> unscoped),
          pq_findings = findings @ (if unscoped then [NoQuotaScopes] else []),
          pq_quotas = quotas\<rparr>)"

section \<open>Enforcement\<close>

fun quota_matches :: "execution_request \<Rightarrow> quota_scope \<Rightarrow> string \<Rightarrow> bool" where
  "quota_matches q DEFAULT key \<longleftrightarrow> True"
| "quota_matches q TASK key \<longleftrightarrow> key = er_task_id q"
| "quota_matches q CALLER_APP key \<longleftrightarrow> key = er_caller_app q"
| "quota_matches q TENANT key \<longleftrightarrow> er_tenant_id q \<noteq> None \<and> Some key = er_tenant_id q"

definition matching_quota_descriptors ::
  "quota_descriptor list \<Rightarrow> execution_request \<Rightarrow> 'a provider_ops_store_scheme \<Rightarrow> quota_descriptor list" where
  "matching_quota_descriptors quotas q s =
     sort_key (\<lambda>d. matching_rank (qd_scope d))
       (map (\<lambda>d. build_quota_descriptor (qd_scope d) (qd_scope_key d) (qd_request_limit d) (load_quota_counts s))
          (filter (\<lambda>d. quota_matches q (qd_scope d) (qd_scope_key d)) quotas))"

text \<open>The check reads the counters; it writes nothing.\<close>

definition check_provider_quota ::
  "enforcement_thresholds \<Rightarrow> execution_request \<Rightarrow> 'a provider_ops_store_scheme \<Rightarrow> quota_descriptor list result" where
  "check_provider_quota e q s =
     (let parsed = parse_provider_quota_policy e s in
      if \<not> pq_quota_enforced parsed then Inr []
      else if \<not> pq_configuration_valid parsed
      then Inl (ProviderExecutionError INVALID_QUOTA_CONFIGURATION)
      else let applicable = matching_quota_descriptors (pq_quotas parsed) q s
           in if list_ex (\<lambda>d. qd_request_limit d \<le> qd_current_request_count d) applicable
              then Inl (ProviderExecutionError QUOTA_EXCEEDED) else Inr applicable)"

text \<open>The counting increments each applicable counter; \<open>now\<close> gives the clock reading of each increment.\<close>

definition count_quota_use ::
  "quota_descriptor list \<Rightarrow> (quota_descriptor \<Rightarrow> timestamp) \<Rightarrow> 'a provider_ops_store_scheme
     \<Rightarrow> 'a provider_ops_store_scheme" where
  "count_quota_use ds now s = fold (\<lambda>d s. snd (increment_quota_state (qd_scope d) (qd_scope_key d) 1 (now d) s)) ds s"

definition enforce_provider_quota ::
  "enforcement_thresholds \<Rightarrow> execution_request \<Rightarrow> (quota_descriptor \<Rightarrow> timestamp) \<Rightarrow> 'a provider_ops_store_scheme
     \<Rightarrow> unit result \<times> 'a provider_ops_store_scheme" where
  "enforce_provider_quota e q now s =
     (case check_provider_quota e q s of
        Inl err \<Rightarrow> (Inl err, s)
      | Inr applicable \<Rightarrow> (Inr (), count_quota_use applicable now s))"

definition reset_provider_quota_counters :: "'a provider_ops_store_scheme \<Rightarrow> 'a provider_ops_store_scheme" where
  "reset_provider_quota_counters s = snd (reset_quota_states None None s)"

section \<open>Facts\<close>

abbreviation quota_count :: "'a provider_ops_store_scheme \<Rightarrow> quota_scope \<times> string \<Rightarrow> int" where
  "quota_count s k \<equiv> (case get_quota_state s k of None \<Rightarrow> 0 | Some r \<Rightarrow> qs_request_count r)"

definition quota_wf :: "'a provider_ops_store_scheme \<Rightarrow> bool" where
  "quota_wf s \<longleftrightarrow> dict_wf (quota_states s) \<and> (\<forall>(k, r) \<in> set (quota_states s). k = (qs_scope r, qs_scope_key r))"

lemma quota_wf_empty [simp]: "quota_wf empty_ops_store"
  by (simp add: quota_wf_def empty_ops_store_def)

lemma quota_wf_increment [simp]: "quota_wf s \<Longrightarrow> quota_wf (snd (increment_quota_state sc k n now s))"
  using set_dict_put_subset [of "(sc, k)" _ "quota_states s"]
  by (fastforce simp: quota_wf_def increment_quota_state_def save_quota_state_def Let_def)

lemma quota_count_increment [simp]:
  "quota_count (snd (increment_quota_state sc k n now s)) k' = quota_count s k' + (if k' = (sc, k) then n else 0)"
  by (auto simp: increment_quota_state_def Let_def get_quota_state_def save_quota_state_def split: option.splits)

text \<open>Reading the listing into a dictionary gives back the counters of the store.\<close>

lemma quota_listing:
  assumes "quota_wf s"
  shows "set (list_quota_states s) = snd ` set (quota_states s)"
    and "distinct (map (\<lambda>r. (qs_scope r, qs_scope_key r)) (list_quota_states s))"
proof -
  let ?ps = "sort_key (\<lambda>p. quota_scope_value (fst (fst p))) (sort_key (\<lambda>p. snd (fst p)) (quota_states s))"
  show "set (list_quota_states s) = snd ` set (quota_states s)"
    by (simp add: list_quota_states_def)
  have "map (\<lambda>r. (qs_scope r, qs_scope_key r)) (list_quota_states s) = map fst ?ps"
    using assms by (auto simp: list_quota_states_def quota_wf_def)
  moreover have "distinct ?ps" "inj_on fst (set ?ps)"
    using assms by (auto simp: quota_wf_def distinct_map)
  ultimately show "distinct (map (\<lambda>r. (qs_scope r, qs_scope_key r)) (list_quota_states s))"
    by (simp add: distinct_map)
qed

lemma loaded_count:
  assumes "quota_wf s"
  shows "(case dict_get (load_quota_counts s) k of None \<Rightarrow> 0 | Some n \<Rightarrow> n) = quota_count s k"
proof (cases "get_quota_state s k")
  case None
  have "k \<notin> (\<lambda>r. (qs_scope r, qs_scope_key r)) ` set (list_quota_states s)"
  proof
    assume "k \<in> (\<lambda>r. (qs_scope r, qs_scope_key r)) ` set (list_quota_states s)"
    then obtain k' r where r: "k = (qs_scope r, qs_scope_key r)" "(k', r) \<in> set (quota_states s)"
      unfolding quota_listing(1) [OF assms] by auto
    then have "(k, r) \<in> set (quota_states s)" using assms by (auto simp: quota_wf_def)
    with None show False by (auto simp: get_quota_state_def dest: weak_map_of_SomeI)
  qed
  with None show ?thesis by (simp add: load_quota_counts_def dict_get_fold_put_notin)
next
  case (Some r)
  then have mem: "(k, r) \<in> set (quota_states s)" by (auto simp: get_quota_state_def dest: map_of_SomeD)
  then have "k = (qs_scope r, qs_scope_key r)" using assms by (auto simp: quota_wf_def)
  moreover have "r \<in> set (list_quota_states s)" using mem by (force simp: quota_listing(1) [OF assms])
  ultimately show ?thesis
    using Some dict_get_fold_put [OF quota_listing(2) [OF assms], of r qs_request_count "[]"]
    by (simp add: load_quota_counts_def)
qed

lemma build_quota_descriptor_fields [simp]:
  "qd_scope (build_quota_descriptor sc k l c) = sc" "qd_scope_key (build_quota_descriptor sc k l c) = k"
  "qd_request_limit (build_quota_descriptor sc k l c) = l"
  by (simp_all add: build_quota_descriptor_def Let_def)

lemma build_quota_descriptor_count [simp]:
  "quota_wf s \<Longrightarrow> qd_current_request_count (build_quota_descriptor sc k l (load_quota_counts s)) = quota_count s (sc, k)"
  by (simp add: build_quota_descriptor_def Let_def loaded_count)

text \<open>The limits the configuration declares, whatever the counters say.\<close>

definition mapping_limits :: "string \<Rightarrow> quota_scope \<Rightarrow> (quota_scope \<times> string, int) dict" where
  "mapping_limits raw scope =
     (if py_strip raw = [] then []
      else fold (\<lambda>(key, limit). dict_put (scope, key) limit) (rights (map parse_quota_entry (segments raw))) [])"

definition quota_limits :: "enforcement_thresholds \<Rightarrow> ((quota_scope \<times> string) \<times> int) list" where
  "quota_limits e = mapping_limits (et_tenant_quota_limits e) TENANT @ mapping_limits (et_caller_quota_limits e) CALLER_APP
     @ mapping_limits (et_task_quota_limits e) TASK
     @ (case et_default_quota_limit e of None \<Rightarrow> [] | Some n \<Rightarrow> if n \<le> 0 then [] else [((DEFAULT, ''global''), n)])"

definition descriptor_of :: "quota_counts \<Rightarrow> (quota_scope \<times> string) \<times> int \<Rightarrow> quota_descriptor" where
  "descriptor_of c x = build_quota_descriptor (fst (fst x)) (snd (fst x)) (snd x) c"

lemma descriptor_of_fields [simp]:
  "qd_scope (descriptor_of c x) = fst (fst x)" "qd_scope_key (descriptor_of c x) = snd (fst x)"
  "qd_request_limit (descriptor_of c x) = snd x"
  by (simp_all add: descriptor_of_def)

lemma fold_put_descriptors:
  "fold (\<lambda>d. dict_put (qd_key d) d) (map (\<lambda>(key, limit). build_quota_descriptor scope key limit c) xs)
       (map (\<lambda>(k, l). (k, descriptor_of c (k, l))) d0)
     = map (\<lambda>(k, l). (k, descriptor_of c (k, l))) (fold (\<lambda>(key, limit). dict_put (scope, key) limit) xs d0)"
proof (induction xs arbitrary: d0)
  case (Cons x xs)
  obtain key limit where x: "x = (key, limit)" by force
  have "dict_put (scope, key) (build_quota_descriptor scope key limit c) (map (\<lambda>(k, l). (k, descriptor_of c (k, l))) d0)
      = map (\<lambda>(k, l). (k, descriptor_of c (k, l))) (dict_put (scope, key) limit d0)"
    using dict_put_map [of "(scope, key)" "\<lambda>k l. descriptor_of c (k, l)" limit d0] by (simp add: descriptor_of_def)
  then show ?case using Cons.IH by (simp add: x)
qed simp

lemma mapping_descriptors:
  "set (fst (parse_quota_mapping raw scope c)) = descriptor_of c ` set (mapping_limits raw scope)"
  "distinct (map qd_key (fst (parse_quota_mapping raw scope c)))"
  "dict_wf (mapping_limits raw scope)"
  "x \<in> set (mapping_limits raw scope) \<Longrightarrow> fst (fst x) = scope"
proof -
  let ?xs = "rights (map parse_quota_entry (segments raw))"
  let ?d = "fold (\<lambda>(key, limit). dict_put (scope, key) limit) ?xs ([] :: (quota_scope \<times> string, int) dict)"
  have vals: "dict_values (fold (\<lambda>d. dict_put (qd_key d) d) (map (\<lambda>(key, limit). build_quota_descriptor scope key limit c) ?xs) [])
      = map (descriptor_of c) ?d"
    using fold_put_descriptors [of scope c ?xs "[]"] by (simp add: case_prod_unfold comp_def)
  have wf: "dict_wf ?d"
    using dict_wf_fold_put [of "[]" "\<lambda>x. (scope, fst x)" snd ?xs] by (simp add: case_prod_unfold)
  then have keys: "distinct (map qd_key (map (descriptor_of c) ?d))" by (simp add: comp_def)
  have "set (dict_keys (fold (\<lambda>(key, limit). dict_put (scope, key) limit) xs d0)) \<subseteq> Pair scope ` UNIV \<union> set (dict_keys d0)"
    for xs :: "(string \<times> int) list" and d0 :: "(quota_scope \<times> string, int) dict"
  proof (induction xs arbitrary: d0)
    case (Cons x xs)
    show ?case using Cons [of "dict_put (scope, fst x) (snd x) d0"] by (auto simp: case_prod_unfold update_keys split: if_splits)
  qed auto
  from this [of ?xs "[]"] have scope_only: "x \<in> set ?d \<Longrightarrow> fst (fst x) = scope" by auto
  show "set (fst (parse_quota_mapping raw scope c)) = descriptor_of c ` set (mapping_limits raw scope)"
    using vals by (simp add: parse_quota_mapping_def mapping_limits_def dedupe_quota_descriptors_def Let_def)
  show "distinct (map qd_key (fst (parse_quota_mapping raw scope c)))"
    using vals keys by (simp add: parse_quota_mapping_def dedupe_quota_descriptors_def Let_def distinct_map_sort_key)
  show "dict_wf (mapping_limits raw scope)" using wf by (simp add: mapping_limits_def)
  show "x \<in> set (mapping_limits raw scope) \<Longrightarrow> fst (fst x) = scope"
    using scope_only by (auto simp: mapping_limits_def split: if_splits)
qed

lemma parsed_quotas:
  "set (pq_quotas (parse_provider_quota_policy e s)) = descriptor_of (load_quota_counts s) ` set (quota_limits e)"
  "distinct (map qd_key (pq_quotas (parse_provider_quota_policy e s)))"
  "dict_wf (quota_limits e)"
proof -
  note m = mapping_descriptors(1) mapping_descriptors(2) mapping_descriptors(4)
  show "set (pq_quotas (parse_provider_quota_policy e s)) = descriptor_of (load_quota_counts s) ` set (quota_limits e)"
    by (cases "et_default_quota_limit e")
      (simp_all add: parse_provider_quota_policy_def quota_limits_def parse_default_quota_def descriptor_of_def Let_def
        case_prod_unfold m(1) image_Un)
  show "distinct (map qd_key (pq_quotas (parse_provider_quota_policy e s)))"
    using m(2) by (auto simp: parse_provider_quota_policy_def parse_default_quota_def Let_def case_prod_unfold m(1)
        dest!: m(3) split: option.splits)
  show "dict_wf (quota_limits e)"
    using mapping_descriptors(3) by (auto simp: quota_limits_def dest!: m(3) split: option.splits)
qed

definition quota_applies :: "enforcement_thresholds \<Rightarrow> execution_request \<Rightarrow> quota_scope \<times> string \<Rightarrow> bool" where
  "quota_applies e q k \<longleftrightarrow> k \<in> set (dict_keys (quota_limits e)) \<and> quota_matches q (fst k) (snd k)"

definition quota_full ::
  "enforcement_thresholds \<Rightarrow> execution_request \<Rightarrow> 'a provider_ops_store_scheme \<Rightarrow> bool" where
  "quota_full e q s \<longleftrightarrow>
     (\<exists>x \<in> set (quota_limits e). quota_matches q (fst (fst x)) (snd (fst x)) \<and> snd x \<le> quota_count s (fst x))"

lemma image_filter_fixed:
  "(\<And>x. g (f x) = f x) \<Longrightarrow> g ` {d \<in> f ` L. P d} = f ` {x \<in> L. P (f x)}"
  by (auto simp: image_iff) metis

lemma applicable_facts:
  fixes e q
  assumes "quota_wf s"
  defines "ds \<equiv> matching_quota_descriptors (pq_quotas (parse_provider_quota_policy e s)) q s"
  shows "distinct (map qd_key ds)" and "qd_key ` set ds = {k. quota_applies e q k}"
    and "list_ex (\<lambda>d. qd_request_limit d \<le> qd_current_request_count d) ds \<longleftrightarrow> quota_full e q s"
proof -
  let ?c = "load_quota_counts s"
  have set_ds: "set ds = descriptor_of ?c ` {x \<in> set (quota_limits e). quota_matches q (fst (fst x)) (snd (fst x))}"
    unfolding ds_def matching_quota_descriptors_def set_sort set_map set_filter parsed_quotas(1)
    by (subst image_filter_fixed) (simp_all add: descriptor_of_def)
  show "distinct (map qd_key ds)"
    using parsed_quotas(2) [of e s] distinct_map_filter [of qd_key]
    by (simp add: ds_def matching_quota_descriptors_def distinct_map_sort_key comp_def)
  show "qd_key ` set ds = {k. quota_applies e q k}"
    unfolding set_ds by (auto simp: quota_applies_def image_image)
  show "list_ex (\<lambda>d. qd_request_limit d \<le> qd_current_request_count d) ds \<longleftrightarrow> quota_full e q s"
  proof -
    have "list_ex (\<lambda>d. qd_request_limit d \<le> qd_current_request_count d) ds \<longleftrightarrow>
        (\<exists>x \<in> set (quota_limits e). quota_matches q (fst (fst x)) (snd (fst x))
           \<and> qd_request_limit (descriptor_of ?c x) \<le> qd_current_request_count (descriptor_of ?c x))"
      unfolding list_ex_iff set_ds by blast
    then show ?thesis using assms(1) by (simp add: quota_full_def descriptor_of_def)
  qed
qed

lemma check_quota_outcome:
  assumes "quota_wf s" and "et_quota_enforced e" and "pq_configuration_valid (parse_provider_quota_policy e s)"
  shows "quota_full e q s \<Longrightarrow> check_provider_quota e q s = Inl (ProviderExecutionError QUOTA_EXCEEDED)"
    and "\<not> quota_full e q s \<Longrightarrow> \<exists>ds. check_provider_quota e q s = Inr ds \<and> distinct (map qd_key ds)
           \<and> qd_key ` set ds = {k. quota_applies e q k}"
proof -
  have "pq_quota_enforced (parse_provider_quota_policy e s)"
    using assms(2) by (simp add: parse_provider_quota_policy_def Let_def case_prod_unfold)
  with assms(3) applicable_facts [OF assms(1), of e q]
  show "quota_full e q s \<Longrightarrow> check_provider_quota e q s = Inl (ProviderExecutionError QUOTA_EXCEEDED)"
    and "\<not> quota_full e q s \<Longrightarrow> \<exists>ds. check_provider_quota e q s = Inr ds \<and> distinct (map qd_key ds)
           \<and> qd_key ` set ds = {k. quota_applies e q k}"
    by (simp_all add: check_provider_quota_def Let_def)
qed

lemma count_quota_use_wf [simp]: "quota_wf s \<Longrightarrow> quota_wf (count_quota_use ds now s)"
  unfolding count_quota_use_def by (induction ds arbitrary: s) auto

lemma count_quota_use_count:
  "distinct (map qd_key ds) \<Longrightarrow>
     quota_count (count_quota_use ds now s) k = quota_count s k + (if k \<in> qd_key ` set ds then 1 else 0)"
  unfolding count_quota_use_def by (induction ds arbitrary: s) auto

text \<open>The validity of the configuration does not depend on the counters.\<close>

lemma configuration_valid_indep:
  "pq_configuration_valid (parse_provider_quota_policy e s) \<longleftrightarrow> pq_configuration_valid (parse_provider_quota_policy e s')"
proof -
  have k: "qd_scope_key ` set (fst (parse_quota_mapping raw sc c)) = snd ` fst ` set (mapping_limits raw sc)" for raw sc c
    by (simp add: mapping_descriptors(1) image_image)
  have task: "list_ex (\<lambda>d. \<not> live_text_task (qd_scope_key d)) (fst (parse_quota_mapping raw sc c))
      \<longleftrightarrow> (\<exists>x \<in> snd ` fst ` set (mapping_limits raw sc). \<not> live_text_task x)" for raw sc c
    unfolding k [symmetric, of _ _ c] by (auto simp: list_ex_iff)
  have nil: "fst (parse_quota_mapping raw sc c) = [] \<longleftrightarrow> mapping_limits raw sc = []" for raw sc c
    using mapping_descriptors(1) [of raw sc c] by (metis image_is_empty set_empty)
  have f: "snd (parse_quota_mapping raw sc c) = snd (parse_quota_mapping raw sc c')" for raw sc c c'
    by (simp add: parse_quota_mapping_def Let_def)
  have d: "snd (parse_default_quota r c) = snd (parse_default_quota r c')"
    "fst (parse_default_quota r c) = None \<longleftrightarrow> fst (parse_default_quota r c') = None" for r c c'
    by (auto simp: parse_default_quota_def split: option.splits)
  show ?thesis
    by (simp add: parse_provider_quota_policy_def Let_def case_prod_unfold task nil
        f [of _ _ "load_quota_counts s" "load_quota_counts s'"] d(1) [of _ "load_quota_counts s" "load_quota_counts s'"])
      (use d(2) [of "et_default_quota_limit e" "load_quota_counts s" "load_quota_counts s'"] in
        \<open>auto split: option.splits\<close>)
qed

lemma enforce_quota_outcome:
  assumes "quota_wf s" and "et_quota_enforced e" and "pq_configuration_valid (parse_provider_quota_policy e s)"
  shows "quota_full e q s \<Longrightarrow> enforce_provider_quota e q now s = (Inl (ProviderExecutionError QUOTA_EXCEEDED), s)"
    and "\<not> quota_full e q s \<Longrightarrow> fst (enforce_provider_quota e q now s) = Inr ()"
    and "\<not> quota_full e q s \<Longrightarrow> quota_count (snd (enforce_provider_quota e q now s)) k
           = quota_count s k + (if quota_applies e q k then 1 else 0)"
    and "quota_wf (snd (enforce_provider_quota e q now s))"
proof -
  note o = check_quota_outcome [OF assms, of q]
  show "quota_full e q s \<Longrightarrow> enforce_provider_quota e q now s = (Inl (ProviderExecutionError QUOTA_EXCEEDED), s)"
    using o(1) by (simp add: enforce_provider_quota_def)
  show "\<not> quota_full e q s \<Longrightarrow> fst (enforce_provider_quota e q now s) = Inr ()"
    using o(2) by (auto simp: enforce_provider_quota_def)
  show "quota_count (snd (enforce_provider_quota e q now s)) k
           = quota_count s k + (if quota_applies e q k then 1 else 0)" if "\<not> quota_full e q s"
  proof -
    obtain ds where "check_provider_quota e q s = Inr ds" "distinct (map qd_key ds)" "qd_key ` set ds = {k. quota_applies e q k}"
      using o(2) \<open>\<not> quota_full e q s\<close> by blast
    then show ?thesis by (simp add: enforce_provider_quota_def count_quota_use_count)
  qed
  show "quota_wf (snd (enforce_provider_quota e q now s))"
    using assms(1) by (auto simp: enforce_provider_quota_def split: sum.splits)
qed

definition within_limits :: "enforcement_thresholds \<Rightarrow> 'a provider_ops_store_scheme \<Rightarrow> bool" where
  "within_limits e s \<longleftrightarrow> (\<forall>(k, l) \<in> set (quota_limits e). quota_count s k \<le> l)"

lemma enforce_quota_within:
  assumes "quota_wf s" and "et_quota_enforced e" and "pq_configuration_valid (parse_provider_quota_policy e s)"
    and "within_limits e s"
  shows "within_limits e (snd (enforce_provider_quota e q now s))"
proof (cases "quota_full e q s")
  case True
  then show ?thesis using enforce_quota_outcome(1) [OF assms(1-3) True] assms(4) by simp
next
  case False
  note c = enforce_quota_outcome(3) [OF assms(1-3) False]
  show ?thesis unfolding within_limits_def
  proof clarify
    fix sc key l assume m: "((sc, key), l) \<in> set (quota_limits e)"
    have "quota_count s (sc, key) \<le> l" using assms(4) m by (auto simp: within_limits_def)
    moreover have "quota_applies e q (sc, key) \<Longrightarrow> quota_count s (sc, key) < l"
      using False m unfolding quota_full_def quota_applies_def by fastforce
    ultimately show "quota_count (snd (enforce_provider_quota e q now s)) (sc, key) \<le> l" unfolding c by auto
  qed
qed

fun serve_requests ::
  "enforcement_thresholds \<Rightarrow> (execution_request \<times> (quota_descriptor \<Rightarrow> timestamp)) list
     \<Rightarrow> 'a provider_ops_store_scheme \<Rightarrow> 'a provider_ops_store_scheme" where
  "serve_requests e [] s = s"
| "serve_requests e ((q, now) # rs) s = serve_requests e rs (snd (enforce_provider_quota e q now s))"

lemma serve_requests_within:
  "quota_wf s \<Longrightarrow> et_quota_enforced e \<Longrightarrow> pq_configuration_valid (parse_provider_quota_policy e s) \<Longrightarrow> within_limits e s
     \<Longrightarrow> within_limits e (serve_requests e rs s)"
proof (induction e rs s rule: serve_requests.induct)
  case (2 e q now rs s)
  have "pq_configuration_valid (parse_provider_quota_policy e (snd (enforce_provider_quota e q now s)))"
    using "2.prems"(3) configuration_valid_indep by blast
  then show ?case using "2.IH" enforce_quota_within [OF "2.prems"] enforce_quota_outcome(4) [OF "2.prems"(1-3)] "2.prems"(2)
    by simp
qed simp

section \<open>Configuration text reads back\<close>

definition plain_key :: "string \<Rightarrow> bool" where
  "plain_key k \<longleftrightarrow> k \<noteq> [] \<and> (\<forall>c \<in> set k. c \<noteq> CHR '','' \<and> c \<noteq> CHR ''='' \<and> \<not> is_space c)"

fun quota_text :: "(string \<times> int) list \<Rightarrow> string" where
  "quota_text [] = []"
| "quota_text [(k, n)] = k @ ''='' @ int_str n"
| "quota_text ((k, n) # x # xs) = k @ ''='' @ int_str n @ '','' @ quota_text (x # xs)"

lemma split_on_plain: "c \<notin> set s \<Longrightarrow> split_on c s = [s]"
  by (induction s) auto

lemma split_on_append: "c \<notin> set s \<Longrightarrow> split_on c (s @ c # t) = s # split_on c t"
  by (induction s) auto

lemma digits_plain: "is_digit c \<Longrightarrow> \<not> is_space c \<and> c \<noteq> CHR '','' \<and> c \<noteq> CHR ''='' \<and> c \<noteq> CHR ''_'' \<and> c \<noteq> CHR ''-'' \<and> c \<noteq> CHR ''+''"
  by (auto simp: is_digit_def is_space_def)

lemma py_int_str: "0 < n \<Longrightarrow> py_int (int_str n) = Some n"
proof -
  assume n: "0 < n"
  obtain c cs where c: "nat_str (nat n) = c # cs" by (cases "nat_str (nat n)") simp_all
  have dig: "\<forall>x \<in> set (c # cs). is_digit x" using nat_str_digits [of _ "nat n"] by (auto simp: c)
  then have "py_strip (c # cs) = c # cs" "split_on CHR ''_'' (c # cs) = [c # cs]"
    using digits_plain by (blast intro!: py_strip_plain, intro split_on_plain) blast
  moreover have "c \<noteq> CHR ''-''" "c \<noteq> CHR ''+''" using dig digits_plain by auto
  ultimately show ?thesis
    using n dig digits_val_nat_str [of "nat n"] by (simp add: py_int_def int_str_def c py_digits_def list_all_iff)
qed

lemma int_str_plain: "0 < n \<Longrightarrow> c \<in> set (int_str n) \<Longrightarrow> \<not> is_space c \<and> c \<noteq> CHR '','' \<and> c \<noteq> CHR ''=''"
  using digits_plain nat_str_digits by (force simp: int_str_def)

lemma parse_entry_text:
  assumes "plain_key k" and "0 < n"
  shows "parse_quota_entry (k @ ''='' @ int_str n) = Inr (k, n)"
proof -
  have nk: "\<forall>c \<in> set k. c \<noteq> CHR ''=''" and sk: "py_strip k = k" "k \<noteq> []"
    using assms(1) by (auto simp: plain_key_def py_strip_plain)
  have "takeWhile (\<lambda>x. x \<noteq> CHR ''='') (k @ CHR ''='' # int_str n) = k"
    using nk by (simp add: takeWhile_append2)
  moreover have "py_strip (int_str n) = int_str n" using int_str_plain [OF assms(2)] by (auto intro: py_strip_plain)
  ultimately show ?thesis
    using assms(2) sk by (simp add: parse_quota_entry_def split_first_def Let_def parse_positive_limit_def py_int_str)
qed

lemma equals_not_space: "\<not> is_space CHR ''=''"
  by (simp add: is_space_def)

lemma entry_plain:
  assumes "plain_key k" and "0 < n"
  shows "CHR '','' \<notin> set (k @ ''='' @ int_str n)" and "py_strip (k @ ''='' @ int_str n) = k @ ''='' @ int_str n"
proof -
  have "\<forall>c \<in> set (k @ ''='' @ int_str n). c \<noteq> CHR '','' \<and> \<not> is_space c"
    using assms(1) int_str_plain [OF assms(2)] equals_not_space by (auto simp: plain_key_def)
  then show "CHR '','' \<notin> set (k @ ''='' @ int_str n)" and "py_strip (k @ ''='' @ int_str n) = k @ ''='' @ int_str n"
    by (blast, intro py_strip_plain) blast
qed

lemma segments_text:
  "\<forall>(k, n) \<in> set xs. plain_key k \<and> 0 < n \<Longrightarrow> segments (quota_text xs) = map (\<lambda>(k, n). k @ ''='' @ int_str n) xs"
proof (induction xs rule: quota_text.induct)
  case 1
  show ?case by (simp add: segments_def py_strip_def)
next
  case (2 k n)
  then show ?case using entry_plain [of k n] by (simp add: segments_def split_on_plain)
next
  case (3 k n x xs)
  then have e: "plain_key k" "0 < n" by auto
  have "split_on CHR '','' (quota_text ((k, n) # x # xs)) = (k @ ''='' @ int_str n) # split_on CHR '','' (quota_text (x # xs))"
    using split_on_append [OF entry_plain(1) [OF e], of "quota_text (x # xs)"] by simp
  then show ?case using 3 entry_plain(2) [OF e] by (simp add: segments_def)
qed

lemma rights_map_Inr: "(\<And>x. x \<in> set xs \<Longrightarrow> f x = Inr (g x)) \<Longrightarrow> rights (map f xs) = map g xs \<and> lefts (map f xs) = []"
  by (induction xs) (auto simp: rights_def lefts_def List.map_filter_def)

lemma quota_text_entries:
  assumes "\<forall>(k, n) \<in> set xs. plain_key k \<and> 0 < n"
  shows "rights (map parse_quota_entry (segments (quota_text xs))) = xs"
    and "lefts (map parse_quota_entry (segments (quota_text xs))) = []"
proof -
  let ?f = "parse_quota_entry \<circ> (\<lambda>(k, n). k @ ''='' @ int_str n)"
  have "?f x = Inr (id x)" if "x \<in> set xs" for x
    using assms that parse_entry_text by (cases x) fastforce
  from rights_map_Inr [of xs ?f id, OF this] show "rights (map parse_quota_entry (segments (quota_text xs))) = xs"
    and "lefts (map parse_quota_entry (segments (quota_text xs))) = []"
    unfolding segments_text [OF assms] by simp_all
qed

lemma quota_text_blank: "py_strip (quota_text xs) = [] \<Longrightarrow> \<forall>(k, n) \<in> set xs. plain_key k \<and> 0 < n \<Longrightarrow> xs = []"
proof (cases xs)
  case (Cons x ys)
  assume blank: "py_strip (quota_text xs) = []" and p: "\<forall>(k, n) \<in> set xs. plain_key k \<and> 0 < n"
  obtain k n where x: "x = (k, n)" by force
  obtain c cs where c: "k = c # cs" "\<not> is_space c" using p Cons x by (cases k) (auto simp: plain_key_def)
  have "\<exists>t. quota_text xs = c # t" using Cons x c by (cases ys) auto
  then obtain t where t: "quota_text xs = c # t" ..
  have "dropWhile is_space (rev t @ [c]) \<noteq> []" using c(2) by (metis dropWhile_eq_Nil_conv in_set_conv_decomp)
  with blank show ?thesis using c(2) by (simp add: py_strip_def t)
qed simp

section \<open>Properties\<close>

text \<open>
  Quota enforcement is exact: with a valid enforced configuration a request is refused precisely when
  some limit that matches it is used up, a refusal changes nothing, and an accepted request adds one to
  every matching counter and leaves every other counter alone.
\<close>

theorem quota_enforcement_exact:
  assumes "quota_wf s" and "et_quota_enforced e" and "pq_configuration_valid (parse_provider_quota_policy e s)"
  shows "if quota_full e q s
         then enforce_provider_quota e q now s = (Inl (ProviderExecutionError QUOTA_EXCEEDED), s)
         else fst (enforce_provider_quota e q now s) = Inr ()
            \<and> (\<forall>k. quota_count (snd (enforce_provider_quota e q now s)) k
                    = quota_count s k + (if quota_applies e q k then 1 else 0))"
  using enforce_quota_outcome [OF assms, of q now] by simp

text \<open>
  C14. No sequence of requests exceeds a quota: if every counter starts within its limit, it is within its
  limit after any number of requests, accepted or refused, that are enforced one after another.
\<close>

theorem quota_never_exceeded:
  assumes "quota_wf s" and "et_quota_enforced e" and "pq_configuration_valid (parse_provider_quota_policy e s)"
    and "within_limits e s" and "(k, l) \<in> set (quota_limits e)"
  shows "quota_count (serve_requests e rs s) k \<le> l"
  using serve_requests_within [OF assms(1-4), of rs] assms(5) by (auto simp: within_limits_def)

text \<open>
  Concurrent requests do exceed a quota: the check and the counting are separate store operations, so
  when one unit of a limit is left and two requests check before either counts, both are admitted and the
  counter ends one above the limit.
\<close>

theorem concurrent_requests_exceed_quota:
  assumes "quota_wf s" and "et_quota_enforced e" and "pq_configuration_valid (parse_provider_quota_policy e s)"
    and "(k, l) \<in> set (quota_limits e)" and "quota_matches q (fst k) (snd k)" and "quota_matches q' (fst k) (snd k)"
    and "quota_count s k = l - 1" and "\<not> quota_full e q s" and "\<not> quota_full e q' s"
  shows "\<exists>ds ds'. check_provider_quota e q s = Inr ds \<and> check_provider_quota e q' s = Inr ds'
       \<and> quota_count (count_quota_use ds' now' (count_quota_use ds now s)) k = l + 1"
proof -
  have "quota_applies e q k" "quota_applies e q' k" using assms(4-6) by (force simp: quota_applies_def)+
  then show ?thesis
    using check_quota_outcome(2) [OF assms(1-3,8)] check_quota_outcome(2) [OF assms(1-3,9)] assms(7)
    by (auto simp: count_quota_use_count)
qed

text \<open>
  Configured limits read back: the text of a list of limits, written in the documented
  \<^verbatim>\<open>key=limit\<close> form, parses without findings to exactly those limits under the scope it configures.
\<close>

theorem quota_text_roundtrip:
  assumes "\<forall>(k, n) \<in> set xs. plain_key k \<and> 0 < n" and "distinct (map fst xs)"
  shows "mapping_limits (quota_text xs) scope = map (\<lambda>(k, n). ((scope, k), n)) xs
       \<and> snd (parse_quota_mapping (quota_text xs) scope counts) = []"
proof -
  have "distinct (map (\<lambda>x. (scope, fst x)) xs)" using assms(2) by (auto simp: distinct_map inj_on_def)
  from fold_put_distinct [OF this, of "[]" snd] show ?thesis
    using quota_text_entries [OF assms(1)] quota_text_blank [OF _ assms(1)]
    by (auto simp: mapping_limits_def parse_quota_mapping_def Let_def case_prod_unfold)
qed

section \<open>A concrete configuration\<close>

definition sample_quota_thresholds :: enforcement_thresholds where
  "sample_quota_thresholds = sample_thresholds\<lparr>et_quota_enforced := True, et_default_quota_limit := Some 2,
     et_task_quota_limits := '' explain.v1 = 1_0 , summarize.v1=+3,''\<rparr>"

definition sample_explain :: execution_request where
  "sample_explain = \<lparr>er_task_id = ''explain.v1'', er_tenant_id = None, er_caller_app = ''lotus-workbench''\<rparr>"

definition sample_used :: provider_ops_store where
  "sample_used = snd (enforce_provider_quota sample_quota_thresholds sample_explain (\<lambda>_. ''t0'') empty_ops_store)"

lemma sample_quota_valid:
  "pq_configuration_valid (parse_provider_quota_policy sample_quota_thresholds (s :: provider_ops_store))"
proof -
  have "pq_configuration_valid (parse_provider_quota_policy sample_quota_thresholds empty_ops_store)" by code_simp
  then show ?thesis using configuration_valid_indep by blast
qed

lemma sample_quota_enforced: "et_quota_enforced sample_quota_thresholds"
  by (simp add: sample_quota_thresholds_def)

lemma sample_used_wf: "quota_wf sample_used"
  unfolding sample_used_def
  by (intro enforce_quota_outcome(4) quota_wf_empty sample_quota_enforced sample_quota_valid)

lemma sample_limits:
  "quota_limits sample_quota_thresholds =
     [((TASK, ''explain.v1''), 10), ((TASK, ''summarize.v1''), 3), ((DEFAULT, ''global''), 2)]"
  by code_simp

theorem quota_enforcement_exact_witness:
  "quota_count (snd (enforce_provider_quota sample_quota_thresholds sample_explain (\<lambda>_. ''t1'') sample_used))
     (DEFAULT, ''global'') = 2"
proof -
  have "\<not> quota_full sample_quota_thresholds sample_explain sample_used"
    "quota_count sample_used (DEFAULT, ''global'') = 1"
    "quota_applies sample_quota_thresholds sample_explain (DEFAULT, ''global'')" by code_simp+
  then show ?thesis
    using quota_enforcement_exact [OF sample_used_wf sample_quota_enforced sample_quota_valid,
        of sample_explain "\<lambda>_. ''t1''"] by simp
qed

theorem quota_never_exceeded_witness:
  "quota_count (serve_requests sample_quota_thresholds (replicate 5 (sample_explain, \<lambda>_. ''t1'')) sample_used)
     (DEFAULT, ''global'') \<le> 2"
proof -
  have "within_limits sample_quota_thresholds sample_used" by code_simp
  then show ?thesis
    using quota_never_exceeded [OF sample_used_wf sample_quota_enforced sample_quota_valid,
        of "(DEFAULT, ''global'')" 2 "replicate 5 (sample_explain, \<lambda>_. ''t1'')"]
    by (simp add: sample_limits del: serve_requests.simps)
qed

theorem concurrent_requests_exceed_quota_witness:
  "\<exists>ds ds'. check_provider_quota sample_quota_thresholds sample_explain sample_used = Inr ds
     \<and> check_provider_quota sample_quota_thresholds sample_explain sample_used = Inr ds'
     \<and> quota_count (count_quota_use ds' (\<lambda>_. ''t2'') (count_quota_use ds (\<lambda>_. ''t1'') sample_used)) (DEFAULT, ''global'') = 3"
proof -
  have "\<not> quota_full sample_quota_thresholds sample_explain sample_used"
    "quota_count sample_used (DEFAULT, ''global'') = 2 - 1" by code_simp+
  then show ?thesis
    using concurrent_requests_exceed_quota [OF sample_used_wf sample_quota_enforced sample_quota_valid,
        of "(DEFAULT, ''global'')" 2 sample_explain sample_explain "\<lambda>_. ''t2''" "\<lambda>_. ''t1''"]
    by (simp add: sample_limits)
qed

theorem quota_text_roundtrip_witness:
  "mapping_limits (quota_text [(''lotus-manage'', 25), (''lotus-idea'', 3)]) CALLER_APP
     = [((CALLER_APP, ''lotus-manage''), 25), ((CALLER_APP, ''lotus-idea''), 3)]"
  using quota_text_roundtrip [of "[(''lotus-manage'', 25), (''lotus-idea'', 3)]" CALLER_APP "[]"]
  by (simp add: plain_key_def is_space_def)

end
