(* ===== verification/Model_Catalogue.thy ===== *)
theory Model_Catalogue
  imports Kill_Switches
begin

text \<open>
  The governed model catalogue: \<^verbatim>\<open>contracts/model_catalogue.py\<close>,
  \<^verbatim>\<open>repositories/memory_model_catalogue_repository.py\<close> and the write authority and the seeding of
  \<^verbatim>\<open>services/model_catalogue.py\<close>. The eligibility of candidates and the derived universe are in
  \<open>Candidate_Universe\<close>, the governed transitions in \<open>Model_Lifecycle\<close>.

  \<open>sha\<close> is the digest of canonical JSON. The approved model-risk inventory is parsed from settings by a
  JSON library and is an argument here. The world extends the one of the kill switches: the repositories
  of one running service.
\<close>

section \<open>Records and repository\<close>

datatype lifecycle_state = DISCOVERED | CATALOGUED | EVALUATING | APPROVED | SHADOW | CANARY | PRODUCTION
  | DEGRADED | DEPRECATED | RETIRED

datatype seed_source = SETTINGS_LIVE_TEXT | APPROVED_INVENTORY | OPERATOR

record capability_degradation =
  cd_dimension :: string
  cd_reason :: string
  cd_degraded_by :: string
  cd_degraded_at :: timestamp

record catalogue_entry =
  me_entry_id :: string
  me_candidate_id_v2 :: string
  me_provider_id :: string
  me_provider_mode :: string
  me_model_family :: string
  me_model_revision :: string
  me_deployment :: "string option"
  me_sku :: "string option"
  me_lifecycle_state :: lifecycle_state
  me_revision_pinned :: bool
  me_modalities :: "string list"
  me_context_window_tokens :: "int option"
  me_max_output_tokens :: "int option"
  me_supports_structured_output :: "bool option"
  me_supports_tool_calling :: "bool option"
  me_supports_streaming :: "bool option"
  me_capability_degradations :: "(string, capability_degradation) dict"
  me_approved_workflow_pack_ids :: "string list"
  me_approval_evidence_refs :: "string list"
  me_approved_from_utc :: "string option"
  me_approved_until_utc :: "string option"
  me_seed_source :: seed_source
  me_created_at :: timestamp
  me_last_updated_at :: timestamp

record lifecycle_event =
  le_event_id :: string
  le_entry_id :: string
  le_from_state :: lifecycle_state
  le_to_state :: lifecycle_state
  le_reason :: string
  le_requested_by :: string
  le_approved_by :: "string option"
  le_approval_evidence_ref :: "string option"
  le_recorded_at :: timestamp

record drift_observation =
  do_observation_id :: string
  do_entry_id :: string
  do_expected_identity :: string
  do_observed_model_id :: string
  do_revision_pinned :: bool
  do_first_observed_at :: timestamp
  do_last_observed_at :: timestamp
  do_observation_count :: nat

datatype policy_change = IDENTITY_ADD | IDENTITY_REMOVE

record policy_version =
  pv_version :: nat
  pv_ordered_entry_ids :: "string list"
  pv_action :: policy_change
  pv_changed_entry_id :: string
  pv_requested_by_key_id :: string
  pv_approver_key_id :: "string option"
  pv_governed_action_id :: "string option"
  pv_recorded_at :: timestamp

record capability_evidence =
  ce_evidence_id :: string
  ce_candidate_id_v2 :: string
  ce_model_revision :: string
  ce_dimension :: string
  ce_scope_type :: string
  ce_scope_key :: "string option"
  ce_fixture_id :: string
  ce_manifest_version :: string
  ce_manifest_content_digest :: "string option"
  ce_evaluation_run_id :: string
  ce_verdict :: string
  ce_triggered_by :: "string option"
  ce_recorded_at :: timestamp

record evaluation_run =
  ev_run_id :: string
  ev_fixture_id :: string
  ev_manifest_version :: string
  ev_lifecycle_status :: string
  ev_triggered_by :: string
  ev_submitted_at :: timestamp
  ev_async_job_id :: "string option"
  ev_latest_message :: string
  ev_verdict :: "string option"
  ev_case_count :: nat
  ev_manifest_content_digest :: "string option"

record catalogue_world = kill_world +
  cw_entries :: "(string, catalogue_entry) dict"
  cw_lifecycle_events :: "lifecycle_event list"
  cw_drift_observations :: "(string, drift_observation) dict"
  cw_policy_versions :: "(nat, policy_version) dict"
  cw_capability_evidence :: "(string, capability_evidence) dict"
  cw_evaluation_runs :: "(string, evaluation_run) dict"
  cw_store_mode :: string

definition list_entries :: "'a catalogue_world_scheme \<Rightarrow> catalogue_entry list" where
  "list_entries w = map snd (sort_key fst (cw_entries w))"

definition get_entry :: "'a catalogue_world_scheme \<Rightarrow> string \<Rightarrow> catalogue_entry option" where
  "get_entry w k = dict_get (cw_entries w) k"

definition get_entry_by_candidate_id :: "'a catalogue_world_scheme \<Rightarrow> string \<Rightarrow> catalogue_entry option" where
  "get_entry_by_candidate_id w i = List.find (\<lambda>e. me_candidate_id_v2 e = i) (dict_values (cw_entries w))"

definition canonical_identity :: "(payload \<Rightarrow> string) \<Rightarrow> catalogue_entry \<Rightarrow> string" where
  "canonical_identity sha e =
     derive_candidate_identity_v2 sha (me_provider_id e) (me_model_family e) (me_model_revision e) (me_deployment e)"

definition with_verified_canonical_identity :: "(payload \<Rightarrow> string) \<Rightarrow> catalogue_entry \<Rightarrow> catalogue_entry result" where
  "with_verified_canonical_identity sha e =
     (if me_candidate_id_v2 e \<noteq> [] \<and> me_candidate_id_v2 e \<noteq> canonical_identity sha e
      then Inl (ValueError ''candidate_id_v2 has drifted'')
      else Inr (e\<lparr>me_candidate_id_v2 := canonical_identity sha e\<rparr>))"

definition upsert_entry ::
  "(payload \<Rightarrow> string) \<Rightarrow> catalogue_entry \<Rightarrow> 'a catalogue_world_scheme \<Rightarrow> unit result \<times> 'a catalogue_world_scheme" where
  "upsert_entry sha e w =
     (case with_verified_canonical_identity sha e of
        Inl err \<Rightarrow> (Inl err, w)
      | Inr e' \<Rightarrow> (Inr (), w\<lparr>cw_entries := dict_put (me_entry_id e) e' (cw_entries w)\<rparr>))"

definition save_capability_evidence :: "capability_evidence \<Rightarrow> 'a catalogue_world_scheme \<Rightarrow> 'a catalogue_world_scheme" where
  "save_capability_evidence r w =
     w\<lparr>cw_capability_evidence := dict_put (ce_evidence_id r) r (cw_capability_evidence w)\<rparr>"

definition list_capability_evidence ::
  "string \<Rightarrow> string \<Rightarrow> 'a catalogue_world_scheme \<Rightarrow> capability_evidence list" where
  "list_capability_evidence candidate dimension w =
     sorted_desc ce_recorded_at (filter (\<lambda>r. ce_candidate_id_v2 r = candidate \<and> ce_dimension r = dimension)
       (dict_values (cw_capability_evidence w)))"

definition list_all_capability_evidence :: "int \<Rightarrow> 'a catalogue_world_scheme \<Rightarrow> capability_evidence list" where
  "list_all_capability_evidence limit w =
     take (nat (max limit 0)) (sorted_desc ce_recorded_at (dict_values (cw_capability_evidence w)))"

fun pop_counted :: "'k list \<Rightarrow> ('k, 'v) dict \<Rightarrow> nat \<times> ('k, 'v) dict" where
  "pop_counted [] d = (0, d)"
| "pop_counted (k # ks) d =
     (case pop_counted ks (dict_pop k d) of (n, d') \<Rightarrow> ((if dict_get d k \<noteq> None then Suc n else n), d'))"

definition delete_capability_evidence :: "string list \<Rightarrow> 'a catalogue_world_scheme \<Rightarrow> nat \<times> 'a catalogue_world_scheme" where
  "delete_capability_evidence ids w =
     (case pop_counted ids (cw_capability_evidence w) of (n, d) \<Rightarrow> (n, w\<lparr>cw_capability_evidence := d\<rparr>))"

definition append_lifecycle_event :: "lifecycle_event \<Rightarrow> 'a catalogue_world_scheme \<Rightarrow> 'a catalogue_world_scheme" where
  "append_lifecycle_event e w = w\<lparr>cw_lifecycle_events := cw_lifecycle_events w @ [e]\<rparr>"

definition list_all_lifecycle_events :: "int \<Rightarrow> 'a catalogue_world_scheme \<Rightarrow> lifecycle_event list" where
  "list_all_lifecycle_events limit w = py_slice_to limit (sorted_desc le_recorded_at (cw_lifecycle_events w))"

definition list_lifecycle_events :: "string \<Rightarrow> 'a catalogue_world_scheme \<Rightarrow> lifecycle_event list" where
  "list_lifecycle_events k w = sorted_desc le_recorded_at (filter (\<lambda>e. le_entry_id e = k) (cw_lifecycle_events w))"

definition delete_lifecycle_events :: "string list \<Rightarrow> 'a catalogue_world_scheme \<Rightarrow> nat \<times> 'a catalogue_world_scheme" where
  "delete_lifecycle_events ids w =
     (let kept = filter (\<lambda>e. le_event_id e \<notin> set ids) (cw_lifecycle_events w)
      in (length (cw_lifecycle_events w) - length kept, w\<lparr>cw_lifecycle_events := kept\<rparr>))"

definition get_drift_observation :: "'a catalogue_world_scheme \<Rightarrow> string \<Rightarrow> drift_observation option" where
  "get_drift_observation w k = dict_get (cw_drift_observations w) k"

definition upsert_drift_observation :: "drift_observation \<Rightarrow> 'a catalogue_world_scheme \<Rightarrow> 'a catalogue_world_scheme" where
  "upsert_drift_observation r w =
     w\<lparr>cw_drift_observations := dict_put (do_observation_id r) r (cw_drift_observations w)\<rparr>"

definition list_drift_observations :: "string \<Rightarrow> 'a catalogue_world_scheme \<Rightarrow> drift_observation list" where
  "list_drift_observations k w =
     sorted_desc do_last_observed_at (filter (\<lambda>r. do_entry_id r = k) (dict_values (cw_drift_observations w)))"

definition list_all_drift_observations :: "int \<Rightarrow> 'a catalogue_world_scheme \<Rightarrow> drift_observation list" where
  "list_all_drift_observations limit w =
     py_slice_to limit (sorted_desc do_last_observed_at (dict_values (cw_drift_observations w)))"

definition delete_drift_observations :: "string list \<Rightarrow> 'a catalogue_world_scheme \<Rightarrow> nat \<times> 'a catalogue_world_scheme" where
  "delete_drift_observations ids w =
     (case pop_counted ids (cw_drift_observations w) of (n, d) \<Rightarrow> (n, w\<lparr>cw_drift_observations := d\<rparr>))"

definition get_current_serving_policy :: "'a catalogue_world_scheme \<Rightarrow> policy_version option" where
  "get_current_serving_policy w =
     (if cw_policy_versions w = [] then None
      else dict_get (cw_policy_versions w) (foldr max (dict_keys (cw_policy_versions w)) 0))"

definition save_serving_policy_version ::
  "policy_version \<Rightarrow> 'a catalogue_world_scheme \<Rightarrow> unit result \<times> 'a catalogue_world_scheme" where
  "save_serving_policy_version r w =
     (if dict_get (cw_policy_versions w) (pv_version r) \<noteq> None
      then (Inl (ValueError ''serving policy version already exists''), w)
      else (Inr (), w\<lparr>cw_policy_versions := dict_put (pv_version r) r (cw_policy_versions w)\<rparr>))"

definition list_serving_policy_versions :: "int \<Rightarrow> 'a catalogue_world_scheme \<Rightarrow> policy_version list" where
  "list_serving_policy_versions limit w =
     map (\<lambda>v. the (dict_get (cw_policy_versions w) v))
       (take (nat (max limit 0)) (rev (sort (dict_keys (cw_policy_versions w)))))"

interpretation drift_repo: keyed_repository do_observation_id
  "get_drift_observation :: 'a catalogue_world_scheme \<Rightarrow> _" upsert_drift_observation
  by unfold_locales (simp add: get_drift_observation_def upsert_drift_observation_def)

section \<open>Seeding\<close>

definition upsert_model_catalogue_entry ::
  "(payload \<Rightarrow> string) \<Rightarrow> catalogue_entry \<Rightarrow> 'a catalogue_world_scheme \<Rightarrow> unit result \<times> 'a catalogue_world_scheme" where
  "upsert_model_catalogue_entry sha e w =
     (if me_entry_id e \<noteq> derive_model_catalogue_entry_id (me_provider_id e) (me_model_revision e) (me_deployment e)
      then (Inl (ValueError ''entry id is not the derived identity''), w)
      else if (case get_entry w (me_entry_id e) of
                 None \<Rightarrow> False | Some x \<Rightarrow> me_candidate_id_v2 x \<noteq> me_candidate_id_v2 e)
      then (Inl (ValueError ''candidate identity conflict''), w)
      else upsert_entry sha e w)"

text \<open>The constructor with the defaults of the contract; the validator stamps the canonical identity.\<close>

definition new_catalogue_entry ::
  "(payload \<Rightarrow> string) \<Rightarrow> string \<Rightarrow> string \<Rightarrow> string \<Rightarrow> string \<Rightarrow> lifecycle_state \<Rightarrow> bool \<Rightarrow> seed_source \<Rightarrow> timestamp
     \<Rightarrow> catalogue_entry" where
  "new_catalogue_entry sha provider mode family revision state pinned source now =
     \<lparr>me_entry_id = derive_model_catalogue_entry_id provider revision None,
      me_candidate_id_v2 = derive_candidate_identity_v2 sha provider family revision None,
      me_provider_id = provider, me_provider_mode = mode, me_model_family = family, me_model_revision = revision,
      me_deployment = None, me_sku = None, me_lifecycle_state = state, me_revision_pinned = pinned,
      me_modalities = [''text''], me_context_window_tokens = None, me_max_output_tokens = None,
      me_supports_structured_output = None, me_supports_tool_calling = None, me_supports_streaming = None,
      me_capability_degradations = [], me_approved_workflow_pack_ids = [], me_approval_evidence_refs = [],
      me_approved_from_utc = None, me_approved_until_utc = None, me_seed_source = source,
      me_created_at = now, me_last_updated_at = now\<rparr>"

record approved_model =
  am_provider_id :: string
  am_provider_mode :: string
  am_model_id :: string
  am_model_version :: string
  am_workflow_pack_ids :: "string list"
  am_approval_ref :: string
  am_approved_from_utc :: string
  am_approved_until_utc :: "string option"

definition live_text_modes :: "string list" where
  "live_text_modes = [''openai'', ''local_openai_compatible'']"

definition settings_seed ::
  "(payload \<Rightarrow> string) \<Rightarrow> string \<Rightarrow> string option \<Rightarrow> string option \<Rightarrow> string option \<Rightarrow> timestamp \<Rightarrow> catalogue_entry list" where
  "settings_seed sha mode provider model version now =
     (if mode \<in> set live_text_modes \<and> truthy provider \<and> truthy model
      then [new_catalogue_entry sha (the provider) mode (the model) (the (or_else version model)) CATALOGUED
              (truthy version) SETTINGS_LIVE_TEXT now]
      else [])"

definition inventory_seed :: "(payload \<Rightarrow> string) \<Rightarrow> timestamp \<Rightarrow> approved_model \<Rightarrow> catalogue_entry" where
  "inventory_seed sha now m =
     (new_catalogue_entry sha (am_provider_id m) (am_provider_mode m) (am_model_id m) (am_model_version m) APPROVED True
        APPROVED_INVENTORY now)
       \<lparr>me_approved_workflow_pack_ids := am_workflow_pack_ids m, me_approval_evidence_refs := [am_approval_ref m],
        me_approved_from_utc := Some (am_approved_from_utc m), me_approved_until_utc := am_approved_until_utc m\<rparr>"

definition build_seed_model_catalogue_entries ::
  "(payload \<Rightarrow> string) \<Rightarrow> execution_config \<Rightarrow> approved_model list \<Rightarrow> timestamp \<Rightarrow> catalogue_entry list" where
  "build_seed_model_catalogue_entries sha c inventory now =
     map snd (sort_key fst (fold (\<lambda>e. dict_put (me_entry_id e) e)
       (settings_seed sha (xc_provider_mode c) (xc_provider_id c) (xc_model_id c) (xc_model_version c) now
        @ settings_seed sha (xc_provider_mode c) (xc_fallback_provider_id c) (xc_fallback_model_id c)
            (xc_fallback_model_version c) now
        @ map (inventory_seed sha now) inventory) []))"

definition keep_known :: "'a option \<Rightarrow> 'a option \<Rightarrow> 'a option" where
  "keep_known seeded assessed = (case seeded of None \<Rightarrow> assessed | Some x \<Rightarrow> Some x)"

definition preserve_assessed_capabilities :: "catalogue_entry \<Rightarrow> catalogue_entry \<Rightarrow> catalogue_entry" where
  "preserve_assessed_capabilities candidate existing =
     candidate\<lparr>
       me_supports_structured_output :=
         keep_known (me_supports_structured_output candidate) (me_supports_structured_output existing),
       me_supports_tool_calling := keep_known (me_supports_tool_calling candidate) (me_supports_tool_calling existing),
       me_supports_streaming := keep_known (me_supports_streaming candidate) (me_supports_streaming existing),
       me_context_window_tokens := keep_known (me_context_window_tokens candidate) (me_context_window_tokens existing),
       me_max_output_tokens := keep_known (me_max_output_tokens candidate) (me_max_output_tokens existing),
       me_capability_degradations :=
         (if me_capability_degradations existing \<noteq> [] then me_capability_degradations existing
          else me_capability_degradations candidate)\<rparr>"

definition operator_terminal_lifecycle_states :: "lifecycle_state list" where
  "operator_terminal_lifecycle_states = [DEPRECATED, RETIRED]"

definition reconciled_candidate :: "catalogue_entry \<Rightarrow> catalogue_entry \<Rightarrow> catalogue_entry" where
  "reconciled_candidate e x =
     (let c = e\<lparr>me_created_at := me_created_at x\<rparr>;
          c' = (if me_seed_source c = me_seed_source x \<or> me_lifecycle_state x \<in> set operator_terminal_lifecycle_states
                then c\<lparr>me_lifecycle_state := me_lifecycle_state x\<rparr> else c)
      in preserve_assessed_capabilities c' x)"

definition same_seed_content :: "catalogue_entry \<Rightarrow> catalogue_entry \<Rightarrow> bool" where
  "same_seed_content a b \<longleftrightarrow>
     a\<lparr>me_created_at := me_created_at b, me_last_updated_at := me_last_updated_at b\<rparr> = b"

record seed_report =
  sp_created :: nat
  sp_updated :: nat
  sp_unchanged :: nat
  sp_identity_conflicts :: nat

fun seed_entries ::
  "(payload \<Rightarrow> string) \<Rightarrow> catalogue_entry list \<Rightarrow> seed_report \<Rightarrow> 'a catalogue_world_scheme
     \<Rightarrow> seed_report result \<times> 'a catalogue_world_scheme" where
  "seed_entries sha [] rep w = (Inr rep, w)"
| "seed_entries sha (e # es) rep w =
     (case get_entry w (me_entry_id e) of
        None \<Rightarrow>
          (case upsert_model_catalogue_entry sha e w of
             (Inl err, w') \<Rightarrow> (Inl err, w')
           | (Inr _, w') \<Rightarrow> seed_entries sha es (rep\<lparr>sp_created := sp_created rep + 1\<rparr>) w')
      | Some x \<Rightarrow>
          if me_candidate_id_v2 x \<noteq> me_candidate_id_v2 e
          then seed_entries sha es (rep\<lparr>sp_identity_conflicts := sp_identity_conflicts rep + 1\<rparr>) w
          else let c = reconciled_candidate e x in
            if same_seed_content c x then seed_entries sha es (rep\<lparr>sp_unchanged := sp_unchanged rep + 1\<rparr>) w
            else (case upsert_model_catalogue_entry sha c w of
                    (Inl err, w') \<Rightarrow> (Inl err, w')
                  | (Inr _, w') \<Rightarrow> seed_entries sha es (rep\<lparr>sp_updated := sp_updated rep + 1\<rparr>) w'))"

definition ensure_model_catalogue_seeded ::
  "(payload \<Rightarrow> string) \<Rightarrow> execution_config \<Rightarrow> approved_model list \<Rightarrow> timestamp \<Rightarrow> 'a catalogue_world_scheme
     \<Rightarrow> seed_report result \<times> 'a catalogue_world_scheme" where
  "ensure_model_catalogue_seeded sha c inventory now w =
     seed_entries sha (build_seed_model_catalogue_entries sha c inventory now)
       \<lparr>sp_created = 0, sp_updated = 0, sp_unchanged = 0, sp_identity_conflicts = 0\<rparr> w"

section \<open>Facts\<close>

definition entry_ok :: "(payload \<Rightarrow> string) \<Rightarrow> catalogue_entry \<Rightarrow> bool" where
  "entry_ok sha e \<longleftrightarrow>
     me_entry_id e = derive_model_catalogue_entry_id (me_provider_id e) (me_model_revision e) (me_deployment e)
   \<and> me_candidate_id_v2 e = canonical_identity sha e"

definition catalogue_ok :: "(payload \<Rightarrow> string) \<Rightarrow> 'a catalogue_world_scheme \<Rightarrow> bool" where
  "catalogue_ok sha w \<longleftrightarrow> (\<forall>k e. get_entry w k = Some e \<longrightarrow> me_entry_id e = k \<and> entry_ok sha e)"

lemma get_entry_put: "get_entry (w\<lparr>cw_entries := dict_put k e (cw_entries w)\<rparr>) k' = (if k' = k then Some e else get_entry w k')"
  by (simp add: get_entry_def)

lemma get_entry_frame [simp]:
  "get_entry (w\<lparr>governed_actions := g\<rparr>) k = get_entry w k"
  "get_entry (append_lifecycle_event e w) k = get_entry w k"
  "get_entry (upsert_drift_observation r w) k = get_entry w k"
  by (simp_all add: get_entry_def append_lifecycle_event_def upsert_drift_observation_def)

lemma same_candidate: "me_candidate_id_v2 e = i \<Longrightarrow> e\<lparr>me_candidate_id_v2 := i\<rparr> = e"
  by (cases e) simp

lemma upsert_succeeds:
  assumes "entry_ok sha e" and "\<And>x. get_entry w (me_entry_id e) = Some x \<Longrightarrow> me_candidate_id_v2 x = me_candidate_id_v2 e"
  shows "upsert_model_catalogue_entry sha e w = (Inr (), w\<lparr>cw_entries := dict_put (me_entry_id e) e (cw_entries w)\<rparr>)"
proof -
  have same: "e\<lparr>me_candidate_id_v2 := canonical_identity sha e\<rparr> = e"
    using assms(1) by (intro same_candidate) (simp add: entry_ok_def)
  have "with_verified_canonical_identity sha e = Inr e"
    unfolding with_verified_canonical_identity_def same using assms(1) by (simp add: entry_ok_def)
  then show ?thesis
    using assms unfolding upsert_model_catalogue_entry_def upsert_entry_def
    by (auto simp: entry_ok_def split: option.splits)
qed

lemma upsert_cases:
  assumes "upsert_model_catalogue_entry sha e w = (r, w')"
  obtains err where "r = Inl err" and "w' = w"
  | e' where "r = Inr ()" and "e' = e\<lparr>me_candidate_id_v2 := canonical_identity sha e\<rparr>" and "entry_ok sha e'"
      and "w' = w\<lparr>cw_entries := dict_put (me_entry_id e) e' (cw_entries w)\<rparr>"
      and "me_candidate_id_v2 e = [] \<or> e' = e"
  using assms same_candidate [of e "canonical_identity sha e"]
  by (auto simp: upsert_model_catalogue_entry_def upsert_entry_def with_verified_canonical_identity_def entry_ok_def
      canonical_identity_def split: option.splits if_splits)

lemma upsert_catalogue_ok:
  assumes "upsert_model_catalogue_entry sha e w = (r, w')" and "catalogue_ok sha w"
  shows "catalogue_ok sha w'"
  using assms(1)
proof (cases rule: upsert_cases)
  case (2 e')
  then show ?thesis using assms(2) by (auto simp: catalogue_ok_def get_entry_put)
qed (use assms(2) in simp)

text \<open>Seed rows carry their derived identities and have distinct keys.\<close>

lemma new_catalogue_entry_ok [simp]: "entry_ok sha (new_catalogue_entry sha p m f r st pin src now)"
  by (simp add: entry_ok_def new_catalogue_entry_def canonical_identity_def)

lemma inventory_seed_ok [simp]: "entry_ok sha (inventory_seed sha now m)"
  by (simp add: entry_ok_def inventory_seed_def new_catalogue_entry_def canonical_identity_def)

lemma entry_ok_governed_fields [simp]:
  "entry_ok sha (e\<lparr>me_lifecycle_state := st\<rparr>) = entry_ok sha e"
  "entry_ok sha (e\<lparr>me_last_updated_at := t\<rparr>) = entry_ok sha e"
  "entry_ok sha (e\<lparr>me_capability_degradations := ds\<rparr>) = entry_ok sha e"
  by (simp_all add: entry_ok_def canonical_identity_def)

definition unassessed :: "catalogue_entry \<Rightarrow> bool" where
  "unassessed e \<longleftrightarrow> me_supports_structured_output e = None \<and> me_supports_tool_calling e = None
     \<and> me_supports_streaming e = None \<and> me_context_window_tokens e = None \<and> me_max_output_tokens e = None
     \<and> me_capability_degradations e = []"

lemma unassessed_seeds [simp]:
  "unassessed (new_catalogue_entry sha p mode f r st pin src now)" "unassessed (inventory_seed sha now m)"
  by (simp_all add: unassessed_def inventory_seed_def new_catalogue_entry_def)

lemma seed_rows_facts:
  fixes sha c inventory now
  defines "es \<equiv> build_seed_model_catalogue_entries sha c inventory now"
  shows "\<forall>e \<in> set es. entry_ok sha e \<and> unassessed e \<and> me_created_at e = now \<and> me_last_updated_at e = now"
    and "distinct (map me_entry_id es)"
proof -
  let ?rows = "settings_seed sha (xc_provider_mode c) (xc_provider_id c) (xc_model_id c) (xc_model_version c) now
        @ settings_seed sha (xc_provider_mode c) (xc_fallback_provider_id c) (xc_fallback_model_id c)
            (xc_fallback_model_version c) now
        @ map (inventory_seed sha now) inventory"
  let ?d = "fold (\<lambda>e. dict_put (me_entry_id e) e) ?rows []"
  have rows: "entry_ok sha e \<and> unassessed e \<and> me_created_at e = now \<and> me_last_updated_at e = now" if "e \<in> set ?rows" for e
  proof -
    have "entry_ok sha (new_catalogue_entry sha p m f r st pin src now) \<and> unassessed (new_catalogue_entry sha p m f r st pin src now)
        \<and> me_created_at (new_catalogue_entry sha p m f r st pin src now) = now
        \<and> me_last_updated_at (new_catalogue_entry sha p m f r st pin src now) = now"
      "entry_ok sha (inventory_seed sha now am) \<and> unassessed (inventory_seed sha now am)
        \<and> me_created_at (inventory_seed sha now am) = now \<and> me_last_updated_at (inventory_seed sha now am) = now"
      for p m f r st pin src am
      using new_catalogue_entry_ok inventory_seed_ok unassessed_seeds by (simp_all add: new_catalogue_entry_def inventory_seed_def)
    then show ?thesis using that unfolding settings_seed_def by (auto split: if_splits)
  qed
  have "set es \<subseteq> set ?rows" using fold_put_values [of me_entry_id ?rows "[]"]
    by (simp add: es_def build_seed_model_catalogue_entries_def)
  then show "\<forall>e \<in> set es. entry_ok sha e \<and> unassessed e \<and> me_created_at e = now \<and> me_last_updated_at e = now"
    using rows by blast
  have "\<forall>(k, e) \<in> set ?d. k = me_entry_id e" using fold_put_keyed [of "[]" me_entry_id ?rows] by simp
  then have "map me_entry_id es = map fst (sort_key fst ?d)"
    by (auto simp: es_def build_seed_model_catalogue_entries_def)
  moreover have "dict_wf ?d" using dict_wf_fold_put [of "[]" me_entry_id "\<lambda>e. e" ?rows] by simp
  ultimately show "distinct (map me_entry_id es)" by (simp add: distinct_map_sort_key)
qed

definition seeded_row :: "catalogue_entry \<Rightarrow> catalogue_entry option \<Rightarrow> catalogue_entry" where
  "seeded_row e x =
     (case x of None \<Rightarrow> e
      | Some y \<Rightarrow> if me_candidate_id_v2 y \<noteq> me_candidate_id_v2 e \<or> same_seed_content (reconciled_candidate e y) y then y
                 else reconciled_candidate e y)"

lemma reconciled_candidate_fields [simp]:
  "me_entry_id (reconciled_candidate e x) = me_entry_id e"
  "me_candidate_id_v2 (reconciled_candidate e x) = me_candidate_id_v2 e"
  "entry_ok sha (reconciled_candidate e x) = entry_ok sha e"
  "me_seed_source (reconciled_candidate e x) = me_seed_source e"
  "me_created_at (reconciled_candidate e x) = me_created_at x"
  "me_lifecycle_state (reconciled_candidate e x) =
     (if me_seed_source e = me_seed_source x \<or> me_lifecycle_state x \<in> {DEPRECATED, RETIRED}
      then me_lifecycle_state x else me_lifecycle_state e)"
  by (auto simp: reconciled_candidate_def Let_def preserve_assessed_capabilities_def entry_ok_def canonical_identity_def
      operator_terminal_lifecycle_states_def)

lemma seed_entries_rows:
  "\<forall>e \<in> set es. entry_ok sha e \<Longrightarrow> distinct (map me_entry_id es) \<Longrightarrow>
     \<exists>rep' d. seed_entries sha es rep w = (Inr rep', w\<lparr>cw_entries := d\<rparr>)
       \<and> (\<forall>k. dict_get d k = (case List.find (\<lambda>e. me_entry_id e = k) es of
              None \<Rightarrow> get_entry w k | Some e \<Rightarrow> Some (seeded_row e (get_entry w k))))"
proof (induction es arbitrary: rep w)
  case Nil
  show ?case by (rule exI [of _ rep], rule exI [of _ "cw_entries w"]) (simp add: get_entry_def)
next
  case (Cons e es)
  let ?k = "me_entry_id e"
  have step: "\<exists>rep1 w1 d1. seed_entries sha (e # es) rep w = seed_entries sha es rep1 w1 \<and> w1 = w\<lparr>cw_entries := d1\<rparr>
      \<and> (\<forall>k. get_entry w1 k = (if k = ?k then Some (seeded_row e (get_entry w k)) else get_entry w k))"
  proof (cases "get_entry w ?k")
    case None
    then have "upsert_model_catalogue_entry sha e w = (Inr (), w\<lparr>cw_entries := dict_put ?k e (cw_entries w)\<rparr>)"
      using Cons.prems(1) by (intro upsert_succeeds) auto
    with None show ?thesis by (auto simp: get_entry_put seeded_row_def intro!: exI)
  next
    case (Some x)
    let ?c = "reconciled_candidate e x"
    consider "seeded_row e (Some x) = x" "me_candidate_id_v2 x \<noteq> me_candidate_id_v2 e \<or> same_seed_content ?c x"
      | "seeded_row e (Some x) = ?c" "me_candidate_id_v2 x = me_candidate_id_v2 e" "\<not> same_seed_content ?c x"
      by (auto simp: seeded_row_def)
    then show ?thesis
    proof cases
      case 1
      then have "\<exists>rep1. seed_entries sha (e # es) rep w = seed_entries sha es rep1 w"
        using Some by (auto simp: Let_def)
      then obtain rep1 where "seed_entries sha (e # es) rep w = seed_entries sha es rep1 w" ..
      then show ?thesis
        by (intro exI [of _ rep1] exI [of _ w] exI [of _ "cw_entries w"]) (use Some 1(1) in auto)
    next
      case 2
      have "upsert_model_catalogue_entry sha ?c w = (Inr (), w\<lparr>cw_entries := dict_put ?k ?c (cw_entries w)\<rparr>)"
        using Cons.prems(1) 2 Some upsert_succeeds [of sha ?c w] by simp
      with Some 2 show ?thesis by (auto simp: get_entry_put Let_def intro!: exI)
    qed
  qed
  then obtain rep1 w1 d1 where s: "seed_entries sha (e # es) rep w = seed_entries sha es rep1 w1"
    and w1: "w1 = w\<lparr>cw_entries := d1\<rparr>"
    and g: "\<And>k. get_entry w1 k = (if k = ?k then Some (seeded_row e (get_entry w k)) else get_entry w k)" by blast
  from Cons.IH [of rep1 w1] Cons.prems obtain rep' d where
    r: "seed_entries sha es rep1 w1 = (Inr rep', w1\<lparr>cw_entries := d\<rparr>)"
    and gd: "\<And>k. dict_get d k = (case List.find (\<lambda>e. me_entry_id e = k) es of
              None \<Rightarrow> get_entry w1 k | Some e \<Rightarrow> Some (seeded_row e (get_entry w1 k)))" by auto
  have "?k \<notin> me_entry_id ` set es" using Cons.prems(2) by auto
  then have "List.find (\<lambda>e. me_entry_id e = ?k) es = None" unfolding find_None_iff_list by (metis imageI)
  then show ?case unfolding s r using gd g by (intro exI conjI allI) (auto simp: w1 split: option.splits)
qed

lemma seeding_rows:
  fixes sha c inventory now
  defines "es \<equiv> build_seed_model_catalogue_entries sha c inventory now"
  shows "\<exists>rep d. ensure_model_catalogue_seeded sha c inventory now w = (Inr rep, w\<lparr>cw_entries := d\<rparr>)"
    and "get_entry (snd (ensure_model_catalogue_seeded sha c inventory now w)) k =
      (case List.find (\<lambda>e. me_entry_id e = k) es of
         None \<Rightarrow> get_entry w k | Some e \<Rightarrow> Some (seeded_row e (get_entry w k)))"
proof -
  have "\<forall>e \<in> set es. entry_ok sha e" "distinct (map me_entry_id es)"
    using seed_rows_facts [where sha = sha and c = c and inventory = inventory and now = now] by (auto simp: es_def)
  from seed_entries_rows [OF this, of _ w] obtain rep d where
    r: "ensure_model_catalogue_seeded sha c inventory now w = (Inr rep, w\<lparr>cw_entries := d\<rparr>)"
    and d: "\<And>k. dict_get d k = (case List.find (\<lambda>e. me_entry_id e = k) es of
         None \<Rightarrow> get_entry w k | Some e \<Rightarrow> Some (seeded_row e (get_entry w k)))"
    unfolding ensure_model_catalogue_seeded_def es_def by blast
  show "\<exists>rep d. ensure_model_catalogue_seeded sha c inventory now w = (Inr rep, w\<lparr>cw_entries := d\<rparr>)" using r by blast
  show "get_entry (snd (ensure_model_catalogue_seeded sha c inventory now w)) k =
      (case List.find (\<lambda>e. me_entry_id e = k) es of
         None \<Rightarrow> get_entry w k | Some e \<Rightarrow> Some (seeded_row e (get_entry w k)))"
    unfolding r using d by (simp add: get_entry_def)
qed

text \<open>What a later seeding makes of a row an earlier one wrote: nothing new.\<close>

definition seed_equal :: "catalogue_entry \<Rightarrow> catalogue_entry \<Rightarrow> bool" where
  "seed_equal e e' \<longleftrightarrow> e' = e\<lparr>me_created_at := me_created_at e', me_last_updated_at := me_last_updated_at e'\<rparr>"

lemma keep_known_simps [simp]: "keep_known None x = x" "keep_known (Some y) x = Some y"
  "keep_known z (keep_known z x) = keep_known z x"
  by (simp_all add: keep_known_def split: option.splits)

lemma same_seed_content_refl [simp]: "same_seed_content e e"
  by (cases e) (simp add: same_seed_content_def)

lemma same_seed_lifecycle: "same_seed_content a b \<Longrightarrow> me_lifecycle_state a = me_lifecycle_state b"
  by (metis same_seed_content_def catalogue_entry.select_convs(9) catalogue_entry.surjective catalogue_entry.update_convs(23,24))

lemma seeded_row_stable:
  assumes "unassessed e" and "seed_equal e e'" and "x = None \<longrightarrow> seeded_row e x = e"
  shows "seeded_row e' (Some (seeded_row e x)) = seeded_row e x"
proof -
  obtain ct lt where e': "e' = e\<lparr>me_created_at := ct, me_last_updated_at := lt\<rparr>" using assms(2) by (auto simp: seed_equal_def)
  have same: "same_seed_content (reconciled_candidate e' y) y" if "y = e \<or> (\<exists>z. y = reconciled_candidate e z)" for y
    using that assms(1) unfolding e' same_seed_content_def reconciled_candidate_def preserve_assessed_capabilities_def
      Let_def unassessed_def operator_terminal_lifecycle_states_def
    by (elim disjE exE) (cases e; simp)+
  have "me_candidate_id_v2 e' = me_candidate_id_v2 e" by (simp add: e')
  moreover have "same_seed_content (reconciled_candidate e' y) y" if "same_seed_content (reconciled_candidate e y) y" for y
  proof -
    have "reconciled_candidate e' y = (reconciled_candidate e y)\<lparr>me_last_updated_at := lt\<rparr>"
      by (simp add: e' reconciled_candidate_def preserve_assessed_capabilities_def Let_def)
    with that show ?thesis by (simp add: same_seed_content_def)
  qed
  ultimately show ?thesis using same by (cases x) (auto simp: seeded_row_def)
qed

definition restamp :: "timestamp \<Rightarrow> catalogue_entry \<Rightarrow> catalogue_entry" where
  "restamp t e = e\<lparr>me_created_at := t, me_last_updated_at := t\<rparr>"

lemma restamp_entry_id [simp]: "me_entry_id (restamp t e) = me_entry_id e"
  by (simp add: restamp_def)

lemma insort_key_map: "insort_key f (g x) (map g xs) = map g (insort_key (\<lambda>x. f (g x)) x xs)"
  by (induction xs) auto

lemma sort_key_map: "sort_key f (map g xs) = map g (sort_key (\<lambda>x. f (g x)) xs)"
  by (induction xs) (simp_all add: insort_key_map)

lemma fold_put_map:
  "(\<And>e. f (g e) = f e) \<Longrightarrow> fold (\<lambda>e. dict_put (f e) e) (map g es) (map (\<lambda>(k, v). (k, g v)) d)
     = map (\<lambda>(k, v). (k, g v)) (fold (\<lambda>e. dict_put (f e) e) es d)"
proof (induction es arbitrary: d)
  case (Cons e es)
  show ?case using Cons.IH [of "dict_put (f e) e d"] Cons.prems dict_put_map [of "f e" "\<lambda>_. g" e d] by simp
qed simp

lemma seeds_restamped:
  "build_seed_model_catalogue_entries sha c inventory t = map (restamp t) (build_seed_model_catalogue_entries sha c inventory now)"
proof -
  have n: "new_catalogue_entry sha p m f r st pin src t = restamp t (new_catalogue_entry sha p m f r st pin src now)" for p m f r st pin src
    by (simp add: restamp_def new_catalogue_entry_def)
  have i: "inventory_seed sha t m = restamp t (inventory_seed sha now m)" for m
    by (simp add: restamp_def inventory_seed_def new_catalogue_entry_def)
  have s: "settings_seed sha m p f v t = map (restamp t) (settings_seed sha m p f v now)" for m p f v
    by (simp add: settings_seed_def n [of _ _ _ _ _ _ _])
  let ?rows = "\<lambda>t. settings_seed sha (xc_provider_mode c) (xc_provider_id c) (xc_model_id c) (xc_model_version c) t
        @ settings_seed sha (xc_provider_mode c) (xc_fallback_provider_id c) (xc_fallback_model_id c)
            (xc_fallback_model_version c) t
        @ map (inventory_seed sha t) inventory"
  have rows: "?rows t = map (restamp t) (?rows now)" by (simp add: s i)
  note f = fold_put_map [of me_entry_id "restamp t" "?rows now" "[]", OF restamp_entry_id, unfolded list.map(1)]
  show ?thesis
    unfolding build_seed_model_catalogue_entries_def rows f sort_key_map by (simp add: case_prod_unfold)
qed

lemma find_map: "(\<And>x. P (f x) = P x) \<Longrightarrow> List.find P (map f xs) = map_option f (List.find P xs)"
  by (induction xs) auto

section \<open>Properties of seeding\<close>

text \<open>
  Seeding respects governance and is idempotent: reconciling the catalogue with the configuration never
  fails and never deletes a row; an existing row keeps its canonical identity, its creation instant, every
  assessed capability fact and every operator degradation, and stays out of service if it is deprecated or
  retired; and seeding again, at any later instant, changes no row.
\<close>

theorem seeding_respects_governance:
  assumes "get_entry w k = Some x" and "ensure_model_catalogue_seeded sha c inventory now w = (r, w')"
  shows "(\<exists>rep. r = Inr rep)
     \<and> (\<exists>y. get_entry w' k = Some y \<and> me_candidate_id_v2 y = me_candidate_id_v2 x \<and> me_created_at y = me_created_at x
          \<and> me_supports_structured_output y = me_supports_structured_output x
          \<and> me_supports_tool_calling y = me_supports_tool_calling x
          \<and> me_capability_degradations y = me_capability_degradations x
          \<and> (me_lifecycle_state x \<in> {DEPRECATED, RETIRED} \<longrightarrow> me_lifecycle_state y = me_lifecycle_state x))
     \<and> get_entry (snd (ensure_model_catalogue_seeded sha c inventory later w')) k' = get_entry w' k'"
proof (intro conjI)
  note rows = seeding_rows(2) [of sha c inventory now w]
  have w': "w' = snd (ensure_model_catalogue_seeded sha c inventory now w)" using assms(2) by simp
  show "\<exists>rep. r = Inr rep" using seeding_rows(1) [of sha c inventory now w] assms(2) by auto
  let ?es = "build_seed_model_catalogue_entries sha c inventory now"
  have un: "unassessed e" if "List.find P ?es = Some e" for P e
    using seed_rows_facts(1) [of sha c inventory now] find_Some_iff_list [OF that] by blast
  show "\<exists>y. get_entry w' k = Some y \<and> me_candidate_id_v2 y = me_candidate_id_v2 x \<and> me_created_at y = me_created_at x
          \<and> me_supports_structured_output y = me_supports_structured_output x
          \<and> me_supports_tool_calling y = me_supports_tool_calling x
          \<and> me_capability_degradations y = me_capability_degradations x
          \<and> (me_lifecycle_state x \<in> {DEPRECATED, RETIRED} \<longrightarrow> me_lifecycle_state y = me_lifecycle_state x)"
  proof (cases "List.find (\<lambda>e. me_entry_id e = k) ?es")
    case (Some e)
    have "me_supports_structured_output (reconciled_candidate e x) = me_supports_structured_output x"
      "me_supports_tool_calling (reconciled_candidate e x) = me_supports_tool_calling x"
      "me_capability_degradations (reconciled_candidate e x) = me_capability_degradations x"
      using un [OF Some] by (auto simp: reconciled_candidate_def Let_def preserve_assessed_capabilities_def unassessed_def)
    then show ?thesis unfolding w' rows using Some assms(1) by (auto simp: seeded_row_def)
  qed (use rows w' assms(1) in auto)
  show "get_entry (snd (ensure_model_catalogue_seeded sha c inventory later w')) k' = get_entry w' k'"
  proof (cases "List.find (\<lambda>e. me_entry_id e = k') ?es")
    case (Some e)
    have "seed_equal e (restamp later e)" by (simp add: seed_equal_def restamp_def)
    from seeded_row_stable [OF un [OF Some] this, of "get_entry w k'"]
    show ?thesis unfolding seeding_rows(2) [of sha c inventory later w'] seeds_restamped [of sha c inventory later now]
      using Some rows [of k'] by (simp add: find_map w' seeded_row_def)
  qed (use seeding_rows(2) [of sha c inventory later w'] seeds_restamped [of sha c inventory later now] in \<open>simp add: find_map\<close>)
qed

lemma seeding_catalogue_ok:
  assumes "catalogue_ok sha w"
  shows "catalogue_ok sha (snd (ensure_model_catalogue_seeded sha c inventory now w))"
  unfolding catalogue_ok_def seeding_rows(2)
proof (intro allI impI)
  fix k y assume y: "(case List.find (\<lambda>e. me_entry_id e = k) (build_seed_model_catalogue_entries sha c inventory now) of
       None \<Rightarrow> get_entry w k | Some e \<Rightarrow> Some (seeded_row e (get_entry w k))) = Some y"
  show "me_entry_id y = k \<and> entry_ok sha y"
  proof (cases "List.find (\<lambda>e. me_entry_id e = k) (build_seed_model_catalogue_entries sha c inventory now)")
    case (Some e)
    then have "entry_ok sha e" "me_entry_id e = k"
      using find_Some_iff_list [OF Some] seed_rows_facts(1) [of sha c inventory now] by blast+
    then show ?thesis using y Some assms
      by (cases "get_entry w k") (auto simp: seeded_row_def catalogue_ok_def split: if_splits)
  qed (use y assms in \<open>auto simp: catalogue_ok_def\<close>)
qed

text \<open>
  C15. Every stored row is its own identity: seeding, and every write through the catalogue's write authority
  whether it succeeds or is refused, keeps each row under the key derived from its provider, revision and
  deployment, carrying the canonical identity of exactly that serving tuple.
\<close>

theorem catalogue_identity_invariant:
  assumes "catalogue_ok sha w"
  shows "catalogue_ok sha (snd (upsert_model_catalogue_entry sha e w))
       \<and> catalogue_ok sha (snd (ensure_model_catalogue_seeded sha c inventory now w))"
  using upsert_catalogue_ok [OF _ assms] seeding_catalogue_ok [OF assms] by (metis prod.collapse)

text \<open>
  A change of seeding authority re-asserts the lifecycle state: DEGRADED is not operator-terminal, so a row an
  operator has degraded takes the state of the next seed that comes from the other authority (the inventory
  superseding settings, or settings after the inventory row is gone), which is eligible to serve.
\<close>

theorem reseeding_revives_degraded_model:
  assumes "get_entry w k = Some x" and "me_lifecycle_state x = DEGRADED"
    and "List.find (\<lambda>e. me_entry_id e = k) (build_seed_model_catalogue_entries sha c inventory now) = Some e"
    and "me_candidate_id_v2 e = me_candidate_id_v2 x" and "me_seed_source e \<noteq> me_seed_source x"
    and "me_lifecycle_state e \<in> {CATALOGUED, APPROVED}"
  shows "\<exists>y. get_entry (snd (ensure_model_catalogue_seeded sha c inventory now w)) k = Some y
       \<and> me_lifecycle_state y = me_lifecycle_state e"
proof -
  have "me_lifecycle_state (reconciled_candidate e x) = me_lifecycle_state e" using assms(2,5) by simp
  moreover from this have "\<not> same_seed_content (reconciled_candidate e x) x"
    using assms(2,6) by (metis same_seed_lifecycle insertE lifecycle_state.distinct singletonD)
  ultimately show ?thesis unfolding seeding_rows(2) using assms(1,3,4) by (simp add: seeded_row_def)
qed

section \<open>A concrete catalogue\<close>

definition empty_catalogue_world :: catalogue_world where
  "empty_catalogue_world = \<lparr>quota_states = [], budget_states = [], degradation_states = [], event_records = [],
     governed_actions = [], attempt_debits = [],
     bw_rates = \<lparr>rw_cards = [], rw_input_cost = None, rw_output_cost = None\<rparr>,
     kw_activations = [], kw_store_mode = ''sqlalchemy'', cw_entries = [], cw_lifecycle_events = [],
     cw_drift_observations = [], cw_policy_versions = [], cw_capability_evidence = [], cw_evaluation_runs = [],
     cw_store_mode = ''sqlalchemy''\<rparr>"

definition sample_approved :: approved_model where
  "sample_approved = \<lparr>am_provider_id = ''text.openai'', am_provider_mode = ''openai'', am_model_id = ''gpt'',
     am_model_version = ''gpt-1'', am_workflow_pack_ids = [''advisor_brief.pack''], am_approval_ref = ''mrm-1'',
     am_approved_from_utc = ''2026-01-01'', am_approved_until_utc = None\<rparr>"

definition live_config :: execution_config where
  "live_config = sample_config\<lparr>xc_provider_mode := ''openai'', xc_provider_id := Some ''text.openai'',
     xc_model_id := Some ''gpt'', xc_model_version := Some ''gpt-1''\<rparr>"

text \<open>The configured model, approved by the inventory and then degraded by an operator.\<close>

definition degraded_world :: catalogue_world where
  "degraded_world = empty_catalogue_world\<lparr>cw_entries := [(''text.openai:gpt-1'',
     (inventory_seed sample_sha ''t0'' sample_approved)\<lparr>me_lifecycle_state := DEGRADED\<rparr>)]\<rparr>"

lemma degraded_world_entry:
  "get_entry degraded_world ''text.openai:gpt-1''
     = Some ((inventory_seed sample_sha ''t0'' sample_approved)\<lparr>me_lifecycle_state := DEGRADED\<rparr>)"
  by (simp add: get_entry_def degraded_world_def)

theorem seeding_respects_governance_witness:
  "\<exists>y. get_entry (snd (ensure_model_catalogue_seeded sample_sha live_config [] ''t1'' degraded_world)) ''text.openai:gpt-1'' = Some y
     \<and> me_created_at y = ''t0''"
proof -
  have "me_created_at ((inventory_seed sample_sha ''t0'' sample_approved)\<lparr>me_lifecycle_state := DEGRADED\<rparr>) = ''t0''"
    by code_simp
  then show ?thesis
    using seeding_respects_governance [OF degraded_world_entry prod.collapse [symmetric],
        where sha = sample_sha and c = live_config and inventory = "[]" and now = "''t1''"] by force
qed

theorem catalogue_identity_invariant_witness:
  "catalogue_ok sample_sha (snd (ensure_model_catalogue_seeded sample_sha live_config [sample_approved] ''t1'' degraded_world))"
proof -
  have "entry_ok sample_sha ((inventory_seed sample_sha ''t0'' sample_approved)\<lparr>me_lifecycle_state := DEGRADED\<rparr>)"
    using inventory_seed_ok [of sample_sha "''t0''" sample_approved] by simp
  moreover have "me_entry_id ((inventory_seed sample_sha ''t0'' sample_approved)\<lparr>me_lifecycle_state := DEGRADED\<rparr>)
      = ''text.openai:gpt-1''" by code_simp
  ultimately have "catalogue_ok sample_sha degraded_world"
    by (auto simp: catalogue_ok_def get_entry_def degraded_world_def split: if_splits)
  from catalogue_identity_invariant [OF this] show ?thesis by blast
qed

theorem reseeding_revives_degraded_model_witness:
  "\<exists>y. get_entry (snd (ensure_model_catalogue_seeded sample_sha live_config [] ''t1'' degraded_world)) ''text.openai:gpt-1'' = Some y
     \<and> me_lifecycle_state y = CATALOGUED"
proof -
  let ?e = "new_catalogue_entry sample_sha ''text.openai'' ''openai'' ''gpt'' ''gpt-1'' CATALOGUED True SETTINGS_LIVE_TEXT ''t1''"
  have "List.find (\<lambda>e. me_entry_id e = ''text.openai:gpt-1'') (build_seed_model_catalogue_entries sample_sha live_config [] ''t1'')
      = Some ?e" by code_simp
  from reseeding_revives_degraded_model [OF degraded_world_entry _ this] show ?thesis
    by (simp add: inventory_seed_def new_catalogue_entry_def sample_approved_def)
qed

end
