(* ===== verification/Json_Text.thy ===== *)
theory Json_Text
  imports Decimal_Text
begin

text \<open>
  The part of Python's \<^verbatim>\<open>json\<close> module that the service relies on: values, the texts \<^verbatim>\<open>json.dumps\<close> writes with
  \<^verbatim>\<open>ensure_ascii\<close>, and \<^verbatim>\<open>json.loads\<close>. Fingerprints, idempotency records and retained request snapshots are such texts
  (\<^verbatim>\<open>_canonical_json\<close> of \<^verbatim>\<open>workflow_pack_execution_idempotency/service.py\<close> and of
  \<^verbatim>\<open>services/workflow_pack_queue_recovery_execution.py\<close>).

  A float is kept as the text Python prints for it; characters are those of one byte, so an escape above \<^verbatim>\<open>\u00ff\<close> is
  not read. The reader has fuel; the length of the text is enough for every text that the writer produces
  (\<open>json_loads_dumps\<close>), and a reader that has run out of fuel refuses.
\<close>

section \<open>Values and their texts\<close>

datatype json = JNull | JBool bool | JInt int | JFloat string | JString string | JList "json list" | JObject "(string, json) dict"

definition hex_digit :: "nat \<Rightarrow> char" where
  "hex_digit d = (if d < 10 then char_of (48 + d) else char_of (87 + d))"

definition json_char :: "char \<Rightarrow> string" where
  "json_char c =
     (let n = (of_char c :: nat) in
      if n = 34 then [CHR 0x5C, CHR 0x22] else if n = 92 then [CHR 0x5C, CHR 0x5C]
      else if n = 10 then [CHR 0x5C, CHR ''n''] else if n = 13 then [CHR 0x5C, CHR ''r''] else if n = 9 then [CHR 0x5C, CHR ''t'']
      else if n = 8 then [CHR 0x5C, CHR ''b''] else if n = 12 then [CHR 0x5C, CHR ''f'']
      else if n < 32 \<or> 126 < n then [CHR 0x5C, CHR ''u'', CHR ''0'', CHR ''0'', hex_digit (n div 16), hex_digit (n mod 16)]
      else [c])"

definition json_string :: "string \<Rightarrow> string" where
  "json_string s = CHR 0x22 # concat (map json_char s) @ [CHR 0x22]"

fun join_text :: "string \<Rightarrow> string list \<Rightarrow> string" where
  "join_text sep [] = []"
| "join_text sep [x] = x"
| "join_text sep (x # y # ys) = x @ sep @ join_text sep (y # ys)"

primrec json_dumps :: "string \<Rightarrow> string \<Rightarrow> json \<Rightarrow> string" where
  "json_dumps sep colon JNull = ''null''"
| "json_dumps sep colon (JBool b) = (if b then ''true'' else ''false'')"
| "json_dumps sep colon (JInt i) = int_str i"
| "json_dumps sep colon (JFloat t) = t"
| "json_dumps sep colon (JString s) = json_string s"
| "json_dumps sep colon (JList xs) = CHR ''['' # join_text sep (map (json_dumps sep colon) xs) @ [CHR '']'']"
| "json_dumps sep colon (JObject kvs) =
     CHR 0x7B # join_text sep (map (\<lambda>(k, t). json_string k @ colon @ t) (map (map_prod id (json_dumps sep colon)) kvs)) @ [CHR 0x7D]"

text \<open>\<^verbatim>\<open>sort_keys=True\<close> orders the members of every object by key.\<close>

primrec sort_json :: "json \<Rightarrow> json" where
  "sort_json JNull = JNull"
| "sort_json (JBool b) = JBool b"
| "sort_json (JInt i) = JInt i"
| "sort_json (JFloat t) = JFloat t"
| "sort_json (JString s) = JString s"
| "sort_json (JList xs) = JList (map sort_json xs)"
| "sort_json (JObject kvs) = JObject (sort_key fst (map (map_prod id sort_json) kvs))"

definition canonical_json :: "json \<Rightarrow> string" where
  "canonical_json j = json_dumps '','' '':'' (sort_json j)"

definition dumps_sorted :: "json \<Rightarrow> string" where
  "dumps_sorted j = json_dumps '', '' '': '' (sort_json j)"

section \<open>Reading\<close>

definition json_space :: "char \<Rightarrow> bool" where
  "json_space c \<longleftrightarrow> (of_char c :: nat) \<in> {32, 9, 10, 13}"

definition skip_space :: "string \<Rightarrow> string" where
  "skip_space s = dropWhile json_space s"

definition hex_value :: "char \<Rightarrow> nat option" where
  "hex_value c =
     (let n = (of_char c :: nat) in
      if 48 \<le> n \<and> n \<le> 57 then Some (n - 48) else if 97 \<le> n \<and> n \<le> 102 then Some (n - 87)
      else if 65 \<le> n \<and> n \<le> 70 then Some (n - 55) else None)"

definition simple_escape :: "char \<Rightarrow> char option" where
  "simple_escape c =
     (if c = CHR 0x22 \<or> c = CHR 0x5C \<or> c = CHR ''/'' then Some c
      else if c = CHR ''n'' then Some (CHR 0x0A) else if c = CHR ''r'' then Some (CHR 0x0D) else if c = CHR ''t'' then Some (CHR 0x09)
      else if c = CHR ''b'' then Some (CHR 0x08) else if c = CHR ''f'' then Some (CHR 0x0C) else None)"

definition unicode_escape :: "string \<Rightarrow> (char \<times> string) option" where
  "unicode_escape s =
     (case s of
        a # b # h # l # r \<Rightarrow>
          if a = CHR ''0'' \<and> b = CHR ''0''
          then Option.bind (hex_value h) (\<lambda>x. map_option (\<lambda>y. (char_of (16 * x + y), r)) (hex_value l))
          else None
      | _ \<Rightarrow> None)"

text \<open>One character of a string literal: what it stands for and what follows it.\<close>

definition read_string_char :: "string \<Rightarrow> (char \<times> string) option" where
  "read_string_char s =
     (case s of
        [] \<Rightarrow> None
      | c # r \<Rightarrow>
        if c = CHR 0x22 \<or> (of_char c :: nat) < 32 then None
        else if c = CHR 0x5C
        then (case r of
                [] \<Rightarrow> None
              | d # r' \<Rightarrow> if d = CHR ''u'' then unicode_escape r' else map_option (\<lambda>x. (x, r')) (simple_escape d))
        else Some (c, r))"

lemma read_string_char_shorter: "read_string_char s = Some (c, r) \<Longrightarrow> length r < length s"
  by (auto simp: read_string_char_def unicode_escape_def Option.bind_eq_Some_conv split: list.splits if_splits)

function read_string :: "string \<Rightarrow> (string \<times> string) option" where
  "read_string s =
     (case s of
        [] \<Rightarrow> None
      | q # s' \<Rightarrow>
        if q = CHR 0x22 then Some ([], s')
        else (case read_string_char s of
                None \<Rightarrow> None
              | Some (c, r) \<Rightarrow> map_option (\<lambda>(t, r'). (c # t, r')) (read_string r)))"
  by pat_completeness auto
termination
  by (relation "measure length") (auto dest: read_string_char_shorter)

declare read_string.simps [simp del]

definition number_char :: "char \<Rightarrow> bool" where
  "number_char c \<longleftrightarrow> is_digit c \<or> c \<in> set ''+-.eE''"

definition read_int :: "string \<Rightarrow> int option" where
  "read_int t =
     (let (neg, ds) = (case t of c # r \<Rightarrow> if c = CHR ''-'' then (True, r) else (False, t) | [] \<Rightarrow> (False, []))
      in if ds = [] \<or> \<not> list_all is_digit ds \<or> (hd ds = CHR ''0'' \<and> length ds \<noteq> 1) then None
         else Some (if neg then - int (digits_val ds) else int (digits_val ds)))"

text \<open>A number with a fraction or an exponent.\<close>

definition float_token :: "string \<Rightarrow> bool" where
  "float_token t \<longleftrightarrow>
     (let r = (case t of c # r \<Rightarrow> if c = CHR ''-'' then r else t | [] \<Rightarrow> []);
          i = takeWhile is_digit r; r1 = dropWhile is_digit r;
          (frac, r2) = (case r1 of c # r' \<Rightarrow> if c = CHR ''.'' then (Some (takeWhile is_digit r'), dropWhile is_digit r') else (None, r1)
                        | [] \<Rightarrow> (None, []));
          (expo, rest) = (case r2 of
                            c # r' \<Rightarrow> if c = CHR ''e'' \<or> c = CHR ''E''
                              then (let d = (case r' of x # y \<Rightarrow> if x = CHR ''+'' \<or> x = CHR ''-'' then y else r' | [] \<Rightarrow> [])
                                    in (Some (takeWhile is_digit d), dropWhile is_digit d))
                              else (None, r2)
                          | [] \<Rightarrow> (None, []))
      in i \<noteq> [] \<and> (hd i = CHR ''0'' \<longrightarrow> length i = 1) \<and> frac \<noteq> Some [] \<and> expo \<noteq> Some [] \<and> rest = []
         \<and> (frac \<noteq> None \<or> expo \<noteq> None))"

definition read_number :: "string \<Rightarrow> (json \<times> string) option" where
  "read_number s =
     (let t = takeWhile number_char s; r = dropWhile number_char s
      in case read_int t of Some i \<Rightarrow> Some (JInt i, r) | None \<Rightarrow> if float_token t then Some (JFloat t, r) else None)"

definition object_of_pairs :: "(string \<times> json) list \<Rightarrow> json" where
  "object_of_pairs kvs = JObject (fold (\<lambda>(k, v). dict_put k v) kvs [])"

definition read_literal :: "string \<Rightarrow> (json \<times> string) option" where
  "read_literal s =
     (if take 4 s = ''null'' then Some (JNull, drop 4 s)
      else if take 4 s = ''true'' then Some (JBool True, drop 4 s)
      else if take 5 s = ''false'' then Some (JBool False, drop 5 s) else None)"

fun read_value :: "nat \<Rightarrow> string \<Rightarrow> (json \<times> string) option"
  and read_items :: "nat \<Rightarrow> string \<Rightarrow> (json list \<times> string) option"
  and read_members :: "nat \<Rightarrow> string \<Rightarrow> ((string \<times> json) list \<times> string) option" where
  "read_value 0 s = None"
| "read_value (Suc n) s =
     (case skip_space s of
        [] \<Rightarrow> None
      | c # r \<Rightarrow>
        if c = CHR 0x22 then map_option (\<lambda>(t, r'). (JString t, r')) (read_string r)
        else if c = CHR ''[''
        then (case skip_space r of
                [] \<Rightarrow> None
              | d # r' \<Rightarrow> if d = CHR '']'' then Some (JList [], r') else map_option (\<lambda>(xs, r'). (JList xs, r')) (read_items n (d # r')))
        else if c = CHR 0x7B
        then (case skip_space r of
                [] \<Rightarrow> None
              | d # r' \<Rightarrow> if d = CHR 0x7D then Some (JObject [], r') else map_option (\<lambda>(kvs, r'). (object_of_pairs kvs, r')) (read_members n (d # r')))
        else if is_digit c \<or> c = CHR ''-'' then read_number (c # r)
        else read_literal (c # r))"
| "read_items 0 s = None"
| "read_items (Suc n) s =
     (case read_value n s of
        None \<Rightarrow> None
      | Some (v, r) \<Rightarrow>
        (case skip_space r of
           [] \<Rightarrow> None
         | c # r' \<Rightarrow> if c = CHR '']'' then Some ([v], r')
                    else if c = CHR '','' then map_option (\<lambda>(vs, r''). (v # vs, r'')) (read_items n r') else None))"
| "read_members 0 s = None"
| "read_members (Suc n) s =
     (case skip_space s of
        [] \<Rightarrow> None
      | q # r \<Rightarrow>
        if q \<noteq> CHR 0x22 then None
        else (case read_string r of
                None \<Rightarrow> None
              | Some (k, r1) \<Rightarrow>
                (case skip_space r1 of
                   [] \<Rightarrow> None
                 | c # r2 \<Rightarrow>
                   if c \<noteq> CHR '':'' then None
                   else (case read_value n r2 of
                           None \<Rightarrow> None
                         | Some (v, r3) \<Rightarrow>
                           (case skip_space r3 of
                              [] \<Rightarrow> None
                            | d # r4 \<Rightarrow> if d = CHR 0x7D then Some ([(k, v)], r4)
                                       else if d = CHR '','' then map_option (\<lambda>(kvs, r5). ((k, v) # kvs, r5)) (read_members n r4)
                                       else None)))))"

definition json_loads :: "string \<Rightarrow> json option" where
  "json_loads s = (case read_value (length s) s of None \<Rightarrow> None | Some (j, r) \<Rightarrow> if skip_space r = [] then Some j else None)"

section \<open>Strings read back\<close>

lemma hex_value_digit [simp]: "d < 16 \<Longrightarrow> hex_value (hex_digit d) = Some d"
  by (auto simp: hex_value_def hex_digit_def Let_def)

lemma char_eq_iff_code: "c = d \<longleftrightarrow> (of_char c :: nat) = of_char d"
  by simp

lemma read_string_char_json: "read_string_char (json_char c @ r) = Some (c, r)"
proof -
  let ?n = "of_char c :: nat"
  have div: "?n div 16 < 16" "?n mod 16 < 16" "16 * (?n div 16) + ?n mod 16 = ?n"
    using nat_of_char_less_256 [of c] by (auto simp: less_mult_imp_div_less)
  consider "?n \<in> {34, 92, 10, 13, 9, 8, 12}" | "?n \<notin> {34, 92, 10, 13, 9, 8, 12}" "?n < 32 \<or> 126 < ?n"
    | "?n \<notin> {34, 92}" "32 \<le> ?n" "?n \<le> 126" by fastforce
  then show ?thesis
  proof cases
    case 1
    then have "c \<in> {CHR 0x22, CHR 0x5C, CHR 0x0A, CHR 0x0D, CHR 0x09, CHR 0x08, CHR 0x0C}" by (simp add: char_eq_iff_code)
    then show ?thesis by (auto simp: json_char_def read_string_char_def simple_escape_def)
  next
    case 2
    then have "json_char c = [CHR 0x5C, CHR ''u'', CHR ''0'', CHR ''0'', hex_digit (?n div 16), hex_digit (?n mod 16)]"
      by (auto simp: json_char_def Let_def)
    then show ?thesis using div by (simp add: read_string_char_def unicode_escape_def)
  next
    case 3
    then have "json_char c = [c]" "c \<noteq> CHR 0x22" "c \<noteq> CHR 0x5C" by (auto simp: json_char_def Let_def)
    then show ?thesis using 3 by (simp add: read_string_char_def)
  qed
qed

lemma json_char_head: "\<exists>q s'. json_char c @ r = q # s' \<and> q \<noteq> CHR 0x22"
  using read_string_char_json [of c r] by (auto simp: read_string_char_def split: list.splits if_splits)

lemma read_string_json [simp]: "read_string (concat (map json_char s) @ CHR 0x22 # r) = Some (s, r)"
proof (induction s)
  case Nil
  then show ?case by (subst read_string.simps) simp
next
  case (Cons c s)
  let ?t = "json_char c @ concat (map json_char s) @ CHR 0x22 # r"
  obtain q s' where q: "?t = q # s'" "q \<noteq> CHR 0x22" using json_char_head by blast
  have "read_string_char ?t = Some (c, concat (map json_char s) @ CHR 0x22 # r)" by (rule read_string_char_json)
  then have "read_string ?t = Some (c # s, r)" using q Cons.IH by (subst read_string.simps) simp
  then show ?case by simp
qed

section \<open>Numbers read back\<close>

definition number_ends :: "string \<Rightarrow> bool" where
  "number_ends r \<longleftrightarrow> (r = [] \<or> \<not> number_char (hd r))"

lemma span_number: "list_all number_char t \<Longrightarrow> number_ends r \<Longrightarrow> takeWhile number_char (t @ r) = t \<and> dropWhile number_char (t @ r) = r"
  by (cases r) (auto simp: number_ends_def list_all_iff takeWhile_append2)

lemma nat_str_head: "hd (nat_str n) = CHR ''0'' \<Longrightarrow> length (nat_str n) = 1"
proof (induction n rule: nat_str.induct)
  case (1 n)
  show ?case
  proof (cases "n < 10")
    case False
    have "hd (nat_str (n div 10)) \<noteq> CHR ''0''"
    proof
      assume h: "hd (nat_str (n div 10)) = CHR ''0''"
      then have "length (nat_str (n div 10)) = 1" using 1(1) False by simp
      then have "nat_str (n div 10) = [CHR ''0'']" using h by (cases "nat_str (n div 10)") auto
      then have "n div 10 = 0" using digits_val_nat_str [of "n div 10"] by (simp add: digits_val_def digit_val_def)
      then show False using False by simp
    qed
    then show ?thesis using 1(2) False by (subst (asm) nat_str.simps) simp
  qed (subst nat_str.simps, simp)
qed

lemma read_int_str [simp]: "read_int (int_str i) = Some i"
proof (cases "i < 0")
  case True
  then show ?thesis using nat_str_head [of "nat (- i)"] by (auto simp: read_int_def int_str_def)
next
  case False
  obtain c r where c: "nat_str (nat i) = c # r" by (cases "nat_str (nat i)") auto
  then have "is_digit c" using nat_str_digits [of c "nat i"] by simp
  then have "c \<noteq> CHR ''-''" by auto
  moreover have "list_all is_digit (c # r)" using list_all_nat_str [of "nat i"] c by simp
  moreover have "digits_val (c # r) = nat i" using digits_val_nat_str [of "nat i"] c by simp
  moreover have "c = CHR ''0'' \<Longrightarrow> r = []" using nat_str_head [of "nat i"] c by simp
  ultimately show ?thesis using False c by (auto simp: read_int_def int_str_def)
qed

lemma int_str_chars: "list_all number_char (int_str i)"
  using list_all_nat_str by (auto simp: int_str_def number_char_def list_all_iff)

lemma read_number_int: "number_ends r \<Longrightarrow> read_number (int_str i @ r) = Some (JInt i, r)"
  using span_number [OF int_str_chars] by (simp add: read_number_def)

section \<open>Every value reads back\<close>

text \<open>Well-formed values: float texts that Python prints, and objects without duplicate keys, as a dictionary has none.\<close>

primrec json_wf :: "json \<Rightarrow> bool" where
  "json_wf JNull \<longleftrightarrow> True"
| "json_wf (JBool b) \<longleftrightarrow> True"
| "json_wf (JInt i) \<longleftrightarrow> True"
| "json_wf (JFloat t) \<longleftrightarrow> float_token t \<and> list_all number_char t \<and> read_int t = None"
| "json_wf (JString s) \<longleftrightarrow> True"
| "json_wf (JList xs) \<longleftrightarrow> list_all id (map json_wf xs)"
| "json_wf (JObject kvs) \<longleftrightarrow> dict_wf kvs \<and> list_all id (dict_values (map (map_prod id json_wf) kvs))"

primrec fuel_of :: "json \<Rightarrow> nat" where
  "fuel_of JNull = 1"
| "fuel_of (JBool b) = 1"
| "fuel_of (JInt i) = 1"
| "fuel_of (JFloat t) = 1"
| "fuel_of (JString s) = 1"
| "fuel_of (JList xs) = Suc (sum_list (map Suc (map fuel_of xs)))"
| "fuel_of (JObject kvs) = Suc (sum_list (map (Suc \<circ> snd) (map (map_prod id fuel_of) kvs)))"

abbreviation spaces :: "string \<Rightarrow> bool" where
  "spaces s \<equiv> list_all json_space s"

lemma skip_space_append [simp]: "spaces w \<Longrightarrow> skip_space (w @ s) = skip_space s"
  by (auto simp: skip_space_def list_all_iff dropWhile_append2)

lemma skip_space_Cons [simp]: "\<not> json_space c \<Longrightarrow> skip_space (c # s) = c # s"
  by (simp add: skip_space_def)

lemma json_space_simps [simp]:
  "\<not> json_space CHR ''[''" "\<not> json_space CHR '']''" "\<not> json_space (CHR 0x7B)" "\<not> json_space (CHR 0x7D)"
  "\<not> json_space (CHR 0x22)" "\<not> json_space CHR '',''" "\<not> json_space CHR '':''" "\<not> json_space CHR ''-''"
  "\<not> json_space CHR ''n''" "\<not> json_space CHR ''t''" "\<not> json_space CHR ''f''"
  by (simp_all add: json_space_def)

lemma digit_not_space: "is_digit c \<Longrightarrow> \<not> json_space c"
  by (auto simp: is_digit_def json_space_def)

lemma number_ends_simps [simp]:
  "number_ends []" "number_ends (CHR '','' # s)" "number_ends (CHR '']'' # s)" "number_ends (CHR 0x7D # s)"
  by (simp_all add: number_ends_def number_char_def is_digit_def)

lemma int_str_head: "\<exists>c r. int_str i = c # r \<and> (is_digit c \<or> c = CHR ''-'')"
proof (cases "nat_str (nat i)")
  case (Cons c r)
  then have "is_digit c" using nat_str_digits [of c "nat i"] by simp
  with Cons show ?thesis by (auto simp: int_str_def)
qed simp

lemma float_token_head: "float_token t \<Longrightarrow> \<exists>c r. t = c # r \<and> (is_digit c \<or> c = CHR ''-'')"
  by (cases t) (auto simp: float_token_def Let_def split: if_splits)

lemma digit_distinct: "is_digit c \<Longrightarrow> c \<noteq> CHR 0x22 \<and> c \<noteq> CHR ''['' \<and> c \<noteq> CHR 0x7B \<and> c \<noteq> CHR '']'' \<and> c \<noteq> CHR 0x7D"
  by (auto simp: is_digit_def)

text \<open>The first character of a text: never a space, never a closing bracket.\<close>

lemma dumps_head:
  assumes "json_wf j"
  shows "\<exists>c r. json_dumps sep colon j = c # r \<and> \<not> json_space c \<and> c \<noteq> CHR '']'' \<and> c \<noteq> CHR 0x7D"
proof (cases j)
  case (JInt i)
  then show ?thesis using int_str_head [of i] digit_distinct digit_not_space by fastforce
next
  case (JFloat t)
  then show ?thesis using float_token_head [of t] digit_distinct digit_not_space assms by fastforce
qed (auto simp: json_string_def)

lemma read_number_value:
  assumes "c # r = t @ s" and "is_digit c \<or> c = CHR ''-''"
  shows "read_value (Suc n) (t @ s) = read_number (t @ s)"
  using assms(2) digit_distinct [of c] digit_not_space [of c] by (auto simp: assms(1) [symmetric])

lemma read_value_space [simp]: "spaces w \<Longrightarrow> read_value n (w @ s) = read_value n s"
  by (cases n) simp_all

lemma read_members_space [simp]: "spaces w \<Longrightarrow> read_members n (w @ s) = read_members n s"
  by (cases n) simp_all

lemma read_items_space [simp]: "spaces w \<Longrightarrow> read_items n (w @ s) = read_items n s"
  by (cases n) simp_all

definition reads_back :: "string \<Rightarrow> string \<Rightarrow> json \<Rightarrow> bool" where
  "reads_back sep colon j \<longleftrightarrow>
     (\<forall>n r. fuel_of j \<le> n \<longrightarrow> number_ends r \<longrightarrow> read_value n (json_dumps sep colon j @ r) = Some (j, r))"

lemma reads_backD: "reads_back sep colon j \<Longrightarrow> fuel_of j \<le> n \<Longrightarrow> number_ends r \<Longrightarrow> read_value n (json_dumps sep colon j @ r) = Some (j, r)"
  by (simp add: reads_back_def)

lemma read_items_dumps:
  assumes "spaces w" and "xs \<noteq> []" and "\<forall>x\<in>set xs. reads_back (CHR '','' # w) colon x" and "sum_list (map Suc (map fuel_of xs)) \<le> n"
  shows "read_items n (join_text (CHR '','' # w) (map (json_dumps (CHR '','' # w) colon) xs) @ CHR '']'' # r) = Some (xs, r)"
  using assms(2-)
proof (induction xs arbitrary: n rule: list_nonempty_induct)
  case (single x)
  then obtain m where "n = Suc m" "fuel_of x \<le> m" by (cases n) auto
  then show ?case using single by (simp add: reads_backD)
next
  case (cons x xs)
  then obtain m where m: "n = Suc m" "fuel_of x \<le> m" "sum_list (map Suc (map fuel_of xs)) \<le> m" by (cases n) auto
  obtain y ys where xs: "xs = y # ys" using cons.hyps by (cases xs) auto
  have "read_items m (w @ join_text (CHR '','' # w) (map (json_dumps (CHR '','' # w) colon) xs) @ CHR '']'' # r) = Some (xs, r)"
    using cons m assms(1) by simp
  then show ?case using cons.prems m xs by (simp add: reads_backD)
qed

lemma read_members_dumps:
  assumes "spaces w" and "spaces w'" and "kvs \<noteq> []" and "\<forall>kv\<in>set kvs. reads_back (CHR '','' # w) (CHR '':'' # w') (snd kv)"
    and "sum_list (map (\<lambda>kv. Suc (fuel_of (snd kv))) kvs) \<le> n"
  shows "read_members n (join_text (CHR '','' # w) (map (\<lambda>kv. json_string (fst kv) @ CHR '':'' # w' @ json_dumps (CHR '','' # w) (CHR '':'' # w') (snd kv)) kvs)
      @ CHR 0x7D # r) = Some (kvs, r)"
  using assms(3-)
proof (induction kvs arbitrary: n rule: list_nonempty_induct)
  case (single kv)
  then obtain m where "n = Suc m" "fuel_of (snd kv) \<le> m" by (cases n) auto
  then show ?case using single assms(2) by (simp add: reads_backD json_string_def)
next
  case (cons kv kvs)
  then obtain m where m: "n = Suc m" "fuel_of (snd kv) \<le> m" "sum_list (map (\<lambda>kv. Suc (fuel_of (snd kv))) kvs) \<le> m" by (cases n) auto
  obtain y ys where kvs: "kvs = y # ys" using cons.hyps by (cases kvs) auto
  let ?t = "join_text (CHR '','' # w) (map (\<lambda>kv. json_string (fst kv) @ CHR '':'' # w' @ json_dumps (CHR '','' # w) (CHR '':'' # w') (snd kv)) kvs)"
  have "read_members m (w @ ?t @ CHR 0x7D # r) = Some (kvs, r)" using cons m assms(1) by simp
  then show ?case using cons.prems m kvs assms(2) by (simp add: reads_backD json_string_def)
qed

lemma object_of_distinct_pairs: "dict_wf kvs \<Longrightarrow> object_of_pairs kvs = JObject kvs"
  using fold_put_distinct [of fst kvs "[]" snd] by (simp add: object_of_pairs_def case_prod_beta')

lemma join_text_head: "xs \<noteq> [] \<Longrightarrow> hd xs = c # r \<Longrightarrow> \<exists>r'. join_text sep xs = c # r'"
  by (cases "(sep, xs)" rule: join_text.cases) auto

lemma number_reads_back:
  assumes "\<exists>c r. json_dumps sep colon j = c # r \<and> (is_digit c \<or> c = CHR ''-'')" and "fuel_of j = 1"
    and "\<And>s. number_ends s \<Longrightarrow> read_number (json_dumps sep colon j @ s) = Some (j, s)"
  shows "reads_back sep colon j"
  unfolding reads_back_def
proof (intro allI impI)
  fix n s
  assume "fuel_of j \<le> n" and "number_ends s"
  then obtain m where m: "n = Suc m" using assms(2) by (cases n) auto
  obtain c r where "json_dumps sep colon j = c # r" "is_digit c \<or> c = CHR ''-''" using assms(1) by blast
  then have "read_value n (json_dumps sep colon j @ s) = read_number (json_dumps sep colon j @ s)"
    unfolding m using read_number_value [of c "r @ s" "json_dumps sep colon j" s m] by (simp del: read_value.simps)
  then show "read_value n (json_dumps sep colon j @ s) = Some (j, s)" using assms(3) \<open>number_ends s\<close> by simp
qed

theorem value_reads_back:
  assumes "spaces w" and "spaces w'"
  shows "json_wf j \<Longrightarrow> reads_back (CHR '','' # w) (CHR '':'' # w') j"
proof (induction j)
  case (JInt i)
  show ?case using int_str_head [of i] by (intro number_reads_back) (auto simp: read_number_int)
next
  case (JFloat t)
  have "read_number (t @ s) = Some (JFloat t, s)" if "number_ends s" for s
    using span_number [OF _ that, of t] JFloat by (simp add: read_number_def)
  then show ?case using float_token_head JFloat by (intro number_reads_back) auto
next
  case (JList xs)
  then have wf: "\<forall>x\<in>set xs. json_wf x" "\<forall>x\<in>set xs. reads_back (CHR '','' # w) (CHR '':'' # w') x" by (auto simp: list_all_iff)
  show ?case
  proof (cases "xs = []")
    case False
    obtain c r where c: "hd (map (json_dumps (CHR '','' # w) (CHR '':'' # w')) xs) = c # r" "\<not> json_space c" "c \<noteq> CHR '']''"
      using dumps_head [of "hd xs" "CHR '','' # w" "CHR '':'' # w'"] wf(1) False by (auto simp: hd_map)
    then obtain r' where r': "join_text (CHR '','' # w) (map (json_dumps (CHR '','' # w) (CHR '':'' # w')) xs) = c # r'"
      using join_text_head [of "map (json_dumps (CHR '','' # w) (CHR '':'' # w')) xs"] False by auto
    show ?thesis unfolding reads_back_def
    proof (intro allI impI)
      fix n s
      assume "fuel_of (JList xs) \<le> n"
      then obtain m where m: "n = Suc m" "sum_list (map Suc (map fuel_of xs)) \<le> m" by (cases n) auto
      have "read_items m ((c # r') @ CHR '']'' # s) = Some (xs, s)"
        using read_items_dumps [OF assms(1) False wf(2) m(2), of s] r' by simp
      then show "read_value n (json_dumps (CHR '','' # w) (CHR '':'' # w') (JList xs) @ s) = Some (JList xs, s)" using m r' c by simp
    qed
  qed (auto simp: reads_back_def dest!: Suc_le_D)
next
  case (JObject kvs)
  then have wf: "\<forall>kv\<in>set kvs. reads_back (CHR '','' # w) (CHR '':'' # w') (snd kv)" "dict_wf kvs" by (auto simp: list_all_iff snds.simps)
  let ?m = "\<lambda>kv. json_string (fst kv) @ CHR '':'' # w' @ json_dumps (CHR '','' # w) (CHR '':'' # w') (snd kv)"
  have shown: "json_dumps (CHR '','' # w) (CHR '':'' # w') (JObject kvs) = CHR 0x7B # join_text (CHR '','' # w) (map ?m kvs) @ [CHR 0x7D]"
    by (simp add: comp_def case_prod_beta')
  show ?case
  proof (cases "kvs = []")
    case False
    then obtain r' where r': "join_text (CHR '','' # w) (map ?m kvs) = CHR 0x22 # r'"
      using join_text_head [of "map ?m kvs" "CHR 0x22"] by (auto simp: hd_map json_string_def)
    show ?thesis unfolding reads_back_def shown
    proof (intro allI impI)
      fix n s
      assume "fuel_of (JObject kvs) \<le> n"
      then obtain m where m: "n = Suc m" "sum_list (map (\<lambda>kv. Suc (fuel_of (snd kv))) kvs) \<le> m"
        by (cases n) (auto simp: comp_def)
      have "read_members m (CHR 0x22 # r' @ CHR 0x7D # s) = Some (kvs, s)"
        using read_members_dumps [OF assms False wf(1) m(2), of s] r' by simp
      then show "read_value n ((CHR 0x7B # join_text (CHR '','' # w) (map ?m kvs) @ [CHR 0x7D]) @ s) = Some (JObject kvs, s)"
        using m r' object_of_distinct_pairs [OF wf(2)] by simp
    qed
  qed (auto simp: reads_back_def dest!: Suc_le_D)
qed (auto simp: reads_back_def json_string_def read_literal_def is_digit_def dest!: Suc_le_D)

lemma length_join_text: "length (join_text sep xs) = sum_list (map length xs) + (length xs - 1) * length sep"
  by (induction sep xs rule: join_text.induct) simp_all

lemma fuel_le_length: "json_wf j \<Longrightarrow> fuel_of j \<le> length (json_dumps (CHR '','' # w) (CHR '':'' # w') j)"
proof (induction j)
  case (JInt i)
  then show ?case using int_str_head [of i] by auto
next
  case (JFloat t)
  then show ?case using float_token_head [of t] by auto
next
  case (JList xs)
  let ?d = "json_dumps (CHR '','' # w) (CHR '':'' # w')"
  have "sum_list (map (\<lambda>x. Suc (fuel_of x)) xs) \<le> sum_list (map (\<lambda>x. Suc (length (?d x))) xs)"
    by (rule sum_list_mono) (use JList in \<open>auto simp: list_all_iff\<close>)
  also have "\<dots> \<le> Suc (length (join_text (CHR '','' # w) (map ?d xs)))"
    by (cases xs) (simp_all add: length_join_text comp_def sum_list_Suc)
  finally show ?case by (simp add: comp_def)
next
  case (JObject kvs)
  let ?d = "json_dumps (CHR '','' # w) (CHR '':'' # w')"
  let ?m = "\<lambda>kv. json_string (fst kv) @ CHR '':'' # w' @ ?d (snd kv)"
  have "sum_list (map (\<lambda>kv. Suc (fuel_of (snd kv))) kvs) \<le> sum_list (map (\<lambda>kv. length (?m kv)) kvs)"
  proof (rule sum_list_mono)
    fix kv
    assume kv: "kv \<in> set kvs"
    then have "fuel_of (snd kv) \<le> length (?d (snd kv))" using JObject by (auto simp: list_all_iff snds.simps)
    then show "Suc (fuel_of (snd kv)) \<le> length (?m kv)" by simp
  qed
  also have "\<dots> \<le> length (join_text (CHR '','' # w) (map ?m kvs))" by (simp add: length_join_text comp_def)
  finally show ?case by (simp add: comp_def case_prod_beta')
qed (simp_all add: json_string_def)

lemma json_loads_dumps:
  assumes "json_wf j" and "spaces w" and "spaces w'"
  shows "json_loads (json_dumps (CHR '','' # w) (CHR '':'' # w') j) = Some j"
  using reads_backD [OF value_reads_back [OF assms(2,3,1)] fuel_le_length [OF assms(1)], of "[]"]
  by (simp add: json_loads_def skip_space_def)

lemma sort_json_wf: "json_wf j \<Longrightarrow> json_wf (sort_json j)"
proof (induction j)
  case (JObject kvs)
  then show ?case by (auto simp: list_all_iff distinct_map_sort_key snds.simps map_prod_def case_prod_beta' comp_def)
qed (auto simp: list_all_iff)

text \<open>
  C32. What is written as JSON reads back: \<^verbatim>\<open>json.loads\<close> of the canonical text and of the sorted text of a value is the value
  with the members of its objects in key order.
\<close>

theorem json_text_roundtrip:
  assumes "json_wf j"
  shows "json_loads (canonical_json j) = Some (sort_json j) \<and> json_loads (dumps_sorted j) = Some (sort_json j)"
  using json_loads_dumps [OF sort_json_wf [OF assms], of "[]" "[]"] json_loads_dumps [OF sort_json_wf [OF assms], of "'' ''" "'' ''"]
  by (simp add: canonical_json_def dumps_sorted_def json_space_def)

theorem json_text_roundtrip_witness:
  "json_loads (canonical_json (JObject [(''b'', JInt (-7)), (''a'', JList [JString ''x\<newline>y'', JNull, JFloat ''1.5''])]))
     = Some (JObject [(''a'', JList [JString ''x\<newline>y'', JNull, JFloat ''1.5'']), (''b'', JInt (-7))])"
proof -
  have "json_wf (JObject [(''b'', JInt (-7)), (''a'', JList [JString ''x\<newline>y'', JNull, JFloat ''1.5''])])" by code_simp
  from json_text_roundtrip [OF this] show ?thesis by simp
qed

lemma canonical_json_inject:
  assumes "json_wf a" and "json_wf b"
  shows "canonical_json a = canonical_json b \<longleftrightarrow> sort_json a = sort_json b"
proof
  assume "canonical_json a = canonical_json b"
  then have "json_loads (json_dumps '','' '':'' (sort_json a)) = json_loads (json_dumps '','' '':'' (sort_json b))" by (simp only: canonical_json_def)
  then show "sort_json a = sort_json b"
    using json_loads_dumps [OF sort_json_wf [OF assms(1)], of "[]" "[]"] json_loads_dumps [OF sort_json_wf [OF assms(2)], of "[]" "[]"] by simp
qed (simp add: canonical_json_def)

end
