(* ===== verification/Candidate_Universe.thy ===== *)
theory Candidate_Universe
  imports Model_Catalogue Provider_Quota Json_Text
begin

text \<open>
  Which models may serve: the eligibility half of \<^verbatim>\<open>services/model_catalogue.py\<close>, the read and the write side of
  \<^verbatim>\<open>services/capability_evidence.py\<close>, the connection material of \<^verbatim>\<open>services/provider_connection_material.py\<close>
  and \<^verbatim>\<open>contracts/capability_requirements.py\<close>.

  The value of the connections setting as the JSON library reads it (\<open>None\<close> for text that is not JSON), the
  process environment and the test for an output-contract file are arguments.
\<close>

section \<open>Capability requirements\<close>

record capability_requirements =
  cr_structured_output_required :: "bool option"
  cr_tool_calling_required :: "bool option"
  cr_max_latency_ms :: "int option"
  cr_max_estimated_cost_usd :: "rat option"

definition execution_ineligible_lifecycle_states :: "lifecycle_state list" where
  "execution_ineligible_lifecycle_states = [DEGRADED, DEPRECATED, RETIRED]"

definition scoped_structured_output_evidence ::
  "(string \<Rightarrow> bool) \<Rightarrow> catalogue_entry \<Rightarrow> string option \<Rightarrow> bool" where
  "scoped_structured_output_evidence contract_exists e key =
     (if \<not> truthy key then False
      else the key \<in> set (me_approved_workflow_pack_ids e) \<and> contract_exists (the key))"

definition evidence_applies ::
  "'a catalogue_world_scheme \<Rightarrow> catalogue_entry \<Rightarrow> string option \<Rightarrow> capability_evidence \<Rightarrow> bool" where
  "evidence_applies w e key r \<longleftrightarrow>
     ce_verdict r = ''PASS'' \<and> ce_model_revision r = me_model_revision e
     \<and> (case dict_get (cw_evaluation_runs w) (ce_evaluation_run_id r) of
          None \<Rightarrow> False
        | Some run \<Rightarrow> ev_lifecycle_status run = ''COMPLETED'' \<and> ev_verdict run = Some ''PASS'')
     \<and> (ce_scope_type r = ''GLOBAL''
        \<or> ce_scope_type r = ''OUTPUT_CONTRACT'' \<and> key \<noteq> None \<and> ce_scope_key r = key)"

definition applicable_capability_evidence ::
  "'a catalogue_world_scheme \<Rightarrow> catalogue_entry \<Rightarrow> string \<Rightarrow> string option \<Rightarrow> capability_evidence option" where
  "applicable_capability_evidence w e dimension key =
     List.find (evidence_applies w e key) (list_capability_evidence (me_candidate_id_v2 e) dimension w)"

text \<open>One pass of the loop over the two catalogue-backed requirements, in the order of the table.\<close>

definition enforce_requirement ::
  "(string \<Rightarrow> bool) \<Rightarrow> 'a catalogue_world_scheme \<Rightarrow> catalogue_entry \<Rightarrow> string option
     \<Rightarrow> bool option \<Rightarrow> string \<Rightarrow> bool option \<Rightarrow> bool \<Rightarrow> unit result" where
  "enforce_requirement contract_exists w e key required dimension known scoped =
     (if required \<noteq> Some True then Inr ()
      else if dict_get (me_capability_degradations e) dimension \<noteq> None
      then Inl (ProviderExecutionError CAPABILITY_DEGRADED)
      else if known = Some True then Inr ()
      else if known = Some False then Inl (ProviderExecutionError CAPABILITY_NOT_SUPPORTED)
      else if scoped \<and> scoped_structured_output_evidence contract_exists e key then Inr ()
      else if applicable_capability_evidence w e dimension key \<noteq> None then Inr ()
      else Inl (ProviderExecutionError CAPABILITY_UNKNOWN))"

definition enforce_capability_requirements ::
  "(string \<Rightarrow> bool) \<Rightarrow> 'a catalogue_world_scheme \<Rightarrow> capability_requirements option \<Rightarrow> catalogue_entry \<Rightarrow> string option
     \<Rightarrow> unit result" where
  "enforce_capability_requirements contract_exists w reqs e key =
     (case reqs of
        None \<Rightarrow> Inr ()
      | Some q \<Rightarrow>
          (case enforce_requirement contract_exists w e key (cr_structured_output_required q)
                  ''supports_structured_output'' (me_supports_structured_output e) True of
             Inl err \<Rightarrow> Inl err
           | Inr _ \<Rightarrow> enforce_requirement contract_exists w e key (cr_tool_calling_required q)
                  ''supports_tool_calling'' (me_supports_tool_calling e) False))"

text \<open>The write side: the claims a PASS run proves, bound to the one candidate that served every case.\<close>

datatype proof_scope = GLOBAL_SCOPE | OUTPUT_CONTRACT_SCOPE

fun proof_scope_value :: "proof_scope \<Rightarrow> string" where
  "proof_scope_value GLOBAL_SCOPE = ''GLOBAL''"
| "proof_scope_value OUTPUT_CONTRACT_SCOPE = ''OUTPUT_CONTRACT''"

record capability_proof =
  cp_dimension :: string
  cp_scope_type :: proof_scope
  cp_scope_key :: "string option"

record fixture_family =
  ff_fixture_id :: string
  ff_proves :: "capability_proof list"

record fixture_manifest =
  fm_version :: string
  fm_content_digest :: "string option"
  fm_families :: "fixture_family list"

definition evidence_record ::
  "evaluation_run \<Rightarrow> catalogue_entry \<Rightarrow> string \<Rightarrow> timestamp \<Rightarrow> capability_proof \<Rightarrow> capability_evidence" where
  "evidence_record run e candidate now p =
     \<lparr>ce_evidence_id = ''capev_'' @ ev_run_id run @ ''_'' @ cp_dimension p @ ''_''
        @ (if truthy (cp_scope_key p) then the (cp_scope_key p) else ''global''),
      ce_candidate_id_v2 = candidate, ce_model_revision = me_model_revision e, ce_dimension = cp_dimension p,
      ce_scope_type = proof_scope_value (cp_scope_type p), ce_scope_key = cp_scope_key p, ce_fixture_id = ev_fixture_id run,
      ce_manifest_version = ev_manifest_version run, ce_manifest_content_digest = ev_manifest_content_digest run,
      ce_evaluation_run_id = ev_run_id run, ce_verdict = ''PASS'', ce_triggered_by = Some (ev_triggered_by run),
      ce_recorded_at = now\<rparr>"

text \<open>The results contribute the candidate that served each case; a run that mixes candidates records nothing.\<close>

definition record_capability_evidence_for_pass_run ::
  "fixture_manifest \<Rightarrow> evaluation_run \<Rightarrow> string option list \<Rightarrow> timestamp \<Rightarrow> 'a catalogue_world_scheme
     \<Rightarrow> 'a catalogue_world_scheme" where
  "record_capability_evidence_for_pass_run manifest run served now w =
     (if fm_version manifest \<noteq> ev_manifest_version run
         \<or> ev_manifest_content_digest run \<noteq> None \<and> fm_content_digest manifest \<noteq> ev_manifest_content_digest run
      then w
      else case List.find (\<lambda>f. ff_fixture_id f = ev_fixture_id run) (fm_families manifest) of
        None \<Rightarrow> w
      | Some fixture \<Rightarrow>
          if ff_proves fixture = [] then w
          else case remdups served of
            [Some candidate] \<Rightarrow>
              (case get_entry_by_candidate_id w candidate of
                 None \<Rightarrow> w
               | Some e \<Rightarrow> fold (\<lambda>p. save_capability_evidence (evidence_record run e candidate now p)) (ff_proves fixture) w)
          | _ \<Rightarrow> w)"

section \<open>Connection material\<close>

record connection_material =
  cm_entry_id :: string
  cm_provider_id :: string
  cm_model_id :: string
  cm_model_version :: "string option"
  cm_api_base :: string
  cm_api_key_env :: "string option"
  cm_seeded :: bool
  cm_deployment :: "string option"
  cm_region :: "string option"

definition material_entry_id ::
  "(payload \<Rightarrow> string) \<Rightarrow> string \<Rightarrow> string \<Rightarrow> string option \<Rightarrow> string option \<Rightarrow> string" where
  "material_entry_id sha provider model version deployment =
     derive_candidate_identity_v2 sha provider model (the (or_else version (Some model))) deployment"

fun required_text :: "string \<Rightarrow> (string, json) dict \<Rightarrow> string result" where
  "required_text name d =
     (case dict_get d name of
        Some (JString v) \<Rightarrow> if py_strip v = [] then Inl (ValueError name) else Inr v
      | _ \<Rightarrow> Inl (ValueError name))"

fun optional_text :: "string \<Rightarrow> (string, json) dict \<Rightarrow> string option result" where
  "optional_text name d =
     (case dict_get d name of
        None \<Rightarrow> Inr None
      | Some JNull \<Rightarrow> Inr None
      | Some (JString v) \<Rightarrow> if py_strip v = [] then Inl (ValueError name) else Inr (Some v)
      | _ \<Rightarrow> Inl (ValueError name))"

fun parse_declared_connection :: "(payload \<Rightarrow> string) \<Rightarrow> json \<Rightarrow> connection_material result" where
  "parse_declared_connection sha (JObject d) =
     (case required_text ''provider_id'' d of Inl e \<Rightarrow> Inl e | Inr provider \<Rightarrow>
      case required_text ''model_id'' d of Inl e \<Rightarrow> Inl e | Inr model \<Rightarrow>
      case required_text ''api_base'' d of Inl e \<Rightarrow> Inl e | Inr base \<Rightarrow>
      case optional_text ''model_version'' d of Inl e \<Rightarrow> Inl e | Inr version \<Rightarrow>
      case optional_text ''api_key_env'' d of Inl e \<Rightarrow> Inl e | Inr key_env \<Rightarrow>
      case optional_text ''deployment'' d of Inl e \<Rightarrow> Inl e | Inr deployment \<Rightarrow>
      case optional_text ''region'' d of Inl e \<Rightarrow> Inl e | Inr region \<Rightarrow>
        Inr \<lparr>cm_entry_id = material_entry_id sha provider model version deployment, cm_provider_id = provider,
             cm_model_id = model, cm_model_version = version, cm_api_base = base, cm_api_key_env = key_env,
             cm_seeded = False, cm_deployment = deployment, cm_region = region\<rparr>)"
| "parse_declared_connection sha _ = Inl (ValueError ''object'')"

fun parse_declared_entries :: "(payload \<Rightarrow> string) \<Rightarrow> json list \<Rightarrow> connection_material list result" where
  "parse_declared_entries sha [] = Inr []"
| "parse_declared_entries sha (j # js) =
     (case parse_declared_connection sha j of
        Inl e \<Rightarrow> Inl e
      | Inr m \<Rightarrow> (case parse_declared_entries sha js of Inl e \<Rightarrow> Inl e | Inr ms \<Rightarrow> Inr (m # ms)))"

definition parse_declared_connections :: "(payload \<Rightarrow> string) \<Rightarrow> json option \<Rightarrow> connection_material list result" where
  "parse_declared_connections sha raw =
     (case raw of
        None \<Rightarrow> Inl (ValueError ''not valid JSON'')
      | Some (JList js) \<Rightarrow> parse_declared_entries sha js
      | _ \<Rightarrow> Inl (ValueError ''JSON list''))"

definition connection_material_findings :: "(payload \<Rightarrow> string) \<Rightarrow> json option \<Rightarrow> error list" where
  "connection_material_findings sha raw =
     (case parse_declared_connections sha raw of Inl e \<Rightarrow> [e] | Inr _ \<Rightarrow> [])"

definition seeded_material ::
  "(payload \<Rightarrow> string) \<Rightarrow> string \<Rightarrow> string \<Rightarrow> string option \<Rightarrow> string \<Rightarrow> connection_material" where
  "seeded_material sha provider model version base =
     \<lparr>cm_entry_id = material_entry_id sha provider model version None, cm_provider_id = provider, cm_model_id = model,
      cm_model_version = version, cm_api_base = base, cm_api_key_env = None, cm_seeded = True,
      cm_deployment = None, cm_region = None\<rparr>"

definition seeded_materials :: "(payload \<Rightarrow> string) \<Rightarrow> execution_config \<Rightarrow> connection_material list" where
  "seeded_materials sha c =
     (if truthy (xc_provider_id c) \<and> truthy (xc_model_id c)
      then [seeded_material sha (the (xc_provider_id c)) (the (xc_model_id c)) (xc_model_version c) (xc_api_base c)]
      else [])
     @ (if fallback_identity_configured c
        then [seeded_material sha (the (xc_fallback_provider_id c)) (the (xc_fallback_model_id c))
                (xc_fallback_model_version c) (the (xc_fallback_api_base c))]
        else [])"

fun add_declared ::
  "connection_material list \<Rightarrow> string list \<Rightarrow> (string, connection_material) dict
     \<Rightarrow> (string, connection_material) dict result" where
  "add_declared [] seen ms = Inr ms"
| "add_declared (d # ds) seen ms =
     (if cm_entry_id d \<in> set seen then Inl (ValueError ''declared more than once'')
      else add_declared ds (cm_entry_id d # seen) (dict_put (cm_entry_id d) d ms))"

definition configured_connection_materials ::
  "(payload \<Rightarrow> string) \<Rightarrow> json option \<Rightarrow> execution_config \<Rightarrow> (string, connection_material) dict result" where
  "configured_connection_materials sha raw c =
     (case parse_declared_connections sha raw of
        Inl err \<Rightarrow> Inl err
      | Inr ds \<Rightarrow> add_declared ds [] (fold (\<lambda>m. dict_put (cm_entry_id m) m) (seeded_materials sha c) []))"

text \<open>A fixed-strategy configuration on a declared connection, with the protections of the primary.\<close>

definition declared_config ::
  "(string \<Rightarrow> string option) \<Rightarrow> execution_config \<Rightarrow> connection_material \<Rightarrow> execution_config" where
  "declared_config env c m =
     c\<lparr>xc_provider_id := Some (cm_provider_id m), xc_model_id := Some (cm_model_id m),
       xc_model_version := cm_model_version m, xc_api_base := cm_api_base m,
       xc_api_key := (if truthy (cm_api_key_env m) then env (the (cm_api_key_env m)) else None),
       xc_deployment := cm_deployment m, xc_routing_strategy := ''fixed'',
       xc_fallback_provider_id := None, xc_fallback_model_id := None, xc_fallback_model_version := None,
       xc_fallback_api_base := None, xc_fallback_api_key := None\<rparr>"

definition derive_candidate_execution_config ::
  "(payload \<Rightarrow> string) \<Rightarrow> json option \<Rightarrow> (string \<Rightarrow> string option) \<Rightarrow> execution_config \<Rightarrow> string
     \<Rightarrow> execution_config option result" where
  "derive_candidate_execution_config sha raw env c k =
     (case configured_connection_materials sha raw c of
        Inl err \<Rightarrow> Inl err
      | Inr ms \<Rightarrow>
        (case dict_get ms k of
           None \<Rightarrow> Inr None
         | Some m \<Rightarrow>
             if cm_seeded m
             then if truthy (xc_provider_id c) \<and> truthy (xc_model_id c)
                     \<and> k = material_entry_id sha (the (xc_provider_id c)) (the (xc_model_id c)) (xc_model_version c) None
                  then Inr (Some c) else Inr (derive_fallback_execution_config c)
             else Inr (Some (declared_config env c m))))"

section \<open>The serving order and the candidate universe\<close>

definition order_entry :: "string option \<Rightarrow> string option \<Rightarrow> string option \<Rightarrow> string list" where
  "order_entry provider model version =
     (if truthy provider \<and> truthy model
      then [derive_model_catalogue_entry_id (the provider) (the (or_else version model)) None] else [])"

definition current_serving_order :: "execution_config \<Rightarrow> 'a catalogue_world_scheme \<Rightarrow> string list \<times> nat option" where
  "current_serving_order c w =
     (case get_current_serving_policy w of
        Some p \<Rightarrow> (pv_ordered_entry_ids p, Some (pv_version p))
      | None \<Rightarrow> (order_entry (xc_provider_id c) (xc_model_id c) (xc_model_version c)
                 @ order_entry (xc_fallback_provider_id c) (xc_fallback_model_id c) (xc_fallback_model_version c), None))"

definition resolve_catalogue_entry_by_identity :: "string \<Rightarrow> 'a catalogue_world_scheme \<Rightarrow> catalogue_entry option" where
  "resolve_catalogue_entry_by_identity i w =
     (if starts_with ''cand2_'' i then get_entry_by_candidate_id w i else get_entry w i)"

datatype exclusion_reason = NOT_CATALOGUED | LIFECYCLE_INELIGIBLE | CONNECTION_MATERIAL_MISSING | POLICY_EXCLUDED

record candidate_universe =
  cu_candidates :: "string list"
  cu_exclusions :: "(string \<times> exclusion_reason) list"
  cu_policy_version :: "nat option"

text \<open>The verdict on one ordered identity: a candidate, or an excluded identity with its reason.\<close>

definition judge_identity ::
  "(string, connection_material) dict \<Rightarrow> 'a catalogue_world_scheme \<Rightarrow> string \<Rightarrow> (string \<times> exclusion_reason) + string" where
  "judge_identity ms w i =
     (case resolve_catalogue_entry_by_identity i w of
        None \<Rightarrow> Inl (i, NOT_CATALOGUED)
      | Some e \<Rightarrow>
          if me_lifecycle_state e \<in> set execution_ineligible_lifecycle_states
          then Inl (me_entry_id e, LIFECYCLE_INELIGIBLE)
          else if dict_get ms (me_candidate_id_v2 e) = None then Inl (me_entry_id e, CONNECTION_MATERIAL_MISSING)
          else Inr (me_candidate_id_v2 e))"

definition considered_ids :: "'a catalogue_world_scheme \<Rightarrow> string list \<Rightarrow> string list" where
  "considered_ids w order =
     map me_candidate_id_v2 (List.map_filter (\<lambda>i. resolve_catalogue_entry_by_identity i w) order)"

definition policy_exclusions ::
  "execution_config \<Rightarrow> 'a catalogue_world_scheme \<Rightarrow> string list \<Rightarrow> string list \<Rightarrow> (string \<times> exclusion_reason) list" where
  "policy_exclusions c w considered unresolved =
     map (\<lambda>e. (me_entry_id e, POLICY_EXCLUDED))
       (filter (\<lambda>e. me_candidate_id_v2 e \<notin> set considered \<and> me_entry_id e \<notin> set unresolved
            \<and> me_provider_mode e = xc_provider_mode c
            \<and> me_lifecycle_state e \<notin> set execution_ineligible_lifecycle_states) (list_entries w))"

definition derive_candidate_universe ::
  "(payload \<Rightarrow> string) \<Rightarrow> json option \<Rightarrow> execution_config \<Rightarrow> approved_model list \<Rightarrow> timestamp \<Rightarrow> 'a catalogue_world_scheme
     \<Rightarrow> candidate_universe result \<times> 'a catalogue_world_scheme" where
  "derive_candidate_universe sha raw c inventory now w =
     (case ensure_model_catalogue_seeded sha c inventory now w of
        (Inl e, w1) \<Rightarrow> (Inl e, w1)
      | (Inr _, w1) \<Rightarrow>
        (case current_serving_order c w1 of (order, version) \<Rightarrow>
         (case configured_connection_materials sha raw c of
            Inl e \<Rightarrow> (Inl e, w1)
          | Inr ms \<Rightarrow>
              let verdicts = map (judge_identity ms w1) order;
                  refused = List.map_filter (\<lambda>v. case v of Inl x \<Rightarrow> Some x | Inr _ \<Rightarrow> None) verdicts
              in (Inr \<lparr>cu_candidates = List.map_filter (\<lambda>v. case v of Inl _ \<Rightarrow> None | Inr i \<Rightarrow> Some i) verdicts,
                       cu_exclusions = refused @ policy_exclusions c w1 (considered_ids w1 order) (map fst refused),
                       cu_policy_version = version\<rparr>, w1))))"

section \<open>Binding and drift\<close>

definition bind_live_text_model_catalogue_entry ::
  "(payload \<Rightarrow> string) \<Rightarrow> execution_config \<Rightarrow> approved_model list \<Rightarrow> timestamp \<Rightarrow> 'a catalogue_world_scheme
     \<Rightarrow> catalogue_entry result \<times> 'a catalogue_world_scheme" where
  "bind_live_text_model_catalogue_entry sha c inventory now w =
     (case ensure_model_catalogue_seeded sha c inventory now w of
        (Inl e, w1) \<Rightarrow> (Inl e, w1)
      | (Inr _, w1) \<Rightarrow>
          if \<not> truthy (xc_provider_id c) \<or> \<not> truthy (xc_model_id c)
          then (Inl (ProviderExecutionError MODEL_NOT_CATALOGUED), w1)
          else let provider = the (xc_provider_id c); revision = the (or_else (xc_model_version c) (xc_model_id c))
            in case get_entry w1 (derive_model_catalogue_entry_id provider revision (xc_deployment c)) of
                 None \<Rightarrow> (Inl (ProviderExecutionError MODEL_NOT_CATALOGUED), w1)
               | Some e \<Rightarrow>
                   if me_provider_id e \<noteq> provider \<or> me_model_revision e \<noteq> revision \<or> me_deployment e \<noteq> xc_deployment c
                   then (Inl (ProviderExecutionError MODEL_NOT_CATALOGUED), w1)
                   else if me_lifecycle_state e \<in> set execution_ineligible_lifecycle_states
                   then (Inl (ProviderExecutionError MODEL_LIFECYCLE_INELIGIBLE), w1)
                   else (Inr e, w1))"

definition record_model_revision_drift ::
  "catalogue_entry \<Rightarrow> string option \<Rightarrow> timestamp \<Rightarrow> 'a catalogue_world_scheme \<Rightarrow> 'a catalogue_world_scheme" where
  "record_model_revision_drift e observed now w =
     (if \<not> truthy observed \<or> the observed \<in> {me_model_revision e, me_model_family e} then w
      else let k = me_entry_id e @ ''::'' @ the observed in
        case get_drift_observation w k of
          None \<Rightarrow> upsert_drift_observation
            \<lparr>do_observation_id = k, do_entry_id = me_entry_id e, do_expected_identity = me_model_revision e,
             do_observed_model_id = the observed, do_revision_pinned = me_revision_pinned e,
             do_first_observed_at = now, do_last_observed_at = now, do_observation_count = 1\<rparr> w
        | Some x \<Rightarrow> upsert_drift_observation
            (x\<lparr>do_last_observed_at := now, do_observation_count := do_observation_count x + 1\<rparr>) w)"

section \<open>Facts\<close>

text \<open>The two kinds of material: a seed of the settings pair, or a declared connection under its own identity.\<close>

lemma required_text_Inr: "required_text name d = Inr v \<Longrightarrow> v \<noteq> []"
  by (auto simp: py_strip_def split: option.splits json.splits if_splits)

declare required_text.simps [simp del] optional_text.simps [simp del]

lemma parsed_connection:
  assumes "parse_declared_connection sha j = Inr m"
  shows "\<not> cm_seeded m" and "cm_provider_id m \<noteq> []" and "cm_model_id m \<noteq> []"
    and "cm_entry_id m = material_entry_id sha (cm_provider_id m) (cm_model_id m) (cm_model_version m) (cm_deployment m)"
  using assms by (cases j; auto split: sum.splits dest: required_text_Inr)+

lemma parsed_entries:
  assumes "parse_declared_entries sha js = Inr ms" and "m \<in> set ms"
  shows "\<exists>j \<in> set js. parse_declared_connection sha j = Inr m"
  using assms by (induction js arbitrary: ms) (auto split: sum.splits)

lemma parsed_connections:
  assumes "parse_declared_connections sha raw = Inr ms" and "m \<in> set ms"
  shows "\<exists>j. parse_declared_connection sha j = Inr m"
  using assms by (auto simp: parse_declared_connections_def split: option.splits json.splits dest: parsed_entries)

lemma add_declared_get:
  "add_declared ds seen ms = Inr ms' \<Longrightarrow> dict_get ms' k = Some m \<Longrightarrow>
     dict_get ms k = Some m \<or> m \<in> set ds \<and> cm_entry_id m = k"
proof (induction ds arbitrary: seen ms)
  case (Cons d ds)
  from Cons.IH [of "cm_entry_id d # seen" "dict_put (cm_entry_id d) d ms"] Cons.prems show ?case
    by (auto split: if_splits)
qed simp

lemma configured_material_cases:
  assumes "configured_connection_materials sha raw c = Inr ms" and "dict_get ms k = Some m"
  obtains (seeded) "m \<in> set (seeded_materials sha c)" and "cm_entry_id m = k"
  | (declared) "\<not> cm_seeded m" and "cm_provider_id m \<noteq> []" and "cm_model_id m \<noteq> []"
      and "k = material_entry_id sha (cm_provider_id m) (cm_model_id m) (cm_model_version m) (cm_deployment m)"
proof -
  obtain ds where ds: "parse_declared_connections sha raw = Inr ds"
    and add: "add_declared ds [] (fold (\<lambda>m. dict_put (cm_entry_id m) m) (seeded_materials sha c) []) = Inr ms"
    using assms(1) by (auto simp: configured_connection_materials_def split: sum.splits)
  from add_declared_get [OF add assms(2)] show thesis
  proof
    assume "dict_get (fold (\<lambda>m. dict_put (cm_entry_id m) m) (seeded_materials sha c) []) k = Some m"
    then show thesis using seeded by (auto simp: seeded_materials_def split: if_splits)
  next
    assume m: "m \<in> set ds \<and> cm_entry_id m = k"
    then obtain j where "parse_declared_connection sha j = Inr m" using parsed_connections [OF ds] by blast
    from parsed_connection [OF this] m show thesis using declared by blast
  qed
qed

lemma material_identity:
  "provider \<noteq> [] \<Longrightarrow> model \<noteq> [] \<Longrightarrow> xc_provider_id d = Some provider \<Longrightarrow> xc_model_id d = Some model \<Longrightarrow>
     config_candidate_identity sha d = Some (material_entry_id sha provider model (xc_model_version d) (xc_deployment d))"
  by (simp add: config_candidate_identity_def material_entry_id_def truthy_def)

lemma judge_identity_Inr:
  "judge_identity ms w i = Inr k \<longleftrightarrow> (\<exists>e. resolve_catalogue_entry_by_identity i w = Some e \<and> me_candidate_id_v2 e = k
     \<and> me_lifecycle_state e \<notin> set execution_ineligible_lifecycle_states \<and> dict_get ms k \<noteq> None)"
  by (auto simp: judge_identity_def split: option.splits if_splits)

lemma set_map_filter_iff: "y \<in> set (List.map_filter f xs) \<longleftrightarrow> (\<exists>x \<in> set xs. f x = Some y)"
  by (force simp: List.map_filter_def)

lemma set_verdicts:
  "set (List.map_filter (case_sum (\<lambda>_. None) Some) (map f xs)) = {y. \<exists>x \<in> set xs. f x = Inr y}"
  "set (List.map_filter (case_sum Some (\<lambda>_. None)) (map f xs)) = {y. \<exists>x \<in> set xs. f x = Inl y}"
  by (induction xs) (auto simp: List.map_filter_def split: sum.splits)

lemma universe_Inr:
  assumes "derive_candidate_universe sha raw c inventory now w = (Inr u, w1)"
  obtains ms unresolved where "configured_connection_materials sha raw c = Inr ms"
    and "set (cu_candidates u) = {k. \<exists>i \<in> set (fst (current_serving_order c w1)). judge_identity ms w1 i = Inr k}"
    and "set (cu_exclusions u) = {x. \<exists>i \<in> set (fst (current_serving_order c w1)). judge_identity ms w1 i = Inl x}
        \<union> set (policy_exclusions c w1 (considered_ids w1 (fst (current_serving_order c w1))) unresolved)"
    and "set unresolved = fst ` {x. \<exists>i \<in> set (fst (current_serving_order c w1)). judge_identity ms w1 i = Inl x}"
proof -
  obtain rep ms where seed: "ensure_model_catalogue_seeded sha c inventory now w = (Inr rep, w1)"
    and ms: "configured_connection_materials sha raw c = Inr ms"
    using assms by (auto simp: derive_candidate_universe_def Let_def split: sum.splits prod.splits)
  let ?refused = "List.map_filter (case_sum Some (\<lambda>_. None)) (map (judge_identity ms w1) (fst (current_serving_order c w1)))"
  show thesis
    by (rule that [OF ms, of "map fst ?refused"])
       (use assms in \<open>auto simp: derive_candidate_universe_def Let_def seed ms case_prod_unfold set_verdicts\<close>)
qed

lemma resolved_entry:
  assumes "resolve_catalogue_entry_by_identity i w = Some e" and "dict_wf (cw_entries w)"
  shows "\<exists>k. get_entry w k = Some e"
  using assms find_Some_iff_list [of "\<lambda>e. me_candidate_id_v2 e = i" "dict_values (cw_entries w)" e]
  by (auto simp: resolve_catalogue_entry_by_identity_def get_entry_by_candidate_id_def get_entry_def split: if_splits)

lemma upsert_wf:
  "upsert_model_catalogue_entry sha e w = (r, w') \<Longrightarrow> dict_wf (cw_entries w) \<Longrightarrow> dict_wf (cw_entries w')"
  by (auto simp: upsert_model_catalogue_entry_def upsert_entry_def split: sum.splits option.splits if_splits)

lemma seed_entries_wf: "seed_entries sha es rep w = (r, w') \<Longrightarrow> dict_wf (cw_entries w) \<Longrightarrow> dict_wf (cw_entries w')"
proof (induction es arbitrary: rep w)
  case (Cons e es)
  then show ?case
    by (auto simp: Let_def split: option.splits prod.splits sum.splits if_splits dest: upsert_wf)
qed simp

lemma universe_wf:
  "derive_candidate_universe sha raw c inventory now w = (r, w1) \<Longrightarrow> dict_wf (cw_entries w) \<Longrightarrow> dict_wf (cw_entries w1)"
  by (auto simp: derive_candidate_universe_def ensure_model_catalogue_seeded_def Let_def split: prod.splits sum.splits
      dest: seed_entries_wf)

lemma out_of_service: "set execution_ineligible_lifecycle_states = {DEGRADED, DEPRECATED, RETIRED}"
  by (auto simp: execution_ineligible_lifecycle_states_def)

lemma ordered_identity_judged:
  assumes "derive_candidate_universe sha raw c inventory now w = (Inr u, w1)"
    and "i \<in> set (fst (current_serving_order c w1))"
  shows "(\<exists>e. resolve_catalogue_entry_by_identity i w1 = Some e \<and> me_candidate_id_v2 e \<in> set (cu_candidates u))
      \<or> (\<exists>x \<in> set (cu_exclusions u). fst x = (case resolve_catalogue_entry_by_identity i w1 of
             None \<Rightarrow> i | Some e \<Rightarrow> me_entry_id e))"
proof -
  let ?order = "fst (current_serving_order c w1)"
  obtain ms unresolved where cs: "set (cu_candidates u) = {k. \<exists>i \<in> set ?order. judge_identity ms w1 i = Inr k}"
    and ex: "set (cu_exclusions u) = {x. \<exists>i \<in> set ?order. judge_identity ms w1 i = Inl x}
        \<union> set (policy_exclusions c w1 (considered_ids w1 ?order) unresolved)"
    using assms(1) by (rule universe_Inr)
  show ?thesis
  proof (cases "judge_identity ms w1 i")
    case (Inl x)
    then have "x \<in> set (cu_exclusions u)" using ex assms(2) by blast
    moreover have "fst x = (case resolve_catalogue_entry_by_identity i w1 of None \<Rightarrow> i | Some e \<Rightarrow> me_entry_id e)"
      using Inl by (auto simp: judge_identity_def split: option.splits if_splits)
    ultimately show ?thesis by blast
  next
    case (Inr k)
    then show ?thesis using assms(2) unfolding cs by (auto simp: judge_identity_Inr)
  qed
qed

lemma serviceable_row_accounted:
  assumes "derive_candidate_universe sha raw c inventory now w = (Inr u, w1)" and "dict_wf (cw_entries w1)"
    and "get_entry w1 r = Some e" and "me_provider_mode e = xc_provider_mode c"
    and "me_lifecycle_state e \<notin> {DEGRADED, DEPRECATED, RETIRED}"
  shows "me_candidate_id_v2 e \<in> set (cu_candidates u)
      \<or> (\<exists>r' e'. get_entry w1 r' = Some e' \<and> me_candidate_id_v2 e' = me_candidate_id_v2 e
           \<and> (\<exists>x \<in> set (cu_exclusions u). fst x = me_entry_id e'))"
proof -
  let ?order = "fst (current_serving_order c w1)"
  obtain ms unresolved where
    ex: "set (cu_exclusions u) = {x. \<exists>i \<in> set ?order. judge_identity ms w1 i = Inl x}
        \<union> set (policy_exclusions c w1 (considered_ids w1 ?order) unresolved)"
    and un: "set unresolved = fst ` {x. \<exists>i \<in> set ?order. judge_identity ms w1 i = Inl x}"
    using assms(1) by (rule universe_Inr)
  show ?thesis
  proof (cases "me_candidate_id_v2 e \<in> set (considered_ids w1 ?order)")
    case True
    then obtain i e' where i: "i \<in> set ?order" and e': "resolve_catalogue_entry_by_identity i w1 = Some e'"
      and same: "me_candidate_id_v2 e' = me_candidate_id_v2 e"
      by (auto simp: considered_ids_def set_map_filter_iff)
    show ?thesis using ordered_identity_judged [OF assms(1) i] resolved_entry [OF e' assms(2)] e' same by auto
  next
    case False
    have "e \<in> set (list_entries w1)" using assms(3) by (force simp: list_entries_def get_entry_def dest: map_of_SomeD)
    with False assms(4,5) have "me_entry_id e \<notin> set unresolved \<Longrightarrow> (me_entry_id e, POLICY_EXCLUDED) \<in> set (cu_exclusions u)"
      unfolding ex policy_exclusions_def out_of_service [symmetric] by simp
    moreover have "me_entry_id e \<in> set unresolved \<Longrightarrow> \<exists>x \<in> set (cu_exclusions u). fst x = me_entry_id e"
      unfolding ex un by (erule imageE) (rule bexI [rotated], erule UnI1, simp)
    ultimately show ?thesis using assms(3) by (metis fst_conv)
  qed
qed

section \<open>Properties\<close>

text \<open>
  Eligibility and execution agree on who a model is: every candidate of a derived universe has an execution
  configuration, that configuration carries the candidate's own canonical identity, and it runs under the
  protections of the primary configuration whatever connection it uses.
\<close>

theorem candidates_run_as_themselves:
  assumes "derive_candidate_universe sha raw c inventory now w = (Inr u, w1)" and "k \<in> set (cu_candidates u)"
    and "xc_deployment c = None"
  shows "\<exists>d. derive_candidate_execution_config sha raw env c k = Inr (Some d) \<and> config_candidate_identity sha d = Some k
     \<and> xc_provider_mode d = xc_provider_mode c \<and> xc_enforcement d = xc_enforcement c
     \<and> xc_allowed_task_ids d = xc_allowed_task_ids c \<and> xc_timeout_ms d = xc_timeout_ms c
     \<and> xc_retry_limit d = xc_retry_limit c \<and> xc_max_output_tokens d = xc_max_output_tokens c"
proof -
  obtain ms where ms: "configured_connection_materials sha raw c = Inr ms"
    and cs: "set (cu_candidates u) = {k. \<exists>i \<in> set (fst (current_serving_order c w1)). judge_identity ms w1 i = Inr k}"
    using assms(1) by (rule universe_Inr)
  obtain m where m: "dict_get ms k = Some m" using assms(2) unfolding cs judge_identity_Inr by blast
  from ms m show ?thesis
  proof (cases rule: configured_material_cases)
    case declared
    then have "config_candidate_identity sha (declared_config env c m) = Some k"
      by (subst material_identity [of "cm_provider_id m" "cm_model_id m"]) (simp_all add: declared_config_def)
    then show ?thesis using declared(1) ms m by (simp add: derive_candidate_execution_config_def declared_config_def)
  next
    case seeded
    let ?primary = "truthy (xc_provider_id c) \<and> truthy (xc_model_id c)
      \<and> k = material_entry_id sha (the (xc_provider_id c)) (the (xc_model_id c)) (xc_model_version c) None"
    have sd: "cm_seeded m" using seeded(1) by (auto simp: seeded_materials_def seeded_material_def split: if_splits)
    show ?thesis
    proof (cases ?primary)
      case True
      then have "config_candidate_identity sha c = Some k"
        using assms(3) by (auto elim!: truthyE simp: material_identity)
      then show ?thesis using True sd ms m by (simp add: derive_candidate_execution_config_def)
    next
      case False
      with seeded have fb: "fallback_identity_configured c"
        and k: "k = material_entry_id sha (the (xc_fallback_provider_id c)) (the (xc_fallback_model_id c))
                  (xc_fallback_model_version c) None"
        by (auto simp: seeded_materials_def seeded_material_def split: if_splits)
      then have "config_candidate_identity sha (alternate_config c) = Some k"
        by (auto elim!: truthyE simp: fallback_identity_configured_def material_identity alternate_config_def)
      moreover have "derive_fallback_execution_config c = Some (alternate_config c)"
        using fb by (auto simp: derive_fallback_execution_config_def fallback_identity_configured_def truthy_def)
      ultimately show ?thesis using False sd ms m by (auto simp: derive_candidate_execution_config_def alternate_config_def)
    qed
  qed
qed

text \<open>
  The universe accounts for every model: a candidate is exactly a policy-ordered identity that resolves to a
  catalogue row which is not out of service and has connection material; every other ordered identity is
  excluded with a reason; and the canonical identity of every serviceable row of the configured mode is a
  candidate or belongs to a row excluded with a reason.
\<close>

theorem universe_accounts_for_every_model:
  assumes "derive_candidate_universe sha raw c inventory now w = (Inr u, w1)" and "dict_wf (cw_entries w)"
  shows "(k \<in> set (cu_candidates u) \<longleftrightarrow> (\<exists>i \<in> set (fst (current_serving_order c w1)). \<exists>e ms.
            resolve_catalogue_entry_by_identity i w1 = Some e \<and> me_candidate_id_v2 e = k
          \<and> me_lifecycle_state e \<notin> {DEGRADED, DEPRECATED, RETIRED}
          \<and> configured_connection_materials sha raw c = Inr ms \<and> dict_get ms k \<noteq> None))
     \<and> (\<forall>i \<in> set (fst (current_serving_order c w1)).
            (\<exists>e. resolve_catalogue_entry_by_identity i w1 = Some e \<and> me_candidate_id_v2 e \<in> set (cu_candidates u))
          \<or> (\<exists>x \<in> set (cu_exclusions u). fst x = (case resolve_catalogue_entry_by_identity i w1 of
                 None \<Rightarrow> i | Some e \<Rightarrow> me_entry_id e)))
     \<and> (\<forall>r e. get_entry w1 r = Some e \<and> me_provider_mode e = xc_provider_mode c
            \<and> me_lifecycle_state e \<notin> {DEGRADED, DEPRECATED, RETIRED} \<longrightarrow>
            me_candidate_id_v2 e \<in> set (cu_candidates u)
          \<or> (\<exists>r' e'. get_entry w1 r' = Some e' \<and> me_candidate_id_v2 e' = me_candidate_id_v2 e
               \<and> (\<exists>x \<in> set (cu_exclusions u). fst x = me_entry_id e')))"
proof -
  obtain ms unresolved where ms: "configured_connection_materials sha raw c = Inr ms"
    and cs: "set (cu_candidates u) = {k. \<exists>i \<in> set (fst (current_serving_order c w1)). judge_identity ms w1 i = Inr k}"
    using assms(1) by (rule universe_Inr)
  have "k \<in> set (cu_candidates u) \<longleftrightarrow> (\<exists>i \<in> set (fst (current_serving_order c w1)). \<exists>e ms.
      resolve_catalogue_entry_by_identity i w1 = Some e \<and> me_candidate_id_v2 e = k
      \<and> me_lifecycle_state e \<notin> {DEGRADED, DEPRECATED, RETIRED}
      \<and> configured_connection_materials sha raw c = Inr ms \<and> dict_get ms k \<noteq> None)"
    unfolding cs by (auto simp: judge_identity_Inr out_of_service ms)
  then show ?thesis
    using ordered_identity_judged [OF assms(1)] serviceable_row_accounted [OF assms(1) universe_wf [OF assms]] by blast
qed

text \<open>
  What counts as support for a required capability: no operator degradation, and an assessed fact, or, while
  the fact is unknown, evidence at exactly the scope of the execution.
\<close>

definition capability_supported ::
  "(string \<Rightarrow> bool) \<Rightarrow> 'a catalogue_world_scheme \<Rightarrow> catalogue_entry \<Rightarrow> string option \<Rightarrow> string \<Rightarrow> bool option \<Rightarrow> bool \<Rightarrow> bool" where
  "capability_supported contract_exists w e key dimension known scoped \<longleftrightarrow>
     dict_get (me_capability_degradations e) dimension = None
     \<and> (known = Some True
        \<or> known = None \<and> (scoped \<and> scoped_structured_output_evidence contract_exists e key
             \<or> (\<exists>i r. dict_get (cw_capability_evidence w) i = Some r \<and> ce_candidate_id_v2 r = me_candidate_id_v2 e
                  \<and> ce_dimension r = dimension \<and> evidence_applies w e key r)))"

lemma applicable_evidence_iff:
  assumes "dict_wf (cw_capability_evidence w)"
  shows "applicable_capability_evidence w e dimension key \<noteq> None \<longleftrightarrow>
    (\<exists>i r. dict_get (cw_capability_evidence w) i = Some r \<and> ce_candidate_id_v2 r = me_candidate_id_v2 e
       \<and> ce_dimension r = dimension \<and> evidence_applies w e key r)"
  using dict_value_iff_get [OF assms]
  by (auto simp: applicable_capability_evidence_def find_None_iff_list list_capability_evidence_def)

lemma enforce_requirement_iff:
  assumes "dict_wf (cw_capability_evidence w)"
  shows "enforce_requirement contract_exists w e key required dimension known scoped = Inr ()
     \<longleftrightarrow> (required = Some True \<longrightarrow> capability_supported contract_exists w e key dimension known scoped)"
  using applicable_evidence_iff [OF assms]
  by (cases known) (auto simp: enforce_requirement_def capability_supported_def)

lemma enforce_requirement_refusal:
  "enforce_requirement contract_exists w e key required dimension known scoped = Inl err \<Longrightarrow>
     err = ProviderExecutionError
       (if dict_get (me_capability_degradations e) dimension \<noteq> None then CAPABILITY_DEGRADED
        else if known = Some False then CAPABILITY_NOT_SUPPORTED else CAPABILITY_UNKNOWN)"
  by (auto simp: enforce_requirement_def split: if_splits)

text \<open>
  Requirements are enforced exactly, and unknown fails closed as unknown: a candidate passes if and only if
  every required capability is supported; otherwise it is refused as degraded when an operator degraded the
  capability, as not supported when the catalogue proves it absent, and as unknown in every other case.
\<close>

theorem requirements_enforced_exactly:
  fixes w :: "'a catalogue_world_scheme" and e key contract_exists q
  assumes "dict_wf (cw_capability_evidence w)"
  defines "structured \<equiv> capability_supported contract_exists w e key ''supports_structured_output''
      (me_supports_structured_output e) True"
    and "tools \<equiv> capability_supported contract_exists w e key ''supports_tool_calling'' (me_supports_tool_calling e) False"
  shows "(enforce_capability_requirements contract_exists w (Some q) e key = Inr () \<longleftrightarrow>
            (cr_structured_output_required q = Some True \<longrightarrow> structured)
          \<and> (cr_tool_calling_required q = Some True \<longrightarrow> tools))
     \<and> (cr_structured_output_required q = Some True \<and> \<not> structured \<longrightarrow>
          enforce_capability_requirements contract_exists w (Some q) e key = Inl (ProviderExecutionError
            (if dict_get (me_capability_degradations e) ''supports_structured_output'' \<noteq> None then CAPABILITY_DEGRADED
             else if me_supports_structured_output e = Some False then CAPABILITY_NOT_SUPPORTED else CAPABILITY_UNKNOWN)))
     \<and> enforce_capability_requirements contract_exists w None e key = Inr ()"
proof -
  note so = enforce_requirement_iff [OF assms(1), of contract_exists e key "cr_structured_output_required q"
      "''supports_structured_output''" "me_supports_structured_output e" True, folded structured_def]
  note tc = enforce_requirement_iff [OF assms(1), of contract_exists e key "cr_tool_calling_required q"
      "''supports_tool_calling''" "me_supports_tool_calling e" False, folded tools_def]
  show ?thesis (is "?exact \<and> (?unmet \<longrightarrow> ?result = Inl ?err) \<and> ?none")
  proof (intro conjI impI)
    show ?exact unfolding so [symmetric] tc [symmetric] by (simp add: enforce_capability_requirements_def split: sum.split)
    assume ?unmet
    with so have "enforce_requirement contract_exists w e key (cr_structured_output_required q)
        ''supports_structured_output'' (me_supports_structured_output e) True \<noteq> Inr ()" (is "?so \<noteq> _") by blast
    then obtain err where err: "?so = Inl err" by (cases ?so) auto
    show "?result = Inl ?err"
      unfolding enforce_capability_requirements_def option.case(2) err sum.case(1)
      using enforce_requirement_refusal [OF err] by simp
  next
    show ?none by (simp add: enforce_capability_requirements_def)
  qed
qed

lemma get_evidence_fold:
  "dict_get (cw_capability_evidence (fold (\<lambda>p. save_capability_evidence (f p)) ps w)) i
     = dict_get (fold (\<lambda>p. dict_put (ce_evidence_id (f p)) (f p)) ps (cw_capability_evidence w)) i"
  by (induction ps arbitrary: w) (simp_all add: save_capability_evidence_def)

lemma remdups_singleton_iff: "remdups xs = [x] \<longleftrightarrow> set xs = {x}"
proof
  assume "set xs = {x}"
  then have "length (remdups xs) = Suc 0" "set (remdups xs) = {x}"
    using distinct_card [OF distinct_remdups, of xs] by simp_all
  then show "remdups xs = [x]" unfolding length_Suc_conv by fastforce
qed (metis set_remdups empty_set list.simps(15))

lemma one_candidate_case:
  "\<forall>i. xs \<noteq> [Some i] \<Longrightarrow> (case xs of [Some i] \<Rightarrow> f i | _ \<Rightarrow> w) = w"
  by (auto split: list.split option.split)

lemma evidence_record_fields:
  "ce_candidate_id_v2 (evidence_record run e candidate now p) = candidate"
  "ce_dimension (evidence_record run e candidate now p) = cp_dimension p"
  by (simp_all add: evidence_record_def)

lemma fold_evidence_frame [simp]:
  "cw_evaluation_runs (fold (\<lambda>p. save_capability_evidence (f p)) ps w) = cw_evaluation_runs w"
  by (induction ps arbitrary: w) (simp_all add: save_capability_evidence_def)

text \<open>
  A passed evaluation makes exactly the candidate it exercised eligible: once every case of a run was served
  by one catalogued candidate under the current manifest, and the run is committed as a completed pass, each
  capability the fixture proves globally is supported for that candidate unless an operator degraded it or
  the catalogue proves it absent; a run that mixed candidates, or was served by an unknown one, records nothing.
\<close>

theorem passed_evaluation_enables_its_candidate:
  assumes "fm_version manifest = ev_manifest_version run"
    and "ev_manifest_content_digest run \<in> {None, fm_content_digest manifest}"
    and "List.find (\<lambda>f. ff_fixture_id f = ev_fixture_id run) (fm_families manifest) = Some fixture"
    and "distinct (map (\<lambda>p. ce_evidence_id (evidence_record run e candidate now p)) (ff_proves fixture))"
    and "p \<in> set (ff_proves fixture)" and "cp_scope_type p = GLOBAL_SCOPE"
    and "get_entry_by_candidate_id w candidate = Some e"
    and "dict_get (cw_evaluation_runs w) (ev_run_id run) = Some committed" and "ev_lifecycle_status committed = ''COMPLETED''"
    and "ev_verdict committed = Some ''PASS''" and "known \<noteq> Some False"
    and "dict_get (me_capability_degradations e) (cp_dimension p) = None" and "set served = {Some candidate}"
  shows "capability_supported contract_exists (record_capability_evidence_for_pass_run manifest run served now w) e key
            (cp_dimension p) known scoped
     \<and> (card (set mixed) \<noteq> 1 \<or> None \<in> set mixed \<longrightarrow> record_capability_evidence_for_pass_run manifest run mixed now w = w)"
proof (intro conjI impI)
  let ?w = "record_capability_evidence_for_pass_run manifest run served now w"
  let ?r = "evidence_record run e candidate now p"
  have w': "?w = fold (\<lambda>p. save_capability_evidence (evidence_record run e candidate now p)) (ff_proves fixture) w"
  proof -
    have "\<not> (fm_version manifest \<noteq> ev_manifest_version run
        \<or> ev_manifest_content_digest run \<noteq> None \<and> fm_content_digest manifest \<noteq> ev_manifest_content_digest run)"
      using assms(1,2) by auto
    moreover have "ff_proves fixture \<noteq> []" using assms(5) by auto
    moreover have "remdups served = [Some candidate]" using assms(13) by (simp only: remdups_singleton_iff)
    ultimately show ?thesis
      by (simp only: record_capability_evidence_for_pass_run_def assms(3,7) if_False option.case list.case)
  qed
  have got: "dict_get (cw_capability_evidence ?w) (ce_evidence_id ?r) = Some ?r"
    unfolding w' get_evidence_fold using assms(4,5) by (intro dict_get_fold_put)
  have cand: "me_candidate_id_v2 e = candidate"
    using assms(7) find_Some_iff_list [of "\<lambda>e. me_candidate_id_v2 e = candidate"] by (auto simp: get_entry_by_candidate_id_def)
  have appl: "evidence_applies ?w e key ?r"
    using assms(6,8-10) by (simp add: evidence_applies_def w' evidence_record_def)
  have found: "\<exists>i r. dict_get (cw_capability_evidence ?w) i = Some r \<and> ce_candidate_id_v2 r = me_candidate_id_v2 e
      \<and> ce_dimension r = cp_dimension p \<and> evidence_applies ?w e key r"
    by (rule exI [of _ "ce_evidence_id ?r"], rule exI [of _ ?r], unfold cand evidence_record_fields)
       (intro conjI got appl refl)
  have "known = None \<or> known = Some True" using assms(11) by (cases known) auto
  then show "capability_supported contract_exists ?w e key (cp_dimension p) known scoped"
    unfolding capability_supported_def using found assms(12) by blast
next
  assume "card (set mixed) \<noteq> 1 \<or> None \<in> set mixed"
  then have "set mixed \<noteq> {Some i}" for i by (cases "set mixed = {Some i}") simp_all
  then have "\<forall>i. remdups mixed \<noteq> [Some i]" by (simp only: remdups_singleton_iff not_False_eq_True simp_thms)
  note none = one_candidate_case [OF this]
  show "record_capability_evidence_for_pass_run manifest run mixed now w = w"
    by (simp only: record_capability_evidence_for_pass_run_def assms(3) option.case none if_cancel)
qed

text \<open>
  Binding does not compare the model family: when the stored row under the configured key belongs to another
  canonical candidate (same provider, revision and deployment, another family), seeding reports the identity
  conflict and leaves the row, and the fixed path then binds that row and runs under its governance.
\<close>

theorem binding_ignores_the_model_family:
  assumes "get_entry w k = Some e"
    and "k = derive_model_catalogue_entry_id provider (the (or_else (xc_model_version c) (xc_model_id c))) (xc_deployment c)"
    and "xc_provider_id c = Some provider" and "provider \<noteq> []" and "truthy (xc_model_id c)"
    and "me_provider_id e = provider" and "me_model_revision e = the (or_else (xc_model_version c) (xc_model_id c))"
    and "me_deployment e = xc_deployment c" and "me_lifecycle_state e \<notin> {DEGRADED, DEPRECATED, RETIRED}"
    and "\<forall>s \<in> set (build_seed_model_catalogue_entries sha c inventory now).
           me_entry_id s = k \<longrightarrow> me_candidate_id_v2 s \<noteq> me_candidate_id_v2 e"
  shows "fst (bind_live_text_model_catalogue_entry sha c inventory now w) = Inr e"
proof -
  obtain rep w1 where seed: "ensure_model_catalogue_seeded sha c inventory now w = (Inr rep, w1)"
    using seeding_rows(1) [of sha c inventory now w] by (cases "ensure_model_catalogue_seeded sha c inventory now w") auto
  have "get_entry w1 k = Some e"
  proof (cases "List.find (\<lambda>s. me_entry_id s = k) (build_seed_model_catalogue_entries sha c inventory now)")
    case None
    then show ?thesis using seeding_rows(2) [of sha c inventory now w k] seed assms(1) by simp
  next
    case (Some s)
    then have "me_candidate_id_v2 s \<noteq> me_candidate_id_v2 e" using find_Some_iff_list [OF Some] assms(10) by blast
    then show ?thesis
      using seeding_rows(2) [of sha c inventory now w k] seed assms(1) Some by (simp add: seeded_row_def)
  qed
  then show ?thesis
    using assms(2-9) by (simp add: bind_live_text_model_catalogue_entry_def seed Let_def truthy_def out_of_service)
qed

section \<open>A concrete universe\<close>

text \<open>A digest that spells out the values it is given, so that different candidates have different identities.\<close>

definition spelled_sha :: "payload \<Rightarrow> string" where
  "spelled_sha p = concat (map (\<lambda>x. case snd x of Some v \<Rightarrow> v @ ''/'' | None \<Rightarrow> ''-'') p)"

definition sample_universe :: "candidate_universe result \<times> catalogue_world" where
  "sample_universe = derive_candidate_universe spelled_sha (Some (JList [])) live_config [] ''t1'' empty_catalogue_world"

lemma sample_universe_runs:
  "sample_universe = (Inr \<lparr>cu_candidates = [''cand2_-gpt/gpt-1/text.openai/2/'', ''cand2_-n/n/text.openai/2/''],
      cu_exclusions = [], cu_policy_version = None\<rparr>, snd sample_universe)"
  by code_simp

theorem candidates_run_as_themselves_witness:
  "\<exists>d. derive_candidate_execution_config spelled_sha (Some (JList [])) (\<lambda>_. None) live_config ''cand2_-n/n/text.openai/2/''
         = Inr (Some d) \<and> config_candidate_identity spelled_sha d = Some ''cand2_-n/n/text.openai/2/''
     \<and> xc_retry_limit d = 2"
proof -
  have "xc_deployment live_config = None" "xc_retry_limit live_config = 2" by (simp_all add: live_config_def sample_config_def)
  with candidates_run_as_themselves [OF sample_universe_runs [unfolded sample_universe_def], where k = "''cand2_-n/n/text.openai/2/''"]
  show ?thesis by auto
qed

theorem universe_accounts_for_every_model_witness:
  "\<exists>i \<in> set (fst (current_serving_order live_config (snd sample_universe))). \<exists>e.
     resolve_catalogue_entry_by_identity i (snd sample_universe) = Some e \<and> me_candidate_id_v2 e = ''cand2_-n/n/text.openai/2/''"
proof -
  have "dict_wf (cw_entries empty_catalogue_world)" by (simp add: empty_catalogue_world_def)
  from universe_accounts_for_every_model [OF sample_universe_runs [unfolded sample_universe_def] this,
      where k = "''cand2_-n/n/text.openai/2/''"]
  show ?thesis by (auto simp: sample_universe_def)
qed

definition sample_requirements :: capability_requirements where
  "sample_requirements = \<lparr>cr_structured_output_required = Some True, cr_tool_calling_required = None,
     cr_max_latency_ms = None, cr_max_estimated_cost_usd = None\<rparr>"

theorem requirements_enforced_exactly_witness:
  "enforce_capability_requirements (\<lambda>_. False) empty_catalogue_world (Some sample_requirements)
     (inventory_seed sample_sha ''t0'' sample_approved) None = Inl (ProviderExecutionError CAPABILITY_UNKNOWN)"
proof -
  have "dict_wf (cw_capability_evidence empty_catalogue_world)" by (simp add: empty_catalogue_world_def)
  from requirements_enforced_exactly [OF this, where q = sample_requirements and contract_exists = "\<lambda>_. False"
      and key = None and e = "inventory_seed sample_sha ''t0'' sample_approved"]
  show ?thesis
    by (simp add: sample_requirements_def capability_supported_def inventory_seed_def new_catalogue_entry_def
        scoped_structured_output_evidence_def empty_catalogue_world_def)
qed

definition sample_run :: evaluation_run where
  "sample_run = \<lparr>ev_run_id = ''run1'', ev_fixture_id = ''fx'', ev_manifest_version = ''v1'', ev_lifecycle_status = ''COMPLETED'',
     ev_triggered_by = ''ops'', ev_submitted_at = ''t0'', ev_async_job_id = None, ev_latest_message = [],
     ev_verdict = Some ''PASS'', ev_case_count = 1, ev_manifest_content_digest = None\<rparr>"

definition sample_proof :: capability_proof where
  "sample_proof = \<lparr>cp_dimension = ''supports_structured_output'', cp_scope_type = GLOBAL_SCOPE, cp_scope_key = None\<rparr>"

definition sample_manifest :: fixture_manifest where
  "sample_manifest = \<lparr>fm_version = ''v1'', fm_content_digest = Some ''d'',
     fm_families = [\<lparr>ff_fixture_id = ''fx'', ff_proves = [sample_proof]\<rparr>]\<rparr>"

definition evaluated_world :: catalogue_world where
  "evaluated_world = empty_catalogue_world\<lparr>
     cw_entries := [(''text.openai:gpt-1'', inventory_seed sample_sha ''t0'' sample_approved)],
     cw_evaluation_runs := [(''run1'', sample_run)]\<rparr>"

theorem passed_evaluation_enables_its_candidate_witness:
  "capability_supported (\<lambda>_. False)
     (record_capability_evidence_for_pass_run sample_manifest sample_run [Some ''cand2_digest''] ''t1'' evaluated_world)
     (inventory_seed sample_sha ''t0'' sample_approved) None ''supports_structured_output'' None False"
proof -
  have "get_entry_by_candidate_id evaluated_world ''cand2_digest'' = Some (inventory_seed sample_sha ''t0'' sample_approved)"
    by (simp add: get_entry_by_candidate_id_def evaluated_world_def inventory_seed_def new_catalogue_entry_def
        derive_candidate_identity_v2_def sample_sha_def)
  moreover have "dict_get (cw_evaluation_runs evaluated_world) (ev_run_id sample_run) = Some sample_run"
    by (simp add: evaluated_world_def sample_run_def)
  moreover have "dict_get (me_capability_degradations (inventory_seed sample_sha ''t0'' sample_approved)) (cp_dimension sample_proof) = None"
    by (simp add: inventory_seed_def new_catalogue_entry_def)
  ultimately show ?thesis
    using passed_evaluation_enables_its_candidate [of sample_manifest sample_run
        "\<lparr>ff_fixture_id = ''fx'', ff_proves = [sample_proof]\<rparr>" "inventory_seed sample_sha ''t0'' sample_approved"
        "''cand2_digest''" "''t1''" sample_proof evaluated_world sample_run None "[Some ''cand2_digest'']" "\<lambda>_. False" None False]
    by (simp add: sample_manifest_def sample_run_def sample_proof_def)
qed

text \<open>A catalogued row of family \<open>old\<close> under the key the configured model \<open>gpt\<close> derives.\<close>

definition family_conflict_world :: catalogue_world where
  "family_conflict_world = empty_catalogue_world\<lparr>cw_entries := [(''text.openai:gpt-1'',
     new_catalogue_entry spelled_sha ''text.openai'' ''openai'' ''old'' ''gpt-1'' CATALOGUED True SETTINGS_LIVE_TEXT ''t0'')]\<rparr>"

theorem binding_ignores_the_model_family_witness:
  "\<exists>e. fst (bind_live_text_model_catalogue_entry spelled_sha live_config [] ''t1'' family_conflict_world) = Inr e
     \<and> me_model_family e = ''old'' \<and> xc_model_id live_config = Some ''gpt''"
proof -
  let ?e = "new_catalogue_entry spelled_sha ''text.openai'' ''openai'' ''old'' ''gpt-1'' CATALOGUED True SETTINGS_LIVE_TEXT ''t0''"
  have 1: "get_entry family_conflict_world ''text.openai:gpt-1'' = Some ?e"
    by (simp add: get_entry_def family_conflict_world_def)
  have 2: "list_all (\<lambda>s. me_entry_id s = ''text.openai:gpt-1'' \<longrightarrow> me_candidate_id_v2 s \<noteq> me_candidate_id_v2 ?e)
      (build_seed_model_catalogue_entries spelled_sha live_config [] ''t1'')" by code_simp
  show ?thesis
    using binding_ignores_the_model_family [OF 1, where provider = "''text.openai''" and c = live_config and sha = spelled_sha
        and inventory = "[]" and now = "''t1''"] 2
    by (simp add: list_all_iff live_config_def sample_config_def or_else_def truthy_def new_catalogue_entry_def
        derive_model_catalogue_entry_id_def)
qed

end
