(* ===== verification/Model_Lifecycle.thy ===== *)
theory Model_Lifecycle
  imports Model_Catalogue
begin

text \<open>
  Governed changes of catalogue rows, \<^verbatim>\<open>services/model_lifecycle_control.py\<close>: single-principal transitions, the
  two-step serving promotion, and the degradation and governed restore of one capability dimension, over
  the transition table of \<^verbatim>\<open>contracts/model_catalogue.py\<close>.

  The current instant and the random part of an event identifier are arguments. The interleaving that
  matters, another write between reading a row and writing it back, is the pair of a row read earlier and
  the world the effect runs on.
\<close>

section \<open>The transition table\<close>

fun lifecycle_value :: "lifecycle_state \<Rightarrow> string" where
  "lifecycle_value DISCOVERED = ''DISCOVERED''"
| "lifecycle_value CATALOGUED = ''CATALOGUED''"
| "lifecycle_value EVALUATING = ''EVALUATING''"
| "lifecycle_value APPROVED = ''APPROVED''"
| "lifecycle_value SHADOW = ''SHADOW''"
| "lifecycle_value CANARY = ''CANARY''"
| "lifecycle_value PRODUCTION = ''PRODUCTION''"
| "lifecycle_value DEGRADED = ''DEGRADED''"
| "lifecycle_value DEPRECATED = ''DEPRECATED''"
| "lifecycle_value RETIRED = ''RETIRED''"

definition all_lifecycle_states :: "lifecycle_state list" where
  "all_lifecycle_states = [DISCOVERED, CATALOGUED, EVALUATING, APPROVED, SHADOW, CANARY, PRODUCTION, DEGRADED, DEPRECATED, RETIRED]"

text \<open>\<^verbatim>\<open>ModelLifecycleState(text)\<close>, which raises on a text that is no value of the enum.\<close>

definition parse_lifecycle :: "string \<Rightarrow> lifecycle_state result" where
  "parse_lifecycle v =
     (case List.find (\<lambda>s. lifecycle_value s = v) all_lifecycle_states of
        None \<Rightarrow> Inl (ValueError ''ModelLifecycleState'') | Some s \<Rightarrow> Inr s)"

fun allowed_transitions :: "lifecycle_state \<Rightarrow> lifecycle_state list" where
  "allowed_transitions DISCOVERED = [CATALOGUED]"
| "allowed_transitions CATALOGUED = [EVALUATING, DEPRECATED]"
| "allowed_transitions EVALUATING = [APPROVED, CATALOGUED, DEPRECATED]"
| "allowed_transitions APPROVED = [SHADOW, CANARY, PRODUCTION, DEGRADED, DEPRECATED]"
| "allowed_transitions SHADOW = [CANARY, APPROVED, DEPRECATED]"
| "allowed_transitions CANARY = [PRODUCTION, APPROVED, DEGRADED, DEPRECATED]"
| "allowed_transitions PRODUCTION = [DEGRADED, DEPRECATED]"
| "allowed_transitions DEGRADED = [PRODUCTION, CANARY, DEPRECATED]"
| "allowed_transitions DEPRECATED = [RETIRED]"
| "allowed_transitions RETIRED = []"

definition serving_promotion_targets :: "lifecycle_state list" where
  "serving_promotion_targets = [APPROVED, SHADOW, CANARY, PRODUCTION]"

definition degradable_dimensions :: "string list" where
  "degradable_dimensions = [''supports_structured_output'', ''supports_tool_calling'']"

section \<open>Guards\<close>

definition require_durable_catalogue_store :: "'a catalogue_world_scheme \<Rightarrow> unit result" where
  "require_durable_catalogue_store w =
     (if cw_store_mode w \<noteq> ''sqlalchemy'' then Inl (HTTPException 409 ''store_not_durable'') else Inr ())"

definition get_required_catalogue_entry :: "string \<Rightarrow> 'a catalogue_world_scheme \<Rightarrow> catalogue_entry result" where
  "get_required_catalogue_entry k w =
     (case get_entry w k of None \<Rightarrow> Inl (HTTPException 404 ''entry'') | Some e \<Rightarrow> Inr e)"

definition validate_lifecycle_edge :: "catalogue_entry \<Rightarrow> lifecycle_state \<Rightarrow> unit result" where
  "validate_lifecycle_edge e to =
     (if to \<in> set (allowed_transitions (me_lifecycle_state e)) then Inr () else Inl (HTTPException 422 ''edge''))"

definition require_pass_verdict_evaluation_run :: "string \<Rightarrow> 'a catalogue_world_scheme \<Rightarrow> unit result" where
  "require_pass_verdict_evaluation_run run_id w =
     (case dict_get (cw_evaluation_runs w) run_id of
        None \<Rightarrow> Inl (HTTPException 422 ''run_missing'')
      | Some run \<Rightarrow>
          if ev_lifecycle_status run \<noteq> ''COMPLETED'' \<or> ev_verdict run \<noteq> Some ''PASS''
          then Inl (HTTPException 422 ''run_not_passed'') else Inr ())"

text \<open>The three guards every operation opens with: authorization, durable store, existing entry.\<close>

definition open_entry ::
  "policy_store \<Rightarrow> authenticated_caller \<Rightarrow> string \<Rightarrow> 'a catalogue_world_scheme \<Rightarrow> catalogue_entry result" where
  "open_entry policies caller k w =
     (case require_provider_control policies caller of
        Inl err \<Rightarrow> Inl err
      | Inr _ \<Rightarrow> (case require_durable_catalogue_store w of
          Inl err \<Rightarrow> Inl err | Inr _ \<Rightarrow> get_required_catalogue_entry k w))"

section \<open>Transitions\<close>

definition transitioned_row ::
  "timestamp \<Rightarrow> lifecycle_state \<Rightarrow> string option \<Rightarrow> catalogue_entry \<Rightarrow> catalogue_entry" where
  "transitioned_row now to evidence e =
     e\<lparr>me_lifecycle_state := to, me_last_updated_at := now,
       me_approval_evidence_refs := me_approval_evidence_refs e @ (if truthy evidence then [the evidence] else [])\<rparr>"

definition transition_event ::
  "string \<Rightarrow> timestamp \<Rightarrow> catalogue_entry \<Rightarrow> lifecycle_state \<Rightarrow> string \<Rightarrow> string \<Rightarrow> string option \<Rightarrow> string option \<Rightarrow> lifecycle_event" where
  "transition_event eid now e to reason requested_by approved_by evidence =
     \<lparr>le_event_id = eid, le_entry_id = me_entry_id e, le_from_state = me_lifecycle_state e, le_to_state = to,
      le_reason = reason, le_requested_by = requested_by, le_approved_by = approved_by,
      le_approval_evidence_ref = evidence, le_recorded_at = now\<rparr>"

definition record_lifecycle_transition ::
  "(payload \<Rightarrow> string) \<Rightarrow> string \<Rightarrow> timestamp \<Rightarrow> catalogue_entry \<Rightarrow> lifecycle_state \<Rightarrow> string \<Rightarrow> string \<Rightarrow> string option
     \<Rightarrow> string option \<Rightarrow> 'a catalogue_world_scheme
     \<Rightarrow> (catalogue_entry \<times> lifecycle_event) result \<times> 'a catalogue_world_scheme" where
  "record_lifecycle_transition sha eid now e to reason requested_by approved_by evidence w =
     (let updated = transitioned_row now to evidence e;
          event = transition_event eid now e to reason requested_by approved_by evidence
      in case upsert_model_catalogue_entry sha updated w of
           (Inl err, w1) \<Rightarrow> (Inl err, w1)
         | (Inr _, w1) \<Rightarrow> (Inr (updated, event), append_lifecycle_event event w1))"

definition apply_model_lifecycle_transition ::
  "(payload \<Rightarrow> string) \<Rightarrow> policy_store \<Rightarrow> authenticated_caller \<Rightarrow> string \<Rightarrow> lifecycle_state \<Rightarrow> string \<Rightarrow> string \<Rightarrow> timestamp
     \<Rightarrow> 'a catalogue_world_scheme \<Rightarrow> (catalogue_entry \<times> lifecycle_event) result \<times> 'a catalogue_world_scheme" where
  "apply_model_lifecycle_transition sha policies caller k to reason eid now w =
     (case open_entry policies caller k w of
        Inl err \<Rightarrow> (Inl err, w)
      | Inr e \<Rightarrow>
          if to \<in> set serving_promotion_targets then (Inl (HTTPException 409 ''promotion_target''), w)
          else (case validate_lifecycle_edge e to of
                  Inl err \<Rightarrow> (Inl err, w)
                | Inr _ \<Rightarrow> record_lifecycle_transition sha eid now e to reason (verified_caller_identity caller) None None w))"

section \<open>Serving promotion\<close>

definition promotion_action_payload :: "catalogue_entry \<Rightarrow> lifecycle_state \<Rightarrow> string \<Rightarrow> string \<Rightarrow> payload" where
  "promotion_action_payload e to run_id reason =
     [(''action_type'', Some ''MODEL_LIFECYCLE_PROMOTE''), (''entry_id'', Some (me_entry_id e)),
      (''from_state'', Some (lifecycle_value (me_lifecycle_state e))), (''to_state'', Some (lifecycle_value to)),
      (''provider_id'', Some (me_provider_id e)), (''model_family'', Some (me_model_family e)),
      (''model_revision'', Some (me_model_revision e)), (''deployment'', me_deployment e),
      (''evaluation_run_id'', Some run_id), (''reason'', Some reason)]"

definition request_model_promotion ::
  "(payload \<Rightarrow> string) \<Rightarrow> policy_store \<Rightarrow> authenticated_caller \<Rightarrow> string \<Rightarrow> lifecycle_state \<Rightarrow> string \<Rightarrow> string \<Rightarrow> string option
     \<Rightarrow> string \<Rightarrow> timestamp \<Rightarrow> 'a catalogue_world_scheme \<Rightarrow> governed_action result \<times> 'a catalogue_world_scheme" where
  "request_model_promotion sha policies caller k to run_id reason requested_by new_id now w =
     (case open_entry policies caller k w of
        Inl err \<Rightarrow> (Inl err, w)
      | Inr e \<Rightarrow>
          if to \<notin> set serving_promotion_targets then (Inl (HTTPException 422 ''not_a_promotion''), w)
          else (case validate_lifecycle_edge e to of
                  Inl err \<Rightarrow> (Inl err, w)
                | Inr _ \<Rightarrow>
                  (case require_pass_verdict_evaluation_run run_id w of
                     Inl err \<Rightarrow> (Inl err, w)
                   | Inr _ \<Rightarrow> submit_governed_action sha caller MODEL_LIFECYCLE_PROMOTE k
                               (promotion_action_payload e to run_id reason) requested_by new_id now w)))"

definition credential_text :: "string option \<Rightarrow> string" where
  "credential_text k = (case k of Some v \<Rightarrow> v | None \<Rightarrow> ''None'')"

definition execute_promotion ::
  "(payload \<Rightarrow> string) \<Rightarrow> authenticated_caller \<Rightarrow> string \<Rightarrow> timestamp \<Rightarrow> catalogue_entry \<Rightarrow> 'a catalogue_world_scheme effect" where
  "execute_promotion sha caller eid now e r w =
     (case parse_lifecycle (payload_str (ga_action_payload r) ''to_state'') of
        Inl err \<Rightarrow> (Inl err, w)
      | Inr to \<Rightarrow>
        (case validate_lifecycle_edge e to of
           Inl err \<Rightarrow> (Inl err, w)
         | Inr _ \<Rightarrow>
           (case require_pass_verdict_evaluation_run (payload_str (ga_action_payload r) ''evaluation_run_id'') w of
              Inl err \<Rightarrow> (Inl err, w)
            | Inr _ \<Rightarrow>
              (case record_lifecycle_transition sha eid now e to (payload_str (ga_action_payload r) ''reason'')
                      (ga_requester_caller_app r @ '' (credential '' @ credential_text (ga_requester_key_id r) @ '')'')
                      (Some (verified_caller_identity caller))
                      (Some (''evaluation-run:'' @ payload_str (ga_action_payload r) ''evaluation_run_id'')) w of
                 (Inl err, w1) \<Rightarrow> (Inl err, w1)
               | (Inr _, w1) \<Rightarrow> (Inr None, w1)))))"

definition rebuild_promotion_payload :: "catalogue_entry \<Rightarrow> governed_action \<Rightarrow> payload result" where
  "rebuild_promotion_payload e r =
     (case parse_lifecycle (payload_str (ga_action_payload r) ''to_state'') of
        Inl err \<Rightarrow> Inl err
      | Inr to \<Rightarrow> Inr (promotion_action_payload e to (payload_str (ga_action_payload r) ''evaluation_run_id'')
                       (payload_str (ga_action_payload r) ''reason'')))"

definition approve_model_promotion ::
  "(payload \<Rightarrow> string) \<Rightarrow> policy_store \<Rightarrow> authenticated_caller \<Rightarrow> string \<Rightarrow> string \<Rightarrow> string \<Rightarrow> string option \<Rightarrow> timestamp list
     \<Rightarrow> string \<Rightarrow> timestamp \<Rightarrow> timestamp \<Rightarrow> 'a catalogue_world_scheme
     \<Rightarrow> (governed_action result \<times> 'a catalogue_world_scheme) option" where
  "approve_model_promotion sha policies caller k action_id action_hash approved_by readings eid now executed_now w =
     (case open_entry policies caller k w of
        Inl err \<Rightarrow> Some (Inl err, w)
      | Inr e \<Rightarrow> approve_and_execute sha caller action_id k action_hash (\<lambda>_. rebuild_promotion_payload e) approved_by
                  (execute_promotion sha caller eid now e) False readings executed_now w)"

section \<open>Capability degradation and restore\<close>

definition degraded_row :: "capability_degradation \<Rightarrow> catalogue_entry \<Rightarrow> catalogue_entry" where
  "degraded_row d e =
     e\<lparr>me_capability_degradations := dict_put (cd_dimension d) d (me_capability_degradations e),
       me_last_updated_at := cd_degraded_at d\<rparr>"

definition degrade_model_capability ::
  "(payload \<Rightarrow> string) \<Rightarrow> policy_store \<Rightarrow> authenticated_caller \<Rightarrow> string \<Rightarrow> string \<Rightarrow> string \<Rightarrow> timestamp
     \<Rightarrow> 'a catalogue_world_scheme \<Rightarrow> capability_degradation result \<times> 'a catalogue_world_scheme" where
  "degrade_model_capability sha policies caller k dimension reason now w =
     (case open_entry policies caller k w of
        Inl err \<Rightarrow> (Inl err, w)
      | Inr e \<Rightarrow>
          if dimension \<notin> set degradable_dimensions then (Inl (HTTPException 422 ''dimension''), w)
          else if dict_get (me_capability_degradations e) dimension \<noteq> None
          then (Inl (HTTPException 409 ''already_degraded''), w)
          else let d = \<lparr>cd_dimension = dimension, cd_reason = reason, cd_degraded_by = verified_caller_identity caller,
                        cd_degraded_at = now\<rparr>
            in case upsert_model_catalogue_entry sha (degraded_row d e) w of
                 (Inl err, w1) \<Rightarrow> (Inl err, w1) | (Inr _, w1) \<Rightarrow> (Inr d, w1))"

definition capability_restore_payload ::
  "catalogue_entry \<Rightarrow> capability_degradation \<Rightarrow> string \<Rightarrow> string \<Rightarrow> payload" where
  "capability_restore_payload e d run_id reason =
     [(''action_type'', Some ''MODEL_CAPABILITY_RESTORE''), (''entry_id'', Some (me_entry_id e)),
      (''dimension'', Some (cd_dimension d)), (''degradation_reason'', Some (cd_reason d)),
      (''degraded_by'', Some (cd_degraded_by d)), (''degraded_at'', Some (cd_degraded_at d)),
      (''evaluation_run_id'', Some run_id), (''reason'', Some reason)]"

definition get_required_capability_degradation :: "catalogue_entry \<Rightarrow> string \<Rightarrow> capability_degradation result" where
  "get_required_capability_degradation e dimension =
     (case dict_get (me_capability_degradations e) dimension of
        None \<Rightarrow> Inl (HTTPException 409 ''not_degraded'') | Some d \<Rightarrow> Inr d)"

definition request_model_capability_restore ::
  "(payload \<Rightarrow> string) \<Rightarrow> policy_store \<Rightarrow> authenticated_caller \<Rightarrow> string \<Rightarrow> string \<Rightarrow> string \<Rightarrow> string \<Rightarrow> string option
     \<Rightarrow> string \<Rightarrow> timestamp \<Rightarrow> 'a catalogue_world_scheme \<Rightarrow> governed_action result \<times> 'a catalogue_world_scheme" where
  "request_model_capability_restore sha policies caller k dimension run_id reason requested_by new_id now w =
     (case open_entry policies caller k w of
        Inl err \<Rightarrow> (Inl err, w)
      | Inr e \<Rightarrow>
        (case get_required_capability_degradation e dimension of
           Inl err \<Rightarrow> (Inl err, w)
         | Inr d \<Rightarrow>
           (case require_pass_verdict_evaluation_run run_id w of
              Inl err \<Rightarrow> (Inl err, w)
            | Inr _ \<Rightarrow> submit_governed_action sha caller MODEL_CAPABILITY_RESTORE k
                        (capability_restore_payload e d run_id reason) requested_by new_id now w)))"

definition restored_row :: "timestamp \<Rightarrow> string \<Rightarrow> catalogue_entry \<Rightarrow> catalogue_entry" where
  "restored_row now dimension e =
     e\<lparr>me_capability_degradations := filter (\<lambda>(k, d). k \<noteq> dimension) (me_capability_degradations e), me_last_updated_at := now\<rparr>"

definition execute_restore ::
  "(payload \<Rightarrow> string) \<Rightarrow> timestamp \<Rightarrow> catalogue_entry \<Rightarrow> 'a catalogue_world_scheme effect" where
  "execute_restore sha now e r w =
     (case require_pass_verdict_evaluation_run (payload_str (ga_action_payload r) ''evaluation_run_id'') w of
        Inl err \<Rightarrow> (Inl err, w)
      | Inr _ \<Rightarrow>
        (case upsert_model_catalogue_entry sha (restored_row now (payload_str (ga_action_payload r) ''dimension'') e) w of
           (Inl err, w1) \<Rightarrow> (Inl err, w1) | (Inr _, w1) \<Rightarrow> (Inr None, w1)))"

definition rebuild_restore_payload :: "catalogue_entry \<Rightarrow> governed_action \<Rightarrow> payload result" where
  "rebuild_restore_payload e r =
     (case get_required_capability_degradation e (payload_str (ga_action_payload r) ''dimension'') of
        Inl err \<Rightarrow> Inl err
      | Inr d \<Rightarrow> Inr (capability_restore_payload e d (payload_str (ga_action_payload r) ''evaluation_run_id'')
                      (payload_str (ga_action_payload r) ''reason'')))"

definition approve_model_capability_restore ::
  "(payload \<Rightarrow> string) \<Rightarrow> policy_store \<Rightarrow> authenticated_caller \<Rightarrow> string \<Rightarrow> string \<Rightarrow> string \<Rightarrow> string option \<Rightarrow> timestamp list
     \<Rightarrow> timestamp \<Rightarrow> timestamp \<Rightarrow> 'a catalogue_world_scheme \<Rightarrow> (governed_action result \<times> 'a catalogue_world_scheme) option" where
  "approve_model_capability_restore sha policies caller k action_id action_hash approved_by readings now executed_now w =
     (case open_entry policies caller k w of
        Inl err \<Rightarrow> Some (Inl err, w)
      | Inr e \<Rightarrow> approve_and_execute sha caller action_id k action_hash (\<lambda>_. rebuild_restore_payload e) approved_by
                  (execute_restore sha now e) False readings executed_now w)"

section \<open>Facts\<close>

lemma lifecycle_states_complete: "s \<in> set all_lifecycle_states"
  by (cases s) (simp_all add: all_lifecycle_states_def)

lemma parse_lifecycle_value [simp]: "parse_lifecycle (lifecycle_value s) = Inr s"
  by (cases s) (simp_all add: parse_lifecycle_def all_lifecycle_states_def)

definition stamped :: "(payload \<Rightarrow> string) \<Rightarrow> catalogue_entry \<Rightarrow> catalogue_entry" where
  "stamped sha e = e\<lparr>me_candidate_id_v2 := canonical_identity sha e\<rparr>"

lemma stamped_fields [simp]:
  "me_entry_id (stamped sha e) = me_entry_id e" "me_lifecycle_state (stamped sha e) = me_lifecycle_state e"
  "me_capability_degradations (stamped sha e) = me_capability_degradations e"
  "me_seed_source (stamped sha e) = me_seed_source e"
  "me_approval_evidence_refs (stamped sha e) = me_approval_evidence_refs e"
  by (simp_all add: stamped_def)

lemma upsert_refused: "upsert_model_catalogue_entry sha e w = (Inl err, w') \<Longrightarrow> w' = w"
  by (erule upsert_cases) auto

lemma upsert_written:
  assumes "upsert_model_catalogue_entry sha e w = (Inr u, w')"
  shows "get_entry w' k = (if k = me_entry_id e then Some (stamped sha e) else get_entry w k)"
    and "cw_lifecycle_events w' = cw_lifecycle_events w" and "entry_ok sha (stamped sha e)"
    and "w' = w\<lparr>cw_entries := dict_put (me_entry_id e) (stamped sha e) (cw_entries w)\<rparr>"
  using assms by (auto elim!: upsert_cases simp: get_entry_put stamped_def)

lemma get_entry_ledger [simp]: "get_entry (w\<lparr>governed_actions := g\<rparr>) = get_entry w"
  by (simp add: get_entry_def fun_eq_iff)

lemma transitioned_row_fields [simp]:
  "me_entry_id (transitioned_row now to evidence e) = me_entry_id e"
  "me_lifecycle_state (transitioned_row now to evidence e) = to"
  "me_capability_degradations (transitioned_row now to evidence e) = me_capability_degradations e"
  "me_seed_source (transitioned_row now to evidence e) = me_seed_source e"
  by (simp_all add: transitioned_row_def)

text \<open>One lifecycle write: the row moves and the event is appended, or nothing happens.\<close>

lemma record_transition_cases:
  assumes "record_lifecycle_transition sha eid now e to reason requested_by approved_by evidence w = (r, w')"
  obtains (refused) err where "r = Inl err" and "w' = w"
  | (written) "r = Inr (transitioned_row now to evidence e, transition_event eid now e to reason requested_by approved_by evidence)"
      and "\<And>k. get_entry w' k = (if k = me_entry_id e then Some (stamped sha (transitioned_row now to evidence e)) else get_entry w k)"
      and "cw_lifecycle_events w' = cw_lifecycle_events w @ [transition_event eid now e to reason requested_by approved_by evidence]"
proof -
  let ?row = "transitioned_row now to evidence e"
  obtain u w1 where up: "upsert_model_catalogue_entry sha ?row w = (u, w1)" by fastforce
  show thesis
  proof (cases u)
    case (Inl err)
    then show thesis using assms up refused upsert_refused [of sha ?row w err w1]
      by (auto simp: record_lifecycle_transition_def Let_def)
  next
    case (Inr x)
    note wr = upsert_written [OF up [unfolded Inr]]
    let ?event = "transition_event eid now e to reason requested_by approved_by evidence"
    have "r = Inr (?row, ?event)" and w': "w' = append_lifecycle_event ?event w1"
      using assms up Inr by (simp_all add: record_lifecycle_transition_def Let_def)
    moreover have "cw_lifecycle_events w' = cw_lifecycle_events w @ [?event]"
      using wr(2) by (simp add: w' append_lifecycle_event_def)
    moreover have "get_entry w' k = (if k = me_entry_id e then Some (stamped sha ?row) else get_entry w k)" for k
      using wr(1) [of k] by (simp add: w')
    ultimately show thesis using written by blast
  qed
qed

interpretation promotion: governed_write get_entry "execute_promotion sha caller eid now e" "\<lambda>_. me_entry_id e"
  "\<lambda>p. stamped sha (transitioned_row now (projr (parse_lifecycle (payload_str p ''to_state'')))
     (Some (''evaluation-run:'' @ payload_str p ''evaluation_run_id'')) e)" for sha caller eid now e
proof unfold_locales
  fix w w2 :: "'a catalogue_world_scheme" and c res k
  assume "execute_promotion sha caller eid now e c w = (Inr res, w2)"
  then show "get_entry w2 k = (if k = me_entry_id e then Some (stamped sha (transitioned_row now
      (projr (parse_lifecycle (payload_str (ga_action_payload c) ''to_state'')))
      (Some (''evaluation-run:'' @ payload_str (ga_action_payload c) ''evaluation_run_id'')) e)) else get_entry w k)"
    by (auto simp: execute_promotion_def split: sum.splits prod.splits elim!: record_transition_cases)
next
  fix w w2 :: "'a catalogue_world_scheme" and c err k
  assume "execute_promotion sha caller eid now e c w = (Inl err, w2)"
  then show "get_entry w2 k = get_entry w k"
    by (auto simp: execute_promotion_def split: sum.splits prod.splits elim!: record_transition_cases)
qed simp

interpretation restore: governed_write get_entry "execute_restore sha now e" "\<lambda>_. me_entry_id e"
  "\<lambda>p. stamped sha (restored_row now (payload_str p ''dimension'') e)" for sha now e
proof unfold_locales
  fix w w2 :: "'a catalogue_world_scheme" and c res k
  assume "execute_restore sha now e c w = (Inr res, w2)"
  then show "get_entry w2 k = (if k = me_entry_id e then Some (stamped sha (restored_row now
      (payload_str (ga_action_payload c) ''dimension'') e)) else get_entry w k)"
    by (auto simp: execute_restore_def restored_row_def upsert_written split: sum.splits prod.splits)
next
  fix w w2 :: "'a catalogue_world_scheme" and c err k
  assume "execute_restore sha now e c w = (Inl err, w2)"
  then show "get_entry w2 k = get_entry w k"
    by (auto simp: execute_restore_def split: sum.splits prod.splits dest: upsert_refused)
qed simp

section \<open>Sequences of catalogue operations\<close>

text \<open>The operations of the services, and the removal of lifecycle events by retention (\<^verbatim>\<open>services/data_lifecycle_engine.py\<close>).\<close>

inductive catalogue_step ::
  "(payload \<Rightarrow> string) \<Rightarrow> policy_store \<Rightarrow> 'a catalogue_world_scheme \<Rightarrow> 'a catalogue_world_scheme \<Rightarrow> bool"
  for sha policies where
  seed: "ensure_model_catalogue_seeded sha c inventory now w = (r, w') \<Longrightarrow> catalogue_step sha policies w w'"
| transition: "apply_model_lifecycle_transition sha policies caller k to reason eid now w = (r1, w')
     \<Longrightarrow> catalogue_step sha policies w w'"
| promotion_request: "request_model_promotion sha policies caller k to run_id reason requested_by new_id now w = (r2, w')
     \<Longrightarrow> catalogue_step sha policies w w'"
| promotion: "approve_model_promotion sha policies caller k aid h attr readings eid now executed_now w = Some (r2, w')
     \<Longrightarrow> catalogue_step sha policies w w'"
| degrade: "degrade_model_capability sha policies caller k dimension reason now w = (r3, w') \<Longrightarrow> catalogue_step sha policies w w'"
| restore_request: "request_model_capability_restore sha policies caller k dimension run_id reason requested_by new_id now w = (r2, w')
     \<Longrightarrow> catalogue_step sha policies w w'"
| restoration: "approve_model_capability_restore sha policies caller k aid h attr readings now executed_now w = Some (r2, w')
     \<Longrightarrow> catalogue_step sha policies w w'"
| prune: "delete_lifecycle_events ids w = (n, w') \<Longrightarrow> catalogue_step sha policies w w'"

text \<open>What one operation does to the rows and to the event log.\<close>

definition rows_quiet :: "'a catalogue_world_scheme \<Rightarrow> 'a catalogue_world_scheme \<Rightarrow> bool" where
  "rows_quiet w w' \<longleftrightarrow> (\<forall>k. get_entry w' k = get_entry w k) \<and> cw_lifecycle_events w' = cw_lifecycle_events w"

definition row_moved :: "'a catalogue_world_scheme \<Rightarrow> 'a catalogue_world_scheme \<Rightarrow> bool" where
  "row_moved w w' \<longleftrightarrow> (\<exists>k e to now evidence ev. get_entry w k = Some e \<and> to \<in> set (allowed_transitions (me_lifecycle_state e))
     \<and> get_entry w' = (get_entry w)(k \<mapsto> transitioned_row now to evidence e)
     \<and> cw_lifecycle_events w' = cw_lifecycle_events w @ [ev] \<and> le_entry_id ev = k \<and> le_to_state ev = to
     \<and> (to \<in> set serving_promotion_targets \<longrightarrow> le_approved_by ev \<noteq> None \<and> le_approval_evidence_ref ev \<noteq> None))"

definition row_overlaid ::
  "((string, capability_degradation) dict \<Rightarrow> (string, capability_degradation) dict \<Rightarrow> bool)
     \<Rightarrow> 'a catalogue_world_scheme \<Rightarrow> 'a catalogue_world_scheme \<Rightarrow> bool" where
  "row_overlaid P w w' \<longleftrightarrow> (\<exists>k e ds t. get_entry w k = Some e \<and> P (me_capability_degradations e) ds
     \<and> get_entry w' = (get_entry w)(k \<mapsto> e\<lparr>me_capability_degradations := ds, me_last_updated_at := t\<rparr>)
     \<and> cw_lifecycle_events w' = cw_lifecycle_events w)"

lemma row_overlaidI:
  "get_entry w k = Some e \<Longrightarrow> P (me_capability_degradations e) ds \<Longrightarrow>
    get_entry w' = (get_entry w)(k \<mapsto> e\<lparr>me_capability_degradations := ds, me_last_updated_at := t\<rparr>)
    \<Longrightarrow> cw_lifecycle_events w' = cw_lifecycle_events w \<Longrightarrow> row_overlaid P w w'"
  unfolding row_overlaid_def by blast

lemma open_entry_Inr:
  assumes "open_entry policies caller k w = Inr e"
  shows "get_entry w k = Some e" and "require_provider_control policies caller = Inr ()" and "cw_store_mode w = ''sqlalchemy''"
  using assms by (auto simp: open_entry_def get_required_catalogue_entry_def require_durable_catalogue_store_def
      split: sum.splits option.splits if_splits)

lemma stamped_ok: "entry_ok sha e \<Longrightarrow> stamped sha e = e"
  by (cases e) (simp add: stamped_def entry_ok_def canonical_identity_def)

lemma entry_ok_transitioned [simp]:
  "entry_ok sha (transitioned_row now to evidence e) = entry_ok sha e" "entry_ok sha (restored_row now d e) = entry_ok sha e"
  "entry_ok sha (degraded_row g e) = entry_ok sha e"
  by (simp_all add: entry_ok_def canonical_identity_def transitioned_row_def restored_row_def degraded_row_def)

lemma submit_frame: "submit_governed_action sha caller typ target p attr new_id now w = (r, w') \<Longrightarrow> \<exists>g. w' = w\<lparr>governed_actions := g\<rparr>"
  by (auto simp: submit_governed_action_def Let_def governed_store_defs split: sum.splits option.splits)
    (metis provider_ops_store.surjective provider_ops_store.update_convs(5))+

lemma quiet_ledger: "w' = w\<lparr>governed_actions := g\<rparr> \<Longrightarrow> rows_quiet w w'"
  by (simp add: rows_quiet_def)

lemma quiet_refl [simp]: "rows_quiet w w"
  by (simp add: rows_quiet_def)

lemma record_transition_effect:
  assumes "record_lifecycle_transition sha eid now e to reason requested_by approved_by evidence w = (r, w')"
    and "catalogue_ok sha w" and "get_entry w k = Some e" and "to \<in> set (allowed_transitions (me_lifecycle_state e))"
    and "to \<in> set serving_promotion_targets \<longrightarrow> approved_by \<noteq> None \<and> evidence \<noteq> None"
  shows "rows_quiet w w' \<or> row_moved w w'"
  using assms(1)
proof (cases rule: record_transition_cases)
  case written
  have "me_entry_id e = k" "entry_ok sha e" using assms(2,3) by (auto simp: catalogue_ok_def)
  then have "get_entry w' = (get_entry w)(k \<mapsto> transitioned_row now to evidence e)"
    using written(2) by (auto simp: stamped_ok)
  then have "row_moved w w'"
    unfolding row_moved_def using written(3) assms(3-5) \<open>me_entry_id e = k\<close>
    by (intro exI [of _ k] exI [of _ e] exI [of _ to] exI [of _ now] exI [of _ evidence]
        exI [of _ "transition_event eid now e to reason requested_by approved_by evidence"]) (simp add: transition_event_def)
  then show ?thesis ..
qed simp

lemma transition_effect:
  assumes "apply_model_lifecycle_transition sha policies caller k to reason eid now w = (r, w')" and "catalogue_ok sha w"
  shows "rows_quiet w w' \<or> row_moved w w'"
proof (cases "open_entry policies caller k w")
  case (Inr e)
  then show ?thesis
    using assms record_transition_effect [OF _ assms(2) open_entry_Inr(1) [OF Inr]]
    by (auto simp: apply_model_lifecycle_transition_def validate_lifecycle_edge_def split: if_splits)
qed (use assms in \<open>auto simp: apply_model_lifecycle_transition_def\<close>)

lemma execute_promotion_effect:
  assumes "execute_promotion sha caller eid now e c w = (r, w')" and "catalogue_ok sha w" and "get_entry w k = Some e"
  shows "rows_quiet w w' \<or> row_moved w w'"
  using assms(1) unfolding execute_promotion_def
  by (auto simp: validate_lifecycle_edge_def split: sum.splits if_splits prod.splits
      dest!: record_transition_effect [OF _ assms(2,3)])

lemma catalogue_ok_ledger [simp]: "catalogue_ok sha (w\<lparr>governed_actions := g\<rparr>) = catalogue_ok sha w"
  by (simp add: catalogue_ok_def)

lemma effect_ledger [simp]:
  "rows_quiet (w\<lparr>governed_actions := g\<rparr>) w' = rows_quiet w w'" "rows_quiet w (w'\<lparr>governed_actions := g\<rparr>) = rows_quiet w w'"
  "row_moved (w\<lparr>governed_actions := g\<rparr>) w' = row_moved w w'" "row_moved w (w'\<lparr>governed_actions := g\<rparr>) = row_moved w w'"
  "row_overlaid P (w\<lparr>governed_actions := g\<rparr>) w' = row_overlaid P w w'" "row_overlaid P w (w'\<lparr>governed_actions := g\<rparr>) = row_overlaid P w w'"
  by (simp_all add: rows_quiet_def row_moved_def row_overlaid_def)

lemma promotion_effect:
  assumes "approve_model_promotion sha policies caller k aid h attr readings eid now executed_now w = Some (r, w')"
    and "catalogue_ok sha w"
  shows "rows_quiet w w' \<or> row_moved w w'"
proof (cases "open_entry policies caller k w")
  case (Inr e)
  with assms(1) have "approve_and_execute sha caller aid k h (\<lambda>_. rebuild_promotion_payload e) attr
      (execute_promotion sha caller eid now e) False readings executed_now w = Some (r, w')"
    by (simp add: approve_model_promotion_def)
  then show ?thesis
  proof (cases rule: approve_and_execute_cases)
    case (ran a c g er w2 g')
    then show ?thesis
      using execute_promotion_effect [OF ran(5), of k] assms(2) open_entry_Inr(1) [OF Inr] by simp
  qed (simp add: quiet_ledger)
qed (use assms in \<open>simp add: approve_model_promotion_def\<close>)

lemma degrade_effect:
  assumes "degrade_model_capability sha policies caller k dimension reason now w = (r, w')" and "catalogue_ok sha w"
  shows "rows_quiet w w' \<or> row_overlaid (\<lambda>ds ds'. \<exists>d. ds' = dict_put dimension d ds \<and> dict_get ds dimension = None) w w'"
proof (cases "open_entry policies caller k w")
  case (Inr e)
  let ?d = "\<lparr>cd_dimension = dimension, cd_reason = reason, cd_degraded_by = verified_caller_identity caller, cd_degraded_at = now\<rparr>"
  have row: "get_entry w k = Some e" "me_entry_id e = k" "entry_ok sha e"
    using open_entry_Inr(1) [OF Inr] assms(2) by (auto simp: catalogue_ok_def)
  from assms(1) Inr consider "w' = w" | u where "upsert_model_catalogue_entry sha (degraded_row ?d e) w = (Inr u, w')"
      and "dict_get (me_capability_degradations e) dimension = None"
    by (auto simp: degrade_model_capability_def Let_def split: if_splits sum.splits prod.splits dest: upsert_refused)
  then show ?thesis
  proof cases
    case 2
    note wr = upsert_written [OF 2(1)]
    have "get_entry w' = (get_entry w)(k \<mapsto> e\<lparr>me_capability_degradations := dict_put dimension ?d (me_capability_degradations e),
        me_last_updated_at := now\<rparr>)"
      using wr(1) row(2,3) stamped_ok [of sha "degraded_row ?d e"] by (auto simp: degraded_row_def)
    then show ?thesis using 2(2) wr(2)
      by (intro disjI2 row_overlaidI [where e = e and k = k and t = now, OF row(1) exI [of _ ?d, OF conjI [OF refl]]]) simp_all
  qed simp
qed (use assms in \<open>simp add: degrade_model_capability_def\<close>)

lemma restore_effect:
  assumes "approve_model_capability_restore sha policies caller k aid h attr readings now executed_now w = Some (r, w')"
    and "catalogue_ok sha w"
  shows "rows_quiet w w' \<or> row_overlaid (\<lambda>ds ds'. \<exists>dim. ds' = filter (\<lambda>(x, d). x \<noteq> dim) ds) w w'"
proof (cases "open_entry policies caller k w")
  case (Inr e)
  have row: "get_entry w k = Some e" "me_entry_id e = k" "entry_ok sha e"
    using open_entry_Inr(1) [OF Inr] assms(2) by (auto simp: catalogue_ok_def)
  from assms(1) Inr have "approve_and_execute sha caller aid k h (\<lambda>_. rebuild_restore_payload e) attr
      (execute_restore sha now e) False readings executed_now w = Some (r, w')"
    by (simp add: approve_model_capability_restore_def)
  then show ?thesis
  proof (cases rule: approve_and_execute_cases)
    case (ran a c g er w2 g')
    let ?dim = "payload_str (ga_action_payload c) ''dimension''"
    from ran(5) consider "w2 = w\<lparr>governed_actions := g\<rparr>"
      | u where "upsert_model_catalogue_entry sha (restored_row now ?dim e) (w\<lparr>governed_actions := g\<rparr>) = (Inr u, w2)"
      by (auto simp: execute_restore_def split: sum.splits prod.splits dest: upsert_refused)
    then show ?thesis
    proof cases
      case 2
      note wr = upsert_written [OF 2]
      have "get_entry w2 = (get_entry w)(k \<mapsto> e\<lparr>me_capability_degradations := filter (\<lambda>(x, d). x \<noteq> ?dim)
          (me_capability_degradations e), me_last_updated_at := now\<rparr>)"
        using wr(1) row(2,3) stamped_ok [of sha "restored_row now ?dim e"] by (auto simp: restored_row_def)
      then have "row_overlaid (\<lambda>ds ds'. \<exists>dim. ds' = filter (\<lambda>(x, d). x \<noteq> dim) ds) w w2"
        using wr(2) by (intro row_overlaidI [where e = e and k = k and t = now, OF row(1) exI [of _ ?dim, OF refl]]) simp_all
      then show ?thesis using ran(6) by simp
    qed (simp add: ran(6))
  qed (simp add: quiet_ledger)
qed (use assms in \<open>simp add: approve_model_capability_restore_def\<close>)

text \<open>Seeding: a seed is unassessed and approved only on the authority of the inventory.\<close>

lemma seed_facts:
  assumes "e \<in> set (build_seed_model_catalogue_entries sha c inventory now)"
  shows "me_capability_degradations e = []"
    and "me_lifecycle_state e = CATALOGUED \<or> me_lifecycle_state e = APPROVED \<and> me_seed_source e = APPROVED_INVENTORY"
proof -
  show "me_capability_degradations e = []" using seed_rows_facts(1) assms by (auto simp: unassessed_def)
  let ?rows = "settings_seed sha (xc_provider_mode c) (xc_provider_id c) (xc_model_id c) (xc_model_version c) now
        @ settings_seed sha (xc_provider_mode c) (xc_fallback_provider_id c) (xc_fallback_model_id c)
            (xc_fallback_model_version c) now
        @ map (inventory_seed sha now) inventory"
  have "e \<in> set ?rows" using assms fold_put_values [of me_entry_id ?rows "[]"]
    by (auto simp: build_seed_model_catalogue_entries_def)
  then show "me_lifecycle_state e = CATALOGUED \<or> me_lifecycle_state e = APPROVED \<and> me_seed_source e = APPROVED_INVENTORY"
    by (auto simp: settings_seed_def inventory_seed_def new_catalogue_entry_def split: if_splits)
qed

lemma seeding_effect:
  assumes "ensure_model_catalogue_seeded sha c inventory now w = (r, w')"
  shows "cw_lifecycle_events w' = cw_lifecycle_events w"
    and "get_entry w k = Some x \<Longrightarrow> \<exists>y. get_entry w' k = Some y \<and> me_candidate_id_v2 y = me_candidate_id_v2 x
        \<and> me_capability_degradations y = me_capability_degradations x
        \<and> (me_lifecycle_state x \<in> {DEPRECATED, RETIRED} \<longrightarrow> me_lifecycle_state y = me_lifecycle_state x)
        \<and> (me_lifecycle_state y \<in> set serving_promotion_targets \<longrightarrow> me_seed_source y = APPROVED_INVENTORY
             \<or> me_lifecycle_state y = me_lifecycle_state x \<and> me_seed_source y = me_seed_source x)"
    and "get_entry w k = None \<Longrightarrow> get_entry w' k = Some y \<Longrightarrow> me_lifecycle_state y \<in> set serving_promotion_targets
        \<Longrightarrow> me_seed_source y = APPROVED_INVENTORY"
proof -
  note rows = seeding_rows [of sha c inventory now w]
  show "cw_lifecycle_events w' = cw_lifecycle_events w" using rows(1) assms by auto
  let ?es = "build_seed_model_catalogue_entries sha c inventory now"
  have row: "get_entry w' k = (case List.find (\<lambda>e. me_entry_id e = k) ?es of
      None \<Rightarrow> get_entry w k | Some e \<Rightarrow> Some (seeded_row e (get_entry w k)))"
    using rows(2) [of k] assms by simp
  have seed: "me_capability_degradations e = []
      \<and> (me_lifecycle_state e = CATALOGUED \<or> me_lifecycle_state e = APPROVED \<and> me_seed_source e = APPROVED_INVENTORY)"
    if "List.find P ?es = Some e" for P e
    using seed_facts [of e sha c inventory now] find_Some_iff_list [OF that] by blast
  have degr: "me_capability_degradations (reconciled_candidate e x) = me_capability_degradations x"
    if "me_capability_degradations e = []" for e x
    using that by (simp add: reconciled_candidate_def preserve_assessed_capabilities_def Let_def)
  show "\<exists>y. get_entry w' k = Some y \<and> me_candidate_id_v2 y = me_candidate_id_v2 x
        \<and> me_capability_degradations y = me_capability_degradations x
        \<and> (me_lifecycle_state x \<in> {DEPRECATED, RETIRED} \<longrightarrow> me_lifecycle_state y = me_lifecycle_state x)
        \<and> (me_lifecycle_state y \<in> set serving_promotion_targets \<longrightarrow> me_seed_source y = APPROVED_INVENTORY
             \<or> me_lifecycle_state y = me_lifecycle_state x \<and> me_seed_source y = me_seed_source x)"
    if "get_entry w k = Some x"
  proof (cases "List.find (\<lambda>e. me_entry_id e = k) ?es")
    case (Some e)
    show ?thesis using seed [OF Some] degr [of e x] that
      by (auto simp: row Some seeded_row_def serving_promotion_targets_def)
  qed (simp add: row that)
  show "me_seed_source y = APPROVED_INVENTORY"
    if "get_entry w k = None" "get_entry w' k = Some y" "me_lifecycle_state y \<in> set serving_promotion_targets"
  proof (cases "List.find (\<lambda>e. me_entry_id e = k) ?es")
    case (Some e)
    show ?thesis using seed [OF Some] that by (auto simp: row Some seeded_row_def serving_promotion_targets_def)
  qed (use row that in simp)
qed

lemma dict_get_filter_key: "dict_get (filter (\<lambda>(x, d). x \<noteq> j) ds) k = (if k = j then None else dict_get ds k)"
  by (induction ds) auto

lemma requests_quiet:
  "request_model_promotion sha policies caller k to run_id reason requested_by new_id now w = (r, w') \<Longrightarrow> rows_quiet w w'"
  "request_model_capability_restore sha policies caller k dimension run_id reason requested_by new_id now w = (r, w')
     \<Longrightarrow> rows_quiet w w'"
  by (auto simp: request_model_promotion_def request_model_capability_restore_def split: sum.splits if_splits
      dest!: submit_frame quiet_ledger)

lemma step_effect:
  assumes "catalogue_step sha policies w w'" and "catalogue_ok sha w"
  obtains (seeded) c inventory now r where "ensure_model_catalogue_seeded sha c inventory now w = (r, w')"
  | (quiet) "rows_quiet w w'"
  | (moved) "row_moved w w'"
  | (overlaid) P where "row_overlaid P w w'"
  | (pruned) "get_entry w' = get_entry w"
  using assms(1)
proof cases
  case prune
  then show thesis by (intro pruned) (auto simp: delete_lifecycle_events_def get_entry_def fun_eq_iff Let_def)
next
  case promotion_request
  then show thesis by (rule quiet [OF requests_quiet(1)])
next
  case restore_request
  then show thesis by (rule quiet [OF requests_quiet(2)])
next
  case transition
  from transition_effect [OF this assms(2)] show thesis using quiet moved by blast
next
  case promotion
  from promotion_effect [OF this assms(2)] show thesis using quiet moved by blast
next
  case degrade
  from degrade_effect [OF this assms(2)] show thesis using quiet overlaid by blast
next
  case restoration
  from restore_effect [OF this assms(2)] show thesis using quiet overlaid by blast
qed (use seeded in blast)

section \<open>Properties\<close>

lemma row_movedE:
  assumes "row_moved w w'"
  obtains k e to now evidence ev where "get_entry w k = Some e" and "to \<in> set (allowed_transitions (me_lifecycle_state e))"
    and "get_entry w' = (get_entry w)(k \<mapsto> transitioned_row now to evidence e)"
    and "cw_lifecycle_events w' = cw_lifecycle_events w @ [ev]" and "le_entry_id ev = k" and "le_to_state ev = to"
    and "to \<in> set serving_promotion_targets \<longrightarrow> le_approved_by ev \<noteq> None \<and> le_approval_evidence_ref ev \<noteq> None"
  using assms unfolding row_moved_def by blast

lemma row_overlaidE:
  assumes "row_overlaid P w w'"
  obtains k e ds t where "get_entry w k = Some e" and "P (me_capability_degradations e) ds"
    and "get_entry w' = (get_entry w)(k \<mapsto> e\<lparr>me_capability_degradations := ds, me_last_updated_at := t\<rparr>)"
    and "cw_lifecycle_events w' = cw_lifecycle_events w"
  using assms unfolding row_overlaid_def by blast

lemma catalogue_ok_write:
  assumes "catalogue_ok sha w" and "get_entry w k = Some e" and "me_entry_id y = me_entry_id e" and "entry_ok sha y = entry_ok sha e"
    and "get_entry w' = (get_entry w)(k \<mapsto> y)"
  shows "catalogue_ok sha w'"
  using assms(1-4) unfolding catalogue_ok_def assms(5) by auto

lemma step_catalogue_ok:
  assumes "catalogue_step sha policies w w'" and "catalogue_ok sha w"
  shows "catalogue_ok sha w'"
  using assms
proof (cases rule: step_effect)
  case (seeded c inventory now r)
  then show ?thesis using seeding_catalogue_ok [OF assms(2), of c inventory now] by simp
next
  case moved
  then show ?thesis by (rule row_movedE) (rule catalogue_ok_write [OF assms(2)], simp_all)
next
  case overlaid
  then show ?thesis by (rule row_overlaidE) (rule catalogue_ok_write [OF assms(2)], simp_all)
qed (use assms(2) in \<open>simp_all add: rows_quiet_def catalogue_ok_def\<close>)

lemma steps_catalogue_ok: "(catalogue_step sha policies)\<^sup>*\<^sup>* w w' \<Longrightarrow> catalogue_ok sha w \<Longrightarrow> catalogue_ok sha w'"
  by (induction rule: rtranclp_induct) (auto intro: step_catalogue_ok)

definition out_for_good :: "lifecycle_state \<Rightarrow> lifecycle_state \<Rightarrow> bool" where
  "out_for_good x y \<longleftrightarrow> x \<in> {DEPRECATED, RETIRED} \<longrightarrow> y \<in> {DEPRECATED, RETIRED} \<and> (x = RETIRED \<longrightarrow> y = RETIRED)"

lemma step_row:
  assumes "catalogue_step sha policies w w'" and "catalogue_ok sha w" and "get_entry w k = Some x"
  shows "\<exists>y. get_entry w' k = Some y \<and> me_candidate_id_v2 y = me_candidate_id_v2 x
     \<and> out_for_good (me_lifecycle_state x) (me_lifecycle_state y)"
  using assms(1,2)
proof (cases rule: step_effect)
  case (seeded c inventory now r)
  then show ?thesis using seeding_effect(2) [OF seeded assms(3)] by (auto simp: out_for_good_def)
next
  case moved
  then obtain j e to now evidence ev where "get_entry w j = Some e" "to \<in> set (allowed_transitions (me_lifecycle_state e))"
    "get_entry w' = (get_entry w)(j \<mapsto> transitioned_row now to evidence e)"
    by (rule row_movedE)
  then show ?thesis using assms(3)
    by (cases "k = j"; cases "me_lifecycle_state x") (simp_all add: out_for_good_def transitioned_row_def)
next
  case overlaid
  then obtain j e ds t where "get_entry w j = Some e"
    "get_entry w' = (get_entry w)(j \<mapsto> e\<lparr>me_capability_degradations := ds, me_last_updated_at := t\<rparr>)"
    by (rule row_overlaidE)
  then show ?thesis using assms(3) by (cases "k = j") (auto simp: out_for_good_def)
qed (use assms(3) in \<open>auto simp: rows_quiet_def out_for_good_def\<close>)

text \<open>
  C17. Retirement is final: over any sequence of seedings, transitions, promotions, degradations, restores and retention runs,
  whoever calls them and whatever they answer, a row is never deleted and keeps its canonical identity, a
  deprecated model can only become retired, and a retired model stays retired.
\<close>

theorem retirement_is_final:
  assumes "(catalogue_step sha policies)\<^sup>*\<^sup>* w w'" and "catalogue_ok sha w" and "get_entry w k = Some x"
  shows "\<exists>y. get_entry w' k = Some y \<and> me_candidate_id_v2 y = me_candidate_id_v2 x
     \<and> (me_lifecycle_state x \<in> {DEPRECATED, RETIRED} \<longrightarrow> me_lifecycle_state y \<in> {DEPRECATED, RETIRED})
     \<and> (me_lifecycle_state x = RETIRED \<longrightarrow> me_lifecycle_state y = RETIRED)"
  using assms(1)
proof (induction rule: rtranclp_induct)
  case (step v w')
  then obtain y where y: "get_entry v k = Some y" "me_candidate_id_v2 y = me_candidate_id_v2 x"
    "me_lifecycle_state x \<in> {DEPRECATED, RETIRED} \<longrightarrow> me_lifecycle_state y \<in> {DEPRECATED, RETIRED}"
    "me_lifecycle_state x = RETIRED \<longrightarrow> me_lifecycle_state y = RETIRED" by blast
  from step_row [OF step(2) steps_catalogue_ok [OF step(1) assms(2)] y(1)] y(2-4) show ?case
    by (auto simp: out_for_good_def)
qed (use assms(3) in auto)

text \<open>A row in a promoted state answers to the approved inventory or to an approved promotion among the events \<open>L\<close>.\<close>

definition approves :: "lifecycle_event \<Rightarrow> string \<Rightarrow> catalogue_entry \<Rightarrow> bool" where
  "approves ev k e \<longleftrightarrow> le_entry_id ev = k \<and> le_to_state ev = me_lifecycle_state e \<and> le_approved_by ev \<noteq> None \<and> le_approval_evidence_ref ev \<noteq> None"

definition serving_accounted :: "lifecycle_event set \<Rightarrow> 'a catalogue_world_scheme \<Rightarrow> bool" where
  "serving_accounted L w \<longleftrightarrow> (\<forall>k e. get_entry w k = Some e \<and> me_lifecycle_state e \<in> set serving_promotion_targets \<longrightarrow>
     me_seed_source e = APPROVED_INVENTORY \<or> (\<exists>ev \<in> L. approves ev k e))"

lemma approves_state: "me_lifecycle_state y = me_lifecycle_state x \<Longrightarrow> approves ev k y = approves ev k x"
  by (simp add: approves_def)

lemma step_serving_accounted:
  assumes "catalogue_step sha policies w w'" and "catalogue_ok sha w" and "serving_accounted L w" and "L \<subseteq> L'" and "set (cw_lifecycle_events w') \<subseteq> L'"
  shows "serving_accounted L' w'"
  unfolding serving_accounted_def
proof (intro allI impI, elim conjE)
  fix k y assume y: "get_entry w' k = Some y" "me_lifecycle_state y \<in> set serving_promotion_targets"
  have old: "me_seed_source x = APPROVED_INVENTORY \<or> (\<exists>ev \<in> L'. approves ev j x)"
    if "get_entry w j = Some x" "me_lifecycle_state x \<in> set serving_promotion_targets" for j x
    using that assms(3,4) unfolding serving_accounted_def by blast
  show "me_seed_source y = APPROVED_INVENTORY \<or> (\<exists>ev \<in> L'. approves ev k y)"
    using assms(1,2)
  proof (cases rule: step_effect)
    case (seeded c inventory now r)
    note fx = seeding_effect [OF seeded]
    show ?thesis
    proof (cases "get_entry w k")
      case (Some x)
      from fx(2) [OF this] y have "me_seed_source y = APPROVED_INVENTORY
          \<or> me_lifecycle_state y = me_lifecycle_state x \<and> me_seed_source y = me_seed_source x" by auto
      then show ?thesis using old [OF Some] y(2) approves_state [of y x] by auto
    qed (use fx(3) y in blast)
  next
    case moved
    then obtain j e to now evidence ev where
      rows: "get_entry w' = (get_entry w)(j \<mapsto> transitioned_row now to evidence e)"
      and log: "cw_lifecycle_events w' = cw_lifecycle_events w @ [ev]" and ev: "le_entry_id ev = j" "le_to_state ev = to"
      "to \<in> set serving_promotion_targets \<longrightarrow> le_approved_by ev \<noteq> None \<and> le_approval_evidence_ref ev \<noteq> None"
      by (rule row_movedE)
    show ?thesis
    proof (cases "k = j")
      case True
      then have "y = transitioned_row now to evidence e" using rows y(1) by simp
      then have "approves ev k y" using ev y(2) True by (simp add: approves_def)
      then show ?thesis using log assms(5) by auto
    qed (use rows y old in simp)
  next
    case overlaid
    then obtain j e ds t where e: "get_entry w j = Some e"
      and rows: "get_entry w' = (get_entry w)(j \<mapsto> e\<lparr>me_capability_degradations := ds, me_last_updated_at := t\<rparr>)"
      by (rule row_overlaidE)
    then show ?thesis using old [of k] old [OF e] y approves_state [of y e] by (cases "k = j") auto
  next
    case quiet
    then show ?thesis using old y by (simp add: rows_quiet_def)
  next
    case pruned
    then show ?thesis using old y by simp
  qed
qed

text \<open>
  C16. No model is promoted into service without approval: in every catalogue reached from an empty one, a row in
  state APPROVED, SHADOW, CANARY or PRODUCTION was seeded from the approved inventory, or a catalogue passed through on the way had in
  its event log the transition into exactly that state with its approver and its evaluation evidence. Retention may have removed that event since.
\<close>

theorem serving_rows_are_approved:
  assumes "(catalogue_step sha policies)\<^sup>*\<^sup>* w0 w" and "cw_entries w0 = []"
    and "get_entry w k = Some e" and "me_lifecycle_state e \<in> {APPROVED, SHADOW, CANARY, PRODUCTION}"
  shows "me_seed_source e = APPROVED_INVENTORY
     \<or> (\<exists>v. (catalogue_step sha policies)\<^sup>*\<^sup>* w0 v \<and> (catalogue_step sha policies)\<^sup>*\<^sup>* v w
          \<and> (\<exists>ev \<in> set (cw_lifecycle_events v). le_entry_id ev = k \<and> le_to_state ev = me_lifecycle_state e
               \<and> le_approved_by ev \<noteq> None \<and> le_approval_evidence_ref ev \<noteq> None))"
proof -
  let ?steps = "(catalogue_step sha policies)\<^sup>*\<^sup>*"
  let ?L = "\<lambda>w. {ev. \<exists>v. ?steps w0 v \<and> ?steps v w \<and> ev \<in> set (cw_lifecycle_events v)}"
  have ok: "catalogue_ok sha w0" using assms(2) by (simp add: catalogue_ok_def get_entry_def)
  from assms(1) have "serving_accounted (?L w) w"
  proof (induction rule: rtranclp_induct)
    case base
    show ?case using assms(2) by (simp add: serving_accounted_def get_entry_def)
  next
    case (step v w)
    have "?L v \<subseteq> ?L w" using step(2) by (auto intro: rtranclp.rtrancl_into_rtrancl)
    moreover have "set (cw_lifecycle_events w) \<subseteq> ?L w" using step(1,2) by (auto intro: rtranclp.rtrancl_into_rtrancl)
    ultimately show ?case by (rule step_serving_accounted [OF step(2) steps_catalogue_ok [OF step(1) ok] step(3)])
  qed
  then have "me_seed_source e = APPROVED_INVENTORY \<or> (\<exists>ev \<in> ?L w. approves ev k e)"
    using assms(3,4) unfolding serving_accounted_def serving_promotion_targets_def by simp
  then show ?thesis unfolding approves_def by blast
qed

lemma execute_promotion_Inr:
  assumes "execute_promotion sha caller eid now e c w = (Inr res, w')"
  obtains to run where "parse_lifecycle (payload_str (ga_action_payload c) ''to_state'') = Inr to"
    and "to \<in> set (allowed_transitions (me_lifecycle_state e))"
    and "dict_get (cw_evaluation_runs w) (payload_str (ga_action_payload c) ''evaluation_run_id'') = Some run"
    and "ev_lifecycle_status run = ''COMPLETED''" and "ev_verdict run = Some ''PASS''"
  using assms by (auto simp: execute_promotion_def validate_lifecycle_edge_def require_pass_verdict_evaluation_run_def
      split: sum.splits if_splits option.splits)

text \<open>
  Serving promotion is a two-credential decision on evidence: an approved promotion moved the row along an
  edge of the transition table from the state the request was reviewed against, on an evaluation run that is
  completed with verdict PASS; requester and approver hold different verified credentials; the row keeps its
  identity, and no other row changes.
\<close>

theorem promotion_is_governed:
  assumes "approve_model_promotion sha policies caller k aid h attr readings eid now executed_now w = Some (Inr a, w')"
    and "catalogue_ok sha w"
  shows "\<exists>e to run. get_entry w k = Some e \<and> to \<in> set (allowed_transitions (me_lifecycle_state e))
     \<and> require_provider_control policies caller = Inr ()
     \<and> ga_requester_key_id a \<noteq> ac_credential_key_id caller \<and> ga_approver_key_id a = ac_credential_key_id caller
     \<and> verified_key (ac_credential_key_id caller) \<and> ga_status a = EXECUTED
     \<and> dict_get (cw_evaluation_runs w) (payload_str (ga_action_payload a) ''evaluation_run_id'') = Some run
     \<and> ev_lifecycle_status run = ''COMPLETED'' \<and> ev_verdict run = Some ''PASS''
     \<and> h = compute_governed_action_hash sha (promotion_action_payload e to
             (payload_str (ga_action_payload a) ''evaluation_run_id'') (payload_str (ga_action_payload a) ''reason''))
     \<and> get_entry w' = (get_entry w)(k \<mapsto> transitioned_row now to
             (Some (''evaluation-run:'' @ payload_str (ga_action_payload a) ''evaluation_run_id'')) e)"
proof -
  from assms(1) obtain e where op: "open_entry policies caller k w = Inr e"
    and run: "approve_and_execute sha caller aid k h (\<lambda>_. rebuild_promotion_payload e) attr
      (execute_promotion sha caller eid now e) False readings executed_now w = Some (Inr a, w')"
    by (auto simp: approve_model_promotion_def split: sum.splits)
  note ran = promotion.approval_writes_once [OF run]
  have row: "get_entry w k = Some e" "me_entry_id e = k" "entry_ok sha e"
    using open_entry_Inr(1) [OF op] assms(2) by (auto simp: catalogue_ok_def)
  obtain c g res w2 where ex: "execute_promotion sha caller eid now e c (w\<lparr>governed_actions := g\<rparr>) = (Inr res, w2)"
    and pay: "ga_action_payload c = ga_action_payload a" using ran(7) by blast
  obtain to r where to: "parse_lifecycle (payload_str (ga_action_payload a) ''to_state'') = Inr to"
    "to \<in> set (allowed_transitions (me_lifecycle_state e))"
    and r: "dict_get (cw_evaluation_runs w) (payload_str (ga_action_payload a) ''evaluation_run_id'') = Some r"
    "ev_lifecycle_status r = ''COMPLETED''" "ev_verdict r = Some ''PASS''"
    using ex by (rule execute_promotion_Inr) (simp add: pay)
  have "h = compute_governed_action_hash sha (promotion_action_payload e to
      (payload_str (ga_action_payload a) ''evaluation_run_id'') (payload_str (ga_action_payload a) ''reason''))"
    using ran(6) to(1) by (auto simp: rebuild_promotion_payload_def)
  moreover have "get_entry w' = (get_entry w)(k \<mapsto> transitioned_row now to
      (Some (''evaluation-run:'' @ payload_str (ga_action_payload a) ''evaluation_run_id'')) e)"
    using ran(8) row(2,3) to(1) by (auto simp: stamped_ok)
  ultimately show ?thesis using row(1) to(2) r ran(1-3,5) open_entry_Inr(2) [OF op] by blast
qed

text \<open>
  One principal can only take a model towards the exit: a transition applied without approval never enters
  a serving state and never brings a degraded, deprecated or retired model back; it is recorded with no
  approver and leaves every other row and every capability fact as it was.
\<close>

theorem single_principal_never_restores_service:
  assumes "apply_model_lifecycle_transition sha policies caller k to reason eid now w = (Inr (y, ev), w')"
    and "catalogue_ok sha w"
  shows "\<exists>e. get_entry w k = Some e \<and> get_entry w' = (get_entry w)(k \<mapsto> y)
     \<and> me_lifecycle_state y \<notin> {APPROVED, SHADOW, CANARY, PRODUCTION}
     \<and> (me_lifecycle_state e \<in> {DEGRADED, DEPRECATED, RETIRED} \<longrightarrow> me_lifecycle_state y \<in> {DEPRECATED, RETIRED})
     \<and> me_capability_degradations y = me_capability_degradations e \<and> me_approval_evidence_refs y = me_approval_evidence_refs e
     \<and> cw_lifecycle_events w' = cw_lifecycle_events w @ [ev] \<and> le_approved_by ev = None"
proof -
  from assms(1) obtain e where op: "open_entry policies caller k w = Inr e" and out: "to \<notin> set serving_promotion_targets"
    and edge: "to \<in> set (allowed_transitions (me_lifecycle_state e))"
    and rec: "record_lifecycle_transition sha eid now e to reason (verified_caller_identity caller) None None w = (Inr (y, ev), w')"
    by (auto simp: apply_model_lifecycle_transition_def validate_lifecycle_edge_def split: sum.splits if_splits)
  have row: "get_entry w k = Some e" "me_entry_id e = k" "entry_ok sha e"
    using open_entry_Inr(1) [OF op] assms(2) by (auto simp: catalogue_ok_def)
  from rec show ?thesis
  proof (cases rule: record_transition_cases)
    case written
    have "get_entry w' = (get_entry w)(k \<mapsto> y)" using written(1,2) row(2,3) by (auto simp: stamped_ok)
    moreover have "me_lifecycle_state e \<in> {DEGRADED, DEPRECATED, RETIRED} \<Longrightarrow> to \<in> {DEPRECATED, RETIRED}"
      using edge out by (auto simp: serving_promotion_targets_def)
    ultimately show ?thesis
      using row(1) written(1,3) out
      by (auto simp: transitioned_row_def transition_event_def serving_promotion_targets_def truthy_def)
  qed simp
qed

text \<open>
  A degradation is lifted by nothing but its governed restore: whenever an operation leaves a degraded
  capability of a row changed or gone, that operation approved a restore, under a credential different from
  the requester's, of an action whose hash pins exactly that degradation of that row.
\<close>

theorem degradation_lifted_only_by_restore:
  assumes "catalogue_step sha policies w w'" and "catalogue_ok sha w" and "get_entry w k = Some x"
    and "dict_get (me_capability_degradations x) cap = Some d" and "get_entry w' k = Some y"
    and "dict_get (me_capability_degradations y) cap \<noteq> Some d"
  shows "\<exists>caller aid a run_id reason. get_governed_action w aid = Some a
     \<and> ga_requester_key_id a \<noteq> ac_credential_key_id caller
     \<and> require_provider_control policies caller = Inr ()
     \<and> ga_action_hash a = compute_governed_action_hash sha (capability_restore_payload x d run_id reason)"
  using assms(1)
proof cases
  case (restoration caller j aid h attr readings now executed_now r)
  from restoration obtain e where op: "open_entry policies caller j w = Inr e"
    and run: "approve_and_execute sha caller aid j h (\<lambda>_. rebuild_restore_payload e) attr (execute_restore sha now e)
      False readings executed_now w = Some (r, w')"
    using assms(3-6) by (auto simp: approve_model_capability_restore_def split: sum.splits)
  from restore.approval_frame [OF run] obtain a where a: "get_governed_action w aid = Some a"
    "ga_requester_key_id a \<noteq> ac_credential_key_id caller"
    and p: "\<exists>p. rebuild_restore_payload e a = Inr p \<and> ga_action_hash a = compute_governed_action_hash sha p"
    and rows: "\<forall>k. get_entry w' k = (if k = me_entry_id e then Some (stamped sha (restored_row now
        (payload_str (ga_action_payload a) ''dimension'') e)) else get_entry w k)"
    using assms(3-6) by auto
  have e: "get_entry w j = Some e" "me_entry_id e = j" using open_entry_Inr(1) [OF op] assms(2) by (auto simp: catalogue_ok_def)
  have "k = j" using rows assms(3-6) e by (cases "k = j") auto
  then have "x = e" and cap: "payload_str (ga_action_payload a) ''dimension'' = cap"
    using rows assms(3-6) e by (auto simp: restored_row_def dict_get_filter_key split: if_splits)
  then have "ga_action_hash a = compute_governed_action_hash sha (capability_restore_payload x d
      (payload_str (ga_action_payload a) ''evaluation_run_id'') (payload_str (ga_action_payload a) ''reason''))"
    using p assms(4) by (auto simp: rebuild_restore_payload_def get_required_capability_degradation_def)
  then show ?thesis using a open_entry_Inr(2) [OF op] by blast
next
  case (degrade caller j dimension reason now r3)
  from degrade_effect [OF this assms(2)] show ?thesis
    using assms(3-6) by (auto simp: rows_quiet_def elim!: row_overlaidE split: if_splits)
next
  case (prune ids n)
  then have "get_entry w' k = get_entry w k" by (auto simp: delete_lifecycle_events_def get_entry_def Let_def)
  then show ?thesis using assms(3-6) by simp
qed (use assms(3-6) in \<open>auto dest!: transition_effect [OF _ assms(2)] promotion_effect [OF _ assms(2)] seeding_effect(2) requests_quiet
      simp: rows_quiet_def elim!: row_movedE split: if_splits\<close>)

text \<open>
  An approval in flight can undo a containment: the promotion writes back the whole row it read before it
  claimed the action, so a capability degradation another operator applies in between is lost, although
  no restore was requested or approved.
\<close>

theorem promotion_overwrites_concurrent_degradation:
  assumes "catalogue_ok sha w" and "get_entry w k = Some e"
    and "degrade_model_capability sha policies operator k dimension reason t w = (Inr d, w1)"
    and "execute_promotion sha caller eid now e c w1 = (Inr res, w2)"
  shows "(\<exists>y. get_entry w1 k = Some y \<and> dict_get (me_capability_degradations y) dimension = Some d)
     \<and> (\<exists>y. get_entry w2 k = Some y \<and> dict_get (me_capability_degradations y) dimension = None)"
proof -
  from assms(2,3) have op: "open_entry policies operator k w = Inr e" and free: "dict_get (me_capability_degradations e) dimension = None"
    and d: "cd_dimension d = dimension" and up: "upsert_model_catalogue_entry sha (degraded_row d e) w = (Inr (), w1)"
    by (auto simp: degrade_model_capability_def Let_def open_entry_def get_required_catalogue_entry_def
        split: sum.splits if_splits prod.splits option.splits)
  have id: "me_entry_id e = k" using assms(1,2) by (simp add: catalogue_ok_def)
  have "get_entry w1 k = Some (stamped sha (degraded_row d e))"
    using upsert_written(1) [OF up, of k] id by (simp add: degraded_row_def)
  moreover have "me_capability_degradations (stamped sha (degraded_row d e)) = dict_put dimension d (me_capability_degradations e)"
    using d by (simp add: degraded_row_def)
  ultimately show ?thesis
    using promotion.execute_writes [OF assms(4), of k] id free by simp
qed

section \<open>A concrete history\<close>

definition passed_run :: evaluation_run where
  "passed_run = \<lparr>ev_run_id = ''run1'', ev_fixture_id = ''fx'', ev_manifest_version = ''v1'', ev_lifecycle_status = ''COMPLETED'',
     ev_triggered_by = ''ops'', ev_submitted_at = ''t0'', ev_async_job_id = None, ev_latest_message = [],
     ev_verdict = Some ''PASS'', ev_case_count = 1, ev_manifest_content_digest = None\<rparr>"

definition history_start :: catalogue_world where
  "history_start = empty_catalogue_world\<lparr>cw_evaluation_runs := [(''run1'', passed_run)]\<rparr>"

definition history_seeded :: "seed_report result \<times> catalogue_world" where
  "history_seeded = ensure_model_catalogue_seeded sample_sha live_config [] ''t1'' history_start"

definition history_evaluating :: "(catalogue_entry \<times> lifecycle_event) result \<times> catalogue_world" where
  "history_evaluating = apply_model_lifecycle_transition sample_sha init_policy_store (sample_caller ''key-a'')
     ''text.openai:gpt-1'' EVALUATING ''evaluate'' ''mlc_1'' ''t2'' (snd history_seeded)"

definition history_requested :: "governed_action result \<times> catalogue_world" where
  "history_requested = request_model_promotion sample_sha init_policy_store (sample_caller ''key-a'') ''text.openai:gpt-1''
     APPROVED ''run1'' ''ready'' None ''gact_1'' ''t3'' (snd history_evaluating)"

definition history_approved :: "(governed_action result \<times> catalogue_world) option" where
  "history_approved = approve_model_promotion sample_sha init_policy_store (sample_caller ''key-b'') ''text.openai:gpt-1''
     ''gact_1'' ''digest'' None [''t4''] ''mlc_2'' ''t5'' ''t6'' (snd history_requested)"

definition history_degraded :: "capability_degradation result \<times> catalogue_world" where
  "history_degraded = degrade_model_capability sample_sha init_policy_store (sample_caller ''key-c'') ''text.openai:gpt-1''
     ''supports_tool_calling'' ''regression'' ''t4'' (snd history_requested)"

lemma history_runs:
  "case history_evaluating of (Inr (y, ev), w) \<Rightarrow> me_lifecycle_state y = EVALUATING | _ \<Rightarrow> False"
  "case history_requested of (Inr a, w) \<Rightarrow> get_governed_action w ''gact_1'' = Some a | _ \<Rightarrow> False"
  "case history_approved of Some (Inr a, w) \<Rightarrow> map_option me_lifecycle_state (get_entry w ''text.openai:gpt-1'') = Some APPROVED
     \<and> map_option me_seed_source (get_entry w ''text.openai:gpt-1'') = Some SETTINGS_LIVE_TEXT | _ \<Rightarrow> False"
  "case history_degraded of (Inr d, w) \<Rightarrow> cd_dimension d = ''supports_tool_calling'' | _ \<Rightarrow> False"
  by code_simp+

lemma history_steps:
  obtains a w where "history_approved = Some (Inr a, w)"
    and "(catalogue_step sample_sha init_policy_store)\<^sup>*\<^sup>* history_start w" and "catalogue_ok sample_sha (snd history_requested)"
proof -
  obtain a w where w: "history_approved = Some (Inr a, w)"
    using history_runs(3) by (auto split: option.splits prod.splits sum.splits)
  let ?step = "catalogue_step sample_sha init_policy_store"
  have "?step history_start (snd history_seeded)"
    by (rule seed [where r = "fst history_seeded"]) (simp add: history_seeded_def)
  moreover have "?step (snd history_seeded) (snd history_evaluating)"
    by (rule transition [where ?r1.0 = "fst history_evaluating"]) (simp add: history_evaluating_def)
  moreover have "?step (snd history_evaluating) (snd history_requested)"
    by (rule promotion_request [where ?r2.0 = "fst history_requested"]) (simp add: history_requested_def)
  moreover have "?step (snd history_requested) w"
    by (rule promotion [where ?r2.0 = "Inr a"]) (use w in \<open>simp add: history_approved_def\<close>)
  ultimately have "?step\<^sup>*\<^sup>* history_start (snd history_requested)" "?step (snd history_requested) w"
    by (auto intro: rtranclp.intros)
  moreover have "catalogue_ok sample_sha history_start"
    by (simp add: history_start_def empty_catalogue_world_def catalogue_ok_def get_entry_def)
  ultimately show thesis using that [OF w] steps_catalogue_ok by (meson rtranclp.rtrancl_into_rtrancl)
qed

definition retired_world :: catalogue_world where
  "retired_world = empty_catalogue_world\<lparr>cw_entries := [(''text.openai:gpt-1'',
     (inventory_seed sample_sha ''t0'' sample_approved)\<lparr>me_lifecycle_state := RETIRED\<rparr>)]\<rparr>"

lemma retired_world_facts:
  "get_entry retired_world ''text.openai:gpt-1'' = Some ((inventory_seed sample_sha ''t0'' sample_approved)\<lparr>me_lifecycle_state := RETIRED\<rparr>)"
  "catalogue_ok sample_sha retired_world"
proof -
  show 1: "get_entry retired_world ''text.openai:gpt-1'' = Some ((inventory_seed sample_sha ''t0'' sample_approved)\<lparr>me_lifecycle_state := RETIRED\<rparr>)"
    by (simp add: get_entry_def retired_world_def)
  have "me_entry_id (inventory_seed sample_sha ''t0'' sample_approved) = ''text.openai:gpt-1''" by code_simp
  then show "catalogue_ok sample_sha retired_world"
    using inventory_seed_ok [of sample_sha "''t0''" sample_approved]
    by (simp add: catalogue_ok_def get_entry_def retired_world_def)
qed

theorem retirement_is_final_witness:
  "\<exists>y. get_entry (snd (ensure_model_catalogue_seeded sample_sha live_config [sample_approved] ''t9'' retired_world))
         ''text.openai:gpt-1'' = Some y \<and> me_lifecycle_state y = RETIRED"
proof -
  have "catalogue_step sample_sha init_policy_store retired_world
      (snd (ensure_model_catalogue_seeded sample_sha live_config [sample_approved] ''t9'' retired_world))"
    by (rule seed [OF prod.collapse [symmetric]])
  from retirement_is_final [OF r_into_rtranclp [of "catalogue_step sample_sha init_policy_store", OF this]
      retired_world_facts(2,1)]
  show ?thesis by auto
qed

theorem serving_rows_are_approved_witness:
  "\<exists>v. (catalogue_step sample_sha init_policy_store)\<^sup>*\<^sup>* v (snd (the history_approved))
     \<and> (\<exists>ev \<in> set (cw_lifecycle_events v). le_entry_id ev = ''text.openai:gpt-1'' \<and> le_to_state ev = APPROVED
          \<and> le_approved_by ev \<noteq> None)"
proof -
  obtain a w where w: "history_approved = Some (Inr a, w)"
    and steps: "(catalogue_step sample_sha init_policy_store)\<^sup>*\<^sup>* history_start w" by (rule history_steps)
  obtain e where e: "get_entry w ''text.openai:gpt-1'' = Some e" "me_lifecycle_state e = APPROVED" "me_seed_source e = SETTINGS_LIVE_TEXT"
    using history_runs(3) by (auto simp: w)
  have "cw_entries history_start = []" by (simp add: history_start_def empty_catalogue_world_def)
  from serving_rows_are_approved [OF steps this e(1)] e(2,3) show ?thesis unfolding w by auto
qed

theorem promotion_is_governed_witness:
  "\<exists>a w. history_approved = Some (Inr a, w) \<and> ga_requester_key_id a \<noteq> Some ''key-b'' \<and> ga_status a = EXECUTED"
proof -
  obtain a w where w: "history_approved = Some (Inr a, w)" and ok: "catalogue_ok sample_sha (snd history_requested)"
    by (rule history_steps)
  from promotion_is_governed [OF w [unfolded history_approved_def] ok] show ?thesis
    using w by (auto simp: sample_caller_def)
qed

theorem single_principal_never_restores_service_witness:
  "\<exists>y ev w. history_evaluating = (Inr (y, ev), w) \<and> le_approved_by ev = None"
proof -
  obtain y ev w where w: "history_evaluating = (Inr (y, ev), w)"
    using history_runs(1) by (auto split: prod.splits sum.splits)
  have "catalogue_ok sample_sha history_start"
    by (simp add: history_start_def empty_catalogue_world_def catalogue_ok_def get_entry_def)
  from seeding_catalogue_ok [OF this, of live_config "[]" "''t1''"] have "catalogue_ok sample_sha (snd history_seeded)"
    by (simp add: history_seeded_def)
  from single_principal_never_restores_service [OF w [unfolded history_evaluating_def] this] show ?thesis using w by blast
qed

theorem promotion_overwrites_concurrent_degradation_witness:
  "\<exists>e y. get_entry (snd history_degraded) ''text.openai:gpt-1'' = Some e
     \<and> get_entry (snd (execute_promotion sample_sha (sample_caller ''key-b'') ''mlc_2'' ''t5''
          (the (get_entry (snd history_requested) ''text.openai:gpt-1'')) (projr (fst history_requested)) (snd history_degraded)))
          ''text.openai:gpt-1'' = Some y
     \<and> dict_get (me_capability_degradations e) ''supports_tool_calling'' \<noteq> None
     \<and> dict_get (me_capability_degradations y) ''supports_tool_calling'' = None"
proof -
  have ok: "catalogue_ok sample_sha (snd history_requested)" by (rule history_steps)
  obtain d w1 where d: "history_degraded = (Inr d, w1)" using history_runs(4) by (auto split: prod.splits sum.splits)
  have "get_entry (snd history_requested) ''text.openai:gpt-1'' \<noteq> None" by code_simp
  then obtain e where e: "get_entry (snd history_requested) ''text.openai:gpt-1'' = Some e" by blast
  have run: "execute_promotion sample_sha (sample_caller ''key-b'') ''mlc_2'' ''t5''
      (the (get_entry (snd history_requested) ''text.openai:gpt-1'')) (projr (fst history_requested)) (snd history_degraded)
      = (Inr None, snd (execute_promotion sample_sha (sample_caller ''key-b'') ''mlc_2'' ''t5''
      (the (get_entry (snd history_requested) ''text.openai:gpt-1'')) (projr (fst history_requested)) (snd history_degraded)))"
    by code_simp
  from promotion_overwrites_concurrent_degradation [OF ok e d [unfolded history_degraded_def] run [unfolded e option.sel d snd_conv]]
  show ?thesis by (auto simp: d e)
qed

definition history_restore_requested :: "governed_action result \<times> catalogue_world" where
  "history_restore_requested = request_model_capability_restore sample_sha init_policy_store (sample_caller ''key-a'')
     ''text.openai:gpt-1'' ''supports_tool_calling'' ''run1'' ''resolved'' None ''gact_2'' ''t5'' (snd history_degraded)"

definition history_restored :: "(governed_action result \<times> catalogue_world) option" where
  "history_restored = approve_model_capability_restore sample_sha init_policy_store (sample_caller ''key-b'')
     ''text.openai:gpt-1'' ''gact_2'' ''digest'' None [''t6''] ''t7'' ''t8'' (snd history_restore_requested)"

lemma history_restore_runs:
  "case get_entry (snd history_restore_requested) ''text.openai:gpt-1'' of
     Some x \<Rightarrow> dict_get (me_capability_degradations x) ''supports_tool_calling'' \<noteq> None | None \<Rightarrow> False"
  "case history_restored of Some (Inr a, w) \<Rightarrow> ga_status a = EXECUTED | _ \<Rightarrow> False"
  "case get_entry (snd (the history_restored)) ''text.openai:gpt-1'' of
     Some y \<Rightarrow> dict_get (me_capability_degradations y) ''supports_tool_calling'' = None | None \<Rightarrow> False"
  by code_simp+

theorem degradation_lifted_only_by_restore_witness:
  "\<exists>x d aid a caller. get_entry (snd history_restore_requested) ''text.openai:gpt-1'' = Some x
     \<and> dict_get (me_capability_degradations x) ''supports_tool_calling'' = Some d
     \<and> get_governed_action (snd history_restore_requested) aid = Some a
     \<and> ga_requester_key_id a \<noteq> ac_credential_key_id (caller :: authenticated_caller)"
proof -
  let ?w = "snd history_restore_requested"
  have "catalogue_step sample_sha init_policy_store (snd history_requested) (snd history_degraded)"
    by (rule degrade [where ?r3.0 = "fst history_degraded"]) (simp add: history_degraded_def)
  moreover have "catalogue_step sample_sha init_policy_store (snd history_degraded) ?w"
    by (rule restore_request [where ?r2.0 = "fst history_restore_requested"]) (simp add: history_restore_requested_def)
  moreover have "catalogue_ok sample_sha (snd history_requested)" by (rule history_steps)
  ultimately have ok: "catalogue_ok sample_sha ?w" using step_catalogue_ok by blast
  obtain r w where w: "history_restored = Some (Inr r, w)"
    using history_restore_runs(2) by (auto split: option.splits prod.splits sum.splits)
  then have step: "catalogue_step sample_sha init_policy_store ?w w"
    by (intro restoration [where ?r2.0 = "Inr r"]) (simp add: history_restored_def)
  obtain x d where x: "get_entry ?w ''text.openai:gpt-1'' = Some x"
    "dict_get (me_capability_degradations x) ''supports_tool_calling'' = Some d"
    using history_restore_runs(1) by (auto split: option.splits)
  obtain y where y: "get_entry w ''text.openai:gpt-1'' = Some y" "dict_get (me_capability_degradations y) ''supports_tool_calling'' = None"
    using history_restore_runs(3) by (auto simp: w split: option.splits)
  from degradation_lifted_only_by_restore [OF step ok x y(1)] y(2) x show ?thesis by fastforce
qed

end
