(* ===== verification/Serving_Policy.thy ===== *)
theory Serving_Policy
  imports Candidate_Universe Model_Lifecycle
begin

text \<open>
  The stored serving policy, \<^verbatim>\<open>services/serving_policy_control.py\<close>: an ordered list of identities in numbered
  versions. Adding an identity is a governed two-step action that pins the whole resulting order; removing
  one is immediate and records no approver.
\<close>

section \<open>Operations\<close>

fun join_comma :: "string list \<Rightarrow> string" where
  "join_comma [] = []"
| "join_comma [x] = x"
| "join_comma (x # xs) = x @ '','' @ join_comma xs"

definition add_payload :: "string \<Rightarrow> string \<Rightarrow> string list \<Rightarrow> payload" where
  "add_payload entry_id reason order =
     [(''action_type'', Some ''SERVING_POLICY_IDENTITY_ADD''), (''entry_id'', Some entry_id), (''reason'', Some reason),
      (''resulting_order'', Some (join_comma order))]"

definition request_serving_policy_identity_add ::
  "(payload \<Rightarrow> string) \<Rightarrow> policy_store \<Rightarrow> execution_config \<Rightarrow> approved_model list \<Rightarrow> authenticated_caller \<Rightarrow> string \<Rightarrow> string
     \<Rightarrow> string option \<Rightarrow> string \<Rightarrow> timestamp \<Rightarrow> 'a catalogue_world_scheme \<Rightarrow> governed_action result \<times> 'a catalogue_world_scheme" where
  "request_serving_policy_identity_add sha policies c inventory caller entry_id reason requested_by new_id now w =
     (case require_provider_control policies caller of
        Inl err \<Rightarrow> (Inl err, w)
      | Inr _ \<Rightarrow>
        (case ensure_model_catalogue_seeded sha c inventory now w of
           (Inl err, w1) \<Rightarrow> (Inl err, w1)
         | (Inr _, w1) \<Rightarrow>
           (case get_entry w1 entry_id of
              None \<Rightarrow> (Inl (HTTPException 404 ''entry''), w1)
            | Some e \<Rightarrow>
                if me_lifecycle_state e \<in> set execution_ineligible_lifecycle_states
                then (Inl (HTTPException 409 ''not_eligible''), w1)
                else let order = fst (current_serving_order c w1) in
                  if me_candidate_id_v2 e \<in> set order \<or> entry_id \<in> set order
                  then (Inl (HTTPException 409 ''already_ordered''), w1)
                  else submit_governed_action sha caller SERVING_POLICY_IDENTITY_ADD entry_id
                         (add_payload entry_id reason (order @ [me_candidate_id_v2 e])) requested_by new_id now w1)))"

definition canonical_for_target :: "string \<Rightarrow> 'a catalogue_world_scheme \<Rightarrow> string result" where
  "canonical_for_target target w =
     (case resolve_catalogue_entry_by_identity target w of
        None \<Rightarrow> Inl (HTTPException 409 ''no_longer_catalogued'') | Some e \<Rightarrow> Inr (me_candidate_id_v2 e))"

definition next_version :: "nat option \<Rightarrow> nat" where
  "next_version v = (case v of Some n \<Rightarrow> n | None \<Rightarrow> 0) + 1"

definition added_version ::
  "execution_config \<Rightarrow> authenticated_caller \<Rightarrow> timestamp \<Rightarrow> governed_action \<Rightarrow> string \<Rightarrow> 'a catalogue_world_scheme \<Rightarrow> policy_version" where
  "added_version c caller now r canonical w =
     \<lparr>pv_version = next_version (snd (current_serving_order c w)),
      pv_ordered_entry_ids = fst (current_serving_order c w) @ [canonical], pv_action = IDENTITY_ADD,
      pv_changed_entry_id = canonical,
      pv_requested_by_key_id = (if truthy (ga_requester_key_id r) then the (ga_requester_key_id r) else ''unknown''),
      pv_approver_key_id = ac_credential_key_id caller, pv_governed_action_id = Some (ga_action_id r), pv_recorded_at = now\<rparr>"

definition execute_policy_add ::
  "execution_config \<Rightarrow> authenticated_caller \<Rightarrow> timestamp \<Rightarrow> 'a catalogue_world_scheme effect" where
  "execute_policy_add c caller now r w =
     (case canonical_for_target (ga_target r) w of
        Inl err \<Rightarrow> (Inl err, w)
      | Inr canonical \<Rightarrow>
        (case save_serving_policy_version (added_version c caller now r canonical w) w of
           (Inl err, w1) \<Rightarrow> (Inl err, w1) | (Inr _, w1) \<Rightarrow> (Inr None, w1)))"

definition rebuild_policy_add :: "execution_config \<Rightarrow> 'a catalogue_world_scheme \<Rightarrow> governed_action \<Rightarrow> payload result" where
  "rebuild_policy_add c w r =
     (case canonical_for_target (ga_target r) w of
        Inl err \<Rightarrow> Inl err
      | Inr canonical \<Rightarrow> Inr (add_payload (ga_target r) (payload_str (ga_action_payload r) ''reason'')
                              (fst (current_serving_order c w) @ [canonical])))"

definition approval_target :: "string \<Rightarrow> 'a catalogue_world_scheme \<Rightarrow> string result" where
  "approval_target action_id w =
     (case get_governed_action w action_id of
        None \<Rightarrow> Inl (HTTPException 404 ''action'') | Some r \<Rightarrow> Inr (ga_target r))"

definition approve_serving_policy_identity_add ::
  "(payload \<Rightarrow> string) \<Rightarrow> policy_store \<Rightarrow> execution_config \<Rightarrow> authenticated_caller \<Rightarrow> string \<Rightarrow> string \<Rightarrow> string option
     \<Rightarrow> timestamp list \<Rightarrow> timestamp \<Rightarrow> timestamp \<Rightarrow> 'a catalogue_world_scheme
     \<Rightarrow> (governed_action result \<times> 'a catalogue_world_scheme) option" where
  "approve_serving_policy_identity_add sha policies c caller action_id action_hash approved_by readings now executed_now w =
     (case require_provider_control policies caller of
        Inl err \<Rightarrow> Some (Inl err, w)
      | Inr _ \<Rightarrow>
        (case approval_target action_id w of
           Inl err \<Rightarrow> Some (Inl err, w)
         | Inr target \<Rightarrow> approve_and_execute sha caller action_id target action_hash (rebuild_policy_add c) approved_by
                         (execute_policy_add c caller now) False readings executed_now w))"

definition removable_identities :: "string \<Rightarrow> 'a catalogue_world_scheme \<Rightarrow> string list" where
  "removable_identities entry_id w =
     entry_id # (case resolve_catalogue_entry_by_identity entry_id w of
       None \<Rightarrow> [] | Some e \<Rightarrow> [me_entry_id e, me_candidate_id_v2 e])"

definition remove_serving_policy_identity ::
  "policy_store \<Rightarrow> execution_config \<Rightarrow> authenticated_caller \<Rightarrow> string \<Rightarrow> timestamp \<Rightarrow> 'a catalogue_world_scheme
     \<Rightarrow> policy_version result \<times> 'a catalogue_world_scheme" where
  "remove_serving_policy_identity policies c caller entry_id now w =
     (case require_provider_control policies caller of
        Inl err \<Rightarrow> (Inl err, w)
      | Inr _ \<Rightarrow>
          let (order, version) = current_serving_order c w;
              removable = removable_identities entry_id w;
              matched = filter (\<lambda>i. i \<in> set removable) order
          in if matched = [] then (Inl (HTTPException 404 ''not_ordered''), w)
             else let v = \<lparr>pv_version = next_version version,
                           pv_ordered_entry_ids = filter (\<lambda>i. i \<notin> set removable) order, pv_action = IDENTITY_REMOVE,
                           pv_changed_entry_id = hd matched,
                           pv_requested_by_key_id = (if truthy (ac_credential_key_id caller) then the (ac_credential_key_id caller)
                             else verified_caller_identity caller),
                           pv_approver_key_id = None, pv_governed_action_id = None, pv_recorded_at = now\<rparr>
               in case save_serving_policy_version v w of
                    (Inl err, w1) \<Rightarrow> (Inl err, w1) | (Inr _, w1) \<Rightarrow> (Inr v, w1))"

section \<open>The chain of versions\<close>

definition version_link :: "string list \<Rightarrow> policy_version \<Rightarrow> bool" where
  "version_link before p \<longleftrightarrow>
     (case pv_action p of
        IDENTITY_ADD \<Rightarrow> pv_ordered_entry_ids p = before @ [pv_changed_entry_id p] \<and> pv_approver_key_id p \<noteq> None
          \<and> pv_governed_action_id p \<noteq> None
      | IDENTITY_REMOVE \<Rightarrow> (\<exists>gone. pv_ordered_entry_ids p = filter (\<lambda>i. i \<notin> set gone) before \<and> pv_changed_entry_id p \<in> set gone
          \<and> pv_changed_entry_id p \<in> set before) \<and> pv_approver_key_id p = None)"

definition configured_order :: "execution_config \<Rightarrow> string list" where
  "configured_order c = order_entry (xc_provider_id c) (xc_model_id c) (xc_model_version c)
     @ order_entry (xc_fallback_provider_id c) (xc_fallback_model_id c) (xc_fallback_model_version c)"

text \<open>Versions are numbered from one without gaps, and each follows from the one before it.\<close>

definition chain_upto :: "execution_config \<Rightarrow> (nat, policy_version) dict \<Rightarrow> nat \<Rightarrow> bool" where
  "chain_upto c d n \<longleftrightarrow> set (dict_keys d) = {1..n}
   \<and> (\<forall>v \<in> {1..n}. \<exists>p. dict_get d v = Some p \<and> pv_version p = v
        \<and> version_link (if v = 1 then configured_order c else pv_ordered_entry_ids (the (dict_get d (v - 1)))) p)"

definition policy_chain :: "execution_config \<Rightarrow> 'a catalogue_world_scheme \<Rightarrow> bool" where
  "policy_chain c w \<longleftrightarrow> (\<exists>n. chain_upto c (cw_policy_versions w) n)"

lemma foldr_max_upto: "set xs = {1..n} \<Longrightarrow> foldr max xs (0::nat) = n"
proof -
  have "foldr max xs (0::nat) = Max (insert 0 (set xs))"
    by (induction xs) (auto simp: insert_commute Max_insert2)
  moreover assume "set xs = {1..n}"
  moreover have "Max (insert 0 {1..n}) = n" by (rule Max_eqI) auto
  ultimately show ?thesis by simp
qed

lemma chain_current:
  assumes "chain_upto c (cw_policy_versions w) n"
  shows "current_serving_order c w = (if n = 0 then (configured_order c, None)
     else (pv_ordered_entry_ids (the (dict_get (cw_policy_versions w) n)), Some n))"
    and "get_current_serving_policy w = (if n = 0 then None else dict_get (cw_policy_versions w) n)"
    and "0 < n \<Longrightarrow> \<exists>p. dict_get (cw_policy_versions w) n = Some p \<and> pv_version p = n"
proof -
  have keys: "set (dict_keys (cw_policy_versions w)) = {1..n}" using assms by (simp add: chain_upto_def)
  show cur: "get_current_serving_policy w = (if n = 0 then None else dict_get (cw_policy_versions w) n)"
    using keys foldr_max_upto [OF keys] by (auto simp: get_current_serving_policy_def)
  show last: "0 < n \<Longrightarrow> \<exists>p. dict_get (cw_policy_versions w) n = Some p \<and> pv_version p = n"
    using assms by (auto simp: chain_upto_def)
  show "current_serving_order c w = (if n = 0 then (configured_order c, None)
     else (pv_ordered_entry_ids (the (dict_get (cw_policy_versions w) n)), Some n))"
    using last by (auto simp: current_serving_order_def cur configured_order_def)
qed

text \<open>Appending the next version extends the chain and makes that version the current one.\<close>

lemma chain_append:
  assumes "policy_chain c w" and "pv_version p = next_version (snd (current_serving_order c w))"
    and "version_link (fst (current_serving_order c w)) p"
  defines "w' \<equiv> w\<lparr>cw_policy_versions := dict_put (pv_version p) p (cw_policy_versions w)\<rparr>"
  shows "save_serving_policy_version p w = (Inr (), w')" and "policy_chain c w'" and "get_current_serving_policy w' = Some p"
    and "\<And>v q. dict_get (cw_policy_versions w) v = Some q \<Longrightarrow> dict_get (cw_policy_versions w') v = Some q"
proof -
  let ?d = "cw_policy_versions w"
  obtain n where n: "chain_upto c ?d n" using assms(1) by (auto simp: policy_chain_def)
  note cur = chain_current [OF n]
  have v: "pv_version p = Suc n" using assms(2) cur(1) by (simp add: next_version_def)
  have keys: "set (dict_keys ?d) = {1..n}" using n by (simp add: chain_upto_def)
  have fresh: "dict_get ?d (Suc n) = None" using keys by (simp add: map_of_eq_None_iff)
  then show "save_serving_policy_version p w = (Inr (), w')"
    by (simp add: save_serving_policy_version_def v w'_def)
  show "dict_get (cw_policy_versions w') u = Some q" if "dict_get ?d u = Some q" for u q
    using that fresh by (auto simp: w'_def v)
  have "chain_upto c (cw_policy_versions w') (Suc n)"
    unfolding chain_upto_def
  proof (intro conjI ballI)
    show "set (dict_keys (cw_policy_versions w')) = {1..Suc n}"
      using keys fresh by (auto simp: w'_def v dict_put_fresh atLeastAtMostSuc_conv)
    fix u assume u: "u \<in> {1..Suc n}"
    show "\<exists>p. dict_get (cw_policy_versions w') u = Some p \<and> pv_version p = u
        \<and> version_link (if u = 1 then configured_order c else pv_ordered_entry_ids (the (dict_get (cw_policy_versions w') (u - 1)))) p"
    proof (cases "u = Suc n")
      case True
      then show ?thesis using v assms(3) cur(1) by (auto simp: w'_def split: if_splits)
    next
      case False
      with u have "u \<in> {1..n}" and frame: "dict_get (cw_policy_versions w') u = dict_get ?d u"
        "dict_get (cw_policy_versions w') (u - 1) = dict_get ?d (u - 1)" by (auto simp: w'_def v)
      then show ?thesis using n unfolding chain_upto_def frame by blast
    qed
  qed
  then show "policy_chain c w'" by (auto simp: policy_chain_def)
  show "get_current_serving_policy w' = Some p"
    using chain_current(2) [OF \<open>chain_upto c (cw_policy_versions w') (Suc n)\<close>] by (simp add: w'_def v)
qed

inductive policy_step ::
  "(payload \<Rightarrow> string) \<Rightarrow> policy_store \<Rightarrow> execution_config \<Rightarrow> 'a catalogue_world_scheme \<Rightarrow> 'a catalogue_world_scheme \<Rightarrow> bool"
  for sha policies c where
  add_request: "request_serving_policy_identity_add sha policies c inventory caller entry_id reason requested_by new_id now w = (r, w')
     \<Longrightarrow> policy_step sha policies c w w'"
| add_approval: "approve_serving_policy_identity_add sha policies c caller aid h attr readings now executed_now w = Some (r, w')
     \<Longrightarrow> policy_step sha policies c w w'"
| removal: "remove_serving_policy_identity policies c caller entry_id now w = (r2, w') \<Longrightarrow> policy_step sha policies c w w'"

lemma order_ledger [simp]:
  "current_serving_order c (w\<lparr>governed_actions := g\<rparr>) = current_serving_order c w"
  "resolve_catalogue_entry_by_identity i (w\<lparr>governed_actions := g\<rparr>) = resolve_catalogue_entry_by_identity i w"
  "policy_chain c (w\<lparr>governed_actions := g\<rparr>) = policy_chain c w"
  "get_current_serving_policy (w\<lparr>governed_actions := g\<rparr>) = get_current_serving_policy w"
  by (simp_all add: current_serving_order_def get_current_serving_policy_def resolve_catalogue_entry_by_identity_def
      get_entry_by_candidate_id_def policy_chain_def)

lemma current_policy_entries [simp]: "get_current_serving_policy (w\<lparr>cw_entries := d\<rparr>) = get_current_serving_policy w"
  by (simp add: get_current_serving_policy_def)

lemma policy_chain_empty: "cw_policy_versions w = [] \<Longrightarrow> policy_chain c w"
  by (auto simp: policy_chain_def chain_upto_def intro: exI [of _ 0])

lemma policy_chain_frame: "cw_policy_versions w' = cw_policy_versions w \<Longrightarrow> policy_chain c w' = policy_chain c w"
  by (simp add: policy_chain_def)

lemma request_policy_frame:
  assumes "request_serving_policy_identity_add sha policies c inventory caller entry_id reason requested_by new_id now w = (r, w')"
  shows "cw_policy_versions w' = cw_policy_versions w"
proof -
  obtain rep d where seed: "ensure_model_catalogue_seeded sha c inventory now w = (Inr rep, w\<lparr>cw_entries := d\<rparr>)"
    using seeding_rows(1) by blast
  show ?thesis using assms
    by (auto simp: request_serving_policy_identity_add_def seed Let_def split: sum.splits option.splits if_splits dest!: submit_frame)
qed

lemma added_version_link:
  "ac_credential_key_id caller \<noteq> None \<Longrightarrow> version_link (fst (current_serving_order c w)) (added_version c caller now r canonical w)"
  "pv_version (added_version c caller now r canonical w) = next_version (snd (current_serving_order c w))"
  by (simp_all add: version_link_def added_version_def)

lemma execute_add_cases:
  assumes "execute_policy_add c caller now r w = (er, w')" and "policy_chain c w" and "ac_credential_key_id caller \<noteq> None"
  obtains (refused) err where "er = Inl err" and "w' = w"
  | (saved) e p where "er = Inr None" and "resolve_catalogue_entry_by_identity (ga_target r) w = Some e"
      and "p = added_version c caller now r (me_candidate_id_v2 e) w" and "policy_chain c w'"
      and "get_current_serving_policy w' = Some p"
      and "w' = w\<lparr>cw_policy_versions := dict_put (pv_version p) p (cw_policy_versions w)\<rparr>"
      and "\<forall>v q. dict_get (cw_policy_versions w) v = Some q \<longrightarrow> dict_get (cw_policy_versions w') v = Some q"
proof (cases "resolve_catalogue_entry_by_identity (ga_target r) w")
  case None
  then show thesis using assms(1) refused by (auto simp: execute_policy_add_def canonical_for_target_def)
next
  case (Some e)
  let ?p = "added_version c caller now r (me_candidate_id_v2 e) w"
  have "pv_version ?p = next_version (snd (current_serving_order c w))" "version_link (fst (current_serving_order c w)) ?p"
    using added_version_link assms(3) by blast+
  note ap = chain_append [OF assms(2) this]
  have "er = Inr None" and w': "w' = w\<lparr>cw_policy_versions := dict_put (pv_version ?p) ?p (cw_policy_versions w)\<rparr>"
    using assms(1) ap(1) Some by (simp_all add: execute_policy_add_def canonical_for_target_def)
  then show thesis using saved [OF _ Some refl] ap(2-4) by blast
qed

lemma removal_cases:
  assumes "remove_serving_policy_identity policies c caller entry_id now w = (r, w')" and "policy_chain c w"
  obtains (refused) err where "r = Inl err" and "w' = w"
      and "require_provider_control policies caller = Inr ()
        \<Longrightarrow> \<forall>i \<in> set (fst (current_serving_order c w)). i \<notin> set (removable_identities entry_id w)"
  | (saved) p where "r = Inr p" and "require_provider_control policies caller = Inr ()" and "pv_action p = IDENTITY_REMOVE"
      and "pv_ordered_entry_ids p = filter (\<lambda>i. i \<notin> set (removable_identities entry_id w)) (fst (current_serving_order c w))"
      and "\<exists>i \<in> set (fst (current_serving_order c w)). i \<in> set (removable_identities entry_id w)"
      and "pv_version p = next_version (snd (current_serving_order c w))" and "pv_approver_key_id p = None" and "policy_chain c w'"
      and "get_current_serving_policy w' = Some p"
      and "w' = w\<lparr>cw_policy_versions := dict_put (pv_version p) p (cw_policy_versions w)\<rparr>"
      and "\<forall>v q. dict_get (cw_policy_versions w) v = Some q \<longrightarrow> dict_get (cw_policy_versions w') v = Some q"
proof -
  let ?gone = "set (removable_identities entry_id w)" and ?order = "fst (current_serving_order c w)"
  let ?matched = "filter (\<lambda>i. i \<in> ?gone) ?order"
  let ?p = "\<lparr>pv_version = next_version (snd (current_serving_order c w)), pv_ordered_entry_ids = filter (\<lambda>i. i \<notin> ?gone) ?order,
      pv_action = IDENTITY_REMOVE, pv_changed_entry_id = hd ?matched,
      pv_requested_by_key_id = (if truthy (ac_credential_key_id caller) then the (ac_credential_key_id caller)
        else verified_caller_identity caller),
      pv_approver_key_id = None, pv_governed_action_id = None, pv_recorded_at = now\<rparr>"
  show thesis
  proof (cases "require_provider_control policies caller = Inr () \<and> ?matched \<noteq> []")
    case True
    then have "hd ?matched \<in> set ?matched" by (intro hd_in_set) simp
    then have link: "version_link ?order ?p" by (auto simp: version_link_def)
    note ap = chain_append [OF assms(2), of ?p, OF _ link]
    have ver: "pv_version ?p = next_version (snd (current_serving_order c w))" by simp
    have "r = Inr ?p" and w': "w' = w\<lparr>cw_policy_versions := dict_put (pv_version ?p) ?p (cw_policy_versions w)\<rparr>"
      using assms(1) True ap(1) by (auto simp: remove_serving_policy_identity_def Let_def case_prod_unfold)
    moreover have "\<exists>i \<in> set ?order. i \<in> ?gone" using \<open>hd ?matched \<in> set ?matched\<close> by auto
    ultimately show thesis using saved [of ?p] True ap(2-4) [OF ver] by simp
  next
    case False
    then have "\<exists>err. r = Inl err \<and> w' = w" using assms(1)
      by (auto simp: remove_serving_policy_identity_def Let_def case_prod_unfold split: sum.splits if_splits)
    then show thesis using refused False by (auto simp: filter_empty_conv)
  qed
qed

lemma approval_policy_cases:
  assumes "approve_serving_policy_identity_add sha policies c caller aid h attr readings now executed_now w = Some (r, w')"
    and "policy_chain c w"
  shows "policy_chain c w'"
proof -
  consider "w' = w" | target where "approve_and_execute sha caller aid target h (rebuild_policy_add c) attr
      (execute_policy_add c caller now) False readings executed_now w = Some (r, w')"
    using assms(1) by (auto simp: approve_serving_policy_identity_add_def split: sum.splits)
  then show ?thesis
  proof cases
    case 2
    then show ?thesis
    proof (cases rule: approve_and_execute_cases)
      case (ran a d g er w2 g')
      have "ac_credential_key_id caller \<noteq> None" using ran(7) by (simp add: verified_key_def)
      with ran(5) have "policy_chain c w2" using assms(2) by (auto elim!: execute_add_cases)
      then show ?thesis using ran(6) by simp
    qed (simp add: assms(2))
  qed (simp add: assms(2))
qed

lemma step_policy_chain:
  assumes "policy_step sha policies c v w" and "policy_chain c v"
  shows "policy_chain c w"
  using assms(1)
proof cases
  case add_request
  from policy_chain_frame [OF request_policy_frame [OF this]] assms(2) show ?thesis by simp
next
  case add_approval
  from this assms(2) show ?thesis by (rule approval_policy_cases)
next
  case removal
  from this assms(2) show ?thesis by (cases rule: removal_cases) (use assms(2) in simp_all)
qed

section \<open>Properties\<close>

text \<open>
  The version history explains the order: over any sequence of requests, approvals and removals, whatever
  they answer, versions are numbered from one without gaps; each addition appends exactly the identity it
  names, under a governed action and an approver, and each removal only drops identities.
\<close>

theorem policy_history_explains_order:
  assumes "(policy_step sha policies c)\<^sup>*\<^sup>* w0 w" and "cw_policy_versions w0 = []"
  shows "policy_chain c w"
  using assms(1)
  by (induction rule: rtranclp_induct) (auto intro: policy_chain_empty assms(2) step_policy_chain)

text \<open>
  Widening the policy takes two credentials and the reviewed order: an approved addition appends the canonical
  identity of a catalogued row to the current order, as the next version, with a hash over the whole resulting
  order, under a credential different from the requester's; every earlier version stays as recorded.
\<close>

theorem policy_addition_is_governed:
  assumes "approve_serving_policy_identity_add sha policies c caller aid h attr readings now executed_now w = Some (Inr a, w')"
    and "policy_chain c w"
  shows "\<exists>e p. resolve_catalogue_entry_by_identity (ga_target a) w = Some e \<and> get_current_serving_policy w' = Some p
     \<and> pv_ordered_entry_ids p = fst (current_serving_order c w) @ [me_candidate_id_v2 e]
     \<and> pv_version p = next_version (snd (current_serving_order c w))
     \<and> ga_requester_key_id a \<noteq> ac_credential_key_id caller \<and> pv_approver_key_id p = ac_credential_key_id caller
     \<and> require_provider_control policies caller = Inr ()
     \<and> h = compute_governed_action_hash sha (add_payload (ga_target a) (payload_str (ga_action_payload a) ''reason'')
             (pv_ordered_entry_ids p))
     \<and> (\<forall>v q. dict_get (cw_policy_versions w) v = Some q \<longrightarrow> dict_get (cw_policy_versions w') v = Some q)"
proof -
  from assms(1) obtain target where auth: "require_provider_control policies caller = Inr ()"
    and run: "approve_and_execute sha caller aid target h (rebuild_policy_add c) attr (execute_policy_add c caller now)
      False readings executed_now w = Some (Inr a, w')"
    by (auto simp: approve_serving_policy_identity_add_def split: sum.splits)
  from run obtain r resuming d w1 res w2 where
    chk: "approve_check sha caller aid target h (rebuild_policy_add c w) False w = Inr (r, resuming)"
    and cl: "claim_step caller aid attr readings r resuming w = Some (Inr d, w1)"
    and ex: "execute_policy_add c caller now d w1 = (Inr res, w2)" and fin: "finalize_step aid d res executed_now w2 = (Inr a, w')"
    by (rule approve_and_execute_Inr)
  note k = approve_checkD [OF chk]
  have nr: "\<not> resuming" using k(7) by (simp add: resuming_own_claim_def)
  note cc = claim_step_records_credential [OF cl] and fa = finalize_step_Inr(1) [OF fin]
  obtain g where w1: "w1 = w\<lparr>governed_actions := g\<rparr>" using claim_step_frame [OF cl] by blast
  obtain g' where w': "w' = w2\<lparr>governed_actions := g'\<rparr>" using finalize_step_frame [OF fin] by blast
  have key: "ac_credential_key_id caller \<noteq> None" using k(2) by (simp add: verified_key_def)
  have same: "ga_target d = ga_target a" "ga_action_payload r = ga_action_payload a" "ga_target r = ga_target a"
    using cc nr fa by auto
  have "policy_chain c w1" using assms(2) by (simp add: w1)
  from ex this key show ?thesis
  proof (cases rule: execute_add_cases)
    case (saved e p)
    have e: "resolve_catalogue_entry_by_identity (ga_target a) w = Some e" using saved(2) by (simp add: w1 same)
    have p: "p = added_version c caller now d (me_candidate_id_v2 e) w" using saved(3) by (simp add: w1 added_version_def)
    have "h = compute_governed_action_hash sha (add_payload (ga_target a) (payload_str (ga_action_payload a) ''reason'')
        (fst (current_serving_order c w) @ [me_candidate_id_v2 e]))"
      using k(9) [OF nr] e by (auto simp: rebuild_policy_add_def canonical_for_target_def same)
    moreover have "ga_requester_key_id a \<noteq> ac_credential_key_id caller" using k(6) cc(4) nr fa by auto
    moreover have "get_current_serving_policy w' = Some p" using saved(5) by (simp add: w')
    ultimately show ?thesis using e auth saved(7) by (auto simp: p added_version_def w' w1)
  qed simp
qed

text \<open>
  Removal is immediate, effective and one-directional: a caller with provider control removes an identity under
  either of its names whenever the order holds it; the result is the next version, in the old relative order,
  with no approver, and none of the identity's names is left.
\<close>

theorem policy_removal_effective:
  assumes "policy_chain c w" and "require_provider_control policies caller = Inr ()"
  shows "if \<exists>i \<in> set (fst (current_serving_order c w)). i \<in> set (removable_identities entry_id w)
     then \<exists>p w'. remove_serving_policy_identity policies c caller entry_id now w = (Inr p, w')
        \<and> get_current_serving_policy w' = Some p \<and> pv_approver_key_id p = None
        \<and> pv_version p = next_version (snd (current_serving_order c w))
        \<and> pv_ordered_entry_ids p = filter (\<lambda>i. i \<notin> set (removable_identities entry_id w)) (fst (current_serving_order c w))
     else \<exists>err. remove_serving_policy_identity policies c caller entry_id now w = (Inl err, w)"
proof -
  obtain r w1 where run: "remove_serving_policy_identity policies c caller entry_id now w = (r, w1)" by fastforce
  from this assms(1) show ?thesis
  proof (cases rule: removal_cases)
    case (refused err)
    then show ?thesis using run assms(2) by auto
  next
    case (saved p)
    then show ?thesis using run by auto
  qed
qed

lemma unique_canonical_index:
  assumes "distinct (map me_candidate_id_v2 (dict_values (cw_entries w)))" and "get_entry w i = Some x" and "get_entry w j = Some y"
    and "me_candidate_id_v2 x = me_candidate_id_v2 y"
  shows "x = y"
proof -
  have "x \<in> set (dict_values (cw_entries w))" "y \<in> set (dict_values (cw_entries w))"
    using assms(2,3) by (force simp: get_entry_def dest: map_of_SomeD)+
  then show ?thesis using assms(1,4) by (meson distinct_map inj_onD)
qed

text \<open>
  C18. A removed model stops serving: once an identity has been removed, no universe derived from then on has its
  canonical identity as a candidate, whatever the next seeding adds, as long as the canonical index is unique.
\<close>

theorem removed_identity_stops_serving:
  assumes "policy_chain c w" and "catalogue_ok sha w" and "dict_wf (cw_entries w)"
    and "remove_serving_policy_identity policies c caller entry_id now w = (Inr p, w')"
    and "resolve_catalogue_entry_by_identity entry_id w = Some e"
    and "derive_candidate_universe sha raw c inventory later w' = (Inr u, w1)"
    and "distinct (map me_candidate_id_v2 (dict_values (cw_entries w1)))"
  shows "me_candidate_id_v2 e \<notin> set (cu_candidates u)"
proof
  assume cand: "me_candidate_id_v2 e \<in> set (cu_candidates u)"
  obtain ms unresolved where
    cs: "set (cu_candidates u) = {k. \<exists>i \<in> set (fst (current_serving_order c w1)). judge_identity ms w1 i = Inr k}"
    using assms(6) by (rule universe_Inr)
  from cand cs obtain i y where i: "i \<in> set (fst (current_serving_order c w1))"
    and y: "resolve_catalogue_entry_by_identity i w1 = Some y" "me_candidate_id_v2 y = me_candidate_id_v2 e"
    by (auto simp: judge_identity_Inr)
  from assms(4,1) show False
  proof (cases rule: removal_cases)
    case (saved q)
    obtain rep d where seed: "ensure_model_catalogue_seeded sha c inventory later w' = (Inr rep, w'\<lparr>cw_entries := d\<rparr>)"
      using seeding_rows(1) by blast
    then have w1: "w1 = w'\<lparr>cw_entries := d\<rparr>" using assms(6)
      by (auto simp: derive_candidate_universe_def Let_def split: sum.splits prod.splits)
    have rows: "get_entry w' = get_entry w" using saved(10) by (simp add: get_entry_def fun_eq_iff)
    obtain k where "get_entry w k = Some e" using resolved_entry [OF assms(5,3)] by blast
    then have e: "get_entry w (me_entry_id e) = Some e" using assms(2) by (auto simp: catalogue_ok_def)
    obtain z where z: "get_entry w1 (me_entry_id e) = Some z" "me_candidate_id_v2 z = me_candidate_id_v2 e"
      using seeding_effect(2) [OF seed, of "me_entry_id e" e] e by (auto simp: rows w1)
    have "catalogue_ok sha w'" using assms(2) unfolding catalogue_ok_def rows .
    from seeding_catalogue_ok [OF this, of c inventory later] have "catalogue_ok sha w1" unfolding seed snd_conv w1 .
    moreover obtain j where j: "get_entry w1 j = Some y"
      using resolved_entry [OF y(1) universe_wf [OF assms(6)]] assms(3) saved(10) by auto
    moreover have "y = z" using unique_canonical_index [OF assms(7) j z(1)] y(2) z(2) by simp
    ultimately have "me_entry_id y = me_entry_id e" using z(1) by (auto simp: catalogue_ok_def)
    moreover have "i = me_entry_id y \<or> i = me_candidate_id_v2 y"
      using y(1) \<open>catalogue_ok sha w1\<close> find_Some_iff_list [of "\<lambda>e. me_candidate_id_v2 e = i" "dict_values (cw_entries w1)" y]
      by (auto simp: resolve_catalogue_entry_by_identity_def get_entry_by_candidate_id_def catalogue_ok_def split: if_splits)
    ultimately have "i \<in> set (removable_identities entry_id w)" using assms(5) y(2) by (auto simp: removable_identities_def)
    moreover have "get_current_serving_policy w1 = Some q" using saved(9) by (simp add: w1)
    then have "fst (current_serving_order c w1) = pv_ordered_entry_ids q" by (simp add: current_serving_order_def)
    ultimately show False using i saved(4) by simp
  qed simp
qed

section \<open>A concrete policy\<close>

definition policy_world :: catalogue_world where
  "policy_world = snd (ensure_model_catalogue_seeded spelled_sha live_config [] ''t1'' empty_catalogue_world)"

definition policy_removed :: "policy_version result \<times> catalogue_world" where
  "policy_removed = remove_serving_policy_identity init_policy_store live_config (sample_caller ''key-a'') ''text.openai:n'' ''t2'' policy_world"

definition policy_requested :: "governed_action result \<times> catalogue_world" where
  "policy_requested = request_serving_policy_identity_add sample_sha init_policy_store live_config [] (sample_caller ''key-a'')
     ''text.openai:n'' ''needed again'' None ''gact_1'' ''t3'' (snd policy_removed)"

definition policy_approved :: "(governed_action result \<times> catalogue_world) option" where
  "policy_approved = approve_serving_policy_identity_add sample_sha init_policy_store live_config (sample_caller ''key-b'')
     ''gact_1'' ''digest'' None [''t4''] ''t5'' ''t6'' (snd policy_requested)"

lemma policy_history_runs:
  "fst (current_serving_order live_config policy_world) = [''text.openai:gpt-1'', ''text.openai:n'']"
  "case policy_removed of (Inr p, w) \<Rightarrow> pv_ordered_entry_ids p = [''text.openai:gpt-1''] | _ \<Rightarrow> False"
  "case policy_approved of Some (Inr a, w) \<Rightarrow> ga_status a = EXECUTED | _ \<Rightarrow> False"
  by code_simp+

lemma policy_world_facts:
  "policy_chain live_config policy_world" "catalogue_ok spelled_sha policy_world" "dict_wf (cw_entries policy_world)"
proof -
  have "cw_policy_versions policy_world = []" by code_simp
  then show "policy_chain live_config policy_world" by (rule policy_chain_empty)
  have "catalogue_ok spelled_sha empty_catalogue_world"
    by (simp add: catalogue_ok_def get_entry_def empty_catalogue_world_def)
  then show "catalogue_ok spelled_sha policy_world" unfolding policy_world_def by (rule seeding_catalogue_ok)
  show "dict_wf (cw_entries policy_world)" by code_simp
qed

lemma policy_chain_requested: "policy_chain live_config (snd policy_requested)"
proof -
  have "policy_step sample_sha init_policy_store live_config policy_world (snd policy_removed)"
    by (rule removal [where ?r2.0 = "fst policy_removed"]) (simp add: policy_removed_def)
  moreover have "policy_step sample_sha init_policy_store live_config (snd policy_removed) (snd policy_requested)"
    by (rule add_request [where r = "fst policy_requested"]) (simp add: policy_requested_def)
  ultimately show ?thesis using policy_world_facts(1) by (meson step_policy_chain)
qed

theorem policy_history_explains_order_witness: "policy_chain live_config (snd (the policy_approved))"
proof -
  let ?step = "policy_step sample_sha init_policy_store live_config"
  have "?step policy_world (snd policy_removed)"
    by (rule removal [where ?r2.0 = "fst policy_removed"]) (simp add: policy_removed_def)
  moreover have "?step (snd policy_removed) (snd policy_requested)"
    by (rule add_request [where r = "fst policy_requested"]) (simp add: policy_requested_def)
  moreover obtain a w where w: "policy_approved = Some (a, w)"
    using policy_history_runs(3) by (auto split: option.splits prod.splits)
  then have "?step (snd policy_requested) w"
    by (intro add_approval [where r = a]) (simp add: policy_approved_def)
  ultimately have "?step\<^sup>*\<^sup>* policy_world w" by (meson rtranclp.intros)
  moreover have "cw_policy_versions policy_world = []" by code_simp
  ultimately show ?thesis using policy_history_explains_order by (auto simp: w)
qed

theorem policy_addition_is_governed_witness:
  "\<exists>a w p. policy_approved = Some (Inr a, w) \<and> get_current_serving_policy w = Some p \<and> pv_version p = 2
     \<and> ga_requester_key_id a \<noteq> Some ''key-b''"
proof -
  obtain a w where w: "policy_approved = Some (Inr a, w)"
    using policy_history_runs(3) by (auto split: option.splits prod.splits sum.splits)
  have v: "snd (current_serving_order live_config (snd policy_requested)) = Some 1" by code_simp
  from policy_addition_is_governed [OF w [unfolded policy_approved_def] policy_chain_requested]
  obtain p where "get_current_serving_policy w = Some p" "pv_version p = 2" "ga_requester_key_id a \<noteq> Some ''key-b''"
    unfolding v by (auto simp: next_version_def sample_caller_def)
  then show ?thesis using w by blast
qed

theorem policy_removal_effective_witness:
  "\<exists>p w. policy_removed = (Inr p, w) \<and> get_current_serving_policy w = Some p \<and> pv_approver_key_id p = None"
proof -
  have "require_provider_control init_policy_store (sample_caller ''key-a'') = Inr ()" by code_simp
  from policy_removal_effective [OF policy_world_facts(1) this, of "''text.openai:n''" "''t2''"]
  show ?thesis by (auto simp: policy_history_runs(1) removable_identities_def policy_removed_def)
qed

theorem removed_identity_stops_serving_witness:
  "case derive_candidate_universe spelled_sha (Some (JList [])) live_config [] ''t3'' (snd policy_removed) of
     (Inr u, w) \<Rightarrow> ''cand2_-n/n/text.openai/2/'' \<notin> set (cu_candidates u) | _ \<Rightarrow> False"
proof -
  obtain p w' where p: "policy_removed = (Inr p, w')" using policy_history_runs(2) by (auto split: prod.splits sum.splits)
  have e: "map_option me_candidate_id_v2 (resolve_catalogue_entry_by_identity ''text.openai:n'' policy_world)
      = Some ''cand2_-n/n/text.openai/2/''" by code_simp
  then obtain e where e: "resolve_catalogue_entry_by_identity ''text.openai:n'' policy_world = Some e"
    "me_candidate_id_v2 e = ''cand2_-n/n/text.openai/2/''" by auto
  have "case derive_candidate_universe spelled_sha (Some (JList [])) live_config [] ''t3'' (snd policy_removed) of
     (Inr u, w) \<Rightarrow> distinct (map me_candidate_id_v2 (dict_values (cw_entries w))) | _ \<Rightarrow> False" by code_simp
  then obtain u w1 where u: "derive_candidate_universe spelled_sha (Some (JList [])) live_config [] ''t3'' w' = (Inr u, w1)"
    and d: "distinct (map me_candidate_id_v2 (dict_values (cw_entries w1)))"
    by (auto simp: p split: prod.splits sum.splits)
  from removed_identity_stops_serving [OF policy_world_facts p [unfolded policy_removed_def] e(1) u d]
  show ?thesis by (simp add: p u e(2))
qed

end
