(* ===== verification/Live_Text_Adapter.thy ===== *)
theory Live_Text_Adapter
  imports Provider_Transport Candidate_Universe
begin

text \<open>
  The live text adapters: \<^verbatim>\<open>execute_openai_compatible_text_request\<close> of
  \<^verbatim>\<open>providers/openai_compatible_text_transport.py\<close> around the transport call, the two providers built on it, the
  adapter registry (\<^verbatim>\<open>providers/registry.py\<close>) and the reading of model answers
  (\<^verbatim>\<open>providers/openai_response_parsing.py\<close>).

  The decoded reply body of the served attempt, the JSON reader, the length of the encoded request, and the
  normalisation of advisor-brief and idea-explanation answers are arguments; the clock readings of one
  adapter call are collected in \<open>adapter_env\<close>.
\<close>

section \<open>Reading a model answer\<close>

fun as_str :: "json option \<Rightarrow> string option" where
  "as_str (Some (JString s)) = (if py_strip s \<noteq> [] then Some s else None)"
| "as_str _ = None"

definition remove_prefix :: "string \<Rightarrow> string \<Rightarrow> string" where
  "remove_prefix p s = (if starts_with p s then drop (length p) s else s)"

definition remove_suffix :: "string \<Rightarrow> string \<Rightarrow> string" where
  "remove_suffix p s = rev (remove_prefix (rev p) (rev s))"

definition strip_json_code_fence :: "string \<Rightarrow> string" where
  "strip_json_code_fence v =
     (let n = py_strip v in
      if starts_with ''```json'' n then py_strip (remove_suffix ''```'' (remove_prefix ''```json'' n))
      else if starts_with ''```'' n then py_strip (remove_suffix ''```'' (remove_prefix ''```'' n))
      else n)"

abbreviation quote_char :: char where "quote_char \<equiv> CHR 0x22"
abbreviation backslash_char :: char where "backslash_char \<equiv> CHR 0x5C"
abbreviation open_brace :: char where "open_brace \<equiv> CHR 0x7B"
abbreviation close_brace :: char where "close_brace \<equiv> CHR 0x7D"

text \<open>The scan from the first opening brace; the result is the consumed text up to the brace that closes it.\<close>

fun scan_object :: "int \<Rightarrow> bool \<Rightarrow> bool \<Rightarrow> string \<Rightarrow> string option" where
  "scan_object depth in_string escaped [] = None"
| "scan_object depth in_string escaped (c # cs) =
     (if in_string
      then map_option (Cons c)
             (if escaped then scan_object depth True False cs
              else if c = backslash_char then scan_object depth True True cs
              else if c = quote_char then scan_object depth False escaped cs
              else scan_object depth True escaped cs)
      else if c = quote_char then map_option (Cons c) (scan_object depth True escaped cs)
      else if c = open_brace then map_option (Cons c) (scan_object (depth + 1) False escaped cs)
      else if c = close_brace
      then (if depth - 1 = 0 then Some [c] else map_option (Cons c) (scan_object (depth - 1) False escaped cs))
      else map_option (Cons c) (scan_object depth False escaped cs))"

definition extract_balanced_json_object :: "string \<Rightarrow> string option" where
  "extract_balanced_json_object v =
     (case dropWhile (\<lambda>c. c \<noteq> open_brace) v of [] \<Rightarrow> None | cs \<Rightarrow> scan_object 0 False False cs)"

definition parse_json_object_with_posture ::
  "(string \<Rightarrow> json option) \<Rightarrow> string \<Rightarrow> (string, json) dict option \<times> bool" where
  "parse_json_object_with_posture loads v =
     (let n = strip_json_code_fence v in
      case loads n of
        None \<Rightarrow>
          (case extract_balanced_json_object n of
             None \<Rightarrow> (None, True)
           | Some t \<Rightarrow>
             (case loads t of
                None \<Rightarrow> (None, True)
              | Some (JObject d) \<Rightarrow> (Some d, True)
              | Some _ \<Rightarrow> (None, True)))
      | Some (JObject d) \<Rightarrow> (Some d, False)
      | Some _ \<Rightarrow> (None, False))"

fun part_text :: "json \<Rightarrow> string option" where
  "part_text (JObject d) = map_option py_strip (as_str (dict_get d ''text''))"
| "part_text _ = None"

fun item_fragments :: "json \<Rightarrow> string list" where
  "item_fragments (JObject d) =
     (case dict_get d ''content'' of Some (JList parts) \<Rightarrow> List.map_filter part_text parts | _ \<Rightarrow> [])"
| "item_fragments _ = []"

fun join_lines :: "string list \<Rightarrow> string" where
  "join_lines [] = []"
| "join_lines [s] = s"
| "join_lines (s # t # ss) = s @ CHR 0x0A # join_lines (t # ss)"

definition extract_output_text :: "(string, json) dict \<Rightarrow> string result" where
  "extract_output_text p =
     (case as_str (dict_get p ''output_text'') of
        Some s \<Rightarrow> Inr s
      | None \<Rightarrow>
        (let fragments = (case dict_get p ''output'' of Some (JList items) \<Rightarrow> concat (map item_fragments items) | _ \<Rightarrow> [])
         in if fragments \<noteq> [] then Inr (join_lines fragments)
            else Inl (ProviderExecutionError PROVIDER_UPSTREAM_ERROR)))"

section \<open>Requests, responses and the routing decision\<close>

record gateway_request = execution_request +
  gr_requirements :: "capability_requirements option"
  gr_output_contract_key :: "string option"
  gr_timeout_ms :: int
  gr_retry_limit :: int
  gr_max_output_tokens :: int
  gr_cost_posture :: string
  gr_execution_id :: "string option"
  gr_execution_deadline_at :: "rat option"
  gr_cost_ceiling_usd :: "usd option"

datatype execution_mode = DISABLED_MODE | STUB_MODE | OPENAI_MODE | LOCAL_OPENAI_COMPATIBLE_MODE | ENABLED_MODE

fun mode_value :: "execution_mode \<Rightarrow> string" where
  "mode_value DISABLED_MODE = ''disabled''"
| "mode_value STUB_MODE = ''stub''"
| "mode_value OPENAI_MODE = ''openai''"
| "mode_value LOCAL_OPENAI_COMPATIBLE_MODE = ''local_openai_compatible''"
| "mode_value ENABLED_MODE = ''enabled''"

datatype adapter_kind = STUB_KIND | OPENAI_LIVE | OPENAI_COMPATIBLE_LOCAL | OPENAI_EMBEDDINGS_LIVE

record adapter_descriptor =
  ad_provider_id :: string
  ad_adapter_kind :: adapter_kind
  ad_runtime_mode :: execution_mode

definition openai_managed_text_descriptor :: adapter_descriptor where
  "openai_managed_text_descriptor =
     \<lparr>ad_provider_id = ''text.openai'', ad_adapter_kind = OPENAI_LIVE, ad_runtime_mode = OPENAI_MODE\<rparr>"

definition local_openai_compatible_text_descriptor :: adapter_descriptor where
  "local_openai_compatible_text_descriptor =
     \<lparr>ad_provider_id = ''text.local'', ad_adapter_kind = OPENAI_COMPATIBLE_LOCAL,
      ad_runtime_mode = LOCAL_OPENAI_COMPATIBLE_MODE\<rparr>"

record routing_candidate =
  rk_provider_id :: string
  rk_provider_mode :: string
  rk_catalogue_entry_id :: "string option"
  rk_model_revision :: "string option"
  rk_rejection_reason :: "failure_category option"

datatype routing_strategy = FIXED | ORDERED_FALLBACK

datatype universe_source = CONFIGURED | CATALOGUE_DERIVED

datatype selection_reason =
    FixedSelected string | FixedRejected failure_category | UniverseEmpty | EveryCandidateRejectedOrFailed
  | LaterServedAfterFailure | FirstEnumeratedServed | LaterServedAfterRejection

record routing_decision =
  rt_strategy :: routing_strategy
  rt_candidates :: "routing_candidate list"
  rt_enforced_dimensions :: "string list"
  rt_unenforced_dimensions :: "string list"
  rt_selected_provider_id :: "string option"
  rt_selected_catalogue_entry_id :: "string option"
  rt_decided_at :: timestamp
  rt_selection_reason :: selection_reason
  rt_fallback_path :: "string list"
  rt_universe_source :: universe_source
  rt_universe_exclusions :: "(string \<times> exclusion_reason) list"
  rt_serving_policy_version :: "nat option"

record structured_echo =
  so_provider_id :: string
  so_provider_mode :: string
  so_model_id :: "string option"
  so_provider_request_id :: "string option"
  so_retry_count :: nat
  so_input_tokens :: "int option"
  so_output_tokens :: "int option"
  so_estimated_cost_usd :: "usd option"
  so_rate_card_ref :: "string option"

record provider_response =
  pr_provider_id :: string
  pr_provider_mode :: string
  pr_adapter_kind :: adapter_kind
  pr_timeout_ms :: int
  pr_retry_count :: nat
  pr_max_output_tokens :: int
  pr_model_id :: "string option"
  pr_model_version :: "string option"
  pr_provider_request_id :: "string option"
  pr_input_tokens :: "int option"
  pr_output_tokens :: "int option"
  pr_estimated_cost_usd :: "usd option"
  pr_failed_attempt_cost_usd :: "usd option"
  pr_failed_attempt_cost_basis :: "cost_basis option"
  pr_billed_attempt_count :: nat
  pr_rate_card_ref :: "string option"
  pr_stubbed :: bool
  pr_message :: string
  pr_structured :: "structured_echo option"
  pr_catalogue_entry_id :: "string option"
  pr_revision_pinned :: "bool option"
  pr_routing_decision :: "routing_decision option"

section \<open>The live adapter\<close>

record adapter_env =
  xe_context :: transport_context
  xe_body_bytes :: int
  xe_attempts :: "nat \<Rightarrow> attempt_env"
  xe_payload :: "(string, json) dict"
  xe_echo_at :: nat
  xe_cost_at :: nat
  xe_now :: timestamp

definition serving_provider_id :: "adapter_descriptor \<Rightarrow> execution_config \<Rightarrow> string" where
  "serving_provider_id d c = the (or_else (xc_provider_id c) (Some (ad_provider_id d)))"

definition adapter_transport_request ::
  "adapter_descriptor \<Rightarrow> bool \<Rightarrow> execution_config \<Rightarrow> 'q gateway_request_scheme \<Rightarrow> int \<Rightarrow> transport_request" where
  "adapter_transport_request d require_key c q body =
     \<lparr>rq_api_key = xc_api_key c, rq_require_api_key = require_key, rq_body_bytes = body,
      rq_max_output_tokens = Some (gr_max_output_tokens q),
      rq_timeout_seconds = max (of_int (gr_timeout_ms q) / 1000) 1,
      rq_serving_provider_id = serving_provider_id d c, rq_retry_limit = gr_retry_limit q,
      rq_execution_deadline_at = gr_execution_deadline_at q, rq_execution_id = gr_execution_id q,
      rq_cost_posture = gr_cost_posture q, rq_model_revision = or_else (xc_model_version c) (xc_model_id c),
      rq_cost_ceiling_usd = gr_cost_ceiling_usd q, rq_deployment = xc_deployment c, rq_model_family = xc_model_id c\<rparr>"

definition extract_failed_attempt_debits :: "served_response \<Rightarrow> priced_debit list" where
  "extract_failed_attempt_debits r =
     filter (\<lambda>d. pd_basis d \<in> {ACTUAL_USAGE, CONSERVATIVE_ESTIMATE})
       (List.map_filter fa_debit (sr_failed_attempts r))"

definition build_structured_output ::
  "adapter_descriptor \<Rightarrow> execution_config \<Rightarrow> served_response \<Rightarrow> (string, json) dict \<Rightarrow> nat \<Rightarrow> timestamp
     \<Rightarrow> 'a billing_world_scheme \<Rightarrow> structured_echo result \<times> 'a billing_world_scheme" where
  "build_structured_output d c r p t now w =
     (case estimate_live_text_cost (sr_input_tokens r) (sr_output_tokens r) (xc_model_id c) t now (bw_rates w) of
        (Inl e, rates) \<Rightarrow> (Inl e, w\<lparr>bw_rates := rates\<rparr>)
      | (Inr cost, rates) \<Rightarrow>
          (Inr \<lparr>so_provider_id = serving_provider_id d c, so_provider_mode = mode_value (ad_runtime_mode d),
                so_model_id = or_else (as_str (dict_get p ''model'')) (xc_model_id c),
                so_provider_request_id = as_str (dict_get p ''id''), so_retry_count = sr_retry_count r,
                so_input_tokens = sr_input_tokens r, so_output_tokens = sr_output_tokens r,
                so_estimated_cost_usd = st_estimated_cost_usd
                  (project_attempt_billing cost (extract_failed_attempt_debits r) (sr_failed_attempts r \<noteq> [])),
                so_rate_card_ref = uc_rate_card_ref cost\<rparr>, w\<lparr>bw_rates := rates\<rparr>))"

definition execute_openai_compatible_text_request ::
  "(payload \<Rightarrow> string) \<Rightarrow> (string \<Rightarrow> string) \<Rightarrow> adapter_descriptor \<Rightarrow> bool \<Rightarrow> enforcement_thresholds \<Rightarrow> execution_config
     \<Rightarrow> 'q gateway_request_scheme \<Rightarrow> adapter_env \<Rightarrow> 'a billing_world_scheme
     \<Rightarrow> provider_response result \<times> 'a billing_world_scheme" where
  "execute_openai_compatible_text_request sha shape d require_key e c q env w =
     (case post_openai_compatible_response sha (xe_context env) e
             (adapter_transport_request d require_key c q (xe_body_bytes env)) (xe_attempts env) w of
        (Inl err, w1) \<Rightarrow> (Inl err, w1)
      | (Inr r, w1) \<Rightarrow>
        (case extract_output_text (xe_payload env) of
           Inl err \<Rightarrow> (Inl err, w1)
         | Inr answer \<Rightarrow>
           (case build_structured_output d c r (xe_payload env) (xe_echo_at env) (xe_now env) w1 of
              (Inl err, w2) \<Rightarrow> (Inl err, w2)
            | (Inr echo, w2) \<Rightarrow>
              (case estimate_live_text_cost (sr_input_tokens r) (sr_output_tokens r)
                      (or_else (xc_model_version c) (xc_model_id c)) (xe_cost_at env) (xe_now env) (bw_rates w2) of
                 (Inl err, rates) \<Rightarrow> (Inl err, w2\<lparr>bw_rates := rates\<rparr>)
               | (Inr cost, rates) \<Rightarrow>
                   let billing = project_attempt_billing cost (extract_failed_attempt_debits r) (sr_failed_attempts r \<noteq> [])
                   in (Inr \<lparr>pr_provider_id = serving_provider_id d c, pr_provider_mode = mode_value (ad_runtime_mode d),
                            pr_adapter_kind = ad_adapter_kind d, pr_timeout_ms = gr_timeout_ms q,
                            pr_retry_count = sr_retry_count r, pr_max_output_tokens = gr_max_output_tokens q,
                            pr_model_id = or_else (as_str (dict_get (xe_payload env) ''model'')) (xc_model_id c),
                            pr_model_version = xc_model_version c,
                            pr_provider_request_id = as_str (dict_get (xe_payload env) ''id''),
                            pr_input_tokens = sr_input_tokens r, pr_output_tokens = sr_output_tokens r,
                            pr_estimated_cost_usd = st_estimated_cost_usd billing,
                            pr_failed_attempt_cost_usd = st_failed_attempt_cost_usd billing,
                            pr_failed_attempt_cost_basis = st_failed_attempt_cost_basis billing,
                            pr_billed_attempt_count = st_billed_attempt_count billing,
                            pr_rate_card_ref = uc_rate_card_ref cost, pr_stubbed = False, pr_message = shape answer,
                            pr_structured = Some echo, pr_catalogue_entry_id = None, pr_revision_pinned = None,
                            pr_routing_decision = None\<rparr>, w2\<lparr>bw_rates := rates\<rparr>)))))"

section \<open>The adapter registry\<close>

text \<open>The two live providers differ in their descriptor and in whether they insist on a credential.\<close>

datatype text_adapter = StubText | LiveText adapter_descriptor bool

fun resolve_text_generation_adapter :: "execution_mode \<Rightarrow> text_adapter result" where
  "resolve_text_generation_adapter DISABLED_MODE = Inr StubText"
| "resolve_text_generation_adapter STUB_MODE = Inr StubText"
| "resolve_text_generation_adapter OPENAI_MODE = Inr (LiveText openai_managed_text_descriptor True)"
| "resolve_text_generation_adapter LOCAL_OPENAI_COMPATIBLE_MODE =
     Inr (LiveText local_openai_compatible_text_descriptor False)"
| "resolve_text_generation_adapter ENABLED_MODE = Inl (ProviderExecutionError PROVIDER_NOT_REGISTERED)"

fun adapter_execute ::
  "(payload \<Rightarrow> string) \<Rightarrow> (string \<Rightarrow> string) \<Rightarrow> ('q gateway_request_scheme \<Rightarrow> provider_response result) \<Rightarrow> text_adapter
     \<Rightarrow> enforcement_thresholds \<Rightarrow> execution_config \<Rightarrow> 'q gateway_request_scheme \<Rightarrow> adapter_env \<Rightarrow> 'a billing_world_scheme
     \<Rightarrow> provider_response result \<times> 'a billing_world_scheme" where
  "adapter_execute sha shape stub StubText e c q env w = (stub q, w)"
| "adapter_execute sha shape stub (LiveText d require_key) e c q env w =
     execute_openai_compatible_text_request sha shape d require_key e c q env w"

section \<open>Facts\<close>

text \<open>The adapter moves money and nothing else: everything but the ledger, the counter and the rate cards.\<close>

definition off_the_books :: "'a billing_world_scheme \<Rightarrow> 'a billing_world_scheme" where
  "off_the_books w = w\<lparr>budget_states := [], attempt_debits := [],
     bw_rates := \<lparr>rw_cards = [], rw_input_cost = None, rw_output_cost = None\<rparr>\<rparr>"

lemma off_the_books_simps [simp]:
  "off_the_books (w\<lparr>bw_rates := r\<rparr>) = off_the_books w"
  "off_the_books (w\<lparr>attempt_debits := d\<rparr>) = off_the_books w"
  "off_the_books (w\<lparr>budget_states := b\<rparr>) = off_the_books w"
  by (simp_all add: off_the_books_def)

lemma off_the_books_settle [simp]:
  "off_the_books (snd (settle_attempt_spend x c i d v risk now w)) = off_the_books w"
  by (auto simp: settle_attempt_spend_def hold_attempt_debit_unresolved_def settle_attempt_debit_def Let_def
      add_budget_spend_def save_budget_state_def split: option.splits)

lemma off_the_books_reserve [simp]:
  "off_the_books (snd (reserve_attempt_spend e x c p r i d v now w)) = off_the_books w"
  by (simp add: reserve_attempt_spend_def reserve_attempt_debit_def add_budget_spend_def save_budget_state_def
      save_attempt_debit_def)

lemma off_the_books_priced [simp]: "off_the_books (snd (priced c i n risk p f t now w)) = off_the_books w"
  by (simp add: priced_def split: prod.splits)

lemma off_the_books_eqs:
  "priced c i n risk p f t now w = (a, w1) \<Longrightarrow> off_the_books w1 = off_the_books w"
  "reserve_attempt_spend e x k pv r j d v now w = (b, w1) \<Longrightarrow> off_the_books w1 = off_the_books w"
  using off_the_books_priced [of c i n risk p f t now w] off_the_books_reserve [of e x k pv r j d v now w] by auto

lemma off_the_books_boundary:
  "debit_boundary c env idx i n risk est w = (a, w1) \<Longrightarrow> off_the_books w1 = off_the_books w"
  by (auto simp: debit_boundary_def split: prod.splits sum.splits dest!: off_the_books_eqs)

lemma off_the_books_admit:
  assumes "admit_attempt e c env idx est w = (a, w1)"
  shows "off_the_books w1 = off_the_books w"
proof -
  have ceiling: "off_the_books w' = off_the_books w" if "check_cost_ceiling c env est w = (r, w')" for r w'
    using that by (auto simp: check_cost_ceiling_def split: option.splits prod.splits sum.splits if_splits
        dest!: off_the_books_eqs)
  have reserve: "off_the_books w'' = off_the_books w'" if "reserve_attempt e c env idx w' = (r, w'')" for r w' w''
    using that by (auto simp: reserve_attempt_def split: option.splits prod.splits sum.splits reserve_outcome.splits
        dest!: off_the_books_eqs)
  show ?thesis using assms
    by (auto simp: admit_attempt_def split: sum.splits prod.splits dest!: ceiling reserve)
qed

lemma off_the_books_conclude:
  "conclude_attempt c env idx est failed reply w = (a, w1) \<Longrightarrow> off_the_books w1 = off_the_books w"
  by (cases reply) (auto simp: conclude_attempt_def Let_def split: sum.splits prod.splits dest!: off_the_books_boundary)

lemma off_the_books_loop:
  "off_the_books (snd (attempt_loop e c envs idx est timeout failed w)) = off_the_books w"
proof (induction envs arbitrary: idx est timeout failed w)
  case (Cons env envs)
  then show ?case
    by (auto simp: Let_def split: prod.splits sum.splits attempt_outcome.splits
        dest!: off_the_books_admit off_the_books_conclude)
qed simp

lemma off_the_books_post: "off_the_books (snd (post_openai_compatible_response sha x e q envs w)) = off_the_books w"
  by (cases rule: post_cases [of sha x e q envs w]) (simp_all add: run_attempts_def off_the_books_loop)

lemma off_the_books_execute:
  "off_the_books (snd (execute_openai_compatible_text_request sha shape d k e c q env w)) = off_the_books w"
proof -
  have post: "off_the_books w1 = off_the_books w"
    if "post_openai_compatible_response sha x e q' envs w = (r, w1)" for x q' envs r w1
    using off_the_books_post [of sha x e q' envs w] that by simp
  have echo: "off_the_books w2 = off_the_books w1" if "build_structured_output d c r p t now w1 = (a, w2)" for r p t now a w1 w2
    using that by (auto simp: build_structured_output_def split: prod.splits sum.splits)
  show ?thesis
    by (auto simp: execute_openai_compatible_text_request_def Let_def split: prod.splits sum.splits dest!: post echo)
qed

lemma off_the_books_adapter:
  "off_the_books (snd (adapter_execute sha shape stub a e c q env w)) = off_the_books w"
  by (cases a) (simp_all add: off_the_books_execute)

text \<open>
  What the scan looks for, as a grammar: a brace-balanced text is made of plain characters, string literals
  and braced texts. \<open>literal_tail b\<close> is the rest of a string literal, \<open>b\<close> saying whether its next
  character is escaped.
\<close>

inductive literal_tail :: "bool \<Rightarrow> string \<Rightarrow> bool" where
  lit_end: "literal_tail False [quote_char]"
| lit_escaped: "literal_tail False t \<Longrightarrow> literal_tail True (c # t)"
| lit_backslash: "literal_tail True t \<Longrightarrow> literal_tail False (backslash_char # t)"
| lit_plain: "literal_tail False t \<Longrightarrow> c \<noteq> quote_char \<Longrightarrow> c \<noteq> backslash_char \<Longrightarrow> literal_tail False (c # t)"

inductive balanced :: "string \<Rightarrow> bool" where
  bal_empty: "balanced []"
| bal_plain: "balanced t \<Longrightarrow> c \<notin> {quote_char, open_brace, close_brace} \<Longrightarrow> balanced (c # t)"
| bal_literal: "literal_tail False s \<Longrightarrow> balanced t \<Longrightarrow> balanced (quote_char # s @ t)"
| bal_braced: "balanced s \<Longrightarrow> balanced t \<Longrightarrow> balanced (open_brace # s @ close_brace # t)"

definition object_text :: "string \<Rightarrow> bool" where
  "object_text t \<longleftrightarrow> (\<exists>s. balanced s \<and> t = open_brace # s @ [close_brace])"

text \<open>Texts that close \<open>n + 1\<close> open braces, the last character being the brace that closes the first.\<close>

inductive closing :: "nat \<Rightarrow> string \<Rightarrow> bool" where
  close_last: "balanced s \<Longrightarrow> closing 0 (s @ [close_brace])"
| close_more: "balanced s \<Longrightarrow> closing n t \<Longrightarrow> closing (Suc n) (s @ close_brace # t)"

inductive_cases closing_SucE: "closing (Suc n) t"

lemma closing_0_iff: "closing 0 t \<longleftrightarrow> (\<exists>s. balanced s \<and> t = s @ [close_brace])"
  by (auto elim: closing.cases intro: closing.intros)

lemma closing_plain: "closing n t \<Longrightarrow> c \<notin> {quote_char, open_brace, close_brace} \<Longrightarrow> closing n (c # t)"
proof (induction rule: closing.induct)
  case (close_last u)
  then show ?case using closing.close_last [OF bal_plain [of u c]] by simp
next
  case (close_more u n t)
  then show ?case using closing.close_more [OF bal_plain [of u c]] by simp
qed

lemma closing_literal: "closing n t \<Longrightarrow> literal_tail False s \<Longrightarrow> closing n (quote_char # s @ t)"
proof (induction rule: closing.induct)
  case (close_last u)
  then show ?case using closing.close_last [OF bal_literal [of s u]] by simp
next
  case (close_more u n t)
  then show ?case using closing.close_more [OF bal_literal [of s u]] by simp
qed

lemma closing_open: "closing (Suc n) t \<Longrightarrow> closing n (open_brace # t)"
proof (erule closing_SucE)
  fix s u assume t: "t = s @ close_brace # u" "balanced s" "closing n u"
  from t(3) show "closing n (open_brace # t)"
  proof cases
    case (close_last v)
    then show ?thesis using closing.close_last [OF bal_braced [OF t(2), of v]] t(1) by simp
  next
    case (close_more v m w)
    then show ?thesis using closing.close_more [OF bal_braced [OF t(2), of v]] t(1) by simp
  qed
qed

text \<open>The scan accepts exactly the shortest closing text.\<close>

lemma scan_literal_sound:
  "scan_object d True b cs = Some t
     \<Longrightarrow> \<exists>s u. t = s @ u \<and> literal_tail b s \<and> (\<exists>v. cs = s @ v \<and> scan_object d False False v = Some u)"
proof (induction cs arbitrary: b t)
  case (Cons c cs)
  show ?case
  proof (cases "\<not> b \<and> c = quote_char")
    case True
    then obtain u where "scan_object d False False cs = Some u" "t = c # u" using Cons.prems by auto
    then show ?thesis using True by (intro exI [of _ "[c]"] exI [of _ u]) (auto intro: lit_end)
  next
    case False
    then obtain b' t' where t': "scan_object d True b' cs = Some t'" "t = c # t'"
      and step: "\<And>s. literal_tail b' s \<Longrightarrow> literal_tail b (c # s)"
      using Cons.prems by (auto split: if_splits intro: literal_tail.intros)
    from Cons.IH [OF t'(1)] obtain s u v where "t' = s @ u" "literal_tail b' s" "cs = s @ v" "scan_object d False False v = Some u"
      by blast
    then show ?thesis using t'(2) step by (intro exI [of _ "c # s"] exI [of _ u]) auto
  qed
qed simp

lemma scan_sound:
  "scan_object (int n + 1) False False cs = Some t \<Longrightarrow> \<exists>r. cs = t @ r \<and> closing n t"
proof (induction cs arbitrary: n t rule: length_induct)
  case (1 cs)
  then obtain c cs' where cs: "cs = c # cs'" by (cases cs) auto
  have IH: "length v < length cs \<Longrightarrow> scan_object (int m + 1) False False v = Some u \<Longrightarrow> \<exists>r. v = u @ r \<and> closing m u" for v m u
    using "1.IH" by blast
  consider "c = quote_char" | "c = open_brace" | "c = close_brace" | "c \<notin> {quote_char, open_brace, close_brace}"
    by auto
  then show ?case
  proof cases
    case 1
    then obtain t' where t': "scan_object (int n + 1) True False cs' = Some t'" "t = c # t'" using "1.prems" cs by auto
    from scan_literal_sound [OF t'(1)] obtain s u v where
      s: "t' = s @ u" "literal_tail False s" "cs' = s @ v" "scan_object (int n + 1) False False v = Some u" by blast
    from IH [OF _ s(4)] s(3) cs obtain r where "v = u @ r" "closing n u" by auto
    then show ?thesis using s t' cs 1 closing_literal by auto
  next
    case 2
    then obtain t' where t': "scan_object (int (Suc n) + 1) False False cs' = Some t'" "t = c # t'"
      using "1.prems" cs by (auto simp: algebra_simps)
    from IH [OF _ t'(1)] cs obtain r where "cs' = t' @ r" "closing (Suc n) t'" by auto
    then show ?thesis using t' cs 2 closing_open by auto
  next
    case 3
    show ?thesis
    proof (cases n)
      case 0
      then show ?thesis using "1.prems" cs 3 close_last [OF bal_empty] by auto
    next
      case (Suc m)
      then obtain t' where t': "scan_object (int m + 1) False False cs' = Some t'" "t = c # t'"
        using "1.prems" cs 3 by (auto simp: add.commute)
      from IH [OF _ t'(1)] cs obtain r where "cs' = t' @ r" "closing m t'" by auto
      then show ?thesis using t' cs 3 Suc close_more [OF bal_empty] by auto
    qed
  next
    case 4
    then obtain t' where t': "scan_object (int n + 1) False False cs' = Some t'" "t = c # t'" using "1.prems" cs by auto
    from IH [OF _ t'(1)] cs obtain r where "cs' = t' @ r" "closing n t'" by auto
    then show ?thesis using t' cs 4 closing_plain by auto
  qed
qed

lemma scan_literal:
  "literal_tail b s \<Longrightarrow> scan_object d True b (s @ v) = map_option ((@) s) (scan_object d False False v)"
  by (induction rule: literal_tail.induct) (auto simp: option.map_comp comp_def)

lemma scan_balanced:
  "balanced s \<Longrightarrow> 0 < d \<Longrightarrow> scan_object d False False (s @ v) = map_option ((@) s) (scan_object d False False v)"
proof (induction arbitrary: d v rule: balanced.induct)
  case (bal_literal s t)
  then show ?case by (simp add: scan_literal option.map_comp comp_def)
next
  case (bal_braced s t)
  then show ?case by (simp add: option.map_comp comp_def)
next
  case bal_empty
  show ?case by (cases "scan_object d False False v") simp_all
next
  case (bal_plain t c)
  then show ?case by (cases "scan_object d False False v") simp_all
qed

lemma scan_object_text: "object_text t \<Longrightarrow> scan_object 0 False False (t @ r) = Some t"
  by (auto simp: object_text_def scan_balanced)

lemma dropWhile_first_brace:
  "dropWhile (\<lambda>c. c \<noteq> open_brace) v = open_brace # cs
     \<longleftrightarrow> (\<exists>p. v = p @ open_brace # cs \<and> open_brace \<notin> set p)"
proof (induction v)
  case (Cons c v)
  show ?case
  proof (cases "c = open_brace")
    case True
    have "\<And>p. c # v = p @ open_brace # cs \<Longrightarrow> open_brace \<notin> set p \<Longrightarrow> p = []" using True by (metis Cons_eq_append_conv list.set_intros(1))
    then show ?thesis using True by auto
  next
    case False
    then show ?thesis using Cons.IH by (auto simp: Cons_eq_append_conv)
  qed
qed simp

lemma extract_balanced_iff:
  "extract_balanced_json_object v = Some t \<longleftrightarrow> (\<exists>p r. v = p @ t @ r \<and> open_brace \<notin> set p \<and> object_text t)"
proof
  assume "extract_balanced_json_object v = Some t"
  then obtain c cs where d: "dropWhile (\<lambda>c. c \<noteq> open_brace) v = c # cs" and scan: "scan_object 0 False False (c # cs) = Some t"
    by (auto simp: extract_balanced_json_object_def split: list.splits)
  from d have c: "c = open_brace" by (auto simp: dropWhile_eq_Cons_conv)
  with d obtain p where p: "v = p @ open_brace # cs" "open_brace \<notin> set p" by (auto simp: dropWhile_first_brace)
  from scan c obtain u where u: "scan_object (int 0 + 1) False False cs = Some u" "t = open_brace # u" by auto
  from scan_sound [OF u(1)] obtain r s where "cs = u @ r" "balanced s" "u = s @ [close_brace]"
    by (auto simp: closing_0_iff)
  then show "\<exists>p r. v = p @ t @ r \<and> open_brace \<notin> set p \<and> object_text t"
    using p u(2) by (intro exI [of _ p] exI [of _ r]) (auto simp: object_text_def)
next
  assume "\<exists>p r. v = p @ t @ r \<and> open_brace \<notin> set p \<and> object_text t"
  then obtain p r where v: "v = p @ t @ r" "open_brace \<notin> set p" "object_text t" by blast
  then obtain s where t: "t = open_brace # s" by (auto simp: object_text_def)
  have "dropWhile (\<lambda>c. c \<noteq> open_brace) v = t @ r" using v t by (auto simp: dropWhile_first_brace)
  then show "extract_balanced_json_object v = Some t"
    using scan_object_text [OF v(3), of r] t by (simp add: extract_balanced_json_object_def del: scan_object.simps)
qed

section \<open>Properties\<close>

text \<open>
  A salvaged answer is never passed for a strict one: an answer is read strictly exactly when its whole
  unfenced text is a JSON object; otherwise the object is taken from the first balanced braced text, reading
  braces inside string literals as text, and the answer is marked as salvaged.
\<close>

theorem salvage_is_declared:
  "parse_json_object_with_posture loads v = (Some d, salvaged) \<longleftrightarrow>
     (if salvaged
      then loads (strip_json_code_fence v) = None
         \<and> (\<exists>p t r. strip_json_code_fence v = p @ t @ r \<and> open_brace \<notin> set p \<and> object_text t
              \<and> loads t = Some (JObject d))
      else loads (strip_json_code_fence v) = Some (JObject d))"
proof -
  have "(\<exists>p t r. strip_json_code_fence v = p @ t @ r \<and> open_brace \<notin> set p \<and> object_text t \<and> loads t = Some (JObject d))
     \<longleftrightarrow> (\<exists>t. extract_balanced_json_object (strip_json_code_fence v) = Some t \<and> loads t = Some (JObject d))"
    unfolding extract_balanced_iff by blast
  then show ?thesis
    by (cases salvaged) (auto simp: parse_json_object_with_posture_def Let_def split: option.splits json.splits)
qed

section \<open>A concrete answer\<close>

text \<open>The revision in service has its own card, dearer than the default one.\<close>

definition two_rate_world :: billing_world where
  "two_rate_world = sample_world\<lparr>bw_rates := \<lparr>rw_cards =
     [(''default'', sample_card ''default'' DEFAULT_LIVE_TEXT None None None),
      (''rev'', (sample_card ''rev'' MODEL_REVISION (Some ''m-1'') None None)
         \<lparr>rc_input_cost_per_1k_tokens := 2, rc_output_cost_per_1k_tokens := 2\<rparr>)],
     rw_input_cost = None, rw_output_cost = None\<rparr>\<rparr>"

definition sample_gateway_request :: gateway_request where
  "sample_gateway_request = \<lparr>er_task_id = ''explain.v1'', er_tenant_id = None, er_caller_app = ''advise'',
     gr_requirements = None, gr_output_contract_key = None, gr_timeout_ms = 3000, gr_retry_limit = 1,
     gr_max_output_tokens = 100, gr_cost_posture = ''conservative'', gr_execution_id = Some ''ex1'',
     gr_execution_deadline_at = None, gr_cost_ceiling_usd = None\<rparr>"

definition sample_adapter_env :: adapter_env where
  "sample_adapter_env = \<lparr>xe_context = sample_context, xe_body_bytes = 400,
     xe_attempts = (\<lambda>i. (sample_env i)\<lparr>ae_reply := \<lambda>_. Served (Some 90) (Some 40)\<rparr>),
     xe_payload = [(''output_text'', JString ''hello''), (''model'', JString ''m-1'')],
     xe_echo_at = 12, xe_cost_at = 12, xe_now = ''t1''\<rparr>"

definition sample_answer :: "provider_response result \<times> billing_world" where
  "sample_answer = execute_openai_compatible_text_request no_sha (\<lambda>s. s) openai_managed_text_descriptor True
     sample_thresholds sample_config sample_gateway_request sample_adapter_env two_rate_world"

text \<open>
  The cost echoed in the structured output is not the cost the budget envelope recorded: the echo prices
  the answer by the model id, the response and the ledger by the model revision, so a revision with its own
  rate card is reported at the default rate.
\<close>

theorem echoed_cost_differs_from_recorded_cost:
  "\<exists>r echo. fst sample_answer = Inr r \<and> pr_structured r = Some echo
     \<and> so_estimated_cost_usd echo \<noteq> pr_estimated_cost_usd r
     \<and> pr_estimated_cost_usd r = Some (current_spend (snd sample_answer) live_budget_key)"
proof -
  have "fst sample_answer = Inr (projr (fst sample_answer))
     \<and> pr_structured (projr (fst sample_answer)) = Some (the (pr_structured (projr (fst sample_answer))))
     \<and> so_estimated_cost_usd (the (pr_structured (projr (fst sample_answer)))) \<noteq> pr_estimated_cost_usd (projr (fst sample_answer))
     \<and> pr_estimated_cost_usd (projr (fst sample_answer)) = Some (current_spend (snd sample_answer) live_budget_key)"
    by code_simp
  then show ?thesis by blast
qed

end
