(* ===== verification/Live_Execution_State.thy ===== *)
theory Live_Execution_State
  imports Live_Text_Adapter Provider_Degradation
begin

text \<open>
  Whether live text generation may run at all: \<^verbatim>\<open>services/provider_configuration_status.py\<close>,
  \<^verbatim>\<open>services/provider_live_execution_state.py\<close>, the mode check of \<^verbatim>\<open>services/provider_policy.py\<close> and the endpoint probe
  with its cache, \<^verbatim>\<open>services/local_openai_compatible_endpoint_probe.py\<close>.

  The embedding settings of the runtime mode and the reply of the probed endpoint are arguments. The findings
  and blocking reasons are values; the sentences the code writes for them are not modelled.
\<close>

section \<open>Configuration status\<close>

datatype rollout_state = DOCUMENTED | STUB_DEFAULT | ALLOWLISTED_DISABLED | CANARY_ENABLED | ROLLED_OUT

definition resolve_rollout_state :: "execution_config \<Rightarrow> rollout_state option" where
  "resolve_rollout_state c =
     map_of [(''DOCUMENTED_ONLY'', DOCUMENTED), (''STUB_DEFAULT'', STUB_DEFAULT),
       (''ALLOWLISTED_DISABLED'', ALLOWLISTED_DISABLED), (''CANARY_ENABLED'', CANARY_ENABLED),
       (''ROLLED_OUT'', ROLLED_OUT)] (xc_rollout_state c)"

datatype credential_status = CREDENTIALS_NOT_CONFIGURED | CREDENTIALS_CONFIGURED | CREDENTIALS_INVALID

datatype configuration_finding =
    RolloutStateUnknown | LiveConfigurationIncomplete | AllowlistEmpty | AllowlistInvalid | ProviderIdUnknown
  | LocalModeNeedsLocalBase | ConfiguredBelowActivation | PartiallyPopulated | Consistent
  | EmbeddingDocumentedOnly | EmbeddingStub | EmbeddingProviderUnknown | EmbeddingValuesMissing
  | EmbeddingPartiallyPopulated | EmbeddingBoundedRollout | EmbeddingModeUnknown

record configuration_status =
  cs_rollout_state :: rollout_state
  cs_provider_id :: "string option"
  cs_model_id :: "string option"
  cs_allowlisted_task_ids :: "string list"
  cs_credential_status :: credential_status
  cs_configuration_valid :: bool
  cs_findings :: "configuration_finding list"

definition expected_live_text_provider_ids :: "string \<Rightarrow> string option list" where
  "expected_live_text_provider_ids mode =
     (if mode = mode_value LOCAL_OPENAI_COMPATIBLE_MODE then [None, Some ''text.local''] else [None, Some ''text.openai''])"

definition live_text_api_key_required :: "string \<Rightarrow> bool" where
  "live_text_api_key_required mode \<longleftrightarrow> mode \<noteq> mode_value LOCAL_OPENAI_COMPATIBLE_MODE"

definition rstrip_slash :: "string \<Rightarrow> string" where
  "rstrip_slash s = rev (dropWhile (\<lambda>c. c = CHR ''/'') (rev s))"

definition live_config_values :: "execution_config \<Rightarrow> string option list" where
  "live_config_values c =
     [xc_provider_id c, xc_model_id c] @ (if live_text_api_key_required (xc_provider_mode c) then [xc_api_key c] else [])"

definition credential_status_of :: "string option list \<Rightarrow> credential_status" where
  "credential_status_of vs =
     (let n = length (filter truthy vs)
      in if n = 0 then CREDENTIALS_NOT_CONFIGURED
         else if n = length vs then CREDENTIALS_CONFIGURED else CREDENTIALS_INVALID)"

definition build_text_generation_configuration_status :: "execution_config \<Rightarrow> configuration_status" where
  "build_text_generation_configuration_status c =
     (let rollout = resolve_rollout_state c;
          allowlisted = list_live_text_allowlisted_task_ids c;
          requires = rollout \<in> {Some ALLOWLISTED_DISABLED, Some CANARY_ENABLED, Some ROLLED_OUT};
          values = live_config_values c;
          populated = length (filter truthy values);
          defects =
            (if rollout = None then [RolloutStateUnknown] else [])
            @ (if requires \<and> populated < length values then [LiveConfigurationIncomplete] else [])
            @ (if requires \<and> allowlisted = [] then [AllowlistEmpty] else [])
            @ (if list_invalid_live_text_allowlisted_task_ids c \<noteq> [] then [AllowlistInvalid] else [])
            @ (if xc_provider_id c \<notin> set (expected_live_text_provider_ids (xc_provider_mode c)) then [ProviderIdUnknown] else [])
            @ (if xc_provider_mode c = mode_value LOCAL_OPENAI_COMPATIBLE_MODE
                  \<and> rstrip_slash (py_strip (xc_api_base c)) = ''https://api.openai.com/v1''
               then [LocalModeNeedsLocalBase] else []);
          notes = (if \<not> requires \<and> 0 < populated then [ConfiguredBelowActivation] else []);
          partial = (if credential_status_of values = CREDENTIALS_INVALID then [PartiallyPopulated] else []);
          findings = defects @ notes @ partial
      in \<lparr>cs_rollout_state = (case rollout of None \<Rightarrow> DOCUMENTED | Some r \<Rightarrow> r),
          cs_provider_id = xc_provider_id c, cs_model_id = xc_model_id c, cs_allowlisted_task_ids = allowlisted,
          cs_credential_status = credential_status_of values,
          cs_configuration_valid = (defects = [] \<and> partial = []),
          cs_findings = (if findings = [] then [Consistent] else findings)\<rparr>)"

record embedding_settings =
  es_mode :: string
  es_provider_id :: "string option"
  es_model_id :: "string option"
  es_api_key :: "string option"

definition build_embedding_configuration_status :: "embedding_settings \<Rightarrow> configuration_status" where
  "build_embedding_configuration_status s =
     (let base = \<lparr>cs_rollout_state = DOCUMENTED, cs_provider_id = es_provider_id s, cs_model_id = es_model_id s,
            cs_allowlisted_task_ids = [], cs_credential_status = CREDENTIALS_NOT_CONFIGURED,
            cs_configuration_valid = True, cs_findings = []\<rparr>
      in if es_mode s = mode_value DISABLED_MODE then base\<lparr>cs_findings := [EmbeddingDocumentedOnly]\<rparr>
         else if es_mode s = mode_value STUB_MODE
         then base\<lparr>cs_rollout_state := STUB_DEFAULT, cs_findings := [EmbeddingStub]\<rparr>
         else if es_mode s = mode_value ENABLED_MODE
         then let values = [es_provider_id s, es_model_id s, es_api_key s];
                  credentials = credential_status_of values;
                  unknown = (if es_provider_id s \<notin> {None, Some ''embeddings.openai''} then [EmbeddingProviderUnknown] else []);
                  incomplete = (case credentials of
                      CREDENTIALS_NOT_CONFIGURED \<Rightarrow> [EmbeddingValuesMissing]
                    | CREDENTIALS_CONFIGURED \<Rightarrow> []
                    | CREDENTIALS_INVALID \<Rightarrow> [EmbeddingPartiallyPopulated])
              in base\<lparr>cs_rollout_state := CANARY_ENABLED, cs_credential_status := credentials,
                   cs_configuration_valid := (unknown = [] \<and> incomplete = []),
                   cs_findings := unknown @ incomplete @ [EmbeddingBoundedRollout]\<rparr>
         else base\<lparr>cs_credential_status := CREDENTIALS_INVALID, cs_configuration_valid := False,
                cs_findings := [EmbeddingModeUnknown]\<rparr>)"

section \<open>The endpoint probe\<close>

datatype probe_finding =
    ProbeNeedsModel | ProbeTimedOut | ProbeHttpFailed nat | ProbeUnreachable | ProbeUnreadable
  | ProbeInvalidCatalog | ProbeModelNotAdvertised

record endpoint_status =
  ep_endpoint_reachable :: bool
  ep_model_available :: bool
  ep_configured_model_id :: "string option"
  ep_blocking_reason :: "probe_finding option"

datatype probe_reply = TimedOutReply | HttpErrorReply nat | UrlErrorReply | NotJsonReply | JsonReply json | RaisedReply error

fun item_model_id :: "json \<Rightarrow> string option" where
  "item_model_id (JObject d) = as_str (dict_get d ''id'')"
| "item_model_id _ = None"

fun extract_model_ids :: "json \<Rightarrow> string list option result" where
  "extract_model_ids (JObject d) =
     (case dict_get d ''data'' of
        Some (JList items) \<Rightarrow>
          if list_all (\<lambda>i. item_model_id i \<noteq> None) items
          then Inr (Some (List.map_filter item_model_id items)) else Inr None
      | _ \<Rightarrow> Inr None)"
| "extract_model_ids _ = Inl (AttributeError ''get'')"

definition probe_local_openai_compatible_endpoint ::
  "(string \<Rightarrow> string option \<Rightarrow> probe_reply) \<Rightarrow> string \<Rightarrow> string option \<Rightarrow> string option \<Rightarrow> endpoint_status result" where
  "probe_local_openai_compatible_endpoint fetch base model key =
     (let status = (\<lambda>reachable available reason. Inr \<lparr>ep_endpoint_reachable = reachable,
            ep_model_available = available, ep_configured_model_id = model, ep_blocking_reason = reason\<rparr>)
      in if \<not> truthy model then status False False (Some ProbeNeedsModel)
         else case fetch (base @ ''/models'') key of
           TimedOutReply \<Rightarrow> status False False (Some ProbeTimedOut)
         | HttpErrorReply code \<Rightarrow> status False False (Some (ProbeHttpFailed code))
         | UrlErrorReply \<Rightarrow> status False False (Some ProbeUnreachable)
         | NotJsonReply \<Rightarrow> status True False (Some ProbeUnreadable)
         | RaisedReply e \<Rightarrow> Inl e
         | JsonReply j \<Rightarrow>
             (case extract_model_ids j of
                Inl e \<Rightarrow> Inl e
              | Inr None \<Rightarrow> status True False (Some ProbeInvalidCatalog)
              | Inr (Some ids) \<Rightarrow>
                  if the model \<notin> set ids then status True False (Some ProbeModelNotAdvertised)
                  else status True True None))"

record cached_probe_result =
  cp_cache_key :: "string \<times> string option \<times> string option"
  cp_expires_at :: rat
  cp_status :: endpoint_status

record gateway_world = catalogue_world +
  gw_probe_cache :: "cached_probe_result option"

record probe_context =
  px_override :: "endpoint_status option"
  px_hermetic :: bool
  px_cache_seconds :: rat
  px_now :: rat
  px_fetch :: "string \<Rightarrow> string option \<Rightarrow> probe_reply"

definition probe_key :: "execution_config \<Rightarrow> string \<times> string option \<times> string option" where
  "probe_key c = (rstrip_slash (py_strip (xc_api_base c)), xc_model_id c, xc_api_key c)"

definition build_local_openai_compatible_endpoint_status ::
  "probe_context \<Rightarrow> execution_config \<Rightarrow> 'a gateway_world_scheme \<Rightarrow> endpoint_status result \<times> 'a gateway_world_scheme" where
  "build_local_openai_compatible_endpoint_status x c w =
     (case px_override x of
        Some s \<Rightarrow> (Inr s, w)
      | None \<Rightarrow>
        if px_hermetic x then (Inl (RuntimeError ''hermetic execution reached the live network seam''), w)
        else
          let key = probe_key c;
              fresh = (case probe_local_openai_compatible_endpoint (px_fetch x) (fst key) (xc_model_id c) (xc_api_key c) of
                  Inl e \<Rightarrow> (Inl e, w)
                | Inr s \<Rightarrow> (Inr s, w\<lparr>gw_probe_cache := Some \<lparr>cp_cache_key = key,
                              cp_expires_at = px_now x + max (px_cache_seconds x) 0, cp_status = s\<rparr>\<rparr>))
          in case gw_probe_cache w of
               None \<Rightarrow> fresh
             | Some r \<Rightarrow> if cp_cache_key r = key \<and> px_now x < cp_expires_at r then (Inr (cp_status r), w) else fresh)"

definition reset_local_openai_compatible_endpoint_probe_cache :: "'a gateway_world_scheme \<Rightarrow> 'a gateway_world_scheme" where
  "reset_local_openai_compatible_endpoint_probe_cache w = w\<lparr>gw_probe_cache := None\<rparr>"

section \<open>The live execution state\<close>

datatype blocking_reason =
    ModeUnsupported | LiveNotRequested | ConfigurationInvalid | CredentialsMissing | RolloutForbids
  | TaskNotAllowlisted string | EndpointBlocked probe_finding

record live_execution_state =
  ls_provider_mode :: string
  ls_rollout_state :: rollout_state
  ls_configuration_valid :: bool
  ls_credentials_configured :: bool
  ls_mode_supported :: bool
  ls_live_mode_requested :: bool
  ls_live_execution_enabled :: bool
  ls_task_allowlisted :: bool
  ls_endpoint_reachable :: "bool option"
  ls_configured_model_available :: "bool option"
  ls_blocking_reason :: "blocking_reason option"

definition local_blocking_reason :: "execution_config \<Rightarrow> string option \<Rightarrow> blocking_reason option" where
  "local_blocking_reason c task =
     (let s = build_text_generation_configuration_status c in
      if xc_provider_mode c \<notin> set (map mode_value [DISABLED_MODE, STUB_MODE, OPENAI_MODE, LOCAL_OPENAI_COMPATIBLE_MODE])
      then Some ModeUnsupported
      else if xc_provider_mode c \<notin> set (map mode_value [OPENAI_MODE, LOCAL_OPENAI_COMPATIBLE_MODE])
      then Some LiveNotRequested
      else if \<not> cs_configuration_valid s then Some ConfigurationInvalid
      else if cs_credential_status s \<noteq> CREDENTIALS_CONFIGURED then Some CredentialsMissing
      else if cs_rollout_state s \<notin> {CANARY_ENABLED, ROLLED_OUT} then Some RolloutForbids
      else case task of
        None \<Rightarrow> None
      | Some t \<Rightarrow> if is_live_text_task_allowlisted c t then None else Some (TaskNotAllowlisted t))"

definition live_state_of ::
  "execution_config \<Rightarrow> string option \<Rightarrow> endpoint_status option \<Rightarrow> blocking_reason option \<Rightarrow> live_execution_state" where
  "live_state_of c task endpoint reason =
     (let s = build_text_generation_configuration_status c
      in \<lparr>ls_provider_mode = xc_provider_mode c, ls_rollout_state = cs_rollout_state s,
          ls_configuration_valid = cs_configuration_valid s,
          ls_credentials_configured = (cs_credential_status s = CREDENTIALS_CONFIGURED),
          ls_mode_supported = (xc_provider_mode c
            \<in> set (map mode_value [DISABLED_MODE, STUB_MODE, OPENAI_MODE, LOCAL_OPENAI_COMPATIBLE_MODE])),
          ls_live_mode_requested = (xc_provider_mode c \<in> set (map mode_value [OPENAI_MODE, LOCAL_OPENAI_COMPATIBLE_MODE])),
          ls_live_execution_enabled = (reason = None),
          ls_task_allowlisted = (case task of None \<Rightarrow> True | Some t \<Rightarrow> is_live_text_task_allowlisted c t),
          ls_endpoint_reachable = map_option ep_endpoint_reachable endpoint,
          ls_configured_model_available = map_option ep_model_available endpoint,
          ls_blocking_reason = reason\<rparr>)"

definition build_provider_live_execution_state ::
  "probe_context \<Rightarrow> execution_config \<Rightarrow> string option \<Rightarrow> 'a gateway_world_scheme
     \<Rightarrow> live_execution_state result \<times> 'a gateway_world_scheme" where
  "build_provider_live_execution_state x c task w =
     (case local_blocking_reason c task of
        Some reason \<Rightarrow> (Inr (live_state_of c task None (Some reason)), w)
      | None \<Rightarrow>
        if xc_provider_mode c = mode_value LOCAL_OPENAI_COMPATIBLE_MODE
        then (case build_local_openai_compatible_endpoint_status x c w of
                (Inl e, w1) \<Rightarrow> (Inl e, w1)
              | (Inr s, w1) \<Rightarrow>
                  (Inr (live_state_of c task (Some s) (map_option EndpointBlocked (ep_blocking_reason s))), w1))
        else (Inr (live_state_of c task None None), w))"

definition require_supported_text_generation_mode :: "execution_config \<Rightarrow> execution_mode result" where
  "require_supported_text_generation_mode c =
     (case map_of (map (\<lambda>m. (mode_value m, m)) [DISABLED_MODE, STUB_MODE, OPENAI_MODE, LOCAL_OPENAI_COMPATIBLE_MODE])
             (xc_provider_mode c) of
        None \<Rightarrow> Inl (HTTPException 503 ''unsupported_text_generation_mode'')
      | Some m \<Rightarrow> Inr m)"

definition require_supported_embedding_mode :: "embedding_settings \<Rightarrow> execution_mode result" where
  "require_supported_embedding_mode s =
     (case map_of (map (\<lambda>m. (mode_value m, m)) [DISABLED_MODE, STUB_MODE, ENABLED_MODE]) (es_mode s) of
        None \<Rightarrow> Inl (HTTPException 503 ''unsupported_embedding_mode'')
      | Some m \<Rightarrow> Inr m)"

section \<open>Embeddings\<close>

record embedding_live_state =
  el_configuration_valid :: bool
  el_credentials_configured :: bool
  el_live_mode_requested :: bool
  el_live_execution_enabled :: bool
  el_blocking_reason :: "blocking_reason option"

definition build_embedding_live_execution_state :: "embedding_settings \<Rightarrow> embedding_live_state" where
  "build_embedding_live_execution_state s =
     (let status = build_embedding_configuration_status s;
          configured = (cs_credential_status status = CREDENTIALS_CONFIGURED);
          reason =
            (if es_mode s \<notin> set (map mode_value [DISABLED_MODE, STUB_MODE, ENABLED_MODE]) then Some ModeUnsupported
             else if es_mode s \<noteq> mode_value ENABLED_MODE then Some LiveNotRequested
             else if \<not> cs_configuration_valid status then Some ConfigurationInvalid
             else if \<not> configured then Some CredentialsMissing else None)
      in \<lparr>el_configuration_valid = cs_configuration_valid status, el_credentials_configured = configured,
          el_live_mode_requested = (es_mode s = mode_value ENABLED_MODE),
          el_live_execution_enabled = (reason = None), el_blocking_reason = reason\<rparr>)"

datatype embedding_adapter = StubEmbedding | LiveEmbedding

fun resolve_embedding_adapter :: "execution_mode \<Rightarrow> embedding_adapter result" where
  "resolve_embedding_adapter DISABLED_MODE = Inr StubEmbedding"
| "resolve_embedding_adapter STUB_MODE = Inr StubEmbedding"
| "resolve_embedding_adapter ENABLED_MODE = Inr LiveEmbedding"
| "resolve_embedding_adapter _ = Inl (ProviderExecutionError PROVIDER_NOT_REGISTERED)"

definition execute_embedding_generation ::
  "(embedding_adapter \<Rightarrow> 'q \<Rightarrow> 'v result) \<Rightarrow> embedding_settings \<Rightarrow> 'q \<Rightarrow> 'v result" where
  "execute_embedding_generation run s q =
     (case require_supported_embedding_mode s of
        Inl e \<Rightarrow> Inl e
      | Inr mode \<Rightarrow>
          if mode = ENABLED_MODE \<and> \<not> el_live_execution_enabled (build_embedding_live_execution_state s)
          then Inl (ProviderExecutionError LIVE_EXECUTION_NOT_ENABLED)
          else case resolve_embedding_adapter mode of Inl e \<Rightarrow> Inl e | Inr a \<Rightarrow> run a q)"

section \<open>Facts\<close>

lemma length_filter_all_iff: "length xs \<le> length (filter P xs) \<longleftrightarrow> list_all P xs"
  by (metis filter_True length_filter_less linorder_not_le list_all_iff order_refl)

lemma credentials_configured_iff:
  "credential_status_of vs = CREDENTIALS_CONFIGURED \<longleftrightarrow> vs \<noteq> [] \<and> list_all truthy vs"
  using length_filter_all_iff [of vs truthy] length_filter_le [of truthy vs]
  by (auto simp: credential_status_of_def Let_def)

lemma text_configuration_valid_iff:
  "cs_configuration_valid (build_text_generation_configuration_status c) \<longleftrightarrow>
     resolve_rollout_state c \<noteq> None
   \<and> (resolve_rollout_state c \<in> {Some ALLOWLISTED_DISABLED, Some CANARY_ENABLED, Some ROLLED_OUT}
        \<longrightarrow> list_all truthy (live_config_values c) \<and> list_live_text_allowlisted_task_ids c \<noteq> [])
   \<and> list_all live_text_task (list_live_text_allowlisted_task_ids c)
   \<and> xc_provider_id c \<in> set (expected_live_text_provider_ids (xc_provider_mode c))
   \<and> \<not> (xc_provider_mode c = ''local_openai_compatible''
        \<and> rstrip_slash (py_strip (xc_api_base c)) = ''https://api.openai.com/v1'')
   \<and> credential_status_of (live_config_values c) \<noteq> CREDENTIALS_INVALID"
proof -
  have full: "length (filter truthy vs) < length vs \<longleftrightarrow> \<not> list_all truthy vs" for vs :: "string option list"
    by (simp add: length_filter_all_iff flip: not_le)
  have bad: "list_invalid_live_text_allowlisted_task_ids c = []
      \<longleftrightarrow> list_all live_text_task (list_live_text_allowlisted_task_ids c)"
    by (simp add: list_invalid_live_text_allowlisted_task_ids_def filter_empty_conv list_all_iff)
  show ?thesis
    unfolding build_text_generation_configuration_status_def Let_def
    by (auto simp: full bad)
qed

lemma local_blocking_reason_None_iff:
  "local_blocking_reason c task = None \<longleftrightarrow>
     xc_provider_mode c \<in> {''openai'', ''local_openai_compatible''}
   \<and> resolve_rollout_state c \<in> {Some CANARY_ENABLED, Some ROLLED_OUT}
   \<and> list_all truthy (live_config_values c)
   \<and> list_live_text_allowlisted_task_ids c \<noteq> []
   \<and> list_all live_text_task (list_live_text_allowlisted_task_ids c)
   \<and> xc_provider_id c \<in> set (expected_live_text_provider_ids (xc_provider_mode c))
   \<and> \<not> (xc_provider_mode c = ''local_openai_compatible''
        \<and> rstrip_slash (py_strip (xc_api_base c)) = ''https://api.openai.com/v1'')
   \<and> (case task of None \<Rightarrow> True | Some t \<Rightarrow> is_live_text_task_allowlisted c t)"
proof -
  have creds: "credential_status_of (live_config_values c) = CREDENTIALS_CONFIGURED \<longleftrightarrow> list_all truthy (live_config_values c)"
    by (simp add: credentials_configured_iff live_config_values_def)
  have fields: "cs_credential_status (build_text_generation_configuration_status c) = credential_status_of (live_config_values c)"
    "cs_rollout_state (build_text_generation_configuration_status c) = (case resolve_rollout_state c of None \<Rightarrow> DOCUMENTED | Some r \<Rightarrow> r)"
    by (simp_all add: build_text_generation_configuration_status_def Let_def)
  show ?thesis
    by (cases "list_all truthy (live_config_values c)"; cases "resolve_rollout_state c"; cases task)
      (auto simp: local_blocking_reason_def Let_def fields creds creds [THEN iffD2] text_configuration_valid_iff)
qed

lemma probe_unblocked_iff:
  "(\<exists>s. probe_local_openai_compatible_endpoint fetch base model key = Inr s \<and> ep_blocking_reason s = None) \<longleftrightarrow>
     (\<exists>m d items. model = Some m \<and> m \<noteq> [] \<and> fetch (base @ ''/models'') key = JsonReply (JObject d)
        \<and> dict_get d ''data'' = Some (JList items) \<and> (\<forall>i \<in> set items. item_model_id i \<noteq> None)
        \<and> (\<exists>i \<in> set items. item_model_id i = Some m))"
proof (cases "truthy model")
  case True
  then obtain m where m: "model = Some m" "m \<noteq> []" by (auto elim: truthyE)
  have member: "m \<in> set (List.map_filter item_model_id items) \<longleftrightarrow> (\<exists>i \<in> set items. item_model_id i = Some m)" for items
    by (force simp: List.map_filter_def)
  have t: "truthy (Some m)" using m by (simp add: truthy_def)
  note d = probe_local_openai_compatible_endpoint_def Let_def
  show ?thesis
  proof (cases "fetch (base @ ''/models'') key")
    case (JsonReply j)
    show ?thesis
    proof (cases j)
      case (JObject d')
      then show ?thesis using JsonReply m t
        by (auto simp: d member list_all_iff split: if_splits option.splits json.splits)
    qed (use JsonReply m t in \<open>simp_all add: d\<close>)
  qed (use m t in \<open>simp_all add: d\<close>)
qed (auto simp: probe_local_openai_compatible_endpoint_def truthy_def)

section \<open>Properties\<close>

text \<open>
  Live text generation is enabled exactly when every condition holds: a live mode, a rollout state that
  permits execution, every mandatory setting present, a non-empty allowlist of live-text tasks that contains
  the task, a provider id of the mode, and for the local mode a self-hosted base whose endpoint is unblocked.
\<close>

theorem live_execution_enabled_exactly:
  assumes "build_provider_live_execution_state x c task w = (Inr s, w')"
  shows "ls_live_execution_enabled s \<longleftrightarrow>
     resolve_rollout_state c \<in> {Some CANARY_ENABLED, Some ROLLED_OUT}
   \<and> list_all truthy (live_config_values c)
   \<and> list_live_text_allowlisted_task_ids c \<noteq> []
   \<and> list_all live_text_task (list_live_text_allowlisted_task_ids c)
   \<and> (case task of None \<Rightarrow> True | Some t \<Rightarrow> is_live_text_task_allowlisted c t)
   \<and> xc_provider_id c \<in> set (expected_live_text_provider_ids (xc_provider_mode c))
   \<and> (xc_provider_mode c = ''openai''
      \<or> xc_provider_mode c = ''local_openai_compatible''
        \<and> rstrip_slash (py_strip (xc_api_base c)) \<noteq> ''https://api.openai.com/v1''
        \<and> (\<exists>e. build_local_openai_compatible_endpoint_status x c w = (Inr e, w') \<and> ep_blocking_reason e = None))"
  using assms local_blocking_reason_None_iff [of c task]
  by (cases "local_blocking_reason c task")
    (auto simp: build_provider_live_execution_state_def live_state_of_def Let_def split: if_splits prod.splits sum.splits)

section \<open>A concrete configuration\<close>

definition canary_config :: execution_config where
  "canary_config = sample_config\<lparr>xc_rollout_state := ''CANARY_ENABLED''\<rparr>"

theorem live_execution_enabled_exactly_witness:
  "\<exists>s. local_blocking_reason canary_config (Some ''explain.v1'') = None
     \<and> live_state_of canary_config (Some ''explain.v1'') None None = s \<and> ls_live_execution_enabled s
     \<and> list_all truthy (live_config_values canary_config)"
proof -
  have l: "local_blocking_reason canary_config (Some ''explain.v1'') = None" by code_simp
  have m: "xc_provider_mode canary_config = ''openai''" by (simp add: canary_config_def sample_config_def)
  have "build_provider_live_execution_state x canary_config (Some ''explain.v1'') w
      = (Inr (live_state_of canary_config (Some ''explain.v1'') None None), w)" for x and w :: gateway_world
    by (simp add: build_provider_live_execution_state_def l m)
  from live_execution_enabled_exactly [OF this] show ?thesis using l by (simp add: live_state_of_def Let_def)
qed

end
