(* ===== verification/Provider_Gateway.thy ===== *)
theory Provider_Gateway
  imports Live_Execution_State
begin

text \<open>
  The provider gateway, \<^verbatim>\<open>services/provider_gateway.py\<close>: the one place where every admission control of the other
  theories meets. The fixed path serves the configured candidate; the ordered path enumerates the candidate
  universe and falls back from candidate to candidate.

  What the gateway reads from outside is one record, \<open>gateway_env\<close>: the caller policies, the settings, and
  every clock reading, given per candidate index for the readings taken once per candidate. Dictionaries of
  rejections are keyed by candidate index, as in the source.
\<close>

section \<open>The outside of one execution\<close>

record candidate_env =
  ca_deadline_clock :: rat
  ca_preflight_at :: int
  ca_reopen_at :: int
  ca_bind_at :: timestamp
  ca_attempt_clock :: rat
  ca_adapter :: adapter_env
  ca_failure_at :: int
  ca_posture_at :: int
  ca_open_at :: int
  ca_drift_at :: timestamp
  ca_success_at :: int

record gateway_env =
  ge_policies :: policy_store
  ge_caller :: "authenticated_caller option"
  ge_connections :: "json option"
  ge_environ :: "string \<Rightarrow> string option"
  ge_inventory :: "approved_model list"
  ge_contract_exists :: "string \<Rightarrow> bool"
  ge_drain_permitted :: bool
  ge_probe :: probe_context
  ge_minted_id :: string
  ge_started_at :: rat
  ge_universe_at :: timestamp
  ge_kill_at :: "nat \<Rightarrow> int"
  ge_quota_at :: "quota_descriptor \<Rightarrow> timestamp"
  ge_budget_at :: nat
  ge_budget_now :: timestamp
  ge_stamp :: "int \<Rightarrow> timestamp"
  ge_candidate :: "nat \<Rightarrow> candidate_env"
  ge_decided_at :: timestamp

datatype gateway_error = Unavailable failure_category routing_decision | Raised error

section \<open>Request budgets\<close>

definition apply_latency_ceiling :: "rat \<Rightarrow> 'q gateway_request_scheme \<Rightarrow> 'q gateway_request_scheme" where
  "apply_latency_ceiling now q =
     (case gr_requirements q of
        None \<Rightarrow> q
      | Some r \<Rightarrow>
        (case cr_max_latency_ms r of
           None \<Rightarrow> q
         | Some ms \<Rightarrow> q\<lparr>gr_timeout_ms := min (gr_timeout_ms q) ms,
                       gr_execution_deadline_at := Some (now + of_int ms / 1000)\<rparr>))"

definition apply_cost_ceiling :: "'q gateway_request_scheme \<Rightarrow> 'q gateway_request_scheme" where
  "apply_cost_ceiling q =
     (case gr_requirements q of
        None \<Rightarrow> q
      | Some r \<Rightarrow>
        (case cr_max_estimated_cost_usd r of
           None \<Rightarrow> q | Some usd \<Rightarrow> q\<lparr>gr_cost_ceiling_usd := Some usd\<rparr>))"

text \<open>\<^verbatim>\<open>int(x)\<close> truncates towards zero.\<close>

definition truncate_to_int :: "rat \<Rightarrow> int" where
  "truncate_to_int x = (if 0 \<le> x then \<lfloor>x\<rfloor> else - \<lfloor>- x\<rfloor>)"

definition remaining_budget_ms :: "rat \<Rightarrow> 'q gateway_request_scheme \<Rightarrow> int option" where
  "remaining_budget_ms now q =
     map_option (\<lambda>d. truncate_to_int ((d - now) * 1000)) (gr_execution_deadline_at q)"

definition request_for_attempt :: "rat \<Rightarrow> 'q gateway_request_scheme \<Rightarrow> 'q gateway_request_scheme" where
  "request_for_attempt now q =
     (case remaining_budget_ms now q of
        None \<Rightarrow> q
      | Some left \<Rightarrow> if gr_timeout_ms q \<le> left then q else q\<lparr>gr_timeout_ms := max left 1\<rparr>)"

definition require_budget_remaining :: "rat \<Rightarrow> 'q gateway_request_scheme \<Rightarrow> unit result" where
  "require_budget_remaining now q =
     (case remaining_budget_ms now q of
        None \<Rightarrow> Inr ()
      | Some left \<Rightarrow> if left \<le> 0 then Inl (ProviderExecutionError REQUEST_DEADLINE_EXHAUSTED) else Inr ())"

definition prepare_request :: "gateway_env \<Rightarrow> gateway_request \<Rightarrow> gateway_request" where
  "prepare_request env q =
     (let q1 = apply_cost_ceiling (apply_latency_ceiling (ge_started_at env) q)
      in if gr_execution_id q1 = None then q1\<lparr>gr_execution_id := Some (ge_minted_id env)\<rparr> else q1)"

section \<open>Routing decisions\<close>

definition declared_dimensions :: "capability_requirements \<Rightarrow> string list" where
  "declared_dimensions r =
     (if cr_structured_output_required r \<noteq> None then [''structured_output_required''] else [])
     @ (if cr_tool_calling_required r \<noteq> None then [''tool_calling_required''] else [])
     @ (if cr_max_latency_ms r \<noteq> None then [''max_latency_ms''] else [])
     @ (if cr_max_estimated_cost_usd r \<noteq> None then [''max_estimated_cost_usd''] else [])"

definition enforced_requirement_dimensions :: "string list" where
  "enforced_requirement_dimensions =
     [''structured_output_required'', ''tool_calling_required'', ''max_latency_ms'', ''max_estimated_cost_usd'']"

definition requirement_enforcement_split :: "capability_requirements option \<Rightarrow> string list \<times> string list" where
  "requirement_enforcement_split reqs =
     (case reqs of
        None \<Rightarrow> ([], [])
      | Some r \<Rightarrow>
          (sort (filter (\<lambda>d. d \<in> set enforced_requirement_dimensions) (declared_dimensions r)),
           sort (filter (\<lambda>d. d \<notin> set enforced_requirement_dimensions) (declared_dimensions r))))"

definition candidate_entry_identity :: "execution_config \<Rightarrow> string option \<times> string option" where
  "candidate_entry_identity c =
     (if \<not> (truthy (xc_provider_id c) \<and> truthy (xc_model_id c)) then (None, None)
      else let revision = the (or_else (xc_model_version c) (xc_model_id c))
        in (Some (derive_model_catalogue_entry_id (the (xc_provider_id c)) revision (xc_deployment c)), Some revision))"

definition candidate_descriptor :: "string \<Rightarrow> execution_config \<times> failure_category option \<Rightarrow> routing_candidate" where
  "candidate_descriptor mode cr =
     \<lparr>rk_provider_id = the (or_else (xc_provider_id (fst cr)) (Some ''provider.unavailable'')), rk_provider_mode = mode,
      rk_catalogue_entry_id = fst (candidate_entry_identity (fst cr)),
      rk_model_revision = snd (candidate_entry_identity (fst cr)), rk_rejection_reason = snd cr\<rparr>"

text \<open>\<open>serving\<close> is the index of the serving candidate; \<open>is_first\<close> says whether it is the first candidate object.\<close>

definition build_ordered_routing_decision ::
  "timestamp \<Rightarrow> capability_requirements option \<Rightarrow> string \<Rightarrow> (execution_config \<times> failure_category option) list
     \<Rightarrow> (execution_config \<times> bool) option \<Rightarrow> catalogue_entry option \<Rightarrow> string list \<Rightarrow> candidate_universe option
     \<Rightarrow> routing_decision" where
  "build_ordered_routing_decision now reqs mode candidates serving entry path universe =
     \<lparr>rt_strategy = ORDERED_FALLBACK,
      rt_candidates = map (candidate_descriptor mode) candidates,
      rt_enforced_dimensions = fst (requirement_enforcement_split reqs),
      rt_unenforced_dimensions = snd (requirement_enforcement_split reqs),
      rt_selected_provider_id = Option.bind serving (xc_provider_id \<circ> fst),
      rt_selected_catalogue_entry_id = map_option me_entry_id entry,
      rt_decided_at = now,
      rt_selection_reason =
        (case serving of
           None \<Rightarrow> if candidates = [] then UniverseEmpty else EveryCandidateRejectedOrFailed
         | Some (_, is_first) \<Rightarrow> if path \<noteq> [] then LaterServedAfterFailure
                                 else if is_first then FirstEnumeratedServed else LaterServedAfterRejection),
      rt_fallback_path = path,
      rt_universe_source = (if universe = None then CONFIGURED else CATALOGUE_DERIVED),
      rt_universe_exclusions = (case universe of None \<Rightarrow> [] | Some u \<Rightarrow> cu_exclusions u),
      rt_serving_policy_version = Option.bind universe cu_policy_version\<rparr>"

definition fixed_decision ::
  "capability_requirements option \<Rightarrow> routing_candidate \<Rightarrow> string option \<Rightarrow> string option \<Rightarrow> timestamp \<Rightarrow> selection_reason
     \<Rightarrow> routing_decision" where
  "fixed_decision reqs candidate provider entry_id now reason =
     \<lparr>rt_strategy = FIXED, rt_candidates = [candidate],
      rt_enforced_dimensions = fst (requirement_enforcement_split reqs),
      rt_unenforced_dimensions = snd (requirement_enforcement_split reqs),
      rt_selected_provider_id = provider, rt_selected_catalogue_entry_id = entry_id, rt_decided_at = now,
      rt_selection_reason = reason, rt_fallback_path = [], rt_universe_source = CONFIGURED,
      rt_universe_exclusions = [], rt_serving_policy_version = None\<rparr>"

definition build_rejected_routing_decision ::
  "timestamp \<Rightarrow> capability_requirements option \<Rightarrow> string \<Rightarrow> failure_category \<Rightarrow> execution_config \<Rightarrow> routing_decision" where
  "build_rejected_routing_decision now reqs mode category c =
     fixed_decision reqs (candidate_descriptor mode (c, Some category)) None None now (FixedRejected category)"

definition build_fixed_routing_decision ::
  "timestamp \<Rightarrow> capability_requirements option \<Rightarrow> string \<Rightarrow> string \<Rightarrow> catalogue_entry option \<Rightarrow> routing_decision" where
  "build_fixed_routing_decision now reqs mode provider entry =
     fixed_decision reqs
       \<lparr>rk_provider_id = provider, rk_provider_mode = mode, rk_catalogue_entry_id = map_option me_entry_id entry,
        rk_model_revision = map_option me_model_revision entry, rk_rejection_reason = None\<rparr>
       (Some provider) (map_option me_entry_id entry) now (FixedSelected mode)"

section \<open>Refusals of the ordered path\<close>

definition with_rejections ::
  "execution_config list \<Rightarrow> (nat, failure_category) dict \<Rightarrow> (execution_config \<times> failure_category option) list" where
  "with_rejections candidates rejections =
     map (\<lambda>i. (candidates ! i, dict_get rejections i)) [0..<length candidates]"

definition ordered_refusal ::
  "gateway_env \<Rightarrow> failure_category \<Rightarrow> capability_requirements option \<Rightarrow> string \<Rightarrow> execution_config list
     \<Rightarrow> (nat, failure_category) dict \<Rightarrow> string list \<Rightarrow> candidate_universe \<Rightarrow> gateway_error" where
  "ordered_refusal env category reqs mode candidates rejections path universe =
     Unavailable category
       (build_ordered_routing_decision (ge_decided_at env) reqs mode (with_rejections candidates rejections)
          None None path (Some universe))"

fun failure_by_universe_exclusion :: "exclusion_reason \<Rightarrow> failure_category option" where
  "failure_by_universe_exclusion NOT_CATALOGUED = Some MODEL_NOT_CATALOGUED"
| "failure_by_universe_exclusion LIFECYCLE_INELIGIBLE = Some MODEL_LIFECYCLE_INELIGIBLE"
| "failure_by_universe_exclusion POLICY_EXCLUDED = Some INVALID_LIVE_CONFIGURATION"
| "failure_by_universe_exclusion CONNECTION_MATERIAL_MISSING = None"

definition empty_universe_refusal ::
  "gateway_env \<Rightarrow> capability_requirements option \<Rightarrow> string \<Rightarrow> candidate_universe \<Rightarrow> gateway_error" where
  "empty_universe_refusal env reqs mode universe =
     (let refusal = (\<lambda>category. Unavailable category
            (build_ordered_routing_decision (ge_decided_at env) reqs mode [] None None [] (Some universe)))
      in case List.find (\<lambda>r. r \<noteq> POLICY_EXCLUDED) (map snd (cu_exclusions universe)) of
           None \<Rightarrow> refusal INVALID_LIVE_CONFIGURATION
         | Some r \<Rightarrow> (case failure_by_universe_exclusion r of
                        Some category \<Rightarrow> refusal category
                      | None \<Rightarrow> Raised (KeyError ''CONNECTION_MATERIAL_MISSING'')))"

section \<open>One candidate\<close>

definition breaker_key :: "(payload \<Rightarrow> string) \<Rightarrow> execution_config \<Rightarrow> string" where
  "breaker_key sha c = degradation_key_for sha c None"

definition breaker_preflight ::
  "(payload \<Rightarrow> string) \<Rightarrow> gateway_env \<Rightarrow> nat \<Rightarrow> execution_config \<Rightarrow> 'a gateway_world_scheme
     \<Rightarrow> unit result \<times> 'a gateway_world_scheme" where
  "breaker_preflight sha env i c w =
     enforce_provider_degradation_preflight (ge_stamp env) (xc_enforcement c) (breaker_key sha c)
       (ca_preflight_at (ge_candidate env i)) (ca_reopen_at (ge_candidate env i)) w"

definition bind_and_qualify ::
  "(payload \<Rightarrow> string) \<Rightarrow> gateway_env \<Rightarrow> nat \<Rightarrow> execution_config \<Rightarrow> gateway_request \<Rightarrow> 'a gateway_world_scheme
     \<Rightarrow> catalogue_entry result \<times> 'a gateway_world_scheme" where
  "bind_and_qualify sha env i c q w =
     (case bind_live_text_model_catalogue_entry sha c (ge_inventory env) (ca_bind_at (ge_candidate env i)) w of
        (Inl e, w1) \<Rightarrow> (Inl e, w1)
      | (Inr entry, w1) \<Rightarrow>
        (case enforce_capability_requirements (ge_contract_exists env) w1 (gr_requirements q) entry
                (gr_output_contract_key q) of
           Inl e \<Rightarrow> (Inl e, w1)
         | Inr _ \<Rightarrow> (Inr entry, w1)))"

definition admit_candidate ::
  "(payload \<Rightarrow> string) \<Rightarrow> gateway_env \<Rightarrow> nat \<Rightarrow> execution_config \<Rightarrow> gateway_request \<Rightarrow> 'a gateway_world_scheme
     \<Rightarrow> catalogue_entry result \<times> 'a gateway_world_scheme" where
  "admit_candidate sha env i c q w =
     (case require_budget_remaining (ca_deadline_clock (ge_candidate env i)) q of
        Inl e \<Rightarrow> (Inl e, w)
      | Inr _ \<Rightarrow>
        (case breaker_preflight sha env i c w of
           (Inl e, w1) \<Rightarrow> (Inl e, w1)
         | (Inr _, w1) \<Rightarrow> bind_and_qualify sha env i c q w1))"

definition stamp_entry :: "catalogue_entry \<Rightarrow> provider_response \<Rightarrow> provider_response" where
  "stamp_entry entry r =
     r\<lparr>pr_catalogue_entry_id := Some (me_entry_id entry), pr_revision_pinned := Some (me_revision_pinned entry),
       pr_model_version := (if pr_model_version r = None then Some (me_model_revision entry) else pr_model_version r)\<rparr>"

datatype attempt_result =
    Rejected failure_category
  | AttemptFailed failure_category
  | ServedReply catalogue_entry provider_response
  | Broken error

type_synonym ('q, 'w) run_adapter = "enforcement_thresholds \<Rightarrow> execution_config \<Rightarrow> 'q \<Rightarrow> adapter_env \<Rightarrow> 'w \<Rightarrow> provider_response result \<times> 'w"

text \<open>
  The adapter call of an admitted candidate and what is recorded about it. \<open>keyc\<close> is the configuration in
  force, \<open>c\<close> the one handed to the adapter: the fixed path may execute under declared connection material.
\<close>

definition run_candidate ::
  "(payload \<Rightarrow> string) \<Rightarrow> gateway_env \<Rightarrow> nat \<Rightarrow> (gateway_request, 'a gateway_world_scheme) run_adapter
     \<Rightarrow> execution_config \<Rightarrow> execution_config \<Rightarrow> gateway_request \<Rightarrow> catalogue_entry \<Rightarrow> 'a gateway_world_scheme
     \<Rightarrow> attempt_result \<times> 'a gateway_world_scheme" where
  "run_candidate sha env i run keyc c q entry w =
     (let x = ge_candidate env i in
      case run (xc_enforcement keyc) c (request_for_attempt (ca_attempt_clock x) q) (ca_adapter x) w of
        (Inl (ProviderExecutionError k), w1) \<Rightarrow>
          (AttemptFailed k, record_provider_failure (ge_stamp env) (xc_enforcement keyc) (breaker_key sha keyc) k
             (ca_failure_at x) (ca_posture_at x) (ca_open_at x) w1)
      | (Inl e, w1) \<Rightarrow> (Broken e, w1)
      | (Inr r, w1) \<Rightarrow>
          (ServedReply entry (stamp_entry entry r),
           record_successful_provider_execution (ge_stamp env) (breaker_key sha keyc) (ca_success_at x)
             (record_model_revision_drift entry (pr_model_id r) (ca_drift_at x) w1)))"

definition try_candidate ::
  "(payload \<Rightarrow> string) \<Rightarrow> gateway_env \<Rightarrow> nat \<Rightarrow> (gateway_request, 'a gateway_world_scheme) run_adapter
     \<Rightarrow> execution_config \<Rightarrow> gateway_request \<Rightarrow> 'a gateway_world_scheme \<Rightarrow> attempt_result \<times> 'a gateway_world_scheme" where
  "try_candidate sha env i run c q w =
     (case admit_candidate sha env i c q w of
        (Inl (ProviderExecutionError k), w1) \<Rightarrow> (Rejected k, w1)
      | (Inl e, w1) \<Rightarrow> (Broken e, w1)
      | (Inr entry, w1) \<Rightarrow> run_candidate sha env i run c c q entry w1)"

section \<open>The ordered path\<close>

definition live_text_mode :: "execution_mode \<Rightarrow> bool" where
  "live_text_mode m \<longleftrightarrow> m \<in> {OPENAI_MODE, LOCAL_OPENAI_COMPATIBLE_MODE}"

definition fallback_trigger_categories :: "failure_category list" where
  "fallback_trigger_categories =
     [PROVIDER_TIMEOUT, PROVIDER_RATE_LIMITED, PROVIDER_UPSTREAM_ERROR, REQUEST_COST_EXHAUSTED]"

definition authorize_live :: "gateway_env \<Rightarrow> gateway_request \<Rightarrow> authorization_decision result" where
  "authorize_live env q =
     require_authorized (authorize_request (ge_policies env) (ge_caller env) (er_caller_app q)
       LIVE_PROVIDER_EXECUTION (er_tenant_id q) (Some (er_task_id q)) None)"

definition switches_permit ::
  "gateway_env \<Rightarrow> nat \<Rightarrow> execution_config \<Rightarrow> gateway_request \<Rightarrow> 'a gateway_world_scheme \<Rightarrow> unit result" where
  "switches_permit env i c q w =
     enforce_kill_switches c (ge_drain_permitted env) (execution_request.truncate q) (ge_kill_at env i) w"

fun candidate_configs ::
  "(payload \<Rightarrow> string) \<Rightarrow> gateway_env \<Rightarrow> execution_config \<Rightarrow> string list \<Rightarrow> execution_config list result" where
  "candidate_configs sha env c [] = Inr []"
| "candidate_configs sha env c (k # ks) =
     (case derive_candidate_execution_config sha (ge_connections env) (ge_environ env) c k of
        Inl e \<Rightarrow> Inl e
      | Inr found \<Rightarrow>
        (case candidate_configs sha env c ks of
           Inl e \<Rightarrow> Inl e
         | Inr rest \<Rightarrow> Inr (case found of None \<Rightarrow> rest | Some d \<Rightarrow> d # rest)))"

text \<open>The kill-switch screen: the eligible indices in order, and the rejections in order.\<close>

fun kill_screen ::
  "gateway_env \<Rightarrow> gateway_request \<Rightarrow> 'a gateway_world_scheme \<Rightarrow> nat \<Rightarrow> execution_config list
     \<Rightarrow> (nat list \<times> (nat, failure_category) dict) result" where
  "kill_screen env q w i [] = Inr ([], [])"
| "kill_screen env q w i (c # cs) =
     (case switches_permit env i c q w of
        Inl (ProviderExecutionError k) \<Rightarrow>
          (case kill_screen env q w (Suc i) cs of
             Inl e \<Rightarrow> Inl e | Inr (eligible, rejections) \<Rightarrow> Inr (eligible, (i, k) # rejections))
      | Inl e \<Rightarrow> Inl e
      | Inr _ \<Rightarrow>
          (case kill_screen env q w (Suc i) cs of
             Inl e \<Rightarrow> Inl e | Inr (eligible, rejections) \<Rightarrow> Inr (i # eligible, rejections)))"

text \<open>The request-scoped economics, enforced once.\<close>

definition enforce_economics ::
  "gateway_env \<Rightarrow> execution_config \<Rightarrow> gateway_request \<Rightarrow> 'a gateway_world_scheme \<Rightarrow> unit result \<times> 'a gateway_world_scheme" where
  "enforce_economics env c q w =
     (case enforce_provider_quota (xc_enforcement c) (execution_request.truncate q) (ge_quota_at env) w of
        (Inl e, w1) \<Rightarrow> (Inl e, w1)
      | (Inr _, w1) \<Rightarrow> enforce_provider_budget (xc_enforcement c) (ge_budget_at env) (ge_budget_now env) w1)"

datatype loop_result = LoopServed nat catalogue_entry provider_response | LoopRefused | LoopBroken error

record loop_trace =
  lt_rejections :: "(nat, failure_category) dict"
  lt_errors :: "failure_category list"
  lt_fallback_path :: "string list"

definition note_rejection :: "nat \<Rightarrow> failure_category \<Rightarrow> loop_trace \<Rightarrow> loop_trace" where
  "note_rejection i k t = t\<lparr>lt_rejections := dict_put i k (lt_rejections t), lt_errors := lt_errors t @ [k]\<rparr>"

definition note_failure :: "nat \<Rightarrow> execution_config \<Rightarrow> failure_category \<Rightarrow> loop_trace \<Rightarrow> loop_trace" where
  "note_failure i c k t =
     (note_rejection i k t)\<lparr>lt_fallback_path :=
        lt_fallback_path t @ (if truthy (xc_provider_id c) then [the (xc_provider_id c)] else [])\<rparr>"

fun candidate_loop ::
  "(payload \<Rightarrow> string) \<Rightarrow> gateway_env \<Rightarrow> (gateway_request, 'a gateway_world_scheme) run_adapter \<Rightarrow> gateway_request
     \<Rightarrow> execution_config list \<Rightarrow> nat list \<Rightarrow> loop_trace \<Rightarrow> 'a gateway_world_scheme
     \<Rightarrow> loop_result \<times> loop_trace \<times> 'a gateway_world_scheme" where
  "candidate_loop sha env run q candidates [] t w = (LoopRefused, t, w)"
| "candidate_loop sha env run q candidates (i # is) t w =
     (case try_candidate sha env i run (candidates ! i) q w of
        (Rejected k, w1) \<Rightarrow> candidate_loop sha env run q candidates is (note_rejection i k t) w1
      | (AttemptFailed k, w1) \<Rightarrow>
          if k \<in> set fallback_trigger_categories
          then candidate_loop sha env run q candidates is (note_failure i (candidates ! i) k t) w1
          else (LoopRefused, note_failure i (candidates ! i) k t, w1)
      | (ServedReply entry r, w1) \<Rightarrow> (LoopServed i entry r, t, w1)
      | (Broken e, w1) \<Rightarrow> (LoopBroken e, t, w1))"

definition conclude_ordered ::
  "gateway_env \<Rightarrow> string \<Rightarrow> execution_config \<Rightarrow> gateway_request \<Rightarrow> execution_config list \<Rightarrow> candidate_universe
     \<Rightarrow> loop_result \<Rightarrow> loop_trace \<Rightarrow> gateway_error + provider_response" where
  "conclude_ordered env mode c q candidates universe result t =
     (case result of
        LoopServed i entry r \<Rightarrow>
          Inr (r\<lparr>pr_routing_decision := Some (build_ordered_routing_decision (ge_decided_at env) (gr_requirements q) mode
            (with_rejections candidates (lt_rejections t))
            (Some (candidates ! i, i = 0 \<or> candidates ! i = c \<and> candidates ! 0 = c)) (Some entry)
            (lt_fallback_path t) (Some universe))\<rparr>)
      | LoopRefused \<Rightarrow> Inl (ordered_refusal env (last (lt_errors t)) (gr_requirements q) mode candidates
            (lt_rejections t) (lt_fallback_path t) universe)
      | LoopBroken e \<Rightarrow> Inl (Raised e))"

definition execute_ordered_fallback ::
  "(payload \<Rightarrow> string) \<Rightarrow> gateway_env \<Rightarrow> (gateway_request, 'a gateway_world_scheme) run_adapter \<Rightarrow> string \<Rightarrow> execution_config
     \<Rightarrow> gateway_request \<Rightarrow> 'a gateway_world_scheme \<Rightarrow> (gateway_error + provider_response) \<times> 'a gateway_world_scheme" where
  "execute_ordered_fallback sha env run mode c q w =
     (case authorize_live env q of
        Inl e \<Rightarrow> (Inl (Raised e), w)
      | Inr _ \<Rightarrow>
        if fallback_configuration_findings c \<noteq> [] \<or> connection_material_findings sha (ge_connections env) \<noteq> []
           \<or> derive_fallback_execution_config c = None
        then (Inl (Unavailable INVALID_LIVE_CONFIGURATION
                (build_ordered_routing_decision (ge_decided_at env) (gr_requirements q) mode
                   [(c, Some INVALID_LIVE_CONFIGURATION)] None None [] None)), w)
        else
        (case derive_candidate_universe sha (ge_connections env) c (ge_inventory env) (ge_universe_at env) w of
           (Inl e, w1) \<Rightarrow> (Inl (Raised e), w1)
         | (Inr universe, w1) \<Rightarrow>
           (case candidate_configs sha env c (cu_candidates universe) of
              Inl e \<Rightarrow> (Inl (Raised e), w1)
            | Inr candidates \<Rightarrow>
              if candidates = [] then (Inl (empty_universe_refusal env (gr_requirements q) mode universe), w1)
              else
              (case kill_screen env q w1 0 candidates of
                 Inl e \<Rightarrow> (Inl (Raised e), w1)
               | Inr (eligible, rejections) \<Rightarrow>
                 if eligible = []
                 then (Inl (ordered_refusal env (snd (last rejections)) (gr_requirements q) mode candidates
                         rejections [] universe), w1)
                 else
                 (case enforce_economics env c q w1 of
                    (Inl (ProviderExecutionError k), w2) \<Rightarrow>
                      (Inl (ordered_refusal env k (gr_requirements q) mode candidates
                         (fold (\<lambda>i. dict_put i k) eligible rejections) [] universe), w2)
                  | (Inl e, w2) \<Rightarrow> (Inl (Raised e), w2)
                  | (Inr _, w2) \<Rightarrow>
                    (case candidate_loop sha env run q candidates eligible
                            \<lparr>lt_rejections = rejections, lt_errors = [], lt_fallback_path = []\<rparr> w2 of
                       (result, t, w3) \<Rightarrow> (conclude_ordered env mode c q candidates universe result t, w3)))))))"

section \<open>The fixed path\<close>

definition admit_fixed ::
  "(payload \<Rightarrow> string) \<Rightarrow> gateway_env \<Rightarrow> execution_config \<Rightarrow> gateway_request \<Rightarrow> 'a gateway_world_scheme
     \<Rightarrow> catalogue_entry result \<times> 'a gateway_world_scheme" where
  "admit_fixed sha env c q w =
     (case switches_permit env 0 c q w of
        Inl e \<Rightarrow> (Inl e, w)
      | Inr _ \<Rightarrow>
        (case enforce_economics env c q w of
           (Inl e, w1) \<Rightarrow> (Inl e, w1)
         | (Inr _, w1) \<Rightarrow>
           (case breaker_preflight sha env 0 c w1 of
              (Inl e, w2) \<Rightarrow> (Inl e, w2)
            | (Inr _, w2) \<Rightarrow>
              (case bind_and_qualify sha env 0 c q w2 of
                 (Inl e, w3) \<Rightarrow> (Inl e, w3)
               | (Inr entry, w3) \<Rightarrow>
                 (case require_budget_remaining (ca_deadline_clock (ge_candidate env 0)) q of
                    Inl e \<Rightarrow> (Inl e, w3) | Inr _ \<Rightarrow> (Inr entry, w3))))))"

definition fixed_execution_config ::
  "(payload \<Rightarrow> string) \<Rightarrow> gateway_env \<Rightarrow> execution_config \<Rightarrow> execution_config result" where
  "fixed_execution_config sha env c =
     (case config_candidate_identity sha c of
        None \<Rightarrow> Inr c
      | Some k \<Rightarrow>
        (case derive_candidate_execution_config sha (ge_connections env) (ge_environ env) c k of
           Inl e \<Rightarrow> Inl e | Inr None \<Rightarrow> Inr c | Inr (Some d) \<Rightarrow> Inr d))"

definition execute_fixed_live ::
  "(payload \<Rightarrow> string) \<Rightarrow> gateway_env \<Rightarrow> (gateway_request, 'a gateway_world_scheme) run_adapter \<Rightarrow> string \<Rightarrow> execution_config
     \<Rightarrow> gateway_request \<Rightarrow> 'a gateway_world_scheme \<Rightarrow> (gateway_error + provider_response) \<times> 'a gateway_world_scheme" where
  "execute_fixed_live sha env run mode c q w =
     (let reject = (\<lambda>k. Unavailable k (build_rejected_routing_decision (ge_decided_at env) (gr_requirements q) mode k c))
      in case authorize_live env q of
        Inl e \<Rightarrow> (Inl (Raised e), w)
      | Inr _ \<Rightarrow>
        if connection_material_findings sha (ge_connections env) \<noteq> []
        then (Inl (reject INVALID_LIVE_CONFIGURATION), w)
        else
        (case fixed_execution_config sha env c of
           Inl e \<Rightarrow> (Inl (Raised e), w)
         | Inr d \<Rightarrow>
           (case admit_fixed sha env c q w of
              (Inl (ProviderExecutionError k), w1) \<Rightarrow> (Inl (reject k), w1)
            | (Inl e, w1) \<Rightarrow> (Inl (Raised e), w1)
            | (Inr entry, w1) \<Rightarrow>
              (case run_candidate sha env 0 run c d q entry w1 of
                 (ServedReply _ r, w2) \<Rightarrow>
                   (Inr (r\<lparr>pr_routing_decision := Some (build_fixed_routing_decision (ge_decided_at env)
                      (gr_requirements q) mode (pr_provider_id r) (Some entry))\<rparr>), w2)
               | (AttemptFailed k, w2) \<Rightarrow>
                   (Inl (Unavailable k (build_fixed_routing_decision (ge_decided_at env) (gr_requirements q) mode
                      (the (or_else (xc_provider_id c) (Some ''provider.unavailable''))) (Some entry))), w2)
               | (Rejected k, w2) \<Rightarrow> (Inl (reject k), w2)
               | (Broken e, w2) \<Rightarrow> (Inl (Raised e), w2)))))"

definition execute_stub ::
  "gateway_env \<Rightarrow> (gateway_request \<Rightarrow> provider_response result) \<Rightarrow> string \<Rightarrow> gateway_request
     \<Rightarrow> gateway_error + provider_response" where
  "execute_stub env stub mode q =
     (case stub (request_for_attempt (ca_attempt_clock (ge_candidate env 0)) q) of
        Inl (ProviderExecutionError k) \<Rightarrow> Inl (Raised (HTTPException 503 ''provider_execution_error''))
      | Inl e \<Rightarrow> Inl (Raised e)
      | Inr r \<Rightarrow> Inr (r\<lparr>pr_routing_decision := Some (build_fixed_routing_decision (ge_decided_at env) None mode
            (pr_provider_id r) None)\<rparr>))"

section \<open>The gateway\<close>

definition execute_text_generation ::
  "(payload \<Rightarrow> string) \<Rightarrow> (string \<Rightarrow> string) \<Rightarrow> (gateway_request \<Rightarrow> provider_response result) \<Rightarrow> gateway_env
     \<Rightarrow> execution_config \<Rightarrow> gateway_request \<Rightarrow> 'a gateway_world_scheme
     \<Rightarrow> (gateway_error + provider_response) \<times> 'a gateway_world_scheme" where
  "execute_text_generation sha shape stub env c q0 w =
     (let q = prepare_request env q0 in
      case require_supported_text_generation_mode c of
        Inl e \<Rightarrow> (Inl (Raised e), w)
      | Inr mode \<Rightarrow>
        (case build_provider_live_execution_state (ge_probe env) c (Some (er_task_id q)) w of
           (Inl e, w1) \<Rightarrow> (Inl (Raised e), w1)
         | (Inr state, w1) \<Rightarrow>
           if live_text_mode mode \<and> \<not> ls_live_execution_enabled state
           then (Inl (Raised (HTTPException 503 ''LIVE_EXECUTION_NOT_ENABLED'')), w1)
           else
           (case resolve_text_generation_adapter mode of
              Inl e \<Rightarrow> (Inl (Raised e), w1)
            | Inr a \<Rightarrow>
              if \<not> live_text_mode mode then (execute_stub env stub (mode_value mode) q, w1)
              else if xc_routing_strategy c = ''ordered_fallback''
              then execute_ordered_fallback sha env (adapter_execute sha shape stub a) (mode_value mode) c q w1
              else execute_fixed_live sha env (adapter_execute sha shape stub a) (mode_value mode) c q w1)))"

section \<open>Frames\<close>

lemma world_of: "x = (r, w') \<Longrightarrow> w' = snd x"
  by simp

text \<open>Only the quota check moves quota counters: every other step of an execution leaves them as they are.\<close>

lemma quota_states_upsert [simp]: "quota_states (snd (upsert_model_catalogue_entry sha e w)) = quota_states w"
  by (auto simp: upsert_model_catalogue_entry_def upsert_entry_def split: sum.splits)

lemma quota_states_seed: "quota_states (snd (seed_entries sha es rep w)) = quota_states w"
proof (induction es arbitrary: rep w)
  case (Cons e es)
  show ?case using Cons.IH
    by (auto simp: Let_def split: option.splits prod.splits sum.splits dest!: world_of)
qed simp

lemma quota_states_seeded [simp]: "quota_states (snd (ensure_model_catalogue_seeded sha c inv0 now w)) = quota_states w"
  by (simp add: ensure_model_catalogue_seeded_def quota_states_seed)

lemma quota_states_universe [simp]: "quota_states (snd (derive_candidate_universe sha raw c inv0 now w)) = quota_states w"
  by (auto simp: derive_candidate_universe_def Let_def split: prod.splits sum.splits dest!: world_of)

lemma quota_states_bind [simp]:
  "quota_states (snd (bind_live_text_model_catalogue_entry sha c inv0 now w)) = quota_states w"
  by (auto simp: bind_live_text_model_catalogue_entry_def Let_def split: prod.splits sum.splits option.splits
      dest!: world_of)

lemma quota_states_drift [simp]: "quota_states (record_model_revision_drift e obs now w) = quota_states w"
  by (simp add: record_model_revision_drift_def upsert_drift_observation_def Let_def split: option.splits)

lemma quota_states_breaker [simp]:
  "quota_states (record_successful_provider_execution stamp k now s) = quota_states s"
  "quota_states (open_circuit stamp e k now s) = quota_states s"
  "quota_states (record_provider_failure stamp e k cat now now2 now3 s) = quota_states s"
  by (simp_all add: record_successful_provider_execution_def open_circuit_def record_provider_failure_def
      reclaim_elapsed_cooldown_def record_degradation_failure_def save_degradation_state_def Let_def split: option.splits)

lemma quota_states_preflight [simp]: "quota_states (snd (breaker_preflight sha env i c w)) = quota_states w"
  by (simp add: breaker_preflight_def enforce_provider_degradation_preflight_def Let_def)

lemma quota_states_budget [simp]: "quota_states (snd (enforce_provider_budget e t now w)) = quota_states w"
  by (auto simp: enforce_provider_budget_def parse_provider_budget_policy_def Let_def split: prod.splits sum.splits)

lemma quota_states_qualify [simp]: "quota_states (snd (bind_and_qualify sha env i c q w)) = quota_states w"
  by (auto simp: bind_and_qualify_def split: prod.splits sum.splits dest!: world_of)

lemma quota_states_admit [simp]: "quota_states (snd (admit_candidate sha env i c q w)) = quota_states w"
  by (auto simp: admit_candidate_def split: prod.splits sum.splits dest!: world_of)

lemma quota_states_probe [simp]:
  "quota_states (snd (build_provider_live_execution_state x c task w)) = quota_states w"
  by (auto simp: build_provider_live_execution_state_def build_local_openai_compatible_endpoint_status_def Let_def
      split: prod.splits sum.splits option.splits if_splits)

text \<open>
  What the gateway relies on in an adapter: it moves money and nothing else. The laws of a live adapter are
  proved once against this contract and hold for whichever provider the mode selects.
\<close>

locale books_only_adapter =
  fixes run :: "(gateway_request, 'a gateway_world_scheme) run_adapter"
  assumes run_books: "off_the_books (snd (run e c q x w)) = off_the_books w"
begin

lemma run_frame: "quota_states (snd (run e c q x w)) = quota_states w"
  using arg_cong [OF run_books [of e c q x w], of quota_states] by (simp add: off_the_books_def)

lemma run_candidate_frame: "quota_states (snd (run_candidate sha env i run keyc c q entry w)) = quota_states w"
  using run_frame
  by (auto simp: run_candidate_def Let_def split: prod.splits sum.splits error.splits dest!: world_of)

lemma try_candidate_frame: "quota_states (snd (try_candidate sha env i run c q w)) = quota_states w"
  using run_candidate_frame
  by (auto simp: try_candidate_def split: prod.splits sum.splits error.splits dest!: world_of)

lemma candidate_loop_frame:
  "quota_states (snd (snd (candidate_loop sha env run q candidates is t w))) = quota_states w"
proof (induction "is" arbitrary: t w)
  case (Cons i "is")
  show ?case using Cons.IH try_candidate_frame
    by (auto split: prod.splits attempt_result.splits dest!: world_of)
qed simp

end

interpretation live_adapter: books_only_adapter "adapter_execute sha shape stub a"
  by unfold_locales (rule off_the_books_adapter)

section \<open>The candidate loop\<close>

text \<open>The gates of one candidate, passed in the world \<open>w\<close> and leaving the world \<open>w2\<close>.\<close>

definition gates_open ::
  "(payload \<Rightarrow> string) \<Rightarrow> gateway_env \<Rightarrow> nat \<Rightarrow> execution_config \<Rightarrow> gateway_request \<Rightarrow> catalogue_entry
     \<Rightarrow> 'a gateway_world_scheme \<Rightarrow> 'a gateway_world_scheme \<Rightarrow> bool" where
  "gates_open sha env i d q entry w w2 \<longleftrightarrow>
     require_budget_remaining (ca_deadline_clock (ge_candidate env i)) q = Inr ()
   \<and> (\<exists>w1. breaker_preflight sha env i d w = (Inr (), w1)
        \<and> bind_live_text_model_catalogue_entry sha d (ge_inventory env) (ca_bind_at (ge_candidate env i)) w1 = (Inr entry, w2)
        \<and> enforce_capability_requirements (ge_contract_exists env) w2 (gr_requirements q) entry (gr_output_contract_key q)
            = Inr ())"

text \<open>
  The answer \<open>r\<close> and the final world \<open>w'\<close> come from the one adapter call that the gates, passed in the world
  \<open>w\<close>, let through; \<open>d\<close> is the configuration the gates judged, \<open>x\<close> the one handed to the adapter.
\<close>

definition answered_by ::
  "(payload \<Rightarrow> string) \<Rightarrow> gateway_env \<Rightarrow> nat \<Rightarrow> (gateway_request, 'a gateway_world_scheme) run_adapter \<Rightarrow> execution_config \<Rightarrow> execution_config
     \<Rightarrow> gateway_request \<Rightarrow> catalogue_entry \<Rightarrow> 'a gateway_world_scheme \<Rightarrow> provider_response \<Rightarrow> 'a gateway_world_scheme \<Rightarrow> bool" where
  "answered_by sha env i run d x q entry w r w' \<longleftrightarrow>
     (\<exists>w2 r0 w3. gates_open sha env i d q entry w w2
        \<and> run (xc_enforcement d) x (request_for_attempt (ca_attempt_clock (ge_candidate env i)) q) (ca_adapter (ge_candidate env i)) w2 = (Inr r0, w3)
        \<and> r = stamp_entry entry r0
        \<and> w' = record_successful_provider_execution (ge_stamp env) (breaker_key sha d) (ca_success_at (ge_candidate env i))
                 (record_model_revision_drift entry (pr_model_id r0) (ca_drift_at (ge_candidate env i)) w3))"

text \<open>The world after the candidates ahead of the serving one were tried, in order.\<close>

definition after_candidates ::
  "(payload \<Rightarrow> string) \<Rightarrow> gateway_env \<Rightarrow> (gateway_request, 'a gateway_world_scheme) run_adapter \<Rightarrow> gateway_request \<Rightarrow> execution_config list
     \<Rightarrow> nat list \<Rightarrow> 'a gateway_world_scheme \<Rightarrow> 'a gateway_world_scheme" where
  "after_candidates sha env run q candidates js w = fold (\<lambda>j v. snd (try_candidate sha env j run (candidates ! j) q v)) js w"

lemma bind_and_qualify_Inr:
  "bind_and_qualify sha env i d q w = (Inr entry, w2) \<longleftrightarrow>
     bind_live_text_model_catalogue_entry sha d (ge_inventory env) (ca_bind_at (ge_candidate env i)) w = (Inr entry, w2)
   \<and> enforce_capability_requirements (ge_contract_exists env) w2 (gr_requirements q) entry (gr_output_contract_key q) = Inr ()"
  by (auto simp: bind_and_qualify_def split: prod.splits sum.splits)

lemma admit_candidate_gates: "admit_candidate sha env i d q w = (Inr entry, w') \<Longrightarrow> gates_open sha env i d q entry w w'"
  by (auto simp: admit_candidate_def gates_open_def bind_and_qualify_Inr split: sum.splits prod.splits)

text \<open>The catalogue binding names a candidate by provider and model.\<close>

lemma bind_names_provider:
  "bind_live_text_model_catalogue_entry sha d inv0 now w = (Inr entry, w') \<Longrightarrow> truthy (xc_provider_id d)"
  by (auto simp: bind_live_text_model_catalogue_entry_def Let_def
      split: prod.split_asm sum.split_asm option.split_asm if_split_asm)

lemma run_candidate_served:
  assumes "run_candidate sha env i run keyc c q entry w2 = (ServedReply entry' r, w')" and "gates_open sha env i keyc q entry w w2"
  shows "entry' = entry \<and> answered_by sha env i run keyc c q entry w r w'"
  using assms by (auto simp: run_candidate_def answered_by_def Let_def split: prod.splits sum.splits error.splits)

lemma answered_by_entry: "answered_by sha env i run d x q entry w r w' \<Longrightarrow> pr_catalogue_entry_id r = Some (me_entry_id entry)"
  by (auto simp: answered_by_def stamp_entry_def)

lemma answered_by_provider: "answered_by sha env i run d x q entry w r w' \<Longrightarrow> truthy (xc_provider_id d)"
  by (auto simp: answered_by_def gates_open_def dest: bind_names_provider)

lemma try_candidate_served:
  assumes "try_candidate sha env i run c q w = (ServedReply entry r, w')"
  shows "answered_by sha env i run c c q entry w r w'"
proof -
  obtain e w2 where adm: "admit_candidate sha env i c q w = (Inr e, w2)" and run: "run_candidate sha env i run c c q e w2 = (ServedReply entry r, w')"
    using assms by (auto simp: try_candidate_def split: prod.splits sum.splits error.splits)
  show ?thesis using run_candidate_served [OF run admit_candidate_gates [OF adm]] by simp
qed

lemma note_simps [simp]:
  "dict_get (lt_rejections (note_rejection i k t)) j = (if j = i then Some k else dict_get (lt_rejections t) j)"
  "dict_get (lt_rejections (note_failure i c k t)) j = (if j = i then Some k else dict_get (lt_rejections t) j)"
  "lt_errors (note_rejection i k t) = lt_errors t @ [k]"
  "lt_errors (note_failure i c k t) = lt_errors t @ [k]"
  by (simp_all add: note_rejection_def note_failure_def)

text \<open>The indices the loop has not reached keep their verdict.\<close>

lemma candidate_loop_other:
  "candidate_loop sha env run q candidates is t w = (res, t', w') \<Longrightarrow> j \<notin> set is
     \<Longrightarrow> dict_get (lt_rejections t') j = dict_get (lt_rejections t) j"
proof (induction "is" arbitrary: t w)
  case (Cons i "is")
  then show ?case by (auto split: prod.splits attempt_result.splits if_splits)
qed simp

lemma candidate_loop_served:
  assumes "candidate_loop sha env run q candidates is t w = (LoopServed i entry r, t', w')" and "distinct is"
  shows "\<exists>pre post. is = pre @ i # post
     \<and> answered_by sha env i run (candidates ! i) (candidates ! i) q entry (after_candidates sha env run q candidates pre w) r w'
     \<and> (\<forall>j \<in> set pre. dict_get (lt_rejections t') j \<noteq> None)
     \<and> (\<forall>j. j \<notin> set pre \<longrightarrow> dict_get (lt_rejections t') j = dict_get (lt_rejections t) j)"
  using assms
proof (induction "is" arbitrary: t w)
  case (Cons n ns)
  obtain out w1 where out: "try_candidate sha env n run (candidates ! n) q w = (out, w1)" by (meson prod.exhaust)
  have step: ?case if rest: "candidate_loop sha env run q candidates ns (f t) w1 = (LoopServed i entry r, t', w')"
    and f: "\<And>j. dict_get (lt_rejections (f t)) j = (if j = n then Some k else dict_get (lt_rejections t) j)" for f k
  proof -
    have "distinct ns" using Cons.prems(2) by simp
    from Cons.IH [OF rest this] obtain pre post where
      p: "ns = pre @ i # post" "answered_by sha env i run (candidates ! i) (candidates ! i) q entry (after_candidates sha env run q candidates pre w1) r w'"
        "\<forall>j \<in> set pre. dict_get (lt_rejections t') j \<noteq> None"
        "\<forall>j. j \<notin> set pre \<longrightarrow> dict_get (lt_rejections t') j = dict_get (lt_rejections (f t)) j"
      by blast
    have "n \<notin> set pre" using p(1) Cons.prems(2) by auto
    then have "dict_get (lt_rejections t') n = Some k" using p(4) f by simp
    moreover have "after_candidates sha env run q candidates (n # pre) w = after_candidates sha env run q candidates pre w1"
      using out by (simp add: after_candidates_def)
    ultimately show ?thesis using p f by (intro exI [of _ "n # pre"] exI [of _ post]) auto
  qed
  show ?case
  proof (cases out)
    case (Rejected k)
    then show ?thesis using Cons.prems(1) out by (intro step [of "note_rejection n k" k]) auto
  next
    case (AttemptFailed k)
    then show ?thesis using Cons.prems(1) out
      by (intro step [of "note_failure n (candidates ! n) k" k]) (auto split: if_splits)
  next
    case (ServedReply e' r')
    then show ?thesis using Cons.prems(1) out try_candidate_served [of sha env n run "candidates ! n" q w e' r' w1]
      by (intro exI [of _ "[]"] exI [of _ ns]) (auto simp: after_candidates_def)
  next
    case (Broken e)
    then show ?thesis using Cons.prems(1) out by simp
  qed
qed simp

lemma kill_screen_facts:
  assumes "kill_screen env q w n cs = Inr (eligible, rejections)"
  shows "sorted_wrt (<) eligible"
    and "set eligible \<union> fst ` set rejections = {n..<n + length cs}"
    and "set eligible \<inter> fst ` set rejections = {}"
    and "\<And>j. j \<in> set eligible \<Longrightarrow> switches_permit env j (cs ! (j - n)) q w = Inr ()"
proof -
  have "sorted_wrt (<) eligible \<and> set eligible \<union> fst ` set rejections = {n..<n + length cs}
     \<and> set eligible \<inter> fst ` set rejections = {}
     \<and> (\<forall>j \<in> set eligible. switches_permit env j (cs ! (j - n)) q w = Inr ())"
    using assms
  proof (induction cs arbitrary: n eligible rejections)
    case (Cons c cs)
    let ?s = "switches_permit env n c q w"
    from Cons.prems obtain el rej where rest: "kill_screen env q w (Suc n) cs = Inr (el, rej)"
      and here: "(?s = Inr () \<and> eligible = n # el \<and> rejections = rej)
        \<or> (\<exists>k. ?s = Inl (ProviderExecutionError k) \<and> eligible = el \<and> rejections = (n, k) # rej)"
      by (auto split: sum.splits error.splits prod.splits)
    note ih = Cons.IH [OF rest]
    have range: "set el \<union> fst ` set rej = {Suc n..<Suc n + length cs}" using ih by blast
    then have mem: "j \<in> set el \<Longrightarrow> Suc n \<le> j" "j \<in> fst ` set rej \<Longrightarrow> Suc n \<le> j" for j
      by (metis Un_iff atLeastLessThan_iff)+
    have cover: "insert n {Suc n..<Suc n + length cs} = {n..<n + length (c # cs)}" by auto
    have shift: "(c # cs) ! (j - n) = cs ! (j - Suc n)" if "j \<in> set el" for j
      using mem(1) [OF that] by (simp add: nth_Cons' Suc_diff_Suc)
    have sw: "switches_permit env j ((c # cs) ! (j - n)) q w = Inr ()" if "j \<in> set el" for j
      using ih shift [OF that] that by simp
    have n_new: "n \<notin> set el" "n \<notin> fst ` set rej" using mem by fastforce+
    from here show ?case
    proof (elim disjE exE conjE)
      assume h: "?s = Inr ()" "eligible = n # el" "rejections = rej"
      show ?thesis
        using ih range cover sw h mem(1) n_new by (auto simp: Suc_le_eq simp del: upt_Suc)
    next
      fix k assume h: "?s = Inl (ProviderExecutionError k)" "eligible = el" "rejections = (n, k) # rej"
      show ?thesis
        using ih range cover sw h n_new by auto
    qed
  qed simp
  then show "sorted_wrt (<) eligible" "set eligible \<union> fst ` set rejections = {n..<n + length cs}"
    "set eligible \<inter> fst ` set rejections = {}"
    "\<And>j. j \<in> set eligible \<Longrightarrow> switches_permit env j (cs ! (j - n)) q w = Inr ()" by blast+
qed

lemma sorted_prefix_below:
  "sorted_wrt (<) (pre @ i # post) \<Longrightarrow> j \<in> set (pre @ i # post) \<Longrightarrow> j < i \<Longrightarrow> j \<in> set pre" for i :: nat
  by (auto simp: sorted_wrt_append dest: order.strict_trans)

text \<open>What a served ordered execution went through.\<close>

lemma ordered_served:
  assumes "execute_ordered_fallback sha env run mode c q w = (Inr r, w')"
  obtains a universe w1 candidates eligible rejections w2 i entry r0 t where
    "authorize_live env q = Inr a"
    "connection_material_findings sha (ge_connections env) = []"
    "derive_candidate_universe sha (ge_connections env) c (ge_inventory env) (ge_universe_at env) w = (Inr universe, w1)"
    "candidate_configs sha env c (cu_candidates universe) = Inr candidates"
    "kill_screen env q w1 0 candidates = Inr (eligible, rejections)"
    "enforce_economics env c q w1 = (Inr (), w2)"
    "candidate_loop sha env run q candidates eligible
       \<lparr>lt_rejections = rejections, lt_errors = [], lt_fallback_path = []\<rparr> w2 = (LoopServed i entry r0, t, w')"
    "conclude_ordered env mode c q candidates universe (LoopServed i entry r0) t = Inr r"
proof -
  obtain a universe w1 candidates eligible rejections w2 res t where
    run: "authorize_live env q = Inr a" "connection_material_findings sha (ge_connections env) = []"
      "derive_candidate_universe sha (ge_connections env) c (ge_inventory env) (ge_universe_at env) w = (Inr universe, w1)"
      "candidate_configs sha env c (cu_candidates universe) = Inr candidates"
      "kill_screen env q w1 0 candidates = Inr (eligible, rejections)" "enforce_economics env c q w1 = (Inr (), w2)"
      "candidate_loop sha env run q candidates eligible
         \<lparr>lt_rejections = rejections, lt_errors = [], lt_fallback_path = []\<rparr> w2 = (res, t, w')"
    and done0: "conclude_ordered env mode c q candidates universe res t = Inr r"
    using assms
    by (auto simp: execute_ordered_fallback_def split: sum.splits prod.splits if_splits error.splits intro!: that)
  from done0 obtain i entry r0 where "res = LoopServed i entry r0"
    by (auto simp: conclude_ordered_def split: loop_result.splits)
  with run done0 show ?thesis by (intro that) simp_all
qed

lemma admit_fixed_gates:
  assumes "admit_fixed sha env c q w = (Inr entry, w')"
  obtains w1 where "switches_permit env 0 c q w = Inr ()" and "enforce_economics env c q w = (Inr (), w1)" and "gates_open sha env 0 c q entry w1 w'"
  using assms by (auto simp: admit_fixed_def gates_open_def bind_and_qualify_Inr split: sum.splits prod.splits intro!: that)

lemma fixed_served:
  assumes "execute_fixed_live sha env run mode c q w = (Inr r, w')"
  obtains a d w1 entry r0 where "authorize_live env q = Inr a" and "connection_material_findings sha (ge_connections env) = []"
    and "fixed_execution_config sha env c = Inr d" and "switches_permit env 0 c q w = Inr ()" and "enforce_economics env c q w = (Inr (), w1)"
    and "answered_by sha env 0 run c d q entry w1 r0 w'"
    and "r = r0\<lparr>pr_routing_decision := Some (build_fixed_routing_decision (ge_decided_at env) (gr_requirements q) mode (pr_provider_id r0) (Some entry))\<rparr>"
proof -
  obtain a d entry w1 r0 e' where run: "authorize_live env q = Inr a" "connection_material_findings sha (ge_connections env) = []"
      "fixed_execution_config sha env c = Inr d" "admit_fixed sha env c q w = (Inr entry, w1)"
      "run_candidate sha env 0 run c d q entry w1 = (ServedReply e' r0, w')"
    and r: "r = r0\<lparr>pr_routing_decision := Some (build_fixed_routing_decision (ge_decided_at env) (gr_requirements q) mode (pr_provider_id r0) (Some entry))\<rparr>"
    using assms by (auto simp: execute_fixed_live_def Let_def split: sum.splits prod.splits if_splits error.splits attempt_result.splits)
  obtain w2 where g: "switches_permit env 0 c q w = Inr ()" "enforce_economics env c q w = (Inr (), w2)" "gates_open sha env 0 c q entry w2 w1"
    by (rule admit_fixed_gates [OF run(4)])
  show ?thesis using that run(1-3) g(1,2) run_candidate_served [OF run(5) g(3)] r by blast
qed

text \<open>The probe writes its cache and the enumeration seeds the catalogue; neither writes anything else.\<close>

definition off_catalogue :: "'a gateway_world_scheme \<Rightarrow> 'a gateway_world_scheme" where
  "off_catalogue w = w\<lparr>cw_entries := [], gw_probe_cache := None\<rparr>"

lemma off_catalogue_frame:
  "off_catalogue (snd (build_provider_live_execution_state x c task w)) = off_catalogue w"
  "off_catalogue (snd (derive_candidate_universe sha raw c inv0 now u)) = off_catalogue u"
proof -
  have up: "off_catalogue (snd (upsert_model_catalogue_entry sha e v)) = off_catalogue v" for e v
    by (auto simp: upsert_model_catalogue_entry_def upsert_entry_def off_catalogue_def split: sum.splits)
  have seed: "off_catalogue (snd (seed_entries sha es rep v)) = off_catalogue v" for es rep v
  proof (induction es arbitrary: rep v)
    case (Cons e es)
    then show ?case using up
      by (auto simp: Let_def split: option.splits prod.splits sum.splits dest!: world_of)
  qed simp
  show "off_catalogue (snd (build_provider_live_execution_state x c task w)) = off_catalogue w"
    by (auto simp: build_provider_live_execution_state_def build_local_openai_compatible_endpoint_status_def Let_def
        off_catalogue_def split: prod.splits sum.splits option.splits if_splits)
  show "off_catalogue (snd (derive_candidate_universe sha raw c inv0 now u)) = off_catalogue u"
    using seed by (auto simp: derive_candidate_universe_def ensure_model_catalogue_seeded_def Let_def
        split: prod.splits sum.splits dest!: world_of)
qed

lemma off_catalogue_fields:
  assumes "off_catalogue w = off_catalogue w'"
  shows "kw_activations w = kw_activations w'" and "quota_states w = quota_states w'"
    and "budget_states w = budget_states w'" and "degradation_states w = degradation_states w'"
  using arg_cong [OF assms, of kw_activations] arg_cong [OF assms, of quota_states] arg_cong [OF assms, of budget_states]
    arg_cong [OF assms, of degradation_states] by (simp_all add: off_catalogue_def)

lemma switches_permit_cong:
  "kw_activations w = kw_activations w' \<Longrightarrow> switches_permit env i d q w = switches_permit env i d q w'"
  by (simp add: switches_permit_def enforce_kill_switches_def list_activations_def)

lemma gateway_served:
  assumes "execute_text_generation sha shape stub env c q0 w = (Inr r, w')"
    and "xc_provider_mode c \<in> {''openai'', ''local_openai_compatible''}"
  obtains s w1 m a where
    "build_provider_live_execution_state (ge_probe env) c (Some (er_task_id (prepare_request env q0))) w = (Inr s, w1)"
    "ls_live_execution_enabled s" "require_supported_text_generation_mode c = Inr m" "resolve_text_generation_adapter m = Inr a"
    "if xc_routing_strategy c = ''ordered_fallback''
     then execute_ordered_fallback sha env (adapter_execute sha shape stub a) (mode_value m) c (prepare_request env q0) w1 = (Inr r, w')
     else execute_fixed_live sha env (adapter_execute sha shape stub a) (mode_value m) c (prepare_request env q0) w1 = (Inr r, w')"
proof -
  obtain m where m: "require_supported_text_generation_mode c = Inr m" "live_text_mode m"
    using assms(2) by (auto simp: require_supported_text_generation_mode_def live_text_mode_def)
  then show ?thesis using assms(1)
    by (auto simp: execute_text_generation_def Let_def split: sum.splits prod.splits if_splits intro: that)
qed

text \<open>The quota counters after the economics of one request.\<close>

definition counted :: "execution_config \<Rightarrow> gateway_request \<Rightarrow> 'a provider_ops_store_scheme \<Rightarrow> 'a provider_ops_store_scheme \<Rightarrow> bool" where
  "counted c q w w' \<longleftrightarrow>
     (\<forall>k. quota_count w' k = quota_count w k
            + (if quota_applies (xc_enforcement c) (execution_request.truncate q) k then 1 else 0))"

definition uncounted :: "'a provider_ops_store_scheme \<Rightarrow> 'a provider_ops_store_scheme \<Rightarrow> bool" where
  "uncounted w w' \<longleftrightarrow> (\<forall>k. quota_count w' k = quota_count w k)"

definition quota_ready :: "execution_config \<Rightarrow> 'a provider_ops_store_scheme \<Rightarrow> bool" where
  "quota_ready c w \<longleftrightarrow> quota_wf w \<and> et_quota_enforced (xc_enforcement c)
     \<and> pq_configuration_valid (parse_provider_quota_policy (xc_enforcement c) w)"

lemma quota_ready_cong: "quota_states w = quota_states w' \<Longrightarrow> quota_ready c w = quota_ready c w'"
  using configuration_valid_indep [of "xc_enforcement c" w w'] by (simp add: quota_ready_def quota_wf_def)

lemma counted_cong:
  assumes "quota_states v = quota_states w" and "quota_states v' = quota_states w'"
  shows "counted c q v v' = counted c q w w'" and "uncounted v v' = uncounted w w'"
  using assms by (simp_all add: counted_def uncounted_def get_quota_state_def)

lemma economics_counted:
  assumes "quota_ready c w" and "enforce_economics env c q w = (res, w')"
  shows "if res = Inr () then counted c q w w' else uncounted w w' \<or> counted c q w w'"
proof -
  let ?e = "xc_enforcement c" and ?q = "execution_request.truncate q"
  obtain r w1 where quota: "enforce_provider_quota ?e ?q (ge_quota_at env) w = (r, w1)" by (meson prod.exhaust)
  have ready: "quota_wf w" "et_quota_enforced ?e" "pq_configuration_valid (parse_provider_quota_policy ?e w)"
    using assms(1) by (auto simp: quota_ready_def)
  note o = enforce_quota_outcome [OF ready, of ?q "ge_quota_at env"]
  show ?thesis
  proof (cases "quota_full ?e ?q w")
    case True
    then show ?thesis using o(1) quota assms(2) by (auto simp: enforce_economics_def uncounted_def)
  next
    case False
    then have "r = Inr ()" "counted c q w w1" using o(2,3) quota by (auto simp: counted_def)
    moreover from this have "w' = snd (enforce_provider_budget ?e (ge_budget_at env) (ge_budget_now env) w1)"
      using quota assms(2) by (auto simp: enforce_economics_def)
    ultimately show ?thesis using counted_cong(1) [OF refl, of w' w1 c q w] by auto
  qed
qed

context books_only_adapter
begin

lemma ordered_counted:
  assumes "quota_ready c w" and "execute_ordered_fallback sha env run mode c q w = (res, w')"
  shows "case res of Inr _ \<Rightarrow> counted c q w w' | Inl _ \<Rightarrow> uncounted w w' \<or> counted c q w w'"
proof -
  obtain u w1 where univ: "derive_candidate_universe sha (ge_connections env) c (ge_inventory env) (ge_universe_at env) w = (u, w1)"
    by (meson prod.exhaust)
  obtain r w2 where econ: "enforce_economics env c q w1 = (r, w2)" by (meson prod.exhaust)
  have q1: "quota_states w1 = quota_states w" using world_of [OF univ] by simp
  have loop: "quota_states w3 = quota_states w2" if "candidate_loop sha env run q cs is t w2 = (x, t', w3)" for cs "is" t x t' w3
    using candidate_loop_frame [of sha env q cs "is" t w2] that by simp
  have "(\<exists>x. res = Inl x) \<and> quota_states w' = quota_states w
     \<or> quota_states w' = quota_states w2 \<and> (r = Inr () \<or> (\<exists>x. res = Inl x))"
    using assms(2) q1 loop
    by (auto simp: execute_ordered_fallback_def univ econ split: sum.splits prod.splits if_splits error.splits)
  moreover have "if r = Inr () then counted c q w1 w2 else uncounted w1 w2 \<or> counted c q w1 w2"
    using economics_counted [OF _ econ] quota_ready_cong [OF q1] assms(1) by blast
  ultimately show ?thesis using counted_cong(1) [of w1 w w2 w' c q] counted_cong(2) [of w1 w w2 w'] q1
    by (auto simp: uncounted_def get_quota_state_def split: sum.splits if_splits)
qed

lemma fixed_counted:
  assumes "quota_ready c w" and "execute_fixed_live sha env run mode c q w = (res, w')"
  shows "case res of Inr _ \<Rightarrow> counted c q w w' | Inl _ \<Rightarrow> uncounted w w' \<or> counted c q w w'"
proof -
  obtain r w1 where econ: "enforce_economics env c q w = (r, w1)" by (meson prod.exhaust)
  obtain x w2 where admit: "admit_fixed sha env c q w = (x, w2)" by (meson prod.exhaust)
  have adm: "w2 = w \<and> (\<exists>e. x = Inl e) \<or> quota_states w2 = quota_states w1 \<and> (r = Inr () \<or> (\<exists>e. x = Inl e))"
    using admit by (auto simp: admit_fixed_def econ split: sum.splits prod.splits dest!: world_of)
  have run: "quota_states w3 = quota_states w2" if "run_candidate sha env i run keyc d q entry w2 = (y, w3)" for i keyc d entry y w3
    using run_candidate_frame [of sha env i keyc d q entry w2] that by simp
  have "(\<exists>x. res = Inl x) \<and> quota_states w' = quota_states w
     \<or> quota_states w' = quota_states w1 \<and> (r = Inr () \<or> (\<exists>x. res = Inl x))"
    using assms(2) adm run
    by (auto simp: execute_fixed_live_def Let_def admit split: sum.splits prod.splits if_splits error.splits
        attempt_result.splits)
  then show ?thesis using economics_counted [OF assms(1) econ] counted_cong(1) [of w w w1 w' c q] counted_cong(2) [of w w w1 w']
    by (auto simp: uncounted_def get_quota_state_def split: sum.splits if_splits)
qed

end

lemma add_declared_duplicate:
  "\<not> (distinct (map cm_entry_id ds) \<and> cm_entry_id ` set ds \<inter> set seen = {})
     \<Longrightarrow> add_declared ds seen ms = Inl (ValueError ''declared more than once'')"
proof (induction ds arbitrary: seen ms)
  case (Cons d ds)
  have "cm_entry_id d \<in> set seen
      \<or> \<not> (distinct (map cm_entry_id ds) \<and> cm_entry_id ` set ds \<inter> set (cm_entry_id d # seen) = {})"
    using Cons.prems by auto
  then show ?case using Cons.IH [of "cm_entry_id d # seen" "dict_put (cm_entry_id d) d ms"] by auto
qed simp

lemma nth_with_rejections:
  "j < length cs \<Longrightarrow> with_rejections cs rej ! j = (cs ! j, dict_get rej j)"
  "length (with_rejections cs rej) = length cs"
  by (simp_all add: with_rejections_def)

section \<open>Properties\<close>

text \<open>
  C2. No answer without every gate: a live answer is returned only if live execution is enabled for the task, the caller is authorized,
  the declared connections are well formed, and one candidate passed its gates in the very state the execution had reached: no kill
  switch in force matches the request and that candidate, quota and budget admitted the request before any candidate ran, and then the deadline, the circuit
  breaker of that candidate, its catalogue binding and the declared requirements let it through. In the ordered path the candidate is
  one of those derived from the candidate universe that survive the kill-switch screen, and its gates are passed in the state left by the candidates ahead of
  it; in the fixed path it is the configured one. The answer and the final state are those of the adapter call
  that these gates let through, and the answer carries the catalogue entry that was bound.
\<close>

theorem served_only_through_every_gate:
  fixes w :: "'a gateway_world_scheme"
  assumes "execute_text_generation sha shape stub env c q0 w = (Inr r, w')"
    and "xc_provider_mode c \<in> {''openai'', ''local_openai_compatible''}"
  shows "\<exists>s ws a m ad entry r0.
       build_provider_live_execution_state (ge_probe env) c (Some (er_task_id (prepare_request env q0))) w = (Inr s, ws)
     \<and> ls_live_execution_enabled s
     \<and> require_supported_text_generation_mode c = Inr m \<and> resolve_text_generation_adapter m = Inr ad
     \<and> authorize_live env (prepare_request env q0) = Inr a
     \<and> connection_material_findings sha (ge_connections env) = []
     \<and> (if xc_routing_strategy c = ''ordered_fallback''
        then \<exists>universe wu candidates pre i post rejections wq.
            derive_candidate_universe sha (ge_connections env) c (ge_inventory env) (ge_universe_at env) ws = (Inr universe, wu)
          \<and> candidate_configs sha env c (cu_candidates universe) = Inr candidates
          \<and> kill_screen env (prepare_request env q0) wu 0 candidates = Inr (pre @ i # post, rejections)
          \<and> switches_permit env i (candidates ! i) (prepare_request env q0) w = Inr ()
          \<and> enforce_economics env c (prepare_request env q0) wu = (Inr (), wq)
          \<and> answered_by sha env i (adapter_execute sha shape stub ad) (candidates ! i) (candidates ! i) (prepare_request env q0) entry
              (after_candidates sha env (adapter_execute sha shape stub ad) (prepare_request env q0) candidates pre wq) r0 w'
        else \<exists>d wq.
            fixed_execution_config sha env c = Inr d
          \<and> switches_permit env 0 c (prepare_request env q0) w = Inr ()
          \<and> enforce_economics env c (prepare_request env q0) ws = (Inr (), wq)
          \<and> answered_by sha env 0 (adapter_execute sha shape stub ad) c d (prepare_request env q0) entry wq r0 w')
     \<and> r0 = r\<lparr>pr_routing_decision := pr_routing_decision r0\<rparr>
     \<and> pr_catalogue_entry_id r = Some (me_entry_id entry)"
proof -
  define q where "q = prepare_request env q0"
  obtain s w1 m ad where live:
    "build_provider_live_execution_state (ge_probe env) c (Some (er_task_id q)) w = (Inr s, w1)" "ls_live_execution_enabled s"
    "require_supported_text_generation_mode c = Inr m" "resolve_text_generation_adapter m = Inr ad"
    and run: "if xc_routing_strategy c = ''ordered_fallback''
      then execute_ordered_fallback sha env (adapter_execute sha shape stub ad) (mode_value m) c q w1 = (Inr r, w')
      else execute_fixed_live sha env (adapter_execute sha shape stub ad) (mode_value m) c q w1 = (Inr r, w')"
    unfolding q_def by (rule gateway_served [OF assms(1,2)])
  have off1: "off_catalogue w1 = off_catalogue w" using live(1) by (metis off_catalogue_frame(1) snd_conv)
  show ?thesis
  proof (cases "xc_routing_strategy c = ''ordered_fallback''")
    case True
    with run have "execute_ordered_fallback sha env (adapter_execute sha shape stub ad) (mode_value m) c q w1 = (Inr r, w')" by simp
    then obtain a universe w2 candidates eligible rejections w3 i entry r0 t where o:
      "authorize_live env q = Inr a" "connection_material_findings sha (ge_connections env) = []"
      "derive_candidate_universe sha (ge_connections env) c (ge_inventory env) (ge_universe_at env) w1 = (Inr universe, w2)"
      "candidate_configs sha env c (cu_candidates universe) = Inr candidates"
      "kill_screen env q w2 0 candidates = Inr (eligible, rejections)" "enforce_economics env c q w2 = (Inr (), w3)"
      "candidate_loop sha env (adapter_execute sha shape stub ad) q candidates eligible
         \<lparr>lt_rejections = rejections, lt_errors = [], lt_fallback_path = []\<rparr> w3 = (LoopServed i entry r0, t, w')"
      "conclude_ordered env (mode_value m) c q candidates universe (LoopServed i entry r0) t = Inr r"
      by (rule ordered_served)
    have "distinct eligible" using kill_screen_facts(1) [OF o(5)] by (simp add: strict_sorted_iff)
    from candidate_loop_served [OF o(7) this] obtain pre post where
      g: "eligible = pre @ i # post" "answered_by sha env i (adapter_execute sha shape stub ad) (candidates ! i) (candidates ! i) q entry
        (after_candidates sha env (adapter_execute sha shape stub ad) q candidates pre w3) r0 w'" by blast
    have off2: "off_catalogue w2 = off_catalogue w" using off1 o(3) by (metis off_catalogue_frame(2) snd_conv)
    have sw: "switches_permit env i (candidates ! i) q w = Inr ()"
      using kill_screen_facts(4) [OF o(5), of i] g(1) switches_permit_cong [OF off_catalogue_fields(1) [OF off2]] by simp
    have r: "r0 = r\<lparr>pr_routing_decision := pr_routing_decision r0\<rparr>" "pr_catalogue_entry_id r = Some (me_entry_id entry)"
      using o(8) answered_by_entry [OF g(2)] by (auto simp: conclude_ordered_def)
    show ?thesis unfolding q_def [symmetric] if_P [OF True]
      by (intro exI conjI) (rule live o(1,2,3,4) o(5) [unfolded g(1)] sw o(6) g(2) r)+
  next
    case False
    with run have "execute_fixed_live sha env (adapter_execute sha shape stub ad) (mode_value m) c q w1 = (Inr r, w')" by simp
    then obtain a d w2 entry r0 where f: "authorize_live env q = Inr a" "connection_material_findings sha (ge_connections env) = []"
      "fixed_execution_config sha env c = Inr d" "switches_permit env 0 c q w1 = Inr ()" "enforce_economics env c q w1 = (Inr (), w2)"
      "answered_by sha env 0 (adapter_execute sha shape stub ad) c d q entry w2 r0 w'"
      "r = r0\<lparr>pr_routing_decision := Some (build_fixed_routing_decision (ge_decided_at env) (gr_requirements q) (mode_value m) (pr_provider_id r0) (Some entry))\<rparr>"
      by (rule fixed_served)
    have sw: "switches_permit env 0 c q w = Inr ()"
      using f(4) switches_permit_cong [OF off_catalogue_fields(1) [OF off1]] by simp
    have r: "r0 = r\<lparr>pr_routing_decision := pr_routing_decision r0\<rparr>" "pr_catalogue_entry_id r = Some (me_entry_id entry)"
      using f(7) answered_by_entry [OF f(6)] by auto
    show ?thesis unfolding q_def [symmetric] if_not_P [OF False]
      by (intro exI conjI) (rule live f(1,2,3) sw f(5,6) r)+
  qed
qed

text \<open>
  One execution is counted once: whatever the number of candidates tried and retries made, an execution that
  serves adds exactly one to every quota counter that applies to the request, and one that is refused or
  fails adds at most one.
\<close>

theorem execution_counted_once:
  assumes "quota_ready c w" and "xc_provider_mode c \<in> {''openai'', ''local_openai_compatible''}"
    and "execute_text_generation sha shape stub env c q w = (res, w')"
  shows "case res of Inr _ \<Rightarrow> counted c (prepare_request env q) w w'
     | Inl _ \<Rightarrow> uncounted w w' \<or> counted c (prepare_request env q) w w'"
proof -
  let ?q = "prepare_request env q"
  obtain s w1 where st: "build_provider_live_execution_state (ge_probe env) c (Some (er_task_id ?q)) w = (s, w1)"
    by (meson prod.exhaust)
  have q1: "quota_states w1 = quota_states w" using world_of [OF st] by simp
  obtain m where m: "require_supported_text_generation_mode c = Inr m" "live_text_mode m"
    using assms(2) by (auto simp: require_supported_text_generation_mode_def live_text_mode_def)
  consider "\<exists>x. res = Inl x" "w' = w1"
    | a where "execute_ordered_fallback sha env (adapter_execute sha shape stub a) (mode_value m) c ?q w1 = (res, w')"
    | a where "execute_fixed_live sha env (adapter_execute sha shape stub a) (mode_value m) c ?q w1 = (res, w')"
    using assms(3) m by (auto simp: execute_text_generation_def Let_def st split: sum.splits if_splits)
  then show ?thesis
  proof cases
    case 1
    then show ?thesis using q1 by (auto simp: uncounted_def get_quota_state_def)
  next
    case 2
    then show ?thesis using live_adapter.ordered_counted [OF _ 2] quota_ready_cong [OF q1] assms(1)
        counted_cong [OF q1 refl] by (auto split: sum.splits)
  next
    case 3
    then show ?thesis using live_adapter.fixed_counted [OF _ 3] quota_ready_cong [OF q1] assms(1)
        counted_cong [OF q1 refl] by (auto split: sum.splits)
  qed
qed

text \<open>
  The recorded decision explains the selection: when the ordered path serves, the decision names the serving
  candidate and the catalogue entry of the answer, shows that candidate without a rejection, and shows a
  rejection reason for every candidate ahead of it in the order.
\<close>

theorem ordered_decision_explains_selection:
  fixes w :: "'a gateway_world_scheme"
  assumes "execute_ordered_fallback sha env run mode c q w = (Inr r, w')"
  shows "\<exists>d i. pr_routing_decision r = Some d \<and> i < length (rt_candidates d)
     \<and> rk_rejection_reason (rt_candidates d ! i) = None
     \<and> (\<forall>j < i. rk_rejection_reason (rt_candidates d ! j) \<noteq> None)
     \<and> rt_selected_provider_id d = Some (rk_provider_id (rt_candidates d ! i))
     \<and> rt_selected_catalogue_entry_id d = pr_catalogue_entry_id r \<and> pr_catalogue_entry_id r \<noteq> None"
proof -
  obtain universe candidates eligible rejections w2 i entry r0 t and w1 :: "'a gateway_world_scheme" where o:
    "kill_screen env q w1 0 candidates = Inr (eligible, rejections)"
    "candidate_loop sha env run q candidates eligible
       \<lparr>lt_rejections = rejections, lt_errors = [], lt_fallback_path = []\<rparr> w2 = (LoopServed i entry r0, t, w')"
    "conclude_ordered env mode c q candidates universe (LoopServed i entry r0) t = Inr r"
    by (rule ordered_served [OF assms], rule that)
  note screen = kill_screen_facts [OF o(1)]
  have dist: "distinct eligible" using screen(1) by (simp add: strict_sorted_iff)
  from candidate_loop_served [OF o(2) dist] obtain pre post where
    ans: "answered_by sha env i run (candidates ! i) (candidates ! i) q entry (after_candidates sha env run q candidates pre w2) r0 w'"
    and g0: "eligible = pre @ i # post \<and> (\<forall>j \<in> set pre. dict_get (lt_rejections t) j \<noteq> None)
      \<and> (\<forall>j. j \<notin> set pre \<longrightarrow> dict_get (lt_rejections t) j = dict_get rejections j)" by auto
  note g = g0 conjI [OF g0 answered_by_entry [OF ans]]
  have i: "i < length candidates" "i \<notin> set pre" "dict_get rejections i = None"
    using screen(2,3) g dist by (auto simp: map_of_eq_None_iff)
  have before: "dict_get (lt_rejections t) j \<noteq> None" if "j < i" for j
  proof (cases "j \<in> set eligible")
    case True
    then show ?thesis using sorted_prefix_below [of pre i post j] screen(1) g that by auto
  next
    case False
    then have "j \<in> fst ` set rejections" using screen(2) i(1) that by (metis Un_iff atLeastLessThan_iff add_0 less_trans zero_le)
    then show ?thesis using g False by (auto simp: map_of_eq_None_iff)
  qed
  obtain p where p: "xc_provider_id (candidates ! i) = Some p" "p \<noteq> []"
    using answered_by_provider [OF ans] by (auto elim: truthyE)
  let ?d = "build_ordered_routing_decision (ge_decided_at env) (gr_requirements q) mode (with_rejections candidates (lt_rejections t))
    (Some (candidates ! i, i = 0 \<or> candidates ! i = c \<and> candidates ! 0 = c)) (Some entry) (lt_fallback_path t) (Some universe)"
  have r: "pr_routing_decision r = Some ?d" "pr_catalogue_entry_id r = Some (me_entry_id entry)"
    using o(3) g by (auto simp: conclude_ordered_def)
  show ?thesis
    by (intro exI [of _ ?d] exI [of _ i])
      (use i g before p r in \<open>auto simp: build_ordered_routing_decision_def nth_with_rejections candidate_descriptor_def
        or_else_def truthy_def\<close>)
qed





















text \<open>
  A policy identity without connection material escapes the governed refusal: when every ordered identity is
  excluded and the first one is excluded for missing connection material, the gateway does not refuse with
  the reasons; it fails with an unhandled key error.
\<close>

theorem missing_material_escapes_refusal:
  assumes "authorize_live env q = Inr a" and "fallback_configuration_findings c = []"
    and "connection_material_findings sha (ge_connections env) = []" and "derive_fallback_execution_config c \<noteq> None"
    and "derive_candidate_universe sha (ge_connections env) c (ge_inventory env) (ge_universe_at env) w = (Inr u, w1)"
    and "cu_candidates u = []" and "cu_exclusions u = (k, CONNECTION_MATERIAL_MISSING) # rest"
  shows "execute_ordered_fallback sha env run mode c q w = (Inl (Raised (KeyError ''CONNECTION_MATERIAL_MISSING'')), w1)"
  using assms by (auto simp: execute_ordered_fallback_def empty_universe_refusal_def)

text \<open>
  An identity declared twice escapes the configuration check: the check of the declared connections reports
  nothing, and every live execution of the configured model then fails with an unhandled value error.
\<close>

theorem duplicate_connection_escapes_refusal:
  assumes "authorize_live env q = Inr a" and "parse_declared_connections sha (ge_connections env) = Inr ds"
    and "\<not> distinct (map cm_entry_id ds)" and "config_candidate_identity sha c = Some k"
  shows "connection_material_findings sha (ge_connections env) = []
    \<and> execute_fixed_live sha env run mode c q w = (Inl (Raised (ValueError ''declared more than once'')), w)"
proof -
  have "configured_connection_materials sha (ge_connections env) c = Inl (ValueError ''declared more than once'')"
    using assms(2,3) add_declared_duplicate [of ds "[]"] by (simp add: configured_connection_materials_def)
  then have "fixed_execution_config sha env c = Inl (ValueError ''declared more than once'')"
    using assms(4) by (simp add: fixed_execution_config_def derive_candidate_execution_config_def)
  moreover have "connection_material_findings sha (ge_connections env) = []"
    using assms(2) by (simp add: connection_material_findings_def)
  ultimately show ?thesis using assms(1) by (simp add: execute_fixed_live_def)
qed

text \<open>
  A refusal can claim more than happened: when an attempt fails with a category that does not trigger a
  fallback, the recorded reason says that every candidate was rejected or failed, while a later eligible
  candidate was never tried and is shown without a rejection.
\<close>

theorem refusal_claims_untried_candidates:
  assumes "try_candidate sha env i run (candidates ! i) q w = (AttemptFailed k, w')" and "k \<notin> set fallback_trigger_categories"
    and "candidates \<noteq> []" and "j < length candidates" and "j \<noteq> i" and "dict_get rejections j = None"
    and "candidate_loop sha env run q candidates (i # is)
       \<lparr>lt_rejections = rejections, lt_errors = [], lt_fallback_path = []\<rparr> w = (res, t, w'')"
  shows "\<exists>d. conclude_ordered env mode c q candidates u res t = Inl (Unavailable k d)
     \<and> rt_selection_reason d = EveryCandidateRejectedOrFailed \<and> rk_rejection_reason (rt_candidates d ! j) = None"
proof -
  have t: "res = LoopRefused" "t = note_failure i (candidates ! i) k \<lparr>lt_rejections = rejections, lt_errors = [], lt_fallback_path = []\<rparr>"
    using assms(1,2,7) by auto
  have "with_rejections candidates x \<noteq> []" for x using assms(3) by (simp add: with_rejections_def)
  then show ?thesis using assms(4-6) unfolding t
    by (simp add: conclude_ordered_def ordered_refusal_def build_ordered_routing_decision_def nth_with_rejections
        candidate_descriptor_def)
qed

section \<open>A concrete execution\<close>

text \<open>The primary model answers with a server error; the fallback serves within the latency ceiling.\<close>

definition gateway_thresholds :: enforcement_thresholds where
  "gateway_thresholds = sample_thresholds\<lparr>et_quota_enforced := True, et_default_quota_limit := Some 5, et_hard_budget_usd := Some 10\<rparr>"

definition gateway_config :: execution_config where
  "gateway_config = sample_config\<lparr>xc_rollout_state := ''CANARY_ENABLED'', xc_fallback_api_key := Some ''k2'', xc_enforcement := gateway_thresholds\<rparr>"

definition gateway_sample_request :: gateway_request where
  "gateway_sample_request = sample_gateway_request\<lparr>er_caller_app := ''lotus-gateway'', gr_retry_limit := 0,
     gr_requirements := Some \<lparr>cr_structured_output_required = None, cr_tool_calling_required = None,
       cr_max_latency_ms = Some 2000, cr_max_estimated_cost_usd = None\<rparr>\<rparr>"

definition sample_candidate_env :: "nat \<Rightarrow> candidate_env" where
  "sample_candidate_env i = \<lparr>ca_deadline_clock = 0, ca_preflight_at = 0, ca_reopen_at = 0, ca_bind_at = ''t2'',
     ca_attempt_clock = 0,
     ca_adapter = sample_adapter_env\<lparr>xe_attempts := \<lambda>n. (sample_env n)\<lparr>ae_reply := \<lambda>_.
        if i = 0 then HttpError 503 None None else Served (Some 90) (Some 40)\<rparr>\<rparr>,
     ca_failure_at = 1, ca_posture_at = 1, ca_open_at = 1, ca_drift_at = ''t2'', ca_success_at = 2\<rparr>"

definition sample_gateway_env :: gateway_env where
  "sample_gateway_env = \<lparr>ge_policies = init_policy_store, ge_caller = None, ge_connections = Some (JList []),
     ge_environ = (\<lambda>_. None), ge_inventory = [], ge_contract_exists = (\<lambda>_. False), ge_drain_permitted = False,
     ge_probe = \<lparr>px_override = None, px_hermetic = False, px_cache_seconds = 30, px_now = 0, px_fetch = (\<lambda>_ _. TimedOutReply)\<rparr>,
     ge_minted_id = ''minted'', ge_started_at = 0, ge_universe_at = ''t1'', ge_kill_at = (\<lambda>_. 0), ge_quota_at = (\<lambda>_. ''t1''),
     ge_budget_at = 12, ge_budget_now = ''t1'', ge_stamp = plain_stamp, ge_candidate = sample_candidate_env, ge_decided_at = ''t3''\<rparr>"

definition sample_gateway_world :: gateway_world where
  "sample_gateway_world = \<lparr>quota_states = [], budget_states = [], degradation_states = [], event_records = [],
     governed_actions = [], attempt_debits = [], bw_rates = bw_rates two_rate_world,
     kw_activations = [], kw_store_mode = ''sqlalchemy'', cw_entries = [], cw_lifecycle_events = [],
     cw_drift_observations = [], cw_policy_versions = [], cw_capability_evidence = [], cw_evaluation_runs = [],
     cw_store_mode = ''sqlalchemy'', gw_probe_cache = None\<rparr>"

definition sample_execution :: "(gateway_error + provider_response) \<times> gateway_world" where
  "sample_execution = execute_text_generation spelled_sha (\<lambda>s. s) (\<lambda>_. Inl AssertionError) sample_gateway_env
     gateway_config gateway_sample_request sample_gateway_world"



lemma sample_execution_serves: "sample_execution = (Inr (projr (fst sample_execution)), snd sample_execution)"
proof -
  have "\<not> isl (fst sample_execution)" by code_simp
  then show ?thesis by (simp add: prod_eq_iff)
qed

theorem served_only_through_every_gate_witness:
  "\<exists>entry i d v r0. \<exists>ws :: gateway_world. answered_by spelled_sha sample_gateway_env i
      (adapter_execute spelled_sha (\<lambda>s. s) (\<lambda>_. Inl AssertionError) (LiveText openai_managed_text_descriptor True)) d d
      (prepare_request sample_gateway_env gateway_sample_request) entry ws r0 (snd sample_execution)
     \<and> switches_permit sample_gateway_env i d (prepare_request sample_gateway_env gateway_sample_request) sample_gateway_world = Inr v
     \<and> pr_catalogue_entry_id (projr (fst sample_execution)) = Some (me_entry_id entry)"
proof -
  have m: "xc_provider_mode gateway_config \<in> {''openai'', ''local_openai_compatible''}" "xc_routing_strategy gateway_config = ''ordered_fallback''"
    "require_supported_text_generation_mode gateway_config = Inr OPENAI_MODE"
    by (simp_all add: gateway_config_def sample_config_def require_supported_text_generation_mode_def)
  show ?thesis
    using served_only_through_every_gate [OF sample_execution_serves [unfolded sample_execution_def] m(1)]
    unfolding m(3) if_P [OF m(2)] sample_execution_def [symmetric] by auto blast
qed

lemma sample_quota_ready: "quota_ready gateway_config sample_gateway_world"
proof -
  have "pq_configuration_valid (parse_provider_quota_policy (xc_enforcement gateway_config) sample_gateway_world)" by code_simp
  then show ?thesis
    by (simp add: quota_ready_def quota_wf_def sample_gateway_world_def gateway_config_def gateway_thresholds_def)
qed

theorem execution_counted_once_witness:
  "counted gateway_config (prepare_request sample_gateway_env gateway_sample_request) sample_gateway_world (snd sample_execution)"
  using execution_counted_once [OF sample_quota_ready _ sample_execution_serves [unfolded sample_execution_def]]
  by (simp add: gateway_config_def sample_config_def sample_execution_def)

definition sample_ordered :: "(gateway_error + provider_response) \<times> gateway_world" where
  "sample_ordered = execute_ordered_fallback spelled_sha sample_gateway_env
     (adapter_execute spelled_sha (\<lambda>s. s) (\<lambda>_. Inl AssertionError) (LiveText openai_managed_text_descriptor True)) ''openai''
     gateway_config (prepare_request sample_gateway_env gateway_sample_request) sample_gateway_world"

theorem ordered_decision_explains_selection_witness:
  "\<exists>d i. pr_routing_decision (projr (fst sample_ordered)) = Some d \<and> rk_rejection_reason (rt_candidates d ! i) = None
     \<and> rt_selected_provider_id d = Some (rk_provider_id (rt_candidates d ! i))"
proof -
  have "\<not> isl (fst sample_ordered)" by code_simp
  then have "sample_ordered = (Inr (projr (fst sample_ordered)), snd sample_ordered)" by (simp add: prod_eq_iff)
  from ordered_decision_explains_selection [OF this [unfolded sample_ordered_def]]
  show ?thesis unfolding sample_ordered_def by blast
qed


text \<open>A policy that still orders a model whose connection was withdrawn.\<close>

definition withdrawn_entry :: catalogue_entry where
  "withdrawn_entry = new_catalogue_entry spelled_sha ''text.openai'' ''openai'' ''old'' ''old-1'' PRODUCTION True OPERATOR ''t0''"

definition withdrawn_world :: gateway_world where
  "withdrawn_world = sample_gateway_world\<lparr>cw_entries := [(''text.openai:old-1'', withdrawn_entry)],
     cw_policy_versions := [(1, \<lparr>pv_version = 1, pv_ordered_entry_ids = [''text.openai:old-1''], pv_action = IDENTITY_ADD,
       pv_changed_entry_id = ''text.openai:old-1'', pv_requested_by_key_id = ''op1'', pv_approver_key_id = Some ''op2'',
       pv_governed_action_id = Some ''ga1'', pv_recorded_at = ''t0''\<rparr>)]\<rparr>"

definition withdrawn_universe :: "candidate_universe result \<times> gateway_world" where
  "withdrawn_universe = derive_candidate_universe spelled_sha (Some (JList [])) gateway_config [] ''t1'' withdrawn_world"

lemma withdrawn_universe_runs:
  "withdrawn_universe = (Inr (projr (fst withdrawn_universe)), snd withdrawn_universe)"
  "cu_candidates (projr (fst withdrawn_universe)) = []"
  "cu_exclusions (projr (fst withdrawn_universe)) = (''text.openai:old-1'', CONNECTION_MATERIAL_MISSING)
     # tl (cu_exclusions (projr (fst withdrawn_universe)))"
proof -
  have "\<not> isl (fst withdrawn_universe)" by code_simp
  then show "withdrawn_universe = (Inr (projr (fst withdrawn_universe)), snd withdrawn_universe)" by (simp add: prod_eq_iff)
  show "cu_candidates (projr (fst withdrawn_universe)) = []" by code_simp
  have "cu_exclusions (projr (fst withdrawn_universe)) \<noteq> [] \<and> hd (cu_exclusions (projr (fst withdrawn_universe)))
      = (''text.openai:old-1'', CONNECTION_MATERIAL_MISSING)" by code_simp
  then show "cu_exclusions (projr (fst withdrawn_universe)) = (''text.openai:old-1'', CONNECTION_MATERIAL_MISSING)
     # tl (cu_exclusions (projr (fst withdrawn_universe)))" by (metis list.collapse)
qed

lemma sample_authorized:
  "authorize_live sample_gateway_env gateway_sample_request = Inr (projr (authorize_live sample_gateway_env gateway_sample_request))"
proof -
  have "\<not> isl (authorize_live sample_gateway_env gateway_sample_request)" by code_simp
  then show ?thesis by simp
qed

theorem missing_material_escapes_refusal_witness:
  "fst (execute_ordered_fallback spelled_sha sample_gateway_env (\<lambda>_ _ _ _ w. (Inl AssertionError, w)) ''openai''
     gateway_config gateway_sample_request withdrawn_world) = Inl (Raised (KeyError ''CONNECTION_MATERIAL_MISSING''))"
proof -
  have c: "fallback_configuration_findings gateway_config = []" "derive_fallback_execution_config gateway_config \<noteq> None"
    "connection_material_findings spelled_sha (ge_connections sample_gateway_env) = []" by code_simp+
  have e: "ge_connections sample_gateway_env = Some (JList [])" "ge_inventory sample_gateway_env = []"
    "ge_universe_at sample_gateway_env = ''t1''" by (simp_all add: sample_gateway_env_def)
  note u = withdrawn_universe_runs(1) [unfolded withdrawn_universe_def]
  from missing_material_escapes_refusal [OF sample_authorized c(1,3,2) u [folded e]
      withdrawn_universe_runs(2,3) [unfolded withdrawn_universe_def, folded e]]
  show ?thesis by simp
qed

text \<open>One connection declared twice.\<close>

definition declared_twice :: json where
  "declared_twice = (let j = JObject [(''provider_id'', JString ''text.openai''), (''model_id'', JString ''x''), (''api_base'', JString ''https://x'')]
     in JList [j, j])"

theorem duplicate_connection_escapes_refusal_witness:
  "execute_fixed_live spelled_sha (sample_gateway_env\<lparr>ge_connections := Some declared_twice\<rparr>) (\<lambda>_ _ _ _ w. (Inl AssertionError, w))
     ''openai'' gateway_config gateway_sample_request sample_gateway_world
   = (Inl (Raised (ValueError ''declared more than once'')), sample_gateway_world)"
proof -
  let ?env = "sample_gateway_env\<lparr>ge_connections := Some declared_twice\<rparr>"
  have a: "authorize_live ?env gateway_sample_request = Inr (projr (authorize_live sample_gateway_env gateway_sample_request))"
    using sample_authorized by (simp add: authorize_live_def)
  let ?p = "parse_declared_connections spelled_sha (Some declared_twice)"
  have p: "\<not> isl ?p" "\<not> distinct (map cm_entry_id (projr ?p))"
    "config_candidate_identity spelled_sha gateway_config \<noteq> None" by code_simp+
  then obtain k where k: "config_candidate_identity spelled_sha gateway_config = Some k" by blast
  have "parse_declared_connections spelled_sha (ge_connections ?env) = Inr (projr ?p)" using p(1) by simp
  from duplicate_connection_escapes_refusal [OF a this p(2) k] show ?thesis by (rule conjunct2)
qed

end
