(* ===== verification/Utc_Text.thy ===== *)
theory Utc_Text
  imports Decimal_Text
begin

text \<open>
  UTC instants and the text the services store for them: \<^verbatim>\<open>datetime.now(UTC).isoformat().replace("+00:00", "Z")\<close>,
  its reader \<^verbatim>\<open>datetime.fromisoformat\<close> and the addition of a \<^verbatim>\<open>timedelta(seconds=n)\<close>.

  An instant has the fields of a Python \<^verbatim>\<open>datetime\<close>. The stores keep and compare the texts, so the theory ends with
  the exact relation between the order of the texts and the order of the instants: \<^verbatim>\<open>isoformat\<close> leaves the
  fraction out when the microsecond is zero, and a point sorts before the letter Z.
\<close>

section \<open>Instants\<close>

record utc =
  u_year :: nat
  u_month :: nat
  u_day :: nat
  u_hour :: nat
  u_minute :: nat
  u_second :: nat
  u_microsecond :: nat

definition leap_year :: "nat \<Rightarrow> bool" where
  "leap_year y \<longleftrightarrow> y mod 4 = 0 \<and> (y mod 100 \<noteq> 0 \<or> y mod 400 = 0)"

definition month_days :: "nat \<Rightarrow> nat \<Rightarrow> nat" where
  "month_days y m = (if m = 2 then (if leap_year y then 29 else 28)
                     else if m \<in> {4, 6, 9, 11} then 30 else 31)"

definition valid_utc :: "utc \<Rightarrow> bool" where
  "valid_utc t \<longleftrightarrow> 1 \<le> u_year t \<and> u_year t \<le> 9999 \<and> 1 \<le> u_month t \<and> u_month t \<le> 12
     \<and> 1 \<le> u_day t \<and> u_day t \<le> month_days (u_year t) (u_month t)
     \<and> u_hour t < 24 \<and> u_minute t < 60 \<and> u_second t < 60 \<and> u_microsecond t < 1000000"

text \<open>The whole seconds of an instant, as a list of fields: their lexicographic order is the order of time.\<close>

definition second_fields :: "utc \<Rightarrow> nat list" where
  "second_fields t = [u_year t, u_month t, u_day t, u_hour t, u_minute t, u_second t]"

definition utc_fields :: "utc \<Rightarrow> nat list" where
  "utc_fields t = second_fields t @ [u_microsecond t]"

definition utc_before :: "utc \<Rightarrow> utc \<Rightarrow> bool" where
  "utc_before a b \<longleftrightarrow> utc_fields a < utc_fields b"

section \<open>Adding seconds\<close>

definition next_day :: "utc \<Rightarrow> utc" where
  "next_day t =
     (if u_day t < month_days (u_year t) (u_month t) then t\<lparr>u_day := u_day t + 1\<rparr>
      else if u_month t < 12 then t\<lparr>u_month := u_month t + 1, u_day := 1\<rparr>
      else t\<lparr>u_year := u_year t + 1, u_month := 1, u_day := 1\<rparr>)"

text \<open>\<^verbatim>\<open>value + timedelta(seconds=n)\<close> for a natural number of seconds; a year past 9999 is Python's OverflowError.\<close>

definition add_seconds :: "nat \<Rightarrow> utc \<Rightarrow> utc result" where
  "add_seconds n t =
     (let total = u_hour t * 3600 + u_minute t * 60 + u_second t + n;
          d = (next_day ^^ (total div 86400)) t;
          r = total mod 86400;
          t' = d\<lparr>u_hour := r div 3600, u_minute := r mod 3600 div 60, u_second := r mod 60\<rparr>
      in if u_year t' \<le> 9999 then Inr t' else Inl (OverflowError ''date value out of range''))"

section \<open>Text\<close>

abbreviation pad :: "nat \<Rightarrow> nat \<Rightarrow> string" where
  "pad w n \<equiv> zero_pad w (nat_str n)"

definition seconds_text :: "utc \<Rightarrow> string" where
  "seconds_text t = pad 4 (u_year t) @ ''-'' @ pad 2 (u_month t) @ ''-'' @ pad 2 (u_day t) @ ''T''
     @ pad 2 (u_hour t) @ '':'' @ pad 2 (u_minute t) @ '':'' @ pad 2 (u_second t)"

definition fraction_text :: "nat \<Rightarrow> string" where
  "fraction_text us = (if us = 0 then [] else ''.'' @ pad 6 us)"

definition utc_text :: "utc \<Rightarrow> timestamp" where
  "utc_text t = seconds_text t @ fraction_text (u_microsecond t) @ ''Z''"

section \<open>Reading\<close>

text \<open>\<^verbatim>\<open>datetime.fromisoformat(text.replace("Z", "+00:00"))\<close> on the texts the services write.\<close>

definition read_digits :: "nat \<Rightarrow> string \<Rightarrow> (nat \<times> string) option" where
  "read_digits w s =
     (if w \<le> length s \<and> list_all is_digit (take w s) then Some (digits_val (take w s), drop w s) else None)"

definition read_char :: "char \<Rightarrow> string \<Rightarrow> string option" where
  "read_char c s = (case s of [] \<Rightarrow> None | d # s' \<Rightarrow> if d = c then Some s' else None)"

definition read_fraction :: "string \<Rightarrow> nat option" where
  "read_fraction s =
     (if s = ''Z'' then Some 0
      else Option.bind (read_char CHR ''.'' s) (\<lambda>s. Option.bind (read_digits 6 s) (\<lambda>(us, s).
        if s = ''Z'' then Some us else None)))"

definition fromisoformat :: "timestamp \<Rightarrow> utc result" where
  "fromisoformat s =
     (case Option.bind (read_digits 4 s) (\<lambda>(y, s). Option.bind (read_char CHR ''-'' s) (\<lambda>s.
           Option.bind (read_digits 2 s) (\<lambda>(mo, s). Option.bind (read_char CHR ''-'' s) (\<lambda>s.
           Option.bind (read_digits 2 s) (\<lambda>(d, s). Option.bind (read_char CHR ''T'' s) (\<lambda>s.
           Option.bind (read_digits 2 s) (\<lambda>(h, s). Option.bind (read_char CHR '':'' s) (\<lambda>s.
           Option.bind (read_digits 2 s) (\<lambda>(mi, s). Option.bind (read_char CHR '':'' s) (\<lambda>s.
           Option.bind (read_digits 2 s) (\<lambda>(sec, s). Option.bind (read_fraction s) (\<lambda>us.
             Some \<lparr>u_year = y, u_month = mo, u_day = d, u_hour = h, u_minute = mi, u_second = sec,
                   u_microsecond = us\<rparr>))))))))))))
      of Some t \<Rightarrow> if valid_utc t then Inr t else Inl (ValueError ''isoformat'')
       | None \<Rightarrow> Inl (ValueError ''isoformat''))"

section \<open>Fixed-width numbers\<close>

lemma length_pad: "n < 10 ^ w \<Longrightarrow> 0 < w \<Longrightarrow> length (pad w n) = w"
  using length_nat_str [of n w] by (simp add: zero_pad_def)

lemma length_pad_2 [simp]: "n < 100 \<Longrightarrow> length (pad 2 n) = 2"
  using length_pad [of n 2] by simp

lemma length_pad_4 [simp]: "n < 10000 \<Longrightarrow> length (pad 4 n) = 4"
  using length_pad [of n 4] by simp

lemma length_pad_6 [simp]: "n < 1000000 \<Longrightarrow> length (pad 6 n) = 6"
  using length_pad [of n 6] by simp

lemma read_digits_pad:
  assumes "length (pad w n) = w"
  shows "read_digits w (pad w n @ s) = Some (n, s)"
  using assms by (simp add: read_digits_def)

lemma read_char_Cons [simp]: "read_char c (c # s) = Some s"
  by (simp add: read_char_def)

lemma is_digit_not_Z [simp]: "\<not> is_digit CHR ''Z''"
  by (simp add: is_digit_def)

text \<open>Digit strings of one length compare as their values.\<close>

lemma is_digit_less:
  assumes "is_digit c" and "is_digit d"
  shows "c < d \<longleftrightarrow> digit_val c < digit_val d"
  using assms by (auto simp: is_digit_def digit_val_def less_char_def)

lemma digits_val_Cons: "digits_val (c # s) = digit_val c * 10 ^ length s + digits_val s"
proof (induction s rule: rev_induct)
  case Nil
  then show ?case by (simp add: digits_val_def)
next
  case (snoc d s)
  have "digits_val ((c # s) @ [d]) = 10 * digits_val (c # s) + digit_val d" by (rule digits_val_snoc)
  then show ?case using snoc by simp
qed

lemma digit_val_bound: "is_digit c \<Longrightarrow> digit_val c < 10"
  by (auto simp: is_digit_def digit_val_def)

lemma digits_val_bound: "list_all is_digit s \<Longrightarrow> digits_val s < 10 ^ length s"
proof (induction s)
  case Nil
  then show ?case by (simp add: digits_val_def)
next
  case (Cons c s)
  then have "digit_val c + 1 \<le> 10" and "digits_val s < 10 ^ length s" using digit_val_bound by fastforce+
  then have "digit_val c * 10 ^ length s + digits_val s < (digit_val c + 1) * 10 ^ length s" by simp
  also have "\<dots> \<le> 10 * 10 ^ length s" using \<open>digit_val c + 1 \<le> 10\<close> by (rule mult_le_mono1)
  finally show ?case by (simp add: digits_val_Cons)
qed

lemma digit_val_inject: "is_digit c \<Longrightarrow> is_digit d \<Longrightarrow> digit_val c = digit_val d \<longleftrightarrow> c = d"
  by (metis is_digit_less less_irrefl linorder_neqE)

lemma digits_less_iff:
  assumes "length s = length s'" and "list_all is_digit s" and "list_all is_digit s'"
  shows "s < s' \<longleftrightarrow> digits_val s < digits_val s'"
  using assms
proof (induction s s' rule: list_induct2)
  case (Cons c s d s')
  have b: "digits_val s < 10 ^ length s'" "digits_val s' < 10 ^ length s'"
    using Cons digits_val_bound [of s] digits_val_bound [of s'] by auto
  have hi: "a * m + p < b * m + q" if "a < b" "p < m" for a b m p q :: nat
  proof -
    have "(a + 1) * m \<le> b * m" using that by (intro mult_le_mono1) simp
    then show ?thesis using that by simp
  qed
  consider "c < d" | "c = d" | "d < c" by force
  then show ?case
  proof cases
    case 1
    then have "digit_val c < digit_val d" using is_digit_less Cons.prems by simp
    then show ?thesis using 1 hi [of "digit_val c" "digit_val d"] b Cons.hyps by (simp add: digits_val_Cons)
  next
    case 2
    then show ?thesis using Cons by (simp add: digits_val_Cons)
  next
    case 3
    then have "digit_val d < digit_val c" using is_digit_less Cons.prems by simp
    then have "digits_val (d # s') < digits_val (c # s)"
      using hi [of "digit_val d" "digit_val c"] b Cons.hyps by (simp add: digits_val_Cons)
    then show ?thesis using 3 by auto
  qed
qed simp

lemma pad_less_iff: "length (pad w m) = length (pad w n) \<Longrightarrow> pad w m < pad w n \<longleftrightarrow> m < n"
  by (simp add: digits_less_iff)

text \<open>Comparison of concatenations, block by block.\<close>

lemma append_less_iff:
  fixes xs ys :: "'a::linorder list"
  assumes "length xs = length xs'"
  shows "xs @ ys < xs' @ ys' \<longleftrightarrow> xs < xs' \<or> xs = xs' \<and> ys < ys'"
  using assms by (induction xs xs' rule: list_induct2) auto

lemmas block_less = append_less_iff [of "zero_pad w s" for w s]

section \<open>Round trip\<close>

lemma valid_utc_bounds:
  assumes "valid_utc t"
  shows "u_year t < 10000" "u_month t < 100" "u_day t < 100" "u_hour t < 100" "u_minute t < 100" "u_second t < 100"
    "u_microsecond t < 1000000"
  using assms by (auto simp: valid_utc_def month_days_def split: if_splits)

lemma read_fraction_text: "us < 1000000 \<Longrightarrow> read_fraction (fraction_text us @ ''Z'') = Some us"
  by (simp add: read_fraction_def fraction_text_def read_digits_pad)

lemma fromisoformat_text [simp]:
  assumes "valid_utc t"
  shows "fromisoformat (utc_text t) = Inr t"
proof -
  have eta: "\<lparr>u_year = u_year t, u_month = u_month t, u_day = u_day t, u_hour = u_hour t, u_minute = u_minute t,
    u_second = u_second t, u_microsecond = u_microsecond t\<rparr> = t" by (cases t) simp
  show ?thesis
    using assms valid_utc_bounds [OF assms]
    by (simp add: fromisoformat_def utc_text_def seconds_text_def read_digits_pad read_fraction_text [simplified] eta)
qed

lemma utc_text_inject: "valid_utc a \<Longrightarrow> valid_utc b \<Longrightarrow> utc_text a = utc_text b \<longleftrightarrow> a = b"
  by (metis fromisoformat_text sum.inject(2))

section \<open>Order\<close>

lemma seconds_text_less_iff:
  assumes "valid_utc a" and "valid_utc b"
  shows "seconds_text a < seconds_text b \<longleftrightarrow> second_fields a < second_fields b"
  using valid_utc_bounds [OF assms(1)] valid_utc_bounds [OF assms(2)]
  by (simp add: seconds_text_def second_fields_def block_less pad_less_iff zero_pad_nat_str_inject)

lemma length_seconds_text: "valid_utc a \<Longrightarrow> length (seconds_text a) = 19"
  using valid_utc_bounds [of a] by (simp add: seconds_text_def)

lemma seconds_text_inject:
  assumes "valid_utc a" and "valid_utc b"
  shows "seconds_text a = seconds_text b \<longleftrightarrow> second_fields a = second_fields b"
  using seconds_text_less_iff [OF assms] seconds_text_less_iff [OF assms(2,1)] by (metis linorder_neqE less_irrefl)

lemma fraction_less_iff:
  assumes "m < 1000000" and "n < 1000000"
  shows "fraction_text m @ ''Z'' < fraction_text n @ ''Z'' \<longleftrightarrow> (if m = 0 then False else n = 0 \<or> m < n)"
  using assms
  by (auto simp: fraction_text_def block_less pad_less_iff zero_pad_nat_str_inject less_char_def)

theorem utc_text_less_iff:
  assumes "valid_utc a" and "valid_utc b"
  shows "utc_text a < utc_text b \<longleftrightarrow>
     second_fields a < second_fields b
     \<or> second_fields a = second_fields b \<and> u_microsecond a \<noteq> 0
        \<and> (u_microsecond b = 0 \<or> u_microsecond a < u_microsecond b)"
  using assms valid_utc_bounds(7)
  by (simp add: utc_text_def append_less_iff length_seconds_text seconds_text_less_iff seconds_text_inject
      fraction_less_iff [simplified])

lemma utc_before_iff:
  "utc_before a b \<longleftrightarrow> second_fields a < second_fields b
     \<or> second_fields a = second_fields b \<and> u_microsecond a < u_microsecond b"
proof -
  have "length (second_fields a) = length (second_fields b)" by (simp add: second_fields_def)
  from append_less_iff [OF this] show ?thesis by (simp add: utc_before_def utc_fields_def)
qed

lemma utc_text_less_when_seconds_differ:
  "valid_utc a \<Longrightarrow> valid_utc b \<Longrightarrow> second_fields a \<noteq> second_fields b \<Longrightarrow>
     utc_text a < utc_text b \<longleftrightarrow> utc_before a b"
  by (simp add: utc_text_less_iff utc_before_iff)

section \<open>Addition moves forward\<close>

lemma next_day_later: "second_fields t < second_fields (next_day t)"
  by (simp add: next_day_def second_fields_def)

lemma month_days_bounds: "28 \<le> month_days y m" "month_days y m \<le> 31"
  by (auto simp: month_days_def)

lemma valid_next_day:
  assumes "valid_utc t" and "u_year (next_day t) \<le> 9999"
  shows "valid_utc (next_day t)"
  using assms month_days_bounds(1) [of "u_year t" "u_month t + 1"]
  by (auto simp: valid_utc_def next_day_def month_days_def split: if_splits)

definition date_fields :: "utc \<Rightarrow> nat list" where
  "date_fields t = [u_year t, u_month t, u_day t]"

lemma next_day_date_later: "date_fields t < date_fields (next_day t)"
  by (simp add: next_day_def date_fields_def)

lemma funpow_next_day_date_le: "date_fields t \<le> date_fields ((next_day ^^ k) t)"
proof (induction k)
  case (Suc k)
  then show ?case using next_day_date_later [of "(next_day ^^ k) t"] by simp
qed simp

lemma funpow_next_day_date_later: "0 < k \<Longrightarrow> date_fields t < date_fields ((next_day ^^ k) t)"
  using funpow_next_day_date_le [of t "k - 1"] next_day_date_later [of "(next_day ^^ (k - 1)) t"]
  by (cases k) auto

lemma funpow_next_day_time [simp]:
  "u_hour ((next_day ^^ k) t) = u_hour t" "u_minute ((next_day ^^ k) t) = u_minute t"
  "u_second ((next_day ^^ k) t) = u_second t" "u_microsecond ((next_day ^^ k) t) = u_microsecond t"
  by (induction k) (simp_all add: next_day_def)

lemma next_day_year: "u_year t \<le> u_year (next_day t)"
  by (simp add: next_day_def)

lemma valid_funpow_next_day:
  assumes "valid_utc t" and "u_year ((next_day ^^ k) t) \<le> 9999"
  shows "valid_utc ((next_day ^^ k) t)"
  using assms
proof (induction k)
  case (Suc k)
  then have "u_year ((next_day ^^ k) t) \<le> 9999" using next_day_year [of "(next_day ^^ k) t"] by simp
  with Suc show ?case by (simp add: valid_next_day)
qed simp

lemma add_seconds_valid:
  assumes "valid_utc t" and "add_seconds n t = Inr t'"
  shows "valid_utc t'" and "u_microsecond t' = u_microsecond t"
proof -
  let ?k = "(u_hour t * 3600 + u_minute t * 60 + u_second t + n) div 86400"
  have "u_year ((next_day ^^ ?k) t) \<le> 9999" using assms(2) by (auto simp: add_seconds_def Let_def split: if_splits)
  from valid_funpow_next_day [OF assms(1) this] show "valid_utc t'" and "u_microsecond t' = u_microsecond t"
    using assms(2) by (auto simp: add_seconds_def Let_def valid_utc_def less_mult_imp_div_less split: if_splits)
qed

lemma clock_total: "(r :: nat) div 3600 * 3600 + r mod 3600 div 60 * 60 + r mod 60 = r"
proof -
  have "r mod 3600 mod 60 = r mod 60" by (rule mod_mod_cancel) simp
  then show ?thesis by (metis add.assoc div_mult_mod_eq)
qed

lemma clock_fields_less:
  fixes h m s h' m' s' :: nat
  assumes "m < 60" "s < 60" "m' < 60" "s' < 60" and "h * 3600 + m * 60 + s < h' * 3600 + m' * 60 + s'"
  shows "[h, m, s] < [h', m', s']"
  using assms by auto

lemma add_seconds_later:
  assumes "valid_utc t" and "add_seconds n t = Inr t'" and "0 < n"
  shows "second_fields t < second_fields t'"
proof -
  define total where "total = u_hour t * 3600 + u_minute t * 60 + u_second t + n"
  define d where "d = (next_day ^^ (total div 86400)) t"
  have t': "date_fields t' = date_fields d" "u_hour t' = total mod 86400 div 3600"
    "u_minute t' = total mod 86400 mod 3600 div 60" "u_second t' = total mod 86400 mod 60"
    using assms(2) by (auto simp: add_seconds_def Let_def total_def d_def date_fields_def split: if_splits)
  have split: "second_fields x = date_fields x @ [u_hour x, u_minute x, u_second x]" for x
    by (simp add: second_fields_def date_fields_def)
  have len: "length (date_fields x) = length (date_fields y)" for x y by (simp add: date_fields_def)
  show ?thesis
  proof (cases "total < 86400")
    case True
    then have "date_fields t' = date_fields t" using t'(1) by (simp add: d_def)
    moreover have "[u_hour t, u_minute t, u_second t] < [u_hour t', u_minute t', u_second t']"
    proof (rule clock_fields_less)
      show "u_hour t * 3600 + u_minute t * 60 + u_second t < u_hour t' * 3600 + u_minute t' * 60 + u_second t'"
        unfolding t'(2-4) clock_total using True assms(3) by (simp add: total_def)
    qed (use assms(1) t' in \<open>auto simp: valid_utc_def less_mult_imp_div_less\<close>)
    ultimately show ?thesis by (simp add: split append_less_iff [OF len])
  next
    case False
    then have "date_fields t < date_fields t'" unfolding t'(1) d_def by (intro funpow_next_day_date_later) simp
    then show ?thesis by (simp add: split append_less_iff [OF len])
  qed
qed

end
