(* ===== verification/Artifact_Store.thy ===== *)
theory Artifact_Store
  imports Utc_Text
begin

text \<open>
  Governed artifacts: the metadata repository \<^verbatim>\<open>repositories/memory_artifact_repository.py\<close>, the payload store
  \<^verbatim>\<open>services/artifact_object_store.py\<close> (in memory) and the operations that keep the two together,
  \<^verbatim>\<open>services/artifact_payloads.py\<close>. Payload bytes are strings; the digest and the identifiers are arguments.

  The facts say that published metadata always has its payload (\<open>payloads_present\<close>), that a stage which is not
  published leaves no record, and that saving equal content twice keeps one artifact.
\<close>

section \<open>Records\<close>

datatype artifact_lifecycle_status = HISTORICAL_STAGED | RUNTIME_GENERATED | SUPERSEDED | ARCHIVED

datatype artifact_storage_backend = MEMORY | FILESYSTEM

fun backend_value :: "artifact_storage_backend \<Rightarrow> string" where
  "backend_value MEMORY = ''memory''"
| "backend_value FILESYSTEM = ''filesystem''"

record artifact =
  ar_artifact_id :: string
  ar_domain :: string
  ar_artifact_type :: string
  ar_source_object_kind :: string
  ar_source_object_id :: string
  ar_lifecycle_status :: artifact_lifecycle_status
  ar_retention_posture :: string
  ar_media_type :: string
  ar_byte_size :: nat
  ar_checksum_sha256 :: string
  ar_storage_backend :: artifact_storage_backend
  ar_storage_reference :: string
  ar_lineage_parent_artifact_id :: "string option"
  ar_superseded_by_artifact_id :: "string option"
  ar_created_at :: timestamp
  ar_created_by :: string
  ar_tenant_id :: "string option"

record stored_object =
  so_object_key :: string
  so_content_type :: string
  so_payload :: string

record artifact_world =
  aw_artifacts :: "(string, artifact) dict"
  aw_objects :: "(string, stored_object) dict"

section \<open>The metadata repository\<close>

definition list_artifacts :: "'w artifact_world_scheme \<Rightarrow> artifact list" where
  "list_artifacts w = sort_key ar_created_at (dict_values (aw_artifacts w))"

definition get_artifact :: "'w artifact_world_scheme \<Rightarrow> string \<Rightarrow> artifact option" where
  "get_artifact w aid = dict_get (aw_artifacts w) aid"

definition save_artifact :: "artifact \<Rightarrow> 'w artifact_world_scheme \<Rightarrow> 'w artifact_world_scheme" where
  "save_artifact r w = w\<lparr>aw_artifacts := dict_put (ar_artifact_id r) r (aw_artifacts w)\<rparr>"

fun delete_artifacts :: "string list \<Rightarrow> 'w artifact_world_scheme \<Rightarrow> nat \<times> 'w artifact_world_scheme" where
  "delete_artifacts [] w = (0, w)"
| "delete_artifacts (aid # aids) w =
     (let found = (get_artifact w aid \<noteq> None);
          (n, w') = delete_artifacts aids (w\<lparr>aw_artifacts := dict_pop aid (aw_artifacts w)\<rparr>)
      in ((if found then 1 else 0) + n, w'))"

section \<open>The payload store\<close>

definition put_object :: "string \<Rightarrow> string \<Rightarrow> string \<Rightarrow> 'w artifact_world_scheme
    \<Rightarrow> stored_object \<times> 'w artifact_world_scheme" where
  "put_object key payload content_type w =
     (let stored = \<lparr>so_object_key = key, so_content_type = content_type, so_payload = payload\<rparr>
      in (stored, w\<lparr>aw_objects := dict_put key stored (aw_objects w)\<rparr>))"

definition get_object :: "'w artifact_world_scheme \<Rightarrow> string \<Rightarrow> stored_object option" where
  "get_object w key = dict_get (aw_objects w) key"

definition delete_object :: "string \<Rightarrow> 'w artifact_world_scheme \<Rightarrow> 'w artifact_world_scheme" where
  "delete_object key w = w\<lparr>aw_objects := dict_pop key (aw_objects w)\<rparr>"

section \<open>Storage references\<close>

text \<open>\<^verbatim>\<open>storage_reference.partition("://")\<close>: the text after the first separator, empty when there is none;
  \<^verbatim>\<open>storage_reference.split("://", maxsplit=1)[-1]\<close>: the same, but the whole text when there is none.\<close>

fun after_separator :: "string \<Rightarrow> string option" where
  "after_separator [] = None"
| "after_separator (c # cs) =
     (if take 3 (c # cs) = ''://'' then Some (drop 3 (c # cs)) else after_separator cs)"

definition parse_storage_reference :: "string \<Rightarrow> string" where
  "parse_storage_reference r = (case after_separator r of None \<Rightarrow> [] | Some key \<Rightarrow> key)"

definition split_storage_reference :: "string \<Rightarrow> string" where
  "split_storage_reference r = (case after_separator r of None \<Rightarrow> r | Some key \<Rightarrow> key)"

section \<open>Artifacts with their payloads\<close>

text \<open>What the callers pass to \<^verbatim>\<open>stage_json_artifact\<close> and \<^verbatim>\<open>persist_json_artifact\<close>.\<close>

record artifact_request =
  aq_domain :: string
  aq_artifact_type :: string
  aq_source_object_kind :: string
  aq_source_object_id :: string
  aq_created_at :: timestamp
  aq_created_by :: string
  aq_payload_json :: string
  aq_lifecycle_status :: artifact_lifecycle_status
  aq_retention_posture :: string
  aq_lineage_parent_artifact_id :: "string option"
  aq_superseded_by_artifact_id :: "string option"
  aq_tenant_id :: "string option"

text \<open>\<open>backend\<close> is the configured store mode, \<open>sha\<close> the digest and \<open>hex\<close> the sixteen characters of the new identifier.\<close>

record artifact_env =
  ae_backend :: artifact_storage_backend
  ae_sha :: "string \<Rightarrow> string"

definition artifact_id_of :: "string \<Rightarrow> string \<Rightarrow> string" where
  "artifact_id_of domain hex = ''artifact_'' @ domain @ ''_'' @ hex"

definition object_key_of :: "artifact_request \<Rightarrow> string \<Rightarrow> string" where
  "object_key_of q aid =
     aq_domain q @ ''/'' @ aq_source_object_kind q @ ''/'' @ aq_source_object_id q @ ''/'' @ aid @ ''.json''"

definition stage_json_artifact ::
  "artifact_env \<Rightarrow> string \<Rightarrow> artifact_request \<Rightarrow> 'w artifact_world_scheme \<Rightarrow> artifact \<times> 'w artifact_world_scheme" where
  "stage_json_artifact e hex q w =
     (let aid = artifact_id_of (aq_domain q) hex; key = object_key_of q aid;
          (stored, w') = put_object key (aq_payload_json q) ''application/json'' w
      in (\<lparr>ar_artifact_id = aid, ar_domain = aq_domain q, ar_artifact_type = aq_artifact_type q,
           ar_source_object_kind = aq_source_object_kind q, ar_source_object_id = aq_source_object_id q,
           ar_lifecycle_status = aq_lifecycle_status q, ar_retention_posture = aq_retention_posture q,
           ar_media_type = so_content_type stored, ar_byte_size = length (so_payload stored),
           ar_checksum_sha256 = ae_sha e (so_payload stored), ar_storage_backend = ae_backend e,
           ar_storage_reference = backend_value (ae_backend e) @ ''://'' @ key,
           ar_lineage_parent_artifact_id = aq_lineage_parent_artifact_id q,
           ar_superseded_by_artifact_id = aq_superseded_by_artifact_id q,
           ar_created_at = aq_created_at q, ar_created_by = aq_created_by q,
           ar_tenant_id = aq_tenant_id q\<rparr>, w'))"

definition persist_json_artifact ::
  "artifact_env \<Rightarrow> string \<Rightarrow> artifact_request \<Rightarrow> 'w artifact_world_scheme \<Rightarrow> artifact \<times> 'w artifact_world_scheme" where
  "persist_json_artifact e hex q w =
     (let (r, w') = stage_json_artifact e hex q w in (r, save_artifact r w'))"

definition find_latest_active_artifact :: "artifact_request \<Rightarrow> 'w artifact_world_scheme \<Rightarrow> artifact option" where
  "find_latest_active_artifact q w =
     (let matches = filter (\<lambda>a. ar_domain a = aq_domain q \<and> ar_artifact_type a = aq_artifact_type q
            \<and> ar_source_object_kind a = aq_source_object_kind q \<and> ar_source_object_id a = aq_source_object_id q
            \<and> ar_superseded_by_artifact_id a = None) (list_artifacts w)
      in if matches = [] then None else Some (last matches))"

definition persist_or_reuse_json_artifact ::
  "artifact_env \<Rightarrow> string \<Rightarrow> artifact_request \<Rightarrow> 'w artifact_world_scheme \<Rightarrow> artifact \<times> 'w artifact_world_scheme" where
  "persist_or_reuse_json_artifact e hex q w =
     (let existing = find_latest_active_artifact q w in
      case existing of
        None \<Rightarrow> persist_json_artifact e hex (q\<lparr>aq_lineage_parent_artifact_id := None\<rparr>) w
      | Some a \<Rightarrow>
        (if (case get_object w (parse_storage_reference (ar_storage_reference a)) of
               None \<Rightarrow> False
             | Some stored \<Rightarrow> ae_sha e (so_payload stored) = ae_sha e (aq_payload_json q))
         then (a, w)
         else let (created, w') = persist_json_artifact e hex
                     (q\<lparr>aq_lineage_parent_artifact_id := Some (ar_artifact_id a)\<rparr>) w
              in (created, save_artifact (a\<lparr>ar_lifecycle_status := SUPERSEDED,
                     ar_superseded_by_artifact_id := Some (ar_artifact_id created)\<rparr>) w')))"

definition load_artifact_descriptors :: "string list \<Rightarrow> 'w artifact_world_scheme \<Rightarrow> artifact list" where
  "load_artifact_descriptors aids w = List.map_filter (get_artifact w) aids"

definition delete_artifacts_with_payloads ::
  "artifact list \<Rightarrow> 'w artifact_world_scheme \<Rightarrow> nat \<times> 'w artifact_world_scheme" where
  "delete_artifacts_with_payloads rs w =
     delete_artifacts (map ar_artifact_id rs)
       (fold (\<lambda>r w. let key = parse_storage_reference (ar_storage_reference r)
                    in if key \<noteq> [] then delete_object key w else w) rs w)"

section \<open>The repository contract\<close>

lemma get_save_artifact [simp, store_simps]:
  "get_artifact (save_artifact r w) k = (if k = ar_artifact_id r then Some r else get_artifact w k)"
  by (simp add: get_artifact_def save_artifact_def)

interpretation artifacts: keyed_repository ar_artifact_id get_artifact save_artifact
  by unfold_locales simp_all

lemma get_object_save_artifact [simp]: "get_object (save_artifact r w) k = get_object w k"
  by (simp add: get_object_def save_artifact_def)

lemma delete_artifacts_pops:
  "get_artifact (snd (delete_artifacts aids w)) k = (if k \<in> set aids then None else get_artifact w k)"
  by (induction aids arbitrary: w) (simp_all add: get_artifact_def Let_def split_beta)

lemma delete_artifacts_objects [simp]: "aw_objects (snd (delete_artifacts aids w)) = aw_objects w"
  by (induction aids arbitrary: w) (simp_all add: Let_def split_beta)

section \<open>References\<close>

lemma after_separator_skip:
  "CHR '':'' \<notin> set p \<Longrightarrow> after_separator (p @ ''://'' @ k) = Some k"
  by (induction p) auto

lemma backend_reference [simp]:
  "after_separator (backend_value b @ ''://'' @ k) = Some k"
  by (cases b) (simp_all add: after_separator_skip [simplified])

lemma backend_reference_simps [simp]:
  "parse_storage_reference (backend_value b @ CHR '':'' # CHR ''/'' # CHR ''/'' # k) = k"
  "split_storage_reference (backend_value b @ CHR '':'' # CHR ''/'' # CHR ''/'' # k) = k"
  using backend_reference [of b k] by (simp_all add: parse_storage_reference_def split_storage_reference_def)

section \<open>Published metadata has its payload\<close>

definition payload_present :: "artifact_env \<Rightarrow> 'w artifact_world_scheme \<Rightarrow> artifact \<Rightarrow> bool" where
  "payload_present e w a =
     (case get_object w (parse_storage_reference (ar_storage_reference a)) of
        None \<Rightarrow> False
      | Some stored \<Rightarrow> ar_byte_size a = length (so_payload stored) \<and> ar_checksum_sha256 a = ae_sha e (so_payload stored))"

definition artifact_key :: "artifact \<Rightarrow> string" where
  "artifact_key a = parse_storage_reference (ar_storage_reference a)"

definition artifacts_ok :: "artifact_env \<Rightarrow> 'w artifact_world_scheme \<Rightarrow> bool" where
  "artifacts_ok e w \<longleftrightarrow>
     (\<forall>k a. get_artifact w k = Some a \<longrightarrow> ar_artifact_id a = k \<and> payload_present e w a)
     \<and> (\<forall>k a k' a'. get_artifact w k = Some a \<longrightarrow> get_artifact w k' = Some a' \<longrightarrow> artifact_key a = artifact_key a' \<longrightarrow> k = k')"

lemma stage_key:
  "stage_json_artifact e hex q w = (r, w') \<Longrightarrow> artifact_key r = object_key_of q (artifact_id_of (aq_domain q) hex)"
  by (auto simp: stage_json_artifact_def artifact_key_def put_object_def Let_def)

lemma stage_effect:
  assumes "stage_json_artifact e hex q w = (r, w')"
  shows "get_artifact w' k = get_artifact w k"
    and "get_object w' k = (if k = artifact_key r
           then Some \<lparr>so_object_key = k, so_content_type = ''application/json'', so_payload = aq_payload_json q\<rparr>
           else get_object w k)"
    and "ar_artifact_id r = artifact_id_of (aq_domain q) hex"
    and "ar_checksum_sha256 r = ae_sha e (aq_payload_json q)" and "ar_byte_size r = length (aq_payload_json q)"
  using assms
  by (auto simp: stage_json_artifact_def artifact_key_def put_object_def Let_def get_artifact_def get_object_def)

lemma payload_present_key:
  "payload_present e w a \<longleftrightarrow>
     (case get_object w (artifact_key a) of
        None \<Rightarrow> False
      | Some stored \<Rightarrow> ar_byte_size a = length (so_payload stored) \<and> ar_checksum_sha256 a = ae_sha e (so_payload stored))"
  by (simp add: payload_present_def artifact_key_def)

text \<open>A fresh stage keeps every published artifact whole; publishing it then adds one whole artifact.\<close>

lemma stage_keeps_ok:
  assumes "artifacts_ok e w" and "stage_json_artifact e hex q w = (r, w')" and "get_object w (artifact_key r) = None"
  shows "artifacts_ok e w'" and "payload_present e w' r"
    and "\<And>k a. get_artifact w' k = Some a \<Longrightarrow> artifact_key a \<noteq> artifact_key r"
proof -
  have other: "artifact_key a \<noteq> artifact_key r" if "get_artifact w k = Some a" for k a
  proof -
    have "payload_present e w a" using assms(1) that by (auto simp: artifacts_ok_def)
    then show ?thesis using assms(3) by (auto simp: payload_present_key split: option.splits)
  qed
  then show "artifact_key a \<noteq> artifact_key r" if "get_artifact w' k = Some a" for k a
    using that by (simp add: stage_effect [OF assms(2)])
  show "payload_present e w' r" by (simp add: payload_present_key stage_effect [OF assms(2)])
  show "artifacts_ok e w'"
    using assms(1) other unfolding artifacts_ok_def by (simp add: stage_effect(1,2) [OF assms(2)] payload_present_key)
qed

lemma save_artifact_keeps_ok:
  assumes "artifacts_ok e w" and "payload_present e w r"
    and "\<And>k a. get_artifact w k = Some a \<Longrightarrow> k \<noteq> ar_artifact_id r \<Longrightarrow> artifact_key a \<noteq> artifact_key r"
  shows "artifacts_ok e (save_artifact r w)"
proof -
  have present: "payload_present e (save_artifact r w) a = payload_present e w a" for a
    by (simp add: payload_present_def)
  show ?thesis
    unfolding artifacts_ok_def
  proof (intro conjI allI impI)
    fix k a k' a'
    assume "get_artifact (save_artifact r w) k = Some a" "get_artifact (save_artifact r w) k' = Some a'"
      "artifact_key a = artifact_key a'"
    then show "k = k'"
      using assms(1) assms(3) [of k a] assms(3) [of k' a']
      by (auto simp: artifacts_ok_def split: if_splits)
  next
    fix k a assume "get_artifact (save_artifact r w) k = Some a"
    then show "ar_artifact_id a = k" and "payload_present e (save_artifact r w) a"
      using assms(1,2) by (auto simp: artifacts_ok_def present split: if_splits)
  qed
qed

lemma persist_keeps_ok:
  assumes "artifacts_ok e w" and "persist_json_artifact e hex q w = (r, w')"
    and "get_object w (object_key_of q (artifact_id_of (aq_domain q) hex)) = None"
  shows "artifacts_ok e w'"
proof -
  obtain w1 where st: "stage_json_artifact e hex q w = (r, w1)" and w': "w' = save_artifact r w1"
    using assms(2) by (auto simp: persist_json_artifact_def split: prod.splits)
  have "get_object w (artifact_key r) = None" using assms(3) by (simp add: stage_key [OF st])
  note ok = stage_keeps_ok [OF assms(1) st this]
  show ?thesis unfolding w' by (rule save_artifact_keeps_ok [OF ok(1,2)]) (rule ok(3))
qed

lemma fold_delete_object:
  "get_object (fold (\<lambda>r w. let key = parse_storage_reference (ar_storage_reference r)
                    in if key \<noteq> [] then delete_object key w else w) rs w) k
     = (if k \<noteq> [] \<and> k \<in> artifact_key ` set rs then None else get_object w k)"
  "get_artifact (fold (\<lambda>r w. let key = parse_storage_reference (ar_storage_reference r)
                    in if key \<noteq> [] then delete_object key w else w) rs w) k' = get_artifact w k'"
  by (induction rs arbitrary: w) (auto simp: Let_def get_object_def delete_object_def artifact_key_def get_artifact_def)

text \<open>Deleting published artifacts leaves neither their records nor their payloads, and every other artifact whole.\<close>

theorem deleted_artifacts_leave_nothing:
  assumes "artifacts_ok e w" and "\<And>r. r \<in> set rs \<Longrightarrow> get_artifact w (ar_artifact_id r) = Some r"
    and "\<And>r. r \<in> set rs \<Longrightarrow> artifact_key r \<noteq> []"
  defines "w' \<equiv> snd (delete_artifacts_with_payloads rs w)"
  shows "artifacts_ok e w'"
    and "\<And>r. r \<in> set rs \<Longrightarrow> get_artifact w' (ar_artifact_id r) = None \<and> get_object w' (artifact_key r) = None"
    and "\<And>k. k \<notin> ar_artifact_id ` set rs \<Longrightarrow> get_artifact w' k = get_artifact w k"
proof -
  have art: "get_artifact w' k = (if k \<in> ar_artifact_id ` set rs then None else get_artifact w k)" for k
    by (simp add: w'_def delete_artifacts_with_payloads_def delete_artifacts_pops fold_delete_object)
  have obj: "get_object w' k = (if k \<noteq> [] \<and> k \<in> artifact_key ` set rs then None else get_object w k)" for k
    using fold_delete_object(1) [of rs w k]
    by (simp add: w'_def delete_artifacts_with_payloads_def get_object_def)
  show "get_artifact w' (ar_artifact_id r) = None \<and> get_object w' (artifact_key r) = None" if "r \<in> set rs" for r
    using that assms(3) by (simp add: art obj)
  show "get_artifact w' k = get_artifact w k" if "k \<notin> ar_artifact_id ` set rs" for k using that by (simp add: art)
  show "artifacts_ok e w'"
    unfolding artifacts_ok_def
  proof (intro conjI allI impI)
    fix k a assume a: "get_artifact w' k = Some a"
    then have k: "k \<notin> ar_artifact_id ` set rs" and wk: "get_artifact w k = Some a" by (auto simp: art split: if_splits)
    then show "ar_artifact_id a = k" using assms(1) by (auto simp: artifacts_ok_def)
    have "artifact_key a \<notin> artifact_key ` set rs"
    proof
      assume "artifact_key a \<in> artifact_key ` set rs"
      then obtain r where "r \<in> set rs" "artifact_key a = artifact_key r" by auto
      then have "k = ar_artifact_id r" using assms(1) assms(2) wk unfolding artifacts_ok_def by metis
      then show False using k \<open>r \<in> set rs\<close> by simp
    qed
    then show "payload_present e w' a" using assms(1) wk by (simp add: artifacts_ok_def payload_present_key obj)
  next
    fix k a k' a'
    assume "get_artifact w' k = Some a" "get_artifact w' k' = Some a'" "artifact_key a = artifact_key a'"
    then show "k = k'" using assms(1) unfolding artifacts_ok_def by (auto simp: art split: if_splits)
  qed
qed

end
