(* ===== verification/Async_Runtime_Store.thy ===== *)
theory Async_Runtime_Store
  imports Artifact_Store Access_Control
begin

text \<open>
  The async runtime repository: \<^verbatim>\<open>repositories/async_runtime_repository.py\<close> (records and contract) and
  \<^verbatim>\<open>repositories/memory_async_runtime_repository.py\<close> (the five containers and the fenced claim operations).

  Lifecycle states are the strings the records hold. Clock readings are arguments: where the source takes a
  \<^verbatim>\<open>now_factory\<close>, the argument is the reading it returns. Every write is explicit state passing; an operation
  that raises returns the state with the writes made before the exception.

  The second half proves that the containers stay consistent (\<open>store_ok\<close>) and that every operation moves each job
  along the abstract lifecycle of one claim (\<open>life_step\<close>): generations are handed out in order and a generation
  that was given up is never held again.
\<close>

section \<open>Records\<close>

record async_job =
  aj_job_id :: string
  aj_job_type :: string
  aj_target_id :: "string option"
  aj_lifecycle_status :: string
  aj_submitted_at :: timestamp
  aj_caller_app :: string
  aj_correlation_id :: string
  aj_payload_summary :: string
  aj_execution_path :: string
  aj_related_evaluation_run_id :: "string option"
  aj_latest_message :: string
  aj_attempt_count :: nat
  aj_artifact_ids :: "string list"
  aj_tenant_id :: "string option"

record async_attempt =
  aa_attempt_id :: string
  aa_job_id :: string
  aa_attempt_number :: nat
  aa_lifecycle_status :: string
  aa_worker_id :: "string option"
  aa_claimed_at :: "timestamp option"
  aa_heartbeat_at :: "timestamp option"
  aa_started_at :: "timestamp option"
  aa_completed_at :: "timestamp option"
  aa_failure_reason :: "string option"
  aa_recorded_message :: string

record async_lease =
  al_lease_id :: string
  al_job_id :: string
  al_attempt_id :: string
  al_worker_id :: string
  al_claimed_at :: timestamp
  al_heartbeat_at :: timestamp
  al_lease_expires_at :: timestamp

record async_control_event =
  av_event_id :: string
  av_job_id :: string
  av_action_type :: string
  av_requested_by :: string
  av_approved_by :: "string option"
  av_reason :: string
  av_prior_status :: string
  av_resulting_status :: string
  av_affected_attempt_id :: "string option"
  av_authorization :: authorization_decision
  av_recorded_at :: timestamp

record async_claim =
  ak_job :: async_job
  ak_attempt :: async_attempt
  ak_lease :: async_lease

record async_claim_transition =
  at_job :: async_job
  at_attempt :: async_attempt
  at_lease :: "async_lease option"
  at_next_attempt :: "async_attempt option"

record async_recovery_transition =
  ar_job :: async_job
  ar_abandoned_attempt :: async_attempt
  ar_next_attempt :: async_attempt

record async_store =
  st_jobs :: "(string, async_job) dict"
  st_attempts :: "(string, async_attempt list) dict"
  st_leases_by_job :: "(string, async_lease) dict"
  st_lease_id_to_job :: "(string, string) dict"
  st_control_events :: "async_control_event list"

text \<open>A name between single quotes, as the services' messages quote it.\<close>

definition quoted :: "string \<Rightarrow> string" where
  "quoted x = CHR 0x27 # x @ [CHR 0x27]"

definition empty_async_store :: async_store where
  "empty_async_store = \<lparr>st_jobs = [], st_attempts = [], st_leases_by_job = [], st_lease_id_to_job = [],
     st_control_events = []\<rparr>"

section \<open>Reads and writes\<close>

definition list_jobs :: "async_store \<Rightarrow> async_job list" where
  "list_jobs s = sort_key aj_submitted_at (dict_values (st_jobs s))"

definition get_job :: "async_store \<Rightarrow> string \<Rightarrow> async_job option" where
  "get_job s j = dict_get (st_jobs s) j"

definition save_job :: "async_job \<Rightarrow> async_store \<Rightarrow> async_store" where
  "save_job r s = s\<lparr>st_jobs := dict_put (aj_job_id r) r (st_jobs s)\<rparr>"

text \<open>\<^verbatim>\<open>self._attempts.get(job_id, [])\<close>.\<close>

definition attempts_of :: "async_store \<Rightarrow> string \<Rightarrow> async_attempt list" where
  "attempts_of s j = (case dict_get (st_attempts s) j of None \<Rightarrow> [] | Some rs \<Rightarrow> rs)"

definition list_attempts :: "async_store \<Rightarrow> string \<Rightarrow> async_attempt list" where
  "list_attempts s j = sort_key aa_attempt_number (attempts_of s j)"

definition put_attempt :: "async_attempt \<Rightarrow> async_attempt list \<Rightarrow> async_attempt list" where
  "put_attempt r rs = filter (\<lambda>e. aa_attempt_id e \<noteq> aa_attempt_id r) rs @ [r]"

definition save_attempt :: "async_attempt \<Rightarrow> async_store \<Rightarrow> async_store" where
  "save_attempt r s = s\<lparr>st_attempts := dict_put (aa_job_id r) (put_attempt r (attempts_of s (aa_job_id r))) (st_attempts s)\<rparr>"

definition get_attempt :: "async_store \<Rightarrow> string \<Rightarrow> async_attempt option" where
  "get_attempt s aid = List.find (\<lambda>r. aa_attempt_id r = aid) (concat (dict_values (st_attempts s)))"

definition list_leases :: "async_store \<Rightarrow> async_lease list" where
  "list_leases s = sort_key al_claimed_at (dict_values (st_leases_by_job s))"

definition get_active_lease :: "async_store \<Rightarrow> string \<Rightarrow> async_lease option" where
  "get_active_lease s j = dict_get (st_leases_by_job s) j"

definition save_lease :: "async_lease \<Rightarrow> async_store \<Rightarrow> async_store" where
  "save_lease r s =
     (let moved = (case dict_get (st_lease_id_to_job s) (al_lease_id r) of
                     Some j \<Rightarrow> (if j \<noteq> al_job_id r then dict_pop j (st_leases_by_job s) else st_leases_by_job s)
                   | None \<Rightarrow> st_leases_by_job s)
      in s\<lparr>st_leases_by_job := dict_put (al_job_id r) r moved,
           st_lease_id_to_job := dict_put (al_lease_id r) (al_job_id r) (st_lease_id_to_job s)\<rparr>)"

definition delete_lease :: "string \<Rightarrow> async_store \<Rightarrow> nat \<times> async_store" where
  "delete_lease lid s =
     (case dict_get (st_lease_id_to_job s) lid of
        None \<Rightarrow> (0, s)
      | Some j \<Rightarrow> (1, s\<lparr>st_lease_id_to_job := dict_pop lid (st_lease_id_to_job s),
                        st_leases_by_job := dict_pop j (st_leases_by_job s)\<rparr>))"

text \<open>\<^verbatim>\<open>f"{job_id}_attempt_{n:03d}"\<close> and \<^verbatim>\<open>f"{job_id}_lease_{n:03d}"\<close>.\<close>

definition attempt_id_of :: "string \<Rightarrow> nat \<Rightarrow> string" where
  "attempt_id_of j n = j @ ''_attempt_'' @ pad 3 n"

definition lease_id_of :: "string \<Rightarrow> nat \<Rightarrow> string" where
  "lease_id_of j n = j @ ''_lease_'' @ pad 3 n"

section \<open>Claims\<close>

record claim_request =
  cq_worker_id :: string
  cq_claimed_at :: timestamp
  cq_heartbeat_at :: timestamp
  cq_lease_expires_at :: timestamp
  cq_latest_message :: string
  cq_attempt_message :: string

text \<open>The common body of the two claim operations: the last attempt is claimed, with the job and a new lease.\<close>

definition claim_attempt :: "claim_request \<Rightarrow> async_job \<Rightarrow> async_attempt \<Rightarrow> async_store \<Rightarrow> async_claim \<times> async_store" where
  "claim_attempt q job current s =
     (let claimed_attempt = current\<lparr>aa_lifecycle_status := ''CLAIMED'', aa_worker_id := Some (cq_worker_id q),
             aa_claimed_at := Some (cq_claimed_at q), aa_heartbeat_at := Some (cq_heartbeat_at q),
             aa_recorded_message := cq_attempt_message q\<rparr>;
          claimed_job = job\<lparr>aj_lifecycle_status := ''CLAIMED'', aj_latest_message := cq_latest_message q\<rparr>;
          lease = \<lparr>al_lease_id = lease_id_of (aj_job_id job) (aa_attempt_number current), al_job_id = aj_job_id job,
             al_attempt_id = aa_attempt_id current, al_worker_id = cq_worker_id q, al_claimed_at = cq_claimed_at q,
             al_heartbeat_at = cq_heartbeat_at q, al_lease_expires_at = cq_lease_expires_at q\<rparr>
      in (\<lparr>ak_job = claimed_job, ak_attempt = claimed_attempt, ak_lease = lease\<rparr>,
          save_lease lease (save_job claimed_job (save_attempt claimed_attempt s))))"

definition runnable :: "string list option \<Rightarrow> async_store \<Rightarrow> async_job \<Rightarrow> bool" where
  "runnable types s job \<longleftrightarrow> aj_lifecycle_status job = ''QUEUED''
     \<and> (case types of None \<Rightarrow> True | Some ts \<Rightarrow> aj_job_type job \<in> set ts)
     \<and> get_active_lease s (aj_job_id job) = None \<and> attempts_of s (aj_job_id job) \<noteq> []"

definition claim_next_runnable_job ::
  "string list option \<Rightarrow> claim_request \<Rightarrow> async_store \<Rightarrow> async_claim option \<times> async_store" where
  "claim_next_runnable_job types q s =
     (case List.find (runnable types s) (list_jobs s) of
        None \<Rightarrow> (None, s)
      | Some job \<Rightarrow>
        (let (c, s') = claim_attempt q job (last (list_attempts s (aj_job_id job))) s in (Some c, s')))"

definition claim_runnable_job_by_id ::
  "string \<Rightarrow> claim_request \<Rightarrow> async_store \<Rightarrow> async_claim option \<times> async_store" where
  "claim_runnable_job_by_id j q s =
     (case get_job s j of
        None \<Rightarrow> (None, s)
      | Some job \<Rightarrow>
        (if aj_lifecycle_status job \<noteq> ''QUEUED'' \<or> get_active_lease s j \<noteq> None \<or> attempts_of s j = [] then (None, s)
         else let (c, s') = claim_attempt q job (last (list_attempts s j)) s in (Some c, s')))"

section \<open>Fenced transitions\<close>

text \<open>\<^verbatim>\<open>x or y\<close> on optional texts: the empty text is false as well.\<close>

definition or_text :: "string option \<Rightarrow> string \<Rightarrow> string" where
  "or_text x y = (case x of Some v \<Rightarrow> (if v = [] then y else v) | None \<Rightarrow> y)"

record claim_change =
  ct_job_id :: string
  ct_worker_id :: string
  ct_attempt_id :: string
  ct_now :: "timestamp option"
  ct_now_factory :: "timestamp option"
  ct_job_status :: "string option"
  ct_job_message :: "string option"
  ct_attempt_status :: "string option"
  ct_attempt_message :: string
  ct_failure_reason :: "string option"
  ct_lease_expires_at :: "timestamp option"
  ct_terminal_artifact :: "artifact option"
  ct_next_attempt_message :: "string option"
  ct_lease_extension_seconds :: "nat option"

definition effective_now :: "timestamp option \<Rightarrow> timestamp option \<Rightarrow> timestamp option" where
  "effective_now factory now = (case factory of Some t \<Rightarrow> Some t | None \<Rightarrow> now)"

definition extend_lease :: "timestamp \<Rightarrow> nat \<Rightarrow> timestamp result" where
  "extend_lease now seconds =
     (case fromisoformat now of
        Inl e \<Rightarrow> Inl e
      | Inr t \<Rightarrow> (case add_seconds seconds t of Inl e \<Rightarrow> Inl e | Inr t' \<Rightarrow> Inr (utc_text t')))"

definition queued_attempt :: "string \<Rightarrow> nat \<Rightarrow> string \<Rightarrow> async_attempt" where
  "queued_attempt j n msg =
     \<lparr>aa_attempt_id = attempt_id_of j n, aa_job_id = j, aa_attempt_number = n, aa_lifecycle_status = ''QUEUED'',
      aa_worker_id = None, aa_claimed_at = None, aa_heartbeat_at = None, aa_started_at = None,
      aa_completed_at = None, aa_failure_reason = None, aa_recorded_message = msg\<rparr>"

definition active_status :: "string \<Rightarrow> bool" where
  "active_status st \<longleftrightarrow> st = ''CLAIMED'' \<or> st = ''RUNNING''"

definition updated_attempt :: "claim_change \<Rightarrow> timestamp \<Rightarrow> async_attempt \<Rightarrow> async_attempt" where
  "updated_attempt c now a =
     a\<lparr>aa_lifecycle_status := or_text (ct_attempt_status c) (aa_lifecycle_status a),
       aa_heartbeat_at := Some now,
       aa_started_at := (if ct_attempt_status c = Some ''RUNNING'' \<and> aa_started_at a = None then Some now else aa_started_at a),
       aa_completed_at := (if ct_attempt_status c \<in> {Some ''COMPLETED'', Some ''FAILED'', Some ''ABANDONED''}
                           then Some now else aa_completed_at a),
       aa_failure_reason := ct_failure_reason c, aa_recorded_message := ct_attempt_message c\<rparr>"

definition updated_job :: "claim_change \<Rightarrow> async_attempt option \<Rightarrow> async_job \<Rightarrow> async_job" where
  "updated_job c successor job =
     job\<lparr>aj_lifecycle_status := or_text (ct_job_status c) (aj_lifecycle_status job),
         aj_latest_message := or_text (ct_job_message c) (aj_latest_message job),
         aj_attempt_count := (case successor of Some n \<Rightarrow> aa_attempt_number n | None \<Rightarrow> aj_attempt_count job),
         aj_artifact_ids := (case ct_terminal_artifact c of
              Some a \<Rightarrow> aj_artifact_ids job @ [ar_artifact_id a] | None \<Rightarrow> aj_artifact_ids job)\<rparr>"

text \<open>The writes of an accepted transition.\<close>

definition successor_of :: "claim_change \<Rightarrow> async_job \<Rightarrow> async_attempt option" where
  "successor_of c job = map_option (queued_attempt (aj_job_id job) (aj_attempt_count job + 1)) (ct_next_attempt_message c)"

definition write_claim_change ::
  "claim_change \<Rightarrow> timestamp \<Rightarrow> async_attempt \<Rightarrow> async_job \<Rightarrow> async_store \<Rightarrow> async_store" where
  "write_claim_change c now attempt job s =
     (let s1 = save_job (updated_job c (successor_of c job) job) (save_attempt (updated_attempt c now attempt) s)
      in case successor_of c job of Some n \<Rightarrow> save_attempt n s1 | None \<Rightarrow> s1)"

definition apply_claim_change ::
  "claim_change \<Rightarrow> timestamp \<Rightarrow> async_lease \<Rightarrow> async_attempt \<Rightarrow> async_job \<Rightarrow> async_store
     \<Rightarrow> async_claim_transition option result \<times> async_store" where
  "apply_claim_change c now lease attempt job s =
     (let changed = \<lparr>at_job = updated_job c (successor_of c job) job, at_attempt = updated_attempt c now attempt,
                     at_lease = None, at_next_attempt = successor_of c job\<rparr>;
          s2 = write_claim_change c now attempt job s
      in if ct_lease_expires_at c = None \<and> ct_lease_extension_seconds c = None
         then (Inr (Some changed), snd (delete_lease (al_lease_id lease) s2))
         else
           (case (case ct_lease_extension_seconds c of
                    Some n \<Rightarrow> extend_lease now n
                  | None \<Rightarrow> Inr (the (ct_lease_expires_at c))) of
              Inl e \<Rightarrow> (Inl e, s2)
            | Inr expiry \<Rightarrow>
                let lease' = lease\<lparr>al_heartbeat_at := now, al_lease_expires_at := expiry\<rparr>
                in (Inr (Some (changed\<lparr>at_lease := Some lease'\<rparr>)), save_lease lease' s2)))"

definition transition_current_claim ::
  "claim_change \<Rightarrow> async_store \<Rightarrow> async_claim_transition option result \<times> async_store" where
  "transition_current_claim c s =
     (case effective_now (ct_now_factory c) (ct_now c) of
        None \<Rightarrow> (Inl (ValueError ''claim_transition_timestamp''), s)
      | Some now \<Rightarrow>
        (case (get_active_lease s (ct_job_id c), get_attempt s (ct_attempt_id c), get_job s (ct_job_id c)) of
           (Some lease, Some attempt, Some job) \<Rightarrow>
             (if al_worker_id lease \<noteq> ct_worker_id c \<or> al_attempt_id lease \<noteq> ct_attempt_id c
                 \<or> al_lease_expires_at lease \<le> now \<or> \<not> active_status (aj_lifecycle_status job)
              then (Inr None, s)
              else apply_claim_change c now lease attempt job s)
         | _ \<Rightarrow> (Inr None, s)))"

definition recover_expired_claim ::
  "string \<Rightarrow> timestamp option \<Rightarrow> timestamp option \<Rightarrow> string \<Rightarrow> async_store
     \<Rightarrow> async_recovery_transition option result \<times> async_store" where
  "recover_expired_claim j recovered_at factory msg s =
     (case effective_now factory recovered_at of
        None \<Rightarrow> (Inl (ValueError ''claim_recovery_timestamp''), s)
      | Some now \<Rightarrow>
        (case (get_active_lease s j, get_job s j) of
           (Some lease, Some job) \<Rightarrow>
             (if al_lease_expires_at lease > now \<or> \<not> active_status (aj_lifecycle_status job) then (Inr None, s)
              else
                (case get_attempt s (al_attempt_id lease) of
                   None \<Rightarrow> (Inr None, s)
                 | Some attempt \<Rightarrow>
                   let next = queued_attempt (aj_job_id job) (aj_attempt_count job + 1) msg;
                       abandoned = attempt\<lparr>aa_lifecycle_status := ''ABANDONED'', aa_heartbeat_at := Some (al_heartbeat_at lease),
                          aa_completed_at := Some now, aa_failure_reason := Some ''LEASE_EXPIRED'',
                          aa_recorded_message := ''Attempt abandoned after lease expiry and queued for recovery.''\<rparr>;
                       queued = job\<lparr>aj_lifecycle_status := ''QUEUED'', aj_latest_message := msg,
                          aj_attempt_count := aa_attempt_number next\<rparr>
                   in (Inr (Some \<lparr>ar_job = queued, ar_abandoned_attempt = abandoned, ar_next_attempt = next\<rparr>),
                       snd (delete_lease (al_lease_id lease)
                         (save_job queued (save_attempt next (save_attempt abandoned s)))))))
         | _ \<Rightarrow> (Inr None, s)))"

section \<open>Deletion and control events\<close>

definition delete_job_record :: "string \<Rightarrow> async_store \<Rightarrow> (nat \<times> nat \<times> nat) \<times> async_store" where
  "delete_job_record j s =
     (let jobs = (if get_job s j = None then 0 else 1);
          attempts = length (attempts_of s j);
          s1 = s\<lparr>st_jobs := dict_pop j (st_jobs s), st_attempts := dict_pop j (st_attempts s)\<rparr>
      in case get_active_lease s j of
           None \<Rightarrow> ((jobs, attempts, 0), s1)
         | Some l \<Rightarrow> ((jobs, attempts, 1),
              s1\<lparr>st_leases_by_job := dict_pop j (st_leases_by_job s1),
                 st_lease_id_to_job := dict_pop (al_lease_id l) (st_lease_id_to_job s1)\<rparr>))"

fun delete_job_records :: "string list \<Rightarrow> async_store \<Rightarrow> (nat \<times> nat \<times> nat) \<times> async_store" where
  "delete_job_records [] s = ((0, 0, 0), s)"
| "delete_job_records (j # js) s =
     (let ((jobs, attempts, leases), s1) = delete_job_record j s;
          ((jobs', attempts', leases'), s2) = delete_job_records js s1
      in ((jobs + jobs', attempts + attempts', leases + leases'), s2))"

definition list_control_events :: "int \<Rightarrow> string option \<Rightarrow> async_store \<Rightarrow> async_control_event list" where
  "list_control_events limit j s =
     take (nat (max limit 1)) (sorted_desc av_recorded_at
       (filter (\<lambda>r. case j of None \<Rightarrow> True | Some k \<Rightarrow> av_job_id r = k) (st_control_events s)))"

definition delete_control_events :: "string list \<Rightarrow> async_store \<Rightarrow> nat \<times> async_store" where
  "delete_control_events ids s =
     (let kept = filter (\<lambda>r. av_event_id r \<notin> set ids) (st_control_events s)
      in (length (st_control_events s) - length kept, s\<lparr>st_control_events := kept\<rparr>))"

definition save_control_event :: "async_control_event \<Rightarrow> async_store \<Rightarrow> async_store" where
  "save_control_event r s =
     s\<lparr>st_control_events := filter (\<lambda>e. av_event_id e \<noteq> av_event_id r) (st_control_events s) @ [r]\<rparr>"

section \<open>Identifiers\<close>

lemma digit_suffix_unique:
  assumes "xs @ [c] @ d = xs' @ [c'] @ d'" and "list_all is_digit d" and "list_all is_digit d'"
    and "\<not> is_digit c" and "\<not> is_digit c'"
  shows "xs = xs'" and "d = d'"
proof -
  have tw: "takeWhile is_digit (rev (ys @ [b] @ e)) = rev e" if "list_all is_digit e" and "\<not> is_digit b" for ys b e
  proof -
    have "takeWhile is_digit (rev e @ b # rev ys) = rev e @ takeWhile is_digit (b # rev ys)"
      using that(1) by (intro takeWhile_append2) (simp add: list_all_iff)
    then show ?thesis using that(2) by simp
  qed
  have "rev d = rev d'" using tw [OF assms(2,4), of xs] tw [OF assms(3,5), of xs'] assms(1) by metis
  then show "d = d'" by simp
  with assms(1) show "xs = xs'" by simp
qed

lemma numbered_id_inject:
  assumes "j @ mid @ [c] @ pad 3 n = j' @ mid @ [c] @ pad 3 n'" and "\<not> is_digit c"
  shows "j = j' \<and> n = n'"
proof -
  have eq: "(j @ mid) @ [c] @ pad 3 n = (j' @ mid) @ [c] @ pad 3 n'" using assms(1) by simp
  have d: "list_all is_digit (pad 3 n)" "list_all is_digit (pad 3 n')" by simp_all
  from digit_suffix_unique [OF eq d assms(2,2)] show ?thesis by (simp add: zero_pad_nat_str_inject)
qed

lemma attempt_id_inject [simp]: "attempt_id_of j n = attempt_id_of j' n' \<longleftrightarrow> j = j' \<and> n = n'"
  using numbered_id_inject [of j "''_attempt''" "CHR ''_''" n j' n'] by (auto simp: attempt_id_of_def)

lemma lease_id_inject [simp]: "lease_id_of j n = lease_id_of j' n' \<longleftrightarrow> j = j' \<and> n = n'"
  using numbered_id_inject [of j "''_lease''" "CHR ''_''" n j' n'] by (auto simp: lease_id_of_def)


section \<open>What the writes change\<close>

abbreviation lease_owner :: "async_store \<Rightarrow> string \<Rightarrow> string option" where
  "lease_owner s lid \<equiv> dict_get (st_lease_id_to_job s) lid"

lemma get_job_writes [simp, store_simps]:
  "get_job (save_job r s) j = (if j = aj_job_id r then Some r else get_job s j)"
  "get_job (save_attempt a s) j = get_job s j"
  "get_job (save_lease l s) j = get_job s j"
  "get_job (snd (delete_lease lid s)) j = get_job s j"
  "get_job (save_control_event e s) j = get_job s j"
  by (simp_all add: get_job_def save_job_def save_attempt_def save_lease_def delete_lease_def save_control_event_def
      Let_def split: option.splits)

lemma attempts_of_writes [simp, store_simps]:
  "attempts_of (save_job r s) j = attempts_of s j"
  "attempts_of (save_attempt a s) j = (if j = aa_job_id a then put_attempt a (attempts_of s j) else attempts_of s j)"
  "attempts_of (save_lease l s) j = attempts_of s j"
  "attempts_of (snd (delete_lease lid s)) j = attempts_of s j"
  "attempts_of (save_control_event e s) j = attempts_of s j"
  by (simp_all add: attempts_of_def save_job_def save_attempt_def save_lease_def delete_lease_def save_control_event_def
      Let_def split: option.splits)

lemma lease_writes [simp, store_simps]:
  "get_active_lease (save_job r s) j = get_active_lease s j"
  "get_active_lease (save_attempt a s) j = get_active_lease s j"
  "get_active_lease (save_control_event e s) j = get_active_lease s j"
  "lease_owner (save_job r s) lid = lease_owner s lid"
  "lease_owner (save_attempt a s) lid = lease_owner s lid"
  "lease_owner (save_control_event e s) lid = lease_owner s lid"
  "lease_owner (save_lease l s) lid = (if lid = al_lease_id l then Some (al_job_id l) else lease_owner s lid)"
  by (simp_all add: get_active_lease_def save_job_def save_attempt_def save_lease_def save_control_event_def Let_def)

lemma get_active_lease_save_lease:
  "lease_owner s (al_lease_id l) \<in> {None, Some (al_job_id l)} \<Longrightarrow>
     get_active_lease (save_lease l s) j = (if j = al_job_id l then Some l else get_active_lease s j)"
  by (auto simp: get_active_lease_def save_lease_def Let_def)

lemma delete_lease_effect:
  assumes "lease_owner s lid = Some k"
  shows "get_active_lease (snd (delete_lease lid s)) j = (if j = k then None else get_active_lease s j)"
    and "lease_owner (snd (delete_lease lid s)) lid' = (if lid' = lid then None else lease_owner s lid')"
  using assms by (simp_all add: get_active_lease_def delete_lease_def)

definition dicts_wf :: "async_store \<Rightarrow> bool" where
  "dicts_wf s \<longleftrightarrow> dict_wf (st_jobs s) \<and> dict_wf (st_attempts s)"

lemma dicts_wf_writes [simp, intro]:
  "dicts_wf s \<Longrightarrow> dicts_wf (save_job r s)"
  "dicts_wf s \<Longrightarrow> dicts_wf (save_attempt a s)"
  "dicts_wf s \<Longrightarrow> dicts_wf (save_lease l s)"
  "dicts_wf s \<Longrightarrow> dicts_wf (snd (delete_lease lid s))"
  "dicts_wf s \<Longrightarrow> dicts_wf (save_control_event e s)"
  by (simp_all add: dicts_wf_def save_job_def save_attempt_def save_lease_def delete_lease_def save_control_event_def
      Let_def split: option.splits)

lemma mem_list_jobs: "dicts_wf s \<Longrightarrow> job \<in> set (list_jobs s) \<longleftrightarrow> (\<exists>j. get_job s j = Some job)"
  by (simp add: list_jobs_def dict_value_iff_get dicts_wf_def get_job_def del: set_map)

interpretation job_records: keyed_repository aj_job_id get_job save_job
  by unfold_locales simp_all

section \<open>Consistency of one job\<close>

definition attempts_ok :: "string \<Rightarrow> nat \<Rightarrow> async_attempt list \<Rightarrow> bool" where
  "attempts_ok j n rs \<longleftrightarrow> distinct (map aa_attempt_id rs)
     \<and> (\<forall>r \<in> set rs. aa_job_id r = j \<and> aa_attempt_id r = attempt_id_of j (aa_attempt_number r) \<and> aa_attempt_number r \<le> n)
     \<and> (\<exists>!r. r \<in> set rs \<and> aa_attempt_number r = n)"

definition lease_matches :: "string \<Rightarrow> nat \<Rightarrow> async_attempt list \<Rightarrow> async_lease \<Rightarrow> bool" where
  "lease_matches j n rs l \<longleftrightarrow> al_job_id l = j \<and> (\<exists>k. al_lease_id l = lease_id_of j k)
     \<and> (\<exists>r \<in> set rs. aa_attempt_number r = n \<and> aa_attempt_id r = al_attempt_id l)"

type_synonym job_view = "async_job option \<times> async_attempt list \<times> async_lease option"

definition view :: "async_store \<Rightarrow> string \<Rightarrow> job_view" where
  "view s j = (get_job s j, attempts_of s j, get_active_lease s j)"

fun view_ok :: "string \<Rightarrow> job_view \<Rightarrow> bool" where
  "view_ok j (None, rs, lease) \<longleftrightarrow> rs = [] \<and> lease = None"
| "view_ok j (Some job, rs, lease) \<longleftrightarrow> aj_job_id job = j \<and> attempts_ok j (aj_attempt_count job) rs
     \<and> (case lease of
          None \<Rightarrow> \<not> active_status (aj_lifecycle_status job)
        | Some l \<Rightarrow> active_status (aj_lifecycle_status job) \<and> lease_matches j (aj_attempt_count job) rs l)"

definition owners_ok :: "async_store \<Rightarrow> bool" where
  "owners_ok s \<longleftrightarrow> (\<forall>lid j. lease_owner s lid = Some j \<longleftrightarrow> (\<exists>l. get_active_lease s j = Some l \<and> al_lease_id l = lid))"

definition store_ok :: "async_store \<Rightarrow> bool" where
  "store_ok s \<longleftrightarrow> dicts_wf s \<and> owners_ok s \<and> (\<forall>j. view_ok j (view s j))"

lemma store_okD:
  assumes "store_ok s"
  shows "dicts_wf s" "owners_ok s" "view_ok j (view s j)"
  using assms by (simp_all add: store_ok_def)

lemma job_okD:
  assumes "store_ok s" and "get_job s j = Some job"
  shows "aj_job_id job = j" and "attempts_ok j (aj_attempt_count job) (attempts_of s j)"
    and "active_status (aj_lifecycle_status job) \<longleftrightarrow> (\<exists>l. get_active_lease s j = Some l)"
  using store_okD(3) [OF assms(1), of j] assms(2) by (auto simp: view_def split: option.splits)

lemma lease_okD:
  assumes "store_ok s" and "get_active_lease s j = Some l"
  obtains job r n where "get_job s j = Some job" and "active_status (aj_lifecycle_status job)" and "al_job_id l = j"
    and "al_lease_id l = lease_id_of j n" and "r \<in> set (attempts_of s j)"
    and "aa_attempt_number r = aj_attempt_count job" and "aa_attempt_id r = al_attempt_id l"
  using store_okD(3) [OF assms(1), of j] assms(2)
  by (cases "get_job s j") (auto simp: view_def lease_matches_def)

lemma no_job_no_lease: "store_ok s \<Longrightarrow> get_job s j = None \<Longrightarrow> get_active_lease s j = None \<and> attempts_of s j = []"
  using store_okD(3) [of s j] by (simp add: view_def)

section \<open>Attempt lists\<close>

lemma attempts_ok_distinct_ids:
  "attempts_ok j n rs \<Longrightarrow> r \<in> set rs \<Longrightarrow> r' \<in> set rs \<Longrightarrow> aa_attempt_id r = aa_attempt_id r' \<Longrightarrow> r = r'"
  by (auto simp: attempts_ok_def distinct_map inj_on_def)

lemma set_put_attempt: "set (put_attempt r rs) = insert r {e \<in> set rs. aa_attempt_id e \<noteq> aa_attempt_id r}"
  by (auto simp: put_attempt_def)

lemma distinct_put_attempt: "distinct (map aa_attempt_id rs) \<Longrightarrow> distinct (map aa_attempt_id (put_attempt r rs))"
  by (auto simp: put_attempt_def distinct_map inj_on_def)

lemma attempts_ok_update:
  assumes "attempts_ok j n rs" and "r \<in> set rs" and "aa_attempt_id r' = aa_attempt_id r" and "aa_job_id r' = aa_job_id r"
    and "aa_attempt_number r' = aa_attempt_number r"
  shows "attempts_ok j n (put_attempt r' rs)"
proof -
  have others: "e \<in> set rs \<and> aa_attempt_id e \<noteq> aa_attempt_id r' \<longleftrightarrow> e \<in> set rs \<and> e \<noteq> r" for e
    using attempts_ok_distinct_ids [OF assms(1)] assms(2,3) by auto
  have mem: "e \<in> set (put_attempt r' rs) \<longleftrightarrow> e = r' \<or> e \<in> set rs \<and> e \<noteq> r" for e
    using others by (auto simp: set_put_attempt)
  obtain c where c: "c \<in> set rs" "aa_attempt_number c = n" "\<And>e. e \<in> set rs \<Longrightarrow> aa_attempt_number e = n \<Longrightarrow> e = c"
    using assms(1) by (auto simp: attempts_ok_def)
  have "\<exists>!e. e \<in> set (put_attempt r' rs) \<and> aa_attempt_number e = n"
  proof (cases "c = r")
    case True
    show ?thesis
    proof (rule ex1I [of _ r'])
      show "e = r'" if "e \<in> set (put_attempt r' rs) \<and> aa_attempt_number e = n" for e
        using that mem [of e] c(3) [of e] True by blast
    qed (use mem True c(2) assms(5) in simp)
  next
    case False
    show ?thesis
    proof (rule ex1I [of _ c])
      show "e = c" if e: "e \<in> set (put_attempt r' rs) \<and> aa_attempt_number e = n" for e
      proof (rule ccontr)
        assume "e \<noteq> c"
        then have "e = r'" using e mem [of e] c(3) [of e] by blast
        then have "aa_attempt_number r = n" using e assms(5) by simp
        then show False using c(3) [OF assms(2)] False by simp
      qed
    qed (use mem False c(1,2) in blast)
  qed
  moreover have "distinct (map aa_attempt_id (put_attempt r' rs))"
    using assms(1) by (intro distinct_put_attempt) (simp add: attempts_ok_def)
  moreover have "aa_job_id e = j \<and> aa_attempt_id e = attempt_id_of j (aa_attempt_number e) \<and> aa_attempt_number e \<le> n"
    if "e \<in> set (put_attempt r' rs)" for e
  proof -
    have all: "\<forall>e \<in> set rs. aa_job_id e = j \<and> aa_attempt_id e = attempt_id_of j (aa_attempt_number e) \<and> aa_attempt_number e \<le> n"
      using assms(1) by (simp add: attempts_ok_def)
    show ?thesis
    proof (cases "e = r'")
      case True
      then show ?thesis using all assms(2-5) by metis
    next
      case False
      then show ?thesis using all that mem by blast
    qed
  qed
  ultimately show ?thesis unfolding attempts_ok_def by simp
qed

lemma attempts_ok_successor:
  assumes "attempts_ok j n rs"
  shows "attempts_ok j (Suc n) (put_attempt (queued_attempt j (Suc n) m) rs)"
proof -
  let ?q = "queued_attempt j (Suc n) m"
  have all: "\<forall>e \<in> set rs. aa_job_id e = j \<and> aa_attempt_id e = attempt_id_of j (aa_attempt_number e) \<and> aa_attempt_number e \<le> n"
    using assms by (simp add: attempts_ok_def)
  have mem: "e = ?q \<or> e \<in> set rs" if "e \<in> set (put_attempt ?q rs)" for e using that by (auto simp: set_put_attempt)
  have q: "aa_job_id ?q = j" "aa_attempt_id ?q = attempt_id_of j (Suc n)" "aa_attempt_number ?q = Suc n"
    by (simp_all add: queued_attempt_def)
  have "\<exists>!e. e \<in> set (put_attempt ?q rs) \<and> aa_attempt_number e = Suc n"
  proof (rule ex1I [of _ ?q])
    show "e = ?q" if "e \<in> set (put_attempt ?q rs) \<and> aa_attempt_number e = Suc n" for e
      using that mem [of e] all by fastforce
  qed (simp add: set_put_attempt q)
  moreover have "distinct (map aa_attempt_id (put_attempt ?q rs))"
    using assms by (intro distinct_put_attempt) (simp add: attempts_ok_def)
  moreover have "aa_job_id e = j \<and> aa_attempt_id e = attempt_id_of j (aa_attempt_number e) \<and> aa_attempt_number e \<le> Suc n"
    if "e \<in> set (put_attempt ?q rs)" for e
    using mem [OF that] all q by (elim disjE) (auto intro: le_SucI)
  ultimately show ?thesis unfolding attempts_ok_def by simp
qed

lemma attempts_ok_first: "attempts_ok j (Suc 0) [r]"
  if "aa_job_id r = j" "aa_attempt_id r = attempt_id_of j (Suc 0)" "aa_attempt_number r = Suc 0"
  using that by (auto simp: attempts_ok_def)

lemma last_attempt_current:
  assumes "attempts_ok j n (attempts_of s j)"
  shows "last (list_attempts s j) \<in> set (attempts_of s j)" and "aa_attempt_number (last (list_attempts s j)) = n"
    and "\<And>r. r \<in> set (attempts_of s j) \<Longrightarrow> aa_attempt_number r = n \<Longrightarrow> r = last (list_attempts s j)"
proof -
  obtain c where c: "c \<in> set (attempts_of s j)" "aa_attempt_number c = n" using assms by (auto simp: attempts_ok_def)
  then have ne: "attempts_of s j \<noteq> []" by auto
  then show mem: "last (list_attempts s j) \<in> set (attempts_of s j)" by (simp add: list_attempts_def last_sort_key_in)
  have "n \<le> aa_attempt_number (last (list_attempts s j))"
    using last_sort_key_max [OF ne c(1), of aa_attempt_number] c(2) by (simp add: list_attempts_def)
  with mem assms show num: "aa_attempt_number (last (list_attempts s j)) = n" by (force simp: attempts_ok_def)
  show "r = last (list_attempts s j)" if "r \<in> set (attempts_of s j)" "aa_attempt_number r = n" for r
    using assms that mem num by (auto simp: attempts_ok_def)
qed

lemma attempts_ok_not_Nil: "attempts_ok j n rs \<Longrightarrow> rs \<noteq> []"
  by (auto simp: attempts_ok_def)

text \<open>Scanning every job's attempts finds the attempt with the identifier, whichever job is scanned first.\<close>

lemma get_attempt_iff:
  assumes "store_ok s"
  shows "get_attempt s aid = Some r \<longleftrightarrow> (\<exists>j. r \<in> set (attempts_of s j) \<and> aa_attempt_id r = aid)"
proof -
  have mem: "r \<in> set (concat (dict_values (st_attempts s))) \<longleftrightarrow> (\<exists>j. r \<in> set (attempts_of s j))" for r
  proof -
    have wf: "dict_wf (st_attempts s)" using store_okD(1) [OF assms] by (simp add: dicts_wf_def)
    have "r \<in> set (concat (dict_values (st_attempts s))) \<longleftrightarrow> (\<exists>j rs. dict_get (st_attempts s) j = Some rs \<and> r \<in> set rs)"
      unfolding set_concat using dict_value_iff_get [OF wf] by blast
    also have "\<dots> \<longleftrightarrow> (\<exists>j. r \<in> set (attempts_of s j))"
      unfolding attempts_of_def by (rule iff_exI) (case_tac "dict_get (st_attempts s) j", simp_all)
    finally show ?thesis .
  qed
  have job: "aa_job_id r = j \<and> aa_attempt_id r = attempt_id_of j (aa_attempt_number r) \<and> attempts_ok j n (attempts_of s j)"
    if "r \<in> set (attempts_of s j)" "get_job s j = Some job" "n = aj_attempt_count job" for r j n job
    using that job_okD(2) [OF assms that(2)] by (auto simp: attempts_ok_def)
  have has: "\<exists>job. get_job s j = Some job" if "r \<in> set (attempts_of s j)" for r j
    using that no_job_no_lease [OF assms, of j] by (cases "get_job s j") auto
  have uniq: "r = r'" if rr: "r \<in> set (attempts_of s j)" "r' \<in> set (attempts_of s j')" "aa_attempt_id r = aa_attempt_id r'"
    for r r' j j'
  proof -
    obtain jb where jb: "get_job s j = Some jb" using has [OF rr(1)] by blast
    obtain jb' where jb': "get_job s j' = Some jb'" using has [OF rr(2)] by blast
    from job [OF rr(1) jb refl] job [OF rr(2) jb' refl] rr(3) have "j = j'" by auto
    from job [OF rr(1) jb refl] have ok: "attempts_ok j (aj_attempt_count jb) (attempts_of s j)" by simp
    show ?thesis using attempts_ok_distinct_ids [OF ok rr(1) _ rr(3)] rr(2) \<open>j = j'\<close> by simp
  qed
  show ?thesis
  proof
    assume "get_attempt s aid = Some r"
    from find_Some_iff_list [OF this [unfolded get_attempt_def]]
    show "\<exists>j. r \<in> set (attempts_of s j) \<and> aa_attempt_id r = aid" unfolding mem by blast
  next
    assume "\<exists>j. r \<in> set (attempts_of s j) \<and> aa_attempt_id r = aid"
    then obtain j where j: "r \<in> set (attempts_of s j)" "aa_attempt_id r = aid" by auto
    then have "r \<in> set (concat (dict_values (st_attempts s)))" unfolding mem by blast
    then have "get_attempt s aid \<noteq> None" unfolding get_attempt_def find_None_iff_list using j(2) by blast
    then obtain r' where r': "get_attempt s aid = Some r'" by blast
    from find_Some_iff_list [OF this [unfolded get_attempt_def]]
    obtain j' where j': "r' \<in> set (attempts_of s j')" "aa_attempt_id r' = aid" unfolding mem by blast
    have "r = r'" using uniq [OF j(1) j'(1)] j(2) j'(2) by simp
    then show "get_attempt s aid = Some r" using r' by simp
  qed
qed

section \<open>The lifecycle of a claim\<close>

text \<open>
  The abstract specification: a job has a generation (its attempt count) and is waiting for a worker, held by one, or
  closed. Generations only grow, and inside a generation a job is first waiting, then held, then closed.
\<close>

datatype claim_phase = Waiting | Held string | Closed

type_synonym life_state = "(nat \<times> claim_phase) option"

inductive life_step :: "life_state \<Rightarrow> life_state \<Rightarrow> bool" where
  submitted: "life_step None (Some (Suc 0, Waiting))"
| claimed: "life_step (Some (n, Waiting)) (Some (n, Held w))"
| requeued: "life_step (Some (n, Held w)) (Some (Suc n, Waiting))"
| closed: "life_step (Some (n, Held w)) (Some (n, Closed))"
| quarantined: "life_step (Some (n, Waiting)) (Some (n, Closed))"
| replayed: "life_step (Some (n, Closed)) (Some (Suc n, Waiting))"

inductive_cases life_step_from_someE: "life_step (Some (n, p)) x"

definition phase_of :: "async_job \<Rightarrow> async_lease option \<Rightarrow> claim_phase" where
  "phase_of job lease =
     (if aj_lifecycle_status job = ''QUEUED'' then Waiting
      else if active_status (aj_lifecycle_status job)
           then (case lease of Some l \<Rightarrow> Held (al_worker_id l) | None \<Rightarrow> Closed)
      else Closed)"

definition life :: "async_store \<Rightarrow> string \<Rightarrow> life_state" where
  "life s j = map_option (\<lambda>job. (aj_attempt_count job, phase_of job (get_active_lease s j))) (get_job s j)"

fun phase_rank :: "claim_phase \<Rightarrow> nat" where
  "phase_rank Waiting = 0"
| "phase_rank (Held w) = 1"
| "phase_rank Closed = 2"

fun life_rank :: "life_state \<Rightarrow> nat" where
  "life_rank None = 0"
| "life_rank (Some (n, p)) = 3 * n + phase_rank p + 1"

lemma life_step_rank: "life_step a b \<Longrightarrow> life_rank a < life_rank b"
  by (induction rule: life_step.induct) auto

lemma life_steps_rank: "life_step\<^sup>*\<^sup>* a b \<Longrightarrow> a = b \<or> life_rank a < life_rank b"
  by (induction rule: rtranclp_induct) (auto dest: life_step_rank)

text \<open>A job that left the held phase of a generation is never held in that generation again.\<close>

lemma life_never_held_again:
  assumes "life_step\<^sup>*\<^sup>* (Some (n, Held w)) b" and "b \<noteq> Some (n, Held w)" and "life_step\<^sup>*\<^sup>* b c"
  shows "c \<noteq> Some (n, Held w')"
  using life_steps_rank [OF assms(1)] life_steps_rank [OF assms(3)] assms(2)
  by auto

definition moves :: "async_store \<Rightarrow> async_store \<Rightarrow> bool" where
  "moves s s' \<longleftrightarrow> (\<forall>j. life_step\<^sup>*\<^sup>* (life s j) (life s' j))"

lemma moves_refl [simp, intro]: "moves s s"
  by (simp add: moves_def)

lemma moves_trans [trans]: "moves s s' \<Longrightarrow> moves s' s'' \<Longrightarrow> moves s s''"
  unfolding moves_def by (blast intro: rtranclp_trans)

text \<open>An operation on one job: consistent, and one step of that job's lifecycle.\<close>

definition ok_move :: "async_store \<Rightarrow> async_store \<Rightarrow> bool" where
  "ok_move s s' \<longleftrightarrow> store_ok s' \<and> moves s s'"

lemma ok_move_refl [simp]: "store_ok s \<Longrightarrow> ok_move s s"
  by (simp add: ok_move_def)

lemma ok_move_trans: "ok_move s s' \<Longrightarrow> ok_move s' s'' \<Longrightarrow> ok_move s s''"
  unfolding ok_move_def by (blast intro: moves_trans)

lemma life_view: "view s j = view s' j \<Longrightarrow> life s j = life s' j"
  by (simp add: view_def life_def)

lemma local_change:
  assumes "store_ok s" and "dicts_wf s'" and "owners_ok s'" and "\<And>j. j \<noteq> k \<Longrightarrow> view s' j = view s j"
    and "view_ok k (view s' k)" and "life s k = life s' k \<or> life_step (life s k) (life s' k)"
  shows "ok_move s s'"
proof -
  have "view_ok j (view s' j)" for j using assms(1,4,5) by (cases "j = k") (simp_all add: store_ok_def)
  moreover have "life_step\<^sup>*\<^sup>* (life s j) (life s' j)" for j
  proof (cases "j = k")
    case True
    then show ?thesis using assms(6) by (auto simp: r_into_rtranclp)
  next
    case False
    then show ?thesis using life_view [OF assms(4)] by simp
  qed
  ultimately show ?thesis using assms(2,3) by (simp add: ok_move_def store_ok_def moves_def)
qed

section \<open>Consistency of the lease index\<close>

lemma owners_ok_writes [simp]:
  "owners_ok (save_job r s) = owners_ok s" "owners_ok (save_attempt a s) = owners_ok s"
  "owners_ok (save_control_event e s) = owners_ok s"
  by (simp_all add: owners_ok_def)

lemma owners_ok_delete_lease:
  assumes "owners_ok s" and "get_active_lease s k = Some l"
  shows "owners_ok (snd (delete_lease (al_lease_id l) s))"
    and "get_active_lease (snd (delete_lease (al_lease_id l) s)) j = (if j = k then None else get_active_lease s j)"
proof -
  have own: "lease_owner s (al_lease_id l) = Some k" using assms by (auto simp: owners_ok_def)
  note eff = delete_lease_effect [OF own]
  show "get_active_lease (snd (delete_lease (al_lease_id l) s)) j = (if j = k then None else get_active_lease s j)"
    by (rule eff)
  have uniq: "j = k" if "get_active_lease s j = Some la" "al_lease_id la = al_lease_id l" for j la
  proof -
    have "lease_owner s (al_lease_id l) = Some j" using assms(1) that by (auto simp: owners_ok_def)
    then show ?thesis using own by simp
  qed
  show "owners_ok (snd (delete_lease (al_lease_id l) s))"
    using assms(1) own uniq unfolding owners_ok_def by (auto simp: eff)
qed

text \<open>Saving a lease of a job that has none, or renewing the one it has.\<close>

lemma owners_ok_save_lease:
  assumes "store_ok s" and "owners_ok s'" and "\<And>j. get_active_lease s' j = get_active_lease s j"
    and "al_lease_id l = lease_id_of (al_job_id l) n"
    and "case get_active_lease s (al_job_id l) of None \<Rightarrow> True | Some l0 \<Rightarrow> al_lease_id l0 = al_lease_id l"
  shows "owners_ok (save_lease l s')"
    and "get_active_lease (save_lease l s') j = (if j = al_job_id l then Some l else get_active_lease s j)"
proof -
  have own: "lease_owner s' (al_lease_id l) = Some k \<Longrightarrow> k = al_job_id l" for k
  proof -
    assume "lease_owner s' (al_lease_id l) = Some k"
    then obtain l0 where "get_active_lease s k = Some l0" "al_lease_id l0 = al_lease_id l"
      using assms(2,3) by (auto simp: owners_ok_def)
    then show "k = al_job_id l" using assms(1,4) by (auto elim!: lease_okD)
  qed
  then have pre: "lease_owner s' (al_lease_id l) \<in> {None, Some (al_job_id l)}"
    by (cases "lease_owner s' (al_lease_id l)") auto
  note get = get_active_lease_save_lease [OF pre]
  show "get_active_lease (save_lease l s') j = (if j = al_job_id l then Some l else get_active_lease s j)"
    by (simp add: get assms(3))
  have own': "lease_owner s' lid = Some k \<longleftrightarrow> (\<exists>l0. get_active_lease s' k = Some l0 \<and> al_lease_id l0 = lid)" for lid k
    using assms(2) by (simp add: owners_ok_def)
  show "owners_ok (save_lease l s')"
    unfolding owners_ok_def
  proof (intro allI)
    fix lid k
    show "lease_owner (save_lease l s') lid = Some k \<longleftrightarrow>
        (\<exists>la. get_active_lease (save_lease l s') k = Some la \<and> al_lease_id la = lid)"
    proof (cases "k = al_job_id l")
      case True
      have "al_lease_id l0 = al_lease_id l" if "get_active_lease s' k = Some l0" for l0
        using that assms(5) True by (simp add: assms(3))
      then have "lid \<noteq> al_lease_id l \<Longrightarrow> lease_owner s' lid \<noteq> Some k" by (metis own')
      then show ?thesis using True by (auto simp: get)
    next
      case False
      have "al_lease_id l0 \<noteq> al_lease_id l" if "get_active_lease s' k = Some l0" for l0
        using own [of k] own' [of "al_lease_id l" k] that False by auto
      then show ?thesis using False own' [of lid k] by (auto simp: get)
    qed
  qed
qed

section \<open>Operations keep the store consistent\<close>

lemma active_status_simps [simp]:
  "active_status ''CLAIMED''" "active_status ''RUNNING''" "\<not> active_status ''QUEUED''" "\<not> active_status ''COMPLETED''"
  "\<not> active_status ''FAILED''" "\<not> active_status ''ABANDONED''" 
  by (simp_all add: active_status_def)

lemma active_not_queued: "active_status st \<Longrightarrow> st \<noteq> ''QUEUED''"
  by auto

lemma life_Some: "get_job s j = Some job \<Longrightarrow> life s j = Some (aj_attempt_count job, phase_of job (get_active_lease s j))"
  by (simp add: life_def)

lemma claim_attempt_ok:
  assumes "store_ok s" and "get_job s j = Some job" and "aj_lifecycle_status job = ''QUEUED''"
    and s'_def: "s' = snd (claim_attempt q job (last (list_attempts s j)) s)"
  shows "ok_move s s'" and "life s' j = Some (aj_attempt_count job, Held (cq_worker_id q))"
proof -
  let ?a = "last (list_attempts s j)"
  note ok = job_okD [OF assms(1,2)]
  note cur = last_attempt_current [OF ok(2)]
  have aj: "aa_job_id ?a = j" using cur(1) ok(2) by (auto simp: attempts_ok_def)
  have nolease: "get_active_lease s j = None" using ok(3) assms(3) by (cases "get_active_lease s j") auto
  define a' where "a' = ?a\<lparr>aa_lifecycle_status := ''CLAIMED'', aa_worker_id := Some (cq_worker_id q),
             aa_claimed_at := Some (cq_claimed_at q), aa_heartbeat_at := Some (cq_heartbeat_at q),
             aa_recorded_message := cq_attempt_message q\<rparr>"
  define job' where "job' = job\<lparr>aj_lifecycle_status := ''CLAIMED'', aj_latest_message := cq_latest_message q\<rparr>"
  define l where "l = \<lparr>al_lease_id = lease_id_of (aj_job_id job) (aa_attempt_number ?a), al_job_id = aj_job_id job,
             al_attempt_id = aa_attempt_id ?a, al_worker_id = cq_worker_id q, al_claimed_at = cq_claimed_at q,
             al_heartbeat_at = cq_heartbeat_at q, al_lease_expires_at = cq_lease_expires_at q\<rparr>"
  have s': "s' = save_lease l (save_job job' (save_attempt a' s))"
    by (simp add: s'_def claim_attempt_def a'_def job'_def l_def Let_def)
  have l: "al_job_id l = j" "al_lease_id l = lease_id_of (al_job_id l) (aa_attempt_number ?a)" "al_worker_id l = cq_worker_id q"
    "al_attempt_id l = aa_attempt_id a'" by (simp_all add: l_def ok(1) a'_def)
  have a': "aa_job_id a' = j" "aa_attempt_id a' = aa_attempt_id ?a" "aa_attempt_number a' = aa_attempt_number ?a"
    by (simp_all add: a'_def aj)
  have job': "aj_job_id job' = j" "aj_attempt_count job' = aj_attempt_count job" "aj_lifecycle_status job' = ''CLAIMED''"
    by (simp_all add: job'_def ok(1))
  have "owners_ok (save_job job' (save_attempt a' s))" using store_okD(2) [OF assms(1)] by simp
  note sl = owners_ok_save_lease [OF assms(1) this _ l(2)]
  have own: "owners_ok s'" unfolding s' by (rule sl) (simp_all add: l(1) nolease)
  have lease: "get_active_lease s' k = (if k = j then Some l else get_active_lease s k)" for k
    unfolding s' using sl(2) [of k] by (simp add: l(1) nolease)
  have view: "view s' k = (if k = j then (Some job', put_attempt a' (attempts_of s j), Some l) else view s k)" for k
    unfolding view_def lease by (simp add: s' a'(1) job'(1))
  have aok: "attempts_ok j (aj_attempt_count job) (put_attempt a' (attempts_of s j))"
    by (rule attempts_ok_update [OF ok(2) cur(1)]) (simp_all add: a' aj)
  show life': "life s' j = Some (aj_attempt_count job, Held (cq_worker_id q))"
    using view [of j] by (simp add: view_def life_def phase_of_def job' l(3))
  show "ok_move s s'"
  proof (rule local_change [OF assms(1) _ own])
    show "view_ok j (view s' j)"
      using aok by (auto simp: view job' lease_matches_def l a' cur(2) set_put_attempt)
    show "life s j = life s' j \<or> life_step (life s j) (life s' j)"
      unfolding life' by (simp add: life_Some [OF assms(2)] phase_of_def assms(3) life_step.claimed)
    show "dicts_wf s'" unfolding s' using store_okD(1) [OF assms(1)] by simp
  qed (simp add: view)
qed

text \<open>A claim that is given up: its attempt is rewritten, the job is closed or queued again, the lease goes.\<close>

lemma close_claim_ok:
  assumes "store_ok s" and "get_active_lease s j = Some l" and "get_job s j = Some job"
    and "a \<in> set (attempts_of s j)" and "aa_attempt_id a' = aa_attempt_id a" and "aa_job_id a' = aa_job_id a"
    and "aa_attempt_number a' = aa_attempt_number a"
    and "aj_job_id job' = j" and "aj_attempt_count job' = aj_attempt_count job"
    and "\<not> active_status (aj_lifecycle_status job')" and "aj_lifecycle_status job' \<noteq> ''QUEUED''"
    and s': "s' = snd (delete_lease (al_lease_id l) (save_job job' (save_attempt a' s)))"
  shows "ok_move s s'" and "life s' j = Some (aj_attempt_count job, Closed)"
proof -
  note ok = job_okD [OF assms(1,3)]
  have aj: "aa_job_id a' = j" using ok(2) assms(4,6) by (auto simp: attempts_ok_def)
  let ?t = "save_job job' (save_attempt a' s)"
  have own: "owners_ok ?t" and t: "get_active_lease ?t j = Some l"
    using store_okD(2) [OF assms(1)] assms(2) by simp_all
  note del = owners_ok_delete_lease [OF own t]
  have view: "view s' k = (if k = j then (Some job', put_attempt a' (attempts_of s j), None) else view s k)" for k
    unfolding view_def s' del(2) by (simp add: aj assms(8))
  have aok: "attempts_ok j (aj_attempt_count job) (put_attempt a' (attempts_of s j))"
    by (rule attempts_ok_update [OF ok(2) assms(4-7)])
  show life': "life s' j = Some (aj_attempt_count job, Closed)"
    using view [of j] assms(9-11) by (simp add: view_def life_def phase_of_def)
  have "phase_of job (Some l) = Held (al_worker_id l)"
    using assms(2) ok(3) active_not_queued by (auto simp: phase_of_def)
  then have life0: "life s j = Some (aj_attempt_count job, Held (al_worker_id l))"
    by (simp add: life_Some [OF assms(3)] assms(2))
  show "ok_move s s'"
  proof (rule local_change [OF assms(1)])
    show "owners_ok s'" unfolding s' by (rule del(1))
    show "view_ok j (view s' j)" using aok assms(8-10) by (simp add: view)
    show "life s j = life s' j \<or> life_step (life s j) (life s' j)"
      unfolding life' life0 by (simp add: life_step.closed)
    show "dicts_wf s'" unfolding s' using store_okD(1) [OF assms(1)] by simp
  qed (simp add: view)
qed

lemma requeue_claim_ok:
  assumes "store_ok s" and "get_active_lease s j = Some l" and "get_job s j = Some job"
    and "a \<in> set (attempts_of s j)" and "aa_attempt_id a' = aa_attempt_id a" and "aa_job_id a' = aa_job_id a"
    and "aa_attempt_number a' = aa_attempt_number a"
    and "aj_job_id job' = j" and "aj_attempt_count job' = Suc (aj_attempt_count job)"
    and "aj_lifecycle_status job' = ''QUEUED''"
    and view_t: "\<And>k. view t k = (if k = j then (Some job',
           put_attempt (queued_attempt j (Suc (aj_attempt_count job)) m) (put_attempt a' (attempts_of s j)), Some l) else view s k)"
    and "dicts_wf t" and "owners_ok t" and s': "s' = snd (delete_lease (al_lease_id l) t)"
  shows "ok_move s s'" and "life s' j = Some (Suc (aj_attempt_count job), Waiting)"
proof -
  note ok = job_okD [OF assms(1,3)]
  let ?rs = "put_attempt (queued_attempt j (Suc (aj_attempt_count job)) m) (put_attempt a' (attempts_of s j))"
  have t: "get_active_lease t j = Some l" using view_t [of j] by (simp add: view_def)
  note del = owners_ok_delete_lease [OF assms(13) t]
  have view: "view s' k = (if k = j then (Some job', ?rs, None) else view s k)" for k
    using view_t [of k] unfolding view_def s' del(2) by (auto split: if_splits)
  have "attempts_ok j (aj_attempt_count job) (put_attempt a' (attempts_of s j))"
    by (rule attempts_ok_update [OF ok(2) assms(4-7)])
  then have aok: "attempts_ok j (Suc (aj_attempt_count job)) ?rs" by (rule attempts_ok_successor)
  show life': "life s' j = Some (Suc (aj_attempt_count job), Waiting)"
    using view [of j] assms(9,10) by (simp add: view_def life_def phase_of_def)
  have "phase_of job (Some l) = Held (al_worker_id l)"
    using assms(2) ok(3) active_not_queued by (auto simp: phase_of_def)
  then have life0: "life s j = Some (aj_attempt_count job, Held (al_worker_id l))"
    by (simp add: life_Some [OF assms(3)] assms(2))
  show "ok_move s s'"
  proof (rule local_change [OF assms(1)])
    show "owners_ok s'" unfolding s' by (rule del(1))
    show "view_ok j (view s' j)" using aok assms(8-10) by (simp add: view)
    show "life s j = life s' j \<or> life_step (life s j) (life s' j)"
      unfolding life' life0 by (simp add: life_step.requeued)
    show "dicts_wf s'" unfolding s' using assms(12) by simp
  qed (simp add: view)
qed

text \<open>The changes the worker services ask for: renew a running claim, close it, or queue its successor.\<close>

definition renewal :: "claim_change \<Rightarrow> bool" where
  "renewal c \<longleftrightarrow> ct_lease_extension_seconds c \<noteq> None \<and> ct_job_status c \<in> {None, Some ''RUNNING''}
     \<and> ct_next_attempt_message c = None"

definition closing :: "claim_change \<Rightarrow> bool" where
  "closing c \<longleftrightarrow> ct_lease_expires_at c = None \<and> ct_lease_extension_seconds c = None
     \<and> ct_job_status c \<in> {Some ''COMPLETED'', Some ''FAILED''} \<and> ct_next_attempt_message c = None"

definition requeuing :: "claim_change \<Rightarrow> bool" where
  "requeuing c \<longleftrightarrow> ct_lease_expires_at c = None \<and> ct_lease_extension_seconds c = None
     \<and> ct_job_status c = Some ''QUEUED'' \<and> ct_next_attempt_message c \<noteq> None"

definition change_ok :: "claim_change \<Rightarrow> bool" where
  "change_ok c \<longleftrightarrow> renewal c \<or> closing c \<or> requeuing c"

lemma updated_attempt_same [simp]:
  "aa_attempt_id (updated_attempt c now a) = aa_attempt_id a" "aa_job_id (updated_attempt c now a) = aa_job_id a"
  "aa_attempt_number (updated_attempt c now a) = aa_attempt_number a"
  by (simp_all add: updated_attempt_def)

lemma updated_job_simps [simp]:
  "aj_job_id (updated_job c n job) = aj_job_id job"
  "aj_lifecycle_status (updated_job c n job) = or_text (ct_job_status c) (aj_lifecycle_status job)"
  "aj_attempt_count (updated_job c n job) = (case n of Some r \<Rightarrow> aa_attempt_number r | None \<Rightarrow> aj_attempt_count job)"
  by (simp_all add: updated_job_def)

lemma or_text_simps [simp]: "or_text None y = y" "or_text (Some (ch # cs)) y = ch # cs"
  by (simp_all add: or_text_def)

lemma transitionE:
  assumes "transition_current_claim c s = (res, s')"
  obtains (untimed) "res = Inl (ValueError ''claim_transition_timestamp'')" and "s' = s"
  | (fenced) "res = Inr None" and "s' = s"
  | (moved) now l a job where "effective_now (ct_now_factory c) (ct_now c) = Some now"
      and "get_active_lease s (ct_job_id c) = Some l" and "get_attempt s (ct_attempt_id c) = Some a"
      and "get_job s (ct_job_id c) = Some job" and "al_worker_id l = ct_worker_id c" and "al_attempt_id l = ct_attempt_id c"
      and "now < al_lease_expires_at l" and "active_status (aj_lifecycle_status job)"
      and "apply_claim_change c now l a job s = (res, s')"
  using assms unfolding transition_current_claim_def
  by (auto split: option.splits if_splits prod.splits simp: not_le)

lemma leased_attempt:
  assumes "store_ok s" and "get_active_lease s j = Some l" and "get_attempt s (al_attempt_id l) = Some a"
    and "get_job s j = Some job"
  shows "a \<in> set (attempts_of s j)" and "aa_attempt_number a = aj_attempt_count job" and "aa_attempt_id a = al_attempt_id l"
proof -
  obtain r where r: "r \<in> set (attempts_of s j)" "aa_attempt_id r = al_attempt_id l" "aa_attempt_number r = aj_attempt_count job"
    using assms(1,2,4) by (elim lease_okD) auto
  then have "get_attempt s (al_attempt_id l) = Some r" using get_attempt_iff [OF assms(1)] by blast
  with assms(3) r show "a \<in> set (attempts_of s j)" "aa_attempt_number a = aj_attempt_count job" "aa_attempt_id a = al_attempt_id l"
    by auto
qed

lemma renewal_ok:
  assumes "store_ok s" and "get_active_lease s j = Some l" and "get_job s j = Some job" and "a \<in> set (attempts_of s j)"
    and "renewal c" and "apply_claim_change c now l a job s = (res, s')"
  shows "ok_move s s'" and "life s' j = life s j"
proof -
  note ok = job_okD [OF assms(1,3)]
  have succ: "successor_of c job = None" using assms(5) by (simp add: successor_of_def renewal_def)
  define a' where "a' = updated_attempt c now a"
  define job' where "job' = updated_job c None job"
  define t where "t = save_job job' (save_attempt a' s)"
  have act: "active_status (aj_lifecycle_status job)" using ok(3) assms(2) by simp
  have job': "aj_job_id job' = j" "aj_attempt_count job' = aj_attempt_count job" "active_status (aj_lifecycle_status job')"
    using assms(5) act by (auto simp: job'_def ok(1) renewal_def)
  have aj: "aa_job_id a' = j" using ok(2) assms(4) by (auto simp: a'_def attempts_ok_def)
  have aok: "attempts_ok j (aj_attempt_count job) (put_attempt a' (attempts_of s j))"
    by (rule attempts_ok_update [OF ok(2) assms(4)]) (simp_all add: a'_def)
  obtain job0 r n where le: "al_job_id l = j" "al_lease_id l = lease_id_of j n" "r \<in> set (attempts_of s j)" "job0 = job"
    "aa_attempt_number r = aj_attempt_count job" "aa_attempt_id r = al_attempt_id l"
    using assms(1-3) by (elim lease_okD) auto
  have lm: "lease_matches j (aj_attempt_count job) (put_attempt a' (attempts_of s j)) l'"
    if "al_job_id l' = j" "al_lease_id l' = al_lease_id l" "al_attempt_id l' = al_attempt_id l" for l'
  proof -
    have "\<exists>r' \<in> set (put_attempt a' (attempts_of s j)). aa_attempt_number r' = aj_attempt_count job \<and> aa_attempt_id r' = al_attempt_id l"
    proof (cases "aa_attempt_id r = aa_attempt_id a")
      case True
      then have "r = a" using attempts_ok_distinct_ids [OF ok(2) le(3) assms(4)] by simp
      then show ?thesis using le by (intro bexI [of _ a']) (simp_all add: a'_def set_put_attempt)
    next
      case False
      then show ?thesis using le by (intro bexI [of _ r]) (simp_all add: a'_def set_put_attempt)
    qed
    then show ?thesis using that le(2) by (auto simp: lease_matches_def)
  qed
  have own: "owners_ok t" using store_okD(2) [OF assms(1)] by (simp add: t_def)
  have lt: "get_active_lease t k = get_active_lease s k" for k by (simp add: t_def)
  consider "s' = t" | h e where "s' = save_lease (l\<lparr>al_heartbeat_at := h, al_lease_expires_at := e\<rparr>) t"
    using assms(5,6) unfolding apply_claim_change_def write_claim_change_def succ
    by (auto simp: Let_def t_def job'_def a'_def renewal_def split: sum.splits option.splits)
  then obtain l' where l': "al_job_id l' = j" "al_lease_id l' = al_lease_id l" "al_attempt_id l' = al_attempt_id l"
    "al_worker_id l' = al_worker_id l"
    and lease: "\<And>k. get_active_lease s' k = (if k = j then Some l' else get_active_lease s k)"
    and rest: "owners_ok s'" "dicts_wf s'" "\<And>k. get_job s' k = get_job t k" "\<And>k. attempts_of s' k = attempts_of t k"
  proof cases
    case 1
    show ?thesis
    proof (rule that [of l])
      show "get_active_lease s' k = (if k = j then Some l else get_active_lease s k)" for k
        using assms(2) by (simp add: 1 lt)
    qed (use le own store_okD(1) [OF assms(1)] in \<open>simp_all add: 1 t_def\<close>)
  next
    case 2
    let ?l = "l\<lparr>al_heartbeat_at := h, al_lease_expires_at := e\<rparr>"
    have id: "al_lease_id ?l = lease_id_of (al_job_id ?l) n" using le by simp
    note sl = owners_ok_save_lease [OF assms(1) own lt id]
    show ?thesis
    proof (rule that [of ?l])
      show "get_active_lease s' k = (if k = j then Some ?l else get_active_lease s k)" for k
        using sl(2) [of k] assms(2) le(1) by (simp add: 2)
      show "owners_ok s'" unfolding 2 by (rule sl(1)) (use assms(2) le(1) in simp)
    qed (use le store_okD(1) [OF assms(1)] in \<open>simp_all add: 2 t_def\<close>)
  qed
  have view: "view s' k = (if k = j then (Some job', put_attempt a' (attempts_of s j), Some l') else view s k)" for k
    unfolding view_def lease rest(3,4) by (simp add: t_def aj job'(1))
  have "life s' j = Some (aj_attempt_count job', phase_of job' (Some l'))"
    using view [of j] by (simp add: view_def life_def)
  then show life': "life s' j = life s j"
    using act job' l'(4) active_not_queued by (auto simp: life_Some [OF assms(3)] assms(2) phase_of_def)
  show "ok_move s s'"
  proof (rule local_change [OF assms(1) rest(2,1)])
    show "view_ok j (view s' j)" using aok job' lm [OF l'(1-3)] by (simp add: view)
    show "life s j = life s' j \<or> life_step (life s j) (life s' j)" using life' by simp
  qed (simp add: view)
qed

lemma closing_ok:
  assumes "store_ok s" and "get_active_lease s j = Some l" and "get_job s j = Some job" and "a \<in> set (attempts_of s j)"
    and "closing c" and "apply_claim_change c now l a job s = (res, s')"
  shows "ok_move s s'" and "life s' j = Some (aj_attempt_count job, Closed)"
proof -
  note ok = job_okD [OF assms(1,3)]
  have succ: "successor_of c job = None" using assms(5) by (simp add: successor_of_def closing_def)
  have s': "s' = snd (delete_lease (al_lease_id l) (save_job (updated_job c None job) (save_attempt (updated_attempt c now a) s)))"
    using assms(5,6) unfolding apply_claim_change_def write_claim_change_def succ
    by (auto simp: Let_def closing_def)
  note cl = close_claim_ok [OF assms(1-4) _ _ _ _ _ _ _ s']
  show "ok_move s s'" by (rule cl) (use assms(5) ok(1) in \<open>auto simp: closing_def\<close>)
  show "life s' j = Some (aj_attempt_count job, Closed)"
    by (rule cl) (use assms(5) ok(1) in \<open>auto simp: closing_def\<close>)
qed

lemma requeuing_ok:
  assumes "store_ok s" and "get_active_lease s j = Some l" and "get_job s j = Some job" and "a \<in> set (attempts_of s j)"
    and "requeuing c" and "apply_claim_change c now l a job s = (res, s')"
  shows "ok_move s s'" and "life s' j = Some (Suc (aj_attempt_count job), Waiting)"
proof -
  note ok = job_okD [OF assms(1,3)]
  obtain m where m: "ct_next_attempt_message c = Some m" using assms(5) by (auto simp: requeuing_def)
  let ?q = "queued_attempt j (Suc (aj_attempt_count job)) m"
  have succ: "successor_of c job = Some ?q" using m ok(1) by (simp add: successor_of_def)
  define a' where "a' = updated_attempt c now a"
  define job' where "job' = updated_job c (Some ?q) job"
  define t where "t = save_attempt ?q (save_job job' (save_attempt a' s))"
  have s': "s' = snd (delete_lease (al_lease_id l) t)"
    using assms(5,6) unfolding apply_claim_change_def write_claim_change_def succ
    by (auto simp: Let_def requeuing_def t_def a'_def job'_def)
  have a': "aa_attempt_id a' = aa_attempt_id a" "aa_job_id a' = aa_job_id a" "aa_attempt_number a' = aa_attempt_number a"
    by (simp_all add: a'_def)
  have aj: "aa_job_id a' = j" using ok(2) assms(4) by (auto simp: a'_def attempts_ok_def)
  have q: "aa_job_id ?q = j" by (simp add: queued_attempt_def)
  have job': "aj_job_id job' = j" "aj_attempt_count job' = Suc (aj_attempt_count job)" "aj_lifecycle_status job' = ''QUEUED''"
    using assms(5) by (simp_all add: job'_def ok(1) requeuing_def queued_attempt_def)
  have view: "view t k = (if k = j then (Some job', put_attempt ?q (put_attempt a' (attempts_of s j)), Some l) else view s k)" for k
    using assms(2) by (simp add: view_def t_def aj job'(1) q)
  have wf: "dicts_wf t" "owners_ok t" using store_okD(1,2) [OF assms(1)] by (simp_all add: t_def)
  from requeue_claim_ok [OF assms(1-4) a' job' view wf s']
  show "ok_move s s'" and "life s' j = Some (Suc (aj_attempt_count job), Waiting)" .
qed

lemma transition_ok:
  assumes "store_ok s" and "change_ok c" and "transition_current_claim c s = (res, s')"
  shows "ok_move s s'"
  using assms(3)
proof (cases rule: transitionE)
  case (moved now l a job)
  have "get_attempt s (al_attempt_id l) = Some a" using moved by simp
  note a = leased_attempt(1) [OF assms(1) moved(2) this moved(4)]
  from assms(2) show ?thesis
    unfolding change_ok_def
    using renewal_ok(1) [OF assms(1) moved(2,4) a _ moved(9)] closing_ok(1) [OF assms(1) moved(2,4) a _ moved(9)]
      requeuing_ok(1) [OF assms(1) moved(2,4) a _ moved(9)] by blast
qed (use assms(1) in simp_all)

lemma recoverE:
  assumes "recover_expired_claim j recovered_at factory msg s = (res, s')"
  obtains (untimed) "res = Inl (ValueError ''claim_recovery_timestamp'')" and "s' = s" and "effective_now factory recovered_at = None"
  | (kept) now where "res = Inr None" and "s' = s" and "effective_now factory recovered_at = Some now"
      and "\<And>l job. get_active_lease s j = Some l \<Longrightarrow> get_job s j = Some job \<Longrightarrow>
             now < al_lease_expires_at l \<or> \<not> active_status (aj_lifecycle_status job) \<or> get_attempt s (al_attempt_id l) = None"
  | (recovered) now l a job t where "effective_now factory recovered_at = Some now"
      and "get_active_lease s j = Some l" and "get_attempt s (al_attempt_id l) = Some a"
      and "get_job s j = Some job" and "al_lease_expires_at l \<le> now" and "active_status (aj_lifecycle_status job)"
      and "res = Inr (Some t)"
      and "ar_job t = job\<lparr>aj_lifecycle_status := ''QUEUED'', aj_latest_message := msg,
                          aj_attempt_count := Suc (aj_attempt_count job)\<rparr>"
      and "ar_abandoned_attempt t = a\<lparr>aa_lifecycle_status := ''ABANDONED'', aa_heartbeat_at := Some (al_heartbeat_at l),
                          aa_completed_at := Some now, aa_failure_reason := Some ''LEASE_EXPIRED'',
                          aa_recorded_message := ''Attempt abandoned after lease expiry and queued for recovery.''\<rparr>"
      and "ar_next_attempt t = queued_attempt (aj_job_id job) (Suc (aj_attempt_count job)) msg"
      and "s' = snd (delete_lease (al_lease_id l)
                 (save_job (ar_job t) (save_attempt (ar_next_attempt t) (save_attempt (ar_abandoned_attempt t) s))))"
proof (cases "effective_now factory recovered_at")
  case None
  then show ?thesis using assms untimed by (simp add: recover_expired_claim_def)
next
  case (Some now)
  show ?thesis
  proof (cases "\<exists>l a job. get_active_lease s j = Some l \<and> get_job s j = Some job \<and> get_attempt s (al_attempt_id l) = Some a
      \<and> al_lease_expires_at l \<le> now \<and> active_status (aj_lifecycle_status job)")
    case True
    then obtain l a job where l: "get_active_lease s j = Some l" "get_job s j = Some job" "get_attempt s (al_attempt_id l) = Some a"
      "al_lease_expires_at l \<le> now" "active_status (aj_lifecycle_status job)" by blast
    have "\<exists>t. res = Inr (Some t)" using assms Some l by (auto simp: recover_expired_claim_def Let_def leD)
    then obtain t where t: "res = Inr (Some t)" by blast
    show ?thesis
      by (rule recovered [OF Some l(1,3,2,4,5) t]) (use assms Some l t in
        \<open>auto simp: recover_expired_claim_def Let_def leD queued_attempt_def\<close>)
  next
    case False
    then have "res = Inr None \<and> s' = s"
      using assms Some by (auto simp: recover_expired_claim_def not_less split: option.splits if_splits)
    then show ?thesis using kept [OF _ _ Some] False by (meson not_le option.exhaust)
  qed
qed

lemma recover_ok:
  assumes "store_ok s" and "recover_expired_claim j recovered_at factory msg s = (res, s')"
  shows "ok_move s s'"
    and "\<And>t. res = Inr (Some t) \<Longrightarrow> life s' j = Some (aj_attempt_count (ar_job t), Waiting)"
proof -
  have "ok_move s s' \<and> (\<forall>t. res = Inr (Some t) \<longrightarrow> life s' j = Some (aj_attempt_count (ar_job t), Waiting))"
    using assms(2)
  proof (cases rule: recoverE)
    case (recovered now l a job t)
    note ok = job_okD [OF assms(1) recovered(4)]
    note a = leased_attempt(1) [OF assms(1) recovered(2,3,4)]
    define u where "u = save_job (ar_job t) (save_attempt (ar_next_attempt t) (save_attempt (ar_abandoned_attempt t) s))"
    have next': "ar_next_attempt t = queued_attempt j (Suc (aj_attempt_count job)) msg" using recovered(10) ok(1) by simp
    have ab: "aa_attempt_id (ar_abandoned_attempt t) = aa_attempt_id a" "aa_job_id (ar_abandoned_attempt t) = aa_job_id a"
      "aa_attempt_number (ar_abandoned_attempt t) = aa_attempt_number a" by (simp_all add: recovered(9))
    have aj: "aa_job_id (ar_abandoned_attempt t) = j" using ok(2) a ab(2) by (auto simp: attempts_ok_def)
    have q: "aa_job_id (queued_attempt j (Suc (aj_attempt_count job)) msg) = j" by (simp add: queued_attempt_def)
    have jb: "aj_job_id (ar_job t) = j" "aj_attempt_count (ar_job t) = Suc (aj_attempt_count job)"
      "aj_lifecycle_status (ar_job t) = ''QUEUED''" by (simp_all add: recovered(8) ok(1))
    have view: "view u k = (if k = j then (Some (ar_job t),
        put_attempt (queued_attempt j (Suc (aj_attempt_count job)) msg) (put_attempt (ar_abandoned_attempt t) (attempts_of s j)), Some l)
        else view s k)" for k
      using recovered(2) by (simp add: view_def u_def aj jb(1) next' q)
    have wf: "dicts_wf u" "owners_ok u" using store_okD(1,2) [OF assms(1)] by (simp_all add: u_def)
    have s': "s' = snd (delete_lease (al_lease_id l) u)" using recovered(11) by (simp add: u_def)
    from requeue_claim_ok [OF assms(1) recovered(2,4) a ab jb view wf s'] show ?thesis
      using recovered(7) jb(2) by simp
  qed (use assms(1) in simp_all)
  then show "ok_move s s'" and "\<And>t. res = Inr (Some t) \<Longrightarrow> life s' j = Some (aj_attempt_count (ar_job t), Waiting)" by blast+
qed

text \<open>Writes on a job without a lease: a new job, a new attempt of a closed one, a closed queue entry, a new message.\<close>

lemma unleased_change:
  assumes "store_ok s" and "get_active_lease s j = None"
    and "view s' j = (Some job', rs', None)" and "\<And>k. k \<noteq> j \<Longrightarrow> view s' k = view s k"
    and "aj_job_id job' = j" and "attempts_ok j (aj_attempt_count job') rs'" and "\<not> active_status (aj_lifecycle_status job')"
    and "dicts_wf s'" and "owners_ok s'" and "life s j = life s' j \<or> life_step (life s j) (life s' j)"
  shows "ok_move s s'"
  using assms by (intro local_change [OF assms(1,8,9)]) simp_all

lemma submit_ok:
  assumes "store_ok s" and "get_job s j = None" and "aj_job_id job = j" and "aj_attempt_count job = Suc 0"
    and "aj_lifecycle_status job = ''QUEUED''" and "aa_job_id a = j" and "aa_attempt_id a = attempt_id_of j (Suc 0)"
    and "aa_attempt_number a = Suc 0"
  shows "ok_move s (save_attempt a (save_job job s))"
proof -
  have none: "get_active_lease s j = None" "attempts_of s j = []" using no_job_no_lease [OF assms(1,2)] by simp_all
  show ?thesis
  proof (rule unleased_change [OF assms(1) none(1)])
    show "view (save_attempt a (save_job job s)) j = (Some job, [a], None)"
      using assms(3,6) none by (simp add: view_def put_attempt_def)
    show "attempts_ok j (aj_attempt_count job) [a]" unfolding assms(4) by (rule attempts_ok_first [OF assms(6-8)])
    show "life s j = life (save_attempt a (save_job job s)) j \<or> life_step (life s j) (life (save_attempt a (save_job job s)) j)"
      using assms(2-5) by (simp add: life_def phase_of_def life_step.submitted)
  qed (use assms(3,5,6) store_okD(1,2) [OF assms(1)] in \<open>simp_all add: view_def\<close>)
qed

lemma requeue_closed_ok:
  assumes "store_ok s" and "get_job s j = Some job" and "\<not> active_status (aj_lifecycle_status job)"
    and "aj_lifecycle_status job \<noteq> ''QUEUED''"
    and "aj_job_id job' = j" and "aj_attempt_count job' = Suc (aj_attempt_count job)" and "aj_lifecycle_status job' = ''QUEUED''"
  shows "ok_move s (save_job job' (save_attempt (queued_attempt j (Suc (aj_attempt_count job)) m) s))"
proof -
  note ok = job_okD [OF assms(1,2)]
  have none: "get_active_lease s j = None" using ok(3) assms(3) by (cases "get_active_lease s j") auto
  have q: "aa_job_id (queued_attempt j (Suc (aj_attempt_count job)) m) = j" by (simp add: queued_attempt_def)
  let ?s' = "save_job job' (save_attempt (queued_attempt j (Suc (aj_attempt_count job)) m) s)"
  show ?thesis
  proof (rule unleased_change [OF assms(1) none])
    show "view ?s' j = (Some job', put_attempt (queued_attempt j (Suc (aj_attempt_count job)) m) (attempts_of s j), None)"
      using assms(5) none q by (simp add: view_def)
    show "life s j = life ?s' j \<or> life_step (life s j) (life ?s' j)"
      using assms none by (simp add: life_def phase_of_def life_step.replayed)
  qed (use assms(5-7) q attempts_ok_successor [OF ok(2)] store_okD(1,2) [OF assms(1)] in \<open>simp_all add: view_def\<close>)
qed

lemma quarantine_ok:
  assumes "store_ok s" and "get_job s j = Some job" and "aj_lifecycle_status job = ''QUEUED''"
    and "aj_job_id job' = j" and "aj_attempt_count job' = aj_attempt_count job"
    and "\<not> active_status (aj_lifecycle_status job')" and "aj_lifecycle_status job' \<noteq> ''QUEUED''"
    and "a \<in> set (attempts_of s j)" and "aa_attempt_id a' = aa_attempt_id a" and "aa_job_id a' = aa_job_id a"
    and "aa_attempt_number a' = aa_attempt_number a"
  shows "ok_move s (save_job job' (save_attempt a' s))"
proof -
  note ok = job_okD [OF assms(1,2)]
  have none: "get_active_lease s j = None" using ok(3) assms(3) by (cases "get_active_lease s j") auto
  have aj: "aa_job_id a' = j" using ok(2) assms(8,10) by (auto simp: attempts_ok_def)
  let ?s' = "save_job job' (save_attempt a' s)"
  show ?thesis
  proof (rule unleased_change [OF assms(1) none])
    show "view ?s' j = (Some job', put_attempt a' (attempts_of s j), None)"
      using assms(4) none aj by (simp add: view_def)
    show "life s j = life ?s' j \<or> life_step (life s j) (life ?s' j)"
      using assms none by (simp add: life_def phase_of_def life_step.quarantined)
  qed (use assms(4-6) aj attempts_ok_update [OF ok(2) assms(8-11)] store_okD(1,2) [OF assms(1)] in \<open>simp_all add: view_def\<close>)
qed

lemma remark_ok:
  assumes "store_ok s" and "get_job s j = Some job" and "aj_lifecycle_status job = ''QUEUED''"
    and "aj_job_id job' = j" and "aj_attempt_count job' = aj_attempt_count job" and "aj_lifecycle_status job' = ''QUEUED''"
  shows "ok_move s (save_job job' s)"
proof -
  note ok = job_okD [OF assms(1,2)]
  have none: "get_active_lease s j = None" using ok(3) assms(3) by (cases "get_active_lease s j") auto
  show ?thesis
  proof (rule unleased_change [OF assms(1) none])
    show "view (save_job job' s) j = (Some job', attempts_of s j, None)" using assms(4) none by (simp add: view_def)
    show "life s j = life (save_job job' s) j \<or> life_step (life s j) (life (save_job job' s) j)"
      using assms none by (simp add: life_def phase_of_def)
  qed (use assms(4-6) ok(2) store_okD(1,2) [OF assms(1)] in \<open>simp_all add: view_def\<close>)
qed

lemma control_event_ok: "store_ok s \<Longrightarrow> ok_move s (save_control_event e s)"
  using store_okD(3) [of s "[]"] by (intro local_change [of s _ "[]"]) (simp_all add: store_okD view_def life_def)

lemma claim_by_id_ok:
  assumes "store_ok s" and "claim_runnable_job_by_id j q s = (res, s')"
  shows "ok_move s s'"
  using assms(2) assms(1) claim_attempt_ok(1) [OF assms(1)]
  by (auto simp: claim_runnable_job_by_id_def split: option.splits if_splits prod.splits) (metis snd_conv)

lemma claim_next_ok:
  assumes "store_ok s" and "claim_next_runnable_job types q s = (res, s')"
  shows "ok_move s s'"
proof (cases "List.find (runnable types s) (list_jobs s)")
  case None
  then show ?thesis using assms by (simp add: claim_next_runnable_job_def)
next
  case (Some job)
  then have "job \<in> set (list_jobs s)" and run: "runnable types s job" by (auto dest: find_Some_iff_list)
  then obtain j where "get_job s j = Some job" using mem_list_jobs [OF store_okD(1) [OF assms(1)]] by blast
  then have job: "get_job s (aj_job_id job) = Some job" using job_okD(1) [OF assms(1)] by auto
  have "s' = snd (claim_attempt q job (last (list_attempts s (aj_job_id job))) s)"
    using assms(2) Some by (simp add: claim_next_runnable_job_def split: prod.splits)
  from claim_attempt_ok(1) [OF assms(1) job _ this] run show ?thesis by (simp add: runnable_def)
qed

text \<open>The generation a lease fences is the job's attempt count.\<close>

lemma lease_generation:
  assumes "store_ok s" and "get_active_lease s j = Some l"
  shows "\<exists>n. life s j = Some (n, Held (al_worker_id l)) \<and> al_attempt_id l = attempt_id_of j n"
proof -
  obtain job r where job: "get_job s j = Some job" "active_status (aj_lifecycle_status job)" and
    r: "r \<in> set (attempts_of s j)" "aa_attempt_number r = aj_attempt_count job" "aa_attempt_id r = al_attempt_id l"
    using assms by (elim lease_okD) auto
  have "aa_attempt_id r = attempt_id_of j (aa_attempt_number r)"
    using job_okD(2) [OF assms(1) job(1)] r(1) by (auto simp: attempts_ok_def)
  then show ?thesis using job r assms(2) active_not_queued
    by (auto simp: life_def phase_of_def intro!: exI [of _ "aj_attempt_count job"])
qed

text \<open>The fence: a change under another worker, another generation or an expired lease writes nothing.\<close>

lemma transition_fence:
  assumes "\<And>l. get_active_lease s (ct_job_id c) = Some l \<Longrightarrow>
      al_worker_id l \<noteq> ct_worker_id c \<or> al_attempt_id l \<noteq> ct_attempt_id c \<or> al_lease_expires_at l \<le> now"
    and "effective_now (ct_now_factory c) (ct_now c) = Some now"
  shows "transition_current_claim c s = (Inr None, s)"
  using assms by (fastforce simp: transition_current_claim_def split: option.splits)

lemma lost_claim_is_refused:
  assumes "store_ok s" and "store_ok s'" and "store_ok s''" and "moves s s'" and "moves s' s''"
    and "get_active_lease s j = Some l"
    and "\<And>l'. get_active_lease s' j = Some l' \<Longrightarrow> al_attempt_id l' \<noteq> al_attempt_id l \<or> al_worker_id l' \<noteq> al_worker_id l"
    and "get_active_lease s'' j = Some l''" and "al_attempt_id l'' = al_attempt_id l"
  shows "al_worker_id l'' \<noteq> al_worker_id l"
proof
  assume w: "al_worker_id l'' = al_worker_id l"
  obtain n where n: "life s j = Some (n, Held (al_worker_id l))" "al_attempt_id l = attempt_id_of j n"
    using lease_generation [OF assms(1,6)] by blast
  obtain m where m: "life s'' j = Some (m, Held (al_worker_id l))" "al_attempt_id l'' = attempt_id_of j m"
    using lease_generation [OF assms(3,8)] w by auto
  have "m = n" using n(2) m(2) assms(9) by simp
  have ne: "life s' j \<noteq> Some (n, Held (al_worker_id l))"
  proof
    assume h: "life s' j = Some (n, Held (al_worker_id l))"
    then obtain job where job: "get_job s' j = Some job" by (auto simp: life_def)
    then have "phase_of job (get_active_lease s' j) = Held (al_worker_id l)" using h by (simp add: life_def)
    then obtain l' where l': "get_active_lease s' j = Some l'" "al_worker_id l' = al_worker_id l"
      by (auto simp: phase_of_def split: if_splits option.splits)
    then show False using lease_generation [OF assms(2) l'(1)] h n(2) assms(7) [OF l'(1)] by auto
  qed
  have st1: "life_step\<^sup>*\<^sup>* (Some (n, Held (al_worker_id l))) (life s' j)" 
    using assms(4) unfolding n(1) [symmetric] moves_def by blast
  have st2: "life_step\<^sup>*\<^sup>* (life s' j) (life s'' j)" using assms(5) unfolding moves_def by blast
  from life_never_held_again [OF st1 ne st2, of "al_worker_id l"] show False using m(1) \<open>m = n\<close> by simp
qed

section \<open>Deletion\<close>

lemma delete_one_ok:
  assumes "store_ok s"
  shows "store_ok (snd (delete_job_record j s))"
    and "view (snd (delete_job_record j s)) k = (if k = j then (None, [], None) else view s k)"
proof -
  let ?s' = "snd (delete_job_record j s)"
  have jobs: "st_jobs ?s' = dict_pop j (st_jobs s)" and atts: "st_attempts ?s' = dict_pop j (st_attempts s)"
    by (auto simp: delete_job_record_def Let_def split: option.splits)
  have lease: "get_active_lease ?s' k = (if k = j then None else get_active_lease s k)" for k
    by (auto simp: delete_job_record_def Let_def get_active_lease_def split: option.splits)
  have view: "view ?s' k = (if k = j then (None, [], None) else view s k)" for k
    unfolding view_def lease get_job_def attempts_of_def jobs atts by simp
  then show "view ?s' k = (if k = j then (None, [], None) else view s k)" .
  have own0: "lease_owner s lid = Some k \<longleftrightarrow> (\<exists>l. get_active_lease s k = Some l \<and> al_lease_id l = lid)" for lid k
    using store_okD(2) [OF assms] by (simp add: owners_ok_def)
  have "owners_ok ?s'"
  proof (cases "get_active_lease s j")
    case None
    then have "lease_owner ?s' lid = lease_owner s lid" for lid by (simp add: delete_job_record_def Let_def)
    then have "lease_owner ?s' lid = Some k \<longleftrightarrow> (\<exists>l. get_active_lease ?s' k = Some l \<and> al_lease_id l = lid)" for lid k
      using own0 [of lid k] None unfolding lease by (cases "k = j") simp_all
    then show ?thesis unfolding owners_ok_def by blast
  next
    case (Some l)
    then have own: "lease_owner ?s' lid = (if lid = al_lease_id l then None else lease_owner s lid)" for lid
      by (simp add: delete_job_record_def Let_def)
    have uniq: "k = j" if "get_active_lease s k = Some la" "al_lease_id la = al_lease_id l" for k la
    proof -
      have "lease_owner s (al_lease_id l) = Some k" and "lease_owner s (al_lease_id l) = Some j"
        using own0 that Some by blast+
      then show ?thesis by simp
    qed
    have "lease_owner ?s' lid = Some k \<longleftrightarrow> (\<exists>la. get_active_lease ?s' k = Some la \<and> al_lease_id la = lid)" for lid k
    proof (cases "k = j")
      case True
      then show ?thesis unfolding lease own using own0 [of lid j] Some by auto
    next
      case False
      then show ?thesis unfolding lease own using own0 [of lid k] uniq [of k] by simp blast
    qed
    then show ?thesis unfolding owners_ok_def by blast
  qed
  moreover have "dicts_wf ?s'" using store_okD(1) [OF assms] unfolding dicts_wf_def jobs atts by simp
  moreover have "view_ok k (view ?s' k)" for k using store_okD(3) [OF assms, of k] by (simp add: view)
  ultimately show "store_ok ?s'" by (simp add: store_ok_def)
qed

lemma delete_job_records_Cons:
  "snd (delete_job_records (j # js) s) = snd (delete_job_records js (snd (delete_job_record j s)))"
  by (simp add: Let_def split_beta)

lemma delete_job_records_ok:
  assumes "store_ok s"
  shows "store_ok (snd (delete_job_records js s))"
    and "view (snd (delete_job_records js s)) k = (if k \<in> set js then (None, [], None) else view s k)"
proof -
  have "store_ok (snd (delete_job_records js s))
     \<and> view (snd (delete_job_records js s)) k = (if k \<in> set js then (None, [], None) else view s k)"
    using assms
  proof (induction js arbitrary: s)
    case (Cons j js)
    from Cons.IH [OF delete_one_ok(1) [OF Cons.prems, of j]] show ?case
      unfolding delete_job_records_Cons by (simp add: delete_one_ok(2) [OF Cons.prems] del: delete_job_records.simps)
  qed simp
  then show "store_ok (snd (delete_job_records js s))"
    and "view (snd (delete_job_records js s)) k = (if k \<in> set js then (None, [], None) else view s k)" by blast+
qed

lemma empty_store_ok [simp]: "store_ok empty_async_store"
  by (simp add: store_ok_def empty_async_store_def dicts_wf_def owners_ok_def view_def get_job_def attempts_of_def
      get_active_lease_def)

end
