(* ===== verification/Evaluation_Runs.thy ===== *)
theory Evaluation_Runs
  imports Candidate_Universe Async_Runtime_Store
begin

text \<open>
  Runtime-backed evaluation runs: the store \<^verbatim>\<open>repositories/memory_evaluation_runtime_repository.py\<close>, the attempt
  transitions of \<^verbatim>\<open>services/eval_attempt_runtime.py\<close> that the async worker services drive, and the execution of a
  claimed run, \<^verbatim>\<open>services/eval_runtime_execution.py\<close> (\<open>execute_runtime_backed_evaluation_run\<close>).

  The fixture files of the repository and the evaluation of one case are arguments of the execution. The record of a
  run is \<open>evaluation_run\<close> of the model catalogue, whose evidence binding reads it.
\<close>

section \<open>Records and store\<close>

record evaluation_attempt =
  ea_attempt_id :: string
  ea_run_id :: string
  ea_attempt_number :: nat
  ea_lifecycle_status :: string
  ea_started_at :: "timestamp option"
  ea_completed_at :: "timestamp option"
  ea_worker_id :: "string option"
  ea_latest_message :: string
  ea_verdict :: "string option"
  ea_failure_reason :: "string option"

record evaluation_case_result =
  ec_case_result_id :: string
  ec_run_id :: string
  ec_attempt_id :: string
  ec_case_id :: string
  ec_fixture_id :: string
  ec_outcome :: string
  ec_summary :: string
  ec_evidence_refs :: "string list"
  ec_artifact_ids :: "string list"
  ec_provider_config_sha256 :: "string option"
  ec_recorded_at :: timestamp
  ec_candidate_id_v2 :: "string option"

record eval_store =
  es_runs :: "(string, evaluation_run) dict"
  es_attempts :: "(string, evaluation_attempt list) dict"
  es_case_results :: "(string, evaluation_case_result list) dict"

definition list_runs :: "eval_store \<Rightarrow> evaluation_run list" where
  "list_runs s = sort_key ev_submitted_at (dict_values (es_runs s))"

definition get_run :: "eval_store \<Rightarrow> string \<Rightarrow> evaluation_run option" where
  "get_run s r = dict_get (es_runs s) r"

definition save_run :: "evaluation_run \<Rightarrow> eval_store \<Rightarrow> eval_store" where
  "save_run r s = s\<lparr>es_runs := dict_put (ev_run_id r) r (es_runs s)\<rparr>"

definition attempts_of_run :: "eval_store \<Rightarrow> string \<Rightarrow> evaluation_attempt list" where
  "attempts_of_run s r = (case dict_get (es_attempts s) r of None \<Rightarrow> [] | Some rs \<Rightarrow> rs)"

definition list_run_attempts :: "eval_store \<Rightarrow> string \<Rightarrow> evaluation_attempt list" where
  "list_run_attempts s r = sort_key ea_attempt_number (attempts_of_run s r)"

definition save_run_attempt :: "evaluation_attempt \<Rightarrow> eval_store \<Rightarrow> eval_store" where
  "save_run_attempt a s = s\<lparr>es_attempts := dict_put (ea_run_id a)
     (filter (\<lambda>e. ea_attempt_id e \<noteq> ea_attempt_id a) (attempts_of_run s (ea_run_id a)) @ [a]) (es_attempts s)\<rparr>"

definition get_run_attempt :: "eval_store \<Rightarrow> string \<Rightarrow> evaluation_attempt option" where
  "get_run_attempt s aid = List.find (\<lambda>r. ea_attempt_id r = aid) (concat (dict_values (es_attempts s)))"

definition run_case_results :: "eval_store \<Rightarrow> string \<Rightarrow> evaluation_case_result list" where
  "run_case_results s r = (case dict_get (es_case_results s) r of None \<Rightarrow> [] | Some rs \<Rightarrow> rs)"

definition list_case_results :: "eval_store \<Rightarrow> string \<Rightarrow> evaluation_case_result list" where
  "list_case_results s r = sort_key ec_case_result_id (run_case_results s r)"

definition list_all_case_results :: "int \<Rightarrow> eval_store \<Rightarrow> evaluation_case_result list" where
  "list_all_case_results limit s = py_slice_to limit (sorted_desc ec_recorded_at (concat (dict_values (es_case_results s))))"

definition save_case_result :: "evaluation_case_result \<Rightarrow> eval_store \<Rightarrow> eval_store" where
  "save_case_result c s = s\<lparr>es_case_results := dict_put (ec_run_id c)
     (filter (\<lambda>e. ec_case_result_id e \<noteq> ec_case_result_id c) (run_case_results s (ec_run_id c)) @ [c]) (es_case_results s)\<rparr>"

definition delete_case_results :: "string list \<Rightarrow> eval_store \<Rightarrow> nat \<times> eval_store" where
  "delete_case_results ids s =
     (let kept = map (\<lambda>(r, rs). (r, filter (\<lambda>c. ec_case_result_id c \<notin> set ids) rs)) (es_case_results s)
      in (sum_list (map (length \<circ> snd) (es_case_results s)) - sum_list (map (length \<circ> snd) kept),
          s\<lparr>es_case_results := kept\<rparr>))"

fun delete_runs_with_dependents :: "string list \<Rightarrow> eval_store \<Rightarrow> (nat \<times> nat \<times> nat) \<times> eval_store" where
  "delete_runs_with_dependents [] s = ((0, 0, 0), s)"
| "delete_runs_with_dependents (r # rs) s =
     (let runs = (if get_run s r = None then 0 else 1);
          attempts = length (attempts_of_run s r);
          cases = length (run_case_results s r);
          ((runs', attempts', cases'), s') = delete_runs_with_dependents rs
             (s\<lparr>es_runs := dict_pop r (es_runs s), es_attempts := dict_pop r (es_attempts s),
                es_case_results := dict_pop r (es_case_results s)\<rparr>)
      in ((runs + runs', attempts + attempts', cases + cases'), s'))"

section \<open>Attempt transitions\<close>

text \<open>Each transition rebuilds the run record; the constructor's last field, the content digest, is left at its default.\<close>

definition rebuilt_run :: "evaluation_run \<Rightarrow> string \<Rightarrow> string \<Rightarrow> string option \<Rightarrow> evaluation_run" where
  "rebuilt_run run status msg verdict =
     \<lparr>ev_run_id = ev_run_id run, ev_fixture_id = ev_fixture_id run, ev_manifest_version = ev_manifest_version run,
      ev_lifecycle_status = status, ev_triggered_by = ev_triggered_by run, ev_submitted_at = ev_submitted_at run,
      ev_async_job_id = ev_async_job_id run, ev_latest_message = msg, ev_verdict = verdict,
      ev_case_count = ev_case_count run, ev_manifest_content_digest = None\<rparr>"

definition queue_next_evaluation_attempt :: "string \<Rightarrow> string \<Rightarrow> eval_store \<Rightarrow> evaluation_attempt result \<times> eval_store" where
  "queue_next_evaluation_attempt r msg s =
     (case get_run s r of
        None \<Rightarrow> (Inl (RuntimeError ''evaluation_run_not_found''), s)
      | Some run \<Rightarrow>
        let attempts = list_run_attempts s r;
            n = (if attempts = [] then 1 else ea_attempt_number (last attempts) + 1);
            a = \<lparr>ea_attempt_id = attempt_id_of r n, ea_run_id = r, ea_attempt_number = n, ea_lifecycle_status = ''QUEUED'',
                 ea_started_at = None, ea_completed_at = None, ea_worker_id = None, ea_latest_message = msg,
                 ea_verdict = None, ea_failure_reason = None\<rparr>
        in (Inr a, save_run (rebuilt_run run ''QUEUED'' msg None) (save_run_attempt a s)))"

definition latest_active_attempt :: "string \<Rightarrow> eval_store \<Rightarrow> evaluation_attempt option" where
  "latest_active_attempt r s =
     List.find (\<lambda>a. ea_lifecycle_status a \<in> {''QUEUED'', ''CLAIMED'', ''RUNNING''}) (rev (list_run_attempts s r))"

text \<open>The common shape of the claim, abandon and fail transitions.\<close>

definition move_active_attempt ::
  "string \<Rightarrow> string \<Rightarrow> string \<Rightarrow> string \<Rightarrow> (evaluation_attempt \<Rightarrow> string option) \<Rightarrow> string option \<Rightarrow> eval_store
     \<Rightarrow> evaluation_attempt option \<times> eval_store" where
  "move_active_attempt r attempt_status run_status msg worker reason s =
     (case get_run s r of
        None \<Rightarrow> (None, s)
      | Some run \<Rightarrow>
        (case latest_active_attempt r s of
           None \<Rightarrow> (None, s)
         | Some a \<Rightarrow>
           let a' = a\<lparr>ea_lifecycle_status := attempt_status, ea_worker_id := worker a, ea_latest_message := msg,
                      ea_verdict := None, ea_failure_reason := reason\<rparr>
           in (Some a', save_run (rebuilt_run run run_status msg None) (save_run_attempt a' s))))"

definition claim_active_evaluation_attempt ::
  "string \<Rightarrow> string \<Rightarrow> string \<Rightarrow> eval_store \<Rightarrow> evaluation_attempt option \<times> eval_store" where
  "claim_active_evaluation_attempt r worker msg s =
     move_active_attempt r ''CLAIMED'' ''QUEUED'' msg (\<lambda>_. Some worker) None s"

definition abandon_active_evaluation_attempt ::
  "string \<Rightarrow> string \<Rightarrow> string \<Rightarrow> eval_store \<Rightarrow> evaluation_attempt option \<times> eval_store" where
  "abandon_active_evaluation_attempt r msg reason s =
     move_active_attempt r ''ABANDONED'' ''ABANDONED'' msg ea_worker_id (Some reason) s"

definition fail_active_evaluation_attempt ::
  "string \<Rightarrow> string \<Rightarrow> string \<Rightarrow> eval_store \<Rightarrow> evaluation_attempt option \<times> eval_store" where
  "fail_active_evaluation_attempt r msg reason s =
     move_active_attempt r ''FAILED'' ''FAILED'' msg ea_worker_id (Some reason) s"

section \<open>Submission\<close>

definition find_active_duplicate_runtime_run :: "string \<Rightarrow> eval_store \<Rightarrow> evaluation_run option" where
  "find_active_duplicate_runtime_run fixture s =
     List.find (\<lambda>r. ev_fixture_id r = fixture \<and> ev_lifecycle_status r \<in> {''QUEUED'', ''CLAIMED'', ''RUNNING''})
       (rev (list_runs s))"

definition submitted_run ::
  "string \<Rightarrow> string \<Rightarrow> string \<Rightarrow> string \<Rightarrow> timestamp \<Rightarrow> nat \<Rightarrow> fixture_manifest \<Rightarrow> string \<Rightarrow> evaluation_run" where
  "submitted_run r job fixture triggered_by submitted_at cases m msg =
     \<lparr>ev_run_id = r, ev_fixture_id = fixture, ev_manifest_version = fm_version m, ev_lifecycle_status = ''QUEUED'',
      ev_triggered_by = triggered_by, ev_submitted_at = submitted_at, ev_async_job_id = Some job,
      ev_latest_message = msg, ev_verdict = None, ev_case_count = cases,
      ev_manifest_content_digest = fm_content_digest m\<rparr>"

definition submitted_run_attempt :: "string \<Rightarrow> evaluation_attempt" where
  "submitted_run_attempt r =
     \<lparr>ea_attempt_id = r @ ''_attempt_001'', ea_run_id = r, ea_attempt_number = 1, ea_lifecycle_status = ''QUEUED'',
      ea_started_at = None, ea_completed_at = None, ea_worker_id = None,
      ea_latest_message = ''Initial runtime-backed evaluation attempt queued.'', ea_verdict = None, ea_failure_reason = None\<rparr>"

section \<open>Execution of a claimed run\<close>

definition executable_attempt :: "string \<Rightarrow> eval_store \<Rightarrow> evaluation_attempt option" where
  "executable_attempt r s =
     List.find (\<lambda>a. ea_lifecycle_status a \<in> {''QUEUED'', ''SUBMITTED'', ''CLAIMED''}) (rev (list_run_attempts s r))"

record 'c evaluation_env =
  ee_manifest :: fixture_manifest
  ee_runtime_fixtures :: "string list"
  ee_load_cases :: "string \<Rightarrow> string option \<times> 'c list"
  ee_evaluate :: "evaluation_run \<Rightarrow> string \<Rightarrow> string \<Rightarrow> 'c \<Rightarrow> evaluation_case_result"
  ee_started_at :: timestamp
  ee_completed_at :: timestamp
  ee_recorded_at :: timestamp

record evaluation_outcome =
  eo_run_id :: string
  eo_attempt_id :: string
  eo_passed :: bool
  eo_case_result_count :: nat

definition running_message :: "string \<Rightarrow> string" where
  "running_message worker = ''Evaluation run is executing under worker '' @ quoted worker @ ''.''"

definition execute_runtime_backed_evaluation_run ::
  "'c evaluation_env \<Rightarrow> string \<Rightarrow> string \<Rightarrow> eval_store \<Rightarrow> 'w catalogue_world_scheme
     \<Rightarrow> evaluation_outcome result \<times> eval_store \<times> 'w catalogue_world_scheme" where
  "execute_runtime_backed_evaluation_run e r worker s w =
     (case get_run s r of
        None \<Rightarrow> (Inl (HTTPException 404 ''evaluation_run_not_found''), s, w)
      | Some run \<Rightarrow>
        (case executable_attempt r s of
           None \<Rightarrow> (Inl (HTTPException 409 ''no_queued_attempt''), s, w)
         | Some a \<Rightarrow>
           (case ee_load_cases e (ev_fixture_id run) of
              (None, _) \<Rightarrow> (Inl (HTTPException 409 ''fixture_not_executable''), s, w)
            | (Some task, cases) \<Rightarrow>
              if ev_fixture_id run \<notin> set (ee_runtime_fixtures e)
              then (Inl (HTTPException 409 ''fixture_not_executable''), s, w)
              else
                let s1 = save_run (rebuilt_run run ''RUNNING'' (running_message worker) None)
                           (save_run_attempt (a\<lparr>ea_lifecycle_status := ''RUNNING'', ea_started_at := Some (ee_started_at e),
                              ea_completed_at := None, ea_worker_id := Some worker,
                              ea_latest_message := ''Runtime-backed evaluation attempt started by worker '' @ quoted worker @ ''.'',
                              ea_verdict := None, ea_failure_reason := None\<rparr>) s);
                    results = map (ee_evaluate e run (ea_attempt_id a) task) cases;
                    s2 = fold save_case_result results s1;
                    passed = list_all (\<lambda>c. ec_outcome c = ''PASS'') results;
                    verdict = (if passed then ''PASS'' else ''FAIL'');
                    s3 = save_run (rebuilt_run run (if passed then ''COMPLETED'' else ''FAILED'')
                             (''Runtime-backed evaluation run completed with verdict '' @ quoted verdict @ ''.'') (Some verdict))
                           (save_run_attempt (a\<lparr>ea_lifecycle_status := ''COMPLETED'', ea_started_at := Some (ee_started_at e),
                              ea_completed_at := Some (ee_completed_at e), ea_worker_id := Some worker,
                              ea_latest_message := ''Runtime-backed evaluation attempt completed with verdict '' @ quoted verdict @ ''.'',
                              ea_verdict := Some verdict, ea_failure_reason := None\<rparr>) s2);
                    w' = (if passed then record_capability_evidence_for_pass_run (ee_manifest e) run
                                           (map ec_candidate_id_v2 results) (ee_recorded_at e) w else w)
                in (Inr \<lparr>eo_run_id = ev_run_id run, eo_attempt_id = ea_attempt_id a, eo_passed = passed,
                         eo_case_result_count = length results\<rparr>, s3, w'))))"

section \<open>Facts\<close>

lemma get_run_writes [simp, store_simps]:
  "get_run (save_run r s) k = (if k = ev_run_id r then Some r else get_run s k)"
  "get_run (save_run_attempt a s) k = get_run s k"
  "get_run (save_case_result c s) k = get_run s k"
  by (simp_all add: get_run_def save_run_def save_run_attempt_def save_case_result_def)

lemma run_attempts_writes [simp, store_simps]:
  "attempts_of_run (save_run r s) k = attempts_of_run s k"
  "attempts_of_run (save_run_attempt a s) k =
     (if k = ea_run_id a then filter (\<lambda>e. ea_attempt_id e \<noteq> ea_attempt_id a) (attempts_of_run s k) @ [a] else attempts_of_run s k)"
  by (simp_all add: attempts_of_run_def save_run_def save_run_attempt_def)

interpretation evaluation_runs: keyed_repository ev_run_id get_run save_run
  by unfold_locales simp_all

lemma rebuilt_run_simps [simp]:
  "ev_run_id (rebuilt_run run st msg v) = ev_run_id run" "ev_fixture_id (rebuilt_run run st msg v) = ev_fixture_id run"
  "ev_manifest_version (rebuilt_run run st msg v) = ev_manifest_version run"
  "ev_lifecycle_status (rebuilt_run run st msg v) = st" "ev_manifest_content_digest (rebuilt_run run st msg v) = None"
  by (simp_all add: rebuilt_run_def)

definition eval_store_ok :: "eval_store \<Rightarrow> bool" where
  "eval_store_ok s \<longleftrightarrow> (\<forall>r run. get_run s r = Some run \<longrightarrow> ev_run_id run = r)"

lemma claim_erases_digest:
  assumes "eval_store_ok s" and "claim_active_evaluation_attempt r worker msg s = (Some a, s')"
  shows "\<exists>run. get_run s' r = Some run \<and> ev_manifest_content_digest run = None"
  using assms by (auto simp: claim_active_evaluation_attempt_def move_active_attempt_def Let_def eval_store_ok_def split: option.splits)

text \<open>
  C24. The content digest a run is submitted with pins the fixture content its evidence may certify. Claiming the run
  rebuilds its record without the digest, so when the claimed run is executed, what is recorded as evidence is the same
  whatever the content digest of the current manifest is.
\<close>

theorem claimed_run_ignores_content_drift:
  assumes "eval_store_ok s" and "claim_active_evaluation_attempt r worker msg s = (Some a, s')"
  shows "execute_runtime_backed_evaluation_run (e\<lparr>ee_manifest := (ee_manifest e)\<lparr>fm_content_digest := d\<rparr>\<rparr>) r worker s' w
     = execute_runtime_backed_evaluation_run e r worker s' w"
proof -
  obtain run where run: "get_run s' r = Some run" "ev_manifest_content_digest run = None"
    using claim_erases_digest [OF assms] by blast
  have rec: "record_capability_evidence_for_pass_run (m\<lparr>fm_content_digest := d\<rparr>) run served now v
      = record_capability_evidence_for_pass_run m run served now v" for m served now and v :: "'a catalogue_world_scheme"
    using run(2) by (simp add: record_capability_evidence_for_pass_run_def)
  show ?thesis
    by (simp add: execute_runtime_backed_evaluation_run_def run(1) rec Let_def split: option.splits prod.splits)
qed

definition pinned_run :: evaluation_run where
  "pinned_run = \<lparr>ev_run_id = ''r'', ev_fixture_id = ''f'', ev_manifest_version = ''v'', ev_lifecycle_status = ''QUEUED'',
     ev_triggered_by = ''ops'', ev_submitted_at = ''t'', ev_async_job_id = Some ''j'', ev_latest_message = [], ev_verdict = None,
     ev_case_count = 1, ev_manifest_content_digest = Some ''digest''\<rparr>"

definition pinned_store :: eval_store where
  "pinned_store = \<lparr>es_runs = [(''r'', pinned_run)], es_attempts = [(''r'',
     [\<lparr>ea_attempt_id = attempt_id_of ''r'' 1, ea_run_id = ''r'', ea_attempt_number = 1, ea_lifecycle_status = ''QUEUED'',
       ea_started_at = None, ea_completed_at = None, ea_worker_id = None, ea_latest_message = [], ea_verdict = None,
       ea_failure_reason = None\<rparr>])], es_case_results = []\<rparr>"

theorem claimed_run_ignores_content_drift_witness:
  "\<exists>a s'. claim_active_evaluation_attempt ''r'' ''worker'' ''claimed'' pinned_store = (Some a, s')
     \<and> (\<forall>e w d. execute_runtime_backed_evaluation_run (e\<lparr>ee_manifest := (ee_manifest e)\<lparr>fm_content_digest := d\<rparr>\<rparr>) ''r'' ''worker'' s' w
          = execute_runtime_backed_evaluation_run e ''r'' ''worker'' s' (w :: catalogue_world))"
proof -
  have ok: "eval_store_ok pinned_store"
    by (auto simp: eval_store_ok_def pinned_store_def get_run_def pinned_run_def split: if_splits)
  obtain a s' where claim: "claim_active_evaluation_attempt ''r'' ''worker'' ''claimed'' pinned_store = (Some a, s')"
  proof -
    have "fst (claim_active_evaluation_attempt ''r'' ''worker'' ''claimed'' pinned_store) \<noteq> None" by code_simp
    then show ?thesis using that by (metis not_None_eq prod.collapse)
  qed
  show ?thesis using claim claimed_run_ignores_content_drift [OF ok claim] by blast
qed

end
