(* ===== verification/Async_Delivery.thy ===== *)
theory Async_Delivery
  imports Evaluation_Runs Governed_Actions
begin

text \<open>
  Delivery of queued attempts to dedicated workers: the cutover posture \<^verbatim>\<open>services/async_runtime_posture.py\<close>, the
  queues of \<^verbatim>\<open>services/async_delivery_queue.py\<close> and \<^verbatim>\<open>services/async_submission_shared.py\<close>.

  The Redis server is outside the repository: \<open>redis_client\<close> is the record of the client calls the queue makes, each
  with the server state it acts on and either an exception or an answer. A delivery travels as the key-sorted object of
  its fields. \<open>async_world\<close> collects the stores the async services write.
\<close>

section \<open>Posture\<close>

datatype cutover_state = IN_PROCESS_ONLY | QUEUE_DELIVERY_SHADOW | DEDICATED_WORKERS_ACTIVE | DEGRADED_FALLBACK

datatype queue_mode = QUEUE_DISABLED | QUEUE_SHADOW | QUEUE_ACTIVE

datatype worker_mode = WORKER_IN_PROCESS_ONLY | WORKER_DEDICATED | WORKER_DEGRADED_FALLBACK

fun cutover_of_text :: "string \<Rightarrow> cutover_state result" where
  "cutover_of_text x =
     (if x = ''in_process_only'' then Inr IN_PROCESS_ONLY
      else if x = ''queue_delivery_shadow'' then Inr QUEUE_DELIVERY_SHADOW
      else if x = ''dedicated_workers_active'' then Inr DEDICATED_WORKERS_ACTIVE
      else if x = ''degraded_fallback'' then Inr DEGRADED_FALLBACK
      else Inl (ValueError ''async_cutover_state''))"

record async_posture =
  ap_cutover_state :: cutover_state
  ap_queue_mode :: queue_mode
  ap_worker_mode :: worker_mode
  ap_queue_backend :: string
  ap_active_worker_execution :: string

record async_settings =
  as_cutover_state :: string
  as_queue_backend_mode :: string
  as_redis_url :: "string option"
  as_queue_name :: string
  as_worker_drain_enabled :: bool

definition require_redis_backend :: "string \<Rightarrow> unit result" where
  "require_redis_backend mode = (if mode \<noteq> ''redis'' then Inl (RuntimeError ''redis_backend_required'') else Inr ())"

definition get_async_runtime_posture :: "async_settings \<Rightarrow> async_posture result" where
  "get_async_runtime_posture g =
     (case cutover_of_text (as_cutover_state g) of
        Inl e \<Rightarrow> Inl e
      | Inr IN_PROCESS_ONLY \<Rightarrow>
          Inr \<lparr>ap_cutover_state = IN_PROCESS_ONLY, ap_queue_mode = QUEUE_DISABLED, ap_worker_mode = WORKER_IN_PROCESS_ONLY,
               ap_queue_backend = ''none'', ap_active_worker_execution = ''in_process_stub''\<rparr>
      | Inr c \<Rightarrow>
          (case require_redis_backend (as_queue_backend_mode g) of
             Inl e \<Rightarrow> Inl e
           | Inr _ \<Rightarrow>
               Inr \<lparr>ap_cutover_state = c,
                    ap_queue_mode = (if c = QUEUE_DELIVERY_SHADOW then QUEUE_SHADOW else QUEUE_ACTIVE),
                    ap_worker_mode = (case c of QUEUE_DELIVERY_SHADOW \<Rightarrow> WORKER_IN_PROCESS_ONLY
                       | DEDICATED_WORKERS_ACTIVE \<Rightarrow> WORKER_DEDICATED | _ \<Rightarrow> WORKER_DEGRADED_FALLBACK),
                    ap_queue_backend = ''redis_queue'',
                    ap_active_worker_execution = (case c of QUEUE_DELIVERY_SHADOW \<Rightarrow> ''in_process_stub''
                       | DEDICATED_WORKERS_ACTIVE \<Rightarrow> ''queue_backed_workers'' | _ \<Rightarrow> ''degraded_fallback'')\<rparr>))"

section \<open>Delivery messages\<close>

record delivery_message =
  dm_delivery_id :: string
  dm_job_id :: string
  dm_attempt_id :: string
  dm_job_type :: string
  dm_target_id :: "string option"
  dm_caller_app :: string
  dm_correlation_id :: string
  dm_submitted_at :: timestamp

record enqueue_result =
  qr_backend_id :: string
  qr_published :: bool
  qr_duplicate_delivery :: bool

record queue_snapshot =
  qs_backend_id :: string
  qs_backend_available :: bool
  qs_pending_delivery_count :: nat
  qs_published_delivery_count :: nat
  qs_dequeued_delivery_count :: nat
  qs_duplicate_delivery_count :: nat
  qs_redelivery_count :: nat

type_synonym wire = "(string \<times> string option) list"

text \<open>\<^verbatim>\<open>json.dumps(asdict(message), sort_keys=True)\<close> and \<^verbatim>\<open>AsyncQueueDeliveryMessage(**json.loads(payload))\<close>.\<close>

definition message_payload :: "delivery_message \<Rightarrow> wire" where
  "message_payload m =
     [(''attempt_id'', Some (dm_attempt_id m)), (''caller_app'', Some (dm_caller_app m)),
      (''correlation_id'', Some (dm_correlation_id m)), (''delivery_id'', Some (dm_delivery_id m)),
      (''job_id'', Some (dm_job_id m)), (''job_type'', Some (dm_job_type m)),
      (''submitted_at'', Some (dm_submitted_at m)), (''target_id'', dm_target_id m)]"

definition payload_message :: "wire \<Rightarrow> delivery_message result" where
  "payload_message p =
     (if set (map fst p) = {''attempt_id'', ''caller_app'', ''correlation_id'', ''delivery_id'', ''job_id'', ''job_type'',
           ''submitted_at'', ''target_id''}
      then let text = (\<lambda>k. case map_of p k of Some (Some v) \<Rightarrow> v | _ \<Rightarrow> []) in
        Inr \<lparr>dm_delivery_id = text ''delivery_id'', dm_job_id = text ''job_id'', dm_attempt_id = text ''attempt_id'',
             dm_job_type = text ''job_type'', dm_target_id = (case map_of p ''target_id'' of Some v \<Rightarrow> v | None \<Rightarrow> None),
             dm_caller_app = text ''caller_app'', dm_correlation_id = text ''correlation_id'',
             dm_submitted_at = text ''submitted_at''\<rparr>
      else Inl (TypeError ''AsyncQueueDeliveryMessage''))"

lemma payload_roundtrip: "payload_message (message_payload m) = Inr m"
  by (cases m) (auto simp: payload_message_def message_payload_def Let_def)

section \<open>The in-memory queue\<close>

record memory_queue =
  mq_messages :: "(string, delivery_message) dict"
  mq_order :: "string list"
  mq_seen_attempt_ids :: "string list"
  mq_published :: nat
  mq_dequeued :: nat
  mq_duplicates :: nat
  mq_redeliveries :: nat

definition empty_memory_queue :: memory_queue where
  "empty_memory_queue = \<lparr>mq_messages = [], mq_order = [], mq_seen_attempt_ids = [], mq_published = 0, mq_dequeued = 0,
     mq_duplicates = 0, mq_redeliveries = 0\<rparr>"

definition memory_enqueue :: "delivery_message \<Rightarrow> memory_queue \<Rightarrow> enqueue_result \<times> memory_queue" where
  "memory_enqueue m q =
     (let duplicate = (dict_get (mq_messages q) (dm_delivery_id m) \<noteq> None);
          q' = (if duplicate then q\<lparr>mq_duplicates := mq_duplicates q + 1\<rparr>
                else
                  let q1 = (if dm_attempt_id m \<in> set (mq_seen_attempt_ids q) then q\<lparr>mq_redeliveries := mq_redeliveries q + 1\<rparr>
                            else q\<lparr>mq_seen_attempt_ids := dm_attempt_id m # mq_seen_attempt_ids q\<rparr>)
                  in q1\<lparr>mq_messages := dict_put (dm_delivery_id m) m (mq_messages q1),
                        mq_order := mq_order q1 @ [dm_delivery_id m], mq_published := mq_published q1 + 1\<rparr>)
      in (\<lparr>qr_backend_id = ''redis_queue'', qr_published = \<not> duplicate, qr_duplicate_delivery = duplicate\<rparr>, q'))"

definition memory_dequeue :: "memory_queue \<Rightarrow> delivery_message option \<times> memory_queue" where
  "memory_dequeue q =
     (case mq_order q of
        [] \<Rightarrow> (None, q)
      | d # ds \<Rightarrow>
        let m = dict_get (mq_messages q) d;
            q' = q\<lparr>mq_order := ds, mq_messages := dict_pop d (mq_messages q)\<rparr>
        in (m, if m = None then q' else q'\<lparr>mq_dequeued := mq_dequeued q' + 1\<rparr>))"

definition memory_snapshot :: "memory_queue \<Rightarrow> queue_snapshot" where
  "memory_snapshot q = \<lparr>qs_backend_id = ''redis_queue'', qs_backend_available = True,
     qs_pending_delivery_count = length (mq_order q), qs_published_delivery_count = mq_published q,
     qs_dequeued_delivery_count = mq_dequeued q, qs_duplicate_delivery_count = mq_duplicates q,
     qs_redelivery_count = mq_redeliveries q\<rparr>"

section \<open>The Redis queue\<close>

record 'r redis_client =
  rd_set_nx :: "string \<Rightarrow> string \<Rightarrow> 'r \<Rightarrow> bool result \<times> 'r"
  rd_hincrby :: "string \<Rightarrow> string \<Rightarrow> 'r \<Rightarrow> unit result \<times> 'r"
  rd_sadd :: "string \<Rightarrow> string \<Rightarrow> 'r \<Rightarrow> nat result \<times> 'r"
  rd_rpush :: "string \<Rightarrow> wire \<Rightarrow> 'r \<Rightarrow> unit result \<times> 'r"
  rd_blpop :: "string \<Rightarrow> nat \<Rightarrow> 'r \<Rightarrow> wire option result \<times> 'r"
  rd_is_idle_timeout :: "error \<Rightarrow> bool"

text \<open>Sequencing of client calls: an exception ends the sequence with the server state reached so far.\<close>

definition andThen :: "'a result \<times> 'r \<Rightarrow> ('a \<Rightarrow> 'r \<Rightarrow> 'b result \<times> 'r) \<Rightarrow> 'b result \<times> 'r" where
  "andThen p f = (case p of (Inl e, r) \<Rightarrow> (Inl e, r) | (Inr a, r) \<Rightarrow> f a r)"

lemma andThen_simps [simp]: "andThen (Inl e, r) f = (Inl e, r)" "andThen (Inr a, r) f = f a r"
  by (simp_all add: andThen_def)

definition published :: "bool \<Rightarrow> enqueue_result" where
  "published b = \<lparr>qr_backend_id = ''redis_queue'', qr_published = b, qr_duplicate_delivery = \<not> b\<rparr>"

definition redis_enqueue :: "'r redis_client \<Rightarrow> string \<Rightarrow> delivery_message \<Rightarrow> 'r \<Rightarrow> enqueue_result result \<times> 'r" where
  "redis_enqueue c name m r =
     andThen (rd_set_nx c (name @ '':dedupe:'' @ dm_delivery_id m) ''1'' r) (\<lambda>fresh r.
       if \<not> fresh
       then andThen (rd_hincrby c (name @ '':stats'') ''duplicate_delivery_count'' r) (\<lambda>_ r. (Inr (published False), r))
       else
         andThen (rd_sadd c (name @ '':attempts_seen'') (dm_attempt_id m) r) (\<lambda>added r.
         andThen (if added = 0 then rd_hincrby c (name @ '':stats'') ''redelivery_count'' r else (Inr (), r)) (\<lambda>_ r.
         andThen (rd_rpush c name (message_payload m) r) (\<lambda>_ r.
         andThen (rd_hincrby c (name @ '':stats'') ''published_delivery_count'' r) (\<lambda>_ r. (Inr (published True), r))))))"

definition redis_dequeue :: "'r redis_client \<Rightarrow> string \<Rightarrow> nat \<Rightarrow> 'r \<Rightarrow> delivery_message option result \<times> 'r" where
  "redis_dequeue c name timeout r =
     (case rd_blpop c name timeout r of
        (Inl e, r) \<Rightarrow> (if rd_is_idle_timeout c e then (Inr None, r) else (Inl e, r))
      | (Inr None, r) \<Rightarrow> (Inr None, r)
      | (Inr (Some p), r) \<Rightarrow>
          andThen (rd_hincrby c (name @ '':stats'') ''dequeued_delivery_count'' r) (\<lambda>_ r.
            (case payload_message p of Inl e \<Rightarrow> Inl e | Inr m \<Rightarrow> Inr (Some m), r)))"

section \<open>The configured queue\<close>

datatype delivery_queue = NoopQueue | RedisQueue

definition get_async_delivery_queue :: "async_settings \<Rightarrow> delivery_queue result" where
  "get_async_delivery_queue g =
     (if as_queue_backend_mode g = ''none'' then Inr NoopQueue
      else if as_queue_backend_mode g = ''redis''
      then (if as_redis_url g = None \<or> as_redis_url g = Some [] then Inl (RuntimeError ''redis_url_required'') else Inr RedisQueue)
      else Inl (RuntimeError ''unsupported_backend''))"

definition enqueue :: "'r redis_client \<Rightarrow> async_settings \<Rightarrow> delivery_message \<Rightarrow> 'r \<Rightarrow> enqueue_result result \<times> 'r" where
  "enqueue c g m r =
     (case get_async_delivery_queue g of
        Inl e \<Rightarrow> (Inl e, r)
      | Inr NoopQueue \<Rightarrow> (Inr \<lparr>qr_backend_id = ''none'', qr_published = False, qr_duplicate_delivery = False\<rparr>, r)
      | Inr RedisQueue \<Rightarrow> redis_enqueue c (as_queue_name g) m r)"

definition dequeue :: "'r redis_client \<Rightarrow> async_settings \<Rightarrow> nat \<Rightarrow> 'r \<Rightarrow> delivery_message option result \<times> 'r" where
  "dequeue c g timeout r =
     (case get_async_delivery_queue g of
        Inl e \<Rightarrow> (Inl e, r)
      | Inr NoopQueue \<Rightarrow> (Inr None, r)
      | Inr RedisQueue \<Rightarrow> redis_dequeue c (as_queue_name g) timeout r)"

section \<open>The world of the async services\<close>

record 'r async_world =
  xw_runtime :: async_store
  xw_evals :: eval_store
  xw_artifacts :: artifact_world
  xw_ops :: provider_ops_store
  xw_redis :: 'r

record 'r async_env =
  xe_settings :: async_settings
  xe_redis :: "'r redis_client"
  xe_artifacts :: artifact_env
  xe_sha :: "payload \<Rightarrow> string"

definition delivery_of :: "async_job \<Rightarrow> async_attempt \<Rightarrow> string option \<Rightarrow> delivery_message" where
  "delivery_of job a delivery_id =
     \<lparr>dm_delivery_id = or_text delivery_id (aa_attempt_id a), dm_job_id = aj_job_id job, dm_attempt_id = aa_attempt_id a,
      dm_job_type = aj_job_type job, dm_target_id = aj_target_id job, dm_caller_app = aj_caller_app job,
      dm_correlation_id = aj_correlation_id job, dm_submitted_at = aj_submitted_at job\<rparr>"

definition publish_async_attempt_if_configured ::
  "'r async_env \<Rightarrow> async_job \<Rightarrow> async_attempt \<Rightarrow> string option \<Rightarrow> 'r async_world \<Rightarrow> bool result \<times> 'r async_world" where
  "publish_async_attempt_if_configured e job a delivery_id w =
     (case get_async_runtime_posture (xe_settings e) of
        Inl err \<Rightarrow> (Inl err, w)
      | Inr p \<Rightarrow>
        if ap_cutover_state p = IN_PROCESS_ONLY then (Inr False, w)
        else
          (case enqueue (xe_redis e) (xe_settings e) (delivery_of job a delivery_id) (xw_redis w) of
             (Inl err, r) \<Rightarrow> (Inl err, w\<lparr>xw_redis := r\<rparr>)
           | (Inr res, r) \<Rightarrow> (Inr (qr_published res), w\<lparr>xw_redis := r\<rparr>)))"

lemma publish_frame [simp]:
  "xw_runtime (snd (publish_async_attempt_if_configured e job a d w)) = xw_runtime w"
  "xw_evals (snd (publish_async_attempt_if_configured e job a d w)) = xw_evals w"
  "xw_artifacts (snd (publish_async_attempt_if_configured e job a d w)) = xw_artifacts w"
  "xw_ops (snd (publish_async_attempt_if_configured e job a d w)) = xw_ops w"
  by (simp_all add: publish_async_attempt_if_configured_def split: sum.splits prod.splits)

end
