(* ===== verification/Async_Worker_Runtime.thy ===== *)
theory Async_Worker_Runtime
  imports Async_Delivery
begin

text \<open>
  The worker services, \<^verbatim>\<open>services/async_worker_runtime.py\<close>: claiming with expiry recovery, start, heartbeat,
  completion, retryable and terminal failure. Clock readings and new identifiers are arguments; a completed or failed
  job stages its terminal artifact before the fenced transition and publishes it only after.
\<close>

section \<open>Terminal payloads\<close>

text \<open>\<^verbatim>\<open>json.dumps(payload, sort_keys=True)\<close> for an object of texts and nulls whose keys are given in order.\<close>

definition json_text :: "string option \<Rightarrow> string" where
  "json_text v = (case v of None \<Rightarrow> ''null'' | Some x \<Rightarrow> json_string x)"

fun json_members :: "(string \<times> string option) list \<Rightarrow> string" where
  "json_members [] = []"
| "json_members [(k, v)] = json_text (Some k) @ '': '' @ json_text v"
| "json_members ((k, v) # kvs) = json_text (Some k) @ '': '' @ json_text v @ '', '' @ json_members kvs"

definition json_object :: "(string \<times> string option) list \<Rightarrow> string" where
  "json_object kvs = CHR 0x7B # json_members kvs @ [CHR 0x7D]"

definition completion_payload :: "async_job \<Rightarrow> string \<Rightarrow> string \<Rightarrow> string" where
  "completion_payload job aid message = json_object
     [(''attempt_id'', Some aid), (''job_id'', Some (aj_job_id job)), (''job_type'', Some (aj_job_type job)),
      (''message'', Some message), (''related_evaluation_run_id'', aj_related_evaluation_run_id job),
      (''status'', Some ''COMPLETED''), (''target_id'', aj_target_id job)]"

definition failure_payload :: "async_job \<Rightarrow> string \<Rightarrow> string \<Rightarrow> string" where
  "failure_payload job aid reason = json_object
     [(''attempt_id'', Some aid), (''failure_reason'', Some reason), (''job_id'', Some (aj_job_id job)),
      (''job_type'', Some (aj_job_type job)), (''related_evaluation_run_id'', aj_related_evaluation_run_id job),
      (''status'', Some ''FAILED''), (''target_id'', aj_target_id job)]"

definition terminal_request :: "async_job \<Rightarrow> string \<Rightarrow> timestamp \<Rightarrow> string \<Rightarrow> artifact_request" where
  "terminal_request job worker created_at payload =
     \<lparr>aq_domain = ''async'', aq_artifact_type = ''job_terminal_output'', aq_source_object_kind = ''async_job'',
      aq_source_object_id = aj_job_id job, aq_created_at = created_at, aq_created_by = worker, aq_payload_json = payload,
      aq_lifecycle_status = RUNTIME_GENERATED, aq_retention_posture = ''active'', aq_lineage_parent_artifact_id = None,
      aq_superseded_by_artifact_id = None, aq_tenant_id = aj_tenant_id job\<rparr>"

section \<open>Expiry recovery\<close>

definition lease_seconds :: nat where
  "lease_seconds = 300"

definition recovery_message :: string where
  "recovery_message = ''Retry queued after lease expiry recovery.''"

definition sync_recovered_run :: "string option \<Rightarrow> 'r async_world \<Rightarrow> unit result \<times> 'r async_world" where
  "sync_recovered_run run w =
     (case run of
        None \<Rightarrow> (Inr (), w)
      | Some r \<Rightarrow>
        let s1 = snd (abandon_active_evaluation_attempt r
                   ''Evaluation attempt abandoned after async lease expiry recovery.'' ''LEASE_EXPIRED'' (xw_evals w))
        in (case queue_next_evaluation_attempt r ''Evaluation retry queued after async lease expiry recovery.'' s1 of
              (Inl err, s2) \<Rightarrow> (Inl err, w\<lparr>xw_evals := s2\<rparr>)
            | (Inr _, s2) \<Rightarrow> (Inr (), w\<lparr>xw_evals := s2\<rparr>)))"

text \<open>
  One turn of the loop and the loop over the snapshot of jobs; \<open>fresh i\<close> is the clock reading of the i-th job, used when the
  caller passes no instant.
\<close>

definition recover_job ::
  "'r async_env \<Rightarrow> utc option \<Rightarrow> utc \<Rightarrow> async_job \<Rightarrow> 'r async_world \<Rightarrow> string option result \<times> 'r async_world" where
  "recover_job e time fresh job w =
     (if \<not> active_status (aj_lifecycle_status job) \<or> get_active_lease (xw_runtime w) (aj_job_id job) = None
      then (Inr None, w)
      else
        (case recover_expired_claim (aj_job_id job) (map_option utc_text time)
                (Some (utc_text (case time of Some t \<Rightarrow> t | None \<Rightarrow> fresh))) recovery_message (xw_runtime w) of
           (Inl err, s) \<Rightarrow> (Inl err, w\<lparr>xw_runtime := s\<rparr>)
         | (Inr None, s) \<Rightarrow> (Inr None, w\<lparr>xw_runtime := s\<rparr>)
         | (Inr (Some t), s) \<Rightarrow>
           (case publish_async_attempt_if_configured e (ar_job t) (ar_next_attempt t) None (w\<lparr>xw_runtime := s\<rparr>) of
              (Inl err, w1) \<Rightarrow> (Inl err, w1)
            | (Inr _, w1) \<Rightarrow>
              (case sync_recovered_run (aj_related_evaluation_run_id job) w1 of
                 (Inl err, w2) \<Rightarrow> (Inl err, w2)
               | (Inr _, w2) \<Rightarrow> (Inr (Some (aj_job_id (ar_job t))), w2)))))"

fun recover_jobs ::
  "'r async_env \<Rightarrow> utc option \<Rightarrow> (nat \<Rightarrow> utc) \<Rightarrow> nat \<Rightarrow> async_job list \<Rightarrow> 'r async_world \<Rightarrow> string list result \<times> 'r async_world" where
  "recover_jobs e time fresh i [] w = (Inr [], w)"
| "recover_jobs e time fresh i (job # jobs) w =
     (case recover_job e time (fresh i) job w of
        (Inl err, w1) \<Rightarrow> (Inl err, w1)
      | (Inr found, w1) \<Rightarrow>
        (case recover_jobs e time fresh (Suc i) jobs w1 of
           (Inl err, w2) \<Rightarrow> (Inl err, w2)
         | (Inr ids, w2) \<Rightarrow> (Inr ((case found of Some j \<Rightarrow> [j] | None \<Rightarrow> []) @ ids), w2)))"

definition recover_expired_async_jobs ::
  "'r async_env \<Rightarrow> utc option \<Rightarrow> (nat \<Rightarrow> utc) \<Rightarrow> 'r async_world \<Rightarrow> string list result \<times> 'r async_world" where
  "recover_expired_async_jobs e time fresh w = recover_jobs e time fresh 0 (list_jobs (xw_runtime w)) w"

section \<open>Claims\<close>

definition claim_request_of :: "string \<Rightarrow> utc \<Rightarrow> claim_request result" where
  "claim_request_of worker now =
     (case add_seconds lease_seconds now of
        Inl err \<Rightarrow> Inl err
      | Inr expires \<Rightarrow>
        Inr \<lparr>cq_worker_id = worker, cq_claimed_at = utc_text now, cq_heartbeat_at = utc_text now,
             cq_lease_expires_at = utc_text expires,
             cq_latest_message = ''Job claimed by worker '' @ quoted worker @ '' and is waiting for explicit execution start.'',
             cq_attempt_message = ''Attempt claimed by worker '' @ quoted worker @ ''.''\<rparr>)"

definition sync_claimed_run :: "string \<Rightarrow> async_claim \<Rightarrow> 'r async_world \<Rightarrow> 'r async_world" where
  "sync_claimed_run worker c w =
     (case aj_related_evaluation_run_id (ak_job c) of
        None \<Rightarrow> w
      | Some r \<Rightarrow> w\<lparr>xw_evals := snd (claim_active_evaluation_attempt r worker
            (''Evaluation attempt claimed by worker '' @ quoted worker @ '' and is waiting for explicit execution start.'') (xw_evals w))\<rparr>)"

text \<open>Recovery first, then the claim the caller asked for, then the linked evaluation attempt.\<close>

definition claim_after_recovery ::
  "'r async_env \<Rightarrow> string \<Rightarrow> utc \<Rightarrow> (claim_request \<Rightarrow> async_store \<Rightarrow> async_claim option \<times> async_store)
     \<Rightarrow> 'r async_world \<Rightarrow> async_claim option result \<times> 'r async_world" where
  "claim_after_recovery e worker now claim w =
     (case recover_expired_async_jobs e (Some now) (\<lambda>_. now) w of
        (Inl err, w1) \<Rightarrow> (Inl err, w1)
      | (Inr _, w1) \<Rightarrow>
        (case claim_request_of worker now of
           Inl err \<Rightarrow> (Inl err, w1)
         | Inr q \<Rightarrow>
           (case claim q (xw_runtime w1) of
              (None, s) \<Rightarrow> (Inr None, w1\<lparr>xw_runtime := s\<rparr>)
            | (Some c, s) \<Rightarrow> (Inr (Some c), sync_claimed_run worker c (w1\<lparr>xw_runtime := s\<rparr>)))))"

definition claim_next_async_job_for_types ::
  "'r async_env \<Rightarrow> string \<Rightarrow> string list option \<Rightarrow> utc \<Rightarrow> 'r async_world \<Rightarrow> async_claim option result \<times> 'r async_world" where
  "claim_next_async_job_for_types e worker types now w = claim_after_recovery e worker now (claim_next_runnable_job types) w"

definition claim_next_async_job ::
  "'r async_env \<Rightarrow> string \<Rightarrow> utc \<Rightarrow> 'r async_world \<Rightarrow> async_claim option result \<times> 'r async_world" where
  "claim_next_async_job e worker now w = claim_next_async_job_for_types e worker None now w"

definition claim_async_job_by_id ::
  "'r async_env \<Rightarrow> string \<Rightarrow> string \<Rightarrow> utc \<Rightarrow> 'r async_world \<Rightarrow> async_claim option result \<times> 'r async_world" where
  "claim_async_job_by_id e j worker now w = claim_after_recovery e worker now (claim_runnable_job_by_id j) w"

section \<open>Transitions of a claim\<close>

definition claim_change_of :: "string \<Rightarrow> string \<Rightarrow> string \<Rightarrow> utc \<Rightarrow> string \<Rightarrow> claim_change" where
  "claim_change_of j worker aid now attempt_message =
     \<lparr>ct_job_id = j, ct_worker_id = worker, ct_attempt_id = aid, ct_now = None, ct_now_factory = Some (utc_text now),
      ct_job_status = None, ct_job_message = None, ct_attempt_status = None, ct_attempt_message = attempt_message,
      ct_failure_reason = None, ct_lease_expires_at = None, ct_terminal_artifact = None, ct_next_attempt_message = None,
      ct_lease_extension_seconds = None\<rparr>"

definition require_current_claim :: "async_claim_transition option \<Rightarrow> async_claim_transition result" where
  "require_current_claim t = (case t of None \<Rightarrow> Inl (HTTPException 409 ''no_current_claim'') | Some x \<Rightarrow> Inr x)"

definition fenced_transition :: "claim_change \<Rightarrow> 'r async_world \<Rightarrow> async_claim_transition option result \<times> 'r async_world" where
  "fenced_transition c w =
     (case transition_current_claim c (xw_runtime w) of (res, s) \<Rightarrow> (res, w\<lparr>xw_runtime := s\<rparr>))"

definition require_transition :: "claim_change \<Rightarrow> 'r async_world \<Rightarrow> async_claim_transition result \<times> 'r async_world" where
  "require_transition c w =
     (case fenced_transition c w of
        (Inl err, w1) \<Rightarrow> (Inl err, w1)
      | (Inr t, w1) \<Rightarrow> (require_current_claim t, w1))"

definition start_change :: "string \<Rightarrow> string \<Rightarrow> string \<Rightarrow> utc \<Rightarrow> claim_change" where
  "start_change j worker aid now =
     (claim_change_of j worker aid now (''Attempt started by worker '' @ quoted worker @ ''.''))
       \<lparr>ct_job_status := Some ''RUNNING'', ct_job_message := Some (''Job is running under worker '' @ quoted worker @ ''.''),
        ct_attempt_status := Some ''RUNNING'', ct_lease_extension_seconds := Some lease_seconds\<rparr>"

definition start_async_job :: "string \<Rightarrow> string \<Rightarrow> string \<Rightarrow> utc \<Rightarrow> 'r async_world \<Rightarrow> unit result \<times> 'r async_world" where
  "start_async_job j worker aid now w = andThen (require_transition (start_change j worker aid now) w) (\<lambda>_ w. (Inr (), w))"

definition heartbeat_change :: "string \<Rightarrow> string \<Rightarrow> string \<Rightarrow> utc \<Rightarrow> claim_change" where
  "heartbeat_change j worker aid now =
     (claim_change_of j worker aid now (''Heartbeat recorded from worker '' @ quoted worker @ ''.''))
       \<lparr>ct_lease_extension_seconds := Some lease_seconds\<rparr>"

definition heartbeat_async_job :: "string \<Rightarrow> string \<Rightarrow> string \<Rightarrow> utc \<Rightarrow> 'r async_world \<Rightarrow> unit result \<times> 'r async_world" where
  "heartbeat_async_job j worker aid now w =
     andThen (require_transition (heartbeat_change j worker aid now) w) (\<lambda>_ w. (Inr (), w))"

definition publish_terminal_artifact_or_reject ::
  "async_claim_transition option \<Rightarrow> artifact \<Rightarrow> 'r async_world \<Rightarrow> unit result \<times> 'r async_world" where
  "publish_terminal_artifact_or_reject t a w =
     (case t of
        None \<Rightarrow> (Inl (HTTPException 409 ''no_current_claim''),
                 w\<lparr>xw_artifacts := delete_object (split_storage_reference (ar_storage_reference a)) (xw_artifacts w)\<rparr>)
      | Some _ \<Rightarrow> (Inr (), w\<lparr>xw_artifacts := save_artifact a (xw_artifacts w)\<rparr>))"

definition get_runtime_job :: "string \<Rightarrow> 'r async_world \<Rightarrow> async_job result" where
  "get_runtime_job j w =
     (case get_job (xw_runtime w) j of None \<Rightarrow> Inl (HTTPException 404 ''async_job_not_found'') | Some job \<Rightarrow> Inr job)"

text \<open>Stage the terminal artifact, attempt the fenced change, publish or discard.\<close>

definition close_async_job ::
  "'r async_env \<Rightarrow> string \<Rightarrow> artifact_request \<Rightarrow> claim_change \<Rightarrow> 'r async_world \<Rightarrow> unit result \<times> 'r async_world" where
  "close_async_job e hex q c w =
     (let (a, arts) = stage_json_artifact (xe_artifacts e) hex q (xw_artifacts w) in
      andThen (fenced_transition (c\<lparr>ct_terminal_artifact := Some a\<rparr>) (w\<lparr>xw_artifacts := arts\<rparr>))
        (\<lambda>t w. publish_terminal_artifact_or_reject t a w))"

definition completion_change :: "string \<Rightarrow> string \<Rightarrow> string \<Rightarrow> string \<Rightarrow> utc \<Rightarrow> claim_change" where
  "completion_change j worker aid message now =
     (claim_change_of j worker aid now message)
       \<lparr>ct_job_status := Some ''COMPLETED'', ct_job_message := Some message, ct_attempt_status := Some ''COMPLETED''\<rparr>"

definition complete_async_job ::
  "'r async_env \<Rightarrow> string \<Rightarrow> string \<Rightarrow> string \<Rightarrow> string \<Rightarrow> string \<Rightarrow> utc \<Rightarrow> utc \<Rightarrow> 'r async_world \<Rightarrow> unit result \<times> 'r async_world" where
  "complete_async_job e hex j worker aid message staged_at now w =
     (case get_runtime_job j w of
        Inl err \<Rightarrow> (Inl err, w)
      | Inr job \<Rightarrow>
        close_async_job e hex (terminal_request job worker (utc_text staged_at) (completion_payload job aid message))
          (completion_change j worker aid message now) w)"

definition failure_message :: "string \<Rightarrow> string \<Rightarrow> string" where
  "failure_message worker reason = ''Attempt failed under worker '' @ quoted worker @ '' with reason '' @ quoted reason @ ''.''"

definition retry_change :: "string \<Rightarrow> string \<Rightarrow> string \<Rightarrow> string \<Rightarrow> utc \<Rightarrow> claim_change" where
  "retry_change j worker aid reason now =
     (claim_change_of j worker aid now (failure_message worker reason))
       \<lparr>ct_job_status := Some ''QUEUED'', ct_job_message := Some (''Retry queued after failure reason '' @ quoted reason @ ''.''),
        ct_attempt_status := Some ''FAILED'', ct_failure_reason := Some reason,
        ct_next_attempt_message := Some (''Retry queued after failure reason '' @ quoted reason @ ''.'')\<rparr>"

definition failure_change :: "string \<Rightarrow> string \<Rightarrow> string \<Rightarrow> string \<Rightarrow> utc \<Rightarrow> claim_change" where
  "failure_change j worker aid reason now =
     (claim_change_of j worker aid now (failure_message worker reason))
       \<lparr>ct_job_status := Some ''FAILED'', ct_job_message := Some (''Job failed terminally with reason '' @ quoted reason @ ''.''),
        ct_attempt_status := Some ''FAILED'', ct_failure_reason := Some reason\<rparr>"

definition fail_async_job ::
  "'r async_env \<Rightarrow> string \<Rightarrow> string \<Rightarrow> string \<Rightarrow> string \<Rightarrow> string \<Rightarrow> bool \<Rightarrow> utc \<Rightarrow> utc \<Rightarrow> 'r async_world
     \<Rightarrow> unit result \<times> 'r async_world" where
  "fail_async_job e hex j worker aid reason retryable staged_at now w =
     (case get_runtime_job j w of
        Inl err \<Rightarrow> (Inl err, w)
      | Inr job \<Rightarrow>
        if retryable
        then andThen (require_transition (retry_change j worker aid reason now) w) (\<lambda>t w.
               case at_next_attempt t of
                 None \<Rightarrow> (Inl (RuntimeError ''no_successor''), w)
               | Some n \<Rightarrow> andThen (publish_async_attempt_if_configured e (at_job t) n None w) (\<lambda>_ w. (Inr (), w)))
        else close_async_job e hex (terminal_request job worker (utc_text staged_at) (failure_payload job aid reason))
               (failure_change j worker aid reason now) w)"

section \<open>The runtime store behind the services\<close>

lemma sync_frames [simp]:
  "xw_runtime (snd (sync_recovered_run run w)) = xw_runtime w"
  "xw_runtime (sync_claimed_run worker c w) = xw_runtime w"
  by (simp_all add: sync_recovered_run_def sync_claimed_run_def Let_def split: option.splits prod.splits sum.splits)

lemma publish_runtime: "publish_async_attempt_if_configured e job a d w = (res, w') \<Longrightarrow> xw_runtime w' = xw_runtime w"
  using publish_frame(1) [of e job a d w] by simp

lemma sync_recovered_runtime: "sync_recovered_run run w = (res, w') \<Longrightarrow> xw_runtime w' = xw_runtime w"
  using sync_frames(1) [of run w] by simp

lemma recover_job_ok:
  assumes "store_ok (xw_runtime w)" and "recover_job e time fresh job w = (res, w')"
  shows "ok_move (xw_runtime w) (xw_runtime w')"
  using assms(2) recover_ok(1) [OF assms(1)] assms(1) unfolding recover_job_def
  by (auto split: if_splits prod.splits sum.splits option.splits dest!: publish_runtime sync_recovered_runtime)

lemma recover_jobs_ok:
  "store_ok (xw_runtime w) \<Longrightarrow> recover_jobs e time fresh i jobs w = (res, w') \<Longrightarrow> ok_move (xw_runtime w) (xw_runtime w')"
proof (induction jobs arbitrary: i w res w')
  case (Cons job jobs)
  obtain r1 w1 where one: "recover_job e time (fresh i) job w = (r1, w1)" by fastforce
  note ok1 = recover_job_ok [OF Cons.prems(1) one]
  show ?case
  proof (cases r1)
    case (Inl err)
    then show ?thesis using Cons.prems(2) ok1 one by simp
  next
    case (Inr found)
    obtain r2 w2 where two: "recover_jobs e time fresh (Suc i) jobs w1 = (r2, w2)" by fastforce
    have "w' = w2" using Cons.prems(2) one two Inr by (auto split: sum.splits)
    then show ?thesis using ok1 Cons.IH [OF _ two] by (auto simp: ok_move_def intro: moves_trans)
  qed
qed simp

lemma recover_expired_ok:
  "store_ok (xw_runtime w) \<Longrightarrow> recover_expired_async_jobs e time fresh w = (res, w') \<Longrightarrow> ok_move (xw_runtime w) (xw_runtime w')"
  by (simp add: recover_expired_async_jobs_def recover_jobs_ok)

lemma claim_after_recovery_ok:
  assumes "store_ok (xw_runtime w)" and "claim_after_recovery e worker now claim w = (res, w')"
    and "\<And>q s c s'. store_ok s \<Longrightarrow> claim q s = (c, s') \<Longrightarrow> ok_move s s'"
  shows "ok_move (xw_runtime w) (xw_runtime w')"
proof -
  obtain r1 w1 where one: "recover_expired_async_jobs e (Some now) (\<lambda>_. now) w = (r1, w1)" by fastforce
  note ok1 = recover_expired_ok [OF assms(1) one]
  show ?thesis
  proof (cases "(\<exists>ids. r1 = Inr ids) \<and> (\<exists>q. claim_request_of worker now = Inr q)")
    case True
    then obtain ids q where r: "r1 = Inr ids" and q: "claim_request_of worker now = Inr q" by blast
    obtain c s where c: "claim q (xw_runtime w1) = (c, s)" by fastforce
    have "xw_runtime w' = s" using assms(2) one r q c by (auto simp: claim_after_recovery_def split: option.splits)
    then show ?thesis using ok1 assms(3) [OF _ c] by (auto simp: ok_move_def intro: moves_trans)
  next
    case False
    then have "w' = w1" using assms(2) one by (auto simp: claim_after_recovery_def split: sum.splits)
    then show ?thesis using ok1 by simp
  qed
qed

lemma claims_ok:
  "store_ok (xw_runtime w) \<Longrightarrow> claim_next_async_job_for_types e worker types now w = (res, w') \<Longrightarrow> ok_move (xw_runtime w) (xw_runtime w')"
  "store_ok (xw_runtime w) \<Longrightarrow> claim_next_async_job e worker now w = (res, w') \<Longrightarrow> ok_move (xw_runtime w) (xw_runtime w')"
  "store_ok (xw_runtime w) \<Longrightarrow> claim_async_job_by_id e j worker now w = (res, w') \<Longrightarrow> ok_move (xw_runtime w) (xw_runtime w')"
  unfolding claim_next_async_job_def claim_next_async_job_for_types_def claim_async_job_by_id_def
  by (erule (1) claim_after_recovery_ok, erule (1) claim_next_ok claim_by_id_ok)+

lemma changes_ok [simp]:
  "change_ok (start_change j worker aid now)" "change_ok (heartbeat_change j worker aid now)"
  "change_ok ((completion_change j worker aid message now)\<lparr>ct_terminal_artifact := a\<rparr>)"
  "change_ok (retry_change j worker aid reason now)"
  "change_ok ((failure_change j worker aid reason now)\<lparr>ct_terminal_artifact := a\<rparr>)"
  by (simp_all add: change_ok_def renewal_def closing_def requeuing_def start_change_def heartbeat_change_def
      completion_change_def retry_change_def failure_change_def claim_change_of_def)

lemma fenced_transition_ok:
  "store_ok (xw_runtime w) \<Longrightarrow> change_ok c \<Longrightarrow> fenced_transition c w = (res, w') \<Longrightarrow> ok_move (xw_runtime w) (xw_runtime w')"
  by (auto simp: fenced_transition_def split: prod.splits intro: transition_ok)

lemma require_transition_ok:
  "store_ok (xw_runtime w) \<Longrightarrow> change_ok c \<Longrightarrow> require_transition c w = (res, w') \<Longrightarrow> ok_move (xw_runtime w) (xw_runtime w')"
  by (auto simp: require_transition_def split: prod.splits sum.splits intro: fenced_transition_ok)

lemma start_ok:
  "store_ok (xw_runtime w) \<Longrightarrow> start_async_job j worker aid now w = (res, w') \<Longrightarrow> ok_move (xw_runtime w) (xw_runtime w')"
  by (auto simp: start_async_job_def andThen_def split: prod.splits sum.splits intro: require_transition_ok [rotated 2])

lemma heartbeat_ok:
  "store_ok (xw_runtime w) \<Longrightarrow> heartbeat_async_job j worker aid now w = (res, w') \<Longrightarrow> ok_move (xw_runtime w) (xw_runtime w')"
  by (auto simp: heartbeat_async_job_def andThen_def split: prod.splits sum.splits intro: require_transition_ok [rotated 2])

lemma publish_or_reject_frame [simp]:
  "xw_runtime (snd (publish_terminal_artifact_or_reject t a w)) = xw_runtime w"
  by (simp add: publish_terminal_artifact_or_reject_def split: option.splits)

lemma publish_or_reject_runtime:
  "publish_terminal_artifact_or_reject t a w = (res, w') \<Longrightarrow> xw_runtime w' = xw_runtime w"
  using publish_or_reject_frame [of t a w] by simp

lemma close_job_ok:
  assumes "store_ok (xw_runtime w)" and "\<And>a. change_ok (c\<lparr>ct_terminal_artifact := a\<rparr>)"
    and "close_async_job e hex q c w = (res, w')"
  shows "ok_move (xw_runtime w) (xw_runtime w')"
proof -
  obtain a arts where st: "stage_json_artifact (xe_artifacts e) hex q (xw_artifacts w) = (a, arts)" by fastforce
  let ?w1 = "w\<lparr>xw_artifacts := arts\<rparr>"
  obtain t w2 where tr: "fenced_transition (c\<lparr>ct_terminal_artifact := Some a\<rparr>) ?w1 = (t, w2)" by fastforce
  have "xw_runtime w' = xw_runtime w2"
    using assms(3) by (auto simp: close_async_job_def st tr andThen_def split: sum.splits dest: publish_or_reject_runtime)
  moreover have "ok_move (xw_runtime ?w1) (xw_runtime w2)" by (rule fenced_transition_ok [OF _ assms(2) tr]) (simp add: assms(1))
  ultimately show ?thesis by simp
qed

lemma complete_ok:
  "store_ok (xw_runtime w) \<Longrightarrow> complete_async_job e hex j worker aid message staged_at now w = (res, w')
     \<Longrightarrow> ok_move (xw_runtime w) (xw_runtime w')"
  by (auto simp: complete_async_job_def split: sum.splits intro: close_job_ok [rotated 2])

lemma fail_ok:
  assumes "store_ok (xw_runtime w)" and "fail_async_job e hex j worker aid reason retryable staged_at now w = (res, w')"
  shows "ok_move (xw_runtime w) (xw_runtime w')"
proof (cases "get_runtime_job j w")
  case (Inl err)
  then show ?thesis using assms by (simp add: fail_async_job_def)
next
  case (Inr job)
  show ?thesis
  proof (cases retryable)
    case False
    then show ?thesis using assms Inr by (auto simp: fail_async_job_def intro: close_job_ok [rotated 2])
  next
    case True
    obtain t w1 where tr: "require_transition (retry_change j worker aid reason now) w = (t, w1)" by fastforce
    have "xw_runtime w' = xw_runtime w1"
      using assms(2) Inr True tr
      by (auto simp: fail_async_job_def andThen_def split: sum.splits option.splits prod.splits dest!: publish_runtime)
    moreover have "ok_move (xw_runtime w) (xw_runtime w1)" by (rule require_transition_ok [OF assms(1) _ tr]) simp
    ultimately show ?thesis by simp
  qed
qed

section \<open>Recovery finds exactly the expired claims\<close>

definition expired_claim :: "async_store \<Rightarrow> timestamp \<Rightarrow> string \<Rightarrow> bool" where
  "expired_claim s now j \<longleftrightarrow> (\<exists>l. get_active_lease s j = Some l \<and> al_lease_expires_at l \<le> now)"

lemma get_attempt_of_lease:
  assumes "store_ok s" and "get_active_lease s j = Some l"
  shows "\<exists>a. get_attempt s (al_attempt_id l) = Some a"
proof -
  obtain r where "r \<in> set (attempts_of s j)" "aa_attempt_id r = al_attempt_id l" using assms by (elim lease_okD) auto
  then show ?thesis using get_attempt_iff [OF assms(1)] by blast
qed

lemma recover_expired_claim_exact:
  assumes "store_ok s" and "effective_now factory at_time = Some now"
  shows "\<not> expired_claim s now j \<Longrightarrow> recover_expired_claim j at_time factory msg s = (Inr None, s)"
    and "expired_claim s now j \<Longrightarrow> \<exists>t s'. recover_expired_claim j at_time factory msg s = (Inr (Some t), s')
           \<and> aj_job_id (ar_job t) = j \<and> (\<forall>k. k \<noteq> j \<longrightarrow> view s' k = view s k)
           \<and> get_active_lease s' j = None \<and> get_job s' j = Some (ar_job t)
           \<and> aj_lifecycle_status (ar_job t) = ''QUEUED''
           \<and> Some (aj_attempt_count (ar_job t)) = map_option (Suc \<circ> aj_attempt_count) (get_job s j)"
proof -
  assume "\<not> expired_claim s now j"
  then show "recover_expired_claim j at_time factory msg s = (Inr None, s)"
    using assms(2) by (auto simp: recover_expired_claim_def expired_claim_def not_le split: option.splits)
next
  assume exp: "expired_claim s now j"
  obtain res s' where call: "recover_expired_claim j at_time factory msg s = (res, s')" by fastforce
  obtain l where l: "get_active_lease s j = Some l" "al_lease_expires_at l \<le> now" using exp by (auto simp: expired_claim_def)
  from call show "\<exists>t s'. recover_expired_claim j at_time factory msg s = (Inr (Some t), s')
           \<and> aj_job_id (ar_job t) = j \<and> (\<forall>k. k \<noteq> j \<longrightarrow> view s' k = view s k)
           \<and> get_active_lease s' j = None \<and> get_job s' j = Some (ar_job t)
           \<and> aj_lifecycle_status (ar_job t) = ''QUEUED''
           \<and> Some (aj_attempt_count (ar_job t)) = map_option (Suc \<circ> aj_attempt_count) (get_job s j)"
  proof (cases rule: recoverE)
    case untimed
    then show ?thesis using assms(2) by simp
  next
    case (kept now')
    obtain job where job: "get_job s j = Some job" "active_status (aj_lifecycle_status job)"
      using lease_okD [OF assms(1) l(1)] by metis
    then show ?thesis using kept(4) [OF l(1) job(1)] kept(3) assms(2) l(2) get_attempt_of_lease [OF assms(1) l(1)] by auto
  next
    case (recovered now' l' a job t)
    have jj: "aj_job_id job = j" by (rule job_okD(1) [OF assms(1) recovered(4)])
    have "a \<in> set (attempts_of s j)" by (rule leased_attempt(1) [OF assms(1) recovered(2,3,4)])
    then have aj: "aa_job_id a = j" using job_okD(2) [OF assms(1) recovered(4)] by (auto simp: attempts_ok_def)
    let ?u = "save_job (ar_job t) (save_attempt (ar_next_attempt t) (save_attempt (ar_abandoned_attempt t) s))"
    have own: "owners_ok ?u" and lu: "get_active_lease ?u j = Some l'"
      using store_okD(2) [OF assms(1)] recovered(2) by simp_all
    note del = owners_ok_delete_lease(2) [OF own lu]
    have q: "aa_job_id (ar_next_attempt t) = j" by (simp add: recovered(10) queued_attempt_def jj)
    have ab: "aa_job_id (ar_abandoned_attempt t) = j" by (simp add: recovered(9) aj)
    have tj: "aj_job_id (ar_job t) = j" "aj_lifecycle_status (ar_job t) = ''QUEUED''"
      "aj_attempt_count (ar_job t) = Suc (aj_attempt_count job)" by (simp_all add: recovered(8) jj)
    have "\<forall>k. k \<noteq> j \<longrightarrow> view s' k = view s k" by (simp add: view_def recovered(11) del q ab tj(1))
    moreover have "get_active_lease s' j = None \<and> get_job s' j = Some (ar_job t)" by (simp add: recovered(11) del tj(1))
    ultimately show ?thesis using call recovered(4,7) tj by auto
  qed
qed

lemma recover_job_exact:
  assumes "store_ok (xw_runtime w)" and "get_job (xw_runtime w) (aj_job_id job) = Some job"
    and "recover_job e (Some now) fresh job w = (Inr found, w')"
  defines "hit \<equiv> expired_claim (xw_runtime w) (utc_text now) (aj_job_id job)"
  shows "found = (if hit then Some (aj_job_id job) else None)"
    and "\<And>k. k \<noteq> aj_job_id job \<Longrightarrow> view (xw_runtime w') k = view (xw_runtime w) k"
    and "hit \<Longrightarrow> get_active_lease (xw_runtime w') (aj_job_id job) = None"
    and "\<not> hit \<Longrightarrow> xw_runtime w' = xw_runtime w"
proof -
  let ?s = "xw_runtime w" and ?j = "aj_job_id job"
  have eff: "effective_now (Some (utc_text now)) (Some (utc_text now)) = Some (utc_text now)" by (simp add: effective_now_def)
  note exact = recover_expired_claim_exact [OF assms(1) eff, of ?j recovery_message]
  have all: "found = (if hit then Some ?j else None) \<and> (\<forall>k. k \<noteq> ?j \<longrightarrow> view (xw_runtime w') k = view ?s k)
      \<and> (hit \<longrightarrow> get_active_lease (xw_runtime w') ?j = None) \<and> (\<not> hit \<longrightarrow> xw_runtime w' = ?s)"
  proof (cases hit)
    case False
    then have "recover_expired_claim ?j (Some (utc_text now)) (Some (utc_text now)) recovery_message ?s = (Inr None, ?s)"
      using exact(1) by (simp add: hit_def)
    then have "found = None \<and> xw_runtime w' = ?s" using assms(3) by (auto simp: recover_job_def split: if_splits)
    then show ?thesis using False by simp
  next
    case True
    then obtain t s' where t: "recover_expired_claim ?j (Some (utc_text now)) (Some (utc_text now)) recovery_message ?s = (Inr (Some t), s')"
      "aj_job_id (ar_job t) = ?j" "\<forall>k. k \<noteq> ?j \<longrightarrow> view s' k = view ?s k" "get_active_lease s' ?j = None"
      using exact(2) by (auto simp: hit_def)
    obtain l where l: "get_active_lease ?s ?j = Some l" using True by (auto simp: hit_def expired_claim_def)
    then have act: "active_status (aj_lifecycle_status job)" using job_okD(3) [OF assms(1,2)] by simp
    have "found = Some ?j \<and> xw_runtime w' = s'"
      using assms(3) l act t(1,2)
      by (auto simp: recover_job_def split: prod.splits sum.splits dest!: publish_runtime sync_recovered_runtime)
    then show ?thesis using True t by simp
  qed
  then show "found = (if hit then Some ?j else None)" and "\<And>k. k \<noteq> ?j \<Longrightarrow> view (xw_runtime w') k = view ?s k"
    and "hit \<Longrightarrow> get_active_lease (xw_runtime w') ?j = None" and "\<not> hit \<Longrightarrow> xw_runtime w' = ?s"
    by blast+
qed

lemma view_lease: "view s k = view s' k \<Longrightarrow> get_active_lease s k = get_active_lease s' k \<and> get_job s k = get_job s' k"
  by (simp add: view_def)

lemma recover_jobs_exact:
  assumes "store_ok (xw_runtime w)" and "distinct (map aj_job_id jobs)"
    and "\<And>job. job \<in> set jobs \<Longrightarrow> get_job (xw_runtime w) (aj_job_id job) = Some job"
    and "recover_jobs e (Some now) fresh i jobs w = (Inr ids, w')"
  shows "ids = map aj_job_id (filter (\<lambda>job. expired_claim (xw_runtime w) (utc_text now) (aj_job_id job)) jobs)
    \<and> (\<forall>k. k \<notin> set ids \<longrightarrow> view (xw_runtime w') k = view (xw_runtime w) k)
    \<and> (\<forall>k \<in> set ids. get_active_lease (xw_runtime w') k = None)"
  using assms
proof (induction jobs arbitrary: i w ids)
  case (Cons job jobs)
  let ?j = "aj_job_id job"
  obtain found w1 ids2 where one: "recover_job e (Some now) (fresh i) job w = (Inr found, w1)"
    and two: "recover_jobs e (Some now) fresh (Suc i) jobs w1 = (Inr ids2, w')"
    and ids: "ids = (case found of Some j \<Rightarrow> [j] | None \<Rightarrow> []) @ ids2"
    using Cons.prems(4) by (auto split: prod.splits sum.splits)
  have cur: "get_job (xw_runtime w) ?j = Some job" using Cons.prems(3) by simp
  note ex = recover_job_exact [OF Cons.prems(1) cur one]
  have same: "view (xw_runtime w1) k = view (xw_runtime w) k" if "k \<noteq> ?j" for k using that by (rule ex(2))
  have nj: "aj_job_id jb \<noteq> ?j" if "jb \<in> set jobs" for jb
    using that Cons.prems(2) by (simp, metis imageI)
  have ok1: "store_ok (xw_runtime w1)" using recover_job_ok [OF Cons.prems(1) one] by (simp add: ok_move_def)
  have IH: "ids2 = map aj_job_id (filter (\<lambda>job. expired_claim (xw_runtime w1) (utc_text now) (aj_job_id job)) jobs)
    \<and> (\<forall>k. k \<notin> set ids2 \<longrightarrow> view (xw_runtime w') k = view (xw_runtime w1) k)
    \<and> (\<forall>k \<in> set ids2. get_active_lease (xw_runtime w') k = None)"
  proof (rule Cons.IH [OF ok1 _ _ two])
    show "distinct (map aj_job_id jobs)" using Cons.prems(2) by simp
    show "get_job (xw_runtime w1) (aj_job_id jb) = Some jb" if "jb \<in> set jobs" for jb
      using view_lease [OF same [OF nj [OF that]]] Cons.prems(3) that by simp
  qed
  have "expired_claim (xw_runtime w1) (utc_text now) (aj_job_id jb) = expired_claim (xw_runtime w) (utc_text now) (aj_job_id jb)"
    if "jb \<in> set jobs" for jb
    using view_lease [OF same [OF nj [OF that]]] by (simp add: expired_claim_def)
  then have ids2: "ids2 = map aj_job_id (filter (\<lambda>job. expired_claim (xw_runtime w) (utc_text now) (aj_job_id job)) jobs)"
    using IH by (simp cong: filter_cong)
  have notin: "?j \<notin> set ids2"
  proof
    assume "?j \<in> set ids2"
    then obtain jb where "jb \<in> set jobs" "aj_job_id jb = ?j" using ids2 by auto
    then show False using nj by blast
  qed
  have tail: "view (xw_runtime w') k = view (xw_runtime w1) k" if "k \<notin> set ids2" for k using IH that by blast
  have lease2: "get_active_lease (xw_runtime w') k = None" if "k \<in> set ids2" for k using IH that by blast
  show ?case
  proof (cases "expired_claim (xw_runtime w) (utc_text now) ?j")
    case True
    then have f: "found = Some ?j" and none: "get_active_lease (xw_runtime w1) ?j = None" using ex(1,3) by simp_all
    have "get_active_lease (xw_runtime w') ?j = None" using view_lease [OF tail [OF notin]] none by simp
    then show ?thesis using True f ids ids2 lease2 tail same by auto
  next
    case False
    then have f: "found = None" and eq: "xw_runtime w1 = xw_runtime w" using ex(1,4) by simp_all
    show ?thesis using False f ids ids2 lease2 tail by (simp add: eq)
  qed
qed simp

lemma distinct_list_jobs: "store_ok s \<Longrightarrow> distinct (map aj_job_id (list_jobs s))"
proof -
  assume ok: "store_ok s"
  have wf: "dict_wf (st_jobs s)" using store_okD(1) [OF ok] by (simp add: dicts_wf_def)
  have "map (\<lambda>p. aj_job_id (snd p)) (st_jobs s) = map fst (st_jobs s)"
    using wf job_okD(1) [OF ok] by (auto simp: get_job_def)
  from this wf have "distinct (map (\<lambda>p. aj_job_id (snd p)) (st_jobs s))" by (simp only:)
  then have "distinct (map aj_job_id (dict_values (st_jobs s)))" by (simp add: comp_def)
  then show ?thesis by (simp add: list_jobs_def distinct_map_sort_key)
qed

text \<open>
  A recovery sweep that returns has recovered exactly the jobs whose lease has expired, each once: their leases are
  gone, every other job is as before, and no expired claim is left.
\<close>

lemma recovery_is_exact:
  assumes "store_ok (xw_runtime w)" and "recover_expired_async_jobs e (Some now) fresh w = (Inr ids, w')"
  shows "distinct ids" and "set ids = {j. expired_claim (xw_runtime w) (utc_text now) j}"
    and "\<And>k. k \<notin> set ids \<Longrightarrow> view (xw_runtime w') k = view (xw_runtime w) k"
    and "\<And>k. \<not> expired_claim (xw_runtime w') (utc_text now) k"
proof -
  let ?s = "xw_runtime w"
  have cur: "get_job ?s (aj_job_id job) = Some job" if mem: "job \<in> set (list_jobs ?s)" for job
  proof -
    obtain j where "get_job ?s j = Some job" using mem mem_list_jobs [OF store_okD(1) [OF assms(1)]] by blast
    then show ?thesis using job_okD(1) [OF assms(1)] by auto
  qed
  have ex: "ids = map aj_job_id (filter (\<lambda>job. expired_claim ?s (utc_text now) (aj_job_id job)) (list_jobs ?s))
    \<and> (\<forall>k. k \<notin> set ids \<longrightarrow> view (xw_runtime w') k = view ?s k)
    \<and> (\<forall>k \<in> set ids. get_active_lease (xw_runtime w') k = None)"
    using assms(2) unfolding recover_expired_async_jobs_def
    by (intro recover_jobs_exact [OF assms(1) distinct_list_jobs [OF assms(1)] cur]) simp_all
  then show "distinct ids" using distinct_list_jobs [OF assms(1)] by (simp add: distinct_map_filter)
  show ids: "set ids = {j. expired_claim ?s (utc_text now) j}"
  proof (rule Set.set_eqI)
    fix j
    have "j \<in> set ids \<longleftrightarrow> (\<exists>job \<in> set (list_jobs ?s). aj_job_id job = j \<and> expired_claim ?s (utc_text now) j)" using ex by auto
    also have "\<dots> \<longleftrightarrow> expired_claim ?s (utc_text now) j"
    proof
      assume h: "expired_claim ?s (utc_text now) j"
      then obtain l where "get_active_lease ?s j = Some l" by (auto simp: expired_claim_def)
      then obtain job where "get_job ?s j = Some job" using lease_okD [OF assms(1)] by metis
      then show "\<exists>job \<in> set (list_jobs ?s). aj_job_id job = j \<and> expired_claim ?s (utc_text now) j"
        using mem_list_jobs [OF store_okD(1) [OF assms(1)]] job_okD(1) [OF assms(1)] h by blast
    qed blast
    finally show "j \<in> set ids \<longleftrightarrow> j \<in> {j. expired_claim ?s (utc_text now) j}" by simp
  qed
  show out: "view (xw_runtime w') k = view ?s k" if "k \<notin> set ids" for k using ex that by blast
  show "\<not> expired_claim (xw_runtime w') (utc_text now) k" for k
  proof (cases "k \<in> set ids")
    case True
    then show ?thesis using ex by (simp add: expired_claim_def)
  next
    case False
    then show ?thesis using view_lease [OF out [OF False]] ids by (simp add: expired_claim_def)
  qed
qed

end
