(* ===== verification/Async_Control.thy ===== *)
theory Async_Control
  imports Async_Worker_Runtime
begin

text \<open>
  Submission and control of async jobs: \<^verbatim>\<open>services/async_submission_service.py\<close>,
  \<^verbatim>\<open>services/eval_run_submission_service.py\<close>, \<^verbatim>\<open>services/async_runtime_transitions.py\<close>,
  \<^verbatim>\<open>services/async_runtime_control.py\<close>, \<^verbatim>\<open>services/async_delivery_recovery.py\<close> and the delivery cycle of
  \<^verbatim>\<open>services/async_worker_fleet.py\<close>.

  \<open>runtime_step\<close> is the relation of every service call that writes the runtime store of an existing or new job. Its
  reachable states keep the store consistent, and a worker that lost its claim never writes again.
\<close>

section \<open>Messages\<close>

definition retry_message :: "string \<Rightarrow> string" where
  "retry_message reason = ''Manual retry queued after operator action: '' @ reason"

definition replay_message :: "string \<Rightarrow> string" where
  "replay_message reason = ''Manual replay queued after operator action: '' @ reason"

definition requeue_message :: "string \<Rightarrow> string" where
  "requeue_message reason = ''Manual requeue queued after operator action: '' @ reason"

definition abandoned_job_message :: "string \<Rightarrow> string" where
  "abandoned_job_message reason = ''Job manually abandoned: '' @ reason"

definition abandoned_attempt_message :: "string \<Rightarrow> string" where
  "abandoned_attempt_message reason = ''Attempt manually abandoned: '' @ reason"

definition redriven_message :: "string \<Rightarrow> string" where
  "redriven_message reason = ''Queued async job re-driven to managed queue: '' @ reason"

definition quarantined_attempt_message :: "string \<Rightarrow> string" where
  "quarantined_attempt_message reason = ''Queued delivery quarantined: '' @ reason"

definition quarantined_job_message :: "string \<Rightarrow> string" where
  "quarantined_job_message reason = ''Queued async job quarantined: '' @ reason"

definition missing_delivery_message :: "string \<Rightarrow> string" where
  "missing_delivery_message reason = ''Missing durable async job delivery quarantined: '' @ reason"

definition abandoned_run_message :: "string \<Rightarrow> string" where
  "abandoned_run_message reason = ''Evaluation attempt manually abandoned: '' @ reason"

definition run_accepted_message :: "string \<Rightarrow> string" where
  "run_accepted_message fixture = ''Evaluation fixture family '' @ quoted fixture @ '' accepted into durable runtime state and queued for governed async evaluation execution.''"

definition run_summary :: "string \<Rightarrow> string" where
  "run_summary fixture = ''Run evaluation fixture family '' @ quoted fixture @ ''.''"

definition run_linked_message :: "string \<Rightarrow> string" where
  "run_linked_message r = ''Evaluation execution job linked to runtime-backed run '' @ quoted r @ '' is queued.''"

definition first_run_attempt_message :: string where
  "first_run_attempt_message = ''Initial runtime-backed evaluation submission recorded.''"

definition first_attempt_message :: string where
  "first_attempt_message = ''Initial durable async submission recorded.''"

definition accepted_message :: string where
  "accepted_message = ''Job accepted into durable async runtime state.''"

section \<open>Submission\<close>

record submission_request =
  sq_job_type :: string
  sq_target_id :: "string option"
  sq_caller_app :: string
  sq_correlation_id :: string
  sq_payload_summary :: string
  sq_tenant_id :: "string option"

datatype submission_status = ACCEPTED | REJECTED | DUPLICATE_REJECTED

record submission_response =
  sr_status :: submission_status
  sr_existing_job_id :: "string option"
  sr_accepted :: bool
  sr_job_id :: "string option"

text \<open>The job types of \<^verbatim>\<open>services/async_job_type_catalog.py\<close>: type, enabled, execution path.\<close>

definition async_job_types :: "(string \<times> bool \<times> string) list" where
  "async_job_types =
     [(''retrieval_indexing'', True, ''durable_runtime_worker_execution''),
      (''evaluation_execution'', True, ''durable_runtime_worker_execution''),
      (''document_ingestion'', True, ''durable_runtime_worker_execution''),
      (''workflow_pack_execution'', True, ''durable_runtime_worker_execution'')]"

definition get_async_job_type_descriptor :: "string \<Rightarrow> (bool \<times> string) option" where
  "get_async_job_type_descriptor t = map_of async_job_types t"

text \<open>
  What a submission reads outside the stores: the retrieval catalogues, the fixture families and the manifest of the
  repository's documentation tree, the clock and the new identifiers.
\<close>

record submission_env =
  se_retrieval_job :: "string \<Rightarrow> unit result"
  se_ingestion_job :: "string \<Rightarrow> unit result"
  se_fixture_cases :: "string \<Rightarrow> nat result"
  se_runtime_fixtures :: "string list"
  se_manifest :: fixture_manifest
  se_now :: utc
  se_hex :: string
  se_run_hex :: string

definition first_attempt :: "string \<Rightarrow> string \<Rightarrow> async_attempt" where
  "first_attempt j msg = (queued_attempt j 1 msg)\<lparr>aa_attempt_id := j @ ''_attempt_001'', aa_lifecycle_status := ''SUBMITTED''\<rparr>"

definition validate_async_job_target :: "submission_env \<Rightarrow> submission_request \<Rightarrow> unit result" where
  "validate_async_job_target v q =
     (if sq_job_type q \<notin> {''retrieval_indexing'', ''document_ingestion''} then Inr ()
      else case sq_target_id q of
        None \<Rightarrow> Inl (HTTPException 409 ''target_required'')
      | Some t \<Rightarrow>
        if t = [] then Inl (HTTPException 409 ''target_required'')
        else if sq_job_type q = ''retrieval_indexing'' then se_retrieval_job v t else se_ingestion_job v t)"

definition waiting_or_active :: "string \<Rightarrow> bool" where
  "waiting_or_active st \<longleftrightarrow> st = ''QUEUED'' \<or> active_status st"

definition find_active_duplicate_submission :: "submission_request \<Rightarrow> async_store \<Rightarrow> async_job option" where
  "find_active_duplicate_submission q s =
     (if sq_job_type q \<notin> {''retrieval_indexing'', ''document_ingestion''} \<or> sq_target_id q = None then None
      else List.find (\<lambda>r. aj_job_type r = sq_job_type q \<and> aj_target_id r = sq_target_id q
             \<and> aj_caller_app r = sq_caller_app q \<and> waiting_or_active (aj_lifecycle_status r)) (rev (list_jobs s)))"

definition save_submission :: "async_job \<Rightarrow> async_attempt \<Rightarrow> 'r async_world \<Rightarrow> 'r async_world" where
  "save_submission job a w = w\<lparr>xw_runtime := save_attempt a (save_job job (xw_runtime w))\<rparr>"

definition submitted_job ::
  "string \<Rightarrow> string \<Rightarrow> string option \<Rightarrow> timestamp \<Rightarrow> string \<Rightarrow> string \<Rightarrow> string \<Rightarrow> string \<Rightarrow> string option \<Rightarrow> string
     \<Rightarrow> string option \<Rightarrow> async_job" where
  "submitted_job j typ target submitted_at caller correlation summary path run msg tenant =
     \<lparr>aj_job_id = j, aj_job_type = typ, aj_target_id = target, aj_lifecycle_status = ''QUEUED'',
      aj_submitted_at = submitted_at, aj_caller_app = caller, aj_correlation_id = correlation, aj_payload_summary = summary,
      aj_execution_path = path, aj_related_evaluation_run_id = run, aj_latest_message = msg, aj_attempt_count = 1,
      aj_artifact_ids = [], aj_tenant_id = tenant\<rparr>"

definition evaluation_job_id :: "submission_env \<Rightarrow> string" where
  "evaluation_job_id v = ''asyncjob_evaluation_execution_'' @ se_hex v"

definition evaluation_run_id :: "submission_env \<Rightarrow> string" where
  "evaluation_run_id v = ''evalrun_'' @ se_run_hex v"

definition submit_runtime_backed_evaluation_run ::
  "'r async_env \<Rightarrow> submission_env \<Rightarrow> string \<Rightarrow> string \<Rightarrow> string \<Rightarrow> string \<Rightarrow> 'r async_world
     \<Rightarrow> submission_response result \<times> 'r async_world" where
  "submit_runtime_backed_evaluation_run e v fixture caller correlation triggered_by w =
     (case se_fixture_cases v fixture of
        Inl err \<Rightarrow> (Inl err, w)
      | Inr n \<Rightarrow>
        if fixture \<notin> set (se_runtime_fixtures v) then (Inl (HTTPException 409 ''fixture_staged_only''), w)
        else
          (case find_active_duplicate_runtime_run fixture (xw_evals w) of
             Some run \<Rightarrow> (Inr \<lparr>sr_status = DUPLICATE_REJECTED,
                 sr_existing_job_id = Some (case ev_async_job_id run of Some j \<Rightarrow> j | None \<Rightarrow> []),
                 sr_accepted = False, sr_job_id = None\<rparr>, w)
           | None \<Rightarrow>
             (case get_async_job_type_descriptor ''evaluation_execution'' of
                Some (True, path) \<Rightarrow>
                  let j = evaluation_job_id v; r = evaluation_run_id v; at_time = utc_text (se_now v);
                      run = submitted_run r j fixture triggered_by at_time n (se_manifest v)
                        (run_accepted_message fixture);
                      job = submitted_job j ''evaluation_execution'' (Some fixture) at_time caller correlation
                        (run_summary fixture) path (Some r)
                        (run_linked_message r) None;
                      a = first_attempt j first_run_attempt_message;
                      w1 = save_submission job a
                        (w\<lparr>xw_evals := save_run_attempt (submitted_run_attempt r) (save_run run (xw_evals w))\<rparr>)
                  in andThen (publish_async_attempt_if_configured e job a None w1) (\<lambda>_ w.
                       (Inr \<lparr>sr_status = ACCEPTED, sr_existing_job_id = None, sr_accepted = True, sr_job_id = Some j\<rparr>, w))
              | _ \<Rightarrow> (Inr \<lparr>sr_status = REJECTED, sr_existing_job_id = None, sr_accepted = False, sr_job_id = None\<rparr>, w))))"

definition submit_evaluation_execution_async_job ::
  "'r async_env \<Rightarrow> submission_env \<Rightarrow> submission_request \<Rightarrow> 'r async_world \<Rightarrow> submission_response result \<times> 'r async_world" where
  "submit_evaluation_execution_async_job e v q w =
     (case sq_target_id q of
        None \<Rightarrow> (Inl (HTTPException 409 ''target_required''), w)
      | Some t \<Rightarrow>
        if t = [] then (Inl (HTTPException 409 ''target_required''), w)
        else case se_fixture_cases v t of
          Inl (ValueError m) \<Rightarrow> (Inl (HTTPException 404 ''unknown_fixture''), w)
        | Inl err \<Rightarrow> (Inl err, w)
        | Inr _ \<Rightarrow> submit_runtime_backed_evaluation_run e v t (sq_caller_app q) (sq_correlation_id q) (sq_caller_app q) w)"

definition submit_async_job ::
  "'r async_env \<Rightarrow> submission_env \<Rightarrow> submission_request \<Rightarrow> 'r async_world \<Rightarrow> submission_response result \<times> 'r async_world" where
  "submit_async_job e v q w =
     (if sq_job_type q = ''evaluation_execution'' then submit_evaluation_execution_async_job e v q w
      else if sq_job_type q = ''workflow_pack_execution'' then (Inl (HTTPException 409 ''workflow_pack_route''), w)
      else case get_async_job_type_descriptor (sq_job_type q) of
        None \<Rightarrow> (Inl (HTTPException 404 ''unknown_job_type''), w)
      | Some (enabled, path) \<Rightarrow>
        if \<not> enabled
        then (case get_async_runtime_posture (xe_settings e) of
                Inl err \<Rightarrow> (Inl err, w)
              | Inr _ \<Rightarrow> (Inr \<lparr>sr_status = REJECTED, sr_existing_job_id = None, sr_accepted = False, sr_job_id = None\<rparr>, w))
        else case validate_async_job_target v q of
          Inl err \<Rightarrow> (Inl err, w)
        | Inr _ \<Rightarrow>
          (case find_active_duplicate_submission q (xw_runtime w) of
             Some d \<Rightarrow>
               (case get_async_runtime_posture (xe_settings e) of
                  Inl err \<Rightarrow> (Inl err, w)
                | Inr _ \<Rightarrow> (Inr \<lparr>sr_status = DUPLICATE_REJECTED, sr_existing_job_id = Some (aj_job_id d),
                                 sr_accepted = False, sr_job_id = None\<rparr>, w))
           | None \<Rightarrow>
               let j = ''asyncjob_'' @ sq_job_type q @ ''_'' @ se_hex v;
                   job = submitted_job j (sq_job_type q) (sq_target_id q) (utc_text (se_now v)) (sq_caller_app q)
                     (sq_correlation_id q) (sq_payload_summary q) path None
                     accepted_message (sq_tenant_id q);
                   a = first_attempt j first_attempt_message
               in andThen (publish_async_attempt_if_configured e job a None (save_submission job a w)) (\<lambda>_ w.
                    (Inr \<lparr>sr_status = ACCEPTED, sr_existing_job_id = None, sr_accepted = True, sr_job_id = Some j\<rparr>, w))))"

section \<open>Operator actions\<close>

datatype control_action =
  RETRY_FAILED_JOB | REPLAY_TERMINAL_JOB | REQUEUE_ABANDONED_JOB | ABANDON_ACTIVE_JOB | REDRIVE_QUEUED_JOB
| QUARANTINE_QUEUED_JOB

fun control_action_value :: "control_action \<Rightarrow> string" where
  "control_action_value RETRY_FAILED_JOB = ''RETRY_FAILED_JOB''"
| "control_action_value REPLAY_TERMINAL_JOB = ''REPLAY_TERMINAL_JOB''"
| "control_action_value REQUEUE_ABANDONED_JOB = ''REQUEUE_ABANDONED_JOB''"
| "control_action_value ABANDON_ACTIVE_JOB = ''ABANDON_ACTIVE_JOB''"
| "control_action_value REDRIVE_QUEUED_JOB = ''REDRIVE_QUEUED_JOB''"
| "control_action_value QUARANTINE_QUEUED_JOB = ''QUARANTINE_QUEUED_JOB''"

record control_request =
  kr_job_id :: string
  kr_action :: control_action
  kr_caller_app :: string
  kr_requested_by :: string
  kr_approved_by :: string
  kr_reason :: string

record control_env =
  ke_policies :: policy_store
  ke_caller :: "authenticated_caller option"
  ke_event_hex :: string
  ke_redrive_hex :: string
  ke_now :: utc
  ke_recorded_at :: utc
  ke_action_hex :: string

definition queue_next_async_attempt ::
  "'r async_env \<Rightarrow> async_job \<Rightarrow> string \<Rightarrow> 'r async_world \<Rightarrow> async_attempt result \<times> 'r async_world" where
  "queue_next_async_attempt e job msg w =
     (let n = aj_attempt_count job + 1;
          a = queued_attempt (aj_job_id job) n msg;
          s = save_job (job\<lparr>aj_lifecycle_status := ''QUEUED'', aj_latest_message := msg, aj_attempt_count := n\<rparr>)
                (save_attempt a (xw_runtime w));
          w1 = w\<lparr>xw_runtime := s\<rparr>
      in case get_job s (aj_job_id job) of
           None \<Rightarrow> (Inr a, w1)
         | Some queued \<Rightarrow> andThen (publish_async_attempt_if_configured e queued a None w1) (\<lambda>_ w. (Inr a, w)))"

definition retry_failed_job ::
  "'r async_env \<Rightarrow> async_job \<Rightarrow> string \<Rightarrow> 'r async_world \<Rightarrow> async_attempt result \<times> 'r async_world" where
  "retry_failed_job e job reason w =
     (if aj_lifecycle_status job \<noteq> ''FAILED'' then (Inl (HTTPException 409 ''not_failed''), w)
      else queue_next_async_attempt e job (retry_message reason) w)"

definition replay_terminal_job ::
  "'r async_env \<Rightarrow> async_job \<Rightarrow> string \<Rightarrow> 'r async_world \<Rightarrow> async_attempt result \<times> 'r async_world" where
  "replay_terminal_job e job reason w =
     (if aj_lifecycle_status job \<notin> {''COMPLETED'', ''FAILED'', ''ABANDONED''} then (Inl (HTTPException 409 ''not_terminal''), w)
      else queue_next_async_attempt e job (replay_message reason) w)"

definition requeue_abandoned_job ::
  "'r async_env \<Rightarrow> async_job \<Rightarrow> string \<Rightarrow> 'r async_world \<Rightarrow> async_attempt result \<times> 'r async_world" where
  "requeue_abandoned_job e job reason w =
     (if aj_lifecycle_status job \<noteq> ''ABANDONED'' then (Inl (HTTPException 409 ''not_abandoned''), w)
      else queue_next_async_attempt e job (requeue_message reason) w)"

definition abandon_active_job :: "async_job \<Rightarrow> string \<Rightarrow> utc \<Rightarrow> 'r async_world \<Rightarrow> string result \<times> 'r async_world" where
  "abandon_active_job job reason now w =
     (if \<not> active_status (aj_lifecycle_status job) then (Inl (HTTPException 409 ''not_active''), w)
      else case get_active_lease (xw_runtime w) (aj_job_id job) of
        None \<Rightarrow> (Inl (HTTPException 409 ''no_active_lease''), w)
      | Some lease \<Rightarrow>
        (case get_attempt (xw_runtime w) (al_attempt_id lease) of
           None \<Rightarrow> (Inl (HTTPException 409 ''attempt_not_found''), w)
         | Some a \<Rightarrow>
           (Inr (aa_attempt_id a),
            w\<lparr>xw_runtime :=
              save_job (job\<lparr>aj_lifecycle_status := ''ABANDONED'', aj_latest_message := abandoned_job_message reason\<rparr>)
                (snd (delete_lease (al_lease_id lease)
                  (save_attempt (a\<lparr>aa_lifecycle_status := ''ABANDONED'', aa_completed_at := Some (utc_text now),
                     aa_failure_reason := Some ''MANUAL_ABANDON'',
                     aa_recorded_message := abandoned_attempt_message reason\<rparr>) (xw_runtime w))))\<rparr>)))"

definition sync_evaluation_retryable_action ::
  "async_job \<Rightarrow> string \<Rightarrow> string \<Rightarrow> 'r async_world \<Rightarrow> unit result \<times> 'r async_world" where
  "sync_evaluation_retryable_action job reason prefix w =
     (case aj_related_evaluation_run_id job of
        None \<Rightarrow> (Inr (), w)
      | Some r \<Rightarrow>
        (case queue_next_evaluation_attempt r (prefix @ '' queued after operator action: '' @ reason) (xw_evals w) of
           (Inl err, s) \<Rightarrow> (Inl err, w\<lparr>xw_evals := s\<rparr>)
         | (Inr _, s) \<Rightarrow> (Inr (), w\<lparr>xw_evals := s\<rparr>)))"

definition sync_evaluation_abandon :: "async_job \<Rightarrow> string \<Rightarrow> 'r async_world \<Rightarrow> 'r async_world" where
  "sync_evaluation_abandon job reason w =
     (case aj_related_evaluation_run_id job of
        None \<Rightarrow> w
      | Some r \<Rightarrow> w\<lparr>xw_evals := snd (abandon_active_evaluation_attempt r
                    (abandoned_run_message reason) ''MANUAL_ABANDON'' (xw_evals w))\<rparr>)"

definition control_event ::
  "string \<Rightarrow> async_job \<Rightarrow> control_action \<Rightarrow> string \<Rightarrow> string option \<Rightarrow> string \<Rightarrow> string \<Rightarrow> string option
     \<Rightarrow> authorization_decision \<Rightarrow> utc \<Rightarrow> async_control_event" where
  "control_event hex job action requested_by approved_by reason resulting attempt auth now =
     \<lparr>av_event_id = ''async_ctrl_evt_'' @ hex, av_job_id = aj_job_id job, av_action_type = control_action_value action,
      av_requested_by = requested_by, av_approved_by = approved_by, av_reason = reason,
      av_prior_status = aj_lifecycle_status job, av_resulting_status = resulting, av_affected_attempt_id = attempt,
      av_authorization = auth, av_recorded_at = utc_text now\<rparr>"

section \<open>Delivery recovery\<close>

definition require_queued_without_lease :: "async_job \<Rightarrow> async_store \<Rightarrow> unit result" where
  "require_queued_without_lease job s =
     (if aj_lifecycle_status job \<noteq> ''QUEUED'' then Inl (HTTPException 409 ''not_queued'')
      else if get_active_lease s (aj_job_id job) \<noteq> None then Inl (HTTPException 409 ''active_lease'')
      else Inr ())"

definition latest_attempt :: "async_job \<Rightarrow> async_store \<Rightarrow> async_attempt option" where
  "latest_attempt job s =
     (let attempts = list_attempts s (aj_job_id job) in if attempts = [] then None else Some (last attempts))"

definition redrive_queued_async_job ::
  "'r async_env \<Rightarrow> control_env \<Rightarrow> async_job \<Rightarrow> string \<Rightarrow> string option \<Rightarrow> string \<Rightarrow> authorization_decision
     \<Rightarrow> 'r async_world \<Rightarrow> async_control_event result \<times> 'r async_world" where
  "redrive_queued_async_job e k job requested_by approved_by reason auth w =
     (case require_queued_without_lease job (xw_runtime w) of
        Inl err \<Rightarrow> (Inl err, w)
      | Inr _ \<Rightarrow>
        (case latest_attempt job (xw_runtime w) of
           None \<Rightarrow> (Inl (HTTPException 409 ''no_attempt''), w)
         | Some a \<Rightarrow>
           if aa_lifecycle_status a \<noteq> ''QUEUED'' then (Inl (HTTPException 409 ''attempt_not_queued''), w)
           else
             andThen (publish_async_attempt_if_configured e job a
                        (Some (aa_attempt_id a @ ''_redrive_'' @ ke_redrive_hex k)) w) (\<lambda>published w.
               if \<not> published then (Inl (HTTPException 409 ''publication_inactive''), w)
               else (Inr (control_event (ke_event_hex k) job REDRIVE_QUEUED_JOB requested_by approved_by reason ''QUEUED''
                           (Some (aa_attempt_id a)) auth (ke_recorded_at k)),
                     w\<lparr>xw_runtime := save_job (job\<lparr>aj_lifecycle_status := ''QUEUED'',
                          aj_latest_message := redriven_message reason\<rparr>) (xw_runtime w)\<rparr>))))"

definition quarantine_queued_async_job ::
  "control_env \<Rightarrow> async_job \<Rightarrow> string \<Rightarrow> string option \<Rightarrow> string \<Rightarrow> authorization_decision
     \<Rightarrow> 'r async_world \<Rightarrow> async_control_event result \<times> 'r async_world" where
  "quarantine_queued_async_job k job requested_by approved_by reason auth w =
     (case require_queued_without_lease job (xw_runtime w) of
        Inl err \<Rightarrow> (Inl err, w)
      | Inr _ \<Rightarrow>
        let latest = latest_attempt job (xw_runtime w);
            s1 = (case latest of
                    None \<Rightarrow> xw_runtime w
                  | Some a \<Rightarrow> save_attempt (a\<lparr>aa_lifecycle_status := ''ABANDONED'', aa_completed_at := Some (utc_text (ke_now k)),
                       aa_failure_reason := Some ''DELIVERY_QUARANTINED'',
                       aa_recorded_message := quarantined_attempt_message reason\<rparr>) (xw_runtime w));
            s2 = save_job (job\<lparr>aj_lifecycle_status := ''ABANDONED'',
                    aj_latest_message := quarantined_job_message reason\<rparr>) s1
        in (Inr (control_event (ke_event_hex k) job QUARANTINE_QUEUED_JOB requested_by approved_by reason ''ABANDONED''
                  (map_option aa_attempt_id latest) auth (ke_recorded_at k)), w\<lparr>xw_runtime := s2\<rparr>))"

section \<open>Applying an operator action\<close>

text \<open>The actions that queue a new attempt: the queue write first, then the linked evaluation run.\<close>

definition queue_action ::
  "(async_attempt result \<times> 'r async_world) \<Rightarrow> async_job \<Rightarrow> string \<Rightarrow> string \<Rightarrow> (string \<times> string option) result \<times> 'r async_world" where
  "queue_action queued job reason prefix =
     andThen queued (\<lambda>a w. andThen (sync_evaluation_retryable_action job reason prefix w) (\<lambda>_ w.
       (Inr (''QUEUED'', Some (aa_attempt_id a)), w)))"

definition apply_control_action ::
  "'r async_env \<Rightarrow> control_env \<Rightarrow> async_job \<Rightarrow> control_request \<Rightarrow> authorization_decision \<Rightarrow> 'r async_world
     \<Rightarrow> async_control_event result \<times> 'r async_world" where
  "apply_control_action e k job q auth w =
     (let reason = kr_reason q;
          recorded = (\<lambda>p. andThen p (\<lambda>(resulting, attempt) w.
             (Inr (control_event (ke_event_hex k) job (kr_action q) (kr_requested_by q) (Some (kr_approved_by q)) reason
                resulting attempt auth (ke_recorded_at k)), w)))
      in case kr_action q of
           RETRY_FAILED_JOB \<Rightarrow> recorded (queue_action (retry_failed_job e job reason w) job reason ''Manual retry'')
         | REPLAY_TERMINAL_JOB \<Rightarrow> recorded (queue_action (replay_terminal_job e job reason w) job reason ''Manual replay'')
         | REQUEUE_ABANDONED_JOB \<Rightarrow> recorded (queue_action (requeue_abandoned_job e job reason w) job reason ''Manual requeue'')
         | ABANDON_ACTIVE_JOB \<Rightarrow>
             recorded (andThen (abandon_active_job job reason (ke_now k) w) (\<lambda>aid w.
               (Inr (''ABANDONED'', Some aid), sync_evaluation_abandon job reason w)))
         | REDRIVE_QUEUED_JOB \<Rightarrow>
             redrive_queued_async_job e k job (kr_requested_by q) (Some (kr_approved_by q)) reason auth w
         | QUARANTINE_QUEUED_JOB \<Rightarrow>
             quarantine_queued_async_job k job (kr_requested_by q) (Some (kr_approved_by q)) reason auth w)"

definition record_event :: "async_control_event \<Rightarrow> 'r async_world \<Rightarrow> 'r async_world" where
  "record_event ev w = w\<lparr>xw_runtime := save_control_event ev (xw_runtime w)\<rparr>"

definition apply_async_control_action ::
  "'r async_env \<Rightarrow> control_env \<Rightarrow> control_request \<Rightarrow> 'r async_world \<Rightarrow> async_control_event result \<times> 'r async_world" where
  "apply_async_control_action e k q w =
     (case require_authorized (authorize_request (ke_policies k) (ke_caller k) (kr_caller_app q) ASYNC_CONTROL None None None) of
        Inl err \<Rightarrow> (Inl err, w)
      | Inr auth \<Rightarrow>
        (case get_job (xw_runtime w) (kr_job_id q) of
           None \<Rightarrow> (Inl (HTTPException 404 ''async_job_not_found''), w)
         | Some job \<Rightarrow>
           andThen (apply_control_action e k job q auth w) (\<lambda>ev w. (Inr ev, record_event ev w))))"

definition build_async_control_history :: "int \<Rightarrow> 'r async_world \<Rightarrow> async_control_event list" where
  "build_async_control_history limit w = list_control_events (max limit 1) None (xw_runtime w)"

section \<open>Deliveries that no worker handled\<close>

definition system_authorization :: authorization_decision where
  "system_authorization =
     \<lparr>ad_caller_app = ''lotus-ai.async-worker-runtime'', ad_authenticated_caller_app = None,
      ad_caller_identity_source = ''body_metadata_only'', ad_caller_identity_bound = False, ad_caller_credential_key_id = None,
      ad_caller_credential_token_id = None, ad_capability_type = ASYNC_CONTROL, ad_outcome = ALLOWED, ad_allowed = True,
      ad_tenant_policy_mode = OPTIONAL, ad_task_id = None, ad_requested_source_ids = [], ad_effective_source_ids = [],
      ad_tenant_id = None\<rparr>"

definition record_system_recovery_action ::
  "'r async_env \<Rightarrow> control_env \<Rightarrow> string \<Rightarrow> string \<Rightarrow> string \<Rightarrow> string \<Rightarrow> string \<Rightarrow> 'r async_world \<Rightarrow> unit result \<times> 'r async_world" where
  "record_system_recovery_action e k worker action j job_type reason w =
     (case record_system_originated_action (xe_sha e) worker ASYNC_QUEUE_RECOVERY j
             [(''action'', Some action), (''job_id'', Some j), (''job_type'', Some job_type), (''reason'', Some reason)]
             (''gact_'' @ ke_action_hex k) (utc_text (ke_now k)) (utc_text (ke_now k)) (xw_ops w) of
        (Inl err, s) \<Rightarrow> (Inl err, w\<lparr>xw_ops := s\<rparr>)
      | (Inr _, s) \<Rightarrow> (Inr (), w\<lparr>xw_ops := s\<rparr>))"

definition quarantine_missing_delivery ::
  "control_env \<Rightarrow> delivery_message \<Rightarrow> string \<Rightarrow> 'r async_world \<Rightarrow> async_job \<times> 'r async_world" where
  "quarantine_missing_delivery k d reason w =
     (let msg = missing_delivery_message reason;
          job = \<lparr>aj_job_id = dm_job_id d, aj_job_type = dm_job_type d, aj_target_id = dm_target_id d,
            aj_lifecycle_status = ''ABANDONED'', aj_submitted_at = dm_submitted_at d, aj_caller_app = dm_caller_app d,
            aj_correlation_id = dm_correlation_id d,
            aj_payload_summary = ''Quarantined orphaned dedicated-worker delivery without matching runtime job.'',
            aj_execution_path = ''dedicated_worker_delivery_recovery'', aj_related_evaluation_run_id = None,
            aj_latest_message = msg, aj_attempt_count = 1, aj_artifact_ids = [], aj_tenant_id = None\<rparr>;
          a = (queued_attempt (dm_job_id d) 1 msg)\<lparr>aa_attempt_id := dm_attempt_id d, aa_lifecycle_status := ''ABANDONED'',
            aa_completed_at := Some (utc_text (ke_now k)), aa_failure_reason := Some ''MISSING_RUNTIME_JOB''\<rparr>
      in (job, w\<lparr>xw_runtime := save_attempt a (save_job job (xw_runtime w))\<rparr>))"

definition missing_delivery_control_event ::
  "control_env \<Rightarrow> async_job \<Rightarrow> delivery_message \<Rightarrow> string \<Rightarrow> string \<Rightarrow> async_control_event" where
  "missing_delivery_control_event k job d worker reason =
     \<lparr>av_event_id = ''async_ctrl_evt_'' @ ke_event_hex k, av_job_id = dm_job_id d, av_action_type = ''QUARANTINE_QUEUED_JOB'',
      av_requested_by = worker, av_approved_by = None,
      av_reason = ''Dequeued delivery referenced missing durable async job type `'' @ dm_job_type d @ ''`: '' @ reason,
      av_prior_status = ''MISSING_RUNTIME_JOB'', av_resulting_status = aj_lifecycle_status job,
      av_affected_attempt_id = Some (dm_attempt_id d), av_authorization = system_authorization,
      av_recorded_at = utc_text (ke_recorded_at k)\<rparr>"

definition deliverable_job_types :: "string list" where
  "deliverable_job_types = [''retrieval_indexing'', ''evaluation_execution'', ''document_ingestion'', ''workflow_pack_execution'']"

definition recover_unhandled_delivery ::
  "'r async_env \<Rightarrow> control_env \<Rightarrow> delivery_message \<Rightarrow> string \<Rightarrow> string \<Rightarrow> 'r async_world \<Rightarrow> unit result \<times> 'r async_world" where
  "recover_unhandled_delivery e k d worker reason w =
     (case get_job (xw_runtime w) (dm_job_id d) of
        None \<Rightarrow>
          (let (job, w1) = quarantine_missing_delivery k d reason w
           in (Inr (), record_event (missing_delivery_control_event k job d worker reason) w1))
      | Some job \<Rightarrow>
        if aj_lifecycle_status job \<noteq> ''QUEUED'' then (Inr (), w)
        else if dm_job_type d \<notin> set deliverable_job_types
        then andThen (record_system_recovery_action e k worker ''QUARANTINE_QUEUED_JOB'' (aj_job_id job) (dm_job_type d) reason w) (\<lambda>_ w.
             andThen (quarantine_queued_async_job k job worker None reason system_authorization w) (\<lambda>ev w.
               (Inr (), record_event ev w)))
        else andThen (record_system_recovery_action e k worker ''REDRIVE_QUEUED_JOB'' (aj_job_id job) (dm_job_type d) reason w) (\<lambda>_ w.
             andThen (redrive_queued_async_job e k job worker None reason system_authorization w) (\<lambda>ev w.
               (Inr (), record_event ev w))))"

section \<open>Every call keeps the store consistent\<close>

abbreviation keeps :: "'r async_world \<Rightarrow> 'r async_world \<Rightarrow> bool" where
  "keeps w w' \<equiv> ok_move (xw_runtime w) (xw_runtime w')"

lemma keeps_trans: "keeps w w' \<Longrightarrow> keeps w' w'' \<Longrightarrow> keeps w w''"
  by (rule ok_move_trans)

lemma keeps_ok: "keeps w w' \<Longrightarrow> store_ok (xw_runtime w')"
  by (simp add: ok_move_def)

lemma first_attempt_simps [simp]:
  "aa_job_id (first_attempt j m) = j" "aa_attempt_number (first_attempt j m) = Suc 0"
  "aa_attempt_id (first_attempt j m) = attempt_id_of j (Suc 0)" "aa_lifecycle_status (first_attempt j m) = ''SUBMITTED''"
proof -
  have "pad 3 (Suc 0) = ''001''" by code_simp
  then show "aa_attempt_id (first_attempt j m) = attempt_id_of j (Suc 0)" by (simp add: first_attempt_def attempt_id_of_def)
qed (simp_all add: first_attempt_def queued_attempt_def)

lemma submitted_job_simps [simp]:
  "aj_job_id (submitted_job j typ target t caller corr summary path run msg tenant) = j"
  "aj_attempt_count (submitted_job j typ target t caller corr summary path run msg tenant) = Suc 0"
  "aj_lifecycle_status (submitted_job j typ target t caller corr summary path run msg tenant) = ''QUEUED''"
  by (simp_all add: submitted_job_def)

text \<open>The identifiers a submission would create.\<close>

definition fresh_submission :: "submission_env \<Rightarrow> submission_request \<Rightarrow> async_store \<Rightarrow> bool" where
  "fresh_submission v q s \<longleftrightarrow> get_job s (''asyncjob_'' @ sq_job_type q @ ''_'' @ se_hex v) = None
     \<and> get_job s (evaluation_job_id v) = None"

lemma save_submission_keeps:
  assumes "store_ok (xw_runtime w)" and "get_job (xw_runtime w) j = None" and "aj_job_id job = j" and "aj_attempt_count job = Suc 0"
    and "aj_lifecycle_status job = ''QUEUED''" and "a = first_attempt j m"
  shows "keeps w (save_submission job a w)"
  unfolding save_submission_def using submit_ok [OF assms(1-5), of a] assms(6) by simp

lemma snd_andThen_return [simp]: "snd (andThen p (\<lambda>a w. (g a, w))) = snd p"
  by (cases p) (simp add: andThen_def split: sum.splits)

lemma submit_evaluation_keeps:
  assumes "store_ok (xw_runtime w)" and "get_job (xw_runtime w) (evaluation_job_id v) = None"
  shows "keeps w (snd (submit_runtime_backed_evaluation_run e v fixture caller corr trig w))"
proof -
  have sub: "keeps w (save_submission job (first_attempt (evaluation_job_id v) m) (w\<lparr>xw_evals := x\<rparr>))"
    if "aj_job_id job = evaluation_job_id v" "aj_attempt_count job = Suc 0" "aj_lifecycle_status job = ''QUEUED''" for job m x
    using save_submission_keeps [of "w\<lparr>xw_evals := x\<rparr>" _ job] assms that by simp
  show ?thesis
    using assms(1) unfolding submit_runtime_backed_evaluation_run_def Let_def
    by (simp add: sub split: sum.splits option.splits bool.splits prod.splits)
qed

lemma submit_keeps:
  assumes "store_ok (xw_runtime w)" and "fresh_submission v q (xw_runtime w)"
  shows "keeps w (snd (submit_async_job e v q w))"
proof (cases "sq_job_type q = ''evaluation_execution''")
  case True
  have "keeps w (snd (submit_evaluation_execution_async_job e v q w))"
    using assms submit_evaluation_keeps [OF assms(1)]
    by (simp add: submit_evaluation_execution_async_job_def fresh_submission_def
        split: option.splits sum.splits error.splits)
  then show ?thesis using True by (simp add: submit_async_job_def)
next
  case False
  have sub: "keeps w (save_submission job (first_attempt (''asyncjob_'' @ sq_job_type q @ ''_'' @ se_hex v) m) w)"
    if "aj_job_id job = ''asyncjob_'' @ sq_job_type q @ ''_'' @ se_hex v" "aj_attempt_count job = Suc 0"
      "aj_lifecycle_status job = ''QUEUED''" for job m
    using save_submission_keeps [OF assms(1) _ that] assms(2) by (simp add: fresh_submission_def)
  show ?thesis
    using assms(1) False unfolding submit_async_job_def Let_def
    by (simp add: sub [simplified] split: sum.splits option.splits prod.splits)
qed

lemma queue_next_keeps:
  assumes "store_ok (xw_runtime w)" and "get_job (xw_runtime w) (aj_job_id job) = Some job"
    and "\<not> active_status (aj_lifecycle_status job)" and "aj_lifecycle_status job \<noteq> ''QUEUED''"
  shows "keeps w (snd (queue_next_async_attempt e job msg w))"
proof -
  have "ok_move (xw_runtime w) (save_job (job\<lparr>aj_lifecycle_status := ''QUEUED'', aj_latest_message := msg,
      aj_attempt_count := Suc (aj_attempt_count job)\<rparr>)
      (save_attempt (queued_attempt (aj_job_id job) (Suc (aj_attempt_count job)) msg) (xw_runtime w)))"
    by (rule requeue_closed_ok [OF assms(1-4)]) simp_all
  then show ?thesis by (simp add: queue_next_async_attempt_def Let_def)
qed

lemma save_job_delete_lease: "snd (delete_lease lid (save_job r s)) = save_job r (snd (delete_lease lid s))"
  by (simp add: delete_lease_def save_job_def split: option.splits)

lemma abandon_keeps:
  assumes "store_ok (xw_runtime w)" and "get_job (xw_runtime w) (aj_job_id job) = Some job"
    and "abandon_active_job job reason now w = (res, w')"
  shows "keeps w w'"
proof (cases "\<exists>aid. res = Inr aid")
  case True
  then obtain l a where l: "get_active_lease (xw_runtime w) (aj_job_id job) = Some l" "get_attempt (xw_runtime w) (al_attempt_id l) = Some a"
    and w': "xw_runtime w' = snd (delete_lease (al_lease_id l) (save_job
       (job\<lparr>aj_lifecycle_status := ''ABANDONED'', aj_latest_message := abandoned_job_message reason\<rparr>)
       (save_attempt (a\<lparr>aa_lifecycle_status := ''ABANDONED'', aa_completed_at := Some (utc_text now),
          aa_failure_reason := Some ''MANUAL_ABANDON'', aa_recorded_message := abandoned_attempt_message reason\<rparr>)
          (xw_runtime w))))"
    using assms(3) by (auto simp: abandon_active_job_def save_job_delete_lease split: if_splits option.splits)
  note a = leased_attempt(1) [OF assms(1) l assms(2)]
  show ?thesis by (rule close_claim_ok(1) [OF assms(1) l(1) assms(2) a _ _ _ _ _ _ _ w']) simp_all
next
  case False
  then show ?thesis using assms(1,3) by (auto simp: abandon_active_job_def split: if_splits option.splits)
qed

lemma redrive_keeps:
  assumes "store_ok (xw_runtime w)" and "get_job (xw_runtime w) (aj_job_id job) = Some job"
    and "redrive_queued_async_job e k job rb ab reason auth w = (res, w')"
  shows "keeps w w'"
proof -
  have mark: "ok_move (xw_runtime w) (save_job (job\<lparr>aj_lifecycle_status := ''QUEUED'', aj_latest_message := redriven_message reason\<rparr>) (xw_runtime w))"
    if "aj_lifecycle_status job = ''QUEUED''"
    by (rule remark_ok [OF assms(1,2) that]) simp_all
  have "xw_runtime w' = xw_runtime w \<or> aj_lifecycle_status job = ''QUEUED'' \<and>
      xw_runtime w' = save_job (job\<lparr>aj_lifecycle_status := ''QUEUED'', aj_latest_message := redriven_message reason\<rparr>) (xw_runtime w)"
    using assms(3) unfolding redrive_queued_async_job_def require_queued_without_lease_def
    by (auto simp: andThen_def dest!: publish_runtime split: sum.splits option.splits if_splits prod.splits)
  then show ?thesis using mark assms(1) by auto
qed

lemma latest_attempt_Some:
  assumes "store_ok s" and "get_job s (aj_job_id job) = Some job"
  shows "\<exists>a. latest_attempt job s = Some a \<and> a \<in> set (attempts_of s (aj_job_id job))"
proof -
  note ok = job_okD(2) [OF assms]
  note cur = last_attempt_current(1) [OF ok]
  have "list_attempts s (aj_job_id job) \<noteq> []"
    using attempts_ok_not_Nil [OF ok] by (simp add: list_attempts_def) (metis set_empty set_sort)
  then show ?thesis using cur by (simp add: latest_attempt_def Let_def)
qed

lemma quarantine_keeps:
  assumes "store_ok (xw_runtime w)" and "get_job (xw_runtime w) (aj_job_id job) = Some job"
    and "quarantine_queued_async_job k job rb ab reason auth w = (res, w')"
  shows "keeps w w'"
proof (cases "require_queued_without_lease job (xw_runtime w)")
  case (Inl err)
  then show ?thesis using assms(1,3) by (simp add: quarantine_queued_async_job_def)
next
  case (Inr u)
  then have q: "aj_lifecycle_status job = ''QUEUED''" by (auto simp: require_queued_without_lease_def split: if_splits)
  obtain a where a: "latest_attempt job (xw_runtime w) = Some a" "a \<in> set (attempts_of (xw_runtime w) (aj_job_id job))"
    using latest_attempt_Some [OF assms(1,2)] by blast
  have "ok_move (xw_runtime w) (save_job (job\<lparr>aj_lifecycle_status := ''ABANDONED'',
         aj_latest_message := quarantined_job_message reason\<rparr>)
      (save_attempt (a\<lparr>aa_lifecycle_status := ''ABANDONED'', aa_completed_at := Some (utc_text (ke_now k)),
         aa_failure_reason := Some ''DELIVERY_QUARANTINED'', aa_recorded_message := quarantined_attempt_message reason\<rparr>)
         (xw_runtime w)))"
    by (rule quarantine_ok [OF assms(1,2) q _ _ _ _ a(2)]) simp_all
  then show ?thesis using assms(3) Inr a(1) by (auto simp: quarantine_queued_async_job_def Let_def)
qed

lemma sync_control_frames [simp]:
  "xw_runtime (snd (sync_evaluation_retryable_action job reason prefix w)) = xw_runtime w"
  "xw_runtime (sync_evaluation_abandon job reason w) = xw_runtime w"
  "xw_runtime (snd (record_system_recovery_action e k worker act j typ reason w)) = xw_runtime w"
  by (simp_all add: sync_evaluation_retryable_action_def sync_evaluation_abandon_def record_system_recovery_action_def
      split: option.splits prod.splits sum.splits)

lemma record_event_keeps: "keeps v w \<Longrightarrow> keeps v (record_event ev w)"
  using control_event_ok [of "xw_runtime w" ev] by (auto simp: record_event_def ok_move_def intro: moves_trans)

lemma andThen_keeps:
  assumes "andThen p f = (res, w')" and "keeps w (snd p)"
    and "\<And>a u r u'. p = (Inr a, u) \<Longrightarrow> f a u = (r, u') \<Longrightarrow> keeps w u \<Longrightarrow> keeps w u'"
  shows "keeps w w'"
  using assms by (cases p) (auto simp: andThen_def split: sum.splits)

lemma queue_action_keeps:
  assumes "queue_action p job reason prefix = (res, w')" and "keeps w (snd p)"
  shows "keeps w w'"
  using assms(1) unfolding queue_action_def
proof (rule andThen_keeps [OF _ assms(2)])
  fix a u r u'
  assume f: "andThen (sync_evaluation_retryable_action job reason prefix u) (\<lambda>_ w. (Inr (''QUEUED'', Some (aa_attempt_id a)), w)) = (r, u')"
    and k: "keeps w u"
  have "xw_runtime u' = xw_runtime u"
    using f sync_control_frames(1) [of job reason prefix u]
    by (cases "sync_evaluation_retryable_action job reason prefix u") (auto simp: andThen_def split: sum.splits)
  then show "keeps w u'" using k by simp
qed

lemma apply_control_keeps:
  assumes "store_ok (xw_runtime w)" and "get_job (xw_runtime w) (aj_job_id job) = Some job"
    and "apply_control_action e k job q auth w = (res, w')"
  shows "keeps w w'"
proof -
  have refl: "keeps w w" using assms(1) by simp
  have queue: "keeps w (snd (if b then (Inl err, w) else queue_next_async_attempt e job msg w))"
    if "\<not> b \<Longrightarrow> \<not> active_status (aj_lifecycle_status job) \<and> aj_lifecycle_status job \<noteq> ''QUEUED''" for b err msg
    using that refl queue_next_keeps [OF assms(1,2)] by (cases b) simp_all
  have op1: "keeps w (snd (retry_failed_job e job (kr_reason q) w))"
    unfolding retry_failed_job_def by (rule queue) auto
  have op2: "keeps w (snd (replay_terminal_job e job (kr_reason q) w))"
    unfolding replay_terminal_job_def by (rule queue) auto
  have op3: "keeps w (snd (requeue_abandoned_job e job (kr_reason q) w))"
    unfolding requeue_abandoned_job_def by (rule queue) auto
  have ab: "keeps w (snd (andThen (abandon_active_job job (kr_reason q) (ke_now k) w)
      (\<lambda>aid w. (Inr (''ABANDONED'', Some aid), sync_evaluation_abandon job (kr_reason q) w))))"
    using abandon_keeps [OF assms(1,2)]
    by (cases "abandon_active_job job (kr_reason q) (ke_now k) w") (auto simp: andThen_def split: sum.splits)
  have qa: "keeps w (snd (queue_action p job (kr_reason q) prefix))" if "keeps w (snd p)" for p prefix
    using queue_action_keeps [OF _ that] by (metis prod.collapse)
  have rec: "keeps w w'" if "andThen p (\<lambda>(resulting, attempt) w. (Inr (f resulting attempt), w)) = (res, w')" "keeps w (snd p)"
    for p :: "(string \<times> string option) result \<times> _" and f
    by (rule andThen_keeps [OF that]) auto
  show ?thesis
    using assms(3) unfolding apply_control_action_def Let_def
    by (cases "kr_action q")
      (simp_all, (erule rec, intro qa op1 op2 op3 ab)+, erule redrive_keeps [OF assms(1,2)], erule quarantine_keeps [OF assms(1,2)])
qed

lemma control_keeps:
  assumes "store_ok (xw_runtime w)" and "apply_async_control_action e k q w = (res, w')"
  shows "keeps w w'"
proof (cases "(\<exists>auth. require_authorized (authorize_request (ke_policies k) (ke_caller k) (kr_caller_app q) ASYNC_CONTROL None None None)
      = Inr auth) \<and> get_job (xw_runtime w) (kr_job_id q) \<noteq> None")
  case True
  then obtain auth job where "require_authorized (authorize_request (ke_policies k) (ke_caller k) (kr_caller_app q) ASYNC_CONTROL None None None) = Inr auth"
    and job: "get_job (xw_runtime w) (kr_job_id q) = Some job" by blast
  then have call: "andThen (apply_control_action e k job q auth w) (\<lambda>ev w. (Inr ev, record_event ev w)) = (res, w')"
    using assms(2) by (simp add: apply_async_control_action_def)
  have cur: "get_job (xw_runtime w) (aj_job_id job) = Some job" using job_okD(1) [OF assms(1) job] job by simp
  show ?thesis
  proof (rule andThen_keeps [OF call])
    show "keeps w (snd (apply_control_action e k job q auth w))" using apply_control_keeps [OF assms(1) cur] by (metis prod.collapse)
  qed (auto intro: record_event_keeps)
next
  case False
  then show ?thesis using assms by (auto simp: apply_async_control_action_def split: sum.splits option.splits)
qed

lemma recover_unhandled_keeps:
  assumes "store_ok (xw_runtime w)" and "get_job (xw_runtime w) (dm_job_id d) \<noteq> None"
    and "recover_unhandled_delivery e k d worker reason w = (res, w')"
  shows "keeps w w'"
proof -
  obtain job where job: "get_job (xw_runtime w) (dm_job_id d) = Some job" using assms(2) by blast
  have cur: "get_job (xw_runtime w) (aj_job_id job) = Some job" using job_okD(1) [OF assms(1) job] job by simp
  have sys: "keeps w (snd (record_system_recovery_action e k worker act (aj_job_id job) (dm_job_type d) reason w))" for act
    using assms(1) by simp
  have after: "keeps w u'"
    if "record_system_recovery_action e k worker act (aj_job_id job) (dm_job_type d) reason w = (Inr a, u)"
      "andThen (op u) (\<lambda>ev w. (Inr (), record_event ev w)) = (r, u')"
      "\<And>v. store_ok (xw_runtime v) \<Longrightarrow> get_job (xw_runtime v) (aj_job_id job) = Some job \<Longrightarrow> keeps v (snd (op v))"
    for act a u op r u'
  proof -
    have same: "xw_runtime u = xw_runtime w"
      using that(1) sync_control_frames(3) [of e k worker act "aj_job_id job" "dm_job_type d" reason w] by simp
    have "keeps u u'"
      by (rule andThen_keeps [OF that(2)]) (use that(3) [of u] assms(1) cur in \<open>auto simp: same intro: record_event_keeps\<close>)
    then show ?thesis by (simp add: same)
  qed
  have snds: "keeps v (snd (quarantine_queued_async_job k job worker None reason system_authorization v))"
    "keeps v (snd (redrive_queued_async_job e k job worker None reason system_authorization v))"
    if "store_ok (xw_runtime v)" "get_job (xw_runtime v) (aj_job_id job) = Some job" for v
    using quarantine_keeps [OF that] redrive_keeps [OF that] by (metis prod.collapse)+
  consider "aj_lifecycle_status job \<noteq> ''QUEUED''" | "aj_lifecycle_status job = ''QUEUED''" "dm_job_type d \<notin> set deliverable_job_types"
    | "aj_lifecycle_status job = ''QUEUED''" "dm_job_type d \<in> set deliverable_job_types" by blast
  then show ?thesis
  proof cases
    case 1
    then show ?thesis using assms(1,3) job by (simp add: recover_unhandled_delivery_def)
  next
    case 2
    then show ?thesis using assms(3) job unfolding recover_unhandled_delivery_def
      by simp (erule andThen_keeps, rule sys, erule (1) after, erule (1) snds(1))
  next
    case 3
    then show ?thesis using assms(3) job unfolding recover_unhandled_delivery_def
      by simp (erule andThen_keeps, rule sys, erule (1) after, erule (1) snds(2))
  qed
qed

end
