(* ===== verification/Async_Fleet.thy ===== *)
theory Async_Fleet
  imports Async_Control
begin

text \<open>
  The dedicated worker, \<^verbatim>\<open>services/async_worker_fleet.py\<close>: one delivery cycle and the loop around it, and the
  properties of the async runtime as a whole.

  The runners of the four job types belong to other components and are an argument; a runner answers whether the
  delivery was handled, or raises. The liveness marker is a file and not modelled; the availability of the queue that the
  loop paces itself by is read from the queue's snapshot, an argument per cycle. The loop is a partial function, so that
  not returning is the value \<open>None\<close>.
\<close>

section \<open>One delivery cycle\<close>

record cycle_result =
  cy_delivery_id :: string
  cy_job_id :: string
  cy_job_type :: string
  cy_handled :: bool
  cy_terminal_status :: "string option"

type_synonym 'r runner = "string \<Rightarrow> string \<Rightarrow> string \<Rightarrow> 'r async_world \<Rightarrow> string option result \<times> 'r async_world"

text \<open>A runner gets the job type, the job and the worker; \<open>None\<close> is its answer that no claim was executed.\<close>

definition dispatch_delivery ::
  "'r runner \<Rightarrow> string \<Rightarrow> delivery_message \<Rightarrow> 'r async_world \<Rightarrow> cycle_result result \<times> 'r async_world" where
  "dispatch_delivery run worker d w =
     (if dm_job_type d \<in> set deliverable_job_types
      then andThen (run (dm_job_type d) (dm_job_id d) worker w) (\<lambda>status w.
             (Inr \<lparr>cy_delivery_id = dm_delivery_id d, cy_job_id = dm_job_id d, cy_job_type = dm_job_type d,
                   cy_handled = (status \<noteq> None), cy_terminal_status = status\<rparr>, w))
      else (Inr \<lparr>cy_delivery_id = dm_delivery_id d, cy_job_id = dm_job_id d, cy_job_type = dm_job_type d,
                 cy_handled = False, cy_terminal_status = None\<rparr>, w))"

definition unhandled_reason :: "delivery_message \<Rightarrow> string" where
  "unhandled_reason d = ''Dedicated worker delivery was dequeued but no durable claim or execution was completed for delivery `''
     @ dm_delivery_id d @ ''`.''"

definition process_next_async_delivery ::
  "'r async_env \<Rightarrow> control_env \<Rightarrow> 'r runner \<Rightarrow> string \<Rightarrow> nat \<Rightarrow> 'r async_world \<Rightarrow> cycle_result option result \<times> 'r async_world" where
  "process_next_async_delivery e k run worker timeout w =
     (case get_async_runtime_posture (xe_settings e) of
        Inl err \<Rightarrow> (Inl err, w)
      | Inr p \<Rightarrow>
        if ap_cutover_state p \<noteq> DEDICATED_WORKERS_ACTIVE \<or> as_worker_drain_enabled (xe_settings e) then (Inr None, w)
        else
          (case dequeue (xe_redis e) (xe_settings e) timeout (xw_redis w) of
             (Inl _, r) \<Rightarrow> (Inr None, w\<lparr>xw_redis := r\<rparr>)
           | (Inr None, r) \<Rightarrow> (Inr None, w\<lparr>xw_redis := r\<rparr>)
           | (Inr (Some d), r) \<Rightarrow>
             andThen (dispatch_delivery run worker d (w\<lparr>xw_redis := r\<rparr>)) (\<lambda>res w.
               if cy_handled res then (Inr (Some res), w)
               else andThen (recover_unhandled_delivery e k d worker (unhandled_reason d) w) (\<lambda>_ w. (Inr (Some res), w)))))"

section \<open>The loop\<close>

definition queue_backoff_shift_cap :: nat where
  "queue_backoff_shift_cap = 8"

definition queue_backoff_max_seconds :: rat where
  "queue_backoff_max_seconds = 5"

definition idle_sleep_for_cycle :: "rat \<Rightarrow> nat \<Rightarrow> rat" where
  "idle_sleep_for_cycle idle failures =
     (if failures = 0 then idle
      else min (idle * 2 ^ min failures queue_backoff_shift_cap) queue_backoff_max_seconds)"

record 'r cycle_env =
  cl_control :: control_env
  cl_runner :: "'r runner"
  cl_queue_available :: bool

text \<open>\<open>sleeps\<close> collects the pauses; the i-th cycle reads \<open>cyc i\<close>.\<close>

partial_function (option) worker_loop ::
  "'r async_env \<Rightarrow> (nat \<Rightarrow> 'r cycle_env) \<Rightarrow> string \<Rightarrow> nat \<Rightarrow> rat \<Rightarrow> nat option \<Rightarrow> nat \<Rightarrow> nat \<Rightarrow> rat list \<Rightarrow> 'r async_world
     \<Rightarrow> (rat list result \<times> 'r async_world) option" where
  "worker_loop e cyc worker timeout idle max_cycles completed failures sleeps w =
     (if (case max_cycles of None \<Rightarrow> False | Some n \<Rightarrow> n \<le> completed) then Some (Inr sleeps, w)
      else
        (case process_next_async_delivery e (cl_control (cyc completed)) (cl_runner (cyc completed)) worker timeout w of
           (Inl err, w1) \<Rightarrow> Some (Inl err, w1)
         | (Inr processed, w1) \<Rightarrow>
           worker_loop e cyc worker timeout idle max_cycles (Suc completed)
             (if cl_queue_available (cyc completed) then 0 else Suc failures)
             (if processed = None
              then sleeps @ [idle_sleep_for_cycle idle (if cl_queue_available (cyc completed) then 0 else Suc failures)]
              else sleeps)
             w1))"

definition run_dedicated_worker_loop ::
  "'r async_env \<Rightarrow> (nat \<Rightarrow> 'r cycle_env) \<Rightarrow> string \<Rightarrow> nat \<Rightarrow> rat \<Rightarrow> nat option \<Rightarrow> 'r async_world
     \<Rightarrow> (rat list result \<times> 'r async_world) option" where
  "run_dedicated_worker_loop e cyc worker timeout idle max_cycles w =
     worker_loop e cyc worker timeout idle max_cycles 0 0 [] w"

lemma idle_sleep_bound: "0 \<le> idle \<Longrightarrow> idle_sleep_for_cycle idle n \<le> max idle 5"
proof (cases "n = 0")
  case False
  have "min (idle * 2 ^ min n queue_backoff_shift_cap) 5 \<le> (5 :: rat)" by simp
  also have "\<dots> \<le> max idle 5" by simp
  finally show ?thesis using False by (simp add: idle_sleep_for_cycle_def queue_backoff_max_seconds_def)
qed (simp add: idle_sleep_for_cycle_def)

lemma worker_loop_bounded:
  "0 \<le> idle \<Longrightarrow> n - completed = fuel \<Longrightarrow>
   \<exists>res w'. worker_loop e cyc worker timeout idle (Some n) completed failures sleeps w = Some (res, w')
     \<and> (\<forall>out. res = Inr out \<longrightarrow> (\<exists>new. out = sleeps @ new \<and> length new \<le> fuel \<and> (\<forall>x \<in> set new. x \<le> max idle 5)))"
proof (induction fuel arbitrary: completed failures sleeps w)
  case 0
  then show ?case by (subst worker_loop.simps) simp
next
  case (Suc fuel)
  let ?c = "cyc completed"
  obtain p w1 where p: "process_next_async_delivery e (cl_control ?c) (cl_runner ?c) worker timeout w = (p, w1)" by fastforce
  have more: "\<not> n \<le> completed" and fuel: "n - Suc completed = fuel" using Suc.prems by auto
  show ?case
  proof (cases p)
    case (Inl err)
    then show ?thesis using more p by (subst worker_loop.simps) simp
  next
    case (Inr processed)
    define f where "f = (if cl_queue_available ?c then 0 else Suc failures)"
    define add where "add = (if processed = None then [idle_sleep_for_cycle idle f] else [])"
    have step: "worker_loop e cyc worker timeout idle (Some n) completed failures sleeps w
        = worker_loop e cyc worker timeout idle (Some n) (Suc completed) f (sleeps @ add) w1"
      using more p Inr by (subst worker_loop.simps) (simp add: f_def add_def)
    obtain res w' where IH: "worker_loop e cyc worker timeout idle (Some n) (Suc completed) f (sleeps @ add) w1 = Some (res, w')"
      "\<forall>out. res = Inr out \<longrightarrow> (\<exists>new. out = (sleeps @ add) @ new \<and> length new \<le> fuel \<and> (\<forall>x \<in> set new. x \<le> max idle 5))"
      using Suc.IH [OF Suc.prems(1) fuel, of f "sleeps @ add" w1] by blast
    have "length add \<le> 1" "\<forall>x \<in> set add. x \<le> max idle 5"
      using idle_sleep_bound [OF Suc.prems(1), of f] by (simp_all add: add_def)
    then have "\<forall>out. res = Inr out \<longrightarrow> (\<exists>new. out = sleeps @ new \<and> length new \<le> Suc fuel \<and> (\<forall>x \<in> set new. x \<le> max idle 5))"
      using IH(2) by (fastforce intro: exI [of _ "add @ new" for new])
    then show ?thesis using IH(1) by (simp add: step)
  qed
qed

text \<open>Without a cycle bound the loop can only be left by an exception.\<close>

lemma worker_loop_unbounded:
  assumes "worker_loop e cyc worker timeout idle max_cycles completed failures sleeps w = Some y" and "max_cycles = None"
  shows "\<exists>err. fst y = Inl err"
proof -
  have "max_cycles = None \<longrightarrow> (\<exists>err. fst y = Inl err)"
    by (rule worker_loop.raw_induct [where P = "\<lambda>_ _ _ _ _ mx _ _ _ _ y. mx = None \<longrightarrow> (\<exists>err. fst y = Inl err)", OF _ assms(1)])
      (auto split: prod.splits sum.splits option.splits)
  then show ?thesis using assms(2) by simp
qed

section \<open>Steps of the runtime\<close>

text \<open>
  Every service call that writes the runtime state of a new or existing job, with any arguments. Two things are left out: the
  deletion of job records, which only data retention calls, and, as jobs are not deleted, the recovery of a delivery whose job
  is missing, which creates a quarantined job; \<open>replay_overwrites_quarantine_record\<close> below is about that case.
\<close>

inductive runtime_step :: "'r async_env \<Rightarrow> 'r async_world \<Rightarrow> 'r async_world \<Rightarrow> bool" for e :: "'r async_env" where
  submit: "fresh_submission v q (xw_runtime w) \<Longrightarrow> runtime_step e w (snd (submit_async_job e v q w))"
| recover: "runtime_step e w (snd (recover_expired_async_jobs e time fresh w))"
| claim_next: "runtime_step e w (snd (claim_next_async_job_for_types e worker types now w))"
| claim_by_id: "runtime_step e w (snd (claim_async_job_by_id e j worker now w))"
| start: "runtime_step e w (snd (start_async_job j worker aid now w))"
| heartbeat: "runtime_step e w (snd (heartbeat_async_job j worker aid now w))"
| complete: "runtime_step e w (snd (complete_async_job e hex j worker aid message staged_at now w))"
| fail: "runtime_step e w (snd (fail_async_job e hex j worker aid reason retryable staged_at now w))"
| control: "runtime_step e w (snd (apply_async_control_action e k q w))"
| redeliver: "get_job (xw_runtime w) (dm_job_id d) \<noteq> None \<Longrightarrow>
    runtime_step e w (snd (recover_unhandled_delivery e k d worker reason w))"

lemma snd_keeps: "(\<And>res w'. p = (res, w') \<Longrightarrow> keeps w w') \<Longrightarrow> keeps w (snd p)"
  by (cases p) simp

lemma runtime_step_keeps: "runtime_step e w w' \<Longrightarrow> store_ok (xw_runtime w) \<Longrightarrow> keeps w w'"
proof (induction rule: runtime_step.induct)
  case (submit v q w)
  then show ?case by (intro submit_keeps)
next
  case (recover w time fresh)
  then show ?case by (intro snd_keeps recover_expired_ok)
next
  case (claim_next w worker types now)
  then show ?case by (intro snd_keeps claims_ok(1))
next
  case (claim_by_id w j worker now)
  then show ?case by (intro snd_keeps claims_ok(3))
next
  case (start w j worker aid now)
  then show ?case by (intro snd_keeps start_ok)
next
  case (heartbeat w j worker aid now)
  then show ?case by (intro snd_keeps heartbeat_ok)
next
  case (complete w hex j worker aid message staged_at now)
  then show ?case by (intro snd_keeps complete_ok)
next
  case (fail w hex j worker aid reason retryable staged_at now)
  then show ?case by (intro snd_keeps fail_ok)
next
  case (control w k q)
  then show ?case by (intro snd_keeps control_keeps)
next
  case (redeliver w d k worker reason)
  then show ?case by (intro snd_keeps recover_unhandled_keeps)
qed

lemma runtime_steps_keep: "(runtime_step e)\<^sup>*\<^sup>* w w' \<Longrightarrow> store_ok (xw_runtime w) \<Longrightarrow> keeps w w'"
proof (induction rule: rtranclp_induct)
  case (step w' w'')
  then show ?case using runtime_step_keeps [OF step(2)] keeps_ok keeps_trans by metis
qed simp

definition runtime_reachable :: "'r async_env \<Rightarrow> 'r async_world \<Rightarrow> bool" where
  "runtime_reachable e w \<longleftrightarrow> (\<exists>w0. xw_runtime w0 = empty_async_store \<and> (runtime_step e)\<^sup>*\<^sup>* w0 w)"

lemma reachable_ok: "runtime_reachable e w \<Longrightarrow> store_ok (xw_runtime w)"
  unfolding runtime_reachable_def using runtime_steps_keep keeps_ok by (metis empty_store_ok)

lemma reachable_step: "runtime_reachable e w \<Longrightarrow> runtime_step e w w' \<Longrightarrow> runtime_reachable e w'"
  unfolding runtime_reachable_def by (blast intro: rtranclp.rtrancl_into_rtrancl)

section \<open>Properties\<close>

text \<open>
  In every reachable state a job is claimed or running exactly when it has a lease, the lease is the only one under its
  identifier and names the job's newest attempt, and the attempts of a job are numbered apart, none beyond the job's counter.
\<close>

theorem lease_belongs_to_newest_attempt:
  assumes "runtime_reachable e w" and "get_job (xw_runtime w) j = Some job"
  shows "(active_status (aj_lifecycle_status job) \<longleftrightarrow> (\<exists>l. get_active_lease (xw_runtime w) j = Some l))
     \<and> (\<forall>l. get_active_lease (xw_runtime w) j = Some l \<longrightarrow>
           al_attempt_id l = attempt_id_of j (aj_attempt_count job)
           \<and> (\<forall>k l'. get_active_lease (xw_runtime w) k = Some l' \<longrightarrow> al_lease_id l' = al_lease_id l \<longrightarrow> k = j))
     \<and> distinct (map aa_attempt_number (attempts_of (xw_runtime w) j))
     \<and> (\<forall>a \<in> set (attempts_of (xw_runtime w) j). aa_attempt_number a \<le> aj_attempt_count job)"
proof -
  let ?s = "xw_runtime w"
  have ok: "store_ok ?s" by (rule reachable_ok [OF assms(1)])
  note jok = job_okD [OF ok assms(2)]
  have "al_attempt_id l = attempt_id_of j (aj_attempt_count job)" if "get_active_lease ?s j = Some l" for l
    using lease_generation [OF ok that] assms(2) by (auto simp: life_def)
  moreover have "k = j" if "get_active_lease ?s j = Some l" "get_active_lease ?s k = Some l'" "al_lease_id l' = al_lease_id l" for k l l'
  proof -
    have "lease_owner ?s (al_lease_id l) = Some j" "lease_owner ?s (al_lease_id l) = Some k"
      using store_okD(2) [OF ok] that by (auto simp: owners_ok_def)
    then show ?thesis by simp
  qed
  moreover have "distinct (map aa_attempt_number (attempts_of ?s j))"
  proof -
    have ids: "map aa_attempt_id (attempts_of ?s j) = map (attempt_id_of j) (map aa_attempt_number (attempts_of ?s j))"
      using jok(2) by (simp add: attempts_ok_def)
    have "distinct (map aa_attempt_id (attempts_of ?s j))" using jok(2) by (simp add: attempts_ok_def)
    then show ?thesis unfolding ids by (auto simp: distinct_map intro: inj_on_imageI2)
  qed
  moreover have "\<forall>a \<in> set (attempts_of ?s j). aa_attempt_number a \<le> aj_attempt_count job"
    using jok(2) by (simp add: attempts_ok_def)
  ultimately show ?thesis using jok(3) by blast
qed

text \<open>
  C21. Refinement: whatever sequence of service calls runs, each job's state moves along the lifecycle of one claim
  (\<open>life_step\<close>): waiting, held, closed, then the next generation.
\<close>

theorem runtime_refines_claim_lifecycle:
  assumes "runtime_reachable e w" and "(runtime_step e)\<^sup>*\<^sup>* w w'"
  shows "life_step\<^sup>*\<^sup>* (life (xw_runtime w) j) (life (xw_runtime w') j)"
  using runtime_steps_keep [OF assms(2) reachable_ok [OF assms(1)]] by (simp add: ok_move_def moves_def)

text \<open>What a refused worker call may not touch.\<close>

definition untouched :: "'r async_world \<Rightarrow> 'r async_world \<Rightarrow> bool" where
  "untouched w w' \<longleftrightarrow> xw_runtime w' = xw_runtime w \<and> xw_evals w' = xw_evals w \<and> xw_ops w' = xw_ops w \<and> xw_redis w' = xw_redis w
     \<and> aw_artifacts (xw_artifacts w') = aw_artifacts (xw_artifacts w)"

definition refused :: "'a result \<times> 'r async_world \<Rightarrow> 'r async_world \<Rightarrow> bool" where
  "refused p w \<longleftrightarrow> (\<exists>err. fst p = Inl err) \<and> untouched w (snd p)"

lemma untouched_refl [simp]: "untouched w w"
  by (simp add: untouched_def)

definition no_claim :: "async_store \<Rightarrow> string \<Rightarrow> string \<Rightarrow> string \<Rightarrow> bool" where
  "no_claim s j worker aid \<longleftrightarrow> (\<forall>l. get_active_lease s j = Some l \<longrightarrow> al_worker_id l \<noteq> worker \<or> al_attempt_id l \<noteq> aid)"

lemma fenced_transition_refused:
  assumes "no_claim (xw_runtime w) (ct_job_id c) (ct_worker_id c) (ct_attempt_id c)"
    and "ct_now_factory c = Some t"
  shows "fenced_transition c w = (Inr None, w)"
proof -
  have "transition_current_claim c (xw_runtime w) = (Inr None, xw_runtime w)"
    by (rule transition_fence [of _ _ t]) (use assms in \<open>auto simp: no_claim_def effective_now_def\<close>)
  then show ?thesis by (simp add: fenced_transition_def)
qed

lemma change_keys [simp]:
  "ct_job_id (start_change j worker aid now) = j" "ct_worker_id (start_change j worker aid now) = worker"
  "ct_attempt_id (start_change j worker aid now) = aid" "ct_now_factory (start_change j worker aid now) = Some (utc_text now)"
  "ct_job_id (heartbeat_change j worker aid now) = j" "ct_worker_id (heartbeat_change j worker aid now) = worker"
  "ct_attempt_id (heartbeat_change j worker aid now) = aid" "ct_now_factory (heartbeat_change j worker aid now) = Some (utc_text now)"
  "ct_job_id (completion_change j worker aid m now) = j" "ct_worker_id (completion_change j worker aid m now) = worker"
  "ct_attempt_id (completion_change j worker aid m now) = aid" "ct_now_factory (completion_change j worker aid m now) = Some (utc_text now)"
  "ct_job_id (retry_change j worker aid m now) = j" "ct_worker_id (retry_change j worker aid m now) = worker"
  "ct_attempt_id (retry_change j worker aid m now) = aid" "ct_now_factory (retry_change j worker aid m now) = Some (utc_text now)"
  "ct_job_id (failure_change j worker aid m now) = j" "ct_worker_id (failure_change j worker aid m now) = worker"
  "ct_attempt_id (failure_change j worker aid m now) = aid" "ct_now_factory (failure_change j worker aid m now) = Some (utc_text now)"
  by (simp_all add: start_change_def heartbeat_change_def completion_change_def retry_change_def failure_change_def claim_change_of_def)

lemma close_refused:
  assumes "no_claim (xw_runtime w) (ct_job_id c) (ct_worker_id c) (ct_attempt_id c)" and "ct_now_factory c = Some t"
  shows "refused (close_async_job e hex q c w) w"
proof -
  obtain a arts where st: "stage_json_artifact (xe_artifacts e) hex q (xw_artifacts w) = (a, arts)" by fastforce
  have arts: "aw_artifacts arts = aw_artifacts (xw_artifacts w)"
    using st by (auto simp: stage_json_artifact_def put_object_def Let_def)
  have "fenced_transition (c\<lparr>ct_terminal_artifact := Some a\<rparr>) (w\<lparr>xw_artifacts := arts\<rparr>) = (Inr None, w\<lparr>xw_artifacts := arts\<rparr>)"
    using assms by (intro fenced_transition_refused) simp_all
  then show ?thesis
    by (simp add: close_async_job_def st publish_terminal_artifact_or_reject_def refused_def untouched_def delete_object_def arts)
qed

lemma worker_calls_refused:
  assumes "no_claim (xw_runtime w) j worker aid"
  shows "refused (start_async_job j worker aid now w) w" "refused (heartbeat_async_job j worker aid now w) w"
    "refused (complete_async_job e hex j worker aid message staged_at now w) w"
    "refused (fail_async_job e hex j worker aid reason retryable staged_at now w) w"
proof -
  have req: "require_transition c w = (Inl (HTTPException 409 ''no_current_claim''), w)"
    if "ct_job_id c = j" "ct_worker_id c = worker" "ct_attempt_id c = aid" "ct_now_factory c = Some t" for c t
    using fenced_transition_refused [of w c t] assms that by (simp add: require_transition_def require_current_claim_def)
  show "refused (start_async_job j worker aid now w) w" "refused (heartbeat_async_job j worker aid now w) w"
    by (simp_all add: start_async_job_def heartbeat_async_job_def req refused_def)
  have close: "refused (close_async_job e hex q c w) w"
    if "ct_job_id c = j" "ct_worker_id c = worker" "ct_attempt_id c = aid" "ct_now_factory c = Some t" for q c t
    using close_refused [of w c t] assms that by simp
  show "refused (complete_async_job e hex j worker aid message staged_at now w) w"
    by (cases "get_runtime_job j w") (simp_all add: complete_async_job_def close, simp add: refused_def)
  show "refused (fail_async_job e hex j worker aid reason retryable staged_at now w) w"
    by (cases "get_runtime_job j w")
      (simp_all add: fail_async_job_def close req, simp_all add: refused_def)
qed

text \<open>
  C20. Fencing: once a worker's claim on a job has been lost, by expiry recovery, an operator's action, or its own
  completion or failure, no later start, heartbeat, completion or failure under that worker and attempt is accepted, in
  whatever state the runtime has reached, and the refused call writes nothing: no runtime, evaluation, operations or queue
  state and no artifact record.
\<close>

theorem lost_claim_never_writes:
  assumes "runtime_reachable e w" and "get_active_lease (xw_runtime w) j = Some l"
    and "(runtime_step e)\<^sup>*\<^sup>* w w1" and "no_claim (xw_runtime w1) j (al_worker_id l) (al_attempt_id l)"
    and "(runtime_step e)\<^sup>*\<^sup>* w1 w2"
  shows "refused (start_async_job j (al_worker_id l) (al_attempt_id l) now w2) w2
    \<and> refused (heartbeat_async_job j (al_worker_id l) (al_attempt_id l) now w2) w2
    \<and> refused (complete_async_job e hex j (al_worker_id l) (al_attempt_id l) message staged_at now w2) w2
    \<and> refused (fail_async_job e hex j (al_worker_id l) (al_attempt_id l) reason retryable staged_at now w2) w2"
proof -
  have ok: "store_ok (xw_runtime w)" by (rule reachable_ok [OF assms(1)])
  have k1: "keeps w w1" by (rule runtime_steps_keep [OF assms(3) ok])
  have k2: "keeps w1 w2" by (rule runtime_steps_keep [OF assms(5) keeps_ok [OF k1]])
  have lost: "al_attempt_id l' \<noteq> al_attempt_id l \<or> al_worker_id l' \<noteq> al_worker_id l"
    if "get_active_lease (xw_runtime w1) j = Some l'" for l'
    using assms(4) that by (auto simp: no_claim_def)
  have "no_claim (xw_runtime w2) j (al_worker_id l) (al_attempt_id l)"
    unfolding no_claim_def
  proof (intro allI impI disjCI)
    fix l2 assume l2: "get_active_lease (xw_runtime w2) j = Some l2" "\<not> al_attempt_id l2 \<noteq> al_attempt_id l"
    show "al_worker_id l2 \<noteq> al_worker_id l"
      by (rule lost_claim_is_refused [OF ok keeps_ok [OF k1] keeps_ok [OF k2] _ _ assms(2) lost l2(1)])
        (use k1 k2 l2(2) in \<open>simp_all add: ok_move_def\<close>)
  qed
  then show ?thesis by (simp add: worker_calls_refused)
qed

text \<open>
  C23. The worker loop: with a cycle bound it returns, after at most that many pauses, none longer than the idle interval or
  the five-second cap of the backoff; without one it is left only by an exception.
\<close>

theorem worker_loop_returns_within_bound:
  assumes "0 \<le> idle"
  shows "(\<exists>res w'. run_dedicated_worker_loop e cyc worker timeout idle (Some n) w = Some (res, w')
            \<and> (\<forall>sleeps. res = Inr sleeps \<longrightarrow> length sleeps \<le> n \<and> (\<forall>x \<in> set sleeps. x \<le> max idle 5)))
     \<and> (\<forall>res w'. run_dedicated_worker_loop e cyc worker timeout idle None w = Some (res, w') \<longrightarrow> (\<exists>err. res = Inl err))"
  using worker_loop_bounded [OF assms, of n 0 n e cyc worker timeout 0 "[]" w]
    worker_loop_unbounded [of e cyc worker timeout idle None 0 0 "[]" w]
  by (fastforce simp: run_dedicated_worker_loop_def)

lemma closing_effect:
  assumes "store_ok s" and "closing c" and "transition_current_claim c s = (res, s')"
    and "effective_now (ct_now_factory c) (ct_now c) = Some now"
  shows "res = Inr None \<and> s' = s \<or>
    (\<exists>t job. res = Inr (Some t) \<and> get_job s (ct_job_id c) = Some job \<and> get_active_lease s' (ct_job_id c) = None
       \<and> get_job s' (ct_job_id c) = Some (updated_job c None job))"
  using assms(3)
proof (cases rule: transitionE)
  case untimed
  then show ?thesis using assms(2,3,4)
    by (simp add: transition_current_claim_def apply_claim_change_def closing_def Let_def split: option.splits if_splits prod.splits)
next
  case fenced
  then show ?thesis by simp
next
  case (moved now' l a job)
  have succ: "successor_of c job = None" using assms(2) by (simp add: successor_of_def closing_def)
  let ?t = "save_job (updated_job c None job) (save_attempt (updated_attempt c now' a) s)"
  have eq: "s' = snd (delete_lease (al_lease_id l) ?t)" "\<exists>t. res = Inr (Some t)"
    using moved(9) assms(2) unfolding apply_claim_change_def write_claim_change_def succ by (auto simp: Let_def closing_def)
  have own: "owners_ok ?t" and lt: "get_active_lease ?t (ct_job_id c) = Some l"
    using store_okD(2) [OF assms(1)] moved(2) by simp_all
  have jj: "aj_job_id job = ct_job_id c" by (rule job_okD(1) [OF assms(1) moved(4)])
  show ?thesis using eq moved(4) owners_ok_delete_lease(2) [OF own lt] jj by auto
qed

lemma close_all_or_nothing:
  assumes "store_ok (xw_runtime w)" and "closing c" and "ct_now_factory c = Some t" and "ct_job_status c = Some st"
    and "aq_domain q = ''async''"
  shows "refused (close_async_job e hex q c w) w \<or>
    (\<exists>job a w'. close_async_job e hex q c w = (Inr (), w') \<and> get_job (xw_runtime w') (ct_job_id c) = Some job
       \<and> aj_lifecycle_status job = st \<and> get_active_lease (xw_runtime w') (ct_job_id c) = None
       \<and> ar_artifact_id a = artifact_id_of ''async'' hex \<and> last (aj_artifact_ids job) = ar_artifact_id a
       \<and> get_artifact (xw_artifacts w') (ar_artifact_id a) = Some a \<and> payload_present (xe_artifacts e) (xw_artifacts w') a)"
proof -
  obtain a arts where st: "stage_json_artifact (xe_artifacts e) hex q (xw_artifacts w) = (a, arts)" by fastforce
  let ?c = "c\<lparr>ct_terminal_artifact := Some a\<rparr>"
  have cl: "closing ?c" using assms(2) by (simp add: closing_def)
  have eff: "effective_now (ct_now_factory ?c) (ct_now ?c) = Some t" using assms(3) by (simp add: effective_now_def)
  obtain res s' where tr: "transition_current_claim ?c (xw_runtime w) = (res, s')" by fastforce
  have arts: "aw_artifacts arts = aw_artifacts (xw_artifacts w)"
    using st by (auto simp: stage_json_artifact_def put_object_def Let_def)
  note eff' = closing_effect [OF assms(1) cl tr eff]
  consider (no) "res = Inr None" "s' = xw_runtime w"
    | (yes) t' job where "res = Inr (Some t')" "get_active_lease s' (ct_job_id c) = None" "get_job s' (ct_job_id c) = Some (updated_job ?c None job)"
    using eff' by auto
  then show ?thesis
  proof cases
    case no
    then have "refused (close_async_job e hex q c w) w"
      using tr by (simp add: close_async_job_def st fenced_transition_def publish_terminal_artifact_or_reject_def refused_def
          untouched_def delete_object_def arts)
    then show ?thesis by simp
  next
    case yes
    let ?w' = "w\<lparr>xw_runtime := s', xw_artifacts := save_artifact a arts\<rparr>"
    have call: "close_async_job e hex q c w = (Inr (), ?w')"
      using tr yes by (simp add: close_async_job_def st fenced_transition_def publish_terminal_artifact_or_reject_def)
    have status: "aj_lifecycle_status (updated_job ?c None job) = st"
      using assms(2,4) by (auto simp: closing_def)
    have ids: "last (aj_artifact_ids (updated_job ?c None job)) = ar_artifact_id a" by (simp add: updated_job_def)
    have "payload_present (xe_artifacts e) (save_artifact a arts) a"
      by (simp add: payload_present_key stage_effect [OF st])
    then show ?thesis using call yes(2,3) status ids stage_effect(3) [OF st] assms(5)
      by (intro disjI2 exI [of _ "updated_job ?c None job"] exI [of _ a] exI [of _ ?w']) simp
  qed
qed

text \<open>
  Completion is all or nothing: either the call is refused and writes nothing, or the job is completed without a lease,
  its terminal artifact is recorded with its payload, and the job's last artifact reference is that artifact.
\<close>

theorem completion_is_all_or_nothing:
  assumes "runtime_reachable e w"
  shows "refused (complete_async_job e hex j worker aid message staged_at now w) w \<or>
    (\<exists>job a w'. complete_async_job e hex j worker aid message staged_at now w = (Inr (), w') \<and> get_job (xw_runtime w') j = Some job
       \<and> aj_lifecycle_status job = ''COMPLETED'' \<and> get_active_lease (xw_runtime w') j = None
       \<and> ar_artifact_id a = artifact_id_of ''async'' hex \<and> last (aj_artifact_ids job) = ar_artifact_id a
       \<and> get_artifact (xw_artifacts w') (ar_artifact_id a) = Some a \<and> payload_present (xe_artifacts e) (xw_artifacts w') a)"
proof (cases "get_runtime_job j w")
  case (Inl err)
  then show ?thesis by (simp add: complete_async_job_def refused_def)
next
  case (Inr job)
  let ?c = "completion_change j worker aid message now"
  have cl: "closing ?c" "ct_job_status ?c = Some ''COMPLETED''"
    by (simp_all add: closing_def completion_change_def claim_change_of_def)
  from close_all_or_nothing [OF reachable_ok [OF assms] cl(1) _ cl(2),
      of _ "terminal_request job worker (utc_text staged_at) (completion_payload job aid message)" e hex]
  show ?thesis using Inr by (simp add: complete_async_job_def terminal_request_def)
qed

section \<open>The recovery sweep\<close>

lemma in_process_publish:
  assumes "as_cutover_state (xe_settings e) = ''in_process_only''"
  shows "publish_async_attempt_if_configured e job a d w = (Inr False, w)"
  using assms by (simp add: publish_async_attempt_if_configured_def get_async_runtime_posture_def)

text \<open>Evaluation runs stay where they are: the transitions rewrite a run, they never remove one.\<close>

definition has_run :: "eval_store \<Rightarrow> string \<Rightarrow> bool" where
  "has_run s r \<longleftrightarrow> get_run s r \<noteq> None"

lemma abandon_keeps_runs: "has_run s r \<Longrightarrow> has_run (snd (abandon_active_evaluation_attempt r' m reason s)) r"
  by (auto simp: has_run_def abandon_active_evaluation_attempt_def move_active_attempt_def Let_def split: option.splits)

lemma queue_next_run:
  assumes "has_run s r"
  shows "\<exists>a s'. queue_next_evaluation_attempt r m s = (Inr a, s') \<and> (\<forall>k. has_run s k \<longrightarrow> has_run s' k)"
  using assms by (auto simp: has_run_def queue_next_evaluation_attempt_def Let_def split: option.splits)

lemma sync_recovered_run_returns:
  assumes "\<And>r. run = Some r \<Longrightarrow> has_run (xw_evals w) r"
  shows "\<exists>w'. sync_recovered_run run w = (Inr (), w') \<and> (\<forall>k. has_run (xw_evals w) k \<longrightarrow> has_run (xw_evals w') k)"
proof (cases run)
  case None
  then show ?thesis by (simp add: sync_recovered_run_def)
next
  case (Some r)
  let ?s1 = "snd (abandon_active_evaluation_attempt r ''Evaluation attempt abandoned after async lease expiry recovery.'' ''LEASE_EXPIRED'' (xw_evals w))"
  have keep: "has_run (xw_evals w) k \<Longrightarrow> has_run ?s1 k" for k by (rule abandon_keeps_runs)
  obtain a s' where "queue_next_evaluation_attempt r ''Evaluation retry queued after async lease expiry recovery.'' ?s1 = (Inr a, s')"
    "\<forall>k. has_run ?s1 k \<longrightarrow> has_run s' k"
    using queue_next_run [OF keep [OF assms [OF Some]]] by blast
  then show ?thesis using Some keep by (simp add: sync_recovered_run_def Let_def)
qed

lemma recover_job_returns:
  assumes "as_cutover_state (xe_settings e) = ''in_process_only''"
    and "\<And>r. aj_related_evaluation_run_id job = Some r \<Longrightarrow> has_run (xw_evals w) r"
  shows "\<exists>found w'. recover_job e (Some now) fresh job w = (Inr found, w') \<and> (\<forall>k. has_run (xw_evals w) k \<longrightarrow> has_run (xw_evals w') k)"
proof -
  obtain res s' where call: "recover_expired_claim (aj_job_id job) (Some (utc_text now)) (Some (utc_text now)) recovery_message (xw_runtime w) = (res, s')"
    by fastforce
  from call consider (kept) "res = Inr None" | (rec) t where "res = Inr (Some t)"
    by (cases rule: recoverE) (auto simp: effective_now_def)
  then show ?thesis
  proof cases
    case kept
    then show ?thesis using call by (simp add: recover_job_def)
  next
    case rec
    obtain w' where "sync_recovered_run (aj_related_evaluation_run_id job) (w\<lparr>xw_runtime := s'\<rparr>) = (Inr (), w')"
      "\<forall>k. has_run (xw_evals w) k \<longrightarrow> has_run (xw_evals w') k"
      using sync_recovered_run_returns [of "aj_related_evaluation_run_id job" "w\<lparr>xw_runtime := s'\<rparr>"] assms(2) by auto
    then show ?thesis using call rec by (simp add: recover_job_def in_process_publish [OF assms(1)])
  qed
qed

lemma recover_jobs_returns:
  assumes "as_cutover_state (xe_settings e) = ''in_process_only''"
    and "\<And>job r. job \<in> set jobs \<Longrightarrow> aj_related_evaluation_run_id job = Some r \<Longrightarrow> has_run (xw_evals w) r"
  shows "\<exists>ids w'. recover_jobs e (Some now) fresh i jobs w = (Inr ids, w')"
  using assms(2)
proof (induction jobs arbitrary: i w)
  case (Cons job jobs)
  obtain found w1 where one: "recover_job e (Some now) (fresh i) job w = (Inr found, w1)" "\<forall>k. has_run (xw_evals w) k \<longrightarrow> has_run (xw_evals w1) k"
    using recover_job_returns [OF assms(1), of job w now "fresh i"] Cons.prems by fastforce
  obtain ids w2 where "recover_jobs e (Some now) fresh (Suc i) jobs w1 = (Inr ids, w2)"
    using Cons.IH [of w1 "Suc i"] Cons.prems one(2) by (metis list.set_intros(2))
  then show ?case using one(1) by simp
qed simp

lemma recovered_leases_gone:
  assumes "store_ok (xw_runtime w)" and "recover_expired_async_jobs e (Some now) fresh w = (Inr ids, w')" and "k \<in> set ids"
  shows "get_active_lease (xw_runtime w') k = None"
proof -
  have cur: "get_job (xw_runtime w) (aj_job_id job) = Some job" if "job \<in> set (list_jobs (xw_runtime w))" for job
    using that mem_list_jobs [OF store_okD(1) [OF assms(1)]] job_okD(1) [OF assms(1)] by blast
  show ?thesis
    using recover_jobs_exact [OF assms(1) distinct_list_jobs [OF assms(1)] cur, of e now fresh 0 ids w'] assms(2,3)
    by (auto simp: recover_expired_async_jobs_def)
qed

lemma recovery_sweep:
  assumes "store_ok (xw_runtime w)" and "as_cutover_state (xe_settings e) = ''in_process_only''"
    and "\<And>j job r. get_job (xw_runtime w) j = Some job \<Longrightarrow> aj_related_evaluation_run_id job = Some r \<Longrightarrow> has_run (xw_evals w) r"
  shows "\<exists>ids w'. recover_expired_async_jobs e (Some now) fresh w = (Inr ids, w') \<and> distinct ids
     \<and> set ids = {j. expired_claim (xw_runtime w) (utc_text now) j}
     \<and> (\<forall>k. k \<notin> set ids \<longrightarrow> view (xw_runtime w') k = view (xw_runtime w) k)
     \<and> (\<forall>k. \<not> expired_claim (xw_runtime w') (utc_text now) k)"
proof -
  have ok: "store_ok (xw_runtime w)" by (rule assms(1))
  obtain ids w' where call: "recover_jobs e (Some now) fresh 0 (list_jobs (xw_runtime w)) w = (Inr ids, w')"
    using recover_jobs_returns [OF assms(2), of "list_jobs (xw_runtime w)" w now fresh 0] assms(3)
      mem_list_jobs [OF store_okD(1) [OF ok]] by metis
  then have sweep: "recover_expired_async_jobs e (Some now) fresh w = (Inr ids, w')" by (simp add: recover_expired_async_jobs_def)
  show ?thesis using sweep recovery_is_exact [OF ok sweep] by blast
qed

text \<open>
  C22. The recovery sweep in the in-process posture returns and is exact. Under three conditions, that the cutover state is
  \<^verbatim>\<open>in_process_only\<close> (with dedicated workers the publication of a recovered job can raise and end the sweep), that every
  evaluation run a job is linked to exists, and that the caller passes the instant, it returns the jobs whose lease has expired at
  that instant, each once; every other job is as before, and no claim expired at that instant is left.
\<close>

theorem recovery_sweep_is_complete:
  assumes "runtime_reachable e w" and "as_cutover_state (xe_settings e) = ''in_process_only''"
    and "\<And>j job r. get_job (xw_runtime w) j = Some job \<Longrightarrow> aj_related_evaluation_run_id job = Some r \<Longrightarrow> has_run (xw_evals w) r"
  shows "\<exists>ids w'. recover_expired_async_jobs e (Some now) fresh w = (Inr ids, w') \<and> distinct ids
     \<and> set ids = {j. expired_claim (xw_runtime w) (utc_text now) j}
     \<and> (\<forall>k. k \<notin> set ids \<longrightarrow> view (xw_runtime w') k = view (xw_runtime w) k)
     \<and> (\<forall>k. \<not> expired_claim (xw_runtime w') (utc_text now) k)"
  by (rule recovery_sweep [OF reachable_ok [OF assms(1)] assms(2,3)])

section \<open>What operators can and cannot do\<close>

lemma redrive_needs_queued_attempt:
  assumes "get_job (xw_runtime w) j = Some job" and "aj_lifecycle_status job = ''QUEUED''" and "aj_job_id job = j"
    and "get_active_lease (xw_runtime w) j = None" and "attempts_of (xw_runtime w) j = [a]" and "aa_lifecycle_status a \<noteq> ''QUEUED''"
    and "require_authorized (authorize_request (ke_policies k) (ke_caller k) (kr_caller_app q) ASYNC_CONTROL None None None) = Inr auth"
    and "kr_job_id q = j" and "kr_action q = REDRIVE_QUEUED_JOB"
  shows "apply_async_control_action e k q w = (Inl (HTTPException 409 ''attempt_not_queued''), w)"
  using assms
  by (simp add: apply_async_control_action_def apply_control_action_def redrive_queued_async_job_def require_queued_without_lease_def
      latest_attempt_def list_attempts_def Let_def)

text \<open>
  A job that a submission has just recorded cannot be re-driven: its first attempt is stored as SUBMITTED and the
  re-drive accepts only QUEUED attempts. So when publishing the first delivery raises, the job is stored, the caller gets
  the error, and the operator action that republishes a stranded job refuses it, whatever the queue's state is by then.
\<close>

theorem first_delivery_cannot_be_redriven:
  assumes "store_ok (xw_runtime w)" and "fresh_submission v r (xw_runtime w)"
    and "sq_job_type r = ''document_ingestion''" and "validate_async_job_target v r = Inr ()"
    and "find_active_duplicate_submission r (xw_runtime w) = None"
    and "publish_async_attempt_if_configured e job a None (save_submission job a w) = (Inl err, w')"
    and "job = submitted_job j ''document_ingestion'' (sq_target_id r) (utc_text (se_now v)) (sq_caller_app r)
           (sq_correlation_id r) (sq_payload_summary r) ''durable_runtime_worker_execution'' None accepted_message (sq_tenant_id r)"
    and "a = first_attempt j first_attempt_message" and "j = ''asyncjob_document_ingestion_'' @ se_hex v"
    and "require_authorized (authorize_request (ke_policies k) (ke_caller k) (kr_caller_app q) ASYNC_CONTROL None None None) = Inr auth"
    and "kr_job_id q = j" and "kr_action q = REDRIVE_QUEUED_JOB"
  shows "submit_async_job e v r w = (Inl err, w') \<and> get_job (xw_runtime w') j = Some job
    \<and> apply_async_control_action e' k q w' = (Inl (HTTPException 409 ''attempt_not_queued''), w')"
proof -
  have rt: "xw_runtime w' = save_attempt a (save_job job (xw_runtime w))"
    using publish_runtime [OF assms(6)] by (simp add: save_submission_def)
  have fresh: "get_job (xw_runtime w) j = None" using assms(2,3,9) by (simp add: fresh_submission_def)
  note none = no_job_no_lease [OF assms(1) fresh]
  have submit: "submit_async_job e v r w = (Inl err, w')"
    using assms(3-6) unfolding assms(7-9)
    by (simp add: submit_async_job_def get_async_job_type_descriptor_def async_job_types_def Let_def)
  have job: "get_job (xw_runtime w') j = Some job" and att: "attempts_of (xw_runtime w') j = [a]"
    and lease: "get_active_lease (xw_runtime w') j = None"
    using none by (simp_all add: rt assms(7,8) put_attempt_def)
  have "apply_async_control_action e' k q w' = (Inl (HTTPException 409 ''attempt_not_queued''), w')"
    by (rule redrive_needs_queued_attempt [OF job _ _ lease att _ assms(10-12)]) (simp_all add: assms(7,8))
  then show ?thesis using submit job by simp
qed

text \<open>
  An operator's retry of a job whose evaluation run is gone moves the job and reports an error: the new attempt is
  queued, the call raises, and no control event records the action.
\<close>

lemma retry_without_event:
  assumes "store_ok (xw_runtime w)" and "get_job (xw_runtime w) (kr_job_id q) = Some job" and "aj_lifecycle_status job = ''FAILED''"
    and "aj_related_evaluation_run_id job = Some r" and "get_run (xw_evals w) r = None"
    and "as_cutover_state (xe_settings e) = ''in_process_only''" and "kr_action q = RETRY_FAILED_JOB"
    and "require_authorized (authorize_request (ke_policies k) (ke_caller k) (kr_caller_app q) ASYNC_CONTROL None None None) = Inr auth"
  shows "\<exists>w' job'. apply_async_control_action e k q w = (Inl (RuntimeError ''evaluation_run_not_found''), w')
    \<and> get_job (xw_runtime w') (kr_job_id q) = Some job' \<and> aj_lifecycle_status job' = ''QUEUED''
    \<and> aj_attempt_count job' = Suc (aj_attempt_count job)
    \<and> st_control_events (xw_runtime w') = st_control_events (xw_runtime w)"
proof -
  have jj: "aj_job_id job = kr_job_id q" by (rule job_okD(1) [OF assms(1,2)])
  have post: "get_async_runtime_posture (xe_settings e) = Inr \<lparr>ap_cutover_state = IN_PROCESS_ONLY, ap_queue_mode = QUEUE_DISABLED,
      ap_worker_mode = WORKER_IN_PROCESS_ONLY, ap_queue_backend = ''none'', ap_active_worker_execution = ''in_process_stub''\<rparr>"
    using assms(6) by (simp add: get_async_runtime_posture_def)
  have pub: "publish_async_attempt_if_configured e jb a d v = (Inr False, v)" for jb a d and v :: "'a async_world"
    by (simp add: publish_async_attempt_if_configured_def post)
  define job' where "job' = job\<lparr>aj_lifecycle_status := ''QUEUED'', aj_latest_message := retry_message (kr_reason q),
     aj_attempt_count := Suc (aj_attempt_count job)\<rparr>"
  define w' where "w' = w\<lparr>xw_runtime := save_job job' (save_attempt (queued_attempt (aj_job_id job) (Suc (aj_attempt_count job))
     (retry_message (kr_reason q))) (xw_runtime w))\<rparr>"
  have queued: "queue_next_async_attempt e job (retry_message (kr_reason q)) w
      = (Inr (queued_attempt (aj_job_id job) (Suc (aj_attempt_count job)) (retry_message (kr_reason q))), w')"
    by (simp add: queue_next_async_attempt_def Let_def pub w'_def job'_def)
  have sync: "sync_evaluation_retryable_action job (kr_reason q) p w' = (Inl (RuntimeError ''evaluation_run_not_found''), w')" for p
    using assms(4,5) by (simp add: sync_evaluation_retryable_action_def queue_next_evaluation_attempt_def w'_def)
  have call: "apply_async_control_action e k q w = (Inl (RuntimeError ''evaluation_run_not_found''), w')"
    using assms(2,3,7,8)
    by (simp add: apply_async_control_action_def apply_control_action_def retry_failed_job_def queue_action_def queued sync)
  have "get_job (xw_runtime w') (kr_job_id q) = Some job'" by (simp add: w'_def job'_def jj)
  moreover have "st_control_events (xw_runtime w') = st_control_events (xw_runtime w)"
    by (simp add: w'_def save_job_def save_attempt_def)
  ultimately show ?thesis using call by (intro exI [of _ w'] exI [of _ job']) (simp add: job'_def)
qed

text \<open>
  The quarantine of a delivery whose job is gone records the delivery's attempt under number one. When the delivery was
  the job's second attempt, an operator's replay mints the second attempt under the same identifier and the quarantine
  record, the only trace of the missing job in the attempt history, is overwritten.
\<close>

lemma replay_overwrites_quarantine_record:
  assumes "get_job (xw_runtime w) (dm_job_id d) = None" and "attempts_of (xw_runtime w) (dm_job_id d) = []"
    and "dm_attempt_id d = attempt_id_of (dm_job_id d) 2"
    and "as_cutover_state (xe_settings e) = ''in_process_only''"
    and "require_authorized (authorize_request (ke_policies k) (ke_caller k) (kr_caller_app q) ASYNC_CONTROL None None None) = Inr auth"
    and "kr_job_id q = dm_job_id d" and "kr_action q = REPLAY_TERMINAL_JOB"
    and w1_def: "w1 = snd (recover_unhandled_delivery e k d worker reason w)"
  shows "map aa_failure_reason (attempts_of (xw_runtime w1) (dm_job_id d)) = [Some ''MISSING_RUNTIME_JOB'']
    \<and> attempts_of (xw_runtime (snd (apply_async_control_action e k q w1))) (dm_job_id d)
        = [queued_attempt (dm_job_id d) 2 (replay_message (kr_reason q))]"
proof -
  obtain jb wq where qm: "quarantine_missing_delivery k d reason w = (jb, wq)" by fastforce
  have jb: "aj_job_id jb = dm_job_id d" "aj_lifecycle_status jb = ''ABANDONED''" "aj_attempt_count jb = 1"
    "aj_related_evaluation_run_id jb = None"
    using qm by (auto simp: quarantine_missing_delivery_def Let_def)
  have job: "get_job (xw_runtime wq) (dm_job_id d) = Some jb"
    using qm by (auto simp: quarantine_missing_delivery_def Let_def queued_attempt_def)
  obtain a where att: "attempts_of (xw_runtime wq) (dm_job_id d) = [a]"
    and a: "aa_attempt_id a = attempt_id_of (dm_job_id d) 2" "aa_failure_reason a = Some ''MISSING_RUNTIME_JOB''"
    using qm assms(2,3) by (auto simp: quarantine_missing_delivery_def Let_def put_attempt_def queued_attempt_def)
  have w1: "w1 = record_event (missing_delivery_control_event k jb d worker reason) wq"
    using assms(1) qm by (simp add: w1_def recover_unhandled_delivery_def)
  have rt: "get_job (xw_runtime w1) (dm_job_id d) = Some jb" "attempts_of (xw_runtime w1) (dm_job_id d) = [a]"
    using job att by (simp_all add: w1 record_event_def)
  let ?n = "queued_attempt (dm_job_id d) 2 (replay_message (kr_reason q))"
  have n: "aa_job_id ?n = dm_job_id d" "aa_attempt_id ?n = attempt_id_of (dm_job_id d) 2" by (simp_all add: queued_attempt_def)
  have "attempts_of (xw_runtime (snd (apply_async_control_action e k q w1))) (dm_job_id d) = [?n]"
    using assms(5-7) rt jb a n
    by (simp add: apply_async_control_action_def apply_control_action_def replay_terminal_job_def queue_action_def Let_def
        queue_next_async_attempt_def in_process_publish [OF assms(4)] sync_evaluation_retryable_action_def record_event_def
        put_attempt_def numeral_2_eq_2)
  then show ?thesis using rt a by simp
qed

section \<open>Concrete runs\<close>

definition sample_settings :: async_settings where
  "sample_settings = \<lparr>as_cutover_state = ''in_process_only'', as_queue_backend_mode = ''none'', as_redis_url = None,
     as_queue_name = ''q'', as_worker_drain_enabled = False\<rparr>"

text \<open>A client whose every call raises, as when the server is down.\<close>

definition down_client :: "unit redis_client" where
  "down_client = \<lparr>rd_set_nx = (\<lambda>_ _ r. (Inl (RuntimeError ''connection''), r)), rd_hincrby = (\<lambda>_ _ r. (Inl (RuntimeError ''connection''), r)),
     rd_sadd = (\<lambda>_ _ r. (Inl (RuntimeError ''connection''), r)), rd_rpush = (\<lambda>_ _ r. (Inl (RuntimeError ''connection''), r)),
     rd_blpop = (\<lambda>_ _ r. (Inl (RuntimeError ''connection''), r)), rd_is_idle_timeout = (\<lambda>_. False)\<rparr>"

definition sample_env :: "unit async_env" where
  "sample_env = \<lparr>xe_settings = sample_settings, xe_redis = down_client,
     xe_artifacts = \<lparr>ae_backend = MEMORY, ae_sha = (\<lambda>x. x)\<rparr>, xe_sha = (\<lambda>_. ''h'')\<rparr>"

definition sample_world :: "unit async_world" where
  "sample_world = \<lparr>xw_runtime = empty_async_store, xw_evals = \<lparr>es_runs = [], es_attempts = [], es_case_results = []\<rparr>,
     xw_artifacts = \<lparr>aw_artifacts = [], aw_objects = []\<rparr>, xw_ops = empty_ops_store, xw_redis = ()\<rparr>"

definition noon :: utc where
  "noon = \<lparr>u_year = 2026, u_month = 3, u_day = 1, u_hour = 12, u_minute = 0, u_second = 0, u_microsecond = 5\<rparr>"

definition sample_submission :: submission_request where
  "sample_submission = \<lparr>sq_job_type = ''document_ingestion'', sq_target_id = Some ''t'', sq_caller_app = ''lotus-platform'',
     sq_correlation_id = ''c'', sq_payload_summary = ''p'', sq_tenant_id = None\<rparr>"

definition sample_submission_env :: submission_env where
  "sample_submission_env = \<lparr>se_retrieval_job = (\<lambda>_. Inr ()), se_ingestion_job = (\<lambda>_. Inr ()), se_fixture_cases = (\<lambda>_. Inr 1),
     se_runtime_fixtures = [], se_manifest = \<lparr>fm_version = ''v'', fm_content_digest = None, fm_families = []\<rparr>,
     se_now = noon, se_hex = ''1'', se_run_hex = ''1''\<rparr>"

abbreviation sample_job_id :: string where
  "sample_job_id \<equiv> ''asyncjob_document_ingestion_1''"

definition submitted_world :: "unit async_world" where
  "submitted_world = snd (submit_async_job sample_env sample_submission_env sample_submission sample_world)"

definition claimed_world :: "unit async_world" where
  "claimed_world = snd (claim_async_job_by_id sample_env sample_job_id ''worker-a'' noon submitted_world)"

text \<open>Ten minutes later another worker claims: the first lease has expired.\<close>

definition reclaimed_world :: "unit async_world" where
  "reclaimed_world = snd (claim_async_job_by_id sample_env sample_job_id ''worker-b'' (noon\<lparr>u_minute := 10\<rparr>) claimed_world)"

lemma sample_reachable:
  "runtime_reachable sample_env submitted_world" "runtime_reachable sample_env claimed_world"
  "runtime_step sample_env claimed_world reclaimed_world"
proof -
  have "runtime_step sample_env sample_world submitted_world"
    unfolding submitted_world_def by (rule runtime_step.submit) code_simp
  then show r: "runtime_reachable sample_env submitted_world"
    unfolding runtime_reachable_def by (intro exI [of _ sample_world]) (auto simp: sample_world_def)
  show "runtime_reachable sample_env claimed_world"
    by (rule reachable_step [OF r]) (unfold claimed_world_def, rule runtime_step.claim_by_id)
  show "runtime_step sample_env claimed_world reclaimed_world"
    unfolding reclaimed_world_def by (rule runtime_step.claim_by_id)
qed

lemma sample_publish [simp]: "publish_async_attempt_if_configured sample_env job a d w = (Inr False, w)"
  by (rule in_process_publish) (simp add: sample_env_def sample_settings_def)

definition sample_job :: async_job where
  "sample_job = submitted_job sample_job_id ''document_ingestion'' (Some ''t'') (utc_text noon) ''lotus-platform'' ''c'' ''p''
     ''durable_runtime_worker_execution'' None accepted_message None"

lemma submitted_runtime:
  "submitted_world = save_submission sample_job (first_attempt sample_job_id first_attempt_message) sample_world"
  by (simp add: submitted_world_def submit_async_job_def sample_submission_def sample_submission_env_def sample_job_def
      get_async_job_type_descriptor_def async_job_types_def validate_async_job_target_def find_active_duplicate_submission_def
      sample_world_def list_jobs_def empty_async_store_def Let_def)

lemma lease_of_saved: "get_active_lease (save_lease l s) (al_job_id l) = Some l"
  by (simp add: get_active_lease_def save_lease_def Let_def)

lemma submitted_reads:
  "list_jobs (xw_runtime submitted_world) = [sample_job]" "get_job (xw_runtime submitted_world) sample_job_id = Some sample_job"
  "attempts_of (xw_runtime submitted_world) sample_job_id = [first_attempt sample_job_id first_attempt_message]"
  "get_active_lease (xw_runtime submitted_world) k = None" "lease_owner (xw_runtime submitted_world) lid = None"
  by (simp_all add: submitted_runtime save_submission_def sample_world_def list_jobs_def save_job_def save_attempt_def
      empty_async_store_def sample_job_def get_job_def attempts_of_def get_active_lease_def put_attempt_def)

lemma sample_job_simps [simp]:
  "aj_job_id sample_job = sample_job_id" "aj_lifecycle_status sample_job = ''QUEUED''" "aj_attempt_count sample_job = Suc 0"
  "aj_related_evaluation_run_id sample_job = None"
  by (simp_all add: sample_job_def submitted_job_def)

definition five_past :: utc where
  "five_past = noon\<lparr>u_minute := 5\<rparr>"

lemma sample_expiry: "add_seconds lease_seconds noon = Inr five_past"
  by (simp add: add_seconds_def lease_seconds_def noon_def five_past_def Let_def)

definition sample_lease :: async_lease where
  "sample_lease = \<lparr>al_lease_id = lease_id_of sample_job_id (Suc 0), al_job_id = sample_job_id, al_attempt_id = attempt_id_of sample_job_id (Suc 0),
     al_worker_id = ''worker-a'', al_claimed_at = utc_text noon, al_heartbeat_at = utc_text noon, al_lease_expires_at = utc_text five_past\<rparr>"

lemma claimed_runtime:
  "\<exists>cj ca. xw_runtime claimed_world = save_lease sample_lease (save_job cj (save_attempt ca (xw_runtime submitted_world)))
     \<and> aj_related_evaluation_run_id cj = None"
  by (simp add: claimed_world_def claim_async_job_by_id_def claim_after_recovery_def recover_expired_async_jobs_def submitted_reads
      recover_job_def claim_request_of_def sample_expiry claim_runnable_job_by_id_def claim_attempt_def list_attempts_def Let_def
      sync_claimed_run_def sample_lease_def) (rule exI conjI refl | simp)+

lemma claimed_lease: "get_active_lease (xw_runtime claimed_world) sample_job_id = Some sample_lease"
  using claimed_runtime lease_of_saved [of sample_lease] by (auto simp: sample_lease_def)

lemma claimed_jobs: "get_job (xw_runtime claimed_world) j = Some job \<Longrightarrow> aj_related_evaluation_run_id job = None"
proof -
  assume job: "get_job (xw_runtime claimed_world) j = Some job"
  have sub: "get_job (xw_runtime submitted_world) j = Some job' \<Longrightarrow> job' = sample_job" for job'
    by (auto simp: submitted_runtime save_submission_def sample_world_def empty_async_store_def get_job_def save_job_def save_attempt_def
        split: if_splits)
  show ?thesis using claimed_runtime job sub by (auto split: if_splits)
qed

definition ten_past :: utc where
  "ten_past = noon\<lparr>u_minute := 10\<rparr>"

definition swept_world :: "unit async_world" where
  "swept_world = snd (recover_expired_async_jobs sample_env (Some ten_past) (\<lambda>_. ten_past) claimed_world)"

lemma sample_clock: "utc_text five_past \<le> utc_text ten_past"
proof -
  have "valid_utc five_past" "valid_utc ten_past" "second_fields five_past < second_fields ten_past"
    by (simp_all add: valid_utc_def five_past_def ten_past_def noon_def month_days_def second_fields_def)
  then show ?thesis by (simp add: utc_text_less_iff less_imp_le)
qed

lemma swept_lease: "get_active_lease (xw_runtime swept_world) sample_job_id = None"
proof -
  have ok: "store_ok (xw_runtime claimed_world)" by (rule reachable_ok [OF sample_reachable(2)])
  have post: "as_cutover_state (xe_settings sample_env) = ''in_process_only''" by (simp add: sample_env_def sample_settings_def)
  obtain ids w' where sweep: "recover_expired_async_jobs sample_env (Some ten_past) (\<lambda>_. ten_past) claimed_world = (Inr ids, w')"
    and none: "\<forall>k. \<not> expired_claim (xw_runtime w') (utc_text ten_past) k"
    and ids: "set ids = {j. expired_claim (xw_runtime claimed_world) (utc_text ten_past) j}"
    and exact: "recover_expired_async_jobs sample_env (Some ten_past) (\<lambda>_. ten_past) claimed_world = (Inr ids, w')"
    using recovery_sweep [OF ok post, of ten_past "\<lambda>_. ten_past"] claimed_jobs by (metis option.distinct(1))
  have "expired_claim (xw_runtime claimed_world) (utc_text ten_past) sample_job_id"
    using claimed_lease sample_clock by (simp add: expired_claim_def sample_lease_def)
  then have "sample_job_id \<in> set ids" using ids by simp
  then have "get_active_lease (xw_runtime w') sample_job_id = None"
    using recovered_leases_gone [OF ok exact] by blast
  then show ?thesis using sweep by (simp add: swept_world_def)
qed

theorem lost_claim_never_writes_witness:
  "refused (heartbeat_async_job sample_job_id ''worker-a'' (attempt_id_of sample_job_id 1) ten_past swept_world) swept_world"
proof -
  have step: "(runtime_step sample_env)\<^sup>*\<^sup>* claimed_world swept_world"
    unfolding swept_world_def by (rule r_into_rtranclp) (rule runtime_step.recover)
  have lost: "no_claim (xw_runtime swept_world) sample_job_id (al_worker_id sample_lease) (al_attempt_id sample_lease)"
    by (simp add: no_claim_def swept_lease)
  from lost_claim_never_writes [OF sample_reachable(2) claimed_lease step lost rtranclp.rtrancl_refl]
  show ?thesis by (simp add: sample_lease_def)
qed

theorem lease_belongs_to_newest_attempt_witness:
  "\<exists>job. get_job (xw_runtime submitted_world) sample_job_id = Some job
     \<and> distinct (map aa_attempt_number (attempts_of (xw_runtime submitted_world) sample_job_id))"
  using lease_belongs_to_newest_attempt [OF sample_reachable(1) submitted_reads(2)] submitted_reads(2) by blast

theorem runtime_refines_claim_lifecycle_witness:
  "life_step\<^sup>*\<^sup>* (life (xw_runtime submitted_world) sample_job_id) (life (xw_runtime claimed_world) sample_job_id)"
proof -
  have step: "(runtime_step sample_env)\<^sup>*\<^sup>* submitted_world claimed_world"
    unfolding claimed_world_def by (rule r_into_rtranclp) (rule runtime_step.claim_by_id)
  show ?thesis by (rule runtime_refines_claim_lifecycle [OF sample_reachable(1) step])
qed

theorem recovery_sweep_is_complete_witness:
  "\<exists>ids w'. recover_expired_async_jobs sample_env (Some ten_past) (\<lambda>_. ten_past) claimed_world = (Inr ids, w')
     \<and> sample_job_id \<in> set ids"
proof -
  have post: "as_cutover_state (xe_settings sample_env) = ''in_process_only''" by (simp add: sample_env_def sample_settings_def)
  have "expired_claim (xw_runtime claimed_world) (utc_text ten_past) sample_job_id"
    using claimed_lease sample_clock by (simp add: expired_claim_def sample_lease_def)
  then show ?thesis
    using recovery_sweep_is_complete [OF sample_reachable(2) post, of ten_past "\<lambda>_. ten_past"] claimed_jobs by fastforce
qed

theorem completion_is_all_or_nothing_witness:
  "refused (complete_async_job sample_env ''0'' sample_job_id ''worker-z'' ''a'' ''m'' noon noon submitted_world) submitted_world \<or>
    (\<exists>job. get_job (xw_runtime (snd (complete_async_job sample_env ''0'' sample_job_id ''worker-z'' ''a'' ''m'' noon noon submitted_world)))
       sample_job_id = Some job)"
  using completion_is_all_or_nothing [OF sample_reachable(1), of "''0''" sample_job_id "''worker-z''" "''a''" "''m''" noon noon] by fastforce

theorem worker_loop_returns_within_bound_witness:
  "\<exists>res w'. run_dedicated_worker_loop sample_env (\<lambda>_. undefined) ''worker-a'' 5 (1 / 4) (Some 3) sample_world = Some (res, w')"
  using worker_loop_returns_within_bound [of "1 / 4" sample_env "\<lambda>_. undefined" "''worker-a''" 5 3 sample_world] by auto

text \<open>A deployment with dedicated workers whose queue server is down while the job is submitted.\<close>

definition outage_env :: "unit async_env" where
  "outage_env = sample_env\<lparr>xe_settings := \<lparr>as_cutover_state = ''dedicated_workers_active'', as_queue_backend_mode = ''redis'',
     as_redis_url = Some ''redis://q'', as_queue_name = ''q'', as_worker_drain_enabled = True\<rparr>\<rparr>"

definition sample_redrive :: control_request where
  "sample_redrive = \<lparr>kr_job_id = sample_job_id, kr_action = REDRIVE_QUEUED_JOB, kr_caller_app = ''lotus-platform'',
     kr_requested_by = ''op'', kr_approved_by = ''lead'', kr_reason = ''stranded''\<rparr>"

definition sample_control :: control_env where
  "sample_control = \<lparr>ke_policies = init_policy_store, ke_caller = None, ke_event_hex = ''e'', ke_redrive_hex = ''r'', ke_now = noon,
     ke_recorded_at = noon, ke_action_hex = ''a''\<rparr>"

lemma outage_publish: "publish_async_attempt_if_configured outage_env job a d w = (Inl (RuntimeError ''connection''), w)"
  by (simp add: publish_async_attempt_if_configured_def get_async_runtime_posture_def outage_env_def sample_env_def
      require_redis_backend_def enqueue_def get_async_delivery_queue_def redis_enqueue_def down_client_def)

lemma sample_authority:
  "\<exists>auth. require_authorized (authorize_request (ke_policies sample_control) (ke_caller sample_control)
     (kr_caller_app sample_redrive) ASYNC_CONTROL None None None) = Inr auth"
proof -
  have "case require_authorized (authorize_request (ke_policies sample_control) (ke_caller sample_control)
     (kr_caller_app sample_redrive) ASYNC_CONTROL None None None) of Inl _ \<Rightarrow> False | Inr _ \<Rightarrow> True"
    by code_simp
  then show ?thesis by (auto split: sum.splits)
qed

theorem first_delivery_cannot_be_redriven_witness:
  "\<exists>w'. submit_async_job outage_env sample_submission_env sample_submission sample_world = (Inl (RuntimeError ''connection''), w')
     \<and> apply_async_control_action sample_env sample_control sample_redrive w' = (Inl (HTTPException 409 ''attempt_not_queued''), w')"
proof -
  obtain auth where auth: "require_authorized (authorize_request (ke_policies sample_control) (ke_caller sample_control)
     (kr_caller_app sample_redrive) ASYNC_CONTROL None None None) = Inr auth"
    using sample_authority by blast
  have 1: "store_ok (xw_runtime sample_world)" by (simp add: sample_world_def)
  have 2: "fresh_submission sample_submission_env sample_submission (xw_runtime sample_world)"
    by (simp add: fresh_submission_def sample_world_def get_job_def empty_async_store_def)
  have 3: "sq_job_type sample_submission = ''document_ingestion''" by (simp add: sample_submission_def)
  have 4: "validate_async_job_target sample_submission_env sample_submission = Inr ()"
    by (simp add: sample_submission_def sample_submission_env_def validate_async_job_target_def)
  have 5: "find_active_duplicate_submission sample_submission (xw_runtime sample_world) = None"
    by (simp add: find_active_duplicate_submission_def sample_world_def list_jobs_def empty_async_store_def)
  have 7: "sample_job = submitted_job sample_job_id ''document_ingestion'' (sq_target_id sample_submission)
      (utc_text (se_now sample_submission_env)) (sq_caller_app sample_submission) (sq_correlation_id sample_submission)
      (sq_payload_summary sample_submission) ''durable_runtime_worker_execution'' None accepted_message (sq_tenant_id sample_submission)"
    by (simp add: sample_job_def sample_submission_def sample_submission_env_def)
  have 9: "sample_job_id = ''asyncjob_document_ingestion_'' @ se_hex sample_submission_env" by (simp add: sample_submission_env_def)
  have 11: "kr_job_id sample_redrive = sample_job_id" "kr_action sample_redrive = REDRIVE_QUEUED_JOB"
    by (simp_all add: sample_redrive_def)
  show ?thesis
    using first_delivery_cannot_be_redriven [OF 1 2 3 4 5 outage_publish 7 refl 9 auth 11] by blast
qed

end
