(* ===== verification/Pack_Specs.thy ===== *)
theory Pack_Specs
  imports Artifact_Store Access_Control
begin

text \<open>
  What lotus-ai declares about workflow packs in code: the version specifications of
  \<^verbatim>\<open>services/workflow_pack_phase1_specs.py\<close>, the execution bindings of \<^verbatim>\<open>services/workflow_pack_bindings.py\<close>
  and the queue policies of \<^verbatim>\<open>services/workflow_pack_queue_policy_catalog.py\<close> with the validators and the
  state table of \<^verbatim>\<open>contracts/workflow_pack_queue_policies.py\<close>.

  Descriptive sentences (\<^verbatim>\<open>status_summary\<close>, \<^verbatim>\<open>description\<close>) are left out. The facts say that the declared policies
  pass their validators, that bindings and policies name the same versions, and that queue states only move forward.
\<close>

section \<open>Version specifications\<close>

record pack_spec =
  sp_pack_id :: string
  sp_pack_family :: string
  sp_version :: string
  sp_owner_repository :: string
  sp_owner_service :: string
  sp_truth_owner_services :: "string list"
  sp_primary_use_case :: string
  sp_workflow_authority_owner :: string
  sp_supported_callers :: "string list"
  sp_surface_scope :: "string list"
  sp_default_workflow_surface :: "string option"
  sp_execution_task_id :: "string option"
  sp_required_payload_keys :: "string list"

definition advisor_brief_v1_spec :: pack_spec where
  "advisor_brief_v1_spec =
    \<lparr>sp_pack_id = ''advisor_brief.pack'', sp_pack_family = ''advisor_brief'', sp_version = ''v1'',
     sp_owner_repository = ''lotus-gateway'', sp_owner_service = ''lotus-gateway'',
     sp_truth_owner_services = [''lotus-gateway'', ''lotus-performance'', ''lotus-risk''],
     sp_primary_use_case = ''advisor_brief'', sp_workflow_authority_owner = ''lotus-gateway'',
     sp_supported_callers = [''lotus-gateway''],
     sp_surface_scope = [''advisor-brief-panel'', ''advisor-brief-workspace''],
     sp_default_workflow_surface = Some ''advisor-brief-workspace'', sp_execution_task_id = Some ''explain.v1'',
     sp_required_payload_keys = [''portfolio'', ''period'', ''performance'', ''supportability'']\<rparr>"

definition advisor_brief_v2_spec :: pack_spec where
  "advisor_brief_v2_spec =
    \<lparr>sp_pack_id = ''advisor_brief.pack'', sp_pack_family = ''advisor_brief'', sp_version = ''v2'',
     sp_owner_repository = ''lotus-gateway'', sp_owner_service = ''lotus-gateway'',
     sp_truth_owner_services = [''lotus-gateway'', ''lotus-performance'', ''lotus-risk''],
     sp_primary_use_case = ''advisor_brief'', sp_workflow_authority_owner = ''lotus-gateway'',
     sp_supported_callers = [''lotus-gateway''],
     sp_surface_scope = [''advisor-brief-panel''],
     sp_default_workflow_surface = None, sp_execution_task_id = None,
     sp_required_payload_keys = []\<rparr>"

definition workspace_rationale_v1_spec :: pack_spec where
  "workspace_rationale_v1_spec =
    \<lparr>sp_pack_id = ''workspace_rationale.pack'', sp_pack_family = ''workspace_rationale'', sp_version = ''v1'',
     sp_owner_repository = ''lotus-advise'', sp_owner_service = ''lotus-advise'',
     sp_truth_owner_services = [''lotus-advise'', ''lotus-core'', ''lotus-risk''],
     sp_primary_use_case = ''advisory_workspace_rationale'', sp_workflow_authority_owner = ''lotus-advise'',
     sp_supported_callers = [''lotus-advise''],
     sp_surface_scope = [''advisory-workspace-assistant''],
     sp_default_workflow_surface = Some ''advisory-workspace-assistant'', sp_execution_task_id = Some ''explain.v1'',
     sp_required_payload_keys = [''workspace'', ''evaluation_summary'', ''proposal_status'', ''instruction'']\<rparr>"

definition proposal_memo_commentary_v1_spec :: pack_spec where
  "proposal_memo_commentary_v1_spec =
    \<lparr>sp_pack_id = ''proposal_memo_commentary.pack'', sp_pack_family = ''proposal_memo_commentary'', sp_version = ''v1'',
     sp_owner_repository = ''lotus-advise'', sp_owner_service = ''lotus-advise'',
     sp_truth_owner_services = [''lotus-advise'', ''lotus-core'', ''lotus-risk''],
     sp_primary_use_case = ''advisor_proposal_memo_review_gated_commentary'', sp_workflow_authority_owner = ''lotus-advise'',
     sp_supported_callers = [''lotus-advise''],
     sp_surface_scope = [''advisor-proposal-memo-commentary''],
     sp_default_workflow_surface = Some ''advisor-proposal-memo-commentary'', sp_execution_task_id = Some ''explain.v1'',
     sp_required_payload_keys = [''memo_evidence'', ''commentary_request'', ''supportability'']\<rparr>"

definition advisory_copilot_v1_required_payload_keys :: "string list" where
  "advisory_copilot_v1_required_payload_keys = [''copilot_evidence_packet'', ''copilot_request'', ''model_risk_controls'', ''supportability'']"

definition advisory_copilot_proposal_explanation_v1_spec :: pack_spec where
  "advisory_copilot_proposal_explanation_v1_spec =
    \<lparr>sp_pack_id = ''advisory_copilot_proposal_explanation.pack'', sp_pack_family = ''advisory_copilot_proposal_explanation'', sp_version = ''v1'',
     sp_owner_repository = ''lotus-advise'', sp_owner_service = ''lotus-advise'',
     sp_truth_owner_services = [''lotus-advise'', ''lotus-core'', ''lotus-risk'', ''lotus-report''],
     sp_primary_use_case = ''advisory_copilot_proposal_explanation'', sp_workflow_authority_owner = ''lotus-advise'',
     sp_supported_callers = [''lotus-advise''],
     sp_surface_scope = [''advisory-copilot-proposal-explanation''],
     sp_default_workflow_surface = Some ''advisory-copilot-proposal-explanation'', sp_execution_task_id = Some ''explain.v1'',
     sp_required_payload_keys = advisory_copilot_v1_required_payload_keys\<rparr>"

definition advisory_copilot_evidence_qa_v1_spec :: pack_spec where
  "advisory_copilot_evidence_qa_v1_spec =
    \<lparr>sp_pack_id = ''advisory_copilot_evidence_qa.pack'', sp_pack_family = ''advisory_copilot_evidence_qa'', sp_version = ''v1'',
     sp_owner_repository = ''lotus-advise'', sp_owner_service = ''lotus-advise'',
     sp_truth_owner_services = [''lotus-advise'', ''lotus-core'', ''lotus-risk''],
     sp_primary_use_case = ''advisory_copilot_evidence_qa'', sp_workflow_authority_owner = ''lotus-advise'',
     sp_supported_callers = [''lotus-advise''],
     sp_surface_scope = [''advisory-copilot-evidence-qa''],
     sp_default_workflow_surface = Some ''advisory-copilot-evidence-qa'', sp_execution_task_id = Some ''explain.v1'',
     sp_required_payload_keys = advisory_copilot_v1_required_payload_keys\<rparr>"

definition advisory_copilot_meeting_preparation_v1_spec :: pack_spec where
  "advisory_copilot_meeting_preparation_v1_spec =
    \<lparr>sp_pack_id = ''advisory_copilot_meeting_preparation.pack'', sp_pack_family = ''advisory_copilot_meeting_preparation'', sp_version = ''v1'',
     sp_owner_repository = ''lotus-advise'', sp_owner_service = ''lotus-advise'',
     sp_truth_owner_services = [''lotus-advise'', ''lotus-core'', ''lotus-risk''],
     sp_primary_use_case = ''advisory_copilot_meeting_preparation'', sp_workflow_authority_owner = ''lotus-advise'',
     sp_supported_callers = [''lotus-advise''],
     sp_surface_scope = [''advisory-copilot-meeting-preparation''],
     sp_default_workflow_surface = Some ''advisory-copilot-meeting-preparation'', sp_execution_task_id = Some ''explain.v1'',
     sp_required_payload_keys = advisory_copilot_v1_required_payload_keys\<rparr>"

definition advisory_copilot_compliance_review_summary_v1_spec :: pack_spec where
  "advisory_copilot_compliance_review_summary_v1_spec =
    \<lparr>sp_pack_id = ''advisory_copilot_compliance_review_summary.pack'', sp_pack_family = ''advisory_copilot_compliance_review_summary'', sp_version = ''v1'',
     sp_owner_repository = ''lotus-advise'', sp_owner_service = ''lotus-advise'',
     sp_truth_owner_services = [''lotus-advise'', ''lotus-core'', ''lotus-risk''],
     sp_primary_use_case = ''advisory_copilot_compliance_review_summary'', sp_workflow_authority_owner = ''lotus-advise'',
     sp_supported_callers = [''lotus-advise''],
     sp_surface_scope = [''advisory-copilot-compliance-review-summary''],
     sp_default_workflow_surface = Some ''advisory-copilot-compliance-review-summary'', sp_execution_task_id = Some ''explain.v1'',
     sp_required_payload_keys = advisory_copilot_v1_required_payload_keys\<rparr>"

definition advisory_copilot_operations_report_handoff_v1_spec :: pack_spec where
  "advisory_copilot_operations_report_handoff_v1_spec =
    \<lparr>sp_pack_id = ''advisory_copilot_operations_report_handoff.pack'', sp_pack_family = ''advisory_copilot_operations_report_handoff'', sp_version = ''v1'',
     sp_owner_repository = ''lotus-advise'', sp_owner_service = ''lotus-advise'',
     sp_truth_owner_services = [''lotus-advise'', ''lotus-report'', ''lotus-archive''],
     sp_primary_use_case = ''advisory_copilot_operations_report_handoff'', sp_workflow_authority_owner = ''lotus-advise'',
     sp_supported_callers = [''lotus-advise''],
     sp_surface_scope = [''advisory-copilot-operations-report-handoff''],
     sp_default_workflow_surface = Some ''advisory-copilot-operations-report-handoff'', sp_execution_task_id = Some ''explain.v1'',
     sp_required_payload_keys = advisory_copilot_v1_required_payload_keys\<rparr>"

definition advisory_copilot_client_follow_up_draft_v1_spec :: pack_spec where
  "advisory_copilot_client_follow_up_draft_v1_spec =
    \<lparr>sp_pack_id = ''advisory_copilot_client_follow_up_draft.pack'', sp_pack_family = ''advisory_copilot_client_follow_up_draft'', sp_version = ''v1'',
     sp_owner_repository = ''lotus-advise'', sp_owner_service = ''lotus-advise'',
     sp_truth_owner_services = [''lotus-advise'', ''lotus-core'', ''lotus-risk''],
     sp_primary_use_case = ''advisory_copilot_client_follow_up_draft'', sp_workflow_authority_owner = ''lotus-advise'',
     sp_supported_callers = [''lotus-advise''],
     sp_surface_scope = [''advisory-copilot-client-follow-up-draft''],
     sp_default_workflow_surface = Some ''advisory-copilot-client-follow-up-draft'', sp_execution_task_id = Some ''explain.v1'',
     sp_required_payload_keys = advisory_copilot_v1_required_payload_keys\<rparr>"

definition advisory_copilot_action_pack_specs :: "pack_spec list" where
  "advisory_copilot_action_pack_specs =
     [advisory_copilot_proposal_explanation_v1_spec,
      advisory_copilot_evidence_qa_v1_spec,
      advisory_copilot_meeting_preparation_v1_spec,
      advisory_copilot_compliance_review_summary_v1_spec,
      advisory_copilot_operations_report_handoff_v1_spec,
      advisory_copilot_client_follow_up_draft_v1_spec]"

definition twr_inspection_support_brief_v1_spec :: pack_spec where
  "twr_inspection_support_brief_v1_spec =
    \<lparr>sp_pack_id = ''twr_inspection_support_brief.pack'', sp_pack_family = ''twr_inspection_support_brief'', sp_version = ''v1'',
     sp_owner_repository = ''lotus-performance'', sp_owner_service = ''lotus-performance'',
     sp_truth_owner_services = [''lotus-performance'', ''lotus-core''],
     sp_primary_use_case = ''twr_inspection_support_brief'', sp_workflow_authority_owner = ''lotus-performance'',
     sp_supported_callers = [''lotus-performance''],
     sp_surface_scope = [''twr-supportability-inspection''],
     sp_default_workflow_surface = Some ''twr-supportability-inspection'', sp_execution_task_id = Some ''explain.v1'',
     sp_required_payload_keys = [''inspection'', ''findings'', ''owner_summary'', ''evidence_summary'', ''check_coverage'']\<rparr>"

definition proof_pack_pm_memo_v1_spec :: pack_spec where
  "proof_pack_pm_memo_v1_spec =
    \<lparr>sp_pack_id = ''dpm_pm_memo.pack'', sp_pack_family = ''dpm_pm_memo'', sp_version = ''v1'',
     sp_owner_repository = ''lotus-manage'', sp_owner_service = ''lotus-manage'',
     sp_truth_owner_services = [''lotus-manage'', ''lotus-core'', ''lotus-risk'', ''lotus-performance''],
     sp_primary_use_case = ''dpm_proof_pack_pm_memo'', sp_workflow_authority_owner = ''lotus-manage'',
     sp_supported_callers = [''lotus-manage'', ''lotus-gateway''],
     sp_surface_scope = [''dpm-proof-pack-ai-evidence''],
     sp_default_workflow_surface = Some ''dpm-proof-pack-ai-evidence'', sp_execution_task_id = Some ''explain.v1'',
     sp_required_payload_keys = [''ai_evidence_input'', ''memo_request'', ''supportability'']\<rparr>"

definition outcome_review_narrative_v1_spec :: pack_spec where
  "outcome_review_narrative_v1_spec =
    \<lparr>sp_pack_id = ''outcome_review_narrative.pack'', sp_pack_family = ''outcome_review_narrative'', sp_version = ''v1'',
     sp_owner_repository = ''lotus-manage'', sp_owner_service = ''lotus-manage'',
     sp_truth_owner_services = [''lotus-manage'', ''lotus-core'', ''lotus-risk'', ''lotus-performance''],
     sp_primary_use_case = ''dpm_outcome_review_ai_narrative'', sp_workflow_authority_owner = ''lotus-manage'',
     sp_supported_callers = [''lotus-manage'', ''lotus-gateway''],
     sp_surface_scope = [''dpm-outcome-review-ai-evidence''],
     sp_default_workflow_surface = Some ''dpm-outcome-review-ai-evidence'', sp_execution_task_id = Some ''explain.v1'',
     sp_required_payload_keys = [''ai_evidence_input'', ''narrative_request'', ''supportability'']\<rparr>"

definition dpm_wave_pm_memo_v1_spec :: pack_spec where
  "dpm_wave_pm_memo_v1_spec =
    \<lparr>sp_pack_id = ''dpm_wave_pm_memo.pack'', sp_pack_family = ''dpm_wave_pm_memo'', sp_version = ''v1'',
     sp_owner_repository = ''lotus-manage'', sp_owner_service = ''lotus-manage'',
     sp_truth_owner_services = [''lotus-manage'', ''lotus-core'', ''lotus-risk'', ''lotus-performance''],
     sp_primary_use_case = ''dpm_rebalance_wave_pm_memo'', sp_workflow_authority_owner = ''lotus-manage'',
     sp_supported_callers = [''lotus-manage'', ''lotus-gateway''],
     sp_surface_scope = [''dpm-wave-ai-evidence''],
     sp_default_workflow_surface = Some ''dpm-wave-ai-evidence'', sp_execution_task_id = Some ''explain.v1'',
     sp_required_payload_keys = [''wave_report_input'', ''memo_request'', ''supportability'']\<rparr>"

definition idea_explanation_v1_spec :: pack_spec where
  "idea_explanation_v1_spec =
    \<lparr>sp_pack_id = ''idea_explanation.pack'', sp_pack_family = ''idea_explanation'', sp_version = ''v1'',
     sp_owner_repository = ''lotus-idea'', sp_owner_service = ''lotus-idea'',
     sp_truth_owner_services = [''lotus-idea'', ''lotus-core'', ''lotus-performance'', ''lotus-risk'', ''lotus-advise'', ''lotus-manage'', ''lotus-report''],
     sp_primary_use_case = ''governed_idea_explanation'', sp_workflow_authority_owner = ''lotus-idea'',
     sp_supported_callers = [''lotus-idea'', ''lotus-gateway''],
     sp_surface_scope = [''idea-explanation-evidence''],
     sp_default_workflow_surface = Some ''idea-explanation-evidence'', sp_execution_task_id = Some ''explain.v1'',
     sp_required_payload_keys = [''redacted_evidence_packet'', ''explanation_request'', ''supportability'']\<rparr>"

definition dpm_operations_handoff_summary_v1_spec :: pack_spec where
  "dpm_operations_handoff_summary_v1_spec =
    \<lparr>sp_pack_id = ''dpm_operations_handoff_summary.pack'', sp_pack_family = ''dpm_operations_handoff_summary'', sp_version = ''v1'',
     sp_owner_repository = ''lotus-manage'', sp_owner_service = ''lotus-manage'',
     sp_truth_owner_services = [''lotus-manage'', ''lotus-core'', ''lotus-risk'', ''lotus-performance''],
     sp_primary_use_case = ''dpm_operations_handoff_summary'', sp_workflow_authority_owner = ''lotus-manage'',
     sp_supported_callers = [''lotus-manage'', ''lotus-gateway''],
     sp_surface_scope = [''dpm-operations-handoff-ai-evidence''],
     sp_default_workflow_surface = Some ''dpm-operations-handoff-ai-evidence'', sp_execution_task_id = Some ''explain.v1'',
     sp_required_payload_keys = [''wave_report_input'', ''handoff_summary_request'', ''supportability'']\<rparr>"

definition dpm_exception_summary_v1_spec :: pack_spec where
  "dpm_exception_summary_v1_spec =
    \<lparr>sp_pack_id = ''dpm_exception_summary.pack'', sp_pack_family = ''dpm_exception_summary'', sp_version = ''v1'',
     sp_owner_repository = ''lotus-manage'', sp_owner_service = ''lotus-manage'',
     sp_truth_owner_services = [''lotus-manage'', ''lotus-core'', ''lotus-risk'', ''lotus-performance''],
     sp_primary_use_case = ''dpm_exception_summary'', sp_workflow_authority_owner = ''lotus-manage'',
     sp_supported_callers = [''lotus-manage'', ''lotus-gateway''],
     sp_surface_scope = [''dpm-exception-summary-ai-evidence''],
     sp_default_workflow_surface = Some ''dpm-exception-summary-ai-evidence'', sp_execution_task_id = Some ''explain.v1'',
     sp_required_payload_keys = [''exception_summary_input'', ''exception_summary_request'', ''supportability'']\<rparr>"

definition pm_quality_summary_v1_spec :: pack_spec where
  "pm_quality_summary_v1_spec =
    \<lparr>sp_pack_id = ''pm_quality_summary.pack'', sp_pack_family = ''pm_quality_summary'', sp_version = ''v1'',
     sp_owner_repository = ''lotus-manage'', sp_owner_service = ''lotus-manage'',
     sp_truth_owner_services = [''lotus-manage'', ''lotus-core'', ''lotus-risk'', ''lotus-performance''],
     sp_primary_use_case = ''dpm_pm_operating_quality_summary'', sp_workflow_authority_owner = ''lotus-manage'',
     sp_supported_callers = [''lotus-manage'', ''lotus-gateway''],
     sp_surface_scope = [''dpm-pm-quality-ai-evidence''],
     sp_default_workflow_surface = Some ''dpm-pm-quality-ai-evidence'', sp_execution_task_id = Some ''explain.v1'',
     sp_required_payload_keys = [''score_run'', ''summary_request'', ''supportability'']\<rparr>"

section \<open>Execution bindings\<close>

record execution_binding =
  bd_pack_id :: string
  bd_version :: string
  bd_task_id :: string
  bd_required_payload_keys :: "string list"
  bd_default_workflow_surface :: string

definition validate_task_request_payload :: "execution_binding \<Rightarrow> string list \<Rightarrow> bool" where
  "validate_task_request_payload b payload_keys \<longleftrightarrow> set (bd_required_payload_keys b) \<subseteq> set payload_keys"

definition supports_registration_scope :: "execution_binding \<Rightarrow> string list \<Rightarrow> bool" where
  "supports_registration_scope b surface_scope \<longleftrightarrow> surface_scope = [] \<or> bd_default_workflow_surface b \<in> set surface_scope"

definition build_execution_binding_from_spec :: "pack_spec \<Rightarrow> execution_binding result" where
  "build_execution_binding_from_spec sp =
     (case sp_execution_task_id sp of
        None \<Rightarrow> Inl (ValueError ''missing_execution_task_id'')
      | Some task \<Rightarrow>
        (case sp_default_workflow_surface sp of
           None \<Rightarrow> Inl (ValueError ''missing_default_workflow_surface'')
         | Some surface \<Rightarrow>
           Inr \<lparr>bd_pack_id = sp_pack_id sp, bd_version = sp_version sp, bd_task_id = task,
                bd_required_payload_keys = sp_required_payload_keys sp, bd_default_workflow_surface = surface\<rparr>))"

fun build_bindings :: "pack_spec list \<Rightarrow> execution_binding list result" where
  "build_bindings [] = Inr []"
| "build_bindings (sp # sps) =
     (case build_execution_binding_from_spec sp of
        Inl e \<Rightarrow> Inl e
      | Inr b \<Rightarrow> (case build_bindings sps of Inl e \<Rightarrow> Inl e | Inr bs \<Rightarrow> Inr (b # bs)))"

definition bound_specs :: "pack_spec list" where
  "bound_specs =
     [advisor_brief_v1_spec, workspace_rationale_v1_spec, proposal_memo_commentary_v1_spec]
     @ advisory_copilot_action_pack_specs
     @ [twr_inspection_support_brief_v1_spec, proof_pack_pm_memo_v1_spec, outcome_review_narrative_v1_spec,
        dpm_wave_pm_memo_v1_spec, idea_explanation_v1_spec, dpm_operations_handoff_summary_v1_spec,
        dpm_exception_summary_v1_spec, pm_quality_summary_v1_spec]"

definition workflow_pack_execution_bindings :: "execution_binding list" where
  "workflow_pack_execution_bindings = (case build_bindings bound_specs of Inl _ \<Rightarrow> [] | Inr bs \<Rightarrow> bs)"

definition get_workflow_pack_execution_binding :: "string \<Rightarrow> string \<Rightarrow> execution_binding option" where
  "get_workflow_pack_execution_binding pack version =
     List.find (\<lambda>b. bd_pack_id b = pack \<and> bd_version b = version) workflow_pack_execution_bindings"

section \<open>Queue states\<close>

datatype queue_lane = LANE_LATENCY_SENSITIVE | LANE_REVIEW_SUPPORT | LANE_BATCH | LANE_NIGHTLY | LANE_OPERATOR

datatype queue_state =
  WPQ_NOT_ADMITTED | WPQ_QUEUED | WPQ_ADMITTED | WPQ_RUNNING | WPQ_REJECTED | WPQ_CANCELLED | WPQ_TIMED_OUT
  | WPQ_DEGRADED | WPQ_COMPLETED_HANDOFF

definition terminal_queue_states :: "queue_state list" where
  "terminal_queue_states = [WPQ_REJECTED, WPQ_CANCELLED, WPQ_TIMED_OUT, WPQ_DEGRADED, WPQ_COMPLETED_HANDOFF]"

fun queue_state_transitions :: "queue_state \<Rightarrow> queue_state list" where
  "queue_state_transitions WPQ_NOT_ADMITTED = [WPQ_QUEUED, WPQ_REJECTED, WPQ_DEGRADED]"
| "queue_state_transitions WPQ_QUEUED = [WPQ_ADMITTED, WPQ_CANCELLED, WPQ_TIMED_OUT, WPQ_DEGRADED]"
| "queue_state_transitions WPQ_ADMITTED = [WPQ_RUNNING, WPQ_CANCELLED, WPQ_TIMED_OUT, WPQ_DEGRADED]"
| "queue_state_transitions WPQ_RUNNING = [WPQ_CANCELLED, WPQ_TIMED_OUT, WPQ_DEGRADED, WPQ_COMPLETED_HANDOFF]"
| "queue_state_transitions _ = []"

definition queue_transition_allowed :: "queue_state \<Rightarrow> queue_state \<Rightarrow> bool" where
  "queue_transition_allowed s t \<longleftrightarrow> t \<in> set (queue_state_transitions s)"

definition transition_queue_state :: "queue_state \<Rightarrow> queue_state \<Rightarrow> queue_state result" where
  "transition_queue_state s t = (if queue_transition_allowed s t then Inr t else Inl (RuntimeError ''illegal_queue_transition''))"

section \<open>Queue policies\<close>

datatype backoff_strategy = BACKOFF_NONE | BACKOFF_FIXED | BACKOFF_EXPONENTIAL

datatype cancellation_actor = BY_CALLER | BY_OPERATOR | BY_PLATFORM_AUTOMATION

datatype degraded_readiness_behavior = ON_DEGRADED_REJECT | ON_DEGRADED_DEGRADED

datatype operator_visibility = VISIBILITY_BOUNDED | VISIBILITY_INTERNAL_ONLY

record retry_policy =
  rp_max_attempts :: nat
  rp_backoff_strategy :: backoff_strategy
  rp_retryable_failure_codes :: "string list"
  rp_non_retryable_failure_codes :: "string list"

record cancellation_policy =
  xp_cancellable_by :: "cancellation_actor list"
  xp_terminal_state :: queue_state
  xp_evidence_required :: bool

record queue_policy =
  qp_policy_id :: string
  qp_workflow_pack_id :: string
  qp_workflow_pack_version :: string
  qp_allowed_lanes :: "queue_lane list"
  qp_default_lane :: queue_lane
  qp_max_concurrent_runs_per_pack :: nat
  qp_max_concurrent_runs_per_lane :: nat
  qp_max_queued_runs_per_pack :: nat
  qp_max_queued_runs_per_lane :: nat
  qp_admission_timeout_seconds :: nat
  qp_execution_timeout_seconds :: nat
  qp_retry_policy :: retry_policy
  qp_cancellation_policy :: cancellation_policy
  qp_stale_queue_threshold_seconds :: nat
  qp_saturation_attention_threshold :: rat
  qp_degraded_readiness_behavior :: degraded_readiness_behavior
  qp_operator_visibility :: operator_visibility
  qp_evidence_requirements :: "string list"

text \<open>The bounds of the fields and the validators; each returns what construction of the model would.\<close>

definition retry_policy_must_be_bounded :: "retry_policy \<Rightarrow> retry_policy result" where
  "retry_policy_must_be_bounded r =
     (if \<not> (1 \<le> rp_max_attempts r \<and> rp_max_attempts r \<le> 3) then Inl (ValueError ''max_attempts'')
      else if rp_non_retryable_failure_codes r = [] then Inl (ValueError ''non_retryable_failure_codes'')
      else if set (rp_retryable_failure_codes r) \<inter> set (rp_non_retryable_failure_codes r) \<noteq> {} then Inl (ValueError ''overlap'')
      else if rp_max_attempts r = 1 \<and> rp_backoff_strategy r \<noteq> BACKOFF_NONE then Inl (ValueError ''single_attempt_backoff'')
      else if 1 < rp_max_attempts r \<and> rp_backoff_strategy r = BACKOFF_NONE then Inl (ValueError ''backoff_required'')
      else Inr r)"

definition cancellation_terminal_state_must_be_cancelled :: "cancellation_policy \<Rightarrow> cancellation_policy result" where
  "cancellation_terminal_state_must_be_cancelled x =
     (if xp_cancellable_by x = [] then Inl (ValueError ''cancellable_by'')
      else if xp_terminal_state x \<noteq> WPQ_CANCELLED then Inl (ValueError ''terminal_state'')
      else if \<not> xp_evidence_required x then Inl (ValueError ''evidence_required'')
      else Inr x)"

definition required_evidence_types :: "string list" where
  "required_evidence_types = [''registry_authorization'', ''queue_policy_evaluation'', ''capacity_evaluation'']"

definition policy_fields_bounded :: "queue_policy \<Rightarrow> bool" where
  "policy_fields_bounded p \<longleftrightarrow>
     qp_policy_id p \<noteq> [] \<and> qp_workflow_pack_id p \<noteq> [] \<and> qp_workflow_pack_version p \<noteq> [] \<and> qp_allowed_lanes p \<noteq> []
     \<and> 1 \<le> qp_max_concurrent_runs_per_pack p \<and> qp_max_concurrent_runs_per_pack p \<le> 25
     \<and> 1 \<le> qp_max_concurrent_runs_per_lane p \<and> qp_max_concurrent_runs_per_lane p \<le> 25
     \<and> 1 \<le> qp_max_queued_runs_per_pack p \<and> qp_max_queued_runs_per_pack p \<le> 500
     \<and> 1 \<le> qp_max_queued_runs_per_lane p \<and> qp_max_queued_runs_per_lane p \<le> 500
     \<and> 1 \<le> qp_admission_timeout_seconds p \<and> qp_admission_timeout_seconds p \<le> 600
     \<and> 1 \<le> qp_execution_timeout_seconds p \<and> qp_execution_timeout_seconds p \<le> 14400
     \<and> 1 \<le> qp_stale_queue_threshold_seconds p \<and> qp_stale_queue_threshold_seconds p \<le> 86400
     \<and> 0 < qp_saturation_attention_threshold p \<and> qp_saturation_attention_threshold p \<le> 1
     \<and> qp_evidence_requirements p \<noteq> []"

definition queue_policy_must_be_bounded :: "queue_policy \<Rightarrow> queue_policy result" where
  "queue_policy_must_be_bounded p =
     (if \<not> policy_fields_bounded p then Inl (ValueError ''field_bounds'')
      else if qp_default_lane p \<notin> set (qp_allowed_lanes p) then Inl (ValueError ''default_lane'')
      else if qp_max_concurrent_runs_per_pack p < qp_max_concurrent_runs_per_lane p then Inl (ValueError ''concurrent_lane_limit'')
      else if qp_max_queued_runs_per_pack p < qp_max_queued_runs_per_lane p then Inl (ValueError ''queued_lane_limit'')
      else if qp_execution_timeout_seconds p \<le> qp_admission_timeout_seconds p then Inl (ValueError ''execution_timeout'')
      else if qp_stale_queue_threshold_seconds p \<le> qp_admission_timeout_seconds p then Inl (ValueError ''stale_threshold'')
      else if \<not> set required_evidence_types \<subseteq> set (qp_evidence_requirements p) then Inl (ValueError ''evidence_types'')
      else Inr p)"

section \<open>The policy catalogue\<close>

text \<open>What the rows share: the retry and cancellation policies and the fixed fields.\<close>

definition declared_retry_policy :: retry_policy where
  "declared_retry_policy =
     \<lparr>rp_max_attempts = 2, rp_backoff_strategy = BACKOFF_EXPONENTIAL,
      rp_retryable_failure_codes = [''EXECUTION_TIMEOUT'', ''TRANSIENT_PROVIDER_FAILURE'', ''WORKER_LEASE_EXPIRED''],
      rp_non_retryable_failure_codes = [''CALLER_NOT_AUTHORIZED'', ''REGISTRY_NOT_READY'', ''RUN_LEDGER_NOT_READY'',
        ''TASK_FLOW_STORE_NOT_READY'', ''QUEUE_POLICY_NOT_FOUND'']\<rparr>"

definition declared_cancellation_policy :: cancellation_policy where
  "declared_cancellation_policy =
     \<lparr>xp_cancellable_by = [BY_CALLER, BY_OPERATOR, BY_PLATFORM_AUTOMATION], xp_terminal_state = WPQ_CANCELLED,
      xp_evidence_required = True\<rparr>"

record policy_limits =
  pl_concurrent_per_pack :: nat
  pl_concurrent_per_lane :: nat
  pl_queued_per_pack :: nat
  pl_queued_per_lane :: nat
  pl_admission_timeout :: nat
  pl_execution_timeout :: nat
  pl_stale_threshold :: nat

definition declared_policy :: "pack_spec \<Rightarrow> string \<Rightarrow> queue_lane list \<Rightarrow> queue_lane \<Rightarrow> policy_limits \<Rightarrow> queue_policy" where
  "declared_policy sp policy_id lanes default_lane l =
     \<lparr>qp_policy_id = policy_id, qp_workflow_pack_id = sp_pack_id sp, qp_workflow_pack_version = sp_version sp,
      qp_allowed_lanes = lanes, qp_default_lane = default_lane,
      qp_max_concurrent_runs_per_pack = pl_concurrent_per_pack l, qp_max_concurrent_runs_per_lane = pl_concurrent_per_lane l,
      qp_max_queued_runs_per_pack = pl_queued_per_pack l, qp_max_queued_runs_per_lane = pl_queued_per_lane l,
      qp_admission_timeout_seconds = pl_admission_timeout l, qp_execution_timeout_seconds = pl_execution_timeout l,
      qp_retry_policy = declared_retry_policy, qp_cancellation_policy = declared_cancellation_policy,
      qp_stale_queue_threshold_seconds = pl_stale_threshold l, qp_saturation_attention_threshold = 8 / 10,
      qp_degraded_readiness_behavior = ON_DEGRADED_REJECT, qp_operator_visibility = VISIBILITY_BOUNDED,
      qp_evidence_requirements = [''registry_authorization'', ''queue_policy_evaluation'', ''capacity_evaluation'']\<rparr>"

definition build_queue_policy ::
  "pack_spec \<Rightarrow> string \<Rightarrow> queue_lane list \<Rightarrow> queue_lane \<Rightarrow> policy_limits \<Rightarrow> queue_policy result" where
  "build_queue_policy sp policy_id lanes default_lane l =
     (case retry_policy_must_be_bounded declared_retry_policy of
        Inl e \<Rightarrow> Inl e
      | Inr _ \<Rightarrow>
        (case cancellation_terminal_state_must_be_cancelled declared_cancellation_policy of
           Inl e \<Rightarrow> Inl e
         | Inr _ \<Rightarrow> queue_policy_must_be_bounded (declared_policy sp policy_id lanes default_lane l)))"

definition limits :: "nat \<Rightarrow> nat \<Rightarrow> nat \<Rightarrow> nat \<Rightarrow> nat \<Rightarrow> nat \<Rightarrow> nat \<Rightarrow> policy_limits" where
  "limits cp cl qp ql adm exec stale =
     \<lparr>pl_concurrent_per_pack = cp, pl_concurrent_per_lane = cl, pl_queued_per_pack = qp, pl_queued_per_lane = ql,
      pl_admission_timeout = adm, pl_execution_timeout = exec, pl_stale_threshold = stale\<rparr>"

definition latency_sensitive_advisor_brief_policy :: "queue_policy result" where
  "latency_sensitive_advisor_brief_policy = build_queue_policy advisor_brief_v1_spec ''queue-policy.advisor-brief.v1''
     [LANE_LATENCY_SENSITIVE, LANE_REVIEW_SUPPORT] LANE_LATENCY_SENSITIVE (limits 4 2 40 20 15 240 60)"

definition review_support_workspace_rationale_policy :: "queue_policy result" where
  "review_support_workspace_rationale_policy = build_queue_policy workspace_rationale_v1_spec ''queue-policy.workspace-rationale.v1''
     [LANE_REVIEW_SUPPORT, LANE_BATCH] LANE_REVIEW_SUPPORT (limits 2 1 30 15 20 300 90)"

definition review_support_proposal_memo_commentary_policy :: "queue_policy result" where
  "review_support_proposal_memo_commentary_policy = build_queue_policy proposal_memo_commentary_v1_spec
     ''queue-policy.proposal-memo-commentary.v1'' [LANE_REVIEW_SUPPORT, LANE_OPERATOR] LANE_REVIEW_SUPPORT (limits 2 1 30 15 20 300 90)"

definition dashed :: "string \<Rightarrow> string" where
  "dashed s = map (\<lambda>c. if c = CHR ''_'' then CHR ''-'' else c) s"

definition review_support_advisory_copilot_policy :: "pack_spec \<Rightarrow> queue_policy result" where
  "review_support_advisory_copilot_policy sp = build_queue_policy sp (''queue-policy.'' @ dashed (sp_pack_family sp) @ ''.v1'')
     [LANE_REVIEW_SUPPORT, LANE_OPERATOR] LANE_REVIEW_SUPPORT (limits 2 1 30 15 20 300 90)"

definition batch_twr_inspection_support_brief_policy :: "queue_policy result" where
  "batch_twr_inspection_support_brief_policy = build_queue_policy twr_inspection_support_brief_v1_spec
     ''queue-policy.twr-inspection-support-brief.v1'' [LANE_BATCH, LANE_OPERATOR] LANE_BATCH (limits 2 1 25 10 30 420 120)"

definition review_support_outcome_review_narrative_policy :: "queue_policy result" where
  "review_support_outcome_review_narrative_policy = build_queue_policy outcome_review_narrative_v1_spec
     ''queue-policy.outcome-review-narrative.v1'' [LANE_REVIEW_SUPPORT, LANE_OPERATOR] LANE_REVIEW_SUPPORT (limits 2 1 25 10 20 300 90)"

definition review_support_proof_pack_pm_memo_policy :: "queue_policy result" where
  "review_support_proof_pack_pm_memo_policy = build_queue_policy proof_pack_pm_memo_v1_spec ''queue-policy.dpm-pm-memo.v1''
     [LANE_REVIEW_SUPPORT, LANE_OPERATOR] LANE_REVIEW_SUPPORT (limits 2 1 25 10 20 300 90)"

definition review_support_wave_pm_memo_policy :: "queue_policy result" where
  "review_support_wave_pm_memo_policy = build_queue_policy dpm_wave_pm_memo_v1_spec ''queue-policy.dpm-wave-pm-memo.v1''
     [LANE_REVIEW_SUPPORT, LANE_OPERATOR] LANE_REVIEW_SUPPORT (limits 2 1 25 10 20 300 90)"

definition review_support_idea_explanation_policy :: "queue_policy result" where
  "review_support_idea_explanation_policy = build_queue_policy idea_explanation_v1_spec ''queue-policy.idea-explanation.v1''
     [LANE_REVIEW_SUPPORT, LANE_OPERATOR] LANE_REVIEW_SUPPORT (limits 2 1 25 10 20 300 90)"

definition review_support_operations_handoff_summary_policy :: "queue_policy result" where
  "review_support_operations_handoff_summary_policy = build_queue_policy dpm_operations_handoff_summary_v1_spec
     ''queue-policy.dpm-operations-handoff-summary.v1'' [LANE_REVIEW_SUPPORT, LANE_OPERATOR] LANE_REVIEW_SUPPORT
     (limits 2 1 25 10 20 300 90)"

definition review_support_dpm_exception_summary_policy :: "queue_policy result" where
  "review_support_dpm_exception_summary_policy = build_queue_policy dpm_exception_summary_v1_spec
     ''queue-policy.dpm-exception-summary.v1'' [LANE_REVIEW_SUPPORT, LANE_OPERATOR] LANE_REVIEW_SUPPORT (limits 2 1 25 10 20 300 90)"

definition review_support_pm_quality_summary_policy :: "queue_policy result" where
  "review_support_pm_quality_summary_policy = build_queue_policy pm_quality_summary_v1_spec ''queue-policy.pm-quality-summary.v1''
     [LANE_REVIEW_SUPPORT, LANE_OPERATOR] LANE_REVIEW_SUPPORT (limits 2 1 25 10 20 300 90)"

definition policy_rows :: "queue_policy result list" where
  "policy_rows =
     [latency_sensitive_advisor_brief_policy, review_support_workspace_rationale_policy,
      review_support_proposal_memo_commentary_policy]
     @ map review_support_advisory_copilot_policy advisory_copilot_action_pack_specs
     @ [batch_twr_inspection_support_brief_policy, review_support_proof_pack_pm_memo_policy,
        review_support_outcome_review_narrative_policy, review_support_wave_pm_memo_policy,
        review_support_idea_explanation_policy, review_support_operations_handoff_summary_policy,
        review_support_dpm_exception_summary_policy, review_support_pm_quality_summary_policy]"

fun collect :: "'a result list \<Rightarrow> 'a list result" where
  "collect [] = Inr []"
| "collect (r # rs) =
     (case r of Inl e \<Rightarrow> Inl e | Inr x \<Rightarrow> (case collect rs of Inl e \<Rightarrow> Inl e | Inr xs \<Rightarrow> Inr (x # xs)))"

definition policy_ref :: "queue_policy \<Rightarrow> string" where
  "policy_ref p = qp_workflow_pack_id p @ ''@'' @ qp_workflow_pack_version p"

fun validate_queue_policy_identity :: "queue_policy list \<Rightarrow> string list \<Rightarrow> string list \<Rightarrow> unit result" where
  "validate_queue_policy_identity [] ids refs = Inr ()"
| "validate_queue_policy_identity (p # ps) ids refs =
     (if qp_policy_id p \<in> set ids then Inl (ValueError ''duplicate_policy_id'')
      else if policy_ref p \<in> set refs then Inl (ValueError ''duplicate_policy_ref'')
      else validate_queue_policy_identity ps (qp_policy_id p # ids) (policy_ref p # refs))"

definition list_workflow_pack_queue_policy_descriptors :: "queue_policy list result" where
  "list_workflow_pack_queue_policy_descriptors =
     (case collect policy_rows of
        Inl e \<Rightarrow> Inl e
      | Inr ps \<Rightarrow> (case validate_queue_policy_identity ps [] [] of Inl e \<Rightarrow> Inl e | Inr _ \<Rightarrow> Inr ps))"

definition get_workflow_pack_queue_policy_descriptor :: "string \<Rightarrow> string \<Rightarrow> queue_policy option result" where
  "get_workflow_pack_queue_policy_descriptor pack version =
     (case list_workflow_pack_queue_policy_descriptors of
        Inl e \<Rightarrow> Inl e
      | Inr ps \<Rightarrow> Inr (List.find (\<lambda>p. qp_workflow_pack_id p = pack \<and> qp_workflow_pack_version p = version) ps))"

definition binding_ref :: "execution_binding \<Rightarrow> string" where
  "binding_ref b = bd_pack_id b @ ''@'' @ bd_version b"

definition validate_workflow_pack_queue_policies :: "unit result" where
  "validate_workflow_pack_queue_policies =
     (case list_workflow_pack_queue_policy_descriptors of
        Inl e \<Rightarrow> Inl e
      | Inr ps \<Rightarrow>
        (if \<not> set (map binding_ref workflow_pack_execution_bindings) \<subseteq> set (map policy_ref ps) then Inl (ValueError ''missing_queue_policy'')
         else if \<not> set (map policy_ref ps) \<subseteq> set (map binding_ref workflow_pack_execution_bindings) then Inl (ValueError ''orphan_queue_policy'')
         else Inr ()))"

section \<open>Facts\<close>

lemma terminal_states_final: "s \<in> set terminal_queue_states \<longleftrightarrow> queue_state_transitions s = []"
  by (cases s) (simp_all add: terminal_queue_states_def)

definition queue_rank :: "queue_state \<Rightarrow> nat" where
  "queue_rank s = (case s of WPQ_NOT_ADMITTED \<Rightarrow> 0 | WPQ_QUEUED \<Rightarrow> 1 | WPQ_ADMITTED \<Rightarrow> 2 | WPQ_RUNNING \<Rightarrow> 3 | _ \<Rightarrow> 4)"

lemma queue_states_advance: "queue_transition_allowed s t \<Longrightarrow> queue_rank s < queue_rank t"
  by (cases s) (auto simp: queue_transition_allowed_def queue_rank_def)

lemma build_queue_policy_limits:
  assumes "policy_id \<noteq> []" and "sp_pack_id sp \<noteq> []" and "sp_version sp \<noteq> []" and "d \<in> set lanes"
    and "policy_fields_bounded (declared_policy sp policy_id lanes d l)"
    and "pl_concurrent_per_lane l \<le> pl_concurrent_per_pack l" and "pl_queued_per_lane l \<le> pl_queued_per_pack l"
    and "pl_admission_timeout l < pl_execution_timeout l" and "pl_admission_timeout l < pl_stale_threshold l"
  shows "build_queue_policy sp policy_id lanes d l = Inr (declared_policy sp policy_id lanes d l)"
  using assms
  by (simp add: build_queue_policy_def retry_policy_must_be_bounded_def declared_retry_policy_def
      cancellation_terminal_state_must_be_cancelled_def declared_cancellation_policy_def queue_policy_must_be_bounded_def
      required_evidence_types_def declared_policy_def)

lemmas spec_defs = advisor_brief_v1_spec_def workspace_rationale_v1_spec_def proposal_memo_commentary_v1_spec_def
  advisory_copilot_action_pack_specs_def advisory_copilot_proposal_explanation_v1_spec_def advisory_copilot_evidence_qa_v1_spec_def
  advisory_copilot_meeting_preparation_v1_spec_def advisory_copilot_compliance_review_summary_v1_spec_def
  advisory_copilot_operations_report_handoff_v1_spec_def advisory_copilot_client_follow_up_draft_v1_spec_def
  twr_inspection_support_brief_v1_spec_def proof_pack_pm_memo_v1_spec_def outcome_review_narrative_v1_spec_def
  dpm_wave_pm_memo_v1_spec_def idea_explanation_v1_spec_def dpm_operations_handoff_summary_v1_spec_def
  dpm_exception_summary_v1_spec_def pm_quality_summary_v1_spec_def

lemmas policy_row_defs = latency_sensitive_advisor_brief_policy_def review_support_workspace_rationale_policy_def
  review_support_proposal_memo_commentary_policy_def review_support_advisory_copilot_policy_def
  batch_twr_inspection_support_brief_policy_def review_support_outcome_review_narrative_policy_def
  review_support_proof_pack_pm_memo_policy_def review_support_wave_pm_memo_policy_def
  review_support_idea_explanation_policy_def review_support_operations_handoff_summary_policy_def
  review_support_dpm_exception_summary_policy_def review_support_pm_quality_summary_policy_def

lemma limits_simps [simp]:
  "pl_concurrent_per_pack (limits cp cl qp ql adm exec stale) = cp" "pl_concurrent_per_lane (limits cp cl qp ql adm exec stale) = cl"
  "pl_queued_per_pack (limits cp cl qp ql adm exec stale) = qp" "pl_queued_per_lane (limits cp cl qp ql adm exec stale) = ql"
  "pl_admission_timeout (limits cp cl qp ql adm exec stale) = adm" "pl_execution_timeout (limits cp cl qp ql adm exec stale) = exec"
  "pl_stale_threshold (limits cp cl qp ql adm exec stale) = stale"
  by (simp_all add: limits_def)

text \<open>Every row passes its validators, whatever the strings are, so only the identities are left to evaluate.\<close>

definition row_policies :: "queue_policy list" where
  "row_policies =
     (let memo = limits 2 1 30 15 20 300 90; summary = limits 2 1 25 10 20 300 90;
          reviewed = [LANE_REVIEW_SUPPORT, LANE_OPERATOR]
      in [declared_policy advisor_brief_v1_spec ''queue-policy.advisor-brief.v1''
            [LANE_LATENCY_SENSITIVE, LANE_REVIEW_SUPPORT] LANE_LATENCY_SENSITIVE (limits 4 2 40 20 15 240 60),
          declared_policy workspace_rationale_v1_spec ''queue-policy.workspace-rationale.v1''
            [LANE_REVIEW_SUPPORT, LANE_BATCH] LANE_REVIEW_SUPPORT memo,
          declared_policy proposal_memo_commentary_v1_spec ''queue-policy.proposal-memo-commentary.v1'' reviewed LANE_REVIEW_SUPPORT memo]
         @ map (\<lambda>sp. declared_policy sp (''queue-policy.'' @ dashed (sp_pack_family sp) @ ''.v1'') reviewed LANE_REVIEW_SUPPORT memo)
             advisory_copilot_action_pack_specs
         @ [declared_policy twr_inspection_support_brief_v1_spec ''queue-policy.twr-inspection-support-brief.v1''
              [LANE_BATCH, LANE_OPERATOR] LANE_BATCH (limits 2 1 25 10 30 420 120)]
         @ map (\<lambda>(sp, policy_id). declared_policy sp policy_id reviewed LANE_REVIEW_SUPPORT summary)
             [(proof_pack_pm_memo_v1_spec, ''queue-policy.dpm-pm-memo.v1''),
              (outcome_review_narrative_v1_spec, ''queue-policy.outcome-review-narrative.v1''),
              (dpm_wave_pm_memo_v1_spec, ''queue-policy.dpm-wave-pm-memo.v1''),
              (idea_explanation_v1_spec, ''queue-policy.idea-explanation.v1''),
              (dpm_operations_handoff_summary_v1_spec, ''queue-policy.dpm-operations-handoff-summary.v1''),
              (dpm_exception_summary_v1_spec, ''queue-policy.dpm-exception-summary.v1''),
              (pm_quality_summary_v1_spec, ''queue-policy.pm-quality-summary.v1'')])"

lemma collect_map_Inr [simp]: "collect (map Inr xs) = Inr xs"
  by (induction xs) simp_all

lemma specs_named:
  "sp \<in> set bound_specs \<Longrightarrow> sp_pack_id sp \<noteq> [] \<and> sp_version sp \<noteq> []"
proof -
  have "list_all (\<lambda>sp. sp_pack_id sp \<noteq> [] \<and> sp_version sp \<noteq> []) bound_specs" by code_simp
  then show "sp \<in> set bound_specs \<Longrightarrow> ?thesis" by (simp add: list_all_iff)
qed

lemma build_row:
  assumes "sp \<in> set bound_specs" and "policy_id \<noteq> []" and "d \<in> set lanes"
    and "l \<in> {limits 4 2 40 20 15 240 60, limits 2 1 30 15 20 300 90, limits 2 1 25 10 20 300 90, limits 2 1 25 10 30 420 120}"
  shows "build_queue_policy sp policy_id lanes d l = Inr (declared_policy sp policy_id lanes d l)"
  using specs_named [OF assms(1)] assms(2-)
  by (intro build_queue_policy_limits) (auto simp: policy_fields_bounded_def declared_policy_def)

lemma copilot_rows:
  "map review_support_advisory_copilot_policy advisory_copilot_action_pack_specs =
     map Inr (map (\<lambda>sp. declared_policy sp (''queue-policy.'' @ dashed (sp_pack_family sp) @ ''.v1'')
       [LANE_REVIEW_SUPPORT, LANE_OPERATOR] LANE_REVIEW_SUPPORT (limits 2 1 30 15 20 300 90)) advisory_copilot_action_pack_specs)"
  unfolding map_map
  by (rule map_cong [OF refl]) (simp add: review_support_advisory_copilot_policy_def build_row bound_specs_def)

lemma policy_rows_built: "policy_rows = map Inr row_policies"
  unfolding policy_rows_def row_policies_def Let_def copilot_rows
  by (simp add: policy_row_defs build_row bound_specs_def)

lemma identity_valid_iff:
  "validate_queue_policy_identity ps ids refs = Inr () \<longleftrightarrow>
     distinct (map qp_policy_id ps) \<and> set (map qp_policy_id ps) \<inter> set ids = {}
     \<and> distinct (map policy_ref ps) \<and> set (map policy_ref ps) \<inter> set refs = {}"
  by (induction ps arbitrary: ids refs) auto

lemma row_identities:
  "distinct (map qp_policy_id row_policies)" "distinct (map policy_ref row_policies)"
  "map policy_ref row_policies = map binding_ref workflow_pack_execution_bindings"
  by code_simp+

lemma declared_policies [simp]: "list_workflow_pack_queue_policy_descriptors = Inr row_policies"
  using row_identities(1,2) identity_valid_iff [of row_policies "[]" "[]"]
  by (simp add: list_workflow_pack_queue_policy_descriptors_def policy_rows_built)

lemma build_queue_policy_valid: "build_queue_policy sp policy_id lanes d l = Inr p \<Longrightarrow> queue_policy_must_be_bounded p = Inr p"
  by (auto simp: build_queue_policy_def queue_policy_must_be_bounded_def split: sum.splits if_splits)

lemma policy_row_cases: "r \<in> set policy_rows \<Longrightarrow> \<exists>sp policy_id lanes d l. r = build_queue_policy sp policy_id lanes d l"
  unfolding policy_rows_def policy_row_defs by fastforce

lemma row_policy_valid: "p \<in> set row_policies \<Longrightarrow> queue_policy_must_be_bounded p = Inr p"
  using policy_row_cases [of "Inr p"] build_queue_policy_valid by (force simp: policy_rows_built)

lemma policies_match_bindings: "validate_workflow_pack_queue_policies = Inr ()"
proof -
  have "set (map policy_ref row_policies) = set (map binding_ref workflow_pack_execution_bindings)"
    by (rule arg_cong [OF row_identities(3)])
  then show ?thesis by (simp add: validate_workflow_pack_queue_policies_def)
qed

lemma get_policy_simps [simp]:
  "get_workflow_pack_queue_policy_descriptor pack version =
     Inr (List.find (\<lambda>p. qp_workflow_pack_id p = pack \<and> qp_workflow_pack_version p = version) row_policies)"
  by (simp add: get_workflow_pack_queue_policy_descriptor_def)

lemma find_policyD:
  assumes "List.find (\<lambda>p. qp_workflow_pack_id p = pack \<and> qp_workflow_pack_version p = version) row_policies = Some p"
  shows "p \<in> set row_policies" "qp_workflow_pack_id p = pack" "qp_workflow_pack_version p = version"
  using assms by (auto simp: find_Some_iff)

end
