(* ===== verification/Pack_Registry.thy ===== *)
theory Pack_Registry
  imports Pack_Specs
begin

text \<open>
  The workflow-pack registry: registrations and their seed (\<^verbatim>\<open>services/workflow_pack_registry_seed.py\<close>), the store
  \<^verbatim>\<open>repositories/memory_workflow_pack_registry_repository.py\<close>, validation on every read and write
  (\<^verbatim>\<open>services/workflow_pack_registry.py\<close>), operator control (\<^verbatim>\<open>services/workflow_pack_control.py\<close>), the resolution of
  execution bindings (\<^verbatim>\<open>services/workflow_pack_bindings.py\<close>) and eligibility (\<^verbatim>\<open>services/workflow_pack_activation.py\<close>).

  Readiness of the store and the test for an output-contract file are arguments. The facts say that eligibility is
  exactly the declared scope, that a paused or retired version is refused, what each control action does, and that the
  seeded registry passes its own validation.
\<close>

section \<open>Registrations\<close>

datatype registration_status = DISCOVERED | PACK_REGISTERED | VALIDATION_FAILED | WITHDRAWN | PACK_RETIRED

datatype activation_state = DARK | PILOT | LIMITED_ACTIVE | PACK_ACTIVE | PACK_PAUSED | PACK_DEPRECATED | ACTIVATION_RETIRED

fun activation_value :: "activation_state \<Rightarrow> string" where
  "activation_value DARK = ''DARK''"
| "activation_value PILOT = ''PILOT''"
| "activation_value LIMITED_ACTIVE = ''LIMITED_ACTIVE''"
| "activation_value PACK_ACTIVE = ''ACTIVE''"
| "activation_value PACK_PAUSED = ''PAUSED''"
| "activation_value PACK_DEPRECATED = ''DEPRECATED''"
| "activation_value ACTIVATION_RETIRED = ''RETIRED''"

datatype pack_execution_mode = SYNCHRONOUS | ASYNCHRONOUS | REVIEW_GATED

datatype caller_identity_class = INTERNAL_SERVICE | BANKER_PRODUCT | OPERATOR_SUPPORT | PLATFORM_AUTOMATION

datatype pack_environment = ENV_LOCAL | ENV_DEVELOPMENT | ENV_QA | ENV_UAT | ENV_PRODUCTION

datatype reference_type = REF_CONTRACT | REF_SERVICE | REF_ROUTER | REF_TEST | REF_RFC | REF_UI_SURFACE | REF_VALIDATION

record definition_reference =
  df_reference_id :: string
  df_repository :: string
  df_path :: string
  df_reference_type :: reference_type
  df_required_for_registration :: bool

definition definition_ref :: "string \<Rightarrow> string \<Rightarrow> string \<Rightarrow> reference_type \<Rightarrow> bool \<Rightarrow> definition_reference" where
  "definition_ref reference_id repository path type required =
     \<lparr>df_reference_id = reference_id, df_repository = repository, df_path = path, df_reference_type = type,
      df_required_for_registration = required\<rparr>"

record pack_registration =
  rg_pack_id :: string
  rg_pack_family :: string
  rg_version :: string
  rg_owner_repository :: string
  rg_owner_service :: string
  rg_truth_owner_services :: "string list"
  rg_primary_use_case :: string
  rg_workflow_authority_owner :: string
  rg_default_execution_mode :: pack_execution_mode
  rg_definition_ref :: string
  rg_definition_refs :: "definition_reference list"
  rg_compatibility_contract_version :: string
  rg_registration_status :: registration_status
  rg_activation_state :: activation_state
  rg_registered_definition_digest :: string
  rg_supported_callers :: "string list"
  rg_supported_identity_classes :: "caller_identity_class list"
  rg_supported_environments :: "pack_environment list"
  rg_tenant_scope :: "string list"
  rg_surface_scope :: "string list"
  rg_default_rollout_stage :: string
  rg_pause_state :: string
  rg_supersedes :: "string option"
  rg_superseded_by :: "string option"
  rg_registered_at :: timestamp
  rg_registered_by :: string
  rg_last_activated_at :: "timestamp option"
  rg_last_changed_at :: timestamp

abbreviation identity_of :: "pack_registration \<Rightarrow> string \<times> string" where
  "identity_of r \<equiv> (rg_pack_id r, rg_version r)"

section \<open>The seed\<close>

definition advisor_brief_v1_definition_refs :: "definition_reference list" where
  "advisor_brief_v1_definition_refs =
     [definition_ref ''primary_contract'' ''lotus-gateway'' ''src/app/contracts/advisor_brief.py'' REF_CONTRACT True,
      definition_ref ''owner_service'' ''lotus-gateway'' ''src/app/services/advisor_brief_service.py'' REF_SERVICE True,
      definition_ref ''owner_router'' ''lotus-gateway'' ''src/app/routers/workbench.py'' REF_ROUTER True,
      definition_ref ''owner_tests'' ''lotus-gateway'' ''tests/unit/test_advisor_brief_service.py'' REF_TEST True,
      definition_ref ''ui_rfc'' ''lotus-workbench'' ''docs/rfcs/RFC-0020-ai-advisor-brief-copilot.md'' REF_RFC False,
      definition_ref ''ui_validation'' ''lotus-workbench'' ''scripts/live/validation/contract-metadata.mjs'' REF_VALIDATION False]"

definition advisor_brief_v2_definition_refs :: "definition_reference list" where
  "advisor_brief_v2_definition_refs =
     [definition_ref ''primary_service_candidate'' ''lotus-gateway'' ''src/app/services/advisor_brief_service.py'' REF_SERVICE True,
      definition_ref ''contract_anchor'' ''lotus-gateway'' ''src/app/contracts/advisor_brief.py'' REF_CONTRACT True,
      definition_ref ''owner_tests'' ''lotus-gateway'' ''tests/unit/test_advisor_brief_service.py'' REF_TEST True,
      definition_ref ''ui_rfc'' ''lotus-workbench'' ''docs/rfcs/RFC-0020-ai-advisor-brief-copilot.md'' REF_RFC False]"

definition workspace_rationale_v1_definition_refs :: "definition_reference list" where
  "workspace_rationale_v1_definition_refs =
     [definition_ref ''owner_router'' ''lotus-advise'' ''src/api/workspaces/router.py'' REF_ROUTER True,
      definition_ref ''owner_service'' ''lotus-advise'' ''src/api/services/workspace_ai_service.py'' REF_SERVICE True,
      definition_ref ''owner_integration'' ''lotus-advise'' ''src/integrations/lotus_ai/rationale.py'' REF_SERVICE True,
      definition_ref ''owner_tests'' ''lotus-advise'' ''tests/unit/advisory/api/test_api_workspace.py'' REF_TEST True,
      definition_ref ''owner_context'' ''lotus-advise'' ''REPOSITORY-ENGINEERING-CONTEXT.md'' REF_CONTRACT False]"

definition proposal_memo_commentary_v1_definition_refs :: "definition_reference list" where
  "proposal_memo_commentary_v1_definition_refs =
     [definition_ref ''owner_router'' ''lotus-advise'' ''src/api/proposals/routes_memo.py'' REF_ROUTER True,
      definition_ref ''owner_service'' ''lotus-advise'' ''src/core/proposals/memo_api.py'' REF_SERVICE True,
      definition_ref ''owner_integration'' ''lotus-advise'' ''src/integrations/lotus_ai/proposal_memo.py'' REF_SERVICE True,
      definition_ref ''owner_tests'' ''lotus-advise'' ''tests/unit/advisory/api/test_api_advisory_proposal_memo.py'' REF_TEST True,
      definition_ref ''owner_rfc'' ''lotus-advise'' ''docs/rfcs/RFC-0024-advisor-proposal-memo-and-evidence-pack.md'' REF_RFC False]"

definition advisory_copilot_v1_definition_refs :: "definition_reference list" where
  "advisory_copilot_v1_definition_refs =
     [definition_ref ''owner_contract'' ''lotus-advise'' ''src/core/advisory_copilot/models.py'' REF_CONTRACT True,
      definition_ref ''owner_guardrails'' ''lotus-advise'' ''src/core/advisory_copilot/guardrails.py'' REF_SERVICE True,
      definition_ref ''owner_integration'' ''lotus-advise'' ''src/integrations/lotus_ai/advisory_copilot.py'' REF_SERVICE True,
      definition_ref ''owner_tests'' ''lotus-advise'' ''tests/unit/advisory/api/test_lotus_ai_advisory_copilot.py'' REF_TEST True,
      definition_ref ''owner_rfc'' ''lotus-advise'' ''docs/rfcs/RFC-0027-governed-advisory-ai-copilot.md'' REF_RFC True]"

definition twr_inspection_support_brief_v1_definition_refs :: "definition_reference list" where
  "twr_inspection_support_brief_v1_definition_refs =
     [definition_ref ''owner_router'' ''lotus-performance'' ''app/api/endpoints/inspections.py'' REF_ROUTER True,
      definition_ref ''owner_service'' ''lotus-performance'' ''app/services/inspection/twr_inspection_service.py'' REF_SERVICE True,
      definition_ref ''owner_artifact_service'' ''lotus-performance'' ''app/services/inspection/artifact_service.py'' REF_SERVICE True,
      definition_ref ''owner_tests'' ''lotus-performance'' ''tests/integration/test_inspections_api.py'' REF_TEST True,
      definition_ref ''owner_rfc'' ''lotus-performance'' ''docs/RFCs/RFC 045 - TWR Inspection and Supportability Contract.md'' REF_RFC False]"

definition proof_pack_pm_memo_v1_definition_refs :: "definition_reference list" where
  "proof_pack_pm_memo_v1_definition_refs =
     [definition_ref ''primary_contract'' ''lotus-manage'' ''src/core/proof_packs/handoffs.py'' REF_CONTRACT True,
      definition_ref ''owner_service'' ''lotus-manage'' ''src/api/services/proof_pack_service.py'' REF_SERVICE True,
      definition_ref ''owner_router'' ''lotus-manage'' ''src/api/routers/proof_packs.py'' REF_ROUTER True,
      definition_ref ''owner_tests'' ''lotus-manage'' ''tests/unit/dpm/proof_packs/test_proof_pack_handoffs.py'' REF_TEST True,
      definition_ref ''owner_rfc'' ''lotus-manage'' ''docs/rfcs/RFC-0043-governed-ai-pm-copilot-for-dpm.md'' REF_RFC False]"

definition outcome_review_narrative_v1_definition_refs :: "definition_reference list" where
  "outcome_review_narrative_v1_definition_refs =
     [definition_ref ''primary_contract'' ''lotus-manage'' ''src/core/outcomes/handoffs.py'' REF_CONTRACT True,
      definition_ref ''owner_service'' ''lotus-manage'' ''src/api/services/outcome_review_service.py'' REF_SERVICE True,
      definition_ref ''owner_router'' ''lotus-manage'' ''src/api/routers/outcome_reviews.py'' REF_ROUTER True,
      definition_ref ''owner_tests'' ''lotus-manage'' ''tests/unit/core/test_outcome_handoffs.py'' REF_TEST True,
      definition_ref ''owner_rfc'' ''lotus-manage'' ''docs/rfcs/RFC-0042-post-trade-outcome-feedback-loop.md'' REF_RFC False]"

definition dpm_wave_pm_memo_v1_definition_refs :: "definition_reference list" where
  "dpm_wave_pm_memo_v1_definition_refs =
     [definition_ref ''primary_contract'' ''lotus-manage'' ''src/core/waves/handoffs.py'' REF_CONTRACT True,
      definition_ref ''owner_service'' ''lotus-manage'' ''src/api/services/wave_service.py'' REF_SERVICE True,
      definition_ref ''owner_router'' ''lotus-manage'' ''src/api/routers/waves.py'' REF_ROUTER True,
      definition_ref ''owner_tests'' ''lotus-manage'' ''tests/unit/dpm/api/test_waves_api.py'' REF_TEST True,
      definition_ref ''owner_rfc'' ''lotus-manage'' ''docs/rfcs/RFC-0041-rebalance-wave-orchestration-and-cio-model-change-impact.md'' REF_RFC False]"

definition idea_explanation_v1_definition_refs :: "definition_reference list" where
  "idea_explanation_v1_definition_refs =
     [definition_ref ''primary_contract'' ''lotus-idea'' ''src/app/domain/ai_governance.py'' REF_CONTRACT True,
      definition_ref ''owner_application_service'' ''lotus-idea'' ''src/app/application/ai_governance.py'' REF_SERVICE True,
      definition_ref ''owner_router'' ''lotus-idea'' ''src/app/api/ai_governance.py'' REF_ROUTER True,
      definition_ref ''owner_tests'' ''lotus-idea'' ''tests/unit/test_ai_governance.py'' REF_TEST True,
      definition_ref ''owner_rfc'' ''lotus-idea'' ''docs/rfcs/RFC-0002-enterprise-opportunity-intelligence-operating-layer/RFC-0002-slice-09-governed-ai-explanation-and-model-risk-controls.md'' REF_RFC False]"

definition dpm_operations_handoff_summary_v1_definition_refs :: "definition_reference list" where
  "dpm_operations_handoff_summary_v1_definition_refs =
     [definition_ref ''primary_contract'' ''lotus-manage'' ''src/core/waves/handoffs.py'' REF_CONTRACT True,
      definition_ref ''owner_service'' ''lotus-manage'' ''src/api/services/wave_service.py'' REF_SERVICE True,
      definition_ref ''owner_router'' ''lotus-manage'' ''src/api/routers/waves.py'' REF_ROUTER True,
      definition_ref ''owner_tests'' ''lotus-manage'' ''tests/unit/dpm/api/test_waves_api.py'' REF_TEST True,
      definition_ref ''owner_rfc'' ''lotus-manage'' ''docs/rfcs/RFC-0043-governed-ai-pm-copilot-for-dpm.md'' REF_RFC False]"

definition dpm_exception_summary_v1_definition_refs :: "definition_reference list" where
  "dpm_exception_summary_v1_definition_refs =
     [definition_ref ''primary_contract'' ''lotus-manage'' ''src/core/mandates.py'' REF_CONTRACT True,
      definition_ref ''owner_service'' ''lotus-manage'' ''src/api/services/monitoring_service.py'' REF_SERVICE True,
      definition_ref ''owner_router'' ''lotus-manage'' ''src/api/routers/monitoring.py'' REF_ROUTER True,
      definition_ref ''owner_tests'' ''lotus-manage'' ''tests/unit/dpm/api/test_monitoring_api.py'' REF_TEST True,
      definition_ref ''owner_rfc'' ''lotus-manage'' ''docs/rfcs/RFC-0043-governed-ai-pm-copilot-for-dpm.md'' REF_RFC False]"

definition pm_quality_summary_v1_definition_refs :: "definition_reference list" where
  "pm_quality_summary_v1_definition_refs =
     [definition_ref ''primary_contract'' ''lotus-manage'' ''src/core/pm_quality/models.py'' REF_CONTRACT True,
      definition_ref ''owner_service'' ''lotus-manage'' ''src/api/services/pm_operating_quality_service.py'' REF_SERVICE True,
      definition_ref ''owner_router'' ''lotus-manage'' ''src/api/routers/pm_operating_quality.py'' REF_ROUTER True,
      definition_ref ''owner_tests'' ''lotus-manage'' ''tests/unit/dpm/pm_quality/test_pm_operating_quality.py'' REF_TEST True,
      definition_ref ''owner_rfc'' ''lotus-manage'' ''docs/rfcs/RFC-0042-post-trade-outcome-feedback-loop.md'' REF_RFC False]"

definition advisor_brief_v1_registration :: pack_registration where
  "advisor_brief_v1_registration =
     \<lparr>rg_pack_id = sp_pack_id advisor_brief_v1_spec, rg_pack_family = sp_pack_family advisor_brief_v1_spec,
      rg_version = sp_version advisor_brief_v1_spec, rg_owner_repository = sp_owner_repository advisor_brief_v1_spec,
      rg_owner_service = sp_owner_service advisor_brief_v1_spec,
      rg_truth_owner_services = sp_truth_owner_services advisor_brief_v1_spec,
      rg_primary_use_case = sp_primary_use_case advisor_brief_v1_spec,
      rg_workflow_authority_owner = sp_workflow_authority_owner advisor_brief_v1_spec,
      rg_default_execution_mode = REVIEW_GATED,
      rg_definition_ref = ''repo://lotus-gateway/src/app/contracts/advisor_brief.py'',
      rg_definition_refs = advisor_brief_v1_definition_refs,
      rg_compatibility_contract_version = ''workflow-pack-contract.v1'', rg_registration_status = PACK_REGISTERED,
      rg_activation_state = PILOT, rg_registered_definition_digest = ''sha256:advisor-brief-v1-registered-digest'',
      rg_supported_callers = sp_supported_callers advisor_brief_v1_spec,
      rg_supported_identity_classes = [INTERNAL_SERVICE, BANKER_PRODUCT],
      rg_supported_environments = [ENV_DEVELOPMENT, ENV_QA, ENV_UAT], rg_tenant_scope = [],
      rg_surface_scope = sp_surface_scope advisor_brief_v1_spec, rg_default_rollout_stage = ''PILOT_SCOPED'',
      rg_pause_state = ''NOT_PAUSED'', rg_supersedes = None, rg_superseded_by = None,
      rg_registered_at = ''2026-04-18T08:00:00Z'', rg_registered_by = ''lotus-ai.workflow-pack-registry.seed'',
      rg_last_activated_at = Some ''2026-04-18T08:30:00Z'', rg_last_changed_at = ''2026-04-18T08:30:00Z''\<rparr>"

definition advisor_brief_v2_registration :: pack_registration where
  "advisor_brief_v2_registration =
     \<lparr>rg_pack_id = sp_pack_id advisor_brief_v2_spec, rg_pack_family = sp_pack_family advisor_brief_v2_spec,
      rg_version = sp_version advisor_brief_v2_spec, rg_owner_repository = sp_owner_repository advisor_brief_v2_spec,
      rg_owner_service = sp_owner_service advisor_brief_v2_spec,
      rg_truth_owner_services = sp_truth_owner_services advisor_brief_v2_spec,
      rg_primary_use_case = sp_primary_use_case advisor_brief_v2_spec,
      rg_workflow_authority_owner = sp_workflow_authority_owner advisor_brief_v2_spec,
      rg_default_execution_mode = REVIEW_GATED,
      rg_definition_ref = ''repo://lotus-gateway/src/app/services/advisor_brief_service.py'',
      rg_definition_refs = advisor_brief_v2_definition_refs,
      rg_compatibility_contract_version = ''workflow-pack-contract.v1'', rg_registration_status = DISCOVERED,
      rg_activation_state = DARK, rg_registered_definition_digest = ''sha256:advisor-brief-v2-discovered-digest'',
      rg_supported_callers = sp_supported_callers advisor_brief_v2_spec, rg_supported_identity_classes = [INTERNAL_SERVICE],
      rg_supported_environments = [ENV_DEVELOPMENT], rg_tenant_scope = [],
      rg_surface_scope = sp_surface_scope advisor_brief_v2_spec, rg_default_rollout_stage = ''DISCOVERY_ONLY'',
      rg_pause_state = ''NOT_PAUSED'',
      rg_supersedes = Some (sp_pack_id advisor_brief_v1_spec @ ''@'' @ sp_version advisor_brief_v1_spec),
      rg_superseded_by = None, rg_registered_at = ''2026-04-18T09:00:00Z'',
      rg_registered_by = ''lotus-ai.workflow-pack-registry.seed'', rg_last_activated_at = None,
      rg_last_changed_at = ''2026-04-18T09:00:00Z''\<rparr>"

definition workspace_rationale_v1_registration :: pack_registration where
  "workspace_rationale_v1_registration =
     \<lparr>rg_pack_id = sp_pack_id workspace_rationale_v1_spec, rg_pack_family = sp_pack_family workspace_rationale_v1_spec,
      rg_version = sp_version workspace_rationale_v1_spec,
      rg_owner_repository = sp_owner_repository workspace_rationale_v1_spec,
      rg_owner_service = sp_owner_service workspace_rationale_v1_spec,
      rg_truth_owner_services = sp_truth_owner_services workspace_rationale_v1_spec,
      rg_primary_use_case = sp_primary_use_case workspace_rationale_v1_spec,
      rg_workflow_authority_owner = sp_workflow_authority_owner workspace_rationale_v1_spec,
      rg_default_execution_mode = REVIEW_GATED, rg_definition_ref = ''repo://lotus-advise/src/api/workspaces/router.py'',
      rg_definition_refs = workspace_rationale_v1_definition_refs,
      rg_compatibility_contract_version = ''workflow-pack-contract.v1'', rg_registration_status = PACK_REGISTERED,
      rg_activation_state = PILOT, rg_registered_definition_digest = ''sha256:workspace-rationale-v1-registered-digest'',
      rg_supported_callers = sp_supported_callers workspace_rationale_v1_spec,
      rg_supported_identity_classes = [INTERNAL_SERVICE], rg_supported_environments = [ENV_DEVELOPMENT, ENV_QA, ENV_UAT],
      rg_tenant_scope = [], rg_surface_scope = sp_surface_scope workspace_rationale_v1_spec,
      rg_default_rollout_stage = ''PILOT_SCOPED'', rg_pause_state = ''NOT_PAUSED'', rg_supersedes = None,
      rg_superseded_by = None, rg_registered_at = ''2026-04-20T10:00:00Z'',
      rg_registered_by = ''lotus-ai.workflow-pack-registry.seed'', rg_last_activated_at = Some ''2026-04-20T10:15:00Z'',
      rg_last_changed_at = ''2026-04-20T10:15:00Z''\<rparr>"

definition proposal_memo_commentary_v1_registration :: pack_registration where
  "proposal_memo_commentary_v1_registration =
     \<lparr>rg_pack_id = sp_pack_id proposal_memo_commentary_v1_spec,
      rg_pack_family = sp_pack_family proposal_memo_commentary_v1_spec,
      rg_version = sp_version proposal_memo_commentary_v1_spec,
      rg_owner_repository = sp_owner_repository proposal_memo_commentary_v1_spec,
      rg_owner_service = sp_owner_service proposal_memo_commentary_v1_spec,
      rg_truth_owner_services = sp_truth_owner_services proposal_memo_commentary_v1_spec,
      rg_primary_use_case = sp_primary_use_case proposal_memo_commentary_v1_spec,
      rg_workflow_authority_owner = sp_workflow_authority_owner proposal_memo_commentary_v1_spec,
      rg_default_execution_mode = REVIEW_GATED, rg_definition_ref = ''repo://lotus-advise/src/core/proposals/memo_api.py'',
      rg_definition_refs = proposal_memo_commentary_v1_definition_refs,
      rg_compatibility_contract_version = ''workflow-pack-contract.v1'', rg_registration_status = PACK_REGISTERED,
      rg_activation_state = PILOT,
      rg_registered_definition_digest = ''sha256:proposal-memo-commentary-v1-registered-digest'',
      rg_supported_callers = sp_supported_callers proposal_memo_commentary_v1_spec,
      rg_supported_identity_classes = [INTERNAL_SERVICE], rg_supported_environments = [ENV_DEVELOPMENT, ENV_QA, ENV_UAT],
      rg_tenant_scope = [], rg_surface_scope = sp_surface_scope proposal_memo_commentary_v1_spec,
      rg_default_rollout_stage = ''PILOT_SCOPED'', rg_pause_state = ''NOT_PAUSED'', rg_supersedes = None,
      rg_superseded_by = None, rg_registered_at = ''2026-05-24T10:00:00Z'',
      rg_registered_by = ''lotus-ai.workflow-pack-registry.seed'', rg_last_activated_at = Some ''2026-05-24T10:15:00Z'',
      rg_last_changed_at = ''2026-05-24T10:15:00Z''\<rparr>"

definition twr_inspection_support_brief_v1_registration :: pack_registration where
  "twr_inspection_support_brief_v1_registration =
     \<lparr>rg_pack_id = sp_pack_id twr_inspection_support_brief_v1_spec,
      rg_pack_family = sp_pack_family twr_inspection_support_brief_v1_spec,
      rg_version = sp_version twr_inspection_support_brief_v1_spec,
      rg_owner_repository = sp_owner_repository twr_inspection_support_brief_v1_spec,
      rg_owner_service = sp_owner_service twr_inspection_support_brief_v1_spec,
      rg_truth_owner_services = sp_truth_owner_services twr_inspection_support_brief_v1_spec,
      rg_primary_use_case = sp_primary_use_case twr_inspection_support_brief_v1_spec,
      rg_workflow_authority_owner = sp_workflow_authority_owner twr_inspection_support_brief_v1_spec,
      rg_default_execution_mode = REVIEW_GATED,
      rg_definition_ref = ''repo://lotus-performance/app/api/endpoints/inspections.py'',
      rg_definition_refs = twr_inspection_support_brief_v1_definition_refs,
      rg_compatibility_contract_version = ''workflow-pack-contract.v1'', rg_registration_status = PACK_REGISTERED,
      rg_activation_state = PILOT,
      rg_registered_definition_digest = ''sha256:twr-inspection-support-brief-v1-registered-digest'',
      rg_supported_callers = sp_supported_callers twr_inspection_support_brief_v1_spec,
      rg_supported_identity_classes = [INTERNAL_SERVICE], rg_supported_environments = [ENV_DEVELOPMENT, ENV_QA, ENV_UAT],
      rg_tenant_scope = [], rg_surface_scope = sp_surface_scope twr_inspection_support_brief_v1_spec,
      rg_default_rollout_stage = ''PILOT_SCOPED'', rg_pause_state = ''NOT_PAUSED'', rg_supersedes = None,
      rg_superseded_by = None, rg_registered_at = ''2026-04-20T18:00:00Z'',
      rg_registered_by = ''lotus-ai.workflow-pack-registry.seed'', rg_last_activated_at = Some ''2026-04-20T18:20:00Z'',
      rg_last_changed_at = ''2026-04-20T18:20:00Z''\<rparr>"

definition proof_pack_pm_memo_v1_registration :: pack_registration where
  "proof_pack_pm_memo_v1_registration =
     \<lparr>rg_pack_id = sp_pack_id proof_pack_pm_memo_v1_spec, rg_pack_family = sp_pack_family proof_pack_pm_memo_v1_spec,
      rg_version = sp_version proof_pack_pm_memo_v1_spec,
      rg_owner_repository = sp_owner_repository proof_pack_pm_memo_v1_spec,
      rg_owner_service = sp_owner_service proof_pack_pm_memo_v1_spec,
      rg_truth_owner_services = sp_truth_owner_services proof_pack_pm_memo_v1_spec,
      rg_primary_use_case = sp_primary_use_case proof_pack_pm_memo_v1_spec,
      rg_workflow_authority_owner = sp_workflow_authority_owner proof_pack_pm_memo_v1_spec,
      rg_default_execution_mode = REVIEW_GATED, rg_definition_ref = ''repo://lotus-manage/src/core/proof_packs/handoffs.py'',
      rg_definition_refs = proof_pack_pm_memo_v1_definition_refs,
      rg_compatibility_contract_version = ''workflow-pack-contract.v1'', rg_registration_status = PACK_REGISTERED,
      rg_activation_state = PILOT, rg_registered_definition_digest = ''sha256:dpm-pm-memo-v1-registered-digest'',
      rg_supported_callers = sp_supported_callers proof_pack_pm_memo_v1_spec,
      rg_supported_identity_classes = [INTERNAL_SERVICE], rg_supported_environments = [ENV_DEVELOPMENT, ENV_QA, ENV_UAT],
      rg_tenant_scope = [], rg_surface_scope = sp_surface_scope proof_pack_pm_memo_v1_spec,
      rg_default_rollout_stage = ''PILOT_SCOPED'', rg_pause_state = ''NOT_PAUSED'', rg_supersedes = None,
      rg_superseded_by = None, rg_registered_at = ''2026-05-07T08:00:00Z'',
      rg_registered_by = ''lotus-ai.workflow-pack-registry.seed'', rg_last_activated_at = Some ''2026-05-07T08:20:00Z'',
      rg_last_changed_at = ''2026-05-07T08:20:00Z''\<rparr>"

definition outcome_review_narrative_v1_registration :: pack_registration where
  "outcome_review_narrative_v1_registration =
     \<lparr>rg_pack_id = sp_pack_id outcome_review_narrative_v1_spec,
      rg_pack_family = sp_pack_family outcome_review_narrative_v1_spec,
      rg_version = sp_version outcome_review_narrative_v1_spec,
      rg_owner_repository = sp_owner_repository outcome_review_narrative_v1_spec,
      rg_owner_service = sp_owner_service outcome_review_narrative_v1_spec,
      rg_truth_owner_services = sp_truth_owner_services outcome_review_narrative_v1_spec,
      rg_primary_use_case = sp_primary_use_case outcome_review_narrative_v1_spec,
      rg_workflow_authority_owner = sp_workflow_authority_owner outcome_review_narrative_v1_spec,
      rg_default_execution_mode = REVIEW_GATED, rg_definition_ref = ''repo://lotus-manage/src/core/outcomes/handoffs.py'',
      rg_definition_refs = outcome_review_narrative_v1_definition_refs,
      rg_compatibility_contract_version = ''workflow-pack-contract.v1'', rg_registration_status = PACK_REGISTERED,
      rg_activation_state = PILOT,
      rg_registered_definition_digest = ''sha256:outcome-review-narrative-v1-registered-digest'',
      rg_supported_callers = sp_supported_callers outcome_review_narrative_v1_spec,
      rg_supported_identity_classes = [INTERNAL_SERVICE], rg_supported_environments = [ENV_DEVELOPMENT, ENV_QA, ENV_UAT],
      rg_tenant_scope = [], rg_surface_scope = sp_surface_scope outcome_review_narrative_v1_spec,
      rg_default_rollout_stage = ''PILOT_SCOPED'', rg_pause_state = ''NOT_PAUSED'', rg_supersedes = None,
      rg_superseded_by = None, rg_registered_at = ''2026-05-05T08:00:00Z'',
      rg_registered_by = ''lotus-ai.workflow-pack-registry.seed'', rg_last_activated_at = Some ''2026-05-05T08:20:00Z'',
      rg_last_changed_at = ''2026-05-05T08:20:00Z''\<rparr>"

definition dpm_wave_pm_memo_v1_registration :: pack_registration where
  "dpm_wave_pm_memo_v1_registration =
     \<lparr>rg_pack_id = sp_pack_id dpm_wave_pm_memo_v1_spec, rg_pack_family = sp_pack_family dpm_wave_pm_memo_v1_spec,
      rg_version = sp_version dpm_wave_pm_memo_v1_spec, rg_owner_repository = sp_owner_repository dpm_wave_pm_memo_v1_spec,
      rg_owner_service = sp_owner_service dpm_wave_pm_memo_v1_spec,
      rg_truth_owner_services = sp_truth_owner_services dpm_wave_pm_memo_v1_spec,
      rg_primary_use_case = sp_primary_use_case dpm_wave_pm_memo_v1_spec,
      rg_workflow_authority_owner = sp_workflow_authority_owner dpm_wave_pm_memo_v1_spec,
      rg_default_execution_mode = REVIEW_GATED, rg_definition_ref = ''repo://lotus-manage/src/core/waves/handoffs.py'',
      rg_definition_refs = dpm_wave_pm_memo_v1_definition_refs,
      rg_compatibility_contract_version = ''workflow-pack-contract.v1'', rg_registration_status = PACK_REGISTERED,
      rg_activation_state = PILOT, rg_registered_definition_digest = ''sha256:dpm-wave-pm-memo-v1-registered-digest'',
      rg_supported_callers = sp_supported_callers dpm_wave_pm_memo_v1_spec,
      rg_supported_identity_classes = [INTERNAL_SERVICE], rg_supported_environments = [ENV_DEVELOPMENT, ENV_QA, ENV_UAT],
      rg_tenant_scope = [], rg_surface_scope = sp_surface_scope dpm_wave_pm_memo_v1_spec,
      rg_default_rollout_stage = ''PILOT_SCOPED'', rg_pause_state = ''NOT_PAUSED'', rg_supersedes = None,
      rg_superseded_by = None, rg_registered_at = ''2026-05-08T08:00:00Z'',
      rg_registered_by = ''lotus-ai.workflow-pack-registry.seed'', rg_last_activated_at = Some ''2026-05-08T08:20:00Z'',
      rg_last_changed_at = ''2026-05-08T08:20:00Z''\<rparr>"

definition idea_explanation_v1_registration :: pack_registration where
  "idea_explanation_v1_registration =
     \<lparr>rg_pack_id = sp_pack_id idea_explanation_v1_spec, rg_pack_family = sp_pack_family idea_explanation_v1_spec,
      rg_version = sp_version idea_explanation_v1_spec, rg_owner_repository = sp_owner_repository idea_explanation_v1_spec,
      rg_owner_service = sp_owner_service idea_explanation_v1_spec,
      rg_truth_owner_services = sp_truth_owner_services idea_explanation_v1_spec,
      rg_primary_use_case = sp_primary_use_case idea_explanation_v1_spec,
      rg_workflow_authority_owner = sp_workflow_authority_owner idea_explanation_v1_spec,
      rg_default_execution_mode = REVIEW_GATED, rg_definition_ref = ''repo://lotus-idea/src/app/domain/ai_governance.py'',
      rg_definition_refs = idea_explanation_v1_definition_refs,
      rg_compatibility_contract_version = ''workflow-pack-contract.v1'', rg_registration_status = PACK_REGISTERED,
      rg_activation_state = PILOT, rg_registered_definition_digest = ''sha256:idea-explanation-v1-registered-digest'',
      rg_supported_callers = sp_supported_callers idea_explanation_v1_spec,
      rg_supported_identity_classes = [INTERNAL_SERVICE], rg_supported_environments = [ENV_DEVELOPMENT, ENV_QA, ENV_UAT],
      rg_tenant_scope = [], rg_surface_scope = sp_surface_scope idea_explanation_v1_spec,
      rg_default_rollout_stage = ''PILOT_SCOPED'', rg_pause_state = ''NOT_PAUSED'', rg_supersedes = None,
      rg_superseded_by = None, rg_registered_at = ''2026-06-25T08:00:00Z'',
      rg_registered_by = ''lotus-ai.workflow-pack-registry.seed'', rg_last_activated_at = Some ''2026-06-25T08:20:00Z'',
      rg_last_changed_at = ''2026-06-25T08:20:00Z''\<rparr>"

definition dpm_exception_summary_v1_registration :: pack_registration where
  "dpm_exception_summary_v1_registration =
     \<lparr>rg_pack_id = sp_pack_id dpm_exception_summary_v1_spec, rg_pack_family = sp_pack_family dpm_exception_summary_v1_spec,
      rg_version = sp_version dpm_exception_summary_v1_spec,
      rg_owner_repository = sp_owner_repository dpm_exception_summary_v1_spec,
      rg_owner_service = sp_owner_service dpm_exception_summary_v1_spec,
      rg_truth_owner_services = sp_truth_owner_services dpm_exception_summary_v1_spec,
      rg_primary_use_case = sp_primary_use_case dpm_exception_summary_v1_spec,
      rg_workflow_authority_owner = sp_workflow_authority_owner dpm_exception_summary_v1_spec,
      rg_default_execution_mode = REVIEW_GATED, rg_definition_ref = ''repo://lotus-manage/src/api/routers/monitoring.py'',
      rg_definition_refs = dpm_exception_summary_v1_definition_refs,
      rg_compatibility_contract_version = ''workflow-pack-contract.v1'', rg_registration_status = PACK_REGISTERED,
      rg_activation_state = PILOT, rg_registered_definition_digest = ''sha256:dpm-exception-summary-v1-registered-digest'',
      rg_supported_callers = sp_supported_callers dpm_exception_summary_v1_spec,
      rg_supported_identity_classes = [INTERNAL_SERVICE], rg_supported_environments = [ENV_DEVELOPMENT, ENV_QA, ENV_UAT],
      rg_tenant_scope = [], rg_surface_scope = sp_surface_scope dpm_exception_summary_v1_spec,
      rg_default_rollout_stage = ''PILOT_SCOPED'', rg_pause_state = ''NOT_PAUSED'', rg_supersedes = None,
      rg_superseded_by = None, rg_registered_at = ''2026-05-12T08:00:00Z'',
      rg_registered_by = ''lotus-ai.workflow-pack-registry.seed'', rg_last_activated_at = Some ''2026-05-12T08:20:00Z'',
      rg_last_changed_at = ''2026-05-12T08:20:00Z''\<rparr>"

definition dpm_operations_handoff_summary_v1_registration :: pack_registration where
  "dpm_operations_handoff_summary_v1_registration =
     \<lparr>rg_pack_id = sp_pack_id dpm_operations_handoff_summary_v1_spec,
      rg_pack_family = sp_pack_family dpm_operations_handoff_summary_v1_spec,
      rg_version = sp_version dpm_operations_handoff_summary_v1_spec,
      rg_owner_repository = sp_owner_repository dpm_operations_handoff_summary_v1_spec,
      rg_owner_service = sp_owner_service dpm_operations_handoff_summary_v1_spec,
      rg_truth_owner_services = sp_truth_owner_services dpm_operations_handoff_summary_v1_spec,
      rg_primary_use_case = sp_primary_use_case dpm_operations_handoff_summary_v1_spec,
      rg_workflow_authority_owner = sp_workflow_authority_owner dpm_operations_handoff_summary_v1_spec,
      rg_default_execution_mode = REVIEW_GATED, rg_definition_ref = ''repo://lotus-manage/src/core/waves/handoffs.py'',
      rg_definition_refs = dpm_operations_handoff_summary_v1_definition_refs,
      rg_compatibility_contract_version = ''workflow-pack-contract.v1'', rg_registration_status = PACK_REGISTERED,
      rg_activation_state = PILOT,
      rg_registered_definition_digest = ''sha256:dpm-operations-handoff-summary-v1-registered-digest'',
      rg_supported_callers = sp_supported_callers dpm_operations_handoff_summary_v1_spec,
      rg_supported_identity_classes = [INTERNAL_SERVICE], rg_supported_environments = [ENV_DEVELOPMENT, ENV_QA, ENV_UAT],
      rg_tenant_scope = [], rg_surface_scope = sp_surface_scope dpm_operations_handoff_summary_v1_spec,
      rg_default_rollout_stage = ''PILOT_SCOPED'', rg_pause_state = ''NOT_PAUSED'', rg_supersedes = None,
      rg_superseded_by = None, rg_registered_at = ''2026-05-11T08:00:00Z'',
      rg_registered_by = ''lotus-ai.workflow-pack-registry.seed'', rg_last_activated_at = Some ''2026-05-11T08:20:00Z'',
      rg_last_changed_at = ''2026-05-11T08:20:00Z''\<rparr>"

definition pm_quality_summary_v1_registration :: pack_registration where
  "pm_quality_summary_v1_registration =
     \<lparr>rg_pack_id = sp_pack_id pm_quality_summary_v1_spec, rg_pack_family = sp_pack_family pm_quality_summary_v1_spec,
      rg_version = sp_version pm_quality_summary_v1_spec,
      rg_owner_repository = sp_owner_repository pm_quality_summary_v1_spec,
      rg_owner_service = sp_owner_service pm_quality_summary_v1_spec,
      rg_truth_owner_services = sp_truth_owner_services pm_quality_summary_v1_spec,
      rg_primary_use_case = sp_primary_use_case pm_quality_summary_v1_spec,
      rg_workflow_authority_owner = sp_workflow_authority_owner pm_quality_summary_v1_spec,
      rg_default_execution_mode = REVIEW_GATED, rg_definition_ref = ''repo://lotus-manage/src/core/pm_quality/models.py'',
      rg_definition_refs = pm_quality_summary_v1_definition_refs,
      rg_compatibility_contract_version = ''workflow-pack-contract.v1'', rg_registration_status = PACK_REGISTERED,
      rg_activation_state = PILOT, rg_registered_definition_digest = ''sha256:pm-quality-summary-v1-registered-digest'',
      rg_supported_callers = sp_supported_callers pm_quality_summary_v1_spec,
      rg_supported_identity_classes = [INTERNAL_SERVICE], rg_supported_environments = [ENV_DEVELOPMENT, ENV_QA, ENV_UAT],
      rg_tenant_scope = [], rg_surface_scope = sp_surface_scope pm_quality_summary_v1_spec,
      rg_default_rollout_stage = ''PILOT_SCOPED'', rg_pause_state = ''NOT_PAUSED'', rg_supersedes = None,
      rg_superseded_by = None, rg_registered_at = ''2026-05-16T08:00:00Z'',
      rg_registered_by = ''lotus-ai.workflow-pack-registry.seed'', rg_last_activated_at = Some ''2026-05-16T08:20:00Z'',
      rg_last_changed_at = ''2026-05-16T08:20:00Z''\<rparr>"

definition advisory_copilot_v1_registration :: "pack_spec \<Rightarrow> pack_registration" where
  "advisory_copilot_v1_registration sp =
     \<lparr>rg_pack_id = sp_pack_id sp, rg_pack_family = sp_pack_family sp, rg_version = sp_version sp,
      rg_owner_repository = sp_owner_repository sp, rg_owner_service = sp_owner_service sp,
      rg_truth_owner_services = sp_truth_owner_services sp, rg_primary_use_case = sp_primary_use_case sp,
      rg_workflow_authority_owner = sp_workflow_authority_owner sp, rg_default_execution_mode = REVIEW_GATED,
      rg_definition_ref = ''repo://lotus-advise/src/core/advisory_copilot/models.py'',
      rg_definition_refs = advisory_copilot_v1_definition_refs,
      rg_compatibility_contract_version = ''workflow-pack-contract.v1'', rg_registration_status = PACK_REGISTERED,
      rg_activation_state = PILOT, rg_registered_definition_digest = ''sha256:'' @ sp_pack_family sp @ ''-v1-registered-digest'',
      rg_supported_callers = sp_supported_callers sp, rg_supported_identity_classes = [INTERNAL_SERVICE],
      rg_supported_environments = [ENV_DEVELOPMENT, ENV_QA, ENV_UAT], rg_tenant_scope = [],
      rg_surface_scope = sp_surface_scope sp, rg_default_rollout_stage = ''PILOT_SCOPED'', rg_pause_state = ''NOT_PAUSED'',
      rg_supersedes = None, rg_superseded_by = None, rg_registered_at = ''2026-05-28T08:00:00Z'',
      rg_registered_by = ''lotus-ai.workflow-pack-registry.seed'', rg_last_activated_at = Some ''2026-05-28T08:15:00Z'',
      rg_last_changed_at = ''2026-05-28T08:15:00Z''\<rparr>"

definition build_seed_workflow_pack_registrations :: "pack_registration list" where
  "build_seed_workflow_pack_registrations =
     [advisor_brief_v1_registration, advisor_brief_v2_registration, workspace_rationale_v1_registration,
      proposal_memo_commentary_v1_registration]
     @ map advisory_copilot_v1_registration advisory_copilot_action_pack_specs
     @ [twr_inspection_support_brief_v1_registration, proof_pack_pm_memo_v1_registration,
        outcome_review_narrative_v1_registration, dpm_wave_pm_memo_v1_registration, idea_explanation_v1_registration,
        dpm_exception_summary_v1_registration, dpm_operations_handoff_summary_v1_registration,
        pm_quality_summary_v1_registration]"

section \<open>The store\<close>

datatype pack_control_action = PACK_PAUSE | PACK_RESUME | PACK_DEPRECATE | PACK_RETIRE

record pack_control_event =
  pe_event_id :: string
  pe_pack_id :: string
  pe_version :: string
  pe_action_type :: pack_control_action
  pe_requested_by :: string
  pe_approved_by :: string
  pe_reason :: string
  pe_prior_registration_status :: registration_status
  pe_resulting_registration_status :: registration_status
  pe_prior_activation_state :: activation_state
  pe_resulting_activation_state :: activation_state
  pe_caller_app :: string
  pe_authorization :: authorization_decision
  pe_recorded_at :: timestamp

record registry_world = artifact_world +
  gw_registrations :: "(string \<times> string, pack_registration) dict"
  gw_control_events :: "(string, pack_control_event) dict"

definition seeded_registry :: registry_world where
  "seeded_registry = \<lparr>aw_artifacts = [], aw_objects = [], gw_registrations = fold (\<lambda>r d. dict_put (identity_of r) r d) build_seed_workflow_pack_registrations [],
     gw_control_events = []\<rparr>"

definition stored_registrations :: "'w registry_world_scheme \<Rightarrow> pack_registration list" where
  "stored_registrations w = map snd (sort_key (\<lambda>((p, v), r). [p, v]) (gw_registrations w))"

definition get_registration :: "'w registry_world_scheme \<Rightarrow> string \<times> string \<Rightarrow> pack_registration option" where
  "get_registration w k = dict_get (gw_registrations w) k"

definition save_registration :: "pack_registration \<Rightarrow> 'w registry_world_scheme \<Rightarrow> 'w registry_world_scheme" where
  "save_registration r w = w\<lparr>gw_registrations := dict_put (identity_of r) r (gw_registrations w)\<rparr>"

definition list_pack_control_events ::
  "string option \<Rightarrow> string option \<Rightarrow> int \<Rightarrow> 'w registry_world_scheme \<Rightarrow> pack_control_event list" where
  "list_pack_control_events pack version limit w =
     py_slice_to (max limit 1) (sorted_desc pe_recorded_at
       (filter (\<lambda>e. (case pack of None \<Rightarrow> True | Some p \<Rightarrow> pe_pack_id e = p)
                  \<and> (case version of None \<Rightarrow> True | Some v \<Rightarrow> pe_version e = v)) (dict_values (gw_control_events w))))"

fun delete_pack_control_events :: "string list \<Rightarrow> 'w registry_world_scheme \<Rightarrow> nat \<times> 'w registry_world_scheme" where
  "delete_pack_control_events [] w = (0, w)"
| "delete_pack_control_events (k # ks) w =
     (let found = (dict_get (gw_control_events w) k \<noteq> None);
          (n, w') = delete_pack_control_events ks (w\<lparr>gw_control_events := dict_pop k (gw_control_events w)\<rparr>)
      in ((if found then 1 else 0) + n, w'))"

definition save_pack_control_event :: "pack_control_event \<Rightarrow> 'w registry_world_scheme \<Rightarrow> 'w registry_world_scheme" where
  "save_pack_control_event e w = w\<lparr>gw_control_events := dict_put (pe_event_id e) e (gw_control_events w)\<rparr>"

section \<open>Validation\<close>

fun validate_unique_registration_identity :: "pack_registration list \<Rightarrow> (string \<times> string) list \<Rightarrow> unit result" where
  "validate_unique_registration_identity [] seen = Inr ()"
| "validate_unique_registration_identity (r # rs) seen =
     (if identity_of r \<in> set seen then Inl (ValueError ''duplicate_registration'')
      else validate_unique_registration_identity rs (identity_of r # seen))"

definition registered_has_scope :: "pack_registration \<Rightarrow> bool" where
  "registered_has_scope r \<longleftrightarrow>
     (rg_registration_status r = PACK_REGISTERED \<longrightarrow> rg_supported_callers r \<noteq> [] \<and> rg_supported_environments r \<noteq> [])"

definition retired_not_active :: "pack_registration \<Rightarrow> bool" where
  "retired_not_active r \<longleftrightarrow> (rg_registration_status r = PACK_RETIRED \<longrightarrow> rg_activation_state r = ACTIVATION_RETIRED)"

definition definition_references_valid :: "pack_registration \<Rightarrow> bool" where
  "definition_references_valid r \<longleftrightarrow>
     take 7 (rg_definition_ref r) = ''repo://'' \<and> rg_definition_refs r \<noteq> []
     \<and> rg_definition_ref r \<in> set (map (\<lambda>d. ''repo://'' @ df_repository d @ ''/'' @ df_path d) (rg_definition_refs r))
     \<and> filter df_required_for_registration (rg_definition_refs r) \<noteq> []
     \<and> list_ex (\<lambda>d. df_repository d = rg_owner_repository r) (filter df_required_for_registration (rg_definition_refs r))"

definition validate_workflow_pack_registrations :: "(string \<Rightarrow> bool) \<Rightarrow> pack_registration list \<Rightarrow> unit result" where
  "validate_workflow_pack_registrations contract_exists rs =
     (case validate_unique_registration_identity rs [] of
        Inl e \<Rightarrow> Inl e
      | Inr _ \<Rightarrow>
        if \<not> list_all registered_has_scope rs then Inl (ValueError ''missing_execution_scope'')
        else if \<not> list_all retired_not_active rs then Inl (ValueError ''retired_but_active'')
        else if \<not> list_all definition_references_valid rs then Inl (ValueError ''definition_refs'')
        else if \<not> list_all (\<lambda>r. contract_exists (rg_pack_id r)) rs then Inl (ValueError ''output_contract'')
        else Inr ())"

section \<open>Registry services\<close>

text \<open>The settings and readings one call uses: whether the store is ready, which output contracts exist, the caller
  policies with the authenticated caller, and the two clock readings and the identifier of a control event.\<close>

record registry_env =
  pr_ready :: bool
  pr_contract_exists :: "string \<Rightarrow> bool"
  pr_policies :: policy_store
  pr_caller :: "authenticated_caller option"
  pr_changed_at :: timestamp
  pr_recorded_at :: timestamp
  pr_event_hex :: string

definition registry_unavailable :: error where
  "registry_unavailable = RuntimeError ''workflow_pack_registry_unavailable''"

definition get_workflow_pack_registration ::
  "'e registry_env_scheme \<Rightarrow> string \<Rightarrow> string \<Rightarrow> 'w registry_world_scheme \<Rightarrow> pack_registration option result" where
  "get_workflow_pack_registration e pack version w =
     (if pr_ready e then Inr (get_registration w (pack, version)) else Inl registry_unavailable)"

record resolved_binding =
  rb_binding :: execution_binding
  rb_registration :: pack_registration

definition get_resolved_workflow_pack_execution_binding ::
  "'e registry_env_scheme \<Rightarrow> string \<Rightarrow> string \<Rightarrow> 'w registry_world_scheme \<Rightarrow> resolved_binding option result" where
  "get_resolved_workflow_pack_execution_binding e pack version w =
     (case get_workflow_pack_execution_binding pack version of
        None \<Rightarrow> Inr None
      | Some b \<Rightarrow>
        (case get_workflow_pack_registration e pack version w of
           Inl err \<Rightarrow> Inl err
         | Inr None \<Rightarrow> Inr None
         | Inr (Some r) \<Rightarrow> Inr (Some \<lparr>rb_binding = b, rb_registration = r\<rparr>)))"

fun validate_bindings :: "'e registry_env_scheme \<Rightarrow> 'w registry_world_scheme \<Rightarrow> execution_binding list \<Rightarrow> unit result" where
  "validate_bindings e w [] = Inr ()"
| "validate_bindings e w (b # bs) =
     (case get_resolved_workflow_pack_execution_binding e (bd_pack_id b) (bd_version b) w of
        Inl err \<Rightarrow> Inl err
      | Inr None \<Rightarrow> Inl (ValueError ''binding_without_registration'')
      | Inr (Some rb) \<Rightarrow>
        if supports_registration_scope b (rg_surface_scope (rb_registration rb)) then validate_bindings e w bs
        else Inl (ValueError ''binding_surface_out_of_scope''))"

definition validate_workflow_pack_execution_bindings :: "'e registry_env_scheme \<Rightarrow> 'w registry_world_scheme \<Rightarrow> unit result" where
  "validate_workflow_pack_execution_bindings e w = validate_bindings e w workflow_pack_execution_bindings"

definition validated_registrations ::
  "'e registry_env_scheme \<Rightarrow> 'w registry_world_scheme \<Rightarrow> pack_registration list result" where
  "validated_registrations e w =
     (let rs = stored_registrations w in
      case validate_workflow_pack_registrations (pr_contract_exists e) rs of
        Inl err \<Rightarrow> Inl err
      | Inr _ \<Rightarrow>
        (case validate_workflow_pack_execution_bindings e w of
           Inl err \<Rightarrow> Inl err
         | Inr _ \<Rightarrow> (case validate_workflow_pack_queue_policies of Inl err \<Rightarrow> Inl err | Inr _ \<Rightarrow> Inr rs)))"

definition list_workflow_pack_registrations ::
  "'e registry_env_scheme \<Rightarrow> 'w registry_world_scheme \<Rightarrow> pack_registration list result" where
  "list_workflow_pack_registrations e w = (if pr_ready e then validated_registrations e w else Inl registry_unavailable)"

definition replaced_registrations :: "pack_registration \<Rightarrow> pack_registration list \<Rightarrow> pack_registration list" where
  "replaced_registrations r rs =
     (if identity_of r \<in> set (map identity_of rs) then map (\<lambda>x. if identity_of x = identity_of r then r else x) rs else rs @ [r])"

definition save_workflow_pack_registration ::
  "'e registry_env_scheme \<Rightarrow> pack_registration \<Rightarrow> 'w registry_world_scheme \<Rightarrow> unit result \<times> 'w registry_world_scheme" where
  "save_workflow_pack_registration e r w =
     (case list_workflow_pack_registrations e w of
        Inl err \<Rightarrow> (Inl err, w)
      | Inr rs \<Rightarrow>
        (case validate_workflow_pack_registrations (pr_contract_exists e) (replaced_registrations r rs) of
           Inl err \<Rightarrow> (Inl err, w)
         | Inr _ \<Rightarrow> (Inr (), save_registration r w)))"

definition default_eligible_activation_states :: "activation_state list" where
  "default_eligible_activation_states = [PILOT, LIMITED_ACTIVE, PACK_ACTIVE]"

text \<open>\<^verbatim>\<open>max\<close> keeps the first of equal keys.\<close>

definition select_default_workflow_pack_registration :: "pack_registration list \<Rightarrow> pack_registration option" where
  "select_default_workflow_pack_registration rs =
     (case filter (\<lambda>r. rg_registration_status r = PACK_REGISTERED
              \<and> rg_activation_state r \<in> set default_eligible_activation_states \<and> rg_superseded_by r = None) rs of
        [] \<Rightarrow> None
      | c # cs \<Rightarrow> Some (foldl (\<lambda>best r. if rg_last_changed_at best < rg_last_changed_at r then r else best) c cs))"

section \<open>Control actions\<close>

record pack_control_request =
  pq_pack_id :: string
  pq_version :: string
  pq_action_type :: pack_control_action
  pq_caller_app :: string
  pq_requested_by :: string
  pq_approved_by :: string
  pq_reason :: string

definition not_paused :: string where
  "not_paused = ''NOT_PAUSED''"

definition pause_registration :: "timestamp \<Rightarrow> pack_registration \<Rightarrow> pack_registration result" where
  "pause_registration now r =
     (if rg_activation_state r \<in> {PACK_PAUSED, ACTIVATION_RETIRED, DARK} then Inl (HTTPException 409 ''cannot_be_paused'')
      else Inr (r\<lparr>rg_activation_state := PACK_PAUSED, rg_pause_state := ''PAUSED_FROM_'' @ activation_value (rg_activation_state r),
                  rg_last_changed_at := now\<rparr>))"

definition resolve_resume_state :: "pack_registration \<Rightarrow> 'w registry_world_scheme \<Rightarrow> activation_state result" where
  "resolve_resume_state r w =
     (case List.find (\<lambda>e. pe_action_type e = PACK_PAUSE) (list_pack_control_events (Some (rg_pack_id r)) (Some (rg_version r)) 50 w) of
        None \<Rightarrow> Inl (HTTPException 409 ''no_pause_event'')
      | Some e \<Rightarrow> Inr (pe_prior_activation_state e))"

definition resume_registration :: "timestamp \<Rightarrow> pack_registration \<Rightarrow> 'w registry_world_scheme \<Rightarrow> pack_registration result" where
  "resume_registration now r w =
     (if rg_activation_state r \<noteq> PACK_PAUSED then Inl (HTTPException 409 ''not_paused'')
      else case resolve_resume_state r w of
        Inl err \<Rightarrow> Inl err
      | Inr st \<Rightarrow> Inr (r\<lparr>rg_activation_state := st, rg_pause_state := not_paused, rg_last_changed_at := now\<rparr>))"

definition deprecate_registration :: "timestamp \<Rightarrow> pack_registration \<Rightarrow> pack_registration result" where
  "deprecate_registration now r =
     (if rg_activation_state r = ACTIVATION_RETIRED then Inl (HTTPException 409 ''already_retired'')
      else Inr (r\<lparr>rg_activation_state := PACK_DEPRECATED, rg_pause_state := not_paused, rg_last_changed_at := now\<rparr>))"

definition retire_registration :: "timestamp \<Rightarrow> pack_registration \<Rightarrow> pack_registration result" where
  "retire_registration now r =
     (if rg_registration_status r = PACK_RETIRED then Inl (HTTPException 409 ''already_retired'')
      else Inr (r\<lparr>rg_registration_status := PACK_RETIRED, rg_activation_state := ACTIVATION_RETIRED, rg_pause_state := not_paused,
                  rg_last_changed_at := now\<rparr>))"

fun apply_transition :: "pack_control_action \<Rightarrow> timestamp \<Rightarrow> pack_registration \<Rightarrow> 'w registry_world_scheme \<Rightarrow> pack_registration result" where
  "apply_transition PACK_PAUSE now r w = pause_registration now r"
| "apply_transition PACK_RESUME now r w = resume_registration now r w"
| "apply_transition PACK_DEPRECATE now r w = deprecate_registration now r"
| "apply_transition PACK_RETIRE now r w = retire_registration now r"

definition pack_control_event_of ::
  "'e registry_env_scheme \<Rightarrow> pack_control_request \<Rightarrow> authorization_decision \<Rightarrow> pack_registration \<Rightarrow> pack_registration \<Rightarrow> pack_control_event" where
  "pack_control_event_of e q auth r r' =
     \<lparr>pe_event_id = ''workflow_pack_evt_'' @ pr_event_hex e, pe_pack_id = rg_pack_id r, pe_version = rg_version r,
      pe_action_type = pq_action_type q, pe_requested_by = pq_requested_by q, pe_approved_by = pq_approved_by q,
      pe_reason = pq_reason q, pe_prior_registration_status = rg_registration_status r,
      pe_resulting_registration_status = rg_registration_status r', pe_prior_activation_state = rg_activation_state r,
      pe_resulting_activation_state = rg_activation_state r', pe_caller_app = pq_caller_app q, pe_authorization = auth,
      pe_recorded_at = pr_recorded_at e\<rparr>"

definition apply_workflow_pack_control_action ::
  "'e registry_env_scheme \<Rightarrow> pack_control_request \<Rightarrow> 'w registry_world_scheme
     \<Rightarrow> (pack_control_event \<times> pack_registration) result \<times> 'w registry_world_scheme" where
  "apply_workflow_pack_control_action e q w =
     (case require_authorized (authorize_request (pr_policies e) (pr_caller e) (pq_caller_app q) ASYNC_CONTROL None None None) of
        Inl err \<Rightarrow> (Inl err, w)
      | Inr auth \<Rightarrow>
        (case get_workflow_pack_registration e (pq_pack_id q) (pq_version q) w of
           Inl err \<Rightarrow> (Inl err, w)
         | Inr None \<Rightarrow> (Inl (HTTPException 404 ''registration_not_found''), w)
         | Inr (Some r) \<Rightarrow>
           (case apply_transition (pq_action_type q) (pr_changed_at e) r w of
              Inl err \<Rightarrow> (Inl err, w)
            | Inr r' \<Rightarrow>
              let event = pack_control_event_of e q auth r r' in
              (case save_workflow_pack_registration e r' w of
                 (Inl err, w') \<Rightarrow> (Inl err, w')
               | (Inr _, w') \<Rightarrow> (Inr (event, r'), save_pack_control_event event w')))))"

section \<open>Eligibility\<close>

datatype eligibility_result =
  ELIGIBLE | DENIED_NOT_REGISTERED | DENIED_NOT_ACTIVE | DENIED_CALLER_SCOPE | DENIED_ENVIRONMENT_SCOPE
  | DENIED_TENANT_SCOPE | DENIED_SURFACE_SCOPE | DENIED_PAUSED | DENIED_RETIRED | DENIED_VALIDATION_STATUS

record eligibility_request =
  eq_pack_id :: string
  eq_version :: string
  eq_caller_app :: string
  eq_environment :: pack_environment
  eq_caller_identity_class :: caller_identity_class
  eq_tenant_id :: "string option"
  eq_workflow_surface :: "string option"

definition in_scope :: "string option \<Rightarrow> string list \<Rightarrow> bool" where
  "in_scope x scope \<longleftrightarrow> scope = [] \<or> (\<exists>v\<in>set scope. x = Some v)"

definition registration_eligibility :: "pack_registration \<Rightarrow> eligibility_request \<Rightarrow> eligibility_result" where
  "registration_eligibility r q =
     (if rg_registration_status r \<noteq> PACK_REGISTERED then DENIED_VALIDATION_STATUS
      else if rg_activation_state r = ACTIVATION_RETIRED then DENIED_RETIRED
      else if rg_pause_state r \<noteq> not_paused \<or> rg_activation_state r = PACK_PAUSED then DENIED_PAUSED
      else if rg_activation_state r = DARK then DENIED_NOT_ACTIVE
      else if eq_caller_app q \<notin> set (rg_supported_callers r) then DENIED_CALLER_SCOPE
      else if eq_environment q \<notin> set (rg_supported_environments r) then DENIED_ENVIRONMENT_SCOPE
      else if eq_caller_identity_class q \<notin> set (rg_supported_identity_classes r) then DENIED_CALLER_SCOPE
      else if \<not> in_scope (eq_tenant_id q) (rg_tenant_scope r) then DENIED_TENANT_SCOPE
      else if \<not> in_scope (eq_workflow_surface q) (rg_surface_scope r) then DENIED_SURFACE_SCOPE
      else ELIGIBLE)"

definition evaluate_workflow_pack_eligibility ::
  "'e registry_env_scheme \<Rightarrow> eligibility_request \<Rightarrow> 'w registry_world_scheme \<Rightarrow> eligibility_result result" where
  "evaluate_workflow_pack_eligibility e q w =
     (case get_workflow_pack_registration e (eq_pack_id q) (eq_version q) w of
        Inl err \<Rightarrow> Inl err
      | Inr None \<Rightarrow> Inr DENIED_NOT_REGISTERED
      | Inr (Some r) \<Rightarrow> Inr (registration_eligibility r q))"

section \<open>Facts\<close>

lemma get_registration_writes [simp, store_simps]:
  "get_registration (save_registration r w) k = (if k = identity_of r then Some r else get_registration w k)"
  "get_registration (save_pack_control_event ev w) k = get_registration w k"
  by (auto simp: get_registration_def save_registration_def save_pack_control_event_def)

interpretation pack_registrations: keyed_repository identity_of get_registration save_registration
  by unfold_locales simp

lemma seed_identities_distinct: "distinct (map identity_of build_seed_workflow_pack_registrations)"
  by code_simp

lemma seed_stored: "gw_registrations seeded_registry = map (\<lambda>r. (identity_of r, r)) build_seed_workflow_pack_registrations"
proof -
  have "fold (\<lambda>r d. dict_put (identity_of r) r d) rs acc = acc @ map (\<lambda>r. (identity_of r, r)) rs"
    if "distinct (map identity_of rs)" and "set (map identity_of rs) \<inter> set (map fst acc) = {}"
    for rs and acc :: "(string \<times> string, pack_registration) dict"
    using that
    by (induction rs arbitrary: acc) (auto simp: dict_put_fresh)
  from this [OF seed_identities_distinct, of "[]"] show ?thesis by (simp add: seeded_registry_def)
qed

section \<open>What the registry guarantees\<close>

lemma identity_unique_iff:
  "validate_unique_registration_identity rs seen = Inr () \<longleftrightarrow> distinct (map identity_of rs) \<and> set (map identity_of rs) \<inter> set seen = {}"
  by (induction rs arbitrary: seen) auto

lemma registrations_valid_iff:
  "validate_workflow_pack_registrations c rs = Inr () \<longleftrightarrow>
     distinct (map identity_of rs)
     \<and> (\<forall>r\<in>set rs. registered_has_scope r \<and> retired_not_active r \<and> definition_references_valid r \<and> c (rg_pack_id r))"
proof (cases "validate_unique_registration_identity rs []")
  case (Inl e)
  then have "\<not> distinct (map identity_of rs)" using identity_unique_iff [of rs "[]"] by auto
  with Inl show ?thesis by (simp add: validate_workflow_pack_registrations_def)
next
  case (Inr u)
  then have "distinct (map identity_of rs)" using identity_unique_iff [of rs "[]"] by simp
  with Inr show ?thesis by (auto simp: validate_workflow_pack_registrations_def list_all_iff)
qed

lemma seed_rows_valid:
  "r \<in> set build_seed_workflow_pack_registrations \<Longrightarrow> registered_has_scope r \<and> retired_not_active r \<and> definition_references_valid r"
proof -
  have "list_all (\<lambda>r. registered_has_scope r \<and> retired_not_active r \<and> definition_references_valid r) build_seed_workflow_pack_registrations"
    by code_simp
  then show "r \<in> set build_seed_workflow_pack_registrations \<Longrightarrow> ?thesis" by (simp add: list_all_iff)
qed

lemma stored_registrations_set: "set (stored_registrations w) = snd ` set (gw_registrations w)"
  by (simp add: stored_registrations_def)

definition registry_keyed :: "'w registry_world_scheme \<Rightarrow> bool" where
  "registry_keyed w \<longleftrightarrow> dict_wf (gw_registrations w) \<and> (\<forall>(k, r)\<in>set (gw_registrations w). k = identity_of r)"

lemma stored_identities:
  assumes "registry_keyed w"
  shows "distinct (map identity_of (stored_registrations w))"
proof -
  have "map identity_of (stored_registrations w) = map fst (sort_key (\<lambda>((p, v), r). [p, v]) (gw_registrations w))"
    using assms by (auto simp: stored_registrations_def registry_keyed_def)
  moreover have "distinct (map fst (sort_key (\<lambda>((p, v), r). [p, v]) (gw_registrations w)))"
    using assms by (simp add: registry_keyed_def distinct_map)
  ultimately show ?thesis by simp
qed

lemma stored_iff:
  assumes "registry_keyed w"
  shows "r \<in> set (stored_registrations w) \<longleftrightarrow> get_registration w (identity_of r) = Some r"
  using assms by (force simp: stored_registrations_set registry_keyed_def get_registration_def)

lemma seed_keyed: "registry_keyed seeded_registry"
  using seed_identities_distinct by (auto simp: registry_keyed_def seed_stored comp_def)

lemma bindings_valid_iff:
  assumes "pr_ready e"
  shows "validate_bindings e w bs = Inr () \<longleftrightarrow>
     (\<forall>b\<in>set bs. get_workflow_pack_execution_binding (bd_pack_id b) (bd_version b) \<noteq> None
        \<and> (\<exists>r. get_registration w (bd_pack_id b, bd_version b) = Some r \<and> supports_registration_scope b (rg_surface_scope r)))"
  using assms
  by (induction bs)
    (auto simp: get_resolved_workflow_pack_execution_binding_def get_workflow_pack_registration_def split: option.splits)

lemma seed_bindings_in_scope:
  "list_all (\<lambda>b. case dict_get (map (\<lambda>r. (identity_of r, r)) build_seed_workflow_pack_registrations) (bd_pack_id b, bd_version b) of
     None \<Rightarrow> False | Some r \<Rightarrow> supports_registration_scope b (rg_surface_scope r)) workflow_pack_execution_bindings"
  by code_simp

section \<open>Eligibility\<close>

definition executable :: "pack_registration \<Rightarrow> bool" where
  "executable r \<longleftrightarrow> rg_registration_status r = PACK_REGISTERED \<and> rg_pause_state r = not_paused
     \<and> rg_activation_state r \<in> {PILOT, LIMITED_ACTIVE, PACK_ACTIVE, PACK_DEPRECATED}"

definition request_in_scope :: "pack_registration \<Rightarrow> eligibility_request \<Rightarrow> bool" where
  "request_in_scope r q \<longleftrightarrow> eq_caller_app q \<in> set (rg_supported_callers r) \<and> eq_environment q \<in> set (rg_supported_environments r)
     \<and> eq_caller_identity_class q \<in> set (rg_supported_identity_classes r)
     \<and> in_scope (eq_tenant_id q) (rg_tenant_scope r) \<and> in_scope (eq_workflow_surface q) (rg_surface_scope r)"

lemma registration_eligible_iff: "registration_eligibility r q = ELIGIBLE \<longleftrightarrow> executable r \<and> request_in_scope r q"
  by (cases "rg_activation_state r") (auto simp: registration_eligibility_def executable_def request_in_scope_def)

lemma eligible_iff:
  "evaluate_workflow_pack_eligibility e q w = Inr ELIGIBLE \<longleftrightarrow>
     pr_ready e \<and> (\<exists>r. get_registration w (eq_pack_id q, eq_version q) = Some r \<and> executable r \<and> request_in_scope r q)"
  by (auto simp: evaluate_workflow_pack_eligibility_def get_workflow_pack_registration_def registration_eligible_iff split: option.splits)

section \<open>Control\<close>

lemma sorted_desc_head:
  assumes "x \<in> set xs" and "\<And>y. y \<in> set xs \<Longrightarrow> y \<noteq> x \<Longrightarrow> f y < f x"
  shows "\<exists>ys. sorted_desc f xs = x # ys"
proof -
  let ?ys = "sort_key f (rev xs)"
  have ne: "rev xs \<noteq> []" using assms(1) by auto
  then have ne': "?ys \<noteq> []" by (metis set_empty set_sort)
  have "f x \<le> f (last ?ys)" by (rule last_sort_key_max [OF ne]) (simp add: assms(1))
  moreover have "last ?ys \<in> set xs" using last_in_set [OF ne'] by simp
  ultimately have "last ?ys = x" using assms(2) by (metis linorder_not_less)
  then show ?thesis using ne' by (metis append_butlast_last_id rev.simps(2) rev_rev_ident sorted_desc_def rev_append append_Cons append_Nil)
qed

lemma replaced_registrations_valid:
  assumes "validate_workflow_pack_registrations c rs = Inr ()" and "r \<in> set rs" and "identity_of r' = identity_of r"
    and "registered_has_scope r'" and "retired_not_active r'" and "definition_references_valid r'"
  shows "validate_workflow_pack_registrations c (replaced_registrations r' rs) = Inr ()"
proof -
  let ?f = "\<lambda>x. if identity_of x = identity_of r' then r' else x"
  have eq: "replaced_registrations r' rs = map ?f rs" using assms(2,3) by (force simp: replaced_registrations_def)
  have "map identity_of (map ?f rs) = map identity_of rs" by simp
  then have "distinct (map identity_of (map ?f rs))" using assms(1) unfolding registrations_valid_iff by (metis)
  moreover have "c (rg_pack_id r')" using assms(1-3) unfolding registrations_valid_iff by auto
  ultimately show ?thesis using assms unfolding eq registrations_valid_iff by auto
qed

text \<open>What the store has to satisfy for the registry to answer at all, stated on the records.\<close>

definition row_sound :: "(string \<Rightarrow> bool) \<Rightarrow> pack_registration \<Rightarrow> bool" where
  "row_sound c r \<longleftrightarrow> registered_has_scope r \<and> retired_not_active r \<and> definition_references_valid r \<and> c (rg_pack_id r)"

definition bound_in_scope :: "'w registry_world_scheme \<Rightarrow> execution_binding \<Rightarrow> bool" where
  "bound_in_scope w b \<longleftrightarrow> (\<exists>r. get_registration w (bd_pack_id b, bd_version b) = Some r \<and> supports_registration_scope b (rg_surface_scope r))"

definition registry_sound :: "(string \<Rightarrow> bool) \<Rightarrow> 'w registry_world_scheme \<Rightarrow> bool" where
  "registry_sound c w \<longleftrightarrow> registry_keyed w \<and> (\<forall>r\<in>set (stored_registrations w). row_sound c r)
     \<and> (\<forall>b\<in>set workflow_pack_execution_bindings. bound_in_scope w b)"

lemma bindings_resolve: "b \<in> set workflow_pack_execution_bindings \<Longrightarrow> get_workflow_pack_execution_binding (bd_pack_id b) (bd_version b) \<noteq> None"
  unfolding get_workflow_pack_execution_binding_def find_None_iff by blast

lemma registry_sound_lists:
  assumes "registry_sound (pr_contract_exists e) w" and "pr_ready e"
  shows "validate_workflow_pack_registrations (pr_contract_exists e) (stored_registrations w) = Inr ()"
    and "list_workflow_pack_registrations e w = Inr (stored_registrations w)"
proof -
  have key: "registry_keyed w" and rows: "\<forall>r\<in>set (stored_registrations w). row_sound (pr_contract_exists e) r"
    and bound: "\<forall>b\<in>set workflow_pack_execution_bindings. bound_in_scope w b"
    using assms(1) unfolding registry_sound_def by blast+
  show valid: "validate_workflow_pack_registrations (pr_contract_exists e) (stored_registrations w) = Inr ()"
    using stored_identities [OF key] rows unfolding registrations_valid_iff row_sound_def by blast
  have "validate_workflow_pack_execution_bindings e w = Inr ()"
    unfolding validate_workflow_pack_execution_bindings_def bindings_valid_iff [OF assms(2)]
    using bindings_resolve bound unfolding bound_in_scope_def by blast
  then show "list_workflow_pack_registrations e w = Inr (stored_registrations w)"
    unfolding list_workflow_pack_registrations_def validated_registrations_def Let_def valid
    using assms(2) by (simp add: policies_match_bindings)
qed

lemma registry_keyed_save: "registry_keyed w \<Longrightarrow> registry_keyed (save_registration r w)"
  using set_dict_put_subset [of "identity_of r" r "gw_registrations w"]
  by (auto simp: registry_keyed_def save_registration_def)

lemma stored_registrations_save:
  assumes "registry_keyed w"
  shows "set (stored_registrations (save_registration r w)) \<subseteq> insert r (set (stored_registrations w))"
  using set_dict_put_subset [of "identity_of r" r "gw_registrations w"]
  by (force simp: stored_registrations_set save_registration_def)

lemma keyed_get: "registry_keyed w \<Longrightarrow> get_registration w k = Some r \<Longrightarrow> k = identity_of r \<and> r \<in> set (stored_registrations w)"
  by (force simp: registry_keyed_def get_registration_def stored_registrations_set dest: map_of_SomeD)

lemma transition_fields:
  assumes "apply_transition a now r w = Inr r'" and "retired_not_active r"
  shows "identity_of r' = identity_of r" "rg_surface_scope r' = rg_surface_scope r" "rg_registration_status r \<noteq> PACK_RETIRED"
    "row_sound c r \<Longrightarrow> row_sound c r'"
  using assms
  by (cases a; auto simp: pause_registration_def resume_registration_def deprecate_registration_def retire_registration_def
      row_sound_def registered_has_scope_def retired_not_active_def definition_references_valid_def split: if_splits sum.splits)+

lemma registry_sound_save:
  assumes "registry_sound c w" and "get_registration w k = Some r" and "apply_transition a now r w = Inr r'"
  shows "registry_sound c (save_registration r' w)"
proof -
  have key: "registry_keyed w" using assms(1) unfolding registry_sound_def by blast
  note got = keyed_get [OF key assms(2)]
  have sound: "row_sound c r" using assms(1) got unfolding registry_sound_def by blast
  have act: "retired_not_active r" using sound by (simp add: row_sound_def)
  note f = transition_fields [OF assms(3) act]
  have "bound_in_scope (save_registration r' w) b" if "bound_in_scope w b" for b
    using that assms(2) got f unfolding bound_in_scope_def by (auto split: if_splits)
  then show ?thesis
    using assms(1) stored_registrations_save [OF key, of r'] registry_keyed_save [OF key, of r'] f sound
    unfolding registry_sound_def by blast
qed

abbreviation may_control :: "'e registry_env_scheme \<Rightarrow> pack_control_request \<Rightarrow> authorization_decision \<Rightarrow> bool" where
  "may_control e q auth \<equiv>
     require_authorized (authorize_request (pr_policies e) (pr_caller e) (pq_caller_app q) ASYNC_CONTROL None None None) = Inr auth"

lemma control_action_exact:
  assumes "registry_sound (pr_contract_exists e) w" and "pr_ready e" and "may_control e q auth"
    and "get_registration w (pq_pack_id q, pq_version q) = Some r"
  shows "apply_workflow_pack_control_action e q w =
     (case apply_transition (pq_action_type q) (pr_changed_at e) r w of
        Inl err \<Rightarrow> (Inl err, w)
      | Inr r' \<Rightarrow> (Inr (pack_control_event_of e q auth r r', r'),
                  save_pack_control_event (pack_control_event_of e q auth r r') (save_registration r' w)))"
proof (cases "apply_transition (pq_action_type q) (pr_changed_at e) r w")
  case (Inl err)
  then show ?thesis using assms(2-) by (simp add: apply_workflow_pack_control_action_def get_workflow_pack_registration_def)
next
  case (Inr r')
  have key: "registry_keyed w" using assms(1) unfolding registry_sound_def by blast
  note got = keyed_get [OF key assms(4)]
  have sound: "row_sound (pr_contract_exists e) r" using assms(1) got unfolding registry_sound_def by blast
  then have act: "retired_not_active r" by (simp add: row_sound_def)
  note f = transition_fields [OF Inr act]
  have "row_sound (pr_contract_exists e) r'" by (rule f(4) [OF sound])
  then have "validate_workflow_pack_registrations (pr_contract_exists e) (replaced_registrations r' (stored_registrations w)) = Inr ()"
    using replaced_registrations_valid [OF registry_sound_lists(1) [OF assms(1,2)] conjunct2 [OF got] f(1)] by (simp add: row_sound_def)
  then have "save_workflow_pack_registration e r' w = (Inr (), save_registration r' w)"
    by (simp add: save_workflow_pack_registration_def registry_sound_lists(2) [OF assms(1,2)])
  then show ?thesis
    using assms(2-) Inr by (simp add: apply_workflow_pack_control_action_def get_workflow_pack_registration_def Let_def)
qed

lemma sound_event [simp]: "registry_sound c (save_pack_control_event ev w) = registry_sound c w"
  by (simp add: registry_sound_def registry_keyed_def bound_in_scope_def stored_registrations_def save_pack_control_event_def
      get_registration_def)

text \<open>The steps of operators: any authorized or unauthorized action, under any reading of the clock.\<close>

inductive pack_control_step :: "(string \<Rightarrow> bool) \<Rightarrow> registry_world \<Rightarrow> registry_world \<Rightarrow> bool" for c where
  "pr_contract_exists e = c \<Longrightarrow> pack_control_step c w (snd (apply_workflow_pack_control_action (e :: registry_env) q w))"

lemma control_refused: "fst (apply_workflow_pack_control_action e q w) = Inl err \<Longrightarrow> snd (apply_workflow_pack_control_action e q w) = w"
  by (auto simp: apply_workflow_pack_control_action_def save_workflow_pack_registration_def Let_def split: sum.splits option.splits prod.splits)

lemma control_cases:
  assumes "registry_sound (pr_contract_exists e) w"
  obtains "snd (apply_workflow_pack_control_action e q w) = w"
    | r r' ev where "get_registration w (pq_pack_id q, pq_version q) = Some r"
        and "apply_transition (pq_action_type q) (pr_changed_at e) r w = Inr r'"
        and "snd (apply_workflow_pack_control_action e q w) = save_pack_control_event ev (save_registration r' w)"
proof (cases "\<exists>auth r r'. pr_ready e \<and> may_control e q auth \<and> get_registration w (pq_pack_id q, pq_version q) = Some r
      \<and> apply_transition (pq_action_type q) (pr_changed_at e) r w = Inr r'")
  case True
  then show ?thesis using control_action_exact [OF assms] that(2) by fastforce
next
  case False
  then have "snd (apply_workflow_pack_control_action e q w) = w"
    by (auto simp: apply_workflow_pack_control_action_def get_workflow_pack_registration_def split: sum.splits option.splits if_splits)
  then show ?thesis by (rule that(1))
qed

lemma control_keeps_sound:
  assumes "registry_sound (pr_contract_exists e) w"
  shows "registry_sound (pr_contract_exists e) (snd (apply_workflow_pack_control_action e q w))"
  by (rule control_cases [OF assms, of q]) (auto simp: assms intro: registry_sound_save [OF assms])

lemma seed_sound:
  assumes "\<forall>r\<in>set build_seed_workflow_pack_registrations. c (rg_pack_id r)"
  shows "registry_sound c seeded_registry"
proof -
  have "set (stored_registrations seeded_registry) = set build_seed_workflow_pack_registrations"
    by (simp add: stored_registrations_set seed_stored image_image)
  moreover have "\<forall>b\<in>set workflow_pack_execution_bindings. bound_in_scope seeded_registry b"
    using seed_bindings_in_scope by (auto simp: bound_in_scope_def list_all_iff get_registration_def seed_stored split: option.splits)
  ultimately show ?thesis using assms seed_rows_valid seed_keyed by (auto simp: registry_sound_def row_sound_def)
qed

text \<open>
  C26. The registry answers after any sequence of operator actions: starting from the seed, whose output contracts exist,
  every listing passes the registry's own validation, and so does every binding and queue policy it checks.
\<close>

theorem registry_stays_valid:
  assumes "(pack_control_step c)\<^sup>*\<^sup>* seeded_registry w" and "\<forall>r\<in>set build_seed_workflow_pack_registrations. c (rg_pack_id r)"
    and "pr_ready e" and "pr_contract_exists e = c"
  shows "\<exists>rs. list_workflow_pack_registrations e w = Inr rs"
proof -
  have "registry_sound c w" using assms(1)
    by (induction rule: rtranclp_induct)
      (auto simp: seed_sound [OF assms(2)] elim!: pack_control_step.cases intro: control_keeps_sound)
  then show ?thesis using registry_sound_lists(2) [of e w] assms(3,4) by blast
qed

text \<open>
  Eligibility is exactly the declared posture and scope: a version may run when the registry is ready, the version is
  registered, not paused, in an executing activation state, and caller, environment, identity class, tenant and surface
  are all within its declared scope.
\<close>

theorem eligibility_is_declared_scope:
  "evaluate_workflow_pack_eligibility e q w = Inr ELIGIBLE \<longleftrightarrow>
     pr_ready e \<and> (\<exists>r. get_registration w (eq_pack_id q, eq_version q) = Some r \<and> executable r \<and> request_in_scope r q)"
  by (rule eligible_iff)

lemma retired_untouched:
  assumes "registry_sound (pr_contract_exists e) w" and "get_registration w k = Some r" and "rg_registration_status r = PACK_RETIRED"
  shows "get_registration (snd (apply_workflow_pack_control_action e q w)) k = Some r"
proof (rule control_cases [OF assms(1), of q])
  fix r1 r' ev
  assume hit: "get_registration w (pq_pack_id q, pq_version q) = Some r1"
    and step: "apply_transition (pq_action_type q) (pr_changed_at e) r1 w = Inr r'"
    and res: "snd (apply_workflow_pack_control_action e q w) = save_pack_control_event ev (save_registration r' w)"
  have key: "registry_keyed w" using assms(1) unfolding registry_sound_def by blast
  note got = keyed_get [OF key hit]
  have "row_sound (pr_contract_exists e) r1" using assms(1) got unfolding registry_sound_def by blast
  then have "retired_not_active r1" by (simp add: row_sound_def)
  note f = transition_fields [OF step this]
  have "k \<noteq> identity_of r'" using f(1,3) assms(2,3) hit got by auto
  then show ?thesis using assms(2) by (simp add: res)
qed (simp add: assms(2))

text \<open>
  C25. Retirement is final: once a version is retired, no sequence of operator actions changes its record, and no request
  for it is ever eligible again.
\<close>

theorem retired_pack_never_runs:
  assumes "(pack_control_step c)\<^sup>*\<^sup>* seeded_registry w" and "\<forall>r\<in>set build_seed_workflow_pack_registrations. c (rg_pack_id r)"
    and "get_registration w (eq_pack_id q, eq_version q) = Some r" and "rg_registration_status r = PACK_RETIRED"
    and "(pack_control_step c)\<^sup>*\<^sup>* w w'"
  shows "get_registration w' (eq_pack_id q, eq_version q) = Some r
     \<and> evaluate_workflow_pack_eligibility e q w' \<noteq> Inr ELIGIBLE"
proof -
  have sound: "registry_sound c w" using assms(1)
    by (induction rule: rtranclp_induct)
      (auto simp: seed_sound [OF assms(2)] elim!: pack_control_step.cases intro: control_keeps_sound)
  have "registry_sound c w' \<and> get_registration w' (eq_pack_id q, eq_version q) = Some r" using assms(5)
  proof (induction rule: rtranclp_induct)
    case (step y z)
    then show ?case by (auto elim!: pack_control_step.cases intro: control_keeps_sound retired_untouched [OF _ _ assms(4)])
  qed (simp add: sound assms(3))
  then show ?thesis using assms(4) by (auto simp: eligible_iff executable_def)
qed

lemma paused_event_listed:
  assumes "\<And>ev'. ev' \<in> set (dict_values (gw_control_events w)) \<Longrightarrow> pe_pack_id ev' = pe_pack_id ev \<Longrightarrow> pe_version ev' = pe_version ev
      \<Longrightarrow> pe_recorded_at ev' < pe_recorded_at ev"
  shows "\<exists>evs. list_pack_control_events (Some (pe_pack_id ev)) (Some (pe_version ev)) 50 (save_pack_control_event ev w) = ev # evs"
proof -
  let ?d = "dict_put (pe_event_id ev) ev (gw_control_events w)"
  let ?l = "filter (\<lambda>e. pe_pack_id e = pe_pack_id ev \<and> pe_version e = pe_version ev) (dict_values ?d)"
  have "dict_get ?d (pe_event_id ev) = Some ev" by simp
  then have "(pe_event_id ev, ev) \<in> set ?d" by (rule map_of_SomeD)
  then have "ev \<in> set (dict_values ?d)" by force
  then have mem: "ev \<in> set ?l" by simp
  have older: "pe_recorded_at y < pe_recorded_at ev" if "y \<in> set ?l" "y \<noteq> ev" for y
  proof (rule assms)
    have "y \<in> set (dict_values ?d)" using that(1) by (simp only: set_filter mem_Collect_eq)
    then show "y \<in> set (dict_values (gw_control_events w))" using that(2) set_dict_values_put_subset [of "pe_event_id ev" ev "gw_control_events w"] by (blast dest: subsetD)
  qed (use that(1) in simp_all)
  from sorted_desc_head [of ev ?l pe_recorded_at, OF mem older] obtain ys where "sorted_desc pe_recorded_at ?l = ev # ys" by blast
  then show ?thesis by (simp add: list_pack_control_events_def save_pack_control_event_def py_slice_to_def)
qed

text \<open>
  Pausing stops a version and resuming brings back what was paused: while paused no request for the version is eligible,
  and the resume restores the record the pause found, up to the time of the last change.
\<close>

theorem pause_resume_roundtrip:
  assumes "registry_sound c w" and "get_registration w (pack, version) = Some r"
    and "rg_activation_state r \<notin> {PACK_PAUSED, ACTIVATION_RETIRED, DARK}" and "rg_pause_state r = not_paused"
    and "pr_ready e1" and "pr_contract_exists e1 = c" and "may_control e1 q1 auth1"
    and "pq_pack_id q1 = pack" and "pq_version q1 = version" and "pq_action_type q1 = PACK_PAUSE"
    and "pr_ready e2" and "pr_contract_exists e2 = c" and "may_control e2 q2 auth2"
    and "pq_pack_id q2 = pack" and "pq_version q2 = version" and "pq_action_type q2 = PACK_RESUME"
    and "\<And>ev. ev \<in> set (dict_values (gw_control_events w)) \<Longrightarrow> pe_recorded_at ev < pr_recorded_at e1"
  shows "\<exists>ev1 r1 w1 ev2 r2 w2. apply_workflow_pack_control_action e1 q1 w = (Inr (ev1, r1), w1)
     \<and> (\<forall>e q. eq_pack_id q = pack \<longrightarrow> eq_version q = version \<longrightarrow> evaluate_workflow_pack_eligibility e q w1 \<noteq> Inr ELIGIBLE)
     \<and> apply_workflow_pack_control_action e2 q2 w1 = (Inr (ev2, r2), w2)
     \<and> get_registration w2 (pack, version) = Some (r\<lparr>rg_last_changed_at := pr_changed_at e2\<rparr>)"
proof -
  have key: "registry_keyed w" using assms(1) unfolding registry_sound_def by blast
  have id: "identity_of r = (pack, version)" using keyed_get [OF key assms(2)] by simp
  define r1 where "r1 = r\<lparr>rg_activation_state := PACK_PAUSED, rg_pause_state := ''PAUSED_FROM_'' @ activation_value (rg_activation_state r),
     rg_last_changed_at := pr_changed_at e1\<rparr>"
  define ev1 where "ev1 = pack_control_event_of e1 q1 auth1 r r1"
  define w1 where "w1 = save_pack_control_event ev1 (save_registration r1 w)"
  have t1: "apply_transition PACK_PAUSE (pr_changed_at e1) r w = Inr r1"
    using assms(3) by (simp add: pause_registration_def r1_def)
  have a1: "apply_workflow_pack_control_action e1 q1 w = (Inr (ev1, r1), w1)"
    using control_action_exact [of e1 w q1 auth1 r] assms t1 by (simp add: ev1_def w1_def)
  have sound1: "registry_sound c w1" using registry_sound_save [OF assms(1,2) t1] by (simp add: w1_def)
  have got1: "get_registration w1 (pack, version) = Some r1" using id by (simp add: w1_def r1_def)
  have ev1: "pe_pack_id ev1 = pack" "pe_version ev1 = version" "pe_action_type ev1 = PACK_PAUSE"
    "pe_prior_activation_state ev1 = rg_activation_state r" "pe_recorded_at ev1 = pr_recorded_at e1"
    using id assms(10) by (simp_all add: ev1_def pack_control_event_of_def)
  obtain evs where evs: "list_pack_control_events (Some pack) (Some version) 50 w1 = ev1 # evs"
    using paused_event_listed [of "save_registration r1 w" ev1] assms(17) ev1
    by (auto simp: w1_def save_registration_def)
  define r2 where "r2 = r1\<lparr>rg_activation_state := rg_activation_state r, rg_pause_state := not_paused, rg_last_changed_at := pr_changed_at e2\<rparr>"
  have t2: "apply_transition PACK_RESUME (pr_changed_at e2) r1 w1 = Inr r2"
    using id evs ev1 by (simp add: resume_registration_def resolve_resume_state_def r1_def r2_def)
  have a2: "apply_workflow_pack_control_action e2 q2 w1 =
      (Inr (pack_control_event_of e2 q2 auth2 r1 r2, r2), save_pack_control_event (pack_control_event_of e2 q2 auth2 r1 r2) (save_registration r2 w1))"
    using control_action_exact [of e2 w1 q2 auth2 r1] assms sound1 got1 t2 by simp
  have "r2 = r\<lparr>rg_last_changed_at := pr_changed_at e2\<rparr>" using assms(4) by (simp add: r2_def r1_def)
  then have "get_registration (save_pack_control_event ev (save_registration r2 w1)) (pack, version)
      = Some (r\<lparr>rg_last_changed_at := pr_changed_at e2\<rparr>)" for ev
    using id by simp
  moreover have "\<not> executable r1" by (simp add: executable_def r1_def)
  then have "evaluate_workflow_pack_eligibility e q w1 \<noteq> Inr ELIGIBLE" if "eq_pack_id q = pack" "eq_version q = version" for e q
    using that got1 by (simp add: eligible_iff)
  ultimately show ?thesis using a1 a2 by blast
qed

text \<open>
  C27. Deprecation opens a version that was paused: a registered version whose activation is paused is refused every request,
  and after an authorized deprecation it is eligible for every request in its declared scope, without a resume. RFC-0032 calls
  a paused version blocked and says that rollout is widened only by explicit activation changes.
\<close>

theorem deprecation_opens_paused_pack:
  assumes "registry_sound (pr_contract_exists e) w" and "pr_ready e" and "may_control e q auth"
    and "get_registration w (pq_pack_id q, pq_version q) = Some r" and "rg_registration_status r = PACK_REGISTERED"
    and "rg_activation_state r = PACK_PAUSED" and "pq_action_type q = PACK_DEPRECATE"
    and "eq_pack_id x = pq_pack_id q" and "eq_version x = pq_version q" and "request_in_scope r x"
  shows "evaluate_workflow_pack_eligibility e x w \<noteq> Inr ELIGIBLE
     \<and> evaluate_workflow_pack_eligibility e x (snd (apply_workflow_pack_control_action e q w)) = Inr ELIGIBLE"
proof -
  have key: "registry_keyed w" using assms(1) unfolding registry_sound_def by blast
  have id: "identity_of r = (pq_pack_id q, pq_version q)" using keyed_get [OF key assms(4)] by simp
  define r' where "r' = r\<lparr>rg_activation_state := PACK_DEPRECATED, rg_pause_state := not_paused, rg_last_changed_at := pr_changed_at e\<rparr>"
  have "apply_transition PACK_DEPRECATE (pr_changed_at e) r w = Inr r'"
    using assms(6) by (auto simp: deprecate_registration_def r'_def)
  then have "get_registration (snd (apply_workflow_pack_control_action e q w)) (pq_pack_id q, pq_version q) = Some r'"
    using control_action_exact [OF assms(1-4)] assms(7) id by (simp add: r'_def)
  moreover have "executable r'" using assms(5) by (simp add: executable_def r'_def)
  moreover have "request_in_scope r' x" using assms(10) by (simp add: request_in_scope_def r'_def)
  moreover have "\<not> executable r" using assms(6) by (auto simp: executable_def)
  ultimately show ?thesis using assms(2,4,8,9) by (simp add: eligible_iff)
qed

section \<open>A concrete registry\<close>

definition sample_registry_env :: registry_env where
  "sample_registry_env = \<lparr>pr_ready = True, pr_contract_exists = (\<lambda>_. True), pr_policies = init_policy_store, pr_caller = None,
     pr_changed_at = ''2026-06-01T00:00:00Z'', pr_recorded_at = ''2026-06-01T00:00:01Z'', pr_event_hex = ''1''\<rparr>"

definition sample_control_request :: "pack_control_action \<Rightarrow> pack_control_request" where
  "sample_control_request a = \<lparr>pq_pack_id = ''advisor_brief.pack'', pq_version = ''v1'', pq_action_type = a, pq_caller_app = ''lotus-platform'',
     pq_requested_by = ''op'', pq_approved_by = ''lead'', pq_reason = ''r''\<rparr>"

definition sample_eligibility_request :: eligibility_request where
  "sample_eligibility_request = \<lparr>eq_pack_id = ''advisor_brief.pack'', eq_version = ''v1'', eq_caller_app = ''lotus-gateway'',
     eq_environment = ENV_QA, eq_caller_identity_class = INTERNAL_SERVICE, eq_tenant_id = None,
     eq_workflow_surface = Some ''advisor-brief-panel''\<rparr>"

lemma sample_registry_authority: "\<exists>auth. may_control sample_registry_env (sample_control_request a) auth"
proof -
  have "case require_authorized (authorize_request init_policy_store None ''lotus-platform'' ASYNC_CONTROL None None None) of
      Inl _ \<Rightarrow> False | Inr _ \<Rightarrow> True" by code_simp
  then show ?thesis by (auto simp: sample_registry_env_def sample_control_request_def split: sum.splits)
qed

lemma sample_registry_sound: "registry_sound (pr_contract_exists sample_registry_env) seeded_registry"
  by (rule seed_sound) (simp add: sample_registry_env_def)

lemma sample_registration: "get_registration seeded_registry (''advisor_brief.pack'', ''v1'') = Some advisor_brief_v1_registration"
  by (simp add: get_registration_def seed_stored build_seed_workflow_pack_registrations_def advisor_brief_v1_registration_def
      advisor_brief_v1_spec_def)

definition paused_registry :: registry_world where
  "paused_registry = snd (apply_workflow_pack_control_action sample_registry_env (sample_control_request PACK_PAUSE) seeded_registry)"

definition retired_registry :: registry_world where
  "retired_registry = snd (apply_workflow_pack_control_action sample_registry_env (sample_control_request PACK_RETIRE) seeded_registry)"

lemma sample_step: "pack_control_step (\<lambda>_. True) w (snd (apply_workflow_pack_control_action sample_registry_env q w))"
  by (rule pack_control_step.intros) (simp add: sample_registry_env_def)

lemma sample_controlled:
  assumes "apply_transition a (pr_changed_at sample_registry_env) advisor_brief_v1_registration seeded_registry = Inr r'"
    and "identity_of r' = (''advisor_brief.pack'', ''v1'')"
  shows "get_registration (snd (apply_workflow_pack_control_action sample_registry_env (sample_control_request a) seeded_registry))
    (''advisor_brief.pack'', ''v1'') = Some r'"
proof -
  obtain auth where auth: "may_control sample_registry_env (sample_control_request a) auth" using sample_registry_authority by blast
  show ?thesis
    using control_action_exact [OF sample_registry_sound _ auth, of advisor_brief_v1_registration] sample_registration assms
    by (simp add: sample_control_request_def sample_registry_env_def)
qed

theorem registry_stays_valid_witness: "\<exists>rs. list_workflow_pack_registrations sample_registry_env paused_registry = Inr rs"
proof -
  have step: "(pack_control_step (\<lambda>_. True))\<^sup>*\<^sup>* seeded_registry paused_registry"
    unfolding paused_registry_def by (rule r_into_rtranclp) (rule sample_step)
  show ?thesis by (rule registry_stays_valid [OF step]) (simp_all add: sample_registry_env_def)
qed

theorem retired_pack_never_runs_witness:
  "evaluate_workflow_pack_eligibility sample_registry_env sample_eligibility_request retired_registry \<noteq> Inr ELIGIBLE"
proof -
  have step: "(pack_control_step (\<lambda>_. True))\<^sup>*\<^sup>* seeded_registry retired_registry"
    unfolding retired_registry_def by (rule r_into_rtranclp) (rule sample_step)
  define r where "r = advisor_brief_v1_registration\<lparr>rg_registration_status := PACK_RETIRED, rg_activation_state := ACTIVATION_RETIRED,
     rg_pause_state := not_paused, rg_last_changed_at := pr_changed_at sample_registry_env\<rparr>"
  have "get_registration retired_registry (''advisor_brief.pack'', ''v1'') = Some r"
    unfolding retired_registry_def
    by (rule sample_controlled) (simp_all add: r_def retire_registration_def advisor_brief_v1_registration_def advisor_brief_v1_spec_def)
  then have got: "get_registration retired_registry (eq_pack_id sample_eligibility_request, eq_version sample_eligibility_request) = Some r"
    by (simp add: sample_eligibility_request_def)
  have "rg_registration_status r = PACK_RETIRED" by (simp add: r_def)
  then show ?thesis using retired_pack_never_runs [OF step _ got _ rtranclp.rtrancl_refl] by blast
qed

theorem pause_resume_roundtrip_witness:
  "\<exists>ev1 r1 w1 ev2 r2 w2. apply_workflow_pack_control_action sample_registry_env (sample_control_request PACK_PAUSE) seeded_registry = (Inr (ev1, r1), w1)
     \<and> evaluate_workflow_pack_eligibility sample_registry_env sample_eligibility_request w1 \<noteq> Inr ELIGIBLE
     \<and> apply_workflow_pack_control_action sample_registry_env (sample_control_request PACK_RESUME) w1 = (Inr (ev2, r2), w2)
     \<and> get_registration w2 (''advisor_brief.pack'', ''v1'')
         = Some (advisor_brief_v1_registration\<lparr>rg_last_changed_at := pr_changed_at sample_registry_env\<rparr>)"
proof -
  obtain a1 a2 where auth: "may_control sample_registry_env (sample_control_request PACK_PAUSE) a1"
    "may_control sample_registry_env (sample_control_request PACK_RESUME) a2" using sample_registry_authority by blast
  have state: "rg_activation_state advisor_brief_v1_registration \<notin> {PACK_PAUSED, ACTIVATION_RETIRED, DARK}"
    "rg_pause_state advisor_brief_v1_registration = not_paused"
    by (simp_all add: advisor_brief_v1_registration_def not_paused_def)
  have ready: "pr_ready sample_registry_env" by (simp add: sample_registry_env_def)
  have q: "pq_pack_id (sample_control_request a) = ''advisor_brief.pack''" "pq_version (sample_control_request a) = ''v1''"
    "pq_action_type (sample_control_request a) = a" for a by (simp_all add: sample_control_request_def)
  have none: "ev \<in> set (dict_values (gw_control_events seeded_registry)) \<Longrightarrow> pe_recorded_at ev < pr_recorded_at sample_registry_env" for ev
    by (simp add: seeded_registry_def)
  have x: "eq_pack_id sample_eligibility_request = ''advisor_brief.pack''" "eq_version sample_eligibility_request = ''v1''"
    by (simp_all add: sample_eligibility_request_def)
  from pause_resume_roundtrip [OF sample_registry_sound sample_registration state ready refl auth(1) q(1,2,3) ready refl auth(2) q(1,2,3) none] x
  show ?thesis by blast
qed

theorem deprecation_opens_paused_pack_witness:
  "evaluate_workflow_pack_eligibility sample_registry_env sample_eligibility_request
     (snd (apply_workflow_pack_control_action sample_registry_env (sample_control_request PACK_DEPRECATE) paused_registry)) = Inr ELIGIBLE"
proof -
  define r where "r = advisor_brief_v1_registration\<lparr>rg_activation_state := PACK_PAUSED, rg_pause_state := ''PAUSED_FROM_PILOT'',
     rg_last_changed_at := pr_changed_at sample_registry_env\<rparr>"
  have got: "get_registration paused_registry (''advisor_brief.pack'', ''v1'') = Some r"
    unfolding paused_registry_def
    by (rule sample_controlled) (simp_all add: r_def pause_registration_def advisor_brief_v1_registration_def advisor_brief_v1_spec_def)
  have sound: "registry_sound (pr_contract_exists sample_registry_env) paused_registry"
    unfolding paused_registry_def by (rule control_keeps_sound [OF sample_registry_sound])
  obtain auth where auth: "may_control sample_registry_env (sample_control_request PACK_DEPRECATE) auth" using sample_registry_authority by blast
  have "rg_registration_status r = PACK_REGISTERED" "rg_activation_state r = PACK_PAUSED" "request_in_scope r sample_eligibility_request"
    by (simp_all add: r_def advisor_brief_v1_registration_def advisor_brief_v1_spec_def request_in_scope_def in_scope_def
        sample_eligibility_request_def)
  then show ?thesis
    using deprecation_opens_paused_pack [OF sound _ auth, of r sample_eligibility_request] got
    by (simp add: sample_control_request_def sample_registry_env_def sample_eligibility_request_def)
qed

end
