(* ===== verification/Task_Contracts.thy ===== *)
theory Task_Contracts
  imports Json_Text
begin

text \<open>
  The task request of \<^verbatim>\<open>contracts/tasks.py\<close> and its JSON form: what \<^verbatim>\<open>model_dump(mode="json")\<close> writes for the declared
  fields, and what \<^verbatim>\<open>model_validate\<close> accepts for them (a required text must be a text, an optional one may be absent or
  null, an enumeration must name a member). The optional capability requirements are carried as their JSON value.

  A dumped request validates to itself, and a request that went through the sorted text of a snapshot comes back with the
  members of its payload in key order.
\<close>

section \<open>Records\<close>

datatype output_label = EXPLANATION_ONLY | DRAFT_OUTPUT | CLASSIFICATION | RETRIEVAL_ANSWER

fun output_label_value :: "output_label \<Rightarrow> string" where
  "output_label_value EXPLANATION_ONLY = ''EXPLANATION_ONLY''"
| "output_label_value DRAFT_OUTPUT = ''DRAFT''"
| "output_label_value CLASSIFICATION = ''CLASSIFICATION''"
| "output_label_value RETRIEVAL_ANSWER = ''RETRIEVAL_ANSWER''"

datatype task_input_mode = STRUCTURED_CONTEXT

record caller_metadata =
  cd_caller_app :: string
  cd_correlation_id :: string
  cd_requested_by :: "string option"
  cd_tenant_id :: "string option"

record task_context =
  tx_summary :: string
  tx_payload :: "(string, json) dict"
  tx_source_refs :: "string list"

record task_request =
  tk_task_id :: string
  tk_input_mode :: task_input_mode
  tk_caller :: caller_metadata
  tk_context :: task_context
  tk_requirements :: "json option"
  tk_expected_output_label :: "output_label option"

section \<open>Dumping\<close>

definition json_opt :: "string option \<Rightarrow> json" where
  "json_opt x = (case x of None \<Rightarrow> JNull | Some s \<Rightarrow> JString s)"

definition dump_caller :: "caller_metadata \<Rightarrow> json" where
  "dump_caller c = JObject
     [(''caller_app'', JString (cd_caller_app c)), (''correlation_id'', JString (cd_correlation_id c)),
      (''requested_by'', json_opt (cd_requested_by c)), (''tenant_id'', json_opt (cd_tenant_id c))]"

definition dump_context :: "task_context \<Rightarrow> json" where
  "dump_context c = JObject
     [(''summary'', JString (tx_summary c)), (''payload'', JObject (tx_payload c)),
      (''source_refs'', JList (map JString (tx_source_refs c)))]"

definition dump_task_request :: "task_request \<Rightarrow> json" where
  "dump_task_request t = JObject
     [(''task_id'', JString (tk_task_id t)), (''input_mode'', JString ''STRUCTURED_CONTEXT''),
      (''caller'', dump_caller (tk_caller t)), (''context'', dump_context (tk_context t)),
      (''requirements'', case tk_requirements t of None \<Rightarrow> JNull | Some j \<Rightarrow> j),
      (''expected_output_label'', json_opt (map_option output_label_value (tk_expected_output_label t)))]"

section \<open>Validation\<close>

definition field_text :: "string \<Rightarrow> (string, json) dict \<Rightarrow> string result" where
  "field_text name d = (case dict_get d name of Some (JString s) \<Rightarrow> Inr s | _ \<Rightarrow> Inl (ValueError name))"

definition field_opt_text :: "string \<Rightarrow> (string, json) dict \<Rightarrow> string option result" where
  "field_opt_text name d =
     (case dict_get d name of None \<Rightarrow> Inr None | Some JNull \<Rightarrow> Inr None | Some (JString s) \<Rightarrow> Inr (Some s) | _ \<Rightarrow> Inl (ValueError name))"

definition field_object :: "string \<Rightarrow> (string, json) dict \<Rightarrow> (string, json) dict result" where
  "field_object name d = (case dict_get d name of Some (JObject ob) \<Rightarrow> Inr ob | _ \<Rightarrow> Inl (ValueError name))"

fun text_items :: "json list \<Rightarrow> string list option" where
  "text_items [] = Some []"
| "text_items (JString s # xs) = map_option (Cons s) (text_items xs)"
| "text_items (_ # xs) = None"

text \<open>A container with a default may be absent.\<close>

definition field_texts :: "string \<Rightarrow> (string, json) dict \<Rightarrow> string list result" where
  "field_texts name d =
     (case dict_get d name of
        None \<Rightarrow> Inr []
      | Some (JList xs) \<Rightarrow> (case text_items xs of None \<Rightarrow> Inl (ValueError name) | Some ts \<Rightarrow> Inr ts)
      | _ \<Rightarrow> Inl (ValueError name))"

definition field_payload :: "string \<Rightarrow> (string, json) dict \<Rightarrow> (string, json) dict result" where
  "field_payload name d = (case dict_get d name of None \<Rightarrow> Inr [] | Some (JObject ob) \<Rightarrow> Inr ob | _ \<Rightarrow> Inl (ValueError name))"

definition read_enum :: "'a list \<Rightarrow> ('a \<Rightarrow> string) \<Rightarrow> string \<Rightarrow> string \<Rightarrow> 'a result" where
  "read_enum members value name s = (case List.find (\<lambda>m. value m = s) members of None \<Rightarrow> Inl (ValueError name) | Some m \<Rightarrow> Inr m)"

definition read_opt_enum :: "'a list \<Rightarrow> ('a \<Rightarrow> string) \<Rightarrow> string \<Rightarrow> string option \<Rightarrow> 'a option result" where
  "read_opt_enum members value name s =
     (case s of None \<Rightarrow> Inr None | Some t \<Rightarrow> (case read_enum members value name t of Inl e \<Rightarrow> Inl e | Inr m \<Rightarrow> Inr (Some m)))"

definition validate_caller :: "(string, json) dict \<Rightarrow> caller_metadata result" where
  "validate_caller d =
     (case field_text ''caller_app'' d of Inl e \<Rightarrow> Inl e | Inr app \<Rightarrow>
      case field_text ''correlation_id'' d of Inl e \<Rightarrow> Inl e | Inr corr \<Rightarrow>
      case field_opt_text ''requested_by'' d of Inl e \<Rightarrow> Inl e | Inr by \<Rightarrow>
      case field_opt_text ''tenant_id'' d of Inl e \<Rightarrow> Inl e | Inr tenant \<Rightarrow>
      Inr \<lparr>cd_caller_app = app, cd_correlation_id = corr, cd_requested_by = by, cd_tenant_id = tenant\<rparr>)"

definition validate_context :: "(string, json) dict \<Rightarrow> task_context result" where
  "validate_context d =
     (case field_text ''summary'' d of Inl e \<Rightarrow> Inl e | Inr s \<Rightarrow>
      case field_payload ''payload'' d of Inl e \<Rightarrow> Inl e | Inr p \<Rightarrow>
      case field_texts ''source_refs'' d of Inl e \<Rightarrow> Inl e | Inr refs \<Rightarrow>
      Inr \<lparr>tx_summary = s, tx_payload = p, tx_source_refs = refs\<rparr>)"

definition field_requirements :: "(string, json) dict \<Rightarrow> json option result" where
  "field_requirements d =
     (case dict_get d ''requirements'' of
        None \<Rightarrow> Inr None | Some JNull \<Rightarrow> Inr None | Some (JObject ob) \<Rightarrow> Inr (Some (JObject ob)) | _ \<Rightarrow> Inl (ValueError ''requirements''))"

definition validate_task_request_fields :: "(string, json) dict \<Rightarrow> task_request result" where
  "validate_task_request_fields d =
     (case field_text ''task_id'' d of Inl e \<Rightarrow> Inl e | Inr tid \<Rightarrow>
      case field_text ''input_mode'' d of Inl e \<Rightarrow> Inl e | Inr m \<Rightarrow>
      if m \<noteq> ''STRUCTURED_CONTEXT'' then Inl (ValueError ''input_mode'') else
      case field_object ''caller'' d of Inl e \<Rightarrow> Inl e | Inr c \<Rightarrow>
      case validate_caller c of Inl e \<Rightarrow> Inl e | Inr caller \<Rightarrow>
      case field_object ''context'' d of Inl e \<Rightarrow> Inl e | Inr x \<Rightarrow>
      case validate_context x of Inl e \<Rightarrow> Inl e | Inr ctxt \<Rightarrow>
      case field_requirements d of Inl e \<Rightarrow> Inl e | Inr req \<Rightarrow>
      case field_opt_text ''expected_output_label'' d of Inl e \<Rightarrow> Inl e | Inr l \<Rightarrow>
      case read_opt_enum [EXPLANATION_ONLY, DRAFT_OUTPUT, CLASSIFICATION, RETRIEVAL_ANSWER] output_label_value ''expected_output_label'' l of
        Inl e \<Rightarrow> Inl e
      | Inr label \<Rightarrow>
      Inr \<lparr>tk_task_id = tid, tk_input_mode = STRUCTURED_CONTEXT, tk_caller = caller, tk_context = ctxt, tk_requirements = req,
           tk_expected_output_label = label\<rparr>)"

section \<open>Through the text and back\<close>

text \<open>A request whose JSON parts have no duplicate keys, and the same request with its JSON parts in key order.\<close>

definition task_wf :: "task_request \<Rightarrow> bool" where
  "task_wf t \<longleftrightarrow> json_wf (JObject (tx_payload (tk_context t)))
     \<and> (case tk_requirements t of None \<Rightarrow> True | Some j \<Rightarrow> json_wf j \<and> (\<exists>ob. j = JObject ob))"

definition sort_members :: "(string, json) dict \<Rightarrow> (string, json) dict" where
  "sort_members d = sort_key fst (map (map_prod id sort_json) d)"

definition sorted_task :: "task_request \<Rightarrow> task_request" where
  "sorted_task t = t\<lparr>tk_context := (tk_context t)\<lparr>tx_payload := sort_members (tx_payload (tk_context t))\<rparr>,
     tk_requirements := map_option sort_json (tk_requirements t)\<rparr>"

lemma sort_json_object [simp]: "sort_json (JObject d) = JObject (sort_members d)"
  by (simp add: sort_members_def)

declare sort_json.simps(7) [simp del]

lemma dict_get_sort_members [simp]: "dict_wf d \<Longrightarrow> dict_get (sort_members d) k = map_option sort_json (dict_get d k)"
proof -
  assume wf: "dict_wf d"
  have "dict_get (sort_key fst (map (map_prod id sort_json) d)) = dict_get (map (map_prod id sort_json) d)"
    by (subst map_of_inject_set) (use wf in \<open>simp_all add: distinct_map_sort_key comp_def\<close>)
  then show ?thesis by (simp add: sort_members_def map_prod_def map_of_map id_def)
qed

lemma text_items_strings [simp]: "text_items (map JString xs) = Some xs"
  by (induction xs) simp_all

lemma map_sort_strings [simp]: "map sort_json (map JString xs) = map JString xs"
  by (induction xs) simp_all

lemma sort_json_opt [simp]: "sort_json (json_opt x) = json_opt x"
  by (simp add: json_opt_def split: option.splits)

lemma field_opt_text_opt: "dict_get d name = Some (json_opt x) \<Longrightarrow> field_opt_text name d = Inr x"
  by (simp add: field_opt_text_def json_opt_def split: option.splits)

lemma read_label: "read_opt_enum [EXPLANATION_ONLY, DRAFT_OUTPUT, CLASSIFICATION, RETRIEVAL_ANSWER] output_label_value name (map_option output_label_value x) = Inr x"
proof (cases x)
  case (Some l)
  then show ?thesis by (cases l) (simp_all add: read_opt_enum_def read_enum_def)
qed (simp add: read_opt_enum_def)

lemma field_text_sorted: "dict_wf d \<Longrightarrow> dict_get d name = Some (JString x) \<Longrightarrow> field_text name (sort_members d) = Inr x"
  by (simp add: field_text_def)

lemma field_object_sorted: "dict_wf d \<Longrightarrow> dict_get d name = Some (JObject x) \<Longrightarrow> field_object name (sort_members d) = Inr (sort_members x)"
  by (simp add: field_object_def)

lemma validate_caller_dump:
  "dump_caller c = JObject d \<Longrightarrow> validate_caller d = Inr c \<and> validate_caller (sort_members d) = Inr c"
  by (auto simp: dump_caller_def validate_caller_def field_text_def field_opt_text_opt)

lemma validate_context_dump:
  "dump_context c = JObject d \<Longrightarrow> validate_context d = Inr c \<and> validate_context (sort_members d) = Inr (c\<lparr>tx_payload := sort_members (tx_payload c)\<rparr>)"
  by (auto simp: dump_context_def validate_context_def field_text_def field_payload_def field_texts_def simp del: map_map)

lemma requirements_dump:
  assumes "\<And>j. x = Some j \<Longrightarrow> \<exists>ob. j = JObject ob"
    and "dict_get d ''requirements'' = Some (case x of None \<Rightarrow> JNull | Some j \<Rightarrow> j)"
  shows "field_requirements d = Inr x"
  using assms by (cases x) (auto simp: field_requirements_def)

lemma task_request_validates:
  assumes "task_wf t" and "dump_task_request t = JObject d"
  shows "validate_task_request_fields d = Inr t" and "validate_task_request_fields (sort_members d) = Inr (sorted_task t)"
proof -
  obtain c x where c: "dump_caller (tk_caller t) = JObject c" and x: "dump_context (tk_context t) = JObject x"
    by (simp add: dump_caller_def dump_context_def)
  note cv = validate_caller_dump [OF c] and xv = validate_context_dump [OF x]
  have d: "d = [(''task_id'', JString (tk_task_id t)), (''input_mode'', JString ''STRUCTURED_CONTEXT''), (''caller'', JObject c), (''context'', JObject x),
      (''requirements'', case tk_requirements t of None \<Rightarrow> JNull | Some j \<Rightarrow> j),
      (''expected_output_label'', json_opt (map_option output_label_value (tk_expected_output_label t)))]"
    using assms(2) by (simp add: dump_task_request_def c x)
  have wf: "dict_wf d" by (simp add: d)
  have obj: "tk_requirements t = Some j \<Longrightarrow> \<exists>ob. j = JObject ob" for j using assms(1) by (simp add: task_wf_def)
  have r1: "field_requirements d = Inr (tk_requirements t)" by (rule requirements_dump) (simp_all add: obj d)
  have r2: "field_requirements (sort_members d) = Inr (map_option sort_json (tk_requirements t))"
    by (rule requirements_dump) (use obj in \<open>auto simp: wf, simp add: d split: option.splits\<close>)
  have l1: "field_opt_text ''expected_output_label'' d = Inr (map_option output_label_value (tk_expected_output_label t))"
    by (rule field_opt_text_opt) (simp add: d)
  have l2: "field_opt_text ''expected_output_label'' (sort_members d) = Inr (map_option output_label_value (tk_expected_output_label t))"
    by (rule field_opt_text_opt) (simp add: wf, simp add: d)
  have mode: "tk_input_mode t = STRUCTURED_CONTEXT" by (cases "tk_input_mode t")
  show "validate_task_request_fields d = Inr t"
    unfolding validate_task_request_fields_def r1 l1
    by (simp add: field_text_def field_object_def d cv xv read_label mode)
  have texts: "field_text ''task_id'' (sort_members d) = Inr (tk_task_id t)" "field_text ''input_mode'' (sort_members d) = Inr ''STRUCTURED_CONTEXT''"
    and objects: "field_object ''caller'' (sort_members d) = Inr (sort_members c)" "field_object ''context'' (sort_members d) = Inr (sort_members x)"
    by (intro field_text_sorted field_object_sorted wf; simp add: d)+
  show "validate_task_request_fields (sort_members d) = Inr (sorted_task t)"
    unfolding validate_task_request_fields_def r2 l2 texts objects by (simp add: cv xv read_label mode sorted_task_def)
qed

end
