(* ===== verification/Pack_Queue.thy ===== *)
theory Pack_Queue
  imports Pack_Registry Task_Contracts "HOL-Library.Product_Lexorder"
begin

text \<open>
  Admission to the workflow-pack queue: events (\<^verbatim>\<open>services/workflow_pack_queue_events.py\<close> with
  \<^verbatim>\<open>repositories/memory_workflow_pack_queue_event_repository.py\<close>), leases
  (\<^verbatim>\<open>repositories/memory_workflow_pack_admission_lease_repository.py\<close>), retained request snapshots
  (\<^verbatim>\<open>services/workflow_pack_queue_request_snapshots.py\<close>) and the admission service
  (\<^verbatim>\<open>services/workflow_pack_queue_admission.py\<close>).

  Readings of the clock, of the store's readiness and of new identifiers are numbered: the world counts the readings taken
  and the environment gives the value of each. Messages for operators are left out.
\<close>

section \<open>Sequencing\<close>

text \<open>An operation that may raise, followed by one that runs only if it did not; an exception keeps the effects made so far.\<close>

definition then_do :: "'a result \<times> 'w \<Rightarrow> ('a \<Rightarrow> 'w \<Rightarrow> 'b result \<times> 'w) \<Rightarrow> 'b result \<times> 'w" where
  "then_do p f = (case p of (Inl e, w) \<Rightarrow> (Inl e, w) | (Inr a, w) \<Rightarrow> f a w)"

lemma then_do_simps [simp]: "then_do (Inl e, w) f = (Inl e, w)" "then_do (Inr a, w) f = f a w"
  by (simp_all add: then_do_def)

lemma snd_then_do: "snd (then_do p f) = (case fst p of Inl e \<Rightarrow> snd p | Inr a \<Rightarrow> snd (f a (snd p)))"
  by (simp add: then_do_def split: prod.splits sum.splits)

lemma fst_then_do: "fst (then_do p f) = (case fst p of Inl e \<Rightarrow> Inl e | Inr a \<Rightarrow> fst (f a (snd p)))"
  by (simp add: then_do_def split: prod.splits sum.splits)

section \<open>Data\<close>

datatype queue_event_type =
  ADMISSION_REQUESTED | ADMISSION_QUEUED | ADMISSION_ADMITTED | ADMISSION_GRANTED | ADMISSION_REJECTED | ADMISSION_DEGRADED
  | ADMISSION_RELEASED | ADMISSION_CANCELLED | ADMISSION_TIMED_OUT | ADMISSION_RECLAIMED
  | RETRY_RECORDED | RETRY_BLOCKED | REPLAY_RECORDED | REPLAY_BLOCKED

datatype recovery_action = RECOVERY_RETRY | RECOVERY_REPLAY

record queue_event_input =
  qv_queue_item_id :: string
  qv_event_type :: queue_event_type
  qv_policy_id :: "string option"
  qv_workflow_pack_id :: string
  qv_workflow_pack_version :: string
  qv_lane :: "queue_lane option"
  qv_state :: queue_state
  qv_caller_app :: "string option"
  qv_correlation_id :: "string option"
  qv_tenant_id :: "string option"
  qv_workflow_surface :: "string option"
  qv_reason_code :: "string option"
  qv_source_queue_item_id :: "string option"
  qv_recovery_action_type :: "recovery_action option"
  qv_recovery_attempt_number :: "nat option"
  qv_requested_by :: "string option"
  qv_evidence_ref :: "string option"
  qv_idempotency_key :: "string option"
  qv_idempotency_request_fingerprint :: "string option"
  qv_artifact_refs :: "artifact list"

record queue_event = queue_event_input +
  qv_event_id :: string
  qv_recorded_at :: timestamp

record admission_lease =
  ls_queue_item_id :: string
  ls_policy_id :: string
  ls_workflow_pack_id :: string
  ls_workflow_pack_version :: string
  ls_lane :: queue_lane
  ls_state :: queue_state
  ls_admitted_at :: timestamp
  ls_caller_app :: "string option"
  ls_correlation_id :: "string option"
  ls_tenant_id :: "string option"
  ls_workflow_surface :: "string option"
  ls_artifact_refs :: "artifact list"

record queue_world = registry_world +
  qw_events :: "(string, queue_event) dict"
  qw_leases :: "(string, admission_lease) dict"
  qw_readings :: nat

record queue_env = registry_env +
  qe_ready :: "nat \<Rightarrow> bool"
  qe_now :: "nat \<Rightarrow> utc"
  qe_uuid :: "nat \<Rightarrow> string"
  qe_lease_ttl_seconds :: int
  qe_artifacts :: artifact_env

definition read_on :: "'w queue_world_scheme \<Rightarrow> 'w queue_world_scheme" where
  "read_on w = w\<lparr>qw_readings := Suc (qw_readings w)\<rparr>"

abbreviation now_text :: "'e queue_env_scheme \<Rightarrow> 'w queue_world_scheme \<Rightarrow> timestamp" where
  "now_text e w \<equiv> utc_text (qe_now e (qw_readings w))"

abbreviation fresh_hex :: "'e queue_env_scheme \<Rightarrow> 'w queue_world_scheme \<Rightarrow> string" where
  "fresh_hex e w \<equiv> qe_uuid e (qw_readings w)"

section \<open>Events\<close>

definition list_queue_events :: "string option \<Rightarrow> string option \<Rightarrow> int \<Rightarrow> 'w queue_world_scheme \<Rightarrow> queue_event list" where
  "list_queue_events item pack limit w =
     py_slice_to limit (sorted_desc (\<lambda>ev. [qv_recorded_at ev, qv_event_id ev])
       (filter (\<lambda>ev. (case item of None \<Rightarrow> True | Some i \<Rightarrow> qv_queue_item_id ev = i)
            \<and> (case pack of None \<Rightarrow> True | Some p \<Rightarrow> qv_workflow_pack_id ev = p)) (dict_values (qw_events w))))"

definition save_queue_event :: "queue_event \<Rightarrow> 'w queue_world_scheme \<Rightarrow> 'w queue_world_scheme" where
  "save_queue_event ev w = w\<lparr>qw_events := dict_put (qv_event_id ev) ev (qw_events w)\<rparr>"

fun delete_queue_events :: "string list \<Rightarrow> 'w queue_world_scheme \<Rightarrow> nat \<times> 'w queue_world_scheme" where
  "delete_queue_events [] w = (0, w)"
| "delete_queue_events (i # is) w =
     (let found = dict_get (qw_events w) i \<noteq> None;
          (n, w') = delete_queue_events is (w\<lparr>qw_events := dict_pop i (qw_events w)\<rparr>)
      in (if found then Suc n else n, w'))"

definition event_store_not_ready :: error where
  "event_store_not_ready = RuntimeError ''workflow_pack_queue_event_store_not_ready''"

definition record_workflow_pack_queue_event ::
  "'e queue_env_scheme \<Rightarrow> queue_event_input \<Rightarrow> 'w queue_world_scheme \<Rightarrow> queue_event result \<times> 'w queue_world_scheme" where
  "record_workflow_pack_queue_event e q w =
     (if \<not> qe_ready e (qw_readings w) then (Inl event_store_not_ready, read_on w)
      else let ev = queue_event_input.extend q
             \<lparr>qv_event_id = ''workflow-pack-queue-event-'' @ fresh_hex e w, qv_recorded_at = now_text e w\<rparr>
           in (Inr ev, read_on (save_queue_event ev w)))"

fun queue_event_causal_order :: "queue_event_type \<Rightarrow> nat" where
  "queue_event_causal_order ADMISSION_REQUESTED = 10"
| "queue_event_causal_order ADMISSION_QUEUED = 20"
| "queue_event_causal_order ADMISSION_ADMITTED = 30"
| "queue_event_causal_order ADMISSION_GRANTED = 40"
| "queue_event_causal_order ADMISSION_REJECTED = 40"
| "queue_event_causal_order ADMISSION_DEGRADED = 50"
| "queue_event_causal_order ADMISSION_RELEASED = 50"
| "queue_event_causal_order ADMISSION_CANCELLED = 50"
| "queue_event_causal_order ADMISSION_TIMED_OUT = 50"
| "queue_event_causal_order ADMISSION_RECLAIMED = 60"
| "queue_event_causal_order RETRY_RECORDED = 70"
| "queue_event_causal_order RETRY_BLOCKED = 71"
| "queue_event_causal_order REPLAY_RECORDED = 80"
| "queue_event_causal_order REPLAY_BLOCKED = 81"

definition queue_event_causal_order_key :: "queue_event \<Rightarrow> string \<times> nat \<times> nat \<times> string" where
  "queue_event_causal_order_key ev =
     (qv_recorded_at ev, case qv_recovery_attempt_number ev of None \<Rightarrow> 0 | Some n \<Rightarrow> n,
      queue_event_causal_order (qv_event_type ev), qv_event_id ev)"

definition build_workflow_pack_queue_event_detail ::
  "'e queue_env_scheme \<Rightarrow> string \<Rightarrow> int \<Rightarrow> 'w queue_world_scheme \<Rightarrow> queue_event list result \<times> 'w queue_world_scheme" where
  "build_workflow_pack_queue_event_detail e item limit w =
     (if \<not> qe_ready e (qw_readings w) then (Inl event_store_not_ready, read_on w)
      else let evs = list_queue_events (Some item) None limit w
           in (if evs = [] then Inl (ValueError ''unknown_queue_item_history'') else Inr (sort_key queue_event_causal_order_key evs),
               read_on w))"

definition build_workflow_pack_queue_event_catalog ::
  "'e queue_env_scheme \<Rightarrow> string option \<Rightarrow> string option \<Rightarrow> int \<Rightarrow> 'w queue_world_scheme
     \<Rightarrow> queue_event list result \<times> 'w queue_world_scheme" where
  "build_workflow_pack_queue_event_catalog e item pack limit w =
     (if \<not> qe_ready e (qw_readings w) then (Inl event_store_not_ready, read_on w)
      else (Inr (list_queue_events item pack limit w), read_on w))"

section \<open>Leases\<close>

definition prev_day :: "utc \<Rightarrow> utc" where
  "prev_day t =
     (if 1 < u_day t then t\<lparr>u_day := u_day t - 1\<rparr>
      else if 1 < u_month t then t\<lparr>u_month := u_month t - 1, u_day := month_days (u_year t) (u_month t - 1)\<rparr>
      else t\<lparr>u_year := u_year t - 1, u_month := 12, u_day := 31\<rparr>)"

text \<open>\<^verbatim>\<open>value - timedelta(seconds=n)\<close>; an instant before year one is Python's OverflowError.\<close>

definition sub_seconds :: "nat \<Rightarrow> utc \<Rightarrow> utc result" where
  "sub_seconds n t =
     (let total = u_hour t * 3600 + u_minute t * 60 + u_second t;
          back = (if n \<le> total then 0 else (n - total + 86399) div 86400);
          d = (prev_day ^^ back) t;
          r = total + back * 86400 - n;
          t' = d\<lparr>u_hour := r div 3600, u_minute := r mod 3600 div 60, u_second := r mod 60\<rparr>
      in if 1 \<le> u_year t' then Inr t' else Inl (OverflowError ''date value out of range''))"

text \<open>\<^verbatim>\<open>isoformat()\<close> without the replacement of the offset, as the lease repository writes its cutoff.\<close>

definition offset_text :: "utc \<Rightarrow> string" where
  "offset_text t = seconds_text t @ fraction_text (u_microsecond t) @ ''+00:00''"

record admission_attempt =
  at_admitted :: bool
  at_active_pack_count :: nat
  at_active_lane_count :: nat
  at_reclaimed_leases :: "admission_lease list"

definition list_admission_leases :: "'w queue_world_scheme \<Rightarrow> admission_lease list" where
  "list_admission_leases w = dict_values (qw_leases w)"

definition get_lease :: "'w queue_world_scheme \<Rightarrow> string \<Rightarrow> admission_lease option" where
  "get_lease w item = dict_get (qw_leases w) item"

definition delete_admission_lease :: "string \<Rightarrow> 'w queue_world_scheme \<Rightarrow> bool \<times> 'w queue_world_scheme" where
  "delete_admission_lease item w = (get_lease w item \<noteq> None, w\<lparr>qw_leases := dict_pop item (qw_leases w)\<rparr>)"

definition clear_leases :: "'w queue_world_scheme \<Rightarrow> 'w queue_world_scheme" where
  "clear_leases w = w\<lparr>qw_leases := []\<rparr>"

definition expired_leases :: "string \<Rightarrow> timestamp \<Rightarrow> 'w queue_world_scheme \<Rightarrow> admission_lease list" where
  "expired_leases policy_id cutoff w = filter (\<lambda>l. ls_policy_id l = policy_id \<and> ls_admitted_at l < cutoff) (list_admission_leases w)"

definition reclaim_expired_leases ::
  "'e queue_env_scheme \<Rightarrow> string \<Rightarrow> 'w queue_world_scheme \<Rightarrow> admission_lease list result \<times> 'w queue_world_scheme" where
  "reclaim_expired_leases e policy_id w =
     (if qe_lease_ttl_seconds e \<le> 0 then (Inr [], w)
      else (case sub_seconds (nat (qe_lease_ttl_seconds e)) (qe_now e (qw_readings w)) of
              Inl err \<Rightarrow> (Inl err, read_on w)
            | Inr cutoff \<Rightarrow>
              let expired = expired_leases policy_id (offset_text cutoff) w
              in (Inr expired, read_on (w\<lparr>qw_leases := fold (\<lambda>l. dict_pop (ls_queue_item_id l)) expired (qw_leases w)\<rparr>))))"

definition count_leases :: "string \<Rightarrow> 'w queue_world_scheme \<Rightarrow> nat" where
  "count_leases policy_id w = length (filter (\<lambda>l. ls_policy_id l = policy_id) (list_admission_leases w))"

definition count_lane_leases :: "string \<Rightarrow> queue_lane \<Rightarrow> 'w queue_world_scheme \<Rightarrow> nat" where
  "count_lane_leases policy_id lane w = length (filter (\<lambda>l. ls_policy_id l = policy_id \<and> ls_lane l = lane) (list_admission_leases w))"

definition try_admit ::
  "'e queue_env_scheme \<Rightarrow> admission_lease \<Rightarrow> nat \<Rightarrow> nat \<Rightarrow> 'w queue_world_scheme \<Rightarrow> admission_attempt result \<times> 'w queue_world_scheme" where
  "try_admit e lease pack_limit lane_limit w =
     then_do (reclaim_expired_leases e (ls_policy_id lease) w) (\<lambda>reclaimed w1.
       let pack_count = count_leases (ls_policy_id lease) w1;
           lane_count = count_lane_leases (ls_policy_id lease) (ls_lane lease) w1;
           refused = pack_count \<ge> pack_limit \<or> lane_count \<ge> lane_limit;
           attempt = \<lparr>at_admitted = \<not> refused, at_active_pack_count = pack_count, at_active_lane_count = lane_count,
                      at_reclaimed_leases = reclaimed\<rparr>
       in (Inr attempt, if refused then w1 else w1\<lparr>qw_leases := dict_put (ls_queue_item_id lease) lease (qw_leases w1)\<rparr>))"

section \<open>Retained request snapshots\<close>

fun lane_value :: "queue_lane \<Rightarrow> string" where
  "lane_value LANE_LATENCY_SENSITIVE = ''LATENCY_SENSITIVE''"
| "lane_value LANE_REVIEW_SUPPORT = ''REVIEW_SUPPORT''"
| "lane_value LANE_BATCH = ''BATCH''"
| "lane_value LANE_NIGHTLY = ''NIGHTLY''"
| "lane_value LANE_OPERATOR = ''OPERATOR''"

fun environment_value :: "pack_environment \<Rightarrow> string" where
  "environment_value ENV_LOCAL = ''LOCAL''"
| "environment_value ENV_DEVELOPMENT = ''DEVELOPMENT''"
| "environment_value ENV_QA = ''QA''"
| "environment_value ENV_UAT = ''UAT''"
| "environment_value ENV_PRODUCTION = ''PRODUCTION''"

fun identity_class_value :: "caller_identity_class \<Rightarrow> string" where
  "identity_class_value INTERNAL_SERVICE = ''INTERNAL_SERVICE''"
| "identity_class_value BANKER_PRODUCT = ''BANKER_PRODUCT''"
| "identity_class_value OPERATOR_SUPPORT = ''OPERATOR_SUPPORT''"
| "identity_class_value PLATFORM_AUTOMATION = ''PLATFORM_AUTOMATION''"

text \<open>What an admission is asked for, besides the registration.\<close>

record admission_request =
  aq_requested_lane :: "queue_lane option"
  aq_caller_app :: "string option"
  aq_correlation_id :: "string option"
  aq_tenant :: "string option"
  aq_workflow_surface :: "string option"
  aq_task_request :: "task_request option"
  aq_environment :: "pack_environment option"
  aq_identity_class :: "caller_identity_class option"

definition snapshot_json ::
  "string \<Rightarrow> pack_registration \<Rightarrow> queue_lane \<Rightarrow> task_request \<Rightarrow> admission_request \<Rightarrow> json" where
  "snapshot_json item r lane t q = JObject
     [(''queue_item_id'', JString item), (''pack_id'', JString (rg_pack_id r)), (''pack_version'', JString (rg_version r)),
      (''registration_ref'', JString (rg_pack_id r @ ''@'' @ rg_version r)),
      (''workflow_authority_owner'', JString (rg_workflow_authority_owner r)), (''queue_lane'', JString (lane_value lane)),
      (''workflow_surface'', json_opt (aq_workflow_surface q)),
      (''environment'', json_opt (map_option environment_value (aq_environment q))),
      (''caller_identity_class'', json_opt (map_option identity_class_value (aq_identity_class q))),
      (''idempotency_key'', JNull), (''idempotency_request_fingerprint'', JNull), (''task_request'', dump_task_request t)]"

definition snapshot_type :: string where
  "snapshot_type = ''queue_request_snapshot''"

definition snapshot_request :: "string \<Rightarrow> timestamp \<Rightarrow> string \<Rightarrow> artifact_request" where
  "snapshot_request item created_at payload =
     \<lparr>aq_domain = ''workflow_pack'', aq_artifact_type = snapshot_type, aq_source_object_kind = ''workflow_pack_queue_item'',
      aq_source_object_id = item, aq_created_at = created_at, aq_created_by = ''lotus-ai.workflow-pack-queue-admission'',
      aq_payload_json = payload, aq_lifecycle_status = RUNTIME_GENERATED, aq_retention_posture = ''retained_for_recovery'',
      aq_lineage_parent_artifact_id = None, aq_superseded_by_artifact_id = None, aq_tenant_id = None\<rparr>"

definition persist_request_snapshot_artifact_refs ::
  "'e queue_env_scheme \<Rightarrow> string \<Rightarrow> pack_registration \<Rightarrow> queue_lane \<Rightarrow> admission_request \<Rightarrow> 'w queue_world_scheme
     \<Rightarrow> artifact list \<times> 'w queue_world_scheme" where
  "persist_request_snapshot_artifact_refs e item r lane q w =
     (case aq_task_request q of
        None \<Rightarrow> ([], w)
      | Some t \<Rightarrow>
        let (a, w') = persist_or_reuse_json_artifact (qe_artifacts e) (take 16 (fresh_hex e w))
              (snapshot_request item (now_text e w) (dumps_sorted (snapshot_json item r lane t q))) w
        in ([a], read_on w'))"

section \<open>Admission\<close>

text \<open>The fields every event of one admission carries.\<close>

definition admission_event ::
  "string \<Rightarrow> queue_event_type \<Rightarrow> queue_state \<Rightarrow> string \<Rightarrow> string \<Rightarrow> queue_lane option \<Rightarrow> admission_request \<Rightarrow> queue_event_input" where
  "admission_event item type state pack version lane q =
     \<lparr>qv_queue_item_id = item, qv_event_type = type, qv_policy_id = None, qv_workflow_pack_id = pack,
      qv_workflow_pack_version = version, qv_lane = lane, qv_state = state, qv_caller_app = aq_caller_app q,
      qv_correlation_id = aq_correlation_id q, qv_tenant_id = aq_tenant q, qv_workflow_surface = aq_workflow_surface q,
      qv_reason_code = None, qv_source_queue_item_id = None, qv_recovery_action_type = None, qv_recovery_attempt_number = None,
      qv_requested_by = None, qv_evidence_ref = None, qv_idempotency_key = None, qv_idempotency_request_fingerprint = None,
      qv_artifact_refs = []\<rparr>"

definition policy_event ::
  "string \<Rightarrow> queue_event_type \<Rightarrow> queue_state \<Rightarrow> queue_policy \<Rightarrow> queue_lane \<Rightarrow> admission_request \<Rightarrow> artifact list \<Rightarrow> queue_event_input" where
  "policy_event item type state p lane q refs =
     (admission_event item type state (qp_workflow_pack_id p) (qp_workflow_pack_version p) (Some lane) q)
       \<lparr>qv_policy_id := Some (qp_policy_id p), qv_artifact_refs := refs\<rparr>"

definition lease_event :: "admission_lease \<Rightarrow> queue_event_type \<Rightarrow> queue_state \<Rightarrow> string option \<Rightarrow> queue_event_input" where
  "lease_event l type state reason =
     \<lparr>qv_queue_item_id = ls_queue_item_id l, qv_event_type = type, qv_policy_id = Some (ls_policy_id l),
      qv_workflow_pack_id = ls_workflow_pack_id l, qv_workflow_pack_version = ls_workflow_pack_version l,
      qv_lane = Some (ls_lane l), qv_state = state, qv_caller_app = ls_caller_app l,
      qv_correlation_id = ls_correlation_id l, qv_tenant_id = ls_tenant_id l, qv_workflow_surface = ls_workflow_surface l,
      qv_reason_code = reason, qv_source_queue_item_id = None, qv_recovery_action_type = None, qv_recovery_attempt_number = None,
      qv_requested_by = None, qv_evidence_ref = None, qv_idempotency_key = None, qv_idempotency_request_fingerprint = None,
      qv_artifact_refs = ls_artifact_refs l\<rparr>"

text \<open>Record a rejection and raise.\<close>

definition reject_admission ::
  "'e queue_env_scheme \<Rightarrow> queue_event_input \<Rightarrow> error \<Rightarrow> 'w queue_world_scheme \<Rightarrow> 'a result \<times> 'w queue_world_scheme" where
  "reject_admission e ev err w = then_do (record_workflow_pack_queue_event e ev w) (\<lambda>_ w'. (Inl err, w'))"

definition pack_limit_code :: string where
  "pack_limit_code = ''MAX_CONCURRENT_RUNS_PER_PACK''"

definition lane_limit_code :: string where
  "lane_limit_code = ''MAX_CONCURRENT_RUNS_PER_LANE''"

definition raise_capacity_rejection ::
  "'e queue_env_scheme \<Rightarrow> string \<Rightarrow> queue_policy \<Rightarrow> queue_lane \<Rightarrow> admission_request \<Rightarrow> artifact list \<Rightarrow> string \<Rightarrow> 'w queue_world_scheme
     \<Rightarrow> 'a result \<times> 'w queue_world_scheme" where
  "raise_capacity_rejection e item p lane q refs code w =
     reject_admission e ((policy_event item ADMISSION_REJECTED WPQ_REJECTED p lane q refs)\<lparr>qv_reason_code := Some code\<rparr>)
       (HTTPException 429 code) w"

definition lease_of :: "string \<Rightarrow> queue_policy \<Rightarrow> queue_lane \<Rightarrow> queue_state \<Rightarrow> timestamp \<Rightarrow> admission_request \<Rightarrow> artifact list \<Rightarrow> admission_lease" where
  "lease_of item p lane state admitted_at q refs =
     \<lparr>ls_queue_item_id = item, ls_policy_id = qp_policy_id p, ls_workflow_pack_id = qp_workflow_pack_id p,
      ls_workflow_pack_version = qp_workflow_pack_version p, ls_lane = lane, ls_state = state, ls_admitted_at = admitted_at,
      ls_caller_app = aq_caller_app q, ls_correlation_id = aq_correlation_id q, ls_tenant_id = aq_tenant q,
      ls_workflow_surface = aq_workflow_surface q, ls_artifact_refs = refs\<rparr>"

fun record_reclaimed_lease_events ::
  "'e queue_env_scheme \<Rightarrow> admission_lease list \<Rightarrow> 'w queue_world_scheme \<Rightarrow> unit result \<times> 'w queue_world_scheme" where
  "record_reclaimed_lease_events e [] w = (Inr (), w)"
| "record_reclaimed_lease_events e (l # ls) w =
     then_do (record_workflow_pack_queue_event e (lease_event l ADMISSION_RECLAIMED WPQ_TIMED_OUT (Some ''ADMISSION_LEASE_EXPIRED'')) w)
       (\<lambda>_. record_reclaimed_lease_events e ls)"

text \<open>A step of the queue item's own state, recorded as an event.\<close>

definition advance_item ::
  "'e queue_env_scheme \<Rightarrow> string \<Rightarrow> queue_policy \<Rightarrow> queue_lane \<Rightarrow> admission_request \<Rightarrow> artifact list \<Rightarrow> queue_event_type \<Rightarrow> queue_state
     \<Rightarrow> queue_state \<Rightarrow> 'w queue_world_scheme \<Rightarrow> queue_state result \<times> 'w queue_world_scheme" where
  "advance_item e item p lane q refs type from to w =
     (case transition_queue_state from to of
        Inl err \<Rightarrow> (Inl err, w)
      | Inr s \<Rightarrow> then_do (record_workflow_pack_queue_event e (policy_event item type s p lane q refs) w) (\<lambda>_ w'. (Inr s, w')))"

text \<open>The authoritative attempt for an admitted item, and the part of \<^verbatim>\<open>acquire_workflow_pack_queue_admission\<close> after the
  advisory capacity check.\<close>

definition start_admitted_item ::
  "'e queue_env_scheme \<Rightarrow> string \<Rightarrow> queue_policy \<Rightarrow> queue_lane \<Rightarrow> admission_request \<Rightarrow> artifact list \<Rightarrow> queue_state \<Rightarrow> 'w queue_world_scheme
     \<Rightarrow> admission_lease result \<times> 'w queue_world_scheme" where
  "start_admitted_item e item p lane q refs running w =
     (let lease = lease_of item p lane running (now_text e w) q refs in
      then_do (try_admit e lease (qp_max_concurrent_runs_per_pack p) (qp_max_concurrent_runs_per_lane p) (read_on w)) (\<lambda>attempt w1.
      then_do (record_reclaimed_lease_events e (at_reclaimed_leases attempt) w1) (\<lambda>_ w2.
        if \<not> at_admitted attempt
        then raise_capacity_rejection e item p lane q refs
               (if at_active_pack_count attempt \<ge> qp_max_concurrent_runs_per_pack p then pack_limit_code else lane_limit_code) w2
        else then_do (record_workflow_pack_queue_event e (policy_event item ADMISSION_GRANTED running p lane q refs) w2)
               (\<lambda>_ w3. (Inr lease, w3)))))"

definition admit_queued_item ::
  "'e queue_env_scheme \<Rightarrow> string \<Rightarrow> queue_policy \<Rightarrow> queue_lane \<Rightarrow> admission_request \<Rightarrow> artifact list \<Rightarrow> 'w queue_world_scheme
     \<Rightarrow> admission_lease result \<times> 'w queue_world_scheme" where
  "admit_queued_item e item p lane q refs w =
     then_do (advance_item e item p lane q refs ADMISSION_QUEUED WPQ_NOT_ADMITTED WPQ_QUEUED w) (\<lambda>queued w1.
     then_do (advance_item e item p lane q refs ADMISSION_ADMITTED queued WPQ_ADMITTED w1) (\<lambda>admitted w2.
       (case transition_queue_state admitted WPQ_RUNNING of
          Inl err \<Rightarrow> (Inl err, w2)
        | Inr running \<Rightarrow> start_admitted_item e item p lane q refs running w2)))"

definition admit_within_capacity ::
  "'e queue_env_scheme \<Rightarrow> string \<Rightarrow> queue_policy \<Rightarrow> queue_lane \<Rightarrow> admission_request \<Rightarrow> artifact list \<Rightarrow> 'w queue_world_scheme
     \<Rightarrow> admission_lease result \<times> 'w queue_world_scheme" where
  "admit_within_capacity e item p lane q refs w =
     (if count_leases (qp_policy_id p) w \<ge> qp_max_concurrent_runs_per_pack p
      then raise_capacity_rejection e item p lane q refs pack_limit_code w
      else if count_lane_leases (qp_policy_id p) lane w \<ge> qp_max_concurrent_runs_per_lane p
      then raise_capacity_rejection e item p lane q refs lane_limit_code w
      else admit_queued_item e item p lane q refs w)"

definition admit_requested_item ::
  "'e queue_env_scheme \<Rightarrow> string \<Rightarrow> queue_policy \<Rightarrow> queue_lane \<Rightarrow> admission_request \<Rightarrow> artifact list \<Rightarrow> 'w queue_world_scheme
     \<Rightarrow> admission_lease result \<times> 'w queue_world_scheme" where
  "admit_requested_item e item p lane q refs w =
     then_do (record_workflow_pack_queue_event e (policy_event item ADMISSION_REQUESTED WPQ_NOT_ADMITTED p lane q refs) w) (\<lambda>_ w1.
       if lane \<notin> set (qp_allowed_lanes p)
       then reject_admission e ((policy_event item ADMISSION_REJECTED WPQ_REJECTED p lane q refs)\<lparr>qv_reason_code := Some ''QUEUE_LANE_NOT_ALLOWED''\<rparr>)
              (HTTPException 409 ''queue_lane_not_allowed'') w1
       else admit_within_capacity e item p lane q refs w1)"

definition acquire_workflow_pack_queue_admission ::
  "'e queue_env_scheme \<Rightarrow> pack_registration \<Rightarrow> admission_request \<Rightarrow> 'w queue_world_scheme
     \<Rightarrow> admission_lease result \<times> 'w queue_world_scheme" where
  "acquire_workflow_pack_queue_admission e r q w =
     (if \<not> qe_ready e (qw_readings w) then (Inl (HTTPException 503 ''queue_event_store_not_ready''), read_on w)
      else
        let item = ''wpq_'' @ fresh_hex e w; w0 = read_on w in
        case get_workflow_pack_queue_policy_descriptor (rg_pack_id r) (rg_version r) of
          Inl err \<Rightarrow> (Inl err, w0)
        | Inr None \<Rightarrow>
          reject_admission e ((admission_event item ADMISSION_REJECTED WPQ_REJECTED (rg_pack_id r) (rg_version r) (aq_requested_lane q) q)
              \<lparr>qv_reason_code := Some ''QUEUE_POLICY_NOT_FOUND''\<rparr>) (HTTPException 409 ''queue_policy_not_declared'') w0
        | Inr (Some p) \<Rightarrow>
          let lane = (case aq_requested_lane q of None \<Rightarrow> qp_default_lane p | Some l \<Rightarrow> l);
              (refs, w1) = persist_request_snapshot_artifact_refs e item r lane q w0 in
          admit_requested_item e item p lane q refs w1)"

section \<open>Release and cancellation\<close>

text \<open>\<^verbatim>\<open>date.toordinal\<close> and the microsecond count of an instant, on which Python subtracts.\<close>

definition day_number :: "utc \<Rightarrow> nat" where
  "day_number t =
     (let y = u_year t - 1 in y * 365 + y div 4 - y div 100 + y div 400
      + sum_list (map (month_days (u_year t)) [1..<u_month t]) + u_day t)"

definition instant_of :: "utc \<Rightarrow> nat" where
  "instant_of t = (day_number t * 86400 + u_hour t * 3600 + u_minute t * 60 + u_second t) * 1000000 + u_microsecond t"

definition get_policy_for_lease :: "admission_lease \<Rightarrow> queue_policy result" where
  "get_policy_for_lease l =
     (case get_workflow_pack_queue_policy_descriptor (ls_workflow_pack_id l) (ls_workflow_pack_version l) of
        Inl err \<Rightarrow> Inl err
      | Inr None \<Rightarrow> Inl (RuntimeError ''queue_policy_disappeared'')
      | Inr (Some p) \<Rightarrow> Inr p)"

definition release_terminal_state :: "admission_lease \<Rightarrow> queue_policy \<Rightarrow> utc \<Rightarrow> queue_state result" where
  "release_terminal_state l p now =
     (case fromisoformat (ls_admitted_at l) of
        Inl err \<Rightarrow> Inl err
      | Inr admitted \<Rightarrow>
        Inr (if instant_of admitted + qp_execution_timeout_seconds p * 1000000 < instant_of now then WPQ_TIMED_OUT else WPQ_COMPLETED_HANDOFF))"

text \<open>What a release or a cancellation has decided about a lease it read, before it deletes it.\<close>

record lease_closing =
  cg_lease :: admission_lease
  cg_event_type :: queue_event_type
  cg_state :: queue_state
  cg_reason :: "string option"

definition decide_release :: "'e queue_env_scheme \<Rightarrow> string \<Rightarrow> utc option \<Rightarrow> 'w queue_world_scheme \<Rightarrow> lease_closing option result" where
  "decide_release e item now w =
     (case get_lease w item of
        None \<Rightarrow> Inr None
      | Some l \<Rightarrow>
        (case get_policy_for_lease l of
           Inl err \<Rightarrow> Inl err
         | Inr p \<Rightarrow>
           (case release_terminal_state l p (case now of None \<Rightarrow> qe_now e (qw_readings w) | Some t \<Rightarrow> t) of
              Inl err \<Rightarrow> Inl err
            | Inr s \<Rightarrow>
              (case transition_queue_state (ls_state l) s of
                 Inl err \<Rightarrow> Inl err
               | Inr s' \<Rightarrow>
                 Inr (Some (if s = WPQ_TIMED_OUT
                   then \<lparr>cg_lease = l, cg_event_type = ADMISSION_TIMED_OUT, cg_state = s', cg_reason = Some ''EXECUTION_TIMEOUT''\<rparr>
                   else \<lparr>cg_lease = l, cg_event_type = ADMISSION_RELEASED, cg_state = s', cg_reason = None\<rparr>))))))"

definition decide_cancel :: "string \<Rightarrow> cancellation_actor \<Rightarrow> string \<Rightarrow> string \<Rightarrow> 'w queue_world_scheme \<Rightarrow> lease_closing option result" where
  "decide_cancel item actor reason evidence w =
     (if py_strip reason = [] \<or> py_strip evidence = [] then Inl (HTTPException 422 ''cancellation_evidence_required'')
      else case get_lease w item of
        None \<Rightarrow> Inr None
      | Some l \<Rightarrow>
        (case get_policy_for_lease l of
           Inl err \<Rightarrow> Inl err
         | Inr p \<Rightarrow>
           if actor \<notin> set (xp_cancellable_by (qp_cancellation_policy p)) then Inl (HTTPException 409 ''not_cancellable_by_actor'')
           else (case transition_queue_state (ls_state l) WPQ_CANCELLED of
                   Inl err \<Rightarrow> Inl err
                 | Inr s \<Rightarrow> Inr (Some \<lparr>cg_lease = l, cg_event_type = ADMISSION_CANCELLED, cg_state = s,
                     cg_reason = Some ''QUEUE_ADMISSION_CANCELLED''\<rparr>))))"

text \<open>The delete claims the terminal transition; only the caller that removed the lease records the event.\<close>

definition claim_close :: "lease_closing \<Rightarrow> 'w queue_world_scheme \<Rightarrow> bool \<times> 'w queue_world_scheme" where
  "claim_close c w = delete_admission_lease (ls_queue_item_id (cg_lease c)) w"

definition record_close :: "'e queue_env_scheme \<Rightarrow> lease_closing \<Rightarrow> 'w queue_world_scheme \<Rightarrow> queue_event result \<times> 'w queue_world_scheme" where
  "record_close e c w = record_workflow_pack_queue_event e (lease_event (cg_lease c) (cg_event_type c) (cg_state c) (cg_reason c)) w"

definition finish_close :: "'e queue_env_scheme \<Rightarrow> lease_closing option result \<Rightarrow> 'w queue_world_scheme \<Rightarrow> bool result \<times> 'w queue_world_scheme" where
  "finish_close e d w =
     (case d of
        Inl err \<Rightarrow> (Inl err, w)
      | Inr None \<Rightarrow> (Inr False, w)
      | Inr (Some c) \<Rightarrow>
        (case claim_close c w of
           (False, w') \<Rightarrow> (Inr False, w')
         | (True, w') \<Rightarrow> then_do (record_close e c w') (\<lambda>_ w''. (Inr True, w''))))"

definition release_workflow_pack_queue_admission ::
  "'e queue_env_scheme \<Rightarrow> string \<Rightarrow> utc option \<Rightarrow> 'w queue_world_scheme \<Rightarrow> unit result \<times> 'w queue_world_scheme" where
  "release_workflow_pack_queue_admission e item now w =
     then_do (finish_close e (decide_release e item now w) (read_on w)) (\<lambda>_ w'. (Inr (), w'))"

definition cancel_workflow_pack_queue_admission ::
  "'e queue_env_scheme \<Rightarrow> string \<Rightarrow> cancellation_actor \<Rightarrow> string \<Rightarrow> string \<Rightarrow> 'w queue_world_scheme \<Rightarrow> bool result \<times> 'w queue_world_scheme" where
  "cancel_workflow_pack_queue_admission e item actor reason evidence w =
     finish_close e (decide_cancel item actor reason evidence w) w"

text \<open>The context manager: the body runs under the lease, and the lease is released whatever the body does.\<close>

definition workflow_pack_queue_admission ::
  "'e queue_env_scheme \<Rightarrow> pack_registration \<Rightarrow> admission_request \<Rightarrow> (admission_lease \<Rightarrow> 'w queue_world_scheme \<Rightarrow> 'b result \<times> 'w queue_world_scheme)
     \<Rightarrow> 'w queue_world_scheme \<Rightarrow> 'b result \<times> 'w queue_world_scheme" where
  "workflow_pack_queue_admission e r q body w =
     then_do (acquire_workflow_pack_queue_admission e r q w) (\<lambda>lease w1.
       let (res, w2) = body lease w1 in
       then_do (release_workflow_pack_queue_admission e (ls_queue_item_id lease) None w2) (\<lambda>_ w3. (res, w3)))"

end
