(* ===== verification/Pack_Admission.thy ===== *)
theory Pack_Admission
  imports Pack_Queue
begin

text \<open>
  What admission to the workflow-pack queue guarantees, whatever replicas interleave. The repository calls are the atomic
  steps: an admission attempt, the delete that claims a terminal transition, the recording of one event. Every operation of
  \<open>Pack_Queue\<close> is a sequence of such steps, so the invariants of the steps hold for the service. The scope is the lease-based
  admission service: the async worker of \<^verbatim>\<open>workflow_pack_async_execution.py\<close>, which records an \<^verbatim>\<open>ADMISSION_RELEASED\<close> event of its
  own before the fenced completion of a job, is not modelled, and its events are not among those counted here.
\<close>

section \<open>What each operation touches\<close>

lemma read_on_simps [simp]:
  "qw_events (read_on w) = qw_events w" "qw_leases (read_on w) = qw_leases w" "qw_readings (read_on w) = Suc (qw_readings w)"
  "gw_registrations (read_on w) = gw_registrations w" "aw_artifacts (read_on w) = aw_artifacts w" "aw_objects (read_on w) = aw_objects w"
  by (simp_all add: read_on_def)

lemma record_event_leases [simp]:
  "qw_leases (snd (record_workflow_pack_queue_event e q w)) = qw_leases w"
  by (simp add: record_workflow_pack_queue_event_def save_queue_event_def Let_def)

lemma record_event_readings [simp]:
  "qw_readings (snd (record_workflow_pack_queue_event e q w)) = Suc (qw_readings w)"
  by (simp add: record_workflow_pack_queue_event_def save_queue_event_def Let_def)

lemma record_event_cases:
  "record_workflow_pack_queue_event e q w = (Inl event_store_not_ready, read_on w)
   \<or> (\<exists>ev. record_workflow_pack_queue_event e q w = (Inr ev, read_on (save_queue_event ev w))
        \<and> qv_event_id ev = ''workflow-pack-queue-event-'' @ fresh_hex e w
        \<and> qv_queue_item_id ev = qv_queue_item_id q \<and> qv_event_type ev = qv_event_type q)"
  by (simp add: record_workflow_pack_queue_event_def queue_event_input.defs Let_def)

lemma reject_leases [simp]: "qw_leases (snd (reject_admission e ev err w)) = qw_leases w"
  by (simp add: reject_admission_def snd_then_do split: sum.splits)

lemma capacity_rejection_leases [simp]: "qw_leases (snd (raise_capacity_rejection e item p lane q refs code w)) = qw_leases w"
  by (simp add: raise_capacity_rejection_def)

lemma persist_snapshot_queue [simp]:
  "qw_leases (snd (persist_request_snapshot_artifact_refs e item r lane q w)) = qw_leases w"
  "qw_events (snd (persist_request_snapshot_artifact_refs e item r lane q w)) = qw_events w"
  by (auto simp: persist_request_snapshot_artifact_refs_def persist_or_reuse_json_artifact_def persist_json_artifact_def
      stage_json_artifact_def put_object_def save_artifact_def Let_def split: option.splits)

section \<open>Counting leases\<close>

definition holding :: "(admission_lease \<Rightarrow> bool) \<Rightarrow> (string, admission_lease) dict \<Rightarrow> nat" where
  "holding P d = length (filter P (dict_values d))"

lemma holding_simps [simp]: "holding P [] = 0" "holding P ((k, l) # d) = (if P l then 1 else 0) + holding P d"
  by (simp_all add: holding_def)

lemma holding_put_le: "holding P (dict_put k l d) \<le> holding P d + (if P l then 1 else 0)"
  by (induction d) auto

lemma holding_pop_le: "holding P (dict_pop k d) \<le> holding P d"
  by (induction d) auto

lemma holding_pops_le: "holding P (fold (\<lambda>l. dict_pop (f l)) ls d) \<le> holding P d"
proof (induction ls arbitrary: d)
  case (Cons l ls)
  show ?case using Cons.IH [of "dict_pop (f l) d"] holding_pop_le [of P "f l" d] by simp
qed simp

lemma count_holding:
  "count_leases pid w = holding (\<lambda>l. ls_policy_id l = pid) (qw_leases w)"
  "count_lane_leases pid lane w = holding (\<lambda>l. ls_policy_id l = pid \<and> ls_lane l = lane) (qw_leases w)"
  by (simp_all add: count_leases_def count_lane_leases_def list_admission_leases_def holding_def)

definition fits :: "(string, admission_lease) dict \<Rightarrow> queue_policy \<Rightarrow> bool" where
  "fits d p \<longleftrightarrow> holding (\<lambda>l. ls_policy_id l = qp_policy_id p) d \<le> qp_max_concurrent_runs_per_pack p
     \<and> (\<forall>lane. holding (\<lambda>l. ls_policy_id l = qp_policy_id p \<and> ls_lane l = lane) d \<le> qp_max_concurrent_runs_per_lane p)"

definition within_capacity :: "'w queue_world_scheme \<Rightarrow> bool" where
  "within_capacity w \<longleftrightarrow> (\<forall>p\<in>set row_policies. fits (qw_leases w) p)"

lemma fits_mono: "fits d p \<Longrightarrow> (\<And>P. holding P d' \<le> holding P d) \<Longrightarrow> fits d' p"
  unfolding fits_def by (meson order_trans)

lemma fits_pop: "fits d p \<Longrightarrow> fits (dict_pop k d) p"
  by (erule fits_mono) (rule holding_pop_le)

lemma reclaim_cases:
  obtains err where "reclaim_expired_leases e policy_id w = (Inl err, read_on w)"
  | "reclaim_expired_leases e policy_id w = (Inr [], w)"
  | cutoff where "reclaim_expired_leases e policy_id w = (Inr (expired_leases policy_id cutoff w),
      read_on (w\<lparr>qw_leases := fold (\<lambda>l. dict_pop (ls_queue_item_id l)) (expired_leases policy_id cutoff w) (qw_leases w)\<rparr>))"
  unfolding reclaim_expired_leases_def Let_def
  by (cases "sub_seconds (nat (qe_lease_ttl_seconds e)) (qe_now e (qw_readings w))"; cases "qe_lease_ttl_seconds e \<le> 0") auto

lemma fits_reclaim:
  assumes "fits (qw_leases w) p"
  shows "fits (qw_leases (snd (reclaim_expired_leases e policy_id w))) p"
proof (cases rule: reclaim_cases [of e policy_id w])
  case (3 cutoff)
  show ?thesis unfolding 3 using fits_mono [OF assms holding_pops_le] by simp
qed (use assms in simp_all)

lemma policy_id_unique: "p \<in> set row_policies \<Longrightarrow> p' \<in> set row_policies \<Longrightarrow> qp_policy_id p = qp_policy_id p' \<Longrightarrow> p = p'"
  using row_identities(1) by (simp add: distinct_map inj_on_def)

lemma fits_admitted:
  assumes "fits d p" and "ls_policy_id l = qp_policy_id p \<Longrightarrow>
      holding (\<lambda>l. ls_policy_id l = qp_policy_id p) d < qp_max_concurrent_runs_per_pack p
      \<and> holding (\<lambda>x. ls_policy_id x = qp_policy_id p \<and> ls_lane x = ls_lane l) d < qp_max_concurrent_runs_per_lane p"
  shows "fits (dict_put k l d) p"
  unfolding fits_def
proof (intro conjI allI)
  show "holding (\<lambda>l. ls_policy_id l = qp_policy_id p) (dict_put k l d) \<le> qp_max_concurrent_runs_per_pack p"
    using holding_put_le [of "\<lambda>l. ls_policy_id l = qp_policy_id p" k l d] assms
    by (cases "ls_policy_id l = qp_policy_id p") (auto simp: fits_def)
  show "holding (\<lambda>l. ls_policy_id l = qp_policy_id p \<and> ls_lane l = lane) (dict_put k l d) \<le> qp_max_concurrent_runs_per_lane p" for lane
  proof (cases "ls_policy_id l = qp_policy_id p \<and> ls_lane l = lane")
    case True
    then show ?thesis using holding_put_le [of "\<lambda>l. ls_policy_id l = qp_policy_id p \<and> ls_lane l = lane" k l d] assms(2) by auto
  next
    case False
    then have "holding (\<lambda>l. ls_policy_id l = qp_policy_id p \<and> ls_lane l = lane) (dict_put k l d)
        \<le> holding (\<lambda>l. ls_policy_id l = qp_policy_id p \<and> ls_lane l = lane) d"
      using holding_put_le [of "\<lambda>l. ls_policy_id l = qp_policy_id p \<and> ls_lane l = lane" k l d] by auto
    then show ?thesis using assms(1) order_trans unfolding fits_def by blast
  qed
qed

lemma fits_try_admit:
  assumes "fits (qw_leases w) p" and "p \<in> set row_policies" and "p' \<in> set row_policies" and "ls_policy_id l = qp_policy_id p'"
  shows "fits (qw_leases (snd (try_admit e l (qp_max_concurrent_runs_per_pack p') (qp_max_concurrent_runs_per_lane p') w))) p"
proof -
  obtain res w1 where r: "reclaim_expired_leases e (ls_policy_id l) w = (res, w1)" by (cases "reclaim_expired_leases e (ls_policy_id l) w")
  have fit: "fits (qw_leases w1) p" using fits_reclaim [OF assms(1), of e "ls_policy_id l"] by (simp add: r)
  show ?thesis
  proof (cases "isl res \<or> count_leases (ls_policy_id l) w1 \<ge> qp_max_concurrent_runs_per_pack p'
        \<or> count_lane_leases (ls_policy_id l) (ls_lane l) w1 \<ge> qp_max_concurrent_runs_per_lane p'")
    case True
    then show ?thesis using fit by (cases res) (auto simp: try_admit_def r Let_def)
  next
    case False
    then have "qw_leases (snd (try_admit e l (qp_max_concurrent_runs_per_pack p') (qp_max_concurrent_runs_per_lane p') w))
        = dict_put (ls_queue_item_id l) l (qw_leases w1)" by (cases res) (auto simp: try_admit_def r Let_def)
    moreover have "fits (dict_put (ls_queue_item_id l) l (qw_leases w1)) p"
    proof (rule fits_admitted [OF fit])
      assume "ls_policy_id l = qp_policy_id p"
      moreover from this have "p' = p" using assms(2-4) policy_id_unique [of p' p] by simp
      ultimately show "holding (\<lambda>l. ls_policy_id l = qp_policy_id p) (qw_leases w1) < qp_max_concurrent_runs_per_pack p
        \<and> holding (\<lambda>x. ls_policy_id x = qp_policy_id p \<and> ls_lane x = ls_lane l) (qw_leases w1) < qp_max_concurrent_runs_per_lane p"
        using False by (simp add: count_holding not_le)
    qed
    ultimately show ?thesis by simp
  qed
qed

section \<open>Capacity in every interleaving\<close>

text \<open>
  The calls that change leases, by any replica: an attempt under a declared policy, a delete, and anything else. Another
  replica has its own clock and settings, so the environment of a step is arbitrary.
\<close>

inductive lease_step :: "queue_world \<Rightarrow> queue_world \<Rightarrow> bool" where
  attempt: "p \<in> set row_policies \<Longrightarrow> ls_policy_id l = qp_policy_id p \<Longrightarrow>
     lease_step w (snd (try_admit (e :: queue_env) l (qp_max_concurrent_runs_per_pack p) (qp_max_concurrent_runs_per_lane p) w))"
| delete: "lease_step w (snd (delete_admission_lease k w))"
| other: "qw_leases w' = qw_leases w \<Longrightarrow> lease_step w w'"

lemma lease_step_capacity: "lease_step w w' \<Longrightarrow> within_capacity w \<Longrightarrow> within_capacity w'"
proof (induction rule: lease_step.induct)
  case (attempt p l w e)
  then show ?case unfolding within_capacity_def by (blast intro: fits_try_admit)
qed (simp_all add: within_capacity_def delete_admission_lease_def fits_pop)

lemma then_do_steps:
  assumes "lease_step\<^sup>*\<^sup>* w (snd p)" and "\<And>a w'. p = (Inr a, w') \<Longrightarrow> lease_step\<^sup>*\<^sup>* w' (snd (f a w'))"
  shows "lease_step\<^sup>*\<^sup>* w (snd (then_do p f))"
proof (cases p)
  case (Pair res w')
  then show ?thesis using assms by (cases res) (auto intro: rtranclp_trans)
qed

lemma one_other: "qw_leases w' = qw_leases w \<Longrightarrow> lease_step\<^sup>*\<^sup>* w w'"
  by (simp add: lease_step.other r_into_rtranclp)

lemma record_reclaimed_leases [simp]: "qw_leases (snd (record_reclaimed_lease_events e ls w)) = qw_leases w"
  by (induction ls arbitrary: w) (simp_all add: snd_then_do split: sum.splits)

lemma advance_item_leases [simp]: "qw_leases (snd (advance_item e item p lane q refs type from to w)) = qw_leases w"
  by (simp add: advance_item_def transition_queue_state_def snd_then_do split: sum.splits)

lemma start_admitted_steps:
  assumes "p \<in> set row_policies"
  shows "lease_step\<^sup>*\<^sup>* w (snd (start_admitted_item (e :: queue_env) item p lane q refs running w))"
proof -
  let ?l = "lease_of item p lane running (now_text e w) q refs"
  have "lease_step (read_on w) (snd (try_admit e ?l (qp_max_concurrent_runs_per_pack p) (qp_max_concurrent_runs_per_lane p) (read_on w)))"
    by (rule lease_step.attempt [OF assms]) (simp add: lease_of_def)
  then have "lease_step\<^sup>*\<^sup>* w (snd (try_admit e ?l (qp_max_concurrent_runs_per_pack p) (qp_max_concurrent_runs_per_lane p) (read_on w)))"
    using one_other [of "read_on w" w] by (meson read_on_simps(2) rtranclp.rtrancl_into_rtrancl)
  then show ?thesis unfolding start_admitted_item_def Let_def
    by (rule then_do_steps) (rule one_other, simp add: snd_then_do split: sum.splits)
qed

lemma admit_queued_steps:
  assumes "p \<in> set row_policies"
  shows "lease_step\<^sup>*\<^sup>* w (snd (admit_queued_item (e :: queue_env) item p lane q refs w))"
  unfolding admit_queued_item_def
  by (rule then_do_steps, simp add: one_other, rule then_do_steps)
    (simp_all add: one_other start_admitted_steps [OF assms] split: sum.splits)

lemma admit_requested_steps:
  assumes "p \<in> set row_policies"
  shows "lease_step\<^sup>*\<^sup>* w (snd (admit_requested_item (e :: queue_env) item p lane q refs w))"
  unfolding admit_requested_item_def admit_within_capacity_def
  by (rule then_do_steps) (simp_all add: one_other admit_queued_steps [OF assms])

lemma acquire_steps: "lease_step\<^sup>*\<^sup>* w (snd (acquire_workflow_pack_queue_admission (e :: queue_env) r q w))"
proof (cases "List.find (\<lambda>p. qp_workflow_pack_id p = rg_pack_id r \<and> qp_workflow_pack_version p = rg_version r) row_policies")
  case None
  then show ?thesis by (intro one_other) (simp add: acquire_workflow_pack_queue_admission_def Let_def)
next
  case (Some p)
  have "lease_step\<^sup>*\<^sup>* w (snd (admit_requested_item e item p lane q refs (snd (persist_request_snapshot_artifact_refs e item' r lane' q (read_on w)))))"
    for item lane refs item' lane'
    by (rule rtranclp_trans [OF one_other admit_requested_steps [OF find_policyD(1) [OF Some]]]) simp
  then show ?thesis
    by (simp add: acquire_workflow_pack_queue_admission_def Some Let_def split_beta one_other)
qed

lemma close_steps: "lease_step\<^sup>*\<^sup>* w (snd (finish_close (e :: queue_env) d w))"
proof (cases "\<exists>c. d = Inr (Some c)")
  case True
  then obtain c where d: "d = Inr (Some c)" by blast
  obtain b w' where c: "claim_close c w = (b, w')" by (cases "claim_close c w")
  have "lease_step\<^sup>*\<^sup>* w w'" using lease_step.delete [of w "ls_queue_item_id (cg_lease c)"] c by (simp add: claim_close_def r_into_rtranclp)
  moreover have "qw_leases (snd (finish_close e d w)) = qw_leases w'"
    by (cases b) (simp_all add: finish_close_def d c record_close_def snd_then_do split: sum.splits)
  ultimately show ?thesis using one_other rtranclp_trans by metis
qed (auto simp: finish_close_def split: sum.splits option.splits)

text \<open>Whole operations of the service, with repository calls of other replicas between them.\<close>

inductive admission_op :: "queue_world \<Rightarrow> queue_world \<Rightarrow> bool" where
  "admission_op w (snd (acquire_workflow_pack_queue_admission (e :: queue_env) r q w))"
| "admission_op w (snd (release_workflow_pack_queue_admission (e :: queue_env) item now w))"
| "admission_op w (snd (cancel_workflow_pack_queue_admission (e :: queue_env) item actor reason evidence w))"
| "lease_step w w' \<Longrightarrow> admission_op w w'"

lemma release_steps: "lease_step\<^sup>*\<^sup>* w (snd (release_workflow_pack_queue_admission (e :: queue_env) item now w))"
  unfolding release_workflow_pack_queue_admission_def
  by (rule then_do_steps, rule rtranclp_trans [OF one_other close_steps]) simp_all

lemma admission_op_steps: "admission_op w w' \<Longrightarrow> lease_step\<^sup>*\<^sup>* w w'"
  by (induction rule: admission_op.induct)
    (simp_all add: acquire_steps release_steps close_steps cancel_workflow_pack_queue_admission_def r_into_rtranclp)

lemma steps_capacity: "lease_step\<^sup>*\<^sup>* w w' \<Longrightarrow> within_capacity w \<Longrightarrow> within_capacity w'"
  by (induction rule: rtranclp_induct) (auto intro: lease_step_capacity)

lemma ops_capacity: "admission_op\<^sup>*\<^sup>* w w' \<Longrightarrow> within_capacity w \<Longrightarrow> within_capacity w'"
  by (induction rule: rtranclp_induct) (auto intro: steps_capacity dest: admission_op_steps)

text \<open>
  C28. The concurrency limits of the queue policies hold in every interleaving: whatever replicas admit, release and cancel, a
  policy never has more leases than its limit per pack, nor more in a lane than its limit per lane.
\<close>

theorem capacity_never_exceeded:
  assumes "admission_op\<^sup>*\<^sup>* w0 w" and "qw_leases w0 = []" and "p \<in> set row_policies"
  shows "count_leases (qp_policy_id p) w \<le> qp_max_concurrent_runs_per_pack p
     \<and> count_lane_leases (qp_policy_id p) lane w \<le> qp_max_concurrent_runs_per_lane p"
proof -
  have "within_capacity w0" using assms(2) by (simp add: within_capacity_def fits_def)
  then show ?thesis using ops_capacity [OF assms(1)] assms(3) by (auto simp: within_capacity_def fits_def count_holding)
qed

section \<open>Expired leases\<close>

definition leases_keyed :: "(string, admission_lease) dict \<Rightarrow> bool" where
  "leases_keyed d \<longleftrightarrow> dict_wf d \<and> (\<forall>(k, l)\<in>set d. k = ls_queue_item_id l)"

lemma set_pops: "set (fold (\<lambda>l. dict_pop (f l)) ls d) = {(k, l) \<in> set d. k \<notin> f ` set ls}"
proof (induction ls arbitrary: d)
  case (Cons x ls)
  show ?case using Cons.IH [of "dict_pop (f x) d"] by (auto simp: AList.delete_eq)
qed simp

lemma reclaimed_all:
  assumes "leases_keyed (qw_leases w)" and "\<forall>l\<in>set (list_admission_leases w). ls_policy_id l = pid \<longrightarrow> ls_admitted_at l < cutoff"
    and "\<And>l. P l \<Longrightarrow> ls_policy_id l = pid"
  shows "holding P (fold (\<lambda>l. dict_pop (ls_queue_item_id l)) (expired_leases pid cutoff w) (qw_leases w)) = 0"
proof -
  let ?d = "fold (\<lambda>l. dict_pop (ls_queue_item_id l)) (expired_leases pid cutoff w) (qw_leases w)"
  have "\<not> P l" if "(k, l) \<in> set ?d" for k l
  proof
    assume "P l"
    have kl: "(k, l) \<in> set (qw_leases w)" "k \<notin> ls_queue_item_id ` set (expired_leases pid cutoff w)" using that unfolding set_pops by auto
    then have "l \<in> set (list_admission_leases w)" "k = ls_queue_item_id l" using assms(1) by (force simp: list_admission_leases_def leases_keyed_def)+
    then have "l \<in> set (expired_leases pid cutoff w)" using assms(2,3) \<open>P l\<close> by (simp add: expired_leases_def)
    then show False using kl(2) \<open>k = ls_queue_item_id l\<close> by simp
  qed
  then show ?thesis by (auto simp: holding_def filter_empty_conv)
qed

lemma policy_limits_positive:
  assumes "p \<in> set row_policies"
  shows "0 < qp_max_concurrent_runs_per_pack p" "0 < qp_max_concurrent_runs_per_lane p"
proof -
  have "policy_fields_bounded p" using row_policy_valid [OF assms] by (auto simp: queue_policy_must_be_bounded_def split: if_splits)
  then show "0 < qp_max_concurrent_runs_per_pack p" "0 < qp_max_concurrent_runs_per_lane p" by (simp_all add: policy_fields_bounded_def)
qed

lemma acquire_refused_at_capacity:
  assumes "get_workflow_pack_queue_policy_descriptor (rg_pack_id r) (rg_version r) = Inr (Some p)"
    and "qp_max_concurrent_runs_per_pack p \<le> count_leases (qp_policy_id p) w"
  shows "\<exists>err. fst (acquire_workflow_pack_queue_admission e r q w) = Inl err
     \<and> qw_leases (snd (acquire_workflow_pack_queue_admission e r q w)) = qw_leases w"
proof -
  have rej: "\<exists>err. fst (reject_admission e ev err0 x :: admission_lease result \<times> _) = Inl err" for ev err0 x
    by (simp add: reject_admission_def fst_then_do split: sum.splits)
  have full: "admit_within_capacity e item p lane q refs x = raise_capacity_rejection e item p lane q refs pack_limit_code x"
    if "qw_leases x = qw_leases w" for item lane refs x
    using that assms(2) by (simp add: admit_within_capacity_def count_holding)
  have item: "\<exists>err. fst (admit_requested_item e item p lane q refs x) = Inl err" "qw_leases (snd (admit_requested_item e item p lane q refs x)) = qw_leases w"
    if "qw_leases x = qw_leases w" for item lane refs x
    using rej that by (auto simp: admit_requested_item_def full raise_capacity_rejection_def fst_then_do snd_then_do split: sum.splits)
  show ?thesis
    by (simp add: acquire_workflow_pack_queue_admission_def Let_def split_beta assms(1) item del: get_policy_simps)
qed

text \<open>
  C31. Expired leases that fill a policy's capacity block it for good: every later request is refused and leaves them in
  place, although the admission attempt of the repository would reclaim them all and admit the request.
\<close>

theorem expired_leases_block_admission:
  assumes "get_workflow_pack_queue_policy_descriptor (rg_pack_id r) (rg_version r) = Inr (Some p)"
    and "leases_keyed (qw_leases w)" and "qp_max_concurrent_runs_per_pack p \<le> count_leases (qp_policy_id p) w"
    and "0 < qe_lease_ttl_seconds e" and "sub_seconds (nat (qe_lease_ttl_seconds e)) (qe_now e (qw_readings w)) = Inr cutoff"
    and "\<forall>l\<in>set (list_admission_leases w). ls_policy_id l = qp_policy_id p \<longrightarrow> ls_admitted_at l < offset_text cutoff"
    and "ls_policy_id lease = qp_policy_id p"
  shows "(\<exists>attempt. fst (try_admit e lease (qp_max_concurrent_runs_per_pack p) (qp_max_concurrent_runs_per_lane p) w) = Inr attempt \<and> at_admitted attempt)
     \<and> (\<forall>e' q. \<exists>err. fst (acquire_workflow_pack_queue_admission e' r q w) = Inl err
          \<and> qw_leases (snd (acquire_workflow_pack_queue_admission e' r q w)) = qw_leases w)"
proof (intro conjI allI)
  have "p \<in> set row_policies" using assms(1) by (auto dest: find_policyD)
  note pos = policy_limits_positive [OF this]
  show "\<exists>attempt. fst (try_admit e lease (qp_max_concurrent_runs_per_pack p) (qp_max_concurrent_runs_per_lane p) w) = Inr attempt \<and> at_admitted attempt"
    using assms(4,5,7) pos reclaimed_all [OF assms(2,6), of "\<lambda>l. ls_policy_id l = qp_policy_id p"]
      reclaimed_all [OF assms(2,6), of "\<lambda>l. ls_policy_id l = qp_policy_id p \<and> ls_lane l = ls_lane lease"]
    by (simp add: try_admit_def reclaim_expired_leases_def Let_def count_holding)
qed (rule acquire_refused_at_capacity [OF assms(1,3)])

section \<open>One terminal event per item\<close>

text \<open>
  Every replica works on the shared world \<open>w\<close>. \<open>A\<close> holds the items whose admission is under way, \<open>D\<close> the releases and
  cancellations that have read a lease and decided, and \<open>C\<close> those whose delete (or reclamation) removed it and whose event is
  still to be recorded.
\<close>

definition terminal_admission :: "queue_event_type \<Rightarrow> bool" where
  "terminal_admission t \<longleftrightarrow> t \<in> {ADMISSION_REJECTED, ADMISSION_RELEASED, ADMISSION_CANCELLED, ADMISSION_TIMED_OUT, ADMISSION_RECLAIMED}"

definition ends_item :: "string \<Rightarrow> queue_event \<Rightarrow> bool" where
  "ends_item i ev \<longleftrightarrow> qv_queue_item_id ev = i \<and> terminal_admission (qv_event_type ev)"

definition terminal_count :: "string \<Rightarrow> (string, queue_event) dict \<Rightarrow> nat" where
  "terminal_count i d = length (filter (ends_item i) (dict_values d))"

definition reclaim_closing :: "admission_lease \<Rightarrow> lease_closing" where
  "reclaim_closing l = \<lparr>cg_lease = l, cg_event_type = ADMISSION_RECLAIMED, cg_state = WPQ_TIMED_OUT, cg_reason = Some ''ADMISSION_LEASE_EXPIRED''\<rparr>"

type_synonym queue_system = "queue_world \<times> string list \<times> lease_closing list \<times> lease_closing list"

inductive queue_step :: "queue_env \<Rightarrow> queue_system \<Rightarrow> queue_system \<Rightarrow> bool" for e where
  enter: "queue_step e (w, A, D, C) (read_on w, (''wpq_'' @ fresh_hex e w) # A, D, C)"
| note_event: "\<not> terminal_admission (qv_event_type q) \<Longrightarrow> queue_step e (w, A, D, C) (snd (record_workflow_pack_queue_event e q w), A, D, C)"
| touch: "qw_events w' = qw_events w \<Longrightarrow> qw_leases w' = qw_leases w \<Longrightarrow> qw_readings w \<le> qw_readings w' \<Longrightarrow> queue_step e (w, A, D, C) (w', A, D, C)"
| attempt: "ls_queue_item_id l \<in> set A \<Longrightarrow> try_admit e l pack_limit lane_limit w = (Inr tr, w') \<Longrightarrow>
     queue_step e (w, A, D, C)
       (w', if at_admitted tr then remove1 (ls_queue_item_id l) A else A, D, map reclaim_closing (at_reclaimed_leases tr) @ C)"
| reject: "qv_event_type q = ADMISSION_REJECTED \<Longrightarrow> qv_queue_item_id q \<in> set A \<Longrightarrow>
     queue_step e (w, A, D, C) (snd (record_workflow_pack_queue_event e q w), remove1 (qv_queue_item_id q) A, D, C)"
| decide: "get_lease w item = Some (cg_lease c) \<Longrightarrow> queue_step e (w, A, D, C) (w, A, c # D, C)"
| claim: "c \<in> set D \<Longrightarrow> claim_close c w = (won, w') \<Longrightarrow> queue_step e (w, A, D, C) (w', A, remove1 c D, if won then c # C else C)"
| close: "c \<in> set C \<Longrightarrow> queue_step e (w, A, D, C) (snd (record_close e c w), A, D, remove1 c C)"

abbreviation closes_item :: "string \<Rightarrow> lease_closing \<Rightarrow> bool" where
  "closes_item i c \<equiv> ls_queue_item_id (cg_lease c) = i"

text \<open>The claims to the end of an item: its admission, its lease, a pending event, an event.\<close>

fun claims_on :: "string \<Rightarrow> queue_system \<Rightarrow> nat" where
  "claims_on i (w, A, D, C) =
     count_list A i + (if get_lease w i \<noteq> None then 1 else 0) + length (filter (closes_item i) C) + terminal_count i (qw_events w)"

lemma terminal_count_put_le: "terminal_count i (dict_put k ev d) \<le> terminal_count i d + (if ends_item i ev then 1 else 0)"
  by (induction d) (auto simp: terminal_count_def)

lemma terminal_count_record:
  "terminal_count i (qw_events (snd (record_workflow_pack_queue_event e q w)))
     \<le> terminal_count i (qw_events w) + (if qv_queue_item_id q = i \<and> terminal_admission (qv_event_type q) then 1 else 0)"
  using record_event_cases [of e q w]
proof
  assume "\<exists>ev. record_workflow_pack_queue_event e q w = (Inr ev, read_on (save_queue_event ev w))
        \<and> qv_event_id ev = ''workflow-pack-queue-event-'' @ fresh_hex e w
        \<and> qv_queue_item_id ev = qv_queue_item_id q \<and> qv_event_type ev = qv_event_type q"
  then obtain ev where ev: "snd (record_workflow_pack_queue_event e q w) = read_on (save_queue_event ev w)"
    "qv_queue_item_id ev = qv_queue_item_id q" "qv_event_type ev = qv_event_type q" by auto
  then show ?thesis using terminal_count_put_le [of i "qv_event_id ev" ev "qw_events w"] by (simp add: save_queue_event_def ends_item_def)
qed simp

lemma get_lease_leases: "qw_leases w' = qw_leases w \<Longrightarrow> get_lease w' i = get_lease w i"
  by (simp add: get_lease_def)

lemma length_filter_remove1: "c \<in> set C \<Longrightarrow> length (filter P (remove1 c C)) + (if P c then 1 else 0) = length (filter P C)"
  by (induction C) auto

lemma count_list_remove1: "x \<in> set A \<Longrightarrow> count_list (remove1 x A) i + (if x = i then 1 else 0) = count_list A i"
  by (induction A) auto

lemma dict_get_pops: "dict_get (fold (\<lambda>l. dict_pop (f l)) ls d) i = (if i \<in> f ` set ls then None else dict_get d i)"
  by (induction ls arbitrary: d) auto

lemma leases_keyed_pops: "leases_keyed d \<Longrightarrow> leases_keyed (fold (\<lambda>l. dict_pop (f l)) ls d)"
proof (induction ls arbitrary: d)
  case (Cons l ls)
  have "leases_keyed (dict_pop (f l) d)" using Cons.prems by (auto simp: leases_keyed_def AList.delete_eq distinct_map_filter)
  then show ?case using Cons.IH by simp
qed simp

lemma leases_keyed_put: "leases_keyed d \<Longrightarrow> leases_keyed (dict_put (ls_queue_item_id l) l d)"
  using set_dict_put_subset [of "ls_queue_item_id l" l d] by (auto simp: leases_keyed_def)

lemma distinct_keys_filter: "distinct (map f xs) \<Longrightarrow> length (filter (\<lambda>x. f x = i) xs) \<le> 1"
proof (induction xs)
  case (Cons x xs)
  have "f x \<notin> f ` set xs" using Cons.prems by simp
  then have "filter (\<lambda>y. f y = f x) xs = []" unfolding filter_empty_conv by (metis imageI)
  then show ?case using Cons by (cases "f x = i") auto
qed simp

lemma reclaim_transfers:
  assumes "leases_keyed d" and "R = filter P (dict_values d)"
  shows "(if dict_get (fold (\<lambda>l. dict_pop (ls_queue_item_id l)) R d) i \<noteq> None then 1 else 0)
     + length (filter (\<lambda>l. ls_queue_item_id l = i) R) \<le> (if dict_get d i \<noteq> None then 1 else (0::nat))"
proof (cases "i \<in> ls_queue_item_id ` set R")
  case False
  then have "filter (\<lambda>l. ls_queue_item_id l = i) R = []" by (auto simp: filter_empty_conv)
  then show ?thesis using False by (simp add: dict_get_pops)
next
  case True
  have ids: "map ls_queue_item_id (dict_values d) = dict_keys d" using assms(1) by (auto simp: leases_keyed_def)
  then have "distinct (map ls_queue_item_id (dict_values d))" using assms(1) by (simp only: leases_keyed_def)
  then have "length (filter (\<lambda>l. ls_queue_item_id l = i) R) \<le> 1"
    unfolding assms(2) by (intro distinct_keys_filter distinct_map_filter)
  moreover have "i \<in> set (map ls_queue_item_id (dict_values d))" using True assms(2) by auto
  then have "dict_get d i \<noteq> None" unfolding ids by (simp add: map_of_eq_None_iff)
  ultimately show ?thesis using True by (simp add: dict_get_pops)
qed

lemma try_admit_success:
  assumes "try_admit e l pack_limit lane_limit w = (Inr tr, w')"
  obtains P where "at_reclaimed_leases tr = filter P (dict_values (qw_leases w))"
    and "qw_events w' = qw_events w"
    and "qw_readings w \<le> qw_readings w'"
    and "qw_leases w' = (let d = fold (\<lambda>l. dict_pop (ls_queue_item_id l)) (at_reclaimed_leases tr) (qw_leases w)
           in if at_admitted tr then dict_put (ls_queue_item_id l) l d else d)"
proof (cases rule: reclaim_cases [of e "ls_policy_id l" w])
  case (1 err)
  then show ?thesis using assms by (simp add: try_admit_def)
next
  case 2
  then show ?thesis using assms that [of "\<lambda>_. False"] by (auto simp: try_admit_def Let_def split: if_splits)
next
  case (3 cutoff)
  then show ?thesis
    using assms that [of "\<lambda>x. ls_policy_id x = ls_policy_id l \<and> ls_admitted_at x < cutoff"]
    by (auto simp: try_admit_def Let_def expired_leases_def list_admission_leases_def split: if_splits)
qed

lemma closes_reclaimed: "length (filter (closes_item i) (map reclaim_closing R @ C)) = length (filter (\<lambda>l. ls_queue_item_id l = i) R) + length (filter (closes_item i) C)"
  by (simp add: filter_map comp_def reclaim_closing_def)

text \<open>Every step but the entry of a new item keeps or drops the claims on an item.\<close>

lemma attempt_claims:
  assumes "ls_queue_item_id l \<in> set A" and "try_admit e l pack_limit lane_limit w = (Inr tr, w')" and "leases_keyed (qw_leases w)"
  shows "claims_on i (w', if at_admitted tr then remove1 (ls_queue_item_id l) A else A, D, map reclaim_closing (at_reclaimed_leases tr) @ C)
     \<le> claims_on i (w, A, D, C)" and "leases_keyed (qw_leases w')" and "qw_readings w \<le> qw_readings w'"
proof -
  from assms(2) obtain P where R: "at_reclaimed_leases tr = filter P (dict_values (qw_leases w))" and ev: "qw_events w' = qw_events w"
    and rd: "qw_readings w \<le> qw_readings w'"
    and d: "qw_leases w' = (let d = fold (\<lambda>l. dict_pop (ls_queue_item_id l)) (at_reclaimed_leases tr) (qw_leases w)
           in if at_admitted tr then dict_put (ls_queue_item_id l) l d else d)" by (rule try_admit_success)
  show "qw_readings w \<le> qw_readings w'" by (rule rd)
  show "leases_keyed (qw_leases w')" 
    using leases_keyed_pops [OF assms(3), of ls_queue_item_id "at_reclaimed_leases tr"] by (simp add: d Let_def leases_keyed_put)
  show "claims_on i (w', if at_admitted tr then remove1 (ls_queue_item_id l) A else A, D, map reclaim_closing (at_reclaimed_leases tr) @ C)
     \<le> claims_on i (w, A, D, C)"
    using reclaim_transfers [OF assms(3) R, of i] count_list_remove1 [OF assms(1), of i]
    unfolding claims_on.simps closes_reclaimed ev get_lease_def d Let_def by (auto split: if_splits)
qed

definition minted :: "queue_env \<Rightarrow> nat \<Rightarrow> string \<Rightarrow> bool" where
  "minted e n i \<longleftrightarrow> (\<exists>k<n. i = ''wpq_'' @ qe_uuid e k)"

fun system_ok :: "queue_env \<Rightarrow> queue_system \<Rightarrow> bool" where
  "system_ok e (w, A, D, C) \<longleftrightarrow> leases_keyed (qw_leases w)
     \<and> (\<forall>i. claims_on i (w, A, D, C) \<le> 1 \<and> (0 < claims_on i (w, A, D, C) \<longrightarrow> minted e (qw_readings w) i))"

lemma system_ok_mono:
  assumes "system_ok e (w, A, D, C)" and "leases_keyed (qw_leases w')" and "qw_readings w \<le> qw_readings w'"
    and "\<And>i. claims_on i (w', A', D', C') \<le> claims_on i (w, A, D, C)"
  shows "system_ok e (w', A', D', C')"
proof -
  have "minted e (qw_readings w') i" if m: "minted e (qw_readings w) i" for i
  proof -
    from m obtain k where "k < qw_readings w" "i = ''wpq_'' @ qe_uuid e k" unfolding minted_def by blast
    then show ?thesis using assms(3) unfolding minted_def by (intro exI [of _ k]) simp
  qed
  then show ?thesis using assms(1,2,4) unfolding system_ok.simps by (meson le_trans less_le_trans)
qed

lemma queue_step_ok:
  assumes "queue_step e s s'" and "inj (qe_uuid e)" and "system_ok e s"
  shows "system_ok e s'"
  using assms(1,3)
proof (induction rule: queue_step.induct)
  case (enter w A D C)
  let ?n = "''wpq_'' @ fresh_hex e w"
  have "\<not> minted e (qw_readings w) ?n" using assms(2) by (auto simp: minted_def inj_eq)
  moreover have "0 < claims_on ?n (w, A, D, C) \<longrightarrow> minted e (qw_readings w) ?n" using enter unfolding system_ok.simps by blast
  ultimately have zero: "claims_on ?n (w, A, D, C) = 0" by blast
  have "claims_on i (read_on w, ?n # A, D, C) = (if i = ?n then 1 else claims_on i (w, A, D, C))" for i
    using zero by (auto simp: get_lease_def)
  moreover have "minted e (Suc (qw_readings w)) ?n" "minted e (qw_readings w) i \<Longrightarrow> minted e (Suc (qw_readings w)) i" for i
    by (auto simp: minted_def less_Suc_eq)
  ultimately show ?case using enter by (simp del: claims_on.simps)
next
  case (note_event q w A D C)
  show ?case
    by (rule system_ok_mono [OF note_event.prems])
      (use note_event in \<open>auto simp: get_lease_def intro: order_trans [OF terminal_count_record]\<close>)
next
  case (touch w' w A D C)
  show ?case by (rule system_ok_mono [OF touch.prems]) (use touch in \<open>auto simp: get_lease_def\<close>)
next
  case (attempt l A pl ll w tr w' D C)
  note a = attempt_claims [OF attempt.hyps]
  show ?case by (rule system_ok_mono [OF attempt.prems]) (use attempt.prems a in \<open>simp_all del: claims_on.simps\<close>)
next
  case (reject q A w D C)
  show ?case
  proof (rule system_ok_mono [OF reject.prems])
    show "claims_on i (snd (record_workflow_pack_queue_event e q w), remove1 (qv_queue_item_id q) A, D, C) \<le> claims_on i (w, A, D, C)" for i
      using terminal_count_record [of i e q w] count_list_remove1 [OF reject.hyps(2), of i] by (auto simp: get_lease_def split: if_splits)
  qed (use reject in simp_all)
next
  case (decide w item c A D C)
  then show ?case by simp
next
  case (claim c D w won w' A C)
  have w': "qw_events w' = qw_events w" "qw_readings w' = qw_readings w" "qw_leases w' = dict_pop (ls_queue_item_id (cg_lease c)) (qw_leases w)"
    "won = (get_lease w (ls_queue_item_id (cg_lease c)) \<noteq> None)"
    using claim.hyps(2) by (auto simp: claim_close_def delete_admission_lease_def)
  show ?case
  proof (rule system_ok_mono [OF claim.prems])
    show "leases_keyed (qw_leases w')"
      using claim.prems leases_keyed_pops [of "qw_leases w" "\<lambda>_. ls_queue_item_id (cg_lease c)" "[c]"] by (simp add: w')
    show "claims_on i (w', A, remove1 c D, if won then c # C else C) \<le> claims_on i (w, A, D, C)" for i
      by (auto simp: w' get_lease_def)
  qed (simp add: w')
next
  case (close c C w A D)
  show ?case
  proof (rule system_ok_mono [OF close.prems])
    show "claims_on i (snd (record_close e c w), A, D, remove1 c C) \<le> claims_on i (w, A, D, C)" for i
      using terminal_count_record [of i e "lease_event (cg_lease c) (cg_event_type c) (cg_state c) (cg_reason c)" w]
        length_filter_remove1 [OF close.hyps, of "closes_item i"]
      by (auto simp: record_close_def get_lease_def lease_event_def split: if_splits)
  qed (use close.prems in \<open>simp_all add: record_close_def\<close>)
qed

text \<open>
  C29. The history of a queue item ends once: whatever replicas admit, reclaim, release and cancel at the same time, at most one
  terminal event is recorded for an item by the admission service, and none while it still holds its lease.
\<close>

theorem one_terminal_event_per_item:
  assumes "inj (qe_uuid e)" and "(queue_step e)\<^sup>*\<^sup>* (w0, [], [], []) (w, A, D, C)" and "qw_leases w0 = []" and "qw_events w0 = []"
  shows "terminal_count item (qw_events w) \<le> 1 \<and> (get_lease w item \<noteq> None \<longrightarrow> terminal_count item (qw_events w) = 0)"
proof -
  have start: "system_ok e (w0, [], [], [])" using assms(3,4) by (simp add: leases_keyed_def get_lease_def terminal_count_def)
  have "system_ok e s" if "(queue_step e)\<^sup>*\<^sup>* (w0, [], [], []) s" for s
    using that
  proof (induction rule: rtranclp_induct)
    case (step y z)
    show ?case by (rule queue_step_ok [OF step.hyps(2) assms(1) step.IH])
  qed (rule start)
  from this [OF assms(2)] have "claims_on item (w, A, D, C) \<le> 1" by simp
  then show ?thesis by (auto split: if_splits)
qed

section \<open>The operations are such runs\<close>

abbreviation queue_run :: "queue_env \<Rightarrow> queue_system \<Rightarrow> queue_system \<Rightarrow> bool" where
  "queue_run e \<equiv> (queue_step e)\<^sup>*\<^sup>*"

lemma run_note:
  "\<not> terminal_admission (qv_event_type q) \<Longrightarrow> record_workflow_pack_queue_event e q w = (res, w') \<Longrightarrow> queue_run e (w, A, D, C) (w', A, D, C)"
  using queue_step.note_event [of q e w A D C] by (auto intro: r_into_rtranclp)

lemma run_touch:
  "qw_events w' = qw_events w \<Longrightarrow> qw_leases w' = qw_leases w \<Longrightarrow> qw_readings w \<le> qw_readings w' \<Longrightarrow> queue_run e (w, A, D, C) (w', A, D, C)"
  by (blast intro: r_into_rtranclp queue_step.touch)

lemma run_reclaimed:
  "record_reclaimed_lease_events e ls w = (res, w') \<Longrightarrow> \<exists>C'. queue_run e (w, A, D, map reclaim_closing ls @ C) (w', A, D, C')"
proof (induction ls arbitrary: w)
  case (Cons l ls)
  let ?c = "reclaim_closing l"
  obtain r1 w1 where r1: "record_close e ?c w = (r1, w1)" by (cases "record_close e ?c w")
  have step: "queue_run e (w, A, D, map reclaim_closing (l # ls) @ C) (w1, A, D, map reclaim_closing ls @ C)"
    using queue_step.close [of ?c "map reclaim_closing (l # ls) @ C" e w A D] r1 by (auto intro: r_into_rtranclp)
  have "record_workflow_pack_queue_event e (lease_event l ADMISSION_RECLAIMED WPQ_TIMED_OUT (Some ''ADMISSION_LEASE_EXPIRED'')) w = (r1, w1)"
    using r1 by (simp add: record_close_def reclaim_closing_def)
  with Cons.prems consider "w' = w1" | "record_reclaimed_lease_events e ls w1 = (res, w')" by (cases r1) auto
  then show ?case using Cons.IH step by cases (blast intro: rtranclp_trans)+
qed auto

lemma run_seq:
  assumes "queue_run e s (snd p, A, D, C)" and "\<And>a. fst p = Inr a \<Longrightarrow> \<exists>A' D' C'. queue_run e (snd p, A, D, C) (snd (f a (snd p)), A', D', C')"
  shows "\<exists>A' D' C'. queue_run e s (snd (then_do p f), A', D', C')"
proof (cases "fst p")
  case (Inr a)
  then show ?thesis using assms(2) [OF Inr] assms(1) by (simp add: snd_then_do) (meson rtranclp_trans)
qed (use assms(1) in \<open>auto simp: snd_then_do\<close>)

lemma run_reject:
  assumes "qv_event_type q = ADMISSION_REJECTED" and "qv_queue_item_id q \<in> set A"
  shows "\<exists>A' D' C'. queue_run e (w, A, D, C) (snd (reject_admission e q err w), A', D', C')"
proof -
  have "queue_run e (w, A, D, C) (snd (record_workflow_pack_queue_event e q w), remove1 (qv_queue_item_id q) A, D, C)"
    using queue_step.reject [OF assms] by (rule r_into_rtranclp)
  then show ?thesis unfolding reject_admission_def by (rule run_seq) auto
qed

lemma run_capacity_rejection:
  assumes "item \<in> set A"
  shows "\<exists>A' D' C'. queue_run e (w, A, D, C) (snd (raise_capacity_rejection e item p lane q refs code w), A', D', C')"
  unfolding raise_capacity_rejection_def by (rule run_reject) (simp_all add: policy_event_def admission_event_def assms)

lemma run_policy_event:
  "\<not> terminal_admission type \<Longrightarrow>
     queue_run e (w, A, D, C) (snd (record_workflow_pack_queue_event e (policy_event item type state p lane q refs) w), A, D, C)"
  by (rule r_into_rtranclp) (rule queue_step.note_event, simp add: policy_event_def admission_event_def)

lemma try_admit_failure:
  assumes "fst (try_admit e l pack_limit lane_limit w) = Inl err"
  shows "snd (try_admit e l pack_limit lane_limit w) = read_on w"
  using assms by (cases rule: reclaim_cases [of e "ls_policy_id l" w]) (auto simp: try_admit_def Let_def)

lemma start_admitted_run:
  assumes "item \<in> set A"
  shows "\<exists>A' D' C'. queue_run e (w, A, D, C) (snd (start_admitted_item e item p lane q refs running w), A', D', C')"
proof -
  let ?l = "lease_of item p lane running (now_text e w) q refs"
  let ?p = "try_admit e ?l (qp_max_concurrent_runs_per_pack p) (qp_max_concurrent_runs_per_lane p) (read_on w)"
  have id: "ls_queue_item_id ?l = item" by (simp add: lease_of_def)
  have enter: "queue_run e (w, A, D, C) (read_on w, A, D, C)" by (rule run_touch) simp_all
  show ?thesis
  proof (cases "fst ?p")
    case (Inl err)
    then have "snd (start_admitted_item e item p lane q refs running w) = read_on (read_on w)"
      by (simp add: start_admitted_item_def Let_def snd_then_do try_admit_failure)
    then show ?thesis using run_touch [of "read_on (read_on w)" w e A D C] by auto
  next
    case (Inr tr)
    let ?A = "if at_admitted tr then remove1 item A else A" and ?C = "map reclaim_closing (at_reclaimed_leases tr) @ C"
    let ?r = "record_reclaimed_lease_events e (at_reclaimed_leases tr) (snd ?p)"
    have "?p = (Inr tr, snd ?p)" by (simp add: Inr [symmetric])
    then have "queue_step e (read_on w, A, D, C) (snd ?p, ?A, D, ?C)"
      using queue_step.attempt [of ?l A e "qp_max_concurrent_runs_per_pack p" "qp_max_concurrent_runs_per_lane p" "read_on w" tr "snd ?p" D C] assms
      unfolding id by blast
    then have first: "queue_run e (w, A, D, C) (snd ?p, ?A, D, ?C)" using enter by (rule rtranclp.rtrancl_into_rtrancl [rotated])
    obtain C1 where "queue_run e (snd ?p, ?A, D, ?C) (snd ?r, ?A, D, C1)"
      using run_reclaimed [of e "at_reclaimed_leases tr" "snd ?p" "fst ?r" "snd ?r" ?A D C] by auto
    with first have second: "queue_run e (w, A, D, C) (snd ?r, ?A, D, C1)" by (rule rtranclp_trans)
    have "\<exists>A' D' C'. queue_run e (w, A, D, C) (snd (then_do ?r (\<lambda>_ w2.
        if \<not> at_admitted tr
        then raise_capacity_rejection e item p lane q refs
               (if at_active_pack_count tr \<ge> qp_max_concurrent_runs_per_pack p then pack_limit_code else lane_limit_code) w2
        else then_do (record_workflow_pack_queue_event e (policy_event item ADMISSION_GRANTED running p lane q refs) w2)
               (\<lambda>_ w3. (Inr ?l, w3)))), A', D', C')"
    proof (rule run_seq [OF second])
      fix a
      show "\<exists>A' D' C'. queue_run e (snd ?r, ?A, D, C1) (snd (if \<not> at_admitted tr
        then raise_capacity_rejection e item p lane q refs
               (if at_active_pack_count tr \<ge> qp_max_concurrent_runs_per_pack p then pack_limit_code else lane_limit_code) (snd ?r)
        else then_do (record_workflow_pack_queue_event e (policy_event item ADMISSION_GRANTED running p lane q refs) (snd ?r))
               (\<lambda>_ w3. (Inr ?l, w3))), A', D', C')"
      proof (cases "at_admitted tr")
        case True
        show ?thesis using True by simp (rule run_seq [OF run_policy_event]; auto simp: terminal_admission_def)
      qed (simp add: run_capacity_rejection assms)
    qed
    then show ?thesis by (simp add: start_admitted_item_def Let_def snd_then_do [of ?p] Inr)
  qed
qed

lemma advance_item_run:
  assumes "\<not> terminal_admission type"
  shows "queue_run e (w, A, D, C) (snd (advance_item e item p lane q refs type from to w), A, D, C)"
proof (cases "transition_queue_state from to")
  case (Inr s)
  then show ?thesis using run_policy_event [OF assms, of e w A D C item s p lane q refs] by (simp add: advance_item_def snd_then_do split: sum.splits)
qed (simp add: advance_item_def)

lemma admit_requested_run:
  assumes "item \<in> set A"
  shows "\<exists>A' D' C'. queue_run e (w, A, D, C) (snd (admit_requested_item e item p lane q refs w), A', D', C')"
proof -
  have queued: "\<exists>A' D' C'. queue_run e (x, A, D, C) (snd (admit_queued_item e item p lane q refs x), A', D', C')" for x
    unfolding admit_queued_item_def
  proof (rule run_seq [OF advance_item_run])
    fix s
    let ?w = "snd (advance_item e item p lane q refs ADMISSION_QUEUED WPQ_NOT_ADMITTED WPQ_QUEUED x)"
    show "\<exists>A' D' C'. queue_run e (?w, A, D, C) (snd (then_do (advance_item e item p lane q refs ADMISSION_ADMITTED s WPQ_ADMITTED ?w)
      (\<lambda>admitted w2. case transition_queue_state admitted WPQ_RUNNING of Inl err \<Rightarrow> (Inl err, w2)
        | Inr running \<Rightarrow> start_admitted_item e item p lane q refs running w2)), A', D', C')"
      by (rule run_seq [OF advance_item_run]) (auto simp: terminal_admission_def start_admitted_run [OF assms] split: sum.splits)
  qed (simp add: terminal_admission_def)
  show ?thesis unfolding admit_requested_item_def admit_within_capacity_def
    by (rule run_seq [OF run_policy_event])
      (auto simp: terminal_admission_def queued run_capacity_rejection [OF assms] policy_event_def admission_event_def assms intro!: run_reject)
qed

lemma persist_snapshot_readings: "qw_readings w \<le> qw_readings (snd (persist_request_snapshot_artifact_refs e item r lane q w))"
  by (auto simp: persist_request_snapshot_artifact_refs_def persist_or_reuse_json_artifact_def persist_json_artifact_def
      stage_json_artifact_def put_object_def save_artifact_def Let_def split: option.splits)

text \<open>An admission, from its entry on, is a run: it may end with its item still claimed when the event store fails under it.\<close>

lemma acquire_is_run: "\<exists>A' D' C'. queue_run e (w, A, D, C) (snd (acquire_workflow_pack_queue_admission e r q w), A', D', C')"
proof (cases "qe_ready e (qw_readings w)")
  case False
  then show ?thesis using run_touch [of "read_on w" w e A D C] by (auto simp: acquire_workflow_pack_queue_admission_def)
next
  case True
  let ?i = "''wpq_'' @ fresh_hex e w"
  have entered: "queue_run e (w, A, D, C) (read_on w, ?i # A, D, C)" by (rule r_into_rtranclp) (rule queue_step.enter)
  show ?thesis
  proof (cases "List.find (\<lambda>p. qp_workflow_pack_id p = rg_pack_id r \<and> qp_workflow_pack_version p = rg_version r) row_policies")
    case None
    let ?rej = "reject_admission e ((admission_event ?i ADMISSION_REJECTED WPQ_REJECTED
        (rg_pack_id r) (rg_version r) (aq_requested_lane q) q)\<lparr>qv_reason_code := Some ''QUEUE_POLICY_NOT_FOUND''\<rparr>)
        (HTTPException 409 ''queue_policy_not_declared'') (read_on w) :: admission_lease result \<times> _"
    have "\<exists>A' D' C'. queue_run e (read_on w, ?i # A, D, C) (snd ?rej, A', D', C')" by (rule run_reject) (simp_all add: admission_event_def)
    then obtain A' D' C' where "queue_run e (read_on w, ?i # A, D, C) (snd ?rej, A', D', C')" by blast
    with entered have "queue_run e (w, A, D, C) (snd ?rej, A', D', C')" by (rule rtranclp_trans)
    moreover have "acquire_workflow_pack_queue_admission e r q w = ?rej" using True None by (simp add: acquire_workflow_pack_queue_admission_def Let_def)
    ultimately show ?thesis by auto
  next
    case (Some p)
    let ?lane = "case aq_requested_lane q of None \<Rightarrow> qp_default_lane p | Some l \<Rightarrow> l"
    let ?s = "persist_request_snapshot_artifact_refs e ?i r ?lane q (read_on w)"
    have "queue_run e (read_on w, ?i # A, D, C) (snd ?s, ?i # A, D, C)"
      using persist_snapshot_readings [of "read_on w" e ?i r ?lane q] by (intro run_touch) (simp_all only: persist_snapshot_queue read_on_simps)
    with entered have "queue_run e (w, A, D, C) (snd ?s, ?i # A, D, C)" by (rule rtranclp_trans)
    moreover obtain A' D' C' where "queue_run e (snd ?s, ?i # A, D, C) (snd (admit_requested_item e ?i p ?lane q (fst ?s) (snd ?s)), A', D', C')"
      using admit_requested_run [OF list.set_intros(1), of e "snd ?s" ?i A D C p ?lane q "fst ?s"] by blast
    ultimately have "queue_run e (w, A, D, C) (snd (admit_requested_item e ?i p ?lane q (fst ?s) (snd ?s)), A', D', C')" by (rule rtranclp_trans)
    then show ?thesis using True Some by (auto simp: acquire_workflow_pack_queue_admission_def Let_def split_beta)
  qed
qed

lemma close_is_run:
  assumes "\<And>c. d = Inr (Some c) \<Longrightarrow> \<exists>item. get_lease w item = Some (cg_lease c)"
  shows "\<exists>A' D' C'. queue_run e (w, A, D, C) (snd (finish_close e d w), A', D', C')"
proof (cases "\<exists>c. d = Inr (Some c)")
  case True
  then obtain c where d: "d = Inr (Some c)" by blast
  obtain won w' where c: "claim_close c w = (won, w')" by (cases "claim_close c w")
  have "queue_step e (w, A, D, C) (w, A, c # D, C)" using assms [OF d] queue_step.decide by blast
  moreover have "queue_step e (w, A, c # D, C) (w', A, D, if won then c # C else C)" using queue_step.claim [of c "c # D" w won w'] c by simp
  ultimately have claimed: "queue_run e (w, A, D, C) (w', A, D, if won then c # C else C)" by auto
  show ?thesis
  proof (cases won)
    case True
    have "queue_step e (w', A, D, c # C) (snd (record_close e c w'), A, D, C)" using queue_step.close [of c "c # C"] by simp
    then have "queue_run e (w, A, D, C) (snd (record_close e c w'), A, D, C)" using claimed True by auto
    moreover have "snd (finish_close e d w) = snd (record_close e c w')"
      using True by (simp add: finish_close_def d c snd_then_do split: sum.splits)
    ultimately show ?thesis by auto
  qed (use claimed c d in \<open>auto simp: finish_close_def\<close>)
qed (auto simp: finish_close_def split: sum.splits option.splits)

lemma decided_lease:
  "decide_release e item now w = Inr (Some c) \<Longrightarrow> get_lease w item = Some (cg_lease c)"
  "decide_cancel item actor reason evidence w = Inr (Some c) \<Longrightarrow> get_lease w item = Some (cg_lease c)"
  by (auto simp: decide_release_def decide_cancel_def split: option.splits sum.splits if_splits)

lemma release_is_run: "\<exists>A' D' C'. queue_run e (w, A, D, C) (snd (release_workflow_pack_queue_admission e item now w), A', D', C')"
proof -
  have "\<exists>A' D' C'. queue_run e (read_on w, A, D, C) (snd (finish_close e (decide_release e item now w) (read_on w)), A', D', C')"
    by (rule close_is_run) (auto simp: get_lease_def dest!: decided_lease(1))
  moreover have "queue_run e (w, A, D, C) (read_on w, A, D, C)" by (rule run_touch) simp_all
  moreover have "snd (release_workflow_pack_queue_admission e item now w) = snd (finish_close e (decide_release e item now w) (read_on w))"
    by (simp add: release_workflow_pack_queue_admission_def snd_then_do split: sum.splits)
  ultimately show ?thesis by (auto intro: rtranclp_trans)
qed

lemma cancel_is_run: "\<exists>A' D' C'. queue_run e (w, A, D, C) (snd (cancel_workflow_pack_queue_admission e item actor reason evidence w), A', D', C')"
  unfolding cancel_workflow_pack_queue_admission_def by (rule close_is_run) (auto dest: decided_lease(2))

section \<open>The lease of an execution\<close>

lemma then_do_Inr: "then_do p f = (Inr b, w') \<Longrightarrow> \<exists>a w1. p = (Inr a, w1) \<and> f a w1 = (Inr b, w')"
  by (auto simp: then_do_def split: prod.splits sum.splits)

lemma reject_never_returns [simp]: "reject_admission e ev err w \<noteq> (Inr b, w')"
  by (auto simp: reject_admission_def dest: then_do_Inr)

lemma advance_item_state: "advance_item e item p lane q refs type from to w = (Inr s, w') \<Longrightarrow> s = to"
  by (auto simp: advance_item_def transition_queue_state_def split: if_splits dest!: then_do_Inr)

lemma admitted_lease:
  assumes "admit_requested_item e item p lane q refs w = (Inr lease, w')"
  shows "\<exists>n. lease = lease_of item p lane WPQ_RUNNING (utc_text (qe_now e n)) q refs"
proof -
  from assms obtain w1 where "admit_within_capacity e item p lane q refs w1 = (Inr lease, w')"
    by (auto simp: admit_requested_item_def split: if_splits dest!: then_do_Inr)
  then have "admit_queued_item e item p lane q refs w1 = (Inr lease, w')"
    by (auto simp: admit_within_capacity_def raise_capacity_rejection_def split: if_splits)
  then obtain w2 where "start_admitted_item e item p lane q refs WPQ_RUNNING w2 = (Inr lease, w')"
    by (fastforce simp: admit_queued_item_def transition_queue_state_def split: if_splits dest!: then_do_Inr advance_item_state)
  then show ?thesis
    by (fastforce simp: start_admitted_item_def raise_capacity_rejection_def Let_def split: if_splits dest!: then_do_Inr)
qed

lemma acquired_lease:
  assumes "acquire_workflow_pack_queue_admission e r q w = (Inr lease, w')"
  shows "\<exists>p item lane refs n. get_workflow_pack_queue_policy_descriptor (rg_pack_id r) (rg_version r) = Inr (Some p)
     \<and> lease = lease_of item p lane WPQ_RUNNING (utc_text (qe_now e n)) q refs"
  using assms
  by (auto simp: acquire_workflow_pack_queue_admission_def Let_def split: if_splits option.splits prod.splits dest!: admitted_lease)

lemma release_running_lease:
  assumes "get_lease w (ls_queue_item_id l) = Some l" and "l = lease_of item p lane WPQ_RUNNING (utc_text t) q refs"
    and "get_workflow_pack_queue_policy_descriptor (qp_workflow_pack_id p) (qp_workflow_pack_version p) = Inr (Some p)" and "valid_utc t"
  shows "get_lease (snd (release_workflow_pack_queue_admission e (ls_queue_item_id l) now w)) (ls_queue_item_id l) = None
     \<and> fst (release_workflow_pack_queue_admission e (ls_queue_item_id l) now w) \<in> {Inr (), Inl event_store_not_ready}"
proof -
  obtain s where "release_terminal_state l p (case now of None \<Rightarrow> qe_now e (qw_readings w) | Some t \<Rightarrow> t) = Inr s" "s \<in> {WPQ_TIMED_OUT, WPQ_COMPLETED_HANDOFF}"
    using assms(2,4) by (simp add: release_terminal_state_def lease_of_def)
  moreover have "get_policy_for_lease l = Inr p" using assms(2,3) by (simp add: get_policy_for_lease_def lease_of_def del: get_policy_simps)
  moreover have "ls_state l = WPQ_RUNNING" using assms(2) by (simp add: lease_of_def)
  ultimately obtain c where c: "decide_release e (ls_queue_item_id l) now w = Inr (Some c)" "cg_lease c = l"
    using assms(1) by (auto simp: decide_release_def transition_queue_state_def queue_transition_allowed_def)
  have rec: "fst (record_close e c x) = Inl event_store_not_ready \<or> (\<exists>ev. fst (record_close e c x) = Inr ev)" for x
    by (simp add: record_close_def record_workflow_pack_queue_event_def Let_def)
  have keep: "qw_leases (snd (record_close e c x)) = qw_leases x" for x by (simp add: record_close_def)
  have claim: "claim_close c (read_on w) = (True, (read_on w)\<lparr>qw_leases := dict_pop (ls_queue_item_id l) (qw_leases w)\<rparr>)"
    using assms(1) by (simp add: claim_close_def delete_admission_lease_def c get_lease_def)
  show ?thesis
    using rec [of "(read_on w)\<lparr>qw_leases := dict_pop (ls_queue_item_id l) (qw_leases w)\<rparr>"]
    by (auto simp: release_workflow_pack_queue_admission_def finish_close_def c claim fst_then_do snd_then_do get_lease_def keep split: sum.splits)
qed

text \<open>
  C30. An execution gives its lease back: when the body of an admission returns or raises, the lease is gone afterwards, and the
  caller sees what the body produced unless the event store refused the terminal event.
\<close>

theorem admission_returns_its_lease:
  assumes "acquire_workflow_pack_queue_admission e r q w = (Inr lease, w1)" and "body lease w1 = (res, w2)"
    and "get_lease w2 (ls_queue_item_id lease) \<in> {None, Some lease}" and "\<And>n. valid_utc (qe_now e n)"
  shows "\<exists>out w3. workflow_pack_queue_admission e r q body w = (out, w3) \<and> get_lease w3 (ls_queue_item_id lease) = None
     \<and> (out = res \<or> out = Inl event_store_not_ready)"
proof -
  let ?rel = "release_workflow_pack_queue_admission e (ls_queue_item_id lease) None w2"
  obtain p item lane refs n where p: "get_workflow_pack_queue_policy_descriptor (rg_pack_id r) (rg_version r) = Inr (Some p)"
    and l: "lease = lease_of item p lane WPQ_RUNNING (utc_text (qe_now e n)) q refs" using acquired_lease [OF assms(1)] by blast
  have "get_workflow_pack_queue_policy_descriptor (qp_workflow_pack_id p) (qp_workflow_pack_version p) = Inr (Some p)"
    using p find_policyD [of "rg_pack_id r" "rg_version r" p] by simp
  note running = release_running_lease [OF _ l this assms(4)]
  have "get_lease (snd ?rel) (ls_queue_item_id lease) = None \<and> fst ?rel \<in> {Inr (), Inl event_store_not_ready}"
  proof (cases "get_lease w2 (ls_queue_item_id lease)")
    case None
    then show ?thesis by (simp add: release_workflow_pack_queue_admission_def decide_release_def finish_close_def get_lease_def)
  qed (use assms(3) running in auto)
  then show ?thesis using assms(1,2) by (auto simp: workflow_pack_queue_admission_def then_do_def [of ?rel] split: prod.splits)
qed

section \<open>Admission within capacity\<close>

lemma record_when_ready:
  assumes "\<forall>n. qe_ready e n"
  obtains ev w' where "record_workflow_pack_queue_event e q w = (Inr ev, w')" and "qw_leases w' = qw_leases w"
  using assms by (simp add: record_workflow_pack_queue_event_def save_queue_event_def Let_def)

lemma advance_when_ready:
  assumes "\<forall>n. qe_ready e n" and "queue_transition_allowed from to"
  obtains w' where "advance_item e item p lane q refs type from to w = (Inr to, w')" and "qw_leases w' = qw_leases w"
proof -
  obtain ev w' where "record_workflow_pack_queue_event e (policy_event item type to p lane q refs) w = (Inr ev, w')" "qw_leases w' = qw_leases w"
    by (rule record_when_ready [OF assms(1)])
  then show ?thesis using that [of w'] assms(2) by (simp add: advance_item_def transition_queue_state_def)
qed

lemma reclaimed_when_ready:
  assumes "\<forall>n. qe_ready e n"
  obtains w' where "record_reclaimed_lease_events e ls w = (Inr (), w')" and "qw_leases w' = qw_leases w"
proof -
  have "\<exists>w'. record_reclaimed_lease_events e ls w = (Inr (), w') \<and> qw_leases w' = qw_leases w"
  proof (induction ls arbitrary: w)
    case (Cons l ls)
    obtain ev w1 where "record_workflow_pack_queue_event e (lease_event l ADMISSION_RECLAIMED WPQ_TIMED_OUT (Some ''ADMISSION_LEASE_EXPIRED'')) w = (Inr ev, w1)"
      "qw_leases w1 = qw_leases w" by (rule record_when_ready [OF assms])
    then show ?case using Cons.IH [of w1] by simp
  qed simp
  then show ?thesis using that by blast
qed

lemma attempt_within_capacity:
  assumes "qe_lease_ttl_seconds e \<le> 0 \<or> (\<exists>t. sub_seconds (nat (qe_lease_ttl_seconds e)) (qe_now e (qw_readings w)) = Inr t)"
    and "count_leases (ls_policy_id l) w < pack_limit" and "count_lane_leases (ls_policy_id l) (ls_lane l) w < lane_limit"
  obtains tr w' where "try_admit e l pack_limit lane_limit w = (Inr tr, w')" and "at_admitted tr" and "get_lease w' (ls_queue_item_id l) = Some l"
proof -
  obtain rs w1 where r: "reclaim_expired_leases e (ls_policy_id l) w = (Inr rs, w1)" and le: "\<And>P. holding P (qw_leases w1) \<le> holding P (qw_leases w)"
    using assms(1) by (cases rule: reclaim_cases [of e "ls_policy_id l" w])
      (auto simp: reclaim_expired_leases_def Let_def holding_pops_le split: if_splits)
  have "\<not> pack_limit \<le> count_leases (ls_policy_id l) w1" "\<not> lane_limit \<le> count_lane_leases (ls_policy_id l) (ls_lane l) w1"
    using assms(2,3) le unfolding count_holding by (meson leD le_trans not_le)+
  then show ?thesis using that by (simp add: try_admit_def r Let_def get_lease_def)
qed

text \<open>A request within the capacity of its policy, in an allowed lane, is admitted while the event store is ready.\<close>

theorem admission_within_capacity:
  assumes "\<forall>n. qe_ready e n" and "\<forall>n. qe_lease_ttl_seconds e \<le> 0 \<or> (\<exists>t. sub_seconds (nat (qe_lease_ttl_seconds e)) (qe_now e n) = Inr t)"
    and "get_workflow_pack_queue_policy_descriptor (rg_pack_id r) (rg_version r) = Inr (Some p)"
    and "lane = (case aq_requested_lane q of None \<Rightarrow> qp_default_lane p | Some l \<Rightarrow> l)" and "lane \<in> set (qp_allowed_lanes p)"
    and "count_leases (qp_policy_id p) w < qp_max_concurrent_runs_per_pack p"
    and "count_lane_leases (qp_policy_id p) lane w < qp_max_concurrent_runs_per_lane p"
  shows "\<exists>lease w'. acquire_workflow_pack_queue_admission e r q w = (Inr lease, w') \<and> get_lease w' (ls_queue_item_id lease) = Some lease"
proof -
  let ?i = "''wpq_'' @ fresh_hex e w"
  have moves: "queue_transition_allowed WPQ_NOT_ADMITTED WPQ_QUEUED" "queue_transition_allowed WPQ_QUEUED WPQ_ADMITTED"
    by (simp_all add: queue_transition_allowed_def)
  obtain refs w1 where s: "persist_request_snapshot_artifact_refs e ?i r lane q (read_on w) = (refs, w1)" by (cases "persist_request_snapshot_artifact_refs e ?i r lane q (read_on w)")
  have l1: "qw_leases w1 = qw_leases w" by (metis persist_snapshot_queue(1) read_on_simps(2) s snd_conv)
  obtain ev w2 where r2: "record_workflow_pack_queue_event e (policy_event ?i ADMISSION_REQUESTED WPQ_NOT_ADMITTED p lane q refs) w1 = (Inr ev, w2)"
    and l2: "qw_leases w2 = qw_leases w1" by (rule record_when_ready [OF assms(1)])
  obtain w3 where r3: "advance_item e ?i p lane q refs ADMISSION_QUEUED WPQ_NOT_ADMITTED WPQ_QUEUED w2 = (Inr WPQ_QUEUED, w3)"
    and l3: "qw_leases w3 = qw_leases w2" by (rule advance_when_ready [OF assms(1) moves(1)])
  obtain w4 where r4: "advance_item e ?i p lane q refs ADMISSION_ADMITTED WPQ_QUEUED WPQ_ADMITTED w3 = (Inr WPQ_ADMITTED, w4)"
    and l4: "qw_leases w4 = qw_leases w3" by (rule advance_when_ready [OF assms(1) moves(2)])
  let ?l = "lease_of ?i p lane WPQ_RUNNING (now_text e w4) q refs"
  have "count_leases (ls_policy_id ?l) (read_on w4) < qp_max_concurrent_runs_per_pack p"
    "count_lane_leases (ls_policy_id ?l) (ls_lane ?l) (read_on w4) < qp_max_concurrent_runs_per_lane p"
    using assms(6,7) l1 l2 l3 l4 by (simp_all add: count_holding lease_of_def)
  then obtain tr w5 where r5: "try_admit e ?l (qp_max_concurrent_runs_per_pack p) (qp_max_concurrent_runs_per_lane p) (read_on w4) = (Inr tr, w5)"
    and adm: "at_admitted tr" and g5: "get_lease w5 (ls_queue_item_id ?l) = Some ?l"
    using attempt_within_capacity [of e "read_on w4" ?l] assms(2) by blast
  obtain w6 where r6: "record_reclaimed_lease_events e (at_reclaimed_leases tr) w5 = (Inr (), w6)" and l6: "qw_leases w6 = qw_leases w5"
    by (rule reclaimed_when_ready [OF assms(1)])
  obtain ev7 w7 where r7: "record_workflow_pack_queue_event e (policy_event ?i ADMISSION_GRANTED WPQ_RUNNING p lane q refs) w6 = (Inr ev7, w7)"
    and l7: "qw_leases w7 = qw_leases w6" by (rule record_when_ready [OF assms(1)])
  have start: "start_admitted_item e ?i p lane q refs WPQ_RUNNING w4 = (Inr ?l, w7)"
    using r5 r6 r7 adm by (simp add: start_admitted_item_def Let_def)
  have queued: "admit_queued_item e ?i p lane q refs w2 = (Inr ?l, w7)"
    using r3 r4 start by (simp add: admit_queued_item_def transition_queue_state_def queue_transition_allowed_def)
  have "admit_requested_item e ?i p lane q refs w1 = (Inr ?l, w7)"
    using r2 queued assms(5-7) l1 l2 by (simp add: admit_requested_item_def admit_within_capacity_def count_holding)
  then have "acquire_workflow_pack_queue_admission e r q w = (Inr ?l, w7)"
    using assms(1,3) s by (simp add: acquire_workflow_pack_queue_admission_def Let_def assms(4) [symmetric])
  then show ?thesis using g5 l6 l7 by (auto simp: get_lease_def)
qed

section \<open>A concrete queue\<close>

definition sample_instant :: utc where
  "sample_instant = \<lparr>u_year = 2026, u_month = 6, u_day = 1, u_hour = 8, u_minute = 0, u_second = 0, u_microsecond = 0\<rparr>"

definition sample_queue_env :: queue_env where
  "sample_queue_env = \<lparr>pr_ready = True, pr_contract_exists = (\<lambda>_. True), pr_policies = init_policy_store, pr_caller = None,
     pr_changed_at = ''2026-06-01T00:00:00Z'', pr_recorded_at = ''2026-06-01T00:00:01Z'', pr_event_hex = ''1'',
     qe_ready = (\<lambda>_. True), qe_now = (\<lambda>_. sample_instant), qe_uuid = nat_str, qe_lease_ttl_seconds = 3600,
     qe_artifacts = \<lparr>ae_backend = MEMORY, ae_sha = id\<rparr>\<rparr>"

definition empty_queue :: queue_world where
  "empty_queue = \<lparr>aw_artifacts = [], aw_objects = [], gw_registrations = [], gw_control_events = [], qw_events = [], qw_leases = [],
     qw_readings = 0\<rparr>"

definition sample_admission :: admission_request where
  "sample_admission = \<lparr>aq_requested_lane = None, aq_caller_app = Some ''lotus-gateway'', aq_correlation_id = Some ''c-1'', aq_tenant = None,
     aq_workflow_surface = None, aq_task_request = None, aq_environment = None, aq_identity_class = None\<rparr>"

definition sample_policy :: queue_policy where
  "sample_policy = declared_policy advisor_brief_v1_spec ''queue-policy.advisor-brief.v1''
     [LANE_LATENCY_SENSITIVE, LANE_REVIEW_SUPPORT] LANE_LATENCY_SENSITIVE (limits 4 2 40 20 15 240 60)"

lemma sample_policy_declared:
  "get_workflow_pack_queue_policy_descriptor (rg_pack_id advisor_brief_v1_registration) (rg_version advisor_brief_v1_registration) = Inr (Some sample_policy)"
  "sample_policy \<in> set row_policies"
  by (simp_all add: row_policies_def Let_def sample_policy_def declared_policy_def advisor_brief_v1_registration_def advisor_brief_v1_spec_def)

definition sample_admission_lease :: "string \<Rightarrow> timestamp \<Rightarrow> admission_lease" where
  "sample_admission_lease item t = lease_of item sample_policy LANE_LATENCY_SENSITIVE WPQ_RUNNING t sample_admission []"

definition stranded_queue :: queue_world where
  "stranded_queue = empty_queue\<lparr>qw_leases := map (\<lambda>i. (i, sample_admission_lease i ''2026-05-01T00:00:00Z'')) [''wpq_a'', ''wpq_b'', ''wpq_c'', ''wpq_d'']\<rparr>"

lemma sample_instant_valid: "valid_utc sample_instant"
  by (simp add: valid_utc_def sample_instant_def month_days_def)

theorem capacity_never_exceeded_witness:
  "count_leases (qp_policy_id sample_policy) (snd (acquire_workflow_pack_queue_admission sample_queue_env advisor_brief_v1_registration sample_admission empty_queue))
     \<le> qp_max_concurrent_runs_per_pack sample_policy
   \<and> count_lane_leases (qp_policy_id sample_policy) LANE_LATENCY_SENSITIVE
       (snd (acquire_workflow_pack_queue_admission sample_queue_env advisor_brief_v1_registration sample_admission empty_queue))
     \<le> qp_max_concurrent_runs_per_lane sample_policy"
proof -
  have "admission_op\<^sup>*\<^sup>* empty_queue (snd (acquire_workflow_pack_queue_admission sample_queue_env advisor_brief_v1_registration sample_admission empty_queue))"
    by (rule r_into_rtranclp) (rule admission_op.intros)
  then show ?thesis by (rule capacity_never_exceeded) (simp_all add: empty_queue_def sample_policy_declared(2))
qed

lemma sample_cutoff:
  "sub_seconds 3600 sample_instant = Inr (sample_instant\<lparr>u_hour := 7\<rparr>)" "''2026-05-01T00:00:00Z'' < offset_text (sample_instant\<lparr>u_hour := 7\<rparr>)"
  by (simp add: sub_seconds_def sample_instant_def Let_def)
    code_simp

theorem expired_leases_block_admission_witness:
  "(\<exists>attempt. fst (try_admit sample_queue_env (sample_admission_lease ''wpq_e'' ''2026-06-01T08:00:00Z'') 4 2 stranded_queue) = Inr attempt \<and> at_admitted attempt)
   \<and> (\<exists>err. fst (acquire_workflow_pack_queue_admission sample_queue_env advisor_brief_v1_registration sample_admission stranded_queue) = Inl err)"
proof -
  have limits: "qp_max_concurrent_runs_per_pack sample_policy = 4" "qp_max_concurrent_runs_per_lane sample_policy = 2"
    by (simp_all add: sample_policy_def declared_policy_def)
  have "leases_keyed (qw_leases stranded_queue)" by (simp add: leases_keyed_def stranded_queue_def sample_admission_lease_def lease_of_def)
  moreover have "qp_max_concurrent_runs_per_pack sample_policy \<le> count_leases (qp_policy_id sample_policy) stranded_queue"
    by (simp add: limits count_leases_def list_admission_leases_def stranded_queue_def sample_admission_lease_def lease_of_def)
  moreover have "\<forall>l\<in>set (list_admission_leases stranded_queue). ls_policy_id l = qp_policy_id sample_policy \<longrightarrow> ls_admitted_at l < offset_text (sample_instant\<lparr>u_hour := 7\<rparr>)"
    using sample_cutoff(2) by (simp add: list_admission_leases_def stranded_queue_def sample_admission_lease_def lease_of_def)
  moreover have "ls_policy_id (sample_admission_lease ''wpq_e'' ''2026-06-01T08:00:00Z'') = qp_policy_id sample_policy" by (simp add: sample_admission_lease_def lease_of_def)
  moreover have "0 < qe_lease_ttl_seconds sample_queue_env"
    "sub_seconds (nat (qe_lease_ttl_seconds sample_queue_env)) (qe_now sample_queue_env (qw_readings stranded_queue)) = Inr (sample_instant\<lparr>u_hour := 7\<rparr>)"
    using sample_cutoff(1) by (simp_all add: sample_queue_env_def)
  ultimately show ?thesis
    using expired_leases_block_admission [OF sample_policy_declared(1), of stranded_queue sample_queue_env "sample_instant\<lparr>u_hour := 7\<rparr>"
        "sample_admission_lease ''wpq_e'' ''2026-06-01T08:00:00Z''"] unfolding limits by blast
qed

theorem one_terminal_event_per_item_witness:
  "terminal_count ''wpq_0'' (qw_events (snd (acquire_workflow_pack_queue_admission sample_queue_env advisor_brief_v1_registration sample_admission empty_queue))) \<le> 1"
proof -
  have inj: "inj (qe_uuid sample_queue_env)" by (simp add: sample_queue_env_def inj_def)
  obtain A D C where run: "queue_run sample_queue_env (empty_queue, [], [], [])
      (snd (acquire_workflow_pack_queue_admission sample_queue_env advisor_brief_v1_registration sample_admission empty_queue), A, D, C)"
    using acquire_is_run by blast
  show ?thesis using one_terminal_event_per_item [OF inj run] by (simp add: empty_queue_def)
qed

lemma sample_acquired:
  "\<exists>lease w. acquire_workflow_pack_queue_admission sample_queue_env advisor_brief_v1_registration sample_admission empty_queue = (Inr lease, w)
     \<and> get_lease w (ls_queue_item_id lease) = Some lease"
  by (rule admission_within_capacity [OF _ _ sample_policy_declared(1) refl])
    (use sample_cutoff(1) in \<open>simp_all add: sample_queue_env_def sample_admission_def sample_policy_def declared_policy_def empty_queue_def
      count_leases_def count_lane_leases_def list_admission_leases_def\<close>)

theorem admission_returns_its_lease_witness:
  "\<exists>(lease :: admission_lease) out w3. workflow_pack_queue_admission sample_queue_env advisor_brief_v1_registration sample_admission
        (\<lambda>lease w. (Inl (RuntimeError ''boom'') :: unit result, w)) empty_queue = (out, w3)
     \<and> get_lease w3 (ls_queue_item_id lease) = None \<and> out \<in> {Inl (RuntimeError ''boom''), Inl event_store_not_ready}"
proof -
  obtain lease w where a: "acquire_workflow_pack_queue_admission sample_queue_env advisor_brief_v1_registration sample_admission empty_queue = (Inr lease, w)"
    and g: "get_lease w (ls_queue_item_id lease) = Some lease" using sample_acquired by blast
  have "valid_utc (qe_now sample_queue_env n)" for n using sample_instant_valid by (simp add: sample_queue_env_def)
  from admission_returns_its_lease [OF a, of "\<lambda>lease w. (Inl (RuntimeError ''boom'') :: unit result, w)" "Inl (RuntimeError ''boom'')" w, OF refl _ this]
  show ?thesis using g by simp blast
qed

end
