(* ===== verification/Json_Values.thy ===== *)
theory Json_Values
  imports Json_Text "HOL-Library.Log_Nat"
begin

text \<open>
  Python's view of a decoded JSON value: truth, the \<^verbatim>\<open>isinstance\<close> tests, equality across numeric types, \<^verbatim>\<open>str.lower\<close>
  and the \<^verbatim>\<open>dict.get\<close> idioms that the payload checks share. A float is read as the nearest binary64 number, so
  \<^verbatim>\<open>2.0 == 2\<close> and \<^verbatim>\<open>True == 1\<close> hold as they do in Python; NaN and the infinities have no value.
\<close>

section \<open>Floats\<close>

definition pow2 :: "int \<Rightarrow> rat" where
  "pow2 k = (if 0 \<le> k then 2 ^ nat k else 1 / 2 ^ nat (- k))"

text \<open>The exponent of the leading bit of a positive rational; the lengths of numerator and denominator give it up to one.\<close>

definition binade :: "rat \<Rightarrow> int" where
  "binade r = (let (p, q) = quotient_of r; k = bitlen p - bitlen q in if pow2 k \<le> r then k else k - 1)"

definition round_binary64 :: "rat \<Rightarrow> rat option" where
  "round_binary64 r =
     (if r = 0 then Some 0
      else let unit = pow2 (max (binade \<bar>r\<bar> - 52) (-1074)); v = of_int (round_half_even (r / unit)) * unit
           in if pow2 1024 \<le> \<bar>v\<bar> then None else Some v)"

definition split_exponent :: "string \<Rightarrow> string \<times> int" where
  "split_exponent t =
     (let m = takeWhile (\<lambda>c. c \<noteq> CHR ''e'' \<and> c \<noteq> CHR ''E'') t; x = drop (Suc (length m)) t
      in (m, case x of [] \<Rightarrow> 0
           | c # ds \<Rightarrow> if c = CHR ''-'' then - int (digits_val ds) else if c = CHR ''+'' then int (digits_val ds) else int (digits_val x)))"

definition float_value :: "string \<Rightarrow> rat option" where
  "float_value t =
     (let neg = (take 1 t = ''-''); (m, x) = split_exponent (if neg then tl t else t);
          whole = takeWhile (\<lambda>c. c \<noteq> CHR ''.'') m; frac = drop (Suc (length whole)) m;
          a = of_nat (digits_val (whole @ frac)) * (if x < int (length frac) then 1 / 10 ^ nat (int (length frac) - x) else 10 ^ nat (x - int (length frac)))
      in if list_all is_digit (whole @ frac) \<and> whole \<noteq> [] then round_binary64 (if neg then - a else a) else None)"

section \<open>Truth and equality\<close>

definition as_int :: "json \<Rightarrow> int option" where
  "as_int j = (case j of JInt i \<Rightarrow> Some i | JBool b \<Rightarrow> Some (if b then 1 else 0) | _ \<Rightarrow> None)"

definition as_number :: "json \<Rightarrow> rat option" where
  "as_number j = (case j of JFloat t \<Rightarrow> float_value t | _ \<Rightarrow> map_option of_int (as_int j))"

fun is_number :: "json \<Rightarrow> bool" where
  "is_number (JInt i) = True"
| "is_number (JBool b) = True"
| "is_number (JFloat t) = True"
| "is_number _ = False"

definition infinity_of :: "json \<Rightarrow> string option" where
  "infinity_of j =
     (case j of
        JFloat t \<Rightarrow> if float_value t \<noteq> None \<or> t = ''NaN'' then None else Some (if take 1 t = ''-'' then ''-inf'' else ''inf'')
      | _ \<Rightarrow> None)"

definition number_eq :: "json \<Rightarrow> json \<Rightarrow> bool" where
  "number_eq a b \<longleftrightarrow> (as_number a \<noteq> None \<and> as_number a = as_number b) \<or> (infinity_of a \<noteq> None \<and> infinity_of a = infinity_of b)"

fun truthy :: "json \<Rightarrow> bool" where
  "truthy JNull = False"
| "truthy (JBool b) = b"
| "truthy (JInt i) = (i \<noteq> 0)"
| "truthy (JFloat t) = (float_value t \<noteq> Some 0)"
| "truthy (JString s) = (s \<noteq> [])"
| "truthy (JList xs) = (xs \<noteq> [])"
| "truthy (JObject d) = (d \<noteq> [])"

text \<open>\<^verbatim>\<open>a == b\<close>. Members of lists and objects are compared by identity first, and the decoder has one NaN object.\<close>

function py_eq :: "json \<Rightarrow> json \<Rightarrow> bool" where
  "py_eq JNull b = (b = JNull)"
| "py_eq (JString s) b = (b = JString s)"
| "py_eq (JList xs) b = (case b of JList ys \<Rightarrow> length xs = length ys \<and>
     (\<forall>(x, y) \<in> set (zip xs ys). py_eq x y \<or> (x = JFloat ''NaN'' \<and> y = JFloat ''NaN'')) | _ \<Rightarrow> False)"
| "py_eq (JObject d) b = (case b of JObject d' \<Rightarrow> length d = length d' \<and>
     (\<forall>(k, x) \<in> set d. case dict_get d' k of None \<Rightarrow> False | Some y \<Rightarrow> py_eq x y \<or> (x = JFloat ''NaN'' \<and> y = JFloat ''NaN'')) | _ \<Rightarrow> False)"
| "py_eq (JBool v) b = (is_number b \<and> number_eq (JBool v) b)"
| "py_eq (JInt i) b = (is_number b \<and> number_eq (JInt i) b)"
| "py_eq (JFloat t) b = (is_number b \<and> number_eq (JFloat t) b)"
  by pat_completeness auto
termination
proof (relation "measure (size \<circ> fst)")
  fix xs :: "json list" and ys x y p assume "p \<in> set (zip xs ys)" and "(x, y) = p"
  then have "x \<in> set xs" by (auto dest: set_zip_leftD)
  then show "((x, y), JList xs, b) \<in> measure (size \<circ> fst)" for b by (induction xs) auto
qed (auto simp: less_Suc_eq_le intro: size_list_estimation')

lemma py_eq_string [simp]: "py_eq a (JString s) \<longleftrightarrow> a = JString s"
  by (cases a) auto

lemma py_eq_int: "py_eq a (JInt n) \<longleftrightarrow> is_number a \<and> as_number a = Some (of_int n)"
proof -
  have "infinity_of (JInt n) = None" "as_number (JInt n) = Some (of_int n)" by (simp_all add: infinity_of_def as_number_def as_int_def)
  then show ?thesis by (cases a) (auto simp: number_eq_def)
qed

section \<open>Texts\<close>

definition lower_char :: "char \<Rightarrow> char" where
  "lower_char c =
     (let n = (of_char c :: nat) in
      if (65 \<le> n \<and> n \<le> 90) \<or> (192 \<le> n \<and> n \<le> 222 \<and> n \<noteq> 215) then char_of (n + 32) else c)"

definition py_lower :: "string \<Rightarrow> string" where
  "py_lower s = map lower_char s"

fun contains_text :: "string \<Rightarrow> string \<Rightarrow> bool" where
  "contains_text p [] = (p = [])"
| "contains_text p (c # cs) = (take (length p) (c # cs) = p \<or> contains_text p cs)"

section \<open>Members\<close>

type_synonym json_object = "(string, json) dict"

definition section_of :: "json_object \<Rightarrow> string \<Rightarrow> json_object option" where
  "section_of p k = (case dict_get p k of Some (JObject d) \<Rightarrow> Some d | _ \<Rightarrow> None)"

definition list_at :: "json_object \<Rightarrow> string \<Rightarrow> json list option" where
  "list_at p k = (case dict_get p k of Some (JList xs) \<Rightarrow> Some xs | _ \<Rightarrow> None)"

definition text_at :: "json_object \<Rightarrow> string \<Rightarrow> string option" where
  "text_at p k = (case dict_get p k of Some (JString s) \<Rightarrow> Some s | _ \<Rightarrow> None)"

definition int_at :: "json_object \<Rightarrow> string \<Rightarrow> int option" where
  "int_at p k = (case dict_get p k of None \<Rightarrow> None | Some j \<Rightarrow> as_int j)"

text \<open>\<^verbatim>\<open>isinstance(d.get(k), str) and d[k]\<close>.\<close>

definition has_text :: "json_object \<Rightarrow> string \<Rightarrow> bool" where
  "has_text p k = (case text_at p k of None \<Rightarrow> False | Some s \<Rightarrow> s \<noteq> [])"

text \<open>\<^verbatim>\<open>_as_str\<close> of a member and of an item.\<close>

definition as_text :: "json option \<Rightarrow> string" where
  "as_text j = (case j of Some (JString s) \<Rightarrow> py_strip s | _ \<Rightarrow> [])"

definition missing_keys :: "string list \<Rightarrow> json_object \<Rightarrow> string list" where
  "missing_keys required p = filter (\<lambda>k. dict_get p k = None) required"

text \<open>Checks made one after another; the first that fails raises.\<close>

fun first_failure :: "(bool \<times> error) list \<Rightarrow> unit result" where
  "first_failure [] = Inr ()"
| "first_failure ((ok, e) # cs) = (if ok then first_failure cs else Inl e)"

lemma first_failure_passes: "first_failure cs = Inr () \<longleftrightarrow> list_all fst cs"
  by (induction cs rule: first_failure.induct) simp_all

lemma first_failure_append: "first_failure (xs @ ys) = (case first_failure xs of Inl e \<Rightarrow> Inl e | Inr _ \<Rightarrow> first_failure ys)"
  by (induction xs rule: first_failure.induct) simp_all

lemma missing_keys_none: "missing_keys required p = [] \<longleftrightarrow> (\<forall>k \<in> set required. dict_get p k \<noteq> None)"
  by (auto simp: missing_keys_def filter_empty_conv)

end
