(* ===== verification/Pack_Runs.thy ===== *)
theory Pack_Runs
  imports Pack_Queue Json_Values
begin

text \<open>
  The ledger of workflow-pack runs: the records of \<^verbatim>\<open>repositories/workflow_pack_run_repository.py\<close> and the operations of
  \<^verbatim>\<open>repositories/memory_workflow_pack_run_repository.py\<close>, the review policy, the review summary and the supportability status
  (\<^verbatim>\<open>services/workflow_pack_run_review_policy.py\<close>, \<^verbatim>\<open>_review_summary.py\<close>, \<^verbatim>\<open>_supportability.py\<close>,
  \<^verbatim>\<open>_supportability_summary.py\<close>), the output artifact (\<^verbatim>\<open>_artifacts.py\<close>), the attestation source
  (\<^verbatim>\<open>services/workflow_run_attestation_source.py\<close>) and the recording and listing of runs
  (\<^verbatim>\<open>services/workflow_pack_run_ledger.py\<close>). Notes and sentences are left out; the model-risk decision is an argument.

  The world of a pack execution extends the world of the queue with runs, their events, task flows and checkpoints.
\<close>

section \<open>Data\<close>

datatype run_runtime_state = RS_STAGED | RS_RUNNING | RS_COMPLETED | RS_FAILED | RS_EXPIRED | RS_SUPERSEDED

datatype run_review_state = RV_NOT_REVIEW_REQUIRED | RV_AWAITING_REVIEW | RV_ACCEPTED | RV_REJECTED | RV_REVISED | RV_SUPERSEDED | RV_ABANDONED

datatype run_event_type = RUN_RECORDED | REVIEW_STATE_UPDATED | LINEAGE_UPDATED

datatype review_action = RA_ACCEPT | RA_REJECT | RA_REVISE | RA_SUPERSEDE | RA_ABANDON

datatype run_supportability = SUPPORT_READY | SUPPORT_ACTION_REQUIRED | SUPPORT_HISTORICAL

fun runtime_state_value :: "run_runtime_state \<Rightarrow> string" where
  "runtime_state_value RS_STAGED = ''STAGED''"
| "runtime_state_value RS_RUNNING = ''RUNNING''"
| "runtime_state_value RS_COMPLETED = ''COMPLETED''"
| "runtime_state_value RS_FAILED = ''FAILED''"
| "runtime_state_value RS_EXPIRED = ''EXPIRED''"
| "runtime_state_value RS_SUPERSEDED = ''SUPERSEDED''"

fun review_state_value :: "run_review_state \<Rightarrow> string" where
  "review_state_value RV_NOT_REVIEW_REQUIRED = ''NOT_REVIEW_REQUIRED''"
| "review_state_value RV_AWAITING_REVIEW = ''AWAITING_REVIEW''"
| "review_state_value RV_ACCEPTED = ''ACCEPTED''"
| "review_state_value RV_REJECTED = ''REJECTED''"
| "review_state_value RV_REVISED = ''REVISED''"
| "review_state_value RV_SUPERSEDED = ''SUPERSEDED''"
| "review_state_value RV_ABANDONED = ''ABANDONED''"

fun review_action_value :: "review_action \<Rightarrow> string" where
  "review_action_value RA_ACCEPT = ''ACCEPT''"
| "review_action_value RA_REJECT = ''REJECT''"
| "review_action_value RA_REVISE = ''REVISE''"
| "review_action_value RA_SUPERSEDE = ''SUPERSEDE''"
| "review_action_value RA_ABANDON = ''ABANDON''"

record evidence_descriptor =
  ed_evidence_type :: string
  ed_attributes :: json_object

record recovery_lineage =
  rl_recovery_action_type :: recovery_action
  rl_source_queue_item_id :: string
  rl_recovery_decision_event_id :: string
  rl_recovery_attempt_number :: "nat option"
  rl_source_workflow_pack_run_id :: "string option"
  rl_requested_by :: "string option"
  rl_evidence_ref :: "string option"

record attestation_source =
  ats_evaluator_id :: string
  ats_evaluator_policy_version :: string
  ats_provider_id :: string
  ats_model_id :: string
  ats_model_version :: string
  ats_model_risk_status :: string
  ats_model_risk_approval_ref :: string
  ats_input_evidence_sha256 :: string
  ats_output_content_sha256 :: string
  ats_replay_nonce :: string

record run_record =
  rr_run_id :: string
  rr_pack_id :: string
  rr_pack_family :: string
  rr_pack_version :: string
  rr_registration_ref :: string
  rr_task_id :: string
  rr_request_id :: string
  rr_caller_app :: string
  rr_correlation_id :: string
  rr_tenant_id :: "string option"
  rr_workflow_surface :: "string option"
  rr_workflow_authority_owner :: string
  rr_runtime_state :: run_runtime_state
  rr_review_state :: run_review_state
  rr_review_required :: bool
  rr_provider_mode :: string
  rr_stubbed :: bool
  rr_output_preview :: string
  rr_structured_output_keys :: "string list"
  rr_evidence_descriptors :: "evidence_descriptor list"
  rr_artifact_refs :: "artifact list"
  rr_supersedes_run_id :: "string option"
  rr_superseded_by_run_id :: "string option"
  rr_created_at :: timestamp
  rr_completed_at :: "timestamp option"
  rr_last_updated_at :: timestamp
  rr_recovery_action_type :: "recovery_action option"
  rr_source_queue_item_id :: "string option"
  rr_recovery_decision_event_id :: "string option"
  rr_recovery_attempt_number :: "nat option"
  rr_source_workflow_pack_run_id :: "string option"
  rr_recovery_requested_by :: "string option"
  rr_recovery_evidence_ref :: "string option"
  rr_provider_config_sha256 :: "string option"
  rr_attestation :: attestation_source
  rr_execution_started_at :: timestamp

record run_event =
  rv_event_id :: string
  rv_run_id :: string
  rv_event_type :: run_event_type
  rv_runtime_state :: run_runtime_state
  rv_review_state :: run_review_state
  rv_actor :: string
  rv_recorded_at :: timestamp

text \<open>What a run takes from the task execution: the context, and the response with its audit metadata, result and evidence.\<close>

datatype task_execution_status = TASK_COMPLETED | TASK_REJECTED | TASK_FAILED

fun task_status_value :: "task_execution_status \<Rightarrow> string" where
  "task_status_value TASK_COMPLETED = ''COMPLETED''"
| "task_status_value TASK_REJECTED = ''REJECTED''"
| "task_status_value TASK_FAILED = ''FAILED''"

record task_execution_context =
  xc_request :: task_request
  xc_request_id :: string
  xc_execution_started_at :: timestamp

record task_response =
  tr_task_id :: string
  tr_status :: task_execution_status
  tr_output_label :: output_label
  tr_message :: string
  tr_structured_output :: json_object
  tr_evidence :: "evidence_descriptor list"
  tr_generated_at :: timestamp
  tr_provider_id :: string
  tr_provider_mode :: string
  tr_model_id :: "string option"
  tr_model_version :: "string option"
  tr_stubbed :: bool
  tr_provider_config_sha256 :: "string option"
  tr_workflow_pack_run_id :: "string option"

record model_risk_decision =
  md_status :: string
  md_approval_ref :: "string option"

section \<open>Task flows as data\<close>

text \<open>\<^verbatim>\<open>contracts/workflow_pack_task_flows.py\<close>; the operations are in \<open>Task_Flows\<close>.\<close>

datatype flow_status =
  FLOW_CREATED | FLOW_RUNNING | FLOW_WAITING_FOR_INPUT | FLOW_WAITING_FOR_REVIEW | FLOW_BLOCKED
  | FLOW_COMPLETED | FLOW_FAILED | FLOW_CANCELLED | FLOW_EXPIRED | FLOW_SUPERSEDED

datatype flow_step_status = STEP_PENDING | STEP_RUNNING | STEP_SUCCEEDED | STEP_FAILED | STEP_SKIPPED | STEP_BLOCKED

datatype checkpoint_transition =
  CP_FLOW_CREATED | CP_STEP_STARTED | CP_STEP_SUCCEEDED | CP_STEP_FAILED | CP_INPUT_REQUESTED | CP_REVIEW_REQUESTED
  | CP_REVISION_REQUESTED | CP_FLOW_BLOCKED | CP_FLOW_RETRIED | CP_FLOW_CANCELLED | CP_FLOW_EXPIRED | CP_FLOW_SUPERSEDED
  | CP_FLOW_COMPLETED | CP_DOMAIN_HANDOFF_RECORDED

datatype handoff_status = HANDOFF_NOT_READY | HANDOFF_READY | HANDOFF_DONE | HANDOFF_FAILED

record flow_step =
  fs_step_id :: string
  fs_status :: flow_step_status
  fs_run_refs :: "string list"
  fs_checkpoint_refs :: "string list"

record replacement_lineage =
  rp_superseded_run_id :: string
  rp_replacement_run_id :: string
  rp_review_action_ref :: "string option"
  rp_reason :: string

record flow_handoff =
  fh_handoff_id :: string
  fh_owner_service :: string
  fh_status :: handoff_status
  fh_domain_ref :: "string option"
  fh_evidence_refs :: "evidence_descriptor list"

record flow_checkpoint =
  fc_checkpoint_id :: string
  fc_task_flow_id :: string
  fc_step_id :: string
  fc_transition :: checkpoint_transition
  fc_actor :: string
  fc_recorded_at :: timestamp
  fc_evidence_refs :: "evidence_descriptor list"
  fc_run_id :: "string option"
  fc_review_ref :: "string option"
  fc_reason :: string
  fc_degraded :: bool

record task_flow =
  tf_task_flow_id :: string
  tf_workflow_pack_id :: string
  tf_workflow_pack_version :: string
  tf_tenant_id :: "string option"
  tf_caller :: string
  tf_workflow_surface :: "string option"
  tf_workflow_authority_owner :: string
  tf_flow_status :: flow_status
  tf_current_step_id :: "string option"
  tf_step_statuses :: "flow_step list"
  tf_checkpoint_refs :: "string list"
  tf_run_refs :: "string list"
  tf_runtime_states :: "(string, run_runtime_state) dict"
  tf_review_states :: "(string, run_review_state) dict"
  tf_replacement_lineage :: "replacement_lineage list"
  tf_handoff_refs :: "flow_handoff list"
  tf_supportability_status :: run_supportability
  tf_created_at :: timestamp
  tf_updated_at :: timestamp
  tf_authorization_evidence_ref :: evidence_descriptor
  tf_readiness_evidence_ref :: evidence_descriptor

section \<open>The world\<close>

record pack_world = queue_world +
  pw_runs :: "(string, run_record) dict"
  pw_run_events :: "(string, run_event list) dict"
  pw_flows :: "(string, task_flow) dict"
  pw_checkpoints :: "(string, flow_checkpoint) dict"

record pack_env = queue_env +
  pe_run_store_ready :: "nat \<Rightarrow> bool"
  pe_flow_store_ready :: "nat \<Rightarrow> bool"
  pe_model_risk :: "nat \<Rightarrow> task_response \<Rightarrow> string \<Rightarrow> model_risk_decision"

section \<open>The run repository\<close>

definition list_pack_runs :: "int option \<Rightarrow> 'w pack_world_scheme \<Rightarrow> run_record list" where
  "list_pack_runs limit w =
     (case limit of
        None \<Rightarrow> sort_key rr_created_at (dict_values (pw_runs w))
      | Some n \<Rightarrow> take (nat (max n 0)) (sorted_desc rr_created_at (dict_values (pw_runs w))))"

record run_query =
  ry_registration_ref :: "string option"
  ry_pack_id :: "string option"
  ry_pack_family :: "string option"
  ry_caller_app :: "string option"
  ry_tenant_id :: "string option"
  ry_workflow_surface :: "string option"
  ry_runtime_state :: "run_runtime_state option"
  ry_review_state :: "run_review_state option"
  ry_workflow_authority_owner :: "string option"

definition any_run :: run_query where
  "any_run = \<lparr>ry_registration_ref = None, ry_pack_id = None, ry_pack_family = None, ry_caller_app = None, ry_tenant_id = None,
     ry_workflow_surface = None, ry_runtime_state = None, ry_review_state = None, ry_workflow_authority_owner = None\<rparr>"

text \<open>\<^verbatim>\<open>wanted is None or field == wanted\<close>.\<close>

definition wanted :: "'a option \<Rightarrow> 'a \<Rightarrow> bool" where
  "wanted q x = (case q of None \<Rightarrow> True | Some y \<Rightarrow> x = y)"

definition wanted_opt :: "'a option \<Rightarrow> 'a option \<Rightarrow> bool" where
  "wanted_opt q x = (case q of None \<Rightarrow> True | Some y \<Rightarrow> x = Some y)"

definition run_matches :: "run_query \<Rightarrow> run_record \<Rightarrow> bool" where
  "run_matches q r \<longleftrightarrow> wanted (ry_registration_ref q) (rr_registration_ref r) \<and> wanted (ry_pack_id q) (rr_pack_id r)
     \<and> wanted (ry_pack_family q) (rr_pack_family r) \<and> wanted (ry_caller_app q) (rr_caller_app r)
     \<and> wanted_opt (ry_tenant_id q) (rr_tenant_id r) \<and> wanted_opt (ry_workflow_surface q) (rr_workflow_surface r)
     \<and> wanted (ry_runtime_state q) (rr_runtime_state r) \<and> wanted (ry_review_state q) (rr_review_state r)
     \<and> wanted (ry_workflow_authority_owner q) (rr_workflow_authority_owner r)"

definition query_runs :: "run_query \<Rightarrow> int \<Rightarrow> 'w pack_world_scheme \<Rightarrow> run_record list" where
  "query_runs q limit w = take (nat (max limit 0)) (sorted_desc rr_created_at (filter (run_matches q) (dict_values (pw_runs w))))"

definition get_pack_run :: "'w pack_world_scheme \<Rightarrow> string \<Rightarrow> run_record option" where
  "get_pack_run w run_id = dict_get (pw_runs w) run_id"

definition save_pack_run :: "run_record \<Rightarrow> 'w pack_world_scheme \<Rightarrow> 'w pack_world_scheme" where
  "save_pack_run r w = w\<lparr>pw_runs := dict_put (rr_run_id r) r (pw_runs w)\<rparr>"

definition stored_run_events :: "'w pack_world_scheme \<Rightarrow> string \<Rightarrow> run_event list" where
  "stored_run_events w run_id = (case dict_get (pw_run_events w) run_id of None \<Rightarrow> [] | Some es \<Rightarrow> es)"

definition list_run_events :: "'w pack_world_scheme \<Rightarrow> string \<Rightarrow> run_event list" where
  "list_run_events w run_id = sort_key rv_recorded_at (stored_run_events w run_id)"

definition save_run_event :: "run_event \<Rightarrow> 'w pack_world_scheme \<Rightarrow> 'w pack_world_scheme" where
  "save_run_event ev w =
     w\<lparr>pw_run_events := dict_put (rv_run_id ev)
         (filter (\<lambda>x. rv_event_id x \<noteq> rv_event_id ev) (stored_run_events w (rv_run_id ev)) @ [ev]) (pw_run_events w)\<rparr>"

fun delete_runs_with_events :: "string list \<Rightarrow> 'w pack_world_scheme \<Rightarrow> (nat \<times> nat) \<times> 'w pack_world_scheme" where
  "delete_runs_with_events [] w = ((0, 0), w)"
| "delete_runs_with_events (i # is) w =
     (let r = (if get_pack_run w i \<noteq> None then 1 else 0); n = length (stored_run_events w i);
          ((runs, events), w') = delete_runs_with_events is (w\<lparr>pw_runs := dict_pop i (pw_runs w), pw_run_events := dict_pop i (pw_run_events w)\<rparr>)
      in ((r + runs, n + events), w'))"

section \<open>Review policy and posture\<close>

definition resolve_allowed_review_actions :: "bool \<Rightarrow> run_review_state \<Rightarrow> run_runtime_state \<Rightarrow> review_action list" where
  "resolve_allowed_review_actions review_required review_state runtime_state =
     (if \<not> review_required \<or> runtime_state \<noteq> RS_COMPLETED then []
      else if review_state = RV_AWAITING_REVIEW then [RA_ACCEPT, RA_REJECT, RA_REVISE, RA_SUPERSEDE, RA_ABANDON]
      else if review_state = RV_ACCEPTED then [RA_SUPERSEDE] else [])"

definition resolve_supportability_status :: "run_record \<Rightarrow> run_supportability" where
  "resolve_supportability_status r =
     (if rr_superseded_by_run_id r \<noteq> None \<or> rr_review_state r \<in> {RV_REVISED, RV_SUPERSEDED} \<or> rr_runtime_state r = RS_SUPERSEDED
      then SUPPORT_HISTORICAL
      else if rr_runtime_state r \<in> {RS_FAILED, RS_EXPIRED} \<or> rr_review_state r \<in> {RV_REJECTED, RV_ABANDONED}
        \<or> (rr_review_required r \<and> rr_review_state r = RV_AWAITING_REVIEW) \<or> rr_artifact_refs r = [] \<or> rr_evidence_descriptors r = []
      then SUPPORT_ACTION_REQUIRED
      else SUPPORT_READY)"

definition is_review_pending :: "run_record \<Rightarrow> bool" where
  "is_review_pending r \<longleftrightarrow> rr_review_required r \<and> rr_review_state r = RV_AWAITING_REVIEW"

definition is_historical :: "run_record \<Rightarrow> bool" where
  "is_historical r \<longleftrightarrow> rr_superseded_by_run_id r \<noteq> None \<or> rr_review_state r \<in> {RV_REVISED, RV_SUPERSEDED} \<or> rr_runtime_state r = RS_SUPERSEDED"

definition has_partial_output :: "run_record \<Rightarrow> bool" where
  "has_partial_output r \<longleftrightarrow> rr_runtime_state r \<in> {RS_FAILED, RS_EXPIRED} \<and> (py_strip (rr_output_preview r) \<noteq> [] \<or> rr_structured_output_keys r \<noteq> [])"

record supportability_descriptor =
  su_status :: run_supportability
  su_review_pending :: bool
  su_superseded :: bool
  su_partial_output_visible :: bool

definition build_supportability_descriptor :: "run_record \<Rightarrow> supportability_descriptor" where
  "build_supportability_descriptor r =
     \<lparr>su_status = resolve_supportability_status r, su_review_pending = is_review_pending r, su_superseded = is_historical r,
      su_partial_output_visible = has_partial_output r\<rparr>"

record review_summary =
  rs_latest_review_event_at :: "timestamp option"
  rs_latest_review_actor :: "string option"
  rs_review_transition_count :: nat
  rs_has_review_history :: bool

definition list_review_events :: "run_event list \<Rightarrow> run_event list" where
  "list_review_events es = filter (\<lambda>ev. rv_event_type ev = REVIEW_STATE_UPDATED) es"

definition build_review_summary :: "run_event list \<Rightarrow> review_summary" where
  "build_review_summary events =
     (let es = list_review_events events; latest = (if es = [] then None else Some (last es)) in
      \<lparr>rs_latest_review_event_at = map_option rv_recorded_at latest, rs_latest_review_actor = map_option rv_actor latest,
       rs_review_transition_count = length es, rs_has_review_history = (es \<noteq> [])\<rparr>)"

section \<open>The output artifact\<close>

definition output_summary_json :: "string \<Rightarrow> task_execution_context \<Rightarrow> task_response \<Rightarrow> string \<Rightarrow> string \<Rightarrow> bool \<Rightarrow> run_review_state \<Rightarrow> json" where
  "output_summary_json run_id c t pack version review_required review_state = JObject
     [(''run_id'', JString run_id), (''pack_id'', JString pack), (''pack_version'', JString version), (''task_id'', JString (tr_task_id t)),
      (''request_id'', JString (xc_request_id c)), (''caller_app'', JString (cd_caller_app (tk_caller (xc_request c)))),
      (''correlation_id'', JString (cd_correlation_id (tk_caller (xc_request c)))), (''tenant_id'', json_opt (cd_tenant_id (tk_caller (xc_request c)))),
      (''review_required'', JBool review_required), (''review_state'', JString (review_state_value review_state)),
      (''provider_mode'', JString (tr_provider_mode t)), (''stubbed'', JBool (tr_stubbed t)),
      (''source_refs'', JList (map JString (tx_source_refs (tk_context (xc_request c))))), (''output_preview'', JString (tr_message t)),
      (''structured_output'', JObject (tr_structured_output t)), (''evidence_types'', JList (map (\<lambda>d. JString (ed_evidence_type d)) (tr_evidence t)))]"

definition run_output_request :: "string \<Rightarrow> timestamp \<Rightarrow> string \<Rightarrow> artifact_request" where
  "run_output_request run_id created_at payload =
     \<lparr>aq_domain = ''workflow_pack'', aq_artifact_type = ''run_output_summary'', aq_source_object_kind = ''workflow_pack_run'',
      aq_source_object_id = run_id, aq_created_at = created_at, aq_created_by = ''lotus-ai.workflow-pack-run-ledger'',
      aq_payload_json = payload, aq_lifecycle_status = RUNTIME_GENERATED, aq_retention_posture = ''retained_for_review'',
      aq_lineage_parent_artifact_id = None, aq_superseded_by_artifact_id = None, aq_tenant_id = None\<rparr>"

definition persist_workflow_pack_run_output_artifact ::
  "'e queue_env_scheme \<Rightarrow> string \<Rightarrow> task_execution_context \<Rightarrow> task_response \<Rightarrow> string \<Rightarrow> string \<Rightarrow> bool \<Rightarrow> run_review_state \<Rightarrow> 'w queue_world_scheme
     \<Rightarrow> artifact \<times> 'w queue_world_scheme" where
  "persist_workflow_pack_run_output_artifact e run_id c t pack version review_required review_state w =
     (let (a, w') = persist_or_reuse_json_artifact (qe_artifacts e) (take 16 (fresh_hex e w))
            (run_output_request run_id (tr_generated_at t) (dumps_sorted (output_summary_json run_id c t pack version review_required review_state))) w
      in (a, read_on w'))"

section \<open>The attestation source\<close>

definition evaluator_policy_by_pack :: "(string, string \<times> string) dict" where
  "evaluator_policy_by_pack = [(''idea_explanation.pack'', (''idea-explanation-guardrails'', ''idea-explanation-policy.v1''))]"

definition input_evidence_json :: "task_execution_context \<Rightarrow> task_response \<Rightarrow> json" where
  "input_evidence_json c t = JObject
     [(''task_id'', JString (tr_task_id t)), (''context'', dump_context (tk_context (xc_request c))),
      (''expected_output_label'', json_opt (map_option output_label_value (tk_expected_output_label (xc_request c))))]"

definition output_content_json :: "task_response \<Rightarrow> json" where
  "output_content_json t = JObject
     [(''status'', JString (task_status_value (tr_status t))), (''output_label'', JString (output_label_value (tr_output_label t))),
      (''message'', JString (tr_message t)), (''structured_output'', JObject (tr_structured_output t))]"

text \<open>\<^verbatim>\<open>value or fallback\<close> on an optional text: an empty text counts as absent.\<close>

definition text_or :: "string option \<Rightarrow> string \<Rightarrow> string" where
  "text_or x d = (case x of None \<Rightarrow> d | Some s \<Rightarrow> if s = [] then d else s)"

definition capture_workflow_run_attestation_source ::
  "(string \<Rightarrow> string) \<Rightarrow> string \<Rightarrow> task_execution_context \<Rightarrow> task_response \<Rightarrow> pack_registration \<Rightarrow> model_risk_decision \<Rightarrow> attestation_source" where
  "capture_workflow_run_attestation_source sha run_id c t r m =
     (let (ev, pol) = (case dict_get evaluator_policy_by_pack (rg_pack_id r) of
            Some p \<Rightarrow> p | None \<Rightarrow> (rg_pack_id r @ ''.governed-evaluator'', rg_compatibility_contract_version r));
          input_digest = sha (canonical_json (input_evidence_json c t)); output_digest = sha (canonical_json (output_content_json t))
      in \<lparr>ats_evaluator_id = ev, ats_evaluator_policy_version = pol, ats_provider_id = tr_provider_id t,
          ats_model_id = text_or (tr_model_id t) ''deterministic-stub'',
          ats_model_version = text_or (tr_model_version t) (if tr_stubbed t then ''stub.v1'' else ''model-version-unavailable''),
          ats_model_risk_status = md_status m, ats_model_risk_approval_ref = text_or (md_approval_ref m) ''unverifiable'',
          ats_input_evidence_sha256 = input_digest, ats_output_content_sha256 = output_digest,
          ats_replay_nonce = sha (run_id @ CHR 0x1F # xc_request_id c @ CHR 0x1F # input_digest @ CHR 0x1F # output_digest)\<rparr>)"

section \<open>Recording a run\<close>

definition run_store_unavailable :: error where
  "run_store_unavailable = RuntimeError ''workflow_pack_run_store_not_ready''"

definition ensure_workflow_pack_run_store_ready :: "'e pack_env_scheme \<Rightarrow> 'w pack_world_scheme \<Rightarrow> unit result \<times> 'w pack_world_scheme" where
  "ensure_workflow_pack_run_store_ready e w =
     (if pe_run_store_ready e (qw_readings w) then (Inr (), read_on w) else (Inl run_store_unavailable, read_on w))"

definition build_workflow_pack_run_id :: "string \<Rightarrow> string \<Rightarrow> string" where
  "build_workflow_pack_run_id pack_family request_id = ''packrun_'' @ pack_family @ ''_'' @ request_id"

definition resolve_runtime_state :: "task_response \<Rightarrow> run_runtime_state" where
  "resolve_runtime_state t = (if tr_status t = TASK_FAILED then RS_FAILED else RS_COMPLETED)"

definition review_required_of :: "pack_registration \<Rightarrow> bool" where
  "review_required_of r \<longleftrightarrow> rg_default_execution_mode r = REVIEW_GATED"

definition initial_review_state :: "bool \<Rightarrow> run_review_state" where
  "initial_review_state review_required = (if review_required then RV_AWAITING_REVIEW else RV_NOT_REVIEW_REQUIRED)"

definition run_record_of ::
  "task_execution_context \<Rightarrow> task_response \<Rightarrow> pack_registration \<Rightarrow> string option \<Rightarrow> recovery_lineage option \<Rightarrow> artifact \<Rightarrow> attestation_source \<Rightarrow> run_record" where
  "run_record_of c t r surface lineage a ats =
     (let caller = tk_caller (xc_request c) in
      \<lparr>rr_run_id = build_workflow_pack_run_id (rg_pack_family r) (xc_request_id c), rr_pack_id = rg_pack_id r, rr_pack_family = rg_pack_family r,
       rr_pack_version = rg_version r, rr_registration_ref = rg_pack_id r @ ''@'' @ rg_version r, rr_task_id = tr_task_id t,
       rr_request_id = xc_request_id c, rr_caller_app = cd_caller_app caller, rr_correlation_id = cd_correlation_id caller,
       rr_tenant_id = cd_tenant_id caller, rr_workflow_surface = surface, rr_workflow_authority_owner = rg_workflow_authority_owner r,
       rr_runtime_state = resolve_runtime_state t, rr_review_state = initial_review_state (review_required_of r),
       rr_review_required = review_required_of r, rr_provider_mode = tr_provider_mode t, rr_stubbed = tr_stubbed t,
       rr_output_preview = tr_message t, rr_structured_output_keys = sort (map fst (tr_structured_output t)),
       rr_evidence_descriptors = tr_evidence t, rr_artifact_refs = [a], rr_supersedes_run_id = None, rr_superseded_by_run_id = None,
       rr_created_at = tr_generated_at t, rr_completed_at = Some (tr_generated_at t), rr_last_updated_at = tr_generated_at t,
       rr_recovery_action_type = map_option rl_recovery_action_type lineage, rr_source_queue_item_id = map_option rl_source_queue_item_id lineage,
       rr_recovery_decision_event_id = map_option rl_recovery_decision_event_id lineage,
       rr_recovery_attempt_number = Option.bind lineage rl_recovery_attempt_number,
       rr_source_workflow_pack_run_id = Option.bind lineage rl_source_workflow_pack_run_id,
       rr_recovery_requested_by = Option.bind lineage rl_requested_by, rr_recovery_evidence_ref = Option.bind lineage rl_evidence_ref,
       rr_provider_config_sha256 = tr_provider_config_sha256 t, rr_attestation = ats, rr_execution_started_at = xc_execution_started_at c\<rparr>)"

definition recorded_event_of :: "run_record \<Rightarrow> run_event" where
  "recorded_event_of r =
     \<lparr>rv_event_id = rr_run_id r @ ''_event_recorded'', rv_run_id = rr_run_id r, rv_event_type = RUN_RECORDED, rv_runtime_state = rr_runtime_state r,
      rv_review_state = rr_review_state r, rv_actor = ''lotus-ai.workflow-pack-run-ledger'', rv_recorded_at = rr_created_at r\<rparr>"

definition record_registered_workflow_pack_run ::
  "'e pack_env_scheme \<Rightarrow> task_execution_context \<Rightarrow> task_response \<Rightarrow> pack_registration \<Rightarrow> string option \<Rightarrow> recovery_lineage option \<Rightarrow> 'w pack_world_scheme
     \<Rightarrow> run_record result \<times> 'w pack_world_scheme" where
  "record_registered_workflow_pack_run e c t r surface lineage w =
     then_do (ensure_workflow_pack_run_store_ready e w) (\<lambda>_ w1.
       let run_id = build_workflow_pack_run_id (rg_pack_family r) (xc_request_id c); required = review_required_of r;
           (a, w2) = persist_workflow_pack_run_output_artifact e run_id c t (rg_pack_id r) (rg_version r) required (initial_review_state required) w1;
           m = pe_model_risk e (qw_readings w2) t (rg_pack_id r);
           ats = capture_workflow_run_attestation_source (ae_sha (qe_artifacts e)) run_id c t r m;
           rec = run_record_of c t r surface lineage a ats
       in (Inr rec, save_run_event (recorded_event_of rec) (save_pack_run rec w2)))"

definition build_recovery_lineage_descriptor :: "run_record \<Rightarrow> recovery_lineage option" where
  "build_recovery_lineage_descriptor r =
     (case (rr_recovery_action_type r, rr_source_queue_item_id r, rr_recovery_decision_event_id r) of
        (Some a, Some q, Some d) \<Rightarrow>
          Some \<lparr>rl_recovery_action_type = a, rl_source_queue_item_id = q, rl_recovery_decision_event_id = d,
            rl_recovery_attempt_number = rr_recovery_attempt_number r, rl_source_workflow_pack_run_id = rr_source_workflow_pack_run_id r,
            rl_requested_by = rr_recovery_requested_by r, rl_evidence_ref = rr_recovery_evidence_ref r\<rparr>
      | _ \<Rightarrow> None)"

section \<open>Listing runs\<close>

definition run_catalog_query_limit :: "int \<Rightarrow> run_supportability option \<Rightarrow> int" where
  "run_catalog_query_limit limit status =
     (let bounded = max limit 0 in case status of None \<Rightarrow> bounded | Some _ \<Rightarrow> min (max (bounded * 10) bounded) 500)"

text \<open>The runs that \<^verbatim>\<open>build_workflow_pack_run_catalog\<close> returns. \<^verbatim>\<open>filtered_runs[:limit]\<close> drops from the end for a negative limit.\<close>

definition build_workflow_pack_run_catalog ::
  "'e pack_env_scheme \<Rightarrow> run_query \<Rightarrow> run_supportability option \<Rightarrow> int \<Rightarrow> 'w pack_world_scheme \<Rightarrow> run_record list result \<times> 'w pack_world_scheme" where
  "build_workflow_pack_run_catalog e q status limit w =
     then_do (ensure_workflow_pack_run_store_ready e w) (\<lambda>_ w1.
       let source = query_runs q (run_catalog_query_limit limit status) w1;
           filtered = filter (\<lambda>r. run_matches q r \<and> wanted status (resolve_supportability_status r)) source
       in (Inr (py_slice_to limit (sorted_desc rr_created_at filtered)), w1))"

record loaded_run =
  lr_record :: run_record
  lr_events :: "run_event list"

definition load_workflow_pack_run_context ::
  "'e pack_env_scheme \<Rightarrow> string \<Rightarrow> 'w pack_world_scheme \<Rightarrow> loaded_run result \<times> 'w pack_world_scheme" where
  "load_workflow_pack_run_context e run_id w =
     then_do (ensure_workflow_pack_run_store_ready e w) (\<lambda>_ w1.
       (case get_pack_run w1 run_id of
          None \<Rightarrow> Inl (HTTPException 404 ''unknown_workflow_pack_run'')
        | Some r \<Rightarrow> Inr \<lparr>lr_record = r, lr_events = list_run_events w1 run_id\<rparr>, w1))"

end
