(* ===== verification/Task_Flows.thy ===== *)
theory Task_Flows
  imports Pack_Runs
begin

text \<open>
  Task flows: \<^verbatim>\<open>repositories/memory_workflow_pack_task_flow_repository.py\<close>, the transition table of
  \<^verbatim>\<open>services/workflow_pack_task_flow_contracts.py\<close>, the operations of \<^verbatim>\<open>services/workflow_pack_task_flow_service.py\<close>, the recording
  of a run as a flow (\<^verbatim>\<open>services/workflow_pack_task_flow_recording.py\<close>) and the bounded identifiers of
  \<^verbatim>\<open>services/generated_identifiers.py\<close>. A flow record holds only its descriptor and is the descriptor here; the
  round trip through \<^verbatim>\<open>model_dump\<close> and \<^verbatim>\<open>model_validate\<close> is the validator \<open>valid_flow\<close> on the updated value.
  Desk, review references, blocking conditions and expiry of a flow, which no operation here reads, are left out.
\<close>

section \<open>Identifiers\<close>

definition generated_identifier_max_length :: nat where
  "generated_identifier_max_length = 128"

definition generated_identifier_digest_length :: nat where
  "generated_identifier_digest_length = 24"

definition bounded_generated_identifier :: "(string \<Rightarrow> string) \<Rightarrow> string \<Rightarrow> string \<Rightarrow> string" where
  "bounded_generated_identifier sha raw readable =
     (if length raw \<le> generated_identifier_max_length then raw
      else let suffix = CHR ''_'' # take generated_identifier_digest_length (sha raw)
           in take (generated_identifier_max_length - length suffix) readable @ suffix)"

section \<open>The repository\<close>

definition list_task_flows :: "'w pack_world_scheme \<Rightarrow> task_flow list" where
  "list_task_flows w = sort_key (\<lambda>f. [tf_created_at f, tf_task_flow_id f]) (dict_values (pw_flows w))"

record flow_query =
  fy_workflow_pack_id :: "string option"
  fy_caller :: "string option"
  fy_tenant_id :: "string option"
  fy_workflow_surface :: "string option"
  fy_flow_status :: "flow_status option"
  fy_supportability_status :: "run_supportability option"

definition flow_matches :: "flow_query \<Rightarrow> task_flow \<Rightarrow> bool" where
  "flow_matches q f \<longleftrightarrow> wanted (fy_workflow_pack_id q) (tf_workflow_pack_id f) \<and> wanted (fy_caller q) (tf_caller f)
     \<and> wanted_opt (fy_tenant_id q) (tf_tenant_id f) \<and> wanted_opt (fy_workflow_surface q) (tf_workflow_surface f)
     \<and> wanted (fy_flow_status q) (tf_flow_status f) \<and> wanted (fy_supportability_status q) (tf_supportability_status f)"

definition newest_flows :: "task_flow list \<Rightarrow> task_flow list" where
  "newest_flows fs = sorted_desc (\<lambda>f. [tf_updated_at f, tf_created_at f, tf_task_flow_id f]) fs"

definition query_task_flows :: "flow_query \<Rightarrow> int \<Rightarrow> 'w pack_world_scheme \<Rightarrow> task_flow list" where
  "query_task_flows q limit w = take (nat (max limit 0)) (newest_flows (filter (flow_matches q) (dict_values (pw_flows w))))"

definition list_task_flows_by_run_ref :: "string \<Rightarrow> int \<Rightarrow> 'w pack_world_scheme \<Rightarrow> task_flow list" where
  "list_task_flows_by_run_ref run_id limit w =
     take (nat (max limit 0)) (newest_flows (filter (\<lambda>f. run_id \<in> set (tf_run_refs f)) (dict_values (pw_flows w))))"

definition get_task_flow :: "'w pack_world_scheme \<Rightarrow> string \<Rightarrow> task_flow option" where
  "get_task_flow w flow_id = dict_get (pw_flows w) flow_id"

definition save_task_flow :: "task_flow \<Rightarrow> 'w pack_world_scheme \<Rightarrow> 'w pack_world_scheme" where
  "save_task_flow f w = w\<lparr>pw_flows := dict_put (tf_task_flow_id f) f (pw_flows w)\<rparr>"

definition list_checkpoints :: "'w pack_world_scheme \<Rightarrow> string \<Rightarrow> flow_checkpoint list" where
  "list_checkpoints w flow_id =
     sort_key (\<lambda>c. [fc_recorded_at c, fc_checkpoint_id c]) (filter (\<lambda>c. fc_task_flow_id c = flow_id) (dict_values (pw_checkpoints w)))"

definition save_checkpoint :: "flow_checkpoint \<Rightarrow> 'w pack_world_scheme \<Rightarrow> 'w pack_world_scheme" where
  "save_checkpoint c w = w\<lparr>pw_checkpoints := dict_put (fc_checkpoint_id c) c (pw_checkpoints w)\<rparr>"

definition delete_task_flows_with_checkpoints :: "string list \<Rightarrow> 'w pack_world_scheme \<Rightarrow> (nat \<times> nat) \<times> 'w pack_world_scheme" where
  "delete_task_flows_with_checkpoints ids w =
     (let gone = filter (\<lambda>i. get_task_flow w i \<noteq> None) (remdups ids);
          doomed = filter (\<lambda>(k, c). fc_task_flow_id c \<in> set ids) (pw_checkpoints w)
      in ((length gone, length doomed),
          w\<lparr>pw_flows := fold dict_pop ids (pw_flows w), pw_checkpoints := filter (\<lambda>(k, c). fc_task_flow_id c \<notin> set ids) (pw_checkpoints w)\<rparr>))"

section \<open>Transitions\<close>

fun flow_transitions :: "flow_status \<Rightarrow> flow_status list" where
  "flow_transitions FLOW_CREATED = [FLOW_RUNNING, FLOW_CANCELLED, FLOW_EXPIRED]"
| "flow_transitions FLOW_RUNNING =
     [FLOW_WAITING_FOR_INPUT, FLOW_WAITING_FOR_REVIEW, FLOW_BLOCKED, FLOW_COMPLETED, FLOW_FAILED, FLOW_CANCELLED, FLOW_EXPIRED, FLOW_SUPERSEDED]"
| "flow_transitions FLOW_WAITING_FOR_INPUT = [FLOW_RUNNING, FLOW_BLOCKED, FLOW_CANCELLED, FLOW_EXPIRED]"
| "flow_transitions FLOW_WAITING_FOR_REVIEW =
     [FLOW_RUNNING, FLOW_BLOCKED, FLOW_COMPLETED, FLOW_FAILED, FLOW_CANCELLED, FLOW_EXPIRED, FLOW_SUPERSEDED]"
| "flow_transitions FLOW_BLOCKED = [FLOW_RUNNING, FLOW_FAILED, FLOW_CANCELLED, FLOW_EXPIRED, FLOW_SUPERSEDED]"
| "flow_transitions FLOW_COMPLETED = []"
| "flow_transitions FLOW_FAILED = []"
| "flow_transitions FLOW_CANCELLED = []"
| "flow_transitions FLOW_EXPIRED = []"
| "flow_transitions FLOW_SUPERSEDED = []"

definition task_flow_terminal_states :: "flow_status list" where
  "task_flow_terminal_states = [FLOW_COMPLETED, FLOW_FAILED, FLOW_CANCELLED, FLOW_EXPIRED, FLOW_SUPERSEDED]"

definition is_task_flow_transition_allowed :: "flow_status \<Rightarrow> flow_status \<Rightarrow> bool" where
  "is_task_flow_transition_allowed from to \<longleftrightarrow> to \<in> set (flow_transitions from)"

definition require_task_flow_transition_allowed :: "flow_status \<Rightarrow> flow_status \<Rightarrow> unit result" where
  "require_task_flow_transition_allowed from to =
     (if is_task_flow_transition_allowed from to then Inr () else Inl (ValueError ''task_flow_transition''))"

definition flow_needs_step :: "flow_status \<Rightarrow> bool" where
  "flow_needs_step s \<longleftrightarrow> s \<in> {FLOW_RUNNING, FLOW_WAITING_FOR_INPUT, FLOW_WAITING_FOR_REVIEW, FLOW_BLOCKED}"

text \<open>\<^verbatim>\<open>_current_step_must_exist\<close> with the length bounds of the fields that the service sets.\<close>

definition valid_flow :: "task_flow \<Rightarrow> task_flow result" where
  "valid_flow f =
     (if tf_step_statuses f = [] then Inl (ValueError ''step_statuses'')
      else if (case tf_current_step_id f of None \<Rightarrow> False | Some s \<Rightarrow> s \<notin> set (map fs_step_id (tf_step_statuses f)))
      then Inl (ValueError ''current_step_id must reference a declared step'')
      else if flow_needs_step (tf_flow_status f) \<and> tf_current_step_id f = None
      then Inl (ValueError ''active or waiting task flows require current_step_id'')
      else Inr f)"

section \<open>Checkpoints\<close>

definition flow_store_not_ready :: error where
  "flow_store_not_ready = RuntimeError ''workflow_pack_task_flow_store_not_ready''"

definition ensure_workflow_pack_task_flow_store_ready :: "'e pack_env_scheme \<Rightarrow> 'w pack_world_scheme \<Rightarrow> unit result \<times> 'w pack_world_scheme" where
  "ensure_workflow_pack_task_flow_store_ready e w =
     (if pe_flow_store_ready e (qw_readings w) then (Inr (), read_on w) else (Inl flow_store_not_ready, read_on w))"

text \<open>Append unless present.\<close>

definition append_new :: "'a \<Rightarrow> 'a list \<Rightarrow> 'a list" where
  "append_new x xs = (if x \<in> set xs then xs else xs @ [x])"

definition append_checkpoint_to_step :: "flow_checkpoint \<Rightarrow> flow_step \<Rightarrow> flow_step" where
  "append_checkpoint_to_step c s =
     (if fs_step_id s \<noteq> fc_step_id c then s else s\<lparr>fs_checkpoint_refs := append_new (fc_checkpoint_id c) (fs_checkpoint_refs s)\<rparr>)"

definition append_checkpoint_to_task_flow ::
  "task_flow \<Rightarrow> flow_checkpoint \<Rightarrow> flow_status \<Rightarrow> string option \<Rightarrow> timestamp \<Rightarrow> task_flow result" where
  "append_checkpoint_to_task_flow f c status step updated_at =
     (if fc_task_flow_id c \<noteq> tf_task_flow_id f then Inl (ValueError ''checkpoint task_flow_id'')
      else if fc_step_id c \<notin> set (map fs_step_id (tf_step_statuses f)) then Inl (ValueError ''checkpoint step_id'')
      else valid_flow (f\<lparr>tf_flow_status := status, tf_current_step_id := step, tf_checkpoint_refs := append_new (fc_checkpoint_id c) (tf_checkpoint_refs f),
        tf_step_statuses := map (append_checkpoint_to_step c) (tf_step_statuses f), tf_updated_at := updated_at\<rparr>))"

definition create_task_flow :: "'e pack_env_scheme \<Rightarrow> task_flow \<Rightarrow> 'w pack_world_scheme \<Rightarrow> task_flow result \<times> 'w pack_world_scheme" where
  "create_task_flow e f w = then_do (ensure_workflow_pack_task_flow_store_ready e w) (\<lambda>_ w1. (Inr f, save_task_flow f w1))"

definition lift_result :: "'a result \<Rightarrow> 'w \<Rightarrow> 'a result \<times> 'w" where
  "lift_result r w = (r, w)"

definition record_task_flow_checkpoint ::
  "'e pack_env_scheme \<Rightarrow> string \<Rightarrow> flow_checkpoint \<Rightarrow> flow_status \<Rightarrow> string option \<Rightarrow> timestamp \<Rightarrow> 'w pack_world_scheme
     \<Rightarrow> task_flow result \<times> 'w pack_world_scheme" where
  "record_task_flow_checkpoint e flow_id c status step updated_at w =
     then_do (ensure_workflow_pack_task_flow_store_ready e w) (\<lambda>_ w1.
       case get_task_flow w1 flow_id of
         None \<Rightarrow> (Inl (KeyError ''unknown_task_flow''), w1)
       | Some f \<Rightarrow>
         then_do (lift_result (require_task_flow_transition_allowed (tf_flow_status f) status) w1) (\<lambda>_ w2.
         then_do (lift_result (append_checkpoint_to_task_flow f c status step updated_at) w2) (\<lambda>f' w3.
           (Inr f', save_task_flow f' (save_checkpoint c w3)))))"

section \<open>Recording a run as a flow\<close>

definition task_flow_execution_step_id :: string where
  "task_flow_execution_step_id = ''execute_workflow_pack''"

definition build_workflow_pack_task_flow_id :: "(string \<Rightarrow> string) \<Rightarrow> string \<Rightarrow> string \<Rightarrow> string" where
  "build_workflow_pack_task_flow_id sha pack_family request_id =
     bounded_generated_identifier sha (''taskflow_'' @ pack_family @ ''_'' @ request_id) (''taskflow_'' @ pack_family)"

definition build_workflow_pack_checkpoint_id :: "(string \<Rightarrow> string) \<Rightarrow> string \<Rightarrow> string \<Rightarrow> string" where
  "build_workflow_pack_checkpoint_id sha flow_id request_id =
     bounded_generated_identifier sha (flow_id @ ''_checkpoint_'' @ request_id) ''task_flow_execution_checkpoint''"

definition task_flow_evidence :: "string \<Rightarrow> run_record \<Rightarrow> evidence_descriptor" where
  "task_flow_evidence evidence_type r =
     \<lparr>ed_evidence_type = evidence_type,
      ed_attributes = [(''workflow_pack_run_id'', JString (rr_run_id r)), (''registration_ref'', JString (rr_registration_ref r)),
        (''runtime_state'', JString (runtime_state_value (rr_runtime_state r))), (''review_state'', JString (review_state_value (rr_review_state r)))]\<rparr>"

definition resolve_task_flow_status :: "run_record \<Rightarrow> flow_status" where
  "resolve_task_flow_status r =
     (if rr_runtime_state r = RS_FAILED then FLOW_FAILED
      else if rr_review_state r = RV_AWAITING_REVIEW then FLOW_WAITING_FOR_REVIEW
      else if rr_runtime_state r = RS_SUPERSEDED then FLOW_SUPERSEDED else FLOW_COMPLETED)"

fun resolve_checkpoint_transition :: "flow_status \<Rightarrow> checkpoint_transition" where
  "resolve_checkpoint_transition FLOW_WAITING_FOR_REVIEW = CP_REVIEW_REQUESTED"
| "resolve_checkpoint_transition FLOW_FAILED = CP_STEP_FAILED"
| "resolve_checkpoint_transition FLOW_SUPERSEDED = CP_FLOW_SUPERSEDED"
| "resolve_checkpoint_transition _ = CP_FLOW_COMPLETED"

definition build_initial_task_flow :: "string \<Rightarrow> task_execution_context \<Rightarrow> pack_registration \<Rightarrow> string option \<Rightarrow> run_record \<Rightarrow> task_flow" where
  "build_initial_task_flow flow_id c g surface r =
     (let ev = task_flow_evidence ''workflow_pack_task_flow_recording'' r in
      \<lparr>tf_task_flow_id = flow_id, tf_workflow_pack_id = rg_pack_id g, tf_workflow_pack_version = rg_version g,
       tf_tenant_id = cd_tenant_id (tk_caller (xc_request c)), tf_caller = cd_caller_app (tk_caller (xc_request c)), tf_workflow_surface = surface,
       tf_workflow_authority_owner = rg_workflow_authority_owner g, tf_flow_status = FLOW_RUNNING, tf_current_step_id = Some task_flow_execution_step_id,
       tf_step_statuses = [\<lparr>fs_step_id = task_flow_execution_step_id, fs_status = STEP_RUNNING, fs_run_refs = [rr_run_id r], fs_checkpoint_refs = []\<rparr>],
       tf_checkpoint_refs = [], tf_run_refs = [rr_run_id r], tf_runtime_states = [(rr_run_id r, rr_runtime_state r)],
       tf_review_states = [(rr_run_id r, rr_review_state r)], tf_replacement_lineage = [], tf_handoff_refs = [],
       tf_supportability_status = resolve_supportability_status r, tf_created_at = rr_created_at r, tf_updated_at = rr_created_at r,
       tf_authorization_evidence_ref = ev, tf_readiness_evidence_ref = ev\<rparr>)"

definition build_checkpoint :: "(string \<Rightarrow> string) \<Rightarrow> string \<Rightarrow> run_record \<Rightarrow> timestamp \<Rightarrow> flow_checkpoint" where
  "build_checkpoint sha flow_id r recorded_at =
     \<lparr>fc_checkpoint_id = build_workflow_pack_checkpoint_id sha flow_id (rr_request_id r), fc_task_flow_id = flow_id,
      fc_step_id = task_flow_execution_step_id, fc_transition = resolve_checkpoint_transition (resolve_task_flow_status r), fc_actor = ''lotus-ai'',
      fc_recorded_at = recorded_at, fc_evidence_refs = [task_flow_evidence ''workflow_pack_run_recorded'' r], fc_run_id = Some (rr_run_id r),
      fc_review_ref = Some (rr_run_id r), fc_reason = ''Workflow-pack execution produced a task-flow checkpoint.'',
      fc_degraded = (rr_runtime_state r = RS_FAILED)\<rparr>"

definition record_task_flow_for_workflow_pack_run ::
  "'e pack_env_scheme \<Rightarrow> task_execution_context \<Rightarrow> pack_registration \<Rightarrow> string option \<Rightarrow> run_record \<Rightarrow> 'w pack_world_scheme
     \<Rightarrow> task_flow result \<times> 'w pack_world_scheme" where
  "record_task_flow_for_workflow_pack_run e c g surface r w =
     (let sha = ae_sha (qe_artifacts e); flow_id = build_workflow_pack_task_flow_id sha (rg_pack_family g) (rr_request_id r);
          final = resolve_task_flow_status r in
      then_do (create_task_flow e (build_initial_task_flow flow_id c g surface r) w) (\<lambda>_ w1.
        record_task_flow_checkpoint e flow_id (build_checkpoint sha flow_id r (rr_last_updated_at r)) final
          (if flow_needs_step final then Some task_flow_execution_step_id else None) (rr_last_updated_at r) w1))"

section \<open>Synchronising a review action\<close>

fun resolve_review_task_flow_status :: "review_action \<Rightarrow> flow_status" where
  "resolve_review_task_flow_status RA_ACCEPT = FLOW_COMPLETED"
| "resolve_review_task_flow_status RA_REJECT = FLOW_FAILED"
| "resolve_review_task_flow_status RA_REVISE = FLOW_SUPERSEDED"
| "resolve_review_task_flow_status RA_SUPERSEDE = FLOW_SUPERSEDED"
| "resolve_review_task_flow_status RA_ABANDON = FLOW_CANCELLED"

fun resolve_review_checkpoint_transition :: "review_action \<Rightarrow> checkpoint_transition" where
  "resolve_review_checkpoint_transition RA_ACCEPT = CP_FLOW_COMPLETED"
| "resolve_review_checkpoint_transition RA_REJECT = CP_STEP_FAILED"
| "resolve_review_checkpoint_transition RA_REVISE = CP_REVISION_REQUESTED"
| "resolve_review_checkpoint_transition RA_SUPERSEDE = CP_FLOW_SUPERSEDED"
| "resolve_review_checkpoint_transition RA_ABANDON = CP_FLOW_CANCELLED"

record review_sync =
  sy_run_id :: string
  sy_state :: run_review_state
  sy_supportability :: run_supportability
  sy_action :: review_action
  sy_reviewed_by :: string
  sy_reason :: string
  sy_recorded_at :: timestamp
  sy_replacement_run_id :: "string option"

definition sync_lineage :: "review_sync \<Rightarrow> replacement_lineage option" where
  "sync_lineage s =
     map_option (\<lambda>i. \<lparr>rp_superseded_run_id = sy_run_id s, rp_replacement_run_id = i, rp_review_action_ref = Some (review_action_value (sy_action s)),
        rp_reason = sy_reason s\<rparr>) (sy_replacement_run_id s)"

definition ready_handoff :: "(string \<Rightarrow> string) \<Rightarrow> task_flow \<Rightarrow> string \<Rightarrow> string \<Rightarrow> flow_handoff" where
  "ready_handoff sha f run_id reason =
     \<lparr>fh_handoff_id = bounded_generated_identifier sha (tf_task_flow_id f @ ''_handoff_'' @ run_id) ''task_flow_handoff_ready'',
      fh_owner_service = tf_workflow_authority_owner f, fh_status = HANDOFF_READY, fh_domain_ref = None,
      fh_evidence_refs = [\<lparr>ed_evidence_type = ''workflow_pack_review_handoff_ready'',
        ed_attributes = [(''run_id'', JString run_id), (''task_flow_id'', JString (tf_task_flow_id f)),
          (''workflow_authority_owner'', JString (tf_workflow_authority_owner f)), (''reason'', JString reason)]\<rparr>]\<rparr>"

definition with_review_lineage :: "task_flow \<Rightarrow> replacement_lineage option \<Rightarrow> task_flow" where
  "with_review_lineage f l = (case l of None \<Rightarrow> f | Some x \<Rightarrow> f\<lparr>tf_replacement_lineage := append_new x (tf_replacement_lineage f)\<rparr>)"

definition with_review_state_and_lineage :: "(string \<Rightarrow> string) \<Rightarrow> review_sync \<Rightarrow> task_flow \<Rightarrow> task_flow" where
  "with_review_state_and_lineage sha s f =
     (let f1 = with_review_lineage (f\<lparr>tf_review_states := dict_put (sy_run_id s) (sy_state s) (tf_review_states f),
            tf_supportability_status := sy_supportability s\<rparr>) (sync_lineage s)
      in if sy_action s = RA_ACCEPT then f1\<lparr>tf_handoff_refs := append_new (ready_handoff sha f (sy_run_id s) (sy_reason s)) (tf_handoff_refs f)\<rparr> else f1)"

text \<open>\<^verbatim>\<open>action_type.value.lower()\<close>.\<close>

definition review_checkpoint :: "(string \<Rightarrow> string) \<Rightarrow> review_sync \<Rightarrow> task_flow \<Rightarrow> flow_checkpoint" where
  "review_checkpoint sha s f =
     (let action = py_lower (review_action_value (sy_action s));
          step = (case tf_current_step_id f of Some i \<Rightarrow> if i = [] then fs_step_id (hd (tf_step_statuses f)) else i
                  | None \<Rightarrow> fs_step_id (hd (tf_step_statuses f)))
      in \<lparr>fc_checkpoint_id = bounded_generated_identifier sha (tf_task_flow_id f @ ''_review_'' @ sy_run_id s @ ''_'' @ action) (''task_flow_review_'' @ action),
          fc_task_flow_id = tf_task_flow_id f, fc_step_id = step, fc_transition = resolve_review_checkpoint_transition (sy_action s),
          fc_actor = ''review:'' @ sy_reviewed_by s, fc_recorded_at = sy_recorded_at s,
          fc_evidence_refs = [\<lparr>ed_evidence_type = ''workflow_pack_review_action'',
            ed_attributes = [(''run_id'', JString (sy_run_id s)), (''action_type'', JString (review_action_value (sy_action s))),
              (''review_state'', JString (review_state_value (sy_state s)))]\<rparr>],
          fc_run_id = Some (sy_run_id s), fc_review_ref = Some (sy_run_id s), fc_reason = sy_reason s, fc_degraded = False\<rparr>)"

definition record_review_checkpoint :: "(string \<Rightarrow> string) \<Rightarrow> review_sync \<Rightarrow> task_flow \<Rightarrow> 'w pack_world_scheme \<Rightarrow> unit result \<times> 'w pack_world_scheme" where
  "record_review_checkpoint sha s f w =
     (let status = resolve_review_task_flow_status (sy_action s); c = review_checkpoint sha s f in
      then_do (lift_result (require_task_flow_transition_allowed (tf_flow_status f) status) w) (\<lambda>_ w1.
      then_do (lift_result (append_checkpoint_to_task_flow f c status (if flow_needs_step status then Some (fc_step_id c) else None) (sy_recorded_at s)) w1) (\<lambda>f1 w2.
      then_do (lift_result (valid_flow (with_review_state_and_lineage sha s f1)) w2) (\<lambda>f2 w3.
        (Inr (), save_task_flow f2 (save_checkpoint c w3))))))"

definition sync_flow :: "(string \<Rightarrow> string) \<Rightarrow> review_sync \<Rightarrow> task_flow \<Rightarrow> 'w pack_world_scheme \<Rightarrow> unit result \<times> 'w pack_world_scheme" where
  "sync_flow sha s f w =
     (if sy_run_id s \<in> set (tf_run_refs f) then record_review_checkpoint sha s f w
      else if (case sy_replacement_run_id s of None \<Rightarrow> False | Some i \<Rightarrow> i \<in> set (tf_run_refs f))
      then then_do (lift_result (valid_flow (with_review_lineage f (sync_lineage s))) w) (\<lambda>f' w1. (Inr (), save_task_flow f' w1))
      else (Inr (), w))"

fun sync_flows :: "(string \<Rightarrow> string) \<Rightarrow> review_sync \<Rightarrow> string list \<Rightarrow> task_flow list \<Rightarrow> 'w pack_world_scheme \<Rightarrow> unit result \<times> 'w pack_world_scheme" where
  "sync_flows sha s seen [] w = (Inr (), w)"
| "sync_flows sha s seen (f # fs) w =
     (if tf_task_flow_id f \<in> set seen then sync_flows sha s seen fs w
      else then_do (sync_flow sha s f w) (\<lambda>_. sync_flows sha s (tf_task_flow_id f # seen) fs))"

definition task_flow_review_sync_run_ref_limit :: int where
  "task_flow_review_sync_run_ref_limit = 20"

text \<open>The lineage descriptor is validated when it is built: a run does not replace itself, and the texts are not empty.\<close>

definition valid_lineage :: "review_sync \<Rightarrow> bool" where
  "valid_lineage s = (case sync_lineage s of None \<Rightarrow> True
     | Some l \<Rightarrow> rp_superseded_run_id l \<noteq> [] \<and> rp_replacement_run_id l \<noteq> [] \<and> rp_reason l \<noteq> [] \<and> rp_superseded_run_id l \<noteq> rp_replacement_run_id l)"

definition synchronize_task_flow_review_action ::
  "'e pack_env_scheme \<Rightarrow> review_sync \<Rightarrow> 'w pack_world_scheme \<Rightarrow> unit result \<times> 'w pack_world_scheme" where
  "synchronize_task_flow_review_action e s w =
     then_do (ensure_workflow_pack_task_flow_store_ready e w) (\<lambda>_ w1.
       if \<not> valid_lineage s then (Inl (ValueError ''replacement_lineage''), w1)
       else sync_flows (ae_sha (qe_artifacts e)) s []
         (list_task_flows_by_run_ref (sy_run_id s) task_flow_review_sync_run_ref_limit w1
          @ (case sy_replacement_run_id s of None \<Rightarrow> [] | Some i \<Rightarrow> list_task_flows_by_run_ref i task_flow_review_sync_run_ref_limit w1)) w1)"

section \<open>Listing\<close>

definition task_flow_active_statuses :: "flow_status list" where
  "task_flow_active_statuses = [FLOW_CREATED, FLOW_RUNNING, FLOW_WAITING_FOR_INPUT, FLOW_WAITING_FOR_REVIEW, FLOW_BLOCKED]"

record flow_catalog =
  fg_task_flow_count :: nat
  fg_active_count :: nat
  fg_waiting_for_review_count :: nat
  fg_blocked_count :: nat
  fg_terminal_count :: nat
  fg_task_flows :: "task_flow list"

definition build_workflow_pack_task_flow_catalog ::
  "'e pack_env_scheme \<Rightarrow> flow_query \<Rightarrow> int \<Rightarrow> 'w pack_world_scheme \<Rightarrow> flow_catalog result \<times> 'w pack_world_scheme" where
  "build_workflow_pack_task_flow_catalog e q limit w =
     then_do (ensure_workflow_pack_task_flow_store_ready e w) (\<lambda>_ w1.
       let fs = query_task_flows q limit w1; count = (\<lambda>P. length (filter (\<lambda>f. P (tf_flow_status f)) fs)) in
       (Inr \<lparr>fg_task_flow_count = length fs, fg_active_count = count (\<lambda>s. s \<in> set task_flow_active_statuses),
             fg_waiting_for_review_count = count (\<lambda>s. s = FLOW_WAITING_FOR_REVIEW), fg_blocked_count = count (\<lambda>s. s = FLOW_BLOCKED),
             fg_terminal_count = count (\<lambda>s. s \<in> set task_flow_terminal_states), fg_task_flows = fs\<rparr>, w1))"

definition build_workflow_pack_task_flow_detail ::
  "'e pack_env_scheme \<Rightarrow> string \<Rightarrow> 'w pack_world_scheme \<Rightarrow> (task_flow \<times> flow_checkpoint list) result \<times> 'w pack_world_scheme" where
  "build_workflow_pack_task_flow_detail e flow_id w =
     then_do (ensure_workflow_pack_task_flow_store_ready e w) (\<lambda>_ w1.
       case get_task_flow w1 flow_id of
         None \<Rightarrow> (Inl (KeyError ''unknown_task_flow''), w1)
       | Some f \<Rightarrow> then_do (ensure_workflow_pack_task_flow_store_ready e w1) (\<lambda>_ w2. (Inr (f, list_checkpoints w2 flow_id), w2)))"

section \<open>Read-back\<close>

lemma get_save_run [simp, store_simps]: "get_pack_run (save_pack_run r w) i = (if i = rr_run_id r then Some r else get_pack_run w i)"
  by (simp add: get_pack_run_def save_pack_run_def)

interpretation runs: keyed_repository rr_run_id get_pack_run save_pack_run
  by unfold_locales simp

lemma get_save_task_flow [simp, store_simps]: "get_task_flow (save_task_flow f w) i = (if i = tf_task_flow_id f then Some f else get_task_flow w i)"
  by (simp add: get_task_flow_def save_task_flow_def)

interpretation flows: keyed_repository tf_task_flow_id get_task_flow save_task_flow
  by unfold_locales simp

lemma ledger_frame [simp, store_simps]:
  "get_pack_run (save_run_event ev w) i = get_pack_run w i" "get_pack_run (read_on w) i = get_pack_run w i" "get_pack_run (save_task_flow f w) i = get_pack_run w i"
  "get_pack_run (save_checkpoint c w) i = get_pack_run w i"
  by (simp_all add: get_pack_run_def save_run_event_def read_on_def save_task_flow_def save_checkpoint_def)

lemma flow_frame [simp, store_simps]:
  "pw_flows (save_pack_run r w) = pw_flows w" "pw_flows (save_run_event ev w) = pw_flows w" "pw_flows (read_on w) = pw_flows w"
  "pw_flows (save_checkpoint c w) = pw_flows w"
  by (simp_all add: save_pack_run_def save_run_event_def read_on_def save_checkpoint_def)

lemma event_frame [simp, store_simps]:
  "stored_run_events (save_pack_run r w) i = stored_run_events w i" "stored_run_events (read_on w) i = stored_run_events w i"
  "stored_run_events (save_task_flow f w) i = stored_run_events w i" "stored_run_events (save_checkpoint c w) i = stored_run_events w i"
  by (simp_all add: stored_run_events_def save_pack_run_def read_on_def save_task_flow_def save_checkpoint_def)

lemma stored_save_run_event [simp, store_simps]:
  "stored_run_events (save_run_event ev w) i =
     (if i = rv_run_id ev then filter (\<lambda>x. rv_event_id x \<noteq> rv_event_id ev) (stored_run_events w i) @ [ev] else stored_run_events w i)"
  by (simp add: stored_run_events_def save_run_event_def)

lemma readings_frame [simp]:
  "qw_readings (save_pack_run r w) = qw_readings w" "qw_readings (save_run_event ev w) = qw_readings w" "qw_readings (save_task_flow f w) = qw_readings w"
  "qw_readings (save_checkpoint c w) = qw_readings w" "qw_readings (read_on w) = Suc (qw_readings w)"
  by (simp_all add: save_pack_run_def save_run_event_def save_task_flow_def save_checkpoint_def read_on_def)

lemma lift_result_simps [simp]: "fst (lift_result r w) = r" "snd (lift_result r w) = w"
  by (simp_all add: lift_result_def)

lemma then_do_lift [simp]: "then_do (lift_result r w) k = (case r of Inl e \<Rightarrow> (Inl e, w) | Inr a \<Rightarrow> k a w)"
  by (simp add: then_do_def lift_result_def split: sum.splits)

section \<open>Identifiers stay within their bound\<close>

theorem generated_identifier_bounded:
  assumes "length (sha raw) = 64"
  shows "length (bounded_generated_identifier sha raw readable) \<le> 128"
  using assms by (simp add: bounded_generated_identifier_def generated_identifier_max_length_def generated_identifier_digest_length_def Let_def)

text \<open>Terminal states have no way out, and they are exactly the states without one.\<close>

lemma flow_terminal_iff: "flow_transitions s = [] \<longleftrightarrow> s \<in> set task_flow_terminal_states"
  by (cases s) (simp_all add: task_flow_terminal_states_def)

section \<open>Effect of the synchronisation\<close>

lemma valid_flow_same: "valid_flow f = Inr f' \<Longrightarrow> f' = f"
  by (simp add: valid_flow_def split: if_splits)

lemma append_checkpoint_id: "append_checkpoint_to_task_flow f c s i t = Inr f' \<Longrightarrow>
    tf_task_flow_id f' = tf_task_flow_id f \<and> tf_run_refs f' = tf_run_refs f \<and> tf_flow_status f' = s"
  by (auto simp: append_checkpoint_to_task_flow_def dest: valid_flow_same split: if_splits)

lemma with_review_fields [simp]:
  "tf_task_flow_id (with_review_state_and_lineage sha s f) = tf_task_flow_id f" "tf_run_refs (with_review_state_and_lineage sha s f) = tf_run_refs f"
  "tf_flow_status (with_review_state_and_lineage sha s f) = tf_flow_status f"
  "dict_get (tf_review_states (with_review_state_and_lineage sha s f)) (sy_run_id s) = Some (sy_state s)"
  "tf_task_flow_id (with_review_lineage f l) = tf_task_flow_id f" "tf_run_refs (with_review_lineage f l) = tf_run_refs f"
  "tf_flow_status (with_review_lineage f l) = tf_flow_status f"
  by (simp_all add: with_review_state_and_lineage_def with_review_lineage_def Let_def split: option.splits)

text \<open>A flow that shows the outcome of a review action.\<close>

definition flow_reviewed :: "review_sync \<Rightarrow> task_flow \<Rightarrow> bool" where
  "flow_reviewed s f \<longleftrightarrow> tf_flow_status f = resolve_review_task_flow_status (sy_action s) \<and> dict_get (tf_review_states f) (sy_run_id s) = Some (sy_state s)"

lemma review_checkpoint_effect:
  assumes "record_review_checkpoint sha s f w = (Inr u, w')"
  shows "\<exists>f'. get_task_flow w' (tf_task_flow_id f) = Some f' \<and> flow_reviewed s f' \<and> tf_task_flow_id f' = tf_task_flow_id f \<and> tf_run_refs f' = tf_run_refs f
     \<and> w' = save_task_flow f' (save_checkpoint (review_checkpoint sha s f) w)"
  using assms
  by (auto simp: record_review_checkpoint_def Let_def flow_reviewed_def dest!: append_checkpoint_id valid_flow_same split: sum.splits)

lemma sync_flow_frame:
  assumes "sync_flow sha s f w = (x, w')"
  shows "pw_runs w' = pw_runs w" "pw_run_events w' = pw_run_events w"
    and "k \<noteq> tf_task_flow_id f \<Longrightarrow> get_task_flow w' k = get_task_flow w k"
  using assms
  by (auto simp: sync_flow_def record_review_checkpoint_def Let_def save_task_flow_def save_checkpoint_def get_task_flow_def
      dest!: append_checkpoint_id valid_flow_same split: if_splits sum.splits option.splits)

lemma sync_flows_frame:
  "sync_flows sha s seen fs w = (x, w') \<Longrightarrow> pw_runs w' = pw_runs w \<and> pw_run_events w' = pw_run_events w
     \<and> (\<forall>k. k \<in> set seen \<or> k \<notin> tf_task_flow_id ` set fs \<longrightarrow> get_task_flow w' k = get_task_flow w k)"
proof (induction fs arbitrary: seen w)
  case (Cons f fs)
  show ?case
  proof (cases "tf_task_flow_id f \<in> set seen")
    case True
    then show ?thesis using Cons by fastforce
  next
    case False
    obtain y w1 where s: "sync_flow sha s f w = (y, w1)" by fastforce
    have one: "pw_runs w1 = pw_runs w \<and> pw_run_events w1 = pw_run_events w
        \<and> (\<forall>k. k \<in> set seen \<or> k \<notin> tf_task_flow_id ` set (f # fs) \<longrightarrow> get_task_flow w1 k = get_task_flow w k)"
      using sync_flow_frame [OF s] False by (metis image_insert insertI1 list.simps(15))
    show ?thesis
    proof (cases y)
      case (Inl e)
      then show ?thesis using Cons.prems False s one by simp
    next
      case (Inr u)
      then have "sync_flows sha s (tf_task_flow_id f # seen) fs w1 = (x, w')" using Cons.prems False s by simp
      from Cons.IH [OF this] show ?thesis using one by simp
    qed
  qed
qed simp

lemma sync_flows_effect:
  "sync_flows sha s seen fs w = (Inr u, w') \<Longrightarrow> f \<in> set fs \<Longrightarrow> tf_task_flow_id f \<notin> set seen \<Longrightarrow> inj_on tf_task_flow_id (set fs)
     \<Longrightarrow> sy_run_id s \<in> set (tf_run_refs f) \<Longrightarrow> \<exists>f'. get_task_flow w' (tf_task_flow_id f) = Some f' \<and> flow_reviewed s f' \<and> tf_run_refs f' = tf_run_refs f"
proof (induction fs arbitrary: seen w)
  case (Cons g fs)
  show ?case
  proof (cases "tf_task_flow_id g \<in> set seen")
    case True
    then show ?thesis using Cons by auto
  next
    case False
    obtain y w1 where s: "sync_flow sha s g w = (y, w1)" by fastforce
    with Cons.prems(1) False have y: "y = Inr ()" and rest: "sync_flows sha s (tf_task_flow_id g # seen) fs w1 = (Inr u, w')"
      by (cases y; simp)+
    show ?thesis
    proof (cases "f = g")
      case True
      then have "record_review_checkpoint sha s f w = (Inr (), w1)" using s y Cons.prems(5) by (simp add: sync_flow_def)
      moreover have "get_task_flow w' (tf_task_flow_id f) = get_task_flow w1 (tf_task_flow_id f)"
        using sync_flows_frame [OF rest] True by simp
      ultimately show ?thesis using review_checkpoint_effect [of sha s f w "()" w1] by auto
    next
      case f: False
      then have "f \<in> set fs" and "tf_task_flow_id f \<noteq> tf_task_flow_id g" using Cons.prems(2,4) by (auto simp: inj_on_def)
      then show ?thesis using Cons.IH [OF rest] Cons.prems by simp
    qed
  qed
qed simp

section \<open>Flows under their own identifier\<close>

definition flows_keyed :: "'w pack_world_scheme \<Rightarrow> bool" where
  "flows_keyed w \<longleftrightarrow> dict_wf (pw_flows w) \<and> (\<forall>(k, f) \<in> set (pw_flows w). k = tf_task_flow_id f)"

lemma flows_keyed_get: "flows_keyed w \<Longrightarrow> f \<in> set (dict_values (pw_flows w)) \<Longrightarrow> get_task_flow w (tf_task_flow_id f) = Some f"
  by (auto simp: flows_keyed_def get_task_flow_def)

lemma flows_keyed_inj: "flows_keyed w \<Longrightarrow> inj_on tf_task_flow_id (set (dict_values (pw_flows w)))"
  by (metis (no_types, lifting) flows_keyed_get inj_onI option.inject)

lemma by_run_ref_subset: "set (list_task_flows_by_run_ref i n w) \<subseteq> {f \<in> set (dict_values (pw_flows w)). i \<in> set (tf_run_refs f)}"
  by (auto simp: list_task_flows_by_run_ref_def newest_flows_def dest: in_set_takeD)

lemma by_run_ref_mem: "f \<in> set (list_task_flows_by_run_ref i n w) \<Longrightarrow> f \<in> set (dict_values (pw_flows w)) \<and> i \<in> set (tf_run_refs f)"
  using by_run_ref_subset [of i n w] by auto

lemma by_run_ref_frame: "pw_flows w' = pw_flows w \<Longrightarrow> list_task_flows_by_run_ref i n w' = list_task_flows_by_run_ref i n w"
  by (simp add: list_task_flows_by_run_ref_def)

end
