(* ===== verification/Pack_Review.thy ===== *)
theory Pack_Review
  imports Task_Flows Pack_Admission
begin

text \<open>
  Review of a recorded run, \<^verbatim>\<open>services/workflow_pack_run_review.py\<close>: who may review, the replacement run of a revision, the
  transition of the review state with its events, the lineage of the replacement, and the synchronisation of task flows, in the
  order in which the code writes.
\<close>

section \<open>The review action\<close>

record review_request =
  rq_action_type :: review_action
  rq_caller_app :: string
  rq_reviewed_by :: string
  rq_reason :: string
  rq_replacement_run_id :: "string option"

fun resolve_target_review_state :: "review_action \<Rightarrow> run_review_state" where
  "resolve_target_review_state RA_ACCEPT = RV_ACCEPTED"
| "resolve_target_review_state RA_REJECT = RV_REJECTED"
| "resolve_target_review_state RA_REVISE = RV_REVISED"
| "resolve_target_review_state RA_SUPERSEDE = RV_SUPERSEDED"
| "resolve_target_review_state RA_ABANDON = RV_ABANDONED"

definition validate_review_transition :: "run_record \<Rightarrow> review_action \<Rightarrow> unit result" where
  "validate_review_transition r a =
     (if a \<in> set (resolve_allowed_review_actions (rr_review_required r) (rr_review_state r) (rr_runtime_state r)) then Inr ()
      else Inl (HTTPException 409 ''review_action_not_allowed''))"

text \<open>Every refusal on this path is one sentence with the status of the refusal behind it.\<close>

definition require_review_caller :: "'e registry_env_scheme \<Rightarrow> run_record \<Rightarrow> string \<Rightarrow> unit result" where
  "require_review_caller e r caller_app =
     (if caller_app = rr_caller_app r
      then (case require_active_registered_caller (pr_policies e) (pr_caller e) caller_app of Inl err \<Rightarrow> Inl err | Inr _ \<Rightarrow> Inr ())
      else (case require_authorized (authorize_request (pr_policies e) (pr_caller e) caller_app ASYNC_CONTROL None None None) of
              Inl (HTTPException code d) \<Rightarrow> Inl (HTTPException code ''review_caller_blocked'')
            | Inl err \<Rightarrow> Inl err
            | Inr _ \<Rightarrow> Inr ()))"

definition same_workflow :: "run_record \<Rightarrow> run_record \<Rightarrow> bool" where
  "same_workflow a b \<longleftrightarrow> rr_workflow_authority_owner a = rr_workflow_authority_owner b \<and> rr_caller_app a = rr_caller_app b
     \<and> rr_tenant_id a = rr_tenant_id b \<and> rr_workflow_surface a = rr_workflow_surface b"

definition require_replacement_run :: "run_record \<Rightarrow> string option \<Rightarrow> 'w pack_world_scheme \<Rightarrow> run_record result" where
  "require_replacement_run r i w =
     (if i = None \<or> i = Some [] then Inl (HTTPException 422 ''replacement_run_id_required'')
      else case get_pack_run w (the i) of
        None \<Rightarrow> Inl (HTTPException 404 ''unknown_replacement_run'')
      | Some x \<Rightarrow>
        if rr_run_id x = rr_run_id r then Inl (HTTPException 409 ''replacement_is_itself'')
        else if rr_pack_family x \<noteq> rr_pack_family r then Inl (HTTPException 409 ''replacement_family'')
        else if \<not> same_workflow x r then Inl (HTTPException 409 ''replacement_scope'')
        else if rr_supersedes_run_id x \<noteq> None \<and> rr_supersedes_run_id x \<noteq> Some (rr_run_id r) then Inl (HTTPException 409 ''replacement_already_linked'')
        else Inr x)"

definition needs_replacement :: "review_action \<Rightarrow> bool" where
  "needs_replacement a \<longleftrightarrow> a = RA_REVISE \<or> a = RA_SUPERSEDE"

definition resolve_replacement :: "run_record \<Rightarrow> review_request \<Rightarrow> 'w pack_world_scheme \<Rightarrow> run_record option result" where
  "resolve_replacement r q w =
     (if needs_replacement (rq_action_type q)
      then (case require_replacement_run r (rq_replacement_run_id q) w of Inl err \<Rightarrow> Inl err | Inr x \<Rightarrow> Inr (Some x))
      else if rq_replacement_run_id q \<noteq> None then Inl (HTTPException 422 ''replacement_run_id_not_allowed'')
      else Inr None)"

definition review_event :: "string \<Rightarrow> run_event_type \<Rightarrow> run_record \<Rightarrow> string \<Rightarrow> timestamp \<Rightarrow> run_event" where
  "review_event hex type r reviewed_by now =
     \<lparr>rv_event_id = ''workflow_pack_run_evt_'' @ take 12 hex, rv_run_id = rr_run_id r, rv_event_type = type, rv_runtime_state = rr_runtime_state r,
      rv_review_state = rr_review_state r, rv_actor = ''review:'' @ reviewed_by, rv_recorded_at = now\<rparr>"

definition reviewed_run :: "run_record \<Rightarrow> review_request \<Rightarrow> run_record option \<Rightarrow> timestamp \<Rightarrow> run_record" where
  "reviewed_run r q x now =
     r\<lparr>rr_review_state := resolve_target_review_state (rq_action_type q),
       rr_superseded_by_run_id := (case x of None \<Rightarrow> rr_superseded_by_run_id r | Some y \<Rightarrow> Some (rr_run_id y)), rr_last_updated_at := now\<rparr>"

text \<open>The updated run with its events, and the save of both.\<close>

definition apply_review_transition ::
  "'e pack_env_scheme \<Rightarrow> run_record \<Rightarrow> review_request \<Rightarrow> run_record option \<Rightarrow> 'w pack_world_scheme \<Rightarrow> run_record result \<times> 'w pack_world_scheme" where
  "apply_review_transition e r q x w =
     (case validate_review_transition r (rq_action_type q) of
        Inl err \<Rightarrow> (Inl err, w)
      | Inr _ \<Rightarrow>
        let now = now_text e w; r' = reviewed_run r q x now; ev1 = review_event (fresh_hex e w) REVIEW_STATE_UPDATED r' (rq_reviewed_by q) now;
            w1 = save_run_event ev1 (save_pack_run r' (read_on w))
        in (Inr r', case x of None \<Rightarrow> w1 | Some y \<Rightarrow> save_run_event (review_event (fresh_hex e w1) LINEAGE_UPDATED r' (rq_reviewed_by q) now) (read_on w1)))"

definition link_replacement ::
  "'e pack_env_scheme \<Rightarrow> run_record \<Rightarrow> review_request \<Rightarrow> run_record option \<Rightarrow> 'w pack_world_scheme \<Rightarrow> 'w pack_world_scheme" where
  "link_replacement e r q x w =
     (case x of
        None \<Rightarrow> w
      | Some y \<Rightarrow>
        let y' = y\<lparr>rr_supersedes_run_id := Some (rr_run_id r), rr_last_updated_at := now_text e w\<rparr>; w1 = read_on w in
        read_on (save_run_event (review_event (fresh_hex e w1) LINEAGE_UPDATED y' (rq_reviewed_by q) (now_text e w1)) (save_pack_run y' w1)))"

definition review_sync_of :: "run_record \<Rightarrow> review_request \<Rightarrow> run_record option \<Rightarrow> review_sync" where
  "review_sync_of r' q x =
     \<lparr>sy_run_id = rr_run_id r', sy_state = rr_review_state r', sy_supportability = resolve_supportability_status r', sy_action = rq_action_type q,
      sy_reviewed_by = rq_reviewed_by q, sy_reason = rq_reason q, sy_recorded_at = rr_last_updated_at r', sy_replacement_run_id = map_option rr_run_id x\<rparr>"

definition apply_workflow_pack_run_review_action ::
  "'e pack_env_scheme \<Rightarrow> string \<Rightarrow> review_request \<Rightarrow> 'w pack_world_scheme \<Rightarrow> run_record result \<times> 'w pack_world_scheme" where
  "apply_workflow_pack_run_review_action e run_id q w =
     then_do (ensure_workflow_pack_run_store_ready e w) (\<lambda>_ w0.
     then_do (ensure_workflow_pack_task_flow_store_ready e w0) (\<lambda>_ w1.
     case get_pack_run w1 run_id of
       None \<Rightarrow> (Inl (HTTPException 404 ''unknown_workflow_pack_run''), w1)
     | Some r \<Rightarrow>
       then_do (lift_result (require_review_caller e r (rq_caller_app q)) w1) (\<lambda>_ w2.
       then_do (lift_result (resolve_replacement r q w2) w2) (\<lambda>x w3.
       then_do (apply_review_transition e r q x w3) (\<lambda>r' w4.
       let w5 = link_replacement e r q x w4 in
       then_do (synchronize_task_flow_review_action e (review_sync_of r' q x) w5) (\<lambda>_ w6. (Inr r', w6)))))))"

section \<open>One action, step by step\<close>

text \<open>What a review action that got as far as its transition has written, whatever the synchronisation then does.\<close>

definition ledger_after :: "'e pack_env_scheme \<Rightarrow> run_record \<Rightarrow> review_request \<Rightarrow> run_record option \<Rightarrow> 'w pack_world_scheme \<Rightarrow> 'w pack_world_scheme" where
  "ledger_after e r q x w = link_replacement e r q x (snd (apply_review_transition e r q x w))"

lemma review_action_cases:
  assumes "apply_workflow_pack_run_review_action e run_id q w = (res, w')"
  obtains (refused) err where "res = Inl err" "pw_runs w' = pw_runs w" "pw_run_events w' = pw_run_events w" "pw_flows w' = pw_flows w"
  | (written) r x where "get_pack_run w run_id = Some r" "require_review_caller e r (rq_caller_app q) = Inr ()" "resolve_replacement r q w = Inr x"
      "validate_review_transition r (rq_action_type q) = Inr ()"
      "apply_workflow_pack_run_review_action e run_id q w =
         then_do (synchronize_task_flow_review_action e (review_sync_of (reviewed_run r q x (now_text e (read_on (read_on w)))) q x)
             (ledger_after e r q x (read_on (read_on w))))
           (\<lambda>_ w6. (Inr (reviewed_run r q x (now_text e (read_on (read_on w)))), w6))"
proof -
  have frame: "resolve_replacement r q (read_on (read_on w)) = resolve_replacement r q w" for r
    by (simp add: resolve_replacement_def require_replacement_run_def)
  show thesis
  proof (cases "pe_run_store_ready e (qw_readings w) \<and> pe_flow_store_ready e (Suc (qw_readings w))")
    case False
    then show thesis
      using assms refused
      by (auto simp: apply_workflow_pack_run_review_action_def ensure_workflow_pack_run_store_ready_def ensure_workflow_pack_task_flow_store_ready_def
          read_on_def split: if_splits)
  next
    case ready: True
    have unfolded: "apply_workflow_pack_run_review_action e run_id q w =
       (case get_pack_run w run_id of None \<Rightarrow> (Inl (HTTPException 404 ''unknown_workflow_pack_run''), read_on (read_on w))
        | Some r \<Rightarrow> (case require_review_caller e r (rq_caller_app q) of Inl err \<Rightarrow> (Inl err, read_on (read_on w))
          | Inr _ \<Rightarrow> (case resolve_replacement r q w of Inl err \<Rightarrow> (Inl err, read_on (read_on w))
            | Inr x \<Rightarrow> then_do (apply_review_transition e r q x (read_on (read_on w))) (\<lambda>r' w4.
                then_do (synchronize_task_flow_review_action e (review_sync_of r' q x) (link_replacement e r q x w4)) (\<lambda>_ w6. (Inr r', w6))))))"
      using ready
      by (simp add: apply_workflow_pack_run_review_action_def ensure_workflow_pack_run_store_ready_def ensure_workflow_pack_task_flow_store_ready_def
          Let_def frame cong: option.case_cong sum.case_cong)
    show thesis
    proof (cases "\<exists>r x. get_pack_run w run_id = Some r \<and> require_review_caller e r (rq_caller_app q) = Inr () \<and> resolve_replacement r q w = Inr x
        \<and> validate_review_transition r (rq_action_type q) = Inr ()")
      case True
      then obtain r x where *: "get_pack_run w run_id = Some r" "require_review_caller e r (rq_caller_app q) = Inr ()" "resolve_replacement r q w = Inr x"
          "validate_review_transition r (rq_action_type q) = Inr ()" by blast
      show thesis
        by (rule written [OF *]) (simp add: unfolded * apply_review_transition_def ledger_after_def Let_def)
    next
      case False
      then show thesis
        using assms unfolded refused
        by (auto simp: apply_review_transition_def read_on_def split: option.splits sum.splits)
    qed
  qed
qed

lemma replacement_found:
  assumes "resolve_replacement r q w = Inr x"
  shows "(x = None \<longleftrightarrow> \<not> needs_replacement (rq_action_type q))"
    and "x = Some y \<Longrightarrow> \<exists>i. get_pack_run w i = Some y \<and> rr_run_id y \<noteq> rr_run_id r \<and> same_workflow y r \<and> rr_pack_family y = rr_pack_family r"
proof -
  show "x = None \<longleftrightarrow> \<not> needs_replacement (rq_action_type q)"
    using assms by (cases x) (auto simp: resolve_replacement_def split: if_splits sum.splits)
  show "\<exists>i. get_pack_run w i = Some y \<and> rr_run_id y \<noteq> rr_run_id r \<and> same_workflow y r \<and> rr_pack_family y = rr_pack_family r" if "x = Some y"
    using assms that by (auto simp: resolve_replacement_def require_replacement_run_def split: if_splits option.splits sum.splits)
qed

lemma ledger_after_runs:
  assumes "validate_review_transition r (rq_action_type q) = Inr ()"
  shows "get_pack_run (ledger_after e r q x w) i =
     (case x of
        Some y \<Rightarrow> if i = rr_run_id y then Some (y\<lparr>rr_supersedes_run_id := Some (rr_run_id r), rr_last_updated_at := now_text e (snd (apply_review_transition e r q x w))\<rparr>)
                  else if i = rr_run_id r then Some (reviewed_run r q x (now_text e w)) else get_pack_run w i
      | None \<Rightarrow> if i = rr_run_id r then Some (reviewed_run r q x (now_text e w)) else get_pack_run w i)"
  using assms
  by (auto simp: ledger_after_def link_replacement_def apply_review_transition_def Let_def reviewed_run_def split: option.splits)

lemma ledger_after_flows [simp]: "pw_flows (ledger_after e r q x w) = pw_flows w"
  by (simp add: ledger_after_def link_replacement_def apply_review_transition_def Let_def split: option.splits sum.splits)

lemma synchronize_frame:
  "pw_runs (snd (synchronize_task_flow_review_action e s w)) = pw_runs w"
  "pw_run_events (snd (synchronize_task_flow_review_action e s w)) = pw_run_events w"
proof -
  obtain x w1 where eq: "sync_flows (ae_sha (qe_artifacts e)) s []
         (list_task_flows_by_run_ref (sy_run_id s) task_flow_review_sync_run_ref_limit (read_on w)
          @ (case sy_replacement_run_id s of None \<Rightarrow> [] | Some i \<Rightarrow> list_task_flows_by_run_ref i task_flow_review_sync_run_ref_limit (read_on w))) (read_on w) = (x, w1)"
    by fastforce
  note fr = sync_flows_frame [OF eq]
  show "pw_runs (snd (synchronize_task_flow_review_action e s w)) = pw_runs w"
    using fr by (simp add: synchronize_task_flow_review_action_def ensure_workflow_pack_task_flow_store_ready_def eq) (simp add: read_on_def)
  show "pw_run_events (snd (synchronize_task_flow_review_action e s w)) = pw_run_events w"
    using fr by (simp add: synchronize_task_flow_review_action_def ensure_workflow_pack_task_flow_store_ready_def eq) (simp add: read_on_def)
qed

section \<open>The ledger over time\<close>

fun review_next :: "run_review_state \<Rightarrow> run_review_state list" where
  "review_next RV_AWAITING_REVIEW = [RV_ACCEPTED, RV_REJECTED, RV_REVISED, RV_SUPERSEDED, RV_ABANDONED]"
| "review_next RV_ACCEPTED = [RV_SUPERSEDED]"
| "review_next _ = []"

definition review_path :: "run_review_state \<Rightarrow> run_review_state \<Rightarrow> bool" where
  "review_path a b \<longleftrightarrow> (a, b) \<in> {(a, b). b \<in> set (review_next a)}\<^sup>*"

text \<open>All of a record except its review posture and lineage.\<close>

definition run_content :: "run_record \<Rightarrow> run_record" where
  "run_content r = r\<lparr>rr_review_state := RV_AWAITING_REVIEW, rr_supersedes_run_id := None, rr_superseded_by_run_id := None, rr_last_updated_at := []\<rparr>"

definition run_ok :: "string \<Rightarrow> run_record \<Rightarrow> bool" where
  "run_ok i r \<longleftrightarrow> rr_run_id r = i \<and> (rr_superseded_by_run_id r \<noteq> None \<longleftrightarrow> rr_review_state r \<in> {RV_REVISED, RV_SUPERSEDED})
     \<and> (rr_review_required r \<longleftrightarrow> rr_review_state r \<noteq> RV_NOT_REVIEW_REQUIRED)
     \<and> (rr_review_state r \<notin> {RV_AWAITING_REVIEW, RV_NOT_REVIEW_REQUIRED} \<longrightarrow> rr_runtime_state r = RS_COMPLETED)"

definition ledger_ok :: "'w pack_world_scheme \<Rightarrow> bool" where
  "ledger_ok w \<longleftrightarrow> (\<forall>i r. get_pack_run w i = Some r \<longrightarrow> run_ok i r)"

text \<open>What happens to the ledger: reviews, recordings under a request identifier that has no run yet, and anything else.\<close>

inductive ledger_step :: "pack_world \<Rightarrow> pack_world \<Rightarrow> bool" where
  reviewed: "ledger_step w (snd (apply_workflow_pack_run_review_action (e :: pack_env) run_id q w))"
| recorded: "get_pack_run w (build_workflow_pack_run_id (rg_pack_family g) (xc_request_id c)) = None \<Longrightarrow>
     ledger_step w (snd (record_registered_workflow_pack_run (e :: pack_env) c t g surface lineage w))"
| other: "pw_runs w' = pw_runs w \<Longrightarrow> pw_run_events w' = pw_run_events w \<Longrightarrow> ledger_step w w'"

lemma allowed_is_next:
  "validate_review_transition r a = Inr () \<Longrightarrow> resolve_target_review_state a \<in> set (review_next (rr_review_state r))
     \<and> rr_review_required r \<and> rr_runtime_state r = RS_COMPLETED"
  by (cases "rr_review_state r"; cases a) (auto simp: validate_review_transition_def resolve_allowed_review_actions_def split: if_splits)

lemma reviewed_run_ok:
  assumes "run_ok i r" and "validate_review_transition r (rq_action_type q) = Inr ()" and "x = None \<longleftrightarrow> \<not> needs_replacement (rq_action_type q)"
  shows "run_ok i (reviewed_run r q x now)"
  using assms allowed_is_next [OF assms(2)]
  by (cases "rq_action_type q"; cases "rr_review_state r") (auto simp: run_ok_def reviewed_run_def needs_replacement_def split: option.splits)

lemma review_keeps_run:
  assumes "validate_review_transition r (rq_action_type q) = Inr ()"
  shows "run_content (reviewed_run r q x now) = run_content r" "review_path (rr_review_state r) (rr_review_state (reviewed_run r q x now))"
  using allowed_is_next [OF assms] by (simp_all add: run_content_def reviewed_run_def review_path_def r_into_rtrancl)

text \<open>What a step keeps of one run.\<close>

definition run_kept :: "string \<Rightarrow> run_record \<Rightarrow> 'w pack_world_scheme \<Rightarrow> bool" where
  "run_kept i r w \<longleftrightarrow> (\<exists>r'. get_pack_run w i = Some r' \<and> run_content r' = run_content r \<and> review_path (rr_review_state r) (rr_review_state r'))"

lemma linked_content: "run_content (y\<lparr>rr_supersedes_run_id := s, rr_last_updated_at := t\<rparr>) = run_content y"
  by (simp add: run_content_def)

lemma review_path_refl [simp, intro]: "review_path a a"
  by (simp add: review_path_def)

lemma review_step_ledger:
  assumes "ledger_ok w"
  shows "ledger_ok (snd (apply_workflow_pack_run_review_action e run_id q w))
     \<and> (\<forall>i r. get_pack_run w i = Some r \<longrightarrow> run_kept i r (snd (apply_workflow_pack_run_review_action e run_id q w)))"
proof -
  obtain res w' where eq: "apply_workflow_pack_run_review_action e run_id q w = (res, w')" by fastforce
  from eq show ?thesis
  proof (cases rule: review_action_cases)
    case (refused err)
    then have "get_pack_run w' = get_pack_run w" by (simp add: get_pack_run_def fun_eq_iff)
    then show ?thesis using assms by (simp add: eq ledger_ok_def run_kept_def)
  next
    case (written r x)
    let ?w2 = "read_on (read_on w)"
    have runs: "get_pack_run w' i = get_pack_run (ledger_after e r q x ?w2) i" for i
    proof -
      have "w' = snd (synchronize_task_flow_review_action e (review_sync_of (reviewed_run r q x (now_text e ?w2)) q x) (ledger_after e r q x ?w2))"
        using arg_cong [OF written(5), of snd] eq by (simp add: snd_then_do split: sum.splits)
      then show ?thesis by (simp add: get_pack_run_def synchronize_frame)
    qed
    have rid: "rr_run_id r = run_id" and okr: "run_ok run_id r" using assms written(1) by (auto simp: ledger_ok_def run_ok_def)
    have ids: "rr_run_id y = i" and oky: "run_ok i y" if "get_pack_run w i = Some y" for i y using assms that by (auto simp: ledger_ok_def run_ok_def)
    have none: "x = None \<longleftrightarrow> \<not> needs_replacement (rq_action_type q)" by (rule replacement_found [OF written(3)])
    have y: "get_pack_run w (rr_run_id y) = Some y \<and> rr_run_id y \<noteq> run_id" if "x = Some y" for y
      using replacement_found(2) [OF written(3) that] ids rid by auto
    note after = ledger_after_runs [OF written(4), of e x ?w2]
    have okr': "run_ok run_id (reviewed_run r q x (now_text e ?w2))" by (rule reviewed_run_ok [OF okr written(4) none])
    have linked: "run_ok i (y\<lparr>rr_supersedes_run_id := s, rr_last_updated_at := t\<rparr>) = run_ok i y" for i y s t by (simp add: run_ok_def)
    have "run_ok i s" if "get_pack_run w' i = Some s" for i s
      using that oky [of i] okr' y oky linked unfolding runs after
      by (cases x) (auto simp: rid split: if_splits)
    then have "ledger_ok w'" by (simp add: ledger_ok_def)
    moreover have "run_kept i s w'" if "get_pack_run w i = Some s" for i s
      unfolding run_kept_def runs after
      using that y written(1) review_keeps_run [OF written(4)] rid
      by (cases x) (auto simp: linked_content)
    ultimately show ?thesis by (simp add: eq)
  qed
qed

lemmas artifact_ops = persist_or_reuse_json_artifact_def persist_json_artifact_def stage_json_artifact_def put_object_def save_artifact_def

lemma artifact_frame [simp]:
  "pw_runs (snd (persist_or_reuse_json_artifact ae hex q w)) = pw_runs w"
  "pw_run_events (snd (persist_or_reuse_json_artifact ae hex q w)) = pw_run_events w"
  "pw_flows (snd (persist_or_reuse_json_artifact ae hex q w)) = pw_flows w"
  by (simp_all add: artifact_ops Let_def split: option.splits)

lemma output_artifact_frame [simp]:
  "get_pack_run (snd (persist_workflow_pack_run_output_artifact e i c t p v b s w)) k = get_pack_run w k"
  "stored_run_events (snd (persist_workflow_pack_run_output_artifact e i c t p v b s w)) k = stored_run_events w k"
  "pw_flows (snd (persist_workflow_pack_run_output_artifact e i c t p v b s w)) = pw_flows w"
  by (simp_all add: persist_workflow_pack_run_output_artifact_def Let_def case_prod_beta get_pack_run_def stored_run_events_def read_on_def)

lemma record_run_effect:
  "(\<exists>err. fst (record_registered_workflow_pack_run e c t g surface lineage w) = Inl err
      \<and> (\<forall>k. get_pack_run (snd (record_registered_workflow_pack_run e c t g surface lineage w)) k = get_pack_run w k))
   \<or> (\<exists>a ats. fst (record_registered_workflow_pack_run e c t g surface lineage w) = Inr (run_record_of c t g surface lineage a ats)
      \<and> (\<forall>k. get_pack_run (snd (record_registered_workflow_pack_run e c t g surface lineage w)) k =
             (if k = build_workflow_pack_run_id (rg_pack_family g) (xc_request_id c) then Some (run_record_of c t g surface lineage a ats) else get_pack_run w k)))"
proof (cases "pe_run_store_ready e (qw_readings w)")
  case True
  show ?thesis
    by (rule disjI2, rule exI [of _ "fst (persist_workflow_pack_run_output_artifact e (build_workflow_pack_run_id (rg_pack_family g) (xc_request_id c)) c t
          (rg_pack_id g) (rg_version g) (review_required_of g) (initial_review_state (review_required_of g)) (read_on w))"], rule exI)
      (simp add: True record_registered_workflow_pack_run_def ensure_workflow_pack_run_store_ready_def Let_def case_prod_beta run_record_of_def)
qed (simp add: record_registered_workflow_pack_run_def ensure_workflow_pack_run_store_ready_def)

lemma recorded_run_ok: "run_ok (build_workflow_pack_run_id (rg_pack_family g) (xc_request_id c)) (run_record_of c t g surface lineage a ats)"
  by (simp add: run_ok_def run_record_of_def Let_def initial_review_state_def)

lemma ledger_step_ok:
  assumes "ledger_step w w'" and "ledger_ok w"
  shows "ledger_ok w' \<and> (\<forall>i r. get_pack_run w i = Some r \<longrightarrow> run_kept i r w')"
  using assms
proof (induction rule: ledger_step.cases)
  case (reviewed w e run_id q)
  then show ?case using review_step_ledger by blast
next
  case (recorded w g c e t surface lineage)
  let ?i = "build_workflow_pack_run_id (rg_pack_family g) (xc_request_id c)"
  consider "\<forall>k. get_pack_run w' k = get_pack_run w k"
    | a ats where "\<forall>k. get_pack_run w' k = (if k = ?i then Some (run_record_of c t g surface lineage a ats) else get_pack_run w k)"
    using record_run_effect [of e c t g surface lineage w] recorded by blast
  then show ?case
  proof cases
    case 1
    then show ?thesis using recorded by (auto simp: ledger_ok_def run_kept_def)
  next
    case 2
    have "run_ok k s" if "get_pack_run w' k = Some s" for k s
      using that recorded(1,4) recorded_run_ok [of g c t surface lineage a ats] 2 by (cases "k = ?i") (auto simp: ledger_ok_def)
    moreover have "run_kept k s w'" if "get_pack_run w k = Some s" for k s
      using that recorded(1,3) 2 by (cases "k = ?i") (auto simp: run_kept_def)
    ultimately show ?thesis using recorded(1) by (simp add: ledger_ok_def)
  qed
next
  case (other w' w)
  then show ?case by (auto simp: ledger_ok_def run_kept_def get_pack_run_def)
qed

lemma run_kept_trans:
  assumes "run_kept i r w" and "\<And>r'. get_pack_run w i = Some r' \<Longrightarrow> run_kept i r' w'"
  shows "run_kept i r w'"
  using assms by (fastforce simp: run_kept_def review_path_def intro: rtrancl_trans)

lemma ledger_steps_ok:
  assumes "ledger_step\<^sup>*\<^sup>* w w'" and "ledger_ok w"
  shows "ledger_ok w' \<and> (\<forall>i r. get_pack_run w i = Some r \<longrightarrow> run_kept i r w')"
  using assms
proof (induction rule: rtranclp_induct)
  case base
  then show ?case by (auto simp: run_kept_def)
next
  case (step w1 w2)
  then show ?case using ledger_step_ok [OF step(2)] run_kept_trans by metis
qed

text \<open>
  C33. The ledger never rewrites what a run produced: whatever is recorded and reviewed later, a run keeps its content, its review state
  moves only from awaiting review to one outcome and from accepted to superseded, and a run names a replacement exactly when it is
  revised or superseded.
\<close>

theorem run_history_is_preserved:
  assumes "ledger_step\<^sup>*\<^sup>* w w'" and "ledger_ok w" and "get_pack_run w i = Some r"
  shows "\<exists>r'. get_pack_run w' i = Some r' \<and> run_content r' = run_content r \<and> review_path (rr_review_state r) (rr_review_state r')
     \<and> (rr_superseded_by_run_id r' \<noteq> None \<longleftrightarrow> rr_review_state r' \<in> {RV_REVISED, RV_SUPERSEDED})"
  using ledger_steps_ok [OF assms(1,2)] assms(3) unfolding run_kept_def ledger_ok_def run_ok_def by metis

section \<open>Runs and task flows\<close>

lemma synchronize_effect:
  assumes "synchronize_task_flow_review_action e s w = (Inr u, w')" and "flows_keyed w"
    and "f \<in> set (list_task_flows_by_run_ref (sy_run_id s) task_flow_review_sync_run_ref_limit w)"
  shows "\<exists>f'. get_task_flow w' (tf_task_flow_id f) = Some f' \<and> flow_reviewed s f' \<and> tf_run_refs f' = tf_run_refs f"
proof -
  let ?fs = "list_task_flows_by_run_ref (sy_run_id s) task_flow_review_sync_run_ref_limit w
          @ (case sy_replacement_run_id s of None \<Rightarrow> [] | Some i \<Rightarrow> list_task_flows_by_run_ref i task_flow_review_sync_run_ref_limit w)"
  have eq: "sync_flows (ae_sha (qe_artifacts e)) s [] ?fs (read_on w) = (Inr u, w')"
    using assms(1) by (simp add: synchronize_task_flow_review_action_def ensure_workflow_pack_task_flow_store_ready_def by_run_ref_frame [of "read_on w" w]
        split: if_splits option.splits)
  have "set ?fs \<subseteq> set (dict_values (pw_flows w))" by (auto split: option.splits dest: by_run_ref_mem)
  then have "inj_on tf_task_flow_id (set ?fs)" using flows_keyed_inj [OF assms(2)] inj_on_subset by blast
  then show ?thesis
    using sync_flows_effect [OF eq, of f] assms(3) by_run_ref_mem [OF assms(3)] by auto
qed

lemma flows_keyed_frame: "pw_flows w' = pw_flows w \<Longrightarrow> flows_keyed w' = flows_keyed w"
  by (simp add: flows_keyed_def)

lemma then_do_returns:
  assumes "then_do p (\<lambda>_ w. (Inr a, w)) = (Inr b, w')" and "\<And>u. p = (Inr u, w') \<Longrightarrow> b = a \<Longrightarrow> P"
  shows P
  using assms by (cases p; cases "fst p") auto

lemma review_agrees:
  assumes "apply_workflow_pack_run_review_action e run_id q w = (Inr r', w')" and "flows_keyed w" and "ledger_ok w"
    and "f \<in> set (list_task_flows_by_run_ref run_id task_flow_review_sync_run_ref_limit w)"
  shows "get_pack_run w' run_id = Some r' \<and> rr_review_state r' = resolve_target_review_state (rq_action_type q)
    \<and> (\<exists>f'. get_task_flow w' (tf_task_flow_id f) = Some f' \<and> tf_flow_status f' = resolve_review_task_flow_status (rq_action_type q)
         \<and> dict_get (tf_review_states f') run_id = Some (rr_review_state r') \<and> tf_run_refs f' = tf_run_refs f)"
  using assms(1)
proof (cases rule: review_action_cases)
  case (written r x)
  let ?w2 = "read_on (read_on w)" let ?r = "reviewed_run r q x (now_text e ?w2)" let ?s = "review_sync_of ?r q x"
  obtain u where sync: "synchronize_task_flow_review_action e ?s (ledger_after e r q x ?w2) = (Inr u, w')" and r': "r' = ?r"
    using assms(1) unfolding written(5) by (rule then_do_returns) blast
  have rid: "rr_run_id r = run_id" using assms(3) written(1) by (auto simp: ledger_ok_def run_ok_def)
  have s: "sy_run_id ?s = run_id" "sy_action ?s = rq_action_type q" "sy_state ?s = rr_review_state r'"
    and target: "rr_review_state r' = resolve_target_review_state (rq_action_type q)"
    by (simp_all add: review_sync_of_def reviewed_run_def rid r')
  have keyed: "flows_keyed (ledger_after e r q x ?w2)" using assms(2) flows_keyed_frame [of "ledger_after e r q x ?w2" w] by simp
  have fl0: "pw_flows (ledger_after e r q x ?w2) = pw_flows w" by simp
  have fl: "f \<in> set (list_task_flows_by_run_ref (sy_run_id ?s) task_flow_review_sync_run_ref_limit (ledger_after e r q x ?w2))"
    using assms(4) unfolding s(1) by_run_ref_frame [OF fl0] .
  have "get_pack_run w' run_id = get_pack_run (ledger_after e r q x ?w2) run_id"
    using arg_cong [OF sync, of snd] synchronize_frame(1) [of e ?s "ledger_after e r q x ?w2"] by (simp add: get_pack_run_def)
  moreover have "run_id \<noteq> rr_run_id y" if "x = Some y" for y using replacement_found(2) [OF written(3) that] rid by auto
  ultimately have "get_pack_run w' run_id = Some r'"
    using ledger_after_runs [OF written(4), of e x ?w2 run_id] by (cases x) (simp_all add: rid r')
  then show ?thesis using synchronize_effect [OF sync keyed fl] target unfolding flow_reviewed_def s by blast
qed simp

text \<open>
  C34. A review that returns leaves the run and its task flows in agreement: the run is stored in the state of the action, and each of the
  twenty newest flows of the run is in the status of the action and shows the run's new review state.
\<close>

theorem reviewed_flows_agree:
  assumes "apply_workflow_pack_run_review_action e run_id q w = (Inr r', w')" and "flows_keyed w" and "ledger_ok w"
    and "f \<in> set (list_task_flows_by_run_ref run_id 20 w)"
  shows "get_pack_run w' run_id = Some r' \<and> rr_review_state r' = resolve_target_review_state (rq_action_type q)
    \<and> (\<exists>f'. get_task_flow w' (tf_task_flow_id f) = Some f' \<and> tf_flow_status f' = resolve_review_task_flow_status (rq_action_type q)
         \<and> dict_get (tf_review_states f') run_id = Some (rr_review_state r') \<and> tf_run_refs f' = tf_run_refs f)"
  by (rule review_agrees [OF assms(1,2,3) assms(4) [folded task_flow_review_sync_run_ref_limit_def]])

section \<open>Superseding an accepted run\<close>

lemma record_review_checkpoint_refused:
  "\<not> is_task_flow_transition_allowed (tf_flow_status f) (resolve_review_task_flow_status (sy_action s)) \<Longrightarrow>
     record_review_checkpoint sha s f w = (Inl (ValueError ''task_flow_transition''), w)"
  by (simp add: record_review_checkpoint_def require_task_flow_transition_allowed_def Let_def)

text \<open>
  C35. Superseding a run whose task flow is finished, as the flow of every accepted run is, raises a transition error after the ledger was
  written: the run is stored as superseded with its replacement, the flow keeps its old status, and the caller gets an error.
\<close>

theorem superseding_accepted_run_fails_half_way:
  assumes ready: "\<And>n. pe_run_store_ready e n" "\<And>n. pe_flow_store_ready e n"
    and run: "get_pack_run w run_id = Some r" "rr_run_id r = run_id" "rr_review_state r = RV_ACCEPTED" "rr_review_required r" "rr_runtime_state r = RS_COMPLETED"
    and req: "rq_action_type q = RA_SUPERSEDE" "require_review_caller e r (rq_caller_app q) = Inr ()" "resolve_replacement r q w = Inr (Some x)"
    and texts: "run_id \<noteq> []" "rr_run_id x \<noteq> []" "rq_reason q \<noteq> []"
    and flow: "list_task_flows_by_run_ref run_id task_flow_review_sync_run_ref_limit w = f # fs" "tf_flow_status f \<in> set task_flow_terminal_states"
  shows "\<exists>w' r'. apply_workflow_pack_run_review_action e run_id q w = (Inl (ValueError ''task_flow_transition''), w')
     \<and> get_pack_run w' run_id = Some r' \<and> rr_review_state r' = RV_SUPERSEDED \<and> rr_superseded_by_run_id r' = Some (rr_run_id x)
     \<and> pw_flows w' = pw_flows w"
proof -
  have ok: "validate_review_transition r (rq_action_type q) = Inr ()"
    by (simp add: validate_review_transition_def resolve_allowed_review_actions_def run req(1))
  have xr: "rr_run_id x \<noteq> run_id" using replacement_found(2) [OF req(3)] run(2) by auto
  let ?w2 = "read_on (read_on w)" let ?r = "reviewed_run r q (Some x) (now_text e ?w2)" 
  define s where "s = review_sync_of ?r q (Some x)"
  have fr: "resolve_replacement r q ?w2 = resolve_replacement r q w" by (simp add: resolve_replacement_def require_replacement_run_def)
  have expand: "apply_workflow_pack_run_review_action e run_id q w =
      then_do (synchronize_task_flow_review_action e s (ledger_after e r q (Some x) ?w2)) (\<lambda>_ w6. (Inr ?r, w6))"
    using ready run(1) req ok fr unfolding s_def
    by (simp add: apply_workflow_pack_run_review_action_def ensure_workflow_pack_run_store_ready_def ensure_workflow_pack_task_flow_store_ready_def
        apply_review_transition_def ledger_after_def Let_def)
  have flow': "run_id \<in> set (tf_run_refs f)" using by_run_ref_mem [of f run_id task_flow_review_sync_run_ref_limit w] by (simp add: flow)
  have blocked: "\<not> is_task_flow_transition_allowed (tf_flow_status f) (resolve_review_task_flow_status (sy_action s))"
    using flow(2) flow_terminal_iff [of "tf_flow_status f"] by (simp add: is_task_flow_transition_allowed_def)
  have valid: "valid_lineage s" using texts xr by (simp add: s_def valid_lineage_def sync_lineage_def review_sync_of_def reviewed_run_def run(2))
  have frame: "list_task_flows_by_run_ref run_id task_flow_review_sync_run_ref_limit (read_on (ledger_after e r q (Some x) ?w2)) = f # fs"
    using by_run_ref_frame [of "read_on (ledger_after e r q (Some x) ?w2)" w] by (simp add: flow)
  have sid: "sy_run_id s = run_id" by (simp add: s_def review_sync_of_def reviewed_run_def run(2))
  have "synchronize_task_flow_review_action e s (ledger_after e r q (Some x) ?w2) = (Inl (ValueError ''task_flow_transition''), read_on (ledger_after e r q (Some x) ?w2))"
    unfolding synchronize_task_flow_review_action_def ensure_workflow_pack_task_flow_store_ready_def
    using ready valid flow' by (simp add: sid frame sync_flow_def record_review_checkpoint_refused [OF blocked] del: readings_frame)
  then have "apply_workflow_pack_run_review_action e run_id q w = (Inl (ValueError ''task_flow_transition''), read_on (ledger_after e r q (Some x) ?w2))"
    using expand by simp
  moreover have "get_pack_run (read_on (ledger_after e r q (Some x) ?w2)) run_id = Some ?r"
    using xr by (auto simp: ledger_after_runs [OF ok] run(2))
  moreover have "rr_review_state ?r = RV_SUPERSEDED" "rr_superseded_by_run_id ?r = Some (rr_run_id x)" by (simp_all add: reviewed_run_def req(1))
  ultimately show ?thesis by auto
qed

section \<open>A concrete ledger\<close>

lemma require_active_registered_caller_code [code]:
  "require_active_registered_caller store auth caller =
     (if (case auth of None \<Rightarrow> False | Some a \<Rightarrow> ac_caller_app a \<noteq> caller) then Inl (HTTPException 403 ''caller_identity_mismatch'')
      else case get_policy store caller of
        None \<Rightarrow> Inl (HTTPException 403 ''blocked_summary'')
      | Some policy \<Rightarrow> if cp_lifecycle_status policy \<noteq> ACTIVE then Inl (HTTPException 403 ''blocked_summary'') else Inr ())"
  by (cases auth) (simp_all add: require_active_registered_caller_def)

definition sample_pack_env :: pack_env where
  "sample_pack_env = queue_env.extend (sample_queue_env\<lparr>qe_now := (\<lambda>_. sample_instant\<lparr>u_year := 1\<rparr>), qe_artifacts := \<lparr>ae_backend = MEMORY, ae_sha = (\<lambda>_. ''d'')\<rparr>\<rparr>)
     \<lparr>pe_run_store_ready = (\<lambda>_. True), pe_flow_store_ready = (\<lambda>_. True), pe_model_risk = (\<lambda>_ _ _. \<lparr>md_status = ''approved'', md_approval_ref = None\<rparr>)\<rparr>"

definition empty_ledger :: pack_world where
  "empty_ledger = queue_world.extend empty_queue \<lparr>pw_runs = [], pw_run_events = [], pw_flows = [], pw_checkpoints = []\<rparr>"

definition sample_run_context :: "string \<Rightarrow> task_execution_context" where
  "sample_run_context request_id =
     \<lparr>xc_request = \<lparr>tk_task_id = ''t'', tk_input_mode = STRUCTURED_CONTEXT,
        tk_caller = \<lparr>cd_caller_app = ''lotus-gateway'', cd_correlation_id = ''c'', cd_requested_by = None, cd_tenant_id = None\<rparr>,
        tk_context = \<lparr>tx_summary = ''s'', tx_payload = [], tx_source_refs = []\<rparr>, tk_requirements = None, tk_expected_output_label = None\<rparr>,
      xc_request_id = request_id, xc_execution_started_at = ''2026-06-01T07:00:00Z''\<rparr>"

definition sample_response :: task_response where
  "sample_response =
     \<lparr>tr_task_id = ''t'', tr_status = TASK_COMPLETED, tr_output_label = EXPLANATION_ONLY, tr_message = ''m'', tr_structured_output = [],
      tr_evidence = [], tr_generated_at = ''2026-06-01T07:00:01Z'', tr_provider_id = ''p'', tr_provider_mode = ''stub'', tr_model_id = None,
      tr_model_version = None, tr_stubbed = True, tr_provider_config_sha256 = None, tr_workflow_pack_run_id = None\<rparr>"

definition sample_output :: artifact where
  "sample_output = \<lparr>ar_artifact_id = ''art-1'', ar_domain = ''workflow_pack'', ar_artifact_type = ''run_output_summary'', ar_source_object_kind = ''workflow_pack_run'',
     ar_source_object_id = ''r'', ar_lifecycle_status = RUNTIME_GENERATED, ar_retention_posture = ''retained_for_review'', ar_media_type = ''application/json'',
     ar_byte_size = 2, ar_checksum_sha256 = ''d'', ar_storage_backend = MEMORY, ar_storage_reference = ''s'', ar_lineage_parent_artifact_id = None,
     ar_superseded_by_artifact_id = None, ar_created_at = ''2026-06-01T07:00:01Z'', ar_created_by = ''lotus-ai.workflow-pack-run-ledger'', ar_tenant_id = None\<rparr>"

definition sample_source :: attestation_source where
  "sample_source = capture_workflow_run_attestation_source (\<lambda>_. ''d'') ''r'' (sample_run_context ''a'') sample_response advisor_brief_v1_registration
     \<lparr>md_status = ''approved'', md_approval_ref = None\<rparr>"

definition sample_run :: "string \<Rightarrow> run_record" where
  "sample_run request_id = run_record_of (sample_run_context request_id) sample_response advisor_brief_v1_registration None None sample_output sample_source"

definition two_runs :: pack_world where
  "two_runs = snd (record_task_flow_for_workflow_pack_run sample_pack_env (sample_run_context ''a'') advisor_brief_v1_registration None (sample_run ''a'')
     (save_pack_run (sample_run ''b'') (save_pack_run (sample_run ''a'') empty_ledger)))"

definition sample_accept :: review_request where
  "sample_accept = \<lparr>rq_action_type = RA_ACCEPT, rq_caller_app = ''lotus-gateway'', rq_reviewed_by = ''u'', rq_reason = ''r'', rq_replacement_run_id = None\<rparr>"

definition sample_supersede :: review_request where
  "sample_supersede = sample_accept\<lparr>rq_action_type := RA_SUPERSEDE, rq_replacement_run_id := Some ''packrun_advisor_brief_b''\<rparr>"

definition accepted_ledger :: pack_world where
  "accepted_ledger = snd (apply_workflow_pack_run_review_action sample_pack_env ''packrun_advisor_brief_a'' sample_accept two_runs)"

lemma record_flow_frame:
  "pw_runs (snd (record_task_flow_for_workflow_pack_run e c g surface r w)) = pw_runs w"
  "pw_run_events (snd (record_task_flow_for_workflow_pack_run e c g surface r w)) = pw_run_events w"
  by (simp_all add: record_task_flow_for_workflow_pack_run_def create_task_flow_def record_task_flow_checkpoint_def save_task_flow_def save_checkpoint_def
      ensure_workflow_pack_task_flow_store_ready_def read_on_def Let_def lift_result_def snd_then_do split: sum.splits option.splits)

lemma two_runs_ok: "ledger_ok two_runs"
proof -
  have runs: "get_pack_run two_runs = get_pack_run (save_pack_run (sample_run ''b'') (save_pack_run (sample_run ''a'') empty_ledger))"
    by (simp add: two_runs_def get_pack_run_def fun_eq_iff record_flow_frame)
  have ids: "rr_run_id (sample_run i) = build_workflow_pack_run_id (rg_pack_family advisor_brief_v1_registration) i" for i
    by (simp add: sample_run_def run_record_of_def Let_def sample_run_context_def)
  have "run_ok (rr_run_id (sample_run i)) (sample_run i)" for i
    using recorded_run_ok [of advisor_brief_v1_registration "sample_run_context i"] unfolding ids by (simp add: sample_run_def sample_run_context_def)
  then show ?thesis unfolding ledger_ok_def runs by (auto simp: get_pack_run_def save_pack_run_def empty_ledger_def queue_world.defs split: if_splits)
qed

text \<open>Two recorded runs, the first of them accepted; the ledger is evaluated once.\<close>

lemma sample_ledger_facts:
  "dict_wf (pw_flows two_runs) \<and> list_all (\<lambda>(k, f). k = tf_task_flow_id f) (pw_flows two_runs)
   \<and> (case get_pack_run two_runs ''packrun_advisor_brief_a'' of None \<Rightarrow> False | Some r \<Rightarrow> rr_review_state r = RV_AWAITING_REVIEW)
   \<and> map tf_task_flow_id (list_task_flows_by_run_ref ''packrun_advisor_brief_a'' 20 two_runs) = [''taskflow_advisor_brief_a'']"
  by code_simp

lemma sample_accepted_facts:
  "case apply_workflow_pack_run_review_action sample_pack_env ''packrun_advisor_brief_a'' sample_accept two_runs of
     (Inl _, _) \<Rightarrow> False
   | (Inr _, w) \<Rightarrow>
     (case get_pack_run w ''packrun_advisor_brief_a'' of
        None \<Rightarrow> False
      | Some r \<Rightarrow> rr_run_id r = ''packrun_advisor_brief_a'' \<and> rr_review_state r = RV_ACCEPTED \<and> rr_review_required r \<and> rr_runtime_state r = RS_COMPLETED
         \<and> require_review_caller sample_pack_env r ''lotus-gateway'' = Inr ()
         \<and> (case resolve_replacement r sample_supersede w of Inr (Some x) \<Rightarrow> rr_run_id x \<noteq> [] | _ \<Rightarrow> False))
     \<and> (case list_task_flows_by_run_ref ''packrun_advisor_brief_a'' 20 w of [] \<Rightarrow> False | f # _ \<Rightarrow> tf_flow_status f \<in> set task_flow_terminal_states)"
  by code_simp

lemma sample_accepted:
  obtains r' w where "apply_workflow_pack_run_review_action sample_pack_env ''packrun_advisor_brief_a'' sample_accept two_runs = (Inr r', w)" "w = accepted_ledger"
  using sample_accepted_facts unfolding accepted_ledger_def
  by (cases "apply_workflow_pack_run_review_action sample_pack_env ''packrun_advisor_brief_a'' sample_accept two_runs") (auto split: sum.splits)

theorem run_history_is_preserved_witness:
  "\<exists>r r'. get_pack_run two_runs ''packrun_advisor_brief_a'' = Some r \<and> get_pack_run accepted_ledger ''packrun_advisor_brief_a'' = Some r'
     \<and> run_content r' = run_content r \<and> review_path RV_AWAITING_REVIEW (rr_review_state r')"
proof -
  obtain r where r: "get_pack_run two_runs ''packrun_advisor_brief_a'' = Some r" "rr_review_state r = RV_AWAITING_REVIEW"
    using sample_ledger_facts by (cases "get_pack_run two_runs ''packrun_advisor_brief_a''") auto
  have "ledger_step\<^sup>*\<^sup>* two_runs accepted_ledger" unfolding accepted_ledger_def by (rule r_into_rtranclp) (rule reviewed)
  from run_history_is_preserved [OF this two_runs_ok r(1)] show ?thesis using r by auto
qed

theorem reviewed_flows_agree_witness:
  "\<exists>f'. get_task_flow accepted_ledger ''taskflow_advisor_brief_a'' = Some f' \<and> tf_flow_status f' = FLOW_COMPLETED
     \<and> dict_get (tf_review_states f') ''packrun_advisor_brief_a'' = Some RV_ACCEPTED"
proof -
  obtain r' w where step: "apply_workflow_pack_run_review_action sample_pack_env ''packrun_advisor_brief_a'' sample_accept two_runs = (Inr r', w)"
    and w: "w = accepted_ledger" by (rule sample_accepted)
  obtain f fs where f: "list_task_flows_by_run_ref ''packrun_advisor_brief_a'' 20 two_runs = f # fs" "tf_task_flow_id f = ''taskflow_advisor_brief_a''"
    using sample_ledger_facts by (cases "list_task_flows_by_run_ref ''packrun_advisor_brief_a'' 20 two_runs") auto
  have "flows_keyed two_runs" using sample_ledger_facts by (simp add: flows_keyed_def list_all_iff)
  from reviewed_flows_agree [OF step this two_runs_ok, of f] show ?thesis using f by (auto simp: w sample_accept_def)
qed

theorem superseding_accepted_run_fails_half_way_witness:
  "\<exists>w' r'. apply_workflow_pack_run_review_action sample_pack_env ''packrun_advisor_brief_a'' sample_supersede accepted_ledger
       = (Inl (ValueError ''task_flow_transition''), w')
     \<and> get_pack_run w' ''packrun_advisor_brief_a'' = Some r' \<and> rr_review_state r' = RV_SUPERSEDED \<and> pw_flows w' = pw_flows accepted_ledger"
proof -
  obtain s w where "apply_workflow_pack_run_review_action sample_pack_env ''packrun_advisor_brief_a'' sample_accept two_runs = (Inr s, w)"
    and "w = accepted_ledger" by (rule sample_accepted)
  note facts = sample_accepted_facts [unfolded this, simplified]
  obtain r where r: "get_pack_run accepted_ledger ''packrun_advisor_brief_a'' = Some r"
    using facts by (cases "get_pack_run accepted_ledger ''packrun_advisor_brief_a''") simp_all
  obtain x where x: "resolve_replacement r sample_supersede accepted_ledger = Inr (Some x)" "rr_run_id x \<noteq> []"
    using facts by (auto simp: r split: sum.splits option.splits)
  obtain f fs where f: "list_task_flows_by_run_ref ''packrun_advisor_brief_a'' task_flow_review_sync_run_ref_limit accepted_ledger = f # fs"
      "tf_flow_status f \<in> set task_flow_terminal_states"
    using facts unfolding task_flow_review_sync_run_ref_limit_def
    by (cases "list_task_flows_by_run_ref ''packrun_advisor_brief_a'' 20 accepted_ledger") simp_all
  have run: "rr_run_id r = ''packrun_advisor_brief_a''" "rr_review_state r = RV_ACCEPTED" "rr_review_required r" "rr_runtime_state r = RS_COMPLETED"
    "require_review_caller sample_pack_env r ''lotus-gateway'' = Inr ()"
    using facts by (simp_all add: r)
  have ready: "pe_run_store_ready sample_pack_env n" "pe_flow_store_ready sample_pack_env n" for n by (simp_all add: sample_pack_env_def queue_env.defs)
  have q: "rq_action_type sample_supersede = RA_SUPERSEDE" "require_review_caller sample_pack_env r (rq_caller_app sample_supersede) = Inr ()"
    "rq_reason sample_supersede \<noteq> []" "''packrun_advisor_brief_a'' \<noteq> []" using run(5) by (simp_all add: sample_supersede_def sample_accept_def)
  show ?thesis
    using superseding_accepted_run_fails_half_way [OF ready r run(1-4) q(1,2) x(1) q(4) x(2) q(3) f] by blast
qed

end
