(* ===== verification/Pack_Guardrails.thy ===== *)
theory Pack_Guardrails
  imports Json_Values Task_Contracts
begin

text \<open>
  The payload checks that stand before a workflow pack runs: \<^verbatim>\<open>services/portfolio_memory_context_guardrails.py\<close>,
  \<^verbatim>\<open>outcome_review_narrative_guardrails.py\<close>, \<^verbatim>\<open>proof_pack_pm_memo_guardrails.py\<close>, \<^verbatim>\<open>wave_pm_memo_guardrails.py\<close>,
  \<^verbatim>\<open>operations_handoff_summary_guardrails.py\<close>, \<^verbatim>\<open>dpm_exception_summary_guardrails.py\<close>, \<^verbatim>\<open>pm_quality_summary_guardrails.py\<close>,
  \<^verbatim>\<open>idea_explanation_guardrails.py\<close> and \<^verbatim>\<open>advisory_copilot_guardrails.py\<close>. Each module is a section. A rejection carries the
  prefix of its module and a short code in place of the sentence. The modules repeat their helpers; the repeated ones are one
  definition here, with the forbidden names as an argument.
\<close>

section \<open>Shared helpers\<close>

definition rejection :: "string \<Rightarrow> string \<Rightarrow> error" where
  "rejection prefix detail = HTTPException 422 (prefix @ detail)"

text \<open>\<^verbatim>\<open>_find_forbidden_field_names\<close>: keys of every object at every depth, in lower case.\<close>

primrec find_forbidden_field_names :: "string list \<Rightarrow> json \<Rightarrow> string list" where
  "find_forbidden_field_names names JNull = []"
| "find_forbidden_field_names names (JBool b) = []"
| "find_forbidden_field_names names (JInt i) = []"
| "find_forbidden_field_names names (JFloat t) = []"
| "find_forbidden_field_names names (JString s) = []"
| "find_forbidden_field_names names (JList xs) = concat (map (find_forbidden_field_names names) xs)"
| "find_forbidden_field_names names (JObject kvs) =
     concat (map (\<lambda>(k, found). (if py_lower k \<in> set names then [py_lower k] else []) @ found)
       (map (map_prod id (find_forbidden_field_names names)) kvs))"

definition string_list_at :: "json_object \<Rightarrow> string \<Rightarrow> string list option" where
  "string_list_at d k = (case list_at d k of None \<Rightarrow> None | Some xs \<Rightarrow> text_items xs)"

definition strings_at :: "json_object \<Rightarrow> string \<Rightarrow> string list" where
  "strings_at d k = (case string_list_at d k of None \<Rightarrow> [] | Some ts \<Rightarrow> ts)"

definition object_at :: "json_object \<Rightarrow> string \<Rightarrow> json_object" where
  "object_at d k = (case section_of d k of None \<Rightarrow> [] | Some ob \<Rightarrow> ob)"

definition items_at :: "json_object \<Rightarrow> string \<Rightarrow> json list" where
  "items_at d k = (case list_at d k of None \<Rightarrow> [] | Some xs \<Rightarrow> xs)"

definition is_text :: "json_object \<Rightarrow> string \<Rightarrow> string \<Rightarrow> bool" where
  "is_text d k s \<longleftrightarrow> dict_get d k = Some (JString s)"

text \<open>\<^verbatim>\<open>_single_portfolio_id\<close>.\<close>

definition portfolio_ids :: "json list \<Rightarrow> string list" where
  "portfolio_ids items = remdups (List.map_filter (\<lambda>j. case j of JObject d \<Rightarrow> text_at d ''portfolio_id'' | _ \<Rightarrow> None) items)"

definition single_portfolio_id :: "json list \<Rightarrow> string option" where
  "single_portfolio_id items = (case portfolio_ids items of [p] \<Rightarrow> Some p | _ \<Rightarrow> None)"

definition is_object :: "json \<Rightarrow> bool" where
  "is_object j = (case j of JObject d \<Rightarrow> True | _ \<Rightarrow> False)"

section \<open>The portfolio memory context\<close>

definition portfolio_memory_event_ref_limit :: int where
  "portfolio_memory_event_ref_limit = 12"

definition required_context_keys :: "string list" where
  "required_context_keys =
     [''portfolio_id'', ''supportability_state'', ''context_content_hash'', ''support_boundary'', ''event_ref_limit'',
      ''event_ref_selection_policy'', ''event_refs_returned'', ''event_refs_omitted'', ''event_refs_truncated'', ''event_count'',
      ''source_systems'', ''reason_codes'', ''content_hash'', ''governance_policy'', ''event_refs'']"

definition required_governance_keys :: "string list" where
  "required_governance_keys =
     [''event_identity_scheme'', ''retention_policy'', ''redaction_policy'', ''audit_policy'', ''access_classification'', ''source_authority_policy'']"

definition required_event_ref_keys :: "string list" where
  "required_event_ref_keys =
     [''event_identity'', ''event_type'', ''source_system'', ''source_type'', ''source_id'', ''event_time'', ''event_ref_selection_rank'',
      ''retention_policy'', ''redaction_policy'', ''audit_policy'', ''access_classification'']"

definition no_raw_payloads_policy :: string where
  "no_raw_payloads_policy = ''NO_RAW_PAYLOADS''"

definition event_ref_checks :: "(string \<Rightarrow> error) \<Rightarrow> json \<Rightarrow> (bool \<times> error) list" where
  "event_ref_checks reject j =
     (let d = (case j of JObject ob \<Rightarrow> ob | _ \<Rightarrow> []) in
      [(is_object j, reject ''event_ref_not_object''),
       (missing_keys required_event_ref_keys d = [], reject ''event_ref_fields''),
       (is_text d ''redaction_policy'' no_raw_payloads_policy, reject ''event_ref_redaction''),
       (int_at d ''event_ref_selection_rank'' \<noteq> None, reject ''event_ref_rank''),
       (has_text d ''event_time'', reject ''event_ref_time'')])"

definition event_rank :: "json \<Rightarrow> int" where
  "event_rank j = (case j of JObject d \<Rightarrow> (case int_at d ''event_ref_selection_rank'' of Some r \<Rightarrow> r | None \<Rightarrow> 0) | _ \<Rightarrow> 0)"

definition member_eq :: "json_object \<Rightarrow> string \<Rightarrow> json \<Rightarrow> bool" where
  "member_eq d k j = py_eq (case dict_get d k of None \<Rightarrow> JNull | Some v \<Rightarrow> v) j"

definition memory_context_checks :: "json \<Rightarrow> string list \<Rightarrow> (string \<Rightarrow> error) \<Rightarrow> json_object \<Rightarrow> (bool \<times> error) list" where
  "memory_context_checks evidence_portfolio_id forbidden reject c =
     (let g = object_at c ''governance_policy''; refs = items_at c ''event_refs'';
          count = (case int_at c ''event_count'' of Some n \<Rightarrow> n | None \<Rightarrow> 0);
          ref_limit = (case int_at c ''event_ref_limit'' of Some n \<Rightarrow> n | None \<Rightarrow> -1);
          omitted = max 0 (count - int (length refs)) in
      [(missing_keys required_context_keys c = [], reject ''context_fields''),
       (find_forbidden_field_names forbidden (JObject c) = [], reject ''forbidden_context_fields''),
       (member_eq c ''portfolio_id'' evidence_portfolio_id, reject ''portfolio_id_mismatch''),
       (has_text c ''content_hash'', reject ''content_hash''),
       (has_text c ''context_content_hash'', reject ''context_content_hash''),
       (has_text c ''support_boundary'', reject ''support_boundary''),
       (int_at c ''event_count'' \<noteq> None \<and> 0 \<le> count, reject ''event_count''),
       (int_at c ''event_ref_limit'' \<noteq> None \<and> 0 \<le> ref_limit \<and> ref_limit \<le> portfolio_memory_event_ref_limit, reject ''event_ref_limit''),
       (has_text c ''event_ref_selection_policy'', reject ''event_ref_selection_policy''),
       (string_list_at c ''source_systems'' \<noteq> None, reject ''source_systems''),
       (string_list_at c ''reason_codes'' \<noteq> None, reject ''reason_codes''),
       (section_of c ''governance_policy'' \<noteq> None, reject ''governance_policy''),
       (missing_keys required_governance_keys g = [], reject ''governance_fields''),
       (is_text g ''redaction_policy'' no_raw_payloads_policy, reject ''redaction_policy''),
       (case text_at g ''source_authority_policy'' of None \<Rightarrow> False | Some s \<Rightarrow> contains_text ''must not reconstruct'' s, reject ''source_authority_policy''),
       (list_at c ''event_refs'' \<noteq> None, reject ''event_refs''),
       (int (length refs) \<le> portfolio_memory_event_ref_limit, reject ''event_refs_limit'')]
      @ concat (map (event_ref_checks reject) refs)
      @ [(map event_rank refs = map int [1..<length refs + 1], reject ''event_ref_ranks''),
         (member_eq c ''event_refs_returned'' (JInt (int (length refs))), reject ''event_refs_returned''),
         (member_eq c ''event_refs_omitted'' (JInt omitted), reject ''event_refs_omitted''),
         (dict_get c ''event_refs_truncated'' = Some (JBool (omitted > 0)), reject ''event_refs_truncated'')])"

definition validate_optional_portfolio_memory_context ::
  "json_object \<Rightarrow> json \<Rightarrow> string list \<Rightarrow> (string \<Rightarrow> error) \<Rightarrow> json_object option result" where
  "validate_optional_portfolio_memory_context p evidence_portfolio_id forbidden reject =
     (case dict_get p ''portfolio_memory_context'' of
        None \<Rightarrow> Inr None
      | Some JNull \<Rightarrow> Inr None
      | Some (JObject c) \<Rightarrow>
        (case first_failure (memory_context_checks evidence_portfolio_id forbidden reject c) of Inl e \<Rightarrow> Inl e | Inr _ \<Rightarrow> Inr (Some c))
      | Some _ \<Rightarrow> Inl (reject ''context_not_object''))"

definition event_types :: "json option \<Rightarrow> string list" where
  "event_types refs =
     (case refs of
        Some (JList xs) \<Rightarrow> sort (remdups (List.map_filter (\<lambda>j. case j of JObject d \<Rightarrow> text_at d ''event_type'' | _ \<Rightarrow> None) xs))
      | _ \<Rightarrow> [])"

definition get_or :: "json_object \<Rightarrow> string \<Rightarrow> json \<Rightarrow> json" where
  "get_or d k v = (case dict_get d k of None \<Rightarrow> v | Some j \<Rightarrow> j)"

definition portfolio_memory_context_summary :: "json_object \<Rightarrow> json_object" where
  "portfolio_memory_context_summary p =
     (case section_of p ''portfolio_memory_context'' of
        None \<Rightarrow>
          [(''portfolio_memory_status'', JString ''not_supplied''), (''portfolio_memory_content_hash'', JString ''''),
           (''portfolio_memory_context_content_hash'', JString ''''), (''portfolio_memory_event_count'', JInt 0),
           (''portfolio_memory_event_ref_count'', JInt 0), (''portfolio_memory_event_refs_omitted'', JInt 0),
           (''portfolio_memory_event_refs_truncated'', JBool False), (''portfolio_memory_source_systems'', JList []),
           (''portfolio_memory_event_types'', JList []), (''portfolio_memory_supportability_state'', JString '''')]
      | Some c \<Rightarrow>
          [(''portfolio_memory_status'', JString ''supplied''), (''portfolio_memory_content_hash'', get_or c ''content_hash'' (JString '''')),
           (''portfolio_memory_context_content_hash'', get_or c ''context_content_hash'' (JString '''')),
           (''portfolio_memory_event_count'', get_or c ''event_count'' (JInt 0)),
           (''portfolio_memory_event_ref_count'', JInt (int (length (items_at c ''event_refs'')))),
           (''portfolio_memory_event_refs_omitted'', get_or c ''event_refs_omitted'' (JInt 0)),
           (''portfolio_memory_event_refs_truncated'', get_or c ''event_refs_truncated'' (JBool False)),
           (''portfolio_memory_source_systems'',
              JList (map JString (sort (List.map_filter (\<lambda>j. case j of JString s \<Rightarrow> Some s | _ \<Rightarrow> None) (items_at c ''source_systems''))))),
           (''portfolio_memory_event_types'', JList (map JString (event_types (dict_get c ''event_refs'')))),
           (''portfolio_memory_supportability_state'', get_or c ''supportability_state'' (JString ''''))])"

definition memory_context_check :: "json_object \<Rightarrow> json \<Rightarrow> string list \<Rightarrow> (string \<Rightarrow> error) \<Rightarrow> unit result" where
  "memory_context_check p evidence_portfolio_id forbidden reject =
     (case validate_optional_portfolio_memory_context p evidence_portfolio_id forbidden reject of Inl e \<Rightarrow> Inl e | Inr _ \<Rightarrow> Inr ())"

text \<open>\<^verbatim>\<open>evidence.get("portfolio_id")\<close>.\<close>

definition evidence_portfolio :: "json_object \<Rightarrow> json" where
  "evidence_portfolio ev = get_or ev ''portfolio_id'' JNull"

section \<open>Outcome-review narrative\<close>

definition outcome_required_ai_evidence_keys :: "string list" where
  "outcome_required_ai_evidence_keys =
     [''contract_version'', ''outcome_review_id'', ''outcome_review_content_hash'', ''portfolio_id'', ''proof_pack_id'', ''permitted_use'',
      ''forbidden_actions'', ''forbidden_fields_removed'', ''overall_outcome'', ''dimensions'', ''source_refs'', ''evidence_ref'', ''content_hash'']"

definition outcome_required_forbidden_actions :: "string list" where
  "outcome_required_forbidden_actions =
     [''place_orders'', ''approve_rebalance'', ''override_controls'', ''invent_missing_evidence'', ''score_portfolio_manager'', ''contact_client'']"

definition outcome_forbidden_field_names :: "string list" where
  "outcome_forbidden_field_names =
     [''account_number'', ''client_name'', ''client_id'', ''email'', ''phone'', ''raw_payload'', ''raw_request'', ''raw_response'', ''secret'', ''ssn'', ''token'']"

definition outcome_forbidden_requested_outputs :: "string list" where
  "outcome_forbidden_requested_outputs = [''approval_decision'', ''client_message'', ''execution_instruction'', ''pm_score'', ''recommend_trade'']"

definition outcome_allowed_requested_outputs :: "string list" where
  "outcome_allowed_requested_outputs = [''pm_summary'', ''cio_summary'', ''control_summary'', ''operations_summary'', ''evidence_gaps'']"

definition outcome_reject :: "string \<Rightarrow> error" where
  "outcome_reject = rejection ''OUTCOME_REVIEW_NARRATIVE_GUARDRAIL_BLOCKED: ''"

definition validate_outcome_review_narrative_payload :: "json_object \<Rightarrow> unit result" where
  "validate_outcome_review_narrative_payload p =
     (let ev = object_at p ''ai_evidence_input''; rq = object_at p ''narrative_request''; outs = strings_at rq ''requested_outputs'' in
      case first_failure
        [(section_of p ''ai_evidence_input'' \<noteq> None, outcome_reject ''ai_evidence_input''),
         (missing_keys outcome_required_ai_evidence_keys ev = [], outcome_reject ''evidence_fields''),
         (find_forbidden_field_names outcome_forbidden_field_names (JObject ev) = [], outcome_reject ''forbidden_fields''),
         (string_list_at ev ''forbidden_actions'' \<noteq> None, outcome_reject ''forbidden_actions''),
         (set outcome_required_forbidden_actions \<subseteq> set (strings_at ev ''forbidden_actions''), outcome_reject ''missing_actions''),
         (section_of p ''narrative_request'' \<noteq> None, outcome_reject ''narrative_request''),
         (string_list_at rq ''requested_outputs'' \<noteq> None, outcome_reject ''requested_outputs''),
         (set outs \<inter> set outcome_forbidden_requested_outputs = {}, outcome_reject ''forbidden_outputs''),
         (set outs \<subseteq> set outcome_allowed_requested_outputs, outcome_reject ''unsupported_outputs''),
         (items_at ev ''dimensions'' \<noteq> [], outcome_reject ''dimensions''),
         (list_at ev ''source_refs'' \<noteq> None, outcome_reject ''source_refs'')] of
        Inl e \<Rightarrow> Inl e
      | Inr _ \<Rightarrow> memory_context_check p (evidence_portfolio ev) outcome_forbidden_field_names outcome_reject)"

section \<open>Proof-pack PM memo\<close>

definition proof_pack_required_ai_evidence_keys :: "string list" where
  "proof_pack_required_ai_evidence_keys =
     [''contract_version'', ''proof_pack_id'', ''proof_pack_content_hash'', ''portfolio_id'', ''as_of_date'', ''permitted_use'',
      ''forbidden_actions'', ''forbidden_fields_removed'', ''decision_summary'', ''supportability_status'', ''reason_codes'', ''sections'',
      ''source_refs'', ''evidence_ref'', ''content_hash'']"

definition proof_pack_required_forbidden_actions :: "string list" where
  "proof_pack_required_forbidden_actions =
     [''place_orders'', ''approve_rebalance'', ''override_controls'', ''invent_missing_evidence'', ''contact_client'']"

definition proof_pack_forbidden_field_names :: "string list" where
  "proof_pack_forbidden_field_names =
     [''account_number'', ''client_name'', ''client_id'', ''email'', ''phone'', ''raw_payload'', ''raw_request'', ''raw_response'', ''secret'', ''ssn'', ''token'']"

definition proof_pack_forbidden_requested_outputs :: "string list" where
  "proof_pack_forbidden_requested_outputs =
     [''approval_decision'', ''client_message'', ''execution_instruction'', ''order_ticket'', ''pm_score'', ''recommend_trade'', ''rebalance_approval'']"

definition proof_pack_allowed_requested_outputs :: "string list" where
  "proof_pack_allowed_requested_outputs =
     [''pm_memo'', ''rationale_summary'', ''approval_checklist'', ''risk_caveats'', ''operations_handoff'', ''evidence_gaps'']"

definition proof_pack_reject :: "string \<Rightarrow> error" where
  "proof_pack_reject = rejection ''PROOF_PACK_PM_MEMO_GUARDRAIL_BLOCKED: ''"

definition validate_proof_pack_pm_memo_payload :: "json_object \<Rightarrow> unit result" where
  "validate_proof_pack_pm_memo_payload p =
     (let ev = object_at p ''ai_evidence_input''; rq = object_at p ''memo_request''; outs = strings_at rq ''requested_outputs'' in
      case first_failure
        [(section_of p ''ai_evidence_input'' \<noteq> None, proof_pack_reject ''ai_evidence_input''),
         (section_of p ''memo_request'' \<noteq> None, proof_pack_reject ''memo_request''),
         (section_of p ''supportability'' \<noteq> None, proof_pack_reject ''supportability''),
         (missing_keys proof_pack_required_ai_evidence_keys ev = [], proof_pack_reject ''evidence_fields''),
         (find_forbidden_field_names proof_pack_forbidden_field_names (JObject ev) = [], proof_pack_reject ''forbidden_fields''),
         (string_list_at ev ''forbidden_actions'' \<noteq> None, proof_pack_reject ''forbidden_actions''),
         (set proof_pack_required_forbidden_actions \<subseteq> set (strings_at ev ''forbidden_actions''), proof_pack_reject ''missing_actions''),
         (string_list_at rq ''requested_outputs'' \<noteq> None, proof_pack_reject ''requested_outputs''),
         (set outs \<inter> set proof_pack_forbidden_requested_outputs = {}, proof_pack_reject ''forbidden_outputs''),
         (set outs \<subseteq> set proof_pack_allowed_requested_outputs, proof_pack_reject ''unsupported_outputs''),
         (items_at ev ''sections'' \<noteq> [], proof_pack_reject ''sections''),
         (list_at ev ''source_refs'' \<noteq> None, proof_pack_reject ''source_refs'')] of
        Inl e \<Rightarrow> Inl e
      | Inr _ \<Rightarrow> memory_context_check p (evidence_portfolio ev) proof_pack_forbidden_field_names proof_pack_reject)"

section \<open>Wave PM memo\<close>

definition required_wave_report_input_keys :: "string list" where
  "required_wave_report_input_keys =
     [''contract_version'', ''wave_id'', ''wave_content_hash'', ''wave_state'', ''trigger_type'', ''trigger_id'', ''trigger_rationale'', ''as_of_date'',
      ''generated_at'', ''aggregate_metrics'', ''supportability'', ''proof_pack_posture'', ''items'', ''events'', ''handoff_refs'', ''source_refs'',
      ''redaction_policy'', ''external_execution_claimed'', ''evidence_ref'', ''content_hash'']"

definition wave_required_forbidden_actions :: "string list" where
  "wave_required_forbidden_actions =
     [''place_orders'', ''approve_rebalance'', ''override_controls'', ''invent_missing_evidence'', ''contact_client'']"

definition wave_forbidden_field_names :: "string list" where
  "wave_forbidden_field_names =
     [''account_number'', ''client_name'', ''client_id'', ''email'', ''phone'', ''raw_payload'', ''raw_request'', ''raw_response'', ''secret'', ''ssn'', ''token'']"

definition wave_forbidden_requested_outputs :: "string list" where
  "wave_forbidden_requested_outputs =
     [''approval_decision'', ''client_message'', ''execution_instruction'', ''order_ticket'', ''pm_score'', ''recommend_trade'', ''rebalance_approval'']"

definition wave_allowed_requested_outputs :: "string list" where
  "wave_allowed_requested_outputs =
     [''wave_pm_memo'', ''wave_rationale_summary'', ''approval_checklist'', ''risk_caveats'', ''operations_handoff'', ''evidence_gaps'']"

definition wave_reject :: "string \<Rightarrow> error" where
  "wave_reject = rejection ''WAVE_PM_MEMO_GUARDRAIL_BLOCKED: ''"

definition validate_wave_pm_memo_payload :: "json_object \<Rightarrow> unit result" where
  "validate_wave_pm_memo_payload p =
     (let ev = object_at p ''wave_report_input''; rq = object_at p ''memo_request''; posture = object_at p ''supportability'';
          outs = strings_at rq ''requested_outputs'' in
      case first_failure
        [(section_of p ''wave_report_input'' \<noteq> None, wave_reject ''wave_report_input''),
         (section_of p ''memo_request'' \<noteq> None, wave_reject ''memo_request''),
         (section_of p ''supportability'' \<noteq> None, wave_reject ''supportability''),
         (missing_keys required_wave_report_input_keys ev = [], wave_reject ''wave_fields''),
         (find_forbidden_field_names wave_forbidden_field_names (JObject ev) = [], wave_reject ''forbidden_fields''),
         (string_list_at posture ''forbidden_actions'' \<noteq> None, wave_reject ''forbidden_actions''),
         (set wave_required_forbidden_actions \<subseteq> set (strings_at posture ''forbidden_actions''), wave_reject ''missing_actions''),
         (string_list_at rq ''requested_outputs'' \<noteq> None, wave_reject ''requested_outputs''),
         (set outs \<inter> set wave_forbidden_requested_outputs = {}, wave_reject ''forbidden_outputs''),
         (set outs \<subseteq> set wave_allowed_requested_outputs, wave_reject ''unsupported_outputs''),
         (items_at ev ''items'' \<noteq> [], wave_reject ''items''),
         (items_at ev ''source_refs'' \<noteq> [], wave_reject ''source_refs''),
         (section_of ev ''proof_pack_posture'' \<noteq> None, wave_reject ''proof_pack_posture''),
         (\<not> truthy (get_or ev ''external_execution_claimed'' JNull), wave_reject ''external_execution_claimed''),
         (is_text ev ''redaction_policy'' ''NO_RAW_PAYLOADS'', wave_reject ''redaction_policy'')] of
        Inl e \<Rightarrow> Inl e
      | Inr _ \<Rightarrow> memory_context_check p (json_opt (single_portfolio_id (items_at ev ''items''))) wave_forbidden_field_names wave_reject)"

section \<open>Operations handoff summary\<close>

definition operations_forbidden_requested_outputs :: "string list" where
  "operations_forbidden_requested_outputs =
     [''approval_decision'', ''client_message'', ''execution_instruction'', ''order_ticket'', ''place_orders'', ''recommend_trade'', ''rebalance_approval'',
      ''routing_instruction'']"

definition operations_allowed_requested_outputs :: "string list" where
  "operations_allowed_requested_outputs =
     [''operations_summary'', ''execution_prerequisites'', ''blocking_conditions'', ''support_references'', ''evidence_gaps'']"

definition operations_reject :: "string \<Rightarrow> error" where
  "operations_reject = rejection ''OPERATIONS_HANDOFF_SUMMARY_GUARDRAIL_BLOCKED: ''"

definition has_staged_or_ready_item :: "json list \<Rightarrow> bool" where
  "has_staged_or_ready_item items =
     list_ex (\<lambda>j. case j of JObject d \<Rightarrow>
         (case text_at d ''state'' of None \<Rightarrow> False | Some s \<Rightarrow> s \<in> {''STAGED'', ''HANDOFF_READY'', ''READY'', ''READY_FOR_HANDOFF''})
       | _ \<Rightarrow> False) items"

definition handoff_ref_keys :: "string list" where
  "handoff_ref_keys = [''ref_type'', ''ref_id'', ''source_system'', ''content_hash'']"

definition is_bounded_handoff_ref :: "json \<Rightarrow> bool" where
  "is_bounded_handoff_ref j = (case j of JObject d \<Rightarrow> list_all (has_text d) handoff_ref_keys | _ \<Rightarrow> False)"

definition validate_operations_handoff_summary_payload :: "json_object \<Rightarrow> unit result" where
  "validate_operations_handoff_summary_payload p =
     (let ev = object_at p ''wave_report_input''; rq = object_at p ''handoff_summary_request''; posture = object_at p ''supportability'';
          outs = strings_at rq ''requested_outputs'' in
      case first_failure
        [(dict_get p ''memo_request'' = None, operations_reject ''memo_request''),
         (section_of p ''wave_report_input'' \<noteq> None, operations_reject ''wave_report_input''),
         (section_of p ''handoff_summary_request'' \<noteq> None, operations_reject ''handoff_summary_request''),
         (section_of p ''supportability'' \<noteq> None, operations_reject ''supportability''),
         (missing_keys required_wave_report_input_keys ev = [], operations_reject ''wave_fields''),
         (find_forbidden_field_names wave_forbidden_field_names (JObject ev) = [], operations_reject ''forbidden_fields''),
         (string_list_at posture ''forbidden_actions'' \<noteq> None, operations_reject ''forbidden_actions''),
         (set wave_required_forbidden_actions \<subseteq> set (strings_at posture ''forbidden_actions''), operations_reject ''missing_actions''),
         (string_list_at rq ''requested_outputs'' \<noteq> None, operations_reject ''requested_outputs''),
         (set outs \<inter> set operations_forbidden_requested_outputs = {}, operations_reject ''forbidden_outputs''),
         (set outs \<subseteq> set operations_allowed_requested_outputs, operations_reject ''unsupported_outputs''),
         (\<not> truthy (get_or ev ''external_execution_claimed'' JNull), operations_reject ''external_execution_claimed''),
         (is_text ev ''redaction_policy'' ''NO_RAW_PAYLOADS'', operations_reject ''redaction_policy''),
         (items_at ev ''items'' \<noteq> [], operations_reject ''items''),
         (has_staged_or_ready_item (items_at ev ''items''), operations_reject ''staged_item''),
         (items_at ev ''handoff_refs'' \<noteq> [], operations_reject ''handoff_refs''),
         (list_all is_bounded_handoff_ref (items_at ev ''handoff_refs''), operations_reject ''handoff_ref_fields''),
         (items_at ev ''source_refs'' \<noteq> [], operations_reject ''source_refs'')] of
        Inl e \<Rightarrow> Inl e
      | Inr _ \<Rightarrow> memory_context_check p (json_opt (single_portfolio_id (items_at ev ''items''))) wave_forbidden_field_names operations_reject)"

section \<open>Monitoring exception summary\<close>

definition required_exception_summary_input_keys :: "string list" where
  "required_exception_summary_input_keys =
     [''contract_version'', ''portfolio_id'', ''mandate_id'', ''as_of_date'', ''generated_at'', ''exception_count'', ''exceptions'', ''source_refs'',
      ''redaction_policy'', ''evidence_ref'', ''content_hash'']"

definition exception_required_forbidden_actions :: "string list" where
  "exception_required_forbidden_actions =
     [''approve_rebalance'', ''contact_client'', ''invent_missing_evidence'', ''override_controls'', ''place_orders'', ''score_portfolio_manager'']"

definition exception_forbidden_requested_outputs :: "string list" where
  "exception_forbidden_requested_outputs =
     [''approval_decision'', ''client_message'', ''execution_instruction'', ''order_ticket'', ''place_orders'', ''portfolio_manager_score'',
      ''recommend_trade'', ''rebalance_approval'', ''routing_instruction'']"

definition exception_allowed_requested_outputs :: "string list" where
  "exception_allowed_requested_outputs =
     [''exception_summary'', ''severity_summary'', ''recommended_triage'', ''support_references'', ''evidence_gaps'']"

definition exception_reject :: "string \<Rightarrow> error" where
  "exception_reject = rejection ''DPM_EXCEPTION_SUMMARY_GUARDRAIL_BLOCKED: ''"

definition has_required_ref_fields :: "json_object \<Rightarrow> bool" where
  "has_required_ref_fields d = list_all (has_text d) [''source_system'', ''source_type'', ''source_id'', ''content_hash'']"

definition is_bounded_ref :: "json \<Rightarrow> bool" where
  "is_bounded_ref j = (case j of JObject d \<Rightarrow> has_required_ref_fields d | _ \<Rightarrow> False)"

definition is_bounded_exception :: "json \<Rightarrow> bool" where
  "is_bounded_exception j =
     (case j of
        JObject d \<Rightarrow>
          list_all (has_text d) [''exception_id'', ''portfolio_id'', ''severity'', ''state'', ''reason_code'', ''recommended_action'']
          \<and> items_at d ''source_refs'' \<noteq> [] \<and> list_all is_bounded_ref (items_at d ''source_refs'')
      | _ \<Rightarrow> False)"

definition validate_dpm_exception_summary_payload :: "json_object \<Rightarrow> unit result" where
  "validate_dpm_exception_summary_payload p =
     (let ev = object_at p ''exception_summary_input''; rq = object_at p ''exception_summary_request''; posture = object_at p ''supportability'';
          outs = strings_at rq ''requested_outputs''; exceptions = items_at ev ''exceptions''; portfolio = single_portfolio_id exceptions in
      case first_failure
        [(section_of p ''exception_summary_input'' \<noteq> None, exception_reject ''exception_summary_input''),
         (section_of p ''exception_summary_request'' \<noteq> None, exception_reject ''exception_summary_request''),
         (section_of p ''supportability'' \<noteq> None, exception_reject ''supportability''),
         (missing_keys required_exception_summary_input_keys ev = [], exception_reject ''input_fields''),
         (find_forbidden_field_names wave_forbidden_field_names (JObject ev) = [], exception_reject ''forbidden_fields''),
         (is_text ev ''redaction_policy'' ''NO_RAW_PAYLOADS'', exception_reject ''redaction_policy''),
         (exceptions \<noteq> [], exception_reject ''exceptions''),
         (list_all is_bounded_exception exceptions, exception_reject ''exception_fields''),
         (int_at ev ''exception_count'' = Some (int (length exceptions)), exception_reject ''exception_count''),
         (items_at ev ''source_refs'' \<noteq> [], exception_reject ''source_refs''),
         (list_all is_bounded_ref (items_at ev ''source_refs''), exception_reject ''source_ref_fields''),
         (case section_of ev ''evidence_ref'' of None \<Rightarrow> False | Some d \<Rightarrow> has_required_ref_fields d, exception_reject ''evidence_ref''),
         (text_at ev ''portfolio_id'' \<noteq> None \<and> text_at ev ''portfolio_id'' = portfolio, exception_reject ''portfolio_id''),
         (string_list_at rq ''requested_outputs'' \<noteq> None, exception_reject ''requested_outputs''),
         (set outs \<inter> set exception_forbidden_requested_outputs = {}, exception_reject ''forbidden_outputs''),
         (set outs \<subseteq> set exception_allowed_requested_outputs, exception_reject ''unsupported_outputs''),
         (string_list_at posture ''forbidden_actions'' \<noteq> None, exception_reject ''forbidden_actions''),
         (set exception_required_forbidden_actions \<subseteq> set (strings_at posture ''forbidden_actions''), exception_reject ''missing_actions'')] of
        Inl e \<Rightarrow> Inl e
      | Inr _ \<Rightarrow> memory_context_check p (json_opt portfolio) wave_forbidden_field_names exception_reject)"

section \<open>PM quality summary\<close>

definition required_score_run_keys :: "string list" where
  "required_score_run_keys =
     [''product_name'', ''product_version'', ''score_run_id'', ''policy_id'', ''policy_version'', ''portfolio_manager_id'', ''as_of_date'', ''state'',
      ''reason_codes'', ''indicator_results'', ''source_refs'', ''content_hash'']"

definition required_supportability_keys :: "string list" where
  "required_supportability_keys = [''source_state'', ''requires_human_review'', ''forbidden_actions'', ''unsupported_claims'']"

definition quality_required_forbidden_actions :: "string list" where
  "quality_required_forbidden_actions =
     [''rank_portfolio_managers'', ''make_hr_decisions'', ''make_compensation_decisions'', ''enforce_conduct_action'', ''approve_rebalance'',
      ''contact_client'', ''place_orders'', ''invent_missing_evidence'']"

definition quality_forbidden_field_names :: "string list" where
  "quality_forbidden_field_names =
     [''account_number'', ''client_id'', ''client_name'', ''compensation_amount'', ''email'', ''hr_rating'', ''phone'', ''raw_payload'', ''raw_request'',
      ''raw_response'', ''secret'', ''ssn'', ''token'']"

definition quality_forbidden_requested_outputs :: "string list" where
  "quality_forbidden_requested_outputs =
     [''client_message'', ''compensation_recommendation'', ''conduct_action'', ''execution_instruction'', ''hr_rating'', ''pm_ranking'', ''trade_approval'']"

definition quality_allowed_requested_outputs :: "string list" where
  "quality_allowed_requested_outputs =
     [''score_run_summary'', ''governance_summary'', ''evidence_gaps'', ''fairness_review_posture'', ''support_references'']"

definition quality_reject :: "string \<Rightarrow> error" where
  "quality_reject = rejection ''PM_QUALITY_SUMMARY_GUARDRAIL_BLOCKED: ''"

definition scalar_or_absent :: "json option \<Rightarrow> bool" where
  "scalar_or_absent j = (case j of Some (JList xs) \<Rightarrow> False | Some (JObject d) \<Rightarrow> False | _ \<Rightarrow> True)"

definition validate_pm_quality_summary_payload :: "json_object \<Rightarrow> unit result" where
  "validate_pm_quality_summary_payload p =
     (let ev = object_at p ''score_run''; rq = object_at p ''summary_request''; posture = object_at p ''supportability'';
          outs = strings_at rq ''requested_outputs'' in
      case first_failure
        [(section_of p ''score_run'' \<noteq> None, quality_reject ''score_run''),
         (missing_keys required_score_run_keys ev = [], quality_reject ''score_run_fields''),
         (is_text ev ''product_name'' ''PmOperatingQualityScoreRun'', quality_reject ''product_name''),
         (find_forbidden_field_names quality_forbidden_field_names (JObject ev) = [], quality_reject ''forbidden_fields''),
         (items_at ev ''indicator_results'' \<noteq> [], quality_reject ''indicator_results''),
         (list_at ev ''reason_codes'' \<noteq> None, quality_reject ''reason_codes''),
         (items_at ev ''source_refs'' \<noteq> [], quality_reject ''source_refs''),
         (scalar_or_absent (dict_get ev ''score''), quality_reject ''score''),
         (section_of p ''supportability'' \<noteq> None, quality_reject ''supportability''),
         (missing_keys required_supportability_keys posture = [], quality_reject ''supportability_fields''),
         (string_list_at posture ''forbidden_actions'' \<noteq> None, quality_reject ''forbidden_actions''),
         (set quality_required_forbidden_actions \<subseteq> set (strings_at posture ''forbidden_actions''), quality_reject ''missing_actions''),
         (section_of p ''summary_request'' \<noteq> None, quality_reject ''summary_request''),
         (string_list_at rq ''requested_outputs'' \<noteq> None, quality_reject ''requested_outputs''),
         (set outs \<inter> set quality_forbidden_requested_outputs = {}, quality_reject ''forbidden_outputs''),
         (set outs \<subseteq> set quality_allowed_requested_outputs, quality_reject ''unsupported_outputs'')] of
        Inl e \<Rightarrow> Inl e
      | Inr _ \<Rightarrow> memory_context_check p (evidence_portfolio ev) quality_forbidden_field_names quality_reject)"

section \<open>Technical keys\<close>

text \<open>\<^verbatim>\<open>_reject_technical_keys\<close>: a walk over the whole payload, by exact name; the first such key in the order of the walk
  is the one named.\<close>

primrec technical_keys :: "string list \<Rightarrow> json \<Rightarrow> string list" where
  "technical_keys names JNull = []"
| "technical_keys names (JBool b) = []"
| "technical_keys names (JInt i) = []"
| "technical_keys names (JFloat t) = []"
| "technical_keys names (JString s) = []"
| "technical_keys names (JList xs) = concat (map (technical_keys names) xs)"
| "technical_keys names (JObject kvs) =
     concat (map (\<lambda>(k, found). (if k \<in> set names then [k] else []) @ found) (map (map_prod id (technical_keys names)) kvs))"

definition reject_technical_keys :: "string list \<Rightarrow> (string \<Rightarrow> error) \<Rightarrow> json \<Rightarrow> unit result" where
  "reject_technical_keys names reject j = (case technical_keys names j of [] \<Rightarrow> Inr () | k # _ \<Rightarrow> Inl (reject k))"

definition as_texts :: "json list \<Rightarrow> string list" where
  "as_texts xs = map (\<lambda>j. as_text (Some j)) xs"

definition then_check :: "unit result \<Rightarrow> unit result \<Rightarrow> unit result" where
  "then_check a b = (case a of Inl e \<Rightarrow> Inl e | Inr _ \<Rightarrow> b)"

section \<open>Idea explanation\<close>

definition idea_forbidden_requested_outputs :: "string list" where
  "idea_forbidden_requested_outputs =
     [''approve_idea'', ''client_message'', ''client_ready_publication'', ''final_investment_recommendation'', ''portfolio_rebalance_instruction'',
      ''publish_to_client'', ''suitability_approval'', ''trade_or_order'']"

definition idea_allowed_requested_outputs :: "string list" where
  "idea_allowed_requested_outputs =
     [''advisor_review_summary'', ''evidence_gap_questions'', ''rationale_draft'', ''source_evidence_summary'', ''unsupported_claim_check'']"

definition idea_required_unsupported_claims :: "string list" where
  "idea_required_unsupported_claims =
     [''client_ready_publication'', ''final_investment_recommendation'', ''suitability_approval'', ''trade_or_order_action'']"

definition idea_required_forbidden_actions :: "string list" where
  "idea_required_forbidden_actions =
     [''approve_suitability'', ''contact_client'', ''invent_missing_evidence'', ''make_final_recommendation'', ''place_orders'']"

definition idea_forbidden_technical_keys :: "string list" where
  "idea_forbidden_technical_keys =
     [''correlation_id'', ''prompt'', ''provider_response'', ''raw_payload'', ''raw_prompt'', ''raw_provider_output'', ''trace_id'']"

definition plain_reject :: "string \<Rightarrow> error" where
  "plain_reject = rejection ''''"

definition has_value :: "json option \<Rightarrow> bool" where
  "has_value j = (case j of None \<Rightarrow> False | Some JNull \<Rightarrow> False | Some (JString s) \<Rightarrow> py_strip s \<noteq> [] | Some (JList xs) \<Rightarrow> xs \<noteq> [] | Some _ \<Rightarrow> True)"

definition idea_required_evidence_keys :: "string list" where
  "idea_required_evidence_keys =
     [''candidate_id'', ''evidence_content_hash'', ''evidence_packet_id'', ''family'', ''lifecycle_status'', ''reason_codes'', ''review_posture'',
      ''source_refs'', ''source_signal_count'', ''supportability'']"

definition idea_source_ref_checks :: "json \<Rightarrow> (bool \<times> error) list" where
  "idea_source_ref_checks j =
     (let d = (case j of JObject ob \<Rightarrow> ob | _ \<Rightarrow> []) in
      [(is_object j, plain_reject ''source_ref_not_object''),
       (as_text (dict_get d ''source_system'') \<noteq> [], plain_reject ''source_ref_system''),
       (as_text (dict_get d ''product_id'') \<noteq> [], plain_reject ''source_ref_product'')])"

definition validate_redacted_evidence :: "json_object \<Rightarrow> unit result" where
  "validate_redacted_evidence ev =
     first_failure
       ([(list_all (\<lambda>k. has_value (dict_get ev k)) idea_required_evidence_keys, plain_reject ''evidence_fields''),
         (take 7 (as_text (dict_get ev ''evidence_content_hash'')) = ''sha256:'', plain_reject ''evidence_content_hash''),
         (list_at ev ''source_refs'' \<noteq> None, plain_reject ''source_refs''),
         (items_at ev ''source_refs'' \<noteq> [], plain_reject ''source_refs'')]
        @ concat (map idea_source_ref_checks (items_at ev ''source_refs'')))"

definition validate_explanation_request :: "json_object \<Rightarrow> unit result" where
  "validate_explanation_request rq =
     (let outs = as_texts (items_at rq ''requested_outputs'') in
      first_failure
        [(as_text (dict_get rq ''request_id'') \<noteq> [], plain_reject ''request_id''),
         (as_text (dict_get rq ''workflow_pack_id'') \<in> {''lotus-ai:idea-explanation:v1'', ''idea_explanation.pack''}, plain_reject ''workflow_pack_id''),
         (list_at rq ''requested_outputs'' \<noteq> None, plain_reject ''requested_outputs''),
         (set outs \<inter> set idea_forbidden_requested_outputs = {}, plain_reject ''forbidden_outputs''),
         (set outs \<subseteq> set idea_allowed_requested_outputs, plain_reject ''unsupported_outputs'')])"

definition validate_idea_supportability :: "json_object \<Rightarrow> unit result" where
  "validate_idea_supportability posture =
     first_failure
       [(dict_get posture ''human_review_required'' = Some (JBool True), plain_reject ''human_review''),
        (as_text (dict_get posture ''client_ready_publication'') = ''BLOCKED'', plain_reject ''client_ready_publication''),
        (list_at posture ''unsupported_claims'' \<noteq> None, plain_reject ''unsupported_claims''),
        (set idea_required_unsupported_claims \<subseteq> set (as_texts (items_at posture ''unsupported_claims'')), plain_reject ''missing_claims''),
        (list_at posture ''forbidden_actions'' \<noteq> None, plain_reject ''forbidden_actions''),
        (set idea_required_forbidden_actions \<subseteq> set (as_texts (items_at posture ''forbidden_actions'')), plain_reject ''missing_actions'')]"

definition validate_idea_explanation_payload :: "json_object \<Rightarrow> unit result" where
  "validate_idea_explanation_payload p =
     then_check (first_failure
       [(section_of p ''redacted_evidence_packet'' \<noteq> None, plain_reject ''redacted_evidence_packet''),
        (section_of p ''explanation_request'' \<noteq> None, plain_reject ''explanation_request''),
        (section_of p ''supportability'' \<noteq> None, plain_reject ''supportability'')])
     (then_check (reject_technical_keys idea_forbidden_technical_keys plain_reject (JObject p))
     (then_check (validate_redacted_evidence (object_at p ''redacted_evidence_packet''))
     (then_check (validate_explanation_request (object_at p ''explanation_request''))
       (validate_idea_supportability (object_at p ''supportability'')))))"

section \<open>Advisory copilot\<close>

definition copilot_forbidden_requested_outputs :: "string list" where
  "copilot_forbidden_requested_outputs =
     [''approve_advice'', ''approve_policy'', ''client_message'', ''client_ready_publication'', ''order_ticket'', ''place_order'', ''trade_instruction'',
      ''waive_policy'']"

definition copilot_forbidden_technical_keys :: "string list" where
  "copilot_forbidden_technical_keys = [''correlation_id'', ''provider_response'', ''raw_payload'', ''raw_prompt'', ''trace_id'']"

definition evidence_section_checks :: "json \<Rightarrow> (bool \<times> error) list" where
  "evidence_section_checks j =
     (let d = (case j of JObject ob \<Rightarrow> ob | _ \<Rightarrow> []) in
      [(is_object j, plain_reject ''evidence_section_not_object''),
       (items_at d ''source_refs'' \<noteq> [], plain_reject ''evidence_section_source_refs'')])"

definition source_ref_count :: "json list \<Rightarrow> nat" where
  "source_ref_count sections = sum_list (map (\<lambda>j. case j of JObject d \<Rightarrow> length (items_at d ''source_refs'') | _ \<Rightarrow> 0) sections)"

definition validate_evidence_packet :: "json_object \<Rightarrow> unit result" where
  "validate_evidence_packet ev =
     first_failure
       ([(take 7 (as_text (dict_get ev ''evidence_packet_hash'')) = ''sha256:'', plain_reject ''evidence_packet_hash''),
         (as_text (dict_get ev ''client_ready_publication'') = ''BLOCKED'', plain_reject ''client_ready_publication''),
         (list_at ev ''sections'' \<noteq> None, plain_reject ''sections''),
         (case dict_get ev ''unsupported_evidence'' of None \<Rightarrow> True | Some JNull \<Rightarrow> True | Some (JList xs) \<Rightarrow> True | _ \<Rightarrow> False, plain_reject ''unsupported_evidence'')]
        @ concat (map evidence_section_checks (items_at ev ''sections''))
        @ [(source_ref_count (items_at ev ''sections'') \<noteq> 0, plain_reject ''no_source_backed_evidence'')])"

definition validate_copilot_request :: "json_object \<Rightarrow> unit result" where
  "validate_copilot_request rq =
     first_failure
       [(as_text (dict_get rq ''action_family'') \<noteq> [], plain_reject ''action_family''),
        (as_text (dict_get rq ''audience'') \<noteq> [], plain_reject ''audience''),
        (list_at rq ''requested_outputs'' \<noteq> None, plain_reject ''requested_outputs''),
        (items_at rq ''requested_outputs'' \<noteq> [], plain_reject ''requested_outputs''),
        (set (as_texts (items_at rq ''requested_outputs'')) \<inter> set copilot_forbidden_requested_outputs = {}, plain_reject ''forbidden_outputs'')]"

definition validate_copilot_supportability :: "json_object \<Rightarrow> unit result" where
  "validate_copilot_supportability posture =
     first_failure
       [(dict_get posture ''human_review_required'' = Some (JBool True), plain_reject ''human_review''),
        (as_text (dict_get posture ''client_ready_publication'') = ''BLOCKED'', plain_reject ''client_ready_publication''),
        (list_at posture ''unsupported_claims'' \<noteq> None, plain_reject ''unsupported_claims''),
        ({''client_ready_publication'', ''policy_approval'', ''trade_or_order_action''} \<subseteq> set (as_texts (items_at posture ''unsupported_claims'')), plain_reject ''missing_claims'')]"

definition validate_model_risk_controls :: "json_object \<Rightarrow> unit result" where
  "validate_model_risk_controls m =
     first_failure
       [(list_all (\<lambda>k. as_text (dict_get m k) \<noteq> []) [''approved_instruction_set'', ''evaluation_pack_ref'', ''output_schema_version'', ''prompt_template_version''],
         plain_reject ''model_risk_controls'')]"

definition validate_advisory_copilot_payload :: "json_object \<Rightarrow> unit result" where
  "validate_advisory_copilot_payload p =
     then_check (first_failure
       [(section_of p ''copilot_evidence_packet'' \<noteq> None, plain_reject ''copilot_evidence_packet''),
        (section_of p ''copilot_request'' \<noteq> None, plain_reject ''copilot_request''),
        (section_of p ''supportability'' \<noteq> None, plain_reject ''supportability''),
        (section_of p ''model_risk_controls'' \<noteq> None, plain_reject ''model_risk_controls'')])
     (then_check (reject_technical_keys copilot_forbidden_technical_keys plain_reject (JObject p))
     (then_check (validate_evidence_packet (object_at p ''copilot_evidence_packet''))
     (then_check (validate_copilot_request (object_at p ''copilot_request''))
     (then_check (validate_copilot_supportability (object_at p ''supportability''))
       (validate_model_risk_controls (object_at p ''model_risk_controls''))))))"

section \<open>The guardrail of a pack\<close>

text \<open>The tail of \<^verbatim>\<open>validate_workflow_pack_execution_binding\<close>.\<close>

definition validate_pack_guardrails :: "string \<Rightarrow> string \<Rightarrow> json_object \<Rightarrow> unit result" where
  "validate_pack_guardrails pack version p =
     (if version \<noteq> ''v1'' then Inr ()
      else if pack = ''outcome_review_narrative.pack'' then validate_outcome_review_narrative_payload p
      else if pack = ''dpm_pm_memo.pack'' then validate_proof_pack_pm_memo_payload p
      else if pack = ''dpm_wave_pm_memo.pack'' then validate_wave_pm_memo_payload p
      else if pack = ''dpm_operations_handoff_summary.pack'' then validate_operations_handoff_summary_payload p
      else if pack = ''dpm_exception_summary.pack'' then validate_dpm_exception_summary_payload p
      else if pack = ''pm_quality_summary.pack'' then validate_pm_quality_summary_payload p
      else if pack = ''idea_explanation.pack'' then validate_idea_explanation_payload p
      else if take 17 pack = ''advisory_copilot_'' then validate_advisory_copilot_payload p
      else Inr ())"

section \<open>Every key, at every depth\<close>

inductive key_occurs :: "string \<Rightarrow> json \<Rightarrow> bool" where
  here: "(k, j) \<in> set kvs \<Longrightarrow> key_occurs k (JObject kvs)"
| member: "(k', j) \<in> set kvs \<Longrightarrow> key_occurs k j \<Longrightarrow> key_occurs k (JObject kvs)"
| item: "j \<in> set xs \<Longrightarrow> key_occurs k j \<Longrightarrow> key_occurs k (JList xs)"

inductive_simps key_occurs_simps [simp]:
  "key_occurs k JNull" "key_occurs k (JBool b)" "key_occurs k (JInt i)" "key_occurs k (JFloat t)" "key_occurs k (JString s)"
  "key_occurs k (JList xs)" "key_occurs k (JObject kvs)"

lemma in_found:
  "x \<in> set (find_forbidden_field_names names j) \<longleftrightarrow> (\<exists>k. key_occurs k j \<and> x = py_lower k \<and> py_lower k \<in> set names)"
proof (induction j)
  case (JObject kvs)
  have ih: "x \<in> set (find_forbidden_field_names names (snd kv)) \<longleftrightarrow> (\<exists>k. key_occurs k (snd kv) \<and> x = py_lower k \<and> py_lower k \<in> set names)"
    if "kv \<in> set kvs" for kv using JObject [OF that] by (cases kv) (simp add: snds.simps)
  have "x \<in> set (find_forbidden_field_names names (JObject kvs)) \<longleftrightarrow>
      (\<exists>kv \<in> set kvs. (x = py_lower (fst kv) \<and> py_lower (fst kv) \<in> set names) \<or> x \<in> set (find_forbidden_field_names names (snd kv)))"
    by (simp add: case_prod_beta' cong: if_cong)
  also have "\<dots> \<longleftrightarrow> (\<exists>kv \<in> set kvs. (x = py_lower (fst kv) \<and> py_lower (fst kv) \<in> set names)
      \<or> (\<exists>k. key_occurs k (snd kv) \<and> x = py_lower k \<and> py_lower k \<in> set names))"
    using ih by blast
  finally show ?case by (simp add: Bex_def split_paired_Ex) blast
qed auto

lemma in_technical: "x \<in> set (technical_keys names j) \<longleftrightarrow> key_occurs x j \<and> x \<in> set names"
proof (induction j)
  case (JObject kvs)
  have ih: "x \<in> set (technical_keys names (snd kv)) \<longleftrightarrow> key_occurs x (snd kv) \<and> x \<in> set names"
    if "kv \<in> set kvs" for kv using JObject [OF that] by (cases kv) (simp add: snds.simps)
  have "x \<in> set (technical_keys names (JObject kvs)) \<longleftrightarrow>
      (\<exists>kv \<in> set kvs. (x = fst kv \<and> fst kv \<in> set names) \<or> x \<in> set (technical_keys names (snd kv)))"
    by (simp add: case_prod_beta' cong: if_cong)
  also have "\<dots> \<longleftrightarrow> (\<exists>kv \<in> set kvs. (x = fst kv \<and> fst kv \<in> set names) \<or> (key_occurs x (snd kv) \<and> x \<in> set names))"
    using ih by blast
  finally show ?case by (simp add: Bex_def split_paired_Ex) blast
qed auto


lemma no_forbidden_field: "find_forbidden_field_names names j = [] \<longleftrightarrow> (\<forall>k. key_occurs k j \<longrightarrow> py_lower k \<notin> set names)"
proof -
  have "find_forbidden_field_names names j = [] \<longleftrightarrow> (\<forall>x. x \<notin> set (find_forbidden_field_names names j))"
    by (metis empty_iff empty_set last_in_set)
  then show ?thesis by (auto simp: in_found)
qed

lemma technical_keys_refused:
  "reject_technical_keys names reject j = Inr () \<longleftrightarrow> (\<forall>k. key_occurs k j \<longrightarrow> k \<notin> set names)"
proof -
  have "technical_keys names j = [] \<longleftrightarrow> (\<forall>x. x \<notin> set (technical_keys names j))" by (metis empty_iff empty_set last_in_set)
  then show ?thesis by (auto simp: reject_technical_keys_def in_technical split: list.splits)
qed

section \<open>What a guardrail promises\<close>

text \<open>The terms of a guardrail: the section with the evidence, the section with the request, the section that declares forbidden
  actions, and the tables.\<close>

record guard_terms =
  gt_evidence :: string
  gt_request :: string
  gt_actions_in :: string
  gt_required_fields :: "string list"
  gt_forbidden_fields :: "string list"
  gt_required_actions :: "string list"
  gt_forbidden_outputs :: "string list"
  gt_allowed_outputs :: "string list"

definition clean_of :: "string list \<Rightarrow> json_object \<Rightarrow> bool" where
  "clean_of names d \<longleftrightarrow> (\<forall>k. key_occurs k (JObject d) \<longrightarrow> py_lower k \<notin> set names)"

definition terms_met :: "guard_terms \<Rightarrow> json_object \<Rightarrow> bool" where
  "terms_met g p \<longleftrightarrow>
     (\<exists>ev rq act outs acts. section_of p (gt_evidence g) = Some ev \<and> section_of p (gt_request g) = Some rq
        \<and> section_of p (gt_actions_in g) = Some act
        \<and> string_list_at rq ''requested_outputs'' = Some outs \<and> string_list_at act ''forbidden_actions'' = Some acts
        \<and> (\<forall>k \<in> set (gt_required_fields g). dict_get ev k \<noteq> None) \<and> clean_of (gt_forbidden_fields g) ev
        \<and> set outs \<subseteq> set (gt_allowed_outputs g) \<and> set outs \<inter> set (gt_forbidden_outputs g) = {}
        \<and> set (gt_required_actions g) \<subseteq> set acts)
     \<and> (\<forall>c. dict_get p ''portfolio_memory_context'' = Some (JObject c) \<longrightarrow> clean_of (gt_forbidden_fields g) c)"

text \<open>The checks that the six guardrails over DPM evidence have in common, in whatever order each makes them.\<close>

locale payload_guardrail =
  fixes validate :: "json_object \<Rightarrow> unit result" and terms :: guard_terms and portfolio :: "json_object \<Rightarrow> json" and reject :: "string \<Rightarrow> error"
  assumes sections: "validate p = Inr () \<Longrightarrow>
      section_of p (gt_evidence terms) \<noteq> None \<and> section_of p (gt_request terms) \<noteq> None \<and> section_of p (gt_actions_in terms) \<noteq> None"
    and evidence: "validate p = Inr () \<Longrightarrow> missing_keys (gt_required_fields terms) (object_at p (gt_evidence terms)) = []
      \<and> find_forbidden_field_names (gt_forbidden_fields terms) (JObject (object_at p (gt_evidence terms))) = []"
    and outputs: "validate p = Inr () \<Longrightarrow> string_list_at (object_at p (gt_request terms)) ''requested_outputs'' \<noteq> None
      \<and> set (strings_at (object_at p (gt_request terms)) ''requested_outputs'') \<inter> set (gt_forbidden_outputs terms) = {}
      \<and> set (strings_at (object_at p (gt_request terms)) ''requested_outputs'') \<subseteq> set (gt_allowed_outputs terms)"
    and actions: "validate p = Inr () \<Longrightarrow> string_list_at (object_at p (gt_actions_in terms)) ''forbidden_actions'' \<noteq> None
      \<and> set (gt_required_actions terms) \<subseteq> set (strings_at (object_at p (gt_actions_in terms)) ''forbidden_actions'')"
    and memory: "validate p = Inr () \<Longrightarrow> memory_context_check p (portfolio p) (gt_forbidden_fields terms) reject = Inr ()"
begin

lemma memory_context_clean:
  assumes "validate p = Inr ()" and "dict_get p ''portfolio_memory_context'' = Some (JObject c)"
  shows "clean_of (gt_forbidden_fields terms) c"
  using memory [OF assms(1)] assms(2)
  by (auto simp: memory_context_check_def validate_optional_portfolio_memory_context_def memory_context_checks_def Let_def
      clean_of_def no_forbidden_field split: sum.splits if_splits)

lemma terms_hold:
  assumes "validate p = Inr ()"
  shows "terms_met terms p"
proof -
  obtain ev rq act where s: "section_of p (gt_evidence terms) = Some ev" "section_of p (gt_request terms) = Some rq"
      "section_of p (gt_actions_in terms) = Some act"
    using sections [OF assms] by blast
  have ob: "object_at p (gt_evidence terms) = ev" "object_at p (gt_request terms) = rq" "object_at p (gt_actions_in terms) = act"
    by (simp_all add: object_at_def s)
  obtain outs acts where l: "string_list_at rq ''requested_outputs'' = Some outs" "string_list_at act ''forbidden_actions'' = Some acts"
    using outputs [OF assms] actions [OF assms] by (auto simp: ob)
  show ?thesis
    unfolding terms_met_def
    using s l evidence [OF assms] outputs [OF assms] actions [OF assms] memory_context_clean [OF assms]
    by (auto simp: ob strings_at_def missing_keys_none no_forbidden_field clean_of_def)
qed

end

lemma checks_then: "(case first_failure cs of Inl e \<Rightarrow> Inl e | Inr _ \<Rightarrow> m) = Inr () \<longleftrightarrow> list_all fst cs \<and> m = Inr ()"
  by (cases "first_failure cs") (auto simp flip: first_failure_passes)

lemmas passes_simps = Let_def checks_then list.pred_inject fst_conv

definition outcome_terms :: guard_terms where
  "outcome_terms = \<lparr>gt_evidence = ''ai_evidence_input'', gt_request = ''narrative_request'', gt_actions_in = ''ai_evidence_input'',
     gt_required_fields = outcome_required_ai_evidence_keys, gt_forbidden_fields = outcome_forbidden_field_names,
     gt_required_actions = outcome_required_forbidden_actions, gt_forbidden_outputs = outcome_forbidden_requested_outputs,
     gt_allowed_outputs = outcome_allowed_requested_outputs\<rparr>"

definition proof_pack_terms :: guard_terms where
  "proof_pack_terms = \<lparr>gt_evidence = ''ai_evidence_input'', gt_request = ''memo_request'', gt_actions_in = ''ai_evidence_input'',
     gt_required_fields = proof_pack_required_ai_evidence_keys, gt_forbidden_fields = proof_pack_forbidden_field_names,
     gt_required_actions = proof_pack_required_forbidden_actions, gt_forbidden_outputs = proof_pack_forbidden_requested_outputs,
     gt_allowed_outputs = proof_pack_allowed_requested_outputs\<rparr>"

definition wave_terms :: guard_terms where
  "wave_terms = \<lparr>gt_evidence = ''wave_report_input'', gt_request = ''memo_request'', gt_actions_in = ''supportability'',
     gt_required_fields = required_wave_report_input_keys, gt_forbidden_fields = wave_forbidden_field_names,
     gt_required_actions = wave_required_forbidden_actions, gt_forbidden_outputs = wave_forbidden_requested_outputs,
     gt_allowed_outputs = wave_allowed_requested_outputs\<rparr>"

definition operations_terms :: guard_terms where
  "operations_terms = \<lparr>gt_evidence = ''wave_report_input'', gt_request = ''handoff_summary_request'', gt_actions_in = ''supportability'',
     gt_required_fields = required_wave_report_input_keys, gt_forbidden_fields = wave_forbidden_field_names,
     gt_required_actions = wave_required_forbidden_actions, gt_forbidden_outputs = operations_forbidden_requested_outputs,
     gt_allowed_outputs = operations_allowed_requested_outputs\<rparr>"

definition exception_terms :: guard_terms where
  "exception_terms = \<lparr>gt_evidence = ''exception_summary_input'', gt_request = ''exception_summary_request'', gt_actions_in = ''supportability'',
     gt_required_fields = required_exception_summary_input_keys, gt_forbidden_fields = wave_forbidden_field_names,
     gt_required_actions = exception_required_forbidden_actions, gt_forbidden_outputs = exception_forbidden_requested_outputs,
     gt_allowed_outputs = exception_allowed_requested_outputs\<rparr>"

definition quality_terms :: guard_terms where
  "quality_terms = \<lparr>gt_evidence = ''score_run'', gt_request = ''summary_request'', gt_actions_in = ''supportability'',
     gt_required_fields = required_score_run_keys, gt_forbidden_fields = quality_forbidden_field_names,
     gt_required_actions = quality_required_forbidden_actions, gt_forbidden_outputs = quality_forbidden_requested_outputs,
     gt_allowed_outputs = quality_allowed_requested_outputs\<rparr>"

lemmas terms_defs = outcome_terms_def proof_pack_terms_def wave_terms_def operations_terms_def exception_terms_def quality_terms_def

interpretation outcome: payload_guardrail validate_outcome_review_narrative_payload outcome_terms
    "\<lambda>p. evidence_portfolio (object_at p ''ai_evidence_input'')" outcome_reject
  by unfold_locales (simp_all only: validate_outcome_review_narrative_payload_def passes_simps terms_defs guard_terms.simps simp_thms)

interpretation proof_pack: payload_guardrail validate_proof_pack_pm_memo_payload proof_pack_terms
    "\<lambda>p. evidence_portfolio (object_at p ''ai_evidence_input'')" proof_pack_reject
  by unfold_locales (simp_all only: validate_proof_pack_pm_memo_payload_def passes_simps terms_defs guard_terms.simps simp_thms)

interpretation wave: payload_guardrail validate_wave_pm_memo_payload wave_terms
    "\<lambda>p. json_opt (single_portfolio_id (items_at (object_at p ''wave_report_input'') ''items''))" wave_reject
  by unfold_locales (simp_all only: validate_wave_pm_memo_payload_def passes_simps terms_defs guard_terms.simps simp_thms)

interpretation operations: payload_guardrail validate_operations_handoff_summary_payload operations_terms
    "\<lambda>p. json_opt (single_portfolio_id (items_at (object_at p ''wave_report_input'') ''items''))" operations_reject
  by unfold_locales (simp_all only: validate_operations_handoff_summary_payload_def passes_simps terms_defs guard_terms.simps simp_thms)

interpretation exceptions: payload_guardrail validate_dpm_exception_summary_payload exception_terms
    "\<lambda>p. json_opt (single_portfolio_id (items_at (object_at p ''exception_summary_input'') ''exceptions''))" exception_reject
  by unfold_locales (simp_all only: validate_dpm_exception_summary_payload_def passes_simps terms_defs guard_terms.simps simp_thms)

interpretation quality: payload_guardrail validate_pm_quality_summary_payload quality_terms
    "\<lambda>p. evidence_portfolio (object_at p ''score_run'')" quality_reject
  by unfold_locales (simp_all only: validate_pm_quality_summary_payload_def passes_simps terms_defs guard_terms.simps simp_thms)

section \<open>Properties\<close>

definition guarded_packs :: "(string \<times> guard_terms) list" where
  "guarded_packs =
     [(''outcome_review_narrative.pack'', outcome_terms), (''dpm_pm_memo.pack'', proof_pack_terms), (''dpm_wave_pm_memo.pack'', wave_terms),
      (''dpm_operations_handoff_summary.pack'', operations_terms), (''dpm_exception_summary.pack'', exception_terms),
      (''pm_quality_summary.pack'', quality_terms)]"

lemma guarded_packs_terms: "list_all (\<lambda>(pack, g). \<forall>p. validate_pack_guardrails pack ''v1'' p = Inr () \<longrightarrow> terms_met g p) guarded_packs"
  unfolding guarded_packs_def list.pred_inject prod.case validate_pack_guardrails_def
  using outcome.terms_hold proof_pack.terms_hold wave.terms_hold operations.terms_hold exceptions.terms_hold quality.terms_hold by simp

lemma guarded_pack_terms:
  assumes "(pack, g) \<in> set guarded_packs" and "validate_pack_guardrails pack ''v1'' p = Inr ()"
  shows "terms_met g p"
  using guarded_packs_terms assms unfolding list_all_iff by blast

lemma concat_event_ref_checks:
  "list_all fst (concat (map (event_ref_checks reject) refs)) \<longleftrightarrow> (\<forall>j \<in> set refs. list_all fst (event_ref_checks reject j))"
  by (induction refs) auto

lemma is_objectE: "is_object j \<Longrightarrow> \<exists>d. j = JObject d"
  by (cases j) (simp_all add: is_object_def)

text \<open>
  A portfolio memory context that passes accounts for every event it speaks of: at most twelve references, ranked one, two,
  three and so on, each redacted and dated; the declared numbers of returned and omitted events and the truncation mark agree
  with the references and the event count; it belongs to the portfolio of the evidence and has no forbidden field at any depth.
\<close>

theorem memory_context_accounts_for_events:
  assumes "validate_optional_portfolio_memory_context p portfolio names reject = Inr (Some c)"
  shows "\<exists>refs n. dict_get p ''portfolio_memory_context'' = Some (JObject c) \<and> list_at c ''event_refs'' = Some refs
     \<and> int_at c ''event_count'' = Some n \<and> 0 \<le> n \<and> length refs \<le> 12
     \<and> map event_rank refs = map int [1..<length refs + 1]
     \<and> (\<forall>j \<in> set refs. \<exists>d. j = JObject d \<and> is_text d ''redaction_policy'' ''NO_RAW_PAYLOADS'' \<and> has_text d ''event_time'')
     \<and> member_eq c ''event_refs_returned'' (JInt (int (length refs)))
     \<and> member_eq c ''event_refs_omitted'' (JInt (max 0 (n - int (length refs))))
     \<and> dict_get c ''event_refs_truncated'' = Some (JBool (int (length refs) < n))
     \<and> member_eq c ''portfolio_id'' portfolio \<and> clean_of names c"
proof -
  have c: "dict_get p ''portfolio_memory_context'' = Some (JObject c)"
      and "first_failure (memory_context_checks portfolio names reject c) = Inr ()"
    using assms by (auto simp: validate_optional_portfolio_memory_context_def split: option.splits json.splits sum.splits)
  then have checks: "list_all fst (memory_context_checks portfolio names reject c)" by (simp add: first_failure_passes)
  then obtain refs n where l: "list_at c ''event_refs'' = Some refs" and n: "int_at c ''event_count'' = Some n"
    by (auto simp: memory_context_checks_def Let_def)
  have refs: "\<exists>d. j = JObject d \<and> is_text d ''redaction_policy'' ''NO_RAW_PAYLOADS'' \<and> has_text d ''event_time''" if "j \<in> set refs" for j
  proof -
    have "list_all fst (event_ref_checks reject j)"
      using checks that by (simp add: memory_context_checks_def Let_def items_at_def l concat_event_ref_checks)
    then show ?thesis by (auto simp: event_ref_checks_def Let_def no_raw_payloads_policy_def dest!: is_objectE)
  qed
  show ?thesis
    using checks refs c l n
    by (intro exI [of _ refs] exI [of _ n])
      (simp add: memory_context_checks_def Let_def items_at_def no_forbidden_field clean_of_def portfolio_memory_event_ref_limit_def
          less_max_iff_disj del: find_forbidden_field_names.simps key_occurs_simps upt_Suc)
qed

definition sample_context :: "json \<Rightarrow> json_object" where
  "sample_context portfolio =
     [(''portfolio_id'', portfolio), (''supportability_state'', JString ''READY''), (''context_content_hash'', JString ''h1''),
      (''support_boundary'', JString ''lineage''), (''event_ref_limit'', JInt 12), (''event_ref_selection_policy'', JString ''newest''),
      (''event_refs_returned'', JInt 1), (''event_refs_omitted'', JInt 2), (''event_refs_truncated'', JBool True), (''event_count'', JInt 3),
      (''source_systems'', JList [JString ''lotus-manage'']), (''reason_codes'', JList []), (''content_hash'', JString ''h2''),
      (''governance_policy'', JObject
         [(''event_identity_scheme'', JString ''v1''), (''retention_policy'', JString ''P1Y''), (''redaction_policy'', JString ''NO_RAW_PAYLOADS''),
          (''audit_policy'', JString ''a''), (''access_classification'', JString ''c''), (''source_authority_policy'', JString ''AI must not reconstruct'')]),
      (''event_refs'', JList [JObject
         [(''event_identity'', JString ''e1''), (''event_type'', JString ''TRADE''), (''source_system'', JString ''lotus-manage''),
          (''source_type'', JString ''t''), (''source_id'', JString ''1''), (''event_time'', JString ''2026-01-01''),
          (''event_ref_selection_rank'', JInt 1), (''retention_policy'', JString ''P1Y''), (''redaction_policy'', JString ''NO_RAW_PAYLOADS''),
          (''audit_policy'', JString ''a''), (''access_classification'', JString ''c'')]])]"

theorem memory_context_accounts_for_events_witness:
  "\<exists>refs. list_at (sample_context (JString ''p1'')) ''event_refs'' = Some refs \<and> map event_rank refs = map int [1..<length refs + 1]"
proof -
  have "validate_optional_portfolio_memory_context [(''portfolio_memory_context'', JObject (sample_context (JString ''p1'')))] (JString ''p1'')
      wave_forbidden_field_names wave_reject = Inr (Some (sample_context (JString ''p1'')))" by code_simp
  from memory_context_accounts_for_events [OF this] show ?thesis by blast
qed

text \<open>
  A payload that one of the six DPM guardrails lets through meets the terms of its pack: the evidence has every required field and
  no field, at any depth and in any capitalisation, with a forbidden name; nor has a portfolio memory context; every requested
  output is an allowed one and none is forbidden; and every required forbidden action is declared.
\<close>

theorem guardrail_terms_enforced:
  assumes "(pack, g) \<in> set guarded_packs" and "validate_pack_guardrails pack ''v1'' p = Inr ()"
  shows "terms_met g p"
  using assms by (rule guarded_pack_terms)

definition sample_memo :: json_object where
  "sample_memo =
     [(''ai_evidence_input'', JObject
         [(''contract_version'', JString ''v1''), (''proof_pack_id'', JString ''pp1''), (''proof_pack_content_hash'', JString ''h''),
          (''portfolio_id'', JString ''p1''), (''as_of_date'', JString ''2026-01-01''), (''permitted_use'', JString ''memo''),
          (''forbidden_actions'', JList (map JString proof_pack_required_forbidden_actions)), (''forbidden_fields_removed'', JList []),
          (''decision_summary'', JString ''hold''), (''supportability_status'', JString ''READY''), (''reason_codes'', JList []),
          (''sections'', JList [JString ''s1'']), (''source_refs'', JList []), (''evidence_ref'', JNull), (''content_hash'', JString ''h'')]),
      (''memo_request'', JObject [(''requested_outputs'', JList [JString ''pm_memo''])]), (''supportability'', JObject [])]"

lemma sample_memo_passes: "validate_pack_guardrails ''dpm_pm_memo.pack'' ''v1'' sample_memo = Inr ()"
  by code_simp

theorem guardrail_terms_enforced_witness: "terms_met proof_pack_terms sample_memo"
  by (rule guardrail_terms_enforced [OF _ sample_memo_passes]) (simp add: guarded_packs_def)

lemmas payload_reads = object_at_def section_of_def memory_context_check_def validate_optional_portfolio_memory_context_def

definition agree_on :: "guard_terms \<Rightarrow> json_object \<Rightarrow> json_object \<Rightarrow> bool" where
  "agree_on g p p' \<longleftrightarrow> dict_get p ''supportability'' = dict_get p' ''supportability'' \<and> dict_get p ''memo_request'' = dict_get p' ''memo_request''
     \<and> dict_get p ''portfolio_memory_context'' = dict_get p' ''portfolio_memory_context''
     \<and> dict_get p (gt_evidence g) = dict_get p' (gt_evidence g) \<and> dict_get p (gt_request g) = dict_get p' (gt_request g)"

lemma outcome_reads: "agree_on outcome_terms p p' \<Longrightarrow> validate_outcome_review_narrative_payload p = validate_outcome_review_narrative_payload p'"
  unfolding agree_on_def validate_outcome_review_narrative_payload_def payload_reads outcome_terms_def guard_terms.simps by (simp only:)

lemma proof_pack_reads: "agree_on proof_pack_terms p p' \<Longrightarrow> validate_proof_pack_pm_memo_payload p = validate_proof_pack_pm_memo_payload p'"
  unfolding agree_on_def validate_proof_pack_pm_memo_payload_def payload_reads proof_pack_terms_def guard_terms.simps by (simp only:)

lemma wave_reads: "agree_on wave_terms p p' \<Longrightarrow> validate_wave_pm_memo_payload p = validate_wave_pm_memo_payload p'"
  unfolding agree_on_def validate_wave_pm_memo_payload_def payload_reads wave_terms_def guard_terms.simps by (simp only:)

lemma operations_reads: "agree_on operations_terms p p' \<Longrightarrow> validate_operations_handoff_summary_payload p = validate_operations_handoff_summary_payload p'"
  unfolding agree_on_def validate_operations_handoff_summary_payload_def payload_reads operations_terms_def guard_terms.simps by (simp only:)

lemma exception_reads: "agree_on exception_terms p p' \<Longrightarrow> validate_dpm_exception_summary_payload p = validate_dpm_exception_summary_payload p'"
  unfolding agree_on_def validate_dpm_exception_summary_payload_def payload_reads exception_terms_def guard_terms.simps by (simp only:)

lemma quality_reads: "agree_on quality_terms p p' \<Longrightarrow> validate_pm_quality_summary_payload p = validate_pm_quality_summary_payload p'"
  unfolding agree_on_def validate_pm_quality_summary_payload_def payload_reads quality_terms_def guard_terms.simps by (simp only:)

lemma guarded_packs_reads:
  "list_all (\<lambda>(pack, g). \<forall>p p'. agree_on g p p' \<longrightarrow> validate_pack_guardrails pack ''v1'' p = validate_pack_guardrails pack ''v1'' p') guarded_packs"
  unfolding guarded_packs_def list.pred_inject prod.case validate_pack_guardrails_def
  using outcome_reads proof_pack_reads wave_reads operations_reads exception_reads quality_reads by simp

lemma guardrail_reads:
  assumes "(pack, g) \<in> set guarded_packs" and "agree_on g p p'"
  shows "validate_pack_guardrails pack ''v1'' p = validate_pack_guardrails pack ''v1'' p'"
  using guarded_packs_reads assms unfolding list_all_iff by blast

text \<open>
  The field scan stops at the evidence: a payload that passes still passes with any further section, whatever its content, so a
  field with a forbidden name outside the evidence and the memory context is not found.
\<close>

theorem sections_outside_evidence_are_not_scanned:
  assumes "(pack, g) \<in> set guarded_packs" and "validate_pack_guardrails pack ''v1'' p = Inr ()"
    and "k \<notin> {gt_evidence g, gt_request g, ''supportability'', ''memo_request'', ''portfolio_memory_context''}"
  shows "validate_pack_guardrails pack ''v1'' (dict_put k j p) = Inr ()"
proof -
  have "validate_pack_guardrails pack ''v1'' (dict_put k j p) = validate_pack_guardrails pack ''v1'' p"
    by (rule guardrail_reads [OF assms(1)]) (use assms(3) in \<open>simp add: agree_on_def, blast\<close>)
  then show ?thesis using assms(2) by simp
qed

theorem sections_outside_evidence_are_not_scanned_witness:
  "validate_pack_guardrails ''dpm_pm_memo.pack'' ''v1'' (dict_put ''notes'' (JObject [(''client_name'', JString ''A. Client'')]) sample_memo) = Inr ()"
  by (rule sections_outside_evidence_are_not_scanned [OF _ sample_memo_passes, of proof_pack_terms]) (simp_all add: guarded_packs_def proof_pack_terms_def)

text \<open>A wave over several portfolios has no single portfolio, which the check compares as null: a memory context that names no
  portfolio passes beside it.\<close>

definition mixed_wave :: json_object where
  "mixed_wave =
     [(''wave_report_input'', JObject
         (map (\<lambda>k. (k, JString ''x'')) [''contract_version'', ''wave_id'', ''wave_content_hash'', ''wave_state'', ''trigger_type'', ''trigger_id'', ''trigger_rationale'',
            ''as_of_date'', ''generated_at'', ''aggregate_metrics'', ''supportability'', ''events'', ''handoff_refs'', ''evidence_ref'', ''content_hash'']
          @ [(''proof_pack_posture'', JObject []), (''items'', JList [JObject [(''portfolio_id'', JString ''p1'')], JObject [(''portfolio_id'', JString ''p2'')]]),
             (''source_refs'', JList [JString ''r'']), (''redaction_policy'', JString ''NO_RAW_PAYLOADS''), (''external_execution_claimed'', JBool False)])),
      (''memo_request'', JObject [(''requested_outputs'', JList [])]),
      (''supportability'', JObject [(''forbidden_actions'', JList (map JString wave_required_forbidden_actions))]),
      (''portfolio_memory_context'', JObject (sample_context JNull))]"

theorem unowned_memory_context_passes:
  "validate_pack_guardrails ''dpm_wave_pm_memo.pack'' ''v1'' mixed_wave = Inr ()
   \<and> single_portfolio_id (items_at (object_at mixed_wave ''wave_report_input'') ''items'') = None"
  by code_simp

section \<open>Review-gated packs\<close>

definition review_gated :: "string list \<Rightarrow> string list \<Rightarrow> string \<Rightarrow> json_object \<Rightarrow> bool" where
  "review_gated technical forbidden request p \<longleftrightarrow>
     (\<forall>k. key_occurs k (JObject p) \<longrightarrow> k \<notin> set technical)
     \<and> set (as_texts (items_at (object_at p request) ''requested_outputs'')) \<inter> set forbidden = {}
     \<and> dict_get (object_at p ''supportability'') ''human_review_required'' = Some (JBool True)
     \<and> as_text (dict_get (object_at p ''supportability'') ''client_ready_publication'') = ''BLOCKED''"

lemma then_check_passes [simp]: "then_check a b = Inr () \<longleftrightarrow> a = Inr () \<and> b = Inr ()"
  by (simp add: then_check_def split: sum.splits)

theorem idea_payload_review_gated:
  "validate_idea_explanation_payload p = Inr () \<Longrightarrow>
     review_gated idea_forbidden_technical_keys idea_forbidden_requested_outputs ''explanation_request'' p"
  by (simp add: validate_idea_explanation_payload_def review_gated_def technical_keys_refused validate_explanation_request_def
      validate_idea_supportability_def first_failure_passes Let_def del: key_occurs_simps first_failure.simps)

theorem copilot_payload_review_gated:
  "validate_advisory_copilot_payload p = Inr () \<Longrightarrow>
     review_gated copilot_forbidden_technical_keys copilot_forbidden_requested_outputs ''copilot_request'' p"
  by (simp add: validate_advisory_copilot_payload_def review_gated_def technical_keys_refused validate_copilot_request_def
      validate_copilot_supportability_def first_failure_passes Let_def del: key_occurs_simps first_failure.simps)

end
