(* ===== verification/Pack_Idempotency.thy ===== *)
theory Pack_Idempotency
  imports Pack_Queue Json_Values
begin

text \<open>
  Idempotent synchronous execution of workflow packs, \<^verbatim>\<open>workflow_pack_execution_idempotency/\<close>: the reservation records
  (\<^verbatim>\<open>repository.py\<close>), the in-memory store (\<^verbatim>\<open>memory_repository.py\<close>) and the service (\<^verbatim>\<open>service.py\<close>), which takes the executor as an
  argument. A response is the dump of its fields other than the idempotency descriptor, together with that descriptor.

  The service is the composition of reserving, executing and settling; the interleavings of many calls run these three
  steps one at a time.
\<close>

section \<open>Records and the store\<close>

datatype idem_state = IDEM_IN_PROGRESS | IDEM_COMPLETED | IDEM_INDETERMINATE

record idem_record =
  im_record_id :: string
  im_caller_app :: string
  im_tenant_scope :: string
  im_idempotency_key :: string
  im_request_fingerprint :: string
  im_state :: idem_state
  im_owner_token :: string
  im_response_payload :: "json_object option"
  im_response_checksum :: "string option"
  im_failure_code :: "string option"
  im_created_at :: timestamp
  im_updated_at :: timestamp

record idem_reservation =
  ir_record :: idem_record
  ir_acquired :: bool

record idem_world =
  iw_records :: "(string, idem_record) dict"

definition get_idem_record :: "'w idem_world_scheme \<Rightarrow> string \<Rightarrow> idem_record option" where
  "get_idem_record w i = dict_get (iw_records w) i"

definition put_idem_record :: "idem_record \<Rightarrow> 'w idem_world_scheme \<Rightarrow> 'w idem_world_scheme" where
  "put_idem_record r w = w\<lparr>iw_records := dict_put (im_record_id r) r (iw_records w)\<rparr>"

definition idem_conflict :: error where
  "idem_conflict = ValueError ''idempotency_key_reused''"

definition idem_not_owned :: error where
  "idem_not_owned = RuntimeError ''reservation_not_owned''"

definition reserve :: "idem_record \<Rightarrow> 'w idem_world_scheme \<Rightarrow> idem_reservation result \<times> 'w idem_world_scheme" where
  "reserve r w =
     (case get_idem_record w (im_record_id r) of
        None \<Rightarrow> (Inr \<lparr>ir_record = r, ir_acquired = True\<rparr>, put_idem_record r w)
      | Some x \<Rightarrow>
        if im_request_fingerprint x \<noteq> im_request_fingerprint r then (Inl idem_conflict, w)
        else (Inr \<lparr>ir_record = x, ir_acquired = False\<rparr>, w))"

definition require_owned_in_progress :: "string \<Rightarrow> string \<Rightarrow> 'w idem_world_scheme \<Rightarrow> idem_record result" where
  "require_owned_in_progress i token w =
     (case get_idem_record w i of
        None \<Rightarrow> Inl idem_not_owned
      | Some x \<Rightarrow> if im_owner_token x \<noteq> token \<or> im_state x \<noteq> IDEM_IN_PROGRESS then Inl idem_not_owned else Inr x)"

definition complete_reservation ::
  "string \<Rightarrow> string \<Rightarrow> json_object \<Rightarrow> string \<Rightarrow> timestamp \<Rightarrow> 'w idem_world_scheme \<Rightarrow> idem_record result \<times> 'w idem_world_scheme" where
  "complete_reservation i token payload checksum now w =
     (case require_owned_in_progress i token w of
        Inl e \<Rightarrow> (Inl e, w)
      | Inr x \<Rightarrow>
        let y = x\<lparr>im_state := IDEM_COMPLETED, im_response_payload := Some payload, im_response_checksum := Some checksum, im_failure_code := None, im_updated_at := now\<rparr>
        in (Inr y, w\<lparr>iw_records := dict_put i y (iw_records w)\<rparr>))"

definition mark_indeterminate ::
  "string \<Rightarrow> string \<Rightarrow> string \<Rightarrow> timestamp \<Rightarrow> 'w idem_world_scheme \<Rightarrow> idem_record result \<times> 'w idem_world_scheme" where
  "mark_indeterminate i token failure_code now w =
     (case require_owned_in_progress i token w of
        Inl e \<Rightarrow> (Inl e, w)
      | Inr x \<Rightarrow>
        let y = x\<lparr>im_state := IDEM_INDETERMINATE, im_response_payload := None, im_response_checksum := None, im_failure_code := Some failure_code, im_updated_at := now\<rparr>
        in (Inr y, w\<lparr>iw_records := dict_put i y (iw_records w)\<rparr>))"

definition list_idem_records :: "int option \<Rightarrow> 'w idem_world_scheme \<Rightarrow> idem_record list" where
  "list_idem_records limit w =
     (let rs = sorted_desc im_created_at (dict_values (iw_records w)) in case limit of None \<Rightarrow> rs | Some n \<Rightarrow> py_slice_to n rs)"

fun delete_idem_records :: "string list \<Rightarrow> 'w idem_world_scheme \<Rightarrow> nat \<times> 'w idem_world_scheme" where
  "delete_idem_records [] w = (0, w)"
| "delete_idem_records (i # is) w =
     (let found = (get_idem_record w i \<noteq> None); (n, w') = delete_idem_records is (w\<lparr>iw_records := dict_pop i (iw_records w)\<rparr>)
      in ((if found then 1 else 0) + n, w'))"

definition release_reservation :: "string \<Rightarrow> string \<Rightarrow> 'w idem_world_scheme \<Rightarrow> unit result \<times> 'w idem_world_scheme" where
  "release_reservation i token w =
     (case require_owned_in_progress i token w of
        Inl e \<Rightarrow> (Inl e, w)
      | Inr _ \<Rightarrow> (Inr (), w\<lparr>iw_records := dict_pop i (iw_records w)\<rparr>))"

section \<open>Requests and responses\<close>

record pack_execution_request =
  ex_pack_id :: string
  ex_version :: string
  ex_environment :: pack_environment
  ex_caller_identity_class :: caller_identity_class
  ex_workflow_surface :: "string option"
  ex_queue_lane :: "queue_lane option"
  ex_idempotency_key :: "string option"
  ex_task_request :: task_request

definition dump_execution_request :: "pack_execution_request \<Rightarrow> json" where
  "dump_execution_request q = JObject
     [(''pack_id'', JString (ex_pack_id q)), (''version'', JString (ex_version q)), (''environment'', JString (environment_value (ex_environment q))),
      (''caller_identity_class'', JString (identity_class_value (ex_caller_identity_class q))), (''workflow_surface'', json_opt (ex_workflow_surface q)),
      (''queue_lane'', json_opt (map_option lane_value (ex_queue_lane q))), (''task_request'', dump_task_request (ex_task_request q))]"

datatype idem_status = IDEM_CREATED | IDEM_REPLAYED

fun idem_status_value :: "idem_status \<Rightarrow> string" where
  "idem_status_value IDEM_CREATED = ''CREATED''"
| "idem_status_value IDEM_REPLAYED = ''REPLAYED''"

record idem_descriptor =
  dr_status :: idem_status
  dr_record_id :: string
  dr_request_fingerprint :: string

record execution_response =
  en_body :: json_object
  en_idempotency :: "idem_descriptor option"

definition dump_descriptor :: "idem_descriptor \<Rightarrow> json" where
  "dump_descriptor d = JObject [(''status'', JString (idem_status_value (dr_status d))), (''record_id'', JString (dr_record_id d)),
     (''request_fingerprint'', JString (dr_request_fingerprint d))]"

definition dump_execution_response :: "execution_response \<Rightarrow> json_object" where
  "dump_execution_response x = en_body x @ [(''idempotency'', case en_idempotency x of None \<Rightarrow> JNull | Some d \<Rightarrow> dump_descriptor d)]"

text \<open>A fingerprint has sixty-four characters; the descriptor is validated when it is built and when it is read.\<close>

definition make_descriptor :: "idem_status \<Rightarrow> string \<Rightarrow> string \<Rightarrow> idem_descriptor result" where
  "make_descriptor s i f = (if length f = 64 then Inr \<lparr>dr_status = s, dr_record_id = i, dr_request_fingerprint = f\<rparr> else Inl (ValueError ''request_fingerprint''))"

definition validate_descriptor :: "json_object \<Rightarrow> idem_descriptor result" where
  "validate_descriptor d =
     (case (find (\<lambda>s. text_at d ''status'' = Some (idem_status_value s)) [IDEM_CREATED, IDEM_REPLAYED], text_at d ''record_id'', text_at d ''request_fingerprint'') of
        (Some s, Some i, Some f) \<Rightarrow> make_descriptor s i f
      | _ \<Rightarrow> Inl (ValueError ''idempotency''))"

definition validate_execution_response :: "json_object \<Rightarrow> execution_response result" where
  "validate_execution_response p =
     (let body = filter (\<lambda>(k, v). k \<noteq> ''idempotency'') p in
      case dict_get p ''idempotency'' of
        None \<Rightarrow> Inr \<lparr>en_body = body, en_idempotency = None\<rparr>
      | Some JNull \<Rightarrow> Inr \<lparr>en_body = body, en_idempotency = None\<rparr>
      | Some (JObject d) \<Rightarrow> (case validate_descriptor d of Inl e \<Rightarrow> Inl e | Inr x \<Rightarrow> Inr \<lparr>en_body = body, en_idempotency = Some x\<rparr>)
      | Some _ \<Rightarrow> Inl (ValueError ''idempotency''))"

section \<open>The service\<close>

definition no_tenant_scope :: string where
  "no_tenant_scope = ''__NO_TENANT__''"

definition sync_execution_operation :: string where
  "sync_execution_operation = ''workflow-pack-execute-sync''"

definition fingerprint_workflow_pack_execution_request :: "(string \<Rightarrow> string) \<Rightarrow> pack_execution_request \<Rightarrow> string" where
  "fingerprint_workflow_pack_execution_request sha q = sha (canonical_json (dump_execution_request q))"

definition tenant_scope_of :: "string option \<Rightarrow> string" where
  "tenant_scope_of tenant = (case tenant of None \<Rightarrow> no_tenant_scope | Some t \<Rightarrow> if t = [] then no_tenant_scope else t)"

definition build_workflow_pack_execution_idempotency_record_id :: "(string \<Rightarrow> string) \<Rightarrow> string \<Rightarrow> string option \<Rightarrow> string \<Rightarrow> string" where
  "build_workflow_pack_execution_idempotency_record_id sha caller_app tenant_id key =
     ''wpe_sync_'' @ take 32 (sha (canonical_json (JObject
       [(''operation'', JString sync_execution_operation), (''caller_app'', JString caller_app), (''tenant_scope'', JString (tenant_scope_of tenant_id)),
        (''idempotency_key'', JString key)])))"

definition checksum_response_payload :: "(string \<Rightarrow> string) \<Rightarrow> json_object \<Rightarrow> string" where
  "checksum_response_payload sha p = sha (canonical_json (JObject p))"

definition idem_http_conflict :: "string \<Rightarrow> error" where
  "idem_http_conflict reason = HTTPException 409 reason"

definition normalize_idempotency_key :: "string option \<Rightarrow> string option result" where
  "normalize_idempotency_key key =
     (case key of
        None \<Rightarrow> Inr None
      | Some k \<Rightarrow> if py_strip k = [] then Inl (HTTPException 422 ''workflow_pack_execution_idempotency_key_invalid'') else Inr (Some (py_strip k)))"

definition with_idempotency_status :: "execution_response \<Rightarrow> idem_status \<Rightarrow> string \<Rightarrow> string \<Rightarrow> execution_response result" where
  "with_idempotency_status x s i f = (case make_descriptor s i f of Inl e \<Rightarrow> Inl e | Inr d \<Rightarrow> Inr (x\<lparr>en_idempotency := Some d\<rparr>))"

definition resolve_existing_reservation :: "(string \<Rightarrow> string) \<Rightarrow> idem_record \<Rightarrow> execution_response result" where
  "resolve_existing_reservation sha r =
     (case im_state r of
        IDEM_COMPLETED \<Rightarrow>
          (case im_response_payload r of
             None \<Rightarrow> Inl (idem_http_conflict ''workflow_pack_execution_idempotency_result_missing'')
           | Some p \<Rightarrow>
             if im_response_checksum r \<noteq> Some (checksum_response_payload sha p)
             then Inl (idem_http_conflict ''workflow_pack_execution_idempotency_result_integrity_mismatch'')
             else case validate_execution_response p of
               Inl e \<Rightarrow> Inl e
             | Inr x \<Rightarrow> with_idempotency_status x IDEM_REPLAYED (im_record_id r) (im_request_fingerprint r))
      | IDEM_INDETERMINATE \<Rightarrow> Inl (idem_http_conflict ''workflow_pack_execution_idempotency_outcome_indeterminate'')
      | IDEM_IN_PROGRESS \<Rightarrow> Inl (idem_http_conflict ''workflow_pack_execution_idempotency_in_progress''))"

text \<open>The reservation that a request with a normalized key asks for.\<close>

definition record_id_of :: "(string \<Rightarrow> string) \<Rightarrow> pack_execution_request \<Rightarrow> string \<Rightarrow> string" where
  "record_id_of sha q key =
     build_workflow_pack_execution_idempotency_record_id sha (cd_caller_app (tk_caller (ex_task_request q))) (cd_tenant_id (tk_caller (ex_task_request q))) key"

definition proposed_record :: "(string \<Rightarrow> string) \<Rightarrow> pack_execution_request \<Rightarrow> string \<Rightarrow> string \<Rightarrow> timestamp \<Rightarrow> idem_record" where
  "proposed_record sha q key token now =
     \<lparr>im_record_id = record_id_of sha q key, im_caller_app = cd_caller_app (tk_caller (ex_task_request q)),
      im_tenant_scope = tenant_scope_of (cd_tenant_id (tk_caller (ex_task_request q))), im_idempotency_key = key,
      im_request_fingerprint = fingerprint_workflow_pack_execution_request sha q, im_state = IDEM_IN_PROGRESS, im_owner_token = token,
      im_response_payload = None, im_response_checksum = None, im_failure_code = None, im_created_at = now, im_updated_at = now\<rparr>"

text \<open>\<^verbatim>\<open>except HTTPException\<close> releases the reservation, every other exception marks it; a failure of the marking is dropped.\<close>

definition settle_failure :: "string \<Rightarrow> string \<Rightarrow> timestamp \<Rightarrow> error \<Rightarrow> 'w idem_world_scheme \<Rightarrow> execution_response result \<times> 'w idem_world_scheme" where
  "settle_failure i token now e w =
     (case e of
        HTTPException code d \<Rightarrow> (case release_reservation i token w of (Inl e', w') \<Rightarrow> (Inl e', w') | (Inr _, w') \<Rightarrow> (Inl e, w'))
      | _ \<Rightarrow> (Inl e, snd (mark_indeterminate i token ''execution_result_not_persisted'' now w)))"

definition settle_execution ::
  "(string \<Rightarrow> string) \<Rightarrow> pack_execution_request \<Rightarrow> string \<Rightarrow> string \<Rightarrow> timestamp \<Rightarrow> execution_response result \<Rightarrow> 'w idem_world_scheme
     \<Rightarrow> execution_response result \<times> 'w idem_world_scheme" where
  "settle_execution sha q key token now res w =
     (let i = record_id_of sha q key in
      case res of
        Inl e \<Rightarrow> settle_failure i token now e w
      | Inr x \<Rightarrow>
        (case with_idempotency_status x IDEM_CREATED i (fingerprint_workflow_pack_execution_request sha q) of
           Inl e \<Rightarrow> settle_failure i token now e w
         | Inr created \<Rightarrow>
           let p = dump_execution_response created in
           (case complete_reservation i token p (checksum_response_payload sha p) now w of
              (Inl e, w') \<Rightarrow> settle_failure i token now e w'
            | (Inr _, w') \<Rightarrow> (Inr created, w'))))"

definition execute_workflow_pack_idempotently ::
  "(string \<Rightarrow> string) \<Rightarrow> (pack_execution_request \<Rightarrow> 'w idem_world_scheme \<Rightarrow> execution_response result \<times> 'w idem_world_scheme) \<Rightarrow> string \<Rightarrow> (nat \<Rightarrow> timestamp)
     \<Rightarrow> pack_execution_request \<Rightarrow> 'w idem_world_scheme \<Rightarrow> execution_response result \<times> 'w idem_world_scheme" where
  "execute_workflow_pack_idempotently sha execute token now q w =
     (case normalize_idempotency_key (ex_idempotency_key q) of
        Inl e \<Rightarrow> (Inl e, w)
      | Inr None \<Rightarrow> execute q w
      | Inr (Some key) \<Rightarrow>
        (case reserve (proposed_record sha q key token (now 0)) w of
           (Inl _, w1) \<Rightarrow> (Inl (idem_http_conflict ''workflow_pack_execution_idempotency_conflict''), w1)
         | (Inr rs, w1) \<Rightarrow>
           if \<not> ir_acquired rs then (resolve_existing_reservation sha (ir_record rs), w1)
           else let (res, w2) = execute q w1 in settle_execution sha q key token (now 1) res w2))"

section \<open>The store\<close>

lemma get_put_idem_record [simp]: "get_idem_record (put_idem_record r w) i = (if i = im_record_id r then Some r else get_idem_record w i)"
  by (simp add: get_idem_record_def put_idem_record_def)

interpretation idem_records: keyed_repository im_record_id get_idem_record put_idem_record
  by unfold_locales simp

lemma owned_iff: "require_owned_in_progress i token w = Inr x \<longleftrightarrow>
    get_idem_record w i = Some x \<and> im_owner_token x = token \<and> im_state x = IDEM_IN_PROGRESS"
  by (auto simp: require_owned_in_progress_def split: option.splits if_splits)

text \<open>What settling does to the record of its call and to the others.\<close>

lemma settle_failure_others: "k \<noteq> i \<Longrightarrow> get_idem_record (snd (settle_failure i token now e w)) k = get_idem_record w k"
  by (auto simp: settle_failure_def release_reservation_def mark_indeterminate_def get_idem_record_def Let_def split: error.splits sum.splits)

lemma settle_failure_keeps:
  "(\<And>c d. e \<noteq> HTTPException c d) \<Longrightarrow> get_idem_record w i \<noteq> None \<Longrightarrow> get_idem_record (snd (settle_failure i token now e w)) i \<noteq> None"
  by (auto simp: settle_failure_def mark_indeterminate_def get_idem_record_def Let_def split: error.splits sum.splits)

definition http_refusal :: "'a result \<Rightarrow> bool" where
  "http_refusal r = (case r of Inl (HTTPException c d) \<Rightarrow> True | _ \<Rightarrow> False)"

lemma make_descriptor_error: "with_idempotency_status x s i f = Inl e \<Longrightarrow> e = ValueError ''request_fingerprint''"
  by (auto simp: with_idempotency_status_def make_descriptor_def split: if_splits)

lemma complete_error: "complete_reservation i token p c now w = (Inl e, w') \<Longrightarrow> e = idem_not_owned \<and> w' = w"
  by (auto simp: complete_reservation_def require_owned_in_progress_def Let_def split: option.splits if_splits sum.splits)

lemma complete_others: "k \<noteq> i \<Longrightarrow> get_idem_record (snd (complete_reservation i token p c now w)) k = get_idem_record w k"
  "get_idem_record w i \<noteq> None \<Longrightarrow> get_idem_record (snd (complete_reservation i token p c now w)) i \<noteq> None"
  by (auto simp: complete_reservation_def get_idem_record_def Let_def split: sum.splits)

lemma settle_world:
  obtains (failed) e where "snd (settle_execution sha q key token now res w) = snd (settle_failure (record_id_of sha q key) token now e w)"
      "\<And>c d. e = HTTPException c d \<Longrightarrow> http_refusal res"
  | (completed) p c where "snd (settle_execution sha q key token now res w) = snd (complete_reservation (record_id_of sha q key) token p c now w)"
proof (cases res)
  case (Inl e)
  then show thesis by (intro failed [of e]) (simp_all add: settle_execution_def http_refusal_def)
next
  case (Inr x)
  show thesis
  proof (cases "with_idempotency_status x IDEM_CREATED (record_id_of sha q key) (fingerprint_workflow_pack_execution_request sha q)")
    case (Inl e)
    then show thesis using make_descriptor_error [OF Inl] Inr by (intro failed [of e]) (simp_all add: settle_execution_def Let_def)
  next
    case created: (Inr y)
    let ?p = "dump_execution_response y" let ?c = "checksum_response_payload sha ?p"
    obtain c w' where eq: "complete_reservation (record_id_of sha q key) token ?p ?c now w = (c, w')" by fastforce
    show thesis
    proof (cases c)
      case (Inl e)
      then show thesis using complete_error [OF eq [unfolded Inl]] eq created Inr
        by (intro failed [of e]) (simp_all add: settle_execution_def Let_def idem_not_owned_def)
    next
      case returned: (Inr z)
      then show thesis using eq created Inr by (intro completed [of ?p ?c]) (simp add: settle_execution_def Let_def)
    qed
  qed
qed

lemma settle_others: "k \<noteq> record_id_of sha q key \<Longrightarrow> get_idem_record (snd (settle_execution sha q key token now res w)) k = get_idem_record w k"
  by (rule settle_world [of sha q key token now res w]) (simp_all add: settle_failure_others complete_others)

lemma settle_keeps:
  "\<not> http_refusal res \<Longrightarrow> get_idem_record w (record_id_of sha q key) \<noteq> None \<Longrightarrow>
     get_idem_record (snd (settle_execution sha q key token now res w)) (record_id_of sha q key) \<noteq> None"
  by (rule settle_world [of sha q key token now res w]) (metis settle_failure_keeps, metis complete_others(2))

section \<open>Interleavings\<close>

text \<open>
  A call has reserved its key, or has also executed. Data retention and erasure delete records; that they spare the reservations of running
  calls is an assumption of the steps. The log holds every execution with the identity of its reservation, from the last deletion of its record.
\<close>

datatype idem_phase = Reserved | Executed "execution_response result"

record idem_system =
  sm_world :: idem_world
  sm_calls :: "string \<rightharpoonup> (pack_execution_request \<times> string \<times> idem_phase)"
  sm_log :: "(string \<times> execution_response result) list"

inductive idem_step :: "(string \<Rightarrow> string) \<Rightarrow> idem_system \<Rightarrow> idem_system \<Rightarrow> bool" for sha where
  begins: "sm_calls s token = None \<Longrightarrow> normalize_idempotency_key (ex_idempotency_key q) = Inr (Some key) \<Longrightarrow>
     reserve (proposed_record sha q key token now) (sm_world s) = (Inr rs, w) \<Longrightarrow> ir_acquired rs \<Longrightarrow>
     idem_step sha s (s\<lparr>sm_world := w, sm_calls := (sm_calls s)(token \<mapsto> (q, key, Reserved))\<rparr>)"
| executes: "sm_calls s token = Some (q, key, Reserved) \<Longrightarrow>
     idem_step sha s (s\<lparr>sm_calls := (sm_calls s)(token \<mapsto> (q, key, Executed res)), sm_log := sm_log s @ [(record_id_of sha q key, res)]\<rparr>)"
| settles: "sm_calls s token = Some (q, key, Executed res) \<Longrightarrow>
     idem_step sha s (s\<lparr>sm_world := snd (settle_execution sha q key token now res (sm_world s)), sm_calls := (sm_calls s)(token := None)\<rparr>)"
| crashes: "idem_step sha s (s\<lparr>sm_calls := (sm_calls s)(token := None)\<rparr>)"
| forgets: "(\<And>token q key ph. sm_calls s token = Some (q, key, ph) \<Longrightarrow> record_id_of sha q key \<notin> set ids) \<Longrightarrow>
     idem_step sha s (s\<lparr>sm_world := snd (delete_idem_records ids (sm_world s)), sm_log := filter (\<lambda>(i, res). i \<notin> set ids) (sm_log s)\<rparr>)"

lemma delete_idem_records_get [simp]:
  "get_idem_record (snd (delete_idem_records ids w)) i = (if i \<in> set ids then None else get_idem_record w i)"
  by (induction ids w rule: delete_idem_records.induct) (auto simp: get_idem_record_def Let_def split: prod.splits)

definition effective :: "string \<Rightarrow> idem_system \<Rightarrow> (string \<times> execution_response result) list" where
  "effective i s = filter (\<lambda>(k, res). k = i \<and> \<not> http_refusal res) (sm_log s)"

definition idem_inv :: "(string \<Rightarrow> string) \<Rightarrow> idem_system \<Rightarrow> bool" where
  "idem_inv sha s \<longleftrightarrow>
     (\<forall>t q key ph. sm_calls s t = Some (q, key, ph) \<longrightarrow> (\<exists>x. get_idem_record (sm_world s) (record_id_of sha q key) = Some x
        \<and> im_state x = IDEM_IN_PROGRESS \<and> im_owner_token x = t))
     \<and> (\<forall>i. length (effective i s) \<le> 1)
     \<and> (\<forall>i. effective i s \<noteq> [] \<longrightarrow> get_idem_record (sm_world s) i \<noteq> None
          \<and> (\<forall>t q key ph. sm_calls s t = Some (q, key, ph) \<longrightarrow> record_id_of sha q key = i \<longrightarrow> (\<exists>res. ph = Executed res \<and> \<not> http_refusal res)))"

lemma inv_call:
  "idem_inv sha s \<Longrightarrow> sm_calls s t = Some (q, key, ph) \<Longrightarrow>
     \<exists>x. get_idem_record (sm_world s) (record_id_of sha q key) = Some x \<and> im_state x = IDEM_IN_PROGRESS \<and> im_owner_token x = t"
  unfolding idem_inv_def by blast

lemma inv_alone:
  assumes "idem_inv sha s" and "sm_calls s t = Some (q, key, ph)" and "sm_calls s t' = Some (q', key', ph')" and "record_id_of sha q' key' = record_id_of sha q key"
  shows "t' = t"
  using inv_call [OF assms(1,2)] inv_call [OF assms(1,3)] assms(4) by auto

lemma inv_effective:
  assumes "idem_inv sha s" and "effective i s \<noteq> []"
  shows "get_idem_record (sm_world s) i \<noteq> None"
    and "sm_calls s t = Some (q, key, ph) \<Longrightarrow> record_id_of sha q key = i \<Longrightarrow> \<exists>res. ph = Executed res \<and> \<not> http_refusal res"
  using assms unfolding idem_inv_def by blast+

lemma inv_once: "idem_inv sha s \<Longrightarrow> length (effective i s) \<le> 1"
  unfolding idem_inv_def by blast

lemma idem_invI:
  assumes "\<And>t q key ph. sm_calls s t = Some (q, key, ph) \<Longrightarrow>
      \<exists>x. get_idem_record (sm_world s) (record_id_of sha q key) = Some x \<and> im_state x = IDEM_IN_PROGRESS \<and> im_owner_token x = t"
    and "\<And>i. length (effective i s) \<le> 1" and "\<And>i. effective i s \<noteq> [] \<Longrightarrow> get_idem_record (sm_world s) i \<noteq> None"
    and "\<And>i t q key ph. effective i s \<noteq> [] \<Longrightarrow> sm_calls s t = Some (q, key, ph) \<Longrightarrow> record_id_of sha q key = i \<Longrightarrow> \<exists>res. ph = Executed res \<and> \<not> http_refusal res"
  shows "idem_inv sha s"
  unfolding idem_inv_def using assms by blast

lemma idem_step_inv:
  assumes "idem_step sha s s'" and "idem_inv sha s"
  shows "idem_inv sha s'"
  using assms
proof (induction rule: idem_step.cases)
  case (begins s token q key now rs w)
  let ?i = "record_id_of sha q key"
  note inv = begins(7) [unfolded begins(1)]
  have none: "get_idem_record (sm_world s) ?i = None" and w: "w = put_idem_record (proposed_record sha q key token now) (sm_world s)"
    using begins(5,6) by (auto simp: reserve_def proposed_record_def split: option.splits if_splits)
  have calls: "sm_calls s' t = (if t = token then Some (q, key, Reserved) else sm_calls s t)" "effective i s' = effective i s"
    "get_idem_record (sm_world s') i = (if i = ?i then Some (proposed_record sha q key token now) else get_idem_record (sm_world s) i)" for t i
    by (simp_all add: begins(2) effective_def w proposed_record_def)
  have fresh: "effective ?i s = []" using inv_effective(1) [OF inv] none by blast
  have other: "record_id_of sha q' key' \<noteq> ?i" if "sm_calls s t = Some (q', key', ph)" for t q' key' ph
    using inv_call [OF inv that] none by auto
  show ?case
  proof (rule idem_invI)
    fix t q' key' ph assume call: "sm_calls s' t = Some (q', key', ph)"
    show "\<exists>x. get_idem_record (sm_world s') (record_id_of sha q' key') = Some x \<and> im_state x = IDEM_IN_PROGRESS \<and> im_owner_token x = t"
    proof (cases "t = token")
      case True
      then show ?thesis using call by (simp add: calls proposed_record_def)
    next
      case False
      then have c: "sm_calls s t = Some (q', key', ph)" using call by (simp add: calls)
      then show ?thesis using inv_call [OF inv c] other [OF c] by (simp add: calls)
    qed
  next
    fix i show "length (effective i s') \<le> 1" using inv_once [OF inv] by (simp add: calls)
  next
    fix i assume "effective i s' \<noteq> []"
    then show "get_idem_record (sm_world s') i \<noteq> None" using inv_effective(1) [OF inv] by (simp add: calls)
  next
    fix i t q' key' ph assume "effective i s' \<noteq> []" "sm_calls s' t = Some (q', key', ph)" "record_id_of sha q' key' = i"
    then show "\<exists>res. ph = Executed res \<and> \<not> http_refusal res"
      using inv_effective(2) [OF inv] fresh by (cases "t = token") (auto simp: calls)
  qed
next
  case (executes s token q key res)
  let ?i = "record_id_of sha q key"
  note inv = executes(4) [unfolded executes(1)]
  have zero: "effective ?i s = []" using inv_effective(2) [OF inv _ executes(3)] by blast
  have calls: "sm_calls s' t = (if t = token then Some (q, key, Executed res) else sm_calls s t)" "sm_world s' = sm_world s"
    "effective i s' = effective i s @ (if i = ?i \<and> \<not> http_refusal res then [(?i, res)] else [])" for t i
    by (simp_all add: executes(2) effective_def)
  show ?case
  proof (rule idem_invI)
    fix t q' key' ph assume call: "sm_calls s' t = Some (q', key', ph)"
    show "\<exists>x. get_idem_record (sm_world s') (record_id_of sha q' key') = Some x \<and> im_state x = IDEM_IN_PROGRESS \<and> im_owner_token x = t"
      using call inv_call [OF inv executes(3)] inv_call [OF inv, of t q' key' ph] by (cases "t = token") (auto simp: calls)
  next
    fix i show "length (effective i s') \<le> 1" using inv_once [OF inv, of i] zero by (cases "i = ?i") (simp_all add: calls)
  next
    fix i assume "effective i s' \<noteq> []"
    then show "get_idem_record (sm_world s') i \<noteq> None"
      using inv_effective(1) [OF inv, of i] inv_call [OF inv executes(3)] by (cases "i = ?i") (auto simp: calls)
  next
    fix i t q' key' ph assume eff: "effective i s' \<noteq> []" and call: "sm_calls s' t = Some (q', key', ph)" and i: "record_id_of sha q' key' = i"
    show "\<exists>res. ph = Executed res \<and> \<not> http_refusal res"
    proof (cases "t = token")
      case True
      then show ?thesis using eff call i zero by (auto simp: calls split: if_splits)
    next
      case False
      then have c: "sm_calls s t = Some (q', key', ph)" using call by (simp add: calls)
      have "i \<noteq> ?i" using inv_alone [OF inv executes(3) c] False i by blast
      then show ?thesis using inv_effective(2) [OF inv _ c i] eff by (simp add: calls)
    qed
  qed
next
  case (settles s token q key res now)
  let ?i = "record_id_of sha q key"
  note inv = settles(4) [unfolded settles(1)]
  have calls: "sm_calls s' t = (if t = token then None else sm_calls s t)" "effective i s' = effective i s"
    "sm_world s' = snd (settle_execution sha q key token now res (sm_world s))" for t i
    by (simp_all add: settles(2) effective_def)
  have stored: "get_idem_record (sm_world s) ?i \<noteq> None" using inv_call [OF inv settles(3)] by auto
  show ?case
  proof (rule idem_invI)
    fix t q' key' ph assume call: "sm_calls s' t = Some (q', key', ph)"
    then have t: "t \<noteq> token" and c: "sm_calls s t = Some (q', key', ph)" by (auto simp: calls split: if_splits)
    have "record_id_of sha q' key' \<noteq> ?i" using inv_alone [OF inv settles(3) c] t by blast
    then show "\<exists>x. get_idem_record (sm_world s') (record_id_of sha q' key') = Some x \<and> im_state x = IDEM_IN_PROGRESS \<and> im_owner_token x = t"
      using inv_call [OF inv c] by (simp add: calls settle_others)
  next
    fix i show "length (effective i s') \<le> 1" using inv_once [OF inv] by (simp add: calls)
  next
    fix i assume eff: "effective i s' \<noteq> []"
    then have eff: "effective i s \<noteq> []" by (simp add: calls)
    show "get_idem_record (sm_world s') i \<noteq> None"
    proof (cases "i = ?i")
      case True
      then have "\<not> http_refusal res" using inv_effective(2) [OF inv eff settles(3)] by blast
      then show ?thesis unfolding calls True by (rule settle_keeps [OF _ stored])
    next
      case False
      then show ?thesis unfolding calls settle_others [OF False] by (intro inv_effective(1) [OF inv eff])
    qed
  next
    fix i t q' key' ph assume "effective i s' \<noteq> []" "sm_calls s' t = Some (q', key', ph)" "record_id_of sha q' key' = i"
    then show "\<exists>res. ph = Executed res \<and> \<not> http_refusal res" using inv_effective(2) [OF inv, of i t q' key' ph] by (simp add: calls split: if_splits)
  qed
next
  case (crashes s token)
  note inv = crashes(3) [unfolded crashes(1)]
  have calls: "sm_calls s' t = (if t = token then None else sm_calls s t)" "effective i s' = effective i s" "sm_world s' = sm_world s" for t i
    by (simp_all add: crashes(2) effective_def)
  show ?case
  proof (rule idem_invI)
    fix t q key ph assume "sm_calls s' t = Some (q, key, ph)"
    then have "sm_calls s t = Some (q, key, ph)" by (simp add: calls split: if_splits)
    then show "\<exists>x. get_idem_record (sm_world s') (record_id_of sha q key) = Some x \<and> im_state x = IDEM_IN_PROGRESS \<and> im_owner_token x = t"
      unfolding calls by (rule inv_call [OF inv])
  next
    fix i show "length (effective i s') \<le> 1" using inv_once [OF inv] by (simp add: calls)
  next
    fix i assume "effective i s' \<noteq> []"
    then show "get_idem_record (sm_world s') i \<noteq> None" unfolding calls by (rule inv_effective(1) [OF inv])
  next
    fix i t q key ph assume "effective i s' \<noteq> []" "sm_calls s' t = Some (q, key, ph)" "record_id_of sha q key = i"
    then show "\<exists>res. ph = Executed res \<and> \<not> http_refusal res" using inv_effective(2) [OF inv, of i t q key ph] by (simp add: calls split: if_splits)
  qed
next
  case (forgets s ids)
  note inv = forgets(4) [unfolded forgets(1)]
  have calls: "sm_calls s' = sm_calls s" "effective i s' = (if i \<in> set ids then [] else effective i s)"
    "sm_world s' = snd (delete_idem_records ids (sm_world s))" for i
    by (auto simp: forgets(2) effective_def case_prod_beta intro!: filter_cong)
  show ?case
  proof (rule idem_invI)
    fix t q key ph assume c: "sm_calls s' t = Some (q, key, ph)"
    then show "\<exists>x. get_idem_record (sm_world s') (record_id_of sha q key) = Some x \<and> im_state x = IDEM_IN_PROGRESS \<and> im_owner_token x = t"
      using forgets(3) inv_call [OF inv] by (simp add: calls)
  qed (use inv_once [OF inv] inv_effective [OF inv] in \<open>auto simp: calls split: if_splits\<close>)
qed

lemma idem_steps_inv: "(idem_step sha)\<^sup>*\<^sup>* s s' \<Longrightarrow> idem_inv sha s \<Longrightarrow> idem_inv sha s'"
  by (induction rule: rtranclp_induct) (auto intro: idem_step_inv)

definition idle_system :: idem_system where
  "idle_system = \<lparr>sm_world = \<lparr>iw_records = []\<rparr>, sm_calls = Map.empty, sm_log = []\<rparr>"

lemma idle_inv: "idem_inv sha idle_system"
  by (simp add: idem_inv_def idle_system_def effective_def)

text \<open>
  C40. However calls interleave and crash, a key executes at most once while its record is retained: two calls that both hold a
  reservation for one key are the same call, and of the executions under a key since retention last deleted its record at most
  one ends in anything but an HTTP refusal. Retention and erasure are assumed to spare the reservations of running calls.
\<close>

theorem one_execution_per_key:
  assumes "(idem_step sha)\<^sup>*\<^sup>* idle_system s"
  shows "length (filter (\<lambda>(i, res). i = record_id_of sha q key \<and> \<not> http_refusal res) (sm_log s)) \<le> 1
     \<and> (\<forall>t t' q' key' ph ph'. sm_calls s t = Some (q, key, ph) \<longrightarrow> sm_calls s t' = Some (q', key', ph') \<longrightarrow> record_id_of sha q' key' = record_id_of sha q key \<longrightarrow> t = t')"
proof -
  have inv: "idem_inv sha s" by (rule idem_steps_inv [OF assms idle_inv])
  have "length (filter (\<lambda>(i, res). i = record_id_of sha q key \<and> \<not> http_refusal res) (sm_log s)) \<le> 1" using inv_once [OF inv] by (simp add: effective_def)
  moreover have "t = t'" if "sm_calls s t = Some (q, key, ph)" "sm_calls s t' = Some (q', key', ph')" "record_id_of sha q' key' = record_id_of sha q key" for t t' q' key' ph ph'
    using inv_alone [OF inv that] by simp
  ultimately show ?thesis by blast
qed

section \<open>Replays\<close>

lemma descriptor_round_trip: "length (dr_request_fingerprint d) = 64 \<Longrightarrow> dump_descriptor d = JObject m \<Longrightarrow> validate_descriptor m = Inr d"
  by (cases "dr_status d") (auto simp: dump_descriptor_def validate_descriptor_def text_at_def make_descriptor_def)

lemma response_round_trip:
  assumes "''idempotency'' \<notin> fst ` set (en_body x)" and "en_idempotency x = Some d" and "length (dr_request_fingerprint d) = 64"
  shows "validate_execution_response (dump_execution_response x) = Inr x"
proof -
  have "dict_get (en_body x) ''idempotency'' = None" using assms(1) by (simp add: map_of_eq_None_iff)
  then have got: "dict_get (dump_execution_response x) ''idempotency'' = Some (dump_descriptor d)"
    by (simp add: dump_execution_response_def assms(2) map_add_def)
  have body: "filter (\<lambda>(k, v). k \<noteq> ''idempotency'') (dump_execution_response x) = en_body x"
    using assms(1) by (force simp: dump_execution_response_def filter_id_conv)
  obtain m where m: "dump_descriptor d = JObject m" by (simp add: dump_descriptor_def)
  show ?thesis unfolding validate_execution_response_def Let_def got body m
    using descriptor_round_trip [OF assms(3) m] assms(2) by simp
qed

lemma settle_failure_raises: "settle_failure i token n e v \<noteq> (Inr x, v')"
  by (auto simp: settle_failure_def split: error.splits sum.splits prod.splits)

text \<open>What a first call leaves behind.\<close>

lemma first_call_retained:
  assumes "execute_workflow_pack_idempotently sha execute token now q w = (Inr x, w')"
    and key: "normalize_idempotency_key (ex_idempotency_key q) = Inr (Some key)" "get_idem_record w (record_id_of sha q key) = None"
    and store: "\<And>v. iw_records (snd (execute q v)) = iw_records v"
  obtains r d where "get_idem_record w' (record_id_of sha q key) = Some r" "im_record_id r = record_id_of sha q key" "im_state r = IDEM_COMPLETED"
    "im_request_fingerprint r = fingerprint_workflow_pack_execution_request sha q" "im_response_payload r = Some (dump_execution_response x)"
    "im_response_checksum r = Some (checksum_response_payload sha (dump_execution_response x))" "en_idempotency x = Some d"
    "dr_request_fingerprint d = fingerprint_workflow_pack_execution_request sha q" "length (dr_request_fingerprint d) = 64"
    "\<exists>v y v'. execute q v = (Inr y, v') \<and> en_body x = en_body y"
proof -
  let ?i = "record_id_of sha q key" let ?f = "fingerprint_workflow_pack_execution_request sha q"
  let ?p = "proposed_record sha q key token (now 0)" let ?w1 = "put_idem_record ?p w"
  have pid: "im_record_id ?p = ?i" by (simp add: proposed_record_def)
  have "reserve ?p w = (Inr \<lparr>ir_record = ?p, ir_acquired = True\<rparr>, ?w1)" by (simp add: reserve_def pid key(2))
  then have settled: "settle_execution sha q key token (now 1) (fst (execute q ?w1)) (snd (execute q ?w1)) = (Inr x, w')"
    using assms(1) by (simp add: execute_workflow_pack_idempotently_def key(1) case_prod_beta Let_def)
  let ?w2 = "snd (execute q ?w1)"
  have got: "get_idem_record ?w2 ?i = Some ?p" using store [of ?w1] by (simp add: get_idem_record_def put_idem_record_def pid)
  have owned: "require_owned_in_progress ?i token ?w2 = Inr ?p" unfolding owned_iff by (simp add: got) (simp add: proposed_record_def)
  obtain y where y: "fst (execute q ?w1) = Inr y"
    using settled settle_failure_raises by (cases "fst (execute q ?w1)") (auto simp: settle_execution_def Let_def settle_failure_raises)
  obtain z where z: "with_idempotency_status y IDEM_CREATED ?i ?f = Inr z"
    using settled settle_failure_raises y by (cases "with_idempotency_status y IDEM_CREATED ?i ?f") (auto simp: settle_execution_def Let_def settle_failure_raises)
  have len: "length ?f = 64" and zd: "z = y\<lparr>en_idempotency := Some \<lparr>dr_status = IDEM_CREATED, dr_record_id = ?i, dr_request_fingerprint = ?f\<rparr>\<rparr>"
    using z by (auto simp: with_idempotency_status_def make_descriptor_def split: if_splits)
  let ?d = "dump_execution_response z"
  let ?r = "?p\<lparr>im_state := IDEM_COMPLETED, im_response_payload := Some ?d, im_response_checksum := Some (checksum_response_payload sha ?d),
      im_failure_code := None, im_updated_at := now 1\<rparr>"
  have "x = z" and "get_idem_record w' ?i = Some ?r"
    using settled by (auto simp: settle_execution_def Let_def y z complete_reservation_def owned get_idem_record_def)
  moreover have "execute q ?w1 = (Inr y, ?w2)" by (simp add: y prod_eq_iff)
  ultimately show thesis
    using len by (intro that [of ?r "\<lparr>dr_status = IDEM_CREATED, dr_record_id = ?i, dr_request_fingerprint = ?f\<rparr>"]) (auto simp: zd pid proposed_record_def)
qed

text \<open>
  A second call under the key of a finished execution never executes again: with the same input it returns the first response, marked
  as replayed, and with other input it is refused as a conflict; the store does not change.
\<close>

theorem finished_key_never_executes_again:
  assumes "execute_workflow_pack_idempotently sha execute token now q w = (Inr x, w')"
    and "normalize_idempotency_key (ex_idempotency_key q) = Inr (Some key)" and "get_idem_record w (record_id_of sha q key) = None"
    and "\<And>v. iw_records (snd (execute q v)) = iw_records v" and "\<And>v y v'. execute q v = (Inr y, v') \<Longrightarrow> ''idempotency'' \<notin> fst ` set (en_body y)"
    and "normalize_idempotency_key (ex_idempotency_key q') = Inr (Some key')" and "record_id_of sha q' key' = record_id_of sha q key"
  shows "execute_workflow_pack_idempotently sha execute' token' now' q' w' =
     (if fingerprint_workflow_pack_execution_request sha q' = fingerprint_workflow_pack_execution_request sha q
      then Inr (x\<lparr>en_idempotency := map_option (\<lambda>d. d\<lparr>dr_status := IDEM_REPLAYED, dr_record_id := record_id_of sha q key\<rparr>) (en_idempotency x)\<rparr>)
      else Inl (HTTPException 409 ''workflow_pack_execution_idempotency_conflict''), w')"
proof -
  obtain r d where r: "get_idem_record w' (record_id_of sha q key) = Some r" "im_record_id r = record_id_of sha q key" "im_state r = IDEM_COMPLETED"
      "im_request_fingerprint r = fingerprint_workflow_pack_execution_request sha q" "im_response_payload r = Some (dump_execution_response x)"
      "im_response_checksum r = Some (checksum_response_payload sha (dump_execution_response x))"
    and d: "en_idempotency x = Some d" "dr_request_fingerprint d = fingerprint_workflow_pack_execution_request sha q" "length (dr_request_fingerprint d) = 64"
    and body: "\<exists>v y v'. execute q v = (Inr y, v') \<and> en_body x = en_body y"
    by (rule first_call_retained [OF assms(1-4)])
  have "''idempotency'' \<notin> fst ` set (en_body x)" using body assms(5) by metis
  then have "validate_execution_response (dump_execution_response x) = Inr x" using d by (intro response_round_trip)
  then have "resolve_existing_reservation sha r = Inr (x\<lparr>en_idempotency := Some (d\<lparr>dr_status := IDEM_REPLAYED, dr_record_id := record_id_of sha q key\<rparr>)\<rparr>)"
    using d by (simp add: resolve_existing_reservation_def r with_idempotency_status_def make_descriptor_def)
  then show ?thesis
    by (simp add: execute_workflow_pack_idempotently_def assms(6,7) reserve_def proposed_record_def r(1,4) d(1) idem_http_conflict_def)
qed

section \<open>A concrete call\<close>

definition constant_digest :: "string \<Rightarrow> string" where
  "constant_digest s = replicate 64 CHR ''d''"

definition keyed_request :: pack_execution_request where
  "keyed_request = \<lparr>ex_pack_id = ''advisor_brief.pack'', ex_version = ''v1'', ex_environment = ENV_LOCAL, ex_caller_identity_class = INTERNAL_SERVICE,
     ex_workflow_surface = None, ex_queue_lane = None, ex_idempotency_key = Some '' k '',
     ex_task_request = \<lparr>tk_task_id = ''t'', tk_input_mode = STRUCTURED_CONTEXT,
       tk_caller = \<lparr>cd_caller_app = ''lotus-gateway'', cd_correlation_id = ''c'', cd_requested_by = None, cd_tenant_id = None\<rparr>,
       tk_context = \<lparr>tx_summary = ''s'', tx_payload = [], tx_source_refs = []\<rparr>, tk_requirements = None, tk_expected_output_label = None\<rparr>\<rparr>"

definition answered :: "pack_execution_request \<Rightarrow> idem_world \<Rightarrow> execution_response result \<times> idem_world" where
  "answered q w = (Inr \<lparr>en_body = [(''service'', JString ''lotus-ai'')], en_idempotency = None\<rparr>, w)"

lemma keyed_request_key: "normalize_idempotency_key (ex_idempotency_key keyed_request) = Inr (Some ''k'')"
  by (simp add: keyed_request_def normalize_idempotency_key_def py_strip_def is_space_def)

lemma keyed_request_reserves:
  "reserve (proposed_record sha keyed_request ''k'' token now) \<lparr>iw_records = []\<rparr>
     = (Inr \<lparr>ir_record = proposed_record sha keyed_request ''k'' token now, ir_acquired = True\<rparr>, put_idem_record (proposed_record sha keyed_request ''k'' token now) \<lparr>iw_records = []\<rparr>)"
  by (simp add: reserve_def get_idem_record_def)

theorem one_execution_per_key_witness:
  "\<exists>s. (idem_step constant_digest)\<^sup>*\<^sup>* idle_system s \<and> sm_log s \<noteq> []
     \<and> length (filter (\<lambda>(i, res). i = record_id_of constant_digest keyed_request ''k'' \<and> \<not> http_refusal res) (sm_log s)) \<le> 1"
proof -
  let ?w = "put_idem_record (proposed_record constant_digest keyed_request ''k'' ''t1'' ''now'') \<lparr>iw_records = []\<rparr>"
  let ?s1 = "idle_system\<lparr>sm_world := ?w, sm_calls := (sm_calls idle_system)(''t1'' \<mapsto> (keyed_request, ''k'', Reserved))\<rparr>"
  let ?s2 = "?s1\<lparr>sm_calls := (sm_calls ?s1)(''t1'' \<mapsto> (keyed_request, ''k'', Executed (Inl AssertionError))),
      sm_log := sm_log ?s1 @ [(record_id_of constant_digest keyed_request ''k'', Inl AssertionError)]\<rparr>"
  have "reserve (proposed_record constant_digest keyed_request ''k'' ''t1'' ''now'') (sm_world idle_system)
      = (Inr \<lparr>ir_record = proposed_record constant_digest keyed_request ''k'' ''t1'' ''now'', ir_acquired = True\<rparr>, ?w)"
    by (simp add: keyed_request_reserves idle_system_def)
  note reserved = this
  have "idem_step constant_digest idle_system ?s1" by (rule begins [OF _ keyed_request_key reserved]) (simp_all add: idle_system_def)
  moreover have "idem_step constant_digest ?s1 ?s2" by (rule executes) simp
  ultimately have steps: "(idem_step constant_digest)\<^sup>*\<^sup>* idle_system ?s2" by (rule converse_rtranclp_into_rtranclp [OF _ r_into_rtranclp])
  have "sm_log ?s2 \<noteq> []" by simp
  then show ?thesis using steps one_execution_per_key [OF steps, of keyed_request "''k''"] by blast
qed

lemma answered_first:
  "\<exists>x w'. execute_workflow_pack_idempotently constant_digest answered ''t1'' (\<lambda>_. ''now'') keyed_request \<lparr>iw_records = []\<rparr> = (Inr x, w')
     \<and> en_body x = [(''service'', JString ''lotus-ai'')]"
proof -
  let ?p = "proposed_record constant_digest keyed_request ''k'' ''t1'' ''now''"
  have "require_owned_in_progress (record_id_of constant_digest keyed_request ''k'') ''t1'' (put_idem_record ?p \<lparr>iw_records = []\<rparr>) = Inr ?p"
    unfolding owned_iff by (simp add: proposed_record_def)
  moreover have "length (fingerprint_workflow_pack_execution_request constant_digest keyed_request) = 64"
    by (simp add: fingerprint_workflow_pack_execution_request_def constant_digest_def)
  ultimately show ?thesis
    by (simp add: execute_workflow_pack_idempotently_def keyed_request_key keyed_request_reserves answered_def settle_execution_def Let_def
        with_idempotency_status_def make_descriptor_def complete_reservation_def)
qed

theorem finished_key_never_executes_again_witness:
  "\<exists>x w'. execute_workflow_pack_idempotently constant_digest answered ''t1'' (\<lambda>_. ''now'') keyed_request \<lparr>iw_records = []\<rparr> = (Inr x, w')
     \<and> (\<exists>y. execute_workflow_pack_idempotently constant_digest (\<lambda>_ w. (Inl AssertionError, w)) ''t2'' (\<lambda>_. ''later'') keyed_request w' = (Inr y, w') \<and> en_body y = en_body x)"
proof -
  obtain x w' where first: "execute_workflow_pack_idempotently constant_digest answered ''t1'' (\<lambda>_. ''now'') keyed_request \<lparr>iw_records = []\<rparr> = (Inr x, w')"
    using answered_first by blast
  have "get_idem_record \<lparr>iw_records = []\<rparr> (record_id_of constant_digest keyed_request ''k'') = None" by (simp add: get_idem_record_def)
  from finished_key_never_executes_again [OF first keyed_request_key this _ _ keyed_request_key refl, of "\<lambda>_ w. (Inl AssertionError, w)" "''t2''" "\<lambda>_. ''later''"]
  show ?thesis using first by (auto simp: answered_def)
qed

end
