(* ===== verification/Pack_Execution.thy ===== *)
theory Pack_Execution
  imports Pack_Review Pack_Guardrails Pack_Idempotency
begin

text \<open>
  The execution of a workflow pack, \<^verbatim>\<open>services/workflow_pack_execution.py\<close>: binding, registration, eligibility, payload checks, stores,
  admission, task execution, and the recording of the run and of its task flow, in the order of the code. The task pipeline
  (\<^verbatim>\<open>services/task_execution_pipeline.py\<close>) is four arguments of the model: validation of the task request, resolution of the task into a
  response, the response of a failed resolution, and the save of the audit record; each may answer differently at every reading.
\<close>

section \<open>The execution\<close>

record exec_env = pack_env +
  xe_validate_task :: "nat \<Rightarrow> task_request \<Rightarrow> task_execution_context result"
  xe_resolve_task :: "nat \<Rightarrow> task_execution_context \<Rightarrow> string \<Rightarrow> task_response result"
  xe_failed_response :: "nat \<Rightarrow> task_execution_context \<Rightarrow> error \<Rightarrow> task_response"
  xe_persist_audit :: "nat \<Rightarrow> task_execution_context \<Rightarrow> task_response \<Rightarrow> unit result"

definition on_reading :: "(nat \<Rightarrow> 'a) \<Rightarrow> 'w queue_world_scheme \<Rightarrow> 'a \<times> 'w queue_world_scheme" where
  "on_reading f w = (f (qw_readings w), read_on w)"

definition validate_workflow_pack_execution_binding :: "pack_execution_request \<Rightarrow> execution_binding \<Rightarrow> unit result" where
  "validate_workflow_pack_execution_binding q b =
     (let p = tx_payload (tk_context (ex_task_request q)) in
      if tk_task_id (ex_task_request q) \<noteq> bd_task_id b then Inl (HTTPException 409 ''task_not_bound'')
      else if \<not> validate_task_request_payload b (map fst p) then Inl (HTTPException 422 ''payload_sections_missing'')
      else validate_pack_guardrails (ex_pack_id q) (ex_version q) p)"

definition surface_of :: "pack_execution_request \<Rightarrow> execution_binding \<Rightarrow> string" where
  "surface_of q b = (case ex_workflow_surface q of None \<Rightarrow> bd_default_workflow_surface b | Some s \<Rightarrow> if s = [] then bd_default_workflow_surface b else s)"

definition eligibility_request_of :: "pack_execution_request \<Rightarrow> string \<Rightarrow> eligibility_request" where
  "eligibility_request_of q surface =
     \<lparr>eq_pack_id = ex_pack_id q, eq_version = ex_version q, eq_caller_app = cd_caller_app (tk_caller (ex_task_request q)), eq_environment = ex_environment q,
      eq_caller_identity_class = ex_caller_identity_class q, eq_tenant_id = cd_tenant_id (tk_caller (ex_task_request q)), eq_workflow_surface = Some surface\<rparr>"

definition admission_request_of :: "pack_execution_request \<Rightarrow> string \<Rightarrow> admission_request" where
  "admission_request_of q surface =
     \<lparr>aq_requested_lane = ex_queue_lane q, aq_caller_app = Some (cd_caller_app (tk_caller (ex_task_request q))),
      aq_correlation_id = Some (cd_correlation_id (tk_caller (ex_task_request q))), aq_tenant = cd_tenant_id (tk_caller (ex_task_request q)),
      aq_workflow_surface = Some surface, aq_task_request = Some (ex_task_request q), aq_environment = Some (ex_environment q),
      aq_identity_class = Some (ex_caller_identity_class q)\<rparr>"

text \<open>An HTTP error of the resolution becomes a failed response; every other error leaves.\<close>

definition task_response_of :: "'e exec_env_scheme \<Rightarrow> task_execution_context \<Rightarrow> string \<Rightarrow> 'w queue_world_scheme \<Rightarrow> task_response result \<times> 'w queue_world_scheme" where
  "task_response_of e c pack w =
     (case on_reading (\<lambda>n. xe_resolve_task e n c pack) w of
        (Inr t, w1) \<Rightarrow> (Inr t, w1)
      | (Inl (HTTPException code d), w1) \<Rightarrow> (let (t, w2) = on_reading (\<lambda>n. xe_failed_response e n c (HTTPException code d)) w1 in (Inr t, w2))
      | (Inl err, w1) \<Rightarrow> (Inl err, w1))"

definition execution_body ::
  "'e exec_env_scheme \<Rightarrow> task_execution_context \<Rightarrow> pack_registration \<Rightarrow> string \<Rightarrow> recovery_lineage option \<Rightarrow> 'w pack_world_scheme
     \<Rightarrow> (task_response \<times> run_record) result \<times> 'w pack_world_scheme" where
  "execution_body e c g surface lineage w =
     then_do (task_response_of e c (rg_pack_id g) w) (\<lambda>t w1.
     then_do (on_reading (\<lambda>n. xe_persist_audit e n c t) w1) (\<lambda>_ w2.
     then_do (record_registered_workflow_pack_run e c t g (Some surface) lineage w2) (\<lambda>r w3.
     then_do (record_task_flow_for_workflow_pack_run e c g (Some surface) r w3) (\<lambda>_ w4. (Inr (t, r), w4)))))"

record execution_result =
  xr_execution :: task_response
  xr_run :: run_record

definition attach_workflow_pack_run_id :: "task_response \<Rightarrow> run_record \<Rightarrow> task_response" where
  "attach_workflow_pack_run_id t r = t\<lparr>tr_workflow_pack_run_id := Some (rr_run_id r)\<rparr>"

definition resolve_registration :: "'e exec_env_scheme \<Rightarrow> pack_execution_request \<Rightarrow> 'w pack_world_scheme \<Rightarrow> (execution_binding \<times> pack_registration) result" where
  "resolve_registration e q w =
     (case get_workflow_pack_execution_binding (ex_pack_id q) (ex_version q) of
        None \<Rightarrow> Inl (HTTPException 409 ''execution_not_implemented'')
      | Some b \<Rightarrow>
        (case get_resolved_workflow_pack_execution_binding e (ex_pack_id q) (ex_version q) w of
           Inl err \<Rightarrow> Inl err
         | Inr None \<Rightarrow> Inl (HTTPException 404 ''unknown_registration'')
         | Inr (Some rb) \<Rightarrow> Inr (b, rb_registration rb)))"

definition require_eligible :: "'e exec_env_scheme \<Rightarrow> pack_execution_request \<Rightarrow> string \<Rightarrow> 'w pack_world_scheme \<Rightarrow> unit result" where
  "require_eligible e q surface w =
     (case evaluate_workflow_pack_eligibility e (eligibility_request_of q surface) w of
        Inl err \<Rightarrow> Inl err
      | Inr x \<Rightarrow> if x = ELIGIBLE then Inr () else Inl (HTTPException 403 ''not_eligible''))"

definition execute_workflow_pack ::
  "'e exec_env_scheme \<Rightarrow> pack_execution_request \<Rightarrow> recovery_lineage option \<Rightarrow> 'w pack_world_scheme \<Rightarrow> execution_result result \<times> 'w pack_world_scheme" where
  "execute_workflow_pack e q lineage w =
     then_do (lift_result (resolve_registration e q w) w) (\<lambda>(b, g) w0.
     let surface = surface_of q b in
     then_do (lift_result (require_eligible e q surface w0) w0) (\<lambda>_ w1.
     then_do (lift_result (validate_workflow_pack_execution_binding q b) w1) (\<lambda>_ w2.
     then_do (on_reading (\<lambda>n. xe_validate_task e n (ex_task_request q)) w2) (\<lambda>c w3.
     then_do (ensure_workflow_pack_run_store_ready e w3) (\<lambda>_ w4.
     then_do (ensure_workflow_pack_task_flow_store_ready e w4) (\<lambda>_ w5.
     then_do (workflow_pack_queue_admission e g (admission_request_of q surface) (\<lambda>_. execution_body e c g surface lineage) w5) (\<lambda>(t, r) w6.
       (Inr \<lparr>xr_execution = attach_workflow_pack_run_id t r, xr_run = r\<rparr>, w6))))))))"

section \<open>What an admission leaves alone\<close>

text \<open>An admission and its release write the queue and the artifact store; the extension of the queue's world, where the runs and the
  task flows are, is theirs to keep.\<close>

abbreviation beyond :: "'w queue_world_scheme \<Rightarrow> 'w" where
  "beyond \<equiv> queue_world.more"

named_theorems beyond_simps

lemma beyond_read_on [simp, beyond_simps]: "beyond (read_on w) = beyond w"
  by (simp add: read_on_def)

lemma beyond_record_event [simp, beyond_simps]: "beyond (snd (record_workflow_pack_queue_event e q w)) = beyond w"
  by (simp add: record_workflow_pack_queue_event_def save_queue_event_def Let_def)

lemma beyond_reject [simp, beyond_simps]:
  "beyond (snd (reject_admission e ev err w)) = beyond w" "beyond (snd (raise_capacity_rejection e item p lane q refs code w)) = beyond w"
  by (simp_all add: reject_admission_def raise_capacity_rejection_def snd_then_do split: sum.splits)

lemma beyond_then_do:
  assumes "beyond (snd p) = v" and "\<And>a. fst p = Inr a \<Longrightarrow> beyond (snd (f a (snd p))) = beyond (snd p)"
  shows "beyond (snd (then_do p f)) = v"
  using assms by (auto simp: snd_then_do split: sum.splits)

lemma beyond_reclaimed_events [simp, beyond_simps]: "beyond (snd (record_reclaimed_lease_events e ls w)) = beyond w"
  by (induction ls arbitrary: w) (simp_all add: beyond_then_do)

lemma beyond_try_admit [simp, beyond_simps]: "beyond (snd (try_admit e l m n w)) = beyond w"
  unfolding try_admit_def by (rule beyond_then_do) (simp_all add: reclaim_expired_leases_def Let_def split: sum.splits)

lemma beyond_advance_item [simp, beyond_simps]: "beyond (snd (advance_item e item p lane q refs type from to w)) = beyond w"
  by (simp add: advance_item_def snd_then_do split: sum.splits)

lemma beyond_persist_snapshot [simp, beyond_simps]: "beyond (snd (persist_request_snapshot_artifact_refs e item r lane q w)) = beyond w"
  by (auto simp: persist_request_snapshot_artifact_refs_def persist_or_reuse_json_artifact_def persist_json_artifact_def
      stage_json_artifact_def put_object_def save_artifact_def Let_def split: option.splits)

lemma beyond_start_admitted [simp, beyond_simps]: "beyond (snd (start_admitted_item e item p lane q refs running w)) = beyond w"
  by (simp add: start_admitted_item_def Let_def snd_then_do split: sum.splits)

lemma beyond_admit_requested [simp, beyond_simps]: "beyond (snd (admit_requested_item e item p lane q refs w)) = beyond w"
  by (simp add: admit_requested_item_def admit_within_capacity_def admit_queued_item_def snd_then_do split: sum.splits)

lemma beyond_acquire [simp, beyond_simps]: "beyond (snd (acquire_workflow_pack_queue_admission e r q w)) = beyond w"
  by (simp add: acquire_workflow_pack_queue_admission_def Let_def case_prod_unfold split: option.splits sum.splits)

lemma beyond_release [simp, beyond_simps]: "beyond (snd (release_workflow_pack_queue_admission e item now w)) = beyond w"
  by (simp add: release_workflow_pack_queue_admission_def finish_close_def claim_close_def delete_admission_lease_def record_close_def snd_then_do
      split: sum.splits option.splits bool.splits prod.splits)

text \<open>Two worlds that agree beyond the queue have the same ledger of runs and the same task flows.\<close>

lemma same_beyond:
  assumes "beyond w' = beyond (w :: 'w pack_world_scheme)"
  shows "pw_runs w' = pw_runs w" "pw_run_events w' = pw_run_events w" "pw_flows w' = pw_flows w" "pw_checkpoints w' = pw_checkpoints w"
  using assms by (cases w, cases w', simp)+

section \<open>Which errors leave the execution\<close>

definition raises_http :: "'a result \<Rightarrow> bool" where
  "raises_http r \<longleftrightarrow> (\<exists>code d. r = Inl (HTTPException code d))"

lemma raises_http_simps [simp]: "\<not> raises_http (Inr a)" "raises_http (Inl (HTTPException code d))"
  by (simp_all add: raises_http_def)

lemma raises_http_then_do: "raises_http (fst (then_do p f)) \<longleftrightarrow> raises_http (fst p) \<or> (\<exists>a. fst p = Inr a \<and> raises_http (fst (f a (snd p))))"
  by (cases "fst p") (auto simp: fst_then_do raises_http_def)

lemma record_event_not_http [simp]: "\<not> raises_http (fst (record_workflow_pack_queue_event e q w))"
  by (simp add: record_workflow_pack_queue_event_def raises_http_def event_store_not_ready_def Let_def)

lemma decide_release_not_http: "\<not> raises_http (decide_release e item now w)"
  by (auto simp: decide_release_def raises_http_def release_terminal_state_def fromisoformat_def transition_queue_state_def
      get_policy_for_lease_def split: option.splits sum.splits if_splits)

lemma release_not_http [simp]: "\<not> raises_http (fst (release_workflow_pack_queue_admission e item now w))"
proof -
  have "\<not> raises_http (fst (finish_close e (decide_release e item now w) x))" for x
    using decide_release_not_http [of e item now w]
    by (auto simp: finish_close_def record_close_def raises_http_then_do raises_http_def [of "Inl _"] split: sum.splits option.splits prod.splits bool.splits)
  then show ?thesis by (simp add: release_workflow_pack_queue_admission_def raises_http_then_do)
qed

lemma checkpoint_not_http [simp]: "\<not> raises_http (fst (record_task_flow_checkpoint e i c s st t w))"
  by (auto simp: record_task_flow_checkpoint_def ensure_workflow_pack_task_flow_store_ready_def flow_store_not_ready_def raises_http_then_do
      raises_http_def require_task_flow_transition_allowed_def append_checkpoint_to_task_flow_def valid_flow_def
      split: option.splits if_splits sum.splits)

lemma record_flow_not_http: "\<not> raises_http (fst (record_task_flow_for_workflow_pack_run e c g surface r w))"
  by (auto simp: record_task_flow_for_workflow_pack_run_def create_task_flow_def Let_def raises_http_then_do
      ensure_workflow_pack_task_flow_store_ready_def flow_store_not_ready_def raises_http_def [of "Inl _"])

lemma record_run_not_http: "\<not> raises_http (fst (record_registered_workflow_pack_run e c t g surface lineage w))"
  by (auto simp: record_registered_workflow_pack_run_def ensure_workflow_pack_run_store_ready_def run_store_unavailable_def raises_http_def Let_def
      split: prod.splits)

lemma task_response_not_http: "\<not> raises_http (fst (task_response_of e c pack w))"
  by (auto simp: task_response_of_def on_reading_def raises_http_def Let_def split: sum.splits error.splits)

lemma body_not_http:
  assumes "\<And>n c t. \<not> raises_http (xe_persist_audit e n c t)"
  shows "\<not> raises_http (fst (execution_body e c g surface lineage w))"
  using assms by (auto simp: execution_body_def raises_http_then_do task_response_not_http record_run_not_http record_flow_not_http on_reading_def)

lemma admission_http:
  assumes "raises_http (fst (workflow_pack_queue_admission e r q body w))" and "\<And>l x. \<not> raises_http (fst (body l x))"
  shows "beyond (snd (workflow_pack_queue_admission e r q body w)) = beyond w"
proof -
  let ?a = "acquire_workflow_pack_queue_admission e r q w"
  have "fst ?a \<noteq> Inr l" for l
  proof
    assume "fst ?a = Inr l"
    then have "raises_http (fst (case body l (snd ?a) of (res, w2) \<Rightarrow>
        then_do (release_workflow_pack_queue_admission e (ls_queue_item_id l) None w2) (\<lambda>_ w3. (res, w3))))"
      using assms(1) by (simp add: workflow_pack_queue_admission_def fst_then_do)
    then show False using assms(2) [of l "snd ?a"] by (auto simp: raises_http_then_do split: prod.splits)
  qed
  then show ?thesis by (cases "fst ?a") (auto simp: workflow_pack_queue_admission_def snd_then_do)
qed

section \<open>The prefix before the admission\<close>

text \<open>An execution that reaches the admission has resolved, found eligible and validated the request, in worlds that differ only in readings.\<close>

lemma ensure_stores_beyond [simp]:
  "beyond (snd (ensure_workflow_pack_run_store_ready e w)) = beyond w" "beyond (snd (ensure_workflow_pack_task_flow_store_ready e w)) = beyond w"
  by (simp_all add: ensure_workflow_pack_run_store_ready_def ensure_workflow_pack_task_flow_store_ready_def)

definition admitted_execution ::
  "'e exec_env_scheme \<Rightarrow> pack_execution_request \<Rightarrow> recovery_lineage option \<Rightarrow> execution_binding \<Rightarrow> pack_registration \<Rightarrow> task_execution_context \<Rightarrow> 'w pack_world_scheme
     \<Rightarrow> (task_response \<times> run_record) result \<times> 'w pack_world_scheme" where
  "admitted_execution e q lineage b g c w =
     workflow_pack_queue_admission e g (admission_request_of q (surface_of q b)) (\<lambda>_. execution_body e c g (surface_of q b) lineage) w"

lemma execute_prefix:
  "beyond (snd (execute_workflow_pack e q lineage w)) = beyond w \<and> (\<exists>err. fst (execute_workflow_pack e q lineage w) = Inl err)
   \<or> (\<exists>b g c w5. resolve_registration e q w = Inr (b, g) \<and> require_eligible e q (surface_of q b) w = Inr ()
        \<and> validate_workflow_pack_execution_binding q b = Inr () \<and> beyond w5 = beyond w
        \<and> execute_workflow_pack e q lineage w = then_do (admitted_execution e q lineage b g c w5)
            (\<lambda>(t, r) w6. (Inr \<lparr>xr_execution = attach_workflow_pack_run_id t r, xr_run = r\<rparr>, w6)))"
  (is "?raised \<or> ?admitted")
proof (cases "resolve_registration e q w")
  case (Inl err)
  then show ?thesis by (simp add: execute_workflow_pack_def)
next
  case (Inr p)
  then obtain b g where p: "resolve_registration e q w = Inr (b, g)" by (cases p) simp
  show ?thesis
  proof (cases "require_eligible e q (surface_of q b) w = Inr () \<and> validate_workflow_pack_execution_binding q b = Inr ()")
    case False
    then show ?thesis using p by (auto simp: execute_workflow_pack_def Let_def split: sum.splits)
  next
    case True
    let ?v = "xe_validate_task e (qw_readings w) (ex_task_request q)" and ?s = "snd (ensure_workflow_pack_run_store_ready e (read_on w))"
    have run: "execute_workflow_pack e q lineage w =
       then_do (?v, read_on w) (\<lambda>c w3. then_do (ensure_workflow_pack_run_store_ready e w3) (\<lambda>_ w4.
       then_do (ensure_workflow_pack_task_flow_store_ready e w4) (\<lambda>_ w5. then_do (admitted_execution e q lineage b g c w5)
         (\<lambda>(t, r) w6. (Inr \<lparr>xr_execution = attach_workflow_pack_run_id t r, xr_run = r\<rparr>, w6)))))"
      using p True by (simp add: execute_workflow_pack_def on_reading_def admitted_execution_def Let_def)
    show ?thesis
    proof (cases "\<exists>c. ?v = Inr c \<and> pe_run_store_ready e (Suc (qw_readings w)) \<and> pe_flow_store_ready e (Suc (Suc (qw_readings w)))")
      case False
      then have ?raised unfolding run
        by (cases ?v) (auto simp: ensure_workflow_pack_run_store_ready_def ensure_workflow_pack_task_flow_store_ready_def read_on_def)
      then show ?thesis ..
    next
      case ready: True
      then obtain c where "?v = Inr c" by blast
      with ready have "execute_workflow_pack e q lineage w = then_do (admitted_execution e q lineage b g c (read_on (read_on (read_on w))))
         (\<lambda>(t, r) w6. (Inr \<lparr>xr_execution = attach_workflow_pack_run_id t r, xr_run = r\<rparr>, w6))"
        unfolding run by (simp add: ensure_workflow_pack_run_store_ready_def ensure_workflow_pack_task_flow_store_ready_def read_on_def)
      then have ?admitted using p True by (auto intro!: exI [of _ c] exI [of _ "read_on (read_on (read_on w))"])
      then show ?thesis ..
    qed
  qed
qed

lemma admitted_http:
  assumes "\<And>n c t. \<not> raises_http (xe_persist_audit e n c t)"
  shows "raises_http (fst (admitted_execution e q lineage b g c w)) \<Longrightarrow> beyond (snd (admitted_execution e q lineage b g c w)) = beyond w"
  unfolding admitted_execution_def by (erule admission_http) (rule body_not_http [OF assms])

section \<open>What a completed body wrote\<close>

lemma recorded_run:
  assumes "record_registered_workflow_pack_run e c t g surface lineage w = (Inr r, w')"
  shows "get_pack_run w' (rr_run_id r) = Some r \<and> rr_runtime_state r = resolve_runtime_state t \<and> rr_request_id r = xc_request_id c
    \<and> rr_pack_id r = rg_pack_id g \<and> rr_pack_version r = rg_version g \<and> rr_recovery_action_type r = map_option rl_recovery_action_type lineage"
  using assms by (auto simp: record_registered_workflow_pack_run_def ensure_workflow_pack_run_store_ready_def Let_def run_record_of_def
      split: prod.splits if_splits)

lemma flows_read_on [simp]: "get_task_flow (read_on w) i = get_task_flow w i" "pw_runs (read_on w) = pw_runs w"
  by (simp_all add: get_task_flow_def read_on_def)

lemma runs_save_flow [simp]: "pw_runs (save_task_flow f w) = pw_runs w" "pw_runs (save_checkpoint c w) = pw_runs w"
  by (simp_all add: save_task_flow_def save_checkpoint_def)

lemma recorded_flow:
  assumes "record_task_flow_for_workflow_pack_run e c g surface r w = (Inr f, w')"
  shows "get_task_flow w' (build_workflow_pack_task_flow_id (ae_sha (qe_artifacts e)) (rg_pack_family g) (rr_request_id r)) = Some f
    \<and> tf_flow_status f = resolve_task_flow_status r \<and> tf_run_refs f = [rr_run_id r] \<and> pw_runs w' = pw_runs w"
  using assms
  by (auto simp: record_task_flow_for_workflow_pack_run_def create_task_flow_def ensure_workflow_pack_task_flow_store_ready_def
      record_task_flow_checkpoint_def Let_def append_checkpoint_to_task_flow_def build_initial_task_flow_def
      dest!: valid_flow_same split: if_splits sum.splits option.splits)

lemma body_records:
  assumes "execution_body e c g surface lineage w = (Inr (t, r), w')"
  shows "get_pack_run w' (rr_run_id r) = Some r \<and> rr_runtime_state r = resolve_runtime_state t \<and> rr_pack_id r = rg_pack_id g \<and> rr_pack_version r = rg_version g
    \<and> rr_recovery_action_type r = map_option rl_recovery_action_type lineage
    \<and> (\<exists>f. get_task_flow w' (build_workflow_pack_task_flow_id (ae_sha (qe_artifacts e)) (rg_pack_family g) (rr_request_id r)) = Some f
         \<and> tf_flow_status f = resolve_task_flow_status r \<and> tf_run_refs f = [rr_run_id r])"
proof -
  obtain w2 w3 f where "record_registered_workflow_pack_run e c t g (Some surface) lineage w2 = (Inr r, w3)"
    and "record_task_flow_for_workflow_pack_run e c g (Some surface) r w3 = (Inr f, w')"
    using assms by (auto simp: execution_body_def dest!: then_do_Inr)
  then show ?thesis using recorded_run recorded_flow [of e c g "Some surface" r w3 f w'] by (fastforce simp: get_pack_run_def)
qed

lemma admitted_body:
  assumes "workflow_pack_queue_admission e r q body w = (Inr b, w')"
  shows "\<exists>l w1 w2. body l w1 = (Inr b, w2) \<and> beyond w' = beyond w2"
proof -
  obtain l w1 where "acquire_workflow_pack_queue_admission e r q w = (Inr l, w1)"
    and rest: "(case body l w1 of (res, w2) \<Rightarrow> then_do (release_workflow_pack_queue_admission e (ls_queue_item_id l) None w2) (\<lambda>_ w3. (res, w3))) = (Inr b, w')"
    using assms by (auto simp: workflow_pack_queue_admission_def Let_def dest!: then_do_Inr)
  from rest obtain w2 where "body l w1 = (Inr b, w2)" and "release_workflow_pack_queue_admission e (ls_queue_item_id l) None w2 = (Inr (), w')"
    by (auto split: prod.splits dest!: then_do_Inr)
  then show ?thesis using beyond_release [of e "ls_queue_item_id l" None w2] by auto
qed

lemma admitted_recorded:
  assumes "admitted_execution e q lineage b g c w = (Inr (t, r), w')"
  shows "get_pack_run w' (rr_run_id r) = Some r \<and> rr_runtime_state r = resolve_runtime_state t \<and> rr_pack_id r = rg_pack_id g \<and> rr_pack_version r = rg_version g
    \<and> rr_recovery_action_type r = map_option rl_recovery_action_type lineage
    \<and> (\<exists>f. get_task_flow w' (build_workflow_pack_task_flow_id (ae_sha (qe_artifacts e)) (rg_pack_family g) (rr_request_id r)) = Some f
         \<and> tf_flow_status f = resolve_task_flow_status r \<and> tf_run_refs f = [rr_run_id r])"
proof -
  obtain w1 w2 where "execution_body e c g (surface_of q b) lineage w1 = (Inr (t, r), w2)" and "beyond w' = beyond w2"
    using admitted_body [of e g _ "\<lambda>_. execution_body e c g (surface_of q b) lineage"] assms unfolding admitted_execution_def by blast
  note body_records [OF this(1)] and same_beyond [OF this(2)]
  then show ?thesis by (simp add: get_pack_run_def get_task_flow_def)
qed

section \<open>When the stores are ready\<close>

lemma output_leases [simp]: "qw_leases (snd (persist_workflow_pack_run_output_artifact e i c t p v b s w)) = qw_leases w"
  by (auto simp: persist_workflow_pack_run_output_artifact_def persist_or_reuse_json_artifact_def persist_json_artifact_def
      stage_json_artifact_def put_object_def save_artifact_def read_on_def Let_def split: option.splits)

lemma run_recorded_when_ready:
  assumes "\<And>n. pe_run_store_ready e n"
  obtains r w' where "record_registered_workflow_pack_run e c t g surface lineage w = (Inr r, w')" and "qw_leases w' = qw_leases w"
    and "rr_runtime_state r = resolve_runtime_state t"
proof -
  let ?o = "persist_workflow_pack_run_output_artifact e (build_workflow_pack_run_id (rg_pack_family g) (xc_request_id c)) c t (rg_pack_id g) (rg_version g)
    (review_required_of g) (initial_review_state (review_required_of g)) (read_on w)"
  have "qw_leases (snd ?o) = qw_leases w" by (simp add: read_on_def)
  then show ?thesis
    using that assms by (simp add: record_registered_workflow_pack_run_def ensure_workflow_pack_run_store_ready_def Let_def case_prod_beta run_record_of_def
        save_run_event_def save_pack_run_def)
qed

lemma recorded_flow_valid:
  "\<exists>f. append_checkpoint_to_task_flow (build_initial_task_flow flow_id c g surface r) (build_checkpoint sha flow_id r t) (resolve_task_flow_status r)
     (if flow_needs_step (resolve_task_flow_status r) then Some task_flow_execution_step_id else None) t = Inr f"
  by (simp add: append_checkpoint_to_task_flow_def build_initial_task_flow_def build_checkpoint_def valid_flow_def append_checkpoint_to_step_def Let_def)

lemma recorded_transition: "require_task_flow_transition_allowed FLOW_RUNNING (resolve_task_flow_status r) = Inr ()"
  by (simp add: require_task_flow_transition_allowed_def is_task_flow_transition_allowed_def resolve_task_flow_status_def)

lemma flow_recorded_when_ready:
  assumes "\<And>n. pe_flow_store_ready e n"
  obtains f w' where "record_task_flow_for_workflow_pack_run e c g surface r w = (Inr f, w')" and "qw_leases w' = qw_leases w"
proof -
  let ?sha = "ae_sha (qe_artifacts e)" let ?i = "build_workflow_pack_task_flow_id ?sha (rg_pack_family g) (rr_request_id r)"
  have init: "tf_task_flow_id (build_initial_task_flow ?i c g surface r) = ?i" "tf_flow_status (build_initial_task_flow ?i c g surface r) = FLOW_RUNNING"
    by (simp_all add: build_initial_task_flow_def Let_def)
  obtain f where "append_checkpoint_to_task_flow (build_initial_task_flow ?i c g surface r) (build_checkpoint ?sha ?i r (rr_last_updated_at r)) (resolve_task_flow_status r)
     (if flow_needs_step (resolve_task_flow_status r) then Some task_flow_execution_step_id else None) (rr_last_updated_at r) = Inr f"
    using recorded_flow_valid by blast
  then have "record_task_flow_for_workflow_pack_run e c g surface r w =
     (Inr f, save_task_flow f (save_checkpoint (build_checkpoint ?sha ?i r (rr_last_updated_at r)) (read_on (save_task_flow (build_initial_task_flow ?i c g surface r) (read_on w)))))"
    using assms init by (simp add: record_task_flow_for_workflow_pack_run_def create_task_flow_def record_task_flow_checkpoint_def Let_def
        ensure_workflow_pack_task_flow_store_ready_def recorded_transition)
  then show ?thesis using that by (simp add: save_task_flow_def save_checkpoint_def read_on_def)
qed

definition task_answered :: "'e exec_env_scheme \<Rightarrow> bool" where
  "task_answered e \<longleftrightarrow> (\<forall>n c pack. raises_http (xe_resolve_task e n c pack) \<or> (\<exists>t. xe_resolve_task e n c pack = Inr t)) \<and> (\<forall>n c t. xe_persist_audit e n c t = Inr ())"

definition task_refused :: "'e exec_env_scheme \<Rightarrow> bool" where
  "task_refused e \<longleftrightarrow> (\<forall>n c pack. raises_http (xe_resolve_task e n c pack)) \<and> (\<forall>n c err. tr_status (xe_failed_response e n c err) = TASK_FAILED)"

lemma task_response_when_answered:
  assumes "task_answered e"
  obtains t w' where "task_response_of e c pack w = (Inr t, w')" and "qw_leases w' = qw_leases w" and "task_refused e \<longrightarrow> tr_status t = TASK_FAILED"
proof -
  have "raises_http (xe_resolve_task e (qw_readings w) c pack) \<or> (\<exists>t. xe_resolve_task e (qw_readings w) c pack = Inr t)"
    using assms by (simp add: task_answered_def)
  then show ?thesis
  proof
    assume "raises_http (xe_resolve_task e (qw_readings w) c pack)"
    then obtain code d where "xe_resolve_task e (qw_readings w) c pack = Inl (HTTPException code d)" by (auto simp: raises_http_def)
    then have "task_response_of e c pack w = (Inr (xe_failed_response e (qw_readings (read_on w)) c (HTTPException code d)), read_on (read_on w))"
      by (simp add: task_response_of_def on_reading_def)
    then show ?thesis by (rule that) (simp_all add: task_refused_def read_on_def)
  next
    assume "\<exists>t. xe_resolve_task e (qw_readings w) c pack = Inr t"
    then obtain t where t: "xe_resolve_task e (qw_readings w) c pack = Inr t" ..
    have "\<not> task_refused e"
    proof
      assume "task_refused e"
      then have "raises_http (xe_resolve_task e (qw_readings w) c pack)" by (simp add: task_refused_def)
      then show False by (simp add: t)
    qed
    moreover have "task_response_of e c pack w = (Inr t, read_on w)" using t by (simp add: task_response_of_def on_reading_def)
    ultimately show ?thesis using that [of t "read_on w"] by (simp add: read_on_def)
  qed
qed

lemma body_when_ready:
  assumes "\<And>n. pe_run_store_ready e n" and "\<And>n. pe_flow_store_ready e n" and "task_answered e"
  obtains t r w' where "execution_body e c g surface lineage w = (Inr (t, r), w')" and "qw_leases w' = qw_leases w" and "task_refused e \<longrightarrow> rr_runtime_state r = RS_FAILED"
proof -
  obtain t w1 where t: "task_response_of e c (rg_pack_id g) w = (Inr t, w1)" "qw_leases w1 = qw_leases w" "task_refused e \<longrightarrow> tr_status t = TASK_FAILED"
    by (rule task_response_when_answered [OF assms(3)])
  have audit: "on_reading (\<lambda>n. xe_persist_audit e n c t) w1 = (Inr (), read_on w1)" using assms(3) by (simp add: task_answered_def on_reading_def)
  obtain r w2 where r: "record_registered_workflow_pack_run e c t g (Some surface) lineage (read_on w1) = (Inr r, w2)" "qw_leases w2 = qw_leases (read_on w1)"
    "rr_runtime_state r = resolve_runtime_state t" by (rule run_recorded_when_ready [OF assms(1)])
  obtain f w3 where f: "record_task_flow_for_workflow_pack_run e c g (Some surface) r w2 = (Inr f, w3)" "qw_leases w3 = qw_leases w2"
    by (rule flow_recorded_when_ready [OF assms(2)])
  show ?thesis
    by (rule that [of t r w3]) (use t audit r f in \<open>simp_all add: execution_body_def read_on_def resolve_runtime_state_def\<close>)
qed

lemma released_when_ready:
  assumes "acquire_workflow_pack_queue_admission e r q w = (Inr l, w1)" and "get_lease w2 (ls_queue_item_id l) = Some l"
    and "\<And>n. valid_utc (qe_now e n)" and "\<And>n. qe_ready e n"
  obtains w3 where "release_workflow_pack_queue_admission e (ls_queue_item_id l) None w2 = (Inr (), w3)"
proof -
  let ?rel = "release_workflow_pack_queue_admission e (ls_queue_item_id l) None w2"
  obtain p item lane refs n where p: "get_workflow_pack_queue_policy_descriptor (rg_pack_id r) (rg_version r) = Inr (Some p)"
    and l: "l = lease_of item p lane WPQ_RUNNING (utc_text (qe_now e n)) q refs" using acquired_lease [OF assms(1)] by blast
  have "get_workflow_pack_queue_policy_descriptor (qp_workflow_pack_id p) (qp_workflow_pack_version p) = Inr (Some p)"
    using p find_policyD [of "rg_pack_id r" "rg_version r" p] by simp
  then have "fst ?rel \<in> {Inr (), Inl event_store_not_ready}" using release_running_lease [OF assms(2) l _ assms(3)] by blast
  moreover have "decide_release e item now w2 \<noteq> Inl event_store_not_ready" for item now
    by (auto simp: decide_release_def event_store_not_ready_def release_terminal_state_def fromisoformat_def transition_queue_state_def
        get_policy_for_lease_def split: option.splits sum.splits if_splits)
  then have "fst ?rel \<noteq> Inl event_store_not_ready"
    using assms(4) by (auto simp: release_workflow_pack_queue_admission_def finish_close_def record_close_def fst_then_do
        record_workflow_pack_queue_event_def Let_def split: sum.splits option.splits prod.splits bool.splits)
  ultimately show ?thesis using that by (cases ?rel) auto
qed

text \<open>What makes an execution go through: ready stores, a valid clock, and a free place under the queue policy of the pack.\<close>

definition stores_ready :: "'e exec_env_scheme \<Rightarrow> bool" where
  "stores_ready e \<longleftrightarrow> (\<forall>n. pe_run_store_ready e n \<and> pe_flow_store_ready e n \<and> qe_ready e n \<and> valid_utc (qe_now e n)
     \<and> (qe_lease_ttl_seconds e \<le> 0 \<or> (\<exists>t. sub_seconds (nat (qe_lease_ttl_seconds e)) (qe_now e n) = Inr t)))"

definition place_free :: "pack_execution_request \<Rightarrow> 'w queue_world_scheme \<Rightarrow> bool" where
  "place_free q w \<longleftrightarrow> (\<exists>p lane. get_workflow_pack_queue_policy_descriptor (ex_pack_id q) (ex_version q) = Inr (Some p)
     \<and> lane = (case ex_queue_lane q of None \<Rightarrow> qp_default_lane p | Some l \<Rightarrow> l) \<and> lane \<in> set (qp_allowed_lanes p)
     \<and> count_leases (qp_policy_id p) w < qp_max_concurrent_runs_per_pack p \<and> count_lane_leases (qp_policy_id p) lane w < qp_max_concurrent_runs_per_lane p)"

lemma place_free_read_on [simp]: "place_free q (read_on w) = place_free q w"
  by (simp add: place_free_def count_leases_def count_lane_leases_def list_admission_leases_def read_on_def)

lemma admitted_when_ready:
  assumes "stores_ready e" and "task_answered e" and "place_free q w" and "rg_pack_id g = ex_pack_id q" and "rg_version g = ex_version q"
  obtains t r w' where "admitted_execution e q lineage b g c w = (Inr (t, r), w')" and "task_refused e \<longrightarrow> rr_runtime_state r = RS_FAILED"
proof -
  let ?q = "admission_request_of q (surface_of q b)"
  note ready = assms(1) [unfolded stores_ready_def, rule_format]
  have "\<exists>l w1. acquire_workflow_pack_queue_admission e g ?q w = (Inr l, w1) \<and> get_lease w1 (ls_queue_item_id l) = Some l"
    using assms(3) ready unfolding place_free_def
    by (elim exE conjE, intro admission_within_capacity) (simp_all add: assms(4,5) admission_request_of_def)
  then obtain l w1 where a: "acquire_workflow_pack_queue_admission e g ?q w = (Inr l, w1)" and l: "get_lease w1 (ls_queue_item_id l) = Some l" by blast
  obtain t r w2 where body: "execution_body e c g (surface_of q b) lineage w1 = (Inr (t, r), w2)" and k: "qw_leases w2 = qw_leases w1"
    and failed: "task_refused e \<longrightarrow> rr_runtime_state r = RS_FAILED" by (rule body_when_ready [OF _ _ assms(2)]) (use ready in auto)
  obtain w3 where "release_workflow_pack_queue_admission e (ls_queue_item_id l) None w2 = (Inr (), w3)"
    by (rule released_when_ready [OF a, of w2]) (use l k ready in \<open>auto simp: get_lease_def\<close>)
  then have "admitted_execution e q lineage b g c w = (Inr (t, r), w3)" using a body by (simp add: admitted_execution_def workflow_pack_queue_admission_def)
  then show ?thesis using that failed by blast
qed

lemma execution_returns:
  assumes "stores_ready e" and "task_answered e" and "place_free q w"
    and "resolve_registration e q w = Inr (b, g)" and "rg_pack_id g = ex_pack_id q" and "rg_version g = ex_version q"
    and "require_eligible e q (surface_of q b) w = Inr ()" and "validate_workflow_pack_execution_binding q b = Inr ()"
    and "xe_validate_task e (qw_readings w) (ex_task_request q) = Inr c"
  obtains x t w5 w' where "execute_workflow_pack e q lineage w = (Inr x, w')" and "admitted_execution e q lineage b g c w5 = (Inr (t, xr_run x), w')"
    and "task_refused e \<longrightarrow> rr_runtime_state (xr_run x) = RS_FAILED"
proof -
  note ready = assms(1) [unfolded stores_ready_def, rule_format]
  let ?w = "read_on (read_on (read_on w))"
  obtain t r w' where a: "admitted_execution e q lineage b g c ?w = (Inr (t, r), w')" and failed: "task_refused e \<longrightarrow> rr_runtime_state r = RS_FAILED"
    using admitted_when_ready [OF assms(1,2) _ assms(5,6), of ?w lineage b c] assms(3) by auto
  then have "execute_workflow_pack e q lineage w = (Inr \<lparr>xr_execution = attach_workflow_pack_run_id t r, xr_run = r\<rparr>, w')"
    using ready assms(4,7-9) by (simp add: execute_workflow_pack_def on_reading_def admitted_execution_def Let_def
        ensure_workflow_pack_run_store_ready_def ensure_workflow_pack_task_flow_store_ready_def)
  then show ?thesis by (rule that) (use a failed in simp_all)
qed

section \<open>Properties\<close>

text \<open>
  An execution of a workflow pack that is answered by an HTTP error, whether by the checks before the admission, the admission itself or the release,
  has recorded no run, no run event, no task flow and no checkpoint: a provider failure inside the execution is not answered by an HTTP error but
  recorded as a failed run. This is what the idempotency layer relies on when it gives back the key of an execution that raised an HTTP error.
  The audit store's save is assumed to raise no HTTP error.
\<close>

theorem http_refusal_records_nothing:
  fixes w :: "'w pack_world_scheme"
  assumes "\<And>n c t. \<not> raises_http (xe_persist_audit e n c t)"
    and "execute_workflow_pack e q lineage w = (Inl (HTTPException code d), w')"
  shows "pw_runs w' = pw_runs w \<and> pw_run_events w' = pw_run_events w \<and> pw_flows w' = pw_flows w \<and> pw_checkpoints w' = pw_checkpoints w"
proof -
  have "beyond w' = beyond w"
    using execute_prefix [of e q lineage w]
  proof (elim disjE conjE exE)
    fix b g c w5
    assume "beyond w5 = beyond w"
    assume run: "execute_workflow_pack e q lineage w = then_do (admitted_execution e q lineage b g c w5)
      (\<lambda>(t, r) w6. (Inr \<lparr>xr_execution = attach_workflow_pack_run_id t r, xr_run = r\<rparr>, w6))"
    then have "admitted_execution e q lineage b g c w5 = (Inl (HTTPException code d), w')"
      using assms(2) by (auto simp: then_do_def split: prod.splits sum.splits)
    then show ?thesis using admitted_http [OF assms(1), of q lineage b g c w5] \<open>beyond w5 = beyond w\<close> by simp
  qed (use assms(2) in auto)
  from same_beyond [OF this] show ?thesis by blast
qed

text \<open>
  An execution of a workflow pack that returns was allowed and is on record: a binding for the pack exists, the caller was eligible for the surface
  of the request, the task, the payload sections and the guardrails of the pack were accepted, and after the release of the admission the returned run is in the ledger with the
  runtime state of the returned response and the lineage of the recovery, the response carries the run's id, and the task flow of the run
  is stored with the status the run resolves to.
\<close>

theorem executed_pack_is_recorded:
  fixes w :: "'w pack_world_scheme"
  assumes "execute_workflow_pack e q lineage w = (Inr x, w')"
  shows "\<exists>b g. resolve_registration e q w = Inr (b, g) \<and> require_eligible e q (surface_of q b) w = Inr ()
    \<and> validate_workflow_pack_execution_binding q b = Inr ()
    \<and> get_pack_run w' (rr_run_id (xr_run x)) = Some (xr_run x) \<and> tr_workflow_pack_run_id (xr_execution x) = Some (rr_run_id (xr_run x))
    \<and> rr_runtime_state (xr_run x) = resolve_runtime_state (xr_execution x) \<and> rr_pack_id (xr_run x) = rg_pack_id g \<and> rr_pack_version (xr_run x) = rg_version g
    \<and> rr_recovery_action_type (xr_run x) = map_option rl_recovery_action_type lineage
    \<and> (\<exists>f. get_task_flow w' (build_workflow_pack_task_flow_id (ae_sha (qe_artifacts e)) (rg_pack_family g) (rr_request_id (xr_run x))) = Some f
         \<and> tf_flow_status f = resolve_task_flow_status (xr_run x) \<and> tf_run_refs f = [rr_run_id (xr_run x)])"
proof -
  obtain b g c w5 where pre: "resolve_registration e q w = Inr (b, g)" "require_eligible e q (surface_of q b) w = Inr ()"
      "validate_workflow_pack_execution_binding q b = Inr ()"
    and run: "execute_workflow_pack e q lineage w = then_do (admitted_execution e q lineage b g c w5)
      (\<lambda>(t, r) w6. (Inr \<lparr>xr_execution = attach_workflow_pack_run_id t r, xr_run = r\<rparr>, w6))"
    using execute_prefix [of e q lineage w] by (elim disjE conjE exE) (use assms in simp, blast)
  obtain t r where adm: "admitted_execution e q lineage b g c w5 = (Inr (t, r), w')"
      and "x = \<lparr>xr_execution = attach_workflow_pack_run_id t r, xr_run = r\<rparr>"
    using then_do_Inr [OF trans [OF run [symmetric] assms]] by auto
  then show ?thesis using pre admitted_recorded [OF adm]
    by (intro exI [of _ b] exI [of _ g]) (simp add: attach_workflow_pack_run_id_def resolve_runtime_state_def)
qed

text \<open>
  An execution that may run does run, and a refused task is not lost: when the stores are ready, the clock is valid, the queue policy of
  the pack has a free place, the caller is eligible and the payload is accepted, the execution returns whatever HTTP errors the resolution of the
  task raises; when the resolution is refused by an HTTP error, the run in the ledger is a failed run and its task flow has failed.
\<close>

theorem refused_task_is_a_failed_run:
  fixes w :: "'w pack_world_scheme"
  assumes "stores_ready e" and "task_answered e" and "task_refused e" and "place_free q w"
    and "resolve_registration e q w = Inr (b, g)" and "rg_pack_id g = ex_pack_id q" and "rg_version g = ex_version q"
    and "require_eligible e q (surface_of q b) w = Inr ()" and "validate_workflow_pack_execution_binding q b = Inr ()"
    and "xe_validate_task e (qw_readings w) (ex_task_request q) = Inr c"
  shows "\<exists>x w' f. execute_workflow_pack e q lineage w = (Inr x, w') \<and> rr_runtime_state (xr_run x) = RS_FAILED
    \<and> get_pack_run w' (rr_run_id (xr_run x)) = Some (xr_run x)
    \<and> get_task_flow w' (build_workflow_pack_task_flow_id (ae_sha (qe_artifacts e)) (rg_pack_family g) (rr_request_id (xr_run x))) = Some f
    \<and> tf_flow_status f = FLOW_FAILED"
proof -
  obtain x t w5 w' where x: "execute_workflow_pack e q lineage w = (Inr x, w')" "admitted_execution e q lineage b g c w5 = (Inr (t, xr_run x), w')"
      "task_refused e \<longrightarrow> rr_runtime_state (xr_run x) = RS_FAILED"
    by (rule execution_returns [OF assms(1,2,4-10), of lineage])
  with assms(3) have failed: "rr_runtime_state (xr_run x) = RS_FAILED" by simp
  then have "resolve_task_flow_status (xr_run x) = FLOW_FAILED" by (simp add: resolve_task_flow_status_def)
  then show ?thesis using x(1) failed admitted_recorded [OF x(2)] by auto
qed

section \<open>A concrete execution\<close>

text \<open>The seeded registry, an admissible request for the advisor brief, and a task pipeline that answers, or that is refused by the provider.\<close>

definition sample_exec_env :: "task_response result \<Rightarrow> exec_env" where
  "sample_exec_env answer = pack_env.extend (sample_pack_env\<lparr>qe_now := (\<lambda>_. sample_instant)\<rparr>)
     \<lparr>xe_validate_task = (\<lambda>n t. Inr \<lparr>xc_request = t, xc_request_id = ''a'', xc_execution_started_at = ''2026-06-01T07:00:00Z''\<rparr>),
      xe_resolve_task = (\<lambda>n c p. answer), xe_failed_response = (\<lambda>n c err. sample_response\<lparr>tr_status := TASK_FAILED\<rparr>), xe_persist_audit = (\<lambda>n c t. Inr ())\<rparr>"

definition sample_pack_request :: "string \<Rightarrow> pack_execution_request" where
  "sample_pack_request caller =
     \<lparr>ex_pack_id = ''advisor_brief.pack'', ex_version = ''v1'', ex_environment = ENV_QA, ex_caller_identity_class = INTERNAL_SERVICE,
      ex_workflow_surface = None, ex_queue_lane = None, ex_idempotency_key = None,
      ex_task_request = \<lparr>tk_task_id = ''explain.v1'', tk_input_mode = STRUCTURED_CONTEXT,
        tk_caller = \<lparr>cd_caller_app = caller, cd_correlation_id = ''c'', cd_requested_by = None, cd_tenant_id = None\<rparr>,
        tk_context = \<lparr>tx_summary = ''s'', tx_payload = map (\<lambda>k. (k, JObject [])) [''portfolio'', ''period'', ''performance'', ''supportability''], tx_source_refs = []\<rparr>,
        tk_requirements = None, tk_expected_output_label = None\<rparr>\<rparr>"

definition seeded_ledger :: pack_world where
  "seeded_ledger = empty_ledger\<lparr>gw_registrations := gw_registrations seeded_registry\<rparr>"

lemma sample_request_resolved:
  "case resolve_registration (sample_exec_env answer) (sample_pack_request caller) seeded_ledger of Inl _ \<Rightarrow> False
   | Inr (b, g) \<Rightarrow> surface_of (sample_pack_request caller) b = ''advisor-brief-workspace'' \<and> rg_pack_id g = ''advisor_brief.pack'' \<and> rg_version g = ''v1''
       \<and> validate_workflow_pack_execution_binding (sample_pack_request caller) b = Inr ()"
  by code_simp

lemma sample_request_eligible:
  "require_eligible (sample_exec_env answer) (sample_pack_request ''lotus-gateway'') ''advisor-brief-workspace'' seeded_ledger = Inr ()"
  "require_eligible (sample_exec_env answer) (sample_pack_request ''someone-else'') ''advisor-brief-workspace'' seeded_ledger = Inl (HTTPException 403 ''not_eligible'')"
  by code_simp+

lemma sample_exec_ready: "stores_ready (sample_exec_env answer)"
  using sample_cutoff(1) sample_instant_valid by (simp add: stores_ready_def sample_exec_env_def sample_pack_env_def sample_queue_env_def pack_env.defs queue_env.defs)

lemma sample_place_free: "place_free (sample_pack_request caller) seeded_ledger"
  using sample_policy_declared(1)
  by (simp add: place_free_def sample_pack_request_def seeded_ledger_def empty_ledger_def empty_queue_def queue_world.defs count_leases_def
      count_lane_leases_def list_admission_leases_def sample_policy_def declared_policy_def advisor_brief_v1_registration_def advisor_brief_v1_spec_def)

theorem http_refusal_records_nothing_witness:
  "\<exists>w'. execute_workflow_pack (sample_exec_env (Inr sample_response)) (sample_pack_request ''someone-else'') None seeded_ledger = (Inl (HTTPException 403 ''not_eligible''), w')
     \<and> pw_runs w' = pw_runs seeded_ledger"
proof -
  have run: "execute_workflow_pack (sample_exec_env (Inr sample_response)) (sample_pack_request ''someone-else'') None seeded_ledger
      = (Inl (HTTPException 403 ''not_eligible''), seeded_ledger)"
    using sample_request_resolved [where answer = "Inr sample_response" and caller = "''someone-else''"] sample_request_eligible(2)
    by (auto simp: execute_workflow_pack_def Let_def split: sum.splits)
  have "\<not> raises_http (xe_persist_audit (sample_exec_env (Inr sample_response)) n c t)" for n c t by (simp add: sample_exec_env_def pack_env.defs)
  from http_refusal_records_nothing [OF this run] show ?thesis using run by blast
qed

lemma sample_request_hyps:
  obtains b g c where "resolve_registration (sample_exec_env answer) (sample_pack_request ''lotus-gateway'') seeded_ledger = Inr (b, g)"
    and "rg_pack_id g = ex_pack_id (sample_pack_request ''lotus-gateway'')" and "rg_version g = ex_version (sample_pack_request ''lotus-gateway'')"
    and "require_eligible (sample_exec_env answer) (sample_pack_request ''lotus-gateway'') (surface_of (sample_pack_request ''lotus-gateway'') b) seeded_ledger = Inr ()"
    and "validate_workflow_pack_execution_binding (sample_pack_request ''lotus-gateway'') b = Inr ()"
    and "xe_validate_task (sample_exec_env answer) (qw_readings seeded_ledger) (ex_task_request (sample_pack_request ''lotus-gateway'')) = Inr c"
proof -
  obtain b g where "resolve_registration (sample_exec_env answer) (sample_pack_request ''lotus-gateway'') seeded_ledger = Inr (b, g)"
    "surface_of (sample_pack_request ''lotus-gateway'') b = ''advisor-brief-workspace''" "rg_pack_id g = ''advisor_brief.pack''" "rg_version g = ''v1''"
    "validate_workflow_pack_execution_binding (sample_pack_request ''lotus-gateway'') b = Inr ()"
    using sample_request_resolved [where answer = answer and caller = "''lotus-gateway''"] by (auto split: sum.splits)
  then show ?thesis using that sample_request_eligible(1) by (simp add: sample_pack_request_def sample_exec_env_def pack_env.defs)
qed

theorem executed_pack_is_recorded_witness:
  "\<exists>x w'. execute_workflow_pack (sample_exec_env (Inr sample_response)) (sample_pack_request ''lotus-gateway'') None seeded_ledger = (Inr x, w')
     \<and> get_pack_run w' (rr_run_id (xr_run x)) = Some (xr_run x)"
proof -
  obtain b g c where h: "resolve_registration (sample_exec_env (Inr sample_response)) (sample_pack_request ''lotus-gateway'') seeded_ledger = Inr (b, g)"
    "rg_pack_id g = ex_pack_id (sample_pack_request ''lotus-gateway'')" "rg_version g = ex_version (sample_pack_request ''lotus-gateway'')"
    "require_eligible (sample_exec_env (Inr sample_response)) (sample_pack_request ''lotus-gateway'') (surface_of (sample_pack_request ''lotus-gateway'') b) seeded_ledger = Inr ()"
    "validate_workflow_pack_execution_binding (sample_pack_request ''lotus-gateway'') b = Inr ()"
    "xe_validate_task (sample_exec_env (Inr sample_response)) (qw_readings seeded_ledger) (ex_task_request (sample_pack_request ''lotus-gateway'')) = Inr c"
    by (rule sample_request_hyps)
  have "task_answered (sample_exec_env (Inr sample_response))" by (simp add: task_answered_def sample_exec_env_def pack_env.defs)
  then obtain x w' where "execute_workflow_pack (sample_exec_env (Inr sample_response)) (sample_pack_request ''lotus-gateway'') None seeded_ledger = (Inr x, w')"
    by (rule execution_returns [OF sample_exec_ready _ sample_place_free h])
  then show ?thesis using executed_pack_is_recorded by blast
qed

theorem refused_task_is_a_failed_run_witness:
  "\<exists>x w'. execute_workflow_pack (sample_exec_env (Inl (HTTPException 503 ''down''))) (sample_pack_request ''lotus-gateway'') None seeded_ledger = (Inr x, w')
     \<and> rr_runtime_state (xr_run x) = RS_FAILED"
proof -
  let ?e = "sample_exec_env (Inl (HTTPException 503 ''down''))"
  have "task_answered ?e" "task_refused ?e" by (simp_all add: task_answered_def task_refused_def sample_exec_env_def pack_env.defs)
  note facts = refused_task_is_a_failed_run [OF sample_exec_ready this sample_place_free]
  show ?thesis by (rule sample_request_hyps [of "Inl (HTTPException 503 ''down'')"]) (use facts in blast)
qed

end
