(* ===== verification/Accepted_Output.thy ===== *)
theory Accepted_Output
  imports Pack_Review
begin

text \<open>
  What lotus-ai publishes of a reviewed run: the one reader of output artifacts (\<^verbatim>\<open>services/workflow_pack_run_output_summary.py\<close>),
  the accepted output of a run (\<^verbatim>\<open>services/workflow_pack_run_accepted_output.py\<close>) and the latest accepted run of a portfolio
  (\<^verbatim>\<open>services/workflow_pack_run_accepted_latest.py\<close>). Sentences, notes and the identity of the service are left out. A stored
  payload is a text, so it always decodes.
\<close>

section \<open>Failures and results\<close>

datatype accepted_failure =
    AcceptedOutputNotFoundError
  | AcceptedOutputNotAvailableError string
  | AcceptedLatestNotFoundError string
  | Raised error

definition pack_projection_unsupported :: accepted_failure where
  "pack_projection_unsupported = AcceptedOutputNotAvailableError ''pack_projection_unsupported''"

definition output_artifact_malformed :: accepted_failure where
  "output_artifact_malformed = AcceptedOutputNotAvailableError ''output_artifact_malformed''"

definition output_not_validated :: accepted_failure where
  "output_not_validated = AcceptedOutputNotAvailableError ''output_not_validated''"

text \<open>The next step if there was no failure, and a step for every item until one fails.\<close>

fun and_then :: "'e + 'a \<Rightarrow> ('a \<Rightarrow> 'e + 'b) \<Rightarrow> 'e + 'b" where
  "and_then (Inl e) f = Inl e"
| "and_then (Inr a) f = f a"

fun collect :: "('a \<Rightarrow> 'e + 'b) \<Rightarrow> 'a list \<Rightarrow> 'e + 'b list" where
  "collect f [] = Inr []"
| "collect f (x # xs) = and_then (f x) (\<lambda>y. and_then (collect f xs) (\<lambda>ys. Inr (y # ys)))"

section \<open>The output summary of a run\<close>

datatype summary_failure = SummaryArtifactMissingError | SummaryObjectMissingError | SummaryIntegrityMismatchError

definition is_summary_artifact :: "artifact \<Rightarrow> bool" where
  "is_summary_artifact a \<longleftrightarrow> ar_domain a = ''workflow_pack'' \<and> ar_artifact_type a = ''run_output_summary'' \<and> ar_storage_reference a \<noteq> []"

definition load_verified_summary_object ::
  "(string \<Rightarrow> string) \<Rightarrow> artifact list \<Rightarrow> 'w artifact_world_scheme \<Rightarrow> summary_failure + (artifact \<times> stored_object)" where
  "load_verified_summary_object sha refs w =
     (case find is_summary_artifact refs of
        None \<Rightarrow> Inl SummaryArtifactMissingError
      | Some a \<Rightarrow>
        (case get_object w (parse_storage_reference (ar_storage_reference a)) of
           None \<Rightarrow> Inl SummaryObjectMissingError
         | Some stored \<Rightarrow>
           let recorded = py_lower (py_strip (ar_checksum_sha256 a)) in
           if recorded = [] \<or> sha (so_payload stored) \<noteq> recorded \<or> ar_byte_size a \<noteq> length (so_payload stored)
           then Inl SummaryIntegrityMismatchError else Inr (a, stored)))"

definition load_workflow_pack_run_output_summary :: "(string \<Rightarrow> string) \<Rightarrow> artifact list \<Rightarrow> 'w artifact_world_scheme \<Rightarrow> json_object" where
  "load_workflow_pack_run_output_summary sha refs w =
     (case load_verified_summary_object sha refs w of
        Inl _ \<Rightarrow> []
      | Inr (a, stored) \<Rightarrow> (case json_loads (so_payload stored) of Some (JObject d) \<Rightarrow> d | _ \<Rightarrow> []))"

record idea_lineage =
  il_candidate_id :: string
  il_evidence_packet_id :: string
  il_evidence_content_hash :: string
  il_family :: string
  il_lifecycle_status :: string
  il_review_posture :: string
  il_source_ref_count :: int
  il_source_signal_count :: int
  il_score_policy_version :: "string option"

definition string_from_mapping :: "json_object \<Rightarrow> string \<Rightarrow> string" where
  "string_from_mapping d k = (case text_at d k of Some s \<Rightarrow> s | None \<Rightarrow> [])"

definition optional_string_from_mapping :: "json_object \<Rightarrow> string \<Rightarrow> string option" where
  "optional_string_from_mapping d k = (if string_from_mapping d k = [] then None else Some (string_from_mapping d k))"

definition int_from_mapping :: "json_object \<Rightarrow> string \<Rightarrow> int" where
  "int_from_mapping d k = (case int_at d k of Some i \<Rightarrow> i | None \<Rightarrow> 0)"

definition build_idea_lineage_from_run_output_summary :: "json_object \<Rightarrow> idea_lineage option" where
  "build_idea_lineage_from_run_output_summary p =
     (if dict_get p ''pack_id'' \<noteq> Some (JString ''idea_explanation.pack'') then None
      else case section_of p ''structured_output'' of
        None \<Rightarrow> None
      | Some s \<Rightarrow>
        if (\<exists>k \<in> set [''candidate_id'', ''evidence_packet_id'', ''evidence_content_hash'', ''family'', ''lifecycle_status'', ''review_posture''].
              string_from_mapping s k = []) then None
        else Some \<lparr>il_candidate_id = string_from_mapping s ''candidate_id'', il_evidence_packet_id = string_from_mapping s ''evidence_packet_id'',
          il_evidence_content_hash = string_from_mapping s ''evidence_content_hash'', il_family = string_from_mapping s ''family'',
          il_lifecycle_status = string_from_mapping s ''lifecycle_status'', il_review_posture = string_from_mapping s ''review_posture'',
          il_source_ref_count = int_from_mapping s ''source_ref_count'', il_source_signal_count = int_from_mapping s ''source_signal_count'',
          il_score_policy_version = optional_string_from_mapping s ''score_policy_version''\<rparr>)"

section \<open>The accepted output\<close>

record evidence_ref =
  ev_metric_label :: string
  ev_metric_value :: string
  ev_source_ref :: string

record narrative_item =
  ni_headline :: string
  ni_detail :: string
  ni_tone :: string
  ni_evidence_refs :: "evidence_ref list"

record accepted_context =
  cx_portfolio_id :: string
  cx_period :: string
  cx_as_of_date :: "string option"
  cx_reporting_currency :: "string option"
  cx_benchmark :: "string option"

record accepted_review =
  vw_reviewed_by :: string
  vw_reviewed_at :: timestamp

record accepted_validation =
  vl_validation_state :: string
  vl_authority :: string
  vl_ruleset_version :: string

text \<open>The narrative and context of a response, which the content hash covers, and the response.\<close>

record accepted_content =
  an_run_id :: string
  an_pack_id :: string
  an_pack_version :: string
  an_advisor_brief_status :: string
  an_coverage_state :: string
  an_grounded_summary :: string
  an_talking_points :: "narrative_item list"
  an_risks_and_exceptions :: "narrative_item list"
  an_context :: accepted_context
  an_source_refs :: "string list"

record accepted_output =
  ao_content :: accepted_content
  ao_pack_family :: string
  ao_task_id :: string
  ao_request_id :: string
  ao_tenant_id :: string
  ao_workflow_authority_owner :: string
  ao_output_validation :: accepted_validation
  ao_review :: accepted_review
  ao_evidence_types :: "string list"
  ao_content_hash :: string

definition required_string :: "json_object \<Rightarrow> string \<Rightarrow> accepted_failure + string" where
  "required_string d k = (case text_at d k of None \<Rightarrow> Inl output_artifact_malformed | Some s \<Rightarrow> if s = [] then Inl output_artifact_malformed else Inr s)"

definition optional_string :: "json_object \<Rightarrow> string \<Rightarrow> string option" where
  "optional_string d k = (case text_at d k of None \<Rightarrow> None | Some s \<Rightarrow> if s = [] then None else Some s)"

definition required_evidence_string :: "json_object \<Rightarrow> string \<Rightarrow> accepted_failure + string" where
  "required_evidence_string d k =
     (case text_at d k of None \<Rightarrow> Inl output_not_validated | Some s \<Rightarrow> if py_strip s = [] then Inl output_not_validated else Inr s)"

definition require_validated_output :: "run_record \<Rightarrow> accepted_failure + accepted_validation" where
  "require_validated_output r =
     (case find (\<lambda>d. ed_evidence_type d = ''output_validation'') (rr_evidence_descriptors r) of
        None \<Rightarrow> Inl output_not_validated
      | Some d \<Rightarrow>
        if dict_get (ed_attributes d) ''validation_state'' \<noteq> Some (JString ''VALIDATED'') then Inl output_not_validated
        else and_then (required_evidence_string (ed_attributes d) ''authority'') (\<lambda>authority.
             and_then (required_evidence_string (ed_attributes d) ''ruleset_version'') (\<lambda>ruleset.
               Inr \<lparr>vl_validation_state = ''VALIDATED'', vl_authority = authority, vl_ruleset_version = ruleset\<rparr>)))"

definition reviewer_of :: "string \<Rightarrow> string" where
  "reviewer_of actor = (if take 7 actor = ''review:'' then drop 7 actor else actor)"

definition accepting_review_identity :: "string \<Rightarrow> 'w pack_world_scheme \<Rightarrow> accepted_failure + accepted_review" where
  "accepting_review_identity run_id w =
     (let s = build_review_summary (list_run_events w run_id) in
      case (rs_latest_review_actor s, rs_latest_review_event_at s) of
        (Some actor, Some at_time) \<Rightarrow>
          if actor = [] \<or> at_time = [] then Inl output_artifact_malformed
          else Inr \<lparr>vw_reviewed_by = reviewer_of actor, vw_reviewed_at = at_time\<rparr>
      | _ \<Rightarrow> Inl output_artifact_malformed)"

fun summary_failure_reason :: "summary_failure \<Rightarrow> string" where
  "summary_failure_reason SummaryArtifactMissingError = ''output_artifact_missing''"
| "summary_failure_reason SummaryObjectMissingError = ''output_artifact_missing''"
| "summary_failure_reason SummaryIntegrityMismatchError = ''output_artifact_integrity_mismatch''"

definition load_intact_output_payload :: "(string \<Rightarrow> string) \<Rightarrow> run_record \<Rightarrow> 'w artifact_world_scheme \<Rightarrow> accepted_failure + json_object" where
  "load_intact_output_payload sha r w =
     (case load_verified_summary_object sha (rr_artifact_refs r) w of
        Inl f \<Rightarrow> Inl (AcceptedOutputNotAvailableError (summary_failure_reason f))
      | Inr (a, stored) \<Rightarrow>
        (case json_loads (so_payload stored) of
           Some (JObject d) \<Rightarrow>
             if dict_get d ''run_id'' \<noteq> Some (JString (rr_run_id r)) \<or> dict_get d ''pack_id'' \<noteq> Some (JString (rr_pack_id r))
             then Inl output_artifact_malformed else Inr d
         | _ \<Rightarrow> Inl output_artifact_malformed))"

definition evidence_ref_of :: "json \<Rightarrow> accepted_failure + evidence_ref" where
  "evidence_ref_of j =
     (case j of
        JObject d \<Rightarrow>
          and_then (required_string d ''metric_label'') (\<lambda>l. and_then (required_string d ''metric_value'') (\<lambda>v.
          and_then (required_string d ''source_ref'') (\<lambda>s. Inr \<lparr>ev_metric_label = l, ev_metric_value = v, ev_source_ref = s\<rparr>)))
      | _ \<Rightarrow> Inl output_artifact_malformed)"

definition evidence_refs :: "json option \<Rightarrow> accepted_failure + evidence_ref list" where
  "evidence_refs raw =
     (case raw of None \<Rightarrow> Inr [] | Some JNull \<Rightarrow> Inr [] | Some (JList xs) \<Rightarrow> collect evidence_ref_of xs | _ \<Rightarrow> Inl output_artifact_malformed)"

definition narrative_item_of :: "json \<Rightarrow> accepted_failure + narrative_item" where
  "narrative_item_of j =
     (case j of
        JObject d \<Rightarrow>
          and_then (required_string d ''headline'') (\<lambda>h. and_then (required_string d ''detail'') (\<lambda>x.
          and_then (required_string d ''tone'') (\<lambda>t. and_then (evidence_refs (dict_get d ''evidence_refs'')) (\<lambda>rs.
            Inr \<lparr>ni_headline = h, ni_detail = x, ni_tone = t, ni_evidence_refs = rs\<rparr>))))
      | _ \<Rightarrow> Inl output_artifact_malformed)"

definition narrative_items :: "json option \<Rightarrow> accepted_failure + narrative_item list" where
  "narrative_items raw = (case raw of Some (JList xs) \<Rightarrow> collect narrative_item_of xs | _ \<Rightarrow> Inl output_artifact_malformed)"

text \<open>The texts among the items that iterating over a member gives; a text iterates over its characters, an object over its keys.\<close>

definition texts_in :: "json_object \<Rightarrow> string \<Rightarrow> accepted_failure + string list" where
  "texts_in d k =
     (case dict_get d k of
        None \<Rightarrow> Inr []
      | Some (JList xs) \<Rightarrow> Inr (List.map_filter (\<lambda>j. case j of JString s \<Rightarrow> Some s | _ \<Rightarrow> None) xs)
      | Some (JString s) \<Rightarrow> Inr (map (\<lambda>c. [c]) s)
      | Some (JObject m) \<Rightarrow> Inr (map fst m)
      | Some _ \<Rightarrow> Inl (Raised (TypeError ''not_iterable'')))"

definition evidence_ref_json :: "evidence_ref \<Rightarrow> json" where
  "evidence_ref_json x = JObject [(''metric_label'', JString (ev_metric_label x)), (''metric_value'', JString (ev_metric_value x)), (''source_ref'', JString (ev_source_ref x))]"

definition narrative_item_json :: "narrative_item \<Rightarrow> json" where
  "narrative_item_json x = JObject
     [(''headline'', JString (ni_headline x)), (''detail'', JString (ni_detail x)), (''tone'', JString (ni_tone x)),
      (''evidence_refs'', JList (map evidence_ref_json (ni_evidence_refs x)))]"

definition context_json :: "accepted_context \<Rightarrow> json" where
  "context_json c = JObject
     [(''portfolio_id'', JString (cx_portfolio_id c)), (''period'', JString (cx_period c)), (''as_of_date'', json_opt (cx_as_of_date c)),
      (''reporting_currency'', json_opt (cx_reporting_currency c)), (''benchmark'', json_opt (cx_benchmark c))]"

definition accepted_output_schema :: string where
  "accepted_output_schema = ''lotus-ai.workflow_pack_run.accepted_output.advisor_brief.v1''"

definition hashed_content :: "accepted_content \<Rightarrow> json" where
  "hashed_content c = JObject
     [(''schema_id'', JString accepted_output_schema), (''run_id'', JString (an_run_id c)), (''pack_id'', JString (an_pack_id c)),
      (''pack_version'', JString (an_pack_version c)), (''advisor_brief_status'', JString (an_advisor_brief_status c)),
      (''coverage_state'', JString (an_coverage_state c)), (''grounded_summary'', JString (an_grounded_summary c)),
      (''talking_points'', JList (map narrative_item_json (an_talking_points c))),
      (''risks_and_exceptions'', JList (map narrative_item_json (an_risks_and_exceptions c))), (''context'', context_json (an_context c)),
      (''source_refs'', JList (map JString (an_source_refs c)))]"

definition content_hash :: "(string \<Rightarrow> string) \<Rightarrow> accepted_content \<Rightarrow> string" where
  "content_hash sha c = sha (canonical_json (hashed_content c))"

definition accepted_content_of :: "run_record \<Rightarrow> json_object \<Rightarrow> accepted_failure + accepted_content" where
  "accepted_content_of r p =
     (case section_of p ''structured_output'' of
        None \<Rightarrow> Inl output_artifact_malformed
      | Some s \<Rightarrow>
        and_then (required_string s ''portfolio_id'') (\<lambda>portfolio. and_then (required_string s ''period'') (\<lambda>period.
        and_then (required_string s ''grounded_summary'') (\<lambda>summary. and_then (required_string s ''advisor_brief_status'') (\<lambda>status.
        and_then (required_string s ''coverage_state'') (\<lambda>coverage.
        and_then (narrative_items (dict_get s ''talking_points'')) (\<lambda>points. and_then (narrative_items (dict_get s ''risks_and_exceptions'')) (\<lambda>risks.
        and_then (texts_in p ''source_refs'') (\<lambda>refs.
          Inr \<lparr>an_run_id = rr_run_id r, an_pack_id = rr_pack_id r, an_pack_version = rr_pack_version r, an_advisor_brief_status = status,
            an_coverage_state = coverage, an_grounded_summary = summary, an_talking_points = points, an_risks_and_exceptions = risks,
            an_context = \<lparr>cx_portfolio_id = portfolio, cx_period = period, cx_as_of_date = optional_string s ''as_of_date'',
              cx_reporting_currency = optional_string s ''reporting_currency'', cx_benchmark = optional_string s ''benchmark''\<rparr>,
            an_source_refs = refs\<rparr>)))))))))"

definition project_advisor_brief_v1 ::
  "(string \<Rightarrow> string) \<Rightarrow> run_record \<Rightarrow> json_object \<Rightarrow> accepted_review \<Rightarrow> accepted_validation \<Rightarrow> accepted_failure + accepted_output" where
  "project_advisor_brief_v1 sha r p review validation =
     and_then (accepted_content_of r p) (\<lambda>c.
     and_then (texts_in p ''evidence_types'') (\<lambda>types.
       Inr \<lparr>ao_content = c, ao_pack_family = rr_pack_family r, ao_task_id = rr_task_id r, ao_request_id = rr_request_id r,
         ao_tenant_id = (case rr_tenant_id r of Some t \<Rightarrow> t | None \<Rightarrow> ''None''), ao_workflow_authority_owner = rr_workflow_authority_owner r,
         ao_output_validation = validation, ao_review = review, ao_evidence_types = types, ao_content_hash = content_hash sha c\<rparr>))"

definition has_projector :: "run_record \<Rightarrow> bool" where
  "has_projector r \<longleftrightarrow> rr_pack_id r @ ''@'' @ rr_pack_version r = ''advisor_brief.pack@v1''"

definition absent_text :: "string option \<Rightarrow> bool" where
  "absent_text x \<longleftrightarrow> x = None \<or> x = Some []"

definition accepted_output_of :: "(string \<Rightarrow> string) \<Rightarrow> string \<Rightarrow> string \<Rightarrow> 'w pack_world_scheme \<Rightarrow> accepted_failure + accepted_output" where
  "accepted_output_of sha run_id caller_tenant_id w =
     (case get_pack_run w run_id of
        None \<Rightarrow> Inl AcceptedOutputNotFoundError
      | Some r \<Rightarrow>
        if absent_text (rr_tenant_id r) \<or> rr_tenant_id r \<noteq> Some caller_tenant_id then Inl AcceptedOutputNotFoundError
        else if \<not> has_projector r then Inl pack_projection_unsupported
        else if rr_runtime_state r \<noteq> RS_COMPLETED then Inl (AcceptedOutputNotAvailableError ''run_not_completed'')
        else if rr_review_state r \<noteq> RV_ACCEPTED then Inl (AcceptedOutputNotAvailableError ''run_not_accepted'')
        else if \<not> absent_text (rr_superseded_by_run_id r) then Inl (AcceptedOutputNotAvailableError ''run_superseded'')
        else and_then (require_validated_output r) (\<lambda>validation.
             and_then (load_intact_output_payload sha r w) (\<lambda>p.
             and_then (accepting_review_identity run_id w) (\<lambda>review. project_advisor_brief_v1 sha r p review validation))))"

definition on_ready_runs ::
  "'e pack_env_scheme \<Rightarrow> ('w pack_world_scheme \<Rightarrow> (accepted_failure + 'a) \<times> 'w pack_world_scheme) \<Rightarrow> 'w pack_world_scheme
     \<Rightarrow> (accepted_failure + 'a) \<times> 'w pack_world_scheme" where
  "on_ready_runs e f w = (case ensure_workflow_pack_run_store_ready e w of (Inl err, w1) \<Rightarrow> (Inl (Raised err), w1) | (Inr _, w1) \<Rightarrow> f w1)"

definition build_workflow_pack_run_accepted_output ::
  "'e pack_env_scheme \<Rightarrow> string \<Rightarrow> string \<Rightarrow> 'w pack_world_scheme \<Rightarrow> (accepted_failure + accepted_output) \<times> 'w pack_world_scheme" where
  "build_workflow_pack_run_accepted_output e run_id caller_tenant_id w =
     on_ready_runs e (\<lambda>w1. (accepted_output_of (ae_sha (qe_artifacts e)) run_id caller_tenant_id w1, w1)) w"

section \<open>The latest accepted run\<close>

definition candidate_scan_limit :: int where
  "candidate_scan_limit = 1000"

definition accepted_query :: "string \<Rightarrow> string \<Rightarrow> run_query" where
  "accepted_query tenant family = any_run\<lparr>ry_tenant_id := Some tenant, ry_pack_family := Some family, ry_runtime_state := Some RS_COMPLETED,
     ry_review_state := Some RV_ACCEPTED\<rparr>"

definition accepted_candidates :: "string \<Rightarrow> string \<Rightarrow> 'w pack_world_scheme \<Rightarrow> run_record list" where
  "accepted_candidates tenant family w =
     filter (\<lambda>r. absent_text (rr_superseded_by_run_id r)) (query_runs (accepted_query tenant family) candidate_scan_limit w)"

definition review_recency :: "'w pack_world_scheme \<Rightarrow> run_record \<Rightarrow> accepted_failure + (timestamp \<times> run_record)" where
  "review_recency w r =
     (case rs_latest_review_event_at (build_review_summary (list_run_events w (rr_run_id r))) of
        None \<Rightarrow> Inl output_artifact_malformed
      | Some t \<Rightarrow> if t = [] then Inl output_artifact_malformed else Inr (t, r))"

definition by_accepting_review_recency :: "'w pack_world_scheme \<Rightarrow> run_record list \<Rightarrow> accepted_failure + run_record list" where
  "by_accepting_review_recency w rs =
     and_then (collect (review_recency w) rs) (\<lambda>keyed. Inr (map snd (sorted_desc (\<lambda>(t, r). [t, rr_run_id r]) keyed)))"

record latest_request =
  lq_pack_family :: string
  lq_portfolio_id :: string
  lq_tenant_id :: string
  lq_as_of_date :: "string option"
  lq_reporting_currency :: "string option"

definition context_matches :: "latest_request \<Rightarrow> accepted_output \<Rightarrow> bool" where
  "context_matches q x \<longleftrightarrow> wanted_opt (lq_as_of_date q) (cx_as_of_date (an_context (ao_content x)))
     \<and> wanted_opt (lq_reporting_currency q) (cx_reporting_currency (an_context (ao_content x)))"

fun first_match ::
  "'e pack_env_scheme \<Rightarrow> latest_request \<Rightarrow> bool \<Rightarrow> run_record list \<Rightarrow> 'w pack_world_scheme \<Rightarrow> (accepted_failure + accepted_output) \<times> 'w pack_world_scheme" where
  "first_match e q asserted [] w =
     (Inl (AcceptedLatestNotFoundError (if asserted then ''no_context_match'' else ''no_accepted_run'')), w)"
| "first_match e q asserted (r # rs) w =
     (case build_workflow_pack_run_accepted_output e (rr_run_id r) (lq_tenant_id q) w of
        (Inl f, w1) \<Rightarrow> (Inl f, w1)
      | (Inr x, w1) \<Rightarrow>
        if cx_portfolio_id (an_context (ao_content x)) \<noteq> lq_portfolio_id q then first_match e q asserted rs w1
        else if \<not> context_matches q x then first_match e q True rs w1
        else (Inr x, w1))"

text \<open>The answer is the projection that the envelope is made of; the family of the envelope is the one that was asked for.\<close>

definition build_workflow_pack_run_accepted_latest ::
  "'e pack_env_scheme \<Rightarrow> latest_request \<Rightarrow> 'w pack_world_scheme \<Rightarrow> (accepted_failure + accepted_output) \<times> 'w pack_world_scheme" where
  "build_workflow_pack_run_accepted_latest e q w =
     (if lq_pack_family q \<noteq> ''advisor_brief'' then (Inl pack_projection_unsupported, w)
      else on_ready_runs e (\<lambda>w1.
        let candidates = accepted_candidates (lq_tenant_id q) (lq_pack_family q) w1 in
        if int (length candidates) \<ge> candidate_scan_limit then (Inl (AcceptedOutputNotAvailableError ''lookup_scan_saturated''), w1)
        else case by_accepting_review_recency w1 candidates of
          Inl f \<Rightarrow> (Inl f, w1)
        | Inr rs \<Rightarrow> first_match e q False rs w1) w)"

section \<open>What is published\<close>

lemma and_then_Inr_iff [simp]: "and_then x f = Inr b \<longleftrightarrow> (\<exists>a. x = Inr a \<and> f a = Inr b)"
  by (cases x) auto

lemma get_object_read_on [simp]: "get_object (read_on w) k = get_object w k"
  by (simp add: get_object_def read_on_def)

lemma list_run_events_read_on [simp]: "list_run_events (read_on w) i = list_run_events w i"
  by (simp add: list_run_events_def)

lemma load_intact_read_on [simp]: "load_intact_output_payload sha r (read_on w) = load_intact_output_payload sha r w"
  unfolding load_intact_output_payload_def load_verified_summary_object_def get_object_read_on ..

lemma accepted_output_read_on [simp]: "accepted_output_of sha i t (read_on w) = accepted_output_of sha i t w"
  unfolding accepted_output_of_def accepting_review_identity_def ledger_frame load_intact_read_on list_run_events_read_on ..

lemma build_accepted_output_eq:
  "build_workflow_pack_run_accepted_output e i t w =
     (if pe_run_store_ready e (qw_readings w) then (accepted_output_of (ae_sha (qe_artifacts e)) i t w, read_on w)
      else (Inl (Raised run_store_unavailable), read_on w))"
  by (simp add: build_workflow_pack_run_accepted_output_def on_ready_runs_def ensure_workflow_pack_run_store_ready_def)

text \<open>A run that may be published, and the bytes that its review covers.\<close>

definition publishable :: "string \<Rightarrow> run_record \<Rightarrow> bool" where
  "publishable tenant r \<longleftrightarrow> rr_tenant_id r = Some tenant \<and> tenant \<noteq> [] \<and> rr_runtime_state r = RS_COMPLETED \<and> rr_review_state r = RV_ACCEPTED
     \<and> absent_text (rr_superseded_by_run_id r)
     \<and> (\<exists>d \<in> set (rr_evidence_descriptors r). ed_evidence_type d = ''output_validation'' \<and> dict_get (ed_attributes d) ''validation_state'' = Some (JString ''VALIDATED''))"

definition intact_payload :: "(string \<Rightarrow> string) \<Rightarrow> run_record \<Rightarrow> 'w artifact_world_scheme \<Rightarrow> json_object \<Rightarrow> bool" where
  "intact_payload sha r w p \<longleftrightarrow> (\<exists>a \<in> set (rr_artifact_refs r). \<exists>stored.
     get_object w (parse_storage_reference (ar_storage_reference a)) = Some stored \<and> sha (so_payload stored) = py_lower (py_strip (ar_checksum_sha256 a))
     \<and> ar_byte_size a = length (so_payload stored) \<and> json_loads (so_payload stored) = Some (JObject p))"

lemma find_SomeD: "find P xs = Some x \<Longrightarrow> x \<in> set xs \<and> P x"
  by (induction xs) (auto split: if_splits)

lemma validated_evidence:
  "require_validated_output r = Inr v \<Longrightarrow>
     \<exists>d \<in> set (rr_evidence_descriptors r). ed_evidence_type d = ''output_validation'' \<and> dict_get (ed_attributes d) ''validation_state'' = Some (JString ''VALIDATED'')"
  by (auto simp: require_validated_output_def dest: find_SomeD split: option.splits if_splits)

lemma loaded_intact: "load_intact_output_payload sha r w = Inr p \<Longrightarrow> intact_payload sha r w p"
  by (fastforce simp: load_intact_output_payload_def load_verified_summary_object_def intact_payload_def Let_def dest: find_SomeD
      split: option.splits sum.splits if_splits json.splits)

lemma accepted_outputD:
  assumes "accepted_output_of sha i t w = Inr x"
  obtains r p where "get_pack_run w i = Some r" "publishable t r" "intact_payload sha r w p" "accepted_content_of r p = Inr (ao_content x)"
    "ao_content_hash x = content_hash sha (ao_content x)"
proof -
  obtain r where r: "get_pack_run w i = Some r" using assms by (auto simp: accepted_output_of_def split: option.splits)
  have gates: "rr_tenant_id r = Some t" "t \<noteq> []" "rr_runtime_state r = RS_COMPLETED" "rr_review_state r = RV_ACCEPTED" "absent_text (rr_superseded_by_run_id r)"
    using assms by (auto simp: accepted_output_of_def r absent_text_def split: if_splits)
  obtain v p u where v: "require_validated_output r = Inr v" and p: "load_intact_output_payload sha r w = Inr p"
    and x: "project_advisor_brief_v1 sha r p u v = Inr x"
    using assms by (auto simp: accepted_output_of_def r split: if_splits)
  have "accepted_content_of r p = Inr (ao_content x)" "ao_content_hash x = content_hash sha (ao_content x)"
    using x by (auto simp: project_advisor_brief_v1_def)
  then show thesis using that r gates validated_evidence [OF v] loaded_intact [OF p] by (auto simp: publishable_def)
qed

text \<open>
  C37. Nothing is published around a gate: a published output belongs to a completed, accepted and not superseded run of the caller's
  tenant with a recorded VALIDATED verdict, and is read from bytes that still have the recorded checksum and size.
\<close>

theorem accepted_output_is_gated:
  assumes "fst (build_workflow_pack_run_accepted_output e i t w) = Inr x"
  shows "\<exists>r p. get_pack_run w i = Some r \<and> publishable t r \<and> intact_payload (ae_sha (qe_artifacts e)) r w p \<and> accepted_content_of r p = Inr (ao_content x)"
proof -
  have "accepted_output_of (ae_sha (qe_artifacts e)) i t w = Inr x" using assms by (simp add: build_accepted_output_eq split: if_splits)
  then show ?thesis by (rule accepted_outputD) blast
qed

section \<open>The content hash\<close>

lemma json_opt_inject [simp]: "json_opt a = json_opt b \<longleftrightarrow> a = b"
  by (cases a; cases b) (simp_all add: json_opt_def)

lemma json_wf_opt [simp]: "json_wf (json_opt x)"
  by (cases x) (simp_all add: json_opt_def)

lemma list_all_id_map [simp]: "list_all id (map f xs) \<longleftrightarrow> (\<forall>x \<in> set xs. f x)"
  by (induction xs) simp_all

lemma json_wf_strings [simp]: "json_wf (JList (map JString xs))"
  by (simp add: comp_def)

lemma accepted_json_wf [simp]:
  "json_wf (evidence_ref_json x)" "json_wf (narrative_item_json y)" "json_wf (context_json c)" "json_wf (hashed_content a)"
  by (simp_all add: evidence_ref_json_def narrative_item_json_def context_json_def hashed_content_def)

text \<open>Two objects with the same sorted form have the same members up to sorting.\<close>

lemma sorted_members_agree:
  assumes "sort_json (JObject a) = sort_json (JObject b)" and "dict_wf a" and "dict_wf b"
  shows "map_option sort_json (dict_get a k) = map_option sort_json (dict_get b k)"
  using assms by (metis dict_get_sort_members json.inject(6) sort_json_object)

lemma evidence_ref_json_inject: "sort_json (evidence_ref_json a) = sort_json (evidence_ref_json b) \<longleftrightarrow> a = b"
proof
  assume eq: "sort_json (evidence_ref_json a) = sort_json (evidence_ref_json b)"
  note f = sorted_members_agree [OF eq [unfolded evidence_ref_json_def]]
  show "a = b" using f [of "''metric_label''"] f [of "''metric_value''"] f [of "''source_ref''"] by simp
qed simp

lemma map_inject_on: "map f xs = map f ys \<Longrightarrow> (\<And>a b. f a = f b \<Longrightarrow> a = b) \<Longrightarrow> xs = ys"
  by (metis injI inj_map_eq_map)

lemma narrative_item_json_inject: "sort_json (narrative_item_json a) = sort_json (narrative_item_json b) \<longleftrightarrow> a = b"
proof
  assume eq: "sort_json (narrative_item_json a) = sort_json (narrative_item_json b)"
  note f = sorted_members_agree [OF eq [unfolded narrative_item_json_def]]
  have "ni_evidence_refs a = ni_evidence_refs b"
    by (rule map_inject_on [of "sort_json \<circ> evidence_ref_json"]) (use f [of "''evidence_refs''"] in \<open>simp_all add: evidence_ref_json_inject\<close>)
  then show "a = b" using f [of "''headline''"] f [of "''detail''"] f [of "''tone''"] by simp
qed simp

lemma context_json_inject: "sort_json (context_json a) = sort_json (context_json b) \<longleftrightarrow> a = b"
proof
  assume eq: "sort_json (context_json a) = sort_json (context_json b)"
  note f = sorted_members_agree [OF eq [unfolded context_json_def]]
  show "a = b" using f [of "''portfolio_id''"] f [of "''period''"] f [of "''as_of_date''"] f [of "''reporting_currency''"] f [of "''benchmark''"] by simp
qed simp

lemma hashed_content_inject: "sort_json (hashed_content a) = sort_json (hashed_content b) \<longleftrightarrow> a = b"
proof
  assume eq: "sort_json (hashed_content a) = sort_json (hashed_content b)"
  note f = sorted_members_agree [OF eq [unfolded hashed_content_def]]
  have items: "xs = ys" if "map (sort_json \<circ> narrative_item_json) xs = map (sort_json \<circ> narrative_item_json) ys" for xs ys
    using that by (rule map_inject_on) (simp add: narrative_item_json_inject)
  have "an_talking_points a = an_talking_points b" by (rule items) (use f [of "''talking_points''"] in simp)
  moreover have "an_risks_and_exceptions a = an_risks_and_exceptions b" by (rule items) (use f [of "''risks_and_exceptions''"] in simp)
  moreover have "an_source_refs a = an_source_refs b"
    by (rule map_inject_on [of "sort_json \<circ> JString"]) (use f [of "''source_refs''"] in simp_all)
  moreover have "an_context a = an_context b" using f [of "''context''"] by (simp add: context_json_inject)
  moreover have "an_run_id a = an_run_id b" "an_pack_id a = an_pack_id b" "an_pack_version a = an_pack_version b"
    using f [of "''run_id''"] f [of "''pack_id''"] f [of "''pack_version''"] by simp_all
  moreover have "an_advisor_brief_status a = an_advisor_brief_status b" "an_coverage_state a = an_coverage_state b" "an_grounded_summary a = an_grounded_summary b"
    using f [of "''advisor_brief_status''"] f [of "''coverage_state''"] f [of "''grounded_summary''"] by simp_all
  ultimately show "a = b" by simp
qed simp

text \<open>
  C39. The content hash changes exactly when a published narrative or context field changes: two outputs have the same hash if and only
  if they have the same content, for a digest that does not collide on their canonical texts.
\<close>

theorem content_hash_identifies_content:
  assumes "fst (build_workflow_pack_run_accepted_output e i t w) = Inr x" and "fst (build_workflow_pack_run_accepted_output e i' t' w') = Inr y"
    and "inj_on (ae_sha (qe_artifacts e)) {canonical_json (hashed_content (ao_content x)), canonical_json (hashed_content (ao_content y))}"
  shows "ao_content_hash x = ao_content_hash y \<longleftrightarrow> ao_content x = ao_content y"
proof -
  have "accepted_output_of (ae_sha (qe_artifacts e)) i t w = Inr x" "accepted_output_of (ae_sha (qe_artifacts e)) i' t' w' = Inr y"
    using assms by (simp_all add: build_accepted_output_eq split: if_splits)
  then have "ao_content_hash x = content_hash (ae_sha (qe_artifacts e)) (ao_content x)" "ao_content_hash y = content_hash (ae_sha (qe_artifacts e)) (ao_content y)"
    by (auto elim: accepted_outputD)
  then show ?thesis
    using inj_onD [OF assms(3)] canonical_json_inject [of "hashed_content (ao_content x)" "hashed_content (ao_content y)"]
    by (auto simp: content_hash_def hashed_content_inject)
qed

section \<open>The latest acceptance\<close>

lemma accepted_content_run: "accepted_content_of r p = Inr c \<Longrightarrow> an_run_id c = rr_run_id r"
  by (auto simp: accepted_content_of_def split: option.splits)

text \<open>The instant of the newest review of a run and its identifier, which order the candidates.\<close>

definition review_key :: "'w pack_world_scheme \<Rightarrow> run_record \<Rightarrow> string list" where
  "review_key w r = [case rs_latest_review_event_at (build_review_summary (list_run_events w (rr_run_id r))) of None \<Rightarrow> [] | Some t \<Rightarrow> t, rr_run_id r]"

lemma collect_Inr: "collect f xs = Inr ys \<Longrightarrow> list_all2 (\<lambda>x y. f x = Inr y) xs ys"
  by (induction xs arbitrary: ys) auto

lemma sorted_desc_sorted: "sorted (map f (rev (sorted_desc f xs)))"
  by (simp add: sorted_desc_def)

lemma by_recency:
  assumes "by_accepting_review_recency w rs = Inr ss"
  shows "set ss = set rs" and "sorted (map (review_key w) (rev ss))"
proof -
  obtain keyed where k: "collect (review_recency w) rs = Inr keyed" and ss: "ss = map snd (sorted_desc (\<lambda>(t, r). [t, rr_run_id r]) keyed)"
    using assms by (auto simp: by_accepting_review_recency_def)
  have each: "list_all2 (\<lambda>r y. review_recency w r = Inr y) rs keyed" by (rule collect_Inr [OF k])
  have key: "snd y = r \<and> (\<lambda>(t, r). [t, rr_run_id r]) y = review_key w r" if "review_recency w r = Inr y" for r y
    using that by (auto simp: review_recency_def review_key_def split: option.splits if_splits)
  have keyed: "map snd keyed = rs" using each by (induction rule: list_all2_induct) (auto dest: key)
  then have "snd ` set keyed = set rs" by (metis set_map)
  then show "set ss = set rs" by (simp add: ss)
  have same: "review_key w (snd y) = (\<lambda>(t, r). [t, rr_run_id r]) y" if "y \<in> set keyed" for y
  proof -
    obtain n where "n < length keyed" "keyed ! n = y" using \<open>y \<in> set keyed\<close> by (auto simp: in_set_conv_nth)
    then have "review_recency w (rs ! n) = Inr y" using list_all2_nthD2 [OF each, of n] by simp
    then show ?thesis using key [of "rs ! n" y] by simp
  qed
  have "map (review_key w) (rev ss) = map (\<lambda>(t, r). [t, rr_run_id r]) (rev (sorted_desc (\<lambda>(t, r). [t, rr_run_id r]) keyed))"
    by (simp add: ss rev_map [symmetric] same)
  then show "sorted (map (review_key w) (rev ss))" by (simp only: sorted_desc_sorted)
qed

definition answers :: "latest_request \<Rightarrow> accepted_output \<Rightarrow> bool" where
  "answers q x \<longleftrightarrow> cx_portfolio_id (an_context (ao_content x)) = lq_portfolio_id q \<and> context_matches q x"

lemma first_match_found:
  assumes "first_match e q asserted rs w = (Inr x, w')"
  shows "\<exists>pre r post. rs = pre @ r # post \<and> accepted_output_of (ae_sha (qe_artifacts e)) (rr_run_id r) (lq_tenant_id q) w = Inr x \<and> answers q x
     \<and> (\<forall>s \<in> set pre. \<exists>y. accepted_output_of (ae_sha (qe_artifacts e)) (rr_run_id s) (lq_tenant_id q) w = Inr y \<and> \<not> answers q y)"
  using assms
proof (induction rs arbitrary: asserted w)
  case (Cons r rs)
  let ?f = "\<lambda>s. accepted_output_of (ae_sha (qe_artifacts e)) (rr_run_id s) (lq_tenant_id q)"
  obtain y where y: "?f r w = Inr y"
    using Cons.prems by (auto simp: build_accepted_output_eq split: if_splits sum.splits)
  show ?case
  proof (cases "answers q y")
    case True
    then have "x = y" using Cons.prems y by (auto simp: build_accepted_output_eq answers_def split: if_splits)
    then show ?thesis using y True by (intro exI [of _ "[]"] exI [of _ r] exI [of _ rs]) simp
  next
    case False
    then obtain b where "first_match e q b rs (read_on w) = (Inr x, w')"
      using Cons.prems y by (auto simp: build_accepted_output_eq answers_def split: if_splits)
    from Cons.IH [OF this] obtain pre s post where "rs = pre @ s # post" "?f s w = Inr x" "answers q x"
      "\<forall>s \<in> set pre. \<exists>y. ?f s w = Inr y \<and> \<not> answers q y" by auto
    then show ?thesis using y False by (intro exI [of _ "r # pre"] exI [of _ s] exI [of _ post]) simp
  qed
qed simp

text \<open>Under the invariant of the ledger no accepted run names a replacement, so a scan that is not refused has seen every accepted run.\<close>

definition accepted_run :: "latest_request \<Rightarrow> run_record \<Rightarrow> bool" where
  "accepted_run q r \<longleftrightarrow> rr_tenant_id r = Some (lq_tenant_id q) \<and> rr_pack_family r = lq_pack_family q \<and> rr_runtime_state r = RS_COMPLETED \<and> rr_review_state r = RV_ACCEPTED"

lemma accepted_query_matches: "run_matches (accepted_query (lq_tenant_id q) (lq_pack_family q)) r = accepted_run q r"
  by (auto simp: run_matches_def accepted_query_def any_run_def wanted_def wanted_opt_def accepted_run_def)

lemma unfiltered_scan_complete:
  assumes "int (length (filter P (take (nat (max n 0)) xs))) < n" and "\<forall>x \<in> set xs. P x"
  shows "set (filter P (take (nat (max n 0)) xs)) = set xs"
proof -
  have same: "filter P (take (nat (max n 0)) xs) = take (nat (max n 0)) xs"
    using assms(2) by (auto simp: filter_id_conv dest: in_set_takeD)
  have "take (nat (max n 0)) xs = xs" using assms(1) unfolding same by (simp add: min_def split: if_splits)
  then show ?thesis unfolding same by simp
qed

lemma candidates_complete:
  assumes "ledger_ok w" and "dict_wf (pw_runs w)" and "int (length (accepted_candidates (lq_tenant_id q) (lq_pack_family q) w)) < candidate_scan_limit"
  shows "r \<in> set (accepted_candidates (lq_tenant_id q) (lq_pack_family q) w) \<longleftrightarrow> get_pack_run w (rr_run_id r) = Some r \<and> accepted_run q r"
proof -
  let ?all = "sorted_desc rr_created_at (filter (accepted_run q) (dict_values (pw_runs w)))"
  have stored: "s \<in> set (dict_values (pw_runs w)) \<longleftrightarrow> get_pack_run w (rr_run_id s) = Some s" for s
  proof -
    have "s \<in> set (dict_values (pw_runs w)) \<longleftrightarrow> (\<exists>k. get_pack_run w k = Some s)"
      unfolding get_pack_run_def by (rule dict_value_iff_get [OF assms(2)])
    then show ?thesis using assms(1) by (auto simp: ledger_ok_def run_ok_def)
  qed
  have "absent_text (rr_superseded_by_run_id s)" if "s \<in> set (dict_values (pw_runs w))" "accepted_run q s" for s
  proof -
    have "run_ok (rr_run_id s) s" using assms(1) that(1) stored unfolding ledger_ok_def by blast
    then show ?thesis using that(2) by (auto simp: run_ok_def accepted_run_def absent_text_def)
  qed
  then have "\<forall>s \<in> set ?all. absent_text (rr_superseded_by_run_id s)" by simp
  then have "set (accepted_candidates (lq_tenant_id q) (lq_pack_family q) w) = set ?all"
    using assms(3) unfolding accepted_candidates_def query_runs_def accepted_query_matches by (intro unfiltered_scan_complete)
  then show ?thesis using stored [of r] by auto
qed

text \<open>
  C38. The lookup answers with the newest acceptance: the run it names is an accepted run of the tenant that asserts the requested portfolio
  and context, and every accepted run of the family that was reviewed later was resolved and asserts another portfolio or context.
\<close>

theorem latest_is_the_newest_acceptance:
  assumes "fst (build_workflow_pack_run_accepted_latest e q w) = Inr x" and "ledger_ok w" and "dict_wf (pw_runs w)"
  shows "\<exists>r. get_pack_run w (rr_run_id r) = Some r \<and> an_run_id (ao_content x) = rr_run_id r \<and> accepted_run q r \<and> answers q x
     \<and> (\<forall>s. get_pack_run w (rr_run_id s) = Some s \<longrightarrow> accepted_run q s \<longrightarrow> review_key w r < review_key w s \<longrightarrow>
           (\<exists>y. accepted_output_of (ae_sha (qe_artifacts e)) (rr_run_id s) (lq_tenant_id q) w = Inr y \<and> \<not> answers q y))"
proof -
  let ?w = "read_on w" let ?c = "accepted_candidates (lq_tenant_id q) (lq_pack_family q) w"
  have frame: "accepted_candidates t family ?w = accepted_candidates t family w" for t family
    by (simp add: accepted_candidates_def query_runs_def read_on_def)
  obtain rs w' where small: "int (length ?c) < candidate_scan_limit" and rs: "by_accepting_review_recency ?w ?c = Inr rs"
    and found: "first_match e q False rs ?w = (Inr x, w')"
    using assms(1)
    by (cases "first_match e q False (projr (by_accepting_review_recency ?w ?c)) ?w")
      (auto simp: build_workflow_pack_run_accepted_latest_def on_ready_runs_def ensure_workflow_pack_run_store_ready_def frame Let_def
        split: if_splits sum.splits)
  obtain pre r post where split: "rs = pre @ r # post" and out: "accepted_output_of (ae_sha (qe_artifacts e)) (rr_run_id r) (lq_tenant_id q) w = Inr x"
    and ans: "answers q x" and before: "\<forall>s \<in> set pre. \<exists>y. accepted_output_of (ae_sha (qe_artifacts e)) (rr_run_id s) (lq_tenant_id q) w = Inr y \<and> \<not> answers q y"
    using first_match_found [OF found] by auto
  note complete = candidates_complete [OF assms(2,3) small]
  have r: "get_pack_run w (rr_run_id r) = Some r" "accepted_run q r" using complete by_recency(1) [OF rs] split by auto
  have "an_run_id (ao_content x) = rr_run_id r"
    using out by (rule accepted_outputD) (use r accepted_content_run in auto)
  moreover have "s \<in> set pre" if "get_pack_run w (rr_run_id s) = Some s" "accepted_run q s" "review_key w r < review_key w s" for s
  proof -
    have "s \<in> set rs" using that complete by_recency(1) [OF rs] by simp
    moreover have "review_key w u \<le> review_key w r" if "u \<in> set post" for u
      using by_recency(2) [OF rs] that unfolding split by (simp add: sorted_append review_key_def)
    ultimately show ?thesis using that(3) split by (auto simp: not_less [symmetric])
  qed
  ultimately show ?thesis using r ans before by blast
qed

section \<open>From the recording to the publication\<close>

text \<open>Reading a brief does not depend on the order of its members.\<close>

lemma sort_json_text [simp]: "sort_json j = JString s \<longleftrightarrow> j = JString s"
  by (cases j) simp_all

lemma json_wf_object: "json_wf (JObject d) \<longleftrightarrow> dict_wf d \<and> (\<forall>j \<in> set (dict_values d). json_wf j)"
  by (auto simp: comp_def)

lemma member_wf: "json_wf (JObject d) \<Longrightarrow> dict_get d k = Some j \<Longrightarrow> json_wf j"
  using dict_value_iff_get [of d j] unfolding json_wf_object by blast

lemma text_at_sorted [simp]: "dict_wf d \<Longrightarrow> text_at (sort_members d) k = text_at d k"
  by (auto simp: text_at_def split: option.splits json.splits)

lemma string_sorted [simp]:
  "dict_wf d \<Longrightarrow> required_string (sort_members d) k = required_string d k" "dict_wf d \<Longrightarrow> optional_string (sort_members d) k = optional_string d k"
  by (simp_all add: required_string_def optional_string_def)

lemma collect_sorted: "(\<And>x. x \<in> set xs \<Longrightarrow> f (g x) = f x) \<Longrightarrow> collect f (map g xs) = collect f xs"
  by (induction xs) simp_all

lemma evidence_ref_sorted: "json_wf j \<Longrightarrow> evidence_ref_of (sort_json j) = evidence_ref_of j"
  by (cases j) (simp_all add: evidence_ref_of_def)

lemma evidence_refs_sorted:
  assumes "\<And>j. raw = Some j \<Longrightarrow> json_wf j"
  shows "evidence_refs (map_option sort_json raw) = evidence_refs raw"
proof (cases raw)
  case (Some j)
  then show ?thesis using assms by (cases j) (auto simp: evidence_refs_def intro!: collect_sorted evidence_ref_sorted)
qed simp

lemma narrative_item_sorted:
  assumes "json_wf j"
  shows "narrative_item_of (sort_json j) = narrative_item_of j"
proof (cases j)
  case (JObject d)
  then have "evidence_refs (map_option sort_json (dict_get d ''evidence_refs'')) = evidence_refs (dict_get d ''evidence_refs'')"
    using assms by (intro evidence_refs_sorted) (auto dest: member_wf)
  then show ?thesis using assms JObject by (simp add: narrative_item_of_def)
qed (simp_all add: narrative_item_of_def)

lemma narrative_items_sorted:
  assumes "json_wf (JObject d)"
  shows "narrative_items (map_option sort_json (dict_get d k)) = narrative_items (dict_get d k)"
proof (cases "dict_get d k")
  case (Some j)
  then have "json_wf j" using member_wf [OF assms] by blast
  then show ?thesis using Some by (cases j) (auto simp: narrative_items_def intro!: collect_sorted narrative_item_sorted)
qed simp

definition recorded_brief :: "task_execution_context \<Rightarrow> task_response \<Rightarrow> json_object" where
  "recorded_brief c t = [(''structured_output'', JObject (tr_structured_output t)), (''source_refs'', JList (map JString (tx_source_refs (tk_context (xc_request c)))))]"

lemma accepted_content_sorted:
  assumes "json_wf (JObject (tr_structured_output t))" and "dict_get p ''structured_output'' = Some (JObject (sort_members (tr_structured_output t)))"
    and "dict_get p ''source_refs'' = Some (JList (map JString (tx_source_refs (tk_context (xc_request c)))))"
  shows "accepted_content_of r p = accepted_content_of r (recorded_brief c t)"
proof -
  have "dict_wf (tr_structured_output t)" using assms(1) by simp
  moreover have "texts_in p ''source_refs'' = texts_in (recorded_brief c t) ''source_refs''" using assms(3) by (simp add: texts_in_def recorded_brief_def)
  moreover have "section_of p ''structured_output'' = Some (sort_members (tr_structured_output t))"
    "section_of (recorded_brief c t) ''structured_output'' = Some (tr_structured_output t)"
    using assms(2) by (simp_all add: section_of_def recorded_brief_def)
  ultimately show ?thesis by (simp add: accepted_content_of_def narrative_items_sorted [OF assms(1)])
qed

lemma dumps_sorted_loads: "json_wf j \<Longrightarrow> json_loads (dumps_sorted j) = Some (sort_json j)"
  using json_loads_dumps [OF sort_json_wf, of j "'' ''" "'' ''"] by (simp add: dumps_sorted_def json_space_def)

text \<open>The recorded summary and what it reads back as.\<close>

definition summary_members :: "string \<Rightarrow> task_execution_context \<Rightarrow> task_response \<Rightarrow> string \<Rightarrow> string \<Rightarrow> bool \<Rightarrow> run_review_state \<Rightarrow> json_object" where
  "summary_members i c t pack version b s = (case output_summary_json i c t pack version b s of JObject d \<Rightarrow> d | _ \<Rightarrow> [])"

lemma summary_reads_back:
  assumes "json_wf (JObject (tr_structured_output t))"
  shows "json_loads (dumps_sorted (output_summary_json i c t pack version b s)) = Some (JObject (sort_members (summary_members i c t pack version b s)))"
    and "dict_get (sort_members (summary_members i c t pack version b s)) ''run_id'' = Some (JString i)"
    and "dict_get (sort_members (summary_members i c t pack version b s)) ''pack_id'' = Some (JString pack)"
    and "dict_get (sort_members (summary_members i c t pack version b s)) ''structured_output'' = Some (JObject (sort_members (tr_structured_output t)))"
    and "dict_get (sort_members (summary_members i c t pack version b s)) ''source_refs'' = Some (JList (map JString (tx_source_refs (tk_context (xc_request c)))))"
    and "dict_get (sort_members (summary_members i c t pack version b s)) ''evidence_types'' = Some (JList (map (\<lambda>d. JString (ed_evidence_type d)) (tr_evidence t)))"
proof -
  have wf: "json_wf (output_summary_json i c t pack version b s)" using assms by (simp add: output_summary_json_def comp_def)
  have eq: "output_summary_json i c t pack version b s = JObject (summary_members i c t pack version b s)" by (simp add: summary_members_def output_summary_json_def)
  then have "dict_wf (summary_members i c t pack version b s)" using wf by simp
  then show "dict_get (sort_members (summary_members i c t pack version b s)) ''run_id'' = Some (JString i)"
    and "dict_get (sort_members (summary_members i c t pack version b s)) ''pack_id'' = Some (JString pack)"
    and "dict_get (sort_members (summary_members i c t pack version b s)) ''structured_output'' = Some (JObject (sort_members (tr_structured_output t)))"
    and "dict_get (sort_members (summary_members i c t pack version b s)) ''source_refs'' = Some (JList (map JString (tx_source_refs (tk_context (xc_request c)))))"
    and "dict_get (sort_members (summary_members i c t pack version b s)) ''evidence_types'' = Some (JList (map (\<lambda>d. JString (ed_evidence_type d)) (tr_evidence t)))"
    by (simp_all add: summary_members_def output_summary_json_def comp_def)
  show "json_loads (dumps_sorted (output_summary_json i c t pack version b s)) = Some (JObject (sort_members (summary_members i c t pack version b s)))"
    using dumps_sorted_loads [OF wf] eq by simp
qed

text \<open>A fresh recording stores the summary under the checksum and size that the reader compares.\<close>

lemma recorded_summary:
  assumes rec: "record_registered_workflow_pack_run e c t g surface lineage w = (Inr r, w1)"
    and fresh: "\<forall>a \<in> set (list_artifacts w). ar_source_object_id a \<noteq> rr_run_id r"
    and plain: "\<And>s. py_lower (py_strip (ae_sha (qe_artifacts e) s)) = ae_sha (qe_artifacts e) s" "\<And>s. ae_sha (qe_artifacts e) s \<noteq> []"
  shows "\<exists>a stored. load_verified_summary_object (ae_sha (qe_artifacts e)) (rr_artifact_refs r) w1 = Inr (a, stored)
     \<and> so_payload stored = dumps_sorted (output_summary_json (rr_run_id r) c t (rg_pack_id g) (rg_version g) (review_required_of g) (initial_review_state (review_required_of g)))"
proof -
  have ready: "pe_run_store_ready e (qw_readings w)"
    using rec by (simp add: record_registered_workflow_pack_run_def ensure_workflow_pack_run_store_ready_def split: if_splits)
  define i where "i = build_workflow_pack_run_id (rg_pack_family g) (xc_request_id c)"
  define q where "q = run_output_request i (tr_generated_at t)
    (dumps_sorted (output_summary_json i c t (rg_pack_id g) (rg_version g) (review_required_of g) (initial_review_state (review_required_of g))))"
  define hex where "hex = take 16 (fresh_hex e (read_on w))"
  define a where "a = fst (stage_json_artifact (qe_artifacts e) hex (q\<lparr>aq_lineage_parent_artifact_id := None\<rparr>) (read_on w))"
  have run: "rr_run_id r = i" "rr_artifact_refs r = [fst (persist_or_reuse_json_artifact (qe_artifacts e) hex q (read_on w))]"
    and w1: "aw_objects w1 = aw_objects (snd (persist_or_reuse_json_artifact (qe_artifacts e) hex q (read_on w)))"
    using rec ready
    by (auto simp: record_registered_workflow_pack_run_def ensure_workflow_pack_run_store_ready_def run_record_of_def Let_def case_prod_beta
        persist_workflow_pack_run_output_artifact_def i_def q_def hex_def save_pack_run_def save_run_event_def read_on_def)
  have none: "find_latest_active_artifact q (read_on w) = None"
    using fresh by (auto simp: find_latest_active_artifact_def q_def run_output_request_def run(1) list_artifacts_def read_on_def filter_empty_conv Let_def)
  have refs: "rr_artifact_refs r = [a]"
    by (simp add: run(2) persist_or_reuse_json_artifact_def none persist_json_artifact_def a_def case_prod_beta Let_def)
  have sel: "is_summary_artifact a" "ar_checksum_sha256 a = ae_sha (qe_artifacts e) (aq_payload_json q)" "ar_byte_size a = length (aq_payload_json q)"
    by (simp_all add: a_def stage_json_artifact_def put_object_def Let_def q_def run_output_request_def is_summary_artifact_def)
  have object: "get_object w1 (parse_storage_reference (ar_storage_reference a)) =
      Some \<lparr>so_object_key = parse_storage_reference (ar_storage_reference a), so_content_type = ''application/json'', so_payload = aq_payload_json q\<rparr>"
    unfolding get_object_def w1
    by (simp add: persist_or_reuse_json_artifact_def none persist_json_artifact_def a_def stage_json_artifact_def put_object_def save_artifact_def Let_def)
  have "aq_payload_json q = dumps_sorted (output_summary_json i c t (rg_pack_id g) (rg_version g) (review_required_of g) (initial_review_state (review_required_of g)))"
    by (simp add: q_def run_output_request_def)
  then show ?thesis unfolding load_verified_summary_object_def refs by (simp add: sel object plain run(1))
qed

lemma sync_flow_objects: "sync_flow sha s f w = (x, w') \<Longrightarrow> aw_objects w' = aw_objects w"
  by (auto simp: sync_flow_def record_review_checkpoint_def Let_def save_task_flow_def save_checkpoint_def split: if_splits sum.splits option.splits)

lemma sync_flows_objects: "aw_objects (snd (sync_flows sha s seen fs w)) = aw_objects w"
proof (induction fs arbitrary: seen w)
  case (Cons f fs)
  obtain x w1 where eq: "sync_flow sha s f w = (x, w1)" by fastforce
  then show ?case using Cons.IH sync_flow_objects [OF eq] by (cases x) (auto simp: eq)
qed simp

lemma synchronize_objects: "aw_objects (snd (synchronize_task_flow_review_action e s w)) = aw_objects w"
  by (simp add: synchronize_task_flow_review_action_def ensure_workflow_pack_task_flow_store_ready_def sync_flows_objects)

lemma ledger_after_objects: "aw_objects (ledger_after e r q x w) = aw_objects w"
  by (simp add: ledger_after_def link_replacement_def apply_review_transition_def Let_def save_pack_run_def save_run_event_def read_on_def
      split: option.splits sum.splits)

text \<open>An acceptance that returns, in full.\<close>

lemma acceptance_effect:
  assumes "apply_workflow_pack_run_review_action e i q w = (Inr r', w')" and "rq_action_type q = RA_ACCEPT" and "ledger_ok w"
  obtains r now hex where "get_pack_run w i = Some r" "rr_runtime_state r = RS_COMPLETED" "rr_review_state r = RV_AWAITING_REVIEW" "rr_superseded_by_run_id r = None"
    "r' = r\<lparr>rr_review_state := RV_ACCEPTED, rr_last_updated_at := utc_text now\<rparr>" "get_pack_run w' i = Some r'"
    "stored_run_events w' i = filter (\<lambda>x. rv_event_id x \<noteq> ''workflow_pack_run_evt_'' @ take 12 hex) (stored_run_events w i)
        @ [review_event hex REVIEW_STATE_UPDATED r' (rq_reviewed_by q) (utc_text now)]"
    "aw_objects w' = aw_objects w"
  using assms(1)
proof (cases rule: review_action_cases)
  case (written r x)
  let ?w2 = "read_on (read_on w)" let ?r = "reviewed_run r q x (now_text e ?w2)"
  have x: "x = None" using replacement_found(1) [OF written(3)] assms(2) by (simp add: needs_replacement_def)
  obtain u where sync: "synchronize_task_flow_review_action e (review_sync_of ?r q x) (ledger_after e r q x ?w2) = (Inr u, w')" and r': "r' = ?r"
    using assms(1) unfolding written(5) by (rule then_do_returns) blast
  have ok: "run_ok i r" using assms(3) written(1) by (auto simp: ledger_ok_def)
  have state: "rr_review_state r = RV_AWAITING_REVIEW" "rr_runtime_state r = RS_COMPLETED"
    using allowed_is_next [OF written(4)] assms(2) by (cases "rr_review_state r"; simp)+
  have new: "r' = r\<lparr>rr_review_state := RV_ACCEPTED, rr_last_updated_at := utc_text (qe_now e (qw_readings ?w2))\<rparr>"
    by (simp add: r' reviewed_run_def x assms(2))
  have runs: "pw_runs w' = pw_runs (ledger_after e r q x ?w2)" and events: "pw_run_events w' = pw_run_events (ledger_after e r q x ?w2)"
    and objects: "aw_objects w' = aw_objects w"
    using arg_cong [OF sync, of snd] synchronize_frame [of e "review_sync_of ?r q x" "ledger_after e r q x ?w2"] synchronize_objects [of e "review_sync_of ?r q x" "ledger_after e r q x ?w2"]
    by (simp_all add: ledger_after_objects)
  have "get_pack_run w' i = Some r'"
    using ledger_after_runs [OF written(4), of e x ?w2 i] ok by (simp add: get_pack_run_def runs x r' run_ok_def)
  moreover have "stored_run_events w' i = filter (\<lambda>x. rv_event_id x \<noteq> ''workflow_pack_run_evt_'' @ take 12 (fresh_hex e ?w2)) (stored_run_events w i)
        @ [review_event (fresh_hex e ?w2) REVIEW_STATE_UPDATED r' (rq_reviewed_by q) (utc_text (qe_now e (qw_readings ?w2)))]"
  proof -
    have "stored_run_events w' i = stored_run_events (ledger_after e r q x ?w2) i" by (simp add: stored_run_events_def events)
    also have "\<dots> = filter (\<lambda>x. rv_event_id x \<noteq> ''workflow_pack_run_evt_'' @ take 12 (fresh_hex e ?w2)) (stored_run_events w i)
        @ [review_event (fresh_hex e ?w2) REVIEW_STATE_UPDATED r' (rq_reviewed_by q) (utc_text (qe_now e (qw_readings ?w2)))]"
      using ok by (simp add: ledger_after_def link_replacement_def apply_review_transition_def written(4) x Let_def review_event_def run_ok_def r' reviewed_run_def)
    finally show ?thesis .
  qed
  moreover have "rr_superseded_by_run_id r = None" using ok state(1) by (auto simp: run_ok_def)
  ultimately show thesis using that [OF written(1) state(2,1) _ new _ _ objects] by blast
qed simp

lemma recording_effect:
  assumes "record_registered_workflow_pack_run e c t g surface lineage w = (Inr r, w1)"
  shows "get_pack_run w1 (rr_run_id r) = Some r" and "stored_run_events w (rr_run_id r) = [] \<Longrightarrow> stored_run_events w1 (rr_run_id r) = [recorded_event_of r]"
    and "ledger_ok w \<Longrightarrow> ledger_ok w1"
proof -
  have eff: "r = run_record_of c t g surface lineage (hd (rr_artifact_refs r)) (rr_attestation r)
      \<and> (\<forall>k. get_pack_run w1 k = (if k = rr_run_id r then Some r else get_pack_run w k))
      \<and> (stored_run_events w (rr_run_id r) = [] \<longrightarrow> stored_run_events w1 (rr_run_id r) = [recorded_event_of r])"
    using assms
    by (auto simp: record_registered_workflow_pack_run_def ensure_workflow_pack_run_store_ready_def Let_def case_prod_beta run_record_of_def recorded_event_of_def
        split: if_splits)
  then show "get_pack_run w1 (rr_run_id r) = Some r" "stored_run_events w (rr_run_id r) = [] \<Longrightarrow> stored_run_events w1 (rr_run_id r) = [recorded_event_of r]" by auto
  have "run_ok (rr_run_id r) r"
    using recorded_run_ok [of g c t surface lineage "hd (rr_artifact_refs r)" "rr_attestation r"] eff by (simp add: run_ok_def)
  then show "ledger_ok w \<Longrightarrow> ledger_ok w1" using eff by (auto simp: ledger_ok_def)
qed

lemma accepted_content_same:
  assumes "rr_run_id a = rr_run_id b" and "rr_pack_id a = rr_pack_id b" and "rr_pack_version a = rr_pack_version b"
  shows "accepted_content_of a p = accepted_content_of b p"
  unfolding accepted_content_of_def assms ..

lemma utc_text_nonempty [simp]: "utc_text u \<noteq> []"
  by (simp add: utc_text_def)

lemma accepting_review_of_events:
  assumes "stored_run_events w i = [a, b]" and "rv_event_type a = RUN_RECORDED" and "rv_event_type b = REVIEW_STATE_UPDATED"
    and "rv_actor b = ''review:'' @ by_whom" and "rv_recorded_at b \<noteq> []"
  shows "accepting_review_identity i w = Inr \<lparr>vw_reviewed_by = by_whom, vw_reviewed_at = rv_recorded_at b\<rparr>"
proof -
  have "list_review_events (list_run_events w i) = [b]"
    using assms by (simp add: list_run_events_def list_review_events_def)
  then show ?thesis using assms by (simp add: accepting_review_identity_def build_review_summary_def reviewer_of_def)
qed

text \<open>
  C36. What was recorded and accepted is what is published: after a brief of a tenant is recorded and a reviewer accepts it, the accepted
  output of the run has the narrative and context of the recorded structured output, its validation verdict and the reviewer.
\<close>

theorem accepted_recording_is_published:
  assumes rec: "record_registered_workflow_pack_run e c t g surface lineage w = (Inr r, w1)"
    and accept: "apply_workflow_pack_run_review_action e (rr_run_id r) q w1 = (Inr r', w2)" "rq_action_type q = RA_ACCEPT"
    and fresh: "ledger_ok w" "stored_run_events w (rr_run_id r) = []" "\<forall>a \<in> set (list_artifacts w). ar_source_object_id a \<noteq> rr_run_id r"
    and digest: "\<And>s. py_lower (py_strip (ae_sha (qe_artifacts e) s)) = ae_sha (qe_artifacts e) s" "\<And>s. ae_sha (qe_artifacts e) s \<noteq> []"
    and brief: "has_projector r" "rr_tenant_id r = Some tenant" "tenant \<noteq> []" "json_wf (JObject (tr_structured_output t))"
      "require_validated_output r = Inr v" "accepted_content_of r (recorded_brief c t) = Inr content"
    and ready: "pe_run_store_ready e (qw_readings w2)"
  shows "\<exists>x. fst (build_workflow_pack_run_accepted_output e (rr_run_id r) tenant w2) = Inr x \<and> ao_content x = content \<and> ao_output_validation x = v
     \<and> vw_reviewed_by (ao_review x) = rq_reviewed_by q"
proof -
  note recorded = recording_effect [OF rec]
  obtain r0 now hex where r0: "get_pack_run w1 (rr_run_id r) = Some r0"
    and st: "rr_runtime_state r0 = RS_COMPLETED" "rr_review_state r0 = RV_AWAITING_REVIEW" "rr_superseded_by_run_id r0 = None"
    and u: "r' = r0\<lparr>rr_review_state := RV_ACCEPTED, rr_last_updated_at := utc_text now\<rparr>" "get_pack_run w2 (rr_run_id r) = Some r'"
    and events: "stored_run_events w2 (rr_run_id r) = filter (\<lambda>x. rv_event_id x \<noteq> ''workflow_pack_run_evt_'' @ take 12 hex) (stored_run_events w1 (rr_run_id r))
        @ [review_event hex REVIEW_STATE_UPDATED r' (rq_reviewed_by q) (utc_text now)]" and objects: "aw_objects w2 = aw_objects w1"
    by (rule acceptance_effect [OF accept recorded(3) [OF fresh(1)]])
  have "r0 = r" using r0 recorded(1) by simp
  note state = st [unfolded this] and r' = u [unfolded this]
  let ?i = "rr_run_id r" let ?b = "review_required_of g"
  have pid: "rr_pack_id r = rg_pack_id g" and rid: "rr_run_id r = ''packrun_'' @ rg_pack_family g @ ''_'' @ xc_request_id c" using rec
    by (auto simp: record_registered_workflow_pack_run_def ensure_workflow_pack_run_store_ready_def Let_def case_prod_beta run_record_of_def
        build_workflow_pack_run_id_def split: if_splits)
  obtain a stored where loaded: "load_verified_summary_object (ae_sha (qe_artifacts e)) (rr_artifact_refs r) w1 = Inr (a, stored)"
    and text_is: "so_payload stored = dumps_sorted (output_summary_json ?i c t (rg_pack_id g) (rg_version g) ?b (initial_review_state ?b))"
    using recorded_summary [OF rec fresh(3) digest] by blast
  let ?p = "sort_members (summary_members ?i c t (rg_pack_id g) (rg_version g) ?b (initial_review_state ?b))"
  note reads = summary_reads_back [OF brief(4), of ?i c "rg_pack_id g" "rg_version g" ?b "initial_review_state ?b"]
  have "load_verified_summary_object (ae_sha (qe_artifacts e)) (rr_artifact_refs r') w2 = Inr (a, stored)"
    using loaded unfolding load_verified_summary_object_def get_object_def objects r'(1) by simp
  then have payload: "load_intact_output_payload (ae_sha (qe_artifacts e)) r' w2 = Inr ?p"
    using reads(1-3) by (simp add: load_intact_output_payload_def text_is r'(1) pid)
  have "accepted_content_of r ?p = Inr content" using accepted_content_sorted [OF brief(4) reads(4,5)] brief(6) by simp
  moreover have "accepted_content_of r' ?p = accepted_content_of r ?p" by (rule accepted_content_same) (simp_all add: r'(1))
  ultimately have content: "accepted_content_of r' ?p = Inr content" by simp
  have types: "texts_in ?p ''evidence_types'' = Inr (map ed_evidence_type (tr_evidence t))"
    using reads(6) by (simp add: texts_in_def map_filter_def comp_def)
  have review: "accepting_review_identity ?i w2 = Inr \<lparr>vw_reviewed_by = rq_reviewed_by q, vw_reviewed_at = utc_text now\<rparr>"
  proof -
    have two: "stored_run_events w2 ?i = [recorded_event_of r, review_event hex REVIEW_STATE_UPDATED r' (rq_reviewed_by q) (utc_text now)]"
      unfolding events recorded(2) [OF fresh(2)] by (simp add: recorded_event_of_def) (simp add: rid)
    show ?thesis
      using accepting_review_of_events [OF two, of "rq_reviewed_by q"] by (simp add: recorded_event_of_def review_event_def)
  qed
  have valid: "require_validated_output r' = Inr v" "has_projector r'" using brief(1,5) by (simp_all add: require_validated_output_def has_projector_def r'(1))
  have "rr_tenant_id r' = Some tenant" "rr_runtime_state r' = RS_COMPLETED" "rr_review_state r' = RV_ACCEPTED" "rr_superseded_by_run_id r' = None"
    using brief(2) state by (simp_all add: r'(1))
  then have "\<exists>x. accepted_output_of (ae_sha (qe_artifacts e)) ?i tenant w2 = Inr x \<and> ao_content x = content \<and> ao_output_validation x = v \<and> vw_reviewed_by (ao_review x) = rq_reviewed_by q"
    using brief(3) by (simp add: accepted_output_of_def r'(2) valid absent_text_def payload review project_advisor_brief_v1_def content types)
  then show ?thesis using ready by (simp add: build_accepted_output_eq)
qed

section \<open>A concrete publication\<close>

definition sample_brief :: "string \<Rightarrow> json_object" where
  "sample_brief summary =
     [(''portfolio_id'', JString ''p''), (''period'', JString ''q''), (''grounded_summary'', JString summary), (''advisor_brief_status'', JString ''ok''),
      (''coverage_state'', JString ''full''), (''talking_points'', JList []), (''risks_and_exceptions'', JList [])]"

definition sample_content :: "string \<Rightarrow> accepted_content" where
  "sample_content i =
     \<lparr>an_run_id = i, an_pack_id = ''advisor_brief.pack'', an_pack_version = ''v1'', an_advisor_brief_status = ''ok'', an_coverage_state = ''full'',
      an_grounded_summary = i, an_talking_points = [], an_risks_and_exceptions = [],
      an_context = \<lparr>cx_portfolio_id = ''p'', cx_period = ''q'', cx_as_of_date = None, cx_reporting_currency = None, cx_benchmark = None\<rparr>, an_source_refs = []\<rparr>"

definition sample_digest :: "string \<Rightarrow> string" where
  "sample_digest s = (if s = canonical_json (hashed_content (sample_content ''a'')) then ''a'' else ''d'')"

definition publishing_env :: pack_env where
  "publishing_env = sample_pack_env\<lparr>qe_artifacts := \<lparr>ae_backend = MEMORY, ae_sha = sample_digest\<rparr>\<rparr>"

definition validated_sample :: evidence_descriptor where
  "validated_sample = \<lparr>ed_evidence_type = ''output_validation'',
     ed_attributes = [(''validation_state'', JString ''VALIDATED''), (''authority'', JString ''draft''), (''ruleset_version'', JString ''1'')]\<rparr>"

definition sample_members :: "string \<Rightarrow> json_object" where
  "sample_members i = [(''run_id'', JString i), (''pack_id'', JString ''advisor_brief.pack''), (''structured_output'', JObject (sample_brief i))]"

definition sample_payload :: "string \<Rightarrow> string" where
  "sample_payload i = dumps_sorted (JObject (sample_members i))"

definition accepted_sample :: "string \<Rightarrow> run_record" where
  "accepted_sample i = (sample_run i)\<lparr>rr_run_id := i, rr_tenant_id := Some ''t'', rr_review_state := RV_ACCEPTED, rr_evidence_descriptors := [validated_sample],
     rr_artifact_refs := [sample_output\<lparr>ar_storage_reference := ''m://'' @ i, ar_byte_size := length (sample_payload i),
        ar_checksum_sha256 := sample_digest (sample_payload i)\<rparr>]\<rparr>"

definition accepted_object :: "string \<Rightarrow> stored_object" where
  "accepted_object i = \<lparr>so_object_key = i, so_content_type = ''application/json'', so_payload = sample_payload i\<rparr>"

definition accepted_event :: "string \<Rightarrow> timestamp \<Rightarrow> run_event" where
  "accepted_event i now = review_event i REVIEW_STATE_UPDATED (accepted_sample i) ''u'' now"

definition published_ledger :: pack_world where
  "published_ledger = empty_ledger\<lparr>aw_objects := [(''a'', accepted_object ''a''), (''z'', accepted_object ''z'')],
     pw_runs := [(''a'', accepted_sample ''a''), (''z'', accepted_sample ''z'')],
     pw_run_events := [(''a'', [accepted_event ''a'' ''2026-06-01T08:00:00Z'']), (''z'', [accepted_event ''z'' ''2026-06-02T08:00:00Z''])]\<rparr>"

lemma sample_digest_plain [simp]: "py_lower (py_strip (sample_digest s)) = sample_digest s" "sample_digest s \<noteq> []"
  by (simp_all add: sample_digest_def py_strip_def is_space_def py_lower_def lower_char_def)

lemma sample_payload_loads:
  "json_loads (sample_payload i) = Some (JObject (sort_members (sample_members i)))" "dict_wf (sample_members i)" "dict_wf (sample_brief i)"
proof -
  have "json_wf (JObject (sample_members i))" by (simp add: sample_members_def sample_brief_def)
  then show "json_loads (sample_payload i) = Some (JObject (sort_members (sample_members i)))" unfolding sample_payload_def by (simp add: dumps_sorted_loads)
qed (simp_all add: sample_members_def sample_brief_def)

lemma sample_content_read: "i \<noteq> [] \<Longrightarrow> accepted_content_of (accepted_sample i) (sort_members (sample_members i)) = Inr (sample_content i)"
proof -
  assume "i \<noteq> []"
  have "section_of (sort_members (sample_members i)) ''structured_output'' = Some (sort_members (sample_brief i))"
    "texts_in (sort_members (sample_members i)) ''source_refs'' = Inr []"
    by (simp_all add: section_of_def texts_in_def sample_payload_loads(2)) (simp_all add: sample_members_def)
  moreover have "required_string (sample_brief i) ''portfolio_id'' = Inr ''p''" "required_string (sample_brief i) ''period'' = Inr ''q''"
    "required_string (sample_brief i) ''grounded_summary'' = Inr i" "required_string (sample_brief i) ''advisor_brief_status'' = Inr ''ok''"
    "required_string (sample_brief i) ''coverage_state'' = Inr ''full''" "optional_string (sample_brief i) ''as_of_date'' = None"
    "optional_string (sample_brief i) ''reporting_currency'' = None" "optional_string (sample_brief i) ''benchmark'' = None"
    "dict_get (sample_brief i) ''talking_points'' = Some (JList [])" "dict_get (sample_brief i) ''risks_and_exceptions'' = Some (JList [])"
    using \<open>i \<noteq> []\<close> by (simp_all add: required_string_def optional_string_def text_at_def sample_brief_def)
  ultimately show ?thesis
    by (simp add: accepted_content_of_def sample_payload_loads(3) narrative_items_def)
      (simp add: accepted_sample_def sample_run_def run_record_of_def Let_def advisor_brief_v1_registration_def advisor_brief_v1_spec_def sample_content_def)
qed

lemma sample_fields:
  "rr_run_id (accepted_sample i) = i" "rr_pack_id (accepted_sample i) = ''advisor_brief.pack''" "has_projector (accepted_sample i)"
  "rr_tenant_id (accepted_sample i) = Some ''t''" "rr_runtime_state (accepted_sample i) = RS_COMPLETED" "rr_review_state (accepted_sample i) = RV_ACCEPTED"
  "rr_superseded_by_run_id (accepted_sample i) = None" "rr_pack_family (accepted_sample i) = ''advisor_brief''" "rr_review_required (accepted_sample i)"
  by (simp_all add: accepted_sample_def sample_run_def run_record_of_def Let_def advisor_brief_v1_registration_def advisor_brief_v1_spec_def has_projector_def
      resolve_runtime_state_def sample_response_def review_required_of_def)

lemma sample_stored:
  assumes "i = ''a'' \<or> i = ''z''"
  shows "get_pack_run published_ledger i = Some (accepted_sample i)" "get_object published_ledger i = Some (accepted_object i)"
    and "list_run_events published_ledger i = [accepted_event i (if i = ''a'' then ''2026-06-01T08:00:00Z'' else ''2026-06-02T08:00:00Z'')]"
  using assms by (auto simp: get_pack_run_def get_object_def list_run_events_def stored_run_events_def published_ledger_def)

lemma sample_loaded:
  assumes "i = ''a'' \<or> i = ''z''"
  shows "load_intact_output_payload sample_digest (accepted_sample i) published_ledger = Inr (sort_members (sample_members i))"
proof -
  have refs: "rr_artifact_refs (accepted_sample i) = [sample_output\<lparr>ar_storage_reference := ''m://'' @ i, ar_byte_size := length (sample_payload i),
        ar_checksum_sha256 := sample_digest (sample_payload i)\<rparr>]" by (simp add: accepted_sample_def)
  have "parse_storage_reference (''m://'' @ i) = i" by (simp add: parse_storage_reference_def)
  then have "load_verified_summary_object sample_digest (rr_artifact_refs (accepted_sample i)) published_ledger =
      Inr (hd (rr_artifact_refs (accepted_sample i)), accepted_object i)"
    by (simp add: load_verified_summary_object_def refs is_summary_artifact_def sample_output_def sample_stored(2) [OF assms] accepted_object_def)
  then show ?thesis
    by (simp add: load_intact_output_payload_def accepted_object_def sample_payload_loads(1,2) sample_fields) (simp add: sample_members_def)
qed

lemma sample_published:
  assumes "i = ''a'' \<or> i = ''z''"
  shows "\<exists>x. accepted_output_of sample_digest i ''t'' published_ledger = Inr x \<and> ao_content x = sample_content i"
proof -
  have "require_validated_output (accepted_sample i) = Inr \<lparr>vl_validation_state = ''VALIDATED'', vl_authority = ''draft'', vl_ruleset_version = ''1''\<rparr>"
    by (simp add: require_validated_output_def accepted_sample_def validated_sample_def required_evidence_string_def text_at_def py_strip_def is_space_def)
  moreover have "texts_in (sort_members (sample_members i)) ''evidence_types'' = Inr []"
    by (simp add: texts_in_def sample_payload_loads(2)) (simp add: sample_members_def)
  moreover obtain u where "accepting_review_identity i published_ledger = Inr u"
    using assms by (auto simp: accepting_review_identity_def sample_stored(3) build_review_summary_def list_review_events_def accepted_event_def review_event_def)
  moreover have "i \<noteq> []" using assms by auto
  ultimately show ?thesis
    by (simp add: accepted_output_of_def sample_stored(1) [OF assms] sample_fields absent_text_def sample_loaded [OF assms] project_advisor_brief_v1_def sample_content_read)
qed

lemma sample_built:
  assumes "i = ''a'' \<or> i = ''z''"
  obtains x where "fst (build_workflow_pack_run_accepted_output publishing_env i ''t'' published_ledger) = Inr x" "ao_content x = sample_content i"
  using sample_published [OF assms]
  by (auto simp: build_accepted_output_eq publishing_env_def sample_pack_env_def queue_env.defs published_ledger_def)

theorem accepted_output_is_gated_witness:
  "\<exists>r p. get_pack_run published_ledger ''a'' = Some r \<and> publishable ''t'' r \<and> intact_payload sample_digest r published_ledger p"
proof -
  obtain x where "fst (build_workflow_pack_run_accepted_output publishing_env ''a'' ''t'' published_ledger) = Inr x" by (rule sample_built [of "''a''"]) simp
  from accepted_output_is_gated [OF this] show ?thesis by (auto simp: publishing_env_def)
qed

theorem content_hash_identifies_content_witness:
  "\<exists>x y. fst (build_workflow_pack_run_accepted_output publishing_env ''a'' ''t'' published_ledger) = Inr x
     \<and> fst (build_workflow_pack_run_accepted_output publishing_env ''z'' ''t'' published_ledger) = Inr y \<and> ao_content_hash x \<noteq> ao_content_hash y"
proof -
  obtain x where x: "fst (build_workflow_pack_run_accepted_output publishing_env ''a'' ''t'' published_ledger) = Inr x" "ao_content x = sample_content ''a''"
    by (rule sample_built [of "''a''"]) simp
  obtain y where y: "fst (build_workflow_pack_run_accepted_output publishing_env ''z'' ''t'' published_ledger) = Inr y" "ao_content y = sample_content ''z''"
    by (rule sample_built [of "''z''"]) simp
  have neq: "sample_content ''a'' \<noteq> sample_content ''z''" by (simp add: sample_content_def)
  then have "canonical_json (hashed_content (sample_content ''a'')) \<noteq> canonical_json (hashed_content (sample_content ''z''))"
    by (simp add: canonical_json_inject hashed_content_inject)
  then have "inj_on (ae_sha (qe_artifacts publishing_env)) {canonical_json (hashed_content (ao_content x)), canonical_json (hashed_content (ao_content y))}"
    by (simp add: x(2) y(2) publishing_env_def sample_digest_def)
  from content_hash_identifies_content [OF x(1) y(1) this] show ?thesis using x y neq by auto
qed

definition sample_lookup :: latest_request where
  "sample_lookup = \<lparr>lq_pack_family = ''advisor_brief'', lq_portfolio_id = ''p'', lq_tenant_id = ''t'', lq_as_of_date = None, lq_reporting_currency = None\<rparr>"

lemma published_ledger_ok: "ledger_ok published_ledger" "dict_wf (pw_runs published_ledger)"
  by (auto simp: ledger_ok_def get_pack_run_def published_ledger_def run_ok_def sample_fields split: if_splits)

lemma sample_candidates: "accepted_candidates ''t'' ''advisor_brief'' published_ledger = [accepted_sample ''a'', accepted_sample ''z'']"
proof -
  have created: "rr_created_at (accepted_sample i) = ''2026-06-01T07:00:01Z''" for i
    by (simp add: accepted_sample_def sample_run_def run_record_of_def Let_def sample_response_def)
  have "run_matches (accepted_query ''t'' ''advisor_brief'') (accepted_sample i)" for i
    by (simp add: run_matches_def accepted_query_def any_run_def wanted_def wanted_opt_def sample_fields)
  then show ?thesis
    by (simp add: accepted_candidates_def query_runs_def published_ledger_def sorted_desc_def created candidate_scan_limit_def absent_text_def sample_fields)
qed

lemma sample_recency:
  "by_accepting_review_recency published_ledger [accepted_sample ''a'', accepted_sample ''z''] = Inr [accepted_sample ''z'', accepted_sample ''a'']"
proof -
  have "review_recency published_ledger (accepted_sample ''a'') = Inr (''2026-06-01T08:00:00Z'', accepted_sample ''a'')"
    "review_recency published_ledger (accepted_sample ''z'') = Inr (''2026-06-02T08:00:00Z'', accepted_sample ''z'')"
    by (simp_all add: review_recency_def sample_fields sample_stored(3) build_review_summary_def list_review_events_def accepted_event_def review_event_def)
  moreover have "[''2026-06-01T08:00:00Z'', ''a''] \<le> [''2026-06-02T08:00:00Z'', ''z'']" "\<not> [''2026-06-02T08:00:00Z'', ''z''] \<le> [''2026-06-01T08:00:00Z'', ''a'']"
    by code_simp+
  ultimately show ?thesis by (simp add: by_accepting_review_recency_def sorted_desc_def sample_fields)
qed

theorem latest_is_the_newest_acceptance_witness:
  "\<exists>x. fst (build_workflow_pack_run_accepted_latest publishing_env sample_lookup published_ledger) = Inr x \<and> answers sample_lookup x
     \<and> accepted_run sample_lookup (accepted_sample (an_run_id (ao_content x)))"
proof -
  obtain x where x: "accepted_output_of sample_digest ''z'' ''t'' published_ledger = Inr x" "ao_content x = sample_content ''z''"
    using sample_published [of "''z''"] by auto
  have frame: "accepted_candidates ''t'' ''advisor_brief'' (read_on published_ledger) = accepted_candidates ''t'' ''advisor_brief'' published_ledger"
    by (simp add: accepted_candidates_def query_runs_def read_on_def)
  have "review_recency (read_on published_ledger) = review_recency published_ledger" by (simp add: review_recency_def fun_eq_iff)
  then have recency: "by_accepting_review_recency (read_on published_ledger) = by_accepting_review_recency published_ledger"
    by (intro ext) (simp only: by_accepting_review_recency_def)
  have ready: "pe_run_store_ready publishing_env n" "ae_sha (qe_artifacts publishing_env) = sample_digest" for n
    by (simp_all add: publishing_env_def sample_pack_env_def queue_env.defs)
  have hit: "cx_portfolio_id (an_context (ao_content x)) = lq_portfolio_id sample_lookup" "context_matches sample_lookup x"
    by (simp_all add: x(2) sample_content_def sample_lookup_def context_matches_def wanted_opt_def)
  have sel: "lq_pack_family sample_lookup = ''advisor_brief''" "lq_tenant_id sample_lookup = ''t''" by (simp_all add: sample_lookup_def)
  have "fst (build_workflow_pack_run_accepted_latest publishing_env sample_lookup published_ledger) = Inr x"
    by (simp add: build_workflow_pack_run_accepted_latest_def on_ready_runs_def ensure_workflow_pack_run_store_ready_def ready sel frame recency sample_candidates
        candidate_scan_limit_def sample_recency build_accepted_output_eq sample_fields x(1) hit)
  from latest_is_the_newest_acceptance [OF this published_ledger_ok] show ?thesis
    using \<open>fst (build_workflow_pack_run_accepted_latest publishing_env sample_lookup published_ledger) = Inr x\<close>
    by (auto simp: accepted_run_def sample_fields sel)
qed

definition brief_context :: task_execution_context where
  "brief_context = (sample_run_context ''n'')\<lparr>xc_request := (xc_request (sample_run_context ''n''))\<lparr>tk_caller :=
     (tk_caller (xc_request (sample_run_context ''n'')))\<lparr>cd_tenant_id := Some ''t''\<rparr>\<rparr>\<rparr>"

definition brief_response :: task_response where
  "brief_response = sample_response\<lparr>tr_structured_output := sample_brief ''s'', tr_evidence := [validated_sample]\<rparr>"

definition record_brief :: "run_record result \<times> pack_world" where
  "record_brief = record_registered_workflow_pack_run sample_pack_env brief_context brief_response advisor_brief_v1_registration None None empty_ledger"

lemma sample_env_ready: "pe_run_store_ready sample_pack_env n" "pe_flow_store_ready sample_pack_env n"
  by (simp_all add: sample_pack_env_def queue_env.defs)

lemma sample_caller: "require_active_registered_caller (pr_policies sample_pack_env) (pr_caller sample_pack_env) ''lotus-gateway'' = Inr ()"
  by code_simp

text \<open>Accepting a completed run that awaits review and has no task flow returns.\<close>

lemma sample_acceptance_returns:
  assumes "get_pack_run w i = Some r" "rr_caller_app r = ''lotus-gateway''" "rr_review_required r" "rr_review_state r = RV_AWAITING_REVIEW"
    "rr_runtime_state r = RS_COMPLETED" "pw_flows w = []"
  shows "\<exists>r' w'. apply_workflow_pack_run_review_action sample_pack_env i sample_accept w = (Inr r', w')"
proof -
  have "require_review_caller sample_pack_env r ''lotus-gateway'' = Inr ()" by (simp add: require_review_caller_def assms(2) sample_caller)
  moreover have "validate_review_transition r RA_ACCEPT = Inr ()" by (simp add: validate_review_transition_def resolve_allowed_review_actions_def assms)
  ultimately show ?thesis
    by (simp add: apply_workflow_pack_run_review_action_def ensure_workflow_pack_run_store_ready_def ensure_workflow_pack_task_flow_store_ready_def sample_env_ready
        assms(1,6) sample_accept_def resolve_replacement_def needs_replacement_def apply_review_transition_def link_replacement_def Let_def
        synchronize_task_flow_review_action_def valid_lineage_def sync_lineage_def review_sync_of_def list_task_flows_by_run_ref_def newest_flows_def sorted_desc_def)
qed

lemma empty_ledger_ok: "ledger_ok empty_ledger"
  by (simp add: ledger_ok_def get_pack_run_def empty_ledger_def queue_world.defs)

theorem accepted_recording_is_published_witness:
  "\<exists>r w1 r' w2 x. record_brief = (Inr r, w1) \<and> apply_workflow_pack_run_review_action sample_pack_env (rr_run_id r) sample_accept w1 = (Inr r', w2)
     \<and> fst (build_workflow_pack_run_accepted_output sample_pack_env (rr_run_id r) ''t'' w2) = Inr x \<and> an_grounded_summary (ao_content x) = ''s''
     \<and> vw_reviewed_by (ao_review x) = ''u''"
proof -
  obtain r w1 where rec: "record_registered_workflow_pack_run sample_pack_env brief_context brief_response advisor_brief_v1_registration None None empty_ledger = (Inr r, w1)"
    and flows: "pw_flows w1 = []"
    by (simp add: record_registered_workflow_pack_run_def ensure_workflow_pack_run_store_ready_def sample_env_ready Let_def case_prod_beta empty_ledger_def queue_world.defs)
  have fields: "rr_caller_app r = ''lotus-gateway''" "rr_review_required r" "rr_review_state r = RV_AWAITING_REVIEW" "rr_runtime_state r = RS_COMPLETED"
    "has_projector r" "rr_tenant_id r = Some ''t''" "rr_evidence_descriptors r = [validated_sample]"
    using rec
    by (auto simp: record_registered_workflow_pack_run_def ensure_workflow_pack_run_store_ready_def sample_env_ready Let_def case_prod_beta run_record_of_def
        brief_context_def sample_run_context_def brief_response_def sample_response_def advisor_brief_v1_registration_def advisor_brief_v1_spec_def
        review_required_of_def initial_review_state_def resolve_runtime_state_def has_projector_def)
  obtain r' w2 where acc: "apply_workflow_pack_run_review_action sample_pack_env (rr_run_id r) sample_accept w1 = (Inr r', w2)"
    using sample_acceptance_returns [OF recording_effect(1) [OF rec] fields(1-4) flows] by blast
  have empty: "stored_run_events empty_ledger i = []" "list_artifacts empty_ledger = []" for i
    by (simp_all add: stored_run_events_def list_artifacts_def empty_ledger_def empty_queue_def queue_world.defs)
  have digest: "py_lower (py_strip (ae_sha (qe_artifacts sample_pack_env) s)) = ae_sha (qe_artifacts sample_pack_env) s" "ae_sha (qe_artifacts sample_pack_env) s \<noteq> []" for s
    by (simp_all add: sample_pack_env_def queue_env.defs py_strip_def is_space_def py_lower_def lower_char_def)
  have wf: "json_wf (JObject (tr_structured_output brief_response))" by (simp add: brief_response_def sample_brief_def)
  have valid: "require_validated_output r = Inr \<lparr>vl_validation_state = ''VALIDATED'', vl_authority = ''draft'', vl_ruleset_version = ''1''\<rparr>"
    by (simp add: require_validated_output_def fields(7) validated_sample_def required_evidence_string_def text_at_def py_strip_def is_space_def)
  obtain content where content: "accepted_content_of r (recorded_brief brief_context brief_response) = Inr content" "an_grounded_summary content = ''s''"
    by (simp add: accepted_content_of_def recorded_brief_def section_of_def brief_response_def required_string_def text_at_def sample_brief_def narrative_items_def texts_in_def)
  have "\<exists>x. fst (build_workflow_pack_run_accepted_output sample_pack_env (rr_run_id r) ''t'' w2) = Inr x \<and> ao_content x = content
      \<and> ao_output_validation x = \<lparr>vl_validation_state = ''VALIDATED'', vl_authority = ''draft'', vl_ruleset_version = ''1''\<rparr> \<and> vw_reviewed_by (ao_review x) = rq_reviewed_by sample_accept"
    by (rule accepted_recording_is_published [OF rec acc _ empty_ledger_ok _ _ digest fields(5,6) _ wf valid content(1)])
      (simp_all add: sample_accept_def empty sample_env_ready)
  then show ?thesis using rec acc content(2) by (auto simp: record_brief_def sample_accept_def)
qed

end
