(* ===== verification/Spec2Isabelle.thy ===== *)
theory Spec2Isabelle
  imports Governed_Concurrency Claim_Release Budget_Reconciliation Provider_Degradation Provider_Transport
    Kill_Switches Provider_Quota Serving_Policy Provider_Gateway Async_Fleet Pack_Admission Pack_Execution Accepted_Output
begin

text \<open>
  A verification library of the control plane of lotus-ai (paths below are under \<^verbatim>\<open>src/src/app/\<close>).

  \<^bold>\<open>The program.\<close> lotus-ai lets registered applications run AI tasks under governance. A request passes the caller's
  policy, the kill switches, the quota and the budget, a circuit breaker and the model catalogue before the provider
  gateway calls a model; each call is metered against a rate card and a hard budget. Operators change that state only
  through governed actions: one credential requests, another approves, and the approval executes exactly what was
  requested. Long work runs as async jobs that workers claim under leases; evaluation runs are such jobs, and a passed
  run is the evidence that makes a model eligible for a capability. Applications mostly call the service through workflow packs:
  registered, versioned units of work whose executions are admitted through a queue, checked against payload guardrails,
  recorded as runs with their task flows, reviewed by people, and published once accepted.

  \<^bold>\<open>The library.\<close> Each theory models the sources it names, in their order; a definition has the name of the function or
  class it translates, \<open>snake_case\<close> for classes, without leading underscores.

  \<^item> \<open>Lotus_Prelude\<close>: errors as values (\<open>'a result\<close> is \<open>error + 'a\<close>; \<^verbatim>\<open>HTTPException\<close> carries its status and a short
    tag for its sentence), Python dictionaries as association lists in insertion order, stable sorts and slices, rounding,
    and the two interfaces every repository meets: \<open>keyed_repository\<close> (a saved record is read back, other keys are
    untouched) and \<open>cas_repository\<close>, which adds the compare-and-set write of \<^verbatim>\<open>transition_governed_action\<close>.
  \<^item> \<open>Decimal_Text\<close>, \<open>Utc_Text\<close>: the texts of amounts and instants with their parsers, round trips and the exact order of
    instant texts, on which lease expiry is decided.
  \<^item> \<open>Access_Control\<close>: \<^verbatim>\<open>services/access_control_authorization.py\<close> with the default registry. The decision procedure is
    shown to implement a declarative policy.
  \<^item> \<open>Provider_Operations_Store\<close>: all of \<^verbatim>\<open>memory_provider_operations_repository.py\<close> (quota, budget, debit, breaker and
    governed-action rows). \<open>Governed_Actions\<close>, \<open>Governed_Concurrency\<close>, \<open>Claim_Release\<close>: request, approval, resume and
    finalization of \<^verbatim>\<open>governed_action_control.py\<close>, their interleavings as a step relation, and the release of a frozen
    claim. In \<open>gov_step\<close> all sessions read one clock that may stand still between readings but does not run backwards, so two
    readings may collide and the rotation of the claim instant does its work; a release is later than the readings before it.
    Shown: two credentials and the payload's digest in every interleaving, one owner per claim, the approved payload is the requested one.
    The locale \<open>governed_write\<close> states what a governed effect promises the primitive; the kill-switch clearance, the
    promotion and the restore interpret it.
  \<^item> \<open>Rate_Cards\<close>, \<open>Provider_Budget\<close>, \<open>Budget_Reconciliation\<close>: pricing, the hard budget, and the governed settlement of
    held exposure. Shown: the hard limit is never passed, the counter is the sum of the ledger, one card is effective at a
    time (as long as the reserved id of the seeded card is not given to another scope), an interrupted settlement converges.
  \<^item> \<open>Provider_Execution_Config\<close>, \<open>Provider_Degradation\<close>, \<open>Provider_Quota\<close>, \<open>Kill_Switches\<close>: the identities of
    candidates and the four admission controls, each with the exact condition under which it refuses.
  \<^item> \<open>Model_Catalogue\<close>, \<open>Candidate_Universe\<close>, \<open>Model_Lifecycle\<close>, \<open>Serving_Policy\<close>: catalogue rows, the derivation of who
    may serve, governed promotion and the ordered policy. \<open>catalogue_step\<close> is one operation on the catalogue, the deletion of
    lifecycle events by data retention included. Shown: serving rows were approved, retirement is final, a removed
    identity stops serving, requirements are enforced exactly.
  \<^item> \<open>Live_Execution_State\<close>, \<open>Provider_Transport\<close>, \<open>Live_Text_Adapter\<close>, \<open>Provider_Gateway\<close>: whether live calls are
    enabled, the retry loop with its debits, the reading of the answer, and the gateway that composes every control.
    Shown: an answer is served only through every gate in the state the execution had reached, is counted once and is metered,
    and no reply after the deadline has any effect (the execution is the same for all such replies). The gateway's
    lemmas are proved in the locale \<open>books_only_adapter\<close> (an adapter changes nothing but the books), interpreted on the
    modelled adapter.
  \<^item> \<open>Artifact_Store\<close>, \<open>Async_Runtime_Store\<close>, \<open>Evaluation_Runs\<close>: the artifact, job and evaluation repositories with
    their operations, and the execution of a claimed evaluation run.
  \<^item> \<open>Async_Delivery\<close>, \<open>Async_Worker_Runtime\<close>, \<open>Async_Control\<close>, \<open>Async_Fleet\<close>: the delivery queues, the worker services,
    submission and operator actions, and the worker loop. \<open>runtime_step\<close> is one service call; its reachable states keep
    \<open>store_ok\<close>, refine the abstract claim lifecycle \<open>life_step\<close>, and refuse every write of a worker that lost its claim. Left out
    of \<open>runtime_step\<close> are the deletion of job records by data retention and, with it, the recovery of a delivery whose job is missing.
  \<^item> \<open>Json_Text\<close>, \<open>Json_Values\<close>, \<open>Task_Contracts\<close>: JSON values, their canonical and sorted texts (one-byte characters; a float
    is kept as the text Python prints for it), a reader, and the task request and response. Shown: the round trip of texts.
  \<^item> \<open>Pack_Specs\<close>, \<open>Pack_Registry\<close>: every declared pack version with its binding and queue policy
    (\<^verbatim>\<open>workflow_pack_phase1_specs.py\<close> and others), the validators, operator control and eligibility. Shown: the seeded
    registry stays valid, a retired version never runs, a deprecation reopens a paused version.
  \<^item> \<open>Pack_Queue\<close>, \<open>Pack_Admission\<close>: \<^verbatim>\<open>workflow_pack_queue_admission.py\<close> with its event and lease repositories. \<open>queue_step\<close> is one
    repository call of any replica. Shown: limits hold in every interleaving, at most one terminal event per item by this service,
    an admission returns its lease; expired leases block admission.
  \<^item> \<open>Pack_Guardrails\<close>: the payload guardrails and their dispatch per pack. Shown for the six DPM packs: an accepted
    payload meets the terms of its pack, and the check reads nothing but the sections it names.
  \<^item> \<open>Pack_Runs\<close>, \<open>Task_Flows\<close>, \<open>Pack_Review\<close>: the run ledger with its artifacts and events, task flows with checkpoints, and
    the review of runs. Shown: the history of a run is preserved, a review leaves run and flows agreeing, and one combination
    fails half way.
  \<^item> \<open>Accepted_Output\<close>: publication of accepted runs. Shown: what is published is what was recorded and accepted, every gate
    is tied to the stored run and its bytes, the newest acceptance is found, the content hash identifies the content.
  \<^item> \<open>Pack_Idempotency\<close>, \<open>Pack_Execution\<close>: \<^verbatim>\<open>workflow_pack_execution_idempotency/\<close> and \<^verbatim>\<open>workflow_pack_execution.py\<close>. \<open>idem_step\<close>
    interleaves keyed calls, crashes and retention. Shown: a key executes at most once while its record is retained and a finished
    key is replayed; an execution answered by an HTTP error has recorded nothing, one that returns is on record,
    and one that may run returns, with a failed run when its task is refused.

  \<^bold>\<open>State and effects.\<close> A service function takes the stores it reaches as one record (\<open>catalogue_world\<close> extends
  \<open>kill_world\<close>, the gateway extends both; \<open>async_world\<close> holds the async, evaluation and artifact stores and the queue
  server's state) and returns its result with the record it leaves behind, so a write before a raise is kept. One
  repository call is one function application. Where the source takes a lock (the lease and idempotency repositories, the claim
  transitions of the async repository, \<^verbatim>\<open>transition_governed_action\<close>) that is the atomicity the lock gives; elsewhere it is an assumption of the model. Interleavings
  between the calls of one service are explicit in \<open>gov_step\<close>, \<open>queue_step\<close> and \<open>idem_step\<close>, interleavings of whole service
  calls in \<open>runtime_step\<close> and \<open>catalogue_step\<close>.

  \<^bold>\<open>Arguments.\<close> What the source takes from outside the repository is an argument: SHA-256, clock readings and UUIDs, the
  settings, the provider's HTTP reply, the Redis client, the verdict of one evaluation case, the loaded fixture manifest and
  the handlers of job types. The task pipeline, which composes parts that are not modelled, is four arguments of
  \<open>execute_workflow_pack\<close>. Where a result depends on one of them (the digest is injective on the compared payloads, say)
  the theorem states it as a hypothesis and its witness instantiates it. Binary floats of amounts are rationals with the
  rounding of the source written out; Python integers are \<open>nat\<close> or \<open>int\<close>.

  \<^bold>\<open>Bounds and fuel.\<close> Only the JSON reader runs on fuel; \<open>json_loads_dumps\<close> shows that the length of the text is enough for
  every text the writer produces, and a reader out of fuel refuses. Retries recurse on the remaining attempts, bounded by the configured
  limit; JSON salvage recurses on the text; the worker loop without a cycle bound may run for ever and is a
  \<^theory_text>\<open>partial_function (option)\<close>, shown to return whenever a bound is given.

  \<^bold>\<open>Not modelled.\<close> The SQL repositories and the database schema (third-party transactions; the in-memory repositories with
  the same interface are modelled), HTTP routing and start-up, the read-only catalogue, status and readiness reports, request
  signing (a cryptographic library), the recovery of queued packs and their async execution, whose worker records an
  \<^verbatim>\<open>ADMISSION_RELEASED\<close> event of its own, the task pipeline, prompt rollout, retrieval, redaction, and data retention except for
  the deletions named above.
\<close>

end
